(* ===== verification/Prelude.thy ===== *)
theory Prelude
  imports Main "HOL-Library.AList" "HOL-Library.Monad_Syntax" "HOL-Library.Multiset"
begin

text \<open>
  The fragment of JavaScript that the modelled sources use: strings, arrays, objects used
  as dictionaries, sets in insertion order, and the stable array sort.

  \<^item> A JavaScript string is a list of code units. The model uses \<open>string\<close>, so a code unit
    is one of the 256 values of \<open>char\<close> (the Latin-1 range); case conversion and
    white space follow ECMAScript on that range, except that the upper-case forms of
    0xB5 and 0xFF lie outside it and are left alone.
  \<^item> A dictionary (\<open>Record<string, T>\<close>) is an association list in insertion order:
    \<open>AList.update\<close> overwrites a key in place or appends it, which is what assignment and
    object spread do, and \<open>AList.delete\<close> is the \<open>delete\<close> operator.
  \<^item> A value that may be \<open>null\<close> or \<open>undefined\<close> is an \<open>option\<close>. Reading a property of
    \<open>undefined\<close> raises a TypeError; an operation that can do so returns an \<open>option\<close>
    as a whole, with \<open>None\<close> for the exception.
\<close>

section \<open>Collections of facts\<close>

named_theorems js_obj \<open>lookup, update and deletion in dictionaries\<close>
named_theorems js_str \<open>string primitives\<close>

section \<open>Dictionaries\<close>

type_synonym ('k, 'v) obj = "('k \<times> 'v) list"

abbreviation obj_get :: "('k, 'v) obj \<Rightarrow> 'k \<Rightarrow> 'v option" where
  "obj_get \<equiv> map_of"

abbreviation obj_set :: "'k \<Rightarrow> 'v \<Rightarrow> ('k, 'v) obj \<Rightarrow> ('k, 'v) obj" where
  "obj_set \<equiv> AList.update"

abbreviation obj_del :: "'k \<Rightarrow> ('k, 'v) obj \<Rightarrow> ('k, 'v) obj" where
  "obj_del \<equiv> AList.delete"

abbreviation obj_keys :: "('k, 'v) obj \<Rightarrow> 'k list" where
  "obj_keys ob \<equiv> map fst ob"

abbreviation obj_values :: "('k, 'v) obj \<Rightarrow> 'v list" where
  "obj_values ob \<equiv> map snd ob"

definition obj_has :: "('k, 'v) obj \<Rightarrow> 'k \<Rightarrow> bool" where
  "obj_has ob k \<longleftrightarrow> map_of ob k \<noteq> None"

lemma obj_has_iff [js_obj, simp]: "obj_has ob k \<longleftrightarrow> k \<in> fst ` set ob"
  by (simp add: obj_has_def map_of_eq_None_iff)

lemma obj_get_set [js_obj, simp]: "obj_get (obj_set k v ob) j = (if j = k then Some v else obj_get ob j)"
  by (auto simp: update_conv)

lemma obj_get_del [js_obj, simp]: "obj_get (obj_del k ob) j = (if j = k then None else obj_get ob j)"
  by (auto simp: delete_conv)

lemma obj_keys_set: "obj_keys (obj_set k v ob) = (if k \<in> fst ` set ob then obj_keys ob else obj_keys ob @ [k])"
  by (induction ob) auto

lemma set_obj_keys_set [js_obj, simp]: "fst ` set (obj_set k v ob) = insert k (fst ` set ob)"
  by (induction ob) auto

lemma obj_keys_del: "obj_keys (obj_del k ob) = filter (\<lambda>x. x \<noteq> k) (obj_keys ob)"
  by (induction ob) auto

lemma set_obj_keys_del [js_obj, simp]: "fst ` set (obj_del k ob) = fst ` set ob - {k}"
  by (induction ob) auto

lemma distinct_obj_set [simp, intro]: "distinct (obj_keys ob) \<Longrightarrow> distinct (obj_keys (obj_set k v ob))"
  by (auto simp: obj_keys_set)

lemma distinct_obj_del [simp, intro]: "distinct (obj_keys ob) \<Longrightarrow> distinct (obj_keys (obj_del k ob))"
  by (simp add: obj_keys_del)

lemma obj_get_Some_key: "obj_get ob k = Some v \<Longrightarrow> k \<in> fst ` set ob"
  by (metis map_of_eq_None_iff option.distinct(1))

lemma obj_get_key: "k \<in> fst ` set ob \<Longrightarrow> \<exists>v. obj_get ob k = Some v"
  by (metis map_of_eq_None_iff not_None_eq)

lemma obj_get_value: "obj_get ob k = Some v \<Longrightarrow> v \<in> snd ` set ob"
  by (force dest: map_of_SomeD)

lemma list_all_obj_set: "list_all P ob \<Longrightarrow> P (k, v) \<Longrightarrow> list_all P (obj_set k v ob)"
  by (induction ob) auto

lemma list_all_obj_del: "list_all P ob \<Longrightarrow> list_all P (obj_del k ob)"
  by (induction ob) auto

lemma list_all_values_set:
  "list_all P (obj_values ob) \<Longrightarrow> P v \<Longrightarrow> list_all P (obj_values (obj_set k v ob))"
  by (induction ob) auto

lemma list_all_values_del: "list_all P (obj_values ob) \<Longrightarrow> list_all P (obj_values (obj_del k ob))"
  by (induction ob) auto

text \<open>Rewriting each value of a dictionary in key order, as a reduce over \<open>Object.entries\<close> that
  assigns every key in turn does.\<close>

definition obj_map :: "('k \<Rightarrow> 'v \<Rightarrow> 'w) \<Rightarrow> ('k, 'v) obj \<Rightarrow> ('k, 'w) obj" where
  "obj_map f ob = map (\<lambda>(k, v). (k, f k v)) ob"

lemma obj_keys_map [simp]: "obj_keys (obj_map f ob) = obj_keys ob"
  by (induction ob) (auto simp: obj_map_def)

lemma set_obj_keys_map [simp]: "fst ` set (obj_map f ob) = fst ` set ob"
  by (force simp: obj_map_def)

lemma obj_get_map [js_obj, simp]: "obj_get (obj_map f ob) k = map_option (f k) (obj_get ob k)"
  by (induction ob) (auto simp: obj_map_def)

text \<open>The first entry, in key order, whose value satisfies a test (\<open>Object.entries(o).find\<close>).\<close>

primrec obj_find :: "('v \<Rightarrow> bool) \<Rightarrow> ('k, 'v) obj \<Rightarrow> ('k \<times> 'v) option" where
  "obj_find p [] = None"
| "obj_find p (e # es) = (if p (snd e) then Some e else obj_find p es)"

lemma obj_find_Some: "obj_find p ob = Some (k, v) \<Longrightarrow> (k, v) \<in> set ob \<and> p v"
  by (induction ob) (auto split: if_splits)

lemma obj_find_None: "obj_find p ob = None \<longleftrightarrow> (\<forall>v \<in> snd ` set ob. \<not> p v)"
  by (induction ob) auto

lemma obj_find_get: "distinct (obj_keys ob) \<Longrightarrow> obj_find p ob = Some (k, v) \<Longrightarrow> obj_get ob k = Some v"
  by (auto dest: obj_find_Some)

section \<open>Arrays\<close>

definition first_opt :: "'a list \<Rightarrow> 'a option" where
  "first_opt xs = (case xs of [] \<Rightarrow> None | x # _ \<Rightarrow> Some x)"

definition last_opt :: "'a list \<Rightarrow> 'a option" where
  "last_opt xs = (if xs = [] then None else Some (last xs))"

lemma first_opt_simps [simp]: "first_opt [] = None" "first_opt (x # xs) = Some x"
  by (simp_all add: first_opt_def)

lemma last_opt_simps [simp]: "last_opt [] = None" "last_opt (xs @ [x]) = Some x"
  by (simp_all add: last_opt_def)

lemma first_opt_in: "first_opt xs = Some x \<Longrightarrow> x \<in> set xs"
  by (cases xs) auto

lemma first_opt_None [simp]: "first_opt xs = None \<longleftrightarrow> xs = []"
  by (cases xs) auto

lemma last_opt_in: "last_opt xs = Some x \<Longrightarrow> x \<in> set xs"
  by (auto simp: last_opt_def split: if_splits)

lemma last_opt_None [simp]: "last_opt xs = None \<longleftrightarrow> xs = []"
  by (simp add: last_opt_def)

lemma last_opt_butlast: "last_opt xs = Some x \<Longrightarrow> xs = butlast xs @ [x]"
  by (auto simp: last_opt_def split: if_splits)

text \<open>\<open>xs.slice(-n)\<close> for a positive \<open>n\<close>: the last \<open>n\<close> elements.\<close>

definition slice_last :: "nat \<Rightarrow> 'a list \<Rightarrow> 'a list" where
  "slice_last n xs = drop (length xs - n) xs"

lemma length_slice_last [simp]: "length (slice_last n xs) = min n (length xs)"
  by (simp add: slice_last_def)

lemma slice_last_all: "length xs \<le> n \<Longrightarrow> slice_last n xs = xs"
  by (simp add: slice_last_def)

lemma set_slice_last: "set (slice_last n xs) \<subseteq> set xs"
  by (simp add: slice_last_def set_drop_subset)

lemma distinct_slice_last: "distinct xs \<Longrightarrow> distinct (slice_last n xs)"
  by (simp add: slice_last_def)

text \<open>\<open>indexOf\<close>: the least index, or \<open>None\<close> for -1.\<close>

primrec index_of :: "'a \<Rightarrow> 'a list \<Rightarrow> nat option" where
  "index_of x [] = None"
| "index_of x (y # ys) = (if y = x then Some 0 else map_option Suc (index_of x ys))"

lemma index_of_None: "index_of x xs = None \<longleftrightarrow> x \<notin> set xs"
  by (induction xs) auto

lemma index_of_Some: "index_of x xs = Some i \<Longrightarrow> i < length xs \<and> xs ! i = x"
  by (induction xs arbitrary: i) (auto split: if_splits)

lemma index_of_in: "x \<in> set xs \<Longrightarrow> \<exists>i. index_of x xs = Some i \<and> i < length xs \<and> xs ! i = x"
  by (metis index_of_None index_of_Some not_None_eq)

primrec find_index :: "('a \<Rightarrow> bool) \<Rightarrow> 'a list \<Rightarrow> nat option" where
  "find_index p [] = None"
| "find_index p (y # ys) = (if p y then Some 0 else map_option Suc (find_index p ys))"

lemma find_index_Some: "find_index p xs = Some i \<Longrightarrow> i < length xs \<and> p (xs ! i)"
  by (induction xs arbitrary: i) (auto split: if_splits)

lemma find_index_None: "find_index p xs = None \<longleftrightarrow> (\<forall>x \<in> set xs. \<not> p x)"
  by (induction xs) auto

text \<open>A JavaScript \<open>Set\<close> iterates in insertion order; a set built from an array keeps the
  first occurrence of each element.\<close>

fun set_of_array :: "'a list \<Rightarrow> 'a list" where
  "set_of_array [] = []"
| "set_of_array (x # xs) = x # filter (\<lambda>y. y \<noteq> x) (set_of_array xs)"

definition set_add :: "'a \<Rightarrow> 'a list \<Rightarrow> 'a list" where
  "set_add x s = (if x \<in> set s then s else s @ [x])"

definition set_delete :: "'a \<Rightarrow> 'a list \<Rightarrow> 'a list" where
  "set_delete x s = filter (\<lambda>y. y \<noteq> x) s"

lemma set_set_of_array [simp]: "set (set_of_array xs) = set xs"
  by (induction xs) auto

lemma distinct_set_of_array [simp]: "distinct (set_of_array xs)"
  by (induction xs) auto

lemma set_of_array_distinct: "distinct xs \<Longrightarrow> set_of_array xs = xs"
  by (induction xs) (auto intro: filter_True)

lemma set_set_add [simp]: "set (set_add x s) = insert x (set s)"
  by (auto simp: set_add_def)

lemma distinct_set_add [simp]: "distinct (set_add x s) = distinct s"
  by (auto simp: set_add_def)

lemma set_set_delete [simp]: "set (set_delete x s) = set s - {x}"
  by (auto simp: set_delete_def)

lemma distinct_set_delete [simp]: "distinct s \<Longrightarrow> distinct (set_delete x s)"
  by (simp add: set_delete_def)

end
