(* ===== verification/JsString.thy ===== *)
theory JsString
  imports Prelude
begin

text \<open>
  The string operations of JavaScript that the sources call, on the code units described
  in the prelude: trimming, case conversion, substring search, splitting and joining,
  decimal printing, and the one regular expression that occurs everywhere, the removal of
  trailing slashes.
\<close>

section \<open>Characters\<close>

definition code :: "char \<Rightarrow> nat" where
  "code c = of_char c"

definition is_js_space :: "char \<Rightarrow> bool" where
  "is_js_space c \<longleftrightarrow> code c \<in> {9, 10, 11, 12, 13, 32, 160}"

definition is_ascii_upper :: "char \<Rightarrow> bool" where
  "is_ascii_upper c \<longleftrightarrow> 65 \<le> code c \<and> code c \<le> 90"

definition is_ascii_lower :: "char \<Rightarrow> bool" where
  "is_ascii_lower c \<longleftrightarrow> 97 \<le> code c \<and> code c \<le> 122"

definition is_ascii_letter :: "char \<Rightarrow> bool" where
  "is_ascii_letter c \<longleftrightarrow> is_ascii_upper c \<or> is_ascii_lower c"

definition is_digit :: "char \<Rightarrow> bool" where
  "is_digit c \<longleftrightarrow> 48 \<le> code c \<and> code c \<le> 57"

definition lower_char :: "char \<Rightarrow> char" where
  "lower_char c =
     (if is_ascii_upper c \<or> (192 \<le> code c \<and> code c \<le> 222 \<and> code c \<noteq> 215)
      then char_of (code c + 32) else c)"

definition upper_char :: "char \<Rightarrow> string" where
  "upper_char c =
     (if is_ascii_lower c \<or> (224 \<le> code c \<and> code c \<le> 254 \<and> code c \<noteq> 247)
      then [char_of (code c - 32)]
      else if code c = 223 then ''SS'' else [c])"

lemma code_less [simp]: "code c < 256"
  using nat_of_char_less_256 by (simp add: code_def)

lemma code_char_of [simp]: "n < 256 \<Longrightarrow> code (char_of n) = n"
  by (simp add: code_def)

lemma char_of_code [simp]: "char_of (code c) = c"
  by (simp add: code_def)

lemma code_inject [simp]: "code a = code b \<longleftrightarrow> a = b"
  by (simp add: code_def)

lemma lower_char_idem [js_str, simp]: "lower_char (lower_char c) = lower_char c"
  by (auto simp: lower_char_def is_ascii_upper_def)

section \<open>Whole strings\<close>

definition js_toLowerCase :: "string \<Rightarrow> string" where
  "js_toLowerCase s = map lower_char s"

definition js_toUpperCase :: "string \<Rightarrow> string" where
  "js_toUpperCase s = concat (map upper_char s)"

definition trim_end :: "string \<Rightarrow> string" where
  "trim_end s = rev (dropWhile is_js_space (rev s))"

definition js_trim :: "string \<Rightarrow> string" where
  "js_trim s = trim_end (dropWhile is_js_space s)"

definition js_startsWith :: "string \<Rightarrow> string \<Rightarrow> bool" where
  "js_startsWith s p \<longleftrightarrow> take (length p) s = p"

definition js_endsWith :: "string \<Rightarrow> string \<Rightarrow> bool" where
  "js_endsWith s p \<longleftrightarrow> length p \<le> length s \<and> drop (length s - length p) s = p"

primrec js_indexOf :: "string \<Rightarrow> string \<Rightarrow> nat option" where
  "js_indexOf p [] = (if p = [] then Some 0 else None)"
| "js_indexOf p (c # cs) =
     (if js_startsWith (c # cs) p then Some 0 else map_option Suc (js_indexOf p cs))"

definition js_includes :: "string \<Rightarrow> string \<Rightarrow> bool" where
  "js_includes s p \<longleftrightarrow> js_indexOf p s \<noteq> None"

text \<open>\<open>s.lastIndexOf(c)\<close> for a single character \<open>c\<close>.\<close>

primrec js_lastIndexOf :: "char \<Rightarrow> string \<Rightarrow> nat option" where
  "js_lastIndexOf c [] = None"
| "js_lastIndexOf c (x # xs) =
     (case js_lastIndexOf c xs of
        Some i \<Rightarrow> Some (Suc i)
      | None \<Rightarrow> if x = c then Some 0 else None)"

text \<open>\<open>s.split(c)\<close> for a single character: always at least one piece.\<close>

primrec js_split :: "char \<Rightarrow> string \<Rightarrow> string list" where
  "js_split c [] = [[]]"
| "js_split c (x # xs) =
     (if x = c then [] # js_split c xs
      else (case js_split c xs of
              [] \<Rightarrow> [[x]]
            | p # ps \<Rightarrow> (x # p) # ps))"

primrec js_join :: "string \<Rightarrow> string list \<Rightarrow> string" where
  "js_join sep [] = []"
| "js_join sep (x # xs) = (if xs = [] then x else x @ sep @ js_join sep xs)"

text \<open>\<open>parts.filter(Boolean)\<close> on strings drops the empty ones.\<close>

definition nonempty_parts :: "string list \<Rightarrow> string list" where
  "nonempty_parts ps = filter (\<lambda>p. p \<noteq> []) ps"

text \<open>\<open>s.replace(/\\/+$/, "")\<close> and \<open>s.replace(/\\/$/, "")\<close>.\<close>

definition strip_slashes :: "string \<Rightarrow> string" where
  "strip_slashes s = rev (dropWhile (\<lambda>c. c = CHR ''/'') (rev s))"

definition strip_one_slash :: "string \<Rightarrow> string" where
  "strip_one_slash s = (if s \<noteq> [] \<and> last s = CHR ''/'' then butlast s else s)"

section \<open>Decimal printing\<close>

definition digit_char :: "nat \<Rightarrow> char" where
  "digit_char d = char_of (48 + d)"

fun nat_str :: "nat \<Rightarrow> string" where
  "nat_str n = (if n < 10 then [digit_char n] else nat_str (n div 10) @ [digit_char (n mod 10)])"

declare nat_str.simps [simp del]

definition int_str :: "int \<Rightarrow> string" where
  "int_str i = (if i < 0 then ''-'' @ nat_str (nat (- i)) else nat_str (nat i))"

definition bool_str :: "bool \<Rightarrow> string" where
  "bool_str b = (if b then ''true'' else ''false'')"

definition str_nat :: "string \<Rightarrow> nat" where
  "str_nat s = foldl (\<lambda>a c. 10 * a + (code c - 48)) 0 s"

lemma digit_char_code: "d < 10 \<Longrightarrow> code (digit_char d) = 48 + d"
  by (simp add: digit_char_def)

lemma str_nat_nat_str [js_str, simp]: "str_nat (nat_str n) = n"
proof (induction n rule: nat_str.induct)
  case (1 n)
  show ?case
  proof (cases "n < 10")
    case True
    then show ?thesis by (simp add: nat_str.simps[of n] str_nat_def digit_char_code)
  next
    case False
    with "1.IH" have "str_nat (nat_str (n div 10)) = n div 10" by simp
    with False show ?thesis
      by (simp add: nat_str.simps[of n] str_nat_def digit_char_code)
  qed
qed

lemma nat_str_inject [simp]: "nat_str a = nat_str b \<longleftrightarrow> a = b"
  by (metis str_nat_nat_str)

lemma nat_str_digits: "c \<in> set (nat_str n) \<Longrightarrow> is_digit c"
proof (induction n rule: nat_str.induct)
  case (1 n)
  show ?case
  proof (cases "n < 10")
    case True
    with "1.prems" show ?thesis
      by (simp add: nat_str.simps[of n] is_digit_def digit_char_code)
  next
    case False
    with "1" show ?thesis
      by (auto simp: nat_str.simps[of n] is_digit_def digit_char_code)
  qed
qed

lemma nat_str_no_dash: "CHR ''-'' \<notin> set (nat_str n)"
  using nat_str_digits[of "CHR ''-''" n] by (auto simp: is_digit_def code_def)

lemma nat_str_nonempty [simp]: "nat_str n \<noteq> []"
  by (subst nat_str.simps) simp

text \<open>Two strings split at the last occurrence of a separator that neither suffix contains.\<close>

lemma append_sep_inject:
  assumes "xs @ [c] @ ys = xs' @ [c] @ ys'" and "c \<notin> set ys" and "c \<notin> set ys'"
  shows "xs = xs' \<and> ys = ys'"
proof -
  have tw: "takeWhile (\<lambda>x. x \<noteq> c) (rev (us @ [c] @ vs)) = rev vs" if "c \<notin> set vs" for us vs
  proof -
    have "takeWhile (\<lambda>x. x \<noteq> c) (rev vs) = rev vs"
      using that by (auto intro: takeWhile_eq_all_conv[THEN iffD2])
    then show ?thesis by (simp add: takeWhile_tail)
  qed
  have "takeWhile (\<lambda>x. x \<noteq> c) (rev (xs @ [c] @ ys)) = rev ys"
    using assms(2) by (rule tw)
  moreover have "takeWhile (\<lambda>x. x \<noteq> c) (rev (xs' @ [c] @ ys')) = rev ys'"
    using assms(3) by (rule tw)
  ultimately have "ys = ys'" using assms(1) by (metis rev_rev_ident)
  with assms(1) show ?thesis by simp
qed

section \<open>Search\<close>

lemma js_startsWith_append [js_str, simp]: "js_startsWith (p @ s) p"
  by (simp add: js_startsWith_def)

lemma js_startsWith_iff: "js_startsWith s p \<longleftrightarrow> (\<exists>t. s = p @ t)"
  by (metis append_eq_conv_conj append_take_drop_id js_startsWith_def)

lemma js_startsWith_Nil [simp]: "js_startsWith s []"
  by (simp add: js_startsWith_def)

lemma js_endsWith_iff: "js_endsWith s p \<longleftrightarrow> (\<exists>t. s = t @ p)"
  by (auto simp: js_endsWith_def) (metis append_take_drop_id)

lemma js_indexOf_Some: "js_indexOf p s = Some i \<Longrightarrow> \<exists>t. s = take i s @ p @ t \<and> i \<le> length s"
proof (induction s arbitrary: i)
  case Nil
  then show ?case by (auto split: if_splits)
next
  case (Cons c cs)
  show ?case
  proof (cases "js_startsWith (c # cs) p")
    case True
    with Cons.prems show ?thesis by (auto simp: js_startsWith_iff)
  next
    case False
    with Cons.prems obtain j where j: "js_indexOf p cs = Some j" "i = Suc j" by auto
    from Cons.IH[OF j(1)] j(2) show ?thesis by auto
  qed
qed

lemma js_indexOf_append: "js_indexOf p (t @ p @ u) \<noteq> None"
proof (induction t)
  case Nil
  have "js_startsWith (p @ u) p" by simp
  then show ?case by (cases "p @ u") auto
next
  case (Cons a t)
  then show ?case by auto
qed

lemma js_includes_iff: "js_includes s p \<longleftrightarrow> (\<exists>t u. s = t @ p @ u)"
  unfolding js_includes_def by (metis js_indexOf_Some js_indexOf_append not_None_eq)

lemma js_includes_Nil [simp]: "js_includes s []"
  by (auto simp: js_includes_iff intro: exI[of _ "[]"])

lemma js_lastIndexOf_None: "js_lastIndexOf c s = None \<longleftrightarrow> c \<notin> set s"
  by (induction s) (auto split: option.splits)

lemma js_lastIndexOf_Some:
  "js_lastIndexOf c s = Some i \<Longrightarrow> s = take i s @ [c] @ drop (Suc i) s \<and> c \<notin> set (drop (Suc i) s)"
  by (induction s arbitrary: i) (auto simp: js_lastIndexOf_None split: option.splits if_splits)

lemma js_lastIndexOf_less: "js_lastIndexOf c s = Some i \<Longrightarrow> i < length s"
  by (induction s arbitrary: i) (auto split: option.splits if_splits)

lemma js_lastIndexOf_snoc:
  "c \<notin> set t \<Longrightarrow> js_lastIndexOf c (s @ [c] @ t) = Some (length s)"
  by (induction s) (auto simp: js_lastIndexOf_None split: option.splits)

section \<open>Splitting and joining\<close>

lemma js_split_nonempty [simp]: "js_split c s \<noteq> []"
  by (induction s) (auto split: list.splits)

lemma js_split_no_sep: "p \<in> set (js_split c s) \<Longrightarrow> c \<notin> set p"
  by (induction s arbitrary: p) (auto split: list.splits if_splits)

lemma js_join_split [js_str, simp]: "js_join [c] (js_split c s) = s"
  by (induction s) (auto split: list.splits)

lemma js_split_id: "c \<notin> set s \<Longrightarrow> js_split c s = [s]"
  by (induction s) auto

lemma js_split_append: "c \<notin> set p \<Longrightarrow> js_split c (p @ c # s) = p # js_split c s"
  by (induction p) auto

lemma js_split_join:
  "ps \<noteq> [] \<Longrightarrow> (\<forall>p \<in> set ps. c \<notin> set p) \<Longrightarrow> js_split c (js_join [c] ps) = ps"
  by (induction ps) (auto simp: js_split_id js_split_append)

lemma nonempty_parts_in [simp]: "p \<in> set (nonempty_parts ps) \<longleftrightarrow> p \<in> set ps \<and> p \<noteq> []"
  by (simp add: nonempty_parts_def)

lemma nonempty_parts_id: "[] \<notin> set ps \<Longrightarrow> nonempty_parts ps = ps"
  by (auto simp: nonempty_parts_def intro: filter_True)

section \<open>Trailing slashes\<close>

lemma strip_slashes_id: "s = [] \<or> last s \<noteq> CHR ''/'' \<Longrightarrow> strip_slashes s = s"
  by (cases s rule: rev_cases) (auto simp: strip_slashes_def)

lemma strip_slashes_last: "strip_slashes s = [] \<or> last (strip_slashes s) \<noteq> CHR ''/''"
  using hd_dropWhile[of "\<lambda>c. c = CHR ''/''" "rev s"]
  by (auto simp: strip_slashes_def last_rev)

lemma strip_slashes_snoc [simp]: "strip_slashes (s @ ''/'') = strip_slashes s"
  by (simp add: strip_slashes_def)

lemma strip_slashes_prefix: "\<exists>n. s = strip_slashes s @ replicate n (CHR ''/'')"
proof -
  let ?p = "\<lambda>c. c = CHR ''/''"
  have "rev s = takeWhile ?p (rev s) @ dropWhile ?p (rev s)" by simp
  then have "s = strip_slashes s @ rev (takeWhile ?p (rev s))"
    by (metis rev_append rev_rev_ident strip_slashes_def)
  moreover have "\<forall>c \<in> set (rev (takeWhile ?p (rev s))). c = CHR ''/''"
    by (auto dest: set_takeWhileD)
  then have "rev (takeWhile ?p (rev s)) = replicate (length (takeWhile ?p (rev s))) (CHR ''/'')"
    by (metis length_rev replicate_length_same)
  ultimately show ?thesis by metis
qed

lemma length_strip_slashes: "length (strip_slashes s) \<le> length s"
  by (metis length_dropWhile_le length_rev strip_slashes_def)

lemma strip_slashes_idem [simp]: "strip_slashes (strip_slashes s) = strip_slashes s"
  using strip_slashes_last strip_slashes_id by blast

section \<open>Case folding and trimming\<close>

lemma js_toLowerCase_idem [js_str, simp]: "js_toLowerCase (js_toLowerCase s) = js_toLowerCase s"
  by (simp add: js_toLowerCase_def)

lemma length_js_toLowerCase [simp]: "length (js_toLowerCase s) = length s"
  by (simp add: js_toLowerCase_def)

lemma js_toLowerCase_append [simp]:
  "js_toLowerCase (s @ t) = js_toLowerCase s @ js_toLowerCase t"
  by (simp add: js_toLowerCase_def)

lemma trim_end_last: "trim_end s = [] \<or> \<not> is_js_space (last (trim_end s))"
  using hd_dropWhile[of is_js_space "rev s"] by (auto simp: trim_end_def last_rev)

lemma trim_end_id: "s = [] \<or> \<not> is_js_space (last s) \<Longrightarrow> trim_end s = s"
  by (cases s rule: rev_cases) (auto simp: trim_end_def)

lemma trim_end_Cons: "\<not> is_js_space c \<Longrightarrow> trim_end (c # s) = c # trim_end s"
  by (auto simp: trim_end_def dropWhile_append)

lemma js_trim_idem [js_str, simp]: "js_trim (js_trim s) = js_trim s"
proof (cases "dropWhile is_js_space s")
  case Nil
  have "js_trim s = []" unfolding js_trim_def Nil by (simp add: trim_end_def)
  moreover have "js_trim [] = []" by (simp add: js_trim_def trim_end_def)
  ultimately show ?thesis by simp
next
  case (Cons c cs)
  then have c: "\<not> is_js_space c" by (metis hd_dropWhile list.distinct(1) list.sel(1))
  have t: "js_trim s = c # trim_end cs" by (simp add: js_trim_def Cons trim_end_Cons c)
  have "trim_end (trim_end cs) = trim_end cs" using trim_end_last trim_end_id by blast
  then have "js_trim (c # trim_end cs) = c # trim_end cs"
    by (simp add: js_trim_def c trim_end_Cons)
  with t show ?thesis by simp
qed

end
