(* ===== verification/Dto.thy ===== *)
theory Dto
  imports JsString
begin

text \<open>
  The messages that cross the boundary to the Rust side, as TypeScript sees them
  (\<open>packages/ts-api/src/generated\<close> and \<open>types.ts\<close>). A nullable or optional field is an
  \<open>option\<close>; a number is an \<open>int\<close>.
\<close>

datatype FileKind = KFile | KDirectory | KSymlink | KArchive | KVirtual | KUnknown

definition fileKind_str :: "FileKind \<Rightarrow> string" where
  "fileKind_str k =
     (case k of KFile \<Rightarrow> ''file'' | KDirectory \<Rightarrow> ''directory'' | KSymlink \<Rightarrow> ''symlink''
      | KArchive \<Rightarrow> ''archive'' | KVirtual \<Rightarrow> ''virtual'' | KUnknown \<Rightarrow> ''unknown'')"

record FileEntryDto =
  fe_uri :: string
  fe_name :: string
  fe_extension :: "string option"
  fe_kind :: FileKind
  fe_size :: "int option"
  fe_modifiedAt :: "string option"
  fe_createdAt :: "string option"
  fe_accessedAt :: "string option"
  fe_isHidden :: bool
  fe_isSymlink :: bool
  fe_isPlaceholder :: bool
  fe_symlinkTarget :: "string option"
  fe_providerId :: string
  fe_canRead :: bool
  fe_canList :: bool
  fe_canWrite :: bool
  fe_canDelete :: bool
  fe_canRename :: bool
  fe_permissions :: "string option"
  fe_owner :: "string option"
  fe_targetUri :: "string option"
  fe_virtualKind :: "string option"
  fe_protocol :: "string option"
  fe_status :: "string option"
  fe_description :: "string option"

record IpcError =
  err_code :: string
  err_message :: string

record DirectoryBatchEventDto =
  batch_sessionId :: string
  batch_requestId :: string
  batch_uri :: string
  batch_entries :: "FileEntryDto list"
  batch_batchIndex :: int
  batch_isComplete :: bool
  batch_totalHint :: "int option"
  batch_error :: "IpcError option"

record ContentSearchMatchDto =
  match_uri :: string
  match_parentUri :: string
  match_name :: string
  match_kind :: FileKind
  match_size :: "int option"
  match_modifiedAt :: "string option"
  match_lineNumber :: int
  match_lineContent :: string
  match_matchStart :: int
  match_matchEnd :: int

record ContentSearchResultDto =
  res_matches :: "ContentSearchMatchDto list"
  res_warnings :: "string list"
  res_incomplete :: bool

record ContentSearchMatchEventDto =
  csm_jobId :: string
  csm_uri :: string
  csm_query :: string
  csm_item :: ContentSearchMatchDto

record ContentSearchCompletedEventDto =
  csc_jobId :: string
  csc_uri :: string
  csc_query :: string
  csc_result :: ContentSearchResultDto

text \<open>The codes of \<open>IPC_ERROR_CODES\<close>, in the order of the source.\<close>

definition IPC_ERROR_CODES :: "(string, string) obj" where
  "IPC_ERROR_CODES =
     [(''INVALID_URI'', ''invalid_uri''),
      (''UNSUPPORTED_PROVIDER'', ''unsupported_provider''),
      (''DUPLICATE_PROVIDER'', ''duplicate_provider''),
      (''NOT_FOUND'', ''not_found''),
      (''PERMISSION_DENIED'', ''permission_denied''),
      (''CLOUD_UNAVAILABLE'', ''cloud_unavailable''),
      (''TIMEOUT'', ''timeout''),
      (''RUNTIME_BUSY'', ''runtime_busy''),
      (''RESOURCE_LIMIT_EXCEEDED'', ''resource_limit_exceeded''),
      (''PLAN_EXPIRED'', ''plan_expired''),
      (''CANCELLED'', ''cancelled''),
      (''PREFERENCES_ERROR'', ''preferences_error''),
      (''INVALID_REQUEST'', ''invalid_request''),
      (''INVALID_NAME'', ''invalid_name''),
      (''INVALID_PATH'', ''invalid_path''),
      (''DESTINATION_MISSING'', ''destination_missing''),
      (''DESTINATION_CONFLICT'', ''destination_conflict''),
      (''RECURSIVE_OPERATION'', ''recursive_operation''),
      (''UNSUPPORTED_SYMLINK'', ''unsupported_symlink''),
      (''UNSUPPORTED_TRASH'', ''unsupported_trash''),
      (''UNSUPPORTED_OPERATION'', ''unsupported_operation''),
      (''IO_ERROR'', ''io_error''),
      (''INTERNAL'', ''internal''),
      (''IS_DIRECTORY'', ''is_directory''),
      (''FILE_TOO_LARGE'', ''file_too_large''),
      (''UNSUPPORTED_ALGORITHM'', ''unsupported_algorithm''),
      (''SPAWN_ERROR'', ''spawn_error''),
      (''NO_TERMINAL'', ''no_terminal''),
      (''TERMINAL_SPAWN_FAILED'', ''terminal_spawn_failed''),
      (''TERMINAL_NOT_FOUND'', ''terminal_not_found''),
      (''INVALID_TERMINAL_SIZE'', ''invalid_terminal_size''),
      (''TERMINAL_SESSION_EXITED'', ''terminal_session_exited''),
      (''AUTOSTART_UNAVAILABLE'', ''autostart_unavailable''),
      (''NETWORK_DISABLED'', ''network_disabled''),
      (''NAVIGATION_ERROR'', ''navigation_error''),
      (''NETWORK_ERROR'', ''network_error''),
      (''CONNECTION_REQUIRED'', ''connection_required''),
      (''AUTHENTICATION_FAILED'', ''authentication_failed''),
      (''HOST_KEY_UNTRUSTED'', ''host_key_untrusted''),
      (''HOST_KEY_MISMATCH'', ''host_key_mismatch''),
      (''CONNECTION_LOST'', ''connection_lost''),
      (''FOLDER_NOT_FOUND'', ''folder_not_found''),
      (''GIT_COMMAND_FAILED'', ''git_command_failed''),
      (''UNKNOWN'', ''unknown''),
      (''TAURI_UNAVAILABLE'', ''tauri_unavailable''),
      (''UNSUPPORTED_TRANSPORT'', ''unsupported_transport''),
      (''DEVICE_UNAVAILABLE'', ''device_unavailable'')]"

definition isKnownIpcErrorCode :: "string \<Rightarrow> bool" where
  "isKnownIpcErrorCode c \<longleftrightarrow> List.member (obj_values IPC_ERROR_CODES) c"

definition FILE_OPERATION_WARNING_CODES :: "(string, string) obj" where
  "FILE_OPERATION_WARNING_CODES = [(''METADATA_FAILED'', ''metadata_failed'')]"

definition isKnownFileOperationWarningCode :: "string \<Rightarrow> bool" where
  "isKnownFileOperationWarningCode c \<longleftrightarrow>
     List.member (obj_values FILE_OPERATION_WARNING_CODES) c"

text \<open>What a rejected \<open>invoke\<close> can carry, as far as \<open>normalizeIpcError\<close> distinguishes it: an
  object (with its \<open>code\<close> and \<open>message\<close> where these are strings; an \<open>Error\<close> is an object
  whose message is a string), a string, or anything else.\<close>

datatype thrown =
    ThrownObject "string option" "string option"
  | ThrownErrorObject "string option" string
  | ThrownString string
  | ThrownOther

fun isIpcError :: "thrown \<Rightarrow> bool" where
  "isIpcError (ThrownObject (Some c) (Some m)) = True"
| "isIpcError (ThrownErrorObject (Some c) m) = True"
| "isIpcError _ = False"

fun normalizeIpcError :: "thrown \<Rightarrow> IpcError" where
  "normalizeIpcError (ThrownObject (Some c) (Some m)) = \<lparr>err_code = c, err_message = m\<rparr>"
| "normalizeIpcError (ThrownErrorObject (Some c) m) = \<lparr>err_code = c, err_message = m\<rparr>"
| "normalizeIpcError (ThrownErrorObject None m) = \<lparr>err_code = ''unknown'', err_message = m\<rparr>"
| "normalizeIpcError (ThrownString m) = \<lparr>err_code = ''unknown'', err_message = m\<rparr>"
| "normalizeIpcError _ = \<lparr>err_code = ''unknown'', err_message = ''Unexpected IPC error''\<rparr>"

text \<open>\<open>normalizeTransport\<close>: a transport answers a command with a value or a rejection; the
  wrapped one answers with the value or a normalised error.\<close>

definition normalizeTransport ::
  "('cmd \<Rightarrow> 'args \<Rightarrow> thrown + 'resp) \<Rightarrow> ('cmd \<Rightarrow> 'args \<Rightarrow> IpcError + 'resp)" where
  "normalizeTransport invoke = (\<lambda>command args.
     (case invoke command args of
        Inl e \<Rightarrow> Inl (normalizeIpcError e)
      | Inr r \<Rightarrow> Inr r))"

end
