(* ===== verification/PaneTypes.thy ===== *)
theory PaneTypes
  imports Dto
begin

text \<open>
  The load state of a pane and the rules that derive it from a directory batch
  (\<open>packages/frontend/src/paneTypes.ts\<close>).
\<close>

datatype PaneLoadState =
  LIdle | LLoading | LLoaded | LEmpty | LError | LNotFound | LPermissionDenied | LTimeout | LOffline

definition loadStateFromBatchError :: "IpcError option \<Rightarrow> PaneLoadState" where
  "loadStateFromBatchError error =
     (case error of
        None \<Rightarrow> LError
      | Some e \<Rightarrow>
          (if err_code e = ''not_found'' then LNotFound
           else if err_code e = ''permission_denied'' then LPermissionDenied
           else if err_code e = ''timeout'' then LTimeout
           else if err_code e = ''device_unavailable'' then LOffline
           else LError))"

definition terminalLoadState :: "nat \<Rightarrow> IpcError option \<Rightarrow> PaneLoadState" where
  "terminalLoadState entryCount error =
     (if error \<noteq> None then loadStateFromBatchError error
      else if entryCount = 0 then LEmpty else LLoaded)"

definition isPaneLoading :: "PaneLoadState \<Rightarrow> bool" where
  "isPaneLoading s \<longleftrightarrow> s = LLoading"

text \<open>The label of the loading state ends in an ellipsis character, written here as three dots.\<close>

definition paneStateLabel :: "PaneLoadState \<Rightarrow> string" where
  "paneStateLabel s =
     (case s of
        LIdle \<Rightarrow> ''Idle'' | LLoading \<Rightarrow> ''Loading...'' | LLoaded \<Rightarrow> ''Ready''
      | LEmpty \<Rightarrow> ''Empty folder'' | LError \<Rightarrow> ''Error'' | LNotFound \<Rightarrow> ''Not found''
      | LPermissionDenied \<Rightarrow> ''Permission denied'' | LTimeout \<Rightarrow> ''Timed out''
      | LOffline \<Rightarrow> ''Device unavailable'')"

text \<open>An empty request id counts as absent.\<close>

definition shouldApplyBatch :: "string option \<Rightarrow> DirectoryBatchEventDto \<Rightarrow> bool" where
  "shouldApplyBatch tabRequestId batch =
     (let batchRequestId = js_trim (batch_requestId batch)
      in if tabRequestId = None \<or> tabRequestId = Some [] then batchRequestId = []
         else if batchRequestId = [] then False
         else tabRequestId = Some batchRequestId)"

lemma terminalLoadState_not_loading [simp]: "terminalLoadState n e \<noteq> LLoading"
  by (auto simp: terminalLoadState_def loadStateFromBatchError_def split: option.splits)

lemma terminalLoadState_not_idle [simp]: "terminalLoadState n e \<noteq> LIdle"
  by (auto simp: terminalLoadState_def loadStateFromBatchError_def split: option.splits)

lemma shouldApplyBatch_active:
  "shouldApplyBatch (Some r) b \<Longrightarrow> r \<noteq> [] \<Longrightarrow> r = js_trim (batch_requestId b)"
  by (auto simp: shouldApplyBatch_def Let_def split: if_splits)

end
