(* ===== verification/Json.thy ===== *)
theory Json
  imports JsString Complex_Main
begin

text \<open>
  \<open>JSON.parse\<close> and \<open>JSON.stringify\<close>, which the sources use for everything they keep in
  local storage and in string-valued preferences. Numbers are exact rationals (the rounding
  to a double is not modelled). The parser recurses with fuel; \<open>json_parse\<close> gives it
  twice the length of the text, and of any two nested calls at least one has consumed a
  character.
\<close>

datatype json =
    JNull
  | JBool bool
  | JNum rat
  | JStr string
  | JArr "json list"
  | JObj "(string \<times> json) list"

section \<open>Parsing\<close>

definition is_json_space :: "char \<Rightarrow> bool" where
  "is_json_space c \<longleftrightarrow> code c \<in> {9, 10, 13, 32}"

definition skip_ws :: "string \<Rightarrow> string" where
  "skip_ws s = dropWhile is_json_space s"

definition hex_val :: "char \<Rightarrow> nat option" where
  "hex_val c =
     (if is_digit c then Some (code c - 48)
      else if 97 \<le> code c \<and> code c \<le> 102 then Some (code c - 87)
      else if 65 \<le> code c \<and> code c \<le> 70 then Some (code c - 55)
      else None)"

text \<open>A \<open>\\u\<close> escape; one that lies outside the modelled code units is refused.\<close>

definition hex4 :: "char \<Rightarrow> char \<Rightarrow> char \<Rightarrow> char \<Rightarrow> char option" where
  "hex4 a b c d =
     (case (hex_val a, hex_val b, hex_val c, hex_val d) of
        (Some 0, Some 0, Some h, Some l) \<Rightarrow> Some (char_of (16 * h + l))
      | _ \<Rightarrow> None)"

definition unescape :: "char \<Rightarrow> char option" where
  "unescape e =
     (if code e = 34 \<or> code e = 92 \<or> code e = 47 then Some e
      else if e = CHR ''b'' then Some (char_of (8::nat))
      else if e = CHR ''f'' then Some (char_of (12::nat))
      else if e = CHR ''n'' then Some (char_of (10::nat))
      else if e = CHR ''r'' then Some (char_of (13::nat))
      else if e = CHR ''t'' then Some (char_of (9::nat))
      else None)"

fun p_str :: "string \<Rightarrow> (string \<times> string) option" where
  "p_str [] = None"
| "p_str (c # cs) =
     (if code c = 34 then Some ([], cs)
      else if code c < 32 then None
      else if code c = 92 then
        (case cs of
           [] \<Rightarrow> None
         | e # cs' \<Rightarrow>
             (if e = CHR ''u'' then
                (case cs' of
                   h1 # h2 # h3 # h4 # cs'' \<Rightarrow>
                     (case hex4 h1 h2 h3 h4 of
                        None \<Rightarrow> None
                      | Some ch \<Rightarrow> map_option (apfst ((#) ch)) (p_str cs''))
                 | _ \<Rightarrow> None)
              else (case unescape e of
                      None \<Rightarrow> None
                    | Some ch \<Rightarrow> map_option (apfst ((#) ch)) (p_str cs'))))
      else map_option (apfst ((#) c)) (p_str cs))"

definition p_digits :: "string \<Rightarrow> string \<times> string" where
  "p_digits s = (takeWhile is_digit s, dropWhile is_digit s)"

definition p_frac :: "string \<Rightarrow> (rat \<times> string) option" where
  "p_frac s =
     (if s \<noteq> [] \<and> hd s = CHR ''.'' then
        (let (ds, rest) = p_digits (tl s)
         in if ds = [] then None else Some (of_nat (str_nat ds) / 10 ^ length ds, rest))
      else Some (0, s))"

definition p_exp :: "string \<Rightarrow> (rat \<times> string) option" where
  "p_exp s =
     (case s of
        e # t \<Rightarrow>
          (if e = CHR ''e'' \<or> e = CHR ''E'' then
             (let neg = (t \<noteq> [] \<and> hd t = CHR ''-'');
                  u = (if t \<noteq> [] \<and> (hd t = CHR ''-'' \<or> hd t = CHR ''+'') then tl t else t);
                  (ds, rest) = p_digits u
              in if ds = [] then None
                 else Some (if neg then 1 / 10 ^ str_nat ds else 10 ^ str_nat ds, rest))
           else Some (1, s))
      | [] \<Rightarrow> Some (1, s))"

definition p_num :: "string \<Rightarrow> (rat \<times> string) option" where
  "p_num s =
     (let neg = (s \<noteq> [] \<and> hd s = CHR ''-'');
          t = (if neg then tl s else s);
          (ds, r1) = p_digits t
      in if ds = [] \<or> (1 < length ds \<and> hd ds = CHR ''0'') then None
         else case p_frac r1 of
                None \<Rightarrow> None
              | Some (f, r2) \<Rightarrow>
                  (case p_exp r2 of
                     None \<Rightarrow> None
                   | Some (x, r3) \<Rightarrow>
                       (let m = (of_nat (str_nat ds) + f) * x
                        in Some (if neg then - m else m, r3))))"

definition p_lit :: "string \<Rightarrow> json \<Rightarrow> string \<Rightarrow> (json \<times> string) option" where
  "p_lit w v s = (if js_startsWith s w then Some (v, drop (length w) s) else None)"

text \<open>White space, then the given character.\<close>

definition expect :: "char \<Rightarrow> string \<Rightarrow> string option" where
  "expect c s =
     (case skip_ws s of [] \<Rightarrow> None | x # xs \<Rightarrow> if x = c then Some xs else None)"

text \<open>A value; the elements of an array after its first value; the members of an object after
  an opening brace or a comma.\<close>

fun p_val :: "nat \<Rightarrow> string \<Rightarrow> (json \<times> string) option"
  and p_elems :: "nat \<Rightarrow> json list \<Rightarrow> string \<Rightarrow> (json \<times> string) option"
  and p_members :: "nat \<Rightarrow> (string \<times> json) list \<Rightarrow> string \<Rightarrow> (json \<times> string) option" where
  "p_val 0 s = None"
| "p_val (Suc n) s =
     (case skip_ws s of
        [] \<Rightarrow> None
      | c # cs \<Rightarrow>
          (if c = CHR ''n'' then p_lit ''null'' JNull (c # cs)
           else if c = CHR ''t'' then p_lit ''true'' (JBool True) (c # cs)
           else if c = CHR ''f'' then p_lit ''false'' (JBool False) (c # cs)
           else if code c = 34 then map_option (apfst JStr) (p_str cs)
           else if c = CHR ''['' then
             (case expect (CHR '']'') cs of
                Some rest \<Rightarrow> Some (JArr [], rest)
              | None \<Rightarrow> p_elems n [] cs)
           else if c = CHR ''{'' then
             (case expect (CHR ''}'') cs of
                Some rest \<Rightarrow> Some (JObj [], rest)
              | None \<Rightarrow> p_members n [] cs)
           else map_option (apfst JNum) (p_num (c # cs))))"
| "p_elems 0 acc s = None"
| "p_elems (Suc n) acc s =
     (case p_val n s of
        None \<Rightarrow> None
      | Some (v, rest) \<Rightarrow>
          (case expect (CHR '','') rest of
             Some r \<Rightarrow> p_elems n (acc @ [v]) r
           | None \<Rightarrow>
               (case expect (CHR '']'') rest of
                  Some r \<Rightarrow> Some (JArr (acc @ [v]), r)
                | None \<Rightarrow> None)))"
| "p_members 0 acc s = None"
| "p_members (Suc n) acc s =
     (case expect (char_of (34::nat)) s of
        None \<Rightarrow> None
      | Some qs \<Rightarrow>
          (case p_str qs of
             None \<Rightarrow> None
           | Some (k, r1) \<Rightarrow>
               (case expect (CHR '':'') r1 of
                  None \<Rightarrow> None
                | Some r2 \<Rightarrow>
                    (case p_val n r2 of
                       None \<Rightarrow> None
                     | Some (v, r3) \<Rightarrow>
                         (case expect (CHR '','') r3 of
                            Some r \<Rightarrow> p_members n (obj_set k v acc) r
                          | None \<Rightarrow>
                              (case expect (CHR ''}'') r3 of
                                 Some r \<Rightarrow> Some (JObj (obj_set k v acc), r)
                               | None \<Rightarrow> None))))))"

definition json_parse :: "string \<Rightarrow> json option" where
  "json_parse s =
     (case p_val (Suc (Suc (2 * length s))) s of
        Some (v, rest) \<Rightarrow> if skip_ws rest = [] then Some v else None
      | None \<Rightarrow> None)"

text \<open>\<open>value?.field\<close> on a parsed value: only objects have properties of these names.\<close>

definition json_prop :: "json option \<Rightarrow> string \<Rightarrow> json option" where
  "json_prop v k = (case v of Some (JObj ms) \<Rightarrow> obj_get ms k | _ \<Rightarrow> None)"

definition json_str :: "json option \<Rightarrow> string option" where
  "json_str v = (case v of Some (JStr s) \<Rightarrow> Some s | _ \<Rightarrow> None)"

end
