(* ===== verification/Env.thy ===== *)
theory Env
  imports Json
begin

text \<open>
  What the front end takes from its host. \<open>Platform\<close> collects the parts of the standard
  library whose result the language leaves to the implementation: locale-sensitive string
  comparison and the parsing of dates. \<open>World\<close> is the mutable rest: local storage, the
  clock, and the module-level counter of tab ids. Storage may be missing or refuse an
  access; the sources catch the refusal in some places and not in others.
\<close>

record Platform =
  localeCompare :: "string \<Rightarrow> string \<Rightarrow> int"
  localeCompareNumericBase :: "string \<Rightarrow> string \<Rightarrow> int"
  dateParse :: "string \<Rightarrow> int option"
  navigatorPlatform :: string

record World =
  ls_defined :: bool
  ls_getFails :: bool
  ls_setFails :: bool
  ls_items :: "(string, string) obj"
  clock :: nat
  tabCounter :: nat

text \<open>\<open>readStorage\<close> of the slices: every failure reads as \<open>null\<close>.\<close>

definition readStorage :: "World \<Rightarrow> string \<Rightarrow> string option" where
  "readStorage w key =
     (if \<not> ls_defined w \<or> ls_getFails w then None else obj_get (ls_items w) key)"

definition persistValue :: "string \<Rightarrow> string \<Rightarrow> World \<Rightarrow> World" where
  "persistValue key v w =
     (if \<not> ls_defined w \<or> ls_setFails w then w
      else w\<lparr>ls_items := obj_set key v (ls_items w)\<rparr>)"

text \<open>\<open>readValue\<close> of \<open>panelStorage.ts\<close> tests that storage is there but does not catch: the
  outer \<open>None\<close> is the exception of \<open>getItem\<close>.\<close>

definition readValue :: "World \<Rightarrow> string \<Rightarrow> string option option" where
  "readValue w key =
     (if \<not> ls_defined w then Some None
      else if ls_getFails w then None
      else Some (obj_get (ls_items w) key))"

definition readJson :: "World \<Rightarrow> string \<Rightarrow> json option option" where
  "readJson w key =
     (case readValue w key of
        None \<Rightarrow> None
      | Some None \<Rightarrow> Some None
      | Some (Some v) \<Rightarrow> if v = [] then Some None else Some (json_parse v))"

lemma readStorage_persist [simp]:
  "readStorage (persistValue k v w) j =
     (if j = k \<and> ls_defined w \<and> \<not> ls_setFails w \<and> \<not> ls_getFails w then Some v
      else readStorage w j)"
  by (auto simp: readStorage_def persistValue_def)

lemma readValue_persist_other [simp]: "j \<noteq> k \<Longrightarrow> readValue (persistValue k v w) j = readValue w j"
  by (auto simp: readValue_def persistValue_def)

lemma persistValue_frame [simp]:
  "tabCounter (persistValue k v w) = tabCounter w"
  "clock (persistValue k v w) = clock w"
  "ls_defined (persistValue k v w) = ls_defined w"
  "ls_getFails (persistValue k v w) = ls_getFails w"
  "ls_setFails (persistValue k v w) = ls_setFails w"
  by (auto simp: persistValue_def)

text \<open>When the store can be read, \<open>readValue\<close> does not raise.\<close>

definition storage_readable :: "World \<Rightarrow> bool" where
  "storage_readable w \<longleftrightarrow> \<not> (ls_defined w \<and> ls_getFails w)"

lemma readValue_readable: "storage_readable w \<Longrightarrow> \<exists>v. readValue w k = Some v"
  by (auto simp: storage_readable_def readValue_def)

lemma readJson_readable: "storage_readable w \<Longrightarrow> \<exists>v. readJson w k = Some v"
  using readValue_readable[of w k] by (auto simp: readJson_def split: option.splits)

end
