(* ===== verification/Uri.thy ===== *)
theory Uri
  imports JsString
begin

text \<open>
  Resource identifiers (\<open>packages/ts-api/src/uri.ts\<close>): local paths with Windows drive and
  UNC forms, remote schemes with a profile id in the authority position, and the virtual
  \<open>network:///\<close> tree. The regular expressions of the source are written out as tests on
  the code units.
\<close>

section \<open>Definitions\<close>

definition REMOTE_URI_SCHEMES :: "string list" where
  "REMOTE_URI_SCHEMES = [''sftp'', ''smb'', ''s3'', ''webdav'']"

definition NETWORK_URI_LABELS :: "(string, string) obj" where
  "NETWORK_URI_LABELS =
     [(''cloud'', ''Cloud Storage''), (''lan'', ''Local Network''),
      (''saved'', ''Saved Connections''), (''add'', ''Add Connection'')]"

record UriBreadcrumbSegment =
  crumb_label :: string
  crumb_uri :: string

definition uriScheme :: "string \<Rightarrow> string option" where
  "uriScheme uri =
     (case js_indexOf ''://'' uri of
        None \<Rightarrow> None
      | Some separator \<Rightarrow> if separator = 0 then None else Some (take separator uri))"

definition isRemoteUri :: "string \<Rightarrow> bool" where
  "isRemoteUri uri =
     (case uriScheme uri of
        None \<Rightarrow> False
      | Some scheme \<Rightarrow> List.member REMOTE_URI_SCHEMES scheme)"

definition isNetworkUri :: "string \<Rightarrow> bool" where
  "isNetworkUri uri \<longleftrightarrow> uriScheme uri = Some ''network'' \<and> js_startsWith uri ''network:///''"

definition isSupportedNavigationUri :: "string \<Rightarrow> bool" where
  "isSupportedNavigationUri uri \<longleftrightarrow>
     js_startsWith uri ''local://'' \<or> isRemoteUri uri \<or> isNetworkUri uri"

text \<open>\<open>uri.split("://")[1]\<close>: what lies between the first and the second separator.\<close>

definition uri_body1 :: "string \<Rightarrow> string option" where
  "uri_body1 uri =
     (case js_indexOf ''://'' uri of
        None \<Rightarrow> None
      | Some i \<Rightarrow>
          (let rest = drop (i + 3) uri
           in Some (case js_indexOf ''://'' rest of None \<Rightarrow> rest | Some j \<Rightarrow> take j rest)))"

definition profileIdFromRemoteUri :: "string \<Rightarrow> string option" where
  "profileIdFromRemoteUri uri =
     (if \<not> isRemoteUri uri then None
      else case uri_body1 uri of
             None \<Rightarrow> None
           | Some body \<Rightarrow>
               (if body = [] then None
                else let pid = hd (js_split (CHR ''/'') body)
                     in if pid = [] then None else Some pid))"

text \<open>\<open>uri.slice(uri.indexOf("://") + 3)\<close>; an absent separator is index -1.\<close>

definition uri_after_scheme :: "string \<Rightarrow> string" where
  "uri_after_scheme uri =
     (case js_indexOf ''://'' uri of None \<Rightarrow> drop 2 uri | Some i \<Rightarrow> drop (i + 3) uri)"

definition remotePathFromUri :: "string \<Rightarrow> string option" where
  "remotePathFromUri uri =
     (if \<not> isRemoteUri uri then None
      else case profileIdFromRemoteUri uri of
             None \<Rightarrow> None
           | Some profileId \<Rightarrow>
               (let path = drop (length profileId) (uri_after_scheme uri)
                in if path = [] then Some ''/''
                   else if js_startsWith path ''/'' then Some path
                   else Some (''/'' @ path)))"

definition buildRemoteUri :: "string \<Rightarrow> string \<Rightarrow> string \<Rightarrow> string" where
  "buildRemoteUri scheme profileId path =
     (let normalized = (if path = [] \<or> path = ''/'' then ''/'' else strip_slashes path)
      in if normalized = ''/'' then scheme @ ''://'' @ profileId @ ''/''
         else scheme @ ''://'' @ profileId @
              (if js_startsWith normalized ''/'' then normalized else ''/'' @ normalized))"

text \<open>\<open>uri.replace(/^local:\\/\\//, "")\<close> and the same for \<open>network:\<close>.\<close>

definition strip_prefix :: "string \<Rightarrow> string \<Rightarrow> string" where
  "strip_prefix p s = (if js_startsWith s p then drop (length p) s else s)"

definition networkPathParts :: "string \<Rightarrow> string list" where
  "networkPathParts uri = nonempty_parts (js_split (CHR ''/'') (strip_prefix ''network://'' uri))"

definition networkUriFromParts :: "string list \<Rightarrow> string" where
  "networkUriFromParts parts =
     (if parts = [] then ''network:///'' else ''network:///'' @ js_join ''/'' parts)"

definition capitalise :: "string \<Rightarrow> string" where
  "capitalise v = (case v of [] \<Rightarrow> [] | c # cs \<Rightarrow> js_toUpperCase [c] @ cs)"

text \<open>\<open>part.split(/[-_]/)\<close>.\<close>

primrec split_dash :: "string \<Rightarrow> string list" where
  "split_dash [] = [[]]"
| "split_dash (x # xs) =
     (if x = CHR ''-'' \<or> x = CHR ''_'' then [] # split_dash xs
      else (case split_dash xs of [] \<Rightarrow> [[x]] | p # ps \<Rightarrow> (x # p) # ps))"

definition networkPartLabel :: "string \<Rightarrow> string" where
  "networkPartLabel part =
     (case obj_get NETWORK_URI_LABELS part of
        Some l \<Rightarrow> l
      | None \<Rightarrow> js_join '' '' (map capitalise (nonempty_parts (split_dash part))))"

definition displayPathFromUri :: "string \<Rightarrow> string" where
  "displayPathFromUri uri =
     (if isNetworkUri uri then
        (let parts = networkPathParts uri
         in if parts = [] then ''Network''
            else js_join '' / '' (''Network'' # map networkPartLabel parts))
      else if isRemoteUri uri then
        (case remotePathFromUri uri of Some p \<Rightarrow> p | None \<Rightarrow> uri)
      else strip_prefix ''local://'' uri)"

record UncPath =
  unc_server :: string
  unc_share :: string
  unc_segments :: "string list"
  unc_rootUri :: string

text \<open>A dot in a regular expression does not match a line terminator.\<close>

definition no_line_break :: "string \<Rightarrow> bool" where
  "no_line_break s \<longleftrightarrow> list_all (\<lambda>c. code c \<noteq> 10 \<and> code c \<noteq> 13) s"

definition localUncPath :: "string \<Rightarrow> UncPath option" where
  "localUncPath path =
     (let normalized = strip_slashes path
      in if \<not> js_startsWith normalized ''//'' then None
         else case js_split (CHR ''/'') (drop 2 normalized) of
                server # share # tail \<Rightarrow>
                  (if server = [] \<or> share = [] \<or> \<not> no_line_break (js_join ''/'' tail) then None
                   else Some \<lparr>unc_server = server, unc_share = share,
                              unc_segments = nonempty_parts tail,
                              unc_rootUri = ''local:////'' @ server @ ''/'' @ share @ ''/''\<rparr>)
              | _ \<Rightarrow> None)"

text \<open>\<open>parentPath.match(/^\\/?([A-Za-z]:)$/)\<close>: the drive, as in \<open>C:\<close>.\<close>

definition drive_root_match :: "string \<Rightarrow> string option" where
  "drive_root_match s =
     (let t = strip_prefix ''/'' s
      in case t of [l, c] \<Rightarrow> if is_ascii_letter l \<and> c = CHR '':'' then Some t else None
                 | _ \<Rightarrow> None)"

definition parentUriFromUri :: "string \<Rightarrow> string option" where
  "parentUriFromUri uri =
     (if isNetworkUri uri then
        (let parts = networkPathParts uri
         in if parts = [] then None
            else if length parts = 1 then Some ''network:///''
            else Some (networkUriFromParts (butlast parts)))
      else if isRemoteUri uri then
        (case (uriScheme uri, profileIdFromRemoteUri uri) of
           (Some scheme, Some profileId) \<Rightarrow>
             (let path0 = strip_slashes (case remotePathFromUri uri of Some p \<Rightarrow> p | None \<Rightarrow> ''/'');
                  path = (if path0 = [] then ''/'' else path0)
              in if path = ''/'' then None
                 else case js_lastIndexOf (CHR ''/'') path of
                        Some 0 \<Rightarrow> Some (buildRemoteUri scheme profileId ''/'')
                      | Some i \<Rightarrow> Some (buildRemoteUri scheme profileId (take i path))
                      | None \<Rightarrow> Some (buildRemoteUri scheme profileId (butlast path)))
         | _ \<Rightarrow> None)
      else
        (let path = strip_prefix ''local://'' uri
         in case localUncPath path of
              Some u \<Rightarrow>
                (if unc_segments u = [] then None
                 else if length (unc_segments u) = 1 then Some (unc_rootUri u)
                 else Some (unc_rootUri u @ js_join ''/'' (butlast (unc_segments u))))
            | None \<Rightarrow>
                (if js_startsWith path ''//'' then None
                 else let normalized =
                            (if js_endsWith path ''/'' \<and> length path > 1 then butlast path else path)
                      in case js_lastIndexOf (CHR ''/'') normalized of
                           None \<Rightarrow> None
                         | Some index \<Rightarrow>
                             (if normalized = ''/'' then None
                              else if index = 0 then Some ''local:///''
                              else case drive_root_match (take index normalized) of
                                     Some d \<Rightarrow> Some (''local://'' @ d @ ''/'')
                                   | None \<Rightarrow> Some (''local://'' @ take index normalized)))))"

text \<open>The drive of \<open>^\\/([A-Za-z]:)[\\\\/]\<close>, with the leading slash present or absent.\<close>

definition drive_prefix_match :: "string \<Rightarrow> string option" where
  "drive_prefix_match s =
     (case s of l # c # sep # _ \<Rightarrow>
        if is_ascii_letter l \<and> c = CHR '':'' \<and> (sep = CHR ''/'' \<or> code sep = 92)
        then Some [l, c] else None
      | _ \<Rightarrow> None)"

definition rootUriForUri :: "string \<Rightarrow> string" where
  "rootUriForUri uri =
     (if isNetworkUri uri then ''network:///''
      else if isRemoteUri uri then
        (case (uriScheme uri, profileIdFromRemoteUri uri) of
           (Some scheme, Some profileId) \<Rightarrow> buildRemoteUri scheme profileId ''/''
         | _ \<Rightarrow> uri)
      else
        (let path = displayPathFromUri uri
         in case localUncPath path of
              Some u \<Rightarrow> unc_rootUri u
            | None \<Rightarrow>
                (case (if js_startsWith path ''/'' then drive_prefix_match (drop 1 path) else None) of
                   Some d \<Rightarrow> ''local://'' @ d @ ''/''
                 | None \<Rightarrow>
                     (case drive_prefix_match path of
                        Some d \<Rightarrow> ''local://'' @ d @ ''/''
                      | None \<Rightarrow> ''local:///''))))"

text \<open>The accumulating loops of the breadcrumb builder: each step extends the current path by
  one segment and emits a crumb.\<close>

fun crumbs_from :: "(string \<Rightarrow> string) \<Rightarrow> string \<Rightarrow> string list \<Rightarrow> UriBreadcrumbSegment list" where
  "crumbs_from mk current [] = []"
| "crumbs_from mk current (segment # rest) =
     (let next = current @ ''/'' @ segment
      in \<lparr>crumb_label = segment, crumb_uri = mk next\<rparr> # crumbs_from mk next rest)"

fun network_crumbs :: "string list \<Rightarrow> string list \<Rightarrow> UriBreadcrumbSegment list" where
  "network_crumbs current [] = []"
| "network_crumbs current (part # rest) =
     (let next = current @ [part]
      in \<lparr>crumb_label = networkPartLabel part, crumb_uri = networkUriFromParts next\<rparr>
         # network_crumbs next rest)"

fun relative_crumbs :: "string \<Rightarrow> string list \<Rightarrow> UriBreadcrumbSegment list" where
  "relative_crumbs current [] = []"
| "relative_crumbs current (segment # rest) =
     (let next = (if current \<noteq> [] then current @ ''/'' @ segment else segment)
      in \<lparr>crumb_label = segment, crumb_uri = ''local://'' @ next @ ''/''\<rparr>
         # relative_crumbs next rest)"

text \<open>\<open>path.match(/^\\/?([A-Za-z]:)(?:\\/(.*))?$/)\<close>: the drive and, after a slash, the rest.\<close>

definition drive_path_match :: "string \<Rightarrow> (string \<times> string option) option" where
  "drive_path_match s =
     (case strip_prefix ''/'' s of
        l # c # rest \<Rightarrow>
          (if \<not> (is_ascii_letter l \<and> c = CHR '':'') then None
           else case rest of
                  [] \<Rightarrow> Some ([l, c], None)
                | sl # tail \<Rightarrow>
                    if sl = CHR ''/'' \<and> no_line_break tail then Some ([l, c], Some tail) else None)
      | _ \<Rightarrow> None)"

definition breadcrumbSegmentsFromUri :: "string \<Rightarrow> UriBreadcrumbSegment list" where
  "breadcrumbSegmentsFromUri uri =
     (if isNetworkUri uri then
        \<lparr>crumb_label = ''Network'', crumb_uri = ''network:///''\<rparr>
          # network_crumbs [] (networkPathParts uri)
      else if isRemoteUri uri then
        (case (uriScheme uri, profileIdFromRemoteUri uri) of
           (Some scheme, Some profileId) \<Rightarrow>
             (let path = strip_slashes (case remotePathFromUri uri of Some p \<Rightarrow> p | None \<Rightarrow> ''/'');
                  segments = nonempty_parts (js_split (CHR ''/'') path)
              in if segments = [] then [\<lparr>crumb_label = ''/'', crumb_uri = uri\<rparr>]
                 else crumbs_from (buildRemoteUri scheme profileId) [] segments)
         | _ \<Rightarrow> [\<lparr>crumb_label = uri, crumb_uri = uri\<rparr>])
      else
        (let path = strip_slashes (displayPathFromUri uri)
         in case localUncPath path of
              Some u \<Rightarrow>
                \<lparr>crumb_label = ''//'' @ unc_server u @ ''/'' @ unc_share u, crumb_uri = unc_rootUri u\<rparr>
                  # crumbs_from (\<lambda>c. c) (butlast (unc_rootUri u)) (unc_segments u)
            | None \<Rightarrow>
                (case drive_path_match path of
                   Some (drive, rest) \<Rightarrow>
                     \<lparr>crumb_label = drive, crumb_uri = ''local://'' @ drive @ ''/''\<rparr>
                       # crumbs_from (\<lambda>c. ''local://'' @ c) drive
                           (nonempty_parts (js_split (CHR ''/'') (case rest of Some r \<Rightarrow> r | None \<Rightarrow> [])))
                 | None \<Rightarrow>
                     (let parts = nonempty_parts (js_split (CHR ''/'') path);
                          result = (if js_startsWith path ''/''
                                    then crumbs_from (\<lambda>c. ''local://'' @ c) [] parts
                                    else relative_crumbs [] parts)
                      in if result \<noteq> [] then result
                         else [\<lparr>crumb_label = uri, crumb_uri = uri\<rparr>]))))"

end
