(* ===== verification/PanelState.thy ===== *)
theory PanelState
  imports PaneTypes Env Uri
begin

text \<open>
  The state of the two panels (\<open>packages/frontend/src/panelStore.ts\<close>), its construction, the
  two helpers through which every reducer changes a tab, and the entries for the parent
  directory (\<open>utils/parentEntry.ts\<close>, \<open>utils/paneUtils.ts\<close>).

  Field names are those of the source with a short prefix per record. \<open>panels\<close> is a
  function on the two panel ids, which JavaScript enumerates as left, right. A dictionary
  keeps its insertion order; tab ids are never integer-like, so that is JavaScript's order.
\<close>

section \<open>Types\<close>

datatype PanelId = Left | Right

datatype SortField =
  SName | SType | SSize | SModified | SCreated | SExtension | SPermissions | SOwner

datatype SortDirection = Asc | Desc

datatype ViewMode = VDetails | VList | VCompact | VIcons | VColumns | VOther string

datatype TabKind = TDirectory | TPreview | TEditor | TGitReview

record GitReviewTabState =
  gr_repoRootUri :: string
  gr_sourceUri :: string
  gr_repoLabel :: string
  gr_refreshToken :: int

record SortState =
  sort_field :: SortField
  sort_direction :: SortDirection
  sort_directoriesFirst :: bool

record ContentSearchOptions =
  cso_caseSensitive :: bool
  cso_useRegex :: bool
  cso_filePattern :: string

datatype ContentSearchStatus = CStarting | CRunning | CCompleted | CFailed | CCancelled

record ContentSearchState =
  cs_requestId :: string
  cs_rootUri :: string
  cs_query :: string
  cs_options :: ContentSearchOptions
  cs_status :: ContentSearchStatus
  cs_jobId :: "string option"
  cs_result :: "ContentSearchResultDto option"
  cs_error :: "string option"

text \<open>The status of a terminal event is failed or cancelled.\<close>

record PendingContentSearchEvents =
  pend_matches :: "ContentSearchMatchEventDto list"
  pend_completion :: "ContentSearchCompletedEventDto option"
  pend_terminal :: "(ContentSearchStatus \<times> string) option"

definition isContentSearchActive :: "ContentSearchState option \<Rightarrow> bool" where
  "isContentSearchActive search =
     (case search of
        None \<Rightarrow> False
      | Some s \<Rightarrow> cs_status s = CStarting \<or> cs_status s = CRunning)"

text \<open>\<open>undefined\<close> is \<open>None\<close>; ''computing'' and ''error'' are ordinary strings, as in the source.\<close>

type_synonym HashState = "string option"

record BackgroundListing =
  bg_requestId :: string
  bg_sessionId :: "string option"
  bg_entriesById :: "(string, FileEntryDto) obj"
  bg_orderedEntryIds :: "string list"

record PanelTabState =
  tab_tabKind :: TabKind
  tab_uri :: string
  tab_previewEntry :: "FileEntryDto option"
  tab_editorEntry :: "FileEntryDto option"
  tab_gitReview :: "GitReviewTabState option"
  tab_entriesById :: "(string, FileEntryDto) obj"
  tab_orderedEntryIds :: "string list"
  tab_selectedIds :: "string list"
  tab_selectedId :: "string option"
  tab_focusedId :: "string option"
  tab_anchorId :: "string option"
  tab_sessionId :: "string option"
  tab_activeRequestId :: "string option"
  tab_loadState :: PaneLoadState
  tab_error :: "string option"
  tab_errorCode :: "string option"
  tab_filter :: string
  tab_recursiveQuery :: string
  tab_contentSearchQuery :: string
  tab_contentSearch :: "ContentSearchState option"
  tab_sort :: SortState
  tab_viewMode :: ViewMode
  tab_showHidden :: bool
  tab_backStack :: "string list"
  tab_forwardStack :: "string list"
  tab_hashMap :: "(string, HashState) obj"
  tab_backgroundListing :: "BackgroundListing option"

record PanelState =
  panel_id :: PanelId
  panel_activeTabId :: string
  panel_tabs :: "(string, PanelTabState) obj"

record FileOctopusState =
  activePanelId :: PanelId
  panels :: "PanelId \<Rightarrow> PanelState"
  pendingContentSearchEvents :: "(string, PendingContentSearchEvents) obj"
  absorbedContentSearchJobIds :: "string list"

definition panel_ids :: "PanelId list" where
  "panel_ids = [Left, Right]"

definition panelId_str :: "PanelId \<Rightarrow> string" where
  "panelId_str p = (case p of Left \<Rightarrow> ''left'' | Right \<Rightarrow> ''right'')"

instantiation PanelId :: enum
begin

definition enum_PanelId :: "PanelId list" where
  "enum_PanelId = panel_ids"

definition enum_all_PanelId :: "(PanelId \<Rightarrow> bool) \<Rightarrow> bool" where
  "enum_all_PanelId P \<longleftrightarrow> P Left \<and> P Right"

definition enum_ex_PanelId :: "(PanelId \<Rightarrow> bool) \<Rightarrow> bool" where
  "enum_ex_PanelId P \<longleftrightarrow> P Left \<or> P Right"

instance
proof
  show all: "(UNIV :: PanelId set) = set enum_class.enum"
    by (auto simp: enum_PanelId_def panel_ids_def intro: PanelId.exhaust)
  show "distinct (enum_class.enum :: PanelId list)"
    by (simp add: enum_PanelId_def panel_ids_def)
  show "enum_class.enum_all P \<longleftrightarrow> Ball UNIV P" for P :: "PanelId \<Rightarrow> bool"
    by (auto simp: enum_all_PanelId_def) (metis PanelId.exhaust)
  show "enum_class.enum_ex P \<longleftrightarrow> Bex UNIV P" for P :: "PanelId \<Rightarrow> bool"
    by (auto simp: enum_ex_PanelId_def) (metis PanelId.exhaust)
qed

end

definition sortField_str :: "SortField \<Rightarrow> string" where
  "sortField_str f =
     (case f of SName \<Rightarrow> ''name'' | SType \<Rightarrow> ''type'' | SSize \<Rightarrow> ''size''
      | SModified \<Rightarrow> ''modified'' | SCreated \<Rightarrow> ''created'' | SExtension \<Rightarrow> ''extension''
      | SPermissions \<Rightarrow> ''permissions'' | SOwner \<Rightarrow> ''owner'')"

definition viewMode_str :: "ViewMode \<Rightarrow> string" where
  "viewMode_str v =
     (case v of VDetails \<Rightarrow> ''details'' | VList \<Rightarrow> ''list'' | VCompact \<Rightarrow> ''compact''
      | VIcons \<Rightarrow> ''icons'' | VColumns \<Rightarrow> ''columns'' | VOther s \<Rightarrow> s)"

text \<open>A view mode read back from storage is any string (\<open>as ViewMode\<close> checks nothing).\<close>

definition viewMode_of_str :: "string \<Rightarrow> ViewMode" where
  "viewMode_of_str s =
     (if s = ''details'' then VDetails else if s = ''list'' then VList
      else if s = ''compact'' then VCompact else if s = ''icons'' then VIcons
      else if s = ''columns'' then VColumns else VOther s)"

section \<open>Stored defaults (panelStorage.ts)\<close>

definition storedShowHidden :: "World \<Rightarrow> bool option" where
  "storedShowHidden w =
     do { v \<leftarrow> readValue w ''fileoctopus.showHidden''; Some (v = Some ''true'') }"

definition sortField_of_json :: "json option \<Rightarrow> SortField" where
  "sortField_of_json v =
     (case json_str v of
        None \<Rightarrow> SName
      | Some s \<Rightarrow>
          (if s = ''type'' then SType else if s = ''size'' then SSize
           else if s = ''modified'' then SModified else if s = ''created'' then SCreated
           else if s = ''extension'' then SExtension
           else if s = ''permissions'' then SPermissions
           else if s = ''owner'' then SOwner else SName))"

definition storedSort :: "World \<Rightarrow> SortState option" where
  "storedSort w =
     do { v \<leftarrow> readJson w ''fileoctopus.sort'';
          Some \<lparr>sort_field = sortField_of_json (json_prop v ''field''),
                sort_direction =
                  (if json_str (json_prop v ''direction'') = Some ''desc'' then Desc else Asc),
                sort_directoriesFirst = True\<rparr> }"

definition homeUri :: "Platform \<Rightarrow> World \<Rightarrow> string option" where
  "homeUri pf w =
     do { home \<leftarrow> readValue w ''fileoctopus.homeUri'';
          Some (case home of
                  Some (c # cs) \<Rightarrow> c # cs
                | _ \<Rightarrow> if js_startsWith (navigatorPlatform pf) ''Win''
                       then ''local://C:/'' else ''local:///'') }"

definition documentsUri :: "Platform \<Rightarrow> World \<Rightarrow> string option" where
  "documentsUri pf w =
     do { home \<leftarrow> homeUri pf w;
          Some (if js_endsWith home ''/'' then home else home @ ''/Documents'') }"

section \<open>Construction\<close>

text \<open>The tab record with every list empty and every optional field absent.\<close>

definition blank_tab :: "TabKind \<Rightarrow> string \<Rightarrow> PaneLoadState \<Rightarrow> SortState \<Rightarrow> ViewMode \<Rightarrow> bool \<Rightarrow> PanelTabState" where
  "blank_tab kind uri ls srt vm hidden =
     \<lparr>tab_tabKind = kind, tab_uri = uri, tab_previewEntry = None, tab_editorEntry = None,
      tab_gitReview = None, tab_entriesById = [], tab_orderedEntryIds = [],
      tab_selectedIds = [], tab_selectedId = None, tab_focusedId = None, tab_anchorId = None,
      tab_sessionId = None, tab_activeRequestId = None, tab_loadState = ls, tab_error = None,
      tab_errorCode = None, tab_filter = [], tab_recursiveQuery = [],
      tab_contentSearchQuery = [], tab_contentSearch = None, tab_sort = srt,
      tab_viewMode = vm, tab_showHidden = hidden, tab_backStack = [], tab_forwardStack = [],
      tab_hashMap = [], tab_backgroundListing = None\<rparr>"

definition createPanel :: "World \<Rightarrow> PanelId \<Rightarrow> string \<Rightarrow> PanelState option" where
  "createPanel w pid uri =
     do { srt \<leftarrow> storedSort w;
          hidden \<leftarrow> storedShowHidden w;
          Some \<lparr>panel_id = pid, panel_activeTabId = ''main'',
                panel_tabs = [(''main'', blank_tab TDirectory uri LIdle srt VDetails hidden)]\<rparr> }"

definition createInitialState :: "World \<Rightarrow> string \<Rightarrow> string \<Rightarrow> FileOctopusState option" where
  "createInitialState w leftUri rightUri =
     do { l \<leftarrow> createPanel w Left leftUri;
          r \<leftarrow> createPanel w Right rightUri;
          Some \<lparr>activePanelId = Left,
                panels = (\<lambda>p. case p of Left \<Rightarrow> l | Right \<Rightarrow> r),
                pendingContentSearchEvents = [],
                absorbedContentSearchJobIds = []\<rparr> }"

text \<open>The call without arguments: the defaults are the stored home and documents folders.\<close>

definition createDefaultInitialState :: "Platform \<Rightarrow> World \<Rightarrow> FileOctopusState option" where
  "createDefaultInitialState pf w =
     do { l \<leftarrow> homeUri pf w; r \<leftarrow> documentsUri pf w; createInitialState w l r }"

section \<open>Reading and updating tabs\<close>

definition activeTab :: "PanelState \<Rightarrow> PanelTabState option" where
  "activeTab panel = obj_get (panel_tabs panel) (panel_activeTabId panel)"

definition set_tab :: "FileOctopusState \<Rightarrow> PanelId \<Rightarrow> string \<Rightarrow> PanelTabState \<Rightarrow> FileOctopusState" where
  "set_tab state pid tabId tab =
     state\<lparr>panels := (panels state)(pid :=
        (panels state pid)\<lparr>panel_tabs := obj_set tabId tab (panel_tabs (panels state pid))\<rparr>)\<rparr>"

text \<open>The update may itself raise; so does reading a property of a missing active tab.\<close>

definition updatePanel ::
  "FileOctopusState \<Rightarrow> PanelId \<Rightarrow> (PanelTabState \<Rightarrow> PanelTabState option) \<Rightarrow> FileOctopusState option" where
  "updatePanel state pid update =
     do { tab \<leftarrow> activeTab (panels state pid);
          tab' \<leftarrow> update tab;
          Some (set_tab state pid (panel_activeTabId (panels state pid)) tab') }"

definition updatePanelTab ::
  "FileOctopusState \<Rightarrow> PanelId \<Rightarrow> string \<Rightarrow> (PanelTabState \<Rightarrow> PanelTabState) \<Rightarrow> FileOctopusState" where
  "updatePanelTab state pid tabId update =
     (case obj_get (panel_tabs (panels state pid)) tabId of
        None \<Rightarrow> state
      | Some tab \<Rightarrow> set_tab state pid tabId (update tab))"

text \<open>The first tab, in the order left panel then right panel, that satisfies a test.\<close>

definition find_tab :: "FileOctopusState \<Rightarrow> (PanelTabState \<Rightarrow> bool) \<Rightarrow> (PanelId \<times> string) option" where
  "find_tab state p =
     (case obj_find p (panel_tabs (panels state Left)) of
        Some (tabId, _) \<Rightarrow> Some (Left, tabId)
      | None \<Rightarrow>
          (case obj_find p (panel_tabs (panels state Right)) of
             Some (tabId, _) \<Rightarrow> Some (Right, tabId)
           | None \<Rightarrow> None))"

definition findTabBySession :: "FileOctopusState \<Rightarrow> string \<Rightarrow> (PanelId \<times> string) option" where
  "findTabBySession state sessionId =
     find_tab state (\<lambda>tab. tab_sessionId tab = Some sessionId \<or>
        (case tab_backgroundListing tab of
           None \<Rightarrow> False
         | Some bg \<Rightarrow> bg_sessionId bg = Some sessionId))"

definition findTabByRequest :: "FileOctopusState \<Rightarrow> string \<Rightarrow> (PanelId \<times> string) option" where
  "findTabByRequest state requestId =
     (let trimmed = js_trim requestId
      in if trimmed = [] then None
         else find_tab state (\<lambda>tab. tab_activeRequestId tab = Some trimmed))"

section \<open>The parent entry\<close>

definition providerIdFromUri :: "string \<Rightarrow> string" where
  "providerIdFromUri uri = (case uriScheme uri of Some s \<Rightarrow> s | None \<Rightarrow> ''local'')"

definition PARENT_DIRECTORY_NAME :: string where
  "PARENT_DIRECTORY_NAME = ''..''"

definition createParentDirectoryEntry :: "string \<Rightarrow> FileEntryDto option" where
  "createParentDirectoryEntry currentUri =
     (case parentUriFromUri currentUri of
        None \<Rightarrow> None
      | Some uri \<Rightarrow>
          (if uri = [] then None
           else Some
             \<lparr>fe_uri = uri, fe_name = PARENT_DIRECTORY_NAME, fe_extension = None,
              fe_kind = KDirectory, fe_size = None, fe_modifiedAt = None, fe_createdAt = None,
              fe_accessedAt = None, fe_isHidden = False, fe_isSymlink = False,
              fe_isPlaceholder = False, fe_symlinkTarget = None,
              fe_providerId = providerIdFromUri currentUri, fe_canRead = True,
              fe_canList = True, fe_canWrite = False, fe_canDelete = False,
              fe_canRename = False, fe_permissions = None, fe_owner = None,
              fe_targetUri = None, fe_virtualKind = None, fe_protocol = None,
              fe_status = None, fe_description = None\<rparr>))"

definition isParentDirectoryUri :: "string \<Rightarrow> string \<Rightarrow> bool" where
  "isParentDirectoryUri uri currentUri \<longleftrightarrow> parentUriFromUri currentUri = Some uri"

definition isParentDirectoryEntry :: "FileEntryDto \<Rightarrow> string \<Rightarrow> bool" where
  "isParentDirectoryEntry entry currentUri = isParentDirectoryUri (fe_uri entry) currentUri"

definition prependParentDirectoryEntry :: "string \<Rightarrow> FileEntryDto list \<Rightarrow> FileEntryDto list" where
  "prependParentDirectoryEntry currentUri entries =
     (case createParentDirectoryEntry currentUri of
        None \<Rightarrow> entries
      | Some parentEntry \<Rightarrow>
          (if list_ex (\<lambda>e. fe_name e = PARENT_DIRECTORY_NAME) entries then entries
           else parentEntry # entries))"

section \<open>Other selectors\<close>

definition normalizeLocalInput :: "string \<Rightarrow> string" where
  "normalizeLocalInput input =
     (let v = js_trim input
      in if js_includes v ''://'' then v
         else if js_startsWith v ''/'' then ''local://'' @ v
         else if drive_prefix_match v \<noteq> None
         then ''local://'' @ map (\<lambda>c. if code c = 92 then CHR ''/'' else c) v
         else v)"

definition terminalLaunchUri :: "Platform \<Rightarrow> World \<Rightarrow> string \<Rightarrow> string option \<Rightarrow> string option" where
  "terminalLaunchUri pf w uri fallbackHomeUri =
     (if js_startsWith uri ''network:///''
      then (case fallbackHomeUri of Some h \<Rightarrow> Some h | None \<Rightarrow> homeUri pf w)
      else Some uri)"

definition operationalSelectionIds :: "PanelTabState \<Rightarrow> string list" where
  "operationalSelectionIds tab = filter (obj_has (tab_entriesById tab)) (tab_selectedIds tab)"

definition countOperationalSelection :: "PanelTabState \<Rightarrow> nat" where
  "countOperationalSelection tab = length (operationalSelectionIds tab)"

end
