(* ===== verification/PanelActions.thy ===== *)
theory PanelActions
  imports PanelState
begin

text \<open>
  The actions of the panel reducer (the union \<open>PanelAction\<close> of \<open>panelStore.ts\<close>, one
  constructor per member, arguments in the order of the source) and the structural
  invariant that its handlers keep. A tab is well formed when the listed ids are exactly
  the keys of its entries and every entry is stored under its own URI; a panel, when its
  active tab exists.
\<close>

datatype SelectMode = MSingle | MToggle | MRange

datatype (plugins only: code size) PanelAction =
    SetActivePanel PanelId
  | Navigate PanelId string bool bool bool
  | GoBack PanelId
  | GoForward PanelId
  | StartRequest PanelId string bool
  | StartSession PanelId string string
  | ApplyBatch DirectoryBatchEventDto
  | RenameEntry string string string
  | SetSelection PanelId "string option"
  | SetSelectionMany PanelId "string list"
  | SelectAll PanelId
  | InvertSelection PanelId
  | ClearSelection PanelId
  | SelectEntry PanelId string SelectMode
  | MoveSelection PanelId int
  | SetPaneError PanelId "string option" "string option" "string option" "PaneLoadState option"
  | SetFilter PanelId string
  | SetRecursiveQuery PanelId string
  | SetContentSearchQuery PanelId string string
  | StartContentSearch PanelId string string string string ContentSearchOptions
  | BindContentSearchJob PanelId string string string
  | FailContentSearchStart PanelId string string string
  | ApplyContentSearchMatch ContentSearchMatchEventDto
  | ApplyContentSearchCompleted ContentSearchCompletedEventDto
  | TerminateContentSearchJob string ContentSearchStatus string
  | DiscardContentSearchJobEvents string
  | SetSort PanelId SortField
  | SetViewMode PanelId ViewMode
  | ToggleHidden PanelId
  | HydratePreferences bool ViewMode
  | SetHash PanelId string HashState
  | SwapPanes
  | OpenTab PanelId string
  | OpenPreviewTab PanelId FileEntryDto
  | OpenEditorTab PanelId FileEntryDto
  | OpenGitReviewTab PanelId string string string
  | ReplaceContentTabEntry PanelId string FileEntryDto
  | CloseTab PanelId string
  | SwitchTab PanelId string
  | SetArchiveEntries PanelId "string option" string "FileEntryDto list"
  | RemoveEntries "string list"

section \<open>Well-formed tabs and panels\<close>

named_theorems wf_intros \<open>preservation of well-formedness\<close>

definition listing_ok :: "(string, FileEntryDto) obj \<Rightarrow> string list \<Rightarrow> bool" where
  "listing_ok ents ids \<longleftrightarrow>
     distinct (obj_keys ents) \<and> set ids = fst ` set ents \<and> list_all (\<lambda>(k, e). fe_uri e = k) ents"

definition bg_ok :: "BackgroundListing \<Rightarrow> bool" where
  "bg_ok bg \<longleftrightarrow> listing_ok (bg_entriesById bg) (bg_orderedEntryIds bg)"

definition tab_ok :: "PanelTabState \<Rightarrow> bool" where
  "tab_ok tab \<longleftrightarrow>
     listing_ok (tab_entriesById tab) (tab_orderedEntryIds tab) \<and>
     (case tab_backgroundListing tab of None \<Rightarrow> True | Some bg \<Rightarrow> bg_ok bg)"

definition panel_ok :: "PanelState \<Rightarrow> bool" where
  "panel_ok p \<longleftrightarrow>
     distinct (obj_keys (panel_tabs p)) \<and>
     panel_activeTabId p \<in> fst ` set (panel_tabs p) \<and>
     list_all tab_ok (obj_values (panel_tabs p))"

definition panels_ok :: "FileOctopusState \<Rightarrow> bool" where
  "panels_ok s \<longleftrightarrow> panel_ok (panels s Left) \<and> panel_ok (panels s Right)"

section \<open>Facts the reducers share\<close>

lemma listing_ok_Nil [simp]: "listing_ok [] []"
  by (simp add: listing_ok_def)

lemma listing_ok_get: "listing_ok ents ids \<Longrightarrow> obj_get ents k = Some e \<Longrightarrow> fe_uri e = k"
  by (auto simp: listing_ok_def list_all_iff dest: map_of_SomeD)

lemma listing_ok_set:
  "listing_ok ents ids \<Longrightarrow>
   listing_ok (obj_set (fe_uri e) e ents) (if obj_has ents (fe_uri e) then ids else ids @ [fe_uri e])"
  by (auto simp: listing_ok_def intro: list_all_obj_set)

lemma listing_ok_present:
  "listing_ok ents ids \<Longrightarrow> k \<in> set ids \<Longrightarrow> \<exists>e. obj_get ents k = Some e \<and> fe_uri e = k"
proof -
  assume ok: "listing_ok ents ids" and "k \<in> set ids"
  then have "k \<in> fst ` set ents" by (simp add: listing_ok_def)
  then have "\<exists>e. obj_get ents k = Some e" by (rule obj_get_key)
  then obtain e where "obj_get ents k = Some e" ..
  with listing_ok_get[OF ok] show ?thesis by blast
qed

lemma tab_ok_blank [simp, wf_intros]: "tab_ok (blank_tab k u l s v h)"
  by (simp add: tab_ok_def blank_tab_def)

lemma panel_ok_tab: "panel_ok p \<Longrightarrow> obj_get (panel_tabs p) i = Some t \<Longrightarrow> tab_ok t"
  by (auto simp: panel_ok_def list_all_iff dest: map_of_SomeD)

lemma panel_ok_active: "panel_ok p \<Longrightarrow> \<exists>t. activeTab p = Some t \<and> tab_ok t"
proof -
  assume ok: "panel_ok p"
  then have "panel_activeTabId p \<in> fst ` set (panel_tabs p)" by (simp add: panel_ok_def)
  then have "\<exists>t. activeTab p = Some t" unfolding activeTab_def by (rule obj_get_key)
  then obtain t where "activeTab p = Some t" ..
  with panel_ok_tab[OF ok] show ?thesis by (auto simp: activeTab_def)
qed

lemma all_PanelId: "(\<forall>p :: PanelId. Q p) \<longleftrightarrow> Q Left \<and> Q Right"
  using PanelId.exhaust by (metis (full_types))

lemma panels_okD: "panels_ok s \<Longrightarrow> panel_ok (panels s p)"
  by (cases p) (auto simp: panels_ok_def)

lemma panels_okI: "(\<And>p. panel_ok (panels s p)) \<Longrightarrow> panels_ok s"
  by (simp add: panels_ok_def)

lemma panel_ok_set_tab:
  assumes "panel_ok p" and "tab_ok t"
  shows "panel_ok (p\<lparr>panel_tabs := obj_set i t (panel_tabs p)\<rparr>)"
  using assms by (auto simp: panel_ok_def list_all_values_set)

lemma panels_set_tab:
  "panels (set_tab s p i t) q =
     (if q = p then (panels s p)\<lparr>panel_tabs := obj_set i t (panel_tabs (panels s p))\<rparr> else panels s q)"
  by (simp add: set_tab_def)

lemma set_tab_frame [simp]:
  "activePanelId (set_tab s p i t) = activePanelId s"
  "pendingContentSearchEvents (set_tab s p i t) = pendingContentSearchEvents s"
  "absorbedContentSearchJobIds (set_tab s p i t) = absorbedContentSearchJobIds s"
  "panel_activeTabId (panels (set_tab s p i t) q) = panel_activeTabId (panels s q)"
  by (simp_all add: set_tab_def)

lemma panels_ok_set_tab: "panels_ok s \<Longrightarrow> tab_ok t \<Longrightarrow> panels_ok (set_tab s p i t)"
  by (rule panels_okI) (simp add: panels_set_tab panels_okD panel_ok_set_tab)

text \<open>The keys of the tabs do not change when an existing tab is written.\<close>

lemma obj_keys_set_tab:
  "i \<in> fst ` set (panel_tabs (panels s p)) \<Longrightarrow>
   obj_keys (panel_tabs (panels (set_tab s p i t) q)) = obj_keys (panel_tabs (panels s q))"
  by (simp add: panels_set_tab obj_keys_set)

lemma updatePanel_Some:
  assumes "panels_ok s"
    and "\<And>t. tab_ok t \<Longrightarrow> \<exists>t'. upd t = Some t' \<and> tab_ok t'"
  shows "\<exists>s'. updatePanel s p upd = Some s' \<and> panels_ok s'"
proof -
  obtain t where t: "activeTab (panels s p) = Some t" "tab_ok t"
    using panel_ok_active[OF panels_okD[OF assms(1)]] by blast
  with assms(2) obtain t' where "upd t = Some t'" "tab_ok t'" by blast
  with t assms(1) show ?thesis by (simp add: updatePanel_def panels_ok_set_tab)
qed

lemma updatePanelTab_ok:
  assumes "panels_ok s" and "\<And>t. tab_ok t \<Longrightarrow> tab_ok (upd t)"
  shows "panels_ok (updatePanelTab s p i upd)"
  using assms panel_ok_tab[OF panels_okD[OF assms(1)]]
  by (auto simp: updatePanelTab_def panels_ok_set_tab split: option.splits)

lemma updatePanel_frame:
  "updatePanel s p upd = Some s' \<Longrightarrow>
   activePanelId s' = activePanelId s \<and>
   pendingContentSearchEvents s' = pendingContentSearchEvents s \<and>
   absorbedContentSearchJobIds s' = absorbedContentSearchJobIds s \<and>
   (\<forall>q. panel_activeTabId (panels s' q) = panel_activeTabId (panels s q) \<and>
        obj_keys (panel_tabs (panels s' q)) = obj_keys (panel_tabs (panels s q)))"
proof -
  assume "updatePanel s p upd = Some s'"
  then obtain t t' where t: "activeTab (panels s p) = Some t"
    and s': "s' = set_tab s p (panel_activeTabId (panels s p)) t'"
    by (auto simp: updatePanel_def bind_eq_Some_conv)
  from t have "panel_activeTabId (panels s p) \<in> fst ` set (panel_tabs (panels s p))"
    by (auto simp: activeTab_def dest: obj_get_Some_key)
  then show ?thesis by (simp add: s' obj_keys_set_tab del: set_map)
qed

lemma updatePanelTab_frame [simp]:
  "activePanelId (updatePanelTab s p i upd) = activePanelId s"
  "pendingContentSearchEvents (updatePanelTab s p i upd) = pendingContentSearchEvents s"
  "absorbedContentSearchJobIds (updatePanelTab s p i upd) = absorbedContentSearchJobIds s"
  "panel_activeTabId (panels (updatePanelTab s p i upd) q) = panel_activeTabId (panels s q)"
  by (auto simp: updatePanelTab_def split: option.splits)

lemma updatePanelTab_keys [simp]:
  "obj_keys (panel_tabs (panels (updatePanelTab s p i upd) q)) = obj_keys (panel_tabs (panels s q))"
  by (auto simp: updatePanelTab_def obj_keys_set_tab obj_get_Some_key simp del: set_map split: option.splits)

text \<open>What a tab lookup sees after an update of one tab.\<close>

definition tab_at :: "FileOctopusState \<Rightarrow> PanelId \<Rightarrow> string \<Rightarrow> PanelTabState option" where
  "tab_at s p i = obj_get (panel_tabs (panels s p)) i"

lemma tab_at_set_tab [simp]:
  "tab_at (set_tab s p i t) q j = (if q = p \<and> j = i then Some t else tab_at s q j)"
  by (auto simp: tab_at_def panels_set_tab)

lemma tab_at_updatePanelTab:
  "tab_at (updatePanelTab s p i upd) q j =
     (if q = p \<and> j = i then map_option upd (tab_at s p i) else tab_at s q j)"
proof (cases "tab_at s p i")
  case None
  then show ?thesis by (auto simp: updatePanelTab_def tab_at_def)
next
  case (Some t)
  then have "updatePanelTab s p i upd = set_tab s p i (upd t)"
    by (simp add: updatePanelTab_def tab_at_def)
  with Some show ?thesis by simp
qed

lemma find_tab_Some:
  assumes "find_tab s P = Some (p, i)" and "panels_ok s"
  shows "\<exists>t. tab_at s p i = Some t \<and> P t"
proof -
  from assms(1) obtain t where f: "obj_find P (panel_tabs (panels s p)) = Some (i, t)"
    by (auto simp: find_tab_def split: option.splits)
  have "distinct (obj_keys (panel_tabs (panels s p)))"
    using panels_okD[OF assms(2), of p] by (simp add: panel_ok_def)
  from obj_find_get[OF this f] obj_find_Some[OF f] show ?thesis by (auto simp: tab_at_def)
qed

lemma find_tab_None: "find_tab s P = None \<longleftrightarrow> (\<forall>p. \<forall>t \<in> snd ` set (panel_tabs (panels s p)). \<not> P t)"
proof -
  have "find_tab s P = None \<longleftrightarrow>
      obj_find P (panel_tabs (panels s Left)) = None \<and> obj_find P (panel_tabs (panels s Right)) = None"
    by (auto simp: find_tab_def split: option.splits)
  also have "\<dots> \<longleftrightarrow> (\<forall>p. \<forall>t \<in> snd ` set (panel_tabs (panels s p)). \<not> P t)"
    by (simp add: obj_find_None all_PanelId)
  finally show ?thesis .
qed

lemma find_tab_unique:
  assumes "panels_ok s" and "tab_at s p i = Some t" and "P t"
    and "\<And>q j u. tab_at s q j = Some u \<Longrightarrow> P u \<Longrightarrow> q = p \<and> j = i"
  shows "find_tab s P = Some (p, i)"
proof (cases "find_tab s P")
  case None
  moreover have "t \<in> snd ` set (panel_tabs (panels s p))"
    using assms(2) unfolding tab_at_def by (rule obj_get_value)
  ultimately show ?thesis using assms(3) by (auto simp: find_tab_None)
next
  case (Some r)
  obtain q j where r: "r = (q, j)" by (cases r)
  from find_tab_Some[OF Some[unfolded r] assms(1)] assms(4) r Some show ?thesis by auto
qed

lemma find_tab_panels: "panels s = panels s' \<Longrightarrow> find_tab s P = find_tab s' P"
proof -
  assume eq: "panels s = panels s'"
  show ?thesis unfolding find_tab_def eq ..
qed

end
