(* ===== verification/Samples.thy ===== *)
theory Samples
  imports PanelActions
begin

text \<open>
  Concrete entries, tabs and states on which the properties of the panels are applied.
\<close>

definition sample_entry :: "string \<Rightarrow> string \<Rightarrow> FileKind \<Rightarrow> int \<Rightarrow> FileEntryDto" where
  "sample_entry uri name kind bytes =
     \<lparr>fe_uri = uri, fe_name = name, fe_extension = None, fe_kind = kind, fe_size = Some bytes,
      fe_modifiedAt = None, fe_createdAt = None, fe_accessedAt = None, fe_isHidden = False,
      fe_isSymlink = False, fe_isPlaceholder = False, fe_symlinkTarget = None,
      fe_providerId = ''local'', fe_canRead = True, fe_canList = True, fe_canWrite = True,
      fe_canDelete = True, fe_canRename = True, fe_permissions = None, fe_owner = None,
      fe_targetUri = None, fe_virtualKind = None, fe_protocol = None, fe_status = None,
      fe_description = None\<rparr>"

definition sample_sort :: SortState where
  "sample_sort = \<lparr>sort_field = SName, sort_direction = Asc, sort_directoriesFirst = True\<rparr>"

text \<open>A tab that lists two files of \<open>/d\<close>, the first of them selected.\<close>

definition entry_a :: FileEntryDto where
  "entry_a = sample_entry ''local:///d/a'' ''a'' KFile 1"

definition entry_b :: FileEntryDto where
  "entry_b = sample_entry ''local:///d/b'' ''b'' KFile 2"

definition sample_tab :: PanelTabState where
  "sample_tab = (blank_tab TDirectory ''local:///d'' LLoaded sample_sort VDetails False)
     \<lparr>tab_entriesById := [(''local:///d/a'', entry_a), (''local:///d/b'', entry_b)],
      tab_orderedEntryIds := [''local:///d/a'', ''local:///d/b''],
      tab_selectedIds := [''local:///d/a''], tab_selectedId := Some ''local:///d/a'',
      tab_focusedId := Some ''local:///d/a'', tab_anchorId := Some ''local:///d/a''\<rparr>"

definition sample_panel :: "PanelId \<Rightarrow> PanelTabState \<Rightarrow> PanelState" where
  "sample_panel p t = \<lparr>panel_id = p, panel_activeTabId = ''main'', panel_tabs = [(''main'', t)]\<rparr>"

definition sample_state :: FileOctopusState where
  "sample_state =
     \<lparr>activePanelId = Left,
      panels = (\<lambda>p. case p of
                  Left \<Rightarrow> sample_panel Left sample_tab
                | Right \<Rightarrow> sample_panel Right
                    (blank_tab TDirectory ''local:///r'' LIdle sample_sort VDetails False)),
      pendingContentSearchEvents = [], absorbedContentSearchJobIds = []\<rparr>"

definition sample_world :: World where
  "sample_world = \<lparr>ls_defined = True, ls_getFails = False, ls_setFails = False, ls_items = [],
     clock = 7, tabCounter = 0\<rparr>"

lemmas sample_defs = sample_state_def sample_panel_def sample_tab_def entry_a_def entry_b_def
  sample_entry_def sample_sort_def blank_tab_def

lemma sample_uris [simp]:
  "fe_uri entry_a = ''local:///d/a''" "fe_uri entry_b = ''local:///d/b''"
  "fe_name entry_a = ''a''" "fe_name entry_b = ''b''"
  by (simp_all add: entry_a_def entry_b_def sample_entry_def)

lemma sample_tab_fields [simp]:
  "tab_uri sample_tab = ''local:///d''"
  "tab_entriesById sample_tab = [(''local:///d/a'', entry_a), (''local:///d/b'', entry_b)]"
  "tab_orderedEntryIds sample_tab = [''local:///d/a'', ''local:///d/b'']"
  "tab_selectedIds sample_tab = [''local:///d/a'']"
  "tab_selectedId sample_tab = Some ''local:///d/a''"
  "tab_focusedId sample_tab = Some ''local:///d/a''"
  "tab_anchorId sample_tab = Some ''local:///d/a''"
  "tab_activeRequestId sample_tab = None" "tab_sessionId sample_tab = None"
  "tab_backgroundListing sample_tab = None" "tab_filter sample_tab = []"
  "tab_sort sample_tab = sample_sort" "tab_backStack sample_tab = []"
  "tab_forwardStack sample_tab = []"
  by (simp_all add: sample_tab_def blank_tab_def)

lemma sample_tab_ok [simp]: "tab_ok sample_tab"
  by (auto simp: tab_ok_def listing_ok_def)

lemma sample_panel_simps [simp]:
  "panel_activeTabId (sample_panel p t) = ''main''"
  "panel_tabs (sample_panel p t) = [(''main'', t)]"
  "panel_ok (sample_panel p t) = tab_ok t"
  by (simp_all add: sample_panel_def panel_ok_def)

lemma sample_state_simps [simp]:
  "panels sample_state Left = sample_panel Left sample_tab"
  "panels sample_state Right = sample_panel Right
     (blank_tab TDirectory ''local:///r'' LIdle sample_sort VDetails False)"
  "activePanelId sample_state = Left"
  "pendingContentSearchEvents sample_state = []"
  "absorbedContentSearchJobIds sample_state = []"
  by (simp_all add: sample_state_def)

lemma sample_state_ok [simp]: "panels_ok sample_state"
  by (simp add: panels_ok_def)

lemma sample_tab_at [simp]:
  "tab_at sample_state Left i = (if i = ''main'' then Some sample_tab else None)"
  "tab_at sample_state Right i =
     (if i = ''main'' then Some (blank_tab TDirectory ''local:///r'' LIdle sample_sort VDetails False)
      else None)"
  by (auto simp: tab_at_def)

end
