(* ===== verification/Listing.thy ===== *)
theory Listing
  imports Samples
begin

text \<open>
  Directory listings: the listing slice (\<open>state/slices/listingSlice.ts\<close>) and the helpers
  \<open>applyBatch\<close>, \<open>removeEntriesFromState\<close> and \<open>renameEntryInState\<close> of \<open>panelStore.ts\<close>. A
  listing arrives in batches addressed by session or request id; a background refresh
  collects them beside the shown listing and replaces it with the last one.
\<close>

section \<open>Definitions\<close>

text \<open>A string or null used as a condition.\<close>

definition truthy :: "string option \<Rightarrow> bool" where
  "truthy s \<longleftrightarrow> s \<noteq> None \<and> s \<noteq> Some []"

lemma truthy_simps [simp]: "\<not> truthy None" "\<not> truthy (Some [])" "truthy (Some (c # cs))"
  by (simp_all add: truthy_def)

lemma truthyE: "truthy s \<Longrightarrow> (\<And>x. s = Some x \<Longrightarrow> x \<noteq> [] \<Longrightarrow> P) \<Longrightarrow> P"
  by (cases s) (auto simp: truthy_def)

definition isListingAction :: "PanelAction \<Rightarrow> bool" where
  "isListingAction a =
     (case a of StartSession _ _ _ \<Rightarrow> True | StartRequest _ _ _ \<Rightarrow> True | ApplyBatch _ \<Rightarrow> True
      | RenameEntry _ _ _ \<Rightarrow> True | RemoveEntries _ \<Rightarrow> True | SetPaneError _ _ _ _ _ \<Rightarrow> True
      | SetArchiveEntries _ _ _ _ \<Rightarrow> True | _ \<Rightarrow> False)"

text \<open>The loop of \<open>applyBatch\<close> over the entries of a batch.\<close>

definition absorb_entry ::
  "FileEntryDto \<Rightarrow> (string, FileEntryDto) obj \<times> string list \<Rightarrow> (string, FileEntryDto) obj \<times> string list" where
  "absorb_entry entry = (\<lambda>(entriesById, orderedEntryIds).
     (obj_set (fe_uri entry) entry entriesById,
      if obj_has entriesById (fe_uri entry) then orderedEntryIds
      else orderedEntryIds @ [fe_uri entry]))"

definition absorb_entries ::
  "FileEntryDto list \<Rightarrow> (string, FileEntryDto) obj \<times> string list \<Rightarrow> (string, FileEntryDto) obj \<times> string list" where
  "absorb_entries entries listing = fold absorb_entry entries listing"

text \<open>The background listing of a tab when it belongs to the request.\<close>

definition background_for :: "PanelTabState \<Rightarrow> string \<Rightarrow> BackgroundListing option" where
  "background_for tab requestId =
     (case tab_backgroundListing tab of
        None \<Rightarrow> None
      | Some bg \<Rightarrow> if bg_requestId bg = requestId then Some bg else None)"

definition batch_failed :: "DirectoryBatchEventDto \<Rightarrow> IpcError \<Rightarrow> PanelTabState \<Rightarrow> PanelTabState" where
  "batch_failed batch err current =
     current\<lparr>tab_activeRequestId := None,
       tab_loadState := terminalLoadState 0 (Some err),
       tab_error := Some (err_message err),
       tab_errorCode := Some (err_code err),
       tab_backgroundListing :=
         (if background_for current (batch_requestId batch) \<noteq> None then None
          else tab_backgroundListing current)\<rparr>"

definition batch_loaded :: "DirectoryBatchEventDto \<Rightarrow> PanelTabState \<Rightarrow> PanelTabState" where
  "batch_loaded batch current =
     (let backgroundListing = background_for current (batch_requestId batch);
          (entriesById, orderedEntryIds) = absorb_entries (batch_entries batch)
            (case backgroundListing of
               None \<Rightarrow> (tab_entriesById current, tab_orderedEntryIds current)
             | Some bg \<Rightarrow> (bg_entriesById bg, bg_orderedEntryIds bg));
          retainedSelection = filter (obj_has entriesById) (tab_selectedIds current);
          firstId = (case first_opt retainedSelection of
                       Some i \<Rightarrow> Some i
                     | None \<Rightarrow> (case tab_selectedId current of
                                  Some i \<Rightarrow> Some i | None \<Rightarrow> first_opt orderedEntryIds));
          loadState = (if batch_isComplete batch
                       then terminalLoadState (length orderedEntryIds) (batch_error batch)
                       else LLoading);
          err = map_option err_message (batch_error batch);
          errCode = map_option err_code (batch_error batch)
      in if backgroundListing \<noteq> None \<and> \<not> batch_isComplete batch
         then current\<lparr>tab_backgroundListing :=
                map_option (\<lambda>bg. bg\<lparr>bg_entriesById := entriesById, bg_orderedEntryIds := orderedEntryIds\<rparr>)
                  backgroundListing,
                tab_error := err, tab_errorCode := errCode\<rparr>
         else current\<lparr>tab_entriesById := entriesById, tab_orderedEntryIds := orderedEntryIds,
                tab_selectedIds :=
                  (if retainedSelection \<noteq> [] then retainedSelection
                   else if truthy firstId then [the firstId] else []),
                tab_selectedId := firstId, tab_focusedId := firstId,
                tab_activeRequestId :=
                  (if batch_isComplete batch then None else tab_activeRequestId current),
                tab_loadState := loadState, tab_error := err, tab_errorCode := errCode,
                tab_backgroundListing :=
                  (if backgroundListing \<noteq> None \<and> batch_isComplete batch then None
                   else tab_backgroundListing current)\<rparr>)"

definition batch_target :: "FileOctopusState \<Rightarrow> DirectoryBatchEventDto \<Rightarrow> (PanelId \<times> string) option" where
  "batch_target state batch =
     (case findTabBySession state (batch_sessionId batch) of
        Some t \<Rightarrow> Some t
      | None \<Rightarrow> findTabByRequest state (batch_requestId batch))"

text \<open>The target was found among the tabs, so the lookup does not fail; the missing tab is
  written as the unchanged state.\<close>

definition applyBatch :: "FileOctopusState \<Rightarrow> DirectoryBatchEventDto \<Rightarrow> FileOctopusState" where
  "applyBatch state batch =
     (case batch_target state batch of
        None \<Rightarrow> state
      | Some (pid, tabId) \<Rightarrow>
          (case obj_get (panel_tabs (panels state pid)) tabId of
             None \<Rightarrow> state
           | Some tab \<Rightarrow>
               (if \<not> shouldApplyBatch (tab_activeRequestId tab) batch then state
                else case batch_error batch of
                  Some err \<Rightarrow>
                    (if batch_isComplete batch
                     then updatePanelTab state pid tabId (batch_failed batch err)
                     else updatePanelTab state pid tabId (batch_loaded batch))
                | None \<Rightarrow> updatePanelTab state pid tabId (batch_loaded batch))))"

definition replace_if_in :: "string list \<Rightarrow> string option \<Rightarrow> string option \<Rightarrow> string option" where
  "replace_if_in uriSet firstId i =
     (if truthy i \<and> the i \<in> set uriSet then firstId else i)"

definition remove_from_tab :: "string list \<Rightarrow> PanelTabState \<Rightarrow> PanelTabState" where
  "remove_from_tab uris tab =
     (if \<not> list_ex (\<lambda>i. i \<in> set uris) (tab_orderedEntryIds tab) then tab
      else let entriesById = fold obj_del uris (tab_entriesById tab);
               orderedEntryIds = filter (\<lambda>i. i \<notin> set uris) (tab_orderedEntryIds tab);
               selectedIds = filter (\<lambda>i. i \<notin> set uris) (tab_selectedIds tab);
               firstId = (case first_opt selectedIds of
                            Some i \<Rightarrow> Some i | None \<Rightarrow> first_opt orderedEntryIds)
           in tab\<lparr>tab_entriesById := entriesById, tab_orderedEntryIds := orderedEntryIds,
                  tab_selectedIds := selectedIds,
                  tab_selectedId := replace_if_in uris firstId (tab_selectedId tab),
                  tab_focusedId := replace_if_in uris firstId (tab_focusedId tab),
                  tab_anchorId := replace_if_in uris firstId (tab_anchorId tab)\<rparr>)"

text \<open>Both panels are rebuilt with one function applied to every tab.\<close>

definition map_tabs :: "(PanelTabState \<Rightarrow> PanelTabState) \<Rightarrow> FileOctopusState \<Rightarrow> FileOctopusState" where
  "map_tabs f state =
     state\<lparr>panels := (\<lambda>pid. (panels state pid)\<lparr>panel_tabs :=
        obj_map (\<lambda>_. f) (panel_tabs (panels state pid))\<rparr>)\<rparr>"

definition removeEntriesFromState :: "FileOctopusState \<Rightarrow> string list \<Rightarrow> FileOctopusState" where
  "removeEntriesFromState state uris =
     (if uris = [] then state else map_tabs (remove_from_tab uris) state)"

text \<open>The slice starts at the dot, so the extension keeps it.\<close>

definition extensionFromName :: "string \<Rightarrow> string option" where
  "extensionFromName name =
     (case js_lastIndexOf (CHR ''.'') name of
        None \<Rightarrow> None
      | Some index \<Rightarrow>
          (if index = 0 \<or> index = length name - 1 then None else Some (drop index name)))"

definition rename_in_tab :: "string \<Rightarrow> string \<Rightarrow> string \<Rightarrow> PanelTabState \<Rightarrow> PanelTabState" where
  "rename_in_tab oldUri newUri name tab =
     (case obj_get (tab_entriesById tab) oldUri of
        None \<Rightarrow> tab
      | Some entry \<Rightarrow>
          (let entry' = entry\<lparr>fe_uri := newUri, fe_name := name,
                 fe_extension := (if fe_kind entry = KDirectory then None else extensionFromName name)\<rparr>;
               replaceId = (\<lambda>i. if i = oldUri then newUri else i)
           in tab\<lparr>tab_entriesById := obj_set newUri entry' (obj_del oldUri (tab_entriesById tab)),
                  tab_orderedEntryIds := map replaceId (tab_orderedEntryIds tab),
                  tab_selectedIds := map replaceId (tab_selectedIds tab),
                  tab_selectedId := map_option replaceId (tab_selectedId tab),
                  tab_focusedId := map_option replaceId (tab_focusedId tab),
                  tab_anchorId := map_option replaceId (tab_anchorId tab)\<rparr>))"

definition renameEntryInState :: "FileOctopusState \<Rightarrow> string \<Rightarrow> string \<Rightarrow> string \<Rightarrow> FileOctopusState" where
  "renameEntryInState state oldUri newUri name = map_tabs (rename_in_tab oldUri newUri name) state"

definition updateRequestTab ::
  "FileOctopusState \<Rightarrow> PanelId \<Rightarrow> string \<Rightarrow> (PanelTabState \<Rightarrow> PanelTabState) \<Rightarrow> FileOctopusState" where
  "updateRequestTab state pid requestId update =
     (case findTabByRequest state requestId of
        None \<Rightarrow> state
      | Some (pid', tabId) \<Rightarrow>
          (if pid' \<noteq> pid then state else updatePanelTab state pid' tabId update))"

definition start_request :: "string \<Rightarrow> bool \<Rightarrow> PanelTabState \<Rightarrow> PanelTabState" where
  "start_request requestId backgroundRefresh tab =
     tab\<lparr>tab_sessionId := None, tab_activeRequestId := Some requestId,
         tab_loadState := (if backgroundRefresh then tab_loadState tab else LLoading),
         tab_error := None, tab_errorCode := None,
         tab_backgroundListing :=
           (if backgroundRefresh
            then Some \<lparr>bg_requestId = requestId, bg_sessionId = None,
                       bg_entriesById = [], bg_orderedEntryIds = []\<rparr>
            else None)\<rparr>"

definition start_session :: "string \<Rightarrow> string \<Rightarrow> PanelTabState \<Rightarrow> PanelTabState" where
  "start_session requestId sessionId tab =
     tab\<lparr>tab_sessionId := Some sessionId, tab_activeRequestId := Some requestId,
         tab_backgroundListing :=
           (case background_for tab requestId of
              Some bg \<Rightarrow> Some (bg\<lparr>bg_sessionId := Some sessionId\<rparr>)
            | None \<Rightarrow> tab_backgroundListing tab),
         tab_loadState := tab_loadState tab,
         tab_error := (if tab_loadState tab \<noteq> LLoading then tab_error tab else None),
         tab_errorCode := (if tab_loadState tab \<noteq> LLoading then tab_errorCode tab else None)\<rparr>"

definition pane_error ::
  "string option \<Rightarrow> string option \<Rightarrow> PaneLoadState option \<Rightarrow> PanelTabState \<Rightarrow> PanelTabState" where
  "pane_error err errCode loadState tab =
     tab\<lparr>tab_error := err, tab_errorCode := errCode,
         tab_loadState := (case loadState of
            Some l \<Rightarrow> l
          | None \<Rightarrow> if truthy err then LError else tab_loadState tab)\<rparr>"

definition archive_tab :: "string \<Rightarrow> FileEntryDto list \<Rightarrow> PanelTabState \<Rightarrow> PanelTabState" where
  "archive_tab uri entries current =
     (let entriesById = fold (\<lambda>entry. obj_set (fe_uri entry) entry) entries [];
          orderedEntryIds = map fe_uri entries;
          firstId = first_opt orderedEntryIds
      in current\<lparr>tab_uri := uri, tab_entriesById := entriesById,
           tab_orderedEntryIds := orderedEntryIds,
           tab_selectedIds := (if truthy firstId then [the firstId] else []),
           tab_selectedId := firstId, tab_focusedId := None, tab_anchorId := None,
           tab_sessionId := None, tab_activeRequestId := None, tab_loadState := LLoaded,
           tab_error := None, tab_errorCode := None, tab_filter := [],
           tab_backStack := (if uri \<noteq> tab_uri current then tab_backStack current @ [tab_uri current]
                             else tab_backStack current),
           tab_forwardStack := (if uri \<noteq> tab_uri current then [] else tab_forwardStack current),
           tab_backgroundListing := None\<rparr>)"

definition setArchiveEntriesReducer ::
  "FileOctopusState \<Rightarrow> PanelId \<Rightarrow> string option \<Rightarrow> string \<Rightarrow> FileEntryDto list \<Rightarrow> FileOctopusState option" where
  "setArchiveEntriesReducer state pid requestId uri entries =
     (if truthy requestId
      then Some (updateRequestTab state pid (the requestId) (archive_tab uri entries))
      else updatePanel state pid (\<lambda>tab. Some (archive_tab uri entries tab)))"

definition reduceListing :: "FileOctopusState \<Rightarrow> PanelAction \<Rightarrow> FileOctopusState option" where
  "reduceListing state action =
     (case action of
        StartRequest pid requestId backgroundRefresh \<Rightarrow>
          updatePanel state pid (\<lambda>tab. Some (start_request requestId backgroundRefresh tab))
      | StartSession pid requestId sessionId \<Rightarrow>
          Some (updateRequestTab state pid requestId (start_session requestId sessionId))
      | ApplyBatch batch \<Rightarrow> Some (applyBatch state batch)
      | RemoveEntries uris \<Rightarrow> Some (removeEntriesFromState state uris)
      | RenameEntry oldUri newUri name \<Rightarrow> Some (renameEntryInState state oldUri newUri name)
      | SetPaneError pid requestId err errCode loadState \<Rightarrow>
          (if truthy requestId
           then Some (updateRequestTab state pid (the requestId)
                  (\<lambda>tab. (pane_error err errCode loadState tab)
                     \<lparr>tab_activeRequestId := None, tab_sessionId := None\<rparr>))
           else updatePanel state pid (\<lambda>tab. Some (pane_error err errCode loadState tab)))
      | SetArchiveEntries pid requestId uri entries \<Rightarrow>
          setArchiveEntriesReducer state pid requestId uri entries
      | _ \<Rightarrow> Some state)"

section \<open>Merging batches\<close>

lemma absorb_entries_append:
  "absorb_entries (xs @ ys) l = absorb_entries ys (absorb_entries xs l)"
  by (simp add: absorb_entries_def)

lemma absorb_entries_simps [simp]:
  "absorb_entries [] l = l"
  "absorb_entries (e # es) l = absorb_entries es (absorb_entry e l)"
  by (simp_all add: absorb_entries_def)

text \<open>What a listing holds after the entries: the last entry of each URI, listed in the order
  of first arrival behind what was there.\<close>

definition latest :: "FileEntryDto list \<Rightarrow> string \<Rightarrow> FileEntryDto option" where
  "latest es k = last_opt (filter (\<lambda>e. fe_uri e = k) es)"

lemma latest_simps [simp]:
  "latest [] k = None"
  "latest (e # es) k =
     (case latest es k of Some x \<Rightarrow> Some x | None \<Rightarrow> if fe_uri e = k then Some e else None)"
  by (auto simp: latest_def last_opt_def)

lemma absorb_entries_get:
  "obj_get (fst (absorb_entries es l)) k =
     (case latest es k of Some e \<Rightarrow> Some e | None \<Rightarrow> obj_get (fst l) k)"
  by (induction es arbitrary: l) (auto simp: absorb_entry_def split: option.splits prod.splits)

lemma absorb_entries_ids:
  "snd (absorb_entries es l) =
     snd l @ filter (\<lambda>u. u \<notin> fst ` set (fst l)) (set_of_array (map fe_uri es))"
proof (induction es arbitrary: l)
  case Nil
  then show ?case by simp
next
  case (Cons e es)
  obtain ents ids where l: "l = (ents, ids)" by (cases l)
  have f: "filter (\<lambda>u. u \<noteq> fe_uri e \<and> u \<notin> fst ` set ents) xs
      = filter (\<lambda>u. u \<notin> fst ` set ents) (filter (\<lambda>u. u \<noteq> fe_uri e) xs)" for xs
    by (simp add: conj_commute)
  have g: "filter (\<lambda>u. u \<noteq> fe_uri e \<and> u \<notin> fst ` set ents) xs
      = filter (\<lambda>u. u \<notin> fst ` set ents) xs" if "fe_uri e \<in> fst ` set ents" for xs
    using that by (intro filter_cong) auto
  show ?case
    using Cons.IH[of "absorb_entry e l"] f g by (simp add: l absorb_entry_def del: filter_filter)
qed

lemma absorb_entries_ok:
  "listing_ok (fst l) (snd l) \<Longrightarrow>
   listing_ok (fst (absorb_entries es l)) (snd (absorb_entries es l))"
proof (induction es arbitrary: l)
  case (Cons e es)
  have "listing_ok (fst (absorb_entry e l)) (snd (absorb_entry e l))"
    using listing_ok_set[OF Cons.prems, of e] by (cases l) (auto simp: absorb_entry_def split: if_splits)
  from Cons.IH[OF this] show ?case by simp
qed simp

section \<open>Well-formedness\<close>

lemma tab_ok_simps:
  "tab_ok (tab\<lparr>tab_backgroundListing := None\<rparr>) =
     listing_ok (tab_entriesById tab) (tab_orderedEntryIds tab)"
  by (simp add: tab_ok_def)

lemma background_for_ok: "tab_ok tab \<Longrightarrow> background_for tab r = Some bg \<Longrightarrow> bg_ok bg"
  by (auto simp: tab_ok_def background_for_def split: option.splits if_splits)

text \<open>The listing a batch is merged into.\<close>

definition batch_base :: "PanelTabState \<Rightarrow> string \<Rightarrow> (string, FileEntryDto) obj \<times> string list" where
  "batch_base tab r =
     (case background_for tab r of
        None \<Rightarrow> (tab_entriesById tab, tab_orderedEntryIds tab)
      | Some bg \<Rightarrow> (bg_entriesById bg, bg_orderedEntryIds bg))"

lemma batch_base_ok: "tab_ok tab \<Longrightarrow> listing_ok (fst (batch_base tab r)) (snd (batch_base tab r))"
  using background_for_ok[of tab r]
  by (auto simp: batch_base_def bg_ok_def tab_ok_def split: option.splits)

lemma batch_loaded_listing:
  "background_for tab (batch_requestId b) = None \<or> batch_isComplete b \<Longrightarrow>
   (tab_entriesById (batch_loaded b tab), tab_orderedEntryIds (batch_loaded b tab)) =
     absorb_entries (batch_entries b) (batch_base tab (batch_requestId b))"
  by (auto simp: batch_loaded_def batch_base_def Let_def split: prod.splits)

lemma batch_loaded_background:
  assumes "background_for tab (batch_requestId b) = Some bg" and "\<not> batch_isComplete b"
  shows "batch_loaded b tab = tab\<lparr>tab_backgroundListing := Some (bg
      \<lparr>bg_entriesById := fst (absorb_entries (batch_entries b) (batch_base tab (batch_requestId b))),
       bg_orderedEntryIds := snd (absorb_entries (batch_entries b) (batch_base tab (batch_requestId b)))\<rparr>),
     tab_error := map_option err_message (batch_error b),
     tab_errorCode := map_option err_code (batch_error b)\<rparr>"
  using assms by (simp add: batch_loaded_def batch_base_def Let_def split: prod.splits)

lemma batch_loaded_bg_kept:
  "background_for tab (batch_requestId b) = None \<or> batch_isComplete b \<Longrightarrow>
   tab_backgroundListing (batch_loaded b tab) =
     (if background_for tab (batch_requestId b) \<noteq> None then None else tab_backgroundListing tab)"
  by (auto simp: batch_loaded_def Let_def split: prod.splits)

lemma batch_loaded_ok [wf_intros]: "tab_ok tab \<Longrightarrow> tab_ok (batch_loaded b tab)"
proof -
  assume ok: "tab_ok tab"
  let ?l = "absorb_entries (batch_entries b) (batch_base tab (batch_requestId b))"
  have l: "listing_ok (fst ?l) (snd ?l)" using batch_base_ok[OF ok] by (rule absorb_entries_ok)
  show ?thesis
  proof (cases "background_for tab (batch_requestId b) = None \<or> batch_isComplete b")
    case True
    have "fst ?l = tab_entriesById (batch_loaded b tab)" "snd ?l = tab_orderedEntryIds (batch_loaded b tab)"
      using batch_loaded_listing[OF True] by (metis fst_conv, metis snd_conv)
    with l ok batch_loaded_bg_kept[OF True] show ?thesis
      by (auto simp: tab_ok_def split: option.splits)
  next
    case False
    then obtain bg where "background_for tab (batch_requestId b) = Some bg" "\<not> batch_isComplete b"
      by auto
    from batch_loaded_background[OF this] l ok show ?thesis by (simp add: tab_ok_def bg_ok_def)
  qed
qed

lemma batch_failed_ok [wf_intros]: "tab_ok tab \<Longrightarrow> tab_ok (batch_failed b e tab)"
  by (auto simp: batch_failed_def tab_ok_def split: option.splits)

lemma start_request_ok [wf_intros]: "tab_ok tab \<Longrightarrow> tab_ok (start_request r bgr tab)"
  by (simp add: start_request_def tab_ok_def bg_ok_def)

lemma start_session_ok [wf_intros]: "tab_ok tab \<Longrightarrow> tab_ok (start_session r s tab)"
  using background_for_ok[of tab r]
  by (auto simp: start_session_def tab_ok_def bg_ok_def split: option.splits)

lemma pane_error_ok [wf_intros]: "tab_ok (pane_error e c l tab) = tab_ok tab"
  by (simp add: pane_error_def tab_ok_def)

lemma fold_obj_set_ok:
  "distinct (obj_keys ob) \<Longrightarrow> list_all (\<lambda>(k, e). fe_uri e = k) ob \<Longrightarrow>
   (let ob' = fold (\<lambda>e. obj_set (fe_uri e) e) es ob
    in distinct (obj_keys ob') \<and> fst ` set ob' = fst ` set ob \<union> fe_uri ` set es \<and>
       list_all (\<lambda>(k, e). fe_uri e = k) ob')"
  by (induction es arbitrary: ob) (auto simp: Let_def list_all_obj_set simp del: set_map)

lemma archive_tab_ok [wf_intros]: "tab_ok (archive_tab u es tab)"
  using fold_obj_set_ok[of "[]" es] by (auto simp: archive_tab_def tab_ok_def listing_ok_def Let_def)

lemma fold_obj_del:
  "obj_keys (fold obj_del us ob) = filter (\<lambda>k. k \<notin> set us) (obj_keys ob)"
  "obj_get (fold obj_del us ob) k = (if k \<in> set us then None else obj_get ob k)"
  by (induction us arbitrary: ob) (auto simp: obj_keys_del conj_commute)

lemma list_all_fold_del: "list_all P ob \<Longrightarrow> list_all P (fold obj_del us ob)"
  by (induction us arbitrary: ob) (auto simp: list_all_obj_del)

lemma set_keys_fold_del: "fst ` set (fold obj_del us ob) = fst ` set ob - set us"
  by (induction us arbitrary: ob) auto

lemma remove_from_tab_ok [wf_intros]: "tab_ok tab \<Longrightarrow> tab_ok (remove_from_tab us tab)"
  by (auto simp: remove_from_tab_def tab_ok_def listing_ok_def Let_def fold_obj_del
      list_all_fold_del set_keys_fold_del)

lemma rename_in_tab_ok [wf_intros]:
  assumes "tab_ok tab" shows "tab_ok (rename_in_tab old new name tab)"
proof (cases "obj_get (tab_entriesById tab) old")
  case None
  with assms show ?thesis by (simp add: rename_in_tab_def)
next
  case (Some entry)
  let ?f = "\<lambda>i. if i = old then new else i"
  have ents: "distinct (obj_keys (tab_entriesById tab))"
      "set (tab_orderedEntryIds tab) = fst ` set (tab_entriesById tab)"
      "list_all (\<lambda>(k, e). fe_uri e = k) (tab_entriesById tab)"
    using assms by (simp_all add: tab_ok_def listing_ok_def)
  from Some have "old \<in> set (tab_orderedEntryIds tab)" by (simp add: ents(2) obj_get_Some_key)
  then have "?f ` set (tab_orderedEntryIds tab) = insert new (set (tab_orderedEntryIds tab) - {old})"
    by auto
  then have "listing_ok (obj_set new e (obj_del old (tab_entriesById tab)))
      (map ?f (tab_orderedEntryIds tab))" if "fe_uri e = new" for e
    using ents that
    by (simp only: listing_ok_def list_all_obj_set list_all_obj_del distinct_obj_set distinct_obj_del
        list.set_map set_obj_keys_set set_obj_keys_del prod.case simp_thms)
  with Some assms show ?thesis by (simp add: rename_in_tab_def tab_ok_def Let_def)
qed

lemma panels_map_tabs [simp]:
  "panels (map_tabs f s) p = (panels s p)\<lparr>panel_tabs := obj_map (\<lambda>_. f) (panel_tabs (panels s p))\<rparr>"
  by (simp add: map_tabs_def)

lemma tab_at_map_tabs [simp]: "tab_at (map_tabs f s) p i = map_option f (tab_at s p i)"
  by (simp add: tab_at_def)

lemma map_tabs_ok:
  assumes "panels_ok s" and "\<And>t. tab_ok t \<Longrightarrow> tab_ok (f t)"
  shows "panels_ok (map_tabs f s)"
proof (rule panels_okI)
  fix p
  have "list_all tab_ok (obj_values (panel_tabs (panels s p)))"
    using panels_okD[OF assms(1), of p] by (simp add: panel_ok_def)
  then have "list_all tab_ok (obj_values (obj_map (\<lambda>_. f) (panel_tabs (panels s p))))"
    using assms(2) by (auto simp: list_all_iff obj_map_def)
  then show "panel_ok (panels (map_tabs f s) p)"
    using panels_okD[OF assms(1), of p] by (simp add: panel_ok_def del: set_map)
qed

lemma updateRequestTab_ok:
  "panels_ok s \<Longrightarrow> (\<And>t. tab_ok t \<Longrightarrow> tab_ok (f t)) \<Longrightarrow> panels_ok (updateRequestTab s p r f)"
  by (auto simp: updateRequestTab_def updatePanelTab_ok split: option.splits)

lemma applyBatch_ok: "panels_ok s \<Longrightarrow> panels_ok (applyBatch s b)"
  by (auto simp: applyBatch_def updatePanelTab_ok batch_loaded_ok batch_failed_ok split: option.splits)

lemma reduceListing_ok:
  assumes "panels_ok s" shows "\<exists>s'. reduceListing s a = Some s' \<and> panels_ok s'"
proof -
  note [simp] = updateRequestTab_ok[OF assms] applyBatch_ok[OF assms] map_tabs_ok[OF assms] assms
    start_request_ok start_session_ok remove_from_tab_ok rename_in_tab_ok archive_tab_ok pane_error_ok
    updatePanel_Some[OF assms]
  have e: "tab_ok t \<Longrightarrow> tab_ok ((pane_error e c l t)\<lparr>tab_activeRequestId := None, tab_sessionId := None\<rparr>)"
    for t e c l
    by (simp add: pane_error_def tab_ok_def)
  show ?thesis
    by (cases a) (auto simp: reduceListing_def setArchiveEntriesReducer_def removeEntriesFromState_def
        renameEntryInState_def e)
qed

section \<open>Addressing a batch\<close>

lemma obj_find_set_key:
  "obj_get ob k = Some v \<Longrightarrow> P v' = P v \<Longrightarrow>
   map_option fst (obj_find P (obj_set k v' ob)) = map_option fst (obj_find P ob)"
  by (induction ob) (auto split: if_splits)

lemma find_tab_fst:
  "find_tab s P =
     (case map_option fst (obj_find P (panel_tabs (panels s Left))) of
        Some i \<Rightarrow> Some (Left, i)
      | None \<Rightarrow> map_option (\<lambda>i. (Right, i)) (map_option fst (obj_find P (panel_tabs (panels s Right)))))"
  by (auto simp: find_tab_def split: option.splits)

lemma find_tab_updatePanelTab:
  assumes "\<And>t. tab_at s p i = Some t \<Longrightarrow> P (f t) = P t"
  shows "find_tab (updatePanelTab s p i f) P = find_tab s P"
proof (cases "tab_at s p i")
  case None
  then show ?thesis by (simp add: updatePanelTab_def tab_at_def)
next
  case (Some t)
  then have u: "updatePanelTab s p i f = set_tab s p i (f t)"
    by (simp add: updatePanelTab_def tab_at_def)
  from Some have g: "obj_get (panel_tabs (panels s p)) i = Some t" by (simp add: tab_at_def)
  have "map_option fst (obj_find P (panel_tabs (panels (set_tab s p i (f t)) q))) =
      map_option fst (obj_find P (panel_tabs (panels s q)))" for q
    using obj_find_set_key[OF g, of P "f t"] assms[OF Some] by (simp add: panels_set_tab)
  then show ?thesis by (simp only: u find_tab_fst)
qed

text \<open>The fields by which a batch finds its tab.\<close>

definition route :: "PanelTabState \<Rightarrow> string option \<times> string option \<times> string option option" where
  "route t = (tab_sessionId t, tab_activeRequestId t, map_option bg_sessionId (tab_backgroundListing t))"

lemma batch_target_updatePanelTab:
  assumes "\<And>t. tab_at s p i = Some t \<Longrightarrow> route (f t) = route t"
  shows "batch_target (updatePanelTab s p i f) b = batch_target s b"
proof -
  have "findTabBySession (updatePanelTab s p i f) x = findTabBySession s x" for x
    unfolding findTabBySession_def
    by (rule find_tab_updatePanelTab, drule assms) (auto simp: route_def split: option.splits)
  moreover have "findTabByRequest (updatePanelTab s p i f) x = findTabByRequest s x" for x
  proof -
    have "find_tab (updatePanelTab s p i f) (\<lambda>tab. tab_activeRequestId tab = Some y) =
        find_tab s (\<lambda>tab. tab_activeRequestId tab = Some y)" for y
      by (rule find_tab_updatePanelTab, drule assms) (auto simp: route_def)
    then show ?thesis by (simp add: findTabByRequest_def Let_def)
  qed
  ultimately show ?thesis by (simp add: batch_target_def split: option.splits)
qed

lemma batch_loaded_route: "\<not> batch_isComplete b \<Longrightarrow> route (batch_loaded b t) = route t"
  by (auto simp: batch_loaded_def route_def Let_def background_for_def
      split: prod.splits option.splits if_splits)

lemma batch_target_SomeD:
  assumes "batch_target s b = Some (p, i)" and "panels_ok s"
  obtains t where "tab_at s p i = Some t"
  using assms find_tab_Some[OF _ assms(2)]
  by (fastforce simp: batch_target_def findTabBySession_def findTabByRequest_def Let_def
      split: option.splits if_splits)

lemma applyBatch_loaded:
  assumes "batch_target s b = Some (p, i)" and "tab_at s p i = Some t"
    and "shouldApplyBatch (tab_activeRequestId t) b"
    and "batch_isComplete b \<longrightarrow> batch_error b = None"
  shows "applyBatch s b = updatePanelTab s p i (batch_loaded b)"
  using assms by (auto simp: applyBatch_def tab_at_def split: option.splits)

lemma applyBatch_other:
  "tab_at (applyBatch s b) q j \<noteq> tab_at s q j \<Longrightarrow>
   \<exists>t. tab_at s q j = Some t \<and> shouldApplyBatch (tab_activeRequestId t) b"
  by (auto simp: applyBatch_def tab_at_updatePanelTab split: option.splits if_splits)
    (auto simp: tab_at_def)

section \<open>A sequence of batches\<close>

text \<open>The batches of one listing, delivered one after the other.\<close>

definition deliver :: "DirectoryBatchEventDto list \<Rightarrow> FileOctopusState \<Rightarrow> FileOctopusState" where
  "deliver bs s = fold (\<lambda>b st. applyBatch st b) bs s"

text \<open>The batches carry one session and one request and only the last is final.\<close>

definition same_listing :: "DirectoryBatchEventDto \<Rightarrow> DirectoryBatchEventDto \<Rightarrow> bool" where
  "same_listing b c \<longleftrightarrow> batch_sessionId b = batch_sessionId c \<and> batch_requestId b = batch_requestId c"

lemma same_listing_target: "same_listing b c \<Longrightarrow> batch_target s b = batch_target s c"
  by (auto simp: same_listing_def batch_target_def split: option.splits)

lemma same_listing_should: "same_listing b c \<Longrightarrow> shouldApplyBatch r b = shouldApplyBatch r c"
  by (simp add: same_listing_def shouldApplyBatch_def)

definition partial_of :: "DirectoryBatchEventDto \<Rightarrow> DirectoryBatchEventDto list \<Rightarrow> bool" where
  "partial_of c bs \<longleftrightarrow> list_all (\<lambda>b. same_listing b c \<and> \<not> batch_isComplete b) bs"

lemma batch_loaded_background_for:
  assumes "background_for t (batch_requestId b) = Some bg" and "\<not> batch_isComplete b"
  shows "background_for (batch_loaded b t) (batch_requestId b) = Some (bg
      \<lparr>bg_entriesById := fst (absorb_entries (batch_entries b) (batch_base t (batch_requestId b))),
       bg_orderedEntryIds := snd (absorb_entries (batch_entries b) (batch_base t (batch_requestId b)))\<rparr>)"
proof -
  from assms(1) have "bg_requestId bg = batch_requestId b"
    by (auto simp: background_for_def split: option.splits if_splits)
  then show ?thesis
    by (subst batch_loaded_background[OF assms]) (simp add: background_for_def)
qed

lemma batch_base_partial:
  assumes "same_listing b c" and "\<not> batch_isComplete b"
  shows "batch_base (batch_loaded b t) (batch_requestId c) =
    absorb_entries (batch_entries b) (batch_base t (batch_requestId c))"
proof (cases "background_for t (batch_requestId c)")
  case None
  from assms have r: "batch_requestId b = batch_requestId c" by (simp add: same_listing_def)
  with None have b: "background_for t (batch_requestId b) = None" by simp
  then have "background_for (batch_loaded b t) (batch_requestId b) = None"
    using batch_loaded_bg_kept[of t b] by (simp add: background_for_def)
  with b batch_loaded_listing[of t b] show ?thesis by (simp add: batch_base_def r)
next
  case (Some bg)
  from assms have r: "batch_requestId b = batch_requestId c" by (simp add: same_listing_def)
  with Some have b: "background_for t (batch_requestId b) = Some bg" by simp
  from batch_loaded_background_for[OF b assms(2)] show ?thesis
    unfolding r[symmetric] by (subst (1) batch_base_def) simp
qed

lemma background_for_partial:
  assumes "same_listing b c" and "\<not> batch_isComplete b"
  shows "(background_for (batch_loaded b t) (batch_requestId c) = None) =
    (background_for t (batch_requestId c) = None)"
proof (cases "background_for t (batch_requestId b)")
  case None
  then have "tab_backgroundListing (batch_loaded b t) = tab_backgroundListing t"
    using batch_loaded_bg_kept[of t b] by simp
  then show ?thesis by (simp add: background_for_def)
next
  case (Some bg)
  from batch_loaded_background_for[OF Some assms(2)] Some assms(1) show ?thesis
    by (simp add: same_listing_def)
qed

text \<open>What a run of partial batches leaves in the tab.\<close>

lemma deliver_partial:
  assumes "panels_ok s" and "batch_target s c = Some (p, i)" and "tab_at s p i = Some t"
    and "shouldApplyBatch (tab_activeRequestId t) c" and "partial_of c bs"
  shows "\<exists>t'. tab_at (deliver bs s) p i = Some t' \<and> panels_ok (deliver bs s) \<and>
      batch_target (deliver bs s) c = Some (p, i) \<and> tab_activeRequestId t' = tab_activeRequestId t \<and>
      batch_base t' (batch_requestId c) =
        absorb_entries (concat (map batch_entries bs)) (batch_base t (batch_requestId c)) \<and>
      (background_for t' (batch_requestId c) = None) = (background_for t (batch_requestId c) = None) \<and>
      (background_for t (batch_requestId c) \<noteq> None \<longrightarrow>
        tab_entriesById t' = tab_entriesById t \<and> tab_orderedEntryIds t' = tab_orderedEntryIds t \<and>
        tab_selectedIds t' = tab_selectedIds t \<and> tab_loadState t' = tab_loadState t)"
  using assms
proof (induction bs arbitrary: s t)
  case Nil
  then show ?case by (simp add: deliver_def)
next
  case (Cons b bs)
  then have b: "same_listing b c" "\<not> batch_isComplete b" and rest: "partial_of c bs"
    by (simp_all add: partial_of_def)
  from Cons.prems b have ap: "applyBatch s b = updatePanelTab s p i (batch_loaded b)"
    by (intro applyBatch_loaded) (simp_all add: same_listing_target same_listing_should)
  have ok: "panels_ok (applyBatch s b)" using Cons.prems(1) by (rule applyBatch_ok)
  have tgt: "batch_target (applyBatch s b) c = Some (p, i)"
    using Cons.prems(2) b(2) by (simp add: ap batch_target_updatePanelTab batch_loaded_route)
  have at: "tab_at (applyBatch s b) p i = Some (batch_loaded b t)"
    using Cons.prems(3) by (simp add: ap tab_at_updatePanelTab)
  have req: "tab_activeRequestId (batch_loaded b t) = tab_activeRequestId t"
    using batch_loaded_route[OF b(2), of t] by (simp add: route_def)
  have kept: "background_for t (batch_requestId c) \<noteq> None \<longrightarrow>
      tab_entriesById (batch_loaded b t) = tab_entriesById t \<and>
      tab_orderedEntryIds (batch_loaded b t) = tab_orderedEntryIds t \<and>
      tab_selectedIds (batch_loaded b t) = tab_selectedIds t \<and>
      tab_loadState (batch_loaded b t) = tab_loadState t"
    using batch_loaded_background[of t b] b by (auto simp: same_listing_def)
  have "deliver (b # bs) s = deliver bs (applyBatch s b)" by (simp add: deliver_def)
  with Cons.IH[OF ok tgt at _ rest] Cons.prems(4) req kept b show ?case
    by (simp add: batch_base_partial background_for_partial absorb_entries_append)
qed

text \<open>The state after the final batch.\<close>

lemma deliver_complete:
  assumes "panels_ok s" and "batch_target s c = Some (p, i)" and "tab_at s p i = Some t"
    and "shouldApplyBatch (tab_activeRequestId t) c" and "partial_of c bs"
    and "batch_isComplete c" and "batch_error c = None"
  shows "\<exists>t'. tab_at (deliver (bs @ [c]) s) p i = Some t' \<and>
      (tab_entriesById t', tab_orderedEntryIds t') =
        absorb_entries (concat (map batch_entries (bs @ [c]))) (batch_base t (batch_requestId c)) \<and>
      tab_loadState t' = (if tab_orderedEntryIds t' = [] then LEmpty else LLoaded) \<and>
      tab_activeRequestId t' = None \<and> tab_error t' = None \<and>
      background_for t' (batch_requestId c) = None"
proof -
  from deliver_partial[OF assms(1-5)] obtain t1 where
    t1: "tab_at (deliver bs s) p i = Some t1" "batch_target (deliver bs s) c = Some (p, i)"
      "tab_activeRequestId t1 = tab_activeRequestId t"
      "batch_base t1 (batch_requestId c) =
        absorb_entries (concat (map batch_entries bs)) (batch_base t (batch_requestId c))"
    by blast
  have "deliver (bs @ [c]) s = applyBatch (deliver bs s) c" by (simp add: deliver_def)
  also have "\<dots> = updatePanelTab (deliver bs s) p i (batch_loaded c)"
    using t1(3) assms(4,6,7) by (intro applyBatch_loaded[OF t1(2,1)]) simp_all
  finally have at: "tab_at (deliver (bs @ [c]) s) p i = Some (batch_loaded c t1)"
    using t1(1) by (simp add: tab_at_updatePanelTab)
  have l: "(tab_entriesById (batch_loaded c t1), tab_orderedEntryIds (batch_loaded c t1)) =
      absorb_entries (concat (map batch_entries (bs @ [c]))) (batch_base t (batch_requestId c))"
    using batch_loaded_listing[of t1 c] assms(6) t1(4) by (simp add: absorb_entries_append)
  have "tab_loadState (batch_loaded c t1) =
      (if tab_orderedEntryIds (batch_loaded c t1) = [] then LEmpty else LLoaded) \<and>
      tab_activeRequestId (batch_loaded c t1) = None \<and> tab_error (batch_loaded c t1) = None"
    using assms(6,7) by (auto simp: batch_loaded_def Let_def terminalLoadState_def split: prod.splits)
  moreover have "background_for (batch_loaded c t1) (batch_requestId c) = None"
    using batch_loaded_bg_kept[of t1 c] assms(6) by (auto simp: background_for_def split: option.splits)
  ultimately show ?thesis using at l by blast
qed

section \<open>A request from start to end\<close>

lemma updatePanel_active:
  assumes "panels_ok s"
  shows "\<exists>i t. panel_activeTabId (panels s p) = i \<and> tab_at s p i = Some t \<and> tab_ok t \<and>
    (\<forall>upd t'. upd t = Some t' \<longrightarrow> updatePanel s p upd = Some (set_tab s p i t'))"
  using panel_ok_active[OF panels_okD[OF assms], of p]
  by (auto simp: updatePanel_def tab_at_def activeTab_def)

text \<open>No tab knows the request or the session.\<close>

definition unknown_to_tabs :: "FileOctopusState \<Rightarrow> string \<Rightarrow> string \<Rightarrow> bool" where
  "unknown_to_tabs s r sess \<longleftrightarrow>
     (\<forall>p. list_all (\<lambda>t. tab_activeRequestId t \<noteq> Some r \<and> tab_sessionId t \<noteq> Some sess \<and>
        (case tab_backgroundListing t of None \<Rightarrow> True | Some bg \<Rightarrow> bg_sessionId bg \<noteq> Some sess))
        (obj_values (panel_tabs (panels s p))))"

lemma unknown_to_tabsD:
  "unknown_to_tabs s r sess \<Longrightarrow> tab_at s p i = Some t \<Longrightarrow>
   tab_activeRequestId t \<noteq> Some r \<and> tab_sessionId t \<noteq> Some sess \<and>
   (case tab_backgroundListing t of None \<Rightarrow> True | Some bg \<Rightarrow> bg_sessionId bg \<noteq> Some sess)"
  unfolding unknown_to_tabs_def list_all_iff tab_at_def by (metis list.set_map obj_get_value)

text \<open>The two actions with which a load begins.\<close>

definition begin_load ::
  "FileOctopusState \<Rightarrow> PanelId \<Rightarrow> string \<Rightarrow> string \<Rightarrow> bool \<Rightarrow> FileOctopusState option" where
  "begin_load s p r sess bgr =
     do { s1 \<leftarrow> reduceListing s (StartRequest p r bgr);
          reduceListing s1 (StartSession p r sess) }"

lemma begin_load_state:
  assumes "panels_ok s" and "unknown_to_tabs s r sess" and "js_trim r = r" and "r \<noteq> []"
    and "tab_at s p (panel_activeTabId (panels s p)) = Some t"
  defines "i \<equiv> panel_activeTabId (panels s p)"
  shows "\<exists>s'. begin_load s p r sess bgr = Some s' \<and> panels_ok s' \<and>
    tab_at s' p i = Some (start_session r sess (start_request r bgr t)) \<and>
    (\<forall>b. batch_sessionId b = sess \<longrightarrow> batch_target s' b = Some (p, i))"
proof -
  have tok: "tab_ok t" using panel_ok_tab[OF panels_okD[OF assms(1)]] assms(5) by (auto simp: tab_at_def)
  define s1 where "s1 = set_tab s p i (start_request r bgr t)"
  have r1: "reduceListing s (StartRequest p r bgr) = Some s1"
    using assms(5) by (simp add: reduceListing_def updatePanel_def activeTab_def tab_at_def s1_def i_def)
  have ok1: "panels_ok s1" unfolding s1_def using assms(1) tok by (simp add: panels_ok_set_tab start_request_ok)
  have at1: "tab_at s1 q j = (if q = p \<and> j = i then Some (start_request r bgr t) else tab_at s q j)" for q j
    by (simp add: s1_def)
  have "find_tab s1 (\<lambda>tab. tab_activeRequestId tab = Some r) = Some (p, i)"
    using at1 unknown_to_tabsD[OF assms(2)]
    by (intro find_tab_unique[OF ok1]) (auto simp: start_request_def split: if_splits)
  then have "findTabByRequest s1 r = Some (p, i)" using assms(3,4) by (simp add: findTabByRequest_def)
  then have r2: "reduceListing s1 (StartSession p r sess) = Some (updatePanelTab s1 p i (start_session r sess))"
    by (simp add: reduceListing_def updateRequestTab_def)
  define s2 where "s2 = updatePanelTab s1 p i (start_session r sess)"
  have ok2: "panels_ok s2" unfolding s2_def using ok1 by (rule updatePanelTab_ok) (rule start_session_ok)
  have at2: "tab_at s2 q j = (if q = p \<and> j = i then Some (start_session r sess (start_request r bgr t))
      else tab_at s q j)" for q j
    by (auto simp: s2_def tab_at_updatePanelTab at1)
  have "findTabBySession s2 sess = Some (p, i)"
    unfolding findTabBySession_def
    by (rule find_tab_unique[OF ok2])
      (insert at2 unknown_to_tabsD[OF assms(2)],
        force simp: start_session_def, force simp: start_session_def, force split: if_splits option.splits)
  then have "batch_target s2 b = Some (p, i)" if "batch_sessionId b = sess" for b
    using that by (simp add: batch_target_def)
  with r1 r2 ok2 at2 show ?thesis by (auto simp: begin_load_def s2_def)
qed

lemma begin_load_base:
  "shouldApplyBatch (tab_activeRequestId (start_session r sess (start_request r bgr t))) c \<longleftrightarrow>
     r \<noteq> [] \<and> js_trim (batch_requestId c) = r \<or> r = [] \<and> js_trim (batch_requestId c) = []"
  "batch_base (start_session r sess (start_request r bgr t)) r =
     (if bgr then ([], []) else (tab_entriesById t, tab_orderedEntryIds t))"
  "(background_for (start_session r sess (start_request r bgr t)) r = None) = (\<not> bgr)"
  "tab_entriesById (start_session r sess (start_request r bgr t)) = tab_entriesById t"
  "tab_orderedEntryIds (start_session r sess (start_request r bgr t)) = tab_orderedEntryIds t"
  "tab_selectedIds (start_session r sess (start_request r bgr t)) = tab_selectedIds t"
  "bgr \<Longrightarrow> tab_loadState (start_session r sess (start_request r bgr t)) = tab_loadState t"
  by (auto simp: start_session_def start_request_def shouldApplyBatch_def Let_def batch_base_def
      background_for_def split: option.splits)

section \<open>Removing and renaming\<close>

lemma remove_from_tab_fields:
  assumes "tab_ok t"
  shows "tab_orderedEntryIds (remove_from_tab us t) = filter (\<lambda>i. i \<notin> set us) (tab_orderedEntryIds t)"
    and "obj_get (tab_entriesById (remove_from_tab us t)) k =
      (if k \<in> set us then None else obj_get (tab_entriesById t) k)"
proof -
  have none: "obj_get (tab_entriesById t) k = None" if "k \<notin> set (tab_orderedEntryIds t)"
    using assms that by (simp add: tab_ok_def listing_ok_def map_of_eq_None_iff)
  show "tab_orderedEntryIds (remove_from_tab us t) = filter (\<lambda>i. i \<notin> set us) (tab_orderedEntryIds t)"
    by (auto simp: remove_from_tab_def Let_def list_ex_iff intro!: filter_True[symmetric])
  show "obj_get (tab_entriesById (remove_from_tab us t)) k =
      (if k \<in> set us then None else obj_get (tab_entriesById t) k)"
    using none by (auto simp: remove_from_tab_def Let_def fold_obj_del list_ex_iff)
qed

text \<open>The parts of a tab that name entries.\<close>

definition same_listing_view :: "PanelTabState \<Rightarrow> PanelTabState \<Rightarrow> bool" where
  "same_listing_view t u \<longleftrightarrow>
     tab_orderedEntryIds t = tab_orderedEntryIds u \<and>
     map_of (tab_entriesById t) = map_of (tab_entriesById u) \<and>
     tab_selectedIds t = tab_selectedIds u \<and> tab_selectedId t = tab_selectedId u \<and>
     tab_focusedId t = tab_focusedId u \<and> tab_anchorId t = tab_anchorId u"

text \<open>The URI occurs nowhere in a tab.\<close>

definition fresh_in_tab :: "string \<Rightarrow> PanelTabState \<Rightarrow> bool" where
  "fresh_in_tab u t \<longleftrightarrow>
     u \<notin> set (tab_orderedEntryIds t) \<and> \<not> obj_has (tab_entriesById t) u \<and>
     u \<notin> set (tab_selectedIds t) \<and> tab_selectedId t \<noteq> Some u \<and>
     tab_focusedId t \<noteq> Some u \<and> tab_anchorId t \<noteq> Some u"

lemma map_swap_back:
  "new \<notin> set xs \<Longrightarrow>
   map (\<lambda>i. if i = new then old else i) (map (\<lambda>i. if i = old then new else i) xs) = xs"
  by (induction xs) auto

lemma opt_swap_back:
  "x \<noteq> Some new \<Longrightarrow>
   map_option (\<lambda>i. if i = new then old else i) (map_option (\<lambda>i. if i = old then new else i) x) = x"
  by (cases x) auto

section \<open>Properties\<close>

text \<open>C2: a load delivers its listing whole, however it is cut into batches. After a request
  and its session were started for the active tab of a panel, with ids no tab knew, any
  number of partial batches followed by a final one leave in that tab exactly the entries of
  all batches: each URI is listed once, in order of first arrival, with the entry that
  arrived last; a background refresh replaces what was listed, a plain request extends it.
  The tab ends loaded or empty and waits for nothing.\<close>

theorem load_delivers_listing:
  assumes "panels_ok s" and "unknown_to_tabs s r sess" and "js_trim r = r" and "r \<noteq> []"
    and "tab_at s p (panel_activeTabId (panels s p)) = Some t"
    and "begin_load s p r sess bgr = Some s0"
    and "partial_of c bs" and "batch_isComplete c" and "batch_error c = None"
    and "batch_sessionId c = sess" and "batch_requestId c = r"
  shows "\<exists>t'. tab_at (deliver (bs @ [c]) s0) p (panel_activeTabId (panels s p)) = Some t' \<and>
    tab_orderedEntryIds t' =
      (let uris = set_of_array (map fe_uri (concat (map batch_entries (bs @ [c]))))
       in if bgr then uris
          else tab_orderedEntryIds t @ filter (\<lambda>u. u \<notin> set (tab_orderedEntryIds t)) uris) \<and>
    (\<forall>k. obj_get (tab_entriesById t') k =
      (case latest (concat (map batch_entries (bs @ [c]))) k of
         Some e \<Rightarrow> Some e
       | None \<Rightarrow> if bgr then None else obj_get (tab_entriesById t) k)) \<and>
    tab_loadState t' = (if tab_orderedEntryIds t' = [] then LEmpty else LLoaded) \<and>
    tab_activeRequestId t' = None \<and> tab_error t' = None"
proof -
  let ?t0 = "start_session r sess (start_request r bgr t)"
  let ?l = "absorb_entries (concat (map batch_entries (bs @ [c]))) (batch_base ?t0 r)"
  from begin_load_state[OF assms(1-5), of bgr] assms(6,10) have s0: "panels_ok s0"
      "tab_at s0 p (panel_activeTabId (panels s p)) = Some ?t0"
      "batch_target s0 c = Some (p, panel_activeTabId (panels s p))"
    by auto
  have should: "shouldApplyBatch (tab_activeRequestId ?t0) c"
    using assms(3,4,11) by (simp add: begin_load_base(1))
  from deliver_complete[OF s0(1,3,2) should assms(7-9)] obtain t'
    where t': "tab_at (deliver (bs @ [c]) s0) p (panel_activeTabId (panels s p)) = Some t'"
      "(tab_entriesById t', tab_orderedEntryIds t') = ?l"
      "tab_loadState t' = (if tab_orderedEntryIds t' = [] then LEmpty else LLoaded)"
      "tab_activeRequestId t' = None" "tab_error t' = None"
    unfolding assms(11) by blast
  have keys: "fst ` set (tab_entriesById t) = set (tab_orderedEntryIds t)"
    using panel_ok_tab[OF panels_okD[OF assms(1)]] assms(5)
    by (auto simp: tab_at_def tab_ok_def listing_ok_def)
  have eq: "tab_entriesById t' = fst ?l" "tab_orderedEntryIds t' = snd ?l"
    using t'(2) by (metis fst_conv, metis snd_conv)
  have "tab_orderedEntryIds t' =
      (let uris = set_of_array (map fe_uri (concat (map batch_entries (bs @ [c]))))
       in if bgr then uris
          else tab_orderedEntryIds t @ filter (\<lambda>u. u \<notin> set (tab_orderedEntryIds t)) uris)"
    unfolding eq absorb_entries_ids Let_def begin_load_base(2) by (simp add: keys)
  moreover have "obj_get (tab_entriesById t') k =
      (case latest (concat (map batch_entries (bs @ [c]))) k of
         Some e \<Rightarrow> Some e
       | None \<Rightarrow> if bgr then None else obj_get (tab_entriesById t) k)" for k
    unfolding eq absorb_entries_get begin_load_base(2) by (simp split: option.split)
  ultimately show ?thesis using t' by blast
qed

definition sample_batch :: "FileEntryDto list \<Rightarrow> bool \<Rightarrow> DirectoryBatchEventDto" where
  "sample_batch es final =
     \<lparr>batch_sessionId = ''s1'', batch_requestId = ''r1'', batch_uri = ''local:///d'',
      batch_entries = es, batch_batchIndex = 0, batch_isComplete = final,
      batch_totalHint = None, batch_error = None\<rparr>"

lemma sample_unknown [simp]: "unknown_to_tabs sample_state ''r1'' ''s1''"
  by (simp add: unknown_to_tabs_def all_PanelId blank_tab_def)

lemma sample_trim [simp]: "js_trim ''r1'' = ''r1''"
  by code_simp

lemma sample_load: "\<exists>s0. begin_load sample_state Left ''r1'' ''s1'' True = Some s0"
  using begin_load_state[of sample_state "''r1''" "''s1''" Left sample_tab True] by auto

theorem load_delivers_listing_witness:
  "\<exists>s0 t'. begin_load sample_state Left ''r1'' ''s1'' True = Some s0 \<and>
     tab_at (deliver ([sample_batch [entry_b] False] @ [sample_batch [entry_a] True]) s0)
       Left ''main'' = Some t' \<and>
     tab_orderedEntryIds t' = [''local:///d/b'', ''local:///d/a'']"
proof -
  from sample_load obtain s0 where s0: "begin_load sample_state Left ''r1'' ''s1'' True = Some s0" ..
  show ?thesis
    using s0 load_delivers_listing[of sample_state "''r1''" "''s1''" Left sample_tab True s0
        "sample_batch [entry_a] True" "[sample_batch [entry_b] False]"]
    by (auto simp: sample_batch_def partial_of_def same_listing_def Let_def)
qed

text \<open>A background refresh shows nothing before it is complete. While partial batches
  arrive after a background request, the tab keeps its listed entries, their order, its
  selection and its load state.\<close>

theorem background_refresh_hidden:
  assumes "panels_ok s" and "unknown_to_tabs s r sess" and "js_trim r = r" and "r \<noteq> []"
    and "tab_at s p (panel_activeTabId (panels s p)) = Some t"
    and "begin_load s p r sess True = Some s0"
    and "partial_of c bs" and "batch_sessionId c = sess" and "batch_requestId c = r"
  shows "\<exists>t'. tab_at (deliver bs s0) p (panel_activeTabId (panels s p)) = Some t' \<and>
    tab_entriesById t' = tab_entriesById t \<and> tab_orderedEntryIds t' = tab_orderedEntryIds t \<and>
    tab_selectedIds t' = tab_selectedIds t \<and> tab_loadState t' = tab_loadState t"
proof -
  let ?t0 = "start_session r sess (start_request r True t)"
  from begin_load_state[OF assms(1-5), of True] assms(6,8) have s0: "panels_ok s0"
      "tab_at s0 p (panel_activeTabId (panels s p)) = Some ?t0"
      "batch_target s0 c = Some (p, panel_activeTabId (panels s p))"
    by auto
  have should: "shouldApplyBatch (tab_activeRequestId ?t0) c"
    using assms(3,4,9) by (simp add: begin_load_base(1))
  have "background_for ?t0 (batch_requestId c) \<noteq> None"
    using begin_load_base(3)[of r sess True t] assms(9) by simp
  with deliver_partial[OF s0(1,3,2) should assms(7)] begin_load_base(4-7)[where bgr=True]
  show ?thesis by force
qed

theorem background_refresh_hidden_witness:
  "\<exists>s0 t'. begin_load sample_state Left ''r1'' ''s1'' True = Some s0 \<and>
     tab_at (deliver [sample_batch [entry_b] False] s0) Left ''main'' = Some t' \<and>
     tab_orderedEntryIds t' = [''local:///d/a'', ''local:///d/b''] \<and>
     tab_selectedIds t' = [''local:///d/a'']"
proof -
  from sample_load obtain s0 where s0: "begin_load sample_state Left ''r1'' ''s1'' True = Some s0" ..
  show ?thesis
    using s0 background_refresh_hidden[of sample_state "''r1''" "''s1''" Left sample_tab s0
        "sample_batch [entry_a] True" "[sample_batch [entry_b] False]"]
    by (auto simp: sample_batch_def partial_of_def same_listing_def)
qed

text \<open>A superseded load is ignored. Once a request was started in the active tab of a
  panel, a batch of any other request leaves that tab as it is, whatever its session.\<close>

theorem stale_batch_ignored:
  assumes "reduceListing s (StartRequest p r bgr) = Some s'" and "r \<noteq> []"
    and "js_trim (batch_requestId b) \<noteq> r"
  shows "tab_at (applyBatch s' b) p (panel_activeTabId (panels s p)) =
    tab_at s' p (panel_activeTabId (panels s p))"
proof -
  from assms(1) obtain t where "activeTab (panels s p) = Some t"
    and s': "s' = set_tab s p (panel_activeTabId (panels s p)) (start_request r bgr t)"
    by (auto simp: reduceListing_def updatePanel_def bind_eq_Some_conv)
  then have "tab_at s' p (panel_activeTabId (panels s p)) = Some (start_request r bgr t)"
    by simp
  moreover have "\<not> shouldApplyBatch (tab_activeRequestId (start_request r bgr t)) b"
    using assms(2,3) by (auto simp: start_request_def shouldApplyBatch_def Let_def)
  ultimately show ?thesis using applyBatch_other[of s' b p "panel_activeTabId (panels s p)"] by auto
qed

theorem stale_batch_ignored_witness:
  "\<exists>s'. reduceListing sample_state (StartRequest Left ''r2'' False) = Some s' \<and>
     tab_at (applyBatch s' (sample_batch [entry_a] True)) Left ''main'' = tab_at s' Left ''main''"
proof -
  from reduceListing_ok[OF sample_state_ok] obtain s'
    where s': "reduceListing sample_state (StartRequest Left ''r2'' False) = Some s'" by blast
  with stale_batch_ignored[OF s', of "sample_batch [entry_a] True"] show ?thesis
    by (auto simp: sample_batch_def)
qed

text \<open>Deleting entries removes them from every tab of both panels and touches nothing
  else in the listings: the remaining ids keep their order, the remaining entries are
  unchanged, and no tab selects a removed entry that it listed.\<close>

theorem removeEntries_everywhere:
  assumes "panels_ok s" and "tab_at s p i = Some t"
  shows "\<exists>t'. tab_at (removeEntriesFromState s us) p i = Some t' \<and>
    tab_orderedEntryIds t' = filter (\<lambda>u. u \<notin> set us) (tab_orderedEntryIds t) \<and>
    (\<forall>k. obj_get (tab_entriesById t') k =
       (if k \<in> set us then None else obj_get (tab_entriesById t) k)) \<and>
    (set us \<inter> set (tab_orderedEntryIds t) \<noteq> {} \<longrightarrow> set us \<inter> set (tab_selectedIds t') = {})"
proof -
  have ok: "tab_ok t" using panel_ok_tab[OF panels_okD[OF assms(1)]] assms(2) by (auto simp: tab_at_def)
  have at: "tab_at (removeEntriesFromState s us) p i = Some (remove_from_tab us t)"
    using assms(2) by (cases "us = []") (auto simp: removeEntriesFromState_def remove_from_tab_def list_ex_iff)
  have "set us \<inter> set (tab_orderedEntryIds t) \<noteq> {} \<longrightarrow>
      set us \<inter> set (tab_selectedIds (remove_from_tab us t)) = {}"
    by (auto simp: remove_from_tab_def Let_def list_ex_iff)
  with at remove_from_tab_fields[OF ok] show ?thesis by auto
qed

theorem removeEntries_everywhere_witness:
  "\<exists>t'. tab_at (removeEntriesFromState sample_state [''local:///d/a'']) Left ''main'' = Some t' \<and>
     tab_orderedEntryIds t' = [''local:///d/b''] \<and> ''local:///d/a'' \<notin> set (tab_selectedIds t')"
  using removeEntries_everywhere[of sample_state Left "''main''" sample_tab "[''local:///d/a'']"]
  by auto

text \<open>Renaming an entry and renaming it back restores every listing. The new URI must
  be unknown to the tab and the entry's extension the one its name gives, or none for a
  directory; then entries, order, selection, focus and anchor are those before.\<close>

theorem rename_and_back:
  assumes "tab_ok t" and "obj_get (tab_entriesById t) old = Some e" and "fresh_in_tab new t"
    and "fe_extension e = (if fe_kind e = KDirectory then None else extensionFromName (fe_name e))"
  shows "same_listing_view
    (rename_in_tab new old (fe_name e) (rename_in_tab old new name t)) t"
proof -
  have ne: "new \<noteq> old" using assms(2,3) by (auto simp: fresh_in_tab_def dest: obj_get_Some_key)
  have uri: "fe_uri e = old" using assms(1,2) listing_ok_get by (auto simp: tab_ok_def)
  have nonew: "obj_get (tab_entriesById t) new = None"
    using assms(3) by (simp add: fresh_in_tab_def map_of_eq_None_iff)
  have same: "e\<lparr>fe_uri := old, fe_name := fe_name e,
      fe_extension := (if fe_kind e = KDirectory then None else extensionFromName (fe_name e))\<rparr> = e"
    using uri assms(4) by simp
  show ?thesis
    using assms(2,3) ne nonew same
    by (auto simp: rename_in_tab_def Let_def same_listing_view_def fresh_in_tab_def fun_eq_iff
        map_swap_back[unfolded list.map_comp] opt_swap_back
        simp del: list.map_comp option.map_comp list.map_id list.map_ident)
qed

theorem rename_and_back_witness:
  "same_listing_view
    (rename_in_tab ''local:///d/c'' ''local:///d/a'' ''a''
       (rename_in_tab ''local:///d/a'' ''local:///d/c'' ''c'' sample_tab)) sample_tab"
proof -
  have "extensionFromName ''a'' = None" by code_simp
  then show ?thesis
    using rename_and_back[of sample_tab "''local:///d/a''" entry_a "''local:///d/c''" "''c''"]
    by (simp add: fresh_in_tab_def entry_a_def sample_entry_def)
qed

end
