(* ===== verification/Navigation.thy ===== *)
theory Navigation
  imports Samples
begin

text \<open>
  Navigation within a tab: \<open>applyNavigation\<close> of \<open>panelStore.ts\<close> and the navigation slice
  (\<open>state/slices/navigationSlice.ts\<close>). A tab's history is its back stack, its URI and its
  forward stack.
\<close>

section \<open>Definitions\<close>

text \<open>\<open>backgroundRefresh\<close> is an option that \<open>applyNavigation\<close> receives and does not read.\<close>

definition applyNavigation ::
  "PanelTabState \<Rightarrow> string \<Rightarrow> bool \<Rightarrow> bool \<Rightarrow> string list option \<Rightarrow> string list option \<Rightarrow> PanelTabState" where
  "applyNavigation tab uri replace softRefresh optBack optForward =
     (let changed = (uri \<noteq> tab_uri tab) in
      if softRefresh \<and> \<not> changed \<and> tab_loadState tab \<noteq> LError
      then tab\<lparr>tab_sessionId := None, tab_activeRequestId := None, tab_backgroundListing := None\<rparr>
      else let backStack = (case optBack of
                 Some b \<Rightarrow> b
               | None \<Rightarrow> if \<not> replace \<and> changed then tab_backStack tab @ [tab_uri tab]
                         else tab_backStack tab);
               forwardStack = (case optForward of
                 Some f \<Rightarrow> f
               | None \<Rightarrow> if \<not> replace \<and> changed then [] else tab_forwardStack tab)
           in tab\<lparr>tab_tabKind := TDirectory, tab_uri := uri, tab_previewEntry := None,
                  tab_editorEntry := None, tab_gitReview := None, tab_entriesById := [],
                  tab_orderedEntryIds := [], tab_selectedIds := [], tab_selectedId := None,
                  tab_focusedId := None, tab_anchorId := None, tab_sessionId := None,
                  tab_activeRequestId := None, tab_loadState := LLoading, tab_error := None,
                  tab_errorCode := None, tab_filter := [],
                  tab_contentSearchQuery := (if changed then [] else tab_contentSearchQuery tab),
                  tab_contentSearch := (if changed then None else tab_contentSearch tab),
                  tab_backStack := backStack, tab_forwardStack := forwardStack,
                  tab_backgroundListing := None\<rparr>)"

definition isNavigationAction :: "PanelAction \<Rightarrow> bool" where
  "isNavigationAction a =
     (case a of SetActivePanel _ \<Rightarrow> True | Navigate _ _ _ _ _ \<Rightarrow> True | GoBack _ \<Rightarrow> True
      | GoForward _ \<Rightarrow> True | _ \<Rightarrow> False)"

text \<open>An empty URI on a stack counts as none.\<close>

definition go_back :: "PanelTabState \<Rightarrow> PanelTabState" where
  "go_back tab =
     (case last_opt (tab_backStack tab) of
        None \<Rightarrow> tab
      | Some uri \<Rightarrow>
          (if uri = [] then tab
           else applyNavigation tab uri True False
                  (Some (butlast (tab_backStack tab))) (Some (tab_uri tab # tab_forwardStack tab))))"

definition go_forward :: "PanelTabState \<Rightarrow> PanelTabState" where
  "go_forward tab =
     (case tab_forwardStack tab of
        [] \<Rightarrow> tab
      | uri # rest \<Rightarrow>
          (if uri = [] then tab
           else applyNavigation tab uri True False
                  (Some (tab_backStack tab @ [tab_uri tab])) (Some rest)))"

definition reduceNavigation :: "FileOctopusState \<Rightarrow> PanelAction \<Rightarrow> FileOctopusState option" where
  "reduceNavigation state action =
     (case action of
        SetActivePanel pid \<Rightarrow> Some (state\<lparr>activePanelId := pid\<rparr>)
      | Navigate pid uri replace softRefresh backgroundRefresh \<Rightarrow>
          updatePanel state pid (\<lambda>tab.
            Some (applyNavigation tab (normalizeLocalInput uri) replace softRefresh None None))
      | GoBack pid \<Rightarrow> updatePanel state pid (\<lambda>tab. Some (go_back tab))
      | GoForward pid \<Rightarrow> updatePanel state pid (\<lambda>tab. Some (go_forward tab))
      | _ \<Rightarrow> Some state)"

section \<open>History\<close>

text \<open>The line of places a tab has been to, with the current one among them.\<close>

definition history_line :: "PanelTabState \<Rightarrow> string list" where
  "history_line tab = tab_backStack tab @ tab_uri tab # tab_forwardStack tab"

definition history_pos :: "PanelTabState \<Rightarrow> nat" where
  "history_pos tab = length (tab_backStack tab)"

lemma history_current: "history_line tab ! history_pos tab = tab_uri tab"
  by (simp add: history_line_def history_pos_def)

lemma applyNavigation_stacks:
  "tab_uri (applyNavigation t u rep False (Some b) (Some f)) = u"
  "tab_backStack (applyNavigation t u rep False (Some b) (Some f)) = b"
  "tab_forwardStack (applyNavigation t u rep False (Some b) (Some f)) = f"
  by (simp_all add: applyNavigation_def Let_def)

lemma applyNavigation_ok [wf_intros]: "tab_ok t \<Longrightarrow> tab_ok (applyNavigation t u r sr b f)"
  by (simp add: applyNavigation_def Let_def tab_ok_def)

lemma go_back_ok [wf_intros]: "tab_ok t \<Longrightarrow> tab_ok (go_back t)"
  by (simp add: go_back_def applyNavigation_ok split: option.split)

lemma go_forward_ok [wf_intros]: "tab_ok t \<Longrightarrow> tab_ok (go_forward t)"
  by (simp add: go_forward_def applyNavigation_ok split: list.split)

lemma reduceNavigation_ok:
  assumes "panels_ok s" shows "\<exists>s'. reduceNavigation s a = Some s' \<and> panels_ok s'"
proof -
  have active: "panels_ok (s\<lparr>activePanelId := p\<rparr>)" for p using assms by (simp add: panels_ok_def)
  show ?thesis
    by (cases a)
      (use assms updatePanel_Some[OF assms] active in
        \<open>auto simp: reduceNavigation_def applyNavigation_ok go_back_ok go_forward_ok\<close>)
qed

lemma go_back_line:
  "history_line (go_back t) = history_line t \<and> history_pos (go_back t) \<le> history_pos t"
proof (cases "last_opt (tab_backStack t)")
  case None
  then show ?thesis by (simp add: go_back_def)
next
  case (Some u)
  from last_opt_butlast[OF Some] have "butlast (tab_backStack t) @ [u] = tab_backStack t" by simp
  then show ?thesis using Some
    by (auto simp: go_back_def history_line_def history_pos_def applyNavigation_stacks)
qed

lemma go_forward_line:
  "history_line (go_forward t) = history_line t \<and> history_pos t \<le> history_pos (go_forward t)"
  by (cases "tab_forwardStack t")
    (auto simp: go_forward_def history_line_def history_pos_def applyNavigation_stacks)

text \<open>What a tab looks like after a move in its history: its place and stacks, and nothing
  that belonged to the place before.\<close>

lemma go_back_Some:
  "last_opt (tab_backStack t) = Some u \<Longrightarrow> u \<noteq> [] \<Longrightarrow>
   go_back t = applyNavigation t u True False (Some (butlast (tab_backStack t)))
     (Some (tab_uri t # tab_forwardStack t))"
  by (simp add: go_back_def)

section \<open>Properties\<close>

text \<open>C32: going back and forward never loses a place. Any sequence of back and forward moves
  keeps the line of visited places of the tab as it is, and the tab is always at one of
  them.\<close>

datatype move = Back | Forward

primrec walk :: "move list \<Rightarrow> PanelTabState \<Rightarrow> PanelTabState" where
  "walk [] t = t"
| "walk (m # ms) t = walk ms (case m of Back \<Rightarrow> go_back t | Forward \<Rightarrow> go_forward t)"

theorem history_never_lost:
  "history_line (walk ms t) = history_line t \<and>
   history_pos (walk ms t) < length (history_line t) \<and>
   tab_uri (walk ms t) = history_line t ! history_pos (walk ms t)"
proof -
  have line: "history_line (walk ms t) = history_line t"
    by (induction ms arbitrary: t) (auto simp: go_back_line go_forward_line split: move.split)
  moreover have "history_pos u < length (history_line u)" for u
    by (simp add: history_line_def history_pos_def)
  ultimately show ?thesis by (metis history_current)
qed

text \<open>Back, then forward, returns. When the back stack ends in a place, going back puts
  the tab there, and going forward then restores its place and both stacks.\<close>

theorem back_then_forward:
  assumes "last_opt (tab_backStack t) = Some u" and "u \<noteq> []" and "tab_uri t \<noteq> []"
  shows "tab_uri (go_back t) = u \<and> tab_uri (go_forward (go_back t)) = tab_uri t \<and>
    tab_backStack (go_forward (go_back t)) = tab_backStack t \<and>
    tab_forwardStack (go_forward (go_back t)) = tab_forwardStack t"
proof -
  have "butlast (tab_backStack t) @ [u] = tab_backStack t"
    using last_opt_butlast[OF assms(1)] by simp
  then show ?thesis using assms(3)
    by (simp add: go_back_Some[OF assms(1,2)] go_forward_def applyNavigation_stacks)
qed

theorem back_then_forward_witness:
  "tab_uri (go_forward (go_back (sample_tab\<lparr>tab_backStack := [''local:///x'']\<rparr>))) = ''local:///d''"
  using back_then_forward[of "sample_tab\<lparr>tab_backStack := [''local:///x'']\<rparr>" "''local:///x''"]
  by (simp add: last_opt_def)

text \<open>A navigation to another place starts it clean. The tab forgets the entries,
  selection, filter, requests and content search of the old place, is loading, and the old
  place is the one that back returns to, with nothing ahead.\<close>

theorem navigate_elsewhere:
  assumes "tab_at s p (panel_activeTabId (panels s p)) = Some t"
    and "normalizeLocalInput u \<noteq> tab_uri t"
    and "reduceNavigation s (Navigate p u False sr bgr) = Some s'"
  shows "\<exists>t'. tab_at s' p (panel_activeTabId (panels s p)) = Some t' \<and>
    tab_uri t' = normalizeLocalInput u \<and> tab_tabKind t' = TDirectory \<and>
    history_line t' = tab_backStack t @ [tab_uri t, normalizeLocalInput u] \<and>
    tab_forwardStack t' = [] \<and>
    tab_entriesById t' = [] \<and> tab_orderedEntryIds t' = [] \<and> tab_selectedIds t' = [] \<and>
    tab_filter t' = [] \<and> tab_activeRequestId t' = None \<and> tab_sessionId t' = None \<and>
    tab_contentSearch t' = None \<and> tab_backgroundListing t' = None \<and> tab_loadState t' = LLoading"
  using assms
  by (auto simp: reduceNavigation_def updatePanel_def activeTab_def tab_at_def panels_set_tab
      applyNavigation_def Let_def history_line_def)

theorem navigate_elsewhere_witness:
  "\<exists>s' t'. reduceNavigation sample_state (Navigate Left ''/home'' False False False) = Some s' \<and>
     tab_at s' Left ''main'' = Some t' \<and> history_line t' = [''local:///d'', ''local:///home'']"
proof -
  have n: "normalizeLocalInput ''/home'' = ''local:///home''" by code_simp
  from reduceNavigation_ok[OF sample_state_ok] obtain s'
    where s': "reduceNavigation sample_state (Navigate Left ''/home'' False False False) = Some s'"
    by blast
  show ?thesis
    using s' navigate_elsewhere[OF _ _ s', of sample_tab] by (auto simp: n)
qed

text \<open>A refresh keeps the history and what stays in place. Navigating to the place a tab
  is at, softly or not, leaves both stacks and the content search alone, and a soft refresh
  of a tab that is not in error keeps its entries and its selection too.\<close>

theorem refresh_in_place:
  assumes "tab_uri t = u"
  shows "history_line (applyNavigation t u rep sr None None) = history_line t \<and>
    tab_contentSearch (applyNavigation t u rep sr None None) = tab_contentSearch t \<and>
    (sr \<longrightarrow> tab_loadState t \<noteq> LError \<longrightarrow>
      tab_entriesById (applyNavigation t u rep sr None None) = tab_entriesById t \<and>
      tab_selectedIds (applyNavigation t u rep sr None None) = tab_selectedIds t \<and>
      tab_loadState (applyNavigation t u rep sr None None) = tab_loadState t)"
  using assms by (auto simp: applyNavigation_def Let_def history_line_def)

theorem refresh_in_place_witness:
  "tab_selectedIds (applyNavigation sample_tab ''local:///d'' False True None None) = [''local:///d/a'']"
proof -
  have "tab_loadState sample_tab \<noteq> LError" by (simp add: sample_tab_def blank_tab_def)
  then show ?thesis using refresh_in_place[of sample_tab "''local:///d''" False True] by simp
qed

end
