(* ===== verification/JsSort.thy ===== *)
theory JsSort
  imports Prelude
begin

text \<open>
  \<open>Array.prototype.sort\<close> with a comparator function: ECMAScript requires a stable sort
  whenever the comparator is consistent. The locale states what consistent means; inside
  it the sort is shown to return the stable sorted permutation, and that there is only one.
\<close>

fun js_insert :: "('a \<Rightarrow> 'a \<Rightarrow> int) \<Rightarrow> 'a \<Rightarrow> 'a list \<Rightarrow> 'a list" where
  "js_insert cmp x [] = [x]"
| "js_insert cmp x (y # ys) = (if cmp x y \<le> 0 then x # y # ys else y # js_insert cmp x ys)"

definition js_sort :: "('a \<Rightarrow> 'a \<Rightarrow> int) \<Rightarrow> 'a list \<Rightarrow> 'a list" where
  "js_sort cmp xs = foldr (js_insert cmp) xs []"

lemma js_sort_simps [simp]:
  "js_sort cmp [] = []"
  "js_sort cmp (x # xs) = js_insert cmp x (js_sort cmp xs)"
  by (simp_all add: js_sort_def)

lemma mset_js_insert [simp]: "mset (js_insert cmp x xs) = add_mset x (mset xs)"
  by (induction xs) auto

lemma mset_js_sort [simp]: "mset (js_sort cmp xs) = mset xs"
  by (induction xs) auto

lemma set_js_insert [simp]: "set (js_insert cmp x xs) = insert x (set xs)"
  by (metis mset_js_insert set_mset_add_mset_insert set_mset_mset)

lemma set_js_sort [simp]: "set (js_sort cmp xs) = set xs"
  by (metis mset_js_sort set_mset_mset)

lemma length_js_sort [simp]: "length (js_sort cmp xs) = length xs"
  by (metis mset_js_sort size_mset)

lemma distinct_js_sort [simp]: "distinct (js_sort cmp xs) = distinct xs"
  by (metis mset_js_sort mset_eq_imp_distinct_iff)

lemma mset_map_js_sort: "mset (map f (js_sort cmp xs)) = mset (map f xs)"
  by simp

lemma distinct_map_js_sort [simp]: "distinct (map f (js_sort cmp xs)) = distinct (map f xs)"
  by (metis mset_map_js_sort mset_eq_imp_distinct_iff)

locale comparator =
  fixes cmp :: "'a \<Rightarrow> 'a \<Rightarrow> int"
  assumes cmp_refl: "cmp x x = 0"
    and cmp_antisym: "sgn (cmp y x) = - sgn (cmp x y)"
    and cmp_trans: "cmp x y \<le> 0 \<Longrightarrow> cmp y z \<le> 0 \<Longrightarrow> cmp x z \<le> 0"
begin

lemma cmp_flip_le: "\<not> cmp x y \<le> 0 \<Longrightarrow> cmp y x \<le> 0"
  using cmp_antisym[of x y] by (auto simp: sgn_if split: if_splits)

lemma cmp_flip_zero: "cmp x y = 0 \<longleftrightarrow> cmp y x = 0"
  by (metis cmp_antisym neg_equal_0_iff_equal sgn_0_0)

lemma cmp_pos_flip: "0 < cmp x y \<longleftrightarrow> cmp y x < 0"
  using cmp_antisym[of x y] by (auto simp: sgn_if split: if_splits)

lemma cmp_zero_trans: "cmp x y = 0 \<Longrightarrow> cmp y z = 0 \<Longrightarrow> cmp x z = 0"
  by (metis cmp_flip_zero cmp_pos_flip cmp_trans nle_le not_less)

lemma sorted_js_insert:
  "sorted_wrt (\<lambda>a b. cmp a b \<le> 0) ys \<Longrightarrow> sorted_wrt (\<lambda>a b. cmp a b \<le> 0) (js_insert cmp x ys)"
proof (induction ys)
  case Nil
  then show ?case by simp
next
  case (Cons y ys)
  then show ?case by (auto intro: cmp_trans cmp_flip_le)
qed

lemma sorted_js_sort: "sorted_wrt (\<lambda>a b. cmp a b \<le> 0) (js_sort cmp xs)"
  by (induction xs) (auto intro: sorted_js_insert)

lemma js_insert_sorted_front:
  "\<forall>y \<in> set ys. cmp x y \<le> 0 \<Longrightarrow> js_insert cmp x ys = x # ys"
  by (cases ys) auto

lemma js_sort_sorted_id: "sorted_wrt (\<lambda>a b. cmp a b \<le> 0) xs \<Longrightarrow> js_sort cmp xs = xs"
  by (induction xs) (auto intro: js_insert_sorted_front)

lemma js_sort_idem: "js_sort cmp (js_sort cmp xs) = js_sort cmp xs"
  by (rule js_sort_sorted_id) (rule sorted_js_sort)

lemma filter_js_insert:
  "filter (\<lambda>b. cmp a b = 0) (js_insert cmp x ys) =
     (if cmp a x = 0 then x # filter (\<lambda>b. cmp a b = 0) ys else filter (\<lambda>b. cmp a b = 0) ys)"
proof (induction ys)
  case Nil
  then show ?case by simp
next
  case (Cons y ys)
  have "cmp a x = 0 \<Longrightarrow> cmp a y = 0 \<Longrightarrow> cmp x y \<le> 0"
    by (metis cmp_flip_zero cmp_zero_trans order_refl)
  with Cons show ?case by auto
qed

text \<open>Stability: elements that compare equal keep their order.\<close>

lemma js_sort_stable: "filter (\<lambda>b. cmp a b = 0) (js_sort cmp xs) = filter (\<lambda>b. cmp a b = 0) xs"
  by (induction xs) (auto simp: filter_js_insert)

text \<open>The head of a sorted list is determined by the stable classes of its elements.\<close>

lemma stable_sorted_unique:
  assumes "sorted_wrt (\<lambda>a b. cmp a b \<le> 0) xs" and "sorted_wrt (\<lambda>a b. cmp a b \<le> 0) ys"
    and "\<And>a. filter (\<lambda>b. cmp a b = 0) xs = filter (\<lambda>b. cmp a b = 0) ys"
  shows "xs = ys"
  using assms
proof (induction xs arbitrary: ys)
  case Nil
  show ?case
  proof (cases ys)
    case (Cons y ys')
    with Nil(3)[of y] show ?thesis by (simp add: cmp_refl)
  qed simp
next
  case (Cons x xs)
  obtain y ys' where ys: "ys = y # ys'"
    using Cons.prems(3)[of x] by (cases ys) (auto simp: cmp_refl)
  have "x \<in> set (filter (\<lambda>b. cmp x b = 0) ys)"
    unfolding Cons.prems(3)[of x, symmetric] by (simp add: cmp_refl)
  then have "x \<in> set ys" by simp
  moreover have "y \<in> set (filter (\<lambda>b. cmp y b = 0) (x # xs))"
    unfolding Cons.prems(3)[of y] ys by (simp add: cmp_refl)
  then have "y \<in> set (x # xs)" by (auto split: if_splits)
  ultimately have "cmp y x \<le> 0" and "cmp x y \<le> 0"
    using Cons.prems(1,2) ys by (auto simp: cmp_refl)
  then have z: "cmp x y = 0" using cmp_pos_flip[of y x] by simp
  with Cons.prems(3)[of x] ys have xy: "x = y" by (simp add: cmp_refl)
  have "filter (\<lambda>b. cmp a b = 0) xs = filter (\<lambda>b. cmp a b = 0) ys'" for a
    using Cons.prems(3)[of a] ys xy by (auto split: if_splits)
  with Cons.IH[of ys'] Cons.prems(1,2) ys have "xs = ys'" by auto
  with xy ys show ?case by simp
qed

lemma js_sort_unique:
  assumes "sorted_wrt (\<lambda>a b. cmp a b \<le> 0) ys"
    and "\<And>a. filter (\<lambda>b. cmp a b = 0) ys = filter (\<lambda>b. cmp a b = 0) xs"
  shows "ys = js_sort cmp xs"
  by (rule stable_sorted_unique[OF assms(1) sorted_js_sort]) (simp add: assms(2) js_sort_stable)

end

end
