(* ===== verification/PaneSort.thy ===== *)
theory PaneSort
  imports PanelState JsSort
begin

text \<open>
  The order of directory entries (\<open>packages/frontend/src/paneSort.ts\<close>). The comparator is
  shown to be consistent for every sort state, provided the two collations of the host are;
  the facts of the sort then apply to it.
\<close>

section \<open>Definitions\<close>

text \<open>JavaScript's \<open>a || b\<close> on numbers.\<close>

definition or_else :: "int \<Rightarrow> int \<Rightarrow> int" where
  "or_else a b = (if a \<noteq> 0 then a else b)"

definition dateValue :: "Platform \<Rightarrow> string option \<Rightarrow> int" where
  "dateValue pf v =
     (case v of
        None \<Rightarrow> 0
      | Some s \<Rightarrow> if s = [] then 0 else (case dateParse pf s of None \<Rightarrow> 0 | Some n \<Rightarrow> n))"

definition opt_str :: "string option \<Rightarrow> string" where
  "opt_str v = (case v of None \<Rightarrow> [] | Some s \<Rightarrow> s)"

definition opt_size :: "int option \<Rightarrow> int" where
  "opt_size v = (case v of None \<Rightarrow> -1 | Some n \<Rightarrow> n)"

definition compareField :: "Platform \<Rightarrow> SortField \<Rightarrow> FileEntryDto \<Rightarrow> FileEntryDto \<Rightarrow> int" where
  "compareField pf field left right =
     (case field of
        SType \<Rightarrow>
          or_else (localeCompare pf (fileKind_str (fe_kind left)) (fileKind_str (fe_kind right)))
                  (localeCompare pf (fe_name left) (fe_name right))
      | SSize \<Rightarrow>
          or_else (opt_size (fe_size left) - opt_size (fe_size right))
                  (localeCompare pf (fe_name left) (fe_name right))
      | SModified \<Rightarrow>
          or_else (dateValue pf (fe_modifiedAt left) - dateValue pf (fe_modifiedAt right))
                  (localeCompare pf (fe_name left) (fe_name right))
      | SCreated \<Rightarrow>
          or_else (dateValue pf (fe_createdAt left) - dateValue pf (fe_createdAt right))
                  (localeCompare pf (fe_name left) (fe_name right))
      | SExtension \<Rightarrow>
          or_else (localeCompare pf (opt_str (fe_extension left)) (opt_str (fe_extension right)))
                  (localeCompare pf (fe_name left) (fe_name right))
      | SPermissions \<Rightarrow>
          or_else (localeCompare pf (opt_str (fe_permissions left)) (opt_str (fe_permissions right)))
                  (localeCompare pf (fe_name left) (fe_name right))
      | SOwner \<Rightarrow>
          or_else (localeCompare pf (opt_str (fe_owner left)) (opt_str (fe_owner right)))
                  (localeCompare pf (fe_name left) (fe_name right))
      | SName \<Rightarrow> localeCompareNumericBase pf (fe_name left) (fe_name right))"

definition compareEntries :: "Platform \<Rightarrow> SortState \<Rightarrow> FileEntryDto \<Rightarrow> FileEntryDto \<Rightarrow> int" where
  "compareEntries pf srt left right =
     (if sort_directoriesFirst srt \<and> fe_kind left \<noteq> fe_kind right \<and> fe_kind left = KDirectory then -1
      else if sort_directoriesFirst srt \<and> fe_kind left \<noteq> fe_kind right \<and> fe_kind right = KDirectory then 1
      else compareField pf (sort_field srt) left right *
             (if sort_direction srt = Asc then 1 else -1))"

section \<open>Consistency of the comparator\<close>

named_theorems comparator_intros

lemma comparator_image [comparator_intros]:
  "comparator f \<Longrightarrow> comparator (\<lambda>x y. f (h x) (h y))"
  unfolding comparator_def by blast

lemma comparator_diff [comparator_intros]: "comparator (\<lambda>x y :: int. x - y)"
  by unfold_locales (auto simp: sgn_if)

lemma comparator_diff_image [comparator_intros]:
  "comparator (\<lambda>x y. h x - h y)" for h :: "'a \<Rightarrow> int"
  by unfold_locales (auto simp: sgn_if)

lemma comparator_or_else [comparator_intros]:
  assumes "comparator f" and "comparator g"
  shows "comparator (\<lambda>x y. or_else (f x y) (g x y))"
proof
  fix x y z
  note f = comparator.cmp_antisym[OF assms(1)] comparator.cmp_refl[OF assms(1)]
  note g = comparator.cmp_antisym[OF assms(2)] comparator.cmp_refl[OF assms(2)]
  show "or_else (f x x) (g x x) = 0" by (simp add: or_else_def f g)
  show "sgn (or_else (f y x) (g y x)) = - sgn (or_else (f x y) (g x y))"
    using f(1)[of x y] g(1)[of x y] comparator.cmp_flip_zero[OF assms(1), of x y]
    by (auto simp: or_else_def)
  assume xy: "or_else (f x y) (g x y) \<le> 0" and yz: "or_else (f y z) (g y z) \<le> 0"
  then have le: "f x y \<le> 0" "f y z \<le> 0" by (auto simp: or_else_def split: if_splits)
  then have fxz: "f x z \<le> 0" by (rule comparator.cmp_trans[OF assms(1)])
  show "or_else (f x z) (g x z) \<le> 0"
  proof (cases "f x z = 0")
    case True
    then have "f z x = 0" by (simp add: comparator.cmp_flip_zero[OF assms(1), of x z])
    then have "f y x \<le> 0" and "f z y \<le> 0"
      using comparator.cmp_trans[OF assms(1) le(2), of x] comparator.cmp_trans[OF assms(1) _ le(1), of z]
      by simp_all
    with le have "f x y = 0" and "f y z = 0"
      using comparator.cmp_pos_flip[OF assms(1), of y x] comparator.cmp_pos_flip[OF assms(1), of z y]
      by simp_all
    with xy yz have "g x z \<le> 0"
      using comparator.cmp_trans[OF assms(2)] by (auto simp: or_else_def)
    then show ?thesis using True by (simp add: or_else_def)
  next
    case False
    with fxz show ?thesis by (simp add: or_else_def)
  qed
qed

lemma comparator_neg:
  assumes "comparator f"
  shows "comparator (\<lambda>x y. f x y * (if asc then 1 else -1))"
proof (cases asc)
  case True
  then show ?thesis using assms by simp
next
  case False
  have "comparator (\<lambda>x y. - f x y)"
  proof
    fix x y z
    show "- f x x = 0" by (simp add: comparator.cmp_refl[OF assms])
    show "sgn (- f y x) = - sgn (- f x y)"
      using comparator.cmp_antisym[OF assms, of x y] by (simp add: sgn_minus)
    assume "- f x y \<le> 0" "- f y z \<le> 0"
    then have "f y x \<le> 0" "f z y \<le> 0"
      using comparator.cmp_pos_flip[OF assms, of y x] comparator.cmp_pos_flip[OF assms, of z y]
      by simp_all
    then have "f z x \<le> 0" by (rule comparator.cmp_trans[OF assms, of z y x, rotated])
    then show "- f x z \<le> 0"
      using comparator.cmp_pos_flip[OF assms, of z x] by linarith
  qed
  with False show ?thesis by simp
qed

text \<open>What the code relies on of \<open>String.prototype.localeCompare\<close> and \<open>Intl\<close> collation: each
  is a consistent comparison function.\<close>

definition collation_ok :: "Platform \<Rightarrow> bool" where
  "collation_ok pf \<longleftrightarrow> comparator (localeCompare pf) \<and> comparator (localeCompareNumericBase pf)"

lemma compareField_comparator:
  assumes "collation_ok pf"
  shows "comparator (compareField pf field)"
proof -
  have lc: "comparator (\<lambda>l r. localeCompare pf (h l) (h r))"
    and nb: "comparator (\<lambda>l r. localeCompareNumericBase pf (h l) (h r))"
    for h :: "FileEntryDto \<Rightarrow> string"
    using assms unfolding collation_ok_def by (auto intro: comparator_image)
  show ?thesis
    unfolding compareField_def[abs_def]
    by (cases field; simp only: SortField.case; intro comparator_or_else lc nb comparator_diff_image)
qed

definition dir_rank :: "FileEntryDto \<Rightarrow> int" where
  "dir_rank e = (if fe_kind e = KDirectory then 0 else 1)"

lemma compareEntries_lex:
  "compareEntries pf srt l r =
     or_else (if sort_directoriesFirst srt then dir_rank l - dir_rank r else 0)
             (compareField pf (sort_field srt) l r * (if sort_direction srt = Asc then 1 else -1))"
  by (auto simp: compareEntries_def or_else_def dir_rank_def)

lemma compareEntries_comparator: "collation_ok pf \<Longrightarrow> comparator (compareEntries pf srt)"
proof -
  assume ok: "collation_ok pf"
  have rank: "comparator (\<lambda>l r. if sort_directoriesFirst srt then dir_rank l - dir_rank r else 0)"
    by unfold_locales (auto simp: dir_rank_def)
  show ?thesis
    unfolding compareEntries_lex[abs_def]
    by (rule comparator_or_else[OF rank comparator_neg[OF compareField_comparator[OF ok]]])
qed

section \<open>A concrete collation\<close>

text \<open>Comparison by code units: the collation of a host whose locale is the root ordering of
  the modelled characters.\<close>

fun code_unit_cmp :: "string \<Rightarrow> string \<Rightarrow> int" where
  "code_unit_cmp [] [] = 0"
| "code_unit_cmp [] (y # ys) = -1"
| "code_unit_cmp (x # xs) [] = 1"
| "code_unit_cmp (x # xs) (y # ys) =
     (if x = y then code_unit_cmp xs ys else if code x < code y then -1 else 1)"

lemma code_unit_cmp_refl: "code_unit_cmp s s = 0"
  by (induction s) auto

lemma code_unit_cmp_flip: "code_unit_cmp t s = - code_unit_cmp s t"
  by (induction s t rule: code_unit_cmp.induct) (auto simp: not_less le_less)

lemma code_unit_cmp_trans:
  "code_unit_cmp s t \<le> 0 \<Longrightarrow> code_unit_cmp t u \<le> 0 \<Longrightarrow> code_unit_cmp s u \<le> 0"
proof (induction s arbitrary: t u)
  case Nil
  then show ?case by (cases u) auto
next
  case (Cons x xs)
  then obtain y ys where t: "t = y # ys" by (cases t) auto
  with Cons.prems(2) obtain z zs where u: "u = z # zs" by (cases u) auto
  from Cons t u show ?case by (auto split: if_splits)
qed

interpretation code_units: comparator code_unit_cmp
proof
  show "code_unit_cmp x x = 0" for x by (rule code_unit_cmp_refl)
  show "sgn (code_unit_cmp y x) = - sgn (code_unit_cmp x y)" for x y
    by (subst code_unit_cmp_flip) simp
  show "code_unit_cmp x y \<le> 0 \<Longrightarrow> code_unit_cmp y z \<le> 0 \<Longrightarrow> code_unit_cmp x z \<le> 0" for x y z
    by (rule code_unit_cmp_trans)
qed

definition ordinal_platform :: Platform where
  "ordinal_platform =
     \<lparr>localeCompare = code_unit_cmp, localeCompareNumericBase = code_unit_cmp,
      dateParse = (\<lambda>s. if s \<noteq> [] \<and> list_all is_digit s then Some (int (str_nat s)) else None),
      navigatorPlatform = ''Linux x86_64''\<rparr>"

lemma collation_ok_ordinal: "collation_ok ordinal_platform"
  by (simp add: collation_ok_def ordinal_platform_def code_units.comparator_axioms)

text \<open>The entry order of the program on that host.\<close>

interpretation entry_order: comparator "compareEntries ordinal_platform srt" for srt
  by (rule compareEntries_comparator[OF collation_ok_ordinal])

end
