(* ===== verification/Selection.thy ===== *)
theory Selection
  imports PaneSort Samples
begin

text \<open>
  What a pane shows and what is selected in it: \<open>selectVisibleEntries\<close>,
  \<open>selectDisplayedEntries\<close>, \<open>selectEntry\<close> and \<open>moveSelection\<close> of \<open>panelStore.ts\<close> and the
  selection slice. \<open>None\<close> stands for the TypeError of reading an entry that is listed but
  not stored; the facts below show that a well-formed tab never gets there.
\<close>

section \<open>Definitions\<close>

definition selectVisibleEntries :: "Platform \<Rightarrow> PanelTabState \<Rightarrow> FileEntryDto list option" where
  "selectVisibleEntries pf tab =
     (let flt = js_toLowerCase (js_trim (tab_filter tab))
      in do { entries \<leftarrow> those (map (obj_get (tab_entriesById tab)) (tab_orderedEntryIds tab));
              Some (js_sort (compareEntries pf (tab_sort tab))
                     (filter (\<lambda>e. flt = [] \<or> js_includes (js_toLowerCase (fe_name e)) flt) entries)) })"

definition selectDisplayedEntries :: "Platform \<Rightarrow> PanelTabState \<Rightarrow> FileEntryDto list option" where
  "selectDisplayedEntries pf tab =
     do { entries \<leftarrow> selectVisibleEntries pf tab;
          Some (prependParentDirectoryEntry (tab_uri tab) entries) }"

definition countVisibleEntries :: "Platform \<Rightarrow> PanelTabState \<Rightarrow> nat option" where
  "countVisibleEntries pf tab = map_option length (selectVisibleEntries pf tab)"

definition select_single :: "PanelTabState \<Rightarrow> string \<Rightarrow> PanelTabState" where
  "select_single tab entryId =
     tab\<lparr>tab_selectedIds := [entryId], tab_selectedId := Some entryId,
         tab_focusedId := Some entryId, tab_anchorId := Some entryId\<rparr>"

definition select_toggle :: "PanelTabState \<Rightarrow> string \<Rightarrow> PanelTabState" where
  "select_toggle tab entryId =
     (if isParentDirectoryUri entryId (tab_uri tab) then select_single tab entryId
      else let selected = set_of_array
                 (filter (\<lambda>i. \<not> isParentDirectoryUri i (tab_uri tab)) (tab_selectedIds tab));
               selectedIds = (if entryId \<in> set selected then set_delete entryId selected
                              else set_add entryId selected)
           in tab\<lparr>tab_selectedIds := selectedIds, tab_selectedId := first_opt selectedIds,
                  tab_focusedId := Some entryId, tab_anchorId := Some entryId\<rparr>)"

definition range_anchor :: "PanelTabState \<Rightarrow> string \<Rightarrow> string" where
  "range_anchor tab entryId =
     (case tab_anchorId tab of
        Some a \<Rightarrow> a
      | None \<Rightarrow> (case tab_focusedId tab of Some f \<Rightarrow> f | None \<Rightarrow> entryId))"

text \<open>The range among the visible ids; ids out of sight, or an empty range, select the entry
  alone.\<close>

definition range_tab :: "PanelTabState \<Rightarrow> string list \<Rightarrow> string \<Rightarrow> PanelTabState" where
  "range_tab tab visible entryId =
     (let anchor = range_anchor tab entryId
      in case (index_of anchor visible, index_of entryId visible) of
           (Some ai, Some ei) \<Rightarrow>
             (let start = min ai ei; end = max ai ei;
                  selectedIds = take (end + 1 - start) (drop start visible)
              in if selectedIds = [] then select_single tab entryId
                 else tab\<lparr>tab_selectedIds := selectedIds, tab_selectedId := first_opt selectedIds,
                          tab_focusedId := Some entryId, tab_anchorId := Some anchor\<rparr>)
         | _ \<Rightarrow> select_single tab entryId)"

definition select_range :: "Platform \<Rightarrow> PanelTabState \<Rightarrow> string \<Rightarrow> PanelTabState option" where
  "select_range pf tab entryId =
     do { displayed \<leftarrow> selectDisplayedEntries pf tab;
          Some (range_tab tab
            (filter (\<lambda>i. \<not> isParentDirectoryUri i (tab_uri tab)) (map fe_uri displayed)) entryId) }"

definition selectEntry :: "Platform \<Rightarrow> PanelTabState \<Rightarrow> string \<Rightarrow> SelectMode \<Rightarrow> PanelTabState option" where
  "selectEntry pf tab entryId mode =
     (case mode of
        MSingle \<Rightarrow> Some (select_single tab entryId)
      | MToggle \<Rightarrow> Some (select_toggle tab entryId)
      | MRange \<Rightarrow> select_range pf tab entryId)"

definition moveSelection :: "Platform \<Rightarrow> PanelTabState \<Rightarrow> int \<Rightarrow> PanelTabState option" where
  "moveSelection pf tab delta =
     do { visible \<leftarrow> selectDisplayedEntries pf tab;
          (if visible = [] then Some (tab\<lparr>tab_selectedId := None, tab_focusedId := None\<rparr>)
           else let currentIndex =
                      (case find_index (\<lambda>e. tab_focusedId tab = Some (fe_uri e) \<or>
                                             tab_selectedId tab = Some (fe_uri e)) visible of
                         None \<Rightarrow> 0 | Some i \<Rightarrow> i);
                    nextIndex = nat (min (max (int currentIndex + delta) 0) (int (length visible) - 1));
                    nextId = fe_uri (visible ! nextIndex)
                in Some (select_single tab nextId)) }"

definition isSelectionAction :: "PanelAction \<Rightarrow> bool" where
  "isSelectionAction a =
     (case a of SetSelection _ _ \<Rightarrow> True | SetSelectionMany _ _ \<Rightarrow> True | SelectAll _ \<Rightarrow> True
      | InvertSelection _ \<Rightarrow> True | ClearSelection _ \<Rightarrow> True | SelectEntry _ _ _ \<Rightarrow> True
      | MoveSelection _ _ \<Rightarrow> True | _ \<Rightarrow> False)"

text \<open>The selected ids, with their first as selected, focused and anchor (\<open>selectAll\<close> and
  \<open>invertSelection\<close>).\<close>

definition select_list :: "PanelTabState \<Rightarrow> string list \<Rightarrow> PanelTabState" where
  "select_list tab ids =
     tab\<lparr>tab_selectedIds := ids, tab_selectedId := first_opt ids,
         tab_focusedId := first_opt ids, tab_anchorId := first_opt ids\<rparr>"

definition reduceSelection :: "Platform \<Rightarrow> FileOctopusState \<Rightarrow> PanelAction \<Rightarrow> FileOctopusState option" where
  "reduceSelection pf state action =
     (case action of
        SetSelection pid entryId \<Rightarrow>
          updatePanel state pid (\<lambda>tab. Some (tab\<lparr>
            tab_selectedIds := (case entryId of Some (c # cs) \<Rightarrow> [c # cs] | _ \<Rightarrow> []),
            tab_selectedId := entryId, tab_focusedId := entryId, tab_anchorId := entryId\<rparr>))
      | SetSelectionMany pid entryIds \<Rightarrow>
          updatePanel state pid (\<lambda>tab.
            let ids = filter (obj_has (tab_entriesById tab)) entryIds
            in Some (tab\<lparr>tab_selectedIds := ids, tab_selectedId := last_opt ids,
                         tab_focusedId := last_opt ids, tab_anchorId := first_opt ids\<rparr>))
      | SelectAll pid \<Rightarrow>
          updatePanel state pid (\<lambda>tab.
            do { vis \<leftarrow> selectVisibleEntries pf tab; Some (select_list tab (map fe_uri vis)) })
      | InvertSelection pid \<Rightarrow>
          updatePanel state pid (\<lambda>tab.
            do { vis \<leftarrow> selectVisibleEntries pf tab;
                 Some (select_list tab
                   (filter (\<lambda>i. i \<notin> set (tab_selectedIds tab)) (map fe_uri vis))) })
      | ClearSelection pid \<Rightarrow>
          updatePanel state pid (\<lambda>tab. Some (tab\<lparr>tab_selectedIds := [], tab_selectedId := None,
            tab_focusedId := None, tab_anchorId := None\<rparr>))
      | SelectEntry pid entryId mode \<Rightarrow>
          updatePanel state pid (\<lambda>tab. selectEntry pf tab entryId mode)
      | MoveSelection pid delta \<Rightarrow>
          updatePanel state pid (\<lambda>tab. moveSelection pf tab delta)
      | _ \<Rightarrow> Some state)"

section \<open>The visible entries\<close>

lemma those_map_Some: "(\<forall>x \<in> set xs. f x = Some (g x)) \<Longrightarrow> those (map f xs) = Some (map g xs)"
  by (induction xs) auto

lemma those_map_ex: "(\<forall>x \<in> set xs. f x \<noteq> None) \<Longrightarrow> \<exists>ys. those (map f xs) = Some ys"
  by (induction xs) auto

lemma those_SomeD: "those xs = Some ys \<Longrightarrow> xs = map Some ys"
  by (induction xs arbitrary: ys) (auto split: option.splits)

text \<open>The stored entries in listing order.\<close>

definition listed_entries :: "PanelTabState \<Rightarrow> FileEntryDto list" where
  "listed_entries tab = map (\<lambda>i. the (obj_get (tab_entriesById tab) i)) (tab_orderedEntryIds tab)"

definition passes_filter :: "PanelTabState \<Rightarrow> FileEntryDto \<Rightarrow> bool" where
  "passes_filter tab e \<longleftrightarrow>
     (let flt = js_toLowerCase (js_trim (tab_filter tab))
      in flt = [] \<or> js_includes (js_toLowerCase (fe_name e)) flt)"

lemma selectVisibleEntries_ok:
  assumes "tab_ok tab"
  shows "selectVisibleEntries pf tab =
    Some (js_sort (compareEntries pf (tab_sort tab)) (filter (passes_filter tab) (listed_entries tab)))"
proof -
  have "\<forall>i \<in> set (tab_orderedEntryIds tab).
      obj_get (tab_entriesById tab) i = Some (the (obj_get (tab_entriesById tab) i))"
    using assms listing_ok_present by (fastforce simp: tab_ok_def)
  from those_map_Some[OF this] show ?thesis
    by (simp add: selectVisibleEntries_def listed_entries_def passes_filter_def[abs_def] Let_def)
qed

lemma listed_uris: "tab_ok tab \<Longrightarrow> map fe_uri (listed_entries tab) = tab_orderedEntryIds tab"
  unfolding listed_entries_def tab_ok_def
  by (auto intro!: map_idI simp: listing_ok_present dest!: listing_ok_present)

lemma listed_set: "tab_ok tab \<Longrightarrow> set (listed_entries tab) = set (obj_values (tab_entriesById tab))"
proof -
  assume ok: "tab_ok tab"
  then have d: "distinct (obj_keys (tab_entriesById tab))"
    and s: "set (tab_orderedEntryIds tab) = fst ` set (tab_entriesById tab)"
    by (auto simp: tab_ok_def listing_ok_def)
  have "the (obj_get (tab_entriesById tab) k) = v" if "(k, v) \<in> set (tab_entriesById tab)" for k v
    using that d by simp
  then have "(\<lambda>i. the (obj_get (tab_entriesById tab) i)) ` fst ` set (tab_entriesById tab)
      = snd ` set (tab_entriesById tab)"
    by (force simp: image_image)
  with s show ?thesis by (simp add: listed_entries_def)
qed

section \<open>No selection raises\<close>

lemma selectDisplayedEntries_ok:
  "tab_ok tab \<Longrightarrow> \<exists>es. selectVisibleEntries pf tab = Some es \<and>
     selectDisplayedEntries pf tab = Some (prependParentDirectoryEntry (tab_uri tab) es)"
  by (simp add: selectDisplayedEntries_def selectVisibleEntries_ok)

lemma tab_ok_selection [simp]:
  "tab_ok (t\<lparr>tab_selectedIds := a, tab_selectedId := b, tab_focusedId := c, tab_anchorId := d\<rparr>) = tab_ok t"
  "tab_ok (t\<lparr>tab_selectedId := b, tab_focusedId := c\<rparr>) = tab_ok t"
  by (simp_all add: tab_ok_def)

lemma select_ok [simp]:
  "tab_ok (select_single t e) = tab_ok t" "tab_ok (select_toggle t e) = tab_ok t"
  "tab_ok (select_list t ids) = tab_ok t"
  by (simp_all add: select_single_def select_toggle_def select_list_def Let_def)

lemma range_tab_ok [simp]: "tab_ok (range_tab t vis e) = tab_ok t"
  by (auto simp: range_tab_def Let_def split: option.split)

lemma select_range_ok: "tab_ok t \<Longrightarrow> \<exists>t'. select_range pf t e = Some t' \<and> tab_ok t'"
  using selectDisplayedEntries_ok[of t pf] by (auto simp: select_range_def)

lemma selectEntry_ok: "tab_ok t \<Longrightarrow> \<exists>t'. selectEntry pf t e m = Some t' \<and> tab_ok t'"
  by (cases m) (simp_all add: selectEntry_def select_range_ok)

lemma moveSelection_ok: "tab_ok t \<Longrightarrow> \<exists>t'. moveSelection pf t d = Some t' \<and> tab_ok t'"
  using selectDisplayedEntries_ok[of t pf] by (auto simp: moveSelection_def Let_def)

lemma reduceSelection_ok:
  assumes "panels_ok s" shows "\<exists>s'. reduceSelection pf s a = Some s' \<and> panels_ok s'"
  by (cases a) (use assms in \<open>auto simp: reduceSelection_def Let_def selectVisibleEntries_ok
      intro!: updatePanel_Some selectEntry_ok moveSelection_ok\<close>)

section \<open>Properties\<close>

text \<open>C18: a pane shows exactly the matching entries, stably sorted. For a well-formed tab the
  visible entries exist and are a permutation of the listed entries whose name contains the
  filter; they are in the order of the tab's sort, entries that compare equal keep the order
  in which they were listed, and no other list has these properties. The collation of the
  host is a parameter that need only be a consistent comparison.\<close>

theorem visible_entries_sorted:
  assumes "tab_ok tab" and "collation_ok pf"
  shows "\<exists>es. selectVisibleEntries pf tab = Some es \<and>
    mset es = mset (filter (passes_filter tab) (listed_entries tab)) \<and>
    sorted_wrt (\<lambda>a b. compareEntries pf (tab_sort tab) a b \<le> 0) es \<and>
    (\<forall>a. filter (\<lambda>b. compareEntries pf (tab_sort tab) a b = 0) es =
         filter (\<lambda>b. compareEntries pf (tab_sort tab) a b = 0)
           (filter (passes_filter tab) (listed_entries tab))) \<and>
    (\<forall>fs. sorted_wrt (\<lambda>a b. compareEntries pf (tab_sort tab) a b \<le> 0) fs \<longrightarrow>
       (\<forall>a. filter (\<lambda>b. compareEntries pf (tab_sort tab) a b = 0) fs =
            filter (\<lambda>b. compareEntries pf (tab_sort tab) a b = 0)
              (filter (passes_filter tab) (listed_entries tab))) \<longrightarrow> fs = es)"
proof -
  note cmp = compareEntries_comparator[OF assms(2), of "tab_sort tab"]
  show ?thesis
    unfolding selectVisibleEntries_ok[OF assms(1)] option.inject
    using comparator.sorted_js_sort[OF cmp] comparator.js_sort_stable[OF cmp]
      comparator.js_sort_unique[OF cmp] mset_js_sort
    by blast
qed

theorem visible_entries_sorted_witness:
  "\<exists>es. selectVisibleEntries ordinal_platform sample_tab = Some es \<and>
     mset es = mset (filter (passes_filter sample_tab) (listed_entries sample_tab))"
  using visible_entries_sorted[OF sample_tab_ok collation_ok_ordinal] by blast

lemma slice_nth: "n + k \<le> length xs \<Longrightarrow> take k (drop n xs) = map ((!) xs) [n ..< n + k]"
  by (rule nth_equalityI) auto

text \<open>A range selection is the contiguous stretch between its ends. When the anchor and
  the chosen entry are both displayed, exactly the entries from one to the other are
  selected, in display order and without the parent entry; both ends are among them, the
  anchor stays and the chosen entry has the focus.\<close>

theorem range_selects_between:
  assumes "selectDisplayedEntries pf t = Some disp"
    and "vis = filter (\<lambda>i. \<not> isParentDirectoryUri i (tab_uri t)) (map fe_uri disp)"
    and "index_of (range_anchor t e) vis = Some a" and "index_of e vis = Some b"
  shows "\<exists>t'. selectEntry pf t e MRange = Some t' \<and>
    tab_selectedIds t' = map ((!) vis) [min a b ..< Suc (max a b)] \<and>
    e \<in> set (tab_selectedIds t') \<and> range_anchor t e \<in> set (tab_selectedIds t') \<and>
    tab_anchorId t' = Some (range_anchor t e) \<and> tab_focusedId t' = Some e"
proof -
  have ab: "a < length vis" "vis ! a = range_anchor t e" "b < length vis" "vis ! b = e"
    using index_of_Some[OF assms(3)] index_of_Some[OF assms(4)] by auto
  let ?sel = "take (max a b + 1 - min a b) (drop (min a b) vis)"
  have sel: "?sel = map ((!) vis) [min a b ..< Suc (max a b)]"
    using ab slice_nth[of "min a b" "max a b + 1 - min a b" vis] by (auto simp del: upt_Suc)
  have ne: "?sel \<noteq> []" using ab by auto
  have "selectEntry pf t e MRange = Some (t\<lparr>tab_selectedIds := ?sel, tab_selectedId := first_opt ?sel,
      tab_focusedId := Some e, tab_anchorId := Some (range_anchor t e)\<rparr>)"
    unfolding selectEntry_def select_range_def range_tab_def assms(1) Let_def SelectMode.case bind.bind_lunit
      assms(2)[symmetric] assms(3,4) option.case prod.case if_not_P[OF ne] ..
  moreover have "vis ! a \<in> set ?sel" "vis ! b \<in> set ?sel"
    unfolding sel set_map by (rule imageI, auto simp: min_def max_def)+
  ultimately show ?thesis using ab sel by auto
qed

lemma sample_displayed:
  "selectDisplayedEntries ordinal_platform sample_tab =
     Some (prependParentDirectoryEntry ''local:///d'' [entry_a, entry_b])"
  by code_simp

theorem range_selects_between_witness:
  "\<exists>t'. selectEntry ordinal_platform sample_tab ''local:///d/b'' MRange = Some t' \<and>
     tab_selectedIds t' = [''local:///d/a'', ''local:///d/b'']"
proof -
  let ?vis = "filter (\<lambda>i. \<not> isParentDirectoryUri i (tab_uri sample_tab))
    (map fe_uri (prependParentDirectoryEntry ''local:///d'' [entry_a, entry_b]))"
  have v: "?vis = [''local:///d/a'', ''local:///d/b'']" by code_simp
  have "range_anchor sample_tab ''local:///d/b'' = ''local:///d/a''" by (simp add: range_anchor_def)
  with range_selects_between[OF sample_displayed v[symmetric], of "''local:///d/b''" 0 1]
  show ?thesis by (auto simp: upt_conv_Cons)
qed

text \<open>Toggling an entry twice leaves the selection as it was. This holds for every entry
  but the parent one, whose toggle selects it alone; the selection is compared as a set, with
  the parent entry left out of it, because the toggle drops it.\<close>

theorem toggle_twice:
  assumes "\<not> isParentDirectoryUri e (tab_uri t)"
  shows "set (tab_selectedIds (select_toggle (select_toggle t e) e)) =
    {i \<in> set (tab_selectedIds t). \<not> isParentDirectoryUri i (tab_uri t)}"
  using assms by (auto simp: select_toggle_def Let_def set_of_array_distinct split: if_splits)

theorem toggle_twice_witness:
  "set (tab_selectedIds (select_toggle (select_toggle sample_tab ''local:///d/b'') ''local:///d/b'')) =
     {''local:///d/a''}"
proof -
  have "\<not> isParentDirectoryUri ''local:///d/b'' ''local:///d''" by code_simp
  moreover have "\<not> isParentDirectoryUri ''local:///d/a'' ''local:///d''" by code_simp
  ultimately show ?thesis using toggle_twice[of "''local:///d/b''" sample_tab] by auto
qed

text \<open>Moving the selection stays within the displayed entries. When anything is displayed,
  the entry at the current position plus the distance, held between the first and the last
  one, is the only selected one; a distance beyond either end goes to that end.\<close>

theorem move_selection_clamped:
  assumes "selectDisplayedEntries pf t = Some vis" and "vis \<noteq> []"
  shows "\<exists>k t'. k < length vis \<and> moveSelection pf t d = Some t' \<and>
    tab_selectedIds t' = [fe_uri (vis ! k)] \<and> tab_focusedId t' = Some (fe_uri (vis ! k)) \<and>
    (d \<le> - int (length vis) \<longrightarrow> k = 0) \<and> (int (length vis) \<le> d \<longrightarrow> k = length vis - 1) \<and>
    (\<forall>j. find_index (\<lambda>e. tab_focusedId t = Some (fe_uri e) \<or> tab_selectedId t = Some (fe_uri e)) vis = Some j \<longrightarrow>
       0 \<le> int j + d \<longrightarrow> int j + d < int (length vis) \<longrightarrow> k = nat (int j + d))"
proof -
  define j where "j = (case find_index (\<lambda>e. tab_focusedId t = Some (fe_uri e) \<or>
      tab_selectedId t = Some (fe_uri e)) vis of None \<Rightarrow> 0 | Some i \<Rightarrow> i)"
  define k where "k = nat (min (max (int j + d) 0) (int (length vis) - 1))"
  have "moveSelection pf t d = Some (select_single t (fe_uri (vis ! k)))"
    using assms by (simp add: moveSelection_def Let_def j_def k_def)
  moreover have j: "j < length vis"
    using assms(2) by (auto simp: j_def dest: find_index_Some split: option.splits)
  moreover have "k < length vis" using assms(2) by (cases vis) (auto simp: k_def nat_less_iff)
  moreover have "d \<le> - int (length vis) \<Longrightarrow> k = 0" "int (length vis) \<le> d \<Longrightarrow> k = length vis - 1"
    using j by (auto simp: k_def)
  ultimately show ?thesis
    by (intro exI[of _ k] exI[of _ "select_single t (fe_uri (vis ! k))"])
      (auto simp: select_single_def j_def k_def)
qed

theorem move_selection_clamped_witness:
  "\<exists>t'. moveSelection ordinal_platform sample_tab 100 = Some t' \<and>
     tab_selectedIds t' = [''local:///d/b'']"
proof -
  have p: "prependParentDirectoryEntry ''local:///d'' [entry_a, entry_b] \<noteq> []"
    and l: "length (prependParentDirectoryEntry ''local:///d'' [entry_a, entry_b]) = 3"
    and u: "fe_uri (prependParentDirectoryEntry ''local:///d'' [entry_a, entry_b] ! 2) = ''local:///d/b''"
    by code_simp+
  from move_selection_clamped[OF sample_displayed p, of 100] show ?thesis
    by (auto simp: l) (metis u)
qed

end
