(* ===== verification/SortFilter.thy ===== *)
theory SortFilter
  imports Listing
begin

text \<open>
  Filter, sort, view mode, hidden files and hashes of a tab: the slice
  \<open>state/slices/sortFilterSlice.ts\<close>. Sort, view mode and hidden files are written to local
  storage per panel; a failed write is ignored. The result is the new state with the new
  world. The active tab of a panel always exists (it is part of the panels' invariant); the
  missing one is \<open>None\<close> here, although the source would spread it in \<open>hydratePreferences\<close>.
\<close>

section \<open>Definitions\<close>

definition isSortFilterAction :: "PanelAction \<Rightarrow> bool" where
  "isSortFilterAction a =
     (case a of SetFilter _ _ \<Rightarrow> True | SetRecursiveQuery _ _ \<Rightarrow> True | SetSort _ _ \<Rightarrow> True
      | SetViewMode _ _ \<Rightarrow> True | ToggleHidden _ \<Rightarrow> True | HydratePreferences _ _ \<Rightarrow> True
      | SetHash _ _ _ \<Rightarrow> True | _ \<Rightarrow> False)"

definition panel_key :: "string \<Rightarrow> PanelId \<Rightarrow> string" where
  "panel_key setting pid = ''fileoctopus.'' @ setting @ ''.'' @ panelId_str pid"

text \<open>\<open>JSON.stringify\<close> of a sort state.\<close>

definition sort_json :: "SortState \<Rightarrow> string" where
  "sort_json srt =
     ''{\"field\":\"'' @ sortField_str (sort_field srt) @
     ''\",\"direction\":\"'' @ (if sort_direction srt = Asc then ''asc'' else ''desc'') @
     ''\",\"directoriesFirst\":'' @ bool_str (sort_directoriesFirst srt) @ ''}''"

definition next_sort :: "SortState \<Rightarrow> SortField \<Rightarrow> SortState" where
  "next_sort srt fld =
     srt\<lparr>sort_field := fld,
         sort_direction := (if sort_field srt = fld \<and> sort_direction srt = Asc then Desc else Asc)\<rparr>"

definition toggle_hidden_tab :: "PanelTabState \<Rightarrow> PanelTabState" where
  "toggle_hidden_tab tab =
     tab\<lparr>tab_showHidden := \<not> tab_showHidden tab, tab_entriesById := [], tab_orderedEntryIds := [],
         tab_selectedIds := [], tab_selectedId := None, tab_focusedId := None,
         tab_anchorId := None, tab_sessionId := None, tab_activeRequestId := None,
         tab_loadState := LLoading, tab_error := None, tab_errorCode := None\<rparr>"

definition hydrate_panel ::
  "World \<Rightarrow> bool \<Rightarrow> ViewMode \<Rightarrow> PanelId \<Rightarrow> FileOctopusState \<Rightarrow> FileOctopusState option" where
  "hydrate_panel w hidden vm pid state =
     (let storedVm = readStorage w (panel_key ''viewMode'' pid);
          storedSh = readStorage w (panel_key ''showHidden'' pid);
          paneViewMode = (if truthy storedVm then viewMode_of_str (the storedVm) else vm);
          paneShowHidden = (case storedSh of Some v \<Rightarrow> v = ''true'' | None \<Rightarrow> hidden)
      in updatePanel state pid (\<lambda>tab. Some (tab\<lparr>tab_showHidden := paneShowHidden,
                                              tab_viewMode := paneViewMode\<rparr>)))"

definition reduceSortFilter ::
  "World \<Rightarrow> FileOctopusState \<Rightarrow> PanelAction \<Rightarrow> (FileOctopusState \<times> World) option" where
  "reduceSortFilter w state action =
     (case action of
        SetFilter pid f \<Rightarrow>
          do { s \<leftarrow> updatePanel state pid (\<lambda>tab. Some (tab\<lparr>tab_filter := f\<rparr>)); Some (s, w) }
      | SetRecursiveQuery pid q \<Rightarrow>
          do { s \<leftarrow> updatePanel state pid (\<lambda>tab. Some (tab\<lparr>tab_recursiveQuery := q\<rparr>)); Some (s, w) }
      | SetSort pid fld \<Rightarrow>
          do { tab \<leftarrow> activeTab (panels state pid);
               (let srt = next_sort (tab_sort tab) fld
                in do { s \<leftarrow> updatePanel state pid (\<lambda>tab. Some (tab\<lparr>tab_sort := srt\<rparr>));
                        Some (s, persistValue (panel_key ''sort'' pid) (sort_json srt) w) }) }
      | SetViewMode pid vm \<Rightarrow>
          do { s \<leftarrow> updatePanel state pid (\<lambda>tab. Some (tab\<lparr>tab_viewMode := vm\<rparr>));
               Some (s, persistValue (panel_key ''viewMode'' pid) (viewMode_str vm) w) }
      | ToggleHidden pid \<Rightarrow>
          do { tab \<leftarrow> activeTab (panels state pid);
               s \<leftarrow> updatePanel state pid (\<lambda>tab. Some (toggle_hidden_tab tab));
               Some (s, persistValue (panel_key ''showHidden'' pid)
                          (bool_str (\<not> tab_showHidden tab)) w) }
      | HydratePreferences hidden vm \<Rightarrow>
          do { s1 \<leftarrow> hydrate_panel w hidden vm Left state;
               s2 \<leftarrow> hydrate_panel w hidden vm Right s1;
               Some (s2, w) }
      | SetHash pid entryId h \<Rightarrow>
          do { s \<leftarrow> updatePanel state pid (\<lambda>tab.
                 Some (tab\<lparr>tab_hashMap := obj_set entryId h (tab_hashMap tab)\<rparr>));
               Some (s, w) }
      | _ \<Rightarrow> Some (state, w))"

section \<open>Facts\<close>

lemma panel_key_inject [simp]:
  "panel_key ''sort'' p \<noteq> ''fileoctopus.sort''"
  "panel_key ''showHidden'' p \<noteq> ''fileoctopus.showHidden''"
  "panel_key ''viewMode'' p \<noteq> panel_key ''showHidden'' q"
  "panel_key ''showHidden'' p \<noteq> panel_key ''viewMode'' q"
  "panel_key k p = panel_key k q \<longleftrightarrow> p = q"
  by (cases p; cases q; simp add: panel_key_def panelId_str_def)+

lemma tab_ok_view [simp]:
  "tab_ok (t\<lparr>tab_filter := f\<rparr>) = tab_ok t"
  "tab_ok (t\<lparr>tab_recursiveQuery := f\<rparr>) = tab_ok t"
  "tab_ok (t\<lparr>tab_sort := srt\<rparr>) = tab_ok t"
  "tab_ok (t\<lparr>tab_viewMode := vm\<rparr>) = tab_ok t"
  "tab_ok (t\<lparr>tab_showHidden := h\<rparr>) = tab_ok t"
  "tab_ok (t\<lparr>tab_showHidden := h, tab_viewMode := vm\<rparr>) = tab_ok t"
  "tab_ok (t\<lparr>tab_hashMap := hm\<rparr>) = tab_ok t"
  by (simp_all add: tab_ok_def)

lemma toggle_hidden_ok [wf_intros]: "tab_ok t \<Longrightarrow> tab_ok (toggle_hidden_tab t)"
  by (simp add: toggle_hidden_tab_def tab_ok_def)

lemma hydrate_panel_ok: "panels_ok s \<Longrightarrow> \<exists>s'. hydrate_panel w h v p s = Some s' \<and> panels_ok s'"
  by (auto simp: hydrate_panel_def Let_def intro!: updatePanel_Some)

lemma reduceSortFilter_ok:
  assumes "panels_ok s" shows "\<exists>s' w'. reduceSortFilter w s a = Some (s', w') \<and> panels_ok s'"
proof -
  have up: "\<exists>s'. updatePanel s p (\<lambda>t. Some (f t)) = Some s' \<and> panels_ok s'"
    if "\<And>t. tab_ok t \<Longrightarrow> tab_ok (f t)" for p f
    using updatePanel_Some[OF assms, of "\<lambda>t. Some (f t)"] that by simp
  have act: "\<exists>t. activeTab (panels s p) = Some t" for p
    using panel_ok_active[OF panels_okD[OF assms]] by blast
  show ?thesis
  proof (cases a)
    case (SetSort p f)
    from act obtain t where "activeTab (panels s p) = Some t" by blast
    then show ?thesis using SetSort up[of "\<lambda>t'. t'\<lparr>tab_sort := next_sort (tab_sort t) f\<rparr>" p]
      by (auto simp: reduceSortFilter_def Let_def)
  next
    case (ToggleHidden p)
    from act obtain t where "activeTab (panels s p) = Some t" by blast
    then show ?thesis using ToggleHidden up[of toggle_hidden_tab p]
      by (auto simp: reduceSortFilter_def toggle_hidden_ok)
  next
    case (HydratePreferences h v)
    from hydrate_panel_ok[OF assms] obtain s1 where s1: "hydrate_panel w h v Left s = Some s1" "panels_ok s1"
      by blast
    from hydrate_panel_ok[OF s1(2)] obtain s2 where "hydrate_panel w h v Right s1 = Some s2" "panels_ok s2"
      by blast
    with s1 HydratePreferences show ?thesis by (simp add: reduceSortFilter_def)
  next
    case (SetFilter p f)
    then show ?thesis using up[of "\<lambda>t. t\<lparr>tab_filter := f\<rparr>" p] by (auto simp: reduceSortFilter_def)
  next
    case (SetRecursiveQuery p f)
    then show ?thesis using up[of "\<lambda>t. t\<lparr>tab_recursiveQuery := f\<rparr>" p] by (auto simp: reduceSortFilter_def)
  next
    case (SetViewMode p f)
    then show ?thesis using up[of "\<lambda>t. t\<lparr>tab_viewMode := f\<rparr>" p] by (auto simp: reduceSortFilter_def)
  next
    case (SetHash p e h)
    then show ?thesis using up[of "\<lambda>t. t\<lparr>tab_hashMap := obj_set e h (tab_hashMap t)\<rparr>" p]
      by (auto simp: reduceSortFilter_def)
  qed (use assms in \<open>auto simp: reduceSortFilter_def\<close>)
qed

lemma hydrate_panel_result:
  assumes "hydrate_panel w h v p s = Some s'"
  shows "\<exists>t. activeTab (panels s p) = Some t \<and>
    s' = set_tab s p (panel_activeTabId (panels s p)) (t
      \<lparr>tab_showHidden := (case readStorage w (panel_key ''showHidden'' p) of
                            Some x \<Rightarrow> x = ''true'' | None \<Rightarrow> h),
       tab_viewMode := (let x = readStorage w (panel_key ''viewMode'' p)
                        in if truthy x then viewMode_of_str (the x) else v)\<rparr>)"
  using assms by (auto simp: hydrate_panel_def updatePanel_def Let_def bind_eq_Some_conv)

lemma hydrated_tab:
  assumes "panels_ok s" and "reduceSortFilter w s (HydratePreferences h v) = Some (s', w')"
  shows "\<exists>t. activeTab (panels s' p) = Some t \<and>
    tab_showHidden t = (case readStorage w (panel_key ''showHidden'' p) of
                          Some x \<Rightarrow> x = ''true'' | None \<Rightarrow> h) \<and>
    tab_viewMode t = (let x = readStorage w (panel_key ''viewMode'' p)
                      in if truthy x then viewMode_of_str (the x) else v)"
proof -
  from assms(2) obtain s1 where s1: "hydrate_panel w h v Left s = Some s1"
    and s2: "hydrate_panel w h v Right s1 = Some s'"
    by (auto simp: reduceSortFilter_def bind_eq_Some_conv)
  from hydrate_panel_result[OF s1] hydrate_panel_result[OF s2] show ?thesis
    by (cases p) (auto simp: activeTab_def panels_set_tab set_tab_frame simp del: fun_upd_apply)
qed

lemma viewMode_round: "(\<And>x. v \<noteq> VOther x) \<Longrightarrow> viewMode_of_str (viewMode_str v) = v"
  by (cases v) (auto simp: viewMode_of_str_def viewMode_str_def)

lemma viewMode_str_nonempty: "(\<And>x. v \<noteq> VOther x) \<Longrightarrow> viewMode_str v \<noteq> []"
  by (cases v) (auto simp: viewMode_str_def)

lemma reduceSortFilter_toggle:
  assumes "reduceSortFilter w s (ToggleHidden p) = Some (s', w')"
  shows "\<exists>t. activeTab (panels s p) = Some t \<and>
    s' = set_tab s p (panel_activeTabId (panels s p)) (toggle_hidden_tab t) \<and>
    w' = persistValue (panel_key ''showHidden'' p) (bool_str (\<not> tab_showHidden t)) w"
  using assms by (auto simp: reduceSortFilter_def updatePanel_def bind_eq_Some_conv)

lemma reduceSortFilter_view:
  assumes "reduceSortFilter w s (SetViewMode p v) = Some (s', w')"
  shows "w' = persistValue (panel_key ''viewMode'' p) (viewMode_str v) w"
  using assms by (auto simp: reduceSortFilter_def bind_eq_Some_conv)

section \<open>Properties\<close>

text \<open>Hidden files and view mode survive a restart. When local storage works, toggling
  hidden files and then setting the view mode of a panel writes them so that hydrating the
  preferences in any later session, whatever the global preferences say, gives that panel's
  active tab the same two settings. The mode is one of the five of the view menu.\<close>

theorem preferences_survive_restart:
  assumes "panels_ok s" and "ls_defined w" and "\<not> ls_getFails w" and "\<not> ls_setFails w"
    and "activeTab (panels s p) = Some t" and "\<And>x. v \<noteq> VOther x"
    and "reduceSortFilter w s (ToggleHidden p) = Some (s1, w1)"
    and "reduceSortFilter w1 s1 (SetViewMode p v) = Some (s2, w2)"
    and "panels_ok s3" and "reduceSortFilter w2 s3 (HydratePreferences h0 v0) = Some (s4, w4)"
  shows "\<exists>t'. activeTab (panels s4 p) = Some t' \<and>
    tab_showHidden t' = (\<not> tab_showHidden t) \<and> tab_viewMode t' = v"
proof -
  from reduceSortFilter_toggle[OF assms(7)] assms(5)
  have w1: "w1 = persistValue (panel_key ''showHidden'' p) (bool_str (\<not> tab_showHidden t)) w" by simp
  from reduceSortFilter_view[OF assms(8)]
  have w2: "w2 = persistValue (panel_key ''viewMode'' p) (viewMode_str v) w1" .
  have "readStorage w2 (panel_key ''showHidden'' p) = Some (bool_str (\<not> tab_showHidden t))"
    and "readStorage w2 (panel_key ''viewMode'' p) = Some (viewMode_str v)"
    using assms(2-4) by (simp_all add: w1 w2)
  with hydrated_tab[OF assms(9,10), of p] viewMode_round[OF assms(6)] viewMode_str_nonempty[OF assms(6)]
  show ?thesis by (auto simp: bool_str_def truthy_def Let_def)
qed

theorem preferences_survive_restart_witness:
  "\<exists>s4 w4 t'. activeTab (panels s4 Left) = Some t' \<and> tab_showHidden t' \<and> tab_viewMode t' = VIcons \<and>
     (\<exists>w2. reduceSortFilter w2 sample_state (HydratePreferences False VDetails) = Some (s4, w4))"
proof -
  obtain s1 w1 where 1: "reduceSortFilter sample_world sample_state (ToggleHidden Left) = Some (s1, w1)"
      "panels_ok s1"
    using reduceSortFilter_ok[OF sample_state_ok] by blast
  obtain s2 w2 where 2: "reduceSortFilter w1 s1 (SetViewMode Left VIcons) = Some (s2, w2)"
    using reduceSortFilter_ok[OF 1(2)] by blast
  obtain s4 w4 where 4: "reduceSortFilter w2 sample_state (HydratePreferences False VDetails) = Some (s4, w4)"
    using reduceSortFilter_ok[OF sample_state_ok] by blast
  have "activeTab (panels sample_state Left) = Some sample_tab" by (simp add: activeTab_def)
  moreover have "\<not> tab_showHidden sample_tab" by (simp add: sample_tab_def blank_tab_def)
  ultimately show ?thesis
    using preferences_survive_restart[OF sample_state_ok _ _ _ _ _ 1(1) 2 sample_state_ok 4, of sample_tab] 4
    by (auto simp: sample_world_def)
qed

text \<open>The chosen sort does not survive a restart. Choosing a sort field writes the new
  sort under a key of the panel, and whatever sort was chosen, the sort that a new session
  reads at start-up is the one it would have read before.\<close>

theorem chosen_sort_not_restored:
  assumes "reduceSortFilter w s (SetSort p f) = Some (s', w')"
  shows "storedSort w' = storedSort w"
proof -
  from assms obtain v where "w' = persistValue (panel_key ''sort'' p) v w"
    by (auto simp: reduceSortFilter_def Let_def bind_eq_Some_conv)
  then have "readJson w' ''fileoctopus.sort'' = readJson w ''fileoctopus.sort''"
    by (simp add: readJson_def panel_key_inject(1)[symmetric])
  then show ?thesis by (simp add: storedSort_def)
qed

theorem chosen_sort_not_restored_witness:
  "\<exists>s' w'. reduceSortFilter sample_world sample_state (SetSort Left SSize) = Some (s', w') \<and>
     storedSort w' = storedSort sample_world"
proof -
  obtain s' w' where r: "reduceSortFilter sample_world sample_state (SetSort Left SSize) = Some (s', w')"
    using reduceSortFilter_ok[OF sample_state_ok] by blast
  with chosen_sort_not_restored[OF r] show ?thesis by blast
qed

text \<open>Choosing a column sorts by it ascending, and choosing it again reverses. The first
  choice of another field gives ascending order, the second descending, the third ascending
  again, and the grouping of directories never changes.\<close>

theorem choosing_sort_cycles:
  assumes "sort_field srt \<noteq> f"
  shows "next_sort srt f = srt\<lparr>sort_field := f, sort_direction := Asc\<rparr> \<and>
    next_sort (next_sort srt f) f = srt\<lparr>sort_field := f, sort_direction := Desc\<rparr> \<and>
    next_sort (next_sort (next_sort srt f) f) f = next_sort srt f"
  using assms by (simp add: next_sort_def)

theorem choosing_sort_cycles_witness:
  "next_sort (next_sort sample_sort SSize) SSize = sample_sort\<lparr>sort_field := SSize, sort_direction := Desc\<rparr>"
proof -
  have "sort_field sample_sort \<noteq> SSize" by (simp add: sample_sort_def)
  from choosing_sort_cycles[OF this] show ?thesis by blast
qed

end
