(* ===== verification/Tabs.thy ===== *)
theory Tabs
  imports Samples
begin

text \<open>
  The tabs of a panel: the slice \<open>state/slices/tabsSlice.ts\<close>. New tab ids are
  \<open>tab-<clock>-<counter>\<close>; the counter is the module variable \<open>_tabCounter\<close> and lives in the
  world with the clock, so every operation returns the world too.
\<close>

section \<open>Definitions\<close>

definition isTabAction :: "PanelAction \<Rightarrow> bool" where
  "isTabAction a =
     (case a of OpenTab _ _ \<Rightarrow> True | OpenPreviewTab _ _ \<Rightarrow> True | OpenEditorTab _ _ \<Rightarrow> True
      | OpenGitReviewTab _ _ _ _ \<Rightarrow> True | ReplaceContentTabEntry _ _ _ \<Rightarrow> True
      | CloseTab _ _ \<Rightarrow> True | SwitchTab _ _ \<Rightarrow> True | _ \<Rightarrow> False)"

definition canCloneListing :: "PanelTabState \<Rightarrow> string \<Rightarrow> bool" where
  "canCloneListing source uri \<longleftrightarrow>
     tab_uri source = uri \<and> (tab_loadState source = LLoaded \<or> tab_loadState source = LEmpty)"

text \<open>The settings a new tab takes over: those of the source tab, or the stored ones.\<close>

definition inherited_settings ::
  "World \<Rightarrow> PanelTabState option \<Rightarrow> (SortState \<times> ViewMode \<times> bool) option" where
  "inherited_settings w source =
     (case source of
        Some t \<Rightarrow> Some (tab_sort t, tab_viewMode t, tab_showHidden t)
      | None \<Rightarrow> do { srt \<leftarrow> storedSort w; hidden \<leftarrow> storedShowHidden w; Some (srt, VDetails, hidden) })"

definition createFreshTab ::
  "World \<Rightarrow> string \<Rightarrow> PanelTabState option \<Rightarrow> PanelTabState option" where
  "createFreshTab w uri source =
     do { (srt, vm, hidden) \<leftarrow> inherited_settings w source;
          Some (case source of
             None \<Rightarrow> blank_tab TDirectory uri LLoading srt vm hidden
           | Some t \<Rightarrow>
               (if canCloneListing t uri
                then (blank_tab TDirectory uri (tab_loadState t) srt vm hidden)
                  \<lparr>tab_entriesById := tab_entriesById t,
                   tab_orderedEntryIds := tab_orderedEntryIds t,
                   tab_hashMap := tab_hashMap t\<rparr>
                else blank_tab TDirectory uri LLoading srt vm hidden)) }"

definition createContentTab ::
  "World \<Rightarrow> TabKind \<Rightarrow> FileEntryDto \<Rightarrow> PanelTabState option \<Rightarrow> PanelTabState option" where
  "createContentTab w kind entry source =
     do { (srt, vm, hidden) \<leftarrow> inherited_settings w source;
          Some ((blank_tab kind (fe_uri entry) LLoaded srt vm hidden)
            \<lparr>tab_previewEntry := (if kind = TPreview then Some entry else None),
             tab_editorEntry := (if kind = TEditor then Some entry else None)\<rparr>) }"

definition createGitReviewTab ::
  "World \<Rightarrow> string \<Rightarrow> string \<Rightarrow> string \<Rightarrow> PanelTabState option \<Rightarrow> PanelTabState option" where
  "createGitReviewTab w repoRootUri sourceUri repoLabel source =
     do { (srt, vm, hidden) \<leftarrow> inherited_settings w source;
          Some ((blank_tab TGitReview repoRootUri LLoaded srt vm hidden)
            \<lparr>tab_gitReview := Some \<lparr>gr_repoRootUri = repoRootUri, gr_sourceUri = sourceUri,
                                    gr_repoLabel = repoLabel, gr_refreshToken = 0\<rparr>\<rparr>) }"

definition generateTabId :: "World \<Rightarrow> string \<times> World" where
  "generateTabId w =
     (let n = tabCounter w + 1
      in (''tab-'' @ nat_str (clock w) @ ''-'' @ nat_str n, w\<lparr>tabCounter := n\<rparr>))"

definition add_tab ::
  "FileOctopusState \<Rightarrow> PanelId \<Rightarrow> string \<Rightarrow> PanelTabState \<Rightarrow> FileOctopusState" where
  "add_tab state pid tabId tab =
     state\<lparr>panels := (panels state)(pid :=
        (panels state pid)\<lparr>panel_activeTabId := tabId,
           panel_tabs := obj_set tabId tab (panel_tabs (panels state pid))\<rparr>)\<rparr>"

definition review_of :: "string \<Rightarrow> PanelTabState \<Rightarrow> bool" where
  "review_of repoRootUri tab \<longleftrightarrow>
     tab_tabKind tab = TGitReview \<and>
     (case tab_gitReview tab of None \<Rightarrow> False | Some g \<Rightarrow> gr_repoRootUri g = repoRootUri)"

definition refresh_review :: "string \<Rightarrow> string \<Rightarrow> string \<Rightarrow> PanelTabState \<Rightarrow> PanelTabState" where
  "refresh_review repoRootUri sourceUri repoLabel tab =
     tab\<lparr>tab_uri := repoRootUri,
         tab_gitReview := Some \<lparr>gr_repoRootUri = repoRootUri, gr_sourceUri = sourceUri,
           gr_repoLabel = repoLabel,
           gr_refreshToken =
             (case tab_gitReview tab of None \<Rightarrow> 0 | Some g \<Rightarrow> gr_refreshToken g) + 1\<rparr>\<rparr>"

definition replace_content :: "FileEntryDto \<Rightarrow> PanelTabState \<Rightarrow> PanelTabState" where
  "replace_content entry tab =
     tab\<lparr>tab_uri := fe_uri entry,
         tab_previewEntry := (if tab_tabKind tab = TPreview then Some entry else None),
         tab_editorEntry := (if tab_tabKind tab = TEditor then Some entry else None)\<rparr>"

definition close_tab :: "PanelState \<Rightarrow> string \<Rightarrow> PanelState" where
  "close_tab panel tabId =
     (let tabIds = obj_keys (panel_tabs panel)
      in if length tabIds \<le> 1 then panel
         else case index_of tabId tabIds of
           None \<Rightarrow> panel
         | Some idx \<Rightarrow>
             panel\<lparr>panel_activeTabId :=
                 (if panel_activeTabId panel = tabId
                  then (if idx > 0 then tabIds ! (idx - 1) else tabIds ! (idx + 1))
                  else panel_activeTabId panel),
               panel_tabs := obj_del tabId (panel_tabs panel)\<rparr>)"

text \<open>The id is taken before the tab is made, as in the source.\<close>

definition reduceTab ::
  "World \<Rightarrow> FileOctopusState \<Rightarrow> PanelAction \<Rightarrow> (FileOctopusState \<times> World) option" where
  "reduceTab w state action =
     (case action of
        OpenTab pid uri \<Rightarrow>
          (let (tabId, w') = generateTabId w
           in do { tab \<leftarrow> createFreshTab w' uri (activeTab (panels state pid));
                   Some (add_tab state pid tabId tab, w') })
      | OpenPreviewTab pid entry \<Rightarrow>
          (let (tabId, w') = generateTabId w
           in do { tab \<leftarrow> createContentTab w' TPreview entry (activeTab (panels state pid));
                   Some (add_tab state pid tabId tab, w') })
      | OpenEditorTab pid entry \<Rightarrow>
          (let (tabId, w') = generateTabId w
           in do { tab \<leftarrow> createContentTab w' TEditor entry (activeTab (panels state pid));
                   Some (add_tab state pid tabId tab, w') })
      | OpenGitReviewTab pid repoRootUri sourceUri repoLabel \<Rightarrow>
          (case obj_find (review_of repoRootUri) (panel_tabs (panels state pid)) of
             Some (tabId, tab) \<Rightarrow>
               Some (add_tab state pid tabId (refresh_review repoRootUri sourceUri repoLabel tab), w)
           | None \<Rightarrow>
               (let (tabId, w') = generateTabId w
                in do { tab \<leftarrow> createGitReviewTab w' repoRootUri sourceUri repoLabel
                               (activeTab (panels state pid));
                        Some (add_tab state pid tabId tab, w') }))
      | ReplaceContentTabEntry pid tabId entry \<Rightarrow>
          (case obj_get (panel_tabs (panels state pid)) tabId of
             None \<Rightarrow> Some (state, w)
           | Some tab \<Rightarrow>
               (if tab_tabKind tab \<noteq> TPreview \<and> tab_tabKind tab \<noteq> TEditor then Some (state, w)
                else Some (set_tab state pid tabId (replace_content entry tab), w)))
      | SwitchTab pid tabId \<Rightarrow>
          (if \<not> obj_has (panel_tabs (panels state pid)) tabId then Some (state, w)
           else Some (state\<lparr>panels := (panels state)(pid :=
                  (panels state pid)\<lparr>panel_activeTabId := tabId\<rparr>)\<rparr>, w))
      | CloseTab pid tabId \<Rightarrow>
          Some (state\<lparr>panels := (panels state)(pid := close_tab (panels state pid) tabId)\<rparr>, w)
      | _ \<Rightarrow> Some (state, w))"

section \<open>Well-formedness\<close>

lemma inherited_Some: "inherited_settings w (Some t) = Some (tab_sort t, tab_viewMode t, tab_showHidden t)"
  by (simp add: inherited_settings_def)

lemma createFreshTab_ok: "tab_ok t \<Longrightarrow> \<exists>n. createFreshTab w u (Some t) = Some n \<and> tab_ok n"
  by (auto simp: createFreshTab_def inherited_Some tab_ok_def blank_tab_def)

lemma createContentTab_ok: "\<exists>n. createContentTab w k e (Some t) = Some n \<and> tab_ok n"
  by (auto simp: createContentTab_def inherited_Some tab_ok_def blank_tab_def)

lemma createGitReviewTab_ok: "\<exists>n. createGitReviewTab w a b c (Some t) = Some n \<and> tab_ok n"
  by (auto simp: createGitReviewTab_def inherited_Some tab_ok_def blank_tab_def)

lemma panels_add_tab:
  "panels (add_tab s p i t) q =
     (if q = p then (panels s p)\<lparr>panel_activeTabId := i, panel_tabs := obj_set i t (panel_tabs (panels s p))\<rparr>
      else panels s q)"
  by (simp add: add_tab_def)

lemma tab_at_add_tab [simp]:
  "tab_at (add_tab s p i t) q j = (if q = p \<and> j = i then Some t else tab_at s q j)"
  by (auto simp: tab_at_def panels_add_tab)

lemma panel_ok_add_tab:
  "panel_ok p \<Longrightarrow> tab_ok t \<Longrightarrow>
   panel_ok (p\<lparr>panel_activeTabId := i, panel_tabs := obj_set i t (panel_tabs p)\<rparr>)"
  by (auto simp: panel_ok_def list_all_values_set)

lemma panels_ok_add_tab: "panels_ok s \<Longrightarrow> tab_ok t \<Longrightarrow> panels_ok (add_tab s p i t)"
  by (rule panels_okI) (simp add: panels_add_tab panels_okD panel_ok_add_tab)

lemma refresh_review_ok: "tab_ok (refresh_review a b c t) = tab_ok t"
  by (simp add: refresh_review_def tab_ok_def)

lemma replace_content_ok: "tab_ok (replace_content e t) = tab_ok t"
  by (simp add: replace_content_def tab_ok_def)

lemma panel_ok_switch: "panel_ok p \<Longrightarrow> i \<in> fst ` set (panel_tabs p) \<Longrightarrow> panel_ok (p\<lparr>panel_activeTabId := i\<rparr>)"
  by (simp add: panel_ok_def)

lemma nth_neighbour:
  assumes "distinct xs" and "i < length xs" and "1 < length xs"
  shows "(if 0 < i then xs ! (i - 1) else xs ! (i + 1)) \<in> set xs - {xs ! i}"
  using assms by (auto simp: nth_eq_iff_index_eq)

lemma close_tab_ok: assumes "panel_ok p" shows "panel_ok (close_tab p i)"
proof (cases "length (obj_keys (panel_tabs p)) \<le> 1 \<or> index_of i (obj_keys (panel_tabs p)) = None")
  case True
  with assms show ?thesis by (auto simp: close_tab_def Let_def)
next
  case False
  then obtain idx where idx: "index_of i (obj_keys (panel_tabs p)) = Some idx"
    and len: "1 < length (obj_keys (panel_tabs p))" by auto
  let ?ks = "obj_keys (panel_tabs p)"
  let ?new = "if panel_activeTabId p = i then (if idx > 0 then ?ks ! (idx - 1) else ?ks ! (idx + 1))
    else panel_activeTabId p"
  have d: "distinct ?ks" and act: "panel_activeTabId p \<in> set ?ks"
    and tabs: "list_all tab_ok (obj_values (panel_tabs p))"
    using assms by (simp_all add: panel_ok_def)
  from index_of_Some[OF idx] have "idx < length ?ks" and at: "?ks ! idx = i" by auto
  from nth_neighbour[OF d this(1) len] at act have "?new \<in> set ?ks - {i}" by auto
  then have new: "?new \<in> fst ` set (obj_del i (panel_tabs p))"
    by (simp only: set_obj_keys_del set_map)
  have "close_tab p i = p\<lparr>panel_activeTabId := ?new, panel_tabs := obj_del i (panel_tabs p)\<rparr>"
    using len by (simp add: close_tab_def Let_def idx)
  with new d tabs show ?thesis by (simp only: panel_ok_def) (simp add: list_all_values_del)
qed

lemma panels_ok_upd: "panels_ok s \<Longrightarrow> panel_ok p' \<Longrightarrow> panels_ok (s\<lparr>panels := (panels s)(p := p')\<rparr>)"
  by (cases p) (auto simp: panels_ok_def)

lemma reduceTab_ok:
  assumes "panels_ok s" shows "\<exists>s' w'. reduceTab w s a = Some (s', w') \<and> panels_ok s'"
proof -
  have act: "\<exists>t. activeTab (panels s p) = Some t \<and> tab_ok t" for p
    using panel_ok_active[OF panels_okD[OF assms]] .
  note [simp] = panels_ok_add_tab[OF assms] panels_ok_upd[OF assms] panels_okD[OF assms] assms
  show ?thesis
  proof (cases a)
    case (OpenTab p u)
    from act obtain t where t: "activeTab (panels s p) = Some t" "tab_ok t" by blast
    obtain i w' where g: "generateTabId w = (i, w')" by fastforce
    from createFreshTab_ok[OF t(2), of w' u] t(1) g OpenTab show ?thesis by (auto simp: reduceTab_def)
  next
    case (OpenPreviewTab p e)
    from act obtain t where t: "activeTab (panels s p) = Some t" "tab_ok t" by blast
    obtain i w' where g: "generateTabId w = (i, w')" by fastforce
    from createContentTab_ok[of w' TPreview e t] t(1) g OpenPreviewTab show ?thesis by (auto simp: reduceTab_def)
  next
    case (OpenEditorTab p e)
    from act obtain t where t: "activeTab (panels s p) = Some t" "tab_ok t" by blast
    obtain i w' where g: "generateTabId w = (i, w')" by fastforce
    from createContentTab_ok[of w' TEditor e t] t(1) g OpenEditorTab show ?thesis by (auto simp: reduceTab_def)
  next
    case (OpenGitReviewTab p r u l)
    from act obtain t where t: "activeTab (panels s p) = Some t" "tab_ok t" by blast
    obtain i w' where g: "generateTabId w = (i, w')" by fastforce
    have "tab_ok x" if "obj_find (review_of r) (panel_tabs (panels s p)) = Some (k, x)" for k x
    proof -
      have "distinct (obj_keys (panel_tabs (panels s p)))"
        using panels_okD[OF assms, of p] by (simp add: panel_ok_def)
      from obj_find_get[OF this that] panel_ok_tab[OF panels_okD[OF assms]] show ?thesis by blast
    qed
    with createGitReviewTab_ok[of w' r u l t] t(1) g OpenGitReviewTab show ?thesis
      by (auto simp: reduceTab_def refresh_review_ok split: option.splits)
  next
    case (ReplaceContentTabEntry p i e)
    then show ?thesis
      using panel_ok_tab[OF panels_okD[OF assms]]
      by (auto simp: reduceTab_def replace_content_ok panels_ok_set_tab split: option.splits)
  next
    case (SwitchTab p i)
    then show ?thesis by (auto simp: reduceTab_def panel_ok_switch)
  next
    case (CloseTab p i)
    then show ?thesis by (simp add: reduceTab_def close_tab_ok)
  qed (simp_all add: reduceTab_def)
qed

section \<open>Tab ids\<close>

definition tab_id :: "nat \<Rightarrow> nat \<Rightarrow> string" where
  "tab_id c n = ''tab-'' @ nat_str c @ ''-'' @ nat_str n"

lemma generateTabId_eq: "generateTabId w = (tab_id (clock w) (tabCounter w + 1), w\<lparr>tabCounter := tabCounter w + 1\<rparr>)"
  by (simp add: generateTabId_def tab_id_def Let_def)

lemma tab_id_inject [simp]: "tab_id c n = tab_id d m \<longleftrightarrow> c = d \<and> n = m"
proof
  assume "tab_id c n = tab_id d m"
  then have "nat_str c @ [CHR ''-''] @ nat_str n = nat_str d @ [CHR ''-''] @ nat_str m"
    by (simp add: tab_id_def)
  from append_sep_inject[OF this nat_str_no_dash nat_str_no_dash] show "c = d \<and> n = m" by simp
qed simp

lemma tab_id_not_main [simp]: "tab_id c n \<noteq> ''main''"
  by (simp add: tab_id_def)

text \<open>Every tab is the first one of its panel or was numbered by the counter.\<close>

definition ids_known :: "World \<Rightarrow> FileOctopusState \<Rightarrow> bool" where
  "ids_known w s \<longleftrightarrow>
     (\<forall>p i. tab_at s p i \<noteq> None \<longrightarrow> i = ''main'' \<or> (\<exists>c n. n \<le> tabCounter w \<and> i = tab_id c n))"

lemma generated_id_fresh:
  "ids_known w s \<Longrightarrow> generateTabId w = (i, w') \<Longrightarrow> tab_at s p i = None"
  unfolding ids_known_def generateTabId_eq
  by (metis Pair_inject add_le_same_cancel1 not_one_le_zero tab_id_inject tab_id_not_main)

lemma ids_known_mono: "ids_known w s \<Longrightarrow> tabCounter w \<le> tabCounter w' \<Longrightarrow> ids_known w' s"
  unfolding ids_known_def by (meson order_trans)

lemma ids_known_sub:
  "ids_known w s \<Longrightarrow> (\<And>p i. tab_at s' p i \<noteq> None \<Longrightarrow> tab_at s p i \<noteq> None) \<Longrightarrow> ids_known w s'"
  unfolding ids_known_def by blast

lemma ids_known_add_tab:
  assumes "ids_known w s" and "generateTabId w = (i, w')"
  shows "ids_known w' (add_tab s p i t)"
proof -
  have w': "w' = w\<lparr>tabCounter := tabCounter w + 1\<rparr>" and i: "i = tab_id (clock w) (tabCounter w + 1)"
    using assms(2) by (simp_all add: generateTabId_eq)
  have "ids_known w' s" using ids_known_mono[OF assms(1)] by (simp add: w')
  then show ?thesis unfolding ids_known_def tab_at_add_tab i w' by auto
qed

lemma ids_known_set_tab: "ids_known w s \<Longrightarrow> tab_at s p i \<noteq> None \<Longrightarrow> ids_known w (set_tab s p i t)"
  by (erule ids_known_sub) (auto split: if_splits)

lemma tab_at_upd_panel:
  "tab_at (s\<lparr>panels := (panels s)(p := p')\<rparr>) q j =
     (if q = p then obj_get (panel_tabs p') j else tab_at s q j)"
  by (simp add: tab_at_def)

lemma close_tab_get:
  "obj_get (panel_tabs (close_tab p i)) j =
     (if j = i \<and> 1 < length (panel_tabs p) then None else obj_get (panel_tabs p) j)"
  by (auto simp: close_tab_def Let_def index_of_None map_of_eq_None_iff split: option.splits)

lemma reduceTab_review:
  "reduceTab w s (OpenGitReviewTab p r u l) = Some (s', w') \<Longrightarrow>
   (\<exists>i x. obj_find (review_of r) (panel_tabs (panels s p)) = Some (i, x) \<and>
      s' = add_tab s p i (refresh_review r u l x) \<and> w' = w) \<or>
   (\<exists>i t. obj_find (review_of r) (panel_tabs (panels s p)) = None \<and>
      generateTabId w = (i, w') \<and> createGitReviewTab w' r u l (activeTab (panels s p)) = Some t \<and>
      s' = add_tab s p i t)"
  by (auto simp: reduceTab_def bind_eq_Some_conv split: prod.splits option.splits)

lemma obj_find_present: "obj_find P ob = Some (i, x) \<Longrightarrow> obj_get ob i \<noteq> None"
  by (auto dest!: obj_find_Some simp: map_of_eq_None_iff intro: rev_image_eqI)

lemma reduceTab_ids_known:
  assumes "ids_known w s" and "reduceTab w s a = Some (s', w')"
  shows "ids_known w' s'"
proof (cases a)
  case (OpenGitReviewTab p r u l)
  from reduceTab_review[OF assms(2)[unfolded OpenGitReviewTab]] show ?thesis
  proof (elim disjE exE conjE)
    fix i x assume f: "obj_find (review_of r) (panel_tabs (panels s p)) = Some (i, x)"
      and s': "s' = add_tab s p i (refresh_review r u l x)" and w': "w' = w"
    from obj_find_present[OF f] have "tab_at s p i \<noteq> None" by (simp add: tab_at_def)
    then show ?thesis unfolding w' s' by (intro ids_known_sub[OF assms(1)]) (auto split: if_splits)
  qed (simp add: ids_known_add_tab[OF assms(1)])
next
  case (ReplaceContentTabEntry p i e)
  with assms show ?thesis
    by (auto simp: reduceTab_def tab_at_def[symmetric] ids_known_set_tab split: option.splits if_splits)
next
  case (CloseTab p i)
  with assms(2) have "w' = w" "s' = s\<lparr>panels := (panels s)(p := close_tab (panels s p) i)\<rparr>"
    by (simp_all add: reduceTab_def)
  then show ?thesis
    by (auto simp: tab_at_upd_panel close_tab_get intro!: ids_known_sub[OF assms(1)] split: if_splits)
      (auto simp: tab_at_def)
next
  case (SwitchTab p i)
  with assms(2) have "w' = w" "\<And>q j. tab_at s' q j = tab_at s q j"
    by (auto simp: reduceTab_def tab_at_def split: if_splits)
  then show ?thesis using assms(1) by (simp add: ids_known_def)
qed (use assms ids_known_add_tab[OF assms(1)] in
      \<open>auto simp: reduceTab_def bind_eq_Some_conv split: prod.splits\<close>)

definition history_is_empty :: "PanelTabState \<Rightarrow> bool" where
  "history_is_empty t \<longleftrightarrow> tab_backStack t = [] \<and> tab_forwardStack t = []"

section \<open>One review per repository\<close>

definition one_review :: "PanelState \<Rightarrow> bool" where
  "one_review p \<longleftrightarrow>
     (\<forall>i j t u r. obj_get (panel_tabs p) i = Some t \<longrightarrow> obj_get (panel_tabs p) j = Some u \<longrightarrow>
        review_of r t \<longrightarrow> review_of r u \<longrightarrow> i = j)"

lemma one_reviewD:
  "one_review p \<Longrightarrow> obj_get (panel_tabs p) i = Some t \<Longrightarrow> obj_get (panel_tabs p) j = Some u \<Longrightarrow>
   review_of r t \<Longrightarrow> review_of r u \<Longrightarrow> i = j"
  unfolding one_review_def by blast

lemma one_review_add:
  assumes "one_review p"
    and "\<And>j u r. j \<noteq> i \<Longrightarrow> obj_get (panel_tabs p) j = Some u \<Longrightarrow> review_of r u \<Longrightarrow> \<not> review_of r t"
  shows "one_review (p\<lparr>panel_activeTabId := k, panel_tabs := obj_set i t (panel_tabs p)\<rparr>)"
  using assms unfolding one_review_def by (simp split: if_splits) blast

lemma one_review_tabs: "one_review (p\<lparr>panel_activeTabId := k\<rparr>) = one_review p"
  by (simp add: one_review_def)

lemma one_review_new:
  assumes "one_review p" and "\<And>r. \<not> review_of r t"
  shows "one_review (p\<lparr>panel_activeTabId := k, panel_tabs := obj_set i t (panel_tabs p)\<rparr>)"
  using assms by (intro one_review_add) auto

lemma not_review [simp]:
  "createFreshTab w u src = Some t \<Longrightarrow> \<not> review_of r t"
  "createContentTab w k e src = Some t \<Longrightarrow> k \<noteq> TGitReview \<Longrightarrow> \<not> review_of r t"
  by (auto simp: createFreshTab_def createContentTab_def review_of_def blank_tab_def bind_eq_Some_conv
      split: option.splits if_splits)

lemma review_of_created:
  "createGitReviewTab w a b c src = Some t \<Longrightarrow> review_of r t \<longleftrightarrow> r = a"
  by (auto simp: createGitReviewTab_def review_of_def blank_tab_def bind_eq_Some_conv)

lemma review_of_refreshed: "review_of a t \<Longrightarrow> review_of r (refresh_review a b c t) \<longleftrightarrow> r = a"
  by (auto simp: refresh_review_def review_of_def split: option.splits)

lemma one_review_close: "one_review p \<Longrightarrow> one_review (close_tab p i)"
  unfolding one_review_def close_tab_get by (auto split: if_splits)

lemma one_review_replace:
  assumes "one_review p" and "obj_get (panel_tabs p) i = Some t"
    and "tab_tabKind t = TPreview \<or> tab_tabKind t = TEditor"
  shows "one_review (p\<lparr>panel_tabs := obj_set i (replace_content e t) (panel_tabs p)\<rparr>)"
proof -
  have "\<not> review_of r (replace_content e t)" for r
    using assms(3) by (auto simp: replace_content_def review_of_def)
  with one_review_new[OF assms(1), where t = "replace_content e t" and k = "panel_activeTabId p" and i = i] show ?thesis by simp
qed

lemma one_review_open_review:
  assumes "panels_ok s" and "one_review (panels s p)"
    and "reduceTab w s (OpenGitReviewTab p r u l) = Some (s', w')"
  shows "one_review (panels s' p)"
  using reduceTab_review[OF assms(3)]
proof (elim disjE exE conjE)
  fix i x assume f: "obj_find (review_of r) (panel_tabs (panels s p)) = Some (i, x)"
    and s': "s' = add_tab s p i (refresh_review r u l x)"
  have "distinct (obj_keys (panel_tabs (panels s p)))"
    using panels_okD[OF assms(1), of p] by (simp add: panel_ok_def)
  from obj_find_get[OF this f] obj_find_Some[OF f]
  have x: "obj_get (panel_tabs (panels s p)) i = Some x" "review_of r x" by auto
  show ?thesis
    unfolding s' using one_reviewD[OF assms(2) x(1) _ x(2)]
    by (auto simp: panels_add_tab review_of_refreshed[OF x(2)] intro!: one_review_add[OF assms(2)])
next
  fix i t assume none: "obj_find (review_of r) (panel_tabs (panels s p)) = None"
    and t: "createGitReviewTab w' r u l (activeTab (panels s p)) = Some t" and s': "s' = add_tab s p i t"
  have "\<not> review_of r u" if "obj_get (panel_tabs (panels s p)) j = Some u" for j u
    using none obj_get_value[OF that] unfolding obj_find_None by blast
  then show ?thesis
    unfolding s' by (auto simp: panels_add_tab review_of_created[OF t] intro!: one_review_add[OF assms(2)])
qed

lemma one_review_reduceTab:
  assumes "panels_ok s" and "\<And>q. one_review (panels s q)" and "reduceTab w s a = Some (s', w')"
  shows "one_review (panels s' q)"
proof (cases a)
  case (OpenGitReviewTab p r u l)
  have "panels s' q = panels s q" if "q \<noteq> p"
    using reduceTab_review[OF assms(3)[unfolded OpenGitReviewTab]] that by (auto simp: panels_add_tab)
  with one_review_open_review[OF assms(1,2) assms(3)[unfolded OpenGitReviewTab]] assms(2)
  show ?thesis by (cases "q = p") auto
next
  case (ReplaceContentTabEntry p i e)
  with assms(3) one_review_replace[OF assms(2)] assms(2) show ?thesis
    by (auto simp: reduceTab_def panels_set_tab split: option.splits if_splits)
next
  case (CloseTab p i)
  with assms(3) one_review_close[OF assms(2)] assms(2) show ?thesis by (auto simp: reduceTab_def)
next
  case (SwitchTab p i)
  with assms(2,3) show ?thesis by (auto simp: reduceTab_def one_review_tabs split: if_splits)
qed (use assms(2,3) in \<open>auto simp: reduceTab_def bind_eq_Some_conv panels_add_tab one_review_new
       split: prod.splits\<close>)

section \<open>Properties\<close>

text \<open>Opening a directory tab adds one tab and disturbs none. The new tab gets an id that
  no tab of either panel has, becomes the active tab of its panel with the requested place
  and nothing selected, and every other tab stays as it was; the invariant on ids that makes
  this true holds again afterwards.\<close>

theorem open_tab_adds_one:
  assumes "panels_ok s" and "ids_known w s" and "reduceTab w s (OpenTab p u) = Some (s', w')"
  shows "ids_known w' s' \<and>
    (\<forall>q. tab_at s q (panel_activeTabId (panels s' p)) = None) \<and>
    (\<exists>t. activeTab (panels s' p) = Some t \<and> tab_uri t = u \<and> tab_tabKind t = TDirectory \<and>
         tab_selectedIds t = [] \<and> history_is_empty t) \<and>
    (\<forall>q j. (q, j) \<noteq> (p, panel_activeTabId (panels s' p)) \<longrightarrow> tab_at s' q j = tab_at s q j)"
proof -
  from assms(3) obtain i t where g: "generateTabId w = (i, w')"
    and t: "createFreshTab w' u (activeTab (panels s p)) = Some t" and s': "s' = add_tab s p i t"
    by (auto simp: reduceTab_def bind_eq_Some_conv split: prod.splits)
  have "tab_uri t = u \<and> tab_tabKind t = TDirectory \<and> tab_selectedIds t = [] \<and> history_is_empty t"
    using t by (auto simp: createFreshTab_def blank_tab_def bind_eq_Some_conv history_is_empty_def
        split: option.splits if_splits)
  with generated_id_fresh[OF assms(2) g] reduceTab_ids_known[OF assms(2,3)] show ?thesis
    by (auto simp: s' panels_add_tab activeTab_def)
qed

theorem open_tab_adds_one_witness:
  "\<exists>s' w'. reduceTab sample_world sample_state (OpenTab Right ''local:///x'') = Some (s', w') \<and>
     tab_at s' Left ''main'' = Some sample_tab"
proof -
  from reduceTab_ok[OF sample_state_ok] obtain s' w'
    where r: "reduceTab sample_world sample_state (OpenTab Right ''local:///x'') = Some (s', w')" by blast
  have "ids_known sample_world sample_state" by (simp add: ids_known_def all_PanelId)
  from open_tab_adds_one[OF sample_state_ok this r] r show ?thesis by auto
qed

text \<open>Closing a tab closes that tab only. The last tab of a panel and an unknown tab are
  not closed; otherwise the tab is gone, every other tab of both panels is as before, and the
  panel's active tab is the one it was or, when that was closed, another tab that exists.\<close>

theorem close_tab_closes_one:
  assumes "panels_ok s" and "reduceTab w s (CloseTab p i) = Some (s', w')"
  shows "(length (panel_tabs (panels s p)) \<le> 1 \<or> tab_at s p i = None \<longrightarrow> s' = s) \<and>
    (1 < length (panel_tabs (panels s p)) \<longrightarrow> tab_at s' p i = None) \<and>
    (\<forall>q j. (q, j) \<noteq> (p, i) \<longrightarrow> tab_at s' q j = tab_at s q j) \<and>
    (panel_activeTabId (panels s p) \<noteq> i \<longrightarrow>
       panel_activeTabId (panels s' p) = panel_activeTabId (panels s p)) \<and>
    activeTab (panels s' p) \<noteq> None"
proof -
  from assms(2) have s': "s' = s\<lparr>panels := (panels s)(p := close_tab (panels s p) i)\<rparr>"
    by (simp add: reduceTab_def)
  have "tab_at s p i = None \<Longrightarrow> index_of i (obj_keys (panel_tabs (panels s p))) = None"
    by (simp add: index_of_None tab_at_def map_of_eq_None_iff)
  then have "length (panel_tabs (panels s p)) \<le> 1 \<or> tab_at s p i = None \<Longrightarrow>
      close_tab (panels s p) i = panels s p"
    by (auto simp: close_tab_def Let_def)
  moreover have "panel_activeTabId (panels s p) \<noteq> i \<Longrightarrow>
      panel_activeTabId (close_tab (panels s p) i) = panel_activeTabId (panels s p)"
    by (auto simp: close_tab_def Let_def split: option.splits)
  moreover have "activeTab (close_tab (panels s p) i) \<noteq> None"
    using panel_ok_active[OF close_tab_ok[OF panels_okD[OF assms(1)]]] by fastforce
  ultimately show ?thesis
    by (auto simp: s' tab_at_upd_panel close_tab_get) (auto simp: tab_at_def)
qed

theorem close_tab_closes_one_witness:
  "\<exists>s' w'. reduceTab sample_world sample_state (CloseTab Left ''main'') = Some (s', w') \<and>
     s' = sample_state"
proof -
  from reduceTab_ok[OF sample_state_ok] obtain s' w'
    where r: "reduceTab sample_world sample_state (CloseTab Left ''main'') = Some (s', w')" by blast
  from close_tab_closes_one[OF sample_state_ok r] r show ?thesis by auto
qed

text \<open>A panel never shows two reviews of one repository. Every tab action keeps it so,
  because asking for a review that is open goes to its tab and counts up its refresh token.\<close>

theorem one_review_per_repository:
  assumes "panels_ok s" and "\<And>q. one_review (panels s q)" and "reduceTab w s a = Some (s', w')"
  shows "one_review (panels s' q)"
  by (rule one_review_reduceTab[OF assms])

theorem one_review_per_repository_witness:
  "\<exists>s' w'. reduceTab sample_world sample_state
       (OpenGitReviewTab Left ''local:///r'' ''local:///r'' ''r'') = Some (s', w') \<and>
     one_review (panels s' Left)"
proof -
  from reduceTab_ok[OF sample_state_ok] obtain s' w' where r: "reduceTab sample_world sample_state
       (OpenGitReviewTab Left ''local:///r'' ''local:///r'' ''r'') = Some (s', w')" by blast
  have "one_review (panels sample_state q)" for q by (cases q) (auto simp: one_review_def split: if_splits)
  from one_review_per_repository[OF sample_state_ok this r] r show ?thesis by blast
qed

end
