(* ===== verification/ContentSearch.thy ===== *)
theory ContentSearch
  imports Samples
begin

text \<open>
  Content search in a tab: the slice \<open>state/slices/contentSearchSlice.ts\<close>. A search is
  started, bound to the job the back end answers with, receives matches and ends. Events of
  a job that no tab is bound to yet are buffered in the state and replayed when the job is
  bound; a job that has ended is remembered, so that late events do not open a buffer again.
\<close>

section \<open>Definitions\<close>

definition isContentSearchAction :: "PanelAction \<Rightarrow> bool" where
  "isContentSearchAction a =
     (case a of SetContentSearchQuery _ _ _ \<Rightarrow> True | StartContentSearch _ _ _ _ _ _ \<Rightarrow> True
      | BindContentSearchJob _ _ _ _ \<Rightarrow> True | FailContentSearchStart _ _ _ _ \<Rightarrow> True
      | ApplyContentSearchMatch _ \<Rightarrow> True | ApplyContentSearchCompleted _ \<Rightarrow> True
      | TerminateContentSearchJob _ _ _ \<Rightarrow> True | DiscardContentSearchJobEvents _ \<Rightarrow> True
      | _ \<Rightarrow> False)"

definition isSameMatch :: "ContentSearchMatchDto \<Rightarrow> ContentSearchMatchDto \<Rightarrow> bool" where
  "isSameMatch l r \<longleftrightarrow>
     match_uri l = match_uri r \<and> match_lineNumber l = match_lineNumber r \<and>
     match_matchStart l = match_matchStart r \<and> match_matchEnd l = match_matchEnd r"

definition result_matches :: "ContentSearchState \<Rightarrow> ContentSearchMatchDto list" where
  "result_matches search = (case cs_result search of None \<Rightarrow> [] | Some r \<Rightarrow> res_matches r)"

definition appendMatch :: "ContentSearchState \<Rightarrow> ContentSearchMatchDto \<Rightarrow> ContentSearchState" where
  "appendMatch search item =
     (let matches = result_matches search
      in if list_ex (\<lambda>m. isSameMatch m item) matches then search
         else search\<lparr>cs_result := Some
           \<lparr>res_matches = matches @ [item],
            res_warnings = (case cs_result search of None \<Rightarrow> [] | Some r \<Rightarrow> res_warnings r),
            res_incomplete = (case cs_result search of None \<Rightarrow> False | Some r \<Rightarrow> res_incomplete r)\<rparr>\<rparr>)"

definition has_job :: "string \<Rightarrow> PanelTabState \<Rightarrow> bool" where
  "has_job jobId tab =
     (case tab_contentSearch tab of None \<Rightarrow> False | Some s \<Rightarrow> cs_jobId s = Some jobId)"

definition findSearchByJobId :: "FileOctopusState \<Rightarrow> string \<Rightarrow> (PanelId \<times> string) option" where
  "findSearchByJobId state jobId = find_tab state (has_job jobId)"

definition pendingEvents :: "FileOctopusState \<Rightarrow> string \<Rightarrow> PendingContentSearchEvents" where
  "pendingEvents state jobId =
     (case obj_get (pendingContentSearchEvents state) jobId of
        Some e \<Rightarrow> e
      | None \<Rightarrow> \<lparr>pend_matches = [], pend_completion = None, pend_terminal = None\<rparr>)"

definition setBufferedJob ::
  "FileOctopusState \<Rightarrow> string \<Rightarrow> PendingContentSearchEvents \<Rightarrow> FileOctopusState" where
  "setBufferedJob state jobId events =
     state\<lparr>pendingContentSearchEvents := obj_set jobId events (pendingContentSearchEvents state)\<rparr>"

definition clearBufferedJob :: "FileOctopusState \<Rightarrow> string \<Rightarrow> FileOctopusState" where
  "clearBufferedJob state jobId =
     (if obj_get (pendingContentSearchEvents state) jobId = None then state
      else state\<lparr>pendingContentSearchEvents := obj_del jobId (pendingContentSearchEvents state)\<rparr>)"

definition absorbJob :: "FileOctopusState \<Rightarrow> string \<Rightarrow> FileOctopusState" where
  "absorbJob state jobId =
     (let cleared = clearBufferedJob state jobId
      in if jobId \<in> set (absorbedContentSearchJobIds cleared) then cleared
         else cleared\<lparr>absorbedContentSearchJobIds :=
                slice_last 128 (absorbedContentSearchJobIds cleared @ [jobId])\<rparr>)"

definition bufferMatch :: "FileOctopusState \<Rightarrow> ContentSearchMatchEventDto \<Rightarrow> FileOctopusState" where
  "bufferMatch state event =
     (if csm_jobId event \<in> set (absorbedContentSearchJobIds state) then state
      else let buffered = pendingEvents state (csm_jobId event)
           in if list_ex (\<lambda>it. isSameMatch (csm_item it) (csm_item event)) (pend_matches buffered)
              then state
              else setBufferedJob state (csm_jobId event)
                (buffered\<lparr>pend_matches := slice_last 500 (pend_matches buffered @ [event])\<rparr>))"

definition bufferCompletion :: "FileOctopusState \<Rightarrow> ContentSearchCompletedEventDto \<Rightarrow> FileOctopusState" where
  "bufferCompletion state event =
     (if csc_jobId event \<in> set (absorbedContentSearchJobIds state) then state
      else setBufferedJob state (csc_jobId event)
             ((pendingEvents state (csc_jobId event))\<lparr>pend_completion := Some event\<rparr>))"

definition bufferTerminal ::
  "FileOctopusState \<Rightarrow> string \<Rightarrow> ContentSearchStatus \<Rightarrow> string \<Rightarrow> FileOctopusState" where
  "bufferTerminal state jobId status err =
     (if jobId \<in> set (absorbedContentSearchJobIds state) then state
      else setBufferedJob state jobId
             ((pendingEvents state jobId)\<lparr>pend_terminal := Some (status, err)\<rparr>))"

text \<open>The replay of the buffered events of a job on the search it is bound to.\<close>

definition replay_matches ::
  "ContentSearchMatchEventDto list \<Rightarrow> ContentSearchState \<Rightarrow> ContentSearchState" where
  "replay_matches events search =
     fold (\<lambda>event s. if csm_uri event = cs_rootUri s \<and> csm_query event = cs_query s
                     then appendMatch s (csm_item event) else s) events search"

definition replay_end :: "PendingContentSearchEvents \<Rightarrow> ContentSearchState \<Rightarrow> ContentSearchState" where
  "replay_end buffered search =
     (case pend_completion buffered of
        Some c \<Rightarrow>
          (if csc_uri c = cs_rootUri search \<and> csc_query c = cs_query search
           then search\<lparr>cs_status := CCompleted, cs_result := Some (csc_result c), cs_error := None\<rparr>
           else case pend_terminal buffered of
             Some (st, e) \<Rightarrow> search\<lparr>cs_status := st, cs_error := Some e\<rparr> | None \<Rightarrow> search)
      | None \<Rightarrow>
          (case pend_terminal buffered of
             Some (st, e) \<Rightarrow> search\<lparr>cs_status := st, cs_error := Some e\<rparr> | None \<Rightarrow> search))"

definition search_at :: "FileOctopusState \<Rightarrow> PanelId \<Rightarrow> string \<Rightarrow> ContentSearchState option" where
  "search_at state pid tabId =
     (case tab_at state pid tabId of None \<Rightarrow> None | Some tab \<Rightarrow> tab_contentSearch tab)"

definition set_search ::
  "FileOctopusState \<Rightarrow> PanelId \<Rightarrow> string \<Rightarrow> ContentSearchState \<Rightarrow> FileOctopusState" where
  "set_search state pid tabId search =
     updatePanelTab state pid tabId (\<lambda>tab. tab\<lparr>tab_contentSearch := Some search\<rparr>)"

definition bindContentSearchJob ::
  "FileOctopusState \<Rightarrow> PanelId \<Rightarrow> string \<Rightarrow> string \<Rightarrow> string \<Rightarrow> FileOctopusState" where
  "bindContentSearchJob state pid tabId requestId jobId =
     (case search_at state pid tabId of
        None \<Rightarrow> state
      | Some search \<Rightarrow>
          (if cs_requestId search \<noteq> requestId \<or> cs_status search \<noteq> CStarting then state
           else let started = search\<lparr>cs_status := CRunning, cs_jobId := Some jobId\<rparr>;
                    nextSearch =
                      (case obj_get (pendingContentSearchEvents state) jobId of
                         None \<Rightarrow> started
                       | Some buffered \<Rightarrow>
                           replay_end buffered (replay_matches (pend_matches buffered) started));
                    next = set_search state pid tabId nextSearch
                in clearBufferedJob
                     (if cs_status nextSearch = CRunning then next else absorbJob next jobId) jobId))"

definition fail_start :: "string \<Rightarrow> string \<Rightarrow> PanelTabState \<Rightarrow> PanelTabState" where
  "fail_start requestId err tab =
     (case tab_contentSearch tab of
        None \<Rightarrow> tab
      | Some search \<Rightarrow>
          (if cs_requestId search \<noteq> requestId \<or> cs_status search \<noteq> CStarting then tab
           else tab\<lparr>tab_contentSearch :=
                  Some (search\<lparr>cs_status := CFailed, cs_error := Some err\<rparr>)\<rparr>))"

definition start_search ::
  "string \<Rightarrow> string \<Rightarrow> string \<Rightarrow> ContentSearchOptions \<Rightarrow> PanelTabState \<Rightarrow> PanelTabState" where
  "start_search requestId rootUri query opts tab =
     tab\<lparr>tab_contentSearchQuery := query,
         tab_contentSearch := Some
           \<lparr>cs_requestId = requestId, cs_rootUri = rootUri, cs_query = query, cs_options = opts,
            cs_status = CStarting, cs_jobId = None,
            cs_result = Some \<lparr>res_matches = [], res_warnings = [], res_incomplete = False\<rparr>,
            cs_error = None\<rparr>\<rparr>"

definition apply_match :: "FileOctopusState \<Rightarrow> ContentSearchMatchEventDto \<Rightarrow> FileOctopusState" where
  "apply_match state event =
     (case findSearchByJobId state (csm_jobId event) of
        None \<Rightarrow> bufferMatch state event
      | Some (pid, tabId) \<Rightarrow>
          (case search_at state pid tabId of
             None \<Rightarrow> state
           | Some search \<Rightarrow>
               (if cs_status search \<noteq> CRunning \<or> cs_rootUri search \<noteq> csm_uri event \<or>
                   cs_query search \<noteq> csm_query event
                then state
                else let next = appendMatch search (csm_item event)
                     in if next = search then state else set_search state pid tabId next)))"

definition apply_completed :: "FileOctopusState \<Rightarrow> ContentSearchCompletedEventDto \<Rightarrow> FileOctopusState" where
  "apply_completed state event =
     (case findSearchByJobId state (csc_jobId event) of
        None \<Rightarrow> bufferCompletion state event
      | Some (pid, tabId) \<Rightarrow>
          (case search_at state pid tabId of
             None \<Rightarrow> state
           | Some search \<Rightarrow>
               (if cs_status search \<noteq> CRunning \<or> cs_rootUri search \<noteq> csc_uri event \<or>
                   cs_query search \<noteq> csc_query event
                then state
                else absorbJob (set_search state pid tabId
                       (search\<lparr>cs_status := CCompleted, cs_result := Some (csc_result event),
                               cs_error := None\<rparr>)) (csc_jobId event))))"

definition terminate_job ::
  "FileOctopusState \<Rightarrow> string \<Rightarrow> ContentSearchStatus \<Rightarrow> string \<Rightarrow> FileOctopusState" where
  "terminate_job state jobId status err =
     (case findSearchByJobId state jobId of
        None \<Rightarrow> bufferTerminal state jobId status err
      | Some (pid, tabId) \<Rightarrow>
          (case search_at state pid tabId of
             None \<Rightarrow> state
           | Some search \<Rightarrow>
               (if \<not> isContentSearchActive (Some search) then state
                else absorbJob (set_search state pid tabId
                       (search\<lparr>cs_status := status, cs_error := Some err\<rparr>)) jobId)))"

definition reduceContentSearch :: "FileOctopusState \<Rightarrow> PanelAction \<Rightarrow> FileOctopusState" where
  "reduceContentSearch state action =
     (case action of
        SetContentSearchQuery pid tabId query \<Rightarrow>
          updatePanelTab state pid tabId (\<lambda>tab. tab\<lparr>tab_contentSearchQuery := query\<rparr>)
      | StartContentSearch pid tabId requestId rootUri query opts \<Rightarrow>
          updatePanelTab state pid tabId (start_search requestId rootUri query opts)
      | BindContentSearchJob pid tabId requestId jobId \<Rightarrow>
          bindContentSearchJob state pid tabId requestId jobId
      | FailContentSearchStart pid tabId requestId err \<Rightarrow>
          updatePanelTab state pid tabId (fail_start requestId err)
      | ApplyContentSearchMatch event \<Rightarrow> apply_match state event
      | ApplyContentSearchCompleted event \<Rightarrow> apply_completed state event
      | TerminateContentSearchJob jobId status err \<Rightarrow> terminate_job state jobId status err
      | DiscardContentSearchJobEvents jobId \<Rightarrow> absorbJob state jobId
      | _ \<Rightarrow> state)"

section \<open>Frame and well-formedness\<close>

lemma panels_buffers [simp]:
  "panels (setBufferedJob s j e) = panels s" "panels (clearBufferedJob s j) = panels s"
  "panels (absorbJob s j) = panels s"
  by (auto simp: setBufferedJob_def clearBufferedJob_def absorbJob_def Let_def)

lemma panels_buffer_events [simp]:
  "panels (bufferMatch s m) = panels s" "panels (bufferCompletion s c) = panels s"
  "panels (bufferTerminal s j st msg) = panels s"
  by (auto simp: bufferMatch_def bufferCompletion_def bufferTerminal_def Let_def)

lemma panels_ok_cong: "panels s' = panels s \<Longrightarrow> panels_ok s' = panels_ok s"
  by (simp add: panels_ok_def)

lemma panels_ok_buffers [simp]:
  "panels_ok (setBufferedJob s j e) = panels_ok s" "panels_ok (clearBufferedJob s j) = panels_ok s"
  "panels_ok (absorbJob s j) = panels_ok s" "panels_ok (bufferMatch s m) = panels_ok s"
  "panels_ok (bufferCompletion s c) = panels_ok s" "panels_ok (bufferTerminal s j st msg) = panels_ok s"
  by (simp_all add: panels_ok_def)

lemma tab_ok_search [simp]:
  "tab_ok (t\<lparr>tab_contentSearch := cs\<rparr>) = tab_ok t" "tab_ok (t\<lparr>tab_contentSearchQuery := q\<rparr>) = tab_ok t"
  by (simp_all add: tab_ok_def)

lemma start_search_ok [wf_intros]: "tab_ok (start_search r u q opts t) = tab_ok t"
  by (simp add: start_search_def tab_ok_def)

lemma fail_start_ok [wf_intros]: "tab_ok (fail_start r e t) = tab_ok t"
  by (simp add: fail_start_def split: option.split)

lemma set_search_ok: "panels_ok s \<Longrightarrow> panels_ok (set_search s p i x)"
  by (simp add: set_search_def updatePanelTab_ok)

lemma reduceContentSearch_ok:
  assumes "panels_ok s" shows "panels_ok (reduceContentSearch s a)"
proof -
  note [simp] = set_search_ok[OF assms] updatePanelTab_ok[OF assms] assms start_search_ok fail_start_ok
  show ?thesis
    by (cases a) (auto simp: reduceContentSearch_def bindContentSearchJob_def apply_match_def
        apply_completed_def terminate_job_def Let_def split: option.split)
qed

section \<open>Buffers\<close>

definition match_key :: "ContentSearchMatchDto \<Rightarrow> string \<times> int \<times> int \<times> int" where
  "match_key m = (match_uri m, match_lineNumber m, match_matchStart m, match_matchEnd m)"

lemma isSameMatch_key: "isSameMatch a b \<longleftrightarrow> match_key a = match_key b"
  by (auto simp: isSameMatch_def match_key_def)

definition event_keys :: "ContentSearchMatchEventDto list \<Rightarrow> (string \<times> int \<times> int \<times> int) list" where
  "event_keys es = map (\<lambda>e. match_key (csm_item e)) es"

definition buffer_ok :: "PendingContentSearchEvents \<Rightarrow> bool" where
  "buffer_ok b \<longleftrightarrow> length (pend_matches b) \<le> 500 \<and> distinct (event_keys (pend_matches b))"

definition buffers_ok :: "FileOctopusState \<Rightarrow> bool" where
  "buffers_ok s \<longleftrightarrow>
     distinct (obj_keys (pendingContentSearchEvents s)) \<and>
     list_all buffer_ok (obj_values (pendingContentSearchEvents s)) \<and>
     distinct (absorbedContentSearchJobIds s) \<and> length (absorbedContentSearchJobIds s) \<le> 128 \<and>
     set (absorbedContentSearchJobIds s) \<inter> fst ` set (pendingContentSearchEvents s) = {}"

lemma pendingEvents_ok: "buffers_ok s \<Longrightarrow> buffer_ok (pendingEvents s j)"
  by (auto simp: pendingEvents_def buffers_ok_def list_all_iff buffer_ok_def event_keys_def
      dest: map_of_SomeD split: option.split)

lemma setBufferedJob_ok:
  "buffers_ok s \<Longrightarrow> buffer_ok b \<Longrightarrow> j \<notin> set (absorbedContentSearchJobIds s) \<Longrightarrow>
   buffers_ok (setBufferedJob s j b)"
  unfolding buffers_ok_def setBufferedJob_def
  by (simp add: list_all_values_set distinct_obj_set del: set_map)

lemma clearBufferedJob_ok: "buffers_ok s \<Longrightarrow> buffers_ok (clearBufferedJob s j)"
proof (cases "obj_get (pendingContentSearchEvents s) j")
  case (Some b)
  assume ok: "buffers_ok s"
  then have "set (absorbedContentSearchJobIds s) \<inter> (fst ` set (pendingContentSearchEvents s) - {j}) = {}"
    unfolding buffers_ok_def by blast
  with ok Some show ?thesis
    unfolding buffers_ok_def clearBufferedJob_def
    by (simp add: list_all_values_del distinct_obj_del del: set_map)
qed (simp add: clearBufferedJob_def)

lemma clearBufferedJob_gone: "j \<notin> fst ` set (pendingContentSearchEvents (clearBufferedJob s j))"
  by (simp add: clearBufferedJob_def map_of_eq_None_iff)

lemma absorbJob_ok: assumes "buffers_ok s" shows "buffers_ok (absorbJob s j)"
proof -
  let ?c = "clearBufferedJob s j"
  have c: "buffers_ok ?c" by (rule clearBufferedJob_ok[OF assms])
  let ?xs = "absorbedContentSearchJobIds ?c @ [j]"
  show ?thesis
  proof (cases "j \<in> set (absorbedContentSearchJobIds ?c)")
    case True
    with c show ?thesis by (simp add: absorbJob_def Let_def)
  next
    case False
    with c have "distinct (slice_last 128 ?xs)" by (intro distinct_slice_last) (simp add: buffers_ok_def)
    moreover have "set (slice_last 128 ?xs) \<inter> fst ` set (pendingContentSearchEvents ?c) = {}"
      using c clearBufferedJob_gone[of j s] set_slice_last[of 128 ?xs] by (auto simp: buffers_ok_def)
    ultimately show ?thesis using c False by (simp add: absorbJob_def Let_def buffers_ok_def)
  qed
qed

lemma event_keys_slice: "distinct (event_keys es) \<Longrightarrow> distinct (event_keys (slice_last n es))"
  by (simp add: event_keys_def slice_last_def drop_map flip: drop_map)

lemma bufferMatch_ok: "buffers_ok s \<Longrightarrow> buffers_ok (bufferMatch s m)"
proof -
  assume ok: "buffers_ok s"
  let ?b = "pendingEvents s (csm_jobId m)"
  have "buffer_ok (?b\<lparr>pend_matches := slice_last 500 (pend_matches ?b @ [m])\<rparr>)"
    if "\<not> list_ex (\<lambda>it. isSameMatch (csm_item it) (csm_item m)) (pend_matches ?b)"
  proof -
    have "distinct (event_keys (pend_matches ?b @ [m]))"
      using pendingEvents_ok[OF ok, of "csm_jobId m"] that
      by (auto simp: buffer_ok_def event_keys_def list_ex_iff isSameMatch_key)
    then show ?thesis by (simp add: buffer_ok_def event_keys_slice)
  qed
  with ok show ?thesis by (auto simp: bufferMatch_def Let_def setBufferedJob_ok)
qed

lemma bufferCompletion_ok: "buffers_ok s \<Longrightarrow> buffers_ok (bufferCompletion s c)"
  using pendingEvents_ok[of s "csc_jobId c"]
  by (auto simp: bufferCompletion_def buffer_ok_def intro!: setBufferedJob_ok)

lemma bufferTerminal_ok: "buffers_ok s \<Longrightarrow> buffers_ok (bufferTerminal s j st e)"
  using pendingEvents_ok[of s j] by (auto simp: bufferTerminal_def buffer_ok_def intro!: setBufferedJob_ok)

lemma buffers_ok_frame [simp]:
  "buffers_ok (updatePanelTab s p i f) = buffers_ok s" "buffers_ok (set_search s p i x) = buffers_ok s"
  by (simp_all add: buffers_ok_def set_search_def)

lemma reduceContentSearch_buffers: "buffers_ok s \<Longrightarrow> buffers_ok (reduceContentSearch s a)"
  by (cases a) (auto simp: reduceContentSearch_def bindContentSearchJob_def apply_match_def
      apply_completed_def terminate_job_def Let_def bufferMatch_ok bufferCompletion_ok bufferTerminal_ok
      absorbJob_ok clearBufferedJob_ok split: option.split)

section \<open>The life of a search\<close>

lemma tab_at_buffers [simp]:
  "tab_at (setBufferedJob s j b) p i = tab_at s p i" "tab_at (clearBufferedJob s j) p i = tab_at s p i"
  "tab_at (absorbJob s j) p i = tab_at s p i" "tab_at (bufferMatch s m) p i = tab_at s p i"
  "tab_at (bufferCompletion s c) p i = tab_at s p i" "tab_at (bufferTerminal s j st e) p i = tab_at s p i"
  by (simp_all add: tab_at_def)

lemma search_at_buffers [simp]:
  "search_at (setBufferedJob s j b) p i = search_at s p i" "search_at (clearBufferedJob s j) p i = search_at s p i"
  "search_at (absorbJob s j) p i = search_at s p i" "search_at (bufferMatch s m) p i = search_at s p i"
  "search_at (bufferCompletion s c) p i = search_at s p i" "search_at (bufferTerminal s j st e) p i = search_at s p i"
  by (simp_all add: search_at_def)

lemma search_at_set_search [simp]:
  "search_at (set_search s p i x) q j =
     (if q = p \<and> j = i \<and> tab_at s p i \<noteq> None then Some x else search_at s q j)"
  by (auto simp: search_at_def set_search_def tab_at_updatePanelTab split: option.splits)

lemma search_at_updatePanelTab:
  "search_at (updatePanelTab s p i f) q j =
     (if q = p \<and> j = i then Option.bind (tab_at s p i) (\<lambda>t. tab_contentSearch (f t)) else search_at s q j)"
  by (auto simp: search_at_def tab_at_updatePanelTab split: option.splits)

lemma search_at_bind: "search_at s p i = Option.bind (tab_at s p i) tab_contentSearch"
  by (auto simp: search_at_def split: option.splits)

lemma bind_search:
  assumes "search_at s q k \<noteq> Some x \<or> cs_status x \<noteq> CStarting"
  shows "search_at s q k = Some x \<Longrightarrow> search_at (bindContentSearchJob s p i r j) q k = Some x"
  using assms by (auto simp: bindContentSearchJob_def Let_def split: option.splits)

text \<open>An ended search is not touched by any event.\<close>

lemma ended_search_kept:
  assumes "search_at s p i = Some x" and "\<not> isContentSearchActive (Some x)"
    and "\<And>r u q opts. a \<noteq> StartContentSearch p i r u q opts"
  shows "search_at (reduceContentSearch s a) p i = Some x"
proof -
  from assms(2) have st: "cs_status x \<noteq> CStarting" "cs_status x \<noteq> CRunning"
    by (simp_all add: isContentSearchActive_def)
  note [simp] = assms(1) st assms(2)
  have cases: "search_at s q k = Some y \<Longrightarrow> (q = p \<and> k = i) = False \<or> y = x" for q k y
    using assms(1) by auto
  show ?thesis
  proof (cases a)
    case (SetContentSearchQuery q k z)
    then show ?thesis using assms(1)
      by (auto simp: reduceContentSearch_def tab_at_updatePanelTab search_at_bind bind_eq_Some_conv)
  next
    case (StartContentSearch q k r u z opts)
    with assms(3) have "(q = p \<and> k = i) = False" by auto
    then show ?thesis using StartContentSearch
      by (auto simp: reduceContentSearch_def search_at_updatePanelTab)
  next
    case (BindContentSearchJob q k r j)
    then show ?thesis by (simp add: reduceContentSearch_def bind_search)
  next
    case (FailContentSearchStart q k r e)
    then show ?thesis using assms(1)
      by (auto simp: reduceContentSearch_def tab_at_updatePanelTab search_at_bind bind_eq_Some_conv fail_start_def)
  next
    case (ApplyContentSearchMatch m)
    then show ?thesis using cases
      by (fastforce simp: reduceContentSearch_def apply_match_def Let_def split: option.split)
  next
    case (ApplyContentSearchCompleted c)
    then show ?thesis using cases
      by (fastforce simp: reduceContentSearch_def apply_completed_def Let_def split: option.split)
  next
    case (TerminateContentSearchJob j e m)
    then show ?thesis using cases
      by (fastforce simp: reduceContentSearch_def terminate_job_def Let_def split: option.split)
  qed (simp_all add: reduceContentSearch_def)
qed

section \<open>Events before and after the binding\<close>

lemma obj_set_same: "obj_get ob k = Some v \<Longrightarrow> obj_set k v ob = ob"
  by (induction ob) (auto split: if_splits)

lemma obj_del_set_new: "obj_get ob k = None \<Longrightarrow> obj_del k (obj_set k v ob) = ob"
  by (induction ob) (auto split: if_splits simp: AList.delete_eq)

lemma set_search_set_search [simp]: "set_search (set_search s p i x) p i y = set_search s p i y"
  by (auto simp: set_search_def updatePanelTab_def set_tab_def split: option.splits)

lemma set_search_same: "search_at s p i = Some x \<Longrightarrow> set_search s p i x = s"
proof -
  assume "search_at s p i = Some x"
  then obtain t where t: "tab_at s p i = Some t" "tab_contentSearch t = Some x"
    by (auto simp: search_at_def split: option.splits)
  then have "t\<lparr>tab_contentSearch := Some x\<rparr> = t" by simp
  with t(1) show ?thesis
    by (simp add: set_search_def updatePanelTab_def tab_at_def set_tab_def obj_set_same)
qed

lemma pendingEvents_frame [simp]:
  "pendingEvents (setBufferedJob s j b) j = b"
  "obj_get (pendingContentSearchEvents (setBufferedJob s j b)) j = Some b"
  "absorbedContentSearchJobIds (setBufferedJob s j b) = absorbedContentSearchJobIds s"
  "setBufferedJob (setBufferedJob s j b) j b' = setBufferedJob s j b'"
  by (simp_all add: pendingEvents_def setBufferedJob_def)

lemma set_search_frame [simp]:
  "pendingContentSearchEvents (set_search s p i x) = pendingContentSearchEvents s"
  "absorbedContentSearchJobIds (set_search s p i x) = absorbedContentSearchJobIds s"
  "set_search (setBufferedJob s j b) p i x = setBufferedJob (set_search s p i x) j b"
  by (auto simp: set_search_def updatePanelTab_def setBufferedJob_def set_tab_def split: option.split)

lemma clear_set_new:
  "obj_get (pendingContentSearchEvents s) j = None \<Longrightarrow>
   clearBufferedJob (setBufferedJob s j b) j = s \<and> clearBufferedJob s j = s"
  by (simp add: clearBufferedJob_def setBufferedJob_def obj_del_set_new)

lemma absorb_set_new:
  "obj_get (pendingContentSearchEvents s) j = None \<Longrightarrow>
   absorbJob (setBufferedJob s j b) j = absorbJob s j \<and> clearBufferedJob (absorbJob s j) j = absorbJob s j"
  by (auto simp: absorbJob_def Let_def clearBufferedJob_def setBufferedJob_def obj_del_set_new)

lemma find_search_set_search:
  assumes "panels_ok s" and "tab_at s p i = Some t" and "findSearchByJobId s j = None"
    and "cs_jobId x = Some j"
  shows "findSearchByJobId (set_search s p i x) j = Some (p, i)"
  unfolding findSearchByJobId_def
proof (rule find_tab_unique[OF set_search_ok[OF assms(1)]])
  show "tab_at (set_search s p i x) p i = Some (t\<lparr>tab_contentSearch := Some x\<rparr>)"
    using assms(2) by (simp add: set_search_def tab_at_updatePanelTab)
  show "has_job j (t\<lparr>tab_contentSearch := Some x\<rparr>)" using assms(4) by (simp add: has_job_def)
  fix q k u assume u: "tab_at (set_search s p i x) q k = Some u" "has_job j u"
  show "q = p \<and> k = i"
  proof (rule ccontr)
    assume "\<not> (q = p \<and> k = i)"
    with u(1) have "tab_at s q k = Some u" by (simp add: set_search_def tab_at_updatePanelTab split: if_splits)
    then have "u \<in> snd ` set (panel_tabs (panels s q))" unfolding tab_at_def by (rule obj_get_value)
    with assms(3) u(2) show False unfolding findSearchByJobId_def find_tab_None by blast
  qed
qed

text \<open>The matches as the buffer keeps them.\<close>

definition buffer_add :: "ContentSearchMatchEventDto list \<Rightarrow> ContentSearchMatchEventDto \<Rightarrow> ContentSearchMatchEventDto list" where
  "buffer_add es e = (if match_key (csm_item e) \<in> set (event_keys es) then es else es @ [e])"

definition search_keys :: "ContentSearchState \<Rightarrow> (string \<times> int \<times> int \<times> int) set" where
  "search_keys s = match_key ` set (result_matches s)"

lemma appendMatch_keys: "search_keys (appendMatch s m) = insert (match_key m) (search_keys s)"
proof (cases "match_key m \<in> search_keys s")
  case True
  then show ?thesis by (auto simp: appendMatch_def search_keys_def Let_def list_ex_iff isSameMatch_key)
next
  case False
  then have "\<not> list_ex (\<lambda>x. isSameMatch x m) (result_matches s)"
    unfolding list_ex_iff isSameMatch_key search_keys_def by (metis imageI)
  then show ?thesis by (simp add: appendMatch_def Let_def search_keys_def) (simp add: result_matches_def)
qed

lemma appendMatch_known: "match_key m \<in> search_keys s \<Longrightarrow> appendMatch s m = s"
  by (auto simp: appendMatch_def search_keys_def Let_def list_ex_iff isSameMatch_key)

lemma appendMatch_fields [simp]:
  "cs_status (appendMatch s m) = cs_status s" "cs_rootUri (appendMatch s m) = cs_rootUri s"
  "cs_query (appendMatch s m) = cs_query s" "cs_jobId (appendMatch s m) = cs_jobId s"
  by (auto simp: appendMatch_def Let_def)

definition own_event :: "string \<Rightarrow> ContentSearchState \<Rightarrow> ContentSearchMatchEventDto \<Rightarrow> bool" where
  "own_event j x e \<longleftrightarrow> csm_jobId e = j \<and> csm_uri e = cs_rootUri x \<and> csm_query e = cs_query x"

definition append_all :: "ContentSearchMatchEventDto list \<Rightarrow> ContentSearchState \<Rightarrow> ContentSearchState" where
  "append_all es x = fold (\<lambda>e s. appendMatch s (csm_item e)) es x"

lemma append_all_snoc [simp]: "append_all [] x = x"
  "append_all (es @ [e]) x = appendMatch (append_all es x) (csm_item e)"
  by (simp_all add: append_all_def)

lemma append_all_fields [simp]:
  "cs_status (append_all es x) = cs_status x" "cs_rootUri (append_all es x) = cs_rootUri x"
  "cs_query (append_all es x) = cs_query x" "cs_jobId (append_all es x) = cs_jobId x"
  by (induction es rule: rev_induct) auto

lemma append_all_keys: "search_keys (append_all es x) = set (event_keys es) \<union> search_keys x"
  by (induction es rule: rev_induct) (auto simp: appendMatch_keys event_keys_def)

lemma replay_own: "list_all (own_event j x) es \<Longrightarrow> replay_matches es x = append_all es x"
  by (induction es rule: rev_induct) (auto simp: replay_matches_def own_event_def)

definition buffered :: "ContentSearchMatchEventDto list \<Rightarrow> ContentSearchMatchEventDto list" where
  "buffered es = fold (\<lambda>e b. buffer_add b e) es []"

lemma buffered_snoc [simp]: "buffered [] = []" "buffered (es @ [e]) = buffer_add (buffered es) e"
  by (simp_all add: buffered_def)

lemma buffered_sub: "set (buffered es) \<subseteq> set es \<and> length (buffered es) \<le> length es"
  by (induction es rule: rev_induct) (auto simp: buffer_add_def)

lemma append_buffered: "append_all (buffered es) x = append_all es x"
proof (induction es rule: rev_induct)
  case (snoc e es)
  show ?case
  proof (cases "match_key (csm_item e) \<in> set (event_keys (buffered es))")
    case True
    then have "match_key (csm_item e) \<in> search_keys (append_all es x)"
      using append_all_keys[of "buffered es" x] snoc by simp
    with True snoc show ?thesis by (simp add: buffer_add_def appendMatch_known)
  qed (use snoc in \<open>simp add: buffer_add_def\<close>)
qed simp

text \<open>The end of a job: it completes, or it is reported failed or cancelled.\<close>

datatype ending = Completes ContentSearchResultDto | Stops ContentSearchStatus string

definition match_action :: "ContentSearchMatchEventDto \<Rightarrow> PanelAction" where
  "match_action e = ApplyContentSearchMatch e"

definition ending_action :: "string \<Rightarrow> ContentSearchState \<Rightarrow> ending \<Rightarrow> PanelAction" where
  "ending_action j x en =
     (case en of
        Completes r \<Rightarrow> ApplyContentSearchCompleted
          \<lparr>csc_jobId = j, csc_uri = cs_rootUri x, csc_query = cs_query x, csc_result = r\<rparr>
      | Stops st e \<Rightarrow> TerminateContentSearchJob j st e)"

definition apply_ending :: "ending \<Rightarrow> ContentSearchState \<Rightarrow> ContentSearchState" where
  "apply_ending en x =
     (case en of
        Completes r \<Rightarrow> x\<lparr>cs_status := CCompleted, cs_result := Some r, cs_error := None\<rparr>
      | Stops st e \<Rightarrow> x\<lparr>cs_status := st, cs_error := Some e\<rparr>)"

definition proper_ending :: "ending \<Rightarrow> bool" where
  "proper_ending en \<longleftrightarrow> (case en of Completes _ \<Rightarrow> True | Stops st _ \<Rightarrow> st = CFailed \<or> st = CCancelled)"

definition run_search :: "PanelAction list \<Rightarrow> FileOctopusState \<Rightarrow> FileOctopusState" where
  "run_search as s = fold (\<lambda>a st. reduceContentSearch st a) as s"

lemma run_search_simps [simp]:
  "run_search [] s = s" "run_search (a # as) s = run_search as (reduceContentSearch s a)"
  "run_search (as @ bs) s = run_search bs (run_search as s)"
  by (simp_all add: run_search_def)

text \<open>A starting search about to be bound to a job that nothing is known of yet.\<close>

definition unbound_job ::
  "FileOctopusState \<Rightarrow> PanelId \<Rightarrow> string \<Rightarrow> ContentSearchState \<Rightarrow> string \<Rightarrow> bool" where
  "unbound_job s p i x j \<longleftrightarrow>
     panels_ok s \<and> search_at s p i = Some x \<and> cs_status x = CStarting \<and>
     findSearchByJobId s j = None \<and> obj_get (pendingContentSearchEvents s) j = None \<and>
     j \<notin> set (absorbedContentSearchJobIds s)"

definition started :: "string \<Rightarrow> ContentSearchState \<Rightarrow> ContentSearchState" where
  "started j x = x\<lparr>cs_status := CRunning, cs_jobId := Some j\<rparr>"

lemma started_fields [simp]:
  "cs_status (started j x) = CRunning" "cs_jobId (started j x) = Some j"
  "cs_rootUri (started j x) = cs_rootUri x" "cs_query (started j x) = cs_query x"
  "own_event k (started j x) = own_event k x"
  by (simp_all add: started_def own_event_def fun_eq_iff)

lemma unbound_jobD:
  assumes "unbound_job s p i x j"
  shows "panels_ok s" "search_at s p i = Some x" "cs_status x = CStarting"
    "findSearchByJobId s j = None" "obj_get (pendingContentSearchEvents s) j = None"
    "j \<notin> set (absorbedContentSearchJobIds s)"
    "pendingEvents s j = \<lparr>pend_matches = [], pend_completion = None, pend_terminal = None\<rparr>"
    "search_at (set_search s p i y) p i = Some y"
    "cs_jobId y = Some j \<Longrightarrow> findSearchByJobId (set_search s p i y) j = Some (p, i)"
proof -
  show facts: "panels_ok s" "search_at s p i = Some x" "cs_status x = CStarting"
    "findSearchByJobId s j = None" "obj_get (pendingContentSearchEvents s) j = None"
    "j \<notin> set (absorbedContentSearchJobIds s)"
    "pendingEvents s j = \<lparr>pend_matches = [], pend_completion = None, pend_terminal = None\<rparr>"
    using assms by (simp_all add: unbound_job_def pendingEvents_def)
  from facts(2) obtain t where t: "tab_at s p i = Some t"
    by (auto simp: search_at_def split: option.splits)
  then show "search_at (set_search s p i y) p i = Some y" by simp
  show "cs_jobId y = Some j \<Longrightarrow> findSearchByJobId (set_search s p i y) j = Some (p, i)"
    using find_search_set_search[OF facts(1) t facts(4)] .
qed

lemma bind_first:
  "unbound_job s p i x j \<Longrightarrow>
   bindContentSearchJob s p i (cs_requestId x) j = set_search s p i (started j x)"
  using unbound_jobD(2,3,5)[of s p i x j]
  by (simp add: bindContentSearchJob_def Let_def clearBufferedJob_def started_def)

lemma match_bound:
  assumes "unbound_job s p i x j" and "cs_jobId y = Some j" and "cs_status y = CRunning"
    and "own_event j y e"
  shows "apply_match (set_search s p i y) e = set_search s p i (appendMatch y (csm_item e))"
  using assms(3,4) unbound_jobD(8,9)[OF assms(1), of y] assms(2)
  by (auto simp: apply_match_def own_event_def Let_def)

lemma matches_bound:
  assumes "unbound_job s p i x j" and "list_all (own_event j x) es"
  shows "run_search (map match_action es) (set_search s p i (started j x)) =
    set_search s p i (append_all es (started j x))"
  using assms(2)
proof (induction es rule: rev_induct)
  case (snoc e es)
  then have "own_event j (append_all es (started j x)) e" by (simp add: own_event_def)
  from match_bound[OF assms(1) _ _ this] snoc show ?case
    by (simp add: match_action_def reduceContentSearch_def)
qed simp

lemma ending_bound:
  assumes "unbound_job s p i x j" and "cs_jobId y = Some j" and "cs_status y = CRunning"
    and "cs_rootUri y = cs_rootUri x" and "cs_query y = cs_query x"
  shows "reduceContentSearch (set_search s p i y) (ending_action j x en) =
    absorbJob (set_search s p i (apply_ending en y)) j"
  using assms(2-5) unbound_jobD(8,9)[OF assms(1), of y]
  by (auto simp: ending_action_def apply_ending_def reduceContentSearch_def apply_completed_def
      terminate_job_def isContentSearchActive_def split: ending.split)

text \<open>The other order: the events come first.\<close>

abbreviation buf :: "ContentSearchMatchEventDto list \<Rightarrow> PendingContentSearchEvents" where
  "buf es \<equiv> \<lparr>pend_matches = buffered es, pend_completion = None, pend_terminal = None\<rparr>"

lemma find_buffered [simp]: "findSearchByJobId (setBufferedJob s j b) k = findSearchByJobId s k"
  by (simp add: findSearchByJobId_def find_tab_panels[of "setBufferedJob s j b" s])

lemma list_ex_keys:
  "list_ex (\<lambda>it. isSameMatch (csm_item it) (csm_item e)) es \<longleftrightarrow> match_key (csm_item e) \<in> set (event_keys es)"
  by (induction es) (auto simp: isSameMatch_key event_keys_def)

lemma bufferMatch_buf:
  assumes "csm_jobId e = j" and "j \<notin> set (absorbedContentSearchJobIds s)" and "length es < 500"
  shows "bufferMatch (setBufferedJob s j (buf es)) e = setBufferedJob s j (buf (es @ [e]))"
proof -
  have "length (buffered es @ [e]) \<le> 500" using buffered_sub[of es] assms(3) by simp
  from slice_last_all[OF this] show ?thesis using assms(1,2)
    by (simp add: bufferMatch_def Let_def list_ex_keys buffer_add_def)
qed

lemma matches_unbound:
  assumes "unbound_job s p i x j" and "list_all (own_event j x) es" and "length es \<le> 500"
  shows "run_search (map match_action es) s = (if es = [] then s else setBufferedJob s j (buf es))"
  using assms(2,3)
proof (induction es rule: rev_induct)
  case (snoc e es)
  note u = unbound_jobD[OF assms(1)]
  from snoc.prems have e: "csm_jobId e = j" by (simp add: own_event_def)
  have step: "reduceContentSearch st (match_action e) = bufferMatch st e" if "findSearchByJobId st j = None" for st
    using that e by (simp add: match_action_def reduceContentSearch_def apply_match_def)
  show ?case
  proof (cases "es = []")
    case True
    then show ?thesis using e u(4,6,7)
      by (simp add: step bufferMatch_def Let_def slice_last_all buffered_def buffer_add_def event_keys_def)
  next
    case False
    with snoc have "run_search (map match_action es) s = setBufferedJob s j (buf es)" by simp
    with u(4,6) e snoc.prems show ?thesis by (simp add: step bufferMatch_buf)
  qed
qed simp

definition with_ending ::
  "string \<Rightarrow> ContentSearchState \<Rightarrow> ending option \<Rightarrow> PendingContentSearchEvents \<Rightarrow> PendingContentSearchEvents" where
  "with_ending j x en b =
     (case en of
        None \<Rightarrow> b
      | Some (Completes r) \<Rightarrow> b\<lparr>pend_completion := Some
          \<lparr>csc_jobId = j, csc_uri = cs_rootUri x, csc_query = cs_query x, csc_result = r\<rparr>\<rparr>
      | Some (Stops st e) \<Rightarrow> b\<lparr>pend_terminal := Some (st, e)\<rparr>)"

lemma ending_unbound:
  assumes "unbound_job s p i x j" and "list_all (own_event j x) es" and "length es \<le> 500"
  shows "reduceContentSearch (run_search (map match_action es) s) (ending_action j x en) =
    setBufferedJob s j (with_ending j x (Some en) (buf es))"
  using unbound_jobD(4,6,7)[OF assms(1)]
  by (auto simp: matches_unbound[OF assms] ending_action_def reduceContentSearch_def apply_completed_def
      terminate_job_def bufferCompletion_def bufferTerminal_def with_ending_def
      split: ending.split)

lemma bind_buffered:
  assumes "unbound_job s p i x j" and "list_all (own_event j x) es"
    and "y = (case en of None \<Rightarrow> append_all es (started j x)
                       | Some n \<Rightarrow> apply_ending n (append_all es (started j x)))"
    and "case en of None \<Rightarrow> True | Some n \<Rightarrow> proper_ending n"
  shows "bindContentSearchJob (setBufferedJob s j (with_ending j x en (buf es))) p i (cs_requestId x) j =
    (if en = None then set_search s p i y else absorbJob (set_search s p i y) j)"
proof -
  have sub: "list_all (own_event j (started j x)) (buffered es)"
    using assms(2) buffered_sub[of es] by (auto simp: list_all_iff)
  have rep: "replay_matches (buffered es) (started j x) = append_all es (started j x)"
    unfolding replay_own[OF sub] by (rule append_buffered)
  have y: "replay_end (with_ending j x en (buf es)) (append_all es (started j x)) = y"
    by (auto simp: assms(3) with_ending_def replay_end_def apply_ending_def split: option.split ending.split)
  have m: "pend_matches (with_ending j x en (buf es)) = buffered es"
    by (simp add: with_ending_def split: option.split ending.split)
  have run: "(cs_status y = CRunning) = (en = None)"
    using assms(4) by (auto simp: assms(3) apply_ending_def proper_ending_def split: option.split ending.splits)
  have none: "obj_get (pendingContentSearchEvents (set_search s p i y)) j = None"
    using unbound_jobD(5)[OF assms(1)] by simp
  define B where "B = with_ending j x en (buf es)"
  have "bindContentSearchJob (setBufferedJob s j B) p i (cs_requestId x) j =
      clearBufferedJob (if cs_status y = CRunning then setBufferedJob (set_search s p i y) j B
        else absorbJob (setBufferedJob (set_search s p i y) j B) j) j"
    using unbound_jobD(2,3)[OF assms(1)] m y rep
    by (simp add: bindContentSearchJob_def Let_def flip: started_def B_def)
  also have "\<dots> = (if en = None then set_search s p i y else absorbJob (set_search s p i y) j)"
    using clear_set_new[OF none] absorb_set_new[OF none] by (simp add: run)
  finally show ?thesis by (simp only: B_def)
qed

lemma reduce_bind: "reduceContentSearch st (BindContentSearchJob p i r j) = bindContentSearchJob st p i r j"
  by (simp add: reduceContentSearch_def)

lemma bind_after_all:
  assumes "unbound_job s p i x j" and "list_all (own_event j x) es" and "length es \<le> 500"
    and "proper_ending en"
  shows "run_search (map match_action es @ [ending_action j x en, BindContentSearchJob p i (cs_requestId x) j]) s =
      run_search (BindContentSearchJob p i (cs_requestId x) j # map match_action es @ [ending_action j x en]) s"
  using bind_buffered[OF assms(1,2) refl, of "Some en"] assms(4)
  by (simp add: reduce_bind bind_first[OF assms(1)] matches_bound[OF assms(1,2)] ending_unbound[OF assms(1-3)]
      ending_bound[OF assms(1)])

lemma bind_after_some:
  assumes "unbound_job s p i x j" and "list_all (own_event j x) es" and "length es \<le> 500"
  shows "run_search (map match_action es @ [BindContentSearchJob p i (cs_requestId x) j]) s =
      run_search (BindContentSearchJob p i (cs_requestId x) j # map match_action es) s"
proof (cases "es = []")
  case False
  with bind_buffered[OF assms(1,2) refl, of None] show ?thesis
    by (simp add: reduce_bind bind_first[OF assms(1)] matches_bound[OF assms(1,2)]
        matches_unbound[OF assms(1-3)] with_ending_def)
qed simp

section \<open>Properties\<close>

text \<open>C3: it does not matter when a search learns its job id. The matches of a job, at most
  500 of them, and its end, a completion, a failure or a cancellation, lead to the same state
  of the whole program whether the job is bound before the first event, after the last or
  between any two: what was buffered meanwhile is replayed and the buffer is gone.\<close>

theorem binding_time_irrelevant:
  assumes "unbound_job s p i x j" and "list_all (own_event j x) es" and "length es \<le> 500"
    and "proper_ending en"
    and "evs = map match_action es @ [ending_action j x en]"
    and "b = BindContentSearchJob p i (cs_requestId x) j"
  shows "run_search (take n evs @ b # drop n evs) s = run_search (b # evs) s"
proof (cases "n \<le> length es")
  case True
  have part: "list_all (own_event j x) (take n es)" using assms(2) by (auto simp: list_all_iff dest: in_set_takeD)
  have "length (take n es) \<le> 500" using assms(3) by simp
  from bind_after_some[OF assms(1) part this] have
    "run_search (map match_action (take n es) @ [b] @ drop n evs) s =
     run_search ((b # map match_action (take n es)) @ drop n evs) s"
    by (simp only: assms(6) run_search_simps(3) append_assoc flip: append_assoc)
  moreover have "take n evs = map match_action (take n es)" using True by (simp add: assms(5) take_map)
  moreover have "map match_action (take n es) @ drop n evs = evs"
    using \<open>take n evs = map match_action (take n es)\<close> by (metis append_take_drop_id)
  ultimately show ?thesis by simp
next
  case False
  then have "take n evs = evs" "drop n evs = []" by (simp_all add: assms(5))
  with bind_after_all[OF assms(1-4)] show ?thesis by (simp add: assms(5,6))
qed

definition sample_search_state :: FileOctopusState where
  "sample_search_state = reduceContentSearch sample_state
     (StartContentSearch Left ''main'' ''r1'' ''local:///d'' ''x''
       \<lparr>cso_caseSensitive = False, cso_useRegex = False, cso_filePattern = []\<rparr>)"

definition sample_search :: ContentSearchState where
  "sample_search =
     \<lparr>cs_requestId = ''r1'', cs_rootUri = ''local:///d'', cs_query = ''x'',
      cs_options = \<lparr>cso_caseSensitive = False, cso_useRegex = False, cso_filePattern = []\<rparr>,
      cs_status = CStarting, cs_jobId = None,
      cs_result = Some \<lparr>res_matches = [], res_warnings = [], res_incomplete = False\<rparr>,
      cs_error = None\<rparr>"

definition sample_match :: "int \<Rightarrow> ContentSearchMatchEventDto" where
  "sample_match n = \<lparr>csm_jobId = ''j1'', csm_uri = ''local:///d'', csm_query = ''x'',
     csm_item = \<lparr>match_uri = ''local:///d/a'', match_parentUri = ''local:///d'', match_name = ''a'',
       match_kind = KFile, match_size = None, match_modifiedAt = None, match_lineNumber = n,
       match_lineContent = ''x'', match_matchStart = 0, match_matchEnd = 1\<rparr>\<rparr>"

lemma sample_search_unbound: "unbound_job sample_search_state Left ''main'' sample_search ''j1''"
proof -
  have eq: "sample_search_state = set_tab sample_state Left ''main'' (sample_tab
      \<lparr>tab_contentSearchQuery := ''x'', tab_contentSearch := Some sample_search\<rparr>)"
    by (simp add: sample_search_state_def reduceContentSearch_def updatePanelTab_def start_search_def
        sample_search_def)
  have "findSearchByJobId sample_search_state ''j1'' = None"
    by (simp add: findSearchByJobId_def find_tab_def eq panels_set_tab has_job_def sample_search_def blank_tab_def)
  moreover have "search_at sample_search_state Left ''main'' = Some sample_search"
    by (simp add: search_at_def eq)
  moreover have "panels_ok sample_search_state" by (simp add: eq panels_ok_set_tab tab_ok_def listing_ok_def)
  ultimately show ?thesis by (simp add: unbound_job_def eq) (simp add: sample_search_def)
qed

theorem binding_time_irrelevant_witness:
  "let evs = [match_action (sample_match 1), match_action (sample_match 2),
              ending_action ''j1'' sample_search (Stops CFailed ''e'')];
       b = BindContentSearchJob Left ''main'' ''r1'' ''j1''
   in run_search (take 1 evs @ b # drop 1 evs) sample_search_state =
      run_search (b # evs) sample_search_state"
  using binding_time_irrelevant[OF sample_search_unbound, of "[sample_match 1, sample_match 2]"
      "Stops CFailed ''e''" _ _ 1]
  by (simp add: Let_def own_event_def sample_match_def sample_search_def proper_ending_def)

text \<open>The buffers of unbound jobs stay bounded and clean. Every action of the slice keeps
  at most 500 distinct matches per buffered job and at most 128 distinct remembered jobs, and
  no remembered job has a buffer.\<close>

theorem search_buffers_bounded:
  assumes "buffers_ok s"
  shows "buffers_ok (run_search as s)"
  using assms by (induction as arbitrary: s) (simp_all add: reduceContentSearch_buffers)

theorem search_buffers_bounded_witness:
  "buffers_ok (run_search [match_action (sample_match 1), match_action (sample_match 1),
     DiscardContentSearchJobEvents ''j1''] sample_state)"
  by (rule search_buffers_bounded) (simp add: buffers_ok_def)

text \<open>A search that has ended stays as it ended. No event, late match, second completion
  or failure changes it; only starting a new search in its tab does.\<close>

theorem ended_search_final:
  assumes "search_at s p i = Some x" and "\<not> isContentSearchActive (Some x)"
    and "list_all (\<lambda>a. \<forall>r u q opts. a \<noteq> StartContentSearch p i r u q opts) as"
  shows "search_at (run_search as s) p i = Some x"
  using assms(1,3) by (induction as arbitrary: s) (simp_all add: ended_search_kept[OF _ assms(2)])

theorem ended_search_final_witness:
  "search_at (run_search [match_action (sample_match 3)]
     (reduceContentSearch sample_search_state (FailContentSearchStart Left ''main'' ''r1'' ''e''))) Left ''main'' =
   Some (sample_search\<lparr>cs_status := CFailed, cs_error := Some ''e''\<rparr>)"
proof -
  have at: "search_at (reduceContentSearch sample_search_state
      (FailContentSearchStart Left ''main'' ''r1'' ''e'')) Left ''main'' =
      Some (sample_search\<lparr>cs_status := CFailed, cs_error := Some ''e''\<rparr>)"
    by (simp add: sample_search_state_def reduceContentSearch_def search_at_def tab_at_updatePanelTab
        start_search_def fail_start_def sample_search_def)
  show ?thesis
    by (rule ended_search_final[OF at])
      (simp_all add: isContentSearchActive_def match_action_def)
qed

end
