(* ===== verification/Reducer.thy ===== *)
theory Reducer
  imports "HOL-Library.Monad_Syntax"
begin

text \<open>
  The contract of a reducer: a function from a state and an action to the next state, with
  an invariant that every action keeps and under which it does not raise. The stores of the
  front end (panels, terminals, operation jobs) are folds of such functions over the
  dispatched actions; each of them is an instance.
\<close>

primrec run_actions :: "('s \<Rightarrow> 'a \<Rightarrow> 's option) \<Rightarrow> 'a list \<Rightarrow> 's \<Rightarrow> 's option" where
  "run_actions reduce [] s = Some s"
| "run_actions reduce (a # as) s = do { s' \<leftarrow> reduce s a; run_actions reduce as s' }"

lemma run_actions_append:
  "run_actions reduce (as @ bs) s = do { s' \<leftarrow> run_actions reduce as s; run_actions reduce bs s' }"
  by (induction as arbitrary: s) (auto split: bind_splits)

locale reducer =
  fixes reduce :: "'s \<Rightarrow> 'a \<Rightarrow> 's option" and inv :: "'s \<Rightarrow> bool"
  assumes reduce_inv: "inv s \<Longrightarrow> \<exists>s'. reduce s a = Some s' \<and> inv s'"
begin

lemma reduce_total: "inv s \<Longrightarrow> reduce s a \<noteq> None"
  using reduce_inv by force

lemma reduce_keeps: "inv s \<Longrightarrow> reduce s a = Some s' \<Longrightarrow> inv s'"
  using reduce_inv[of s a] by simp

lemma run_total: "inv s \<Longrightarrow> \<exists>s'. run_actions reduce as s = Some s' \<and> inv s'"
proof (induction as arbitrary: s)
  case (Cons a as)
  from reduce_inv[OF Cons.prems, of a] obtain s1 where "reduce s a = Some s1" "inv s1" by blast
  with Cons.IH[of s1] show ?case by simp
qed simp

end

text \<open>An observation that every action moves along a preorder is monotone along a run.\<close>

locale monotone_reducer = reducer reduce inv
  for reduce :: "'s \<Rightarrow> 'a \<Rightarrow> 's option" and inv :: "'s \<Rightarrow> bool" +
  fixes below :: "'s \<Rightarrow> 's \<Rightarrow> bool"
  assumes below_refl: "below s s"
    and below_trans: "below s t \<Longrightarrow> below t u \<Longrightarrow> below s u"
    and reduce_below: "inv s \<Longrightarrow> reduce s a = Some s' \<Longrightarrow> below s s'"
begin

lemma run_below: "inv s \<Longrightarrow> run_actions reduce as s = Some s' \<Longrightarrow> below s s'"
proof (induction as arbitrary: s)
  case (Cons a as)
  then obtain s1 where "reduce s a = Some s1" "run_actions reduce as s1 = Some s'"
    by (auto simp: bind_eq_Some_conv)
  with Cons reduce_keeps reduce_below below_trans show ?case by metis
qed (simp add: below_refl)

end

end
