(* ===== verification/PanelReducer.thy ===== *)
theory PanelReducer
  imports Listing Navigation Selection SortFilter Tabs ContentSearch Reducer
begin

text \<open>
  The whole panel store: \<open>reducePanelAction\<close> (\<open>state/paneReducer.ts\<close>), which hands an action
  to the first slice that claims it, and \<open>panelReducer\<close> (\<open>panelStore.ts\<close>), which swaps the
  panes itself. The facts here combine those of the slices: under the invariant no action
  raises, and every reachable state satisfies it.
\<close>

section \<open>Definitions\<close>

definition keep_world :: "World \<Rightarrow> FileOctopusState option \<Rightarrow> (FileOctopusState \<times> World) option" where
  "keep_world w r = map_option (\<lambda>s. (s, w)) r"

definition reducePanelAction ::
  "Platform \<Rightarrow> World \<Rightarrow> FileOctopusState \<Rightarrow> PanelAction \<Rightarrow> (FileOctopusState \<times> World) option" where
  "reducePanelAction pf w state action =
     (if isTabAction action then reduceTab w state action
      else if isContentSearchAction action then Some (reduceContentSearch state action, w)
      else if isNavigationAction action then keep_world w (reduceNavigation state action)
      else if isListingAction action then keep_world w (reduceListing state action)
      else if isSelectionAction action then keep_world w (reduceSelection pf state action)
      else if isSortFilterAction action then reduceSortFilter w state action
      else Some (state, w))"

definition swap_panes :: "FileOctopusState \<Rightarrow> FileOctopusState" where
  "swap_panes state =
     state\<lparr>panels := (\<lambda>p. case p of Left \<Rightarrow> panels state Right | Right \<Rightarrow> panels state Left)\<rparr>"

definition panelReducer ::
  "Platform \<Rightarrow> World \<Rightarrow> FileOctopusState \<Rightarrow> PanelAction \<Rightarrow> (FileOctopusState \<times> World) option" where
  "panelReducer pf w state action =
     (if action = SwapPanes then Some (swap_panes state, w)
      else reducePanelAction pf w state action)"

section \<open>The invariant\<close>

text \<open>Every tab of the second state comes from a tab of the first with the same id, and reviews
  no repository that it did not review.\<close>

definition tabs_from :: "FileOctopusState \<Rightarrow> FileOctopusState \<Rightarrow> bool" where
  "tabs_from s s' \<longleftrightarrow>
     (\<forall>p i t'. tab_at s' p i = Some t' \<longrightarrow>
        (\<exists>t. tab_at s p i = Some t \<and> (\<forall>r. review_of r t' \<longrightarrow> review_of r t)))"

lemma tabs_from_refl [simp]: "tabs_from s s"
  by (auto simp: tabs_from_def)

lemma tabs_from_panels [simp]: "panels s' = panels s \<Longrightarrow> tabs_from s s'"
  by (auto simp: tabs_from_def tab_at_def)

lemma tabs_from_trans: "tabs_from s t \<Longrightarrow> tabs_from t u \<Longrightarrow> tabs_from s u"
  unfolding tabs_from_def by metis

lemma tabs_from_ids: "ids_known w s \<Longrightarrow> tabs_from s s' \<Longrightarrow> ids_known w s'"
  by (erule ids_known_sub) (force simp: tabs_from_def)

lemma tabs_from_review:
  assumes "one_review (panels s p)" and "tabs_from s s'"
  shows "one_review (panels s' p)"
  unfolding one_review_def
proof (intro allI impI)
  fix i j t u r
  assume a: "obj_get (panel_tabs (panels s' p)) i = Some t" "obj_get (panel_tabs (panels s' p)) j = Some u"
    "review_of r t" "review_of r u"
  then obtain t0 u0 where "tab_at s p i = Some t0" "review_of r t0" "tab_at s p j = Some u0" "review_of r u0"
    using assms(2) unfolding tabs_from_def tab_at_def by metis
  with one_reviewD[OF assms(1)] show "i = j" unfolding tab_at_def by blast
qed

definition keeps_review :: "(PanelTabState \<Rightarrow> PanelTabState) \<Rightarrow> bool" where
  "keeps_review f \<longleftrightarrow> (\<forall>t r. review_of r (f t) \<longrightarrow> review_of r t)"

lemma tabs_from_updatePanelTab: "keeps_review f \<Longrightarrow> tabs_from s (updatePanelTab s p i f)"
  by (auto simp: tabs_from_def keeps_review_def tab_at_updatePanelTab split: if_splits)

lemma tabs_from_updateRequestTab: "keeps_review f \<Longrightarrow> tabs_from s (updateRequestTab s p r f)"
  by (auto simp: updateRequestTab_def tabs_from_updatePanelTab split: option.split)

lemma tabs_from_map_tabs: "keeps_review f \<Longrightarrow> tabs_from s (map_tabs f s)"
  by (auto simp: tabs_from_def keeps_review_def)

lemma tabs_from_updatePanel:
  assumes "updatePanel s p upd = Some s'" and "\<And>t t' r. upd t = Some t' \<Longrightarrow> review_of r t' \<Longrightarrow> review_of r t"
  shows "tabs_from s s'"
proof -
  from assms(1) obtain t t' where "activeTab (panels s p) = Some t" "upd t = Some t'"
    "s' = set_tab s p (panel_activeTabId (panels s p)) t'"
    by (auto simp: updatePanel_def bind_eq_Some_conv)
  then show ?thesis using assms(2)[of t t'] unfolding tabs_from_def
    by (auto simp: activeTab_def tab_at_def[symmetric])
qed

lemma review_of_cong:
  "tab_tabKind t' = tab_tabKind t \<Longrightarrow> tab_gitReview t' = tab_gitReview t \<Longrightarrow> review_of r t' = review_of r t"
  by (simp add: review_of_def)

lemma keeps_reviewI: "(\<And>t. tab_tabKind (f t) = tab_tabKind t \<and> tab_gitReview (f t) = tab_gitReview t) \<Longrightarrow> keeps_review f"
  by (simp add: keeps_review_def review_of_def)

lemma updatePanel_from_opt:
  assumes "updatePanel s p upd = Some s'"
    and "\<And>t t'. upd t = Some t' \<Longrightarrow> tab_tabKind t' = tab_tabKind t \<and> tab_gitReview t' = tab_gitReview t"
  shows "tabs_from s s'"
  using tabs_from_updatePanel[OF assms(1)] assms(2) unfolding review_of_def by metis

lemma updatePanel_from:
  "updatePanel s p (\<lambda>t. Some (f t)) = Some s' \<Longrightarrow> keeps_review f \<Longrightarrow> tabs_from s s'"
  by (erule tabs_from_updatePanel) (auto simp: keeps_review_def)

lemma listing_fields:
  "tab_tabKind (batch_loaded b t) = tab_tabKind t \<and> tab_gitReview (batch_loaded b t) = tab_gitReview t"
  "tab_tabKind (batch_failed b e t) = tab_tabKind t \<and> tab_gitReview (batch_failed b e t) = tab_gitReview t"
  "tab_tabKind (start_request r bgr t) = tab_tabKind t \<and> tab_gitReview (start_request r bgr t) = tab_gitReview t"
  "tab_tabKind (start_session r z t) = tab_tabKind t \<and> tab_gitReview (start_session r z t) = tab_gitReview t"
  "tab_tabKind (pane_error x c l t) = tab_tabKind t \<and> tab_gitReview (pane_error x c l t) = tab_gitReview t"
  "tab_tabKind (archive_tab u es t) = tab_tabKind t \<and> tab_gitReview (archive_tab u es t) = tab_gitReview t"
  "tab_tabKind (remove_from_tab us t) = tab_tabKind t \<and> tab_gitReview (remove_from_tab us t) = tab_gitReview t"
  "tab_tabKind (rename_in_tab old new n t) = tab_tabKind t \<and> tab_gitReview (rename_in_tab old new n t) = tab_gitReview t"
  by (auto simp: batch_loaded_def batch_failed_def start_request_def start_session_def pane_error_def
      archive_tab_def remove_from_tab_def rename_in_tab_def Let_def split: prod.splits option.split)

lemma reduceListing_from: "reduceListing s a = Some s' \<Longrightarrow> tabs_from s s'"
proof -
  assume r: "reduceListing s a = Some s'"
  have k: "keeps_review (batch_loaded b)" "keeps_review (batch_failed b e)" "keeps_review (start_session z y)"
    "keeps_review (archive_tab u es)" "keeps_review (remove_from_tab us)" "keeps_review (rename_in_tab x y n)"
    "keeps_review (\<lambda>t. (pane_error o1 o2 o3 t)\<lparr>tab_activeRequestId := None, tab_sessionId := None\<rparr>)"
    for b e z y u es us x n o1 o2 o3
    by (auto intro!: keeps_reviewI simp: listing_fields)
  have rv: "keeps_review (start_request z bg)" "keeps_review (pane_error o1 o2 o3)" for z bg o1 o2 o3
    by (auto intro!: keeps_reviewI simp: listing_fields)
  have batch: "tabs_from s (applyBatch s b)" for b
    by (auto simp: applyBatch_def k tabs_from_updatePanelTab split: option.split)
  show ?thesis
  proof (cases a)
    case (StartRequest p z bg)
    with r show ?thesis
      by (intro updatePanel_from[OF _ rv(1)]) (simp add: reduceListing_def)
  next
    case (SetPaneError p z e c l)
    with r show ?thesis
      by (cases "truthy z")
        (auto simp: reduceListing_def intro: updatePanel_from[OF _ rv(2)] tabs_from_updateRequestTab[OF k(7)])
  next
    case (SetArchiveEntries p z u es)
    with r show ?thesis
      by (cases "truthy z")
        (auto simp: reduceListing_def setArchiveEntriesReducer_def
          intro: updatePanel_from[OF _ k(4)] tabs_from_updateRequestTab[OF k(4)])
  qed (use r in \<open>auto simp: reduceListing_def removeEntriesFromState_def renameEntryInState_def
      batch tabs_from_map_tabs[OF k(5)] tabs_from_map_tabs[OF k(6)] tabs_from_updateRequestTab[OF k(3)]\<close>)
qed

lemma keeps_navigation: "keeps_review (\<lambda>t. applyNavigation t u rep sr b f)"
proof -
  have "tab_tabKind (applyNavigation t u rep sr b f) = TDirectory \<or>
      tab_tabKind (applyNavigation t u rep sr b f) = tab_tabKind t \<and>
      tab_gitReview (applyNavigation t u rep sr b f) = tab_gitReview t" for t
    by (simp add: applyNavigation_def Let_def)
  then show ?thesis unfolding keeps_review_def review_of_def by (metis TabKind.distinct(5))
qed

lemma keeps_back: "keeps_review go_back" "keeps_review go_forward"
proof -
  have nav: "review_of r (applyNavigation t u rep sr b f) \<Longrightarrow> review_of r t" for r t u rep sr b f
    using keeps_navigation unfolding keeps_review_def by blast
  show "keeps_review go_back"
    unfolding keeps_review_def go_back_def by (auto dest: nav split: option.splits if_splits)
  show "keeps_review go_forward"
    unfolding keeps_review_def go_forward_def by (auto dest: nav split: list.splits if_splits)
qed

lemma reduceNavigation_from:
  assumes "reduceNavigation s a = Some s'" shows "tabs_from s s'"
proof (cases a)
  case (Navigate p u r sr bg)
  with assms show ?thesis
    by (intro updatePanel_from[OF _ keeps_navigation]) (simp add: reduceNavigation_def)
next
  case (GoBack p)
  with assms show ?thesis by (intro updatePanel_from[OF _ keeps_back(1)]) (simp add: reduceNavigation_def)
next
  case (GoForward p)
  with assms show ?thesis by (intro updatePanel_from[OF _ keeps_back(2)]) (simp add: reduceNavigation_def)
qed (use assms in \<open>auto simp: reduceNavigation_def\<close>)

lemma select_fields:
  "tab_tabKind (select_single t e) = tab_tabKind t \<and> tab_gitReview (select_single t e) = tab_gitReview t"
  "tab_tabKind (select_toggle t e) = tab_tabKind t \<and> tab_gitReview (select_toggle t e) = tab_gitReview t"
  "tab_tabKind (select_list t es) = tab_tabKind t \<and> tab_gitReview (select_list t es) = tab_gitReview t"
  by (simp_all add: select_single_def select_toggle_def select_list_def Let_def)

lemma range_tab_fields:
  "tab_tabKind (range_tab t vis e) = tab_tabKind t \<and> tab_gitReview (range_tab t vis e) = tab_gitReview t"
  by (auto simp: range_tab_def Let_def select_fields split: option.split)

lemma select_range_fields:
  "select_range pf t e = Some t' \<Longrightarrow> tab_tabKind t' = tab_tabKind t \<and> tab_gitReview t' = tab_gitReview t"
  by (auto simp: select_range_def bind_eq_Some_conv range_tab_fields)

lemma selectEntry_fields:
  "selectEntry pf t e m = Some t' \<Longrightarrow> tab_tabKind t' = tab_tabKind t \<and> tab_gitReview t' = tab_gitReview t"
  by (cases m) (auto simp: selectEntry_def select_fields select_range_fields)

lemma moveSelection_fields:
  "moveSelection pf t d = Some t' \<Longrightarrow> tab_tabKind t' = tab_tabKind t \<and> tab_gitReview t' = tab_gitReview t"
  unfolding moveSelection_def Let_def
  by (auto simp: bind_eq_Some_conv select_fields split: if_splits)

lemma reduceSelection_from:
  assumes "reduceSelection pf s a = Some s'" shows "tabs_from s s'"
proof (cases a)
  case (SelectEntry p e m)
  with assms show ?thesis
    by (intro updatePanel_from_opt[OF _ selectEntry_fields]) (auto simp: reduceSelection_def)
next
  case (MoveSelection p d)
  with assms show ?thesis
    by (intro updatePanel_from_opt[OF _ moveSelection_fields]) (auto simp: reduceSelection_def)
next
  case (SelectAll p)
  with assms show ?thesis
    by (auto simp: reduceSelection_def bind_eq_Some_conv select_fields elim!: updatePanel_from_opt)
next
  case (InvertSelection p)
  with assms show ?thesis
    by (auto simp: reduceSelection_def bind_eq_Some_conv select_fields elim!: updatePanel_from_opt)
qed (use assms in \<open>auto simp: reduceSelection_def Let_def elim!: updatePanel_from_opt\<close>)

lemma hydrate_from: "hydrate_panel w h v p s = Some s' \<Longrightarrow> tabs_from s s'"
  unfolding hydrate_panel_def Let_def by (erule tabs_from_updatePanel) (auto simp: review_of_def)

lemma reduceSortFilter_from:
  assumes "reduceSortFilter w s a = Some (s', w')" shows "tabs_from s s'"
proof (cases a)
  case (HydratePreferences h v)
  with assms obtain s1 where "hydrate_panel w h v Left s = Some s1" "hydrate_panel w h v Right s1 = Some s'"
    by (auto simp: reduceSortFilter_def bind_eq_Some_conv)
  then show ?thesis by (blast intro: hydrate_from tabs_from_trans)
qed (use assms in \<open>auto simp: reduceSortFilter_def Let_def toggle_hidden_tab_def bind_eq_Some_conv
      elim!: updatePanel_from_opt\<close>)

lemma reduceSortFilter_counter: "reduceSortFilter w s a = Some (s', w') \<Longrightarrow> tabCounter w' = tabCounter w"
  by (cases a) (auto simp: reduceSortFilter_def Let_def bind_eq_Some_conv)

lemma set_search_from [simp]: "tabs_from s (set_search s p i x)"
  unfolding set_search_def by (rule tabs_from_updatePanelTab) (auto intro!: keeps_reviewI)

lemma tabs_from_buffers: "panels s' = panels (set_search s p i x) \<Longrightarrow> tabs_from s s'"
  using set_search_from[of s p i x] by (auto simp: tabs_from_def tab_at_def)

lemma reduceContentSearch_from: "tabs_from s (reduceContentSearch s a)"
proof -
  have k: "keeps_review (\<lambda>tab. tab\<lparr>tab_contentSearchQuery := q\<rparr>)" "keeps_review (start_search a b c d)"
    "keeps_review (fail_start r e)" for q a b c d r e
    by (auto intro!: keeps_reviewI simp: start_search_def fail_start_def split: option.split)
  note f = tabs_from_updatePanelTab[OF k(1)] tabs_from_updatePanelTab[OF k(2)] tabs_from_updatePanelTab[OF k(3)]
  show ?thesis
    by (cases a) (auto simp: reduceContentSearch_def bindContentSearchJob_def apply_match_def
        apply_completed_def terminate_job_def Let_def f intro: tabs_from_buffers split: option.split)
qed

text \<open>The invariant of the store.\<close>

definition store_ok :: "FileOctopusState \<times> World \<Rightarrow> bool" where
  "store_ok sw \<longleftrightarrow>
     panels_ok (fst sw) \<and> ids_known (snd sw) (fst sw) \<and> buffers_ok (fst sw) \<and>
     one_review (panels (fst sw) Left) \<and> one_review (panels (fst sw) Right)"

lemma store_ok_from:
  assumes "store_ok (s, w)" and "tabs_from s s'" and "tabCounter w' = tabCounter w"
    and "panels_ok s'" and "buffers_ok s'"
  shows "store_ok (s', w')"
proof -
  have "ids_known w' s" using assms(1,3) ids_known_mono[of w s w'] by (simp add: store_ok_def)
  with tabs_from_ids[OF this assms(2)] assms tabs_from_review[OF _ assms(2)] show ?thesis
    by (simp add: store_ok_def)
qed

text \<open>The slices other than content search leave its buffers alone.\<close>

lemma buffers_ok_cong:
  "pendingContentSearchEvents s' = pendingContentSearchEvents s \<Longrightarrow>
   absorbedContentSearchJobIds s' = absorbedContentSearchJobIds s \<Longrightarrow> buffers_ok s' = buffers_ok s"
  by (simp add: buffers_ok_def)

definition same_buffers :: "FileOctopusState \<Rightarrow> FileOctopusState \<Rightarrow> bool" where
  "same_buffers s s' \<longleftrightarrow>
     pendingContentSearchEvents s' = pendingContentSearchEvents s \<and>
     absorbedContentSearchJobIds s' = absorbedContentSearchJobIds s"

lemma same_buffers_ok: "same_buffers s s' \<Longrightarrow> buffers_ok s \<Longrightarrow> buffers_ok s'"
  unfolding same_buffers_def using buffers_ok_cong by metis

lemma same_buffers_refl [simp]: "same_buffers s s"
  by (simp add: same_buffers_def)

lemma same_buffers_update: "updatePanel s p upd = Some s' \<Longrightarrow> same_buffers s s'"
  using updatePanel_frame[of s p upd s'] by (simp add: same_buffers_def)

lemma same_buffers_tab [simp]:
  "same_buffers s (updatePanelTab s p i f)" "same_buffers s (updateRequestTab s p r f)"
  "same_buffers s (map_tabs f s)" "same_buffers s (set_tab s p i t)" "same_buffers s (add_tab s p i t)"
  by (auto simp: same_buffers_def updateRequestTab_def map_tabs_def add_tab_def split: option.split)

lemma same_buffers_upd [simp]:
  "same_buffers s (s\<lparr>panels := q\<rparr>)" "same_buffers s (s\<lparr>activePanelId := p\<rparr>)"
  by (simp_all add: same_buffers_def)

lemma reduceListing_buffers: "reduceListing s a = Some s' \<Longrightarrow> same_buffers s s'"
  by (cases a) (auto simp: reduceListing_def setArchiveEntriesReducer_def removeEntriesFromState_def
      renameEntryInState_def applyBatch_def dest: same_buffers_update split: if_splits option.split)

lemma reduceNavigation_buffers: "reduceNavigation s a = Some s' \<Longrightarrow> same_buffers s s'"
  by (cases a) (auto simp: reduceNavigation_def dest: same_buffers_update)

lemma reduceSelection_buffers: "reduceSelection pf s a = Some s' \<Longrightarrow> same_buffers s s'"
  by (cases a) (auto simp: reduceSelection_def Let_def dest: same_buffers_update)

lemma hydrate_buffers: "hydrate_panel w h v p s = Some s' \<Longrightarrow> same_buffers s s'"
  unfolding hydrate_panel_def Let_def by (rule same_buffers_update)

lemma reduceSortFilter_buffers: "reduceSortFilter w s a = Some (s', w') \<Longrightarrow> same_buffers s s'"
  by (cases a) (auto simp: reduceSortFilter_def Let_def bind_eq_Some_conv same_buffers_def
      dest!: hydrate_buffers[unfolded same_buffers_def] same_buffers_update[unfolded same_buffers_def])

lemma reduceTab_buffers: "reduceTab w s a = Some (s', w') \<Longrightarrow> same_buffers s s'"
  by (cases a) (auto simp: reduceTab_def bind_eq_Some_conv split: prod.splits option.splits if_splits)

lemma swap_panes_tab: "tab_at (swap_panes s) p i = tab_at s (case p of Left \<Rightarrow> Right | Right \<Rightarrow> Left) i"
  by (cases p) (simp_all add: swap_panes_def tab_at_def)

lemma swap_panes_ok: "store_ok (s, w) \<Longrightarrow> store_ok (swap_panes s, w)"
proof -
  assume "store_ok (s, w)"
  moreover from this have "ids_known w (swap_panes s)"
    unfolding store_ok_def ids_known_def swap_panes_tab by simp
  ultimately show ?thesis
    by (simp add: store_ok_def panels_ok_def buffers_ok_def swap_panes_def)
qed

lemma reduceTab_store:
  assumes "store_ok (s, w)"
  shows "\<exists>s' w'. reduceTab w s a = Some (s', w') \<and> store_ok (s', w')"
proof -
  from assms have ok: "panels_ok s" "ids_known w s" "buffers_ok s" "\<And>p. one_review (panels s p)"
    by (auto simp: store_ok_def) (metis PanelId.exhaust)
  from reduceTab_ok[OF ok(1), of w a] obtain s' w' where r: "reduceTab w s a = Some (s', w')" "panels_ok s'"
    by blast
  have "one_review (panels s' p)" for p
    using one_review_reduceTab[OF ok(1) ok(4) r(1)] .
  with r reduceTab_ids_known[OF ok(2) r(1)] same_buffers_ok[OF reduceTab_buffers[OF r(1)] ok(3)]
  show ?thesis by (auto simp: store_ok_def)
qed

lemma keep_world_store:
  assumes "store_ok (s, w)" and "\<exists>s'. r = Some s' \<and> panels_ok s'"
    and "\<And>s'. r = Some s' \<Longrightarrow> tabs_from s s' \<and> same_buffers s s'"
  shows "\<exists>s' w'. keep_world w r = Some (s', w') \<and> store_ok (s', w')"
proof -
  from assms(2) obtain s' where s': "r = Some s'" "panels_ok s'" by blast
  with store_ok_from[OF assms(1), of s' w] assms(1) assms(3)[of s'] same_buffers_ok[of s s'] show ?thesis
    by (simp add: keep_world_def store_ok_def)
qed

lemma panelReducer_store:
  assumes "store_ok (s, w)"
  shows "\<exists>s' w'. panelReducer pf w s a = Some (s', w') \<and> store_ok (s', w')"
proof -
  have ok: "panels_ok s" using assms by (simp add: store_ok_def)
  obtain s1 w1 where sf: "reduceSortFilter w s a = Some (s1, w1)" "panels_ok s1"
    using reduceSortFilter_ok[OF ok] by blast
  have "buffers_ok s1" using same_buffers_ok[OF reduceSortFilter_buffers[OF sf(1)]] assms
    by (simp add: store_ok_def)
  with store_ok_from[OF assms reduceSortFilter_from[OF sf(1)] reduceSortFilter_counter[OF sf(1)]] sf
  have "store_ok (s1, w1)" by simp
  moreover have "store_ok (reduceContentSearch s a, w)"
    using store_ok_from[OF assms reduceContentSearch_from refl reduceContentSearch_ok[OF ok]]
      reduceContentSearch_buffers assms by (simp add: store_ok_def)
  moreover note reduceTab_store[OF assms, of a] swap_panes_ok[OF assms]
    keep_world_store[OF assms reduceNavigation_ok[OF ok, of a]] keep_world_store[OF assms reduceListing_ok[OF ok, of a]]
    keep_world_store[OF assms reduceSelection_ok[OF ok, of pf a]]
  ultimately show ?thesis
    using sf(1) assms reduceNavigation_from reduceNavigation_buffers reduceListing_from reduceListing_buffers
      reduceSelection_from reduceSelection_buffers
    by (simp add: panelReducer_def reducePanelAction_def)
qed

text \<open>The store with its world is a reducer under the invariant.\<close>

definition store_reduce ::
  "Platform \<Rightarrow> FileOctopusState \<times> World \<Rightarrow> PanelAction \<Rightarrow> (FileOctopusState \<times> World) option" where
  "store_reduce pf sw a = panelReducer pf (snd sw) (fst sw) a"

interpretation panel_store: reducer "store_reduce pf" store_ok for pf
  by unfold_locales (use panelReducer_store in \<open>auto simp: store_reduce_def\<close>)

section \<open>Reachable states\<close>

text \<open>A start-up builds the two panels; afterwards actions are dispatched, and between them the
  rest of the host moves: the clock, the contents of local storage and its failures, in any
  way, but never the counter of tab ids, which only the reducer writes.\<close>

inductive reachable :: "Platform \<Rightarrow> FileOctopusState \<times> World \<Rightarrow> bool" for pf where
  start: "createInitialState w l r = Some s \<Longrightarrow> reachable pf (s, w)"
| act: "reachable pf sw \<Longrightarrow> store_reduce pf sw a = Some sw' \<Longrightarrow> reachable pf sw'"
| host: "reachable pf (s, w) \<Longrightarrow> tabCounter w' = tabCounter w \<Longrightarrow> reachable pf (s, w')"

inductive_cases reachableE: "reachable pf sw"

lemma createPanel_ok:
  "createPanel w p u = Some q \<Longrightarrow>
   panel_ok q \<and> one_review q \<and> (\<forall>i. obj_get (panel_tabs q) i \<noteq> None \<longrightarrow> i = ''main'')"
  by (auto simp: createPanel_def bind_eq_Some_conv panel_ok_def one_review_def split: if_splits)

lemma createInitialState_ok: "createInitialState w l r = Some s \<Longrightarrow> store_ok (s, w)"
proof -
  assume "createInitialState w l r = Some s"
  then obtain a b where ab: "createPanel w Left l = Some a" "createPanel w Right r = Some b"
    and s: "s = \<lparr>activePanelId = Left, panels = (\<lambda>p. case p of Left \<Rightarrow> a | Right \<Rightarrow> b),
      pendingContentSearchEvents = [], absorbedContentSearchJobIds = []\<rparr>"
    by (auto simp: createInitialState_def bind_eq_Some_conv)
  have "tab_at s p i \<noteq> None \<Longrightarrow> i = ''main''" for p i
    using createPanel_ok[OF ab(1)] createPanel_ok[OF ab(2)] unfolding tab_at_def by (cases p) (simp_all add: s)
  then have "ids_known w s" by (simp add: ids_known_def)
  with createPanel_ok[OF ab(1)] createPanel_ok[OF ab(2)] show ?thesis
    by (simp add: store_ok_def panels_ok_def buffers_ok_def s)
qed

lemma reachable_store_ok: "reachable pf sw \<Longrightarrow> store_ok sw"
proof (induction rule: reachable.induct)
  case (start w l r s)
  then show ?case by (rule createInitialState_ok)
next
  case (act sw a sw')
  then show ?case using panel_store.reduce_keeps by blast
next
  case (host s w w')
  then show ?case using ids_known_mono[of w s w'] by (simp add: store_ok_def)
qed

section \<open>Properties\<close>

text \<open>C1: the panel store never raises and never corrupts its tabs. From a start-up on, through
  any sequence of actions and of changes of the clock and of local storage, in every panel
  the active tab exists, the ids listed by a tab are exactly its stored entries, each under
  its own URI, tab ids are unique, search buffers are bounded and no repository is reviewed
  twice; and every action is accepted.\<close>

theorem reachable_states_safe:
  assumes "reachable pf (s, w)"
  shows "store_ok (s, w) \<and> (\<forall>a. store_reduce pf (s, w) a \<noteq> None) \<and>
    (\<forall>as. run_actions (store_reduce pf) as (s, w) \<noteq> None)"
proof -
  have ok: "store_ok (s, w)" by (rule reachable_store_ok[OF assms])
  then show ?thesis using panel_store.reduce_total panel_store.run_total by (metis option.distinct(1))
qed

theorem reachable_states_safe_witness:
  "\<exists>s. createInitialState sample_world ''local:///'' ''local:///'' = Some s \<and>
     run_actions (store_reduce ordinal_platform)
       [OpenTab Left ''local:///x'', GoBack Left, SwapPanes] (s, sample_world) \<noteq> None"
proof -
  obtain s where s: "createInitialState sample_world ''local:///'' ''local:///'' = Some s"
    by (simp add: createInitialState_def createPanel_def storedSort_def storedShowHidden_def readJson_def
        readValue_def sample_world_def)
  then have "reachable ordinal_platform (s, sample_world)" by (rule reachable.start)
  from reachable_states_safe[OF this] s show ?thesis by blast
qed

text \<open>The panel that an action names.\<close>

fun action_panel :: "PanelAction \<Rightarrow> PanelId option" where
  "action_panel (Navigate p _ _ _ _) = Some p"
| "action_panel (GoBack p) = Some p"
| "action_panel (GoForward p) = Some p"
| "action_panel (StartRequest p _ _) = Some p"
| "action_panel (StartSession p _ _) = Some p"
| "action_panel (SetSelection p _) = Some p"
| "action_panel (SetSelectionMany p _) = Some p"
| "action_panel (SelectAll p) = Some p"
| "action_panel (InvertSelection p) = Some p"
| "action_panel (ClearSelection p) = Some p"
| "action_panel (SelectEntry p _ _) = Some p"
| "action_panel (MoveSelection p _) = Some p"
| "action_panel (SetPaneError p _ _ _ _) = Some p"
| "action_panel (SetFilter p _) = Some p"
| "action_panel (SetRecursiveQuery p _) = Some p"
| "action_panel (SetContentSearchQuery p _ _) = Some p"
| "action_panel (StartContentSearch p _ _ _ _ _) = Some p"
| "action_panel (BindContentSearchJob p _ _ _) = Some p"
| "action_panel (FailContentSearchStart p _ _ _) = Some p"
| "action_panel (SetSort p _) = Some p"
| "action_panel (SetViewMode p _) = Some p"
| "action_panel (ToggleHidden p) = Some p"
| "action_panel (SetHash p _ _) = Some p"
| "action_panel (OpenTab p _) = Some p"
| "action_panel (OpenPreviewTab p _) = Some p"
| "action_panel (OpenEditorTab p _) = Some p"
| "action_panel (OpenGitReviewTab p _ _ _) = Some p"
| "action_panel (ReplaceContentTabEntry p _ _) = Some p"
| "action_panel (CloseTab p _) = Some p"
| "action_panel (SwitchTab p _) = Some p"
| "action_panel (SetArchiveEntries p _ _ _) = Some p"
| "action_panel _ = None"

lemma updatePanel_other: "updatePanel s p upd = Some s' \<Longrightarrow> q \<noteq> p \<Longrightarrow> panels s' q = panels s q"
  by (auto simp: updatePanel_def bind_eq_Some_conv panels_set_tab)

lemma updatePanelTab_other [simp]: "q \<noteq> p \<Longrightarrow> panels (updatePanelTab s p i f) q = panels s q"
  by (simp add: updatePanelTab_def panels_set_tab split: option.split)

lemma updateRequestTab_other [simp]: "q \<noteq> p \<Longrightarrow> panels (updateRequestTab s p r f) q = panels s q"
  by (auto simp: updateRequestTab_def split: option.split)

lemma set_search_other [simp]: "q \<noteq> p \<Longrightarrow> panels (set_search s p i x) q = panels s q"
  by (simp add: set_search_def)

lemma slices_other:
  "action_panel a = Some p \<Longrightarrow> q \<noteq> p \<Longrightarrow> reduceListing s a = Some s' \<Longrightarrow> panels s' q = panels s q"
  "action_panel a = Some p \<Longrightarrow> q \<noteq> p \<Longrightarrow> reduceNavigation s a = Some s' \<Longrightarrow> panels s' q = panels s q"
  "action_panel a = Some p \<Longrightarrow> q \<noteq> p \<Longrightarrow> reduceSelection pf s a = Some s' \<Longrightarrow> panels s' q = panels s q"
  "action_panel a = Some p \<Longrightarrow> q \<noteq> p \<Longrightarrow> reduceSortFilter w s a = Some (s', w') \<Longrightarrow> panels s' q = panels s q"
  "action_panel a = Some p \<Longrightarrow> q \<noteq> p \<Longrightarrow> reduceTab w s a = Some (s', w') \<Longrightarrow> panels s' q = panels s q"
  "action_panel a = Some p \<Longrightarrow> q \<noteq> p \<Longrightarrow> panels (reduceContentSearch s a) q = panels s q"
       apply (cases a; auto simp: reduceListing_def setArchiveEntriesReducer_def dest: updatePanel_other split: if_splits)
      apply (cases a; auto simp: reduceNavigation_def dest: updatePanel_other)
     apply (cases a; auto simp: reduceSelection_def Let_def dest: updatePanel_other)
    apply (cases a; auto simp: reduceSortFilter_def Let_def bind_eq_Some_conv dest: updatePanel_other)
   apply (cases a; auto simp: reduceTab_def bind_eq_Some_conv panels_add_tab panels_set_tab
      split: prod.splits option.splits if_splits)
  apply (cases a; auto simp: reduceContentSearch_def bindContentSearchJob_def Let_def split: option.split)
  done

text \<open>The two panels do not interfere. An action that names a panel changes no tab of the
  other panel: not its listing, selection, history, searches or active tab.\<close>

theorem panels_isolated:
  assumes "action_panel a = Some p" and "q \<noteq> p" and "panelReducer pf w s a = Some (s', w')"
  shows "panels s' q = panels s q"
proof -
  have "a \<noteq> SwapPanes" using assms(1) by auto
  with assms(3) slices_other[OF assms(1,2)] show ?thesis
    by (auto simp: panelReducer_def reducePanelAction_def keep_world_def split: if_splits)
qed

theorem panels_isolated_witness:
  "\<exists>s' w'. panelReducer ordinal_platform sample_world sample_state (ToggleHidden Right) = Some (s', w') \<and>
     panels s' Left = panels sample_state Left"
proof -
  have "store_ok (sample_state, sample_world)"
    by (simp add: store_ok_def ids_known_def all_PanelId buffers_ok_def one_review_def)
  from panelReducer_store[OF this] obtain s' w'
    where r: "panelReducer ordinal_platform sample_world sample_state (ToggleHidden Right) = Some (s', w')"
    by blast
  from panels_isolated[OF _ _ r, of Right Left] r show ?thesis by simp
qed

end
