(* ===== verification/Terminal.thy ===== *)
theory Terminal
  imports Complex_Main PanelState Reducer
begin

text \<open>
  The terminals of the activity rail and of the panes (\<open>terminal/terminalSlice.ts\<close>). A
  session belongs to a pane or to the rail; each pane has a chrome (open, collapsed,
  maximized, split, session). The profile of a session is generated elsewhere and never
  inspected: it is the type parameter \<open>'p\<close>. Split ratios are JavaScript numbers, of which
  the slice uses the order only; a finite one is a rational here.
\<close>

section \<open>Numbers\<close>

datatype js_number = NaN | NegInf | Fin rat | PosInf

text \<open>\<open>Math.max\<close> and \<open>Math.min\<close>: not-a-number is contagious.\<close>

fun js_le :: "js_number \<Rightarrow> js_number \<Rightarrow> bool" where
  "js_le NaN _ = False"
| "js_le _ NaN = False"
| "js_le NegInf _ = True"
| "js_le _ PosInf = True"
| "js_le (Fin a) (Fin b) = (a \<le> b)"
| "js_le _ _ = False"

definition js_max :: "js_number \<Rightarrow> js_number \<Rightarrow> js_number" where
  "js_max a b = (if a = NaN \<or> b = NaN then NaN else if js_le a b then b else a)"

definition js_min :: "js_number \<Rightarrow> js_number \<Rightarrow> js_number" where
  "js_min a b = (if a = NaN \<or> b = NaN then NaN else if js_le a b then a else b)"

definition DEFAULT_PANE_TERMINAL_SPLIT :: js_number where
  "DEFAULT_PANE_TERMINAL_SPLIT = Fin (35 / 100)"

definition MIN_PANE_TERMINAL_SPLIT :: js_number where
  "MIN_PANE_TERMINAL_SPLIT = Fin (15 / 100)"

definition MAX_PANE_TERMINAL_SPLIT :: js_number where
  "MAX_PANE_TERMINAL_SPLIT = Fin (85 / 100)"

section \<open>State\<close>

datatype ActivityRailSegment = SegActivity | SegHistory | SegTerminal

datatype TerminalSessionStatus = TStarting | TRunning | TExited

datatype TerminalPaneId = InPane PanelId | Rail

datatype TerminalTransport = TLocal | TSsh

record 'p TerminalSession =
  ts_id :: string
  ts_uri :: string
  ts_label :: string
  ts_status :: TerminalSessionStatus
  ts_exitCode :: "int option"
  ts_paneId :: TerminalPaneId
  ts_transport :: "TerminalTransport option"
  ts_terminalProfileId :: "string option"
  ts_terminalProfile :: "'p option"

record PaneTerminalChrome =
  ch_open :: bool
  ch_collapsed :: bool
  ch_maximized :: bool
  ch_splitRatio :: js_number
  ch_sessionId :: "string option"

record 'p TerminalState =
  tm_segment :: ActivityRailSegment
  tm_sessions :: "'p TerminalSession list"
  tm_activeSessionId :: "string option"
  tm_pane :: "PanelId \<Rightarrow> PaneTerminalChrome"

datatype 'p TerminalAction =
    SetSegment ActivityRailSegment
  | AddSession "'p TerminalSession" "bool option"
  | SetSessionStatus string TerminalSessionStatus
  | SetSessionExited string "int option"
  | RenameSession string string
  | SwitchSession string
  | CloseSession string
  | OpenPaneTerminal PanelId string "js_number option"
  | SetPaneTerminalCollapsed PanelId bool
  | SetPaneTerminalMaximized PanelId bool
  | SetPaneTerminalSplit PanelId js_number
  | SetPaneActiveSession PanelId string
  | ClosePaneTerminal PanelId
  | HydratePaneTerminalPreferences js_number js_number

definition createPaneTerminalChrome :: PaneTerminalChrome where
  "createPaneTerminalChrome =
     \<lparr>ch_open = False, ch_collapsed = False, ch_maximized = False,
      ch_splitRatio = DEFAULT_PANE_TERMINAL_SPLIT, ch_sessionId = None\<rparr>"

definition createInitialTerminalState :: "'p TerminalState" where
  "createInitialTerminalState =
     \<lparr>tm_segment = SegActivity, tm_sessions = [], tm_activeSessionId = None,
      tm_pane = (\<lambda>_. createPaneTerminalChrome)\<rparr>"

section \<open>Operations\<close>

definition clampPaneSplit :: "js_number \<Rightarrow> js_number" where
  "clampPaneSplit ratio =
     js_min MAX_PANE_TERMINAL_SPLIT (js_max MIN_PANE_TERMINAL_SPLIT ratio)"

text \<open>The bound pane of a session, if it is not the rail (\<open>isPaneBound\<close>).\<close>

definition isPaneBound :: "TerminalPaneId \<Rightarrow> bool" where
  "isPaneBound p = (case p of InPane _ \<Rightarrow> True | Rail \<Rightarrow> False)"

definition clearPaneBinding ::
  "(PanelId \<Rightarrow> PaneTerminalChrome) \<Rightarrow> string \<Rightarrow> 'p TerminalSession list \<Rightarrow> (PanelId \<Rightarrow> PaneTerminalChrome)" where
  "clearPaneBinding pane sessionId remaining = (\<lambda>pid.
     if ch_sessionId (pane pid) \<noteq> Some sessionId then pane pid
     else let sibling = find (\<lambda>s. ts_paneId s = InPane pid) remaining
          in (pane pid)\<lparr>ch_open := sibling \<noteq> None, ch_collapsed := False,
               ch_maximized := False, ch_sessionId := map_option ts_id sibling\<rparr>)"

definition map_session ::
  "string \<Rightarrow> ('p TerminalSession \<Rightarrow> 'p TerminalSession) \<Rightarrow> 'p TerminalState \<Rightarrow> 'p TerminalState" where
  "map_session sessionId f state =
     state\<lparr>tm_sessions := map (\<lambda>s. if ts_id s = sessionId then f s else s) (tm_sessions state)\<rparr>"

definition upd_chrome ::
  "PanelId \<Rightarrow> (PaneTerminalChrome \<Rightarrow> PaneTerminalChrome) \<Rightarrow> 'p TerminalState \<Rightarrow> 'p TerminalState" where
  "upd_chrome pid f state = state\<lparr>tm_pane := (tm_pane state)(pid := f (tm_pane state pid))\<rparr>"

definition add_session :: "'p TerminalState \<Rightarrow> 'p TerminalSession \<Rightarrow> bool option \<Rightarrow> 'p TerminalState" where
  "add_session state session0 makeActive =
     (let session = session0\<lparr>ts_transport :=
            Some (case ts_transport session0 of Some t \<Rightarrow> t | None \<Rightarrow> TLocal)\<rparr>;
          pane = (case ts_paneId session of
             InPane pid \<Rightarrow> (tm_pane state)(pid := (tm_pane state pid)
               \<lparr>ch_open := True, ch_collapsed := False, ch_maximized := False,
                ch_sessionId := Some (ts_id session)\<rparr>)
           | Rail \<Rightarrow> tm_pane state)
      in state\<lparr>tm_sessions := tm_sessions state @ [session], tm_pane := pane,
           tm_activeSessionId := (if makeActive = Some False then tm_activeSessionId state
                                  else Some (ts_id session)),
           tm_segment := (if ts_paneId session = Rail then SegTerminal else tm_segment state)\<rparr>)"

definition switch_session :: "'p TerminalState \<Rightarrow> string \<Rightarrow> 'p TerminalState" where
  "switch_session state sessionId =
     (let session = find (\<lambda>s. ts_id s = sessionId) (tm_sessions state);
          pane = (case session of
             None \<Rightarrow> tm_pane state
           | Some s \<Rightarrow>
               (case ts_paneId s of
                  InPane pid \<Rightarrow> (tm_pane state)(pid := (tm_pane state pid)
                    \<lparr>ch_open := True, ch_collapsed := False, ch_sessionId := Some (ts_id s)\<rparr>)
                | Rail \<Rightarrow> tm_pane state))
      in state\<lparr>tm_activeSessionId := Some sessionId, tm_pane := pane,
           tm_segment := (if map_option ts_paneId session = Some Rail then SegTerminal
                          else tm_segment state)\<rparr>)"

definition close_session :: "'p TerminalState \<Rightarrow> string \<Rightarrow> 'p TerminalState" where
  "close_session state sessionId =
     (let sessions = filter (\<lambda>s. ts_id s \<noteq> sessionId) (tm_sessions state);
          fallbackIndex = (case find_index (\<lambda>s. ts_id s = sessionId) (tm_sessions state) of
                             None \<Rightarrow> 0 | Some i \<Rightarrow> i - 1);
          fallback = (if fallbackIndex < length sessions then Some (sessions ! fallbackIndex)
                      else first_opt sessions)
      in state\<lparr>tm_sessions := sessions,
           tm_activeSessionId := (if tm_activeSessionId state = Some sessionId
                                  then map_option ts_id fallback else tm_activeSessionId state),
           tm_pane := clearPaneBinding (tm_pane state) sessionId sessions,
           tm_segment := (if sessions = [] \<and> tm_segment state = SegTerminal then SegActivity
                          else tm_segment state)\<rparr>)"

definition terminalReducer :: "'p TerminalState \<Rightarrow> 'p TerminalAction \<Rightarrow> 'p TerminalState" where
  "terminalReducer state action =
     (case action of
        SetSegment seg \<Rightarrow> state\<lparr>tm_segment := seg\<rparr>
      | AddSession session makeActive \<Rightarrow> add_session state session makeActive
      | SetSessionStatus sid st \<Rightarrow> map_session sid (\<lambda>s. s\<lparr>ts_status := st\<rparr>) state
      | SetSessionExited sid exitCode \<Rightarrow>
          map_session sid (\<lambda>s. s\<lparr>ts_status := TExited, ts_exitCode := exitCode\<rparr>) state
      | RenameSession sid label \<Rightarrow> map_session sid (\<lambda>s. s\<lparr>ts_label := label\<rparr>) state
      | SwitchSession sid \<Rightarrow> switch_session state sid
      | CloseSession sid \<Rightarrow> close_session state sid
      | OpenPaneTerminal pid sid split \<Rightarrow>
          (upd_chrome pid (\<lambda>c. c\<lparr>ch_open := True, ch_collapsed := False, ch_maximized := False,
              ch_sessionId := Some sid,
              ch_splitRatio := clampPaneSplit
                (case split of Some r \<Rightarrow> r | None \<Rightarrow> ch_splitRatio c)\<rparr>) state)
            \<lparr>tm_activeSessionId := Some sid\<rparr>
      | SetPaneTerminalCollapsed pid b \<Rightarrow>
          upd_chrome pid (\<lambda>c. c\<lparr>ch_collapsed := b,
            ch_maximized := (if b then False else ch_maximized c)\<rparr>) state
      | SetPaneTerminalMaximized pid b \<Rightarrow>
          upd_chrome pid (\<lambda>c. c\<lparr>ch_maximized := b,
            ch_collapsed := (if b then False else ch_collapsed c)\<rparr>) state
      | SetPaneTerminalSplit pid r \<Rightarrow>
          upd_chrome pid (\<lambda>c. c\<lparr>ch_splitRatio := clampPaneSplit r\<rparr>) state
      | SetPaneActiveSession pid sid \<Rightarrow>
          (upd_chrome pid (\<lambda>c. c\<lparr>ch_open := True, ch_collapsed := False,
              ch_sessionId := Some sid\<rparr>) state)\<lparr>tm_activeSessionId := Some sid\<rparr>
      | ClosePaneTerminal pid \<Rightarrow>
          upd_chrome pid (\<lambda>c. c\<lparr>ch_open := False, ch_collapsed := False, ch_maximized := False,
            ch_sessionId := None\<rparr>) state
      | HydratePaneTerminalPreferences l r \<Rightarrow>
          state\<lparr>tm_pane := (\<lambda>pid. (tm_pane state pid)\<lparr>ch_splitRatio := clampPaneSplit
            (case pid of Left \<Rightarrow> l | Right \<Rightarrow> r)\<rparr>)\<rparr>)"

definition sessionsForActivityRail :: "'p TerminalSession list \<Rightarrow> 'p TerminalSession list" where
  "sessionsForActivityRail sessions = filter (\<lambda>s. ts_paneId s = Rail) sessions"

definition sessionsForPane :: "'p TerminalSession list \<Rightarrow> PanelId \<Rightarrow> 'p TerminalSession list" where
  "sessionsForPane sessions pid = filter (\<lambda>s. ts_paneId s = InPane pid) sessions"

definition hasRunningPaneSessions :: "'p TerminalSession list \<Rightarrow> PanelId \<Rightarrow> bool" where
  "hasRunningPaneSessions sessions pid =
     list_ex (\<lambda>s. ts_status s \<noteq> TExited) (sessionsForPane sessions pid)"

definition tabLabelForUri :: "string \<Rightarrow> string" where
  "tabLabelForUri uri =
     (let parts = nonempty_parts (js_split (CHR ''/'') (strip_one_slash uri))
      in if parts = [] then ''Shell'' else last parts)"

section \<open>Chrome\<close>

definition split_ok :: "js_number \<Rightarrow> bool" where
  "split_ok r \<longleftrightarrow> js_le MIN_PANE_TERMINAL_SPLIT r \<and> js_le r MAX_PANE_TERMINAL_SPLIT"

lemmas split_defs = MIN_PANE_TERMINAL_SPLIT_def MAX_PANE_TERMINAL_SPLIT_def
  DEFAULT_PANE_TERMINAL_SPLIT_def

lemma clamp_ok: "r \<noteq> NaN \<Longrightarrow> split_ok (clampPaneSplit r)"
  by (cases r) (auto simp: split_ok_def clampPaneSplit_def js_min_def js_max_def split_defs)

lemma clamp_NaN: "clampPaneSplit NaN = NaN"
  by (simp add: clampPaneSplit_def js_min_def js_max_def)

lemma clamp_id: "split_ok r \<Longrightarrow> clampPaneSplit r = r"
  by (cases r) (auto simp: split_ok_def clampPaneSplit_def js_min_def js_max_def split_defs)

lemma split_ok_not_NaN: "split_ok r \<Longrightarrow> r \<noteq> NaN"
  by (auto simp: split_ok_def)

text \<open>A pane is never collapsed and maximized at once, and it is open exactly when it shows a
  session; its split is within bounds, or not a number where \<open>nan\<close> allows that.\<close>

definition split_kept :: "bool \<Rightarrow> js_number \<Rightarrow> bool" where
  "split_kept nan r \<longleftrightarrow> split_ok r \<or> nan \<and> r = NaN"

lemma clamp_split: "nan \<or> r \<noteq> NaN \<Longrightarrow> split_kept nan (clampPaneSplit r)"
  using clamp_ok[of r] clamp_NaN by (auto simp: split_kept_def)

lemma split_kept_NaN: "split_kept nan r \<Longrightarrow> nan \<or> r \<noteq> NaN"
  using split_ok_not_NaN by (auto simp: split_kept_def)

definition chrome_ok :: "bool \<Rightarrow> PaneTerminalChrome \<Rightarrow> bool" where
  "chrome_ok nan c \<longleftrightarrow>
     \<not> (ch_collapsed c \<and> ch_maximized c) \<and> (ch_open c \<longleftrightarrow> ch_sessionId c \<noteq> None) \<and>
     split_kept nan (ch_splitRatio c)"

text \<open>The session ids in use: the list, and references to it.\<close>

definition session_ids :: "'p TerminalState \<Rightarrow> string set" where
  "session_ids s = ts_id ` set (tm_sessions s)"

definition refs_ok :: "'p TerminalState \<Rightarrow> bool" where
  "refs_ok s \<longleftrightarrow>
     (\<forall>i. tm_activeSessionId s = Some i \<longrightarrow> i \<in> session_ids s) \<and>
     (\<forall>p i. ch_sessionId (tm_pane s p) = Some i \<longrightarrow> i \<in> session_ids s)"

definition terminal_ok :: "bool \<Rightarrow> 'p TerminalState \<Rightarrow> bool" where
  "terminal_ok nan s \<longleftrightarrow> (\<forall>p. chrome_ok nan (tm_pane s p)) \<and> refs_ok s"

text \<open>What callers must pass: a session that exists, and a split that is a number unless \<open>nan\<close> allows others.\<close>

definition action_ok :: "bool \<Rightarrow> 'p TerminalState \<Rightarrow> 'p TerminalAction \<Rightarrow> bool" where
  "action_ok nan s a =
     (case a of
        SwitchSession i \<Rightarrow> i \<in> session_ids s
      | OpenPaneTerminal _ i r \<Rightarrow> i \<in> session_ids s \<and> (nan \<or> r \<noteq> Some NaN)
      | SetPaneActiveSession _ i \<Rightarrow> i \<in> session_ids s
      | SetPaneTerminalSplit _ r \<Rightarrow> nan \<or> r \<noteq> NaN
      | HydratePaneTerminalPreferences l r \<Rightarrow> nan \<or> l \<noteq> NaN \<and> r \<noteq> NaN
      | _ \<Rightarrow> True)"

lemma initial_terminal_ok: "terminal_ok nan createInitialTerminalState"
  by (simp add: terminal_ok_def createInitialTerminalState_def createPaneTerminalChrome_def chrome_ok_def
      refs_ok_def split_kept_def split_ok_def split_defs)

lemma terminal_ok_upd_chrome:
  assumes "terminal_ok nan s" and "chrome_ok nan (f (tm_pane s p))"
    and "\<And>i. ch_sessionId (f (tm_pane s p)) = Some i \<Longrightarrow> i \<in> session_ids s"
  shows "terminal_ok nan (upd_chrome p f s)"
  using assms by (auto simp: terminal_ok_def upd_chrome_def refs_ok_def session_ids_def)

lemma terminal_ok_active:
  "terminal_ok nan s \<Longrightarrow> i \<in> session_ids s \<Longrightarrow> terminal_ok nan (s\<lparr>tm_activeSessionId := Some i\<rparr>)"
  by (auto simp: terminal_ok_def refs_ok_def session_ids_def)

lemma session_ids_upd [simp]: "session_ids (upd_chrome p f s) = session_ids s"
  by (simp add: session_ids_def upd_chrome_def)

lemma map_session_ids: "(\<And>s. ts_id (f s) = ts_id s) \<Longrightarrow> session_ids (map_session i f s) = session_ids s"
proof -
  assume keep: "\<And>s. ts_id (f s) = ts_id s"
  have "map ts_id (tm_sessions (map_session i f s)) = map ts_id (tm_sessions s)"
    using keep by (simp add: map_session_def)
  then show ?thesis unfolding session_ids_def by (metis set_map)
qed

lemma map_session_ok: "(\<And>s. ts_id (f s) = ts_id s) \<Longrightarrow> terminal_ok nan s \<Longrightarrow> terminal_ok nan (map_session i f s)"
  using map_session_ids[of f i s] by (simp add: terminal_ok_def refs_ok_def) (simp add: map_session_def)

lemma chrome_okD:
  "terminal_ok nan s \<Longrightarrow> chrome_ok nan (tm_pane s p)"
  "terminal_ok nan s \<Longrightarrow> ch_sessionId (tm_pane s p) = Some i \<Longrightarrow> i \<in> session_ids s"
  by (auto simp: terminal_ok_def refs_ok_def)

lemma add_session_ok: "terminal_ok nan s \<Longrightarrow> terminal_ok nan (add_session s x b)"
  by (cases "ts_paneId x") (auto simp: add_session_def Let_def terminal_ok_def refs_ok_def session_ids_def chrome_ok_def)

lemma find_SomeD: "find P xs = Some x \<Longrightarrow> x \<in> set xs \<and> P x"
  by (metis find_Some_iff nth_mem)

lemma switch_session_ok: "terminal_ok nan s \<Longrightarrow> i \<in> session_ids s \<Longrightarrow> terminal_ok nan (switch_session s i)"
  by (auto simp: switch_session_def Let_def terminal_ok_def refs_ok_def session_ids_def chrome_ok_def
      dest!: find_SomeD split: option.split TerminalPaneId.split)

lemma clearPaneBinding_ok:
  assumes "terminal_ok nan s"
  shows "chrome_ok nan (clearPaneBinding (tm_pane s) i rest p)"
    and "ch_sessionId (clearPaneBinding (tm_pane s) i rest p) = Some j \<Longrightarrow>
      j \<in> ts_id ` set rest \<or> (j \<noteq> i \<and> j \<in> session_ids s)"
  using assms chrome_okD[OF assms, where p = p]
  by (auto simp: clearPaneBinding_def Let_def chrome_ok_def dest!: find_SomeD split: if_splits)

lemma close_session_ids: "session_ids (close_session s i) = session_ids s - {i}"
  by (auto simp: session_ids_def close_session_def Let_def)

lemma close_session_ok:
  assumes "terminal_ok nan s" shows "terminal_ok nan (close_session s i)"
proof -
  let ?rest = "filter (\<lambda>x. ts_id x \<noteq> i) (tm_sessions s)"
  have rest: "ts_id ` set ?rest = session_ids s - {i}" by (auto simp: session_ids_def)
  have pane: "tm_pane (close_session s i) = clearPaneBinding (tm_pane s) i ?rest"
    by (simp add: close_session_def Let_def)
  have act: "j \<in> session_ids s - {i}" if "tm_activeSessionId (close_session s i) = Some j" for j
  proof (cases "tm_activeSessionId s = Some i")
    case True
    let ?k = "case find_index (\<lambda>x. ts_id x = i) (tm_sessions s) of None \<Rightarrow> 0 | Some n \<Rightarrow> n - 1"
    from True that obtain x where x: "(if ?k < length ?rest then Some (?rest ! ?k) else first_opt ?rest) = Some x"
      and j: "j = ts_id x"
      by (simp add: close_session_def Let_def) blast
    have "x \<in> set ?rest"
    proof (cases "?k < length ?rest")
      case True
      then have "?rest ! ?k \<in> set ?rest" by (rule nth_mem)
      with x True show ?thesis by (simp only: if_True option.inject)
    next
      case False
      with x show ?thesis by (simp only: if_False) (rule first_opt_in)
    qed
    then have "\<exists>x \<in> set ?rest. ts_id x = j" using j by blast
    then show ?thesis using rest by auto
  next
    case False
    with that assms show ?thesis
      by (auto simp: close_session_def Let_def terminal_ok_def refs_ok_def)
  qed
  have ref: "j \<in> session_ids s - {i}" if "ch_sessionId (tm_pane (close_session s i) p) = Some j" for p j
    using clearPaneBinding_ok(2)[OF assms that[unfolded pane]] unfolding rest by blast
  have "chrome_ok nan (tm_pane (close_session s i) p)" for p
    unfolding pane by (rule clearPaneBinding_ok(1)[OF assms])
  with act ref show ?thesis unfolding terminal_ok_def refs_ok_def close_session_ids by blast
qed

lemma clamp_kept: "chrome_ok nan c \<Longrightarrow> nan \<or> r \<noteq> Some NaN \<Longrightarrow>
    split_kept nan (clampPaneSplit (case r of Some x \<Rightarrow> x | None \<Rightarrow> ch_splitRatio c))"
  by (rule clamp_split) (auto simp: chrome_ok_def dest: split_kept_NaN split: option.split)

lemma terminalReducer_ok:
  assumes "terminal_ok nan s" and "action_ok nan s a" shows "terminal_ok nan (terminalReducer s a)"
proof (cases a)
  case (SetSegment g)
  with assms show ?thesis by (simp add: terminalReducer_def terminal_ok_def refs_ok_def session_ids_def)
next
  case (OpenPaneTerminal p i r)
  let ?f = "\<lambda>c. c\<lparr>ch_open := True, ch_collapsed := False, ch_maximized := False, ch_sessionId := Some i,
      ch_splitRatio := clampPaneSplit (case r of Some r \<Rightarrow> r | None \<Rightarrow> ch_splitRatio c)\<rparr>"
  have "chrome_ok nan (?f (tm_pane s p))"
    using clamp_kept[OF chrome_okD(1)[OF assms(1)], of r p] assms(2) OpenPaneTerminal
    by (simp add: chrome_ok_def action_ok_def)
  then have "terminal_ok nan (upd_chrome p ?f s)"
    using assms OpenPaneTerminal by (intro terminal_ok_upd_chrome) (auto simp: action_ok_def)
  with assms OpenPaneTerminal show ?thesis
    by (auto simp: terminalReducer_def action_ok_def intro!: terminal_ok_active)
next
  case (HydratePaneTerminalPreferences l r)
  with assms show ?thesis
    by (auto simp: terminalReducer_def action_ok_def terminal_ok_def refs_ok_def session_ids_def chrome_ok_def
        clamp_split split: PanelId.split)
qed (use assms chrome_okD[OF assms(1)] in
      \<open>auto simp: terminalReducer_def action_ok_def add_session_ok switch_session_ok close_session_ok
         map_session_ok chrome_ok_def clamp_split intro!: terminal_ok_active terminal_ok_upd_chrome\<close>)

text \<open>The store with its callers' obligation is a reducer.\<close>

definition terminal_reduce :: "'p TerminalState \<Rightarrow> 'p TerminalAction \<Rightarrow> 'p TerminalState option" where
  "terminal_reduce s a = Some (if action_ok False s a then terminalReducer s a else s)"

interpretation terminal_store: reducer terminal_reduce "terminal_ok False"
  by unfold_locales (auto simp: terminal_reduce_def terminalReducer_ok)

section \<open>Properties\<close>

text \<open>The terminal chrome never contradicts itself. From the initial state on, through any
  actions that name existing sessions and numeric splits, no pane is collapsed and maximized
  at once, a pane is open exactly when it shows a session, every split lies between 0.15 and
  0.85, and neither a pane nor the rail refers to a session that is gone.\<close>

theorem terminal_chrome_consistent:
  "\<exists>s. run_actions terminal_reduce as createInitialTerminalState = Some s \<and> terminal_ok False s"
  by (rule terminal_store.run_total) (rule initial_terminal_ok)

text \<open>Closing a session removes it everywhere. Afterwards no session has its id, neither
  the active session nor a pane refers to it, all other sessions remain in order, and what
  was active stays active unless it was the closed one.\<close>

theorem close_session_removes:
  assumes "terminal_ok nan s"
  shows "tm_sessions (terminalReducer s (CloseSession i)) = filter (\<lambda>x. ts_id x \<noteq> i) (tm_sessions s) \<and>
    tm_activeSessionId (terminalReducer s (CloseSession i)) \<noteq> Some i \<and>
    (\<forall>p. ch_sessionId (tm_pane (terminalReducer s (CloseSession i)) p) \<noteq> Some i) \<and>
    (tm_activeSessionId s \<noteq> Some i \<longrightarrow>
       tm_activeSessionId (terminalReducer s (CloseSession i)) = tm_activeSessionId s)"
proof -
  have red: "terminalReducer s (CloseSession i) = close_session s i" by (simp add: terminalReducer_def)
  have "refs_ok (close_session s i)" using close_session_ok[OF assms] by (simp add: terminal_ok_def)
  then have refs: "tm_activeSessionId (close_session s i) \<noteq> Some i"
      "\<forall>p. ch_sessionId (tm_pane (close_session s i) p) \<noteq> Some i"
    unfolding refs_ok_def close_session_ids by blast+
  have "tm_sessions (close_session s i) = filter (\<lambda>x. ts_id x \<noteq> i) (tm_sessions s)"
    and "tm_activeSessionId s \<noteq> Some i \<longrightarrow> tm_activeSessionId (close_session s i) = tm_activeSessionId s"
    by (simp_all add: close_session_def Let_def)
  with refs show ?thesis unfolding red by blast
qed

definition sample_session :: "string \<Rightarrow> TerminalPaneId \<Rightarrow> unit TerminalSession" where
  "sample_session i p =
     \<lparr>ts_id = i, ts_uri = ''local:///d'', ts_label = ''d'', ts_status = TRunning, ts_exitCode = None,
      ts_paneId = p, ts_transport = None, ts_terminalProfileId = None, ts_terminalProfile = None\<rparr>"

theorem close_session_removes_witness:
  "tm_activeSessionId (terminalReducer (add_session (add_session createInitialTerminalState
      (sample_session ''a'' (InPane Left)) None) (sample_session ''b'' (InPane Left)) None)
      (CloseSession ''b'')) \<noteq> Some ''b''"
  using close_session_removes[of False "add_session (add_session createInitialTerminalState
      (sample_session ''a'' (InPane Left)) None) (sample_session ''b'' (InPane Left)) None" "''b''"]
  by (simp add: add_session_ok initial_terminal_ok)

text \<open>Clamping a split does not catch not-a-number. Every other number is brought into the
  bounds, a ratio within them is unchanged, but a split that is not a number is stored as
  such, and hydrating preferences can put it there.\<close>

theorem split_not_a_number_kept:
  "clampPaneSplit NaN = NaN \<and> (\<forall>r. r \<noteq> NaN \<longrightarrow> split_ok (clampPaneSplit r)) \<and>
   (\<forall>r. split_ok r \<longrightarrow> clampPaneSplit r = r) \<and>
   ch_splitRatio (tm_pane (terminalReducer s (HydratePaneTerminalPreferences NaN r)) Left) = NaN"
proof (intro conjI allI impI)
  show "ch_splitRatio (tm_pane (terminalReducer s (HydratePaneTerminalPreferences NaN r)) Left) = NaN"
    by (simp add: terminalReducer_def clamp_NaN)
qed (simp_all add: clamp_NaN clamp_ok clamp_id)

theorem split_not_a_number_kept_witness:
  "clampPaneSplit (Fin 2) = Fin (85 / 100) \<and>
   ch_splitRatio (tm_pane (terminalReducer (createInitialTerminalState :: unit TerminalState)
     (HydratePaneTerminalPreferences NaN (Fin 0))) Left) = NaN"
  using split_not_a_number_kept[of "createInitialTerminalState :: unit TerminalState" "Fin 0"]
  by (simp add: clampPaneSplit_def js_min_def js_max_def split_defs)

end
