(* ===== verification/Shell.thy ===== *)
theory Shell
  imports JsString
begin

text \<open>
  What the terminals send to a shell (\<open>terminal/shellEscape.ts\<close>): paths quoted for a POSIX
  shell, input as base64 of its UTF-8 bytes, and the control characters of key presses. The
  shell's own reading of a quoted word, the UTF-8 decoder and the base64 decoder are written
  here as specifications; the sources only produce such data.
\<close>

section \<open>Quoting a path\<close>

definition QUOTE :: char where "QUOTE = CHR 0x27"

definition BACKSLASH :: char where "BACKSLASH = CHR 0x5C"

definition shellEscapePosixPath :: "string \<Rightarrow> string" where
  "shellEscapePosixPath path =
     (if path = [] then [QUOTE, QUOTE]
      else [QUOTE] @
        concat (map (\<lambda>c. if c = QUOTE then [QUOTE, BACKSLASH, QUOTE, QUOTE] else [c]) path) @ [QUOTE])"

text \<open>A POSIX shell reading one word: outside quotes a backslash keeps the next character, a
  single quote opens a quotation in which every character stands for itself, and any
  character with a meaning of its own ends the word, which counts as a failure.\<close>

definition plain_char :: "char \<Rightarrow> bool" where
  "plain_char c \<longleftrightarrow> is_ascii_letter c \<or> is_digit c \<or> c \<in> set ''_-./:@%+,''"

fun sh_word :: "bool \<Rightarrow> string \<Rightarrow> string option" where
  "sh_word True [] = None"
| "sh_word True (c # cs) =
     (if c = QUOTE then sh_word False cs else map_option ((#) c) (sh_word True cs))"
| "sh_word False [] = Some []"
| "sh_word False [c] = (if plain_char c then Some [c] else None)"
| "sh_word False (c # d # ds) =
     (if c = QUOTE then sh_word True (d # ds)
      else if c = BACKSLASH then map_option ((#) d) (sh_word False ds)
      else if plain_char c then map_option ((#) c) (sh_word False (d # ds)) else None)"

lemma quote_facts [simp]:
  "BACKSLASH \<noteq> QUOTE" "QUOTE \<noteq> BACKSLASH" "\<not> plain_char QUOTE"
  by (simp_all add: QUOTE_def BACKSLASH_def plain_char_def is_ascii_letter_def is_ascii_upper_def
      is_ascii_lower_def is_digit_def code_def)

lemma sh_word_open: "xs \<noteq> [] \<Longrightarrow> sh_word False (QUOTE # xs) = sh_word True xs"
  by (cases xs) auto

lemma sh_word_quoted:
  "sh_word True (concat (map (\<lambda>c. if c = QUOTE then [QUOTE, BACKSLASH, QUOTE, QUOTE] else [c]) p) @ [QUOTE])
     = Some p"
  by (induction p) (auto simp: sh_word_open)

lemma sh_word_escaped: "sh_word False (shellEscapePosixPath p) = Some p"
proof (cases "p = []")
  case True
  then show ?thesis by (simp add: shellEscapePosixPath_def)
next
  case False
  let ?body = "concat (map (\<lambda>c. if c = QUOTE then [QUOTE, BACKSLASH, QUOTE, QUOTE] else [c]) p) @ [QUOTE]"
  have "?body \<noteq> []" by simp
  then obtain d ds where d: "?body = d # ds" by (cases ?body) auto
  then have "shellEscapePosixPath p = QUOTE # d # ds" using False by (simp add: shellEscapePosixPath_def)
  then have "sh_word False (shellEscapePosixPath p) = sh_word True ?body" by (simp add: d)
  then show ?thesis by (simp only: sh_word_quoted)
qed

section \<open>Input as bytes\<close>

text \<open>The code units of the model are below 256, so UTF-8 needs at most two bytes.\<close>

definition utf8 :: "string \<Rightarrow> nat list" where
  "utf8 s = concat (map (\<lambda>c. if code c < 128 then [code c]
                              else [192 + code c div 64, 128 + code c mod 64]) s)"

fun utf8_decode :: "nat list \<Rightarrow> nat list" where
  "utf8_decode [] = []"
| "utf8_decode [a] = [a]"
| "utf8_decode (a # b # bs) =
     (if a < 128 then a # utf8_decode (b # bs) else ((a mod 32) * 64 + b mod 64) # utf8_decode bs)"

definition base64_alphabet :: string where
  "base64_alphabet = ''ABCDEFGHIJKLMNOPQRSTUVWXYZabcdefghijklmnopqrstuvwxyz0123456789+/''"

definition b64_char :: "nat \<Rightarrow> char" where
  "b64_char n = base64_alphabet ! n"

fun btoa :: "nat list \<Rightarrow> string" where
  "btoa [] = []"
| "btoa [a] = [b64_char (a div 4), b64_char (a mod 4 * 16), CHR ''='', CHR ''='']"
| "btoa [a, b] = [b64_char (a div 4), b64_char (a mod 4 * 16 + b div 16), b64_char (b mod 16 * 4), CHR ''='']"
| "btoa (a # b # c # r) =
     [b64_char (a div 4), b64_char (a mod 4 * 16 + b div 16), b64_char (b mod 16 * 4 + c div 64),
      b64_char (c mod 64)] @ btoa r"

definition encodeTerminalInput :: "string \<Rightarrow> string" where
  "encodeTerminalInput s = btoa (utf8 s)"

text \<open>The decoder of the receiving side.\<close>

definition b64_value :: "char \<Rightarrow> nat" where
  "b64_value c = (case find_index (\<lambda>d. d = c) base64_alphabet of None \<Rightarrow> 0 | Some i \<Rightarrow> i)"

fun atob :: "string \<Rightarrow> nat list" where
  "atob (p # q # r # s # rest) =
     (let a = b64_value p * 4 + b64_value q div 16;
          b = b64_value q mod 16 * 16 + b64_value r div 4;
          c = b64_value r mod 4 * 64 + b64_value s
      in if r = CHR ''='' then [a] else if s = CHR ''='' then [a, b] else a # b # c # atob rest)"
| "atob _ = []"

lemma alphabet_facts: "length base64_alphabet = 64" "distinct base64_alphabet"
  "CHR ''='' \<notin> set base64_alphabet"
  by code_simp+

lemma find_index_distinct: "distinct xs \<Longrightarrow> i < length xs \<Longrightarrow> find_index (\<lambda>d. d = xs ! i) xs = Some i"
  by (induction xs arbitrary: i) (auto simp: nth_Cons' split: if_splits)

lemma b64_value_char [simp]: "n < 64 \<Longrightarrow> b64_value (b64_char n) = n"
  using find_index_distinct[OF alphabet_facts(2), of n] by (simp add: b64_value_def b64_char_def alphabet_facts(1))

lemma b64_char_pad [simp]: "n < 64 \<Longrightarrow> b64_char n \<noteq> CHR ''=''"
  unfolding b64_char_def by (metis alphabet_facts(1,3) nth_mem)

lemma byte_parts:
  fixes a b c :: nat
  assumes "a < 256" and "b < 256"
  shows "a div 4 < 64" "a mod 4 * 16 < 64" "a mod 4 * 16 + b div 16 < 64" "b mod 16 * 4 < 64"
    "b mod 16 * 4 + a div 64 < 64" "a mod 64 < 64"
    "(a mod 4 * 16 + b div 16) div 16 = a mod 4" "(a mod 4 * 16 + b div 16) mod 16 = b div 16"
    "(b mod 16 * 4 + a div 64) div 4 = b mod 16" "(b mod 16 * 4 + a div 64) mod 4 = a div 64"
proof -
  have b: "b div 16 < 16" "a div 64 < 4" using assms by (simp_all add: less_mult_imp_div_less)
  have m: "a mod 4 < 4" "b mod 16 < 16" by simp_all
  show "a div 4 < 64" "a mod 64 < 64" using assms(1) by (simp_all add: less_mult_imp_div_less)
  show "a mod 4 * 16 < 64" "a mod 4 * 16 + b div 16 < 64" using b m by linarith+
  show "b mod 16 * 4 < 64" "b mod 16 * 4 + a div 64 < 64" using b m by linarith+
  show "(a mod 4 * 16 + b div 16) div 16 = a mod 4" "(a mod 4 * 16 + b div 16) mod 16 = b div 16"
    "(b mod 16 * 4 + a div 64) div 4 = b mod 16" "(b mod 16 * 4 + a div 64) mod 4 = a div 64"
    using b by simp_all
qed

lemma atob_step:
  assumes "p < 64" and "q < 64"
  shows "atob [b64_char p, b64_char q, CHR ''='', CHR ''=''] = [p * 4 + q div 16]"
    and "r < 64 \<Longrightarrow> atob [b64_char p, b64_char q, b64_char r, CHR ''=''] =
      [p * 4 + q div 16, q mod 16 * 16 + r div 4]"
    and "r < 64 \<Longrightarrow> s < 64 \<Longrightarrow> atob (b64_char p # b64_char q # b64_char r # b64_char s # rest) =
      (p * 4 + q div 16) # (q mod 16 * 16 + r div 4) # (r mod 4 * 64 + s) # atob rest"
  using assms by (simp_all add: Let_def)

lemma atob_btoa: "list_all (\<lambda>n. n < 256) bs \<Longrightarrow> atob (btoa bs) = bs"
proof (induction bs rule: btoa.induct)
  case (2 a)
  then have a: "a < 256" by simp
  have "a mod 4 * 16 div 16 = a mod 4" by simp
  with a show ?case
    by (simp only: btoa.simps atob_step(1)[OF byte_parts(1,2)[OF a a]] div_mult_mod_eq)
next
  case (3 a b)
  then have ab: "a < 256" "b < 256" by simp_all
  have "b mod 16 * 4 div 4 = b mod 16" by simp
  then show ?case
    by (simp only: btoa.simps atob_step(2)[OF byte_parts(1,3)[OF ab] byte_parts(4)[OF ab]]
        byte_parts(7,8)[OF ab] div_mult_mod_eq)
next
  case (4 a b c r)
  then have ab: "a < 256" "b < 256" and cb: "c < 256" "b < 256" and IH: "atob (btoa r) = r" by simp_all
  show ?case
    by (simp only: btoa.simps append.simps
        atob_step(3)[OF byte_parts(1,3)[OF ab] byte_parts(5)[OF cb] byte_parts(6)[OF cb]]
        byte_parts(7,8)[OF ab] byte_parts(9,10)[OF cb] div_mult_mod_eq IH)
qed simp

lemma utf8_bytes: "list_all (\<lambda>n. n < 256) (utf8 s)"
proof (induction s)
  case (Cons c s)
  have "code c div 64 < 4" using code_less[of c] by (simp add: less_mult_imp_div_less)
  moreover have "code c mod 64 < 128" by (rule less_trans[of _ 64]) simp_all
  ultimately show ?case using Cons code_less[of c] by (simp add: utf8_def)
qed (simp add: utf8_def)

lemma utf8_decode_utf8: "utf8_decode (utf8 s) = map code s"
proof (induction s)
  case (Cons c s)
  show ?case
  proof (cases "code c < 128")
    case True
    then have "utf8 (c # s) = code c # utf8 s" by (simp add: utf8_def)
    with True Cons show ?thesis by (cases "utf8 s") auto
  next
    case False
    have "code c div 64 < 4" using code_less[of c] by (simp add: less_mult_imp_div_less)
    then have "(192 + code c div 64) mod 32 = code c div 64"
      using mod_mult_self3[of 6 32 "code c div 64"] by simp
    moreover have "utf8 (c # s) = (192 + code c div 64) # (128 + code c mod 64) # utf8 s"
      using False by (simp add: utf8_def)
    moreover have "(128 + code c mod 64) mod 64 = code c mod 64"
      using mod_mult_self3[of 2 64 "code c mod 64"] by simp
    ultimately show ?thesis using Cons False by simp
  qed
qed (simp add: utf8_def)

lemma decode_input: "utf8_decode (atob (encodeTerminalInput s)) = map code s"
  by (simp add: encodeTerminalInput_def atob_btoa[OF utf8_bytes] utf8_decode_utf8)

section \<open>Control characters of key presses\<close>

record KeyboardEvent =
  ke_type :: string
  ke_key :: string
  ke_code :: string
  ke_ctrlKey :: bool
  ke_altKey :: bool
  ke_metaKey :: bool
  ke_shiftKey :: bool

definition key_letter :: "string \<Rightarrow> char option" where
  "key_letter cd =
     (if length cd = 4 \<and> take 3 cd = ''Key'' \<and> is_ascii_upper (cd ! 3) then Some (cd ! 3) else None)"

definition terminalControlFromKeydown :: "KeyboardEvent \<Rightarrow> string option" where
  "terminalControlFromKeydown event =
     (let key = js_toLowerCase (ke_key event)
      in if ke_type event \<noteq> ''keydown'' then None
         else if ke_metaKey event \<and> \<not> ke_ctrlKey event then None
         else if ke_altKey event then None
         else if ke_key event = ''Backspace'' then Some [CHR 0x7F]
         else if ke_key event = ''Delete'' then Some (CHR 0x1B # ''[3~'')
         else if \<not> ke_ctrlKey event then None
         else if ke_key event = [CHR 0x03] then Some [CHR 0x03]
         else if ke_key event = [CHR 0x04] then Some [CHR 0x04]
         else if ke_key event = [CHR 0x1A] then Some [CHR 0x1A]
         else if length key = 1 \<and> is_ascii_lower (hd key)
         then Some [char_of (code (hd key) - 96)]
         else case key_letter (ke_code event) of
           Some l \<Rightarrow> Some [char_of (code l - 64)]
         | None \<Rightarrow>
             (if ke_key event = ''['' \<or> ke_code event = ''BracketLeft'' then Some [CHR 0x1B]
              else if ke_key event = [BACKSLASH] \<or> ke_code event = ''Backslash'' then Some [CHR 0x1C]
              else if ke_key event = '']'' \<or> ke_code event = ''BracketRight'' then Some [CHR 0x1D]
              else None))"

definition is_control :: "char \<Rightarrow> bool" where
  "is_control c \<longleftrightarrow> code c < 32 \<or> code c = 127"

lemma control_of_letter: "(96::nat) < n \<Longrightarrow> n \<le> 122 \<Longrightarrow> is_control (char_of (n - 96))"
  unfolding is_control_def code_def by (intro disjI1) simp

lemma control_of_upper: "(64::nat) < n \<Longrightarrow> n \<le> 90 \<Longrightarrow> is_control (char_of (n - 64))"
  unfolding is_control_def code_def by (intro disjI1) simp

section \<open>Properties\<close>

text \<open>C40: a quoted path is read back by a shell as exactly that path. Whatever characters the
  path has, quotes, blanks, dollar signs or line breaks, the escaped form is one word to a
  POSIX shell, and the word is the path.\<close>

theorem escaped_path_is_one_word: "sh_word False (shellEscapePosixPath p) = Some p"
  by (rule sh_word_escaped)

text \<open>Terminal input arrives as it was typed. Decoding the base64 text and then the UTF-8
  bytes gives the code points of the input.\<close>

theorem terminal_input_roundtrip: "utf8_decode (atob (encodeTerminalInput s)) = map code s"
  by (rule decode_input)

text \<open>A key press becomes a control sequence or nothing. What is sent begins with a control
  character, and a key with the command key alone, or with the alternate key, is never sent.\<close>

theorem key_sends_control:
  assumes "terminalControlFromKeydown e = Some s"
  shows "s \<noteq> [] \<and> is_control (hd s) \<and> (ke_metaKey e \<longrightarrow> ke_ctrlKey e) \<and> \<not> ke_altKey e"
proof -
  have lower: "is_control (char_of (code c - 96))" if "is_ascii_lower c" for c
    using that control_of_letter[of "code c"] by (simp add: is_ascii_lower_def)
  have upper: "is_control (char_of (code l - 64))" if "key_letter cd = Some l" for cd l
    using that control_of_upper[of "code l"] by (simp add: key_letter_def is_ascii_upper_def split: if_splits)
  have bytes: "is_control (CHR 0x03)" "is_control (CHR 0x04)" "is_control (CHR 0x1A)" "is_control (CHR 0x1B)"
    "is_control (CHR 0x1C)" "is_control (CHR 0x1D)" "is_control (CHR 0x7F)"
    by (simp_all add: is_control_def code_def)
  show ?thesis
    using assms unfolding terminalControlFromKeydown_def Let_def
    by (auto simp: bytes lower upper split: if_split_asm option.split_asm) (metis bytes list.sel(1))+
qed

theorem key_sends_control_witness:
  "terminalControlFromKeydown
     \<lparr>ke_type = ''keydown'', ke_key = ''C'', ke_code = ''KeyC'', ke_ctrlKey = True, ke_altKey = False,
      ke_metaKey = True, ke_shiftKey = False\<rparr> = Some [CHR 0x03] \<and> is_control (CHR 0x03)"
proof -
  have e: "terminalControlFromKeydown
     \<lparr>ke_type = ''keydown'', ke_key = ''C'', ke_code = ''KeyC'', ke_ctrlKey = True, ke_altKey = False,
      ke_metaKey = True, ke_shiftKey = False\<rparr> = Some [CHR 0x03]"
    by code_simp
  with key_sends_control[OF e] show ?thesis by simp
qed

end
