(* ===== verification/Jobs.thy ===== *)
theory Jobs
  imports PaneSort Reducer
begin

text \<open>
  Snapshots of running operations and how job events change them
  (\<open>dialogs/operationJobState.ts\<close>), their wording (\<open>jobs/jobCardUtils.ts\<close>) and the messages
  for errors. Times are strings that \<open>Date.parse\<close> reads; its answer is a parameter of the
  platform, and a time it cannot read compares as neither older nor newer.
\<close>

section \<open>Snapshots and events\<close>

datatype JobStatus = JQueued | JRunning | JPaused | JCancelled | JCompleted | JFailed

datatype FileOperationKind =
    OpCopy | OpMove | OpRename | OpBatchRename | OpDeleteToTrash | OpCreateDirectory | OpCreateFile
  | OpWriteTextFile | OpDeletePermanently | OpCreateArchive | OpExtractArchive | OpFolderSize
  | OpRecursiveSearch | OpContentSearch

record JobSnapshot =
  jb_jobId :: string
  jb_operationKind :: FileOperationKind
  jb_status :: JobStatus
  jb_currentItem :: "string option"
  jb_completedItems :: int
  jb_totalItems :: int
  jb_completedBytes :: int
  jb_totalBytes :: "int option"
  jb_errorCode :: "string option"
  jb_message :: "string option"
  jb_startedAt :: string
  jb_updatedAt :: string

record JobStartedEvent =
  jse_jobId :: string
  jse_operationKind :: FileOperationKind
  jse_totalItems :: int
  jse_totalBytes :: "int option"
  jse_startedAt :: string

record JobProgressEvent =
  jpe_jobId :: string
  jpe_operationKind :: FileOperationKind
  jpe_currentItem :: "string option"
  jpe_completedItems :: int
  jpe_totalItems :: int
  jpe_completedBytes :: int
  jpe_totalBytes :: "int option"
  jpe_updatedAt :: string

record JobCompletedEvent =
  jce_jobId :: string
  jce_operationKind :: FileOperationKind
  jce_completedItems :: int
  jce_completedBytes :: int
  jce_completedAt :: string

record JobFailedEvent =
  jfe_jobId :: string
  jfe_operationKind :: FileOperationKind
  jfe_errorCode :: string
  jfe_message :: string
  jfe_failedAt :: string

text \<open>The cancelled, paused and resumed events carry a time only.\<close>

record JobMarkEvent =
  jme_jobId :: string
  jme_operationKind :: FileOperationKind
  jme_at :: string

type_synonym jobs = "(string, JobSnapshot) obj"

section \<open>Merging\<close>

definition isTerminalStatus :: "JobStatus \<Rightarrow> bool" where
  "isTerminalStatus st \<longleftrightarrow> st = JCompleted \<or> st = JFailed \<or> st = JCancelled"

definition isOlder :: "Platform \<Rightarrow> string \<Rightarrow> JobSnapshot \<Rightarrow> bool" where
  "isOlder pf timestamp existing \<longleftrightarrow>
     (case (dateParse pf timestamp, dateParse pf (jb_updatedAt existing)) of
        (Some a, Some b) \<Rightarrow> a < b
      | _ \<Rightarrow> False)"

definition mergeJobSnapshot :: "Platform \<Rightarrow> jobs \<Rightarrow> JobSnapshot \<Rightarrow> JobSnapshot" where
  "mergeJobSnapshot pf current incoming =
     (case obj_get current (jb_jobId incoming) of
        None \<Rightarrow> incoming
      | Some existing \<Rightarrow>
          (if isTerminalStatus (jb_status existing) \<or> isOlder pf (jb_updatedAt incoming) existing
           then existing else incoming))"

definition snapshotFromStarted :: "JobStartedEvent \<Rightarrow> JobSnapshot" where
  "snapshotFromStarted e =
     \<lparr>jb_jobId = jse_jobId e, jb_operationKind = jse_operationKind e, jb_status = JRunning,
      jb_currentItem = None, jb_completedItems = 0, jb_totalItems = jse_totalItems e,
      jb_completedBytes = 0, jb_totalBytes = jse_totalBytes e, jb_errorCode = None,
      jb_message = None, jb_startedAt = jse_startedAt e, jb_updatedAt = jse_startedAt e\<rparr>"

text \<open>The snapshot of a job, or the one its event would have started it with.\<close>

definition existing_or_started ::
  "jobs \<Rightarrow> string \<Rightarrow> FileOperationKind \<Rightarrow> int \<Rightarrow> int option \<Rightarrow> string \<Rightarrow> JobSnapshot" where
  "existing_or_started current jobId kind items byteCount since =
     (case obj_get current jobId of
        Some existing \<Rightarrow> existing
      | None \<Rightarrow> snapshotFromStarted
          \<lparr>jse_jobId = jobId, jse_operationKind = kind, jse_totalItems = items,
           jse_totalBytes = byteCount, jse_startedAt = since\<rparr>)"

definition mergeProgress :: "Platform \<Rightarrow> jobs \<Rightarrow> JobProgressEvent \<Rightarrow> JobSnapshot" where
  "mergeProgress pf current e =
     (let existing = existing_or_started current (jpe_jobId e) (jpe_operationKind e)
            (jpe_totalItems e) (jpe_totalBytes e) (jpe_updatedAt e)
      in if isTerminalStatus (jb_status existing) \<or> isOlder pf (jpe_updatedAt e) existing then existing
         else existing\<lparr>jb_status := (if jb_status existing = JPaused then JPaused else JRunning),
                jb_currentItem := jpe_currentItem e,
                jb_completedItems := max (jb_completedItems existing) (jpe_completedItems e),
                jb_totalItems := max (jb_totalItems existing) (jpe_totalItems e),
                jb_completedBytes := max (jb_completedBytes existing) (jpe_completedBytes e),
                jb_totalBytes := jpe_totalBytes e,
                jb_updatedAt := jpe_updatedAt e\<rparr>)"

definition mergeCompleted :: "jobs \<Rightarrow> JobCompletedEvent \<Rightarrow> JobSnapshot" where
  "mergeCompleted current e =
     (let existing = existing_or_started current (jce_jobId e) (jce_operationKind e)
            (jce_completedItems e) (Some (jce_completedBytes e)) (jce_completedAt e)
      in if isTerminalStatus (jb_status existing) then existing
         else existing\<lparr>jb_status := JCompleted,
                jb_completedItems := max (jb_completedItems existing) (jce_completedItems e),
                jb_completedBytes := max (jb_completedBytes existing) (jce_completedBytes e),
                jb_updatedAt := jce_completedAt e\<rparr>)"

definition mergeFailed :: "jobs \<Rightarrow> JobFailedEvent \<Rightarrow> JobSnapshot" where
  "mergeFailed current e =
     (let existing = existing_or_started current (jfe_jobId e) (jfe_operationKind e) 0 (Some 0) (jfe_failedAt e)
      in if isTerminalStatus (jb_status existing) then existing
         else existing\<lparr>jb_status := JFailed, jb_errorCode := Some (jfe_errorCode e),
                jb_message := Some (jfe_message e), jb_updatedAt := jfe_failedAt e\<rparr>)"

definition mergeCancelled :: "jobs \<Rightarrow> JobMarkEvent \<Rightarrow> JobSnapshot" where
  "mergeCancelled current e =
     (let existing = existing_or_started current (jme_jobId e) (jme_operationKind e) 0 (Some 0) (jme_at e)
      in if isTerminalStatus (jb_status existing) then existing
         else existing\<lparr>jb_status := JCancelled, jb_updatedAt := jme_at e\<rparr>)"

definition mergePaused :: "Platform \<Rightarrow> jobs \<Rightarrow> JobMarkEvent \<Rightarrow> JobSnapshot" where
  "mergePaused pf current e =
     (let existing = existing_or_started current (jme_jobId e) (jme_operationKind e) 0 (Some 0) (jme_at e)
      in if isTerminalStatus (jb_status existing) \<or> isOlder pf (jme_at e) existing then existing
         else existing\<lparr>jb_status := JPaused, jb_updatedAt := jme_at e\<rparr>)"

definition mergeResumed :: "Platform \<Rightarrow> jobs \<Rightarrow> JobMarkEvent \<Rightarrow> JobSnapshot" where
  "mergeResumed pf current e =
     (let existing = existing_or_started current (jme_jobId e) (jme_operationKind e) 0 (Some 0) (jme_at e)
      in if isTerminalStatus (jb_status existing) \<or> isOlder pf (jme_at e) existing then existing
         else existing\<lparr>jb_status := JRunning, jb_updatedAt := jme_at e\<rparr>)"

text \<open>How the listeners store the merged snapshots (\<open>hooks/useJobEventListeners.ts\<close>).\<close>

datatype JobEvent =
    EvSnapshot JobSnapshot
  | EvStarted JobStartedEvent
  | EvProgress JobProgressEvent
  | EvCompleted JobCompletedEvent
  | EvFailed JobFailedEvent
  | EvCancelled JobMarkEvent
  | EvPaused JobMarkEvent
  | EvResumed JobMarkEvent

definition event_job :: "JobEvent \<Rightarrow> string" where
  "event_job ev =
     (case ev of EvSnapshot s \<Rightarrow> jb_jobId s | EvStarted e \<Rightarrow> jse_jobId e | EvProgress e \<Rightarrow> jpe_jobId e
      | EvCompleted e \<Rightarrow> jce_jobId e | EvFailed e \<Rightarrow> jfe_jobId e | EvCancelled e \<Rightarrow> jme_jobId e
      | EvPaused e \<Rightarrow> jme_jobId e | EvResumed e \<Rightarrow> jme_jobId e)"

definition merge_event :: "Platform \<Rightarrow> jobs \<Rightarrow> JobEvent \<Rightarrow> JobSnapshot" where
  "merge_event pf current ev =
     (case ev of
        EvSnapshot s \<Rightarrow> mergeJobSnapshot pf current s
      | EvStarted e \<Rightarrow> mergeJobSnapshot pf current (snapshotFromStarted e)
      | EvProgress e \<Rightarrow> mergeProgress pf current e
      | EvCompleted e \<Rightarrow> mergeCompleted current e
      | EvFailed e \<Rightarrow> mergeFailed current e
      | EvCancelled e \<Rightarrow> mergeCancelled current e
      | EvPaused e \<Rightarrow> mergePaused pf current e
      | EvResumed e \<Rightarrow> mergeResumed pf current e)"

definition remember :: "Platform \<Rightarrow> jobs \<Rightarrow> JobEvent \<Rightarrow> jobs" where
  "remember pf current ev = obj_set (event_job ev) (merge_event pf current ev) current"

section \<open>Wording\<close>

definition operationVerb :: "FileOperationKind \<Rightarrow> string" where
  "operationVerb kind =
     (case kind of
        OpCopy \<Rightarrow> ''Copying'' | OpMove \<Rightarrow> ''Moving'' | OpDeleteToTrash \<Rightarrow> ''Moving to Trash''
      | OpRename \<Rightarrow> ''Renaming'' | OpBatchRename \<Rightarrow> ''Renaming'' | OpWriteTextFile \<Rightarrow> ''Saving''
      | OpFolderSize \<Rightarrow> ''Calculating size'' | OpRecursiveSearch \<Rightarrow> ''Searching''
      | OpContentSearch \<Rightarrow> ''Searching contents'' | _ \<Rightarrow> ''Processing'')"

definition operationPastTense :: "FileOperationKind \<Rightarrow> string" where
  "operationPastTense kind =
     (case kind of
        OpCopy \<Rightarrow> ''Copied'' | OpMove \<Rightarrow> ''Moved'' | OpDeleteToTrash \<Rightarrow> ''Moved to Trash''
      | OpRename \<Rightarrow> ''Renamed'' | OpBatchRename \<Rightarrow> ''Renamed'' | OpWriteTextFile \<Rightarrow> ''Saved''
      | OpFolderSize \<Rightarrow> ''Calculated size'' | OpRecursiveSearch \<Rightarrow> ''Searched''
      | OpContentSearch \<Rightarrow> ''Searched contents'' | _ \<Rightarrow> ''Completed'')"

definition job_basename :: "string \<Rightarrow> string" where
  "job_basename path =
     (let normalized = strip_slashes path
      in case js_lastIndexOf (CHR ''/'') normalized of
           Some index \<Rightarrow> drop (index + 1) normalized | None \<Rightarrow> normalized)"

definition jobTitle :: "JobSnapshot \<Rightarrow> string" where
  "jobTitle job =
     (let verb = (if isTerminalStatus (jb_status job) then operationPastTense (jb_operationKind job)
                  else operationVerb (jb_operationKind job))
      in if jb_totalItems job > 1 then verb @ '' '' @ int_str (jb_totalItems job) @ '' items''
         else case jb_currentItem job of
           Some (c # cs) \<Rightarrow> verb @ '' '' @ job_basename (c # cs)
         | _ \<Rightarrow> verb)"

definition joinLocalUri :: "string \<Rightarrow> string \<Rightarrow> string" where
  "joinLocalUri parent name = strip_one_slash parent @ ''/'' @ name"

definition isValidName :: "string \<Rightarrow> bool" where
  "isValidName name \<longleftrightarrow>
     js_trim name \<noteq> [] \<and> \<not> list_ex (\<lambda>c. c = CHR ''/'' \<or> code c = 92) name \<and>
     \<not> list_ex (\<lambda>c. code c = 0) name"

definition operation_messages :: "(string, string) obj" where
  "operation_messages =
     [(''permission_denied'', ''Permission denied for this operation.''),
      (''not_found'', ''The selected file or folder no longer exists.''),
      (''destination_missing'', ''The destination folder no longer exists.''),
      (''destination_conflict'', ''A destination item already exists.''),
      (''invalid_name'', ''Enter a valid name without path separators.''),
      (''unsupported_symlink'', ''Symlink file operations are not supported in this MVP.''),
      (''unsupported_trash'', ''Move to Trash is not supported on this platform.''),
      (''cancelled'', ''Operation cancelled.''),
      (''interrupted'', ''Operation interrupted by app shutdown.''),
      (''timeout'', ''Directory listing timed out.''),
      (''cloud_unavailable'',
        ''Couldn'' @ [CHR 0x27] @ ''t download this file from its cloud provider. Make sure the cloud storage app (OneDrive, iCloud, ...) is running and online, then try again.''),
      (''connection_required'', ''Connect to this server before browsing remote files.''),
      (''authentication_failed'', ''Authentication failed. Edit the server credentials and try again.''),
      (''connection_lost'', ''The connection was lost. Reconnect from the Network section.''),
      (''network_error'', ''A network error occurred.''),
      (''unsupported_provider'',
        ''This action isn'' @ [CHR 0x27] @ ''t available for files on this kind of location yet.'')]"

definition operationErrorMessage :: "string \<Rightarrow> string \<Rightarrow> string" where
  "operationErrorMessage err fallback =
     (case obj_get operation_messages err of Some m \<Rightarrow> m | None \<Rightarrow> fallback)"

definition operationWarningMessage :: "string \<Rightarrow> string \<Rightarrow> string" where
  "operationWarningMessage warning fallback =
     (if warning = ''metadata_failed''
      then ''Some items could not be inspected and were skipped during planning.'' else fallback)"

section \<open>Facts\<close>

lemma existing_or_started_Some [simp]:
  "obj_get current j = Some s \<Longrightarrow> existing_or_started current j k i b a = s"
  by (simp add: existing_or_started_def)

text \<open>Every merge keeps a terminal snapshot.\<close>

lemma merge_terminal:
  "obj_get current (event_job ev) = Some s \<Longrightarrow> isTerminalStatus (jb_status s) \<Longrightarrow> merge_event pf current ev = s"
  by (cases ev) (auto simp: merge_event_def event_job_def mergeJobSnapshot_def snapshotFromStarted_def
      mergeProgress_def mergeCompleted_def mergeFailed_def mergeCancelled_def mergePaused_def
      mergeResumed_def Let_def)

text \<open>Snapshots are stored under their own id.\<close>

definition jobs_keyed :: "jobs \<Rightarrow> bool" where
  "jobs_keyed js \<longleftrightarrow> list_all (\<lambda>(k, s). jb_jobId s = k) js"

lemma existing_id: "jobs_keyed js \<Longrightarrow> jb_jobId (existing_or_started js j k i b a) = j"
  by (auto simp: existing_or_started_def snapshotFromStarted_def jobs_keyed_def list_all_iff
      dest!: map_of_SomeD split: option.split)

lemma merge_event_id: "jobs_keyed js \<Longrightarrow> jb_jobId (merge_event pf js ev) = event_job ev"
  by (cases ev) (auto simp: merge_event_def event_job_def mergeJobSnapshot_def snapshotFromStarted_def
      mergeProgress_def mergeCompleted_def mergeFailed_def mergeCancelled_def mergePaused_def
      mergeResumed_def Let_def existing_id jobs_keyed_def list_all_iff dest!: map_of_SomeD split: option.split)

lemma remember_keyed: "jobs_keyed js \<Longrightarrow> jobs_keyed (remember pf js ev)"
  using merge_event_id[of js pf ev] by (simp add: remember_def jobs_keyed_def list_all_obj_set)

text \<open>Jobs are never forgotten and an ended one never changes.\<close>

definition jobs_below :: "jobs \<Rightarrow> jobs \<Rightarrow> bool" where
  "jobs_below js js' \<longleftrightarrow>
     (\<forall>j s. obj_get js j = Some s \<longrightarrow>
        (\<exists>s'. obj_get js' j = Some s' \<and> (isTerminalStatus (jb_status s) \<longrightarrow> s' = s)))"

definition jobs_reduce :: "Platform \<Rightarrow> jobs \<Rightarrow> JobEvent \<Rightarrow> jobs option" where
  "jobs_reduce pf js ev = Some (remember pf js ev)"

interpretation job_store: monotone_reducer "jobs_reduce pf" jobs_keyed jobs_below for pf
proof
  fix js js' js'' :: jobs and ev
  show "jobs_keyed js \<Longrightarrow> \<exists>js'. jobs_reduce pf js ev = Some js' \<and> jobs_keyed js'"
    by (simp add: jobs_reduce_def remember_keyed)
  show "jobs_below js js" by (simp add: jobs_below_def)
  show "jobs_below js js' \<Longrightarrow> jobs_below js' js'' \<Longrightarrow> jobs_below js js''"
    unfolding jobs_below_def by metis
  show "jobs_keyed js \<Longrightarrow> jobs_reduce pf js ev = Some js' \<Longrightarrow> jobs_below js js'"
    using merge_terminal[of js ev _ pf] by (auto simp: jobs_reduce_def jobs_below_def remember_def)
qed

text \<open>Progress, in items and bytes.\<close>

definition progress_le :: "JobSnapshot \<Rightarrow> JobSnapshot \<Rightarrow> bool" where
  "progress_le s t \<longleftrightarrow>
     jb_completedItems s \<le> jb_completedItems t \<and> jb_totalItems s \<le> jb_totalItems t \<and>
     jb_completedBytes s \<le> jb_completedBytes t"

definition is_progress_event :: "JobEvent \<Rightarrow> bool" where
  "is_progress_event ev \<longleftrightarrow> (case ev of EvSnapshot _ \<Rightarrow> False | EvStarted _ \<Rightarrow> False | _ \<Rightarrow> True)"

lemma merge_progress_le:
  "obj_get js (event_job ev) = Some s \<Longrightarrow> is_progress_event ev \<Longrightarrow> progress_le s (merge_event pf js ev)"
  by (cases ev) (auto simp: is_progress_event_def merge_event_def event_job_def progress_le_def
      mergeProgress_def mergeCompleted_def mergeFailed_def mergeCancelled_def mergePaused_def
      mergeResumed_def Let_def)

lemma run_remember: "run_actions (jobs_reduce pf) evs js = Some (fold (\<lambda>ev js. remember pf js ev) evs js)"
  by (induction evs arbitrary: js) (simp_all add: jobs_reduce_def)

section \<open>Properties\<close>

text \<open>C39: a job that has ended stays ended. Whatever events and snapshots arrive afterwards, for
  this job or others, in whatever order and with whatever times, its snapshot is never
  changed or lost.\<close>

theorem ended_job_final:
  assumes "jobs_keyed js" and "obj_get js j = Some s" and "isTerminalStatus (jb_status s)"
  shows "obj_get (fold (\<lambda>ev js. remember pf js ev) evs js) j = Some s"
  using job_store.run_below[OF assms(1) run_remember] assms(2,3)
  unfolding jobs_below_def by blast

definition sample_mark :: "string \<Rightarrow> JobMarkEvent" where
  "sample_mark t = \<lparr>jme_jobId = ''j'', jme_operationKind = OpCopy, jme_at = t\<rparr>"

theorem ended_job_final_witness:
  "map_option jb_status (obj_get (fold (\<lambda>ev js. remember ordinal_platform js ev)
     [EvResumed (sample_mark ''9''), EvPaused (sample_mark ''9'')]
     (remember ordinal_platform [] (EvCancelled (sample_mark ''1'')))) ''j'') = Some JCancelled"
proof -
  let ?js = "remember ordinal_platform [] (EvCancelled (sample_mark ''1''))"
  let ?s = "merge_event ordinal_platform [] (EvCancelled (sample_mark ''1''))"
  have k: "jobs_keyed ?js" by (rule remember_keyed) (simp add: jobs_keyed_def)
  have s: "obj_get ?js ''j'' = Some ?s" by (simp add: remember_def event_job_def sample_mark_def)
  have t: "jb_status ?s = JCancelled"
    by (simp add: merge_event_def mergeCancelled_def Let_def existing_or_started_def snapshotFromStarted_def
        isTerminalStatus_def)
  then have "isTerminalStatus (jb_status ?s)" by (simp add: isTerminalStatus_def)
  from ended_job_final[OF k s this] t show ?thesis by (simp only: option.map)
qed

text \<open>Reported progress never goes back. Progress, pause, resume and end events of any jobs,
  late ones included, never lower the completed items, the total items or the completed
  bytes of a job that is known.\<close>

theorem progress_monotone:
  assumes "obj_get js j = Some s" and "list_all is_progress_event evs"
  shows "\<exists>s'. obj_get (fold (\<lambda>ev js. remember pf js ev) evs js) j = Some s' \<and> progress_le s s'"
  using assms
proof (induction evs arbitrary: js s)
  case Nil
  then show ?case by (simp add: progress_le_def)
next
  case (Cons ev evs)
  obtain s1 where s1: "obj_get (remember pf js ev) j = Some s1" "progress_le s s1"
  proof (cases "event_job ev = j")
    case True
    with Cons.prems merge_progress_le[of js ev s pf] that show ?thesis by (auto simp: remember_def)
  next
    case False
    with Cons.prems that show ?thesis by (auto simp: remember_def progress_le_def)
  qed
  from Cons.IH[OF s1(1)] Cons.prems(2) s1(2) show ?case by (auto simp: progress_le_def)
qed

theorem progress_monotone_witness:
  "\<exists>s'. obj_get (fold (\<lambda>ev js. remember ordinal_platform js ev) [EvPaused (sample_mark ''5'')]
     (remember ordinal_platform [] (EvResumed (sample_mark ''1'')))) ''j'' = Some s' \<and>
     progress_le (merge_event ordinal_platform [] (EvResumed (sample_mark ''1''))) s'"
  by (rule progress_monotone) (simp_all add: remember_def event_job_def sample_mark_def is_progress_event_def)

end
