(* ===== verification/UriFacts.thy ===== *)
theory UriFacts
  imports Uri
begin

text \<open>
  What the URI functions of \<open>Uri\<close> do to well-formed URIs: the scheme, profile and path of a
  remote URI, the parts of a network URI, the server and share of a UNC path, and the size
  that every step to the parent lowers.
\<close>

section \<open>Splitting at the scheme\<close>

lemma js_split_hd: "hd (js_split c s) = takeWhile (\<lambda>x. x \<noteq> c) s"
  by (induction s) (auto split: list.splits)

lemma strip_prefix_append [simp]: "strip_prefix p (p @ s) = s"
  by (simp add: strip_prefix_def)

lemma length_strip_prefix: "length (strip_prefix p s) \<le> length s"
  by (simp add: strip_prefix_def)

lemma js_startsWith_Cons [simp]:
  "js_startsWith (x # s) (y # p) \<longleftrightarrow> x = y \<and> js_startsWith s p"
  "js_startsWith [] (y # p) \<longleftrightarrow> False"
  by (simp_all add: js_startsWith_def)

lemma scheme_local [simp]: "uriScheme (''local://'' @ r) = Some ''local''"
  and scheme_network [simp]: "uriScheme (''network://'' @ r) = Some ''network''"
  and scheme_remote: "s \<in> set REMOTE_URI_SCHEMES \<Longrightarrow> uriScheme (s @ ''://'' @ r) = Some s"
  and after_remote: "s \<in> set REMOTE_URI_SCHEMES \<Longrightarrow> uri_after_scheme (s @ ''://'' @ r) = r"
  and body_remote: "s \<in> set REMOTE_URI_SCHEMES \<Longrightarrow> uri_body1 (s @ ''://'' @ r) =
      Some (case js_indexOf ''://'' r of None \<Rightarrow> r | Some j \<Rightarrow> take j r)"
  by (auto simp: uriScheme_def uri_after_scheme_def uri_body1_def REMOTE_URI_SCHEMES_def)

lemma remote_iff: "isRemoteUri u \<longleftrightarrow> (\<exists>s \<in> set REMOTE_URI_SCHEMES. \<exists>r. u = s @ ''://'' @ r)"
proof
  assume "isRemoteUri u"
  then obtain i where i: "js_indexOf ''://'' u = Some i" "take i u \<in> set REMOTE_URI_SCHEMES"
    by (auto simp: isRemoteUri_def uriScheme_def List.member_iff split: option.splits if_splits)
  from js_indexOf_Some[OF i(1)] i(2) show "\<exists>s \<in> set REMOTE_URI_SCHEMES. \<exists>r. u = s @ ''://'' @ r"
    by metis
next
  assume "\<exists>s \<in> set REMOTE_URI_SCHEMES. \<exists>r. u = s @ ''://'' @ r"
  then obtain s r where s: "s \<in> set REMOTE_URI_SCHEMES" "u = s @ ''://'' @ r" by blast
  show "isRemoteUri u"
    unfolding isRemoteUri_def s(2) scheme_remote[OF s(1)] option.case List.member_iff by (rule s(1))
qed

lemma local_not_remote [simp]: "\<not> isRemoteUri (''local://'' @ r)"
  unfolding isRemoteUri_def scheme_local by (simp add: REMOTE_URI_SCHEMES_def)

lemma local_not_network [simp]: "\<not> isNetworkUri (''local://'' @ r)"
  unfolding isNetworkUri_def scheme_local by simp

lemma network_iff: "isNetworkUri u \<longleftrightarrow> (\<exists>r. u = ''network:///'' @ r)"
proof
  assume "isNetworkUri u"
  then show "\<exists>r. u = ''network:///'' @ r" by (auto simp: isNetworkUri_def js_startsWith_iff)
next
  assume "\<exists>r. u = ''network:///'' @ r"
  then obtain r where "u = ''network:///'' @ r" ..
  then show "isNetworkUri u"
    using scheme_network[of "''/'' @ r"] by (simp add: isNetworkUri_def)
qed

lemma remote_not_network: "isRemoteUri u \<Longrightarrow> \<not> isNetworkUri u"
  by (auto simp: isRemoteUri_def isNetworkUri_def REMOTE_URI_SCHEMES_def split: option.splits)

lemma remote_not_local: "isRemoteUri u \<Longrightarrow> strip_prefix ''local://'' u = u"
  by (auto simp: remote_iff REMOTE_URI_SCHEMES_def strip_prefix_def)

lemma network_not_local: "isNetworkUri u \<Longrightarrow> strip_prefix ''local://'' u = u"
  by (auto simp: network_iff strip_prefix_def)

lemmas local_uri_simps [simp] = scheme_local[simplified] local_not_remote[simplified]
  local_not_network[simplified] strip_prefix_append[of "''local://''", simplified]

section \<open>Remote URIs\<close>

text \<open>A remote URI is its scheme, its profile and what follows the profile; that part starts
  with a slash or with a second scheme separator.\<close>

lemma remote_parts:
  assumes "isRemoteUri u" and "profileIdFromRemoteUri u = Some pid"
  obtains s q where "s \<in> set REMOTE_URI_SCHEMES" and "u = s @ ''://'' @ pid @ q" and "pid \<noteq> []"
    and "CHR ''/'' \<notin> set pid" and "uriScheme u = Some s"
    and "q = [] \<or> js_startsWith q ''/'' \<or> js_startsWith q ''://''"
    and "remotePathFromUri u =
      Some (if q = [] then ''/'' else if js_startsWith q ''/'' then q else ''/'' @ q)"
proof -
  from assms(1) obtain s r where s: "s \<in> set REMOTE_URI_SCHEMES" "u = s @ ''://'' @ r"
    by (auto simp: remote_iff)
  define body where "body = (case js_indexOf ''://'' r of None \<Rightarrow> r | Some j \<Rightarrow> take j r)"
  have pid: "pid = takeWhile (\<lambda>x. x \<noteq> CHR ''/'') body" "pid \<noteq> []"
    using assms(2) unfolding profileIdFromRemoteUri_def s(2) body_remote[OF s(1)]
    by (auto simp: js_split_hd body_def[symmetric] Let_def split: if_splits)
  obtain b where b: "r = body @ b" "b = [] \<or> js_startsWith b ''://''"
  proof (cases "js_indexOf ''://'' r")
    case None
    with that[of "[]"] show thesis by (simp add: body_def)
  next
    case (Some j)
    from js_indexOf_Some[OF Some] obtain t where "r = take j r @ ''://'' @ t" by blast
    with Some that[of "''://'' @ t"] show thesis by (simp add: body_def)
  qed
  define q where "q = dropWhile (\<lambda>x. x \<noteq> CHR ''/'') body @ b"
  have r: "r = pid @ q" using pid(1) b(1) by (simp add: q_def)
  have q: "q = [] \<or> js_startsWith q ''/'' \<or> js_startsWith q ''://''"
  proof (cases "dropWhile (\<lambda>x. x \<noteq> CHR ''/'') body")
    case Nil
    show ?thesis using b(2) unfolding q_def Nil by auto
  next
    case (Cons c cs)
    then have "c = CHR ''/''" by (metis (full_types) hd_dropWhile list.distinct(1) list.sel(1))
    then show ?thesis unfolding q_def Cons by simp
  qed
  have "uri_after_scheme u = pid @ q" unfolding s(2) after_remote[OF s(1)] by (rule r)
  then have path: "remotePathFromUri u =
      Some (if q = [] then ''/'' else if js_startsWith q ''/'' then q else ''/'' @ q)"
    using assms unfolding remotePathFromUri_def Let_def by simp
  have u: "u = s @ ''://'' @ pid @ q" using s(2) r by simp
  have "CHR ''/'' \<notin> set pid" unfolding pid(1) by (auto dest: set_takeWhileD)
  then show thesis by (rule that[OF s(1) u pid(2) _ _ q path]) (simp only: s scheme_remote)
qed

lemma strip_slashes_root [simp]: "strip_slashes [] = []" "strip_slashes ''/'' = []"
  by (simp_all add: strip_slashes_def)

text \<open>The path that \<open>buildRemoteUri\<close> puts behind the profile.\<close>

definition remote_path :: "string \<Rightarrow> string" where
  "remote_path path =
     (let n = strip_slashes path
      in if n = [] then ''/'' else if js_startsWith n ''/'' then n else ''/'' @ n)"

lemma buildRemoteUri_path: "buildRemoteUri scheme pid path = scheme @ ''://'' @ pid @ remote_path path"
proof -
  consider "path = []" | "path = ''/''" | "path \<noteq> []" "path \<noteq> ''/''" by blast
  then show ?thesis
  proof cases
    case 3
    then show ?thesis by (cases "strip_slashes path") (auto simp: buildRemoteUri_def remote_path_def Let_def)
  qed (simp_all add: buildRemoteUri_def remote_path_def Let_def)
qed

lemma remote_path_slash [simp]: "js_startsWith (remote_path path) ''/''" "remote_path path \<noteq> []"
  by (auto simp: remote_path_def Let_def js_startsWith_iff)

lemma remote_path_idem [simp]: "remote_path (remote_path path) = remote_path path"
proof (cases "strip_slashes path = []")
  case False
  then have "last (strip_slashes path) \<noteq> CHR ''/''" using strip_slashes_last by blast
  with False have "strip_slashes (remote_path path) = remote_path path"
    by (intro strip_slashes_id) (auto simp: remote_path_def Let_def)
  then show ?thesis using False by (auto simp: remote_path_def Let_def)
qed (simp add: remote_path_def)

lemma length_remote_path: "length (remote_path (take i (CHR ''/'' # p))) \<le> max 1 i"
proof -
  let ?t = "take i (CHR ''/'' # p)"
  obtain n where n: "?t = strip_slashes ?t @ replicate n (CHR ''/'')"
    using strip_slashes_prefix by blast
  have l: "length (strip_slashes ?t) \<le> i"
    using length_strip_slashes[of ?t] by simp
  have "js_startsWith (strip_slashes ?t) ''/''" if "strip_slashes ?t \<noteq> []"
  proof -
    from that obtain c cs where c: "strip_slashes ?t = c # cs" by (cases "strip_slashes ?t") auto
    with n have "hd ?t = c" by (metis append_Cons list.sel(1))
    with n c show ?thesis by (cases i) auto
  qed
  with l show ?thesis
    by (cases "strip_slashes ?t = []") (simp_all only: remote_path_def Let_def if_True if_False, auto)
qed


section \<open>Network URIs\<close>

lemma networkUriFromParts_eq: "networkUriFromParts ps = ''network:///'' @ js_join ''/'' ps"
  by (simp add: networkUriFromParts_def)

lemma networkPathParts_from: "networkPathParts (''network:///'' @ r) = nonempty_parts (js_split (CHR ''/'') r)"
  by (simp add: networkPathParts_def strip_prefix_def js_startsWith_def nonempty_parts_def)

lemma network_roundtrip:
  assumes "[] \<notin> set ps" and "\<forall>p \<in> set ps. CHR ''/'' \<notin> set p"
  shows "networkPathParts (networkUriFromParts ps) = ps"
proof (cases "ps = []")
  case False
  then have "js_split (CHR ''/'') (js_join ''/'' ps) = ps" using assms(2) by (rule js_split_join)
  then show ?thesis
    unfolding networkUriFromParts_eq networkPathParts_from by (simp add: nonempty_parts_id assms(1))
qed (simp add: networkPathParts_from[of "[]", simplified] networkUriFromParts_def nonempty_parts_def)

lemma networkUri_is_network [simp]: "isNetworkUri (networkUriFromParts ps)"
  unfolding networkUriFromParts_eq network_iff by blast

lemma networkPathParts_ok:
  "p \<in> set (networkPathParts u) \<Longrightarrow> p \<noteq> [] \<and> CHR ''/'' \<notin> set p"
  unfolding networkPathParts_def nonempty_parts_in by (blast dest: js_split_no_sep)

lemma length_join_parts: "length (js_join ''/'' (nonempty_parts ps)) \<le> length (js_join ''/'' ps)"
  by (induction ps) (auto simp: nonempty_parts_def)

lemma length_join_butlast: "ps \<noteq> [] \<Longrightarrow> last ps \<noteq> [] \<Longrightarrow> length (js_join [c] (butlast ps)) < length (js_join [c] ps)"
  by (induction ps) auto

section \<open>Going up\<close>

text \<open>The size that every step to the parent lowers.\<close>

definition uri_size :: "string \<Rightarrow> nat" where
  "uri_size uri = length (strip_prefix ''local://'' uri)"

lemma uri_size_local [simp]: "uri_size (''local://'' @ p) = length p"
  by (simp add: uri_size_def)

lemma uri_size_le: "uri_size u \<le> length u"
  by (simp add: uri_size_def length_strip_prefix)

lemma parent_network_size:
  assumes "isNetworkUri u" and "parentUriFromUri u = Some v"
  shows "uri_size v < uri_size u \<and> v \<noteq> []"
proof -
  let ?ps = "networkPathParts u"
  from assms have ne: "?ps \<noteq> []" and v: "v = networkUriFromParts (butlast ?ps)"
    by (auto simp: parentUriFromUri_def networkUriFromParts_def Let_def length_Suc_conv split: if_splits)
  have "last ?ps \<noteq> []" using networkPathParts_ok[OF last_in_set[OF ne]] by blast
  from assms(1) obtain r where r: "u = ''network:///'' @ r" by (auto simp: network_iff)
  have "length (js_join ''/'' (butlast ?ps)) < length (js_join ''/'' ?ps)"
    by (rule length_join_butlast[OF ne \<open>last ?ps \<noteq> []\<close>])
  also have "\<dots> \<le> length r"
    using length_join_parts[of "js_split (CHR ''/'') r"] by (simp add: r networkPathParts_from[simplified])
  finally show ?thesis
    unfolding uri_size_def network_not_local[OF assms(1)] v
      network_not_local[OF networkUri_is_network] by (simp add: networkUriFromParts_eq r)
qed

lemma parent_remote_eq:
  assumes "isRemoteUri u" and "profileIdFromRemoteUri u = Some pid" and "uriScheme u = Some s"
    and "remotePathFromUri u = Some path" and "js_startsWith path ''/''"
  shows "parentUriFromUri u =
    (if strip_slashes path = [] \<or> strip_slashes path = ''/'' then None
     else Some (buildRemoteUri s pid (take (the (js_lastIndexOf (CHR ''/'') (strip_slashes path)))
                  (strip_slashes path))))"
proof (cases "strip_slashes path = []")
  case False
  have "js_startsWith (strip_slashes path) ''/''"
  proof -
    from False obtain c cs where c: "strip_slashes path = c # cs" by (cases "strip_slashes path") auto
    from strip_slashes_prefix[of path] c assms(5) show ?thesis by auto
  qed
  then have "CHR ''/'' \<in> set (strip_slashes path)" by (auto simp: js_startsWith_iff)
  then obtain i where i: "js_lastIndexOf (CHR ''/'') (strip_slashes path) = Some i"
    by (metis js_lastIndexOf_None not_None_eq)
  have root: "buildRemoteUri s pid ''/'' = buildRemoteUri s pid (take 0 (strip_slashes path))"
    by (simp add: buildRemoteUri_def)
  show ?thesis
    using False assms(1-4) i remote_not_network[OF assms(1)]
    unfolding parentUriFromUri_def Let_def by (cases i) (simp_all add: root)
qed (use assms remote_not_network[OF assms(1)] in \<open>simp add: parentUriFromUri_def Let_def\<close>)

lemma parent_remote_size:
  assumes "isRemoteUri u" and "parentUriFromUri u = Some v"
  shows "uri_size v < uri_size u \<and> v \<noteq> []"
proof -
  obtain pid where pid: "profileIdFromRemoteUri u = Some pid"
    using assms remote_not_network[OF assms(1)]
    by (cases "profileIdFromRemoteUri u") (auto simp: parentUriFromUri_def split: option.splits)
  from remote_parts[OF assms(1) pid] obtain s q where
    s: "s \<in> set REMOTE_URI_SCHEMES" "u = s @ ''://'' @ pid @ q" "uriScheme u = Some s"
    and q: "q = [] \<or> js_startsWith q ''/'' \<or> js_startsWith q ''://''"
    and path: "remotePathFromUri u =
      Some (if q = [] then ''/'' else if js_startsWith q ''/'' then q else ''/'' @ q)"
    by metis
  define p where "p = (if q = [] then ''/'' else if js_startsWith q ''/'' then q else ''/'' @ q)"
  have p: "js_startsWith p ''/''" by (auto simp: p_def)
  note parent = parent_remote_eq[OF assms(1) pid s(3) path[folded p_def] p]
  let ?n = "strip_slashes p"
  have n: "?n \<noteq> []" "?n \<noteq> ''/''"
    using assms(2) unfolding parent by (auto split: if_splits)
  obtain cs where cs: "?n = CHR ''/'' # cs"
    using n(1) p strip_slashes_prefix[of p] by (cases ?n) (auto simp: js_startsWith_iff)
  then obtain i where i: "js_lastIndexOf (CHR ''/'') ?n = Some i"
    by (metis js_lastIndexOf_None list.set_intros(1) not_None_eq)
  have v: "v = buildRemoteUri s pid (take i ?n)" using assms(2) n i unfolding parent by simp
  have "Suc i < length ?n"
  proof -
    have "last ?n \<noteq> CHR ''/''" using n(1) strip_slashes_last by blast
    moreover have "?n ! i = CHR ''/''" using js_lastIndexOf_Some[OF i]
      by (metis append_Cons append_Nil js_lastIndexOf_less[OF i] length_take min.absorb4 nth_append_length)
    ultimately show ?thesis
      using js_lastIndexOf_less[OF i] n(1) by (metis Suc_lessI diff_Suc_1 last_conv_nth)
  qed
  moreover have "length (remote_path (take i ?n)) \<le> max 1 i"
    unfolding cs by (rule length_remote_path)
  moreover have "length ?n \<le> length p" by (rule length_strip_slashes)
  moreover have "length p \<le> length q \<or> length p = Suc (length q) \<and> 3 \<le> length q \<or> p = ''/''"
    using q by (auto simp: p_def js_startsWith_iff)
  moreover have "p \<noteq> ''/''" using n by auto
  ultimately have "length (remote_path (take i ?n)) < length q" using n(1) by linarith
  moreover have "isRemoteUri v" unfolding v buildRemoteUri_path remote_iff using s(1) by blast
  ultimately show ?thesis
    unfolding uri_size_def remote_not_local[OF assms(1)]
    by (simp add: remote_not_local) (simp add: v buildRemoteUri_path s(2))
qed


lemma unc_parts:
  assumes "localUncPath p = Some w"
  obtains tail where
    "strip_slashes p = ''//'' @ unc_server w @ ''/'' @ unc_share w @
       (if tail = [] then [] else ''/'' @ js_join ''/'' tail)"
    and "unc_segments w = nonempty_parts tail"
    and "unc_rootUri w = ''local:////'' @ unc_server w @ ''/'' @ unc_share w @ ''/''"
    and "unc_server w \<noteq> []" and "unc_share w \<noteq> []"
    and "CHR ''/'' \<notin> set (unc_server w)" and "CHR ''/'' \<notin> set (unc_share w)"
    and "\<forall>t \<in> set tail. CHR ''/'' \<notin> set t"
    and "no_line_break (js_join ''/'' tail)"
    and "js_startsWith (strip_slashes p) ''//''"
proof -
  let ?n = "strip_slashes p"
  from assms have st: "js_startsWith ?n ''//''"
    by (simp add: localUncPath_def Let_def split: if_splits)
  obtain server share tail where sp: "js_split (CHR ''/'') (drop 2 ?n) = server # share # tail"
    using assms st by (auto simp: localUncPath_def Let_def split: list.splits)
  have w: "w = \<lparr>unc_server = server, unc_share = share, unc_segments = nonempty_parts tail,
      unc_rootUri = ''local:////'' @ server @ ''/'' @ share @ ''/''\<rparr>" and ne: "server \<noteq> []" "share \<noteq> []"
    "no_line_break (js_join ''/'' tail)"
    using assms st unfolding localUncPath_def Let_def sp by (simp_all split: if_splits)
  have "drop 2 ?n = js_join ''/'' (server # share # tail)" by (metis js_join_split sp)
  moreover have "?n = ''//'' @ drop 2 ?n" using st by (auto simp: js_startsWith_iff)
  moreover have "\<forall>t \<in> set (server # share # tail). CHR ''/'' \<notin> set t"
    using js_split_no_sep sp by metis
  ultimately show thesis
    by (intro that[of tail]) (use w ne st in \<open>auto\<close>)
qed

lemma parent_unc_size:
  assumes "localUncPath (strip_prefix ''local://'' u) = Some w" and "parentUriFromUri u = Some v"
    and "\<not> isNetworkUri u" and "\<not> isRemoteUri u"
  shows "uri_size v < uri_size u \<and> v \<noteq> []"
proof -
  obtain tail where n: "strip_slashes (strip_prefix ''local://'' u) =
      ''//'' @ unc_server w @ ''/'' @ unc_share w @ (if tail = [] then [] else ''/'' @ js_join ''/'' tail)"
    and seg: "unc_segments w = nonempty_parts tail"
    and root: "unc_rootUri w = ''local:////'' @ unc_server w @ ''/'' @ unc_share w @ ''/''"
    using unc_parts[OF assms(1)] by metis
  let ?s = "unc_segments w"
  have ne: "?s \<noteq> []" and v: "v = (if length ?s = 1 then unc_rootUri w
      else unc_rootUri w @ js_join ''/'' (butlast ?s))"
    using assms by (auto simp: parentUriFromUri_def Let_def split: if_splits)
  have v': "v = unc_rootUri w @ js_join ''/'' (butlast ?s)"
    unfolding v using ne by (auto simp: length_Suc_conv)
  have "tail \<noteq> []" using ne seg by (auto simp: nonempty_parts_def)
  have "last ?s \<noteq> []" using last_in_set[OF ne] unfolding seg nonempty_parts_in by blast
  then have "length (js_join ''/'' (butlast ?s)) < length (js_join ''/'' ?s)"
    by (rule length_join_butlast[OF ne])
  also have "\<dots> \<le> length (js_join ''/'' tail)" unfolding seg by (rule length_join_parts)
  also have "4 + length (unc_server w) + length (unc_share w) + \<dots> \<le> uri_size u"
    using length_strip_slashes[of "strip_prefix ''local://'' u"] \<open>tail \<noteq> []\<close>
    unfolding n uri_size_def by simp
  finally show ?thesis unfolding v' root by (simp add: uri_size_def)
qed

lemma drive_root_match_length: "drive_root_match s = Some d \<Longrightarrow> length d = 2 \<and> 2 \<le> length s"
proof -
  assume a: "drive_root_match s = Some d"
  then obtain x y where "strip_prefix ''/'' s = [x, y]" "d = [x, y]"
    unfolding drive_root_match_def Let_def by (cases "strip_prefix ''/'' s" rule: remdups_adj.cases) (auto split: list.splits if_splits)
  with length_strip_prefix[of "''/''" s] show ?thesis by simp
qed

lemma parent_local_size:
  assumes "parentUriFromUri u = Some v" and "\<not> isNetworkUri u" and "\<not> isRemoteUri u"
  shows "uri_size v < uri_size u \<and> v \<noteq> []"
proof (cases "localUncPath (strip_prefix ''local://'' u)")
  case (Some w)
  then show ?thesis using parent_unc_size assms by blast
next
  case None
  define p where "p = strip_prefix ''local://'' u"
  define n where "n = (if js_endsWith p ''/'' \<and> length p > 1 then butlast p else p)"
  have ns: "\<not> js_startsWith p ''//''" using assms None
    by (auto simp: parentUriFromUri_def p_def split: if_splits)
  have "(case js_lastIndexOf (CHR ''/'') n of None \<Rightarrow> None
      | Some index \<Rightarrow> if n = ''/'' then None else if index = 0 then Some ''local:///''
          else case drive_root_match (take index n) of Some d \<Rightarrow> Some (''local://'' @ d @ ''/'')
               | None \<Rightarrow> Some (''local://'' @ take index n)) = Some v"
    using assms None ns unfolding parentUriFromUri_def Let_def p_def[symmetric] n_def[symmetric] by simp
  then obtain i where i: "js_lastIndexOf (CHR ''/'') n = Some i" "n \<noteq> ''/''"
    and v: "v = ''local://'' @ (if i = 0 then ''/''
      else case drive_root_match (take i n) of Some d \<Rightarrow> d @ ''/'' | None \<Rightarrow> take i n)"
    by (auto split: option.splits if_splits)
  have less: "i < length n" by (rule js_lastIndexOf_less[OF i(1)])
  have np: "length n \<le> length p" "p = n \<or> length p = Suc (length n)"
    by (auto simp: n_def)
  have size: "uri_size u = length p" by (simp add: uri_size_def p_def)
  have slash: "n = take i n @ ''/'' @ drop (Suc i) n" using js_lastIndexOf_Some[OF i(1)] by simp
  consider (root) "i = 0" | (drive) d where "i \<noteq> 0" "drive_root_match (take i n) = Some d"
    | (plain) "i \<noteq> 0" "drive_root_match (take i n) = None" by (cases "drive_root_match (take i n)") auto
  then have "uri_size v < length p"
  proof cases
    case root
    with slash i(2) have "1 < length n" by (cases n; cases "tl n") auto
    with np root show ?thesis by (simp add: v uri_size_def)
  next
    case drive
    from drive_root_match_length[OF drive(2)] have d: "length d = 2" "2 \<le> i" using less by auto
    have "3 < length p"
    proof (rule ccontr)
      assume "\<not> 3 < length p"
      with d less np have e: "p = n" "length n = 3" "i = 2" by auto
      with slash have "n = take 2 n @ ''/''" by simp
      then have "js_endsWith p ''/''" unfolding e(1) js_endsWith_iff by metis
      with e have "n = butlast p" by (simp add: n_def)
      then have "length n = length p - 1" by simp
      then show False unfolding e(1) e(2) by simp
    qed
    with drive d show ?thesis by (simp add: v uri_size_def)
  next
    case plain
    with less np show ?thesis by (simp add: v uri_size_def)
  qed
  then show ?thesis unfolding size by (auto simp: v)
qed

text \<open>Every step up lowers the size, and no parent is the empty string.\<close>

lemma parent_size: "parentUriFromUri u = Some v \<Longrightarrow> uri_size v < uri_size u"
  and parent_nonempty: "parentUriFromUri u \<noteq> Some []"
  using parent_network_size[of u] parent_remote_size[of u] parent_local_size[of u] by blast+

end
