(* ===== verification/UriCrumbs.thy ===== *)
theory UriCrumbs
  imports UriFacts
begin

text \<open>
  Breadcrumbs and remote URIs: each kind of URI is brought into the form of a head and a list
  of segments, on which \<open>breadcrumbSegmentsFromUri\<close> is then computed once for every prefix.
\<close>

section \<open>Breadcrumbs\<close>

text \<open>A path as its segments, each behind a slash; the segments are what the code obtains by
  splitting and dropping empty parts.\<close>

definition slashed :: "string list \<Rightarrow> string" where
  "slashed ps = concat (map (\<lambda>p. ''/'' @ p) ps)"

definition segments_ok :: "string list \<Rightarrow> bool" where
  "segments_ok ps \<longleftrightarrow> (\<forall>p \<in> set ps. p \<noteq> [] \<and> CHR ''/'' \<notin> set p)"

lemma slashed_simps [simp]: "slashed [] = []" "slashed (p # ps) = CHR ''/'' # p @ slashed ps"
  "slashed (ps @ qs) = slashed ps @ slashed qs"
  by (simp_all add: slashed_def)

lemma slashed_join: "js_join ''/'' (c # ps) = c @ slashed ps"
  by (induction ps arbitrary: c) auto

lemma segments_ok_take: "segments_ok ps \<Longrightarrow> segments_ok (take n ps)"
  by (auto simp: segments_ok_def dest: in_set_takeD)

lemma segments_ok_parts: "segments_ok (nonempty_parts (js_split (CHR ''/'') s))"
  unfolding segments_ok_def by (auto dest: js_split_no_sep)

lemma split_slashed:
  assumes "CHR ''/'' \<notin> set c" and "segments_ok ps"
  shows "js_split (CHR ''/'') (c @ slashed ps) = c # ps"
  using js_split_join[of "c # ps" "CHR ''/''"] assms unfolding slashed_join segments_ok_def by simp

lemma parts_slashed: "segments_ok ps \<Longrightarrow> nonempty_parts (js_split (CHR ''/'') (slashed ps)) = ps"
  using split_slashed[of "[]" ps] by (auto simp: segments_ok_def nonempty_parts_def intro!: filter_True)

lemma strip_slashed:
  assumes "segments_ok ps" and "ps \<noteq> []"
  shows "strip_slashes (c @ slashed ps) = c @ slashed ps"
proof -
  from assms(2) obtain qs q where ps: "ps = qs @ [q]" by (metis rev_exhaust)
  with assms(1) have q: "q \<noteq> []" "CHR ''/'' \<notin> set q" by (auto simp: segments_ok_def)
  then have "last q \<noteq> CHR ''/''" by (metis last_in_set)
  with q(1) have "last (c @ slashed ps) \<noteq> CHR ''/''" by (simp add: ps)
  then show ?thesis by (rule strip_slashes_id[OF disjI2])
qed

lemma segs_no_break:
  "no_line_break s \<Longrightarrow> p \<in> set (nonempty_parts (js_split (CHR ''/'') s)) \<Longrightarrow> no_line_break p"
proof -
  have "\<forall>p \<in> set (js_split c s). set p \<subseteq> set s" for c :: char
    by (induction s) (auto split: list.splits)
  then show "no_line_break s \<Longrightarrow> p \<in> set (nonempty_parts (js_split (CHR ''/'') s)) \<Longrightarrow> no_line_break p"
    by (auto simp: no_line_break_def list_all_iff)
qed

lemma no_break_slashed: "(\<And>p. p \<in> set ps \<Longrightarrow> no_line_break p) \<Longrightarrow> no_line_break (slashed ps)"
  by (induction ps) (auto simp: no_line_break_def code_def)

lemma no_break_append [simp]: "no_line_break (s @ t) \<longleftrightarrow> no_line_break s \<and> no_line_break t"
  by (simp add: no_line_break_def)

subsection \<open>The crumb builders\<close>

lemma length_crumbs_from [simp]: "length (crumbs_from mk c ps) = length ps"
  by (induction mk c ps rule: crumbs_from.induct) (auto simp: Let_def)

lemma crumbs_from_take: "crumbs_from mk c (take n ps) = take n (crumbs_from mk c ps)"
  by (induction mk c ps arbitrary: n rule: crumbs_from.induct) (auto simp: Let_def take_Cons')

lemma crumbs_from_nth:
  "i < length ps \<Longrightarrow> crumb_uri (crumbs_from mk c ps ! i) = mk (c @ slashed (take (Suc i) ps))"
  by (induction mk c ps arbitrary: i rule: crumbs_from.induct) (auto simp: Let_def nth_Cons split: nat.splits)

lemma length_network_crumbs [simp]: "length (network_crumbs c ps) = length ps"
  by (induction c ps rule: network_crumbs.induct) (auto simp: Let_def)

lemma network_crumbs_take: "network_crumbs c (take n ps) = take n (network_crumbs c ps)"
  by (induction c ps arbitrary: n rule: network_crumbs.induct) (auto simp: Let_def take_Cons')

lemma network_crumbs_nth:
  "i < length ps \<Longrightarrow> crumb_uri (network_crumbs c ps ! i) = networkUriFromParts (c @ take (Suc i) ps)"
  by (induction c ps arbitrary: i rule: network_crumbs.induct) (auto simp: Let_def nth_Cons split: nat.splits)

lemma length_relative_crumbs [simp]: "length (relative_crumbs c ps) = length ps"
  by (induction c ps rule: relative_crumbs.induct) (auto simp: Let_def)

lemma relative_crumbs_take: "relative_crumbs c (take n ps) = take n (relative_crumbs c ps)"
  by (induction c ps arbitrary: n rule: relative_crumbs.induct) (auto simp: Let_def take_Cons')

lemma relative_crumbs_nth:
  "c \<noteq> [] \<Longrightarrow> i < length ps \<Longrightarrow>
   crumb_uri (relative_crumbs c ps ! i) = ''local://'' @ c @ slashed (take (Suc i) ps) @ ''/''"
  by (induction c ps arbitrary: i rule: relative_crumbs.induct) (auto simp: Let_def nth_Cons split: nat.splits)

lemma crumbs_from_Nil: "crumbs_from mk c ps = [] \<longleftrightarrow> ps = []"
  by (metis length_0_conv length_crumbs_from)

subsection \<open>The crumbs of each kind of URI\<close>

lemma network_breadcrumbs:
  "isNetworkUri u \<Longrightarrow> breadcrumbSegmentsFromUri u =
     \<lparr>crumb_label = ''Network'', crumb_uri = ''network:///''\<rparr> # network_crumbs [] (networkPathParts u)"
  by (simp add: breadcrumbSegmentsFromUri_def)

lemma remote_breadcrumbs:
  assumes "isRemoteUri u" and "uriScheme u = Some s" and "profileIdFromRemoteUri u = Some pid"
    and "remotePathFromUri u = Some path"
  shows "breadcrumbSegmentsFromUri u =
    (let ps = nonempty_parts (js_split (CHR ''/'') (strip_slashes path))
     in if ps = [] then [\<lparr>crumb_label = ''/'', crumb_uri = u\<rparr>] else crumbs_from (buildRemoteUri s pid) [] ps)"
  using assms remote_not_network[OF assms(1)] by (simp add: breadcrumbSegmentsFromUri_def Let_def)

text \<open>The branches for local paths, on the path without its trailing slashes.\<close>

definition local_crumbs :: "string \<Rightarrow> string \<Rightarrow> UriBreadcrumbSegment list" where
  "local_crumbs uri path =
     (case localUncPath path of
        Some u \<Rightarrow>
          \<lparr>crumb_label = ''//'' @ unc_server u @ ''/'' @ unc_share u, crumb_uri = unc_rootUri u\<rparr>
            # crumbs_from (\<lambda>c. c) (butlast (unc_rootUri u)) (unc_segments u)
      | None \<Rightarrow>
          (case drive_path_match path of
             Some (drive, rest) \<Rightarrow>
               \<lparr>crumb_label = drive, crumb_uri = ''local://'' @ drive @ ''/''\<rparr>
                 # crumbs_from (\<lambda>c. ''local://'' @ c) drive
                     (nonempty_parts (js_split (CHR ''/'') (case rest of Some r \<Rightarrow> r | None \<Rightarrow> [])))
           | None \<Rightarrow>
               (let parts = nonempty_parts (js_split (CHR ''/'') path);
                    result = (if js_startsWith path ''/''
                              then crumbs_from (\<lambda>c. ''local://'' @ c) [] parts
                              else relative_crumbs [] parts)
                in if result \<noteq> [] then result
                   else [\<lparr>crumb_label = uri, crumb_uri = uri\<rparr>])))"

lemma local_breadcrumbs:
  assumes "\<not> isNetworkUri u" and "\<not> isRemoteUri u"
  shows "breadcrumbSegmentsFromUri u = local_crumbs u (strip_slashes (strip_prefix ''local://'' u))"
  using assms by (simp add: breadcrumbSegmentsFromUri_def local_crumbs_def displayPathFromUri_def Let_def)

lemma local_breadcrumbs_uri:
  "breadcrumbSegmentsFromUri (''local://'' @ p) = local_crumbs (''local://'' @ p) (strip_slashes p)"
  by (subst local_breadcrumbs) simp_all


lemma profile_of_remote:
  assumes s: "s \<in> set REMOTE_URI_SCHEMES" and pid: "pid \<noteq> []" "CHR ''/'' \<notin> set pid"
    and t: "last pid \<noteq> CHR '':'' \<or> \<not> js_startsWith t ''/''"
  shows "profileIdFromRemoteUri (s @ ''://'' @ pid @ ''/'' @ t) = Some pid"
    and "remotePathFromUri (s @ ''://'' @ pid @ ''/'' @ t) = Some (''/'' @ t)"
proof -
  let ?r = "pid @ ''/'' @ t" and ?u = "s @ ''://'' @ pid @ ''/'' @ t"
  define body where "body = (case js_indexOf ''://'' ?r of None \<Rightarrow> ?r | Some j \<Rightarrow> take j ?r)"
  have "\<exists>x. body = pid @ ''/'' @ x"
  proof (cases "js_indexOf ''://'' ?r")
    case (Some j)
    from js_indexOf_Some[OF Some] obtain v where "?r = take j ?r @ ''://'' @ v" "j \<le> length ?r" by blast
    then obtain a where a: "?r = a @ ''://'' @ v" "length a = j" by (metis length_take min.absorb2)
    have lt: "j + 2 < length ?r" unfolding a(1) using a(2) by simp
    have at: "?r ! j = CHR '':''" "?r ! Suc j = CHR ''/''" "?r ! Suc (Suc j) = CHR ''/''"
      unfolding a(1) using a(2) by (simp_all add: nth_append)
    have "length pid < j"
    proof (rule ccontr)
      assume "\<not> length pid < j"
      moreover have "j \<noteq> length pid" using at(1) by (auto simp: nth_append)
      moreover have "\<not> Suc j < length pid" using at(2) pid(2) by (metis nth_append nth_mem)
      ultimately have j: "Suc j = length pid" by simp
      then have "last pid = CHR '':''" using at(1) pid(1) by (simp add: nth_append last_conv_nth flip: j)
      moreover have "js_startsWith t ''/''"
        using at(3) j lt by (cases t) (auto simp: nth_append)
      ultimately show False using t by blast
    qed
    then have "take j ?r = pid @ ''/'' @ take (j - Suc (length pid)) t"
      by (auto simp: take_Cons' Suc_diff_le)
    then show ?thesis unfolding body_def Some by auto
  qed (simp add: body_def)
  then obtain x where x: "body = pid @ ''/'' @ x" ..
  have rem: "isRemoteUri ?u" using s unfolding remote_iff by blast
  have "takeWhile (\<lambda>c. c \<noteq> CHR ''/'') body = pid"
    unfolding x using pid(2) by (subst takeWhile_append2) auto
  then have tw: "hd (js_split (CHR ''/'') body) = pid" by (simp add: js_split_hd)
  show p: "profileIdFromRemoteUri ?u = Some pid"
    unfolding profileIdFromRemoteUri_def body_remote[OF s] body_def[symmetric] option.case Let_def tw
    using rem pid(1) x by simp
  show "remotePathFromUri ?u = Some (''/'' @ t)"
    unfolding remotePathFromUri_def p option.case Let_def after_remote[OF s] using rem by simp
qed

lemma segments_hd: "segments_ok ps \<Longrightarrow> ps \<noteq> [] \<Longrightarrow> \<exists>x y. x \<noteq> CHR ''/'' \<and> slashed ps = ''/'' @ x # y"
  by (cases ps; cases "hd ps") (auto simp: segments_ok_def)

lemma build_slashed:
  assumes "segments_ok ps" and "ps \<noteq> []"
  shows "buildRemoteUri s pid (slashed ps) = s @ ''://'' @ pid @ slashed ps"
  using strip_slashed[OF assms, of "[]"] segments_hd[OF assms]
  by (auto simp: buildRemoteUri_path remote_path_def Let_def)

lemma remote_slashed:
  assumes "s \<in> set REMOTE_URI_SCHEMES" and "pid \<noteq> []" and "CHR ''/'' \<notin> set pid"
    and "segments_ok ps" and "ps \<noteq> []" and "u = buildRemoteUri s pid (slashed ps)"
  shows "isRemoteUri u" and "uriScheme u = Some s" and "profileIdFromRemoteUri u = Some pid"
    and "remotePathFromUri u = Some (slashed ps)"
proof -
  from segments_hd[OF assms(4,5)] obtain x y where x: "x \<noteq> CHR ''/''" "slashed ps = ''/'' @ x # y" by blast
  have u: "u = s @ ''://'' @ pid @ ''/'' @ x # y"
    using build_slashed[OF assms(4,5), of s pid] x(2) assms(6) by simp
  show "isRemoteUri u" unfolding u remote_iff using assms(1) by blast
  show "uriScheme u = Some s" unfolding u by (rule scheme_remote[OF assms(1)])
  have *: "last pid \<noteq> CHR '':'' \<or> \<not> js_startsWith (x # y) ''/''" using x(1) by simp
  show "profileIdFromRemoteUri u = Some pid" unfolding u by (rule profile_of_remote(1)[OF assms(1-3) *])
  show "remotePathFromUri u = Some (slashed ps)"
    unfolding u x(2) by (rule profile_of_remote(2)[OF assms(1-3) *])
qed

text \<open>Navigating to a crumb shows the crumbs up to it.\<close>

definition clickable :: "UriBreadcrumbSegment list \<Rightarrow> bool" where
  "clickable bs \<longleftrightarrow> (\<forall>i < length bs. breadcrumbSegmentsFromUri (crumb_uri (bs ! i)) = take (Suc i) bs)"

lemma clickable_single: "breadcrumbSegmentsFromUri (crumb_uri b) = [b] \<Longrightarrow> clickable [b]"
  by (simp add: clickable_def)

lemma clickable_network: "isNetworkUri u \<Longrightarrow> clickable (breadcrumbSegmentsFromUri u)"
proof -
  assume u: "isNetworkUri u"
  let ?ps = "networkPathParts u"
  have 0: "breadcrumbSegmentsFromUri ''network:///'' = [\<lparr>crumb_label = ''Network'', crumb_uri = ''network:///''\<rparr>]"
    using network_breadcrumbs[of "networkUriFromParts []"] network_roundtrip[of "[]"]
    by (simp add: networkUriFromParts_eq[of "[]"] network_iff)
  have S: "breadcrumbSegmentsFromUri (networkUriFromParts (take n ?ps)) =
      take (Suc n) (breadcrumbSegmentsFromUri u)" for n
  proof -
    have "networkPathParts (networkUriFromParts (take n ?ps)) = take n ?ps"
      using networkPathParts_ok by (intro network_roundtrip) (auto dest!: in_set_takeD)
    then show ?thesis by (simp add: network_breadcrumbs u network_crumbs_take)
  qed
  show ?thesis
    unfolding clickable_def
  proof (intro allI impI)
    fix i assume i: "i < length (breadcrumbSegmentsFromUri u)"
    show "breadcrumbSegmentsFromUri (crumb_uri (breadcrumbSegmentsFromUri u ! i)) =
        take (Suc i) (breadcrumbSegmentsFromUri u)"
      using i 0 S by (cases i) (auto simp: network_breadcrumbs[OF u] network_crumbs_nth)
  qed
qed

lemma clickable_remote: "isRemoteUri u \<Longrightarrow> clickable (breadcrumbSegmentsFromUri u)"
proof (cases "profileIdFromRemoteUri u")
  case None
  assume u: "isRemoteUri u"
  have "breadcrumbSegmentsFromUri u = [\<lparr>crumb_label = u, crumb_uri = u\<rparr>]"
    using u None remote_not_network[OF u] by (auto simp: breadcrumbSegmentsFromUri_def split: option.splits)
  then show ?thesis by (simp add: clickable_def)
next
  case (Some pid)
  assume u: "isRemoteUri u"
  from remote_parts[OF u Some] obtain s path where
    s: "s \<in> set REMOTE_URI_SCHEMES" "uriScheme u = Some s" and pid: "pid \<noteq> []" "CHR ''/'' \<notin> set pid"
    and path: "remotePathFromUri u = Some path" by metis
  let ?ps = "nonempty_parts (js_split (CHR ''/'') (strip_slashes path))"
  note b = remote_breadcrumbs[OF u s(2) Some path, unfolded Let_def]
  show ?thesis
  proof (cases "?ps = []")
    case True
    then show ?thesis using b by (simp add: clickable_def)
  next
    case False
    have bs: "breadcrumbSegmentsFromUri u = crumbs_from (buildRemoteUri s pid) [] ?ps"
      using b False by simp
    show ?thesis
      unfolding clickable_def
    proof (intro allI impI)
      fix i assume "i < length (breadcrumbSegmentsFromUri u)"
      then have i: "i < length ?ps" by (simp add: bs)
      let ?ts = "take (Suc i) ?ps"
      have ts: "segments_ok ?ts" "?ts \<noteq> []" using segments_ok_take segments_ok_parts False by auto
      note r = remote_slashed[OF s(1) pid ts refl]
      have "breadcrumbSegmentsFromUri (buildRemoteUri s pid (slashed ?ts)) = crumbs_from (buildRemoteUri s pid) [] ?ts"
        using strip_slashed[OF ts, of "[]"] ts(2)
        unfolding remote_breadcrumbs[OF r] Let_def by (simp add: parts_slashed[OF ts(1)])
      then show "breadcrumbSegmentsFromUri (crumb_uri (breadcrumbSegmentsFromUri u ! i)) =
          take (Suc i) (breadcrumbSegmentsFromUri u)"
        unfolding bs crumbs_from_nth[OF i] by (simp add: crumbs_from_take)
    qed
  qed
qed


lemma no_break_join: "no_line_break (js_join c ps) \<Longrightarrow> p \<in> set ps \<Longrightarrow> no_line_break p"
  by (induction ps) (auto split: if_splits)

lemma no_break_join_segs:
  assumes "\<And>p. p \<in> set ps \<Longrightarrow> no_line_break p" shows "no_line_break (js_join ''/'' ps)"
  using assms by (induction ps) (auto simp: no_line_break_def code_def)

lemma unc_build:
  assumes "srv \<noteq> []" "sh \<noteq> []" "CHR ''/'' \<notin> set srv" "CHR ''/'' \<notin> set sh" "segments_ok ts"
    and "\<And>p. p \<in> set ts \<Longrightarrow> no_line_break p"
  shows "localUncPath (''//'' @ srv @ slashed (sh # ts)) =
    Some \<lparr>unc_server = srv, unc_share = sh, unc_segments = ts,
      unc_rootUri = ''local:////'' @ srv @ ''/'' @ sh @ ''/''\<rparr>"
proof -
  have ok: "segments_ok (sh # ts)" using assms by (auto simp: segments_ok_def)
  have "nonempty_parts ts = ts" using assms(5) by (intro nonempty_parts_id) (auto simp: segments_ok_def)
  moreover have "strip_slashes (''//'' @ srv @ slashed (sh # ts)) = ''//'' @ srv @ slashed (sh # ts)"
    using strip_slashed[OF ok, of "''//'' @ srv"] by simp
  ultimately show ?thesis
    using split_slashed[OF assms(3) ok] no_break_join_segs[OF assms(6)] assms(1,2)
    unfolding localUncPath_def Let_def by simp
qed

lemma clickable_unc:
  assumes "localUncPath path = Some w" and "path = strip_slashes path"
    and "breadcrumbSegmentsFromUri u = local_crumbs u path"
  shows "clickable (breadcrumbSegmentsFromUri u)"
proof -
  obtain tail where
    seg: "unc_segments w = nonempty_parts tail"
    and root: "unc_rootUri w = ''local:////'' @ unc_server w @ ''/'' @ unc_share w @ ''/''"
    and ne: "unc_server w \<noteq> []" "unc_share w \<noteq> []"
    and sl: "CHR ''/'' \<notin> set (unc_server w)" "CHR ''/'' \<notin> set (unc_share w)"
      "\<forall>t \<in> set tail. CHR ''/'' \<notin> set t"
    and nb: "no_line_break (js_join ''/'' tail)"
    using unc_parts[OF assms(1)] by metis
  let ?ps = "unc_segments w" and ?d = "''//'' @ unc_server w @ ''/'' @ unc_share w"
  have ps: "segments_ok ?ps" "\<And>p. p \<in> set ?ps \<Longrightarrow> no_line_break p"
    using sl(3) no_break_join[OF nb] unfolding seg segments_ok_def by auto
  have bs: "breadcrumbSegmentsFromUri u =
      \<lparr>crumb_label = ''//'' @ unc_server w @ ''/'' @ unc_share w, crumb_uri = unc_rootUri w\<rparr>
        # crumbs_from (\<lambda>c. c) (butlast (unc_rootUri w)) ?ps"
    using assms(3) unfolding local_crumbs_def assms(1) by simp
  have bl: "butlast (unc_rootUri w) = ''local://'' @ ?d" unfolding root by (simp add: butlast_append)
  have S: "breadcrumbSegmentsFromUri (''local://'' @ ?d @ slashed (take n ?ps)) =
      take (Suc n) (breadcrumbSegmentsFromUri u)" for n
  proof -
    have b: "\<And>p. p \<in> set (take n ?ps) \<Longrightarrow> no_line_break p" using ps(2) in_set_takeD by metis
    have ok: "segments_ok (unc_share w # take n ?ps)"
      using segments_ok_take[OF ps(1)] ne sl by (auto simp: segments_ok_def)
    have "strip_slashes (?d @ slashed (take n ?ps)) = ?d @ slashed (take n ?ps)"
      using strip_slashed[OF ok, of "''//'' @ unc_server w"] by simp
    moreover have "localUncPath (?d @ slashed (take n ?ps)) =
        Some \<lparr>unc_server = unc_server w, unc_share = unc_share w, unc_segments = take n ?ps,
          unc_rootUri = ''local:////'' @ unc_server w @ ''/'' @ unc_share w @ ''/''\<rparr>"
      using unc_build[OF ne sl(1,2) segments_ok_take[OF ps(1)] b] by simp
    ultimately show ?thesis
      unfolding local_breadcrumbs_uri bs root[symmetric] local_crumbs_def by (simp add: crumbs_from_take)
  qed
  have 0: "breadcrumbSegmentsFromUri (unc_rootUri w) = take (Suc 0) (breadcrumbSegmentsFromUri u)"
  proof -
    have "breadcrumbSegmentsFromUri (''local://'' @ ?d @ ''/'') =
        local_crumbs (''local://'' @ ?d @ ''/'') (strip_slashes ?d)"
      using local_breadcrumbs_uri[of "?d @ ''/''"] strip_slashes_snoc[of ?d] by simp
    moreover have "strip_slashes ?d = ?d"
      using strip_slashed[of "[unc_share w]" "''//'' @ unc_server w"] ne sl by (simp add: segments_ok_def)
    moreover have "localUncPath ?d = Some \<lparr>unc_server = unc_server w, unc_share = unc_share w,
        unc_segments = [], unc_rootUri = unc_rootUri w\<rparr>"
      using unc_build[OF ne sl(1,2), of "[]"] by (simp add: segments_ok_def root)
    ultimately show ?thesis by (simp add: bs root local_crumbs_def)
  qed
  show ?thesis
    unfolding clickable_def
  proof (intro allI impI)
    fix i assume i: "i < length (breadcrumbSegmentsFromUri u)"
    show "breadcrumbSegmentsFromUri (crumb_uri (breadcrumbSegmentsFromUri u ! i)) =
        take (Suc i) (breadcrumbSegmentsFromUri u)"
    proof (cases i)
      case (Suc n)
      with i have "crumb_uri (breadcrumbSegmentsFromUri u ! i) = ''local://'' @ ?d @ slashed (take (Suc n) ?ps)"
        by (simp add: bs crumbs_from_nth bl)
      then show ?thesis using S[of "Suc n"] Suc by simp
    qed (use 0 bs in simp)
  qed
qed

lemma letter_not_slash: "is_ascii_letter l \<Longrightarrow> l \<noteq> CHR ''/''"
  by (auto simp: is_ascii_letter_def is_ascii_upper_def is_ascii_lower_def code_def)

lemma drive_iff:
  assumes "no_line_break (strip_prefix ''/'' s)"
  shows "drive_path_match s = None \<longleftrightarrow> \<not>
    (\<exists>l. is_ascii_letter l \<and> hd (js_split (CHR ''/'') (strip_prefix ''/'' s)) = [l, CHR '':''])"
proof -
  obtain r where r: "r = strip_prefix ''/'' s" by simp
  show ?thesis
    using assms letter_not_slash unfolding js_split_hd drive_path_match_def r[symmetric]
    by (cases r; cases "tl r"; cases "tl (tl r)") (auto simp: no_line_break_def)
qed


lemma drive_match_Some:
  assumes "drive_path_match s = Some (d, rest)"
  shows "\<exists>l. d = [l, CHR '':''] \<and> is_ascii_letter l \<and>
    no_line_break (case rest of Some r \<Rightarrow> r | None \<Rightarrow> [])"
proof -
  obtain r where r: "strip_prefix ''/'' s = r" by simp
  show ?thesis using assms unfolding drive_path_match_def r
    by (auto simp: no_line_break_def split: list.splits if_splits)
qed

lemma not_unc: "\<not> js_startsWith (strip_slashes p) ''//'' \<Longrightarrow> localUncPath p = None"
  by (simp add: localUncPath_def)

lemma local_crumbs_drive:
  assumes "segments_ok ts" and "\<And>p. p \<in> set ts \<Longrightarrow> no_line_break p" and "is_ascii_letter l"
  shows "local_crumbs v ([l, CHR '':''] @ slashed ts) =
    \<lparr>crumb_label = [l, CHR '':''], crumb_uri = ''local://'' @ [l, CHR '':''] @ ''/''\<rparr>
      # crumbs_from (\<lambda>c. ''local://'' @ c) [l, CHR '':''] ts"
proof -
  note l = letter_not_slash[OF assms(3)]
  have unc: "localUncPath ([l, CHR '':''] @ slashed ts) = None"
  proof (rule not_unc)
    have "strip_slashes ([l, CHR '':''] @ slashed ts) = [l, CHR '':''] @ slashed ts"
      using strip_slashed[OF assms(1), of "[l, CHR '':'']"]
      by (cases "ts = []") (auto intro: strip_slashes_id)
    then show "\<not> js_startsWith (strip_slashes ([l, CHR '':''] @ slashed ts)) ''//''" using l by simp
  qed
  show ?thesis
  proof (cases ts)
    case Nil
    then show ?thesis using unc l assms(3)
      by (simp add: local_crumbs_def drive_path_match_def strip_prefix_def nonempty_parts_def)
  next
    case (Cons t ts')
    have t: "CHR ''/'' \<notin> set t" "t \<noteq> []" "segments_ok ts'" using assms(1) Cons by (auto simp: segments_ok_def)
    have np: "nonempty_parts (js_split (CHR ''/'') (t @ slashed ts')) = ts"
      unfolding split_slashed[OF t(1,3)] using assms(1) Cons
      by (intro trans[OF nonempty_parts_id]) (auto simp: segments_ok_def)
    have "no_line_break (t @ slashed ts')"
      using assms(2) no_break_slashed[of ts'] by (simp add: Cons)
    then have dm: "drive_path_match ([l, CHR '':''] @ slashed ts) = Some ([l, CHR '':''], Some (t @ slashed ts'))"
      using l assms(3) by (simp add: drive_path_match_def strip_prefix_def Cons)
    show ?thesis unfolding local_crumbs_def unc dm option.case prod.case np ..
  qed
qed

lemma clickable_drive:
  assumes "localUncPath path = None" and "drive_path_match path = Some (d, rest)"
    and "breadcrumbSegmentsFromUri u = local_crumbs u path"
  shows "clickable (breadcrumbSegmentsFromUri u)"
proof -
  define tail where "tail = (case rest of Some r \<Rightarrow> r | None \<Rightarrow> [])"
  obtain l where d: "d = [l, CHR '':'']" "is_ascii_letter l" and nb: "no_line_break tail"
    using drive_match_Some[OF assms(2)] by (auto simp: tail_def)
  let ?ps = "nonempty_parts (js_split (CHR ''/'') tail)"
  have ps: "segments_ok ?ps" "\<And>p. p \<in> set ?ps \<Longrightarrow> no_line_break p"
    using segments_ok_parts segs_no_break[OF nb] by auto
  have bs: "breadcrumbSegmentsFromUri u = \<lparr>crumb_label = d, crumb_uri = ''local://'' @ d @ ''/''\<rparr>
      # crumbs_from (\<lambda>c. ''local://'' @ c) d ?ps"
    unfolding assms(3) local_crumbs_def assms(1,2) tail_def option.case prod.case ..
  have S: "breadcrumbSegmentsFromUri (''local://'' @ d @ slashed (take n ?ps)) =
      take (Suc n) (breadcrumbSegmentsFromUri u)" for n
  proof -
    have b: "\<And>p. p \<in> set (take n ?ps) \<Longrightarrow> no_line_break p" using ps(2) in_set_takeD by metis
    have st: "strip_slashes (d @ slashed (take n ?ps)) = d @ slashed (take n ?ps)"
      using strip_slashed[OF segments_ok_take[OF ps(1)], of n d]
      by (cases "take n ?ps = []") (auto simp: d intro: strip_slashes_id)
    have "local_crumbs v (d @ slashed (take n ?ps)) = \<lparr>crumb_label = d, crumb_uri = ''local://'' @ d @ ''/''\<rparr>
        # crumbs_from (\<lambda>c. ''local://'' @ c) d (take n ?ps)" for v
      unfolding d(1) by (rule local_crumbs_drive[OF segments_ok_take[OF ps(1)] b d(2)])
    then show ?thesis unfolding local_breadcrumbs_uri bs st crumbs_from_take take_Suc_Cons .
  qed
  have 0: "breadcrumbSegmentsFromUri (''local://'' @ d @ ''/'') = take (Suc 0) (breadcrumbSegmentsFromUri u)"
    using local_breadcrumbs_uri[of "d @ ''/''"] strip_slashes_snoc[of d]
      local_crumbs_drive[of "[]" l] d strip_slashes_id[of d] by (simp add: bs segments_ok_def)
  show ?thesis
    unfolding clickable_def
  proof (intro allI impI)
    fix i assume i: "i < length (breadcrumbSegmentsFromUri u)"
    show "breadcrumbSegmentsFromUri (crumb_uri (breadcrumbSegmentsFromUri u ! i)) =
        take (Suc i) (breadcrumbSegmentsFromUri u)"
    proof (cases i)
      case (Suc n)
      with i have "crumb_uri (breadcrumbSegmentsFromUri u ! i) = ''local://'' @ d @ slashed (take (Suc n) ?ps)"
        by (simp add: bs crumbs_from_nth)
      then show ?thesis using S[of "Suc n"] Suc by simp
    qed (use 0 bs in simp)
  qed
qed

text \<open>A path that is neither a share nor on a drive.\<close>

lemma plain_crumbs:
  assumes "segments_ok (t # ts)" and "\<And>p. p \<in> set (t # ts) \<Longrightarrow> no_line_break p"
    and "\<not> (\<exists>l. is_ascii_letter l \<and> t = [l, CHR '':''])"
  shows "local_crumbs v (slashed (t # ts)) = crumbs_from (\<lambda>c. ''local://'' @ c) [] (t # ts)"
    and "local_crumbs v (t @ slashed ts) = relative_crumbs [] (t # ts)"
proof -
  have t: "t \<noteq> []" "CHR ''/'' \<notin> set t" "segments_ok ts" using assms(1) by (auto simp: segments_ok_def)
  obtain x y where x: "t = x # y" "x \<noteq> CHR ''/''" using t by (cases t) auto
  have sp: "js_split (CHR ''/'') (t @ slashed ts) = t # ts" using t by (intro split_slashed) auto
  have nb: "no_line_break (t @ slashed ts)" using assms(2) no_break_slashed[of ts] by simp
  have np: "nonempty_parts (t # ts) = t # ts" using assms(1) by (intro nonempty_parts_id) (auto simp: segments_ok_def)
  have st: "strip_slashes (slashed (t # ts)) = slashed (t # ts)"
    using strip_slashed[OF assms(1), of "[]"] by simp
  have st': "strip_slashes (t @ slashed ts) = t @ slashed ts"
  proof (cases "ts = []")
    case True
    then show ?thesis using t by (auto intro!: strip_slashes_id) (metis last_in_set)
  qed (rule strip_slashed[OF t(3)])
  have r: "strip_prefix ''/'' (slashed (t # ts)) = t @ slashed ts"
    "strip_prefix ''/'' (t @ slashed ts) = t @ slashed ts"
    using x by (simp_all add: strip_prefix_def)
  have dr: "drive_path_match (slashed (t # ts)) = None" "drive_path_match (t @ slashed ts) = None"
    using drive_iff[of "slashed (t # ts)"] drive_iff[of "t @ slashed ts"] assms(3)
    unfolding r sp using nb by auto
  have unc: "localUncPath (slashed (t # ts)) = None" "localUncPath (t @ slashed ts) = None"
    using st st' x by (auto intro!: not_unc)
  show "local_crumbs v (slashed (t # ts)) = crumbs_from (\<lambda>c. ''local://'' @ c) [] (t # ts)"
  proof -
    have "js_startsWith (slashed (t # ts)) ''/'' = True" by simp
    then show ?thesis
      unfolding local_crumbs_def unc dr option.case parts_slashed[OF assms(1)] Let_def
      by (simp only: if_True crumbs_from_Nil list.distinct not_False_eq_True)
  qed
  show "local_crumbs v (t @ slashed ts) = relative_crumbs [] (t # ts)"
    unfolding local_crumbs_def unc dr option.case sp Let_def np using x by (simp add: Let_def)
qed


lemma clickable_absolute:
  assumes "segments_ok (t # ts)" and "\<And>p. p \<in> set (t # ts) \<Longrightarrow> no_line_break p"
    and "\<not> (\<exists>l. is_ascii_letter l \<and> t = [l, CHR '':''])"
  shows "clickable (crumbs_from (\<lambda>c. ''local://'' @ c) [] (t # ts))"
  unfolding clickable_def length_crumbs_from
proof (intro allI impI)
  fix i assume i: "i < length (t # ts)"
  let ?ps = "t # take i ts"
  have ok: "segments_ok ?ps" using segments_ok_take[OF assms(1), of "Suc i"] by simp
  have nb: "\<And>p. p \<in> set ?ps \<Longrightarrow> no_line_break p" using assms(2) by (auto dest: in_set_takeD)
  have st: "strip_slashes (slashed ?ps) = slashed ?ps" using strip_slashed[OF ok, of "[]"] by simp
  have "breadcrumbSegmentsFromUri (''local://'' @ slashed ?ps) = crumbs_from (\<lambda>c. ''local://'' @ c) [] ?ps"
    unfolding local_breadcrumbs_uri st by (rule plain_crumbs(1)[OF ok nb assms(3)])
  then show "breadcrumbSegmentsFromUri (crumb_uri (crumbs_from (\<lambda>c. ''local://'' @ c) [] (t # ts) ! i)) =
      take (Suc i) (crumbs_from (\<lambda>c. ''local://'' @ c) [] (t # ts))"
    unfolding crumbs_from_nth[OF i] crumbs_from_take[symmetric] take_Suc_Cons append_Nil .
qed

lemma clickable_relative:
  assumes "segments_ok (t # ts)" and "\<And>p. p \<in> set (t # ts) \<Longrightarrow> no_line_break p"
    and "\<not> (\<exists>l. is_ascii_letter l \<and> t = [l, CHR '':''])"
  shows "clickable (relative_crumbs [] (t # ts))"
  unfolding clickable_def length_relative_crumbs
proof (intro allI impI)
  fix i assume i: "i < length (t # ts)"
  let ?p = "t @ slashed (take i ts)"
  have ok: "segments_ok (t # take i ts)" using segments_ok_take[OF assms(1), of "Suc i"] by simp
  have nb: "\<And>p. p \<in> set (t # take i ts) \<Longrightarrow> no_line_break p" using assms(2) by (auto dest: in_set_takeD)
  have t: "t \<noteq> []" "CHR ''/'' \<notin> set t" using assms(1) by (auto simp: segments_ok_def)
  have uri: "crumb_uri (relative_crumbs [] (t # ts) ! i) = ''local://'' @ ?p @ ''/''"
    using i relative_crumbs_nth[OF t(1), of "i - 1" ts] by (cases i) (auto simp: Let_def)
  have "strip_slashes (?p @ ''/'') = ?p"
  proof (cases "take i ts")
    case Nil
    have "strip_slashes t = t" using t by (metis last_in_set strip_slashes_id)
    then show ?thesis unfolding Nil by simp
  next
    case (Cons a b)
    then have "segments_ok (take i ts)" using ok by (auto simp: segments_ok_def)
    then show ?thesis using strip_slashed[of "take i ts" t] Cons strip_slashes_snoc[of ?p] by simp
  qed
  then have "breadcrumbSegmentsFromUri (''local://'' @ ?p @ ''/'') = relative_crumbs [] (t # take i ts)"
    unfolding local_breadcrumbs_uri using plain_crumbs(2)[OF ok nb assms(3)] by simp
  then show "breadcrumbSegmentsFromUri (crumb_uri (relative_crumbs [] (t # ts) ! i)) =
      take (Suc i) (relative_crumbs [] (t # ts))"
    unfolding uri relative_crumbs_take[symmetric] take_Suc_Cons .
qed

definition local_path_ok :: "string \<Rightarrow> bool" where
  "local_path_ok path \<longleftrightarrow>
     no_line_break path \<and> (js_startsWith path ''//'' \<longrightarrow> localUncPath path \<noteq> None)"

lemma no_break_strip: "no_line_break p \<Longrightarrow> no_line_break (strip_slashes p)"
  using strip_slashes_prefix[of p] by (metis no_break_append)

lemma first_segment:
  assumes "r \<noteq> []" and "\<not> js_startsWith r ''/''"
  obtains h t where "js_split (CHR ''/'') r = h # t" and "nonempty_parts (js_split (CHR ''/'') r) = h # nonempty_parts t"
    and "hd (js_split (CHR ''/'') r) = h"
proof -
  obtain h t where ht: "js_split (CHR ''/'') r = h # t" by (cases "js_split (CHR ''/'') r") auto
  have "h \<noteq> []" using assms js_split_hd[of "CHR ''/''" r] ht by (cases r) auto
  with that ht show thesis by (simp add: nonempty_parts_def)
qed

lemma clickable_local:
  assumes "\<not> isNetworkUri u" and "\<not> isRemoteUri u" and "local_path_ok (strip_prefix ''local://'' u)"
  shows "clickable (breadcrumbSegmentsFromUri u)"
proof -
  define q where "q = strip_slashes (strip_prefix ''local://'' u)"
  have bs: "breadcrumbSegmentsFromUri u = local_crumbs u q"
    using local_breadcrumbs[OF assms(1,2)] by (simp add: q_def)
  have q: "strip_slashes q = q" "localUncPath q = localUncPath (strip_prefix ''local://'' u)"
    by (simp_all add: q_def localUncPath_def)
  have nb: "no_line_break q" using assms(3) no_break_strip by (simp add: local_path_ok_def q_def)
  let ?ps = "nonempty_parts (js_split (CHR ''/'') q)"
  have ps: "segments_ok ?ps" "\<And>p. p \<in> set ?ps \<Longrightarrow> no_line_break p"
    using segments_ok_parts segs_no_break[OF nb] by auto
  consider (unc) w where "localUncPath q = Some w"
    | (drive) d rest where "localUncPath q = None" "drive_path_match q = Some (d, rest)"
    | (none) "localUncPath q = None" "drive_path_match q = None" "?ps = []"
    | (plain) t ts where "localUncPath q = None" "drive_path_match q = None" "?ps = t # ts"
    by (cases "localUncPath q"; cases "drive_path_match q"; cases ?ps) auto
  then show ?thesis
  proof cases
    case unc
    then show ?thesis using clickable_unc q(1) bs by metis
  next
    case drive
    then show ?thesis using clickable_drive bs by metis
  next
    case none
    then show ?thesis using bs by (simp add: local_crumbs_def clickable_def)
  next
    case (plain t ts)
    have ps': "segments_ok (t # ts)" "\<And>p. p \<in> set (t # ts) \<Longrightarrow> no_line_break p"
      using ps unfolding plain(3) by auto
    show ?thesis
    proof (cases "js_startsWith q ''/''")
      case True
      then obtain r where r: "q = CHR ''/'' # r" by (auto simp: js_startsWith_iff)
      have "r \<noteq> []" using r q(1) by auto
      moreover have "\<not> js_startsWith r ''/''"
      proof
        assume "js_startsWith r ''/''"
        then have "js_startsWith q ''//''" by (simp add: r)
        then have "js_startsWith (strip_prefix ''local://'' u) ''//''"
          using strip_slashes_prefix[of "strip_prefix ''local://'' u"] unfolding q_def js_startsWith_iff
          by (metis append_assoc)
        then show False using assms(3) plain(1) q(2) by (simp add: local_path_ok_def)
      qed
      ultimately obtain h t' where h: "js_split (CHR ''/'') r = h # t'"
        "nonempty_parts (js_split (CHR ''/'') r) = h # nonempty_parts t'" "hd (js_split (CHR ''/'') r) = h"
        using first_segment by metis
      have "?ps = nonempty_parts (js_split (CHR ''/'') r)" by (simp add: r nonempty_parts_def)
      then have "t = h" using h(2) plain(3) by simp
      moreover have "strip_prefix ''/'' q = r" by (simp add: r strip_prefix_def)
      ultimately have "\<not> (\<exists>l. is_ascii_letter l \<and> t = [l, CHR '':''])"
        using drive_iff[of q] nb plain(2) h(3) by (simp add: r no_line_break_def)
      then have c: "clickable (crumbs_from (\<lambda>c. ''local://'' @ c) [] (t # ts))"
        using clickable_absolute ps' by blast
      have "js_startsWith q ''/'' = True" using True by simp
      then have "local_crumbs u q = crumbs_from (\<lambda>c. ''local://'' @ c) [] (t # ts)"
        unfolding local_crumbs_def plain(1,2) option.case plain(3) Let_def
        by (simp only: if_True crumbs_from_Nil list.distinct not_False_eq_True)
      with c show ?thesis unfolding bs by (simp only:)
    next
      case False
      have "q \<noteq> []" using plain(3) by (auto simp: nonempty_parts_def)
      with False obtain h t' where h: "js_split (CHR ''/'') q = h # t'"
        "nonempty_parts (js_split (CHR ''/'') q) = h # nonempty_parts t'" "hd (js_split (CHR ''/'') q) = h"
        using first_segment by metis
      then have "t = h" using plain(3) by simp
      moreover have "strip_prefix ''/'' q = q" using False by (simp add: strip_prefix_def)
      ultimately have "\<not> (\<exists>l. is_ascii_letter l \<and> t = [l, CHR '':''])"
        using drive_iff[of q] nb plain(2) h(3) by simp
      then have "clickable (relative_crumbs [] (t # ts))" using clickable_relative ps' by blast
      moreover have "local_crumbs u q = relative_crumbs [] (t # ts)"
        unfolding local_crumbs_def plain(1,2) option.case plain(3) Let_def using False by (simp add: Let_def)
      ultimately show ?thesis unfolding bs by simp
    qed
  qed
qed

section \<open>Properties\<close>

text \<open>A breadcrumb leads where it says. For every URI, network, remote or local, on a share,
  on a drive, absolute or relative, navigating to the crumb at position i shows exactly the
  first i + 1 crumbs again, labels and targets alike. Local paths must not contain line
  breaks, and one that begins with two slashes must name a server and a share.\<close>

theorem crumbs_lead_to_prefix:
  assumes "isNetworkUri u \<or> isRemoteUri u \<or> local_path_ok (strip_prefix ''local://'' u)"
    and "i < length (breadcrumbSegmentsFromUri u)"
  shows "breadcrumbSegmentsFromUri (crumb_uri (breadcrumbSegmentsFromUri u ! i)) =
    take (Suc i) (breadcrumbSegmentsFromUri u)"
  using clickable_network clickable_remote clickable_local assms unfolding clickable_def by blast

theorem crumbs_lead_to_prefix_witness:
  "map crumb_label (breadcrumbSegmentsFromUri ''local:///home/ann/src'') = [''home'', ''ann'', ''src''] \<and>
   map crumb_label (breadcrumbSegmentsFromUri
     (crumb_uri (breadcrumbSegmentsFromUri ''local:///home/ann/src'' ! 1))) = [''home'', ''ann'']"
proof -
  have bs: "breadcrumbSegmentsFromUri ''local:///home/ann/src'' =
      [\<lparr>crumb_label = ''home'', crumb_uri = ''local:///home''\<rparr>,
       \<lparr>crumb_label = ''ann'', crumb_uri = ''local:///home/ann''\<rparr>,
       \<lparr>crumb_label = ''src'', crumb_uri = ''local:///home/ann/src''\<rparr>]" by code_simp
  have "local_path_ok (strip_prefix ''local://'' ''local:///home/ann/src'')" by code_simp
  from crumbs_lead_to_prefix[OF disjI2[OF disjI2[OF this]], of 1]
  show ?thesis by (simp add: bs take_Suc)
qed

text \<open>A remote URI keeps its parts. Whatever path is put behind a profile id that contains
  neither a slash nor a colon, the scheme, the profile and the path are read back, the path
  without trailing slashes and with a leading one, and building the URI again from these
  parts gives the same URI.\<close>

theorem remote_uri_roundtrip:
  assumes "scheme \<in> set REMOTE_URI_SCHEMES" and "pid \<noteq> []"
    and "CHR ''/'' \<notin> set pid" and "CHR '':'' \<notin> set pid"
  shows "let u = buildRemoteUri scheme pid path; p = remotePathFromUri u in
    isRemoteUri u \<and> uriScheme u = Some scheme \<and> profileIdFromRemoteUri u = Some pid \<and>
    p = Some (if strip_slashes path = [] then ''/''
              else if js_startsWith path ''/'' then strip_slashes path else ''/'' @ strip_slashes path) \<and>
    buildRemoteUri scheme pid (the p) = u"
proof -
  obtain t where t: "remote_path path = ''/'' @ t"
    using remote_path_slash(1)[of path] unfolding js_startsWith_iff by auto
  have u: "buildRemoteUri scheme pid path = scheme @ ''://'' @ pid @ ''/'' @ t"
    unfolding buildRemoteUri_path t ..
  have "last pid \<noteq> CHR '':''" using assms(2,4) by (metis last_in_set)
  then have *: "last pid \<noteq> CHR '':'' \<or> \<not> js_startsWith t ''/''" ..
  note p = profile_of_remote[OF assms(1-3) *, folded u, folded t]
  have "js_startsWith (strip_slashes path) ''/'' = js_startsWith path ''/''" if "strip_slashes path \<noteq> []"
  proof -
    from that obtain c cs where "strip_slashes path = c # cs" by (cases "strip_slashes path") auto
    with strip_slashes_prefix[of path] show ?thesis
      by (metis append_Cons js_startsWith_Cons(1) js_startsWith_Nil)
  qed
  then have path: "remote_path path = (if strip_slashes path = [] then ''/''
      else if js_startsWith path ''/'' then strip_slashes path else ''/'' @ strip_slashes path)"
    by (auto simp: remote_path_def Let_def)
  have "isRemoteUri (buildRemoteUri scheme pid path)" unfolding u remote_iff using assms(1) by blast
  moreover have "uriScheme (buildRemoteUri scheme pid path) = Some scheme"
    unfolding u by (rule scheme_remote[OF assms(1)])
  moreover have "buildRemoteUri scheme pid (remote_path path) = buildRemoteUri scheme pid path"
    by (simp add: buildRemoteUri_path)
  ultimately show ?thesis unfolding Let_def p path[symmetric] option.sel by blast
qed

theorem remote_uri_roundtrip_witness:
  "remotePathFromUri (buildRemoteUri ''sftp'' ''home-nas'' ''photos/2024//'') = Some ''/photos/2024'' \<and>
   profileIdFromRemoteUri (buildRemoteUri ''sftp'' ''home-nas'' ''photos/2024//'') = Some ''home-nas''"
  using remote_uri_roundtrip[of "''sftp''" "''home-nas''" "''photos/2024//''"]
  by (simp add: REMOTE_URI_SCHEMES_def Let_def strip_slashes_def)

end
