(* ===== verification/Columns.thy ===== *)
theory Columns
  imports UriFacts PaneSort Samples
begin

text \<open>
  The columns view (\<open>pane/ColumnsView.tsx\<close>): the stack of ancestors that is shown, and the
  listings in flight for its columns. A callback of the component is an event; timers
  are events that may arrive at any time.
\<close>

section \<open>The stack of ancestors\<close>

definition MAX_COLUMNS :: nat where
  "MAX_COLUMNS = 4"

text \<open>The loop of \<open>uriStack\<close>: the set \<open>visited\<close> always holds the elements of \<open>ancestors\<close>, and
  the result is both the list and the last \<open>current\<close>. It ends because a parent is smaller
  (\<open>parent_size\<close>).\<close>

function stack_loop :: "string \<Rightarrow> string list \<Rightarrow> string \<Rightarrow> string list \<times> string" where
  "stack_loop rootUriValue ancestors current =
     (if current = rootUriValue then (ancestors, current)
      else case parentUriFromUri current of
             None \<Rightarrow> (ancestors, current)
           | Some parent \<Rightarrow>
               (if parent = [] \<or> parent \<in> set ancestors then (ancestors, current)
                else stack_loop rootUriValue (ancestors @ [parent]) parent))"
  by pat_completeness auto

termination
  by (relation "measure (\<lambda>(_, _, current). uri_size current)") (auto simp: parent_size)

declare stack_loop.simps [simp del]

definition uriStack :: "string \<Rightarrow> string \<Rightarrow> string list" where
  "uriStack activeUri rootUriValue =
     (if activeUri = rootUriValue then [activeUri]
      else if \<not> isSupportedNavigationUri activeUri then [rootUriValue, activeUri]
      else let (ancestors, current) = stack_loop rootUriValue [activeUri] activeUri
           in if current = rootUriValue then rev ancestors
              else let navigationRoot = rootUriForUri activeUri
                   in if navigationRoot \<in> set ancestors then rev ancestors
                      else rev (ancestors @ [navigationRoot]))"

definition visibleStack :: "string \<Rightarrow> string \<Rightarrow> string list" where
  "visibleStack activeUri rootUri = slice_last MAX_COLUMNS (uriStack activeUri rootUri)"

section \<open>Listings in flight\<close>

text \<open>A \<open>timeoutId\<close> only serves to cancel the timer; a cancelled timer would find its request
  gone, so the handle is left out.\<close>

record InflightMeta =
  inf_uri :: string
  inf_sessionId :: "string option"
  inf_entries :: "FileEntryDto list"
  inf_settled :: bool

record ColumnsState =
  cv_inflight :: "(string, InflightMeta) obj"
  cv_columns :: "(string, FileEntryDto list) obj"

definition findMeta :: "(string, InflightMeta) obj \<Rightarrow> DirectoryBatchEventDto \<Rightarrow> (InflightMeta \<times> string) option" where
  "findMeta inflight batch =
     (case obj_find (\<lambda>m. inf_sessionId m = Some (batch_sessionId batch)) inflight of
        Some (reqId, m) \<Rightarrow> Some (m, reqId)
      | None \<Rightarrow>
          (if batch_requestId batch = [] then None
           else case obj_get inflight (batch_requestId batch) of
                  Some m \<Rightarrow> Some (m, batch_requestId batch)
                | None \<Rightarrow> None))"

definition settle_column :: "ColumnsState \<Rightarrow> string \<Rightarrow> string \<Rightarrow> FileEntryDto list \<Rightarrow> ColumnsState" where
  "settle_column st requestId uri entries =
     st\<lparr>cv_inflight := obj_del requestId (cv_inflight st),
        cv_columns := obj_set uri (prependParentDirectoryEntry uri entries) (cv_columns st)\<rparr>"

definition onDirectoryBatch :: "Platform \<Rightarrow> DirectoryBatchEventDto \<Rightarrow> ColumnsState \<Rightarrow> ColumnsState" where
  "onDirectoryBatch pf batch st =
     (case findMeta (cv_inflight st) batch of
        None \<Rightarrow> st
      | Some (meta, requestId) \<Rightarrow>
          (if inf_settled meta then st
           else if batch_error batch \<noteq> None then settle_column st requestId (inf_uri meta) []
           else let entries = inf_entries meta @ batch_entries batch;
                    st1 = st\<lparr>cv_inflight := obj_set requestId (meta\<lparr>inf_entries := entries\<rparr>) (cv_inflight st)\<rparr>
                in if batch_isComplete batch
                   then settle_column st1 requestId (inf_uri meta)
                          (js_sort (\<lambda>a b. localeCompare pf (fe_name a) (fe_name b)) entries)
                   else st1))"

text \<open>The promise of \<open>listStart\<close>, resolved or rejected, and the timer.\<close>

definition onListStarted :: "string \<Rightarrow> string \<Rightarrow> ColumnsState \<Rightarrow> ColumnsState" where
  "onListStarted requestId sessionId st =
     (case obj_get (cv_inflight st) requestId of
        None \<Rightarrow> st
      | Some meta \<Rightarrow>
          (if inf_settled meta then st
           else st\<lparr>cv_inflight := obj_set requestId (meta\<lparr>inf_sessionId := Some sessionId\<rparr>) (cv_inflight st)\<rparr>))"

definition onListFailed :: "string \<Rightarrow> string \<Rightarrow> ColumnsState \<Rightarrow> ColumnsState" where
  "onListFailed requestId uri st =
     (case obj_get (cv_inflight st) requestId of
        None \<Rightarrow> st
      | Some meta \<Rightarrow> if inf_settled meta then st else settle_column st requestId uri [])"

text \<open>The effect: first the cleanup of its previous run, then the listings of visible URIs. The
  request ids come from \<open>createRequestId\<close> and are arguments, one for each URI.\<close>

definition effect_cleanup :: "ColumnsState \<Rightarrow> ColumnsState" where
  "effect_cleanup st = st\<lparr>cv_inflight := []\<rparr>"

definition leave_stack :: "string list \<Rightarrow> ColumnsState \<Rightarrow> ColumnsState" where
  "leave_stack targetUris st =
     st\<lparr>cv_inflight := filter (\<lambda>(_, meta). inf_uri meta \<in> set targetUris) (cv_inflight st)\<rparr>"

definition start_listing :: "string \<times> string \<Rightarrow> ColumnsState \<Rightarrow> ColumnsState" where
  "start_listing = (\<lambda>(uri, requestId) st.
     if list_ex (\<lambda>m. inf_uri m = uri) (obj_values (cv_inflight st)) then st
     else st\<lparr>cv_inflight := obj_set requestId
            \<lparr>inf_uri = uri, inf_sessionId = None, inf_entries = [], inf_settled = False\<rparr>
            (cv_inflight st)\<rparr>)"

definition stack_effect :: "string list \<Rightarrow> string list \<Rightarrow> ColumnsState \<Rightarrow> ColumnsState" where
  "stack_effect visible requestIds st =
     fold start_listing (zip visible requestIds) (leave_stack visible st)"

datatype ColumnsEvent =
    DirectoryBatch DirectoryBatchEventDto
  | ListStarted string string
  | ListFailed string string
  | ListTimedOut string string
  | StackChanged "string list" "string list"

definition columns_step :: "Platform \<Rightarrow> ColumnsEvent \<Rightarrow> ColumnsState \<Rightarrow> ColumnsState" where
  "columns_step pf ev st =
     (case ev of
        DirectoryBatch batch \<Rightarrow> onDirectoryBatch pf batch st
      | ListStarted requestId sessionId \<Rightarrow> onListStarted requestId sessionId st
      | ListFailed requestId uri \<Rightarrow> onListFailed requestId uri st
      | ListTimedOut requestId uri \<Rightarrow> onListFailed requestId uri st
      | StackChanged visible requestIds \<Rightarrow> stack_effect visible requestIds (effect_cleanup st))"

section \<open>Facts on the stack\<close>

text \<open>The chain of parents, without the bookkeeping of the loop.\<close>

function ancestors_of :: "string \<Rightarrow> string list" where
  "ancestors_of uri =
     uri # (case parentUriFromUri uri of None \<Rightarrow> [] | Some parent \<Rightarrow> ancestors_of parent)"
  by pat_completeness auto

termination
  by (relation "measure uri_size") (auto simp: parent_size)

declare ancestors_of.simps [simp del]


definition up_to :: "string \<Rightarrow> string list \<Rightarrow> string list" where
  "up_to r xs = takeWhile (\<lambda>x. x \<noteq> r) xs @ (if r \<in> set xs then [r] else [])"

lemma up_to_Cons [simp]: "up_to r (x # xs) = x # (if x = r then [] else up_to r xs)"
  by (auto simp: up_to_def)

lemma up_to_Nil [simp]: "up_to r [] = []"
  by (simp add: up_to_def)

lemma up_to_last: "r \<in> set xs \<Longrightarrow> last (up_to r xs) = r"
  by (simp add: up_to_def)

lemma up_to_all: "r \<notin> set xs \<Longrightarrow> up_to r xs = xs"
  by (auto simp: up_to_def intro: takeWhile_eq_all_conv[THEN iffD2])

lemma ancestors_nonempty [simp]: "ancestors_of u \<noteq> []"
  by (subst ancestors_of.simps) simp

lemma ancestors_smaller: "a \<in> set (tl (ancestors_of u)) \<Longrightarrow> uri_size a < uri_size u"
proof (induction u rule: ancestors_of.induct)
  case (1 u)
  obtain v where v: "parentUriFromUri u = Some v" and a: "a \<in> set (ancestors_of v)"
    using "1.prems" unfolding ancestors_of.simps[of u] by (cases "parentUriFromUri u") auto
  have "a = v \<or> a \<in> set (tl (ancestors_of v))"
    using a unfolding ancestors_of.simps[of v] by simp
  with "1.IH"[OF v] parent_size[OF v] show ?case by auto
qed

lemma distinct_ancestors: "distinct (ancestors_of u)"
proof (induction u rule: ancestors_of.induct)
  case (1 u)
  have "u \<notin> set (tl (ancestors_of u))" using ancestors_smaller by blast
  with 1 show ?case by (subst ancestors_of.simps) (auto simp: ancestors_of.simps[of u] split: option.splits)
qed

lemma stack_loop_eq:
  "(\<forall>a \<in> set anc. uri_size cur \<le> uri_size a) \<Longrightarrow>
   stack_loop r anc cur =
     (anc @ tl (up_to r (ancestors_of cur)), last (up_to r (ancestors_of cur)))"
proof (induction cur arbitrary: anc rule: ancestors_of.induct)
  case (1 u)
  show ?case
  proof (cases "u = r \<or> parentUriFromUri u = None")
    case True
    then show ?thesis by (auto simp: stack_loop.simps[of r anc u] ancestors_of.simps[of u])
  next
    case False
    then obtain v where v: "parentUriFromUri u = Some v" and r: "u \<noteq> r" by auto
    note less = parent_size[OF v]
    have new: "v \<noteq> []" "v \<notin> set anc" using v parent_nonempty 1(2) less by fastforce+
    have "stack_loop r (anc @ [v]) v =
        ((anc @ [v]) @ tl (up_to r (ancestors_of v)), last (up_to r (ancestors_of v)))"
      by (rule "1.IH"[OF v]) (use 1(2) less in fastforce)
    moreover obtain xs where "up_to r (ancestors_of v) = v # xs"
      unfolding ancestors_of.simps[of v] by simp
    ultimately show ?thesis
      using v r new by (simp add: stack_loop.simps[of r anc u] ancestors_of.simps[of u])
  qed
qed

section \<open>Facts on listings\<close>

text \<open>An event of the listing with request id \<open>r\<close> and session \<open>s\<close> that does not end it, or an
  event of another listing.\<close>

definition own_batch :: "string \<Rightarrow> string \<Rightarrow> DirectoryBatchEventDto \<Rightarrow> bool" where
  "own_batch r s b \<longleftrightarrow> batch_sessionId b = s \<and> batch_requestId b = r \<and> batch_error b = None"

fun keeps_listing :: "string \<Rightarrow> string \<Rightarrow> ColumnsEvent \<Rightarrow> bool" where
  "keeps_listing r s (DirectoryBatch b) =
     (own_batch r s b \<and> \<not> batch_isComplete b \<or> batch_sessionId b \<noteq> s \<and> batch_requestId b \<noteq> r)"
| "keeps_listing r s (ListStarted r' s') = (r' = r \<and> s' = s \<or> r' \<noteq> r \<and> s' \<noteq> s)"
| "keeps_listing r s (ListFailed r' u) = (r' \<noteq> r)"
| "keeps_listing r s (ListTimedOut r' u) = (r' \<noteq> r)"
| "keeps_listing r s (StackChanged visible ids) = False"

fun entries_for :: "string \<Rightarrow> ColumnsEvent \<Rightarrow> FileEntryDto list" where
  "entries_for r (DirectoryBatch b) = (if batch_requestId b = r then batch_entries b else [])"
| "entries_for r _ = []"

definition listing_at :: "ColumnsState \<Rightarrow> string \<Rightarrow> string \<Rightarrow> string \<Rightarrow> FileEntryDto list \<Rightarrow> bool" where
  "listing_at st r s u xs \<longleftrightarrow>
     distinct (obj_keys (cv_inflight st)) \<and>
     (\<exists>m. obj_get (cv_inflight st) r = Some m \<and> inf_uri m = u \<and> inf_entries m = xs \<and>
        \<not> inf_settled m \<and> (inf_sessionId m = None \<or> inf_sessionId m = Some s)) \<and>
     (\<forall>r' m. r' \<noteq> r \<and> obj_get (cv_inflight st) r' = Some m \<longrightarrow> inf_sessionId m \<noteq> Some s)"

lemma find_by_session:
  assumes "distinct (obj_keys inflight)" and "findMeta inflight b = Some (m, r)"
  shows "obj_get inflight r = Some m \<and>
    (inf_sessionId m = Some (batch_sessionId b) \<or> r = batch_requestId b)"
  using assms obj_find_Some[of "\<lambda>m. inf_sessionId m = Some (batch_sessionId b)" inflight]
  by (auto simp: findMeta_def split: option.splits if_splits)

lemma find_own:
  assumes "listing_at st r s u xs" and "batch_sessionId b = s" and "batch_requestId b = r" and "r \<noteq> []"
  shows "\<exists>m. findMeta (cv_inflight st) b = Some (m, r) \<and> obj_get (cv_inflight st) r = Some m"
proof (cases "obj_find (\<lambda>m. inf_sessionId m = Some (batch_sessionId b)) (cv_inflight st)")
  case None
  then show ?thesis using assms by (auto simp: findMeta_def listing_at_def)
next
  case (Some e)
  obtain r' m where e: "e = (r', m)" by (cases e)
  have "(r', m) \<in> set (cv_inflight st)" "inf_sessionId m = Some s"
    using obj_find_Some Some assms(2) unfolding e by fastforce+
  moreover from this have "obj_get (cv_inflight st) r' = Some m"
    using assms(1) by (simp add: listing_at_def)
  ultimately have "r' = r" using assms(1) unfolding listing_at_def by blast
  with Some e \<open>obj_get (cv_inflight st) r' = Some m\<close> show ?thesis by (auto simp: findMeta_def)
qed

lemma find_foreign:
  assumes "listing_at st r s u xs" and "batch_sessionId b \<noteq> s" and "batch_requestId b \<noteq> r"
    and "findMeta (cv_inflight st) b = Some (m, r')"
  shows "r' \<noteq> r \<and> obj_get (cv_inflight st) r' = Some m"
  using find_by_session[OF _ assms(4)] assms(1-3) unfolding listing_at_def by auto

lemma listing_other:
  assumes "listing_at st r s u xs" and "r' \<noteq> r" and "inf_sessionId m \<noteq> Some s"
  shows "listing_at (st\<lparr>cv_inflight := obj_set r' m (cv_inflight st)\<rparr>) r s u xs"
  using assms by (auto simp: listing_at_def)

lemma listing_settled:
  assumes "listing_at st r s u xs" and "r' \<noteq> r"
  shows "listing_at (settle_column st r' v es) r s u xs"
  using assms by (auto simp: listing_at_def settle_column_def)

lemma listing_own:
  assumes "listing_at st r s u xs" and "inf_uri m = u" and "inf_entries m = ys" and "\<not> inf_settled m"
    and "inf_sessionId m = None \<or> inf_sessionId m = Some s"
  shows "listing_at (st\<lparr>cv_inflight := obj_set r m (cv_inflight st)\<rparr>) r s u ys"
  using assms by (auto simp: listing_at_def)

lemma foreign_batch_keeps:
  assumes "listing_at st r s u xs" and "batch_sessionId b \<noteq> s" and "batch_requestId b \<noteq> r"
  shows "listing_at (onDirectoryBatch pf b st) r s u xs"
proof (cases "findMeta (cv_inflight st) b")
  case (Some e)
  obtain m r' where e: "e = (m, r')" by (cases e)
  have r': "r' \<noteq> r" "obj_get (cv_inflight st) r' = Some m"
    using find_foreign[OF assms] Some e by auto
  then have m: "inf_sessionId m \<noteq> Some s" using assms(1) by (auto simp: listing_at_def)
  let ?m = "m\<lparr>inf_entries := inf_entries m @ batch_entries b\<rparr>"
  have st1: "listing_at (st\<lparr>cv_inflight := obj_set r' ?m (cv_inflight st)\<rparr>) r s u xs"
    using listing_other[OF assms(1) r'(1), of ?m] m by simp
  show ?thesis
    using assms(1) listing_settled[OF assms(1) r'(1)] listing_settled[OF st1 r'(1)] st1
    unfolding onDirectoryBatch_def Some e by (simp add: Let_def)
qed (use assms(1) in \<open>simp add: onDirectoryBatch_def\<close>)

lemma own_batch_adds:
  assumes "listing_at st r s u xs" and "own_batch r s b" and "r \<noteq> []" and "\<not> batch_isComplete b"
  shows "listing_at (onDirectoryBatch pf b st) r s u (xs @ batch_entries b)"
proof -
  obtain m where m: "findMeta (cv_inflight st) b = Some (m, r)" "obj_get (cv_inflight st) r = Some m"
    using find_own[OF assms(1) _ _ assms(3)] assms(2) unfolding own_batch_def by blast
  then have mm: "inf_uri m = u" "inf_entries m = xs" "\<not> inf_settled m"
    "inf_sessionId m = None \<or> inf_sessionId m = Some s"
    using assms(1) by (auto simp: listing_at_def)
  have "onDirectoryBatch pf b st =
      st\<lparr>cv_inflight := obj_set r (m\<lparr>inf_entries := inf_entries m @ batch_entries b\<rparr>) (cv_inflight st)\<rparr>"
    using m(1) mm(3) assms(2,4) by (simp add: onDirectoryBatch_def own_batch_def Let_def)
  then show ?thesis
    using mm listing_own[OF assms(1), of "m\<lparr>inf_entries := inf_entries m @ batch_entries b\<rparr>"] by simp
qed

lemma started_keeps:
  assumes "listing_at st r s u xs" and "r' = r \<and> s' = s \<or> r' \<noteq> r \<and> s' \<noteq> s"
  shows "listing_at (onListStarted r' s' st) r s u xs"
proof (cases "obj_get (cv_inflight st) r'")
  case (Some m)
  show ?thesis
  proof (cases "r' = r")
    case True
    then have "inf_uri m = u" "inf_entries m = xs" "\<not> inf_settled m" "s' = s"
      using assms Some by (auto simp: listing_at_def)
    then show ?thesis
      using Some True listing_own[OF assms(1), of "m\<lparr>inf_sessionId := Some s\<rparr>"]
      by (simp add: onListStarted_def)
  next
    case False
    then show ?thesis
      using assms Some listing_other[OF assms(1) False, of "m\<lparr>inf_sessionId := Some s'\<rparr>"]
      by (auto simp: onListStarted_def)
  qed
qed (use assms(1) in \<open>simp add: onListStarted_def\<close>)

lemma failed_keeps:
  assumes "listing_at st r s u xs" and "r' \<noteq> r"
  shows "listing_at (onListFailed r' v st) r s u xs"
  using assms(1) listing_settled[OF assms] by (simp add: onListFailed_def split: option.split)

lemma listing_step:
  assumes "listing_at st r s u xs" and "keeps_listing r s ev" and "r \<noteq> []"
  shows "listing_at (columns_step pf ev st) r s u (xs @ entries_for r ev)"
proof (cases ev)
  case (DirectoryBatch b)
  then show ?thesis
    using assms own_batch_adds[OF assms(1)] foreign_batch_keeps[OF assms(1)]
    by (auto simp: columns_step_def own_batch_def)
qed (use assms started_keeps[OF assms(1)] failed_keeps[OF assms(1)] in \<open>auto simp: columns_step_def\<close>)

lemma listing_run:
  "listing_at st r s u xs \<Longrightarrow> list_all (keeps_listing r s) evs \<Longrightarrow> r \<noteq> [] \<Longrightarrow>
   listing_at (fold (columns_step pf) evs st) r s u (xs @ concat (map (entries_for r) evs))"
proof (induction evs arbitrary: st xs)
  case (Cons ev evs)
  then have "listing_at (columns_step pf ev st) r s u (xs @ entries_for r ev)"
    by (intro listing_step) auto
  from Cons.IH[OF this] Cons.prems show ?case by simp
qed simp

lemma final_batch:
  assumes "listing_at st r s u xs" and "own_batch r s c" and "r \<noteq> []" and "batch_isComplete c"
  shows "cv_columns (onDirectoryBatch pf c st) = obj_set u
      (prependParentDirectoryEntry u
        (js_sort (\<lambda>a b. localeCompare pf (fe_name a) (fe_name b)) (xs @ batch_entries c)))
      (cv_columns st) \<and>
    obj_get (cv_inflight (onDirectoryBatch pf c st)) r = None"
proof -
  obtain m where m: "findMeta (cv_inflight st) c = Some (m, r)" "obj_get (cv_inflight st) r = Some m"
    using find_own[OF assms(1) _ _ assms(3)] assms(2) unfolding own_batch_def by blast
  then have "inf_uri m = u" "inf_entries m = xs" "\<not> inf_settled m"
    using assms(1) by (auto simp: listing_at_def)
  with m assms show ?thesis
    by (simp add: onDirectoryBatch_def own_batch_def settle_column_def Let_def)
qed

section \<open>Properties\<close>

text \<open>C38: The columns are the chain of parents. For every URI that can be navigated to, the loop
  that collects the ancestors ends, and its guard against cycles is never needed: the stack
  is the chain of parents of the active URI, outermost first, from the pane's root if that
  is one of them and otherwise from the root of the URI's own provider; no column occurs
  twice and the last one is the active URI.\<close>

theorem columns_are_ancestors:
  assumes "isSupportedNavigationUri u"
  shows "uriStack u r =
      (if r \<in> set (ancestors_of u) then rev (up_to r (ancestors_of u))
       else (if rootUriForUri u \<in> set (ancestors_of u) then [] else [rootUriForUri u])
            @ rev (ancestors_of u)) \<and>
    distinct (uriStack u r) \<and> last (uriStack u r) = u"
proof -
  let ?as = "ancestors_of u"
  have hd: "\<exists>xs. ?as = u # xs" by (subst ancestors_of.simps) auto
  then obtain xs where xs: "?as = u # xs" ..
  have "stack_loop r [u] u = ([u] @ tl (up_to r ?as), last (up_to r ?as))"
    by (rule stack_loop_eq) simp
  then have loop: "stack_loop r [u] u = (up_to r ?as, last (up_to r ?as))" by (simp add: xs)
  have last_ne: "last (up_to r ?as) \<noteq> r" if "r \<notin> set ?as"
    using that by (metis ancestors_nonempty last_in_set up_to_all)
  have eq: "uriStack u r = (if r \<in> set ?as then rev (up_to r ?as)
       else (if rootUriForUri u \<in> set ?as then [] else [rootUriForUri u]) @ rev ?as)"
  proof (cases "u = r")
    case True
    then show ?thesis unfolding xs by (simp add: uriStack_def)
  next
    case False
    then show ?thesis
      using assms last_ne up_to_last[of r ?as] up_to_all[of r ?as]
      unfolding uriStack_def loop by (auto simp: Let_def)
  qed
  moreover have "distinct (up_to r ?as)"
    using distinct_ancestors[of u] by (auto simp: up_to_def dest: set_takeWhileD)
  then have "distinct (uriStack u r)" unfolding eq using distinct_ancestors[of u] by auto
  moreover have "last (uriStack u r) = u" unfolding eq by (auto simp: xs last_rev)
  ultimately show ?thesis by blast
qed

theorem columns_are_ancestors_witness:
  "uriStack ''local:///home/ann/src'' ''local:///home'' =
     [''local:///home'', ''local:///home/ann'', ''local:///home/ann/src'']"
proof -
  have "ancestors_of ''local:///home/ann/src'' =
      [''local:///home/ann/src'', ''local:///home/ann'', ''local:///home'', ''local:///'']"
  proof -
    have "parentUriFromUri ''local:///home/ann/src'' = Some ''local:///home/ann''"
      "parentUriFromUri ''local:///home/ann'' = Some ''local:///home''"
      "parentUriFromUri ''local:///home'' = Some ''local:///''"
      "parentUriFromUri ''local:///'' = None" by code_simp+
    then show ?thesis by (simp add: ancestors_of.simps)
  qed
  moreover have "isSupportedNavigationUri ''local:///home/ann/src''" by code_simp
  ultimately show ?thesis
    using columns_are_ancestors[of "''local:///home/ann/src''" "''local:///home''"] by simp
qed


text \<open>C20: a column receives its whole listing, whenever the reply to its request arrives. While
  a listing is in flight, its batches, the reply that names its session and any events of
  other listings may come in any order, the batches even before the reply; after the last
  batch the column of its URI holds the entries of all its batches in order of their names,
  behind the entry for the parent directory, and the listing is no longer in flight.\<close>

theorem column_receives_listing:
  assumes "distinct (obj_keys (cv_inflight st))" and "r \<noteq> []"
    and "obj_get (cv_inflight st) r =
      Some \<lparr>inf_uri = u, inf_sessionId = None, inf_entries = [], inf_settled = False\<rparr>"
    and "\<forall>m \<in> snd ` set (cv_inflight st). inf_sessionId m \<noteq> Some s"
    and "list_all (keeps_listing r s) evs" and "own_batch r s c" and "batch_isComplete c"
  shows "let st' = fold (columns_step pf) (evs @ [DirectoryBatch c]) st in
    obj_get (cv_columns st') u = Some (prependParentDirectoryEntry u
      (js_sort (\<lambda>a b. localeCompare pf (fe_name a) (fe_name b))
        (concat (map (entries_for r) (evs @ [DirectoryBatch c]))))) \<and>
    obj_get (cv_inflight st') r = None"
proof -
  have "listing_at st r s u []"
    using assms(1,3,4) by (auto simp: listing_at_def dest: obj_get_value)
  from listing_run[OF this assms(5,2), of pf] have
    "listing_at (fold (columns_step pf) evs st) r s u (concat (map (entries_for r) evs))" by simp
  from final_batch[OF this assms(6,2,7), of pf] assms(6) show ?thesis
    by (simp add: columns_step_def own_batch_def)
qed

definition sample_batch :: "string \<Rightarrow> FileEntryDto list \<Rightarrow> bool \<Rightarrow> DirectoryBatchEventDto" where
  "sample_batch sess es fin =
     \<lparr>batch_sessionId = sess, batch_requestId = ''r1'', batch_uri = ''local:///'',
      batch_entries = es, batch_batchIndex = 0, batch_isComplete = fin, batch_totalHint = None,
      batch_error = None\<rparr>"

theorem column_receives_listing_witness:
  "\<forall>pf. obj_get (cv_columns (fold (columns_step pf)
       [DirectoryBatch (sample_batch ''s1'' [entry_b] False), ListStarted ''r1'' ''s1'',
        DirectoryBatch (sample_batch ''s1'' [entry_a] True)]
       (stack_effect [''local:///''] [''r1''] \<lparr>cv_inflight = [], cv_columns = []\<rparr>))) ''local:///'' =
     Some (js_sort (\<lambda>a b. localeCompare pf (fe_name a) (fe_name b)) [entry_b, entry_a])"
proof
  fix pf
  let ?st = "stack_effect [''local:///''] [''r1''] \<lparr>cv_inflight = [], cv_columns = []\<rparr>"
  let ?evs = "[DirectoryBatch (sample_batch ''s1'' [entry_b] False), ListStarted ''r1'' ''s1'']"
  let ?c = "sample_batch ''s1'' [entry_a] True"
  have st: "?st = \<lparr>cv_inflight = [(''r1'', \<lparr>inf_uri = ''local:///'', inf_sessionId = None,
      inf_entries = [], inf_settled = False\<rparr>)], cv_columns = []\<rparr>"
    by (simp add: stack_effect_def leave_stack_def start_listing_def)
  have es: "concat (map (entries_for ''r1'') (?evs @ [DirectoryBatch ?c])) = [entry_b, entry_a]"
    by (simp add: sample_batch_def)
  have "parentUriFromUri ''local:///'' = None" by code_simp
  then have pre: "prependParentDirectoryEntry ''local:///'' xs = xs" for xs
    by (simp add: prependParentDirectoryEntry_def createParentDirectoryEntry_def)
  have "obj_get (cv_columns (fold (columns_step pf) (?evs @ [DirectoryBatch ?c]) ?st)) ''local:///'' =
      Some (prependParentDirectoryEntry ''local:///''
        (js_sort (\<lambda>a b. localeCompare pf (fe_name a) (fe_name b))
          (concat (map (entries_for ''r1'') (?evs @ [DirectoryBatch ?c])))))"
    by (rule column_receives_listing[where s = "''s1''", unfolded Let_def, THEN conjunct1])
      (simp_all add: st sample_batch_def own_batch_def)
  then show "obj_get (cv_columns (fold (columns_step pf)
       [DirectoryBatch (sample_batch ''s1'' [entry_b] False), ListStarted ''r1'' ''s1'',
        DirectoryBatch (sample_batch ''s1'' [entry_a] True)] ?st)) ''local:///'' =
     Some (js_sort (\<lambda>a b. localeCompare pf (fe_name a) (fe_name b)) [entry_b, entry_a])"
    unfolding es pre by simp
qed

end
