(* ===== verification/NavController.thy ===== *)
theory NavController
  imports PanelReducer Jobs
begin

text \<open>
  The navigation controller (\<open>navigation/navigationController.ts\<close>). Its functions are
  asynchronous: each is split at its \<open>await\<close> into what it does at once, what it does with the
  reply and what it does afterwards. What they do is a list of effects; the calls to the
  Rust side are effects too, and their replies arguments. The ids of requests come from
  \<open>createRequestId\<close> and are arguments as well.
\<close>

section \<open>Definitions\<close>

record NavigateOptions =
  nav_replace :: "bool option"
  nav_includeHidden :: "bool option"
  nav_softRefresh :: "bool option"
  nav_backgroundRefresh :: "bool option"

record NetworkConnectionDraft =
  draft_scheme :: string
  draft_host :: string
  draft_label :: string
  draft_defaultPath :: string

datatype NavCall =
    ListStart string string PanelId int bool
  | DiscoverNeighborhood string
  | ListArchive string
  | OpenPathWithDefaultApp string
  | RecordVisit string string

datatype NavEffect =
    Dispatch PanelAction
  | Call NavCall
  | ClearSearchResult PanelId
  | SyncTerminalCwd PanelId string
  | SetOperationError "string option"
  | OpenConnectionWizard "NetworkConnectionDraft option"
  | OpenPreviewInOppositePane PanelId FileEntryDto

text \<open>An option that is absent or false.\<close>

definition flag :: "bool option \<Rightarrow> bool" where
  "flag b \<longleftrightarrow> b = Some True"

definition or_default :: "'a option \<Rightarrow> 'a \<Rightarrow> 'a" where
  "or_default x d = (case x of Some v \<Rightarrow> v | None \<Rightarrow> d)"

definition startListing ::
  "PanelId \<Rightarrow> string \<Rightarrow> bool \<Rightarrow> bool \<Rightarrow> string \<Rightarrow> NavEffect list" where
  "startListing panelId uri includeHidden backgroundRefresh requestId =
     [Dispatch (StartRequest panelId requestId backgroundRefresh),
      Call (ListStart uri requestId panelId 256 includeHidden)]"

text \<open>A failed call, in the shape that the controller dispatches it.\<close>

definition pane_failure :: "PanelId \<Rightarrow> string \<Rightarrow> thrown \<Rightarrow> PaneLoadState option \<Rightarrow> NavEffect list" where
  "pane_failure panelId requestId e loadState =
     (let normalized = normalizeIpcError e
      in [Dispatch (SetPaneError panelId (Some requestId) (Some (err_message normalized))
            (Some (err_code normalized))
            (Some (case loadState of Some l \<Rightarrow> l
                   | None \<Rightarrow> loadStateFromBatchError (Some normalized))))])"

text \<open>The reply of \<open>listStart\<close> carries a session id and a request id.\<close>

definition startListing_reply ::
  "PanelId \<Rightarrow> string \<Rightarrow> thrown + (string \<times> string) \<Rightarrow> NavEffect list" where
  "startListing_reply panelId requestId reply =
     (case reply of
        Inl e \<Rightarrow> pane_failure panelId requestId e None
      | Inr (respSessionId, respRequestId) \<Rightarrow>
          [Dispatch (StartSession panelId respRequestId respSessionId)])"

definition loadNetworkNeighborhood :: "PanelId \<Rightarrow> string \<Rightarrow> string \<Rightarrow> NavEffect list" where
  "loadNetworkNeighborhood panelId uri requestId =
     [Dispatch (StartRequest panelId requestId False), Call (DiscoverNeighborhood uri)]"

definition loadNetworkNeighborhood_reply ::
  "PanelId \<Rightarrow> string \<Rightarrow> thrown + (string \<times> FileEntryDto list) \<Rightarrow> NavEffect list" where
  "loadNetworkNeighborhood_reply panelId requestId reply =
     (case reply of
        Inl e \<Rightarrow> pane_failure panelId requestId e None
      | Inr (uri, entries) \<Rightarrow>
          [Dispatch (SetArchiveEntries panelId (Some requestId) uri entries)])"

definition invalid_uri_error :: "PanelId \<Rightarrow> PanelAction" where
  "invalid_uri_error panelId =
     SetPaneError panelId None (Some ''Enter a local path or supported remote URI (sftp://)'')
       (Some ''invalid_uri'') (Some LError)"

definition load :: "PanelTabState \<Rightarrow> PanelId \<Rightarrow> string \<Rightarrow> bool option \<Rightarrow> bool \<Rightarrow> string \<Rightarrow> NavEffect list" where
  "load tab panelId uri includeHidden backgroundRefresh requestId =
     (if isNetworkUri uri then loadNetworkNeighborhood panelId uri requestId
      else startListing panelId uri (or_default includeHidden (tab_showHidden tab))
             backgroundRefresh requestId)"

definition navigatePanel ::
  "FileOctopusState \<Rightarrow> PanelId \<Rightarrow> string \<Rightarrow> NavigateOptions \<Rightarrow> string \<Rightarrow> NavEffect list option" where
  "navigatePanel state panelId input opts requestId =
     (let uri = normalizeLocalInput input
      in do { tab \<leftarrow> activeTab (panels state panelId);
              Some (if \<not> isSupportedNavigationUri uri
                    then [Dispatch (invalid_uri_error panelId)]
                    else [Dispatch (Navigate panelId uri (flag (nav_replace opts))
                            (flag (nav_softRefresh opts)) (flag (nav_backgroundRefresh opts)))]
                      @ (if flag (nav_softRefresh opts) then [] else [ClearSearchResult panelId])
                      @ load tab panelId uri (nav_includeHidden opts)
                          (flag (nav_backgroundRefresh opts)) requestId) })"

text \<open>After the load was settled, whether the call succeeded or not.\<close>

definition navigatePanel_after :: "PanelId \<Rightarrow> string \<Rightarrow> NavigateOptions \<Rightarrow> NavEffect list" where
  "navigatePanel_after panelId input opts =
     (let uri = normalizeLocalInput input
      in if \<not> isSupportedNavigationUri uri \<or> flag (nav_softRefresh opts) then []
         else (if isNetworkUri uri then [] else [SyncTerminalCwd panelId uri])
              @ [Call (RecordVisit uri (if isRemoteUri uri then uri else displayPathFromUri uri))])"

datatype HistoryDirection = Back | Forward

definition goHistory ::
  "FileOctopusState \<Rightarrow> PanelId \<Rightarrow> HistoryDirection \<Rightarrow> string \<Rightarrow> NavEffect list option" where
  "goHistory state panelId direction requestId =
     do { tab \<leftarrow> activeTab (panels state panelId);
          Some (let uri = (if direction = Back then last_opt (tab_backStack tab)
                           else first_opt (tab_forwardStack tab))
                in case uri of
                     None \<Rightarrow> []
                   | Some u \<Rightarrow>
                       (if u = [] then []
                        else [Dispatch (if direction = Back then GoBack panelId else GoForward panelId)]
                             @ load tab panelId u None False requestId)) }"

definition refreshPanel ::
  "FileOctopusState \<Rightarrow> PanelId \<Rightarrow> NavigateOptions \<Rightarrow> string \<Rightarrow> NavEffect list option" where
  "refreshPanel state panelId opts requestId =
     do { tab \<leftarrow> activeTab (panels state panelId);
          if tab_tabKind tab \<noteq> TDirectory then Some []
          else navigatePanel state panelId (tab_uri tab)
                 \<lparr>nav_replace = Some (or_default (nav_replace opts) True),
                  nav_includeHidden = Some (or_default (nav_includeHidden opts) (tab_showHidden tab)),
                  nav_softRefresh = Some (or_default (nav_softRefresh opts) False),
                  nav_backgroundRefresh = Some (or_default (nav_backgroundRefresh opts) False)\<rparr>
                 requestId }"

definition refreshVisiblePanels ::
  "FileOctopusState \<Rightarrow> NavigateOptions \<Rightarrow> string \<Rightarrow> string \<Rightarrow> NavEffect list option" where
  "refreshVisiblePanels state opts leftId rightId =
     do { l \<leftarrow> refreshPanel state Left opts leftId;
          r \<leftarrow> refreshPanel state Right opts rightId;
          Some (l @ r) }"

definition ARCHIVE_EXTENSIONS :: "string list" where
  "ARCHIVE_EXTENSIONS = [''.zip'', ''.tar'', ''.tar.gz'', ''.tgz'', ''.tar.bz2'', ''.tbz2'']"

definition isArchiveFile :: "string \<Rightarrow> bool" where
  "isArchiveFile name =
     (let lower = js_toLowerCase name in list_ex (js_endsWith lower) ARCHIVE_EXTENSIONS)"

definition navigateArchive :: "PanelId \<Rightarrow> FileEntryDto \<Rightarrow> string \<Rightarrow> NavEffect list" where
  "navigateArchive panelId entry requestId =
     [Dispatch (Navigate panelId (fe_uri entry) False False False),
      Dispatch (StartRequest panelId requestId False), Call (ListArchive (fe_uri entry))]"

definition navigateArchive_reply ::
  "PanelId \<Rightarrow> FileEntryDto \<Rightarrow> string \<Rightarrow> thrown + FileEntryDto list \<Rightarrow> NavEffect list" where
  "navigateArchive_reply panelId entry requestId reply =
     (case reply of
        Inl e \<Rightarrow> pane_failure panelId requestId e (Some LError)
      | Inr entries \<Rightarrow>
          [Dispatch (SetArchiveEntries panelId (Some requestId) (fe_uri entry) entries)])"

definition openExternal :: "FileEntryDto \<Rightarrow> NavEffect list" where
  "openExternal entry = [SetOperationError None, Call (OpenPathWithDefaultApp (fe_uri entry))]"

definition openExternal_reply :: "thrown + unit \<Rightarrow> NavEffect list" where
  "openExternal_reply reply =
     (case reply of
        Inl e \<Rightarrow> (let normalized = normalizeIpcError e
                  in [SetOperationError (Some (operationErrorMessage (err_code normalized)
                        (err_message normalized)))])
      | Inr _ \<Rightarrow> [])"

text \<open>The last argument tells whether the controller was given a way to preview in the other
  pane. An empty \<open>targetUri\<close> is used as it is: the code only replaces null.\<close>

definition activateEntry ::
  "FileOctopusState \<Rightarrow> PanelId \<Rightarrow> FileEntryDto option \<Rightarrow> string \<Rightarrow> bool \<Rightarrow> NavEffect list option" where
  "activateEntry state panelId entry requestId canPreview =
     (case entry of
        None \<Rightarrow> Some []
      | Some e \<Rightarrow>
          (if fe_virtualKind e = Some ''addConnection'' then Some [OpenConnectionWizard None]
           else if fe_status e = Some ''credentialsRequired'' \<and> truthy (fe_protocol e)
           then Some [OpenConnectionWizard (Some \<lparr>draft_scheme = the (fe_protocol e),
                  draft_host = fe_name e, draft_label = fe_name e, draft_defaultPath = ''/''\<rparr>)]
           else let openUri = or_default (fe_targetUri e) (fe_uri e)
                in if fe_kind e = KDirectory
                   then navigatePanel state panelId openUri
                          \<lparr>nav_replace = None, nav_includeHidden = None, nav_softRefresh = None,
                           nav_backgroundRefresh = None\<rparr> requestId
                   else if isArchiveFile (fe_name e) then Some (navigateArchive panelId e requestId)
                   else if canPreview then Some [OpenPreviewInOppositePane panelId e]
                   else Some (openExternal e)))"

section \<open>What is forgotten stays forgotten\<close>

text \<open>The actions among the effects, in order.\<close>

fun dispatched :: "NavEffect list \<Rightarrow> PanelAction list" where
  "dispatched [] = []"
| "dispatched (Dispatch a # es) = a # dispatched es"
| "dispatched (_ # es) = dispatched es"

lemma dispatched_append [simp]: "dispatched (es @ fs) = dispatched es @ dispatched fs"
  by (induction es rule: dispatched.induct) auto


lemma unknown_to_tabsI:
  "(\<And>p i t. tab_at s p i = Some t \<Longrightarrow>
     tab_activeRequestId t \<noteq> Some r \<and> tab_sessionId t \<noteq> Some sess \<and>
     (case tab_backgroundListing t of None \<Rightarrow> True | Some bg \<Rightarrow> bg_sessionId bg \<noteq> Some sess)) \<Longrightarrow>
   panels_ok s \<Longrightarrow> unknown_to_tabs s r sess"
  unfolding unknown_to_tabs_def list_all_iff
proof (intro allI ballI)
  fix p t
  assume h: "\<And>p i t. tab_at s p i = Some t \<Longrightarrow>
     tab_activeRequestId t \<noteq> Some r \<and> tab_sessionId t \<noteq> Some sess \<and>
     (case tab_backgroundListing t of None \<Rightarrow> True | Some bg \<Rightarrow> bg_sessionId bg \<noteq> Some sess)"
    and ok: "panels_ok s" and "t \<in> set (obj_values (panel_tabs (panels s p)))"
  then obtain i where "(i, t) \<in> set (panel_tabs (panels s p))" by force
  moreover have "distinct (obj_keys (panel_tabs (panels s p)))"
    using panels_okD[OF ok, of p] by (simp add: panel_ok_def)
  ultimately have "tab_at s p i = Some t" by (simp add: tab_at_def)
  then show "tab_activeRequestId t \<noteq> Some r \<and> tab_sessionId t \<noteq> Some sess \<and>
     (case tab_backgroundListing t of None \<Rightarrow> True | Some bg \<Rightarrow> bg_sessionId bg \<noteq> Some sess)"
    by (rule h)
qed

text \<open>A tab that does not know a request and a session.\<close>

definition unaware :: "string \<Rightarrow> string \<Rightarrow> PanelTabState \<Rightarrow> bool" where
  "unaware r sess t \<longleftrightarrow>
     tab_activeRequestId t \<noteq> Some r \<and> tab_sessionId t \<noteq> Some sess \<and>
     (case tab_backgroundListing t of None \<Rightarrow> True | Some bg \<Rightarrow> bg_sessionId bg \<noteq> Some sess)"

lemma unknown_iff:
  "panels_ok s \<Longrightarrow> unknown_to_tabs s r sess \<longleftrightarrow> (\<forall>p i t. tab_at s p i = Some t \<longrightarrow> unaware r sess t)"
  using unknown_to_tabsI[of s r sess] unknown_to_tabsD[of s r sess] unfolding unaware_def by blast

lemma unaware_simps [simp]:
  "unaware r sess (applyNavigation t u rep sr b f)"
  "unaware r sess (start_request r' bgr t) \<longleftrightarrow> r' \<noteq> r"
  "unaware r sess (archive_tab u es t)"
  "unaware r sess (pane_error e c l t) = unaware r sess t"
  by (auto simp: unaware_def applyNavigation_def start_request_def archive_tab_def pane_error_def Let_def)

lemma unaware_go: "unaware r sess t \<Longrightarrow> unaware r sess (go_back t) \<and> unaware r sess (go_forward t)"
  by (auto simp: go_back_def go_forward_def split: option.splits list.splits)

lemma unaware_session:
  "unaware r sess t \<Longrightarrow> r' \<noteq> r \<Longrightarrow> sess' \<noteq> sess \<Longrightarrow> unaware r sess (start_session r' sess' t)"
  by (auto simp: unaware_def start_session_def split: option.splits)

lemma unaware_batch: "unaware r sess t \<Longrightarrow> unaware r sess (batch_loaded b t)"
  by (auto simp: unaware_def batch_loaded_def background_for_def Let_def
      split: prod.splits option.splits if_splits)

lemma unaware_failed: "unaware r sess t \<Longrightarrow> unaware r sess (batch_failed b e t)"
  by (auto simp: unaware_def batch_failed_def)

lemma unaware_remove: "unaware r sess (remove_from_tab us t) = unaware r sess t"
  by (simp add: unaware_def remove_from_tab_def Let_def)

lemma unaware_rename: "unaware r sess (rename_in_tab old new nm t) = unaware r sess t"
  by (simp add: unaware_def rename_in_tab_def Let_def split: option.split)

text \<open>Actions that name the request or the session as a new one.\<close>

fun revives :: "string \<Rightarrow> string \<Rightarrow> PanelAction \<Rightarrow> bool" where
  "revives r sess (StartRequest p r' b) = (r' = r)"
| "revives r sess (StartSession p r' sess') = (r' = r \<or> sess' = sess)"
| "revives r sess _ = False"


definition all_unaware :: "string \<Rightarrow> string \<Rightarrow> FileOctopusState \<Rightarrow> bool" where
  "all_unaware r sess s \<longleftrightarrow> (\<forall>p i t. tab_at s p i = Some t \<longrightarrow> unaware r sess t)"

lemma all_unaware_updatePanel:
  assumes "panels_ok s" and "all_unaware r sess s" and "updatePanel s p (\<lambda>t. Some (f t)) = Some s'"
    and "\<And>t. unaware r sess t \<Longrightarrow> unaware r sess (f t)"
  shows "all_unaware r sess s'"
proof -
  obtain i t where t: "tab_at s p i = Some t"
    "\<And>upd t'. upd t = Some t' \<Longrightarrow> updatePanel s p upd = Some (set_tab s p i t')"
    using updatePanel_active[OF assms(1), of p] by blast
  have "s' = set_tab s p i (f t)" using t(2)[of "\<lambda>t. Some (f t)"] assms(3) by simp
  then show ?thesis using assms(2,4) t(1) by (auto simp: all_unaware_def split: if_splits)
qed

lemma all_unaware_updateTab:
  assumes "all_unaware r sess s" and "\<And>t. unaware r sess t \<Longrightarrow> unaware r sess (f t)"
  shows "all_unaware r sess (updatePanelTab s p i f)"
  using assms by (auto simp: all_unaware_def tab_at_updatePanelTab split: if_splits)

lemma all_unaware_request:
  assumes "all_unaware r sess s" and "\<And>t. unaware r sess t \<Longrightarrow> unaware r sess (f t)"
  shows "all_unaware r sess (updateRequestTab s p r' f)"
  using assms by (auto simp: updateRequestTab_def all_unaware_updateTab split: option.split)

lemma all_unaware_batch: "all_unaware r sess s \<Longrightarrow> all_unaware r sess (applyBatch s b)"
  by (auto simp: applyBatch_def all_unaware_updateTab unaware_batch unaware_failed split: option.split)

lemma all_unaware_map: "all_unaware r sess s \<Longrightarrow> (\<And>t. unaware r sess (f t) = unaware r sess t) \<Longrightarrow>
   all_unaware r sess (map_tabs f s)"
  by (auto simp: all_unaware_def)

lemma reduceListing_unaware:
  assumes "panels_ok s" and "all_unaware r sess s" and "\<not> revives r sess a" and "reduceListing s a = Some s'"
  shows "all_unaware r sess s'"
proof -
  have drop: "unaware r sess t \<Longrightarrow>
      unaware r sess ((pane_error e c l t)\<lparr>tab_activeRequestId := None, tab_sessionId := None\<rparr>)" for t e c l
    by (auto simp: unaware_def pane_error_def)
  show ?thesis
    using assms(2-4) all_unaware_batch[OF assms(2)] all_unaware_map[OF assms(2)]
      all_unaware_request[OF assms(2)] all_unaware_updatePanel[OF assms(1,2)]
    by (cases a) (auto simp: reduceListing_def setArchiveEntriesReducer_def removeEntriesFromState_def
        renameEntryInState_def unaware_remove unaware_rename unaware_session drop split: if_splits)
qed

lemma reduceNavigation_unaware:
  assumes "panels_ok s" and "all_unaware r sess s" and "reduceNavigation s a = Some s'"
  shows "all_unaware r sess s'"
proof -
  have "all_unaware r sess (s\<lparr>activePanelId := p\<rparr>)" for p
    using assms(2) by (simp add: all_unaware_def tab_at_def)
  then show ?thesis
    using assms(2,3) all_unaware_updatePanel[OF assms(1,2)]
    by (cases a) (auto simp: reduceNavigation_def unaware_go)
qed

lemma store_reduce_cases:
  "isListingAction a \<Longrightarrow> store_reduce pf (s, w) a = keep_world w (reduceListing s a)"
  "isNavigationAction a \<Longrightarrow> store_reduce pf (s, w) a = keep_world w (reduceNavigation s a)"
  by (cases a; simp add: store_reduce_def panelReducer_def reducePanelAction_def isListingAction_def
      isNavigationAction_def isTabAction_def isContentSearchAction_def)+

lemma store_step_unaware:
  assumes "panels_ok s" and "all_unaware r sess s" and "isListingAction a \<or> isNavigationAction a"
    and "\<not> revives r sess a"
  obtains s' where "store_reduce pf (s, w) a = Some (s', w)" and "panels_ok s'" and "all_unaware r sess s'"
proof (cases "isListingAction a")
  case True
  obtain s' where s': "reduceListing s a = Some s'" "panels_ok s'" using reduceListing_ok[OF assms(1)] by blast
  with that reduceListing_unaware[OF assms(1,2,4)] True show thesis
    by (simp add: store_reduce_cases keep_world_def)
next
  case False
  obtain s' where s': "reduceNavigation s a = Some s'" "panels_ok s'" using reduceNavigation_ok[OF assms(1)] by blast
  with that reduceNavigation_unaware[OF assms(1,2)] False assms(3) show thesis
    by (simp add: store_reduce_cases keep_world_def)
qed

text \<open>What still arrives for a load that was superseded: the reply to its call, in one of the
  forms the controller dispatches, and its batches.\<close>

definition late :: "string \<Rightarrow> string \<Rightarrow> PanelAction \<Rightarrow> bool" where
  "late r sess a \<longleftrightarrow>
     (\<exists>p reply. Dispatch a \<in> set (startListing_reply p r reply) \<and> (\<forall>x y. reply = Inr (x, y) \<longrightarrow> y = r)) \<or>
     (\<exists>p reply. Dispatch a \<in> set (loadNetworkNeighborhood_reply p r reply)) \<or>
     (\<exists>p e reply. Dispatch a \<in> set (navigateArchive_reply p e r reply)) \<or>
     (\<exists>b. a = ApplyBatch b \<and> batch_requestId b = r \<and> batch_sessionId b = sess)"

lemma late_cases:
  assumes "late r sess a"
  obtains (session) p x where "a = StartSession p r x"
    | (failed) p e c l where "a = SetPaneError p (Some r) e c l"
    | (archive) p u es where "a = SetArchiveEntries p (Some r) u es"
    | (batch) b where "a = ApplyBatch b" "batch_requestId b = r" "batch_sessionId b = sess"
  using assms unfolding late_def startListing_reply_def loadNetworkNeighborhood_reply_def
    navigateArchive_reply_def pane_failure_def Let_def
  by (elim disjE exE conjE) (auto split: sum.splits prod.splits)

lemma find_tab_none: "panels_ok s \<Longrightarrow> (\<And>p i t. tab_at s p i = Some t \<Longrightarrow> \<not> P t) \<Longrightarrow> find_tab s P = None"
  using find_tab_Some[of s P] by (cases "find_tab s P") fastforce+

lemma late_ignored:
  assumes "panels_ok s" and "all_unaware r sess s" and "late r sess a" and "js_trim r = r" and "r \<noteq> []"
  shows "store_reduce pf (s, w) a = Some (s, w)"
proof -
  have req: "findTabByRequest s r = None"
    using assms(2,4,5) by (auto simp: findTabByRequest_def Let_def all_unaware_def unaware_def
        intro!: find_tab_none[OF assms(1)])
  have "findTabBySession s sess = None"
    using assms(2) unfolding findTabBySession_def
    by (intro find_tab_none[OF assms(1)]) (fastforce simp: all_unaware_def unaware_def split: option.splits)
  then have target: "batch_requestId b = r \<Longrightarrow> batch_sessionId b = sess \<Longrightarrow> applyBatch s b = s" for b
    using req by (simp add: applyBatch_def batch_target_def)
  have r: "truthy (Some r)" using assms(5) by (simp add: truthy_def)
  from assms(3) show ?thesis
    by (cases rule: late_cases)
      (simp_all add: store_reduce_cases isListingAction_def keep_world_def reduceListing_def
        setArchiveEntriesReducer_def updateRequestTab_def req target r)
qed

lemma late_deleted:
  assumes "panels_ok s" and "all_unaware r sess s" and "js_trim r = r" and "r \<noteq> []"
    and "list_all (\<lambda>a. late r sess a \<or> (isListingAction a \<or> isNavigationAction a) \<and> \<not> revives r sess a) as"
  shows "run_actions (store_reduce pf) as (s, w) =
    run_actions (store_reduce pf) (filter (\<lambda>a. \<not> late r sess a) as) (s, w)"
  using assms(1,2,5)
proof (induction as arbitrary: s)
  case (Cons a as)
  show ?case
  proof (cases "late r sess a")
    case True
    with late_ignored[OF Cons.prems(1,2) True assms(3,4)] Cons show ?thesis by simp
  next
    case False
    with Cons.prems obtain s' where "store_reduce pf (s, w) a = Some (s', w)" "panels_ok s'"
        "all_unaware r sess s'"
      using store_step_unaware[OF Cons.prems(1,2), of a pf w] by auto
    with Cons False show ?thesis by simp
  qed
qed simp

text \<open>A navigation can always be dispatched, and its pane forgets the load before it.\<close>

lemma navigation_starts:
  assumes "panels_ok s" and "r' \<noteq> r" and "isSupportedNavigationUri (normalizeLocalInput input)"
    and "\<forall>q i t. tab_at s q i = Some t \<and> (q, i) \<noteq> (p, panel_activeTabId (panels s p)) \<longrightarrow> unaware r sess t"
  shows "\<exists>effects s'. navigatePanel s p input opts r' = Some effects \<and>
    run_actions (store_reduce pf) (dispatched effects) (s, w) = Some (s', w) \<and>
    panels_ok s' \<and> all_unaware r sess s'"
proof -
  let ?i = "panel_activeTabId (panels s p)"
  obtain t where t: "tab_at s p ?i = Some t"
    "\<And>upd t'. upd t = Some t' \<Longrightarrow> updatePanel s p upd = Some (set_tab s p ?i t')"
    using updatePanel_active[OF assms(1), of p] by blast
  then have act: "activeTab (panels s p) = Some t" by (simp add: activeTab_def tab_at_def)
  have "\<exists>effects u rep sr bg bg'. navigatePanel s p input opts r' = Some effects \<and>
      dispatched effects = [Navigate p u rep sr bg, StartRequest p r' bg']"
    using assms(3) act by (auto simp: navigatePanel_def load_def loadNetworkNeighborhood_def
        startListing_def Let_def)
  then obtain effects u rep sr bg bg' where
    e: "navigatePanel s p input opts r' = Some effects"
    and d: "dispatched effects = [Navigate p u rep sr bg, StartRequest p r' bg']" by blast
  define s1 where "s1 = set_tab s p ?i (applyNavigation t (normalizeLocalInput u) rep sr None None)"
  have n1: "reduceNavigation s (Navigate p u rep sr bg) = Some s1"
    using t(2)[of "\<lambda>t. Some (applyNavigation t (normalizeLocalInput u) rep sr None None)"]
    by (simp add: reduceNavigation_def s1_def)
  have ok1: "panels_ok s1" using reduceNavigation_ok[OF assms(1), of "Navigate p u rep sr bg"] n1 by simp
  have un1: "all_unaware r sess s1" using assms(4) by (auto simp: all_unaware_def s1_def split: if_splits)
  have n: "isNavigationAction (Navigate p u rep sr bg)" by (simp add: isNavigationAction_def)
  obtain s2 where s2: "store_reduce pf (s1, w) (StartRequest p r' bg') = Some (s2, w)" "panels_ok s2"
    "all_unaware r sess s2"
    using store_step_unaware[OF ok1 un1, of "StartRequest p r' bg'" pf w] assms(2)
    by (auto simp: isListingAction_def)
  have "run_actions (store_reduce pf) (dispatched effects) (s, w) = Some (s2, w)"
    using n1 s2(1) by (simp add: d store_reduce_cases(2)[OF n] keep_world_def)
  with e s2(2,3) show ?thesis by blast
qed

section \<open>Properties\<close>

text \<open>C11: the latest navigation wins. When a pane starts to load a new place, nothing that
  still arrives for the load it replaces has any effect: the reply to the old call, a
  session, an archive listing or an error, and all its batches, however they are interleaved
  with what happens to the new load and with any other navigation and listing action, can be
  deleted without changing the resulting state.\<close>

theorem superseded_load_ignored:
  assumes "panels_ok s" and "js_trim r = r" and "r \<noteq> []" and "r' \<noteq> r"
    and "\<forall>q i t. tab_at s q i = Some t \<and> (q, i) \<noteq> (p, panel_activeTabId (panels s p)) \<longrightarrow> unaware r sess t"
    and "isSupportedNavigationUri (normalizeLocalInput input)"
    and "navigatePanel s p input opts r' = Some effects"
    and "run_actions (store_reduce pf) (dispatched effects) (s, w) = Some (s', w')"
    and "list_all (\<lambda>a. late r sess a \<or> (isListingAction a \<or> isNavigationAction a) \<and> \<not> revives r sess a) as"
  shows "run_actions (store_reduce pf) as (s', w') =
    run_actions (store_reduce pf) (filter (\<lambda>a. \<not> late r sess a) as) (s', w')"
proof -
  obtain s2 where s2: "run_actions (store_reduce pf) (dispatched effects) (s, w) = Some (s2, w)"
    "panels_ok s2" "all_unaware r sess s2"
    using navigation_starts[OF assms(1,4,6,5), of opts pf w] assms(7) by auto
  then have "s' = s2" "w' = w" using assms(8) by auto
  then show ?thesis using late_deleted[OF s2(2,3) assms(2,3,9)] by simp
qed

text \<open>A pane is loading with the request r1 when another place is chosen; then the listing of an
  archive comes in for r1.\<close>

definition loading_state :: FileOctopusState where
  "loading_state = set_tab sample_state Left ''main''
     (sample_tab\<lparr>tab_activeRequestId := Some ''r1'', tab_sessionId := Some ''s1''\<rparr>)"

definition no_options :: NavigateOptions where
  "no_options = \<lparr>nav_replace = None, nav_includeHidden = None, nav_softRefresh = None,
     nav_backgroundRefresh = None\<rparr>"

theorem superseded_load_ignored_witness:
  "\<exists>effects s' w'. navigatePanel loading_state Left ''/tmp'' no_options ''r2'' = Some effects \<and>
     run_actions (store_reduce ordinal_platform) (dispatched effects) (loading_state, sample_world) = Some (s', w') \<and>
     run_actions (store_reduce ordinal_platform)
       [StartSession Left ''r2'' ''s2'', SetArchiveEntries Left (Some ''r1'') ''local:///x'' []] (s', w') =
     run_actions (store_reduce ordinal_platform) [StartSession Left ''r2'' ''s2''] (s', w')"
proof -
  let ?late = "SetArchiveEntries Left (Some ''r1'') ''local:///x'' []"
  have ok: "panels_ok loading_state"
    unfolding loading_state_def by (rule panels_ok_set_tab) (simp_all add: tab_ok_def listing_ok_def)
  have active: "panel_activeTabId (panels loading_state Left) = ''main''"
    by (simp add: loading_state_def set_tab_def)
  have others: "\<forall>q i t. tab_at loading_state q i = Some t \<and>
      (q, i) \<noteq> (Left, panel_activeTabId (panels loading_state Left)) \<longrightarrow> unaware ''r1'' ''s1'' t"
  proof (intro allI impI)
    fix q i t
    assume "tab_at loading_state q i = Some t \<and> (q, i) \<noteq> (Left, panel_activeTabId (panels loading_state Left))"
    then show "unaware ''r1'' ''s1'' t"
      unfolding active loading_state_def
      by (cases q) (auto simp: unaware_def blank_tab_def split: if_splits)
  qed
  have nav: "isSupportedNavigationUri (normalizeLocalInput ''/tmp'')" by code_simp
  from navigation_starts[OF ok _ nav others, of "''r2''" no_options ordinal_platform sample_world]
  obtain effects s' where e: "navigatePanel loading_state Left ''/tmp'' no_options ''r2'' = Some effects"
    and run: "run_actions (store_reduce ordinal_platform) (dispatched effects) (loading_state, sample_world)
      = Some (s', sample_world)" by auto
  have "late ''r1'' ''s1'' ?late"
    unfolding late_def loadNetworkNeighborhood_reply_def
    by (intro disjI2 disjI1 exI[of _ Left] exI[of _ "Inr (''local:///x'', [])"]) simp
  moreover have "\<not> late ''r1'' ''s1'' (StartSession Left ''r2'' ''s2'')"
    by (auto elim: late_cases)
  ultimately have "run_actions (store_reduce ordinal_platform) [StartSession Left ''r2'' ''s2'', ?late] (s', sample_world)
      = run_actions (store_reduce ordinal_platform) [StartSession Left ''r2'' ''s2''] (s', sample_world)"
    using superseded_load_ignored[OF ok _ _ _ others nav e run,
        of "[StartSession Left ''r2'' ''s2'', ?late]"]
    by (simp add: isListingAction_def js_trim_def trim_end_def is_js_space_def code_def)
  with e run show ?thesis by blast
qed

end
