(* ===== verification/JobEvents.thy ===== *)
theory JobEvents
  imports Jobs NavController UriFacts
begin

text \<open>
  What happens when a job reports back: the listeners of \<open>hooks/useJobEventListeners.ts\<close> and
  \<open>hooks/useEventHandlers.ts\<close>, the places to refresh that were noted when an operation
  started (\<open>hooks/useOperationRefreshTargets.ts\<close>), the notifications
  (\<open>toastNotifications.ts\<close>), and the dialogs and the search that wait for a job
  (\<open>hooks/fileOps/useMetadataHandlers.ts\<close>). A listener turns the state into a new one and a
  list of effects.
\<close>

section \<open>Notifications\<close>

datatype ToastTone = ToneSuccess | ToneError | ToneInfo

record ToastInput =
  toast_tone :: ToastTone
  toast_title :: string
  toast_detail :: "string option"
  toast_popup :: "bool option"
  toast_actionLabel :: "string option"

record ToastMessage = ToastInput +
  toast_id :: string

definition MAX_VISIBLE_TOASTS :: nat where
  "MAX_VISIBLE_TOASTS = 3"

definition with_id :: "ToastInput \<Rightarrow> string \<Rightarrow> ToastMessage" where
  "with_id t i = ToastInput.extend t \<lparr>toast_id = i\<rparr>"

text \<open>\<open>{ ...item, ...toast }\<close>: a field that is absent in the new toast keeps its old value.\<close>

definition overlay :: "ToastMessage \<Rightarrow> ToastInput \<Rightarrow> ToastMessage" where
  "overlay item t = item\<lparr>toast_tone := toast_tone t, toast_title := toast_title t,
     toast_detail := (if toast_detail t \<noteq> None then toast_detail t else toast_detail item),
     toast_popup := (if toast_popup t \<noteq> None then toast_popup t else toast_popup item),
     toast_actionLabel :=
       (if toast_actionLabel t \<noteq> None then toast_actionLabel t else toast_actionLabel item)\<rparr>"

definition same_toast :: "ToastInput \<Rightarrow> ToastMessage \<Rightarrow> bool" where
  "same_toast t item \<longleftrightarrow> toast_title item = toast_title t \<and> toast_tone item = toast_tone t"

definition mergeToast :: "ToastMessage list \<Rightarrow> ToastInput \<Rightarrow> string \<Rightarrow> ToastMessage list \<times> string" where
  "mergeToast current toast newId =
     (case find (same_toast toast) current of
        Some duplicate \<Rightarrow>
          (map (\<lambda>item. if toast_id item = toast_id duplicate then overlay item toast else item) current,
           toast_id duplicate)
      | None \<Rightarrow> (slice_last (MAX_VISIBLE_TOASTS - 1) current @ [with_id toast newId], newId))"

definition mergeNotification :: "ToastMessage list \<Rightarrow> ToastInput \<Rightarrow> string \<Rightarrow> ToastMessage list" where
  "mergeNotification current toast newId = current @ [with_id toast newId]"

definition shouldShowPopupNotification :: "bool option \<Rightarrow> ToastInput \<Rightarrow> bool" where
  "shouldShowPopupNotification popupNotifications t \<longleftrightarrow>
     popupNotifications = Some True \<and> toast_popup t \<noteq> Some False"

section \<open>Places to refresh\<close>

record FileOperationPlanDto =
  plan_operationId :: string
  plan_kind :: FileOperationKind
  plan_sources :: "string list"
  plan_destination :: "string option"
  plan_newName :: "string option"
  plan_conflicts :: "string list"

record OperationRefreshTargetSet =
  rts_folderUris :: "string list"
  rts_removedEntryUris :: "string list"

definition refresh_parent :: "string option \<Rightarrow> string list \<Rightarrow> string list" where
  "refresh_parent uri folders =
     (if \<not> truthy uri then folders
      else set_add (or_default (parentUriFromUri (the uri)) (the uri)) folders)"

definition add_sources :: "FileOperationPlanDto \<Rightarrow> string list \<Rightarrow> string list" where
  "add_sources plan folders = fold (\<lambda>s. refresh_parent (Some s)) (plan_sources plan) folders"

definition refresh_targets :: "FileOperationPlanDto \<Rightarrow> OperationRefreshTargetSet" where
  "refresh_targets plan =
     (let dest = refresh_parent (plan_destination plan)
      in case plan_kind plan of
           OpCopy \<Rightarrow> \<lparr>rts_folderUris = dest [], rts_removedEntryUris = []\<rparr>
         | OpCreateArchive \<Rightarrow> \<lparr>rts_folderUris = dest [], rts_removedEntryUris = []\<rparr>
         | OpExtractArchive \<Rightarrow> \<lparr>rts_folderUris = dest [], rts_removedEntryUris = []\<rparr>
         | OpCreateDirectory \<Rightarrow> \<lparr>rts_folderUris = dest [], rts_removedEntryUris = []\<rparr>
         | OpCreateFile \<Rightarrow> \<lparr>rts_folderUris = dest [], rts_removedEntryUris = []\<rparr>
         | OpWriteTextFile \<Rightarrow> \<lparr>rts_folderUris = dest [], rts_removedEntryUris = []\<rparr>
         | OpDeleteToTrash \<Rightarrow>
             \<lparr>rts_folderUris = add_sources plan [], rts_removedEntryUris = plan_sources plan\<rparr>
         | OpDeletePermanently \<Rightarrow>
             \<lparr>rts_folderUris = add_sources plan [], rts_removedEntryUris = plan_sources plan\<rparr>
         | _ \<Rightarrow> \<lparr>rts_folderUris = dest (add_sources plan []), rts_removedEntryUris = []\<rparr>)"

type_synonym refresh_map = "(string, OperationRefreshTargetSet) obj"

definition registerOperationRefresh :: "string \<Rightarrow> FileOperationPlanDto \<Rightarrow> refresh_map \<Rightarrow> refresh_map" where
  "registerOperationRefresh jobId plan m = obj_set jobId (refresh_targets plan) m"

definition takeOperationRefreshTargets ::
  "string \<Rightarrow> refresh_map \<Rightarrow> OperationRefreshTargetSet option \<times> refresh_map" where
  "takeOperationRefreshTargets jobId m = (obj_get m jobId, obj_del jobId m)"

text \<open>Which panels are reloaded: those that show one of the places, or both when none does.\<close>

definition refreshed_panels :: "FileOctopusState \<Rightarrow> string list option \<Rightarrow> PanelId list option" where
  "refreshed_panels state targets =
     do { l \<leftarrow> activeTab (panels state Left);
          r \<leftarrow> activeTab (panels state Right);
          Some (let hit = (\<lambda>tab. case targets of None \<Rightarrow> False | Some us \<Rightarrow> tab_uri tab \<in> set us);
                    panelIds = (if hit l then [Left] else []) @ (if hit r then [Right] else [])
                in if panelIds = [] then [Left, Right] else panelIds) }"

definition refresh_options :: "bool \<Rightarrow> NavigateOptions" where
  "refresh_options fullReload =
     \<lparr>nav_replace = Some True, nav_includeHidden = None, nav_softRefresh = Some (\<not> fullReload),
      nav_backgroundRefresh = Some (\<not> fullReload)\<rparr>"

section \<open>Dialogs and searches that wait for jobs\<close>

text \<open>Of the properties of a path only those that the folder size changes are kept; the other
  dialogs ignore jobs and are named by their type.\<close>

record PathPropertiesDto =
  pp_uri :: string
  pp_kind :: FileKind
  pp_totalSize :: "int option"
  pp_itemCount :: "int option"
  pp_fileCount :: "int option"
  pp_directoryCount :: "int option"
  pp_warnings :: "string list"

record PropertiesDialog =
  pd_panelId :: PanelId
  pd_entry :: "FileEntryDto option"
  pd_properties :: "PathPropertiesDto option"
  pd_loading :: bool
  pd_folderSizeJobId :: "string option"
  pd_error :: "string option"

record SelectionPropertiesDialog =
  sp_panelId :: PanelId
  sp_entries :: "FileEntryDto list"
  sp_totalSize :: "int option"
  sp_calculatingSize :: bool
  sp_folderSizeJobIds :: "string list"
  sp_pendingFolderSizeJobs :: int
  sp_folderSizeBytes :: int
  sp_fileSizeBaseline :: int
  sp_error :: "string option"

datatype JobDialog =
    PropertiesD PropertiesDialog
  | SelectionPropertiesD SelectionPropertiesDialog
  | OtherD string

record FolderSizeSummaryDto =
  fs_totalSize :: int
  fs_itemCount :: int
  fs_fileCount :: int
  fs_directoryCount :: int
  fs_warnings :: "string list"

record FolderSizeCompletedEventDto =
  fsc_jobId :: string
  fsc_uri :: string
  fsc_summary :: FolderSizeSummaryDto

definition fileSizeBaseline :: "FileEntryDto list \<Rightarrow> int" where
  "fileSizeBaseline entries =
     sum_list (map (\<lambda>e. or_default (fe_size e) 0) (filter (\<lambda>e. fe_kind e \<noteq> KDirectory) entries))"

definition selectionDialog :: "PanelId \<Rightarrow> FileEntryDto list \<Rightarrow> SelectionPropertiesDialog" where
  "selectionDialog panelId entries =
     \<lparr>sp_panelId = panelId, sp_entries = entries, sp_totalSize = None, sp_calculatingSize = False,
      sp_folderSizeJobIds = [], sp_pendingFolderSizeJobs = 0, sp_folderSizeBytes = 0,
      sp_fileSizeBaseline = fileSizeBaseline entries, sp_error = None\<rparr>"

definition selection_directories :: "SelectionPropertiesDialog \<Rightarrow> FileEntryDto list" where
  "selection_directories current = filter (\<lambda>e. fe_kind e = KDirectory) (sp_entries current)"

text \<open>\<open>calculateSelectionSize\<close>: what it stores at once, and what it stores when the jobs of all
  directories were started, one after the other, or one of them could not be. Both are
  written over whatever dialog is shown then.\<close>

definition calculate_begin :: "SelectionPropertiesDialog \<Rightarrow> JobDialog" where
  "calculate_begin current =
     SelectionPropertiesD
       (if selection_directories current = []
        then current\<lparr>sp_totalSize := Some (sp_fileSizeBaseline current),
               sp_calculatingSize := False, sp_error := None\<rparr>
        else current\<lparr>sp_calculatingSize := True, sp_error := None\<rparr>)"

definition calculate_started :: "SelectionPropertiesDialog \<Rightarrow> thrown + string list \<Rightarrow> JobDialog" where
  "calculate_started current reply =
     SelectionPropertiesD
       (case reply of
          Inl e \<Rightarrow> (let normalized = normalizeIpcError e
                    in current\<lparr>sp_calculatingSize := False,
                         sp_error := Some (operationErrorMessage (err_code normalized)
                           (err_message normalized))\<rparr>)
        | Inr folderSizeJobIds \<Rightarrow>
            current\<lparr>sp_calculatingSize := True, sp_folderSizeJobIds := folderSizeJobIds,
              sp_pendingFolderSizeJobs := int (length folderSizeJobIds),
              sp_folderSizeBytes := 0, sp_totalSize := None, sp_error := None\<rparr>)"

definition applyFolderSizeCompleted :: "FolderSizeCompletedEventDto \<Rightarrow> JobDialog option \<Rightarrow> JobDialog option" where
  "applyFolderSizeCompleted event dialog =
     (case dialog of
        Some (SelectionPropertiesD current) \<Rightarrow>
          (if fsc_jobId event \<notin> set (sp_folderSizeJobIds current) then dialog
           else let pendingFolderSizeJobs = sp_pendingFolderSizeJobs current - 1;
                    folderSizeBytes = sp_folderSizeBytes current + fs_totalSize (fsc_summary event)
                in Some (SelectionPropertiesD
                     (if pendingFolderSizeJobs > 0
                      then current\<lparr>sp_pendingFolderSizeJobs := pendingFolderSizeJobs,
                             sp_folderSizeBytes := folderSizeBytes\<rparr>
                      else current\<lparr>sp_pendingFolderSizeJobs := 0, sp_calculatingSize := False,
                             sp_folderSizeBytes := folderSizeBytes,
                             sp_totalSize := Some (sp_fileSizeBaseline current + folderSizeBytes)\<rparr>)))
      | Some (PropertiesD current) \<Rightarrow>
          (case pd_properties current of
             None \<Rightarrow> dialog
           | Some properties \<Rightarrow>
               (let matchesJob = (pd_folderSizeJobId current = Some (fsc_jobId event));
                    matchesPendingFolder =
                      (pd_loading current \<and> pp_uri properties = fsc_uri event \<and>
                       (pd_folderSizeJobId current = None \<or>
                        pd_folderSizeJobId current = Some (fsc_jobId event)));
                    summary = fsc_summary event
                in if \<not> matchesJob \<and> \<not> matchesPendingFolder then dialog
                   else Some (PropertiesD (current\<lparr>pd_loading := False,
                          pd_folderSizeJobId := Some (fsc_jobId event),
                          pd_properties := Some (properties\<lparr>pp_totalSize := Some (fs_totalSize summary),
                            pp_itemCount := Some (fs_itemCount summary),
                            pp_fileCount := Some (fs_fileCount summary),
                            pp_directoryCount := Some (fs_directoryCount summary),
                            pp_warnings := fs_warnings summary\<rparr>)\<rparr>))))
      | _ \<Rightarrow> dialog)"

text \<open>The dialog when a job failed, and when it was cancelled.\<close>

definition dialog_failed :: "string \<Rightarrow> string \<Rightarrow> JobDialog option \<Rightarrow> JobDialog option" where
  "dialog_failed jobId message dialog =
     (case dialog of
        Some (SelectionPropertiesD current) \<Rightarrow>
          (if jobId \<notin> set (sp_folderSizeJobIds current) then dialog
           else let pendingFolderSizeJobs = sp_pendingFolderSizeJobs current - 1
                in Some (SelectionPropertiesD
                     (if pendingFolderSizeJobs > 0
                      then current\<lparr>sp_pendingFolderSizeJobs := pendingFolderSizeJobs, sp_error := Some message\<rparr>
                      else current\<lparr>sp_pendingFolderSizeJobs := 0, sp_calculatingSize := False,
                             sp_error := Some message\<rparr>)))
      | Some (PropertiesD current) \<Rightarrow>
          (if pd_folderSizeJobId current = Some jobId
           then Some (PropertiesD (current\<lparr>pd_loading := False, pd_error := Some message\<rparr>))
           else dialog)
      | _ \<Rightarrow> dialog)"

definition dialog_cancelled :: "string \<Rightarrow> JobDialog option \<Rightarrow> JobDialog option" where
  "dialog_cancelled jobId dialog =
     (case dialog of
        Some (SelectionPropertiesD current) \<Rightarrow>
          (if jobId \<notin> set (sp_folderSizeJobIds current) then dialog
           else let pendingFolderSizeJobs = sp_pendingFolderSizeJobs current - 1
                in Some (SelectionPropertiesD
                     (if pendingFolderSizeJobs > 0
                      then current\<lparr>sp_pendingFolderSizeJobs := pendingFolderSizeJobs\<rparr>
                      else current\<lparr>sp_pendingFolderSizeJobs := 0, sp_calculatingSize := False,
                             sp_totalSize :=
                               (if sp_folderSizeBytes current > 0
                                then Some (sp_fileSizeBaseline current + sp_folderSizeBytes current)
                                else sp_totalSize current)\<rparr>)))
      | Some (PropertiesD current) \<Rightarrow>
          (if pd_folderSizeJobId current = Some jobId
           then Some (PropertiesD (current\<lparr>pd_loading := False\<rparr>)) else dialog)
      | _ \<Rightarrow> dialog)"

record SearchMatchDto =
  sm_uri :: string
  sm_name :: string
  sm_kind :: FileKind

record RecursiveSearchResultDto =
  rsr_matches :: "SearchMatchDto list"
  rsr_warnings :: "string list"
  rsr_incomplete :: bool

record SearchState =
  ss_panelId :: PanelId
  ss_query :: string
  ss_running :: bool
  ss_jobId :: "string option"
  ss_result :: "RecursiveSearchResultDto option"
  ss_error :: "string option"

definition empty_result :: RecursiveSearchResultDto where
  "empty_result = \<lparr>rsr_matches = [], rsr_warnings = [], rsr_incomplete = False\<rparr>"

text \<open>\<open>runRecursiveSearch\<close> before and after its call; an empty query closes the search.\<close>

definition search_begin :: "PanelId \<Rightarrow> string \<Rightarrow> SearchState option" where
  "search_begin panelId recursiveQuery =
     (let query = js_trim recursiveQuery
      in if query = [] then None
         else Some \<lparr>ss_panelId = panelId, ss_query = query, ss_running = True, ss_jobId = None,
                 ss_result = Some empty_result, ss_error = None\<rparr>)"

definition search_started :: "PanelId \<Rightarrow> string \<Rightarrow> thrown + string \<Rightarrow> SearchState" where
  "search_started panelId query reply =
     (case reply of
        Inr jobId \<Rightarrow> \<lparr>ss_panelId = panelId, ss_query = query, ss_running = True,
          ss_jobId = Some jobId, ss_result = Some empty_result, ss_error = None\<rparr>
      | Inl e \<Rightarrow> \<lparr>ss_panelId = panelId, ss_query = query, ss_running = False, ss_jobId = None,
          ss_result = None, ss_error = Some (err_message (normalizeIpcError e))\<rparr>)"

definition applyRecursiveSearchMatch :: "string \<Rightarrow> SearchMatchDto \<Rightarrow> SearchState option \<Rightarrow> SearchState option" where
  "applyRecursiveSearchMatch jobId item search =
     (case search of
        None \<Rightarrow> None
      | Some current \<Rightarrow>
          (if ss_jobId current \<noteq> Some jobId then search
           else let result = or_default (ss_result current) empty_result
                in if list_ex (\<lambda>m. sm_uri m = sm_uri item) (rsr_matches result) then search
                   else Some (current\<lparr>ss_result :=
                          Some (result\<lparr>rsr_matches := rsr_matches result @ [item]\<rparr>)\<rparr>)))"

definition applyRecursiveSearchCompleted ::
  "string \<Rightarrow> RecursiveSearchResultDto \<Rightarrow> SearchState option \<Rightarrow> SearchState option" where
  "applyRecursiveSearchCompleted jobId result search =
     (case search of
        None \<Rightarrow> None
      | Some current \<Rightarrow>
          (if ss_jobId current \<noteq> Some jobId then search
           else Some (current\<lparr>ss_running := False, ss_result := Some result, ss_error := None\<rparr>)))"

definition search_ended :: "string \<Rightarrow> string \<Rightarrow> SearchState option \<Rightarrow> SearchState option" where
  "search_ended jobId message search =
     map_option (\<lambda>current. if ss_jobId current = Some jobId
                           then current\<lparr>ss_running := False, ss_error := Some message\<rparr> else current) search"


section \<open>The listeners\<close>

record JobUi =
  ju_jobs :: jobs
  ju_refresh :: refresh_map
  ju_search :: "SearchState option"
  ju_dialog :: "JobDialog option"
  ju_activityCollapsed :: bool

datatype JobEffect =
    PushToast ToastInput
  | UpdatePreference string string
  | DispatchPanel PanelAction
  | RefreshTargets "string list option" bool
  | RefreshHistory

definition operationKind_str :: "FileOperationKind \<Rightarrow> string" where
  "operationKind_str k =
     (case k of OpCopy \<Rightarrow> ''copy'' | OpMove \<Rightarrow> ''move'' | OpRename \<Rightarrow> ''rename''
      | OpBatchRename \<Rightarrow> ''batchRename'' | OpDeleteToTrash \<Rightarrow> ''deleteToTrash''
      | OpCreateDirectory \<Rightarrow> ''createDirectory'' | OpCreateFile \<Rightarrow> ''createFile''
      | OpWriteTextFile \<Rightarrow> ''writeTextFile'' | OpDeletePermanently \<Rightarrow> ''deletePermanently''
      | OpCreateArchive \<Rightarrow> ''createArchive'' | OpExtractArchive \<Rightarrow> ''extractArchive''
      | OpFolderSize \<Rightarrow> ''folderSize'' | OpRecursiveSearch \<Rightarrow> ''recursiveSearch''
      | OpContentSearch \<Rightarrow> ''contentSearch'')"

definition shouldPopupOperationCompleted :: "FileOperationKind \<Rightarrow> bool" where
  "shouldPopupOperationCompleted kind \<longleftrightarrow>
     kind \<noteq> OpRename \<and> kind \<noteq> OpCreateFile \<and> kind \<noteq> OpCreateDirectory \<and>
     kind \<noteq> OpDeleteToTrash \<and> kind \<noteq> OpDeletePermanently \<and> kind \<noteq> OpWriteTextFile"

definition shouldRefreshOperationCompleted :: "FileOperationKind \<Rightarrow> bool" where
  "shouldRefreshOperationCompleted kind \<longleftrightarrow> kind \<noteq> OpRename"

definition toast_of :: "ToastTone \<Rightarrow> string \<Rightarrow> string \<Rightarrow> bool option \<Rightarrow> string option \<Rightarrow> ToastInput" where
  "toast_of tone title detail popup label =
     \<lparr>toast_tone = tone, toast_title = title, toast_detail = Some detail, toast_popup = popup,
      toast_actionLabel = label\<rparr>"

text \<open>An empty list of folders counts as no plan.\<close>

definition plan_folders :: "OperationRefreshTargetSet option \<Rightarrow> string list option" where
  "plan_folders plan =
     (case plan of
        None \<Rightarrow> None
      | Some p \<Rightarrow> if rts_folderUris p = [] then None else Some (rts_folderUris p))"

definition open_activity :: "string \<Rightarrow> string option \<Rightarrow> JobUi \<Rightarrow> JobUi \<times> JobEffect list" where
  "open_activity mode jobDrawerBehavior ui =
     (if jobDrawerBehavior = Some mode
      then (ui\<lparr>ju_activityCollapsed := False\<rparr>, [UpdatePreference ''activityPanelVisible'' ''true''])
      else (ui, []))"

definition onJobCompleted :: "JobCompletedEvent \<Rightarrow> JobUi \<Rightarrow> JobUi \<times> JobEffect list" where
  "onJobCompleted e ui =
     (let kind = jce_operationKind e;
          ui1 = ui\<lparr>ju_jobs := obj_set (jce_jobId e) (mergeCompleted (ju_jobs ui) e) (ju_jobs ui)\<rparr>;
          toast = PushToast (toast_of ToneSuccess ''Operation completed'' (operationKind_str kind)
                    (Some (shouldPopupOperationCompleted kind)) None)
      in if \<not> shouldRefreshOperationCompleted kind then (ui1, [toast, RefreshHistory])
         else let (refreshPlan, rest) = takeOperationRefreshTargets (jce_jobId e) (ju_refresh ui1);
                  removed = (case refreshPlan of None \<Rightarrow> [] | Some p \<Rightarrow> rts_removedEntryUris p)
              in (ui1\<lparr>ju_refresh := rest\<rparr>,
                  [toast] @ (if removed = [] then [] else [DispatchPanel (RemoveEntries removed)])
                  @ [RefreshTargets (plan_folders refreshPlan)
                       (kind = OpDeleteToTrash \<or> kind = OpDeletePermanently),
                     RefreshHistory]))"

definition onJobFailed :: "string option \<Rightarrow> JobFailedEvent \<Rightarrow> JobUi \<Rightarrow> JobUi \<times> JobEffect list" where
  "onJobFailed jobDrawerBehavior e ui =
     (let ui1 = ui\<lparr>ju_jobs := obj_set (jfe_jobId e) (mergeFailed (ju_jobs ui) e) (ju_jobs ui)\<rparr>;
          (ui2, prefs) = open_activity ''openOnError'' jobDrawerBehavior ui1;
          (refreshPlan, rest) = takeOperationRefreshTargets (jfe_jobId e) (ju_refresh ui2)
      in (ui2\<lparr>ju_search := search_ended (jfe_jobId e) (jfe_message e) (ju_search ui2),
              ju_dialog := dialog_failed (jfe_jobId e) (jfe_message e) (ju_dialog ui2),
              ju_refresh := rest\<rparr>,
          [PushToast (toast_of ToneError ''Operation failed'' (jfe_message e) None (Some ''View details''))]
          @ prefs
          @ (if jfe_operationKind e = OpContentSearch
             then [DispatchPanel (TerminateContentSearchJob (jfe_jobId e) CFailed (jfe_message e))] else [])
          @ [RefreshTargets (plan_folders refreshPlan) False, RefreshHistory]))"

definition onJobCancelled :: "JobMarkEvent \<Rightarrow> JobUi \<Rightarrow> JobUi \<times> JobEffect list" where
  "onJobCancelled e ui =
     (let ui1 = ui\<lparr>ju_jobs := obj_set (jme_jobId e) (mergeCancelled (ju_jobs ui) e) (ju_jobs ui)\<rparr>;
          (refreshPlan, rest) = takeOperationRefreshTargets (jme_jobId e) (ju_refresh ui1)
      in (ui1\<lparr>ju_search := search_ended (jme_jobId e) ''Operation cancelled.'' (ju_search ui1),
              ju_dialog := dialog_cancelled (jme_jobId e) (ju_dialog ui1),
              ju_refresh := rest\<rparr>,
          [PushToast (toast_of ToneInfo ''Operation cancelled'' (operationKind_str (jme_operationKind e)) None None)]
          @ (if jme_operationKind e = OpContentSearch
             then [DispatchPanel (TerminateContentSearchJob (jme_jobId e) CCancelled ''Operation cancelled.'')]
             else [])
          @ [RefreshTargets (plan_folders refreshPlan) False, RefreshHistory]))"

text \<open>Progress, pausing and resuming only change the snapshot; the speed and time left that are
  shown with progress are computed with floating point numbers and left out.\<close>

definition onJobEvent :: "Platform \<Rightarrow> string option \<Rightarrow> JobEvent \<Rightarrow> JobUi \<Rightarrow> JobUi \<times> JobEffect list" where
  "onJobEvent pf jobDrawerBehavior ev ui =
     (case ev of
        EvCompleted e \<Rightarrow> onJobCompleted e ui
      | EvFailed e \<Rightarrow> onJobFailed jobDrawerBehavior e ui
      | EvCancelled e \<Rightarrow> onJobCancelled e ui
      | EvStarted e \<Rightarrow> open_activity ''openOnStart'' jobDrawerBehavior
          (ui\<lparr>ju_jobs := remember pf (ju_jobs ui) ev\<rparr>)
      | _ \<Rightarrow> (ui\<lparr>ju_jobs := remember pf (ju_jobs ui) ev\<rparr>, []))"


section \<open>Waiting for folder sizes\<close>

text \<open>How a folder size job can end, and what its event does to the dialog.\<close>

datatype SizeEnd = SizeDone string FolderSizeSummaryDto | SizeFailed string string | SizeCancelled string

fun end_job :: "SizeEnd \<Rightarrow> string" where
  "end_job (SizeDone j s) = j"
| "end_job (SizeFailed j m) = j"
| "end_job (SizeCancelled j) = j"

fun end_bytes :: "SizeEnd \<Rightarrow> int" where
  "end_bytes (SizeDone j s) = fs_totalSize s"
| "end_bytes _ = 0"

fun feed_end :: "SizeEnd \<Rightarrow> JobDialog option \<Rightarrow> JobDialog option" where
  "feed_end (SizeDone j s) d =
     applyFolderSizeCompleted \<lparr>fsc_jobId = j, fsc_uri = [], fsc_summary = s\<rparr> d"
| "feed_end (SizeFailed j m) d = dialog_failed j m d"
| "feed_end (SizeCancelled j) d = dialog_cancelled j d"

fun is_done :: "SizeEnd \<Rightarrow> bool" where
  "is_done (SizeDone j s) = True"
| "is_done _ = False"

lemma feed_end_unknown:
  "end_job e \<notin> set (sp_folderSizeJobIds sp) \<Longrightarrow>
   feed_end e (Some (SelectionPropertiesD sp)) = Some (SelectionPropertiesD sp)"
  by (cases e) (simp_all add: applyFolderSizeCompleted_def dialog_failed_def dialog_cancelled_def)

lemma fold_end_unknown:
  "\<forall>e \<in> set es. end_job e \<notin> set (sp_folderSizeJobIds sp) \<Longrightarrow>
   fold feed_end es (Some (SelectionPropertiesD sp)) = Some (SelectionPropertiesD sp)"
  by (induction es) (auto simp: feed_end_unknown)

lemma feed_end_known:
  assumes "end_job e \<in> set (sp_folderSizeJobIds sp)" and "0 < sp_pendingFolderSizeJobs sp"
  obtains sp' where "feed_end e (Some (SelectionPropertiesD sp)) = Some (SelectionPropertiesD sp')"
    and "sp_folderSizeJobIds sp' = sp_folderSizeJobIds sp"
    and "sp_fileSizeBaseline sp' = sp_fileSizeBaseline sp"
    and "sp_pendingFolderSizeJobs sp' = sp_pendingFolderSizeJobs sp - 1"
    and "sp_calculatingSize sp' = (sp_calculatingSize sp \<and> 1 < sp_pendingFolderSizeJobs sp)"
    and "sp_folderSizeBytes sp' = sp_folderSizeBytes sp + end_bytes e"
    and "is_done e \<and> sp_pendingFolderSizeJobs sp = 1 \<longrightarrow>
      sp_totalSize sp' = Some (sp_fileSizeBaseline sp + sp_folderSizeBytes sp')"
proof -
  have "\<exists>sp'. feed_end e (Some (SelectionPropertiesD sp)) = Some (SelectionPropertiesD sp') \<and>
    sp_folderSizeJobIds sp' = sp_folderSizeJobIds sp \<and> sp_fileSizeBaseline sp' = sp_fileSizeBaseline sp \<and>
    sp_pendingFolderSizeJobs sp' = sp_pendingFolderSizeJobs sp - 1 \<and>
    sp_calculatingSize sp' = (sp_calculatingSize sp \<and> 1 < sp_pendingFolderSizeJobs sp) \<and>
    sp_folderSizeBytes sp' = sp_folderSizeBytes sp + end_bytes e \<and>
    (is_done e \<and> sp_pendingFolderSizeJobs sp = 1 \<longrightarrow>
      sp_totalSize sp' = Some (sp_fileSizeBaseline sp + sp_folderSizeBytes sp'))"
    using assms by (cases e; cases "sp_pendingFolderSizeJobs sp = 1")
      (auto simp: applyFolderSizeCompleted_def dialog_failed_def dialog_cancelled_def Let_def)
  then show thesis using that by blast
qed

lemma fold_end_known:
  assumes "\<forall>e \<in> set es. end_job e \<in> set (sp_folderSizeJobIds sp)"
    and "int (length es) \<le> sp_pendingFolderSizeJobs sp" and "0 < sp_pendingFolderSizeJobs sp"
  shows "\<exists>sp'. fold feed_end es (Some (SelectionPropertiesD sp)) = Some (SelectionPropertiesD sp') \<and>
    sp_pendingFolderSizeJobs sp' = sp_pendingFolderSizeJobs sp - int (length es) \<and>
    sp_calculatingSize sp' =
      (sp_calculatingSize sp \<and> int (length es) < sp_pendingFolderSizeJobs sp) \<and>
    (es \<noteq> [] \<and> list_all is_done es \<and> int (length es) = sp_pendingFolderSizeJobs sp \<longrightarrow>
      sp_totalSize sp' =
        Some (sp_fileSizeBaseline sp + sp_folderSizeBytes sp + sum_list (map end_bytes es)))"
  using assms
proof (induction es arbitrary: sp)
  case (Cons e es)
  then have "end_job e \<in> set (sp_folderSizeJobIds sp)" by simp
  from feed_end_known[OF this Cons.prems(3)] obtain sp1 where
    sp1: "feed_end e (Some (SelectionPropertiesD sp)) = Some (SelectionPropertiesD sp1)"
    "sp_folderSizeJobIds sp1 = sp_folderSizeJobIds sp" "sp_fileSizeBaseline sp1 = sp_fileSizeBaseline sp"
    "sp_pendingFolderSizeJobs sp1 = sp_pendingFolderSizeJobs sp - 1"
    "sp_calculatingSize sp1 = (sp_calculatingSize sp \<and> 1 < sp_pendingFolderSizeJobs sp)"
    "sp_folderSizeBytes sp1 = sp_folderSizeBytes sp + end_bytes e"
    "is_done e \<and> sp_pendingFolderSizeJobs sp = 1 \<longrightarrow>
      sp_totalSize sp1 = Some (sp_fileSizeBaseline sp + sp_folderSizeBytes sp1)"
    by metis
  show ?case
  proof (cases "es = []")
    case True
    then show ?thesis using sp1 by auto
  next
    case False
    have "0 < int (length es)" using False by simp
    moreover have "1 + int (length es) \<le> sp_pendingFolderSizeJobs sp" using Cons.prems(2) by simp
    ultimately have more: "1 < sp_pendingFolderSizeJobs sp" by linarith
    have "\<exists>sp'. fold feed_end es (Some (SelectionPropertiesD sp1)) = Some (SelectionPropertiesD sp') \<and>
      sp_pendingFolderSizeJobs sp' = sp_pendingFolderSizeJobs sp1 - int (length es) \<and>
      sp_calculatingSize sp' =
        (sp_calculatingSize sp1 \<and> int (length es) < sp_pendingFolderSizeJobs sp1) \<and>
      (es \<noteq> [] \<and> list_all is_done es \<and> int (length es) = sp_pendingFolderSizeJobs sp1 \<longrightarrow>
        sp_totalSize sp' =
          Some (sp_fileSizeBaseline sp1 + sp_folderSizeBytes sp1 + sum_list (map end_bytes es)))"
      using Cons.prems sp1(2,4) more by (intro Cons.IH) auto
    with sp1 False show ?thesis by (auto simp: algebra_simps)
  qed
qed simp

section \<open>Properties\<close>

text \<open>A selection's size is complete exactly when no folder was too quick. The ids of the jobs
  are stored only after the last one was started; a job that has ended by then is lost. However the
  jobs end and in whatever order, once all have ended the dialog still waits for as many as ended
  before their ids were stored: with none it stops calculating, and shows the sizes of the files
  and of all folders when all jobs were successful; with one or more it calculates for ever.\<close>

theorem selection_size_waits:
  assumes "selection_directories current \<noteq> []" and "ids \<noteq> []"
    and "mset (map end_job (early @ later)) = mset ids" and "distinct ids"
    and "set ids \<inter> set (sp_folderSizeJobIds current) = {}"
  shows "fold feed_end early (Some (calculate_begin current)) = Some (calculate_begin current) \<and>
    (\<exists>sp. fold feed_end later (Some (calculate_started current (Inr ids))) = Some (SelectionPropertiesD sp) \<and>
      sp_pendingFolderSizeJobs sp = int (length early) \<and>
      sp_calculatingSize sp = (early \<noteq> []) \<and>
      (early = [] \<and> list_all is_done later \<longrightarrow>
        sp_totalSize sp = Some (sp_fileSizeBaseline current + sum_list (map end_bytes later))))"
proof
  have jobs: "set (map end_job (early @ later)) = set ids" using assms(3) by (rule mset_eq_setD)
  show "fold feed_end early (Some (calculate_begin current)) = Some (calculate_begin current)"
    unfolding calculate_begin_def
    by (rule fold_end_unknown) (use jobs assms(5) in auto)
  obtain sp0 where sp0: "calculate_started current (Inr ids) = SelectionPropertiesD sp0"
    "sp_folderSizeJobIds sp0 = ids" "sp_pendingFolderSizeJobs sp0 = int (length ids)"
    "sp_calculatingSize sp0" "sp_folderSizeBytes sp0 = 0"
    "sp_fileSizeBaseline sp0 = sp_fileSizeBaseline current"
    by (simp add: calculate_started_def)
  have len: "length early + length later = length ids"
    using arg_cong[OF assms(3), of size] by simp
  have "\<exists>sp'. fold feed_end later (Some (SelectionPropertiesD sp0)) = Some (SelectionPropertiesD sp') \<and>
    sp_pendingFolderSizeJobs sp' = sp_pendingFolderSizeJobs sp0 - int (length later) \<and>
    sp_calculatingSize sp' = (sp_calculatingSize sp0 \<and> int (length later) < sp_pendingFolderSizeJobs sp0) \<and>
    (later \<noteq> [] \<and> list_all is_done later \<and> int (length later) = sp_pendingFolderSizeJobs sp0 \<longrightarrow>
      sp_totalSize sp' = Some (sp_fileSizeBaseline sp0 + sp_folderSizeBytes sp0 + sum_list (map end_bytes later)))"
    by (rule fold_end_known) (use jobs sp0 len assms(2) in auto)
  moreover have "int (length later) < int (length ids) \<longleftrightarrow> early \<noteq> []" using len by (cases early) auto
  moreover have "early = [] \<Longrightarrow> later \<noteq> []" using len assms(2) by auto
  ultimately show "\<exists>sp. fold feed_end later (Some (calculate_started current (Inr ids))) = Some (SelectionPropertiesD sp) \<and>
      sp_pendingFolderSizeJobs sp = int (length early) \<and> sp_calculatingSize sp = (early \<noteq> []) \<and>
      (early = [] \<and> list_all is_done later \<longrightarrow>
        sp_totalSize sp = Some (sp_fileSizeBaseline current + sum_list (map end_bytes later)))"
    using sp0 len by auto
qed

text \<open>Of two folders the first is done before the second job was started.\<close>

theorem selection_size_waits_witness:
  "\<exists>sp. fold feed_end [SizeCancelled ''j2'']
      (Some (calculate_started (selectionDialog Left
         [sample_entry ''local:///d/x'' ''x'' KDirectory 0, sample_entry ''local:///d/y'' ''y'' KDirectory 0])
         (Inr [''j1'', ''j2'']))) = Some (SelectionPropertiesD sp) \<and> sp_calculatingSize sp"
proof -
  let ?c = "selectionDialog Left
    [sample_entry ''local:///d/x'' ''x'' KDirectory 0, sample_entry ''local:///d/y'' ''y'' KDirectory 0]"
  have "selection_directories ?c \<noteq> []"
    by (simp add: selection_directories_def selectionDialog_def sample_entry_def)
  from selection_size_waits[OF this, of "[''j1'', ''j2'']" "[SizeCancelled ''j1'']" "[SizeCancelled ''j2'']"]
  show ?thesis by (auto simp: selectionDialog_def)
qed

text \<open>A move from one pane into the other reloads the source pane only. The plan names the
  target folder as its destination, but the code notes the parent of the destination as a place
  to refresh; when all sources lie in the folder one pane shows and the other pane shows the
  target, the completed job leads to a reload of the source pane and not of the target's.\<close>

theorem move_refreshes_source_only:
  assumes "activeTab (panels state Left) = Some l" and "activeTab (panels state Right) = Some r"
    and "plan_kind plan = OpMove" and "plan_sources plan \<noteq> []"
    and "\<forall>s \<in> set (plan_sources plan). s \<noteq> [] \<and> parentUriFromUri s = Some (tab_uri l)"
    and "plan_destination plan = Some (tab_uri r)" and "parentUriFromUri (tab_uri r) = Some up"
    and "tab_uri l \<noteq> tab_uri r" and "jce_operationKind e = OpMove"
  shows "let (ui', effects) = onJobCompleted e
        (ui\<lparr>ju_refresh := registerOperationRefresh (jce_jobId e) plan (ju_refresh ui)\<rparr>)
    in \<exists>folders. RefreshTargets (Some folders) False \<in> set effects \<and>
       refreshed_panels state (Some folders) = Some [Left]"
proof -
  have "tab_uri r \<noteq> []"
    using parent_size[OF assms(7)] by (auto simp: uri_size_def strip_prefix_def)
  have src: "add_sources plan [] = [tab_uri l]"
  proof -
    have "\<forall>s \<in> set ss. s \<noteq> [] \<and> parentUriFromUri s = Some (tab_uri l) \<Longrightarrow>
        fold (\<lambda>s. refresh_parent (Some s)) ss [tab_uri l] = [tab_uri l]" for ss
      by (induction ss) (auto simp: refresh_parent_def truthy_def or_default_def set_add_def)
    moreover obtain s ss where "plan_sources plan = s # ss" using assms(4) by (cases "plan_sources plan") auto
    ultimately show ?thesis using assms(5)
      by (simp add: add_sources_def refresh_parent_def truthy_def or_default_def set_add_def)
  qed
  have up: "up \<noteq> tab_uri r" using parent_size[OF assms(7)] by auto
  have t: "rts_folderUris (refresh_targets plan) = set_add up [tab_uri l]"
    "rts_removedEntryUris (refresh_targets plan) = []"
    using assms(3,6,7) \<open>tab_uri r \<noteq> []\<close>
    by (simp_all add: refresh_targets_def src refresh_parent_def truthy_def or_default_def)
  have "refreshed_panels state (Some (set_add up [tab_uri l])) = Some [Left]"
    using assms(1,2,8) up by (auto simp: refreshed_panels_def Let_def set_add_def)
  moreover have "set_add up [tab_uri l] \<noteq> []" by (simp add: set_add_def)
  ultimately show ?thesis
    using assms(9) t by (auto simp: onJobCompleted_def shouldRefreshOperationCompleted_def
        takeOperationRefreshTargets_def registerOperationRefresh_def plan_folders_def Let_def)
qed


text \<open>Two files are moved from \<open>/d\<close> in the left pane to \<open>/r\<close> in the right pane.\<close>

theorem move_refreshes_source_only_witness:
  "\<exists>folders. RefreshTargets (Some folders) False \<in> set (snd (onJobCompleted
       \<lparr>jce_jobId = ''j1'', jce_operationKind = OpMove, jce_completedItems = 2, jce_completedBytes = 3,
        jce_completedAt = ''t''\<rparr>
       \<lparr>ju_jobs = [], ju_refresh = registerOperationRefresh ''j1''
          \<lparr>plan_operationId = ''o1'', plan_kind = OpMove,
           plan_sources = [''local:///d/a'', ''local:///d/b''], plan_destination = Some ''local:///r'',
           plan_newName = None, plan_conflicts = []\<rparr> [],
        ju_search = None, ju_dialog = None, ju_activityCollapsed = True\<rparr>)) \<and>
     refreshed_panels sample_state (Some folders) = Some [Left]"
proof -
  let ?e = "\<lparr>jce_jobId = ''j1'', jce_operationKind = OpMove, jce_completedItems = 2,
    jce_completedBytes = 3, jce_completedAt = ''t''\<rparr>"
  let ?plan = "\<lparr>plan_operationId = ''o1'', plan_kind = OpMove,
    plan_sources = [''local:///d/a'', ''local:///d/b''], plan_destination = Some ''local:///r'',
    plan_newName = None, plan_conflicts = []\<rparr>"
  let ?ui = "\<lparr>ju_jobs = [], ju_refresh = [], ju_search = None, ju_dialog = None, ju_activityCollapsed = True\<rparr>"
  have tabs: "activeTab (panels sample_state Left) = Some sample_tab"
    "activeTab (panels sample_state Right) =
      Some (blank_tab TDirectory ''local:///r'' LIdle sample_sort VDetails False)"
    by (simp_all add: activeTab_def)
  have parents: "parentUriFromUri ''local:///d/a'' = Some ''local:///d''"
    "parentUriFromUri ''local:///d/b'' = Some ''local:///d''"
    "parentUriFromUri ''local:///r'' = Some ''local:///''" by code_simp+
  have uri: "tab_uri (blank_tab TDirectory ''local:///r'' LIdle sample_sort VDetails False) = ''local:///r''"
    by (simp add: blank_tab_def)
  have "let (ui', effects) = onJobCompleted ?e
        (?ui\<lparr>ju_refresh := registerOperationRefresh (jce_jobId ?e) ?plan (ju_refresh ?ui)\<rparr>)
    in \<exists>folders. RefreshTargets (Some folders) False \<in> set effects \<and>
       refreshed_panels sample_state (Some folders) = Some [Left]"
    by (rule move_refreshes_source_only[OF tabs, where up = "''local:///''"])
      (simp_all add: parents uri)
  then show ?thesis by (simp add: case_prod_beta Let_def)
qed

end
