(* ===== verification/FileOps.thy ===== *)
theory FileOps
  imports JobEvents
begin

text \<open>
  File operations as the user starts them (\<open>hooks/fileOps\<close>): planning, starting, the dialogs
  for copying, creating, renaming and deleting, the clipboard and archives. An asynchronous
  handler is one function from the state before to the state after it settled; the Rust side
  answers through a client that is an argument, and the requests sent to it are kept in the
  order in which they were sent.
\<close>

section \<open>State\<close>

datatype ConflictPolicy = CpFail | CpSkip | CpOverwrite | CpRenameNew | CpRenameExisting

datatype CopyMoveKind = CmCopy | CmMove

datatype CopyMoveStep = StepReview | StepConfirmOverwrite

record CopyMoveDialog =
  cm_panelId :: PanelId
  cm_kind :: CopyMoveKind
  cm_entries :: "FileEntryDto list"
  cm_destination :: string
  cm_conflictPolicy :: ConflictPolicy
  cm_advancedOptions :: bool
  cm_planningEnabled :: bool
  cm_plan :: "FileOperationPlanDto option"
  cm_planning :: bool
  cm_step :: CopyMoveStep
  cm_pendingConflictPolicy :: "ConflictPolicy option"
  cm_error :: "string option"

datatype OperationDialog =
    CreateFolderDialog PanelId string "string option"
  | CreateFileDialog PanelId string "string option"
  | RenameDialog PanelId FileEntryDto string "string option"
  | CopyMoveD CopyMoveDialog
  | TrashDialog PanelId "FileEntryDto list" bool "string option"
  | PermanentDeleteDialog PanelId "FileEntryDto list" "string option"
  | JobDialogD JobDialog

record PlanRequest =
  pr_kind :: FileOperationKind
  pr_sources :: "string list"
  pr_destination :: "string option"
  pr_newName :: "string option"
  pr_conflictPolicy :: ConflictPolicy
  pr_batchRenames :: "(string \<times> string) list option"

record OpsClient =
  planFileOperation :: "PlanRequest \<Rightarrow> thrown + FileOperationPlanDto"
  startFileOperation :: "string \<Rightarrow> thrown + JobSnapshot"

record OpsPreferences =
  pref_showAdvancedCopyOptions :: bool
  pref_defaultConflictPolicy :: string
  pref_confirmDelete :: bool
  pref_confirmPermanentDelete :: bool

record FileClipboardState =
  clip_kind :: CopyMoveKind
  clip_uris :: "string list"
  clip_entries :: "FileEntryDto list"
  clip_providerId :: string
  clip_timestamp :: nat

record OpsState =
  ops_panels :: FileOctopusState
  ops_dialog :: "OperationDialog option"
  ops_error :: "string option"
  ops_jobs :: jobs
  ops_refresh :: refresh_map
  ops_clipboard :: "FileClipboardState option"
  ops_starting :: "string list"
  ops_submitInFlight :: bool
  ops_session :: "(string, string) obj option"
  ops_dispatched :: "PanelAction list"
  ops_toasts :: "ToastInput list"
  ops_planned :: "PlanRequest list"
  ops_started :: "string list"

definition setDialog :: "OperationDialog option \<Rightarrow> OpsState \<Rightarrow> OpsState" where
  "setDialog d s = s\<lparr>ops_dialog := d\<rparr>"

definition setOperationError :: "string option \<Rightarrow> OpsState \<Rightarrow> OpsState" where
  "setOperationError e s = s\<lparr>ops_error := e\<rparr>"

definition dispatch_panel :: "PanelAction \<Rightarrow> OpsState \<Rightarrow> OpsState" where
  "dispatch_panel a s = s\<lparr>ops_dispatched := ops_dispatched s @ [a]\<rparr>"

definition push_toast :: "ToastInput \<Rightarrow> OpsState \<Rightarrow> OpsState" where
  "push_toast t s = s\<lparr>ops_toasts := ops_toasts s @ [t]\<rparr>"

definition thrown_message :: "thrown \<Rightarrow> string" where
  "thrown_message e =
     (let normalized = normalizeIpcError e
      in operationErrorMessage (err_code normalized) (err_message normalized))"

section \<open>Planning and starting\<close>

definition plan_request :: "FileOperationKind \<Rightarrow> string list \<Rightarrow> string option \<Rightarrow> PlanRequest" where
  "plan_request kind sources destination =
     \<lparr>pr_kind = kind, pr_sources = sources, pr_destination = destination, pr_newName = None,
      pr_conflictPolicy = CpFail, pr_batchRenames = None\<rparr>"

definition planOperation ::
  "OpsClient \<Rightarrow> PlanRequest \<Rightarrow> OpsState \<Rightarrow> (thrown + FileOperationPlanDto) \<times> OpsState" where
  "planOperation client req s =
     (planFileOperation client req, s\<lparr>ops_planned := ops_planned s @ [req]\<rparr>)"

definition send_start :: "OpsClient \<Rightarrow> string \<Rightarrow> OpsState \<Rightarrow> (thrown + JobSnapshot) \<times> OpsState" where
  "send_start client operationId s =
     (startFileOperation client operationId, s\<lparr>ops_started := ops_started s @ [operationId]\<rparr>)"

definition promoteQueuedJob :: "JobSnapshot \<Rightarrow> JobSnapshot" where
  "promoteQueuedJob job = (if jb_status job = JQueued then job\<lparr>jb_status := JRunning\<rparr> else job)"

definition store_job :: "Platform \<Rightarrow> JobSnapshot \<Rightarrow> OpsState \<Rightarrow> OpsState" where
  "store_job pf job s =
     s\<lparr>ops_jobs := obj_set (jb_jobId job) (mergeJobSnapshot pf (ops_jobs s) job) (ops_jobs s)\<rparr>"

definition startPlannedOperation ::
  "Platform \<Rightarrow> OpsClient \<Rightarrow> FileOperationPlanDto \<Rightarrow> OpsState \<Rightarrow> bool \<times> OpsState" where
  "startPlannedOperation pf client plan s =
     (if plan_operationId plan \<in> set (ops_starting s) then (False, s)
      else let s1 = s\<lparr>ops_starting := set_add (plan_operationId plan) (ops_starting s)\<rparr>;
               (reply, s2) = send_start client (plan_operationId plan) s1;
               (ok, s3) =
                 (case reply of
                    Inl e \<Rightarrow> (False, setOperationError (Some (thrown_message e)) s2)
                  | Inr job \<Rightarrow>
                      (True, (store_job pf (promoteQueuedJob job) s2)
                         \<lparr>ops_refresh := registerOperationRefresh (jb_jobId job) plan (ops_refresh s2)\<rparr>))
           in (ok, s3\<lparr>ops_starting := set_delete (plan_operationId plan) (ops_starting s3)\<rparr>))"

text \<open>The status that is asked for a job that was queued. The snapshot stored above was promoted
  to running, so the guard on a queued snapshot only lets it through when another event stored one.\<close>

definition queued_status_reply :: "Platform \<Rightarrow> string \<Rightarrow> JobSnapshot \<Rightarrow> jobs \<Rightarrow> jobs" where
  "queued_status_reply pf jobId job current =
     (case obj_get current jobId of
        None \<Rightarrow> current
      | Some existing \<Rightarrow>
          (if jb_status existing \<noteq> JQueued then current
           else obj_set jobId (mergeJobSnapshot pf current (promoteQueuedJob job)) current))"

definition startOperation ::
  "Platform \<Rightarrow> OpsClient \<Rightarrow> PlanRequest \<Rightarrow> OpsState \<Rightarrow> bool \<times> OpsState" where
  "startOperation pf client req s =
     (let (reply, s1) = planOperation client req (setOperationError None s)
      in case reply of
           Inl e \<Rightarrow> (False, setOperationError (Some (thrown_message e)) s1)
         | Inr plan \<Rightarrow> startPlannedOperation pf client plan s1)"

definition copy_move_op :: "CopyMoveKind \<Rightarrow> FileOperationKind" where
  "copy_move_op k = (case k of CmCopy \<Rightarrow> OpCopy | CmMove \<Rightarrow> OpMove)"

definition reviewCopyMoveDialog ::
  "OpsClient \<Rightarrow> CopyMoveDialog \<Rightarrow> OpsState \<Rightarrow> FileOperationPlanDto option \<times> OpsState" where
  "reviewCopyMoveDialog client current s =
     (let s1 = setDialog (Some (CopyMoveD (current\<lparr>cm_planning := True, cm_error := None\<rparr>)))
                 (setOperationError None s);
          (reply, s2) = planOperation client
            \<lparr>pr_kind = copy_move_op (cm_kind current), pr_sources = map fe_uri (cm_entries current),
             pr_destination = Some (normalizeLocalInput (cm_destination current)),
             pr_newName = None, pr_conflictPolicy = cm_conflictPolicy current,
             pr_batchRenames = None\<rparr> s1
      in case reply of
           Inr plan \<Rightarrow>
             (Some plan, setDialog (Some (CopyMoveD (current\<lparr>cm_plan := Some plan, cm_planning := False\<rparr>))) s2)
         | Inl e \<Rightarrow>
             (None, setDialog (Some (CopyMoveD (current\<lparr>cm_planning := False,
                      cm_error := Some (thrown_message e)\<rparr>))) s2))"

text \<open>\<open>selectedEntries\<close>: the entries, and the complaint when only the parent entry is selected.\<close>

definition selectedEntries :: "PanelId \<Rightarrow> OpsState \<Rightarrow> (FileEntryDto list \<times> OpsState) option" where
  "selectedEntries panelId s =
     do { tab \<leftarrow> activeTab (panels (ops_panels s) panelId);
          Some (let entries = List.map_filter (obj_get (tab_entriesById tab)) (tab_selectedIds tab)
                in (entries,
                    if entries = [] \<and> list_ex (\<lambda>i. isParentDirectoryUri i (tab_uri tab)) (tab_selectedIds tab)
                    then setOperationError (Some ''This action does not apply to the parent folder entry.'') s
                    else s)) }"

section \<open>Copying and moving\<close>

definition configuredConflictPolicy :: "string option \<Rightarrow> ConflictPolicy" where
  "configuredConflictPolicy v =
     (if v = Some ''skip'' then CpSkip else if v = Some ''overwrite'' then CpOverwrite
      else if v = Some ''renameNew'' then CpRenameNew
      else if v = Some ''renameExisting'' then CpRenameExisting else CpFail)"

definition oppositePanelId :: "PanelId \<Rightarrow> PanelId" where
  "oppositePanelId p = (case p of Left \<Rightarrow> Right | Right \<Rightarrow> Left)"

definition handleCopyOrMove ::
  "OpsPreferences option \<Rightarrow> PanelId \<Rightarrow> CopyMoveKind \<Rightarrow> OpsState \<Rightarrow> OpsState option" where
  "handleCopyOrMove prefs panelId kind s =
     do { (entries, s1) \<leftarrow> selectedEntries panelId s;
          other \<leftarrow> activeTab (panels (ops_panels s) (oppositePanelId panelId));
          Some (let advancedOptions = (case prefs of None \<Rightarrow> False | Some p \<Rightarrow> pref_showAdvancedCopyOptions p)
                in if entries = [] then s1
                   else setDialog (Some (CopyMoveD
                     \<lparr>cm_panelId = panelId, cm_kind = kind, cm_entries = entries,
                      cm_destination = tab_uri other,
                      cm_conflictPolicy =
                        (if advancedOptions
                         then configuredConflictPolicy (map_option pref_defaultConflictPolicy prefs)
                         else CpFail),
                      cm_advancedOptions = advancedOptions, cm_planningEnabled = False,
                      cm_plan = None, cm_planning = False, cm_step = StepReview,
                      cm_pendingConflictPolicy = None, cm_error = None\<rparr>)) s1) }"

text \<open>The part of \<open>submitCopyMove\<close> behind the planning.\<close>

definition submit_planned ::
  "Platform \<Rightarrow> OpsClient \<Rightarrow> CopyMoveDialog \<Rightarrow> bool \<Rightarrow> ConflictPolicy \<Rightarrow> FileOperationPlanDto \<Rightarrow>
   OpsState \<Rightarrow> OpsState" where
  "submit_planned pf client current resolvingConflict conflictPolicy plan s =
     (if resolvingConflict \<and> plan_conflicts plan \<noteq> [] \<and> conflictPolicy = CpFail
      then setDialog (Some (CopyMoveD (current\<lparr>cm_plan := Some plan, cm_conflictPolicy := conflictPolicy,
             cm_step := StepConfirmOverwrite,
             cm_error := Some ''Choose how to handle destination conflicts before continuing.''\<rparr>))) s
      else let plannedDialog = current\<lparr>cm_conflictPolicy := conflictPolicy,
                 cm_pendingConflictPolicy := None, cm_plan := Some plan\<rparr>
           in if \<not> resolvingConflict \<and> plan_conflicts plan \<noteq> []
              then setDialog (Some (CopyMoveD (plannedDialog\<lparr>cm_step := StepConfirmOverwrite\<rparr>))) s
              else let (ok, s1) = startPlannedOperation pf client plan s
                   in if ok then setDialog None s1
                      else if resolvingConflict
                      then setDialog (Some (CopyMoveD (plannedDialog\<lparr>cm_step := StepConfirmOverwrite,
                             cm_planning := False,
                             cm_error := Some ''Could not start the operation. Try again or cancel from the activity panel.''\<rparr>))) s1
                      else s1)"

definition submitCopyMove :: "Platform \<Rightarrow> OpsClient \<Rightarrow> CopyMoveDialog \<Rightarrow> OpsState \<Rightarrow> OpsState" where
  "submitCopyMove pf client current s =
     (if ops_submitInFlight s then s
      else let s0 = s\<lparr>ops_submitInFlight := True\<rparr>;
               resolvingConflict = (cm_step current = StepConfirmOverwrite \<and>
                                    cm_pendingConflictPolicy current \<noteq> None);
               conflictPolicy = or_default (cm_pendingConflictPolicy current) (cm_conflictPolicy current);
               s1 =
                 (if js_trim (cm_destination current) = []
                  then setDialog (Some (CopyMoveD (current\<lparr>cm_error := Some ''Enter a destination local URI.''\<rparr>))) s0
                  else if cm_plan current \<noteq> None \<and> \<not> resolvingConflict
                  then submit_planned pf client current resolvingConflict conflictPolicy
                         (the (cm_plan current)) s0
                  else case reviewCopyMoveDialog client
                         (current\<lparr>cm_conflictPolicy := conflictPolicy, cm_pendingConflictPolicy := None,
                            cm_plan := None,
                            cm_step := (if resolvingConflict then StepConfirmOverwrite else StepReview)\<rparr>) s0 of
                    (None, s2) \<Rightarrow> s2
                  | (Some plan, s2) \<Rightarrow>
                      (if cm_planningEnabled current \<and> \<not> resolvingConflict then s2
                       else submit_planned pf client current resolvingConflict conflictPolicy plan s2))
           in s1\<lparr>ops_submitInFlight := False\<rparr>)"

section \<open>The clipboard\<close>

definition copySelectionToFileClipboard ::
  "nat \<Rightarrow> PanelId \<Rightarrow> CopyMoveKind \<Rightarrow> OpsState \<Rightarrow> OpsState option" where
  "copySelectionToFileClipboard now panelId kind s =
     do { (entries, s1) \<leftarrow> selectedEntries panelId s;
          Some (case entries of
                  [] \<Rightarrow> s1
                | e # _ \<Rightarrow> s1\<lparr>ops_clipboard := Some \<lparr>clip_kind = kind, clip_uris = map fe_uri entries,
                    clip_entries = entries, clip_providerId = fe_providerId e, clip_timestamp = now\<rparr>\<rparr>) }"

definition pasteClipboard :: "Platform \<Rightarrow> OpsClient \<Rightarrow> PanelId \<Rightarrow> OpsState \<Rightarrow> OpsState option" where
  "pasteClipboard pf client panelId s =
     (case ops_clipboard s of
        None \<Rightarrow> Some s
      | Some clipboard \<Rightarrow>
          do { tab \<leftarrow> activeTab (panels (ops_panels s) panelId);
               Some (let (reply, s1) = planOperation client
                           \<lparr>pr_kind = copy_move_op (clip_kind clipboard), pr_sources = clip_uris clipboard,
                            pr_destination = Some (tab_uri tab), pr_newName = None,
                            pr_conflictPolicy = CpRenameNew, pr_batchRenames = None\<rparr> s
                     in case reply of
                          Inl e \<Rightarrow> setOperationError (Some (thrown_message e)) s1
                        | Inr plan \<Rightarrow>
                            (if plan_conflicts plan \<noteq> []
                             then setDialog (Some (CopyMoveD
                               \<lparr>cm_panelId = panelId, cm_kind = clip_kind clipboard,
                                cm_entries = clip_entries clipboard, cm_destination = tab_uri tab,
                                cm_conflictPolicy = CpFail, cm_advancedOptions = False,
                                cm_planningEnabled = False, cm_plan = Some plan, cm_planning = False,
                                cm_step = StepConfirmOverwrite, cm_pendingConflictPolicy = None,
                                cm_error = None\<rparr>)) s1
                             else let (ok, s2) = startPlannedOperation pf client plan s1
                                  in if ok \<and> clip_kind clipboard = CmMove
                                     then s2\<lparr>ops_clipboard := None\<rparr> else s2)) })"

datatype CopyTextMode = CtPath | CtName | CtParentPath | CtUri

definition copy_text :: "CopyTextMode \<Rightarrow> FileEntryDto \<Rightarrow> string" where
  "copy_text mode entry =
     (case mode of CtPath \<Rightarrow> displayPathFromUri (fe_uri entry) | CtName \<Rightarrow> fe_name entry
      | CtParentPath \<Rightarrow> displayPathFromUri (or_default (parentUriFromUri (fe_uri entry)) [])
      | CtUri \<Rightarrow> fe_uri entry)"

text \<open>What is written to the clipboard of the system, if anything.\<close>

definition copyTextFromSelection ::
  "PanelId \<Rightarrow> CopyTextMode \<Rightarrow> OpsState \<Rightarrow> (string option \<times> OpsState) option" where
  "copyTextFromSelection panelId mode s =
     do { (entries, s1) \<leftarrow> selectedEntries panelId s;
          Some (if entries = [] then (None, s1)
                else (Some (js_join [char_of (10 :: nat)] (map (copy_text mode) entries)), s1)) }"


section \<open>Creating, renaming and deleting\<close>

definition joinUri :: "string \<Rightarrow> string \<Rightarrow> string" where
  "joinUri parent name =
     (if isRemoteUri parent then
        (case (uriScheme parent, profileIdFromRemoteUri parent) of
           (Some scheme, Some profileId) \<Rightarrow>
             (let path0 = strip_slashes (case remotePathFromUri parent of Some p \<Rightarrow> p | None \<Rightarrow> ''/'');
                  path = (if path0 = [] then ''/'' else path0)
              in buildRemoteUri scheme profileId
                   (if path = ''/'' then ''/'' @ name else path @ ''/'' @ name))
         | _ \<Rightarrow> parent)
      else strip_one_slash parent @ ''/'' @ name)"

definition SKIP_TRASH_CONFIRM_KEY :: string where
  "SKIP_TRASH_CONFIRM_KEY = ''fileoctopus.skipTrashConfirm''"

definition DEFAULT_FOLDER_NAME :: string where
  "DEFAULT_FOLDER_NAME = ''New Folder''"

definition folder_candidate :: "nat \<Rightarrow> string" where
  "folder_candidate suffix = DEFAULT_FOLDER_NAME @ '' '' @ nat_str suffix"

text \<open>The search for a free suffix is a loop without a bound; not returning is \<open>None\<close>.\<close>

partial_function (option) free_suffix :: "string list \<Rightarrow> nat \<Rightarrow> nat option" where
  "free_suffix existing suffix =
     (if folder_candidate suffix \<in> set existing then free_suffix existing (suffix + 1) else Some suffix)"

definition folder_names :: "FileEntryDto list \<Rightarrow> string list" where
  "folder_names entries = map fe_name (filter (\<lambda>e. fe_kind e = KDirectory) entries)"

definition nextFolderName :: "FileEntryDto list \<Rightarrow> string option" where
  "nextFolderName entries =
     (let existing = folder_names entries
      in if DEFAULT_FOLDER_NAME \<notin> set existing then Some DEFAULT_FOLDER_NAME
         else do { suffix \<leftarrow> free_suffix existing 2; Some (folder_candidate suffix) })"

definition handleCreateFolder :: "PanelId \<Rightarrow> OpsState \<Rightarrow> OpsState option" where
  "handleCreateFolder panelId s =
     do { tab \<leftarrow> activeTab (panels (ops_panels s) panelId);
          name \<leftarrow> nextFolderName (obj_values (tab_entriesById tab));
          Some (setDialog (Some (CreateFolderDialog panelId name None)) s) }"

definition handleCreateFile :: "PanelId \<Rightarrow> OpsState \<Rightarrow> OpsState" where
  "handleCreateFile panelId s = setDialog (Some (CreateFileDialog panelId ''New File.txt'' None)) s"

definition handleRename :: "PanelId \<Rightarrow> OpsState \<Rightarrow> OpsState option" where
  "handleRename panelId s =
     do { (entries, s1) \<leftarrow> selectedEntries panelId s;
          Some (case entries of
                  [entry] \<Rightarrow> setDialog (Some (RenameDialog panelId entry (fe_name entry) None)) s1
                | _ \<Rightarrow> s1) }"

definition executeTrash :: "Platform \<Rightarrow> OpsClient \<Rightarrow> FileEntryDto list \<Rightarrow> OpsState \<Rightarrow> OpsState" where
  "executeTrash pf client entries s =
     (let sources = map fe_uri entries;
          kind = (if list_ex isRemoteUri sources then OpDeletePermanently else OpDeleteToTrash);
          (ok, s1) = startOperation pf client (plan_request kind sources None) s
      in if ok then setDialog None s1 else s1)"

definition handleTrash ::
  "Platform \<Rightarrow> OpsClient \<Rightarrow> OpsPreferences option \<Rightarrow> PanelId \<Rightarrow> OpsState \<Rightarrow> OpsState option" where
  "handleTrash pf client prefs panelId s =
     do { (entries, s1) \<leftarrow> selectedEntries panelId s;
          Some (let confirmDisabled = (case prefs of None \<Rightarrow> False | Some p \<Rightarrow> \<not> pref_confirmDelete p);
                    skipPersisted = (case ops_session s1 of None \<Rightarrow> False
                                     | Some st \<Rightarrow> obj_get st SKIP_TRASH_CONFIRM_KEY = Some ''true'')
                in if entries = [] then s1
                   else if confirmDisabled \<or> skipPersisted then executeTrash pf client entries s1
                   else setDialog (Some (TrashDialog panelId entries False None)) s1) }"

definition handlePermanentDelete ::
  "Platform \<Rightarrow> OpsClient \<Rightarrow> OpsPreferences option \<Rightarrow> PanelId \<Rightarrow> OpsState \<Rightarrow> OpsState option" where
  "handlePermanentDelete pf client prefs panelId s =
     do { (entries, s1) \<leftarrow> selectedEntries panelId s;
          Some (if entries = [] then s1
                else if (case prefs of None \<Rightarrow> False | Some p \<Rightarrow> \<not> pref_confirmPermanentDelete p)
                then snd (startOperation pf client
                            (plan_request OpDeletePermanently (map fe_uri entries) None) s1)
                else setDialog (Some (PermanentDeleteDialog panelId entries None)) s1) }"

definition submitCreateFolder ::
  "Platform \<Rightarrow> OpsClient \<Rightarrow> PanelId \<Rightarrow> string \<Rightarrow> OpsState \<Rightarrow> OpsState option" where
  "submitCreateFolder pf client panelId rawName s =
     (let name = js_trim rawName; fail = (\<lambda>m. setDialog (Some (CreateFolderDialog panelId rawName (Some m))))
      in if \<not> isValidName name then Some (fail ''Enter a folder name without path separators.'' s)
         else do { tab \<leftarrow> activeTab (panels (ops_panels s) panelId);
                   Some (let (reply, s1) = planOperation client
                               (plan_request OpCreateDirectory [] (Some (joinUri (tab_uri tab) name))) s
                         in case reply of
                              Inl e \<Rightarrow> fail (thrown_message e) s1
                            | Inr plan \<Rightarrow>
                                (if plan_conflicts plan \<noteq> []
                                 then fail ''A folder with this name already exists.'' s1
                                 else let (ok, s2) = startPlannedOperation pf client plan s1
                                      in if ok then setDialog None s2 else s2)) })"

definition submitCreateFile ::
  "Platform \<Rightarrow> OpsClient \<Rightarrow> PanelId \<Rightarrow> string \<Rightarrow> OpsState \<Rightarrow> OpsState option" where
  "submitCreateFile pf client panelId rawName s =
     (let name = js_trim rawName; fail = (\<lambda>m. setDialog (Some (CreateFileDialog panelId rawName (Some m))))
      in if \<not> isValidName name then Some (fail ''Enter a file name without path separators.'' s)
         else do { tab \<leftarrow> activeTab (panels (ops_panels s) panelId);
                   Some (let targetUri = joinUri (tab_uri tab) name;
                             (reply, s1) = planOperation client (plan_request OpCreateFile [] (Some targetUri)) s
                         in case reply of
                              Inl e \<Rightarrow> fail (thrown_message e) s1
                            | Inr plan \<Rightarrow>
                                (let (ok, s2) = startPlannedOperation pf client plan s1
                                 in if ok then dispatch_panel (SetSelection panelId (Some targetUri))
                                                 (setDialog None s2)
                                    else s2)) })"

definition rename_request :: "string \<Rightarrow> string \<Rightarrow> PlanRequest" where
  "rename_request uri name = (plan_request OpRename [uri] None)\<lparr>pr_newName := Some name\<rparr>"

definition submitRename ::
  "Platform \<Rightarrow> OpsClient \<Rightarrow> PanelId \<Rightarrow> FileEntryDto \<Rightarrow> string \<Rightarrow> OpsState \<Rightarrow> OpsState option" where
  "submitRename pf client panelId entry rawName s =
     (let name = js_trim rawName
      in if \<not> isValidName name
         then Some (setDialog (Some (RenameDialog panelId entry rawName
                (Some ''Enter a name without path separators.''))) s)
         else let (ok, s1) = startOperation pf client (rename_request (fe_uri entry) name) s
              in if \<not> ok then Some s1
                 else do { tab \<leftarrow> activeTab (panels (ops_panels s) panelId);
                           Some (setDialog None (dispatch_panel
                             (RenameEntry (fe_uri entry) (joinUri (tab_uri tab) name) name) s1)) })"

definition submitInlineRename ::
  "Platform \<Rightarrow> OpsClient \<Rightarrow> PanelId \<Rightarrow> FileEntryDto \<Rightarrow> string \<Rightarrow> OpsState \<Rightarrow> OpsState option" where
  "submitInlineRename pf client panelId entry rawName s =
     (let trimmed = js_trim rawName
      in if \<not> isValidName trimmed
         then Some (setDialog (Some (RenameDialog panelId entry trimmed
                (Some ''Enter a name without path separators.''))) s)
         else if trimmed = fe_name entry then Some s
         else let (ok, s1) = startOperation pf client (rename_request (fe_uri entry) trimmed) s
              in if \<not> ok then Some s1
                 else do { tab \<leftarrow> activeTab (panels (ops_panels s) panelId);
                           Some (dispatch_panel
                             (RenameEntry (fe_uri entry) (joinUri (tab_uri tab) trimmed) trimmed) s1) })"

definition submitTrash ::
  "Platform \<Rightarrow> OpsClient \<Rightarrow> FileEntryDto list \<Rightarrow> bool \<Rightarrow> OpsState \<Rightarrow> OpsState" where
  "submitTrash pf client entries dontAskAgain s =
     executeTrash pf client entries
       (if dontAskAgain
        then s\<lparr>ops_session := map_option (obj_set SKIP_TRASH_CONFIRM_KEY ''true'') (ops_session s)\<rparr>
        else s)"

definition submitPermanentDelete ::
  "Platform \<Rightarrow> OpsClient \<Rightarrow> PanelId \<Rightarrow> FileEntryDto list \<Rightarrow> OpsState \<Rightarrow> OpsState" where
  "submitPermanentDelete pf client panelId entries s =
     (let (reply, s1) = planOperation client
            (plan_request OpDeletePermanently (map fe_uri entries) None) s
      in case reply of
           Inl e \<Rightarrow> setDialog (Some (PermanentDeleteDialog panelId entries (Some (thrown_message e)))) s1
         | Inr plan \<Rightarrow> (let (ok, s2) = startPlannedOperation pf client plan s1
                       in if ok then setDialog None s2 else s2))"

text \<open>Only the changed names are sent. The result is the message shown, or null.\<close>

definition changed_names :: "FileEntryDto list \<Rightarrow> string list \<Rightarrow> (string \<times> string) list" where
  "changed_names entries newNames =
     map (\<lambda>(e, n). (fe_uri e, n)) (filter (\<lambda>(e, n). n \<noteq> fe_name e)
       (map (\<lambda>i. (entries ! i, if i < length newNames then newNames ! i else fe_name (entries ! i)))
          [0 ..< length entries]))"

definition submitMultiRename ::
  "Platform \<Rightarrow> OpsClient \<Rightarrow> FileEntryDto list \<Rightarrow> string list \<Rightarrow> OpsState \<Rightarrow> string option \<times> OpsState" where
  "submitMultiRename pf client entries newNames s =
     (let s0 = setOperationError None s; batchRenames = changed_names entries newNames
      in if batchRenames = [] then (Some ''No names were changed.'', s0)
         else let (reply, s1) = planOperation client
                    ((plan_request OpBatchRename (map fst batchRenames) None)
                       \<lparr>pr_batchRenames := Some batchRenames\<rparr>) s0
              in case reply of
                   Inl e \<Rightarrow> (Some (thrown_message e), setOperationError (Some (thrown_message e)) s1)
                 | Inr plan \<Rightarrow>
                     (let (ok, s2) = startPlannedOperation pf client plan s1
                      in (if ok then None else Some ''Multi-rename could not be started.'', s2)))"

section \<open>Archives\<close>

text \<open>Archive jobs are started without \<open>startPlannedOperation\<close>: nothing is noted for the refresh.\<close>

definition start_archive ::
  "Platform \<Rightarrow> OpsClient \<Rightarrow> PlanRequest \<Rightarrow> string \<Rightarrow> string \<Rightarrow> string \<Rightarrow> OpsState \<Rightarrow> OpsState" where
  "start_archive pf client req startedTitle detail failedTitle s =
     (let failure = (\<lambda>e. push_toast \<lparr>toast_tone = ToneError,
              toast_title = failedTitle @ '': '' @ err_message (normalizeIpcError e),
              toast_detail = None, toast_popup = None, toast_actionLabel = None\<rparr>);
          (reply, s1) = planOperation client req s
      in case reply of
           Inl e \<Rightarrow> failure e s1
         | Inr plan \<Rightarrow>
             (let (reply2, s2) = send_start client (plan_operationId plan) s1
              in case reply2 of
                   Inl e \<Rightarrow> failure e s2
                 | Inr job \<Rightarrow> push_toast (toast_of ToneInfo startedTitle detail None None) (store_job pf job s2)))"

definition selected_visible :: "Platform \<Rightarrow> PanelTabState \<Rightarrow> FileEntryDto option option" where
  "selected_visible pf tab =
     do { es \<leftarrow> selectVisibleEntries pf tab; Some (find (\<lambda>e. Some (fe_uri e) = tab_selectedId tab) es) }"

definition error_toast :: "string \<Rightarrow> ToastInput" where
  "error_toast title = \<lparr>toast_tone = ToneError, toast_title = title, toast_detail = None,
     toast_popup = None, toast_actionLabel = None\<rparr>"

definition archive_base_name :: "string \<Rightarrow> string" where
  "archive_base_name name = (if CHR ''.'' \<in> set name then hd (js_split (CHR ''.'') name) else name)"

definition handleCompress :: "Platform \<Rightarrow> OpsClient \<Rightarrow> PanelId \<Rightarrow> OpsState \<Rightarrow> OpsState option" where
  "handleCompress pf client panelId s =
     do { tab \<leftarrow> activeTab (panels (ops_panels s) panelId);
          found \<leftarrow> (if truthy (tab_selectedId tab) then selected_visible pf tab else Some None);
          Some (case found of
                  None \<Rightarrow> push_toast (error_toast ''Select files or folders to compress'') s
                | Some entry \<Rightarrow>
                    (let archive = archive_base_name (fe_name entry) @ ''.zip''
                     in start_archive pf client
                          (plan_request OpCreateArchive [fe_uri entry] (Some (joinLocalUri (tab_uri tab) archive)))
                          ''Compression started'' archive ''Compress failed'' s)) }"

definition extract_dir_name :: "string \<Rightarrow> string" where
  "extract_dir_name name =
     (case js_lastIndexOf (CHR ''.'') name of
        Some i \<Rightarrow> if i > 0 then take i name else name @ ''_extracted''
      | None \<Rightarrow> name @ ''_extracted'')"

definition handleExtract :: "Platform \<Rightarrow> OpsClient \<Rightarrow> PanelId \<Rightarrow> OpsState \<Rightarrow> OpsState option" where
  "handleExtract pf client panelId s =
     do { tab \<leftarrow> activeTab (panels (ops_panels s) panelId);
          found \<leftarrow> selected_visible pf tab;
          Some (case found of
                  None \<Rightarrow> push_toast (error_toast ''Select an archive to extract'') s
                | Some entry \<Rightarrow>
                    (if fe_kind entry = KDirectory
                     then push_toast (error_toast ''Select an archive to extract'') s
                     else let dirName = extract_dir_name (fe_name entry)
                          in start_archive pf client
                               (plan_request OpExtractArchive [fe_uri entry] (Some (joinLocalUri (tab_uri tab) dirName)))
                               ''Extraction started'' dirName ''Extract failed'' s)) }"

section \<open>What may be done with a selection\<close>

record FileMutationCapabilities =
  canCopy :: bool
  canMove :: bool
  canRename :: bool
  canDelete :: bool
  canNewFolder :: bool
  canCreateFile :: bool
  canEdit :: bool

definition paneDirectoryCanWrite :: "PanelTabState \<Rightarrow> bool" where
  "paneDirectoryCanWrite tab =
     (let rest = (if \<not> isRemoteUri (tab_uri tab) then True
                  else let entries = obj_values (tab_entriesById tab)
                       in entries = [] \<or> list_ex fe_canWrite entries)
      in case obj_get (tab_entriesById tab) (tab_uri tab) of
           Some directoryEntry \<Rightarrow>
             if fe_kind directoryEntry = KDirectory then fe_canWrite directoryEntry else rest
         | None \<Rightarrow> rest)"

definition fileMutationState :: "PanelTabState \<Rightarrow> FileEntryDto list \<Rightarrow> FileMutationCapabilities" where
  "fileMutationState tab selected =
     (let selectionCount = countOperationalSelection tab;
          hasSelection = (selectionCount > 0);
          paneWritable = paneDirectoryCanWrite tab;
          readable = (\<lambda>e. if fe_kind e = KDirectory then fe_canList e else fe_canRead e)
      in \<lparr>canCopy = hasSelection \<and> list_all readable selected,
          canMove = hasSelection \<and> list_all (\<lambda>e. fe_canWrite e \<and> fe_canDelete e) selected,
          canRename = selectionCount = 1 \<and>
            (case selected of [] \<Rightarrow> False | e # _ \<Rightarrow> fe_canRename e),
          canDelete = hasSelection \<and> list_all fe_canDelete selected,
          canNewFolder = paneWritable, canCreateFile = paneWritable,
          canEdit = selected \<noteq> [] \<and> \<not> isRemoteUri (tab_uri tab)\<rparr>)"

section \<open>A free name for a new folder\<close>

lemma folder_candidate_inject [simp]: "folder_candidate a = folder_candidate b \<longleftrightarrow> a = b"
  by (simp add: folder_candidate_def)

lemma free_suffix_found:
  assumes "folder_candidate k \<notin> set existing" and "n \<le> k"
  shows "\<exists>m. free_suffix existing n = Some m \<and> n \<le> m \<and> m \<le> k \<and> folder_candidate m \<notin> set existing \<and>
    (\<forall>i. n \<le> i \<and> i < m \<longrightarrow> folder_candidate i \<in> set existing)"
  using assms(2)
proof (induction "k - n" arbitrary: n)
  case 0
  then show ?case using assms(1) by (subst free_suffix.simps) auto
next
  case (Suc d)
  show ?case
  proof (cases "folder_candidate n \<in> set existing")
    case True
    with Suc.hyps(2) Suc.prems obtain m where
      m: "free_suffix existing (n + 1) = Some m" "n + 1 \<le> m" "m \<le> k"
         "folder_candidate m \<notin> set existing"
         "\<forall>i. n + 1 \<le> i \<and> i < m \<longrightarrow> folder_candidate i \<in> set existing"
      using Suc.hyps(1)[of "n + 1"] by force
    have "\<forall>i. n \<le> i \<and> i < m \<longrightarrow> folder_candidate i \<in> set existing"
      using m(5) True by (metis Suc_eq_plus1 Suc_leI le_neq_implies_less)
    with m True show ?thesis by (subst free_suffix.simps) auto
  next
    case False
    then show ?thesis using Suc.prems by (subst free_suffix.simps) auto
  qed
qed

lemma free_candidate:
  "\<exists>k. n \<le> k \<and> k \<le> n + length existing \<and> folder_candidate k \<notin> set existing"
proof (rule ccontr)
  assume "\<not> ?thesis"
  then have "folder_candidate ` {n .. n + length existing} \<subseteq> set existing" by auto
  then have "card (folder_candidate ` {n .. n + length existing}) \<le> length existing"
    by (meson card_length card_mono finite_set le_trans)
  then show False by (simp add: card_image inj_on_def)
qed

text \<open>Asking for a new folder always comes to a name: the suffix loop, which has no bound of
  its own, stops after at most one step more than there are entries, and the name it offers is
  not the name of any folder listed.\<close>

theorem new_folder_name_is_free:
  "\<exists>name. nextFolderName entries = Some name \<and> name \<notin> set (folder_names entries) \<and>
     (name = DEFAULT_FOLDER_NAME \<or>
      (\<exists>n. name = folder_candidate n \<and> 2 \<le> n \<and> n \<le> 2 + length entries \<and>
           (\<forall>i. 2 \<le> i \<and> i < n \<longrightarrow> folder_candidate i \<in> set (folder_names entries))))"
proof (cases "DEFAULT_FOLDER_NAME \<in> set (folder_names entries)")
  case True
  let ?ex = "folder_names entries"
  obtain k where k: "2 \<le> k" "k \<le> 2 + length ?ex" "folder_candidate k \<notin> set ?ex"
    using free_candidate[of 2 ?ex] by auto
  obtain m where m: "free_suffix ?ex 2 = Some m" "2 \<le> m" "m \<le> k" "folder_candidate m \<notin> set ?ex"
      "\<forall>i. 2 \<le> i \<and> i < m \<longrightarrow> folder_candidate i \<in> set ?ex"
    using free_suffix_found[OF k(3,1)] by blast
  have "length ?ex \<le> length entries" by (simp add: folder_names_def)
  with k m show ?thesis by (auto simp: nextFolderName_def True Let_def)
qed (simp add: nextFolderName_def)

theorem new_folder_name_is_free_witness:
  "\<exists>name. nextFolderName [] = Some name \<and> name \<notin> set (folder_names [])"
  using new_folder_name_is_free[of "[]"] by blast

section \<open>What is started\<close>

lemma ops_started_setters [simp]:
  "ops_started (setDialog d s) = ops_started s"
  "ops_started (setOperationError e s) = ops_started s"
  "ops_started (store_job pf job s) = ops_started s"
  "ops_submitInFlight (setDialog d s) = ops_submitInFlight s"
  by (simp_all add: setDialog_def setOperationError_def store_job_def)

lemma start_planned_started:
  "ops_started (snd (startPlannedOperation pf client plan s)) =
     (if plan_operationId plan \<in> set (ops_starting s) then ops_started s
      else ops_started s @ [plan_operationId plan])"
  by (simp add: startPlannedOperation_def send_start_def Let_def split: prod.splits sum.splits)

lemma review_started:
  "ops_started (snd (reviewCopyMoveDialog client d s)) = ops_started s"
  by (simp add: reviewCopyMoveDialog_def planOperation_def Let_def split: prod.splits sum.splits)

text \<open>The request that reviewing a dialog sends to the planner.\<close>

definition review_request :: "CopyMoveDialog \<Rightarrow> PlanRequest" where
  "review_request d =
     \<lparr>pr_kind = copy_move_op (cm_kind d), pr_sources = map fe_uri (cm_entries d),
      pr_destination = Some (normalizeLocalInput (cm_destination d)), pr_newName = None,
      pr_conflictPolicy = cm_conflictPolicy d, pr_batchRenames = None\<rparr>"

lemma review_planned:
  "fst (reviewCopyMoveDialog client d s) = Some plan \<Longrightarrow>
   planFileOperation client (review_request d) = Inr plan"
  by (auto simp: reviewCopyMoveDialog_def planOperation_def review_request_def Let_def
        split: prod.splits sum.splits)

lemma submit_planned_started:
  "ops_started (submit_planned pf client d resolving policy plan s) = ops_started s \<or>
   (ops_started (submit_planned pf client d resolving policy plan s) =
      ops_started s @ [plan_operationId plan] \<and>
    (plan_conflicts plan = [] \<or> resolving \<and> policy \<noteq> CpFail))"
  using start_planned_started[of pf client plan s]
  by (auto simp: submit_planned_def Let_def split: prod.splits if_splits)

definition chosen_policy :: "CopyMoveDialog \<Rightarrow> ConflictPolicy option" where
  "chosen_policy d = (if cm_step d = StepConfirmOverwrite then cm_pendingConflictPolicy d else None)"

text \<open>A concrete dialog, a back end that finds a conflict, and an empty state.\<close>

definition sample_plan :: FileOperationPlanDto where
  "sample_plan = \<lparr>plan_operationId = ''op'', plan_kind = OpCopy, plan_sources = [''local:///d/a''],
     plan_destination = Some ''local:///r'', plan_newName = None, plan_conflicts = [''local:///r/a'']\<rparr>"

definition sample_client :: OpsClient where
  "sample_client = \<lparr>planFileOperation = (\<lambda>req. Inr sample_plan),
     startFileOperation = (\<lambda>i. Inl ThrownOther)\<rparr>"

definition sample_copy :: CopyMoveDialog where
  "sample_copy = \<lparr>cm_panelId = Left, cm_kind = CmCopy, cm_entries = [entry_a],
     cm_destination = ''local:///r'', cm_conflictPolicy = CpFail, cm_advancedOptions = False,
     cm_planningEnabled = False, cm_plan = Some sample_plan, cm_planning = False,
     cm_step = StepConfirmOverwrite, cm_pendingConflictPolicy = Some CpOverwrite, cm_error = None\<rparr>"

definition sample_ops :: OpsState where
  "sample_ops = \<lparr>ops_panels = sample_state, ops_dialog = None, ops_error = None, ops_jobs = [],
     ops_refresh = [], ops_clipboard = None, ops_starting = [], ops_submitInFlight = False,
     ops_session = Some [], ops_dispatched = [], ops_toasts = [], ops_planned = [], ops_started = []\<rparr>"

text \<open>C8: submitting the copy or move dialog overwrites nothing silently. It starts at most one
  operation. What it starts is the plan that the dialog shows, and then that plan has no conflict
  with the destination; or the plan that the back end makes for this submission, and then it has no
  conflict or the user has chosen a policy other than "fail" in the conflict step and the plan
  was made under that very policy.\<close>

theorem copy_never_overwrites_silently:
  assumes "ops_started (submitCopyMove pf client d s) \<noteq> ops_started s"
    and "policy = or_default (cm_pendingConflictPolicy d) (cm_conflictPolicy d)"
  shows "\<exists>plan. ops_started (submitCopyMove pf client d s) = ops_started s @ [plan_operationId plan] \<and>
     (if cm_plan d \<noteq> None \<and> chosen_policy d = None
      then cm_plan d = Some plan \<and> plan_conflicts plan = []
      else planFileOperation client (review_request (d\<lparr>cm_conflictPolicy := policy\<rparr>)) = Inr plan \<and>
        (plan_conflicts plan = [] \<or> chosen_policy d = Some policy \<and> policy \<noteq> CpFail))"
proof -
  let ?s0 = "s\<lparr>ops_submitInFlight := True\<rparr>"
  let ?res = "cm_step d = StepConfirmOverwrite \<and> cm_pendingConflictPolicy d \<noteq> None"
  let ?pol = "or_default (cm_pendingConflictPolicy d) (cm_conflictPolicy d)"
  let ?d = "d\<lparr>cm_conflictPolicy := ?pol, cm_pendingConflictPolicy := None, cm_plan := None,
              cm_step := (if ?res then StepConfirmOverwrite else StepReview)\<rparr>"
  have free: "\<not> ops_submitInFlight s" and dest: "js_trim (cm_destination d) \<noteq> []"
    using assms by (auto simp: submitCopyMove_def Let_def split: if_splits)
  show ?thesis
  proof (cases "cm_plan d \<noteq> None \<and> \<not> ?res")
    case True
    then have "ops_started (submitCopyMove pf client d s) =
        ops_started (submit_planned pf client d ?res ?pol (the (cm_plan d)) ?s0)"
      using free dest by (simp add: submitCopyMove_def Let_def)
    moreover have "chosen_policy d = None" using True by (auto simp: chosen_policy_def)
    ultimately show ?thesis
      using submit_planned_started[of pf client d ?res ?pol "the (cm_plan d)" ?s0] assms True by auto
  next
    case False
    obtain r s2 where rs: "reviewCopyMoveDialog client ?d ?s0 = (r, s2)" by fastforce
    have s2: "ops_started s2 = ops_started s" using review_started[of client ?d ?s0] rs by simp
    from False free dest rs assms s2 obtain plan where r: "r = Some plan"
        and sub: "ops_started (submitCopyMove pf client d s) =
          ops_started (submit_planned pf client d ?res ?pol plan s2)"
      by (cases r) (auto simp: submitCopyMove_def Let_def split: if_splits)
    have "planFileOperation client (review_request ?d) = Inr plan"
      using review_planned[of client ?d ?s0 plan] rs r by simp
    moreover have "review_request ?d = review_request (d\<lparr>cm_conflictPolicy := ?pol\<rparr>)"
      by (simp add: review_request_def)
    moreover have "\<not> (cm_plan d \<noteq> None \<and> chosen_policy d = None)" and "?res \<Longrightarrow> chosen_policy d = Some ?pol"
      using False by (auto simp: chosen_policy_def or_default_def)
    ultimately show ?thesis
      using submit_planned_started[of pf client d ?res ?pol plan s2] assms s2 sub by auto
  qed
qed

theorem copy_never_overwrites_silently_witness:
  "ops_started (submitCopyMove ordinal_platform sample_client sample_copy sample_ops) = [''op''] \<and>
   planFileOperation sample_client (review_request (sample_copy\<lparr>cm_conflictPolicy := CpOverwrite\<rparr>)) = Inr sample_plan"
proof -
  have "ops_started (submitCopyMove ordinal_platform sample_client sample_copy sample_ops) \<noteq>
      ops_started sample_ops"
    by (simp add: submitCopyMove_def reviewCopyMoveDialog_def planOperation_def submit_planned_def
        startPlannedOperation_def send_start_def or_default_def sample_client_def sample_copy_def
        sample_ops_def sample_plan_def js_trim_def trim_end_def is_js_space_def code_def
        setDialog_def setOperationError_def set_add_def Let_def)
  from copy_never_overwrites_silently[OF this refl] show ?thesis
    by (auto simp: sample_copy_def chosen_policy_def or_default_def sample_client_def sample_ops_def sample_plan_def)
qed

section \<open>Deleting asks first\<close>

text \<open>As long as neither the preferences nor the answer "do not ask again" of this session
  switch the question off, deleting to the trash and deleting for good send nothing to the
  back end: they only open the dialog that names the entries selected. Deleting for good never
  looks at the session's answer.\<close>

theorem deletion_asks_first:
  assumes "selectedEntries panelId s = Some (entries, s1)" and "entries \<noteq> []"
    and "\<forall>p. prefs = Some p \<longrightarrow> pref_confirmDelete p \<and> pref_confirmPermanentDelete p"
    and "\<forall>st. ops_session s = Some st \<longrightarrow> obj_get st SKIP_TRASH_CONFIRM_KEY \<noteq> Some ''true''"
  shows "handleTrash pf client prefs panelId s =
           Some (setDialog (Some (TrashDialog panelId entries False None)) s1) \<and>
         (\<forall>t. handlePermanentDelete pf client prefs panelId (s\<lparr>ops_session := t\<rparr>) =
           Some (setDialog (Some (PermanentDeleteDialog panelId entries None)) (s1\<lparr>ops_session := t\<rparr>))) \<and>
         ops_planned s1 = ops_planned s \<and> ops_started s1 = ops_started s"
proof -
  have sel: "\<And>t. selectedEntries panelId (s\<lparr>ops_session := t\<rparr>) = Some (entries, s1\<lparr>ops_session := t\<rparr>)"
    and s1: "ops_planned s1 = ops_planned s" "ops_started s1 = ops_started s"
            "ops_session s1 = ops_session s"
    using assms(1) by (auto simp: selectedEntries_def setOperationError_def Let_def bind_eq_Some_conv)
  show ?thesis
    using assms s1 sel
    by (auto simp: handleTrash_def handlePermanentDelete_def split: option.splits)
qed

theorem deletion_asks_first_witness:
  "map_option ops_dialog (handleTrash ordinal_platform sample_client None Left sample_ops) =
     Some (Some (TrashDialog Left [entry_a] False None))"
proof -
  have "activeTab (panels (ops_panels sample_ops) Left) = Some sample_tab"
    by (simp add: sample_ops_def sample_state_def sample_panel_def activeTab_def)
  then have sel: "selectedEntries Left sample_ops = Some ([entry_a], sample_ops)"
    by (simp add: selectedEntries_def List.map_filter_def)
  show ?thesis
    using deletion_asks_first[OF sel, where prefs = None]
    by (simp add: sample_ops_def setDialog_def)
qed

text \<open>"Move to trash" of a remote entry is a deletion for good. It is asked for under the preference
  for the trash alone, whatever the user set for deleting for good.\<close>

theorem remote_trash_is_permanent:
  assumes "selectedEntries panelId s = Some (entries, s1)" and "e \<in> set entries"
    and "isRemoteUri (fe_uri e)" and "\<not> pref_confirmDelete p"
  shows "\<exists>s'. handleTrash pf client (Some p) panelId s = Some s' \<and>
     ops_planned s' = ops_planned s1 @ [plan_request OpDeletePermanently (map fe_uri entries) None]"
proof -
  let ?req = "plan_request OpDeletePermanently (map fe_uri entries) None"
  have ne: "entries \<noteq> []" and r: "list_ex isRemoteUri (map fe_uri entries)"
    using assms(2,3) by (auto simp: list_ex_iff)
  have "ops_planned (executeTrash pf client entries s1) = ops_planned s1 @ [?req]"
    by (simp add: executeTrash_def startOperation_def planOperation_def startPlannedOperation_def
        send_start_def setDialog_def setOperationError_def store_job_def r Let_def
        split: prod.splits sum.splits) 
  with assms ne show ?thesis by (simp add: handleTrash_def)
qed

end
