(* ===== verification/MultiRename.thy ===== *)
theory MultiRename
  imports FileOps
begin

text \<open>
  Renaming several files by a pattern (\<open>utils/multiRename.ts\<close>) and the guard of its dialog
  (\<open>components/MultiRenameDialog.tsx\<close>). Counters are integers; the regular expression that
  the user may type is handed to an engine that is an argument, with \<open>None\<close> for an invalid
  expression. The date is read for each name anew and is a function of its position.
\<close>

section \<open>String replacement as the language has it\<close>

text \<open>The replacement string of \<open>String.replace\<close> for an expression without groups: \<open>$$\<close>,
  \<open>$&\<close>, \<open>$`\<close> and \<open>$'\<close> stand for a dollar sign, the match and what lies before and behind it.\<close>

fun expand_replacement :: "string \<Rightarrow> string \<Rightarrow> string \<Rightarrow> string \<Rightarrow> string" where
  "expand_replacement matched before behind [] = []"
| "expand_replacement matched before behind [c] = [c]"
| "expand_replacement matched before behind (c # d # r) =
     (if c = CHR ''$'' \<and> d = CHR ''$'' then CHR ''$'' # expand_replacement matched before behind r
      else if c = CHR ''$'' \<and> d = CHR ''&'' then matched @ expand_replacement matched before behind r
      else if c = CHR ''$'' \<and> d = CHR ''`'' then before @ expand_replacement matched before behind r
      else if c = CHR ''$'' \<and> code d = 39 then behind @ expand_replacement matched before behind r
      else c # expand_replacement matched before behind (d # r))"

text \<open>\<open>s.replace(/token/g, rep)\<close> for a token without special characters.\<close>

function replace_from :: "string \<Rightarrow> string \<Rightarrow> string \<Rightarrow> string \<Rightarrow> string" where
  "replace_from token rep before s =
     (case s of
        [] \<Rightarrow> []
      | c # cs \<Rightarrow>
          (if token \<noteq> [] \<and> js_startsWith s token
           then expand_replacement token before (drop (length token) s) rep
                  @ replace_from token rep (before @ token) (drop (length token) s)
           else c # replace_from token rep (before @ [c]) cs))"
  by pat_completeness auto

termination
  by (relation "measure (\<lambda>(_, _, _, s). length s)") auto

declare replace_from.simps [simp del]

definition replace_token :: "string \<Rightarrow> string \<Rightarrow> string \<Rightarrow> string" where
  "replace_token token rep s = replace_from token rep [] s"

text \<open>\<open>s.padStart(n, "0")\<close>.\<close>

definition pad_zero :: "int \<Rightarrow> string \<Rightarrow> string" where
  "pad_zero n s = replicate (nat n - length s) (CHR ''0'') @ s"

text \<open>\<open>s.split(sep).join(rep)\<close> for a separator that is not empty.\<close>

function split_join :: "string \<Rightarrow> string \<Rightarrow> string \<Rightarrow> string" where
  "split_join sep rep s =
     (case s of
        [] \<Rightarrow> []
      | c # cs \<Rightarrow>
          (if sep \<noteq> [] \<and> js_startsWith s sep then rep @ split_join sep rep (drop (length sep) s)
           else c # split_join sep rep cs))"
  by pat_completeness auto

termination
  by (relation "measure (\<lambda>(_, _, s). length s)") auto

declare split_join.simps [simp del]

section \<open>Case conversion\<close>

datatype CaseConversion = CcNone | CcUpper | CcLower | CcTitle | CcSentence | CcCamel | CcSnake

definition is_alnum :: "char \<Rightarrow> bool" where
  "is_alnum c \<longleftrightarrow> is_ascii_letter c \<or> is_digit c"

text \<open>\<open>\\w\<close> and \<open>\\s\<close>, and what a dot does not match.\<close>

definition is_word :: "char \<Rightarrow> bool" where
  "is_word c \<longleftrightarrow> is_alnum c \<or> c = CHR ''_''"

definition is_line_end :: "char \<Rightarrow> bool" where
  "is_line_end c \<longleftrightarrow> code c = 10 \<or> code c = 13"

definition sentence_case :: "string \<Rightarrow> string" where
  "sentence_case s = js_toUpperCase (take 1 s) @ js_toLowerCase (drop 1 s)"

text \<open>\<open>/\\w\\S*/g\<close>: from a word character up to the next white space.\<close>

function title_case :: "string \<Rightarrow> string" where
  "title_case s =
     (case s of
        [] \<Rightarrow> []
      | c # cs \<Rightarrow>
          (if is_word c
           then sentence_case (c # takeWhile (\<lambda>x. \<not> is_js_space x) cs)
                  @ title_case (dropWhile (\<lambda>x. \<not> is_js_space x) cs)
           else c # title_case cs))"
  by pat_completeness auto

termination
  by (relation "measure length") (auto simp: le_imp_less_Suc length_dropWhile_le)

declare title_case.simps [simp del]

text \<open>\<open>/[^a-zA-Z0-9]+(.)/g\<close>: the longest run of other characters that is followed by a
  character on the same line; when the run ends the text, its last character is that one.\<close>

definition camel_run :: "string \<Rightarrow> nat option" where
  "camel_run s =
     (let r = length (takeWhile (\<lambda>c. \<not> is_alnum c) s)
      in find (\<lambda>k. k < length s \<and> \<not> is_line_end (s ! k)) (rev [1 ..< Suc r]))"

lemma find_in: "find p xs = Some x \<Longrightarrow> x \<in> set xs \<and> p x"
  by (induction xs) (auto split: if_splits)

lemma camel_run_pos: "camel_run s = Some k \<Longrightarrow> 1 \<le> k \<and> k < length s"
  unfolding camel_run_def Let_def by (drule find_in) auto

function camel_words :: "string \<Rightarrow> string" where
  "camel_words s =
     (case s of
        [] \<Rightarrow> []
      | c # cs \<Rightarrow>
          (case camel_run s of
             Some k \<Rightarrow> js_toUpperCase [s ! k] @ camel_words (drop (Suc k) s)
           | None \<Rightarrow> c # camel_words cs))"
  by pat_completeness auto

termination
  by (relation "measure length") auto

declare camel_words.simps [simp del]

definition camel_case :: "string \<Rightarrow> string" where
  "camel_case s =
     (case camel_words s of
        [] \<Rightarrow> []
      | c # cs \<Rightarrow> (if is_ascii_upper c then lower_char c # cs else c # cs))"

text \<open>The four steps of snake case.\<close>

function collapse_other :: "string \<Rightarrow> string" where
  "collapse_other s =
     (case s of
        [] \<Rightarrow> []
      | c # cs \<Rightarrow>
          (if is_ascii_lower c \<or> is_digit c then c # collapse_other cs
           else CHR ''_'' # collapse_other (dropWhile (\<lambda>x. \<not> (is_ascii_lower x \<or> is_digit x)) cs)))"
  by pat_completeness auto

termination
  by (relation "measure length") (auto simp: le_imp_less_Suc length_dropWhile_le)

declare collapse_other.simps [simp del]

definition snake_case :: "string \<Rightarrow> string" where
  "snake_case s =
     (let marked = concat (map (\<lambda>c. if is_ascii_upper c then [CHR ''_'', c] else [c]) s);
          lowered = js_toLowerCase marked;
          stripped = (if js_startsWith lowered ''_'' then drop 1 lowered else lowered)
      in collapse_other stripped)"

definition applyCaseConversion :: "string \<Rightarrow> CaseConversion \<Rightarrow> string" where
  "applyCaseConversion s conversion =
     (case conversion of
        CcUpper \<Rightarrow> js_toUpperCase s | CcLower \<Rightarrow> js_toLowerCase s | CcTitle \<Rightarrow> title_case s
      | CcSentence \<Rightarrow> sentence_case s | CcCamel \<Rightarrow> camel_case s | CcSnake \<Rightarrow> snake_case s
      | CcNone \<Rightarrow> s)"

section \<open>Patterns\<close>

record MultiRenameOptions =
  mr_pattern :: string
  mr_search :: "string option"
  mr_replace :: "string option"
  mr_useRegex :: bool
  mr_caseConversion :: CaseConversion
  mr_counterStart :: int
  mr_counterStep :: int
  mr_counterPadding :: int

record RenameResult =
  rr_originalName :: string
  rr_newName :: string
  rr_hasConflict :: bool

record RenameDate =
  rd_year :: nat
  rd_month :: nat
  rd_day :: nat

text \<open>An engine for regular expressions: pattern, replacement and subject.\<close>

type_synonym regex_engine = "string \<Rightarrow> string \<Rightarrow> string \<Rightarrow> string option"

definition name_parts :: "string \<Rightarrow> string \<times> string" where
  "name_parts originalName =
     (case js_lastIndexOf (CHR ''.'') originalName of
        Some i \<Rightarrow> if i > 0 then (take i originalName, drop (Suc i) originalName) else (originalName, [])
      | None \<Rightarrow> (originalName, []))"

text \<open>\<open>[C:pad:start:step]\<close> at the start of the text: the three numbers and what follows.\<close>

definition counter_token :: "string \<Rightarrow> (nat \<times> nat \<times> nat \<times> string) option" where
  "counter_token s =
     (if \<not> js_startsWith s ''[C:'' then None
      else let a = drop 3 s; d1 = takeWhile is_digit a; a' = drop (length d1) a;
               b = drop 1 a'; d2 = takeWhile is_digit b; b' = drop (length d2) b;
               c = drop 1 b'; d3 = takeWhile is_digit c; c' = drop (length d3) c
           in if d1 \<noteq> [] \<and> js_startsWith a' '':'' \<and> d2 \<noteq> [] \<and> js_startsWith b' '':'' \<and> d3 \<noteq> []
                 \<and> js_startsWith c' '']''
              then Some (str_nat d1, str_nat d2, str_nat d3, drop 1 c') else None)"

lemma counter_token_shorter: "counter_token s = Some (p, st, step, rest) \<Longrightarrow> length rest < length s"
  by (cases s) (auto simp: counter_token_def Let_def js_startsWith_def split: if_splits)

text \<open>The counter of the token; a step of zero divides zero by zero.\<close>

definition token_value :: "int \<Rightarrow> int \<Rightarrow> int \<Rightarrow> nat \<Rightarrow> nat \<Rightarrow> nat \<Rightarrow> string" where
  "token_value counter counterStart counterStep p s st =
     pad_zero (int p)
       (if counterStep = 0 then ''NaN''
        else int_str (int s + (counter - counterStart) div counterStep * int st))"

function replace_counters :: "(nat \<Rightarrow> nat \<Rightarrow> nat \<Rightarrow> string) \<Rightarrow> string \<Rightarrow> string" where
  "replace_counters val s =
     (case s of
        [] \<Rightarrow> []
      | c # cs \<Rightarrow>
          (case counter_token s of
             Some (p, st, step, rest) \<Rightarrow> val p st step @ replace_counters val rest
           | None \<Rightarrow> c # replace_counters val cs))"
  by pat_completeness auto

termination
  by (relation "measure (\<lambda>(_, s). length s)") (auto dest: counter_token_shorter)

declare replace_counters.simps [simp del]

definition new_name ::
  "regex_engine \<Rightarrow> MultiRenameOptions \<Rightarrow> RenameDate \<Rightarrow> int \<Rightarrow> string \<Rightarrow> string" where
  "new_name engine opts now counter originalName =
     (let (nameWithoutExt, extension) = name_parts originalName;
          n1 = replace_token ''[N]'' nameWithoutExt (mr_pattern opts);
          n2 = replace_token ''[E]'' extension n1;
          n3 = replace_token ''[C]'' (pad_zero (mr_counterPadding opts) (int_str counter)) n2;
          n4 = replace_counters (token_value counter (mr_counterStart opts) (mr_counterStep opts)) n3;
          n5 = replace_token ''[Y]'' (nat_str (rd_year now)) n4;
          n6 = replace_token ''[M]'' (pad_zero 2 (nat_str (rd_month now))) n5;
          n7 = replace_token ''[D]'' (pad_zero 2 (nat_str (rd_day now))) n6;
          n8 = (if \<not> truthy (mr_search opts) then n7
                else let search = the (mr_search opts); rep = or_default (mr_replace opts) []
                     in if mr_useRegex opts
                        then (case engine search rep n7 of Some r \<Rightarrow> r | None \<Rightarrow> n7)
                        else split_join search rep n7);
          n9 = applyCaseConversion n8 (mr_caseConversion opts)
      in if extension \<noteq> [] \<and> CHR ''.'' \<notin> set n9 then n9 @ ''.'' @ extension else n9)"

text \<open>The loop: the set of names given so far, the counter and the position.\<close>

fun rename_loop ::
  "regex_engine \<Rightarrow> MultiRenameOptions \<Rightarrow> (nat \<Rightarrow> RenameDate) \<Rightarrow> string list \<Rightarrow> int \<Rightarrow> nat \<Rightarrow>
   string list \<Rightarrow> RenameResult list" where
  "rename_loop engine opts clockAt newNames counter i [] = []"
| "rename_loop engine opts clockAt newNames counter i (originalName # names) =
     (let newName = new_name engine opts (clockAt i) counter originalName
      in \<lparr>rr_originalName = originalName, rr_newName = newName,
          rr_hasConflict = newName \<in> set newNames\<rparr>
         # rename_loop engine opts clockAt (set_add newName newNames)
             (counter + mr_counterStep opts) (Suc i) names)"

definition applyRenamePattern ::
  "regex_engine \<Rightarrow> (nat \<Rightarrow> RenameDate) \<Rightarrow> string list \<Rightarrow> MultiRenameOptions \<Rightarrow> RenameResult list" where
  "applyRenamePattern engine clockAt names opts =
     rename_loop engine opts clockAt [] (mr_counterStart opts) 0 names"

section \<open>The dialog\<close>

text \<open>\<open>handleExecute\<close>: nothing is sent when names clash or none changes. The result is the error
  that the dialog shows, if any, and whether it was closed.\<close>

definition handleExecute ::
  "Platform \<Rightarrow> OpsClient \<Rightarrow> FileEntryDto list \<Rightarrow> RenameResult list \<Rightarrow> bool \<Rightarrow> OpsState \<Rightarrow>
   (string option \<times> bool) \<times> OpsState" where
  "handleExecute pf client entries results executing s =
     (let hasConflicts = list_ex rr_hasConflict results;
          hasChanges = list_ex (\<lambda>r. rr_originalName r \<noteq> rr_newName r) results
      in if hasConflicts \<or> \<not> hasChanges \<or> executing then ((None, False), s)
         else let (e, s1) = submitMultiRename pf client entries (map rr_newName results) s
              in ((e, e = None), s1))"

text \<open>The settings the dialog opens with.\<close>

definition initial_options :: MultiRenameOptions where
  "initial_options =
     \<lparr>mr_pattern = ''[N]'', mr_search = None, mr_replace = None, mr_useRegex = False,
      mr_caseConversion = CcNone, mr_counterStart = 1, mr_counterStep = 1, mr_counterPadding = 0\<rparr>"

section \<open>Replacing tokens\<close>

lemma expand_plain: "CHR ''$'' \<notin> set rep \<Longrightarrow> expand_replacement m b a rep = rep"
  by (induction m b a rep rule: expand_replacement.induct) auto

lemma replace_from_skip:
  assumes "CHR ''['' \<notin> set xs"
  shows "replace_from (CHR ''['' # t) rep before (xs @ ys) =
    xs @ replace_from (CHR ''['' # t) rep (before @ xs) ys"
  using assms
proof (induction xs arbitrary: before)
  case (Cons x xs)
  then show ?case
    by (subst replace_from.simps) (auto simp: js_startsWith_def)
qed simp

lemma replace_from_Nil [simp]: "replace_from t rep before [] = []"
  by (subst replace_from.simps) simp

lemma replace_token_none: "CHR ''['' \<notin> set s \<Longrightarrow> replace_token (CHR ''['' # t) rep s = s"
  using replace_from_skip[of s t rep "[]" "[]"] by (simp add: replace_token_def)

lemma replace_from_here:
  assumes "CHR ''$'' \<notin> set rep"
  shows "replace_from (CHR ''['' # t) rep before (CHR ''['' # t @ ys) =
    rep @ replace_from (CHR ''['' # t) rep (before @ CHR ''['' # t) ys"
  using assms by (subst replace_from.simps) (simp add: js_startsWith_def expand_plain)

lemma replace_counters_none: "CHR ''['' \<notin> set s \<Longrightarrow> replace_counters val s = s"
proof (induction s)
  case (Cons c s)
  then have "counter_token (c # s) = None"
    by (auto simp: counter_token_def js_startsWith_def)
  with Cons show ?case by (subst replace_counters.simps) simp
qed (simp add: replace_counters.simps)

lemmas tokens_gone = replace_token_none replace_counters_none

definition plain_name :: "string \<Rightarrow> bool" where
  "plain_name name \<longleftrightarrow> CHR ''['' \<notin> set name \<and> CHR ''$'' \<notin> set name"

lemma name_parts_plain:
  "plain_name name \<Longrightarrow> plain_name (fst (name_parts name)) \<and> plain_name (snd (name_parts name))"
  by (auto simp: name_parts_def plain_name_def split: option.splits dest: in_set_takeD in_set_dropD)

lemma name_parts_join:
  "snd (name_parts name) \<noteq> [] \<Longrightarrow> fst (name_parts name) @ ''.'' @ snd (name_parts name) = name"
  by (auto simp: name_parts_def split: option.splits if_splits dest: js_lastIndexOf_Some)

lemma name_parts_dot: "stem \<noteq> [] \<Longrightarrow> CHR ''.'' \<notin> set ext \<Longrightarrow> name_parts (stem @ ''.'' @ ext) = (stem, ext)"
  using js_lastIndexOf_snoc[of "CHR ''.''" ext stem] by (simp add: name_parts_def)

section \<open>The loop\<close>

lemma loop_names:
  "map rr_originalName (rename_loop engine opts clockAt seen c i names) = names"
  by (induction names arbitrary: seen c i) (simp_all add: Let_def)

lemma length_loop [simp]: "length (rename_loop engine opts clockAt seen c i names) = length names"
  using loop_names[of engine opts clockAt seen c i names] by (metis length_map)

lemma loop_conflicts:
  "k < length names \<Longrightarrow>
   rr_hasConflict (rename_loop engine opts clockAt seen c i names ! k) =
     (rr_newName (rename_loop engine opts clockAt seen c i names ! k) \<in>
        set seen \<union> set (take k (map rr_newName (rename_loop engine opts clockAt seen c i names))))"
proof (induction names arbitrary: seen c i k)
  case (Cons n names)
  then show ?case by (cases k) (auto simp: Let_def)
qed simp

lemma distinct_by_prefix:
  "distinct xs \<longleftrightarrow> (\<forall>i < length xs. xs ! i \<notin> set (take i xs))"
  by (induction xs rule: rev_induct)
    (auto simp: nth_append less_Suc_eq all_conj_distrib split: if_splits)

lemma loop_distinct:
  "list_ex rr_hasConflict (applyRenamePattern engine clockAt names opts) \<longleftrightarrow>
   \<not> distinct (map rr_newName (applyRenamePattern engine clockAt names opts))"
proof -
  let ?rs = "rename_loop engine opts clockAt [] (mr_counterStart opts) 0 names"
  have "list_ex rr_hasConflict ?rs \<longleftrightarrow> (\<exists>k < length names. rr_hasConflict (?rs ! k))"
    by (auto simp: list_ex_length)
  also have "\<dots> \<longleftrightarrow> (\<exists>k < length names. map rr_newName ?rs ! k \<in> set (take k (map rr_newName ?rs)))"
    by (metis (no_types, lifting) Un_empty_left empty_set length_loop loop_conflicts nth_map)
  also have "\<dots> \<longleftrightarrow> \<not> distinct (map rr_newName ?rs)"
    by (subst distinct_by_prefix) auto
  finally show ?thesis unfolding applyRenamePattern_def .
qed

section \<open>Properties\<close>

lemma changed_names_eq:
  fixes results :: "RenameResult list" and entries :: "FileEntryDto list"
  assumes "length results = length entries" and "map rr_originalName results = map fe_name entries"
  shows "changed_names entries (map rr_newName results) =
    map (\<lambda>(e, r). (fe_uri e, rr_newName r))
      (filter (\<lambda>(e, r). rr_newName r \<noteq> rr_originalName r) (zip entries results))"
proof -
  have "map (\<lambda>i. (entries ! i, if i < length (map rr_newName results) then map rr_newName results ! i
          else fe_name (entries ! i))) [0 ..< length entries] = zip entries (map rr_newName results)"
    using assms(1) by (intro nth_equalityI) auto
  moreover have "map (\<lambda>(e, n). (fe_uri e, n)) (filter (\<lambda>(e, n). n \<noteq> fe_name e) (zip es (map rr_newName rs))) =
      map (\<lambda>(e, r). (fe_uri e, rr_newName r)) (filter (\<lambda>(e, r). rr_newName r \<noteq> rr_originalName r) (zip es rs))"
    if "length es = length rs" "map rr_originalName rs = map fe_name es" for es :: "FileEntryDto list" and rs :: "RenameResult list"
    using that by (induction es rs rule: list_induct2) auto
  ultimately show ?thesis using assms by (simp add: changed_names_def)
qed

text \<open>C9: what the multi-rename dialog flags and sends. It flags a result exactly when an earlier file gets
  the same name. It plans nothing while it is executing, when the names clash or when no name
  changes; otherwise it plans exactly one batch, which renames exactly the entries whose name
  changes, each to its result, and the names of all selected files afterwards are distinct.\<close>

theorem multi_rename_no_clash:
  assumes "results = applyRenamePattern engine clockAt (map fe_name entries) opts"
    and "batch = map (\<lambda>(e, r). (fe_uri e, rr_newName r))
      (filter (\<lambda>(e, r). rr_newName r \<noteq> fe_name e) (zip entries results))"
  shows "length results = length entries \<and>
    (\<forall>k < length results. rr_hasConflict (results ! k) \<longleftrightarrow>
       (\<exists>i < k. rr_newName (results ! i) = rr_newName (results ! k))) \<and>
    ops_planned (snd (handleExecute pf client entries results executing s)) = ops_planned s @
      (if executing \<or> \<not> distinct (map rr_newName results) \<or> map rr_newName results = map fe_name entries then []
       else [(plan_request OpBatchRename (map fst batch) None)\<lparr>pr_batchRenames := Some batch\<rparr>])"
proof (intro conjI)
  have len: "length results = length entries" "map rr_originalName results = map fe_name entries"
    by (simp_all add: assms(1) applyRenamePattern_def loop_names)
  then show "length results = length entries" by simp
  have "rr_hasConflict (results ! k) \<longleftrightarrow> rr_newName (results ! k) \<in> set (take k (map rr_newName results))"
    if "k < length results" for k
    using loop_conflicts[of k "map fe_name entries"] that by (simp add: assms(1) applyRenamePattern_def)
  then show "\<forall>k < length results. rr_hasConflict (results ! k) \<longleftrightarrow>
      (\<exists>i < k. rr_newName (results ! i) = rr_newName (results ! k))"
    by (auto simp: in_set_conv_nth)
  have changes: "list_ex (\<lambda>r. rr_originalName r \<noteq> rr_newName r) results \<longleftrightarrow> map rr_newName results \<noteq> map fe_name entries"
    unfolding len(2)[symmetric] by (induction results) auto
  have zip_eq: "filter (\<lambda>(e, r). rr_newName r \<noteq> rr_originalName r) (zip es rs) =
      filter (\<lambda>(e, r). rr_newName r \<noteq> fe_name e) (zip es rs)"
    if "length es = length rs" "map rr_originalName rs = map fe_name es" for es :: "FileEntryDto list" and rs :: "RenameResult list"
    using that by (induction es rs rule: list_induct2) auto
  have batch: "changed_names entries (map rr_newName results) = batch"
    using changed_names_eq[OF len] zip_eq[OF len(1)[symmetric] len(2)] by (simp add: assms(2))
  have none: "map rr_newName rs = map fe_name es"
    if "length es = length rs" "filter (\<lambda>(e, r). rr_newName r \<noteq> fe_name e) (zip es rs) = []"
    for es :: "FileEntryDto list" and rs :: "RenameResult list"
    using that by (induction es rs rule: list_induct2) (auto split: if_splits)
  have "batch \<noteq> []" if "map rr_newName results \<noteq> map fe_name entries"
    using none[OF len(1)[symmetric]] that by (auto simp: assms(2))
  moreover have "ops_planned (snd (submitMultiRename pf client entries (map rr_newName results) s)) =
      ops_planned s @ [(plan_request OpBatchRename (map fst batch) None)\<lparr>pr_batchRenames := Some batch\<rparr>]" if "batch \<noteq> []"
    using that batch by (simp add: submitMultiRename_def planOperation_def setOperationError_def
        startPlannedOperation_def send_start_def store_job_def Let_def split: prod.splits sum.splits)
  moreover have "list_ex rr_hasConflict results \<longleftrightarrow> \<not> distinct (map rr_newName results)"
    unfolding assms(1) by (rule loop_distinct)
  ultimately show "ops_planned (snd (handleExecute pf client entries results executing s)) = ops_planned s @
      (if executing \<or> \<not> distinct (map rr_newName results) \<or> map rr_newName results = map fe_name entries then []
       else [(plan_request OpBatchRename (map fst batch) None)\<lparr>pr_batchRenames := Some batch\<rparr>])"
    using changes by (auto simp: handleExecute_def split: prod.split)
qed

text \<open>A pattern that spells out name and extension changes nothing, but the pattern the dialog
  opens with does. Names that contain neither brackets nor dollar signs and have an
  extension are mapped to themselves by "[N].[E]"; with the settings the dialog opens with a
  name with a further dot before its extension loses the extension.\<close>

theorem rename_default_loses_extension:
  assumes "plain_name (stem @ ''.'' @ ext)" and "stem \<noteq> []" and "ext \<noteq> []" and "CHR ''.'' \<notin> set ext"
  shows "map rr_newName (applyRenamePattern engine clockAt [stem @ ''.'' @ ext]
           (initial_options\<lparr>mr_pattern := ''[N].[E]''\<rparr>)) = [stem @ ''.'' @ ext] \<and>
         map rr_newName (applyRenamePattern engine clockAt [stem @ ''.'' @ ext] initial_options) =
           [if CHR ''.'' \<in> set stem then stem else stem @ ''.'' @ ext]"
proof
  have p: "CHR ''['' \<notin> set stem" "CHR ''$'' \<notin> set stem" "CHR ''['' \<notin> set ext" "CHR ''$'' \<notin> set ext"
    using assms(1) by (auto simp: plain_name_def)
  have N: "replace_token ''[N]'' stem ''[N].[E]'' = stem @ ''.[E]''"
    using p(2) replace_from_here[of stem "''N]''" "[]" "''.[E]''"]
      replace_from_skip[of "''.''" "''N]''" stem "''[N]''" "''[E]''"]
    by (simp add: replace_token_def replace_from.simps js_startsWith_def)
  have E: "replace_token ''[E]'' ext (stem @ ''.[E]'') = stem @ ''.'' @ ext"
    using p replace_from_skip[of "stem @ ''.''" "''E]''" ext "[]" "''[E]''"]
      replace_from_here[of ext "''E]''" "stem @ ''.''" "[]"]
    by (simp add: replace_token_def)
  have N1: "replace_token ''[N]'' stem ''[N]'' = stem"
    using p(2) replace_from_here[of stem "''N]''" "[]" "[]"] by (simp add: replace_token_def)
  have none: "CHR ''['' \<notin> set (stem @ ''.'' @ ext)" using p by simp
  note rest = tokens_gone[OF none] tokens_gone[OF p(1)]
  show "map rr_newName (applyRenamePattern engine clockAt [stem @ ''.'' @ ext]
           (initial_options\<lparr>mr_pattern := ''[N].[E]''\<rparr>)) = [stem @ ''.'' @ ext]"
    using rest unfolding applyRenamePattern_def rename_loop.simps new_name_def
      name_parts_dot[OF assms(2,4)] Let_def
    by (simp add: initial_options_def N E truthy_def applyCaseConversion_def)
  show "map rr_newName (applyRenamePattern engine clockAt [stem @ ''.'' @ ext] initial_options) =
           [if CHR ''.'' \<in> set stem then stem else stem @ ''.'' @ ext]"
    using rest unfolding applyRenamePattern_def rename_loop.simps new_name_def
      name_parts_dot[OF assms(2,4)] Let_def
    by (simp add: initial_options_def N1 assms(3) truthy_def applyCaseConversion_def
        replace_token_none[OF p(1)])
qed

theorem rename_default_loses_extension_witness:
  "map rr_newName (applyRenamePattern (\<lambda>_ _ _. None) (\<lambda>_. \<lparr>rd_year = 2024, rd_month = 5, rd_day = 1\<rparr>)
     [''report.v2.pdf''] initial_options) = [''report.v2'']"
proof -
  have "plain_name (''report.v2'' @ ''.'' @ ''pdf'')" by (simp add: plain_name_def)
  from rename_default_loses_extension[OF this] show ?thesis by simp
qed

theorem multi_rename_no_clash_witness:
  "ops_planned (snd (handleExecute ordinal_platform sample_client [entry_a, entry_b]
     (applyRenamePattern (\<lambda>_ _ _. None) (\<lambda>_. \<lparr>rd_year = 2024, rd_month = 5, rd_day = 1\<rparr>)
       (map fe_name [entry_a, entry_b]) (initial_options\<lparr>mr_pattern := ''x[C]''\<rparr>)) False sample_ops)) =
   [(plan_request OpBatchRename [''local:///d/a'', ''local:///d/b''] None)
      \<lparr>pr_batchRenames := Some [(''local:///d/a'', ''x1''), (''local:///d/b'', ''x2'')]\<rparr>]"
proof -
  let ?rs = "applyRenamePattern (\<lambda>_ _ _. None) (\<lambda>_. \<lparr>rd_year = 2024, rd_month = 5, rd_day = 1\<rparr>)
     (map fe_name [entry_a, entry_b]) (initial_options\<lparr>mr_pattern := ''x[C]''\<rparr>)"
  have rs: "map rr_newName ?rs = [''x1'', ''x2'']" by code_simp
  have b: "map (\<lambda>(e, r). (fe_uri e, rr_newName r)) (filter (\<lambda>(e, r). rr_newName r \<noteq> fe_name e) (zip [entry_a, entry_b] ?rs)) =
      [(''local:///d/a'', ''x1''), (''local:///d/b'', ''x2'')]" by code_simp
  from multi_rename_no_clash[OF refl b[symmetric], where pf = ordinal_platform and client = sample_client
      and executing = False and s = sample_ops, unfolded rs]
  show ?thesis by (simp add: sample_ops_def)
qed

end
