(* ===== verification/KeyCombo.thy ===== *)
theory KeyCombo
  imports JsString
begin

text \<open>
  Key combinations (\<open>commands/keyCombo.ts\<close>): reading them from and writing them to strings,
  comparing them with key events and showing them. Signs beyond Latin-1 are written as the
  bytes of their UTF-8 encoding.
\<close>

section \<open>Definitions\<close>

record KeyCombo =
  kc_key :: string
  kc_ctrl :: bool
  kc_alt :: bool
  kc_shift :: bool
  kc_meta :: bool

text \<open>What the code reads of a keyboard event.\<close>

record KeyEvent =
  ev_key :: string
  ev_ctrlKey :: bool
  ev_altKey :: bool
  ev_shiftKey :: bool
  ev_metaKey :: bool

definition no_combo :: KeyCombo where
  "no_combo = \<lparr>kc_key = [], kc_ctrl = False, kc_alt = False, kc_shift = False, kc_meta = False\<rparr>"

definition backslash :: string where "backslash = [char_of (92 :: nat)]"
definition apostrophe :: string where "apostrophe = [char_of (39 :: nat)]"

definition ctrl_names :: "string list" where "ctrl_names = [''ctrl'', ''control'']"
definition alt_names :: "string list" where "alt_names = [''alt'', ''option'', ''opt'']"
definition meta_names :: "string list" where
  "meta_names = [''meta'', ''cmd'', ''command'', ''win'', ''windows'']"

text \<open>The cases of the switch that set the key, and the key they set.\<close>

definition KEY_NAMES :: "(string, string) obj" where
  "KEY_NAMES =
     [(''arrowleft'', ''ArrowLeft''), (''left'', ''ArrowLeft''),
      (''arrowright'', ''ArrowRight''), (''right'', ''ArrowRight''),
      (''arrowup'', ''ArrowUp''), (''up'', ''ArrowUp''),
      (''arrowdown'', ''ArrowDown''), (''down'', ''ArrowDown''),
      (''return'', ''Enter''), (''enter'', ''Enter''), (''esc'', ''Escape''),
      (''del'', ''Delete''), (''ins'', ''Insert''), (''pgup'', ''PageUp''), (''pageup'', ''PageUp''),
      (''pgdn'', ''PageDown''), (''pagedown'', ''PageDown''), ('' '', '' ''), ('','', '',''),
      (''.'', ''.''), (''/'', ''/''), ('';'', '';''), (''='', ''=''), (''-'', ''-''), (''['', ''[''),
      ('']'', '']''), (backslash, backslash), (apostrophe, apostrophe), (''`'', ''`'')]"

definition is_function_key :: "string \<Rightarrow> bool" where
  "is_function_key part \<longleftrightarrow> js_startsWith part ''f'' \<and> drop 1 part \<noteq> [] \<and> list_all is_digit (drop 1 part)"

definition combo_part :: "string \<Rightarrow> KeyCombo \<Rightarrow> KeyCombo" where
  "combo_part part combo =
     (if List.member ctrl_names part then combo\<lparr>kc_ctrl := True\<rparr>
      else if List.member alt_names part then combo\<lparr>kc_alt := True\<rparr>
      else if part = ''shift'' then combo\<lparr>kc_shift := True\<rparr>
      else if List.member meta_names part then combo\<lparr>kc_meta := True\<rparr>
      else case obj_get KEY_NAMES part of
             Some key \<Rightarrow> combo\<lparr>kc_key := key\<rparr>
           | None \<Rightarrow> if is_function_key part then combo\<lparr>kc_key := js_toUpperCase part\<rparr>
                     else combo\<lparr>kc_key := part\<rparr>)"

definition parseKeyCombo :: "string \<Rightarrow> KeyCombo option" where
  "parseKeyCombo str =
     (let parts = map (\<lambda>p. js_toLowerCase (js_trim p)) (js_split (CHR ''+'') str);
          combo = fold combo_part parts no_combo
      in if kc_key combo = [] then None else Some combo)"

definition modifier_parts :: "KeyCombo \<Rightarrow> string list" where
  "modifier_parts combo =
     (if kc_ctrl combo then [''Ctrl''] else []) @ (if kc_alt combo then [''Alt''] else [])
     @ (if kc_shift combo then [''Shift''] else []) @ (if kc_meta combo then [''Meta''] else [])"

definition serializeKeyCombo :: "KeyCombo \<Rightarrow> string" where
  "serializeKeyCombo combo =
     (let key = (if kc_key combo = '' '' then ''Space''
                 else if length (kc_key combo) = 1 then js_toLowerCase (kc_key combo) else kc_key combo)
      in js_join ''+'' (modifier_parts combo @ [key]))"

definition eventToKeyCombo :: "KeyEvent \<Rightarrow> KeyCombo" where
  "eventToKeyCombo e = \<lparr>kc_key = ev_key e, kc_ctrl = ev_ctrlKey e, kc_alt = ev_altKey e,
     kc_shift = ev_shiftKey e, kc_meta = ev_metaKey e\<rparr>"

definition matchesKeyCombo :: "KeyEvent \<Rightarrow> KeyCombo \<Rightarrow> bool" where
  "matchesKeyCombo e combo \<longleftrightarrow>
     (ev_key e = kc_key combo \<or> js_toLowerCase (ev_key e) = js_toLowerCase (kc_key combo)) \<and>
     ev_ctrlKey e = kc_ctrl combo \<and> ev_altKey e = kc_alt combo \<and>
     ev_shiftKey e = kc_shift combo \<and> ev_metaKey e = kc_meta combo"

text \<open>The signs of the keyboard of a Mac, in UTF-8.\<close>

definition utf8 :: "nat list \<Rightarrow> string" where "utf8 bs = map char_of bs"

definition ctrl_sign :: string where "ctrl_sign = utf8 [226, 140, 131]"
definition alt_sign :: string where "alt_sign = utf8 [226, 140, 165]"
definition shift_sign :: string where "shift_sign = utf8 [226, 135, 167]"
definition cmd_sign :: string where "cmd_sign = utf8 [226, 140, 152]"
definition left_sign :: string where "left_sign = utf8 [226, 134, 144]"
definition up_sign :: string where "up_sign = utf8 [226, 134, 145]"
definition right_sign :: string where "right_sign = utf8 [226, 134, 146]"
definition down_sign :: string where "down_sign = utf8 [226, 134, 147]"
definition erase_sign :: string where "erase_sign = utf8 [226, 140, 171]"

definition display_key :: "bool \<Rightarrow> string \<Rightarrow> string" where
  "display_key mac key =
     (if key = '' '' then ''Space''
      else if key = ''ArrowLeft'' then left_sign else if key = ''ArrowRight'' then right_sign
      else if key = ''ArrowUp'' then up_sign else if key = ''ArrowDown'' then down_sign
      else if key = ''Enter'' then (if mac then ''Return'' else ''Enter'')
      else if key = ''Escape'' then ''Esc''
      else if key = ''Delete'' then (if mac then ''Delete'' else ''Del'')
      else if js_toLowerCase key = ''backspace'' then (if mac then erase_sign else ''Backspace'')
      else if length key = 1 then js_toUpperCase key
      else js_toUpperCase (take 1 key) @ drop 1 key)"

definition formatKeyComboForDisplay :: "KeyCombo \<Rightarrow> bool \<Rightarrow> string" where
  "formatKeyComboForDisplay combo mac =
     (let name = (\<lambda>on m w. if on then [if mac then m else w] else []);
          parts = name (kc_ctrl combo) ctrl_sign ''Ctrl'' @ name (kc_alt combo) alt_sign ''Alt''
            @ name (kc_shift combo) shift_sign ''Shift'' @ name (kc_meta combo) cmd_sign ''Win''
            @ [display_key mac (kc_key combo)]
      in js_join (if mac then [] else ''+'') parts)"

section \<open>Writing and reading back\<close>

text \<open>A key that can be written and read back: it can stand between plus signs, is no name of a
  modifier and no short name of another key.\<close>

definition writable_key :: "string \<Rightarrow> bool" where
  "writable_key k \<longleftrightarrow>
     (let l = js_toLowerCase k
      in k \<noteq> [] \<and> CHR ''+'' \<notin> set k \<and> js_trim k = k
         \<and> l \<notin> set (ctrl_names @ alt_names @ [''shift''] @ meta_names)
         \<and> (case obj_get KEY_NAMES l of None \<Rightarrow> True | Some n \<Rightarrow> js_toLowerCase n = l))"

lemma lower_space [simp]: "is_js_space (lower_char c) = is_js_space c"
  by (auto simp: lower_char_def is_js_space_def is_ascii_upper_def)

lemma code_plus [simp]: "code (CHR ''+'') = 43"
  by (simp add: code_def)

lemma code_lower: "code (lower_char c) = code c \<or> code (lower_char c) = code c + 32 \<and> 65 \<le> code c"
  by (auto simp: lower_char_def is_ascii_upper_def)

lemma lower_plus [simp]: "lower_char c = CHR ''+'' \<longleftrightarrow> c = CHR ''+''"
  using code_lower[of c] by (auto simp flip: code_inject)

lemma trim_single: "js_trim [c] = [c] \<longleftrightarrow> \<not> is_js_space c"
  by (simp add: js_trim_def trim_end_def)

lemma modifier_parts_plain [simp]: "\<forall>p \<in> set (modifier_parts c). CHR ''+'' \<notin> set p"
  by (auto simp: modifier_parts_def)

definition part_of :: "string \<Rightarrow> string" where
  "part_of p = js_toLowerCase (js_trim p)"

lemma fold_modifiers:
  "fold combo_part (map part_of (modifier_parts c)) no_combo =
   no_combo\<lparr>kc_ctrl := kc_ctrl c, kc_alt := kc_alt c, kc_shift := kc_shift c, kc_meta := kc_meta c\<rparr>"
proof -
  have "part_of ''Ctrl'' = ''ctrl''" "part_of ''Alt'' = ''alt''" "part_of ''Shift'' = ''shift''"
    "part_of ''Meta'' = ''meta''" by code_simp+
  then show ?thesis
    by (simp add: modifier_parts_def combo_part_def ctrl_names_def alt_names_def meta_names_def
        no_combo_def)
qed

lemma parse_serialized:
  assumes "CHR ''+'' \<notin> set k"
  shows "parseKeyCombo (js_join ''+'' (modifier_parts c @ [k])) =
    (let combo = combo_part (part_of k) (no_combo\<lparr>kc_ctrl := kc_ctrl c, kc_alt := kc_alt c,
                   kc_shift := kc_shift c, kc_meta := kc_meta c\<rparr>)
     in if kc_key combo = [] then None else Some combo)"
proof -
  have "js_split (CHR ''+'') (js_join ''+'' (modifier_parts c @ [k])) = modifier_parts c @ [k]"
    using assms by (intro js_split_join) auto
  then show ?thesis
    by (simp add: parseKeyCombo_def fold_modifiers part_of_def[symmetric] part_of_def[abs_def, symmetric])
qed

lemma function_key_case: "is_function_key l \<Longrightarrow> js_toLowerCase (js_toUpperCase l) = js_toLowerCase l \<and> js_toUpperCase l \<noteq> []"
proof -
  assume "is_function_key l"
  then obtain ds where l: "l = CHR ''f'' # ds" "list_all is_digit ds"
    by (cases l) (auto simp: is_function_key_def js_startsWith_def)
  have "concat (map upper_char ds) = ds" using l(2)
    by (induction ds) (auto simp: upper_char_def is_ascii_lower_def is_digit_def)
  moreover have "upper_char (CHR ''f'') = ''F''" "lower_char (CHR ''F'') = CHR ''f''"
    "lower_char (CHR ''f'') = CHR ''f''" by code_simp+
  ultimately show ?thesis by (simp add: l(1) js_toUpperCase_def js_toLowerCase_def)
qed

text \<open>A shortcut that is stored still answers to the same keys, unless it is on the space bar
  or the plus key. For every combination whose key is writable, what is read back matches
  exactly the events that the combination matches. A combination with the space bar is read
  back but no longer answers to it, and one with the plus key is not read back at all.\<close>

theorem key_combo_roundtrip:
  "(writable_key (kc_key c) \<longrightarrow>
      (\<exists>c'. parseKeyCombo (serializeKeyCombo c) = Some c' \<and>
            (\<forall>e. matchesKeyCombo e c' = matchesKeyCombo e c))) \<and>
   (kc_key c = '' '' \<longrightarrow>
      (\<exists>c'. parseKeyCombo (serializeKeyCombo c) = Some c' \<and>
            (\<forall>e. matchesKeyCombo e c \<longrightarrow> \<not> matchesKeyCombo e c'))) \<and>
   (kc_key c = ''+'' \<longrightarrow> parseKeyCombo (serializeKeyCombo c) = None)"
proof (intro conjI impI)
  let ?c = "no_combo\<lparr>kc_ctrl := kc_ctrl c, kc_alt := kc_alt c, kc_shift := kc_shift c, kc_meta := kc_meta c\<rparr>"
  assume w: "writable_key (kc_key c)"
  let ?k = "kc_key c" and ?l = "js_toLowerCase (kc_key c)"
  let ?k' = "if length ?k = 1 then js_toLowerCase ?k else ?k"
  have k: "?k \<noteq> []" "CHR ''+'' \<notin> set ?k" "js_trim ?k = ?k"
    and l: "?l \<notin> set (ctrl_names @ alt_names @ [''shift''] @ meta_names)"
    and n: "case obj_get KEY_NAMES ?l of None \<Rightarrow> True | Some n \<Rightarrow> js_toLowerCase n = ?l"
    using w by (auto simp: writable_key_def Let_def)
  have "?k \<noteq> '' ''" using k(3) trim_single[of "CHR '' ''"] by (auto simp: is_js_space_def code_def)
  then have ser: "serializeKeyCombo c = js_join ''+'' (modifier_parts c @ [?k'])"
    by (simp add: serializeKeyCombo_def)
  have plus: "CHR ''+'' \<notin> set ?k'" 
  proof -
    have "CHR ''+'' \<notin> lower_char ` set ?k" using k(2) lower_plus by (metis imageE)
    then show ?thesis using k(2) by (simp add: js_toLowerCase_def)
  qed
  have "part_of ?k' = ?l"
  proof (cases "length ?k = 1")
    case True
    then obtain x where x: "?k = [x]" by (auto simp: length_Suc_conv)
    then have "\<not> is_js_space x" using k(3) trim_single by simp
    with x show ?thesis by (simp add: part_of_def js_toLowerCase_def trim_single[THEN iffD2])
  next
    case False
    then show ?thesis using k(3) by (simp add: part_of_def)
  qed
  moreover obtain key where key: "combo_part ?l ?c = ?c\<lparr>kc_key := key\<rparr>" "js_toLowerCase key = ?l" "key \<noteq> []"
  proof -
    have nl: "?l \<noteq> []" using k(1) by (simp add: js_toLowerCase_def)
    have "\<exists>key. combo_part ?l ?c = ?c\<lparr>kc_key := key\<rparr> \<and> js_toLowerCase key = ?l \<and> key \<noteq> []"
      using l n nl function_key_case[of ?l] unfolding combo_part_def List.member_iff
      by (auto split: option.splits simp: js_toLowerCase_def)
    then show ?thesis using that by blast
  qed
  ultimately have "parseKeyCombo (serializeKeyCombo c) = Some (?c\<lparr>kc_key := key\<rparr>)"
    unfolding ser parse_serialized[OF plus] by simp
  moreover have "matchesKeyCombo e (?c\<lparr>kc_key := key\<rparr>) = matchesKeyCombo e c" for e
    using key(2) by (auto simp: matchesKeyCombo_def no_combo_def)
  ultimately show "\<exists>c'. parseKeyCombo (serializeKeyCombo c) = Some c' \<and>
      (\<forall>e. matchesKeyCombo e c' = matchesKeyCombo e c)" by blast
next
  let ?c = "no_combo\<lparr>kc_ctrl := kc_ctrl c, kc_alt := kc_alt c, kc_shift := kc_shift c, kc_meta := kc_meta c\<rparr>"
  assume k: "kc_key c = '' ''"
  have p: "part_of ''Space'' = ''space''" "obj_get KEY_NAMES ''space'' = None" "\<not> is_function_key ''space''"
    "js_toLowerCase '' '' = '' ''" "js_toLowerCase ''space'' = ''space''" by code_simp+
  have "serializeKeyCombo c = js_join ''+'' (modifier_parts c @ [''Space''])"
    by (simp add: serializeKeyCombo_def k)
  then have "parseKeyCombo (serializeKeyCombo c) = Some (?c\<lparr>kc_key := ''space''\<rparr>)"
    using parse_serialized[of "''Space''" c]
    by (simp add: p combo_part_def ctrl_names_def alt_names_def meta_names_def List.member_iff)
  then show "\<exists>c'. parseKeyCombo (serializeKeyCombo c) = Some c' \<and>
      (\<forall>e. matchesKeyCombo e c \<longrightarrow> \<not> matchesKeyCombo e c')"
    by (auto simp: matchesKeyCombo_def k p)
next
  assume k: "kc_key c = ''+''"
  have p: "part_of [] = []" "js_toLowerCase ''+'' = ''+''" by code_simp+
  have "js_join ''+'' (ms @ [''+'']) = js_join ''+'' (ms @ [[], []])" for ms
    by (induction ms) auto
  then have "serializeKeyCombo c = js_join ''+'' (modifier_parts c @ [[], []])"
    by (simp add: serializeKeyCombo_def k p)
  moreover have "js_split (CHR ''+'') (js_join ''+'' (modifier_parts c @ [[], []])) = modifier_parts c @ [[], []]"
    by (intro js_split_join) auto
  moreover have "combo_part [] x = x\<lparr>kc_key := []\<rparr>" for x
  proof -
    have "obj_get KEY_NAMES [] = None" "\<not> is_function_key []" by code_simp+
    then show ?thesis
      by (simp add: combo_part_def ctrl_names_def alt_names_def meta_names_def List.member_iff)
  qed
  ultimately show "parseKeyCombo (serializeKeyCombo c) = None"
    by (simp add: parseKeyCombo_def fold_modifiers part_of_def[symmetric] part_of_def[abs_def, symmetric] p)
qed

theorem key_combo_roundtrip_witness:
  "\<exists>c'. parseKeyCombo (serializeKeyCombo \<lparr>kc_key = ''F5'', kc_ctrl = True, kc_alt = False,
          kc_shift = False, kc_meta = False\<rparr>) = Some c'"
proof -
  have "writable_key ''F5''" by code_simp
  with key_combo_roundtrip[of "\<lparr>kc_key = ''F5'', kc_ctrl = True, kc_alt = False,
    kc_shift = False, kc_meta = False\<rparr>"] show ?thesis by auto
qed

end
