(* ===== verification/CommandRegistry.thy ===== *)
theory CommandRegistry
  imports KeyCombo Json
begin

text \<open>
  The commands and their keys: the registry (\<open>commands/registryData.ts\<close>, \<open>registry.ts\<close>), the
  default bindings derived from it (\<open>commands/defaultBindings.ts\<close>), the bindings the user
  stored and how both are merged (\<open>hooks/useKeyboardShortcuts.ts\<close>), and the entries of the
  command palette (\<open>commands/paletteEntries.ts\<close>). The registry is copied entry by entry.
\<close>

section \<open>The registry\<close>

datatype CommandGroup =
    GNavigation | GCreation | GOperation | GView | GClipboard | GSelection | GApp | GTools | GGit

datatype CommandSurface = SToolbar | SMenu | SFkey | SPalette | SContext

record CommandDefinition =
  cd_id :: string
  cd_label :: string
  cd_group :: CommandGroup
  cd_shortcutMac :: "string option"
  cd_shortcutWin :: "string option"
  cd_destructive :: bool
  cd_surfaces :: "CommandSurface list option"

definition ellipsis :: string where "ellipsis = utf8 [226, 128, 166]"

definition command ::
  "string \<Rightarrow> string \<Rightarrow> CommandGroup \<Rightarrow> string option \<Rightarrow> string option \<Rightarrow> bool \<Rightarrow> CommandSurface list \<Rightarrow>
   CommandDefinition" where
  "command i label grp mac win destructive surfaces =
     \<lparr>cd_id = i, cd_label = label, cd_group = grp, cd_shortcutMac = mac, cd_shortcutWin = win,
      cd_destructive = destructive, cd_surfaces = Some surfaces\<rparr>"

definition registry_part1 :: "CommandDefinition list" where
  "registry_part1 =
     [command ''nav.back'' ''Back'' GNavigation
        (Some (alt_sign @ left_sign)) (Some (''Alt+'' @ left_sign)) False [SToolbar, SMenu, SPalette],
      command ''nav.forward'' ''Forward'' GNavigation
        (Some (alt_sign @ right_sign)) (Some (''Alt+'' @ right_sign)) False [SToolbar, SMenu, SPalette],
      command ''nav.up'' ''Up'' GNavigation
        (Some ''Backspace'') (Some ''Backspace'') False [SToolbar, SMenu, SPalette],
      command ''nav.refresh'' ''Refresh'' GNavigation
        (Some (cmd_sign @ ''R'')) (Some ''Ctrl+R'') False [SToolbar, SMenu, SPalette],
      command ''nav.home'' ''Home'' GNavigation
        None None False [SToolbar, SMenu, SPalette],
      command ''nav.root'' ''Root'' GNavigation
        None None False [SMenu, SPalette],
      command ''nav.volumePicker'' ''Drives'' GNavigation
        None None False [SToolbar, SMenu, SPalette],
      command ''nav.networkLocations'' ''Network'' GNavigation
        None None False [SMenu, SPalette],
      command ''nav.addServer'' (''Add Connection'' @ ellipsis) GNavigation
        None None False [SMenu, SPalette],
      command ''nav.connectServer'' (''Edit Connection'' @ ellipsis) GNavigation
        None None False [SMenu, SPalette],
      command ''nav.goToLocation'' (''Go to Location'' @ ellipsis) GNavigation
        (Some (cmd_sign @ ''L'')) (Some ''Ctrl+L'') False [SMenu, SPalette],
      command ''nav.manageFavorites'' (''Manage Favorites'' @ ellipsis) GNavigation
        None None False [SMenu, SPalette],
      command ''nav.addFavorite'' ''Add to Favorites'' GNavigation
        None None False [SMenu, SPalette, SContext],
      command ''nav.openUri'' ''Open Location'' GNavigation
        None None False [SMenu, SPalette],
      command ''nav.revealUri'' ''Reveal in File Manager'' GNavigation
        None None False [SMenu, SPalette],
      command ''nav.removeFavorite'' ''Remove Favorite'' GNavigation
        None None False [SMenu, SPalette, SContext],
      command ''nav.renameFavorite'' ''Rename Favorite'' GNavigation
        None None False [SMenu, SPalette, SContext],
      command ''nav.recentLocations'' (''Recent Locations'' @ ellipsis) GNavigation
        None None False [SMenu, SPalette],
      command ''nav.clearRecentLocations'' (''Clear Recent Locations'' @ ellipsis) GNavigation
        None None False [SMenu, SPalette],
      command ''nav.clearRecent'' ''Clear Recent'' GNavigation
        None None False [SMenu, SPalette],
      command ''nav.removeRecent'' ''Remove Recent'' GNavigation
        None None False [SContext],
      command ''create.folder'' ''New Folder'' GCreation
        (Some ''F7'') (Some ''F7'') False [SToolbar, SMenu, SFkey, SPalette, SContext]]"

definition registry_part2 :: "CommandDefinition list" where
  "registry_part2 =
     [command ''create.file'' ''New File'' GCreation
        None None False [SToolbar, SMenu, SPalette, SContext],
      command ''op.copy'' ''Copy'' GOperation
        (Some (cmd_sign @ ''C'')) (Some ''Ctrl+C'') False [SToolbar, SMenu, SPalette, SContext],
      command ''op.cut'' ''Cut'' GOperation
        (Some (cmd_sign @ ''X'')) (Some ''Ctrl+X'') False [SToolbar, SMenu, SPalette, SContext],
      command ''op.paste'' ''Paste'' GOperation
        (Some (cmd_sign @ ''V'')) (Some ''Ctrl+V'') False [SToolbar, SMenu, SPalette, SContext],
      command ''op.copyTo'' (''Copy To'' @ ellipsis) GOperation
        (Some ''F5'') (Some ''F5'') False [SToolbar, SMenu, SFkey, SPalette, SContext],
      command ''op.moveTo'' (''Move To'' @ ellipsis) GOperation
        (Some ''F6'') (Some ''F6'') False [SToolbar, SMenu, SFkey, SPalette, SContext],
      command ''op.rename'' ''Rename'' GOperation
        (Some ''F2'') (Some ''F2'') False [SToolbar, SMenu, SFkey, SPalette, SContext],
      command ''op.delete'' ''Delete'' GOperation
        (Some ''F8'') (Some ''F8'') False [SToolbar, SMenu, SFkey, SPalette, SContext],
      command ''op.trash'' ''Move to Trash'' GOperation
        None None False [SPalette, SContext],
      command ''op.deletePermanent'' ''Delete Permanently'' GOperation
        (Some (shift_sign @ ''Delete'')) (Some ''Shift+Delete'') True [SMenu, SPalette, SContext],
      command ''op.properties'' ''Properties'' GOperation
        (Some (alt_sign @ ''Return'')) (Some ''Alt+Enter'') False [SToolbar, SMenu, SPalette, SContext],
      command ''op.permissions'' (''Permissions'' @ ellipsis) GOperation
        None None False [SMenu, SPalette, SContext],
      command ''op.reveal'' ''Reveal in System File Manager'' GOperation
        None None False [SMenu, SPalette, SContext],
      command ''op.open'' ''Open'' GOperation
        (Some ''Return'') (Some ''Enter'') False [SToolbar, SMenu, SPalette, SContext],
      command ''op.view'' ''View'' GOperation
        (Some ''F3'') (Some ''F3'') False [SToolbar, SMenu, SFkey, SPalette, SContext],
      command ''op.edit'' ''Edit'' GOperation
        (Some ''F4'') (Some ''F4'') False [SToolbar, SMenu, SFkey, SPalette, SContext],
      command ''op.openDefault'' ''Open With Default App'' GOperation
        None None False [SMenu, SPalette, SContext],
      command ''op.compress'' ''Pack'' GOperation
        None None False [SToolbar, SMenu, SPalette, SContext],
      command ''op.extract'' ''Unpack'' GOperation
        None None False [SToolbar, SMenu, SPalette, SContext],
      command ''op.checksum'' (''Checksum'' @ ellipsis) GOperation
        None None False [SMenu, SPalette, SContext]]"

definition registry_part3 :: "CommandDefinition list" where
  "registry_part3 =
     [command ''op.openTerminal'' ''Open Terminal'' GOperation
        None None False [SToolbar, SMenu, SPalette],
      command ''op.openTerminalExternal'' ''Open External Terminal'' GOperation
        None None False [SMenu, SPalette],
      command ''terminal.runCommand'' (''Run Command in Terminal'' @ ellipsis) GTools
        None None False [SToolbar, SMenu, SPalette],
      command ''terminal.spawnAndRun'' (''Spawn Terminal and Run Command'' @ ellipsis) GTools
        None None False [SToolbar, SMenu, SPalette],
      command ''view.toggleTerminal'' ''Toggle Terminal Panel'' GView
        None None False [SToolbar, SMenu, SPalette],
      command ''op.calculateSize'' ''Calculate Size'' GOperation
        None None False [SMenu, SPalette, SContext],
      command ''op.toggleStarred'' ''Toggle Star'' GOperation
        None None False [SToolbar, SMenu, SPalette, SContext],
      command ''view.details'' ''Details'' GView
        None None False [SToolbar, SMenu, SPalette],
      command ''view.list'' ''List'' GView
        None None False [SToolbar, SMenu, SPalette],
      command ''view.compact'' ''Compact'' GView
        None None False [SToolbar, SMenu, SPalette],
      command ''view.icons'' ''Icons'' GView
        None None False [SToolbar, SMenu, SPalette],
      command ''view.columns'' ''Columns'' GView
        None None False [SToolbar, SMenu, SPalette],
      command ''view.toggleHidden'' ''Show Hidden Files'' GView
        (Some (cmd_sign @ ''. or '' @ cmd_sign @ ''H'')) (Some ''Ctrl+. or Ctrl+H'') False [SToolbar, SMenu, SPalette],
      command ''view.toggleSidebar'' ''Toggle Sidebar'' GView
        None None False [SMenu, SPalette],
      command ''view.toggleDualPane'' ''Toggle Dual Pane'' GView
        None None False [SMenu, SPalette],
      command ''view.toggleStatusBar'' ''Toggle Status Bar'' GView
        None None False [SMenu, SPalette],
      command ''view.toggleToolbar'' ''Toggle Toolbar'' GView
        None None False [SMenu, SPalette],
      command ''view.toggleActivity'' ''Jobs & Activity'' GView
        None None False [SToolbar, SMenu, SPalette],
      command ''view.sort'' ''Sort'' GView
        None None False [SMenu, SPalette],
      command ''view.sortAscending'' ''Sort Ascending'' GView
        None None False [SMenu, SPalette],
      command ''view.sortDescending'' ''Sort Descending'' GView
        None None False [SMenu, SPalette],
      command ''preferences.theme'' ''Theme'' GApp
        None None False [SMenu, SPalette],
      command ''preferences.cycleTheme'' ''Cycle Theme'' GApp
        (Some (cmd_sign @ shift_sign @ ''T'')) (Some ''Ctrl+Shift+T'') False [SMenu, SPalette]]"

definition registry_part4 :: "CommandDefinition list" where
  "registry_part4 =
     [command ''preferences.accentColor'' ''Accent Color'' GApp
        None None False [SMenu, SPalette],
      command ''preferences.fontScale'' ''Font Size'' GApp
        None None False [SMenu, SPalette],
      command ''preferences.iconScale'' ''Icon Size'' GApp
        None None False [SMenu, SPalette],
      command ''preferences.density'' ''Density'' GApp
        None None False [SMenu, SPalette],
      command ''layout.switchPane'' ''Switch Pane'' GView
        (Some ''Tab'') (Some ''Tab'') False [SMenu, SPalette],
      command ''layout.equalizePanes'' ''Equalize Panes'' GView
        None None False [SMenu, SPalette],
      command ''layout.swapPanes'' ''Swap Panes'' GView
        (Some (cmd_sign @ ''U'')) (Some ''Ctrl+U'') False [SMenu, SPalette],
      command ''layout.togglePaneDirection'' ''Toggle Split Direction'' GView
        None None False [SMenu, SPalette],
      command ''search.recursive'' ''Search'' GView
        (Some (cmd_sign @ ''F'')) (Some ''Ctrl+F'') False [SToolbar, SMenu, SPalette],
      command ''search.focusFilter'' ''Filter'' GView
        (Some (cmd_sign @ shift_sign @ ''F'')) (Some ''Ctrl+Shift+F'') False [SToolbar, SMenu, SPalette],
      command ''selection.selectAll'' ''Select All'' GSelection
        (Some (cmd_sign @ ''A'')) (Some ''Ctrl+A'') False [SMenu, SPalette, SContext],
      command ''selection.clear'' ''Clear Selection'' GSelection
        (Some ''Escape'') (Some ''Escape'') False [SMenu, SPalette, SContext],
      command ''selection.invert'' ''Invert Selection'' GSelection
        None None False [SMenu, SPalette, SContext],
      command ''clipboard.copyPath'' ''Copy Full Path'' GClipboard
        None None False [SMenu, SPalette, SContext],
      command ''clipboard.copyName'' ''Copy File Name'' GClipboard
        None None False [SMenu, SPalette, SContext],
      command ''clipboard.copyParent'' ''Copy Parent Folder Path'' GClipboard
        None None False [SMenu, SPalette, SContext],
      command ''clipboard.copyUri'' ''Copy Resource URI'' GClipboard
        None None False [SMenu, SPalette, SContext],
      command ''clipboard.clear'' ''Clear File Clipboard'' GClipboard
        None None False [SMenu, SPalette],
      command ''app.customizeToolbar'' ''Customize Button Bar'' GApp
        None None False [SMenu, SPalette],
      command ''app.settings'' ''Settings'' GApp
        (Some (cmd_sign @ '','')) (Some ''Ctrl+,'') False [SToolbar, SMenu, SFkey, SPalette],
      command ''app.shortcuts'' ''Keyboard Shortcuts'' GApp
        (Some (cmd_sign @ ''/'')) (Some ''Ctrl+/'') False [SMenu, SPalette]]"

definition registry_part5 :: "CommandDefinition list" where
  "registry_part5 =
     [command ''app.diagnostics'' ''Diagnostics'' GApp
        None None False [SMenu, SPalette],
      command ''app.debugConsole'' ''Debug Console'' GApp
        (Some (cmd_sign @ alt_sign @ ''L'')) (Some ''Ctrl+Alt+L'') False [],
      command ''app.commandPalette'' ''Command Palette'' GApp
        (Some (cmd_sign @ ''P'')) (Some ''Ctrl+P'') False [SMenu, SPalette],
      command ''app.documentation'' ''Documentation'' GApp
        None None False [SMenu, SPalette],
      command ''app.about'' ''About FileOctopus'' GApp
        None None False [SMenu, SPalette],
      command ''app.operationHistory'' (''Operation History'' @ ellipsis) GApp
        None None False [SMenu, SPalette],
      command ''git.reviewChanges'' ''Review Git Changes'' GGit
        None None False [SPalette],
      command ''tools.multiRename'' (''Multi-Rename'' @ ellipsis) GTools
        (Some (cmd_sign @ ''M'')) (Some ''Ctrl+M'') False [SToolbar, SMenu, SPalette, SContext],
      command ''tools.syncDirectories'' (''Compare Directories'' @ ellipsis) GTools
        None None False [SToolbar, SMenu, SPalette],
      command ''tools.openHotlist'' (''Open Hotlist'' @ ellipsis) GTools
        (Some (cmd_sign @ ''D'')) (Some ''Ctrl+D'') False [SToolbar, SMenu, SPalette],
      command ''tools.manageHotlist'' (''Manage Hotlist'' @ ellipsis) GTools
        None None False [SMenu, SPalette]]"

definition COMMAND_REGISTRY :: "CommandDefinition list" where
  "COMMAND_REGISTRY = registry_part1 @ registry_part2 @ registry_part3 @ registry_part4 @ registry_part5"

definition find_command :: "string \<Rightarrow> CommandDefinition option" where
  "find_command i = find (\<lambda>c. cd_id c = i) (rev COMMAND_REGISTRY)"

text \<open>\<open>getCommand\<close>: an unknown id raises.\<close>

definition getCommand :: "string \<Rightarrow> CommandDefinition option" where
  "getCommand i = find_command i"

definition commandsInGroup :: "CommandGroup \<Rightarrow> CommandDefinition list" where
  "commandsInGroup g = filter (\<lambda>c. cd_group c = g) COMMAND_REGISTRY"

definition TOOLBAR_GROUPS :: "CommandGroup list" where
  "TOOLBAR_GROUPS = [GNavigation, GCreation, GOperation, GView]"

definition FKEY_COMMAND_IDS :: "string list" where
  "FKEY_COMMAND_IDS =
     [''op.view'', ''op.edit'', ''op.copyTo'', ''op.moveTo'', ''create.folder'', ''op.delete'',
      ''op.rename'', ''app.settings'']"

definition commandsForSurface :: "CommandSurface \<Rightarrow> CommandDefinition list" where
  "commandsForSurface surface =
     filter (\<lambda>cmd. case cd_surfaces cmd of
                     Some ss \<Rightarrow> surface \<in> set ss
                   | None \<Rightarrow> (if surface = SToolbar then cd_group cmd \<in> set TOOLBAR_GROUPS
                             else if surface = SFkey then cd_id cmd \<in> set FKEY_COMMAND_IDS
                             else True)) COMMAND_REGISTRY"

definition formatCommandShortcut :: "string \<Rightarrow> bool \<Rightarrow> string option" where
  "formatCommandShortcut i mac =
     (case find_command i of
        None \<Rightarrow> None
      | Some c \<Rightarrow> if mac then cd_shortcutMac c else cd_shortcutWin c)"

section \<open>Default bindings\<close>

record KeyBinding =
  kb_commandId :: string
  kb_combos :: "KeyCombo list"

text \<open>\<open>s.split(sep)\<close> for a separator of several characters.\<close>

function split_string :: "string \<Rightarrow> string \<Rightarrow> string \<Rightarrow> string list" where
  "split_string sep acc s =
     (case s of
        [] \<Rightarrow> [acc]
      | c # cs \<Rightarrow>
          (if sep \<noteq> [] \<and> js_startsWith s sep then acc # split_string sep [] (drop (length sep) s)
           else split_string sep (acc @ [c]) cs))"
  by pat_completeness auto

termination
  by (relation "measure (\<lambda>(_, _, s). length s)") auto

declare split_string.simps [simp del]

definition replace_sign :: "string \<Rightarrow> string \<Rightarrow> string \<Rightarrow> string" where
  "replace_sign sign name s = js_join name (split_string sign [] s)"

definition combos_of :: "string list \<Rightarrow> KeyCombo list" where
  "combos_of strs = List.map_filter parseKeyCombo strs"

definition parseShortcutString :: "string option \<Rightarrow> KeyCombo list" where
  "parseShortcutString str =
     (case str of
        None \<Rightarrow> []
      | Some s \<Rightarrow>
          (if s = [] then []
           else combos_of (map (\<lambda>part. replace_sign ctrl_sign ''Ctrl+''
                  (replace_sign shift_sign ''Shift+'' (replace_sign alt_sign ''Alt+''
                    (replace_sign cmd_sign ''Meta+'' (js_trim part)))))
                (split_string '' or '' [] s))))"

definition addOrExtendBinding :: "string \<Rightarrow> string list \<Rightarrow> KeyBinding list \<Rightarrow> KeyBinding list" where
  "addOrExtendBinding commandId comboStrings bindings =
     (let combos = combos_of comboStrings
      in if combos = [] then bindings
         else case find_index (\<lambda>b. kb_commandId b = commandId) bindings of
                Some i \<Rightarrow> bindings[i := (bindings ! i)\<lparr>kb_combos := combos\<rparr>]
              | None \<Rightarrow> bindings @ [\<lparr>kb_commandId = commandId, kb_combos = combos\<rparr>])"

definition registry_bindings :: "KeyBinding list" where
  "registry_bindings =
     filter (\<lambda>b. kb_combos b \<noteq> [])
       (map (\<lambda>cmd. \<lparr>kb_commandId = cd_id cmd, kb_combos = parseShortcutString (cd_shortcutWin cmd)\<rparr>)
          COMMAND_REGISTRY)"

definition buildDefaultBindings :: "KeyBinding list" where
  "buildDefaultBindings =
     (let pushed = registry_bindings
            @ [\<lparr>kb_commandId = ''search.focusFilter'', kb_combos = combos_of [''Ctrl+F'']\<rparr>,
               \<lparr>kb_commandId = ''search.recursive'', kb_combos = combos_of [''Ctrl+Shift+F'']\<rparr>,
               \<lparr>kb_commandId = ''op.delete'', kb_combos = combos_of [''Delete'']\<rparr>]
      in addOrExtendBinding ''app.commandPalette'' [''Ctrl+P'', ''Ctrl+Shift+P'', ''F10'']
           (addOrExtendBinding ''app.shortcuts'' [''Ctrl+/'', ''F1''] pushed))"

section \<open>Stored bindings\<close>

text \<open>The combinations of one command in the stored object: what is not a list of strings raises,
  except that a string is taken character by character.\<close>

definition json_combos :: "json \<Rightarrow> KeyCombo list option" where
  "json_combos v =
     (case v of
        JArr vs \<Rightarrow> map_option combos_of (those (map (\<lambda>x. json_str (Some x)) vs))
      | JStr s \<Rightarrow> Some (combos_of (map (\<lambda>c. [c]) s))
      | _ \<Rightarrow> None)"

fun custom_entries :: "(string \<times> json) list \<Rightarrow> (string, KeyCombo list) obj \<Rightarrow> (string, KeyCombo list) obj option" where
  "custom_entries [] m = Some m"
| "custom_entries ((commandId, v) # es) m =
     (case json_combos v of
        None \<Rightarrow> None
      | Some combos \<Rightarrow> custom_entries es (if combos = [] then m else obj_set commandId combos m))"

text \<open>\<open>Object.entries\<close>; of an array or a string these are the elements under their positions.\<close>

definition json_entries :: "json \<Rightarrow> (string \<times> json) list option" where
  "json_entries v =
     (case v of
        JNull \<Rightarrow> None
      | JBool _ \<Rightarrow> Some []
      | JNum _ \<Rightarrow> Some []
      | JStr s \<Rightarrow> Some (zip (map nat_str [0 ..< length s]) (map (\<lambda>c. JStr [c]) s))
      | JArr vs \<Rightarrow> Some (zip (map nat_str [0 ..< length vs]) vs)
      | JObj ms \<Rightarrow> Some ms)"

definition parseCustomShortcuts :: "string option \<Rightarrow> (string, KeyCombo list) obj" where
  "parseCustomShortcuts json =
     (if json = None \<or> json = Some [] then []
      else case Option.bind (json_parse (the json)) json_entries of
             None \<Rightarrow> []
           | Some entries \<Rightarrow> (case custom_entries entries [] of Some m \<Rightarrow> m | None \<Rightarrow> []))"

definition mergeBindings :: "KeyBinding list \<Rightarrow> (string, KeyCombo list) obj \<Rightarrow> KeyBinding list" where
  "mergeBindings defaults custom =
     (let m1 = fold (\<lambda>b. obj_set (kb_commandId b) (kb_combos b)) defaults [];
          m2 = fold (\<lambda>(i, combos). obj_set i combos) custom m1
      in map (\<lambda>(i, combos). \<lparr>kb_commandId = i, kb_combos = combos\<rparr>) m2)"

text \<open>The command of the first binding with a combination that matches.\<close>

definition bound_command :: "KeyBinding list \<Rightarrow> KeyEvent \<Rightarrow> string option" where
  "bound_command bindings e =
     map_option kb_commandId (find (\<lambda>b. list_ex (matchesKeyCombo e) (kb_combos b)) bindings)"

section \<open>The palette\<close>

record CommandEntry =
  ce_id :: string
  ce_label :: string
  ce_shortcutKey :: "string option"
  ce_category :: string

definition GROUP_LABELS :: "CommandGroup \<Rightarrow> string" where
  "GROUP_LABELS g =
     (case g of GNavigation \<Rightarrow> ''Navigation'' | GCreation \<Rightarrow> ''Create'' | GOperation \<Rightarrow> ''Operations''
      | GView \<Rightarrow> ''View'' | GClipboard \<Rightarrow> ''Clipboard'' | GSelection \<Rightarrow> ''Selection''
      | GApp \<Rightarrow> ''App'' | GTools \<Rightarrow> ''Tools'' | GGit \<Rightarrow> ''Git'')"

definition PALETTE_EXCLUDED :: "string list" where
  "PALETTE_EXCLUDED =
     [''app.commandPalette'', ''view.sort'', ''view.sortAscending'', ''view.sortDescending'',
      ''preferences.theme'', ''preferences.density'', ''preferences.accentColor'',
      ''preferences.fontScale'', ''preferences.iconScale'', ''layout.switchPane'',
      ''layout.equalizePanes'', ''nav.openUri'', ''nav.revealUri'', ''nav.removeFavorite'',
      ''nav.renameFavorite'']"

definition legacyEntries :: "bool \<Rightarrow> CommandEntry list" where
  "legacyEntries mac =
     [\<lparr>ce_id = ''switch-pane'', ce_label = ''Switch Active Pane'',
       ce_shortcutKey = Some (if mac then ctrl_sign @ ''Tab'' else ''Ctrl+Tab''), ce_category = ''View''\<rparr>,
      \<lparr>ce_id = ''filter'', ce_label = ''Filter Current Folder'',
       ce_shortcutKey = Some (if mac then cmd_sign @ ''F'' else ''Ctrl+F''), ce_category = ''View''\<rparr>]"

definition buildPaletteEntries :: "bool \<Rightarrow> CommandEntry list" where
  "buildPaletteEntries mac =
     map (\<lambda>c. \<lparr>ce_id = cd_id c, ce_label = cd_label c,
               ce_shortcutKey = map_option (\<lambda>s. hd (split_string '' or '' [] s))
                 (formatCommandShortcut (cd_id c) mac),
               ce_category = GROUP_LABELS (cd_group c)\<rparr>)
       (filter (\<lambda>c. cd_id c \<notin> set PALETTE_EXCLUDED) COMMAND_REGISTRY)
     @ legacyEntries mac"

end
