(* ===== verification/DefaultBindings.thy ===== *)
theory DefaultBindings
  imports CommandRegistry
begin

text \<open>
  What the default key bindings come to: the bindings that remain after
  \<open>buildDefaultBindings\<close> and \<open>mergeBindings\<close>, computed from the registry.
\<close>

section \<open>The bindings computed\<close>

definition combo :: "string \<Rightarrow> bool \<Rightarrow> bool \<Rightarrow> bool \<Rightarrow> KeyCombo" where
  "combo key ctrl alt shift =
     \<lparr>kc_key = key, kc_ctrl = ctrl, kc_alt = alt, kc_shift = shift, kc_meta = False\<rparr>"

lemma split_string_absent:
  "\<forall>c \<in> set s. c \<noteq> x \<Longrightarrow> split_string (x # xs) acc s = [acc @ s]"
proof (induction s arbitrary: acc)
  case (Cons c s)
  then show ?case by (subst split_string.simps) (simp add: js_startsWith_def)
qed (simp add: split_string.simps)

definition plain :: "string \<Rightarrow> bool" where
  "plain s \<longleftrightarrow> list_all (\<lambda>c. code c \<noteq> 226) s"

lemma set_split_string: "p \<in> set (split_string sep acc s) \<Longrightarrow> set p \<subseteq> set acc \<union> set s"
proof (induction sep acc s arbitrary: p rule: split_string.induct)
  case (1 sep acc s)
  show ?case
  proof (cases s)
    case (Cons c cs)
    then show ?thesis using "1.prems" "1.IH"(1)[OF Cons] "1.IH"(2)[OF Cons]
      by (subst (asm) split_string.simps) (fastforce split: if_splits dest: in_set_dropD)
  qed (use "1.prems" in \<open>simp add: split_string.simps\<close>)
qed

lemma set_js_trim: "set (js_trim s) \<subseteq> set s"
  by (auto simp: js_trim_def trim_end_def dest!: set_dropWhileD)

lemma plain_replace:
  "plain s \<Longrightarrow> sign \<in> {ctrl_sign, alt_sign, shift_sign, cmd_sign} \<Longrightarrow> replace_sign sign name s = s"
  using split_string_absent[of s "char_of (226 :: nat)" _ "[]"] code_char_of[of 226]
  by (fastforce simp: plain_def list_all_iff replace_sign_def ctrl_sign_def alt_sign_def shift_sign_def
      cmd_sign_def utf8_def)

lemma plain_shortcut:
  assumes "plain s" and "s \<noteq> []"
  shows "parseShortcutString (Some s) = combos_of (map js_trim (split_string '' or '' [] s))"
proof -
  have "plain (js_trim p)" if "p \<in> set (split_string '' or '' [] s)" for p
    using set_js_trim[of p] set_split_string[OF that] assms(1) by (auto simp: plain_def list_all_iff)
  then have "map (\<lambda>part. replace_sign ctrl_sign ''Ctrl+''
                  (replace_sign shift_sign ''Shift+'' (replace_sign alt_sign ''Alt+''
                    (replace_sign cmd_sign ''Meta+'' (js_trim part)))))
                (split_string '' or '' [] s) = map js_trim (split_string '' or '' [] s)"
    by (auto simp: plain_replace)
  with assms(2) show ?thesis by (simp add: parseShortcutString_def del: map_eq_conv)
qed

lemma plain_chars: "plain [] = True" "plain (c # s) = (code c \<noteq> 226 \<and> plain s)"
  by (simp_all add: plain_def)

lemma plain_combos1:
  "combos_of (map js_trim (split_string '' or '' [] ''Backspace'')) = [combo ''backspace'' False False False]"
  "combos_of (map js_trim (split_string '' or '' [] ''Ctrl+R'')) = [combo ''r'' True False False]"
  "combos_of (map js_trim (split_string '' or '' [] ''Ctrl+L'')) = [combo ''l'' True False False]"
  "combos_of (map js_trim (split_string '' or '' [] ''F7'')) = [combo ''F7'' False False False]"
  "combos_of (map js_trim (split_string '' or '' [] ''Ctrl+C'')) = [combo ''c'' True False False]"
  "combos_of (map js_trim (split_string '' or '' [] ''Ctrl+X'')) = [combo ''x'' True False False]"
  "combos_of (map js_trim (split_string '' or '' [] ''Ctrl+V'')) = [combo ''v'' True False False]"
  "combos_of (map js_trim (split_string '' or '' [] ''F5'')) = [combo ''F5'' False False False]"
  "combos_of (map js_trim (split_string '' or '' [] ''F6'')) = [combo ''F6'' False False False]"
  "combos_of (map js_trim (split_string '' or '' [] ''F2'')) = [combo ''F2'' False False False]"
  by code_simp+

lemma plain_combos2:
  "combos_of (map js_trim (split_string '' or '' [] ''F8'')) = [combo ''F8'' False False False]"
  "combos_of (map js_trim (split_string '' or '' [] ''Shift+Delete'')) = [combo ''delete'' False False True]"
  "combos_of (map js_trim (split_string '' or '' [] ''Alt+Enter'')) = [combo ''Enter'' False True False]"
  "combos_of (map js_trim (split_string '' or '' [] ''Enter'')) = [combo ''Enter'' False False False]"
  "combos_of (map js_trim (split_string '' or '' [] ''F3'')) = [combo ''F3'' False False False]"
  "combos_of (map js_trim (split_string '' or '' [] ''F4'')) = [combo ''F4'' False False False]"
  "combos_of (map js_trim (split_string '' or '' [] ''Ctrl+. or Ctrl+H'')) = [combo ''.'' True False False, combo ''h'' True False False]"
  "combos_of (map js_trim (split_string '' or '' [] ''Ctrl+Shift+T'')) = [combo ''t'' True False True]"
  "combos_of (map js_trim (split_string '' or '' [] ''Tab'')) = [combo ''tab'' False False False]"
  "combos_of (map js_trim (split_string '' or '' [] ''Ctrl+U'')) = [combo ''u'' True False False]"
  by code_simp+

lemma plain_combos3:
  "combos_of (map js_trim (split_string '' or '' [] ''Ctrl+F'')) = [combo ''f'' True False False]"
  "combos_of (map js_trim (split_string '' or '' [] ''Ctrl+Shift+F'')) = [combo ''f'' True False True]"
  "combos_of (map js_trim (split_string '' or '' [] ''Ctrl+A'')) = [combo ''a'' True False False]"
  "combos_of (map js_trim (split_string '' or '' [] ''Escape'')) = [combo ''escape'' False False False]"
  "combos_of (map js_trim (split_string '' or '' [] ''Ctrl+,'')) = [combo '','' True False False]"
  "combos_of (map js_trim (split_string '' or '' [] ''Ctrl+/'')) = [combo ''/'' True False False]"
  "combos_of (map js_trim (split_string '' or '' [] ''Ctrl+Alt+L'')) = [combo ''l'' True True False]"
  "combos_of (map js_trim (split_string '' or '' [] ''Ctrl+P'')) = [combo ''p'' True False False]"
  "combos_of (map js_trim (split_string '' or '' [] ''Ctrl+M'')) = [combo ''m'' True False False]"
  "combos_of (map js_trim (split_string '' or '' [] ''Ctrl+D'')) = [combo ''d'' True False False]"
  by code_simp+

lemma sign_combos:
  "parseShortcutString (Some (''Alt+'' @ left_sign)) = [combo left_sign False True False]"
  "parseShortcutString (Some (''Alt+'' @ right_sign)) = [combo right_sign False True False]"
  by code_simp+

lemmas plain_combos = plain_combos1 plain_combos2 plain_combos3

lemma shortcut_combos:
  "parseShortcutString (Some ''Backspace'') = [combo ''backspace'' False False False]"
  "parseShortcutString (Some ''Ctrl+R'') = [combo ''r'' True False False]"
  "parseShortcutString (Some ''Ctrl+L'') = [combo ''l'' True False False]"
  "parseShortcutString (Some ''F7'') = [combo ''F7'' False False False]"
  "parseShortcutString (Some ''Ctrl+C'') = [combo ''c'' True False False]"
  "parseShortcutString (Some ''Ctrl+X'') = [combo ''x'' True False False]"
  "parseShortcutString (Some ''Ctrl+V'') = [combo ''v'' True False False]"
  "parseShortcutString (Some ''F5'') = [combo ''F5'' False False False]"
  "parseShortcutString (Some ''F6'') = [combo ''F6'' False False False]"
  "parseShortcutString (Some ''F2'') = [combo ''F2'' False False False]"
  "parseShortcutString (Some ''F8'') = [combo ''F8'' False False False]"
  "parseShortcutString (Some ''Shift+Delete'') = [combo ''delete'' False False True]"
  "parseShortcutString (Some ''Alt+Enter'') = [combo ''Enter'' False True False]"
  "parseShortcutString (Some ''Enter'') = [combo ''Enter'' False False False]"
  "parseShortcutString (Some ''F3'') = [combo ''F3'' False False False]"
  "parseShortcutString (Some ''F4'') = [combo ''F4'' False False False]"
  "parseShortcutString (Some ''Ctrl+. or Ctrl+H'') = [combo ''.'' True False False, combo ''h'' True False False]"
  "parseShortcutString (Some ''Ctrl+Shift+T'') = [combo ''t'' True False True]"
  "parseShortcutString (Some ''Tab'') = [combo ''tab'' False False False]"
  "parseShortcutString (Some ''Ctrl+U'') = [combo ''u'' True False False]"
  "parseShortcutString (Some ''Ctrl+F'') = [combo ''f'' True False False]"
  "parseShortcutString (Some ''Ctrl+Shift+F'') = [combo ''f'' True False True]"
  "parseShortcutString (Some ''Ctrl+A'') = [combo ''a'' True False False]"
  "parseShortcutString (Some ''Escape'') = [combo ''escape'' False False False]"
  "parseShortcutString (Some ''Ctrl+,'') = [combo '','' True False False]"
  "parseShortcutString (Some ''Ctrl+/'') = [combo ''/'' True False False]"
  "parseShortcutString (Some ''Ctrl+Alt+L'') = [combo ''l'' True True False]"
  "parseShortcutString (Some ''Ctrl+P'') = [combo ''p'' True False False]"
  "parseShortcutString (Some ''Ctrl+M'') = [combo ''m'' True False False]"
  "parseShortcutString (Some ''Ctrl+D'') = [combo ''d'' True False False]"
  by (rule trans[OF plain_shortcut], simp add: plain_chars code_def, simp, rule plain_combos)+

lemma registry_shortcuts:
  "filter (\<lambda>(i, s). s \<noteq> None) (map (\<lambda>c. (cd_id c, cd_shortcutWin c)) COMMAND_REGISTRY) =
    [(''nav.back'', Some (''Alt+'' @ left_sign)),
     (''nav.forward'', Some (''Alt+'' @ right_sign)),
     (''nav.up'', Some ''Backspace''),
     (''nav.refresh'', Some ''Ctrl+R''),
     (''nav.goToLocation'', Some ''Ctrl+L''),
     (''create.folder'', Some ''F7''),
     (''op.copy'', Some ''Ctrl+C''),
     (''op.cut'', Some ''Ctrl+X''),
     (''op.paste'', Some ''Ctrl+V''),
     (''op.copyTo'', Some ''F5''),
     (''op.moveTo'', Some ''F6''),
     (''op.rename'', Some ''F2''),
     (''op.delete'', Some ''F8''),
     (''op.deletePermanent'', Some ''Shift+Delete''),
     (''op.properties'', Some ''Alt+Enter''),
     (''op.open'', Some ''Enter''),
     (''op.view'', Some ''F3''),
     (''op.edit'', Some ''F4''),
     (''view.toggleHidden'', Some ''Ctrl+. or Ctrl+H''),
     (''preferences.cycleTheme'', Some ''Ctrl+Shift+T''),
     (''layout.switchPane'', Some ''Tab''),
     (''layout.swapPanes'', Some ''Ctrl+U''),
     (''search.recursive'', Some ''Ctrl+F''),
     (''search.focusFilter'', Some ''Ctrl+Shift+F''),
     (''selection.selectAll'', Some ''Ctrl+A''),
     (''selection.clear'', Some ''Escape''),
     (''app.settings'', Some ''Ctrl+,''),
     (''app.shortcuts'', Some ''Ctrl+/''),
     (''app.debugConsole'', Some ''Ctrl+Alt+L''),
     (''app.commandPalette'', Some ''Ctrl+P''),
     (''tools.multiRename'', Some ''Ctrl+M''),
     (''tools.openHotlist'', Some ''Ctrl+D'')]"
  by (simp add: COMMAND_REGISTRY_def registry_part1_def registry_part2_def registry_part3_def
      registry_part4_def registry_part5_def command_def)

lemma registry_bindings_eq:
  "registry_bindings =
    [\<lparr>kb_commandId = ''nav.back'', kb_combos = [combo left_sign False True False]\<rparr>,
     \<lparr>kb_commandId = ''nav.forward'', kb_combos = [combo right_sign False True False]\<rparr>,
     \<lparr>kb_commandId = ''nav.up'', kb_combos = [combo ''backspace'' False False False]\<rparr>,
     \<lparr>kb_commandId = ''nav.refresh'', kb_combos = [combo ''r'' True False False]\<rparr>,
     \<lparr>kb_commandId = ''nav.goToLocation'', kb_combos = [combo ''l'' True False False]\<rparr>,
     \<lparr>kb_commandId = ''create.folder'', kb_combos = [combo ''F7'' False False False]\<rparr>,
     \<lparr>kb_commandId = ''op.copy'', kb_combos = [combo ''c'' True False False]\<rparr>,
     \<lparr>kb_commandId = ''op.cut'', kb_combos = [combo ''x'' True False False]\<rparr>,
     \<lparr>kb_commandId = ''op.paste'', kb_combos = [combo ''v'' True False False]\<rparr>,
     \<lparr>kb_commandId = ''op.copyTo'', kb_combos = [combo ''F5'' False False False]\<rparr>,
     \<lparr>kb_commandId = ''op.moveTo'', kb_combos = [combo ''F6'' False False False]\<rparr>,
     \<lparr>kb_commandId = ''op.rename'', kb_combos = [combo ''F2'' False False False]\<rparr>,
     \<lparr>kb_commandId = ''op.delete'', kb_combos = [combo ''F8'' False False False]\<rparr>,
     \<lparr>kb_commandId = ''op.deletePermanent'', kb_combos = [combo ''delete'' False False True]\<rparr>,
     \<lparr>kb_commandId = ''op.properties'', kb_combos = [combo ''Enter'' False True False]\<rparr>,
     \<lparr>kb_commandId = ''op.open'', kb_combos = [combo ''Enter'' False False False]\<rparr>,
     \<lparr>kb_commandId = ''op.view'', kb_combos = [combo ''F3'' False False False]\<rparr>,
     \<lparr>kb_commandId = ''op.edit'', kb_combos = [combo ''F4'' False False False]\<rparr>,
     \<lparr>kb_commandId = ''view.toggleHidden'', kb_combos = [combo ''.'' True False False, combo ''h'' True False False]\<rparr>,
     \<lparr>kb_commandId = ''preferences.cycleTheme'', kb_combos = [combo ''t'' True False True]\<rparr>,
     \<lparr>kb_commandId = ''layout.switchPane'', kb_combos = [combo ''tab'' False False False]\<rparr>,
     \<lparr>kb_commandId = ''layout.swapPanes'', kb_combos = [combo ''u'' True False False]\<rparr>,
     \<lparr>kb_commandId = ''search.recursive'', kb_combos = [combo ''f'' True False False]\<rparr>,
     \<lparr>kb_commandId = ''search.focusFilter'', kb_combos = [combo ''f'' True False True]\<rparr>,
     \<lparr>kb_commandId = ''selection.selectAll'', kb_combos = [combo ''a'' True False False]\<rparr>,
     \<lparr>kb_commandId = ''selection.clear'', kb_combos = [combo ''escape'' False False False]\<rparr>,
     \<lparr>kb_commandId = ''app.settings'', kb_combos = [combo '','' True False False]\<rparr>,
     \<lparr>kb_commandId = ''app.shortcuts'', kb_combos = [combo ''/'' True False False]\<rparr>,
     \<lparr>kb_commandId = ''app.debugConsole'', kb_combos = [combo ''l'' True True False]\<rparr>,
     \<lparr>kb_commandId = ''app.commandPalette'', kb_combos = [combo ''p'' True False False]\<rparr>,
     \<lparr>kb_commandId = ''tools.multiRename'', kb_combos = [combo ''m'' True False False]\<rparr>,
     \<lparr>kb_commandId = ''tools.openHotlist'', kb_combos = [combo ''d'' True False False]\<rparr>]"
proof -
  have *: "filter (\<lambda>b. kb_combos b \<noteq> [])
      (map (\<lambda>cmd. \<lparr>kb_commandId = cd_id cmd, kb_combos = parseShortcutString (cd_shortcutWin cmd)\<rparr>) cs) =
    filter (\<lambda>b. kb_combos b \<noteq> [])
      (map (\<lambda>(i, s). \<lparr>kb_commandId = i, kb_combos = parseShortcutString s\<rparr>)
        (filter (\<lambda>(i, s). s \<noteq> None) (map (\<lambda>c. (cd_id c, cd_shortcutWin c)) cs)))" for cs :: "CommandDefinition list"
    by (induction cs) (auto simp: parseShortcutString_def)
  show ?thesis unfolding registry_bindings_def * registry_shortcuts
    by (simp add: shortcut_combos sign_combos[simplified])
qed

lemma pushed_combos:
  "combos_of [''Ctrl+F''] = [combo ''f'' True False False]"
  "combos_of [''Ctrl+Shift+F''] = [combo ''f'' True False True]"
  "combos_of [''Delete''] = [combo ''delete'' False False False]"
  "combos_of [''Ctrl+P'', ''Ctrl+Shift+P'', ''F10''] =
     [combo ''p'' True False False, combo ''p'' True False True, combo ''F10'' False False False]"
  "combos_of [''Ctrl+/'', ''F1''] = [combo ''/'' True False False, combo ''F1'' False False False]"
  by code_simp+

lemma effective_bindings:
  "mergeBindings buildDefaultBindings [] =
    [\<lparr>kb_commandId = ''nav.back'', kb_combos = [combo left_sign False True False]\<rparr>,
     \<lparr>kb_commandId = ''nav.forward'', kb_combos = [combo right_sign False True False]\<rparr>,
     \<lparr>kb_commandId = ''nav.up'', kb_combos = [combo ''backspace'' False False False]\<rparr>,
     \<lparr>kb_commandId = ''nav.refresh'', kb_combos = [combo ''r'' True False False]\<rparr>,
     \<lparr>kb_commandId = ''nav.goToLocation'', kb_combos = [combo ''l'' True False False]\<rparr>,
     \<lparr>kb_commandId = ''create.folder'', kb_combos = [combo ''F7'' False False False]\<rparr>,
     \<lparr>kb_commandId = ''op.copy'', kb_combos = [combo ''c'' True False False]\<rparr>,
     \<lparr>kb_commandId = ''op.cut'', kb_combos = [combo ''x'' True False False]\<rparr>,
     \<lparr>kb_commandId = ''op.paste'', kb_combos = [combo ''v'' True False False]\<rparr>,
     \<lparr>kb_commandId = ''op.copyTo'', kb_combos = [combo ''F5'' False False False]\<rparr>,
     \<lparr>kb_commandId = ''op.moveTo'', kb_combos = [combo ''F6'' False False False]\<rparr>,
     \<lparr>kb_commandId = ''op.rename'', kb_combos = [combo ''F2'' False False False]\<rparr>,
     \<lparr>kb_commandId = ''op.delete'', kb_combos = [combo ''delete'' False False False]\<rparr>,
     \<lparr>kb_commandId = ''op.deletePermanent'', kb_combos = [combo ''delete'' False False True]\<rparr>,
     \<lparr>kb_commandId = ''op.properties'', kb_combos = [combo ''Enter'' False True False]\<rparr>,
     \<lparr>kb_commandId = ''op.open'', kb_combos = [combo ''Enter'' False False False]\<rparr>,
     \<lparr>kb_commandId = ''op.view'', kb_combos = [combo ''F3'' False False False]\<rparr>,
     \<lparr>kb_commandId = ''op.edit'', kb_combos = [combo ''F4'' False False False]\<rparr>,
     \<lparr>kb_commandId = ''view.toggleHidden'', kb_combos = [combo ''.'' True False False, combo ''h'' True False False]\<rparr>,
     \<lparr>kb_commandId = ''preferences.cycleTheme'', kb_combos = [combo ''t'' True False True]\<rparr>,
     \<lparr>kb_commandId = ''layout.switchPane'', kb_combos = [combo ''tab'' False False False]\<rparr>,
     \<lparr>kb_commandId = ''layout.swapPanes'', kb_combos = [combo ''u'' True False False]\<rparr>,
     \<lparr>kb_commandId = ''search.recursive'', kb_combos = [combo ''f'' True False True]\<rparr>,
     \<lparr>kb_commandId = ''search.focusFilter'', kb_combos = [combo ''f'' True False False]\<rparr>,
     \<lparr>kb_commandId = ''selection.selectAll'', kb_combos = [combo ''a'' True False False]\<rparr>,
     \<lparr>kb_commandId = ''selection.clear'', kb_combos = [combo ''escape'' False False False]\<rparr>,
     \<lparr>kb_commandId = ''app.settings'', kb_combos = [combo '','' True False False]\<rparr>,
     \<lparr>kb_commandId = ''app.shortcuts'', kb_combos = [combo ''/'' True False False, combo ''F1'' False False False]\<rparr>,
     \<lparr>kb_commandId = ''app.debugConsole'', kb_combos = [combo ''l'' True True False]\<rparr>,
     \<lparr>kb_commandId = ''app.commandPalette'', kb_combos = [combo ''p'' True False False, combo ''p'' True False True, combo ''F10'' False False False]\<rparr>,
     \<lparr>kb_commandId = ''tools.multiRename'', kb_combos = [combo ''m'' True False False]\<rparr>,
     \<lparr>kb_commandId = ''tools.openHotlist'', kb_combos = [combo ''d'' True False False]\<rparr>]"
  unfolding buildDefaultBindings_def registry_bindings_eq pushed_combos addOrExtendBinding_def Let_def
  by (simp add: mergeBindings_def)

end
