(* ===== verification/Shortcuts.thy ===== *)
theory Shortcuts
  imports DefaultBindings
begin

text \<open>
  The default key bindings compared with the shortcuts that menus, palette and help show for
  the same commands.
\<close>

section \<open>What the keys do\<close>

text \<open>The event of pressing what a combination shows: an arrow sign stands for the arrow key.\<close>

definition press :: "KeyCombo \<Rightarrow> KeyEvent" where
  "press c =
     \<lparr>ev_key = (if kc_key c = left_sign then ''ArrowLeft''
                else if kc_key c = right_sign then ''ArrowRight'' else kc_key c),
      ev_ctrlKey = kc_ctrl c, ev_altKey = kc_alt c, ev_shiftKey = kc_shift c, ev_metaKey = kc_meta c\<rparr>"

definition shown_but_not_bound :: "string \<Rightarrow> string option" where
  "shown_but_not_bound i =
     (if i = ''nav.back'' \<or> i = ''nav.forward'' \<or> i = ''op.delete'' then None
      else if i = ''search.recursive'' then Some ''search.focusFilter''
      else if i = ''search.focusFilter'' then Some ''search.recursive'' else Some i)"

text \<open>Looking a combination up by its key in small letters and its modifiers.\<close>

definition combo_code :: "KeyCombo \<Rightarrow> string \<times> bool \<times> bool \<times> bool \<times> bool" where
  "combo_code c = (js_toLowerCase (kc_key c), kc_ctrl c, kc_alt c, kc_shift c, kc_meta c)"

definition binding_table :: "KeyBinding list \<Rightarrow> ((string \<times> bool \<times> bool \<times> bool \<times> bool) \<times> string) list" where
  "binding_table bs = concat (map (\<lambda>b. map (\<lambda>c. (combo_code c, kb_commandId b)) (kb_combos b)) bs)"

lemma matches_code: "matchesKeyCombo e c \<longleftrightarrow> combo_code (eventToKeyCombo e) = combo_code c"
  by (auto simp: matchesKeyCombo_def combo_code_def eventToKeyCombo_def)

lemma table_block:
  "map_of (map (\<lambda>c. (combo_code c, i)) cs @ t) k =
     (if list_ex (\<lambda>c. k = combo_code c) cs then Some i else map_of t k)"
  by (induction cs) auto

lemma bound_command_table:
  "bound_command bs e = map_of (binding_table bs) (combo_code (eventToKeyCombo e))"
  by (induction bs)
    (simp_all add: bound_command_def binding_table_def table_block matches_code[abs_def] del: map_of_append)

lemma combo_code_combo [simp]: "combo_code (combo key c a s) = (js_toLowerCase key, c, a, s, False)"
  by (simp add: combo_code_def combo_def)

lemma press_code:
  "combo_code (eventToKeyCombo (press (combo key c a s))) =
     (if key = left_sign then ''arrowleft'' else if key = right_sign then ''arrowright''
      else js_toLowerCase key, c, a, s, False)"
proof -
  have "js_toLowerCase ''ArrowLeft'' = ''arrowleft''" "js_toLowerCase ''ArrowRight'' = ''arrowright''"
    by code_simp+
  then show ?thesis by (simp add: combo_code_def eventToKeyCombo_def press_def combo_def)
qed

lemma sign_keys: "left_sign \<noteq> right_sign" "right_sign \<noteq> left_sign"
  "js_toLowerCase left_sign = left_sign" "js_toLowerCase right_sign = right_sign"
  "left_sign \<noteq> ''arrowleft''" "right_sign \<noteq> ''arrowright''"
  "left_sign \<noteq> ''arrowright''" "right_sign \<noteq> ''arrowleft''"
  by code_simp+

lemma lowered_keys:
  "js_toLowerCase ''backspace'' = ''backspace''"
  "js_toLowerCase ''r'' = ''r''"
  "js_toLowerCase ''l'' = ''l''"
  "js_toLowerCase ''F7'' = ''f7''"
  "js_toLowerCase ''c'' = ''c''"
  "js_toLowerCase ''x'' = ''x''"
  "js_toLowerCase ''v'' = ''v''"
  "js_toLowerCase ''F5'' = ''f5''"
  "js_toLowerCase ''F6'' = ''f6''"
  "js_toLowerCase ''F2'' = ''f2''"
  "js_toLowerCase ''delete'' = ''delete''"
  "js_toLowerCase ''Enter'' = ''enter''"
  "js_toLowerCase ''F3'' = ''f3''"
  "js_toLowerCase ''F4'' = ''f4''"
  "js_toLowerCase ''.'' = ''.''"
  "js_toLowerCase ''h'' = ''h''"
  "js_toLowerCase ''t'' = ''t''"
  "js_toLowerCase ''tab'' = ''tab''"
  "js_toLowerCase ''u'' = ''u''"
  "js_toLowerCase ''f'' = ''f''"
  "js_toLowerCase ''a'' = ''a''"
  "js_toLowerCase ''escape'' = ''escape''"
  "js_toLowerCase '','' = '',''"
  "js_toLowerCase ''/'' = ''/''"
  "js_toLowerCase ''F1'' = ''f1''"
  "js_toLowerCase ''p'' = ''p''"
  "js_toLowerCase ''F10'' = ''f10''"
  "js_toLowerCase ''m'' = ''m''"
  "js_toLowerCase ''d'' = ''d''"
  "js_toLowerCase ''F8'' = ''f8''"
  by code_simp+

lemma sign_not_ascii: "code c < 128 \<Longrightarrow> (c # s = left_sign) = False \<and> (c # s = right_sign) = False"
  by (auto simp: left_sign_def right_sign_def utf8_def)

lemma no_signs:
  "(''backspace'' = left_sign) = False" "(''backspace'' = right_sign) = False"
  "(''r'' = left_sign) = False" "(''r'' = right_sign) = False"
  "(''l'' = left_sign) = False" "(''l'' = right_sign) = False"
  "(''F7'' = left_sign) = False" "(''F7'' = right_sign) = False"
  "(''c'' = left_sign) = False" "(''c'' = right_sign) = False"
  "(''x'' = left_sign) = False" "(''x'' = right_sign) = False"
  "(''v'' = left_sign) = False" "(''v'' = right_sign) = False"
  "(''F5'' = left_sign) = False" "(''F5'' = right_sign) = False"
  "(''F6'' = left_sign) = False" "(''F6'' = right_sign) = False"
  "(''F2'' = left_sign) = False" "(''F2'' = right_sign) = False"
  "(''delete'' = left_sign) = False" "(''delete'' = right_sign) = False"
  "(''Enter'' = left_sign) = False" "(''Enter'' = right_sign) = False"
  "(''F3'' = left_sign) = False" "(''F3'' = right_sign) = False"
  "(''F4'' = left_sign) = False" "(''F4'' = right_sign) = False"
  "(''.'' = left_sign) = False" "(''.'' = right_sign) = False"
  "(''h'' = left_sign) = False" "(''h'' = right_sign) = False"
  "(''t'' = left_sign) = False" "(''t'' = right_sign) = False"
  "(''tab'' = left_sign) = False" "(''tab'' = right_sign) = False"
  "(''u'' = left_sign) = False" "(''u'' = right_sign) = False"
  "(''f'' = left_sign) = False" "(''f'' = right_sign) = False"
  "(''a'' = left_sign) = False" "(''a'' = right_sign) = False"
  "(''escape'' = left_sign) = False" "(''escape'' = right_sign) = False"
  "('','' = left_sign) = False" "('','' = right_sign) = False"
  "(''/'' = left_sign) = False" "(''/'' = right_sign) = False"
  "(''F1'' = left_sign) = False" "(''F1'' = right_sign) = False"
  "(''p'' = left_sign) = False" "(''p'' = right_sign) = False"
  "(''F10'' = left_sign) = False" "(''F10'' = right_sign) = False"
  "(''m'' = left_sign) = False" "(''m'' = right_sign) = False"
  "(''d'' = left_sign) = False" "(''d'' = right_sign) = False"
  "(''F8'' = left_sign) = False" "(''F8'' = right_sign) = False"
  "(''arrowleft'' = left_sign) = False" "(''arrowleft'' = right_sign) = False"
  "(''arrowright'' = left_sign) = False" "(''arrowright'' = right_sign) = False"
  "(''enter'' = left_sign) = False" "(''enter'' = right_sign) = False"
  by (simp_all add: sign_not_ascii code_def)

lemma default_table:
  "binding_table (mergeBindings buildDefaultBindings []) =
    [((left_sign, False, True, False, False), ''nav.back''),
     ((right_sign, False, True, False, False), ''nav.forward''),
     ((''backspace'', False, False, False, False), ''nav.up''),
     ((''r'', True, False, False, False), ''nav.refresh''),
     ((''l'', True, False, False, False), ''nav.goToLocation''),
     ((''f7'', False, False, False, False), ''create.folder''),
     ((''c'', True, False, False, False), ''op.copy''),
     ((''x'', True, False, False, False), ''op.cut''),
     ((''v'', True, False, False, False), ''op.paste''),
     ((''f5'', False, False, False, False), ''op.copyTo''),
     ((''f6'', False, False, False, False), ''op.moveTo''),
     ((''f2'', False, False, False, False), ''op.rename''),
     ((''delete'', False, False, False, False), ''op.delete''),
     ((''delete'', False, False, True, False), ''op.deletePermanent''),
     ((''enter'', False, True, False, False), ''op.properties''),
     ((''enter'', False, False, False, False), ''op.open''),
     ((''f3'', False, False, False, False), ''op.view''),
     ((''f4'', False, False, False, False), ''op.edit''),
     ((''.'', True, False, False, False), ''view.toggleHidden''),
     ((''h'', True, False, False, False), ''view.toggleHidden''),
     ((''t'', True, False, True, False), ''preferences.cycleTheme''),
     ((''tab'', False, False, False, False), ''layout.switchPane''),
     ((''u'', True, False, False, False), ''layout.swapPanes''),
     ((''f'', True, False, True, False), ''search.recursive''),
     ((''f'', True, False, False, False), ''search.focusFilter''),
     ((''a'', True, False, False, False), ''selection.selectAll''),
     ((''escape'', False, False, False, False), ''selection.clear''),
     (('','', True, False, False, False), ''app.settings''),
     ((''/'', True, False, False, False), ''app.shortcuts''),
     ((''f1'', False, False, False, False), ''app.shortcuts''),
     ((''l'', True, True, False, False), ''app.debugConsole''),
     ((''p'', True, False, False, False), ''app.commandPalette''),
     ((''p'', True, False, True, False), ''app.commandPalette''),
     ((''f10'', False, False, False, False), ''app.commandPalette''),
     ((''m'', True, False, False, False), ''tools.multiRename''),
     ((''d'', True, False, False, False), ''tools.openHotlist'')]"
  unfolding effective_bindings by (simp add: binding_table_def lowered_keys sign_keys)

lemma pressed:
  "list_all (\<lambda>b. list_all (\<lambda>k. bound_command (mergeBindings buildDefaultBindings []) (press k) =
      shown_but_not_bound (kb_commandId b)) (kb_combos b)) registry_bindings"
  unfolding bound_command_table default_table registry_bindings_eq
  by (simp add: press_code sign_keys no_signs lowered_keys shown_but_not_bound_def)

section \<open>Property\<close>

text \<open>Of the shortcuts shown for the commands, five do not do what they show. Pressing a
  combination shown for a command runs exactly that command, except that the shown keys of
  going back and forward (Alt with an arrow) and of deleting (F8) do nothing, and the shown
  keys of the recursive search and of the filter run each other's command: the arrow signs of
  the registry are never turned into the names of the keys, a second binding of a command
  replaces the first one, and the keys of the two searches are bound the other way round
  than they are registered.\<close>

theorem shown_shortcuts:
  assumes "c \<in> set COMMAND_REGISTRY" and "k \<in> set (parseShortcutString (cd_shortcutWin c))"
  shows "bound_command (mergeBindings buildDefaultBindings []) (press k) =
    (if cd_id c = ''nav.back'' \<or> cd_id c = ''nav.forward'' \<or> cd_id c = ''op.delete'' then None
     else if cd_id c = ''search.recursive'' then Some ''search.focusFilter''
     else if cd_id c = ''search.focusFilter'' then Some ''search.recursive''
     else Some (cd_id c))"
proof -
  let ?b = "\<lparr>kb_commandId = cd_id c, kb_combos = parseShortcutString (cd_shortcutWin c)\<rparr>"
  have "?b \<in> set registry_bindings"
    using assms by (auto simp: registry_bindings_def)
  with pressed assms(2) show ?thesis
    unfolding list_all_iff shown_but_not_bound_def by force
qed

theorem shown_shortcuts_witness:
  "bound_command (mergeBindings buildDefaultBindings []) (press (combo ''F8'' False False False)) = None"
proof -
  have "command ''op.delete'' ''Delete'' GOperation (Some ''F8'') (Some ''F8'') False
      [SToolbar, SMenu, SFkey, SPalette, SContext] \<in> set COMMAND_REGISTRY"
    by (simp add: COMMAND_REGISTRY_def registry_part2_def)
  from shown_shortcuts[OF this, of "combo ''F8'' False False False"] show ?thesis
    by (simp add: command_def shortcut_combos)
qed

end
