(* ===== verification/Dispatch.thy ===== *)
theory Dispatch
  imports FileOps Shortcuts
begin

text \<open>
  Running commands: \<open>dispatchCommand\<close> (\<open>commands/dispatch.ts\<close>), the wrapper that menus and
  palette call (\<open>hooks/useCommandDispatch.ts\<close>), the actions of the function-key bar
  (\<open>shell/commanderActions.ts\<close>) and the handler of key presses
  (\<open>hooks/useKeyboardShortcuts.ts\<close>). What they call is kept as a list of effects, in order.
  The switch over the command ids is a table of its cases.
\<close>

section \<open>Effects\<close>

datatype (plugins only: code size) Overlay =
    OvSettings | OvToolbarCustomize | OvShortcuts | OvDiagnostics | OvDebugConsole | OvHelp
  | OvAbout | OvGoToLocation | OvManageFavorites | OvRecentLocations | OvClearRecentLocations
  | OvOperationHistory | OvVolumePicker | OvConnectServer | OvPreview | OvViewer | OvEditor
  | OvCommandPalette | OvMultiRename | OvSyncDirectories | OvHotlist | OvManageHotlist
  | OvDialog | OvContextMenu

text \<open>Profiles of connections are only passed on and named by their id.\<close>

datatype (plugins only: code size) CmdEffect =
    SetOpen Overlay bool
  | UpdatePref string string
  | RequestPaneModeChange string
  | MarkActivityPinnedOpen
  | SetActivityCollapsed bool
  | ToggleStatusBar
  | ToggleToolbar
  | PanelAct PanelAction
  | SetTheme string
  | SetDensity string
  | EqualizePanes
  | GoHistory PanelId HistoryDirection
  | NavigateTo PanelId string
  | RefreshPanel PanelId
  | RevealUri string
  | SetConnectServerProfile "string option"
  | SetConnectServerInitial
  | ClearRecentEntries
  | RemoveRecentEntry string
  | ToggleHiddenOf PanelId
  | CreateFolder PanelId
  | CreateFile PanelId
  | StartInlineRename PanelId
  | CopyToClipboard PanelId CopyMoveKind
  | PasteInto PanelId
  | DeleteIn PanelId
  | TrashIn PanelId
  | DeletePermanentlyIn PanelId
  | FocusRecursiveSearch
  | FocusFilter
  | FocusPath
  | PreviewInOpposite PanelId FileEntryDto
  | EditorInOpposite PanelId FileEntryDto
  | SetViewerEntry FileEntryDto
  | SetEditorEntry FileEntryDto
  | ClearOperationError
  | ShowProperties PanelId "FileEntryDto option" bool
  | Compress PanelId
  | Extract PanelId
  | Checksum PanelId
  | OpenEmbeddedTerminal PanelId
  | OpenTerminalExternal PanelId
  | TogglePaneTerminal PanelId
  | RequestTerminalCommand string
  | RunTerminalCommand string
  | SpawnAndRun PanelId string
  | CalculateSize PanelId "FileEntryDto option"
  | ToggleStarred FileEntryDto
  | AddFavorite PanelId string string
  | RemoveFavorite int
  | RenameFavorite int string
  | CopyOrMoveTo PanelId CopyMoveKind
  | Activate PanelId "FileEntryDto option"
  | OpenExternalApp FileEntryDto
  | RevealEntry PanelId "FileEntryDto option"
  | ReviewChanges PanelId
  | CopyText PanelId CopyTextMode
  | ClearClipboard
  | PreventDefault
  | RunCommand string "PanelId option"

section \<open>What a command is given\<close>

record CommandInvokeContext =
  cx_entry :: "FileEntryDto option option"
  cx_targetUri :: "string option"
  cx_favoriteId :: "int option"
  cx_sortField :: "SortField option"
  cx_preferenceValue :: "string option"
  cx_networkProfile :: "string option"
  cx_terminalCommand :: "string option"

record CommandPreferences =
  cp_sidebarVisible :: "bool option"
  cp_paneMode :: string
  cp_theme :: "string option"
  cp_paneDirection :: "string option"

text \<open>Of the functions that the caller may leave out, whether they are there; for
  \<open>requestTerminalCommand\<close> also what it returns.\<close>

record CommandDispatchDeps =
  dd_preferences :: "CommandPreferences option"
  dd_activityCollapsed :: bool
  dd_isTextEditable :: "FileEntryDto option \<Rightarrow> bool"
  dd_hasPreviewInOpposite :: bool
  dd_hasEditorInOpposite :: bool
  dd_hasGitReview :: bool
  dd_requestTerminalCommand :: "(string \<Rightarrow> string option) option"
  dd_hasRunTerminal :: bool
  dd_hasSpawnAndRun :: bool
  dd_homeUri :: "string option"

definition LEGACY_COMMAND_ALIASES :: "(string, string) obj" where
  "LEGACY_COMMAND_ALIASES =
     [(''settings'', ''app.settings''), (''shortcuts'', ''app.shortcuts''),
      (''diagnostics'', ''app.diagnostics''), (''up'', ''nav.up''), (''refresh'', ''nav.refresh''),
      (''toggle-hidden'', ''view.toggleHidden''), (''switch-pane'', ''layout.switchPane'')]"

definition resolveCommandId :: "string \<Rightarrow> string" where
  "resolveCommandId i = or_default (obj_get LEGACY_COMMAND_ALIASES i) i"

type_synonym outcome = "(bool \<times> CmdEffect list) option"

definition did :: "CmdEffect list \<Rightarrow> outcome" where
  "did es = Some (True, es)"

definition refused :: outcome where
  "refused = Some (False, [])"

definition with_arg :: "'a option \<Rightarrow> ('a \<Rightarrow> CmdEffect list) \<Rightarrow> outcome" where
  "with_arg a f = (case a of Some x \<Rightarrow> did (f x) | None \<Rightarrow> refused)"

definition given :: "string option \<Rightarrow> string option" where
  "given v = (if truthy v then v else None)"

text \<open>\<open>terminalCommandFromOptions\<close>: the command, if there is one that is not blank, and the request
  made for it.\<close>

definition terminalCommandFromOptions ::
  "CommandDispatchDeps \<Rightarrow> CommandInvokeContext \<Rightarrow> string \<Rightarrow> string option \<times> CmdEffect list" where
  "terminalCommandFromOptions deps opts label =
     (let (command, asked) =
            (case cx_terminalCommand opts of
               Some c \<Rightarrow> (Some c, [])
             | None \<Rightarrow> (case dd_requestTerminalCommand deps of
                          Some f \<Rightarrow> (f label, [RequestTerminalCommand label])
                        | None \<Rightarrow> (None, [])));
          trimmed = js_trim (or_default command [])
      in (if trimmed = [] then None else Some trimmed, asked))"

section \<open>The cases\<close>

definition toggle_sort :: "PanelTabState \<Rightarrow> PanelId \<Rightarrow> SortDirection \<Rightarrow> CmdEffect list" where
  "toggle_sort tab panelId dir =
     (if sort_direction (tab_sort tab) \<noteq> dir
      then [PanelAct (SetSort panelId (sort_field (tab_sort tab)))] else [])"

definition next_theme :: "string \<Rightarrow> string" where
  "next_theme current =
     (if current = ''system'' then ''light'' else if current = ''light'' then ''dark'' else ''system'')"

definition app_cases ::
  "CommandDispatchDeps \<Rightarrow> CommandInvokeContext \<Rightarrow> PanelId \<Rightarrow> PanelTabState \<Rightarrow> (string, outcome) obj" where
  "app_cases deps opts panelId tab =
     [(''app.settings'', did [SetOpen OvSettings True]),
      (''app.customizeToolbar'', did [SetOpen OvToolbarCustomize True]),
      (''app.shortcuts'', did [SetOpen OvShortcuts True]),
      (''app.diagnostics'', did [SetOpen OvDiagnostics True]),
      (''app.debugConsole'', did [SetOpen OvDebugConsole True]),
      (''app.documentation'', did [SetOpen OvHelp True]),
      (''app.about'', did [SetOpen OvAbout True]),
      (''app.operationHistory'', did [SetOpen OvOperationHistory True]),
      (''app.commandPalette'', did [SetOpen OvCommandPalette True]),
      (''view.toggleSidebar'', did [UpdatePref ''sidebarVisible''
         (bool_str (case dd_preferences deps of None \<Rightarrow> False
                    | Some p \<Rightarrow> cp_sidebarVisible p = Some False))]),
      (''view.toggleDualPane'', did [RequestPaneModeChange
         (if map_option cp_paneMode (dd_preferences deps) = Some ''single'' then ''dual'' else ''single'')]),
      (''view.toggleActivity'',
         (let next = \<not> dd_activityCollapsed deps
          in did ((if next then [] else [MarkActivityPinnedOpen])
                  @ [SetActivityCollapsed next, UpdatePref ''activityPanelVisible'' (bool_str (\<not> next))]))),
      (''view.toggleStatusBar'', did [ToggleStatusBar]),
      (''view.toggleToolbar'', did [ToggleToolbar]),
      (''view.sort'', with_arg (cx_sortField opts) (\<lambda>f. [PanelAct (SetSort panelId f)])),
      (''view.sortAscending'', did (toggle_sort tab panelId Asc)),
      (''view.sortDescending'', did (toggle_sort tab panelId Desc)),
      (''preferences.theme'',
         (let theme = or_default (cx_preferenceValue opts) ''system''
          in did [SetTheme theme, UpdatePref ''theme'' theme])),
      (''preferences.cycleTheme'',
         (let current = (case dd_preferences deps of None \<Rightarrow> ''system''
                         | Some p \<Rightarrow> or_default (cp_theme p) ''system'');
              next = next_theme current
          in did [SetTheme next, UpdatePref ''theme'' next])),
      (''preferences.accentColor'', did [SetOpen OvSettings True]),
      (''preferences.fontScale'', did [SetOpen OvSettings True]),
      (''preferences.iconScale'', did [SetOpen OvSettings True]),
      (''preferences.density'',
         (let density = or_default (cx_preferenceValue opts) ''comfortable''
          in did [SetDensity density, UpdatePref ''density'' density])),
      (''layout.switchPane'', did [PanelAct (SetActivePanel (oppositePanelId panelId))]),
      (''layout.equalizePanes'', did [EqualizePanes]),
      (''layout.swapPanes'', did [PanelAct SwapPanes]),
      (''layout.togglePaneDirection'',
         (let current = (case dd_preferences deps of None \<Rightarrow> ''horizontal''
                         | Some p \<Rightarrow> or_default (cp_paneDirection p) ''horizontal'')
          in did [UpdatePref ''paneDirection''
                    (if current = ''horizontal'' then ''vertical'' else ''horizontal'')]))]"

definition nav_cases ::
  "CommandDispatchDeps \<Rightarrow> CommandInvokeContext \<Rightarrow> PanelId \<Rightarrow> PanelTabState \<Rightarrow> (string, outcome) obj" where
  "nav_cases deps opts panelId tab =
     [(''nav.back'', did [GoHistory panelId Back]),
      (''nav.forward'', did [GoHistory panelId Forward]),
      (''nav.up'', did (case given (parentUriFromUri (tab_uri tab)) of
                          Some u \<Rightarrow> [NavigateTo panelId u] | None \<Rightarrow> [])),
      (''nav.home'', Option.bind (dd_homeUri deps) (\<lambda>h. did [NavigateTo panelId h])),
      (''nav.root'', did [NavigateTo panelId (rootUriForUri (tab_uri tab))]),
      (''nav.refresh'', did [RefreshPanel panelId]),
      (''nav.openUri'', with_arg (given (cx_targetUri opts)) (\<lambda>u. [NavigateTo panelId u])),
      (''nav.revealUri'', with_arg (given (cx_targetUri opts)) (\<lambda>u. [RevealUri u])),
      (''nav.goToLocation'', did [SetOpen OvGoToLocation True]),
      (''nav.volumePicker'', did [SetOpen OvVolumePicker True]),
      (''nav.networkLocations'', did [NavigateTo panelId ''network:///'']),
      (''nav.addServer'', did [SetConnectServerProfile None, SetConnectServerInitial,
                             SetOpen OvConnectServer True]),
      (''nav.connectServer'', with_arg (cx_networkProfile opts)
         (\<lambda>p. [SetConnectServerProfile (Some p), SetConnectServerInitial, SetOpen OvConnectServer True])),
      (''nav.manageFavorites'', did [SetOpen OvManageFavorites True]),
      (''nav.recentLocations'', did [SetOpen OvRecentLocations True]),
      (''nav.clearRecentLocations'', did [SetOpen OvClearRecentLocations True]),
      (''nav.clearRecent'', did [ClearRecentEntries]),
      (''nav.removeRecent'', with_arg (given (cx_targetUri opts)) (\<lambda>u. [RemoveRecentEntry u])),
      (''view.toggleHidden'', did [ToggleHiddenOf panelId]),
      (''view.details'', did [PanelAct (SetViewMode panelId VDetails)]),
      (''view.list'', did [PanelAct (SetViewMode panelId VList)]),
      (''view.compact'', did [PanelAct (SetViewMode panelId VCompact)]),
      (''view.icons'', did [PanelAct (SetViewMode panelId VIcons)]),
      (''view.columns'', did [PanelAct (SetViewMode panelId VColumns)]),
      (''create.folder'', did [CreateFolder panelId]),
      (''create.file'', did [CreateFile panelId]),
      (''op.rename'', did [StartInlineRename panelId]),
      (''op.copy'', did [CopyToClipboard panelId CmCopy]),
      (''op.cut'', did [CopyToClipboard panelId CmMove]),
      (''op.paste'', did [PasteInto panelId]),
      (''op.delete'', did [DeleteIn panelId]),
      (''op.trash'', did [TrashIn panelId]),
      (''op.deletePermanent'', did [DeletePermanentlyIn panelId]),
      (''search.recursive'', did [FocusRecursiveSearch]),
      (''search.focusFilter'', did [FocusFilter])]"

definition preview_entry :: "CommandDispatchDeps \<Rightarrow> PanelId \<Rightarrow> FileEntryDto \<Rightarrow> CmdEffect list" where
  "preview_entry deps panelId entry =
     (if dd_hasPreviewInOpposite deps then [PreviewInOpposite panelId entry]
      else [SetViewerEntry entry, SetOpen OvViewer True])"

definition edit_entry :: "CommandDispatchDeps \<Rightarrow> PanelId \<Rightarrow> FileEntryDto \<Rightarrow> CmdEffect list" where
  "edit_entry deps panelId entry =
     (if dd_hasEditorInOpposite deps then [EditorInOpposite panelId entry]
      else [SetEditorEntry entry, SetOpen OvEditor True])"

definition open_default :: "CommandDispatchDeps \<Rightarrow> PanelId \<Rightarrow> FileEntryDto \<Rightarrow> CmdEffect list" where
  "open_default deps panelId entry =
     (if dd_hasPreviewInOpposite deps then [PreviewInOpposite panelId entry] else [OpenExternalApp entry])"

definition terminal_case ::
  "CommandDispatchDeps \<Rightarrow> CommandInvokeContext \<Rightarrow> bool \<Rightarrow> string \<Rightarrow> (string \<Rightarrow> CmdEffect) \<Rightarrow> outcome" where
  "terminal_case deps opts available label run =
     (if \<not> available then refused
      else let (command, asked) = terminalCommandFromOptions deps opts label
           in did (asked @ (case command of Some c \<Rightarrow> [run c] | None \<Rightarrow> [])))"

text \<open>\<open>uri.split("/").filter(Boolean).pop() ?? uri\<close>.\<close>

definition last_part :: "string \<Rightarrow> string" where
  "last_part uri = or_default (last_opt (nonempty_parts (js_split (CHR ''/'') uri))) uri"

definition operation_cases ::
  "CommandDispatchDeps \<Rightarrow> CommandInvokeContext \<Rightarrow> PanelId \<Rightarrow> PanelTabState \<Rightarrow> FileEntryDto option \<Rightarrow>
   (string, outcome) obj" where
  "operation_cases deps opts panelId tab selectedEntry =
     [(''op.view'', (case selectedEntry of
         Some entry \<Rightarrow> did (ClearOperationError # preview_entry deps panelId entry)
       | None \<Rightarrow> did [ShowProperties panelId None False])),
      (''op.properties'', did [ShowProperties panelId selectedEntry False]),
      (''op.permissions'', did [ShowProperties panelId selectedEntry True]),
      (''op.compress'', did [Compress panelId]),
      (''op.extract'', did [Extract panelId]),
      (''op.checksum'', did [Checksum panelId]),
      (''op.openTerminal'', did [OpenEmbeddedTerminal panelId]),
      (''op.openTerminalExternal'', did [OpenTerminalExternal panelId]),
      (''terminal.runCommand'', terminal_case deps opts (dd_hasRunTerminal deps)
         ''Run command in active terminal'' RunTerminalCommand),
      (''terminal.spawnAndRun'', terminal_case deps opts (dd_hasSpawnAndRun deps)
         ''Spawn terminal and run command'' (SpawnAndRun panelId)),
      (''view.toggleTerminal'', did [TogglePaneTerminal panelId]),
      (''op.calculateSize'', did [CalculateSize panelId selectedEntry]),
      (''op.toggleStarred'', did (case selectedEntry of Some e \<Rightarrow> [ToggleStarred e] | None \<Rightarrow> [])),
      (''nav.addFavorite'',
         (let uri = or_default (cx_targetUri opts) (or_default (map_option fe_uri selectedEntry) (tab_uri tab))
          in did [AddFavorite panelId uri (or_default (cx_preferenceValue opts) (last_part uri))])),
      (''nav.removeFavorite'', with_arg (cx_favoriteId opts) (\<lambda>i. [RemoveFavorite i])),
      (''nav.renameFavorite'',
         (case (cx_favoriteId opts, given (map_option js_trim (cx_preferenceValue opts))) of
            (Some i, Some label) \<Rightarrow> did [RenameFavorite i label]
          | _ \<Rightarrow> refused)),
      (''op.copyTo'', did [CopyOrMoveTo panelId CmCopy]),
      (''op.moveTo'', did [CopyOrMoveTo panelId CmMove]),
      (''op.open'', did [Activate panelId selectedEntry]),
      (''op.edit'', (case selectedEntry of
         None \<Rightarrow> did []
       | Some entry \<Rightarrow>
           (if dd_isTextEditable deps (Some entry)
            then did (ClearOperationError # edit_entry deps panelId entry)
            else did (open_default deps panelId entry)))),
      (''op.openDefault'', did (case selectedEntry of Some e \<Rightarrow> open_default deps panelId e | None \<Rightarrow> [])),
      (''op.reveal'', did [RevealEntry panelId selectedEntry]),
      (''git.reviewChanges'', did (if dd_hasGitReview deps then [ReviewChanges panelId] else [])),
      (''clipboard.copyPath'', did [CopyText panelId CtPath]),
      (''clipboard.copyName'', did [CopyText panelId CtName]),
      (''clipboard.copyParent'', did [CopyText panelId CtParentPath]),
      (''clipboard.copyUri'', did [CopyText panelId CtUri]),
      (''clipboard.clear'', did [ClearClipboard]),
      (''selection.invert'', did [PanelAct (InvertSelection panelId)]),
      (''selection.selectAll'', did [PanelAct (SelectAll panelId)]),
      (''selection.clear'', did [PanelAct (ClearSelection panelId)]),
      (''tools.multiRename'', did [SetOpen OvMultiRename True]),
      (''tools.syncDirectories'', did [SetOpen OvSyncDirectories True]),
      (''tools.openHotlist'', did [SetOpen OvHotlist True]),
      (''tools.manageHotlist'', did [SetOpen OvManageHotlist True])]"

definition command_cases ::
  "CommandDispatchDeps \<Rightarrow> CommandInvokeContext \<Rightarrow> PanelId \<Rightarrow> PanelTabState \<Rightarrow> FileEntryDto option \<Rightarrow>
   (string, outcome) obj" where
  "command_cases deps opts panelId tab selectedEntry =
     app_cases deps opts panelId tab @ nav_cases deps opts panelId tab
     @ operation_cases deps opts panelId tab selectedEntry"

text \<open>Asking for the selected entries comes first, and may set the error of the operations.\<close>

definition dispatchCommand ::
  "string \<Rightarrow> CommandDispatchDeps \<Rightarrow> PanelId option \<Rightarrow> CommandInvokeContext \<Rightarrow> OpsState \<Rightarrow>
   (bool \<times> CmdEffect list \<times> OpsState) option" where
  "dispatchCommand i deps target opts s =
     (let commandId = resolveCommandId i; panelId = or_default target (activePanelId (ops_panels s))
      in do { tab \<leftarrow> activeTab (panels (ops_panels s) panelId);
              (selection, s1) \<leftarrow> selectedEntries panelId s;
              (done, effects) \<leftarrow>
                (case obj_get (command_cases deps opts panelId tab
                        (or_default (cx_entry opts) (first_opt selection))) commandId of
                   Some r \<Rightarrow> r
                 | None \<Rightarrow> refused);
              Some (done, effects, s1) })"

section \<open>The wrapper\<close>

datatype CommandInvokeArg = NoArg | NullArg | EntryArg FileEntryDto | ContextArg CommandInvokeContext

definition empty_context :: CommandInvokeContext where
  "empty_context = \<lparr>cx_entry = None, cx_targetUri = None, cx_favoriteId = None, cx_sortField = None,
     cx_preferenceValue = None, cx_networkProfile = None, cx_terminalCommand = None\<rparr>"

definition normalizeCommandContext :: "CommandInvokeArg \<Rightarrow> CommandInvokeContext" where
  "normalizeCommandContext arg =
     (case arg of
        NoArg \<Rightarrow> empty_context
      | NullArg \<Rightarrow> empty_context\<lparr>cx_entry := Some None\<rparr>
      | EntryArg e \<Rightarrow> empty_context\<lparr>cx_entry := Some (Some e)\<rparr>
      | ContextArg c \<Rightarrow> c)"

definition useCommandDispatch ::
  "string \<Rightarrow> CommandDispatchDeps \<Rightarrow> PanelId option \<Rightarrow> CommandInvokeArg \<Rightarrow> OpsState \<Rightarrow>
   (CmdEffect list \<times> OpsState) option" where
  "useCommandDispatch i deps panelId arg s =
     (if i = ''filter'' then Some ([SetOpen OvCommandPalette False, FocusFilter], s)
      else if i = ''recursive-search'' \<or> i = ''search-recursive''
      then Some ([SetOpen OvCommandPalette False, FocusRecursiveSearch], s)
      else do { (done, effects, s1) \<leftarrow>
                  dispatchCommand i deps (Some (or_default panelId (activePanelId (ops_panels s))))
                    (normalizeCommandContext arg) s;
                Some (SetOpen OvCommandPalette False # effects, s1) })"

end
