(* ===== verification/RegistryIds.thy ===== *)
theory RegistryIds
  imports CommandRegistry
begin

text \<open>
  The ids of the registered commands, in the order of \<open>commands/registryData.ts\<close>.
\<close>

lemma registry_ids:
  "map cd_id COMMAND_REGISTRY =
    [''nav.back'', ''nav.forward'', ''nav.up'', ''nav.refresh'', ''nav.home'', ''nav.root'',
     ''nav.volumePicker'', ''nav.networkLocations'', ''nav.addServer'', ''nav.connectServer'',
     ''nav.goToLocation'', ''nav.manageFavorites'', ''nav.addFavorite'', ''nav.openUri'',
     ''nav.revealUri'', ''nav.removeFavorite'', ''nav.renameFavorite'', ''nav.recentLocations'',
     ''nav.clearRecentLocations'', ''nav.clearRecent'', ''nav.removeRecent'', ''create.folder'',
     ''create.file'', ''op.copy'', ''op.cut'', ''op.paste'', ''op.copyTo'', ''op.moveTo'',
     ''op.rename'', ''op.delete'', ''op.trash'', ''op.deletePermanent'', ''op.properties'',
     ''op.permissions'', ''op.reveal'', ''op.open'', ''op.view'', ''op.edit'',
     ''op.openDefault'', ''op.compress'', ''op.extract'', ''op.checksum'', ''op.openTerminal'',
     ''op.openTerminalExternal'', ''terminal.runCommand'', ''terminal.spawnAndRun'',
     ''view.toggleTerminal'', ''op.calculateSize'', ''op.toggleStarred'', ''view.details'',
     ''view.list'', ''view.compact'', ''view.icons'', ''view.columns'', ''view.toggleHidden'',
     ''view.toggleSidebar'', ''view.toggleDualPane'', ''view.toggleStatusBar'',
     ''view.toggleToolbar'', ''view.toggleActivity'', ''view.sort'', ''view.sortAscending'',
     ''view.sortDescending'', ''preferences.theme'', ''preferences.cycleTheme'',
     ''preferences.accentColor'', ''preferences.fontScale'', ''preferences.iconScale'',
     ''preferences.density'', ''layout.switchPane'', ''layout.equalizePanes'',
     ''layout.swapPanes'', ''layout.togglePaneDirection'', ''search.recursive'',
     ''search.focusFilter'', ''selection.selectAll'', ''selection.clear'', ''selection.invert'',
     ''clipboard.copyPath'', ''clipboard.copyName'', ''clipboard.copyParent'',
     ''clipboard.copyUri'', ''clipboard.clear'', ''app.customizeToolbar'', ''app.settings'',
     ''app.shortcuts'', ''app.diagnostics'', ''app.debugConsole'', ''app.commandPalette'',
     ''app.documentation'', ''app.about'', ''app.operationHistory'', ''git.reviewChanges'',
     ''tools.multiRename'', ''tools.syncDirectories'', ''tools.openHotlist'',
     ''tools.manageHotlist'']"
  by (simp add: COMMAND_REGISTRY_def registry_part1_def registry_part2_def registry_part3_def
      registry_part4_def registry_part5_def command_def)

lemma isRegistered_nth: "i < 97 \<Longrightarrow> map cd_id COMMAND_REGISTRY ! i \<in> cd_id ` set COMMAND_REGISTRY"
proof -
  have "length (map cd_id COMMAND_REGISTRY) = 97" unfolding registry_ids by simp
  then show "i < 97 \<Longrightarrow> ?thesis" using nth_mem[of i "map cd_id COMMAND_REGISTRY"] by simp
qed

lemma no_empty_registered: "[] \<notin> cd_id ` set COMMAND_REGISTRY"
proof -
  have "list_all (\<lambda>i. i \<noteq> []) (map cd_id COMMAND_REGISTRY)" unfolding registry_ids by simp
  then show ?thesis by (auto simp: list_all_iff)
qed

end
