(* ===== verification/Keyboard.thy ===== *)
theory Keyboard
  imports Dispatch RegistryIds
begin

text \<open>
  The keyboard: the actions of the function-key bar (\<open>shell/commanderActions.ts\<close>) and the
  handler of key presses (\<open>hooks/useKeyboardShortcuts.ts\<close>), on top of the bindings and of the
  commands; and the two facts about all commands at once: which ids are known, and what
  asking for the selection does.
\<close>

section \<open>Definitions\<close>









section \<open>Known ids\<close>

lemma case_keys:
  "obj_keys (command_cases deps opts p tab e) =
    [''app.settings'', ''app.customizeToolbar'', ''app.shortcuts'', ''app.diagnostics'',
     ''app.debugConsole'', ''app.documentation'', ''app.about'', ''app.operationHistory'',
     ''app.commandPalette'', ''view.toggleSidebar'', ''view.toggleDualPane'',
     ''view.toggleActivity'', ''view.toggleStatusBar'', ''view.toggleToolbar'', ''view.sort'',
     ''view.sortAscending'', ''view.sortDescending'', ''preferences.theme'',
     ''preferences.cycleTheme'', ''preferences.accentColor'', ''preferences.fontScale'',
     ''preferences.iconScale'', ''preferences.density'', ''layout.switchPane'',
     ''layout.equalizePanes'', ''layout.swapPanes'', ''layout.togglePaneDirection'',
     ''nav.back'', ''nav.forward'', ''nav.up'', ''nav.home'', ''nav.root'', ''nav.refresh'',
     ''nav.openUri'', ''nav.revealUri'', ''nav.goToLocation'', ''nav.volumePicker'',
     ''nav.networkLocations'', ''nav.addServer'', ''nav.connectServer'', ''nav.manageFavorites'',
     ''nav.recentLocations'', ''nav.clearRecentLocations'', ''nav.clearRecent'',
     ''nav.removeRecent'', ''view.toggleHidden'', ''view.details'', ''view.list'',
     ''view.compact'', ''view.icons'', ''view.columns'', ''create.folder'', ''create.file'',
     ''op.rename'', ''op.copy'', ''op.cut'', ''op.paste'', ''op.delete'', ''op.trash'',
     ''op.deletePermanent'', ''search.recursive'', ''search.focusFilter'', ''op.view'',
     ''op.properties'', ''op.permissions'', ''op.compress'', ''op.extract'', ''op.checksum'',
     ''op.openTerminal'', ''op.openTerminalExternal'', ''terminal.runCommand'',
     ''terminal.spawnAndRun'', ''view.toggleTerminal'', ''op.calculateSize'',
     ''op.toggleStarred'', ''nav.addFavorite'', ''nav.removeFavorite'', ''nav.renameFavorite'',
     ''op.copyTo'', ''op.moveTo'', ''op.open'', ''op.edit'', ''op.openDefault'', ''op.reveal'',
     ''git.reviewChanges'', ''clipboard.copyPath'', ''clipboard.copyName'',
     ''clipboard.copyParent'', ''clipboard.copyUri'', ''clipboard.clear'', ''selection.invert'',
     ''selection.selectAll'', ''selection.clear'', ''tools.multiRename'',
     ''tools.syncDirectories'', ''tools.openHotlist'', ''tools.manageHotlist'']"
  by (simp add: command_cases_def app_cases_def nav_cases_def operation_cases_def)

text \<open>Where each id of one list stands in the other.\<close>

lemma keys_from_registry:
  "obj_keys (command_cases deps opts p tab e) = map ((!) (map cd_id COMMAND_REGISTRY))
    [84, 83, 85, 86, 87, 89, 90, 91, 88, 55, 56, 59, 57, 58, 60, 61, 62, 63, 64, 65, 66, 67, 68,
     69, 70, 71, 72, 0, 1, 2, 4, 5, 3, 13, 14, 10, 6, 7, 8, 9, 11, 17, 18, 19, 20, 54, 49, 50,
     51, 52, 53, 21, 22, 28, 23, 24, 25, 29, 30, 31, 73, 74, 36, 32, 33, 39, 40, 41, 42, 43, 44,
     45, 46, 47, 48, 12, 15, 16, 26, 27, 35, 37, 38, 34, 92, 78, 79, 80, 81, 82, 77, 75, 76, 93,
     94, 95, 96]"
  unfolding case_keys registry_ids by simp

lemma registry_from_keys:
  "map cd_id COMMAND_REGISTRY = map ((!) (obj_keys (command_cases deps opts p tab e)))
    [27, 28, 29, 32, 30, 31, 36, 37, 38, 39, 35, 40, 75, 33, 34, 76, 77, 41, 42, 43, 44, 51, 52,
     54, 55, 56, 78, 79, 53, 57, 58, 59, 63, 64, 83, 80, 62, 81, 82, 65, 66, 67, 68, 69, 70, 71,
     72, 73, 74, 46, 47, 48, 49, 50, 45, 9, 10, 12, 13, 11, 14, 15, 16, 17, 18, 19, 20, 21, 22,
     23, 24, 25, 26, 60, 61, 91, 92, 90, 85, 86, 87, 88, 89, 1, 0, 2, 3, 4, 8, 5, 6, 7, 84, 93,
     94, 95, 96]"
  unfolding case_keys registry_ids by simp

lemma known_ids:
  "set (obj_keys (command_cases deps opts p tab e)) = set (map cd_id COMMAND_REGISTRY)"
proof
  have l: "length (map cd_id COMMAND_REGISTRY) = 97"
    "length (obj_keys (command_cases deps opts p tab e)) = 97"
    unfolding registry_ids case_keys by simp_all
  have sub: "set (map ((!) xs) is) \<subseteq> set xs" if "list_all (\<lambda>i. i < length xs) is" for xs :: "string list" and "is"
    using that by (auto simp: list_all_iff)
  show "set (obj_keys (command_cases deps opts p tab e)) \<subseteq> set (map cd_id COMMAND_REGISTRY)"
    by (subst keys_from_registry, rule sub) (simp add: l[unfolded length_map])
  show "set (map cd_id COMMAND_REGISTRY) \<subseteq> set (obj_keys (command_cases deps opts p tab e))"
    by (subst registry_from_keys[of deps opts p tab e], rule sub) (simp add: l[unfolded length_map])
qed

lemma case_results:
  assumes "r \<in> snd ` set (command_cases deps opts p tab e)" and "dd_homeUri deps \<noteq> None"
    and "dd_hasRunTerminal deps" and "dd_hasSpawnAndRun deps"
    and "cx_sortField opts \<noteq> None" and "truthy (cx_targetUri opts)" and "cx_networkProfile opts \<noteq> None"
    and "cx_favoriteId opts \<noteq> None" and "truthy (map_option js_trim (cx_preferenceValue opts))"
  shows "\<exists>es. r = Some (True, es)"
proof -
  have "list_all (\<lambda>r. \<exists>es. r = Some (True, es)) (obj_values (command_cases deps opts p tab e))"
    using assms(2-) by (auto simp: command_cases_def app_cases_def nav_cases_def operation_cases_def
        did_def with_arg_def given_def terminal_case_def Let_def split: option.splits prod.splits)
  with assms(1) show ?thesis by (auto simp: list_all_iff)
qed

section \<open>Properties\<close>

lemma resolve_registered: "i \<in> set (map cd_id COMMAND_REGISTRY) \<Longrightarrow> resolveCommandId i = i"
proof -
  have "list_all (\<lambda>i. \<not> list_ex (\<lambda>c. c = CHR ''.'') i) (obj_keys LEGACY_COMMAND_ALIASES)" by code_simp
  moreover have "list_all (list_ex (\<lambda>c. c = CHR ''.'')) (map cd_id COMMAND_REGISTRY)"
    unfolding registry_ids by simp
  moreover assume "i \<in> set (map cd_id COMMAND_REGISTRY)"
  ultimately have "i \<notin> set (obj_keys LEGACY_COMMAND_ALIASES)" by (force simp: list_all_iff)
  then show ?thesis by (simp add: resolveCommandId_def or_default_def map_of_eq_None_iff[THEN iffD2])
qed

text \<open>C4: the dispatcher knows exactly the registered commands. Given an active tab and all the
  arguments a command may ask for, dispatching an id is reported as done if and only if the
  id, or what it is an old name of, is the id of a command of the registry; no command of the
  97 falls through the switch, and no case of the switch is unregistered.\<close>

theorem dispatch_total:
  assumes "activeTab (panels (ops_panels s) p) = Some tab" and "dd_homeUri deps \<noteq> None"
    and "dd_hasRunTerminal deps" and "dd_hasSpawnAndRun deps"
    and "cx_sortField opts \<noteq> None" and "truthy (cx_targetUri opts)" and "cx_networkProfile opts \<noteq> None"
    and "cx_favoriteId opts \<noteq> None" and "truthy (map_option js_trim (cx_preferenceValue opts))"
  shows "\<exists>effects s'. dispatchCommand i deps (Some p) opts s =
    Some (\<exists>c \<in> set COMMAND_REGISTRY. cd_id c = resolveCommandId i, effects, s')"
proof -
  obtain entries s1 where sel: "selectedEntries p s = Some (entries, s1)"
    using assms(1) by (simp add: selectedEntries_def Let_def)
  let ?cs = "command_cases deps opts p tab (or_default (cx_entry opts) (first_opt entries))"
  have reg: "(\<exists>c \<in> set COMMAND_REGISTRY. cd_id c = resolveCommandId i) \<longleftrightarrow>
      resolveCommandId i \<in> set (obj_keys ?cs)"
    unfolding known_ids by force
  show ?thesis
  proof (cases "obj_get ?cs (resolveCommandId i)")
    case None
    then have "resolveCommandId i \<notin> set (obj_keys ?cs)" by (simp add: map_of_eq_None_iff)
    with None reg show ?thesis
      by (simp add: dispatchCommand_def assms(1) sel or_default_def refused_def)
  next
    case (Some r)
    then have "r \<in> snd ` set ?cs" "resolveCommandId i \<in> set (obj_keys ?cs)"
      by (auto dest: obj_get_value obj_get_Some_key)
    with case_results[OF _ assms(2-)] obtain es where "r = Some (True, es)" by blast
    with Some reg \<open>resolveCommandId i \<in> _\<close> show ?thesis
      by (simp add: dispatchCommand_def assms(1) sel or_default_def)
  qed
qed

text \<open>With nothing but the entry of the parent folder selected, every command complains. The
  dispatcher asks for the selected entries before it looks at the command, so even opening
  the settings leaves the message that the action does not apply to the parent folder.\<close>

theorem parent_selection_complains:
  assumes "activeTab (panels (ops_panels s) p) = Some tab"
    and "tab_selectedIds tab = [i]" and "isParentDirectoryUri i (tab_uri tab)"
    and "obj_get (tab_entriesById tab) i = None"
    and "dispatchCommand cmd deps (Some p) opts s = Some (handled, effects, s')"
  shows "ops_error s' = Some ''This action does not apply to the parent folder entry.''"
  using assms by (auto simp: dispatchCommand_def selectedEntries_def Let_def or_default_def
      List.map_filter_def setOperationError_def bind_eq_Some_conv)



definition sample_deps :: CommandDispatchDeps where
  "sample_deps =
     \<lparr>dd_preferences = None, dd_activityCollapsed = True, dd_isTextEditable = (\<lambda>_. False),
      dd_hasPreviewInOpposite = False, dd_hasEditorInOpposite = False, dd_hasGitReview = False,
      dd_requestTerminalCommand = None, dd_hasRunTerminal = True, dd_hasSpawnAndRun = True,
      dd_homeUri = Some ''local:///''\<rparr>"

definition sample_context :: CommandInvokeContext where
  "sample_context =
     \<lparr>cx_entry = None, cx_targetUri = Some ''local:///d'', cx_favoriteId = Some 1,
      cx_sortField = Some SName, cx_preferenceValue = Some ''x'', cx_networkProfile = Some ''p'',
      cx_terminalCommand = None\<rparr>"

lemma sample_active_tab: "activeTab (panels (ops_panels sample_ops) Left) = Some sample_tab"
  by (simp add: sample_ops_def sample_state_def sample_panel_def activeTab_def)

theorem dispatch_total_witness:
  "\<exists>effects s'. dispatchCommand ''up'' sample_deps (Some Left) sample_context sample_ops =
     Some (\<exists>c \<in> set COMMAND_REGISTRY. cd_id c = resolveCommandId ''up'', effects, s')"
  by (rule dispatch_total[OF sample_active_tab])
    (simp_all add: sample_deps_def sample_context_def truthy_def js_trim_def trim_end_def is_js_space_def code_def)

definition parent_selected :: OpsState where
  "parent_selected = sample_ops\<lparr>ops_panels := sample_state\<lparr>panels := (\<lambda>p.
     sample_panel p (sample_tab\<lparr>tab_selectedIds := [''local:///'']\<rparr>))\<rparr>\<rparr>"

theorem parent_selection_complains_witness:
  "\<exists>effects s'. dispatchCommand ''app.settings'' sample_deps (Some Left) sample_context parent_selected =
       Some (True, effects, s') \<and>
     ops_error s' = Some ''This action does not apply to the parent folder entry.''"
proof -
  let ?t = "sample_tab\<lparr>tab_selectedIds := [''local:///'']\<rparr>"
  have tab: "activeTab (panels (ops_panels parent_selected) Left) = Some ?t"
    by (simp add: parent_selected_def sample_panel_def activeTab_def)
  have parent: "isParentDirectoryUri ''local:///'' ''local:///d''" by code_simp
  have id: "resolveCommandId ''app.settings'' = ''app.settings''"
    by (rule resolve_registered) (unfold registry_ids, simp)
  obtain entries s1 where sel: "selectedEntries Left parent_selected = Some (entries, s1)"
    using tab by (simp add: selectedEntries_def Let_def)
  have r: "dispatchCommand ''app.settings'' sample_deps (Some Left) sample_context parent_selected =
      Some (True, [SetOpen OvSettings True], s1)"
    by (simp add: dispatchCommand_def tab sel id or_default_def command_cases_def app_cases_def did_def)
  have "ops_error s1 = Some ''This action does not apply to the parent folder entry.''"
    by (rule parent_selection_complains[where i = "''local:///''", OF tab _ _ _ r]) (simp_all add: parent)
  with r show ?thesis by blast
qed




end
