(* ===== verification/NetworkDto.thy ===== *)
theory NetworkDto
  imports Uri
begin

text \<open>
  The saved servers that the terminals, the toolbar of drives and the sidebar share: the
  fields of \<open>NetworkProfileDto\<close> that the front end reads, and the look-ups by address.
\<close>

record NetworkProfileDto =
  np_id :: string
  np_label :: string
  np_scheme :: string
  np_host :: string
  np_port :: nat
  np_username :: string
  np_defaultUri :: string
  np_hasStoredSecret :: bool

definition isBrowseableProfile :: "NetworkProfileDto \<Rightarrow> bool" where
  "isBrowseableProfile profile \<longleftrightarrow>
     np_scheme profile = ''sftp'' \<or> np_scheme profile = ''smb'' \<or> np_scheme profile = ''s3''
     \<or> np_scheme profile = ''webdav''"

definition isQuickConnectionProfile :: "NetworkProfileDto \<Rightarrow> bool" where
  "isQuickConnectionProfile profile \<longleftrightarrow> isBrowseableProfile profile \<or> np_scheme profile = ''ssh''"

definition profileForUri :: "NetworkProfileDto list \<Rightarrow> string \<Rightarrow> NetworkProfileDto option" where
  "profileForUri profiles uri =
     (let profileId = profileIdFromRemoteUri uri in find (\<lambda>p. Some (np_id p) = profileId) profiles)"

definition profileTerminalUri :: "NetworkProfileDto \<Rightarrow> string" where
  "profileTerminalUri profile =
     (if np_defaultUri profile \<noteq> [] then np_defaultUri profile
      else np_scheme profile @ ''://'' @ np_id profile)"

definition profileTerminalLabel :: "NetworkProfileDto \<Rightarrow> string" where
  "profileTerminalLabel profile =
     (if np_label profile \<noteq> [] then np_label profile
      else np_username profile @ ''@'' @ np_host profile) @ '' SSH''"

end
