(* ===== verification/TerminalProvider.thy ===== *)
theory TerminalProvider
  imports Terminal Shell NetworkDto Json
begin

text \<open>
  What owns the terminals (\<open>app/providers/TerminalProvider.tsx\<close>): the handlers that open,
  duplicate, close and feed sessions around the terminal store, the output that arrives before
  a view is there, and the options of a view (\<open>terminal/terminalProfileRuntime.ts\<close>). Every
  \<open>await\<close> ends a step: what is to be done with the reply is kept in a list of pending
  launches, and a reply event takes one of them up, in any order. What a step asks of the
  back end, the preferences or a view is kept as a list of effects. A step reads the state
  rendered after the step before it (\<open>terminalRef\<close>).
\<close>

section \<open>Profiles and preferences\<close>

datatype ProfileScope = ScLocal | ScSsh

record TerminalProfileDto =
  tpf_id :: string
  tpf_scope :: ProfileScope
  tpf_networkProfileId :: "string option"
  tpf_isDefault :: bool
  tpf_cursorBlink :: bool
  tpf_cursorStyle :: string
  tpf_fontFamily :: string
  tpf_fontSize :: js_number
  tpf_lineHeight :: js_number
  tpf_scrollback :: js_number
  tpf_themeOverrides :: string

record TermPreferences =
  tpr_terminalShell :: string
  tpr_terminalArgs :: string
  tpr_activityPanelWidth :: int
  tpr_paneTerminalHeightLeft :: js_number
  tpr_paneTerminalHeightRight :: js_number
  tpr_terminalCdOnNavigate :: bool

definition defaultTerminalProfile :: "TerminalProfileDto list \<Rightarrow> TerminalProfileDto option" where
  "defaultTerminalProfile profiles =
     (case find tpf_isDefault profiles of Some p \<Rightarrow> Some p | None \<Rightarrow> first_opt profiles)"

definition has_text :: "string option \<Rightarrow> bool" where
  "has_text v = (case v of None \<Rightarrow> False | Some t \<Rightarrow> t \<noteq> [])"

definition terminalProfileForLaunch ::
  "TerminalProfileDto list \<Rightarrow> TerminalTransport \<Rightarrow> TerminalProfileDto option" where
  "terminalProfileForLaunch profiles transport =
     (let defaultProfile = defaultTerminalProfile profiles
      in case transport of
           TSsh \<Rightarrow> (case find (\<lambda>p. tpf_isDefault p \<and> tpf_scope p = ScSsh) profiles of
                      Some p \<Rightarrow> Some p | None \<Rightarrow> defaultProfile)
         | TLocal \<Rightarrow>
             (case defaultProfile of
                Some p \<Rightarrow> if tpf_scope p \<noteq> ScSsh \<or> \<not> has_text (tpf_networkProfileId p) then Some p
                          else find (\<lambda>q. tpf_scope q = ScLocal) profiles
              | None \<Rightarrow> find (\<lambda>q. tpf_scope q = ScLocal) profiles))"

text \<open>Runs of white space become one blank.\<close>

fun collapse_space :: "string \<Rightarrow> string" where
  "collapse_space [] = []"
| "collapse_space (c # cs) =
     (if \<not> is_js_space c then c # collapse_space cs
      else case cs of
             [] \<Rightarrow> '' ''
           | d # ds \<Rightarrow> if is_js_space d then collapse_space cs else CHR '' '' # collapse_space cs)"

definition terminalCommandTitle :: "string \<Rightarrow> string" where
  "terminalCommandTitle command =
     (let normalized = js_trim (collapse_space command)
      in if normalized = [] then ''Run command''
         else if length normalized > 48 then ''Run: '' @ take 45 normalized @ ''...''
         else ''Run: '' @ normalized)"

section \<open>Options of a view\<close>

definition boundedNumber :: "js_number option \<Rightarrow> js_number \<Rightarrow> js_number \<Rightarrow> js_number \<Rightarrow> js_number" where
  "boundedNumber val fallback lo hi =
     (case val of
        Some (Fin r) \<Rightarrow> if js_le lo (Fin r) \<and> js_le (Fin r) hi then Fin r else fallback
      | _ \<Rightarrow> fallback)"

definition cursorStyle :: "string option \<Rightarrow> string" where
  "cursorStyle val =
     (case val of
        Some v \<Rightarrow> if v = ''bar'' \<or> v = ''underline'' \<or> v = ''block'' then v else ''block''
      | None \<Rightarrow> ''block'')"

definition parseThemeOverrides :: "string option \<Rightarrow> (string, string) obj" where
  "parseThemeOverrides val =
     (if js_trim (case val of Some v \<Rightarrow> v | None \<Rightarrow> []) = [] then []
      else case json_parse (the val) of
             Some (JObj entries) \<Rightarrow>
               concat (map (\<lambda>(k, v). case v of JStr t \<Rightarrow> [(k, t)] | _ \<Rightarrow> []) entries)
           | _ \<Rightarrow> [])"

record TerminalOptions =
  to_cursorBlink :: bool
  to_cursorStyle :: string
  to_fontFamily :: string
  to_fontSize :: js_number
  to_lineHeight :: js_number
  to_letterSpacing :: js_number
  to_scrollback :: js_number
  to_theme :: "(string, string) obj"

text \<open>\<open>buildTerminalTheme\<close> reads the style sheet: it is an argument, and so is the default font.\<close>

definition terminalThemeForProfile ::
  "(string, string) obj \<Rightarrow> TerminalProfileDto option \<Rightarrow> (string, string) obj" where
  "terminalThemeForProfile base profile =
     fold (\<lambda>(k, v). obj_set k v) (parseThemeOverrides (map_option tpf_themeOverrides profile)) base"

definition terminalOptionsForProfile ::
  "(string, string) obj \<Rightarrow> string \<Rightarrow> TerminalProfileDto option \<Rightarrow> TerminalOptions" where
  "terminalOptionsForProfile base defaultFont profile =
     \<lparr>to_cursorBlink = (case profile of Some p \<Rightarrow> tpf_cursorBlink p | None \<Rightarrow> True),
      to_cursorStyle = cursorStyle (map_option tpf_cursorStyle profile),
      to_fontFamily = (let f = js_trim (case profile of Some p \<Rightarrow> tpf_fontFamily p | None \<Rightarrow> [])
                       in if f \<noteq> [] then f else defaultFont),
      to_fontSize = boundedNumber (map_option tpf_fontSize profile) (Fin 13) (Fin 8) (Fin 32),
      to_lineHeight = boundedNumber (map_option tpf_lineHeight profile) (Fin (12 / 10)) (Fin 1) (Fin 2),
      to_letterSpacing = Fin 0,
      to_scrollback = boundedNumber (map_option tpf_scrollback profile) (Fin 5000) (Fin 100) (Fin 100000),
      to_theme = terminalThemeForProfile base profile\<rparr>"

section \<open>State and effects\<close>

datatype SpawnRequest =
    SpawnForProfile string "string option"
  | SpawnForUri string "string option" "string option" "string list option"

datatype TermEffect =
    ExpandActivity
  | UpdateRailWidth
  | PersistSplit string js_number
  | ListProfiles
  | SpawnTerminal SpawnRequest
  | SpawnCommand string "string option" "string option" string string
  | KillTerminal string
  | RunIn string string
  | WriteTo string string
  | ToView string nat string
  | ExitTo string nat "int option"
  | OpenExternal string
  | Raise string

text \<open>A launch that waits for the profiles or for the width of the rail: what the closure of the
  handler has captured.\<close>

record LaunchPlan =
  ln_preferences :: "TermPreferences option"
  ln_uri :: string
  ln_profileId :: "string option"
  ln_transport :: TerminalTransport
  ln_label :: string
  ln_pane :: TerminalPaneId
  ln_split :: "js_number option"
  ln_reuse :: bool

datatype Pending =
    RailThenProfiles LaunchPlan
  | AwaitProfiles LaunchPlan
  | CommandProfiles "TermPreferences option" string "string option" string
  | RailThenCommand "TerminalProfileDto TerminalSession" "string option" string
  | AwaitSession "TerminalProfileDto TerminalSession" "(PanelId \<times> js_number option) option"

record ProviderState =
  pv_terminal :: "TerminalProfileDto TerminalState"
  pv_profiles :: "TerminalProfileDto list"
  pv_handlers :: "(string, nat) obj"
  pv_buffer :: "(string, string list) obj"
  pv_timer :: "(string \<times> js_number) option"
  pv_hydrated :: bool
  pv_pending :: "Pending list"

definition initial_provider :: ProviderState where
  "initial_provider =
     \<lparr>pv_terminal = createInitialTerminalState, pv_profiles = [], pv_handlers = [], pv_buffer = [],
      pv_timer = None, pv_hydrated = False, pv_pending = []\<rparr>"

type_synonym provider_result = "ProviderState \<times> TermEffect list"

definition dispatchT :: "TerminalProfileDto TerminalAction \<Rightarrow> ProviderState \<Rightarrow> ProviderState" where
  "dispatchT a s = s\<lparr>pv_terminal := terminalReducer (pv_terminal s) a\<rparr>"

definition awaiting :: "Pending \<Rightarrow> ProviderState \<Rightarrow> ProviderState" where
  "awaiting p s = s\<lparr>pv_pending := pv_pending s @ [p]\<rparr>"

section \<open>Launching\<close>

definition MIN_TERMINAL_RAIL_WIDTH :: int where "MIN_TERMINAL_RAIL_WIDTH = 480"

definition ensureRailWidth :: "TermPreferences option \<Rightarrow> TermEffect list" where
  "ensureRailWidth preferences =
     (case preferences of
        Some p \<Rightarrow> if tpr_activityPanelWidth p < MIN_TERMINAL_RAIL_WIDTH then [UpdateRailWidth] else []
      | None \<Rightarrow> [])"

definition paneSplitRatio :: "TermPreferences option \<Rightarrow> PanelId \<Rightarrow> js_number option" where
  "paneSplitRatio preferences panelId =
     map_option (\<lambda>p. case panelId of Left \<Rightarrow> tpr_paneTerminalHeightLeft p
                                    | Right \<Rightarrow> tpr_paneTerminalHeightRight p) preferences"

text \<open>\<open>spawnSession\<close>. The arguments are cut at line feeds; a carriage return before one is white
  space, which trimming removes.\<close>

definition spawnSession ::
  "string \<Rightarrow> TermPreferences option \<Rightarrow> string option \<Rightarrow> TerminalProfileDto option \<Rightarrow> TermEffect" where
  "spawnSession uri preferences profileId terminalProfile =
     (let shell = Option.bind preferences
            (\<lambda>p. let t = js_trim (tpr_terminalShell p) in if t = [] then None else Some t);
          args = map_option (\<lambda>p. nonempty_parts (map js_trim (js_split (CHR 0x0A) (tpr_terminalArgs p))))
                   preferences
      in if has_text profileId
         then SpawnTerminal (SpawnForProfile (the profileId) (map_option tpf_id terminalProfile))
         else SpawnTerminal (SpawnForUri uri (map_option tpf_id terminalProfile) shell
                (case args of Some as \<Rightarrow> if as \<noteq> [] then Some as else None | None \<Rightarrow> None)))"

definition findRunningPaneSession ::
  "TerminalProfileDto TerminalState \<Rightarrow> PanelId \<Rightarrow> TerminalProfileDto TerminalSession option" where
  "findRunningPaneSession terminal panelId =
     (let bound = (if has_text (ch_sessionId (tm_pane terminal panelId))
                   then find (\<lambda>s. Some (ts_id s) = ch_sessionId (tm_pane terminal panelId)
                                  \<and> ts_status s \<noteq> TExited) (tm_sessions terminal)
                   else None)
      in case bound of
           Some b \<Rightarrow> Some b
         | None \<Rightarrow> find (\<lambda>s. ts_paneId s = InPane panelId \<and> ts_status s \<noteq> TExited) (tm_sessions terminal))"

definition new_session ::
  "string \<Rightarrow> string \<Rightarrow> TerminalPaneId \<Rightarrow> TerminalTransport \<Rightarrow> TerminalProfileDto option \<Rightarrow>
   TerminalProfileDto TerminalSession" where
  "new_session uri label pane transport terminalProfile =
     \<lparr>ts_id = [], ts_uri = uri, ts_label = label, ts_status = TRunning, ts_exitCode = None,
      ts_paneId = pane, ts_transport = Some transport,
      ts_terminalProfileId = map_option tpf_id terminalProfile, ts_terminalProfile = terminalProfile\<rparr>"

text \<open>The plan of a terminal in a pane at a remote address; without a saved server it is refused.\<close>

definition remote_pane_plan ::
  "TermPreferences option \<Rightarrow> NetworkProfileDto list \<Rightarrow> PanelId \<Rightarrow> string \<Rightarrow> LaunchPlan option" where
  "remote_pane_plan preferences networkProfiles panelId uri =
     (let profile = profileForUri networkProfiles uri;
          profileId = (case profile of Some p \<Rightarrow> Some (np_id p) | None \<Rightarrow> profileIdFromRemoteUri uri)
      in if \<not> has_text profileId then None
         else Some \<lparr>ln_preferences = preferences, ln_uri = uri, ln_profileId = profileId,
                ln_transport = TSsh,
                ln_label = (case profile of Some p \<Rightarrow> profileTerminalLabel p
                                          | None \<Rightarrow> tabLabelForUri uri),
                ln_pane = InPane panelId, ln_split = paneSplitRatio preferences panelId,
                ln_reuse = False\<rparr>)"

definition local_pane_plan :: "TermPreferences option \<Rightarrow> PanelId \<Rightarrow> string \<Rightarrow> bool \<Rightarrow> LaunchPlan" where
  "local_pane_plan preferences panelId uri reuse =
     \<lparr>ln_preferences = preferences, ln_uri = uri, ln_profileId = None, ln_transport = TLocal,
      ln_label = tabLabelForUri uri, ln_pane = InPane panelId,
      ln_split = paneSplitRatio preferences panelId, ln_reuse = reuse\<rparr>"

definition pane_launch ::
  "bool \<Rightarrow> TermPreferences option \<Rightarrow> NetworkProfileDto list \<Rightarrow> PanelId \<Rightarrow> string \<Rightarrow> ProviderState \<Rightarrow>
   provider_result" where
  "pane_launch reuse preferences networkProfiles panelId uri s =
     (if isRemoteUri uri then
        (case remote_pane_plan preferences networkProfiles panelId uri of
           None \<Rightarrow> (s, [Raise ''Remote terminal requires a saved server profile''])
         | Some plan \<Rightarrow> (awaiting (AwaitProfiles plan) s, [ListProfiles]))
      else (awaiting (AwaitProfiles (local_pane_plan preferences panelId uri reuse)) s, [ListProfiles]))"

text \<open>\<open>openPaneTerminal\<close> takes up a running session of the pane, \<open>openAdditionalPaneTab\<close> does not.\<close>

definition openPaneTerminal ::
  "TermPreferences option \<Rightarrow> NetworkProfileDto list \<Rightarrow> PanelId \<Rightarrow> string \<Rightarrow> ProviderState \<Rightarrow> provider_result" where
  "openPaneTerminal = pane_launch True"

definition openAdditionalPaneTab ::
  "TermPreferences option \<Rightarrow> NetworkProfileDto list \<Rightarrow> PanelId \<Rightarrow> string \<Rightarrow> ProviderState \<Rightarrow> provider_result" where
  "openAdditionalPaneTab = pane_launch False"

text \<open>The rail: it is shown and widened first.\<close>

definition show_rail :: "TermPreferences option \<Rightarrow> ProviderState \<Rightarrow> provider_result" where
  "show_rail preferences s =
     (dispatchT (SetSegment SegTerminal) s, ExpandActivity # ensureRailWidth preferences)"

definition openNewTerminalTab ::
  "TermPreferences option \<Rightarrow> NetworkProfileDto list \<Rightarrow> string \<Rightarrow> PanelId option \<Rightarrow> ProviderState \<Rightarrow>
   provider_result" where
  "openNewTerminalTab preferences networkProfiles uri target s =
     (case target of
        Some panelId \<Rightarrow> openPaneTerminal preferences networkProfiles panelId uri s
      | None \<Rightarrow>
          (let (s1, es) = show_rail preferences s;
               profile = (if isRemoteUri uri then profileForUri networkProfiles uri else None);
               profileId = (case profile of Some p \<Rightarrow> Some (np_id p) | None \<Rightarrow> profileIdFromRemoteUri uri)
           in (awaiting (RailThenProfiles
                 \<lparr>ln_preferences = preferences, ln_uri = uri, ln_profileId = profileId,
                  ln_transport = (if has_text profileId then TSsh else TLocal),
                  ln_label = (case profile of Some p \<Rightarrow> profileTerminalLabel p
                                            | None \<Rightarrow> tabLabelForUri uri),
                  ln_pane = Rail, ln_split = None, ln_reuse = False\<rparr>) s1, es)))"

definition openProfileTerminalTab ::
  "TermPreferences option \<Rightarrow> NetworkProfileDto \<Rightarrow> PanelId option \<Rightarrow> ProviderState \<Rightarrow> provider_result" where
  "openProfileTerminalTab preferences profile target s =
     (let plan = \<lparr>ln_preferences = preferences, ln_uri = profileTerminalUri profile,
                  ln_profileId = Some (np_id profile), ln_transport = TSsh,
                  ln_label = profileTerminalLabel profile, ln_pane = Rail, ln_split = None,
                  ln_reuse = False\<rparr>
      in case target of
           Some panelId \<Rightarrow>
             (awaiting (AwaitProfiles (plan\<lparr>ln_pane := InPane panelId,
                ln_split := paneSplitRatio preferences panelId\<rparr>)) s, [ListProfiles])
         | None \<Rightarrow> (let (s1, es) = show_rail preferences s
                    in (awaiting (RailThenProfiles plan) s1, es)))"

definition togglePaneTerminal ::
  "TermPreferences option \<Rightarrow> NetworkProfileDto list \<Rightarrow> string \<Rightarrow> PanelId \<Rightarrow> ProviderState \<Rightarrow> provider_result" where
  "togglePaneTerminal preferences networkProfiles uri panelId s =
     (let chrome = tm_pane (pv_terminal s) panelId
      in if ch_open chrome \<and> \<not> ch_collapsed chrome
         then (dispatchT (SetPaneTerminalCollapsed panelId True) s, [])
         else if ch_open chrome \<and> ch_collapsed chrome
         then (dispatchT (SetPaneTerminalCollapsed panelId False) s, [])
         else openPaneTerminal preferences networkProfiles panelId uri s)"

section \<open>Handlers of a session\<close>

definition closeTerminalTab :: "string \<Rightarrow> ProviderState \<Rightarrow> provider_result" where
  "closeTerminalTab sessionId s =
     (dispatchT (CloseSession sessionId) s,
      if js_startsWith sessionId ''pending-'' then [] else [KillTerminal sessionId])"

definition renameTerminalTab :: "string \<Rightarrow> string \<Rightarrow> ProviderState \<Rightarrow> provider_result" where
  "renameTerminalTab sessionId label s =
     (let trimmed = js_trim label
      in if trimmed = [] then (s, []) else (dispatchT (RenameSession sessionId trimmed) s, []))"

definition duplicateTerminalTab ::
  "TermPreferences option \<Rightarrow> string \<Rightarrow> ProviderState \<Rightarrow> provider_result" where
  "duplicateTerminalTab preferences sessionId s =
     (case find (\<lambda>x. ts_id x = sessionId) (tm_sessions (pv_terminal s)) of
        None \<Rightarrow> (s, [])
      | Some session \<Rightarrow>
          (if js_startsWith (ts_id session) ''pending-'' then (s, [])
           else let profileId =
                      (if ts_transport session = Some TSsh
                       then (case profileIdFromRemoteUri (ts_uri session) of
                               Some i \<Rightarrow> Some i
                             | None \<Rightarrow> Option.bind (ts_terminalProfile session) tpf_networkProfileId)
                       else None)
                in (awaiting (AwaitSession
                      \<lparr>ts_id = [], ts_uri = ts_uri session, ts_label = ts_label session @ '' copy'',
                       ts_status = TRunning, ts_exitCode = None, ts_paneId = ts_paneId session,
                       ts_transport = Some (case ts_transport session of Some t \<Rightarrow> t | None \<Rightarrow> TLocal),
                       ts_terminalProfileId = ts_terminalProfileId session,
                       ts_terminalProfile = ts_terminalProfile session\<rparr> None) s,
                    [spawnSession (ts_uri session) preferences profileId (ts_terminalProfile session)])))"

definition active_or_running ::
  "TerminalProfileDto TerminalState \<Rightarrow> TerminalProfileDto TerminalSession option" where
  "active_or_running terminal =
     (let runs = (\<lambda>p. find (\<lambda>x. p x \<and> ts_status x \<noteq> TExited) (tm_sessions terminal))
      in case runs (\<lambda>x. Some (ts_id x) = tm_activeSessionId terminal) of
           Some x \<Rightarrow> Some x
         | None \<Rightarrow> (case runs (\<lambda>x. ts_paneId x = Rail) of
                      Some x \<Rightarrow> Some x
                    | None \<Rightarrow> runs (\<lambda>x. True)))"

definition runCommandInActiveTerminal :: "string \<Rightarrow> ProviderState \<Rightarrow> provider_result" where
  "runCommandInActiveTerminal command s =
     (let trimmed = js_trim command
      in if trimmed = [] then (s, [])
         else case active_or_running (pv_terminal s) of
                None \<Rightarrow> (s, [Raise ''No running terminal session''])
              | Some session \<Rightarrow>
                  (if js_startsWith (ts_id session) ''pending-''
                   then (s, [Raise ''No running terminal session''])
                   else (dispatchT (SwitchSession (ts_id session)) s,
                         (if ts_paneId session = Rail then [ExpandActivity] else [])
                         @ [RunIn (ts_id session) trimmed])))"

definition spawnAndRunTerminalCommand ::
  "TermPreferences option \<Rightarrow> NetworkProfileDto list \<Rightarrow> string \<Rightarrow> string \<Rightarrow> ProviderState \<Rightarrow>
   provider_result" where
  "spawnAndRunTerminalCommand preferences networkProfiles uri command s =
     (let trimmed = js_trim command
      in if trimmed = [] then (s, [])
         else let profile = (if isRemoteUri uri then profileForUri networkProfiles uri else None);
                  profileId = (case profile of Some p \<Rightarrow> Some (np_id p)
                                             | None \<Rightarrow> profileIdFromRemoteUri uri)
              in (awaiting (CommandProfiles preferences uri profileId trimmed) s, [ListProfiles]))"

text \<open>One timer for both panes: a new ratio replaces the one that is waiting to be stored.\<close>

definition height_key :: "PanelId \<Rightarrow> string" where
  "height_key panelId =
     (case panelId of Left \<Rightarrow> ''paneTerminalHeightLeft'' | Right \<Rightarrow> ''paneTerminalHeightRight'')"

definition setPaneTerminalSplit :: "PanelId \<Rightarrow> js_number \<Rightarrow> ProviderState \<Rightarrow> provider_result" where
  "setPaneTerminalSplit panelId splitRatio s =
     ((dispatchT (SetPaneTerminalSplit panelId splitRatio) s)
        \<lparr>pv_timer := Some (height_key panelId, splitRatio)\<rparr>, [])"

definition height_timer_fires :: "ProviderState \<Rightarrow> provider_result" where
  "height_timer_fires s =
     (case pv_timer s of
        None \<Rightarrow> (s, [])
      | Some (key, splitRatio) \<Rightarrow> (s\<lparr>pv_timer := None\<rparr>, [PersistSplit key splitRatio]))"

definition syncTerminalCwd ::
  "TermPreferences option \<Rightarrow> PanelId \<Rightarrow> string \<Rightarrow> ProviderState \<Rightarrow> provider_result" where
  "syncTerminalCwd preferences panelId uri s =
     (if map_option tpr_terminalCdOnNavigate preferences \<noteq> Some True \<or> isRemoteUri uri then (s, [])
      else let bound = ch_sessionId (tm_pane (pv_terminal s) panelId)
           in if \<not> has_text bound then (s, [])
              else case find (\<lambda>x. Some (ts_id x) = bound) (tm_sessions (pv_terminal s)) of
                     None \<Rightarrow> (s, [])
                   | Some session \<Rightarrow>
                       (if ts_status session = TExited then (s, [])
                        else (s, [WriteTo (the bound) (encodeTerminalInput
                               (''cd '' @ shellEscapePosixPath (displayPathFromUri uri)
                                @ [CHR 0x0A]))])))"

definition hydrate_heights :: "TermPreferences option \<Rightarrow> ProviderState \<Rightarrow> ProviderState" where
  "hydrate_heights preferences s =
     (case preferences of
        None \<Rightarrow> s
      | Some p \<Rightarrow>
          (if pv_hydrated s then s
           else (dispatchT (HydratePaneTerminalPreferences (tpr_paneTerminalHeightLeft p)
                   (tpr_paneTerminalHeightRight p)) s)\<lparr>pv_hydrated := True\<rparr>))"

section \<open>Output\<close>

definition registerTerminalSessionHandlers :: "string \<Rightarrow> nat \<Rightarrow> ProviderState \<Rightarrow> provider_result" where
  "registerTerminalSessionHandlers sessionId view s =
     (let s1 = s\<lparr>pv_handlers := obj_set sessionId view (pv_handlers s)\<rparr>
      in case obj_get (pv_buffer s) sessionId of
           None \<Rightarrow> (s1, [])
         | Some waiting \<Rightarrow>
             (s1\<lparr>pv_buffer := obj_del sessionId (pv_buffer s)\<rparr>, map (ToView sessionId view) waiting))"

definition unregisterTerminalSession :: "string \<Rightarrow> ProviderState \<Rightarrow> ProviderState" where
  "unregisterTerminalSession sessionId s = s\<lparr>pv_handlers := obj_del sessionId (pv_handlers s)\<rparr>"

definition onTerminalOutput :: "string \<Rightarrow> string \<Rightarrow> ProviderState \<Rightarrow> provider_result" where
  "onTerminalOutput sessionId chunk s =
     (case obj_get (pv_handlers s) sessionId of
        Some view \<Rightarrow> (s, [ToView sessionId view chunk])
      | None \<Rightarrow>
          (let waiting = (case obj_get (pv_buffer s) sessionId of Some b \<Rightarrow> b | None \<Rightarrow> [])
           in (s\<lparr>pv_buffer := obj_set sessionId (slice_last 100 (waiting @ [chunk])) (pv_buffer s)\<rparr>, [])))"

definition onTerminalExit :: "string \<Rightarrow> int option \<Rightarrow> ProviderState \<Rightarrow> provider_result" where
  "onTerminalExit sessionId exitCode s =
     (dispatchT (SetSessionExited sessionId exitCode) s,
      case obj_get (pv_handlers s) sessionId of
        Some view \<Rightarrow> [ExitTo sessionId view exitCode] | None \<Rightarrow> [])"

section \<open>Replies\<close>

definition profiles_known :: "TerminalProfileDto list option \<Rightarrow> ProviderState \<Rightarrow> ProviderState" where
  "profiles_known reply s =
     (case reply of Some profiles \<Rightarrow> s\<lparr>pv_profiles := profiles\<rparr> | None \<Rightarrow> s)"

text \<open>What a handler does when the profiles it waited for are there.\<close>

definition launch :: "LaunchPlan \<Rightarrow> ProviderState \<Rightarrow> provider_result" where
  "launch plan s =
     (let terminalProfile = terminalProfileForLaunch (pv_profiles s) (ln_transport plan);
          existing = (case ln_pane plan of
                        InPane panelId \<Rightarrow> (if ln_reuse plan
                          then map_option (\<lambda>x. (panelId, x)) (findRunningPaneSession (pv_terminal s) panelId)
                          else None)
                      | Rail \<Rightarrow> None)
      in case existing of
           Some (panelId, session) \<Rightarrow>
             (dispatchT (OpenPaneTerminal panelId (ts_id session) (ln_split plan)) s, [])
         | None \<Rightarrow>
             (awaiting (AwaitSession
                (new_session (ln_uri plan) (ln_label plan) (ln_pane plan) (ln_transport plan) terminalProfile)
                (case ln_pane plan of InPane panelId \<Rightarrow> Some (panelId, ln_split plan) | Rail \<Rightarrow> None)) s,
              [spawnSession (ln_uri plan) (ln_preferences plan) (ln_profileId plan) terminalProfile]))"

definition launch_command ::
  "TermPreferences option \<Rightarrow> string \<Rightarrow> string option \<Rightarrow> string \<Rightarrow> ProviderState \<Rightarrow> provider_result" where
  "launch_command preferences uri profileId command s =
     (let transport = (if has_text profileId then TSsh else TLocal);
          terminalProfile = terminalProfileForLaunch (pv_profiles s) transport;
          (s1, es) = show_rail preferences s
      in (awaiting (RailThenCommand
            (new_session uri (terminalCommandTitle command) Rail transport terminalProfile)
            profileId command) s1, es))"

definition take_pending :: "nat \<Rightarrow> ProviderState \<Rightarrow> ProviderState" where
  "take_pending n s = s\<lparr>pv_pending := take n (pv_pending s) @ drop (Suc n) (pv_pending s)\<rparr>"

definition profiles_arrive ::
  "nat \<Rightarrow> TerminalProfileDto list option \<Rightarrow> ProviderState \<Rightarrow> provider_result" where
  "profiles_arrive n reply s =
     (if n < length (pv_pending s) then
        (let s1 = profiles_known reply (take_pending n s)
         in case pv_pending s ! n of
              AwaitProfiles plan \<Rightarrow> launch plan s1
            | CommandProfiles preferences uri profileId command \<Rightarrow>
                launch_command preferences uri profileId command s1
            | _ \<Rightarrow> (s, []))
      else (s, []))"

text \<open>The width of the rail is stored, or storing it has failed, which ends the handler.\<close>

definition rail_ready :: "nat \<Rightarrow> bool \<Rightarrow> ProviderState \<Rightarrow> provider_result" where
  "rail_ready n stored s =
     (if n < length (pv_pending s) then
        (let s1 = take_pending n s
         in case pv_pending s ! n of
              RailThenProfiles plan \<Rightarrow>
                (if stored then (awaiting (AwaitProfiles plan) s1, [ListProfiles]) else (s1, []))
            | RailThenCommand session profileId command \<Rightarrow>
                (if stored
                 then (awaiting (AwaitSession session None) s1,
                       [SpawnCommand (ts_uri session) profileId (ts_terminalProfileId session) command
                          (ts_label session)])
                 else (s1, []))
            | _ \<Rightarrow> (s, []))
      else (s, []))"

definition session_arrives :: "nat \<Rightarrow> string option \<Rightarrow> ProviderState \<Rightarrow> provider_result" where
  "session_arrives n reply s =
     (if n < length (pv_pending s) then
        (case pv_pending s ! n of
           AwaitSession session opening \<Rightarrow>
             (let s1 = take_pending n s
              in case reply of
                   None \<Rightarrow> (s1, [])
                 | Some sessionId \<Rightarrow>
                     (let s2 = dispatchT (AddSession (session\<lparr>ts_id := sessionId\<rparr>) None) s1
                      in case opening of
                           Some (panelId, splitRatio) \<Rightarrow>
                             (dispatchT (OpenPaneTerminal panelId sessionId splitRatio) s2, [])
                         | None \<Rightarrow> (s2, [])))
         | _ \<Rightarrow> (s, []))
      else (s, []))"

section \<open>Events\<close>

datatype ProviderEvent =
    CallOpenPane "TermPreferences option" "NetworkProfileDto list" PanelId string
  | CallAdditional "TermPreferences option" "NetworkProfileDto list" PanelId string
  | CallNewTab "TermPreferences option" "NetworkProfileDto list" string "PanelId option"
  | CallProfileTab "TermPreferences option" NetworkProfileDto "PanelId option"
  | CallToggle "TermPreferences option" "NetworkProfileDto list" string PanelId
  | CallClose string
  | CallRename string string
  | CallDuplicate "TermPreferences option" string
  | CallRun string
  | CallSpawnAndRun "TermPreferences option" "NetworkProfileDto list" string string
  | CallSplit PanelId js_number
  | CallCwd "TermPreferences option" PanelId string
  | CallAction "TerminalProfileDto TerminalAction"
  | CallExternal string
  | Hydrate "TermPreferences option"
  | TimerFires
  | RegisterView string nat
  | UnregisterView string
  | Output string string
  | Exit string "int option"
  | ProfilesKnown "TerminalProfileDto list option"
  | ProfilesArrive nat "TerminalProfileDto list option"
  | RailReady nat bool
  | SessionArrives nat "string option"

text \<open>\<open>CallAction\<close> is one of the handlers that only dispatch: the end of a session as a view
  reports it, switching tabs, the segment of the rail, collapsing, maximizing and closing a pane.\<close>

fun provider_step :: "ProviderState \<Rightarrow> ProviderEvent \<Rightarrow> provider_result" where
  "provider_step s (CallOpenPane prefs nps p u) = openPaneTerminal prefs nps p u s"
| "provider_step s (CallAdditional prefs nps p u) = openAdditionalPaneTab prefs nps p u s"
| "provider_step s (CallNewTab prefs nps u p) = openNewTerminalTab prefs nps u p s"
| "provider_step s (CallProfileTab prefs np p) = openProfileTerminalTab prefs np p s"
| "provider_step s (CallToggle prefs nps u p) = togglePaneTerminal prefs nps u p s"
| "provider_step s (CallClose i) = closeTerminalTab i s"
| "provider_step s (CallRename i l) = renameTerminalTab i l s"
| "provider_step s (CallDuplicate prefs i) = duplicateTerminalTab prefs i s"
| "provider_step s (CallRun c) = runCommandInActiveTerminal c s"
| "provider_step s (CallSpawnAndRun prefs nps u c) = spawnAndRunTerminalCommand prefs nps u c s"
| "provider_step s (CallSplit p r) = setPaneTerminalSplit p r s"
| "provider_step s (CallCwd prefs p u) = syncTerminalCwd prefs p u s"
| "provider_step s (CallAction a) = (dispatchT a s, [])"
| "provider_step s (CallExternal u) = (s, [OpenExternal u])"
| "provider_step s (Hydrate prefs) = (hydrate_heights prefs s, [])"
| "provider_step s TimerFires = height_timer_fires s"
| "provider_step s (RegisterView i v) = registerTerminalSessionHandlers i v s"
| "provider_step s (UnregisterView i) = (unregisterTerminalSession i s, [])"
| "provider_step s (Output i d) = onTerminalOutput i d s"
| "provider_step s (Exit i c) = onTerminalExit i c s"
| "provider_step s (ProfilesKnown r) = (profiles_known r s, [])"
| "provider_step s (ProfilesArrive n r) = profiles_arrive n r s"
| "provider_step s (RailReady n b) = rail_ready n b s"
| "provider_step s (SessionArrives n r) = session_arrives n r s"

primrec provider_run :: "ProviderState \<Rightarrow> ProviderEvent list \<Rightarrow> provider_result" where
  "provider_run s [] = (s, [])"
| "provider_run s (e # es) =
     (let (s1, fx) = provider_step s e; (s2, gx) = provider_run s1 es in (s2, fx @ gx))"

end
