(* ===== verification/TerminalFlow.thy ===== *)
theory TerminalFlow
  imports TerminalProvider
begin

text \<open>
  What the terminal provider guarantees, whatever the order in which calls, replies, output and
  timers arrive: the terminal store stays consistent, output is neither lost nor reordered, and
  what is typed into a shell on behalf of the user is what was meant.
\<close>

section \<open>The invariant\<close>

definition prefs_ok :: "bool \<Rightarrow> TermPreferences option \<Rightarrow> bool" where
  "prefs_ok nan preferences \<longleftrightarrow>
     nan \<or> (\<forall>p. preferences = Some p \<longrightarrow>
        tpr_paneTerminalHeightLeft p \<noteq> NaN \<and> tpr_paneTerminalHeightRight p \<noteq> NaN)"

text \<open>What the callers pass: sessions that exist where an action names one, and ratios, some of which may not be numbers.\<close>

fun names_session :: "ProviderState \<Rightarrow> ProviderEvent \<Rightarrow> bool" where
  "names_session s (CallAction a) =
     (case a of
        SwitchSession i \<Rightarrow> i \<in> session_ids (pv_terminal s)
      | OpenPaneTerminal _ i _ \<Rightarrow> i \<in> session_ids (pv_terminal s)
      | SetPaneActiveSession _ i \<Rightarrow> i \<in> session_ids (pv_terminal s)
      | _ \<Rightarrow> True)"
| "names_session s _ = True"

fun names_sessions :: "ProviderState \<Rightarrow> ProviderEvent list \<Rightarrow> bool" where
  "names_sessions s [] = True"
| "names_sessions s (e # es) = (names_session s e \<and> names_sessions (fst (provider_step s e)) es)"

fun carries_nan :: "ProviderEvent \<Rightarrow> bool" where
  "carries_nan (CallOpenPane prefs _ _ _) = (\<not> prefs_ok False prefs)"
| "carries_nan (CallAdditional prefs _ _ _) = (\<not> prefs_ok False prefs)"
| "carries_nan (CallNewTab prefs _ _ _) = (\<not> prefs_ok False prefs)"
| "carries_nan (CallProfileTab prefs _ _) = (\<not> prefs_ok False prefs)"
| "carries_nan (CallToggle prefs _ _ _) = (\<not> prefs_ok False prefs)"
| "carries_nan (CallSplit _ r) = (r = NaN)"
| "carries_nan (CallAction a) =
     (case a of
        OpenPaneTerminal _ _ r \<Rightarrow> r = Some NaN
      | SetPaneTerminalSplit _ r \<Rightarrow> r = NaN
      | HydratePaneTerminalPreferences l r \<Rightarrow> l = NaN \<or> r = NaN
      | _ \<Rightarrow> False)"
| "carries_nan (Hydrate prefs) = (\<not> prefs_ok False prefs)"
| "carries_nan _ = False"

definition event_ok :: "bool \<Rightarrow> ProviderState \<Rightarrow> ProviderEvent \<Rightarrow> bool" where
  "event_ok nan s e \<longleftrightarrow> names_session s e \<and> (nan \<or> \<not> carries_nan e)"

lemma prefs_ok_nan: "prefs_ok nan p \<longleftrightarrow> nan \<or> prefs_ok False p"
  by (auto simp: prefs_ok_def)

lemma event_ok_simps [simp]:
  "event_ok nan s (CallOpenPane prefs a b c) = prefs_ok nan prefs"
  "event_ok nan s (CallAdditional prefs d f g) = prefs_ok nan prefs"
  "event_ok nan s (CallNewTab prefs h j k) = prefs_ok nan prefs"
  "event_ok nan s (CallProfileTab prefs l m) = prefs_ok nan prefs"
  "event_ok nan s (CallToggle prefs n q u) = prefs_ok nan prefs"
  "event_ok nan s (CallSplit p r) = (nan \<or> r \<noteq> NaN)"
  "event_ok nan s (Hydrate prefs) = prefs_ok nan prefs"
  by (simp_all add: event_ok_def prefs_ok_nan [of nan])

lemma event_ok_action [simp]: "event_ok nan s (CallAction x) = action_ok nan (pv_terminal s) x"
  by (cases x) (auto simp: event_ok_def action_ok_def)

definition plan_ok :: "bool \<Rightarrow> LaunchPlan \<Rightarrow> bool" where
  "plan_ok nan plan \<longleftrightarrow> nan \<or> ln_split plan \<noteq> Some NaN"

fun pending_ok :: "bool \<Rightarrow> Pending \<Rightarrow> bool" where
  "pending_ok nan (RailThenProfiles plan) = plan_ok nan plan"
| "pending_ok nan (AwaitProfiles plan) = plan_ok nan plan"
| "pending_ok nan (AwaitSession _ (Some (_, r))) = (nan \<or> r \<noteq> Some NaN)"
| "pending_ok nan _ = True"

text \<open>A session with a view has nothing waiting, and at most 100 chunks wait.\<close>

definition io_ok :: "ProviderState \<Rightarrow> bool" where
  "io_ok s \<longleftrightarrow>
     (\<forall>i v. obj_get (pv_handlers s) i = Some v \<longrightarrow> obj_get (pv_buffer s) i = None) \<and>
     (\<forall>i b. obj_get (pv_buffer s) i = Some b \<longrightarrow> length b \<le> 100)"

definition provider_ok :: "bool \<Rightarrow> ProviderState \<Rightarrow> bool" where
  "provider_ok nan s \<longleftrightarrow> terminal_ok nan (pv_terminal s) \<and> list_all (pending_ok nan) (pv_pending s) \<and> io_ok s"

lemma dispatchT_fields [simp]:
  "pv_terminal (dispatchT a s) = terminalReducer (pv_terminal s) a"
  "pv_pending (dispatchT a s) = pv_pending s" "pv_handlers (dispatchT a s) = pv_handlers s"
  "pv_buffer (dispatchT a s) = pv_buffer s" "pv_timer (dispatchT a s) = pv_timer s"
  by (simp_all add: dispatchT_def)

lemma awaiting_fields [simp]:
  "pv_terminal (awaiting p s) = pv_terminal s" "pv_pending (awaiting p s) = pv_pending s @ [p]"
  "pv_handlers (awaiting p s) = pv_handlers s" "pv_buffer (awaiting p s) = pv_buffer s"
  by (simp_all add: awaiting_def)

lemma io_ok_frame [simp]:
  "io_ok (dispatchT a s) = io_ok s" "io_ok (awaiting p s) = io_ok s"
  "io_ok (take_pending n s) = io_ok s" "io_ok (profiles_known r s) = io_ok s"
  "io_ok (s\<lparr>pv_timer := t\<rparr>) = io_ok s" "io_ok (s\<lparr>pv_hydrated := h\<rparr>) = io_ok s"
  by (simp_all add: io_ok_def take_pending_def profiles_known_def split: option.split)

lemma dispatch_ok: "provider_ok nan s \<Longrightarrow> action_ok nan (pv_terminal s) a \<Longrightarrow> provider_ok nan (dispatchT a s)"
  by (simp add: provider_ok_def terminalReducer_ok)

lemma awaiting_ok: "provider_ok nan s \<Longrightarrow> pending_ok nan p \<Longrightarrow> provider_ok nan (awaiting p s)"
  by (simp add: provider_ok_def)

lemma take_pending_ok: "provider_ok nan s \<Longrightarrow> provider_ok nan (take_pending n s)"
  by (auto simp: provider_ok_def take_pending_def list_all_iff dest: in_set_takeD in_set_dropD)
    (metis (no_types, lifting) io_ok_frame(3) take_pending_def)

lemma profiles_known_ok: "provider_ok nan s \<Longrightarrow> provider_ok nan (profiles_known r s)"
  by (auto simp: provider_ok_def profiles_known_def io_ok_def split: option.split)

lemma split_ratio_ok: "prefs_ok nan prefs \<Longrightarrow> nan \<or> paneSplitRatio prefs p \<noteq> Some NaN"
  by (cases p) (auto simp: paneSplitRatio_def prefs_ok_def)

lemma pane_launch_ok: "provider_ok nan s \<Longrightarrow> prefs_ok nan prefs \<Longrightarrow> provider_ok nan (fst (pane_launch b prefs nps p u s))"
  by (auto simp: pane_launch_def remote_pane_plan_def local_pane_plan_def Let_def plan_ok_def
      split_ratio_ok intro!: awaiting_ok split: option.split)

lemma show_rail_ok: "provider_ok nan s \<Longrightarrow> provider_ok nan (fst (show_rail prefs s))"
  by (simp add: show_rail_def dispatch_ok action_ok_def)

lemma running_session: "findRunningPaneSession t p = Some x \<Longrightarrow> x \<in> set (tm_sessions t) \<and> ts_status x \<noteq> TExited"
  by (auto simp: findRunningPaneSession_def Let_def dest: find_SomeD split: option.splits if_splits)

lemma launch_ok:
  assumes "provider_ok nan s" and "plan_ok nan plan" shows "provider_ok nan (fst (launch plan s))"
proof (cases "\<exists>p. ln_pane plan = InPane p \<and> ln_reuse plan \<and> findRunningPaneSession (pv_terminal s) p \<noteq> None")
  case True
  then obtain p x where x: "ln_pane plan = InPane p" "ln_reuse plan"
      "findRunningPaneSession (pv_terminal s) p = Some x" by blast
  then have "ts_id x \<in> session_ids (pv_terminal s)" using running_session by (auto simp: session_ids_def)
  with assms x show ?thesis by (auto simp: launch_def Let_def action_ok_def plan_ok_def intro!: dispatch_ok)
next
  case False
  then have "(case ln_pane plan of InPane p \<Rightarrow> (if ln_reuse plan
       then map_option (\<lambda>x. (p, x)) (findRunningPaneSession (pv_terminal s) p) else None)
     | Rail \<Rightarrow> None) = None"
    by (auto split: TerminalPaneId.split)
  with assms show ?thesis
    by (auto simp: launch_def Let_def plan_ok_def intro!: awaiting_ok split: TerminalPaneId.split)
qed

lemma pending_nth_ok: "provider_ok nan s \<Longrightarrow> n < length (pv_pending s) \<Longrightarrow> pending_ok nan (pv_pending s ! n)"
  by (simp add: provider_ok_def list_all_length)

lemma profiles_arrive_ok: "provider_ok nan s \<Longrightarrow> provider_ok nan (fst (profiles_arrive n r s))"
  using pending_nth_ok[of nan s n]
  by (auto simp: profiles_arrive_def Let_def launch_command_def case_prod_beta
      intro!: launch_ok awaiting_ok show_rail_ok profiles_known_ok take_pending_ok split: Pending.split)

lemma rail_ready_ok: "provider_ok nan s \<Longrightarrow> provider_ok nan (fst (rail_ready n b s))"
  using pending_nth_ok[of nan s n]
  by (auto simp: rail_ready_def Let_def intro!: awaiting_ok take_pending_ok split: Pending.split)

lemma added_session: "ts_id x \<in> session_ids (terminalReducer t (AddSession x b))"
  by (simp add: terminalReducer_def add_session_def Let_def session_ids_def)

lemma session_arrives_ok: "provider_ok nan s \<Longrightarrow> provider_ok nan (fst (session_arrives n r s))"
proof (cases "n < length (pv_pending s)")
  case True
  assume ok: "provider_ok nan s"
  show ?thesis
  proof (cases "pv_pending s ! n")
    case (AwaitSession x opn)
    have add: "provider_ok nan (dispatchT (AddSession (x\<lparr>ts_id := i\<rparr>) None) (take_pending n s))" for i
      using ok by (auto simp: action_ok_def intro!: dispatch_ok take_pending_ok)
    have "action_ok nan (pv_terminal (dispatchT (AddSession (x\<lparr>ts_id := i\<rparr>) None) (take_pending n s)))
        (OpenPaneTerminal p i q)" if "opn = Some (p, q)" for i p q
      using pending_nth_ok[OF ok True] AwaitSession that added_session[of "x\<lparr>ts_id := i\<rparr>"]
      by (simp add: action_ok_def)
    with True ok AwaitSession add show ?thesis
      by (auto simp: session_arrives_def Let_def take_pending_ok dispatch_ok split: option.split)
  qed (simp_all add: session_arrives_def ok)
qed (simp add: session_arrives_def)

lemma active_or_running_in: "active_or_running t = Some x \<Longrightarrow> x \<in> set (tm_sessions t)"
  by (auto simp: active_or_running_def Let_def dest: find_SomeD split: option.splits)

lemma register_ok: "provider_ok nan s \<Longrightarrow> provider_ok nan (fst (registerTerminalSessionHandlers i v s))"
  by (auto simp: provider_ok_def registerTerminalSessionHandlers_def io_ok_def Let_def split: option.split)

lemma output_ok: "provider_ok nan s \<Longrightarrow> provider_ok nan (fst (onTerminalOutput i d s))"
  by (auto simp: provider_ok_def onTerminalOutput_def io_ok_def Let_def split: option.split if_splits)

lemma provider_step_ok:
  assumes "provider_ok nan s" and "event_ok nan s e" shows "provider_ok nan (fst (provider_step s e))"
proof (cases e)
  case (CallNewTab prefs nps u p)
  with assms show ?thesis
    by (auto simp: openNewTerminalTab_def openPaneTerminal_def Let_def plan_ok_def case_prod_beta
        pane_launch_ok show_rail_ok intro!: awaiting_ok split: option.split)
next
  case (CallProfileTab prefs np p)
  with assms show ?thesis
    by (auto simp: openProfileTerminalTab_def Let_def plan_ok_def case_prod_beta split_ratio_ok
        show_rail_ok intro!: awaiting_ok split: option.split)
next
  case (CallRun c)
  with assms show ?thesis
    by (auto simp: runCommandInActiveTerminal_def Let_def action_ok_def session_ids_def
        dest!: active_or_running_in intro!: dispatch_ok split: option.split)
next
  case (CallSplit p r)
  with assms show ?thesis
    by (auto simp: setPaneTerminalSplit_def provider_ok_def action_ok_def terminalReducer_ok)
next
  case (Hydrate prefs)
  with assms show ?thesis
    by (auto simp: hydrate_heights_def provider_ok_def action_ok_def prefs_ok_def terminalReducer_ok
        split: option.split)
next
  case TimerFires
  with assms show ?thesis by (auto simp: height_timer_fires_def provider_ok_def split: option.split)
next
  case (UnregisterView i)
  with assms show ?thesis
    by (auto simp: unregisterTerminalSession_def provider_ok_def io_ok_def split: if_splits)
qed (use assms in \<open>auto simp: openPaneTerminal_def openAdditionalPaneTab_def togglePaneTerminal_def
       closeTerminalTab_def renameTerminalTab_def duplicateTerminalTab_def spawnAndRunTerminalCommand_def
       syncTerminalCwd_def onTerminalExit_def Let_def action_ok_def pane_launch_ok profiles_known_ok
       profiles_arrive_ok rail_ready_ok session_arrives_ok register_ok output_ok
     intro!: dispatch_ok awaiting_ok split: option.split\<close>)


inductive provider_reach :: "ProviderState \<Rightarrow> bool" where
  reach_start: "provider_reach initial_provider"
| reach_step: "provider_reach s \<Longrightarrow> names_session s e \<Longrightarrow> provider_reach (fst (provider_step s e))"

lemma initial_provider_ok: "provider_ok nan initial_provider"
  by (simp add: provider_ok_def initial_provider_def initial_terminal_ok io_ok_def)

lemma provider_reach_ok: "provider_reach s \<Longrightarrow> provider_ok True s"
  by (induction rule: provider_reach.induct) (simp_all add: initial_provider_ok provider_step_ok event_ok_def)

section \<open>Output\<close>

definition waiting_output :: "string \<Rightarrow> ProviderState \<Rightarrow> string list" where
  "waiting_output i s = (case obj_get (pv_buffer s) i of Some b \<Rightarrow> b | None \<Rightarrow> [])"

fun shown_chunk :: "string \<Rightarrow> TermEffect \<Rightarrow> string list" where
  "shown_chunk i (ToView j v d) = (if i = j then [d] else [])"
| "shown_chunk i _ = []"

definition delivered :: "string \<Rightarrow> TermEffect list \<Rightarrow> string list" where
  "delivered i fx = concat (map (shown_chunk i) fx)"

fun output_chunk :: "string \<Rightarrow> ProviderEvent \<Rightarrow> string list" where
  "output_chunk i (Output j d) = (if i = j then [d] else [])"
| "output_chunk i _ = []"

definition outputs_of :: "string \<Rightarrow> ProviderEvent list \<Rightarrow> string list" where
  "outputs_of i es = concat (map (output_chunk i) es)"

text \<open>Never more than 100 chunks arrive while the session has no view.\<close>

primrec never_full :: "string \<Rightarrow> ProviderState \<Rightarrow> ProviderEvent list \<Rightarrow> bool" where
  "never_full i s [] = True"
| "never_full i s (e # es) =
     ((output_chunk i e = [] \<or> obj_get (pv_handlers s) i \<noteq> None \<or> length (waiting_output i s) < 100)
      \<and> never_full i (fst (provider_step s e)) es)"

lemma delivered_simps [simp]:
  "delivered i [] = []" "delivered i (f # fx) = shown_chunk i f @ delivered i fx"
  "delivered i (fx @ gx) = delivered i fx @ delivered i gx"
  by (simp_all add: delivered_def)

lemma delivered_map [simp]: "delivered i (map (ToView j v) ds) = (if i = j then ds else [])"
  by (induction ds) auto

lemma delivered_rail [simp]: "delivered i (ensureRailWidth prefs) = []"
  by (simp add: ensureRailWidth_def split: option.split)

lemma delivered_spawn [simp]: "shown_chunk i (spawnSession u prefs pid tp) = []"
  by (simp add: spawnSession_def Let_def)

text \<open>Only views and output touch the buffers.\<close>

definition quiet :: "ProviderState \<Rightarrow> provider_result \<Rightarrow> bool" where
  "quiet s r \<longleftrightarrow> pv_buffer (fst r) = pv_buffer s \<and> pv_handlers (fst r) = pv_handlers s \<and> (\<forall>i. delivered i (snd r) = [])"

lemma quiet_pair [simp]:
  "quiet s (s', fx) \<longleftrightarrow> pv_buffer s' = pv_buffer s \<and> pv_handlers s' = pv_handlers s \<and> (\<forall>i. delivered i fx = [])"
  by (simp add: quiet_def)

lemma take_pending_io [simp]:
  "pv_buffer (take_pending n s) = pv_buffer s" "pv_handlers (take_pending n s) = pv_handlers s"
  "pv_buffer (profiles_known r s) = pv_buffer s" "pv_handlers (profiles_known r s) = pv_handlers s"
  by (simp_all add: take_pending_def profiles_known_def split: option.split)

lemma quiet_pane_launch: "quiet s (pane_launch b prefs nps p u s)"
  by (auto simp: pane_launch_def split: option.split)

lemma quiet_show_rail:
  "show_rail prefs s = (s1, fx) \<Longrightarrow> pv_buffer s1 = pv_buffer s \<and> pv_handlers s1 = pv_handlers s \<and> (\<forall>i. delivered i fx = [])"
  by (auto simp: show_rail_def)

lemma quiet_launch: "quiet s1 (launch plan s1)"
  by (auto simp: launch_def Let_def split: option.split)

lemma quiet_replies:
  "quiet s (profiles_arrive n r s)" "quiet s (rail_ready n b s)" "quiet s (session_arrives n q s)"
proof -
  have "quiet s (launch plan (profiles_known r (take_pending n s)))" for plan
    using quiet_launch[of "profiles_known r (take_pending n s)" plan] by (simp add: quiet_def)
  moreover have "quiet s (launch_command prefs u pid c (profiles_known r (take_pending n s)))" for prefs u pid c
    by (auto simp: launch_command_def Let_def show_rail_def)
  ultimately show "quiet s (profiles_arrive n r s)"
    by (auto simp: profiles_arrive_def Let_def split: Pending.split)
qed (auto simp: rail_ready_def session_arrives_def Let_def split: Pending.split option.split)

lemma quiet_step:
  assumes "\<And>i v. e \<noteq> RegisterView i v" "\<And>i. e \<noteq> UnregisterView i" "\<And>i d. e \<noteq> Output i d"
  shows "quiet s (provider_step s e)"
proof (cases e)
  case (CallNewTab prefs nps u p)
  then show ?thesis
    by (auto simp: openNewTerminalTab_def openPaneTerminal_def quiet_pane_launch Let_def show_rail_def
        split: option.split)
next
  case (CallProfileTab prefs np p)
  then show ?thesis
    by (auto simp: openProfileTerminalTab_def Let_def show_rail_def split: option.split)
next
  case (CallToggle prefs nps u p)
  then show ?thesis by (auto simp: togglePaneTerminal_def openPaneTerminal_def quiet_pane_launch Let_def)
qed (use assms in \<open>auto simp: openPaneTerminal_def openAdditionalPaneTab_def closeTerminalTab_def
       renameTerminalTab_def duplicateTerminalTab_def runCommandInActiveTerminal_def
       spawnAndRunTerminalCommand_def setPaneTerminalSplit_def syncTerminalCwd_def hydrate_heights_def
       height_timer_fires_def onTerminalExit_def Let_def quiet_pane_launch quiet_replies
     split: option.split\<close>)

lemma chunk_moves:
  assumes "io_ok s" "output_chunk i e = [] \<or> obj_get (pv_handlers s) i \<noteq> None \<or> length (waiting_output i s) < 100"
  shows "delivered i (snd (provider_step s e)) @ waiting_output i (fst (provider_step s e))
    = waiting_output i s @ output_chunk i e"
proof (cases e)
  case (Output j d)
  with assms show ?thesis
    by (auto simp: onTerminalOutput_def waiting_output_def io_ok_def Let_def slice_last_all
        split: option.split)
next
  case (RegisterView j v)
  then show ?thesis
    by (auto simp: registerTerminalSessionHandlers_def waiting_output_def Let_def split: option.split)
next
  case (UnregisterView j)
  then show ?thesis by (simp add: unregisterTerminalSession_def waiting_output_def)
qed (use quiet_step[of e s] in \<open>auto simp: quiet_def waiting_output_def\<close>)

lemma io_ok_step: "io_ok s \<Longrightarrow> io_ok (fst (provider_step s e))"
proof (cases e)
  case (Output j d)
  then show "io_ok s \<Longrightarrow> ?thesis"
    by (auto simp: onTerminalOutput_def io_ok_def Let_def split: option.split if_splits)
next
  case (RegisterView j v)
  then show "io_ok s \<Longrightarrow> ?thesis"
    by (auto simp: registerTerminalSessionHandlers_def io_ok_def Let_def split: option.split)
next
  case (UnregisterView j)
  then show "io_ok s \<Longrightarrow> ?thesis" by (auto simp: unregisterTerminalSession_def io_ok_def)
qed (use quiet_step[of e s] in \<open>auto simp: quiet_def io_ok_def\<close>)

lemma output_moves:
  "io_ok s \<Longrightarrow> never_full i s es \<Longrightarrow>
   delivered i (snd (provider_run s es)) @ waiting_output i (fst (provider_run s es))
     = waiting_output i s @ outputs_of i es"
proof (induction es arbitrary: s)
  case (Cons e es)
  let ?r = "provider_step s e"
  have "delivered i (snd (provider_run (fst ?r) es)) @ waiting_output i (fst (provider_run (fst ?r) es))
      = waiting_output i (fst ?r) @ outputs_of i es"
    using Cons by (simp add: io_ok_step)
  moreover have "delivered i (snd ?r) @ waiting_output i (fst ?r) = waiting_output i s @ output_chunk i e"
    using Cons.prems by (intro chunk_moves) auto
  ultimately show ?case by (simp add: case_prod_beta Let_def outputs_of_def)
qed (simp add: outputs_of_def)

lemma io_ok_run: "io_ok s \<Longrightarrow> io_ok (fst (provider_run s es))"
  by (induction es arbitrary: s) (auto simp: Let_def case_prod_beta io_ok_step)

lemma io_ok_waiting: "io_ok s \<Longrightarrow> obj_get (pv_handlers s) i \<noteq> None \<Longrightarrow> waiting_output i s = []"
  by (auto simp: io_ok_def waiting_output_def)

section \<open>Properties\<close>

lemma provider_run_ok:
  "provider_ok nan s \<Longrightarrow> names_sessions s es \<Longrightarrow> nan \<or> \<not> list_ex carries_nan es \<Longrightarrow> provider_ok nan (fst (provider_run s es))"
  by (induction es arbitrary: s) (auto simp: Let_def case_prod_beta provider_step_ok event_ok_def)

text \<open>C17: the terminals stay consistent under every interleaving. However calls, replies of the
  back end, output, exits and timers are interleaved, from the start on, when every action that
  is dispatched for a session names one that exists: no pane is collapsed and maximized at once,
  a pane is open exactly when it shows a session, neither a pane nor the rail refers to a session
  that is gone, and every split is within its bounds, or not a number if one of the calls or
  preferences carried such a ratio; a session with a view has no output waiting, and no more
  than 100 chunks ever wait.\<close>

theorem terminals_always_consistent:
  assumes "names_sessions initial_provider es" and "s = fst (provider_run initial_provider es)"
  shows "(\<forall>p. let c = tm_pane (pv_terminal s) p
       in \<not> (ch_collapsed c \<and> ch_maximized c) \<and> (ch_open c \<longleftrightarrow> ch_sessionId c \<noteq> None) \<and>
          (\<forall>i. ch_sessionId c = Some i \<longrightarrow> i \<in> session_ids (pv_terminal s)) \<and>
          (split_ok (ch_splitRatio c) \<or> ch_splitRatio c = NaN \<and> list_ex carries_nan es)) \<and>
    (\<forall>i. tm_activeSessionId (pv_terminal s) = Some i \<longrightarrow> i \<in> session_ids (pv_terminal s)) \<and>
    (\<forall>i. obj_get (pv_handlers s) i \<noteq> None \<longrightarrow> waiting_output i s = []) \<and>
    (\<forall>i. length (waiting_output i s) \<le> 100)"
proof -
  have "provider_ok (list_ex carries_nan es) s"
    unfolding assms(2) by (rule provider_run_ok[OF initial_provider_ok assms(1)]) simp
  then have t: "terminal_ok (list_ex carries_nan es) (pv_terminal s)" and io: "io_ok s" by (simp_all add: provider_ok_def)
  from io have "\<forall>i. obj_get (pv_handlers s) i \<noteq> None \<longrightarrow> waiting_output i s = []" "\<forall>i. length (waiting_output i s) \<le> 100"
    by (auto simp: io_ok_def waiting_output_def split: option.split)
  moreover from t have "refs_ok (pv_terminal s)" "\<And>p. chrome_ok (list_ex carries_nan es) (tm_pane (pv_terminal s) p)"
    by (simp_all add: terminal_ok_def)
  ultimately show ?thesis unfolding refs_ok_def chrome_ok_def split_kept_def Let_def by blast
qed

definition sample_prefs :: TermPreferences where
  "sample_prefs =
     \<lparr>tpr_terminalShell = [], tpr_terminalArgs = [], tpr_activityPanelWidth = 288,
      tpr_paneTerminalHeightLeft = Fin (1 / 2), tpr_paneTerminalHeightRight = Fin 1,
      tpr_terminalCdOnNavigate = True\<rparr>"

definition opened_events :: "ProviderEvent list" where
  "opened_events =
     [CallOpenPane (Some sample_prefs) [] Left ''local:///d'', Output ''t'' ''a'', ProfilesArrive 0 None,
      SessionArrives 0 (Some ''t'')]"

definition opened :: ProviderState where
  "opened = fst (provider_run initial_provider opened_events)"

lemma reach_run:
  "provider_reach s \<Longrightarrow> (\<And>t e. e \<in> set es \<Longrightarrow> names_session t e) \<Longrightarrow> provider_reach (fst (provider_run s es))"
  by (induction es arbitrary: s) (auto simp: Let_def case_prod_beta intro: reach_step)

lemma opened_reach: "provider_reach opened"
  unfolding opened_def
  by (rule reach_run[OF reach_start]) (auto simp: opened_events_def prefs_ok_def sample_prefs_def)

theorem terminals_always_consistent_witness:
  "split_ok (ch_splitRatio (tm_pane (pv_terminal opened) Left)) \<and> length (waiting_output ''t'' opened) \<le> 100 \<and>
   map ts_id (tm_sessions (pv_terminal opened)) = [''t'']"
proof -
  have s: "map ts_id (tm_sessions (pv_terminal opened)) = [''t'']" by code_simp
  have "names_sessions initial_provider opened_events" by (simp add: opened_events_def)
  moreover have "\<not> list_ex carries_nan opened_events" by (simp add: opened_events_def prefs_ok_def sample_prefs_def)
  ultimately show ?thesis using terminals_always_consistent[OF _ opened_def] s unfolding Let_def by blast
qed

text \<open>C26: terminal output reaches its view complete and in order. Whatever else happens, and
  however often views of a session come and go, the chunks shown for it and those still waiting
  are together exactly the chunks that arrived, in order, as long as no more than 100 of them
  pile up while there is no view; with a view, none is waiting.\<close>

theorem terminal_output_in_order:
  assumes "provider_reach s" and "never_full i s es"
  shows "delivered i (snd (provider_run s es)) @ waiting_output i (fst (provider_run s es))
      = waiting_output i s @ outputs_of i es \<and>
    (obj_get (pv_handlers (fst (provider_run s es))) i \<noteq> None \<longrightarrow>
      waiting_output i (fst (provider_run s es)) = [])"
proof -
  have io: "io_ok s" using provider_reach_ok[OF assms(1)] by (simp add: provider_ok_def)
  show ?thesis using output_moves[OF io assms(2)] io_ok_waiting[OF io_ok_run[OF io]] by blast
qed

theorem terminal_output_in_order_witness:
  "delivered ''t'' (snd (provider_run opened [Output ''u'' ''x'', Output ''t'' ''b'', RegisterView ''t'' 1,
     Output ''t'' ''c''])) = [''a'', ''b'', ''c'']"
proof -
  let ?es = "[Output ''u'' ''x'', Output ''t'' ''b'', RegisterView ''t'' 1, Output ''t'' ''c'']"
  have nf: "never_full ''t'' opened ?es"
    and view: "obj_get (pv_handlers (fst (provider_run opened ?es))) ''t'' \<noteq> None"
    and first: "waiting_output ''t'' opened = [''a'']"
    and then_chunks: "outputs_of ''t'' ?es = [''b'', ''c'']" by code_simp+
  note order = terminal_output_in_order[OF opened_reach nf]
  from order view have "waiting_output ''t'' (fst (provider_run opened ?es)) = []" by blast
  with order show ?thesis unfolding first then_chunks by (simp del: provider_run.simps)
qed

text \<open>Following the navigation types one harmless command. A command is typed exactly if the
  preference is on, the address is not remote and the pane shows a session that has not ended;
  what arrives at that session is the word cd, a blank, one word that a POSIX shell reads as
  the path, and a line feed. Whether the session runs on this machine is not asked: a local path
  is also typed into a remote shell.\<close>

theorem cd_types_the_path:
  "(snd (provider_step s (CallCwd preferences panelId uri)) \<noteq> [] \<longleftrightarrow>
      map_option tpr_terminalCdOnNavigate preferences = Some True \<and> \<not> isRemoteUri uri \<and>
      (\<exists>i x. ch_sessionId (tm_pane (pv_terminal s) panelId) = Some i \<and> i \<noteq> [] \<and>
         find (\<lambda>x. ts_id x = i) (tm_sessions (pv_terminal s)) = Some x \<and> ts_status x \<noteq> TExited)) \<and>
   (\<forall>f \<in> set (snd (provider_step s (CallCwd preferences panelId uri))).
      \<exists>i d w. f = WriteTo i d \<and> ch_sessionId (tm_pane (pv_terminal s) panelId) = Some i \<and>
        utf8_decode (atob d) = map code (''cd '' @ w @ [CHR 0x0A]) \<and>
        sh_word False w = Some (displayPathFromUri uri))"
  by (auto simp: syncTerminalCwd_def has_text_def Let_def decode_input sh_word_escaped
      split: option.splits if_splits)

definition remote_opened :: ProviderState where
  "remote_opened = fst (provider_run initial_provider
     [CallProfileTab (Some sample_prefs) \<lparr>np_id = ''7'', np_label = ''box'', np_scheme = ''ssh'', np_host = ''h'',
        np_port = 22, np_username = ''u'', np_defaultUri = [], np_hasStoredSecret = True\<rparr> (Some Right),
      ProfilesArrive 0 (Some []), SessionArrives 0 (Some ''r'')])"

theorem cd_types_the_path_witness:
  "\<exists>d w. snd (provider_step remote_opened (CallCwd (Some sample_prefs) Right ''local:///a b'')) = [WriteTo ''r'' d] \<and>
     sh_word False w = Some ''/a b'' \<and>
     map ts_transport (tm_sessions (pv_terminal remote_opened)) = [Some TSsh]"
proof -
  let ?fx = "snd (provider_step remote_opened (CallCwd (Some sample_prefs) Right ''local:///a b''))"
  have "length ?fx = 1" by code_simp
  then obtain f where f: "?fx = [f]" by (cases ?fx) auto
  have sess: "ch_sessionId (tm_pane (pv_terminal remote_opened) Right) = Some ''r''"
    and tr: "map ts_transport (tm_sessions (pv_terminal remote_opened)) = [Some TSsh]"
    and path: "displayPathFromUri ''local:///a b'' = ''/a b''" by code_simp+
  show ?thesis
    using cd_types_the_path[of remote_opened "Some sample_prefs" Right "''local:///a b''"] sess tr path
    unfolding f by fastforce
qed

text \<open>Duplicating an SSH terminal of a server without a directory opens a local shell. The
  address of such a session is no remote URI, so unless its terminal profile names the server
  the duplicate is asked for by address, without a server, and is then listed as an SSH session
  like the original.\<close>

theorem duplicate_ssh_runs_locally:
  assumes "provider_reach s" and "find (\<lambda>x. ts_id x = i) (tm_sessions (pv_terminal s)) = Some x"
    and "ts_transport x = Some TSsh" and "uriScheme (ts_uri x) = Some ''ssh''"
    and "Option.bind (ts_terminalProfile x) tpf_networkProfileId = None" and "\<not> js_startsWith i ''pending-''"
  shows "\<exists>tp sh as y. provider_step s (CallDuplicate preferences i) =
      (s\<lparr>pv_pending := pv_pending s @ [AwaitSession y None]\<rparr>, [SpawnTerminal (SpawnForUri (ts_uri x) tp sh as)]) \<and>
    ts_transport y = Some TSsh \<and> ts_label y = ts_label x @ '' copy''"
proof -
  have "ts_id x = i" using assms(2) by (auto dest: find_SomeD)
  moreover have "\<not> isRemoteUri (ts_uri x)"
    using assms(4) by (simp add: isRemoteUri_def REMOTE_URI_SCHEMES_def List.member_iff)
  ultimately show ?thesis
    using assms by (simp add: duplicateTerminalTab_def profileIdFromRemoteUri_def spawnSession_def has_text_def
        awaiting_def Let_def) (rule exI, rule conjI[OF refl], simp)
qed

theorem duplicate_ssh_runs_locally_witness:
  "\<exists>tp sh as. snd (provider_step remote_opened (CallDuplicate None ''r'')) =
     [SpawnTerminal (SpawnForUri ''ssh://7'' tp sh as)]"
proof -
  have "provider_reach remote_opened"
    unfolding remote_opened_def by (rule reach_run[OF reach_start]) (auto simp: prefs_ok_def sample_prefs_def)
  moreover obtain x where x: "find (\<lambda>x. ts_id x = ''r'') (tm_sessions (pv_terminal remote_opened)) = Some x"
    and f: "x = the (find (\<lambda>x. ts_id x = ''r'') (tm_sessions (pv_terminal remote_opened)))"
  proof -
    have "find (\<lambda>x. ts_id x = ''r'') (tm_sessions (pv_terminal remote_opened)) \<noteq> None" by code_simp
    then show ?thesis using that by auto
  qed
  moreover have "ts_transport x = Some TSsh \<and> uriScheme (ts_uri x) = Some ''ssh'' \<and> ts_uri x = ''ssh://7'' \<and>
      Option.bind (ts_terminalProfile x) tpf_networkProfileId = None" unfolding f by code_simp
  moreover have "\<not> js_startsWith ''r'' ''pending-''" by code_simp
  ultimately show ?thesis
    using duplicate_ssh_runs_locally[of remote_opened "''r''" x None] by fastforce
qed

text \<open>Splits that are changed in both panes within the delay of the one timer: only the later is
  stored, although both are on screen.\<close>

lemma split_of_other_pane_lost:
  "snd (provider_run s [CallSplit Left a, CallSplit Right b, TimerFires])
     = [PersistSplit ''paneTerminalHeightRight'' b]"
  by (simp add: setPaneTerminalSplit_def height_timer_fires_def height_key_def)

text \<open>Whatever is stored in a profile, the emulator gets numbers within its limits and one of the
  three cursors.\<close>

lemma bounded_within:
  "js_le lo fallback \<Longrightarrow> js_le fallback hi \<Longrightarrow>
   js_le lo (boundedNumber v fallback lo hi) \<and> js_le (boundedNumber v fallback lo hi) hi"
  by (auto simp: boundedNumber_def split: option.split js_number.split)

lemma options_in_bounds:
  "js_le (Fin 8) (to_fontSize (terminalOptionsForProfile base font profile)) \<and>
   js_le (to_fontSize (terminalOptionsForProfile base font profile)) (Fin 32) \<and>
   js_le (Fin 1) (to_lineHeight (terminalOptionsForProfile base font profile)) \<and>
   js_le (to_lineHeight (terminalOptionsForProfile base font profile)) (Fin 2) \<and>
   js_le (Fin 100) (to_scrollback (terminalOptionsForProfile base font profile)) \<and>
   js_le (to_scrollback (terminalOptionsForProfile base font profile)) (Fin 100000) \<and>
   to_cursorStyle (terminalOptionsForProfile base font profile) \<in> {''bar'', ''underline'', ''block''}"
  by (auto simp: terminalOptionsForProfile_def bounded_within cursorStyle_def split: option.split)

end
