(* ===== verification/JsonPrint.thy ===== *)
theory JsonPrint
  imports Json
begin

text \<open>
  \<open>JSON.stringify\<close>, and that the parser reads its text back. How a number is printed is an
  argument: the decimal printing of doubles is not modelled, and the stores that use this theory
  keep integers only, for which \<open>int_text\<close> is the printing.
\<close>

section \<open>Strings\<close>

definition hex_digit :: "nat \<Rightarrow> char" where
  "hex_digit n = (if n < 10 then char_of (48 + n) else char_of (87 + n))"

definition esc_char :: "char \<Rightarrow> string" where
  "esc_char c =
     (let b = char_of (92::nat) in
      if code c = 34 \<or> code c = 92 then [b, c]
      else if code c = 8 then [b, CHR ''b'']
      else if code c = 9 then [b, CHR ''t'']
      else if code c = 10 then [b, CHR ''n'']
      else if code c = 12 then [b, CHR ''f'']
      else if code c = 13 then [b, CHR ''r'']
      else if code c < 32 then [b, CHR ''u'', CHR ''0'', CHR ''0'', hex_digit (code c div 16), hex_digit (code c mod 16)]
      else [c])"

definition str_text :: "string \<Rightarrow> string" where
  "str_text s = char_of (34::nat) # concat (map esc_char s) @ [char_of (34::nat)]"

section \<open>Values\<close>

text \<open>Commas stand between the elements and between the members.\<close>

fun json_text :: "(rat \<Rightarrow> string) \<Rightarrow> json \<Rightarrow> string"
  and elems_text :: "(rat \<Rightarrow> string) \<Rightarrow> json list \<Rightarrow> string"
  and members_text :: "(rat \<Rightarrow> string) \<Rightarrow> (string \<times> json) list \<Rightarrow> string" where
  "json_text num JNull = ''null''"
| "json_text num (JBool b) = bool_str b"
| "json_text num (JNum r) = num r"
| "json_text num (JStr s) = str_text s"
| "json_text num (JArr vs) = ''['' @ elems_text num vs @ '']''"
| "json_text num (JObj ms) = ''{'' @ members_text num ms @ ''}''"
| "elems_text num [] = []"
| "elems_text num (v # vs) = json_text num v @ (if vs = [] then [] else '','' @ elems_text num vs)"
| "members_text num [] = []"
| "members_text num ((k, v) # ms) =
     str_text k @ '':'' @ json_text num v @ (if ms = [] then [] else '','' @ members_text num ms)"

definition int_text :: "rat \<Rightarrow> string" where
  "int_text r = int_str \<lfloor>r\<rfloor>"

text \<open>What may follow a number without being read as a part of it.\<close>

definition ends_value :: "string \<Rightarrow> bool" where
  "ends_value rest \<longleftrightarrow> (rest = [] \<or> hd rest \<in> set '',]}'')"

definition num_ok :: "(rat \<Rightarrow> string) \<Rightarrow> rat \<Rightarrow> bool" where
  "num_ok num r \<longleftrightarrow> num r \<noteq> [] \<and> (is_digit (hd (num r)) \<or> hd (num r) = CHR ''-'')
     \<and> (\<forall>rest. ends_value rest \<longrightarrow> p_num (num r @ rest) = Some (r, rest))"

text \<open>Values that can be printed: readable numbers, and no key twice in an object.\<close>

fun printable :: "(rat \<Rightarrow> string) \<Rightarrow> json \<Rightarrow> bool" where
  "printable num (JNum r) = num_ok num r"
| "printable num (JArr vs) = list_all (printable num) vs"
| "printable num (JObj ms) = (distinct (map fst ms) \<and> list_all (\<lambda>m. printable num (snd m)) ms)"
| "printable num _ = True"

section \<open>Reading back\<close>

lemma hex_digit_val [simp]: "n < 16 \<Longrightarrow> hex_val (hex_digit n) = Some n"
  by (auto simp: hex_val_def hex_digit_def is_digit_def)

lemma hex4_low: "n < 256 \<Longrightarrow> hex4 (CHR ''0'') (CHR ''0'') (hex_digit (n div 16)) (hex_digit (n mod 16)) = Some (char_of n)"
proof -
  assume "n < 256"
  then have "n div 16 < 16" "n mod 16 < 16" by simp_all
  moreover have "hex_val (CHR ''0'') = Some 0" by code_simp
  ultimately show ?thesis by (simp add: hex4_def)
qed

lemma char_of_iff: "n < 256 \<Longrightarrow> char_of n = c \<longleftrightarrow> code c = n"
  by auto

lemma p_str_esc: "p_str (esc_char c @ s) = map_option (apfst ((#) c)) (p_str s)"
proof -
  have u: "code (CHR ''u'') = 117" by code_simp
  consider "code c = 34" | "code c = 92" | "code c \<in> {8, 9, 10, 12, 13}"
    | "code c < 32" "code c \<notin> {8, 9, 10, 12, 13}" | "32 \<le> code c" "code c \<noteq> 34" "code c \<noteq> 92" by force
  then show ?thesis
  proof cases
    case 3
    have codes: "code (CHR ''b'') = 98" "code (CHR ''t'') = 116" "code (CHR ''n'') = 110"
      "code (CHR ''f'') = 102" "code (CHR ''r'') = 114" "code (CHR ''u'') = 117" by code_simp+
    obtain n :: nat where "n \<in> {8, 9, 10, 12, 13}" and c: "c = char_of n"
      using 3 by (intro that[of "code c"]) simp_all
    then show ?thesis unfolding c by (auto simp: esc_char_def Let_def unescape_def codes)
  next
    case 4
    with hex4_low[of "code c"] u show ?thesis by (auto simp: esc_char_def Let_def)
  qed (auto simp: esc_char_def Let_def unescape_def u)
qed

lemma p_str_text: "p_str (concat (map esc_char s) @ char_of (34::nat) # rest) = Some (s, rest)"
  by (induction s) (simp_all add: p_str_esc)

lemma not_space: "skip_ws (c # s) = c # s" if "\<not> is_json_space c"
  using that by (simp add: skip_ws_def)

lemma expect_hit: "\<not> is_json_space c \<Longrightarrow> expect c (c # s) = Some s"
  by (simp add: expect_def not_space)

lemma expect_miss: "\<not> is_json_space d \<Longrightarrow> d \<noteq> c \<Longrightarrow> expect c (d # s) = None"
  by (simp add: expect_def not_space)

text \<open>The signs of JSON.\<close>

definition json_sign :: "char \<Rightarrow> bool" where
  "json_sign c \<longleftrightarrow> c \<in> set '',:[]{}'' \<or> code c = 34"

lemma sign_facts:
  "json_sign (CHR '','')" "json_sign (CHR '':'')" "json_sign (CHR '']'')" "json_sign (CHR ''}'')"
  "json_sign (CHR ''['')" "json_sign (CHR ''{'')" "json_sign (char_of (34::nat))"
  by (simp_all add: json_sign_def)

lemma sign_not_space: "json_sign c \<Longrightarrow> \<not> is_json_space c"
proof -
  have "list_all (\<lambda>c. \<not> is_json_space c) '',:[]{}''" by code_simp
  then show "json_sign c \<Longrightarrow> \<not> is_json_space c"
    by (auto simp: json_sign_def is_json_space_def list_all_iff)
qed

lemma sign_expect [simp]:
  "expect (CHR '','') (CHR '','' # s) = Some s" "expect (CHR '':'') (CHR '':'' # s) = Some s"
  "expect (CHR '']'') (CHR '']'' # s) = Some s" "expect (CHR ''}'') (CHR ''}'' # s) = Some s"
  "expect (CHR '','') (CHR '']'' # s) = None" "expect (CHR '','') (CHR ''}'' # s) = None"
  "expect (char_of (34::nat)) (char_of (34::nat) # s) = Some s"
  by (simp_all add: expect_hit expect_miss sign_not_space sign_facts)

text \<open>A printed value begins with a character that ends neither an array nor an object.\<close>

definition value_start :: "char \<Rightarrow> bool" where
  "value_start c \<longleftrightarrow> \<not> is_json_space c \<and> c \<noteq> CHR '']'' \<and> c \<noteq> CHR ''}''"

lemma start_facts: "value_start (CHR ''n'')" "value_start (CHR ''t'')" "value_start (CHR ''f'')"
  "value_start (CHR ''['')" "value_start (CHR ''{'')" "value_start (CHR ''-'')"
  by code_simp+

lemma quote_start: "value_start (char_of (34::nat))"
proof -
  have "code (CHR '']'') = 93" "code (CHR ''}'') = 125" by code_simp+
  then show ?thesis by (auto simp: value_start_def is_json_space_def char_of_iff)
qed

lemma digit_start: "is_digit c \<Longrightarrow> value_start c"
proof -
  have "code (CHR '']'') = 93" "code (CHR ''}'') = 125" by code_simp+
  then show "is_digit c \<Longrightarrow> value_start c" by (auto simp: value_start_def is_digit_def is_json_space_def)
qed

lemma text_start: "printable num v \<Longrightarrow> \<exists>c t. json_text num v = c # t \<and> value_start c"
proof (cases v)
  case (JNum r)
  assume "printable num v"
  with JNum have "num r \<noteq> []" "is_digit (hd (num r)) \<or> hd (num r) = CHR ''-''" by (simp_all add: num_ok_def)
  with JNum show ?thesis by (cases "num r") (auto simp: digit_start start_facts)
qed (auto simp: start_facts quote_start str_text_def bool_str_def)

lemma text_nonempty: "printable num v \<Longrightarrow> 0 < length (json_text num v)"
  using text_start by force

lemma ends_value_simps [simp]: "ends_value []" "ends_value (CHR '','' # s)" "ends_value (CHR '']'' # s)"
  "ends_value (CHR ''}'' # s)"
  by (simp_all add: ends_value_def)

lemma p_lit_text: "p_lit w v (w @ rest) = Some (v, rest)"
  by (simp add: p_lit_def)

lemma start_not:
  "is_digit c \<or> c = CHR ''-'' \<Longrightarrow> \<not> is_json_space c \<and> c \<noteq> CHR ''n'' \<and> c \<noteq> CHR ''t'' \<and> c \<noteq> CHR ''f''
     \<and> code c \<noteq> 34 \<and> c \<noteq> CHR ''['' \<and> c \<noteq> CHR ''{''"
proof -
  have "code (CHR ''n'') = 110" "code (CHR ''t'') = 116" "code (CHR ''f'') = 102" "code (CHR ''['') = 91"
    "code (CHR ''{'') = 123" "code (CHR ''-'') = 45" by code_simp+
  then show "is_digit c \<or> c = CHR ''-'' \<Longrightarrow> ?thesis" by (auto simp: is_digit_def is_json_space_def)
qed

lemma value_not_bracket:
  "printable num v \<Longrightarrow> expect (CHR '']'') (json_text num v @ s) = None"
  using text_start by (force simp: value_start_def expect_miss)

lemma obj_set_fresh: "k \<notin> fst ` set ms \<Longrightarrow> obj_set k v ms = ms @ [(k, v)]"
  by (induction ms) auto

lemma sign_codes: "code (CHR ''n'') \<noteq> 34" "char_of (34::nat) \<noteq> CHR ''n''" "char_of (34::nat) \<noteq> CHR ''t''"
  "char_of (34::nat) \<noteq> CHR ''f''" "\<not> is_json_space (CHR ''n'')" "\<not> is_json_space (CHR ''t'')"
  "\<not> is_json_space (CHR ''f'')" "\<not> is_json_space (CHR ''['')" "\<not> is_json_space (CHR ''{'')"
  "\<not> is_json_space (char_of (34::nat))" "code (CHR ''['') \<noteq> 34" "code (CHR ''{'') \<noteq> 34"
proof -
  have "code (CHR ''n'') = 110" "code (CHR ''t'') = 116" "code (CHR ''f'') = 102" by code_simp+
  then show "code (CHR ''n'') \<noteq> 34" "char_of (34::nat) \<noteq> CHR ''n''" "char_of (34::nat) \<noteq> CHR ''t''"
    "char_of (34::nat) \<noteq> CHR ''f''" by (auto simp: char_of_iff)
  show "\<not> is_json_space (char_of (34::nat))" by (simp add: is_json_space_def)
qed code_simp+

text \<open>The fuel that is enough: twice the length of the printed text.\<close>

lemma p_val_text:
  "printable num v \<Longrightarrow> ends_value rest \<Longrightarrow> 2 * length (json_text num v) \<le> n \<Longrightarrow>
     p_val n (json_text num v @ rest) = Some (v, rest)"
  and p_elems_text:
  "list_all (printable num) vs \<Longrightarrow> vs \<noteq> [] \<Longrightarrow> 2 * length (elems_text num vs) < n \<Longrightarrow>
     p_elems n acc (elems_text num vs @ '']'' @ rest) = Some (JArr (acc @ vs), rest)"
  and p_members_text:
  "list_all (\<lambda>m. printable num (snd m)) ms \<Longrightarrow> ms \<noteq> [] \<Longrightarrow> distinct (map fst (macc @ ms)) \<Longrightarrow>
     2 * length (members_text num ms) < n \<Longrightarrow>
     p_members n macc (members_text num ms @ ''}'' @ rest) = Some (JObj (macc @ ms), rest)"
proof (induction num v and num vs and num ms arbitrary: n rest and n acc rest and n macc rest
    rule: json_text_elems_text_members_text.induct)
  case (1 num)
  then obtain m where "n = Suc m" by (cases n) auto
  then show ?case by (simp add: not_space sign_codes p_lit_text[of "''null''", simplified])
next
  case (2 num b)
  then obtain m where "n = Suc m" by (cases n) (auto simp: bool_str_def split: if_splits)
  then show ?case
    using p_lit_text[of "''true''" "JBool True" rest] p_lit_text[of "''false''" "JBool False" rest]
    by (simp add: bool_str_def not_space sign_codes)
next
  case (3 num r)
  then have r: "num_ok num r" by simp
  with text_nonempty[of num "JNum r"] 3 obtain m where m: "n = Suc m" by (cases n) auto
  obtain c t where c: "num r = c # t" "is_digit c \<or> c = CHR ''-''" using r by (cases "num r") (auto simp: num_ok_def)
  have "p_num (c # t @ rest) = Some (r, rest)" using r 3 c by (auto simp: num_ok_def)
  with c start_not[OF c(2)] show ?case by (simp add: m not_space)
next
  case (4 num s)
  then obtain m where "n = Suc m" by (cases n) (auto simp: str_text_def)
  then show ?case by (simp add: str_text_def not_space sign_codes p_str_text)
next
  case (5 num vs)
  then obtain m where m: "n = Suc m" by (cases n) auto
  show ?case
  proof (cases "vs = []")
    case True
    then show ?thesis by (simp add: m not_space sign_codes)
  next
    case False
    then obtain w ws where w: "vs = w # ws" by (cases vs) auto
    have "expect (CHR '']'') (elems_text num vs @ '']'' @ rest) = None"
      using 5 w by (simp add: value_not_bracket)
    moreover have "p_elems m [] (elems_text num vs @ '']'' @ rest) = Some (JArr vs, rest)"
      using 5 False m by simp
    ultimately show ?thesis by (simp add: m not_space sign_codes)
  qed
next
  case (6 num ms)
  then obtain m where m: "n = Suc m" by (cases n) auto
  show ?case
  proof (cases "ms = []")
    case True
    then show ?thesis by (simp add: m not_space sign_codes)
  next
    case False
    then obtain w ws where w: "ms = w # ws" by (cases ms) auto
    have "char_of (34::nat) \<noteq> CHR ''}''" using quote_start by (auto simp: value_start_def)
    then have "expect (CHR ''}'') (members_text num ms @ ''}'' @ rest) = None"
      by (cases w) (simp add: w str_text_def expect_miss sign_codes)
    moreover have "p_members m [] (members_text num ms @ ''}'' @ rest) = Some (JObj ms, rest)"
      using 6 False m by simp
    ultimately show ?thesis by (simp add: m not_space sign_codes)
  qed
next
  case (8 num v vs)
  then obtain m where m: "n = Suc m" by (cases n) auto
  show ?case
  proof (cases "vs = []")
    case True
    have "p_val m (json_text num v @ '']'' @ rest) = Some (v, '']'' @ rest)"
      using 8 True m by simp
    with True show ?thesis by (simp add: m)
  next
    case False
    have "p_val m (json_text num v @ '','' @ elems_text num vs @ '']'' @ rest)
        = Some (v, '','' @ elems_text num vs @ '']'' @ rest)"
      using 8 False m by simp
    moreover have "p_elems m (acc @ [v]) (elems_text num vs @ '']'' @ rest) = Some (JArr (acc @ v # vs), rest)"
      using 8 False m by simp
    ultimately show ?thesis using False by (simp add: m)
  qed
next
  case (10 num k v ms)
  then obtain m where m: "n = Suc m" by (cases n) auto
  have new_key: "k \<notin> fst ` set macc" using "10.prems"(3) by auto
  from new_key have fresh: "obj_set k v macc = macc @ [(k, v)]" by (rule obj_set_fresh)
  show ?case
  proof (cases "ms = []")
    case True
    have "p_val m (json_text num v @ ''}'' @ rest) = Some (v, ''}'' @ rest)"
      using 10 True m by simp
    with True fresh show ?thesis by (simp add: m str_text_def p_str_text)
  next
    case False
    have "p_val m (json_text num v @ '','' @ members_text num ms @ ''}'' @ rest)
        = Some (v, '','' @ members_text num ms @ ''}'' @ rest)"
      using 10 False m by simp
    moreover have "p_members m (macc @ [(k, v)]) (members_text num ms @ ''}'' @ rest)
        = Some (JObj (macc @ (k, v) # ms), rest)"
      using 10 False m by simp
    ultimately show ?thesis using False fresh by (simp add: m str_text_def p_str_text)
  qed
qed simp_all

theorem json_text_read_back: "printable num v \<Longrightarrow> json_parse (json_text num v) = Some v"
  using p_val_text[of num v "[]" "Suc (Suc (2 * length (json_text num v)))"]
  by (simp add: json_parse_def skip_ws_def del: p_val.simps)

text \<open>Integers are read back.\<close>

lemma digits_stop: "ends_value rest \<Longrightarrow> rest = [] \<or> \<not> is_digit (hd rest) \<and> hd rest \<noteq> CHR ''.'' \<and> hd rest \<noteq> CHR ''e'' \<and> hd rest \<noteq> CHR ''E''"
proof -
  have "list_all (\<lambda>c. \<not> is_digit c \<and> c \<noteq> CHR ''.'' \<and> c \<noteq> CHR ''e'' \<and> c \<noteq> CHR ''E'') '',]}''" by code_simp
  then show "ends_value rest \<Longrightarrow> ?thesis" by (auto simp: ends_value_def)
qed

lemma p_digits_nat: "ends_value rest \<Longrightarrow> p_digits (nat_str m @ rest) = (nat_str m, rest)"
proof -
  assume "ends_value rest"
  then have "rest = [] \<or> \<not> is_digit (hd rest)" using digits_stop by blast
  then have "takeWhile is_digit rest = []" "dropWhile is_digit rest = rest" by (cases rest; simp)+
  moreover have "\<forall>c \<in> set (nat_str m). is_digit c" using nat_str_digits by blast
  ultimately show ?thesis by (simp add: p_digits_def takeWhile_append2 dropWhile_append2)
qed

lemma nat_str_no_zero: "\<not> (1 < length (nat_str m) \<and> hd (nat_str m) = CHR ''0'')"
proof (induction m rule: nat_str.induct)
  case (1 n)
  show ?case
  proof (cases "n < 10")
    case True
    then show ?thesis by (simp add: nat_str.simps[of n])
  next
    case False
    have "hd (nat_str (n div 10)) \<noteq> CHR ''0''"
    proof (cases "n div 10 < 10")
      case True
      have "code (CHR ''0'') = 48" by code_simp
      with True False have "digit_char (n div 10) \<noteq> CHR ''0''" using digit_char_code[OF True] by auto
      with True show ?thesis by (simp add: nat_str.simps[of "n div 10"])
    next
      case more_digits: False
      then have "1 < length (nat_str (n div 10))" by (simp add: nat_str.simps[of "n div 10"])
      with 1 False show ?thesis by blast
    qed
    with False show ?thesis by (simp add: nat_str.simps[of n])
  qed
qed

lemma p_num_nat: "ends_value rest \<Longrightarrow> p_num (nat_str m @ rest) = Some (of_nat m, rest)"
proof -
  assume e: "ends_value rest"
  have "hd (nat_str m @ rest) \<noteq> CHR ''-''" using nat_str_no_dash[of m] by (cases "nat_str m") auto
  moreover have "p_frac rest = Some (0, rest)" "p_exp rest = Some (1, rest)"
    using digits_stop[OF e] by (cases rest; auto simp: p_frac_def p_exp_def)+
  ultimately show ?thesis
    using p_digits_nat[OF e, of m] nat_str_no_zero[of m] by (simp add: p_num_def Let_def)
qed

lemma p_num_minus: "ends_value rest \<Longrightarrow> p_num (CHR ''-'' # nat_str m @ rest) = Some (- of_nat m, rest)"
proof -
  assume e: "ends_value rest"
  have "p_frac rest = Some (0, rest)" "p_exp rest = Some (1, rest)"
    using digits_stop[OF e] by (cases rest; auto simp: p_frac_def p_exp_def)+
  then show ?thesis
    using p_digits_nat[OF e, of m] nat_str_no_zero[of m] by (simp add: p_num_def Let_def)
qed

lemma int_text_ok: "num_ok int_text (of_int i)"
proof (cases "i < 0")
  case True
  then have "of_int i = - rat_of_nat (nat (- i))" by simp
  with True show ?thesis by (simp add: num_ok_def int_text_def int_str_def p_num_minus)
next
  case False
  then have "of_int i = rat_of_nat (nat i)" by simp
  moreover have "is_digit (hd (nat_str (nat i)))" by (rule nat_str_digits[of _ "nat i"]) simp
  ultimately show ?thesis using False by (simp add: num_ok_def int_text_def int_str_def p_num_nat)
qed

end
