(* ===== verification/Toolbar.thy ===== *)
theory Toolbar
  imports CommandRegistry JsonPrint Env
begin

text \<open>
  The configurable toolbar (\<open>commands/toolbarConfig.ts\<close>, \<open>hooks/useToolbarConfig.ts\<close>,
  \<open>components/ToolbarCustomizeDialog.tsx\<close>): its entries, their normal form, their storage in a
  preference and the migration of the older storage; which buttons are disabled
  (\<open>commands/toolbarCommandState.ts\<close>) and which sections fit (\<open>pane/toolbarOverflowTier.ts\<close>).
\<close>

section \<open>Entries\<close>

datatype ToolbarEntry = TbCommand string | TbSeparator

record ToolbarCommandMeta =
  tm_commandId :: string
  tm_label :: string
  tm_tooltip :: string

definition TOOLBAR_LABELS :: "(string, string) obj" where
  "TOOLBAR_LABELS =
     [(''op.view'', ''View''), (''op.edit'', ''Edit''), (''op.openDefault'', ''Open''),
      (''op.copyTo'', ''Copy''), (''op.moveTo'', ''Move''), (''create.folder'', ''New Folder''),
      (''op.delete'', ''Delete''), (''op.properties'', ''Props'')]"

definition TOOLBAR_DESCRIPTIONS :: "(string, string) obj" where
  "TOOLBAR_DESCRIPTIONS =
     [(''op.view'', ''View selected item''), (''op.edit'', ''Edit selected file in built-in editor''),
      (''op.openDefault'', ''Open selected file with system default app''),
      (''op.rename'', ''Rename selected item''),
      (''op.copyTo'', ''Copy selected items to the opposite pane''),
      (''op.moveTo'', ''Move selected items to the opposite pane''),
      (''create.folder'', ''Create a new folder in the active pane''),
      (''op.delete'', ''Delete selected items''),
      (''op.properties'', ''Show properties for selected item''),
      (''op.compress'', ''Create archive from selection''), (''op.extract'', ''Extract selected archive''),
      (''search.recursive'', ''Open recursive search for the active pane''),
      (''search.focusFilter'', ''Focus quick filter for the active pane''),
      (''op.openTerminal'', ''Open embedded terminal in this folder''),
      (''op.openTerminalExternal'', ''Open this folder in the system terminal''),
      (''terminal.runCommand'', ''Run a command in the active terminal''),
      (''terminal.spawnAndRun'', ''Spawn a terminal in this folder and run a command''),
      (''view.toggleActivity'', ''Open jobs and activity panel''),
      (''app.settings'', ''Open application settings''), (''nav.home'', ''Go to home directory''),
      (''nav.root'', ''Go to filesystem root''), (''nav.volumePicker'', ''Open drives and volumes'')]"

definition DEFAULT_TOOLBAR_ENTRIES :: "ToolbarEntry list" where
  "DEFAULT_TOOLBAR_ENTRIES = map TbCommand
     [''op.view'', ''op.edit'', ''op.openDefault'', ''op.rename'', ''op.copyTo'', ''op.moveTo'',
      ''create.folder'', ''op.delete'', ''op.properties'']"

definition TOOLBAR_STORAGE_KEY :: string where
  "TOOLBAR_STORAGE_KEY = ''fileoctopus.toolbarEntries''"

definition FIXED_NAV_COMMANDS :: "string list" where
  "FIXED_NAV_COMMANDS =
     [''nav.back'', ''nav.forward'', ''nav.up'', ''nav.root'', ''nav.home'', ''nav.volumePicker'',
      ''nav.refresh'']"

definition toolbarCommandMeta :: "bool \<Rightarrow> string \<Rightarrow> ToolbarCommandMeta option" where
  "toolbarCommandMeta mac commandId =
     do { command \<leftarrow> getCommand commandId;
          Some (let description = (case obj_get TOOLBAR_DESCRIPTIONS commandId of
                                     Some d \<Rightarrow> d | None \<Rightarrow> cd_label command @ '' command'')
                in \<lparr>tm_commandId = commandId,
                    tm_label = (case obj_get TOOLBAR_LABELS commandId of
                                  Some l \<Rightarrow> l | None \<Rightarrow> cd_label command),
                    tm_tooltip = (case formatCommandShortcut commandId mac of
                                    Some k \<Rightarrow> if k \<noteq> [] then description @ '' ('' @ k @ '')'' else description
                                  | None \<Rightarrow> description)\<rparr>) }"

text \<open>The commands the dialog offers; the ids are distinct, so the last filter keeps all.\<close>

definition customizable_ids :: "string list" where
  "customizable_ids =
     (let toolbarCommandIds = map cd_id (commandsForSurface SToolbar)
      in filter (\<lambda>i. i \<notin> set FIXED_NAV_COMMANDS
           \<and> i \<notin> set [''app.commandPalette'', ''search.recursive'', ''search.focusFilter'', ''view.toggleActivity'',
                     ''app.settings'', ''op.compress'', ''op.extract'', ''op.openTerminal'']
           \<and> i \<in> set toolbarCommandIds) (map cd_id COMMAND_REGISTRY))"

definition customizableToolbarCommands :: "bool \<Rightarrow> ToolbarCommandMeta list option" where
  "customizableToolbarCommands mac =
     those (map (toolbarCommandMeta mac) (set_of_array customizable_ids))"

definition isCommandId :: "string \<Rightarrow> bool" where
  "isCommandId v \<longleftrightarrow> list_ex (\<lambda>c. cd_id c = v) COMMAND_REGISTRY"

definition parseEntry :: "json \<Rightarrow> ToolbarEntry option" where
  "parseEntry raw =
     (case raw of
        JStr t \<Rightarrow> if t = ''separator'' then Some TbSeparator
                  else if isCommandId t then Some (TbCommand t) else None
      | JObj ms \<Rightarrow>
          (if json_prop (Some raw) ''kind'' = Some (JStr ''separator'') then Some TbSeparator
           else if json_prop (Some raw) ''kind'' = Some (JStr ''command'')
           then (case json_prop (Some raw) ''commandId'' of
                   Some (JStr i) \<Rightarrow> if i \<noteq> [] \<and> isCommandId i then Some (TbCommand i) else None
                 | _ \<Rightarrow> None)
           else None)
      | _ \<Rightarrow> None)"

section \<open>Normal form\<close>

text \<open>The loop: a separator after a separator and a command that is there already are skipped.\<close>

definition norm_step :: "ToolbarEntry list \<Rightarrow> ToolbarEntry \<Rightarrow> ToolbarEntry list" where
  "norm_step normalized entry =
     (case entry of
        TbSeparator \<Rightarrow> if last_opt normalized = Some TbSeparator then normalized else normalized @ [entry]
      | TbCommand i \<Rightarrow> if entry \<in> set normalized then normalized else normalized @ [entry])"

definition trim_separators :: "ToolbarEntry list \<Rightarrow> ToolbarEntry list" where
  "trim_separators es =
     rev (dropWhile (\<lambda>e. e = TbSeparator) (rev (dropWhile (\<lambda>e. e = TbSeparator) es)))"

definition normalizeToolbarEntries :: "ToolbarEntry list \<Rightarrow> ToolbarEntry list" where
  "normalizeToolbarEntries entries =
     (let normalized = trim_separators (foldl norm_step [] entries)
      in if normalized \<noteq> [] then normalized else DEFAULT_TOOLBAR_ENTRIES)"

section \<open>Storage\<close>

text \<open>What \<open>JSON.stringify\<close> makes of the entries.\<close>

definition entry_json :: "ToolbarEntry \<Rightarrow> json" where
  "entry_json e =
     (case e of
        TbCommand i \<Rightarrow> JObj [(''kind'', JStr ''command''), (''commandId'', JStr i)]
      | TbSeparator \<Rightarrow> JObj [(''kind'', JStr ''separator'')])"

definition entries_text :: "ToolbarEntry list \<Rightarrow> string" where
  "entries_text es = json_text int_text (JArr (map entry_json es))"

definition entries_of_json :: "json list \<Rightarrow> ToolbarEntry list" where
  "entries_of_json items = normalizeToolbarEntries (List.map_filter parseEntry items)"

definition parseToolbarEntriesJson :: "string option \<Rightarrow> ToolbarEntry list option" where
  "parseToolbarEntriesJson raw =
     (if (case raw of Some t \<Rightarrow> js_trim t = [] | None \<Rightarrow> True) then None
      else case json_parse (the raw) of
             Some (JArr items) \<Rightarrow> Some (entries_of_json items)
           | _ \<Rightarrow> None)"

definition toolbarEntriesFromPreference :: "string option \<Rightarrow> ToolbarEntry list" where
  "toolbarEntriesFromPreference raw =
     (case parseToolbarEntriesJson raw of Some es \<Rightarrow> es | None \<Rightarrow> DEFAULT_TOOLBAR_ENTRIES)"

definition readStoredToolbarEntries :: "World \<Rightarrow> ToolbarEntry list" where
  "readStoredToolbarEntries w =
     (case readStorage w TOOLBAR_STORAGE_KEY of
        Some raw \<Rightarrow> (if raw = [] then DEFAULT_TOOLBAR_ENTRIES
                     else case json_parse raw of
                            Some (JArr items) \<Rightarrow> entries_of_json items
                          | _ \<Rightarrow> DEFAULT_TOOLBAR_ENTRIES)
      | None \<Rightarrow> DEFAULT_TOOLBAR_ENTRIES)"

text \<open>Writing is not guarded: \<open>None\<close> is the exception of \<open>setItem\<close>.\<close>

definition writeStoredToolbarEntries :: "ToolbarEntry list \<Rightarrow> World \<Rightarrow> World option" where
  "writeStoredToolbarEntries entries w =
     (if \<not> ls_defined w then Some w
      else if ls_setFails w then None
      else Some (w\<lparr>ls_items := obj_set TOOLBAR_STORAGE_KEY
             (entries_text (normalizeToolbarEntries entries)) (ls_items w)\<rparr>))"

definition clearStoredToolbarEntries :: "World \<Rightarrow> World" where
  "clearStoredToolbarEntries w =
     (if \<not> ls_defined w then w else w\<lparr>ls_items := obj_del TOOLBAR_STORAGE_KEY (ls_items w)\<rparr>)"

text \<open>\<open>migrateLegacyToolbarEntries\<close>: \<open>preference\<close> is the toolbar preference as it is stored, \<open>stored\<close>
  whether the back end accepts the new one. The result is the preference afterwards and local
  storage; \<open>None\<close> is the exception of \<open>getItem\<close>.\<close>

definition migrateLegacyToolbarEntries ::
  "string option \<Rightarrow> bool \<Rightarrow> World \<Rightarrow> (string option \<times> World) option" where
  "migrateLegacyToolbarEntries preference stored w =
     (if (case preference of Some t \<Rightarrow> js_trim t \<noteq> [] | None \<Rightarrow> False) then Some (preference, w)
      else do { legacyRaw \<leftarrow> readValue w TOOLBAR_STORAGE_KEY;
                Some (case legacyRaw of
                        None \<Rightarrow> (preference, w)
                      | Some raw \<Rightarrow>
                          (if raw = [] then (preference, w)
                           else case parseToolbarEntriesJson (Some raw) of
                                  None \<Rightarrow> (preference, clearStoredToolbarEntries w)
                                | Some es \<Rightarrow>
                                    (if stored then (Some (entries_text es), clearStoredToolbarEntries w)
                                     else (preference, w)))) })"

text \<open>\<open>saveEntries\<close>: what is sent as the new preference, and what remains once it is stored.\<close>

definition saveEntries :: "ToolbarEntry list \<Rightarrow> bool \<Rightarrow> World \<Rightarrow> string \<times> World" where
  "saveEntries entries stored w =
     (entries_text (normalizeToolbarEntries entries), if stored then clearStoredToolbarEntries w else w)"

definition resetEntries :: "bool \<Rightarrow> World \<Rightarrow> string \<times> World" where
  "resetEntries stored w = saveEntries DEFAULT_TOOLBAR_ENTRIES stored w"

section \<open>The dialog\<close>

definition move_entry :: "nat \<Rightarrow> bool \<Rightarrow> ToolbarEntry list \<Rightarrow> ToolbarEntry list" where
  "move_entry index up draft =
     (if (up \<and> index = 0) \<or> (\<not> up \<and> length draft \<le> Suc index) then draft
      else let nextIndex = (if up then index - 1 else Suc index);
               rest = take index draft @ drop (Suc index) draft
           in take nextIndex rest @ draft ! index # drop nextIndex rest)"

definition remove_at :: "nat \<Rightarrow> ToolbarEntry list \<Rightarrow> ToolbarEntry list" where
  "remove_at index draft = take index draft @ drop (Suc index) draft"

definition add_command :: "string \<Rightarrow> ToolbarEntry list \<Rightarrow> ToolbarEntry list" where
  "add_command addCommandId draft = (if addCommandId = [] then draft else draft @ [TbCommand addCommandId])"

section \<open>Disabled buttons and narrow windows\<close>

record ToolbarCommandContext =
  tc_selectedCount :: nat
  tc_canRename :: bool
  tc_canPaste :: bool
  tc_canView :: bool
  tc_canEdit :: bool

definition isToolbarCommandDisabled :: "string \<Rightarrow> ToolbarCommandContext \<Rightarrow> bool" where
  "isToolbarCommandDisabled commandId ctx =
     (if commandId = ''op.view'' then False
      else if commandId = ''op.edit'' \<or> commandId = ''op.openDefault'' then \<not> tc_canEdit ctx
      else if commandId = ''op.rename'' then \<not> tc_canRename ctx
      else if commandId = ''op.paste'' then \<not> tc_canPaste ctx
      else if commandId = ''op.properties'' then tc_selectedCount ctx = 0
      else if commandId \<in> set [''op.copy'', ''op.cut'', ''op.copyTo'', ''op.moveTo'', ''op.delete'', ''op.trash'',
             ''op.deletePermanent'', ''op.reveal'', ''op.compress'', ''op.extract'', ''op.checksum'',
             ''clipboard.copyPath'', ''clipboard.copyName'', ''op.calculateSize'', ''op.toggleStarred'']
      then tc_selectedCount ctx = 0 else False)"

datatype ToolbarOverflowTier = TierFull | TierComfortable | TierCompact | TierMinimal

datatype ToolbarSection = SecArchive | SecCompare | SecSync | SecTerminal | SecHotlist | SecNetwork | SecSettings

definition resolveToolbarOverflowTier :: "rat \<Rightarrow> ToolbarOverflowTier" where
  "resolveToolbarOverflowTier width =
     (if 1180 \<le> width then TierFull else if 980 \<le> width then TierComfortable
      else if 760 \<le> width then TierCompact else TierMinimal)"

definition isToolbarSectionVisible :: "ToolbarSection \<Rightarrow> ToolbarOverflowTier \<Rightarrow> bool" where
  "isToolbarSectionVisible section tier =
     (case section of
        SecArchive \<Rightarrow> tier = TierFull \<or> tier = TierComfortable
      | SecCompare \<Rightarrow> tier = TierFull
      | SecNetwork \<Rightarrow> tier = TierFull
      | SecSync \<Rightarrow> tier = TierFull \<or> tier = TierComfortable
      | SecTerminal \<Rightarrow> True
      | SecHotlist \<Rightarrow> tier = TierFull \<or> tier = TierComfortable
      | SecSettings \<Rightarrow> tier = TierFull)"

end
