(* ===== verification/ToolbarFacts.thy ===== *)
theory ToolbarFacts
  imports Toolbar RegistryIds
begin

text \<open>
  The toolbar is always in normal form, however its entries were edited or stored, and what is
  saved or migrated is what is shown afterwards.
\<close>

section \<open>The normal form\<close>

definition tb_commands :: "ToolbarEntry list \<Rightarrow> string list" where
  "tb_commands es = List.map_filter (\<lambda>e. case e of TbCommand i \<Rightarrow> Some i | TbSeparator \<Rightarrow> None) es"

definition apart :: "ToolbarEntry \<Rightarrow> ToolbarEntry \<Rightarrow> bool" where
  "apart a b \<longleftrightarrow> \<not> (a = TbSeparator \<and> b = TbSeparator)"

definition toolbar_normal :: "ToolbarEntry list \<Rightarrow> bool" where
  "toolbar_normal es \<longleftrightarrow> es \<noteq> [] \<and> hd es \<noteq> TbSeparator \<and> last es \<noteq> TbSeparator
     \<and> successively apart es \<and> distinct (tb_commands es)"

lemma tb_commands_simps [simp]:
  "tb_commands [] = []" "tb_commands (TbCommand i # es) = i # tb_commands es"
  "tb_commands (TbSeparator # es) = tb_commands es"
  "tb_commands (es @ fs) = tb_commands es @ tb_commands fs"
  by (simp_all add: tb_commands_def map_filter_def)

lemma set_tb_commands: "i \<in> set (tb_commands es) \<longleftrightarrow> TbCommand i \<in> set es"
  by (induction es) (auto split: ToolbarEntry.split simp: tb_commands_def map_filter_def)

lemma apart_snoc: "successively apart (es @ [e]) \<longleftrightarrow>
    successively apart es \<and> (es = [] \<or> \<not> (last es = TbSeparator \<and> e = TbSeparator))"
  by (induction es rule: induct_list012) (auto simp: apart_def)

lemma last_opt_last: "last_opt es = Some e \<longleftrightarrow> es \<noteq> [] \<and> last es = e"
  by (cases es rule: rev_cases) auto

text \<open>The loop keeps the first occurrence of each command.\<close>

lemma norm_step_commands:
  "tb_commands (norm_step acc e) = (case e of TbCommand i \<Rightarrow> set_add i (tb_commands acc) | TbSeparator \<Rightarrow> tb_commands acc)"
  by (auto simp: norm_step_def set_add_def set_tb_commands split: ToolbarEntry.split)

lemma norm_step_apart: "successively apart acc \<Longrightarrow> successively apart (norm_step acc e)"
  by (auto simp: norm_step_def apart_snoc last_opt_last split: ToolbarEntry.split)

lemma norm_commands:
  "tb_commands (foldl norm_step acc es) = tb_commands acc @ filter (\<lambda>i. i \<notin> set (tb_commands acc)) (set_of_array (tb_commands es))"
proof (induction es arbitrary: acc)
  case (Cons e es)
  show ?case
  proof (cases e)
    case (TbCommand i)
    then show ?thesis by (auto simp: Cons norm_step_commands set_add_def intro: filter_cong)
  qed (simp add: Cons norm_step_commands)
qed simp

lemma norm_apart: "successively apart acc \<Longrightarrow> successively apart (foldl norm_step acc es)"
  by (induction es arbitrary: acc) (simp_all add: norm_step_apart)

lemma drop_separators_commands: "tb_commands (dropWhile (\<lambda>e. e = TbSeparator) es) = tb_commands es"
  by (induction es) auto

lemma tb_commands_rev: "tb_commands (rev es) = rev (tb_commands es)"
proof (induction es)
  case (Cons e es)
  then show ?case by (cases e) auto
qed simp

lemma trim_commands [simp]: "tb_commands (trim_separators es) = tb_commands es"
  using tb_commands_rev[of "dropWhile (\<lambda>e. e = TbSeparator) (rev (dropWhile (\<lambda>e. e = TbSeparator) es))"]
  by (simp add: trim_separators_def drop_separators_commands tb_commands_rev)

lemma apart_drop: "successively apart es \<Longrightarrow> successively apart (dropWhile P es)"
  by (induction es rule: induct_list012) auto

lemma apart_rev: "successively apart (rev es) = successively apart es"
  by (simp add: successively_rev) (rule arg_cong[where f = "\<lambda>p. successively p es"], auto simp: apart_def fun_eq_iff)

lemma apart_trim: "successively apart es \<Longrightarrow> successively apart (trim_separators es)"
  unfolding trim_separators_def apart_rev by (rule apart_drop) (simp only: apart_rev, rule apart_drop)

lemma trim_ends:
  assumes "trim_separators es \<noteq> []"
  shows "hd (trim_separators es) \<noteq> TbSeparator \<and> last (trim_separators es) \<noteq> TbSeparator"
proof -
  let ?front = "dropWhile (\<lambda>e. e = TbSeparator) es"
  let ?tail = "dropWhile (\<lambda>e. e = TbSeparator) (rev ?front)"
  have tl: "?tail \<noteq> []" using assms by (simp add: trim_separators_def)
  then have "hd ?tail \<noteq> TbSeparator" using hd_dropWhile by blast
  moreover have "hd (rev ?tail) = hd ?front"
  proof -
    obtain pre where "rev ?front = pre @ ?tail" using takeWhile_dropWhile_id[of _ "rev ?front"] by metis
    then have "?front = rev ?tail @ rev pre" by (metis rev_append rev_rev_ident)
    then show ?thesis using tl by (metis hd_append2 rev_is_Nil_conv)
  qed
  moreover have "?front \<noteq> []" using tl by (metis dropWhile.simps(1) rev.simps(1))
  then have "hd ?front \<noteq> TbSeparator" using hd_dropWhile by blast
  ultimately show ?thesis using tl by (simp add: trim_separators_def last_rev)
qed

lemma default_normal: "toolbar_normal DEFAULT_TOOLBAR_ENTRIES"
  by (simp add: toolbar_normal_def DEFAULT_TOOLBAR_ENTRIES_def apart_def)

lemma normalize_normal: "toolbar_normal (normalizeToolbarEntries es)"
proof (cases "trim_separators (foldl norm_step [] es) = []")
  case False
  have "distinct (tb_commands (foldl norm_step [] es))" by (simp add: norm_commands)
  with False trim_ends[OF False] show ?thesis
    by (simp add: normalizeToolbarEntries_def toolbar_normal_def Let_def apart_trim norm_apart)
qed (simp add: normalizeToolbarEntries_def default_normal)

lemma norm_fold_id:
  "successively apart (acc @ es) \<Longrightarrow> distinct (tb_commands (acc @ es)) \<Longrightarrow> foldl norm_step acc es = acc @ es"
proof (induction es arbitrary: acc)
  case (Cons e es)
  have "norm_step acc e = acc @ [e]"
    using Cons.prems by (cases e) (auto simp: norm_step_def set_tb_commands[symmetric] last_opt_last
        successively_append_iff apart_def)
  moreover have "foldl norm_step (acc @ [e]) es = (acc @ [e]) @ es"
    using Cons.prems by (intro Cons.IH) (simp_all only: append_assoc append_Cons append_Nil)
  ultimately show ?case by simp
qed simp

lemma trim_id: "es \<noteq> [] \<Longrightarrow> hd es \<noteq> TbSeparator \<Longrightarrow> last es \<noteq> TbSeparator \<Longrightarrow> trim_separators es = es"
proof -
  assume e: "es \<noteq> []" "hd es \<noteq> TbSeparator" "last es \<noteq> TbSeparator"
  then have "dropWhile (\<lambda>e. e = TbSeparator) es = es" by (cases es) auto
  moreover have "dropWhile (\<lambda>e. e = TbSeparator) (rev es) = rev es"
    using e by (cases es rule: rev_cases) auto
  ultimately show ?thesis by (simp add: trim_separators_def)
qed

lemma normal_id: "toolbar_normal es \<Longrightarrow> normalizeToolbarEntries es = es"
  using norm_fold_id[of "[]" es] trim_id[of es]
  by (simp add: toolbar_normal_def normalizeToolbarEntries_def)

lemma trim_empty: "trim_separators es = [] \<longleftrightarrow> tb_commands es = []"
proof
  assume "trim_separators es = []"
  then show "tb_commands es = []" using trim_commands[of es] by simp
next
  assume e: "tb_commands es = []"
  have "\<forall>e \<in> set es. e = TbSeparator"
  proof
    fix e assume "e \<in> set es"
    then show "e = TbSeparator" using e set_tb_commands[of _ es] by (metis ToolbarEntry.exhaust empty_iff list.set(1))
  qed
  then have "dropWhile (\<lambda>e. e = TbSeparator) es = []" by simp
  then show "trim_separators es = []" by (simp only: trim_separators_def dropWhile.simps rev.simps)
qed

section \<open>Storage\<close>

lemma isCommandId_iff: "isCommandId i \<longleftrightarrow> i \<in> cd_id ` set COMMAND_REGISTRY"
  by (auto simp: isCommandId_def list_ex_iff)

lemma registered_default: "list_all isCommandId (tb_commands DEFAULT_TOOLBAR_ENTRIES)"
proof -
  have "tb_commands DEFAULT_TOOLBAR_ENTRIES = map ((!) (map cd_id COMMAND_REGISTRY)) [36, 37, 38, 28, 26, 27, 21, 29, 32]"
    unfolding registry_ids by (simp add: DEFAULT_TOOLBAR_ENTRIES_def)
  then show ?thesis by (simp add: isCommandId_iff isRegistered_nth del: nth_map)
qed

lemma parse_entry_back: "(\<And>i. e = TbCommand i \<Longrightarrow> isCommandId i) \<Longrightarrow> isCommandId [] = False \<Longrightarrow> parseEntry (entry_json e) = Some e"
  by (cases e) (auto simp: parseEntry_def entry_json_def json_prop_def)

lemma no_empty_id: "isCommandId [] = False"
  by (simp add: isCommandId_iff no_empty_registered)

lemma entries_printable: "printable int_text (JArr (map entry_json es))"
  by (auto simp: list_all_iff entry_json_def split: ToolbarEntry.split)

lemma entries_back:
  "list_all isCommandId (tb_commands es) \<Longrightarrow> List.map_filter parseEntry (map entry_json es) = es"
proof (induction es)
  case (Cons e es)
  have "parseEntry (entry_json e) = Some e"
    using Cons.prems by (intro parse_entry_back) (auto simp: no_empty_id)
  with Cons show ?case by (cases e) (auto simp: map_filter_def)
qed (simp add: map_filter_def)

lemma text_not_blank: "js_trim (entries_text es) \<noteq> []"
proof -
  have "is_js_space (CHR ''['') = False" "is_js_space (CHR '']'') = False" by code_simp+
  then show ?thesis by (simp add: entries_text_def js_trim_def trim_end_Cons)
qed

lemma entries_text_back:
  assumes "list_all isCommandId (tb_commands es)"
  shows "parseToolbarEntriesJson (Some (entries_text es)) = Some (normalizeToolbarEntries es)"
  using entries_back[OF assms] json_text_read_back[OF entries_printable, of es] text_not_blank[of es]
  by (simp add: parseToolbarEntriesJson_def entries_of_json_def entries_text_def)

lemma parsed_registered: "List.map_filter parseEntry items = es \<Longrightarrow> list_all isCommandId (tb_commands es)"
proof -
  have "isCommandId i" if "parseEntry item = Some (TbCommand i)" for item i
    using that by (auto simp: parseEntry_def split: json.splits if_splits option.splits)
  then show "List.map_filter parseEntry items = es \<Longrightarrow> ?thesis"
    by (auto simp: list_all_iff set_tb_commands map_filter_def image_iff)
qed

lemma normalize_registered:
  "list_all isCommandId (tb_commands es) \<Longrightarrow> list_all isCommandId (tb_commands (normalizeToolbarEntries es))"
  using registered_default by (auto simp: normalizeToolbarEntries_def Let_def norm_commands list_all_iff)

section \<open>Properties\<close>

text \<open>The toolbar is brought into a normal form that says which buttons it has. Normalising
  keeps the first occurrence of every command, in order (of the default toolbar when there is
  none), leaves no separator at either end or beside another, and changes nothing when it is
  applied again.\<close>

theorem toolbar_normal_form:
  "tb_commands (normalizeToolbarEntries es)
     = (if tb_commands es = [] then tb_commands DEFAULT_TOOLBAR_ENTRIES else set_of_array (tb_commands es)) \<and>
   toolbar_normal (normalizeToolbarEntries es) \<and>
   normalizeToolbarEntries (normalizeToolbarEntries es) = normalizeToolbarEntries es"
proof (intro conjI)
  have "tb_commands (foldl norm_step [] es) = set_of_array (tb_commands es)" by (simp add: norm_commands)
  moreover have "set_of_array (tb_commands es) = [] \<longleftrightarrow> tb_commands es = []"
    by (cases "tb_commands es") auto
  ultimately show "tb_commands (normalizeToolbarEntries es)
     = (if tb_commands es = [] then tb_commands DEFAULT_TOOLBAR_ENTRIES else set_of_array (tb_commands es))"
    by (simp add: normalizeToolbarEntries_def Let_def trim_empty)
qed (simp_all add: normalize_normal normal_id)

text \<open>A saved or migrated toolbar is the one that is shown. Entries of known commands that are
  saved are shown, in normal form, when the preference is read again. When the preference is
  blank and the older storage holds a list, the migration empties that storage and the
  toolbar shown afterwards is the one read from it before.\<close>

theorem toolbar_survives:
  assumes "list_all isCommandId (tb_commands es)"
    and "js_trim (case preference of Some t \<Rightarrow> t | None \<Rightarrow> []) = []" and "ls_defined w" and "\<not> ls_getFails w"
    and "obj_get (ls_items w) TOOLBAR_STORAGE_KEY = Some raw" and "js_trim raw \<noteq> []"
    and "json_parse raw = Some (JArr items)"
  shows "toolbarEntriesFromPreference (Some (fst (saveEntries es stored w))) = normalizeToolbarEntries es \<and>
    (\<exists>p w'. migrateLegacyToolbarEntries preference True w = Some (p, w') \<and>
       toolbarEntriesFromPreference p = readStoredToolbarEntries w \<and>
       obj_get (ls_items w') TOOLBAR_STORAGE_KEY = None)"
proof
  show "toolbarEntriesFromPreference (Some (fst (saveEntries es stored w))) = normalizeToolbarEntries es"
    using entries_text_back[OF normalize_registered[OF assms(1)]] normal_id[OF normalize_normal[of es]]
    by (simp add: saveEntries_def toolbarEntriesFromPreference_def)
  let ?fs = "entries_of_json items"
  have raw: "raw \<noteq> []" using assms(6) by (auto simp: js_trim_def trim_end_def)
  have known: "list_all isCommandId (tb_commands ?fs)"
    unfolding entries_of_json_def by (rule normalize_registered[OF parsed_registered[OF refl]])
  have "normalizeToolbarEntries ?fs = ?fs"
    unfolding entries_of_json_def by (rule normal_id[OF normalize_normal])
  then have shown: "toolbarEntriesFromPreference (Some (entries_text ?fs)) = ?fs"
    using entries_text_back[OF known] by (simp add: toolbarEntriesFromPreference_def)
  have "migrateLegacyToolbarEntries preference True w
      = Some (Some (entries_text ?fs), clearStoredToolbarEntries w)"
    using assms raw
    by (auto simp: migrateLegacyToolbarEntries_def readValue_def parseToolbarEntriesJson_def split: option.split)
  moreover have "readStoredToolbarEntries w = ?fs"
    using assms raw by (simp add: readStoredToolbarEntries_def readStorage_def)
  moreover have "obj_get (ls_items (clearStoredToolbarEntries w)) TOOLBAR_STORAGE_KEY = None"
    using assms(3) by (simp add: clearStoredToolbarEntries_def)
  ultimately show "\<exists>p w'. migrateLegacyToolbarEntries preference True w = Some (p, w') \<and>
       toolbarEntriesFromPreference p = readStoredToolbarEntries w \<and>
       obj_get (ls_items w') TOOLBAR_STORAGE_KEY = None"
    using shown by simp
qed

definition legacy_world :: World where
  "legacy_world =
     \<lparr>ls_defined = True, ls_getFails = False, ls_setFails = False,
      ls_items = [(TOOLBAR_STORAGE_KEY, ''['' @ str_text ''separator'' @ '','' @ str_text ''nope'' @ '']'')],
      clock = 0, tabCounter = 0\<rparr>"

theorem toolbar_survives_witness:
  "toolbarEntriesFromPreference (Some (fst (saveEntries [TbSeparator, TbSeparator] True legacy_world)))
     = DEFAULT_TOOLBAR_ENTRIES \<and>
   (\<exists>p w'. migrateLegacyToolbarEntries None True legacy_world = Some (p, w') \<and>
      toolbarEntriesFromPreference p = readStoredToolbarEntries legacy_world \<and>
      obj_get (ls_items w') TOOLBAR_STORAGE_KEY = None)"
proof -
  let ?raw = "''['' @ str_text ''separator'' @ '','' @ str_text ''nope'' @ '']''"
  have parse: "json_parse ?raw = Some (JArr [JStr ''separator'', JStr ''nope''])"
    using json_text_read_back[of int_text "JArr [JStr ''separator'', JStr ''nope'']"] by simp
  have trim: "js_trim ?raw \<noteq> []" by code_simp
  have norm: "normalizeToolbarEntries [TbSeparator, TbSeparator] = DEFAULT_TOOLBAR_ENTRIES"
    by (simp add: normalizeToolbarEntries_def norm_step_def trim_separators_def)
  show ?thesis
    using toolbar_survives[of "[TbSeparator, TbSeparator]" None legacy_world ?raw _ True, OF _ _ _ _ _ trim parse]
    unfolding norm by (simp add: legacy_world_def js_trim_def trim_end_def)
qed

end
