(* ===== verification/DriveTargets.thy ===== *)
theory DriveTargets
  imports NetworkDto KeyCombo PanelState
begin

text \<open>
  The places one can jump to: the drives of the toolbar and the locations of a pane
  (\<open>navigation/driveTargets.ts\<close>), and the hotlist (\<open>shell/hotlistTargets.ts\<close>). Both lists are
  gathered from the standard locations, the network, favorites, starred and recent places.
\<close>

section \<open>Places\<close>

record StandardLocationDto =
  sl_id :: string
  sl_name :: string
  sl_uri :: string
  sl_section :: string

record FavoriteEntryDto =
  fav_id :: int
  fav_uri :: string
  fav_label :: string

record PlaceEntryDto =
  pe_uri :: string
  pe_label :: string

record NetworkConnectionStatusDto =
  ns_profileId :: string
  ns_status :: string
  ns_message :: "string option"

text \<open>\<open>PlaceEntryDto\<close> stands for the starred and the recent entries, whose dates are not read.\<close>

datatype TargetAction = NavigateAction string | OpenTerminalAction NetworkProfileDto | AddServerAction

datatype DriveKind =
    DriveLocal
  | DriveCloud FileEntryDto
  | DriveNetwork NetworkProfileDto "NetworkConnectionStatusDto option"

record DriveTarget =
  dt_kind :: DriveKind
  dt_id :: string
  dt_label :: string
  dt_uri :: string
  dt_action :: TargetAction

datatype LocationKind = KVolume | KCloud | KNetwork | KNetworkRoot | KAddServer | KStandard | KFavorite | KStarred | KRecent

record PaneLocationTarget =
  lt_id :: string
  lt_label :: string
  lt_uri :: string
  lt_section :: string
  lt_kind :: LocationKind
  lt_profile :: "NetworkProfileDto option"
  lt_status :: "NetworkConnectionStatusDto option"
  lt_entry :: "FileEntryDto option"
  lt_action :: TargetAction

section \<open>Drives\<close>

definition local_drive :: "StandardLocationDto \<Rightarrow> DriveTarget" where
  "local_drive location =
     \<lparr>dt_kind = DriveLocal, dt_id = sl_id location, dt_label = sl_name location, dt_uri = sl_uri location,
      dt_action = NavigateAction (sl_uri location)\<rparr>"

definition cloud_drive :: "FileEntryDto \<Rightarrow> DriveTarget" where
  "cloud_drive entry =
     (let uri = (case fe_targetUri entry of Some u \<Rightarrow> u | None \<Rightarrow> fe_uri entry)
      in \<lparr>dt_kind = DriveCloud entry, dt_id = fe_uri entry, dt_label = fe_name entry, dt_uri = uri,
          dt_action = NavigateAction uri\<rparr>)"

definition network_drive :: "NetworkConnectionStatusDto list \<Rightarrow> NetworkProfileDto \<Rightarrow> DriveTarget" where
  "network_drive statuses profile =
     (let status = find (\<lambda>s. ns_profileId s = np_id profile) statuses;
          browseable = isBrowseableProfile profile
      in \<lparr>dt_kind = DriveNetwork profile status, dt_id = np_id profile, dt_label = np_label profile,
          dt_uri = (if browseable then np_defaultUri profile else ''ssh://'' @ np_id profile),
          dt_action = (if browseable then NavigateAction (np_defaultUri profile)
                       else OpenTerminalAction profile)\<rparr>)"

definition is_volume :: "StandardLocationDto \<Rightarrow> bool" where
  "is_volume location \<longleftrightarrow> sl_section location = ''Devices/Volumes''"

definition is_cloud_entry :: "FileEntryDto \<Rightarrow> bool" where
  "is_cloud_entry entry \<longleftrightarrow> fe_virtualKind entry = Some ''cloudDrive''
     \<and> (case fe_targetUri entry of Some u \<Rightarrow> u \<noteq> [] | None \<Rightarrow> False)"

definition buildDriveTargets ::
  "StandardLocationDto list \<Rightarrow> NetworkProfileDto list \<Rightarrow> NetworkConnectionStatusDto list \<Rightarrow>
   FileEntryDto list \<Rightarrow> DriveTarget list" where
  "buildDriveTargets locations networkProfiles networkStatuses networkQuickEntries =
     map local_drive (filter is_volume locations)
     @ map cloud_drive (filter is_cloud_entry networkQuickEntries)
     @ map (network_drive networkStatuses) (filter isQuickConnectionProfile networkProfiles)"

definition isDriveTargetActive :: "DriveTarget \<Rightarrow> string \<Rightarrow> bool" where
  "isDriveTargetActive target activeUri =
     (case dt_kind target of
        DriveLocal \<Rightarrow> dt_uri target = activeUri
      | DriveCloud _ \<Rightarrow> dt_uri target = activeUri \<or> js_startsWith activeUri (dt_uri target @ ''/'')
      | DriveNetwork profile _ \<Rightarrow>
          (case dt_action target of
             OpenTerminalAction _ \<Rightarrow> False
           | _ \<Rightarrow> profileIdFromRemoteUri activeUri = Some (np_id profile)))"

section \<open>Locations of a pane\<close>

text \<open>\<open>addTarget\<close> with the set of addresses seen, which are those of the targets.\<close>

definition add_location :: "PaneLocationTarget list \<Rightarrow> PaneLocationTarget \<Rightarrow> PaneLocationTarget list" where
  "add_location targets target =
     (if lt_uri target \<in> lt_uri ` set targets then targets else targets @ [target])"

definition plain_location ::
  "string \<Rightarrow> string \<Rightarrow> string \<Rightarrow> string \<Rightarrow> LocationKind \<Rightarrow> PaneLocationTarget" where
  "plain_location i label uri section kind =
     \<lparr>lt_id = i, lt_label = label, lt_uri = uri, lt_section = section, lt_kind = kind, lt_profile = None,
      lt_status = None, lt_entry = None, lt_action = NavigateAction uri\<rparr>"

definition cloud_location :: "DriveTarget \<Rightarrow> PaneLocationTarget" where
  "cloud_location target =
     (plain_location (''cloud-'' @ dt_id target) (dt_label target) (dt_uri target) ''Cloud Storage'' KCloud)
       \<lparr>lt_entry := (case dt_kind target of DriveCloud e \<Rightarrow> Some e | _ \<Rightarrow> None),
        lt_action := dt_action target\<rparr>"

definition network_location :: "DriveTarget \<Rightarrow> PaneLocationTarget list" where
  "network_location target =
     (case dt_kind target of
        DriveNetwork profile status \<Rightarrow>
          [(plain_location (''network-'' @ dt_id target) (dt_label target) (dt_uri target) ''Connections'' KNetwork)
             \<lparr>lt_profile := Some profile, lt_status := status, lt_action := dt_action target\<rparr>]
      | _ \<Rightarrow> [])"

definition numbered :: "string \<Rightarrow> nat \<Rightarrow> string \<Rightarrow> string" where
  "numbered prefix i uri = prefix @ nat_str i @ ''-'' @ uri"

definition location_candidates ::
  "StandardLocationDto list \<Rightarrow> FileEntryDto list \<Rightarrow> NetworkProfileDto list \<Rightarrow> NetworkConnectionStatusDto list \<Rightarrow>
   FavoriteEntryDto list \<Rightarrow> PlaceEntryDto list \<Rightarrow> PlaceEntryDto list \<Rightarrow> PaneLocationTarget list" where
  "location_candidates locations networkQuickEntries networkProfiles networkStatuses favorites starred recentEntries =
     map (\<lambda>l. plain_location (''volume-'' @ sl_id l) (sl_name l) (sl_uri l) ''Devices/Volumes'' KVolume)
       (filter is_volume locations)
     @ map cloud_location (buildDriveTargets [] [] [] networkQuickEntries)
     @ concat (map network_location (buildDriveTargets [] networkProfiles networkStatuses []))
     @ [(plain_location ''network-add-server'' ''Add Connection...'' ''network:///add'' ''Connections'' KAddServer)
          \<lparr>lt_action := AddServerAction\<rparr>,
        plain_location ''network-neighborhood'' ''Network'' ''network:///'' ''Network'' KNetworkRoot]
     @ map (\<lambda>l. plain_location (''standard-'' @ sl_id l) (sl_name l) (sl_uri l) ''User folders'' KStandard)
         (filter (\<lambda>l. \<not> is_volume l) locations)
     @ map (\<lambda>f. plain_location (''favorite-'' @ int_str (fav_id f)) (fav_label f) (fav_uri f) ''Favorites'' KFavorite)
         favorites
     @ map (\<lambda>(i, e). plain_location (numbered ''starred-'' i (pe_uri e)) (pe_label e) (pe_uri e) ''Starred'' KStarred)
         (enumerate 0 starred)
     @ map (\<lambda>(i, e). plain_location (numbered ''recent-'' i (pe_uri e)) (pe_label e) (pe_uri e) ''Recent'' KRecent)
         (enumerate 0 recentEntries)"

definition buildPaneLocationTargets ::
  "StandardLocationDto list \<Rightarrow> FileEntryDto list \<Rightarrow> NetworkProfileDto list \<Rightarrow> NetworkConnectionStatusDto list \<Rightarrow>
   FavoriteEntryDto list \<Rightarrow> PlaceEntryDto list \<Rightarrow> PlaceEntryDto list \<Rightarrow> PaneLocationTarget list" where
  "buildPaneLocationTargets locations networkQuickEntries networkProfiles networkStatuses favorites starred recentEntries =
     foldl add_location []
       (location_candidates locations networkQuickEntries networkProfiles networkStatuses favorites starred recentEntries)"

definition trimTrailingSlash :: "string \<Rightarrow> string" where
  "trimTrailingSlash v = (if v = ''local:///'' \<or> v = ''network:///'' then v else strip_slashes v)"

definition paneLocationTargetScore :: "PaneLocationTarget \<Rightarrow> string \<Rightarrow> nat" where
  "paneLocationTargetScore target activeUri =
     (if lt_uri target = activeUri then 10000 + length (lt_uri target)
      else if lt_kind target = KNetwork \<and> lt_profile target \<noteq> None
      then (case lt_action target of
              OpenTerminalAction _ \<Rightarrow> 0
            | _ \<Rightarrow> (if profileIdFromRemoteUri activeUri = map_option np_id (lt_profile target) then 5000 else 0))
      else if lt_uri target = ''local:///''
      then (if js_startsWith activeUri ''local:///'' then length (lt_uri target) else 0)
      else let base = trimTrailingSlash (lt_uri target)
           in if base \<noteq> [] \<and> js_startsWith activeUri (base @ ''/'') then length base else 0)"

fun best_location ::
  "string \<Rightarrow> PaneLocationTarget list \<Rightarrow> (PaneLocationTarget \<times> nat) option \<Rightarrow> (PaneLocationTarget \<times> nat) option" where
  "best_location activeUri [] best = best"
| "best_location activeUri (target # targets) best =
     (let score = paneLocationTargetScore target activeUri
      in best_location activeUri targets
           (if 0 < score \<and> (case best of None \<Rightarrow> True | Some (_, b) \<Rightarrow> b < score)
            then Some (target, score) else best))"

definition selectActivePaneLocationTarget ::
  "PaneLocationTarget list \<Rightarrow> string \<Rightarrow> PaneLocationTarget option" where
  "selectActivePaneLocationTarget targets activeUri =
     map_option fst (best_location activeUri targets None)"

section \<open>Titles\<close>

definition networkProfileBadge :: "NetworkProfileDto \<Rightarrow> NetworkConnectionStatusDto option \<Rightarrow> string option" where
  "networkProfileBadge profile status =
     (if \<not> np_hasStoredSecret profile then Some ''warning''
      else if map_option ns_status status = Some ''error'' then Some ''error'' else None)"

definition networkProfileTitle :: "NetworkProfileDto \<Rightarrow> NetworkConnectionStatusDto option \<Rightarrow> string" where
  "networkProfileTitle profile status =
     (if \<not> np_hasStoredSecret profile then np_label profile @ '' (credentials missing)''
      else if map_option ns_status status = Some ''connected'' then np_label profile @ '' (connected)''
      else if map_option ns_status status = Some ''error''
      then np_label profile @ '' ('' @ (case Option.bind status ns_message of Some m \<Rightarrow> m | None \<Rightarrow> ''error'') @ '')''
      else np_label profile)"

definition driveTargetToolbarLabel :: "DriveTarget \<Rightarrow> string" where
  "driveTargetToolbarLabel target =
     (case dt_kind target of
        DriveNetwork profile _ \<Rightarrow> dt_label target @ '' ('' @ js_toUpperCase (np_scheme profile) @ '')''
      | _ \<Rightarrow> dt_label target)"

definition networkDriveHotlistTitle :: "NetworkProfileDto \<Rightarrow> string" where
  "networkDriveHotlistTitle profile =
     (let host = np_host profile @ '':'' @ nat_str (np_port profile)
      in case remotePathFromUri (np_defaultUri profile) of
           Some path \<Rightarrow> if path \<noteq> [] \<and> path \<noteq> ''/'' then host @ path else host
         | None \<Rightarrow> host)"

section \<open>The hotlist\<close>

datatype HotlistTargetKind = HkParent | HkHome | HkVolume | HkNetwork | HkFavorite | HkStarred | HkRecent

record HotlistTarget =
  ht_id :: string
  ht_kind :: HotlistTargetKind
  ht_label :: string
  ht_uri :: string
  ht_glyph :: string
  ht_title :: string
  ht_action :: TargetAction

definition locationName :: "string \<Rightarrow> string" where
  "locationName uri =
     (let path = strip_slashes (displayPathFromUri uri);
          name = last_opt (nonempty_parts (js_split (CHR ''/'') path))
      in case name of
           Some n \<Rightarrow> n
         | None \<Rightarrow> if path \<noteq> [] then path else uri)"

definition hot_target ::
  "string \<Rightarrow> HotlistTargetKind \<Rightarrow> string \<Rightarrow> string \<Rightarrow> nat list \<Rightarrow> HotlistTarget" where
  "hot_target i kind label uri glyph =
     \<lparr>ht_id = i, ht_kind = kind, ht_label = label, ht_uri = uri, ht_glyph = utf8 glyph,
      ht_title = displayPathFromUri uri, ht_action = NavigateAction uri\<rparr>"

definition place_label :: "string \<Rightarrow> string \<Rightarrow> string" where
  "place_label label uri = (if label \<noteq> [] then label else locationName uri)"

definition drive_hotlist :: "DriveTarget \<Rightarrow> HotlistTarget" where
  "drive_hotlist target =
     (case dt_kind target of
        DriveLocal \<Rightarrow> (hot_target (''volume-'' @ dt_id target) HkVolume (dt_label target) (dt_uri target) [226, 150, 163])
          \<lparr>ht_action := dt_action target\<rparr>
      | DriveCloud _ \<Rightarrow> (hot_target (''cloud-'' @ dt_id target) HkNetwork (dt_label target) (dt_uri target) [226, 152, 129])
          \<lparr>ht_action := dt_action target\<rparr>
      | DriveNetwork profile _ \<Rightarrow>
          (hot_target (''network-'' @ dt_id target) HkNetwork (dt_label target) (dt_uri target) [226, 135, 132])
            \<lparr>ht_title := networkDriveHotlistTitle profile, ht_action := dt_action target\<rparr>)"

text \<open>\<open>addStructuralTarget\<close> looks into the set of addresses but adds nothing to it, \<open>addTarget\<close> does
  both; the set begins with the active address.\<close>

definition add_structural :: "string list \<Rightarrow> HotlistTarget \<Rightarrow> HotlistTarget list" where
  "add_structural seen target = (if ht_uri target \<in> set seen then [] else [target])"

fun add_hot :: "string list \<Rightarrow> HotlistTarget list \<Rightarrow> HotlistTarget list" where
  "add_hot seen [] = []"
| "add_hot seen (target # targets) =
     (if ht_uri target \<in> set seen then add_hot seen targets
      else target # add_hot (seen @ [ht_uri target]) targets)"

definition home_location :: "StandardLocationDto list \<Rightarrow> StandardLocationDto option" where
  "home_location locations =
     (case find (\<lambda>l. sl_id l = ''home'') locations of
        Some l \<Rightarrow> Some l
      | None \<Rightarrow> find (\<lambda>l. sl_section l = ''Favorites'' \<and> js_toLowerCase (sl_name l) = ''home'') locations)"

text \<open>The address of the home folder is \<open>home\<close> when no location names it.\<close>

definition hotlist_structural ::
  "string \<Rightarrow> string option \<Rightarrow> StandardLocationDto list \<Rightarrow> string \<Rightarrow> HotlistTarget list" where
  "hotlist_structural activeUri upUri locations home =
     (let homeLocation = home_location locations;
          resolvedHomeUri = (case homeLocation of Some l \<Rightarrow> sl_uri l | None \<Rightarrow> home);
          resolvedHomeLabel = (case homeLocation of Some l \<Rightarrow> sl_name l | None \<Rightarrow> ''Home'')
      in (case upUri of
            Some u \<Rightarrow> if u \<noteq> [] then add_structural [activeUri] (hot_target ''parent'' HkParent ''..'' u [226, 134, 145])
                      else []
          | None \<Rightarrow> [])
         @ add_structural [activeUri] (hot_target ''home'' HkHome resolvedHomeLabel resolvedHomeUri [126]))"

definition hotlist_candidates ::
  "StandardLocationDto list \<Rightarrow> FileEntryDto list \<Rightarrow> NetworkProfileDto list \<Rightarrow> NetworkConnectionStatusDto list \<Rightarrow>
   FavoriteEntryDto list \<Rightarrow> PlaceEntryDto list \<Rightarrow> PlaceEntryDto list \<Rightarrow> PlaceEntryDto list \<Rightarrow> HotlistTarget list" where
  "hotlist_candidates locations networkQuickEntries networkProfiles networkStatuses favorites starred recentToday recentWeek =
     map drive_hotlist (buildDriveTargets locations networkProfiles networkStatuses networkQuickEntries)
     @ map (\<lambda>f. hot_target (''favorite-'' @ int_str (fav_id f)) HkFavorite (place_label (fav_label f) (fav_uri f))
              (fav_uri f) [226, 152, 133]) favorites
     @ map (\<lambda>(i, e). hot_target (numbered ''starred-'' i (pe_uri e)) HkStarred (place_label (pe_label e) (pe_uri e))
              (pe_uri e) [226, 152, 134]) (enumerate 0 starred)
     @ map (\<lambda>(i, e). hot_target (numbered ''recent-'' i (pe_uri e)) HkRecent (place_label (pe_label e) (pe_uri e))
              (pe_uri e) [226, 151, 183]) (enumerate 0 (recentToday @ recentWeek))"

definition buildHotlistTargets ::
  "string \<Rightarrow> string option \<Rightarrow> StandardLocationDto list \<Rightarrow> string \<Rightarrow> HotlistTarget list \<Rightarrow> nat \<Rightarrow>
   HotlistTarget list \<times> HotlistTarget list" where
  "buildHotlistTargets activeUri upUri locations home candidates maxVisible =
     (let targets = hotlist_structural activeUri upUri locations home @ add_hot [activeUri] candidates
      in (take maxVisible targets, drop maxVisible targets))"

text \<open>The whole of \<open>buildHotlistTargets\<close>; \<open>home\<close> is asked for only when needed, and may raise.\<close>

definition hotlist_targets ::
  "Platform \<Rightarrow> World \<Rightarrow> string \<Rightarrow> string option \<Rightarrow> StandardLocationDto list \<Rightarrow> FileEntryDto list \<Rightarrow>
   NetworkProfileDto list \<Rightarrow> NetworkConnectionStatusDto list \<Rightarrow> FavoriteEntryDto list \<Rightarrow> PlaceEntryDto list \<Rightarrow>
   PlaceEntryDto list \<Rightarrow> PlaceEntryDto list \<Rightarrow> nat \<Rightarrow> (HotlistTarget list \<times> HotlistTarget list) option" where
  "hotlist_targets pf w activeUri upUri locations quick profiles statuses favorites starred today week maxVisible =
     do { home \<leftarrow> (if home_location locations = None then homeUri pf w else Some []);
          Some (buildHotlistTargets activeUri upUri locations home
                  (hotlist_candidates locations quick profiles statuses favorites starred today week) maxVisible) }"

section \<open>Every place once\<close>

lemma find_app: "find P (xs @ ys) = (case find P xs of Some x \<Rightarrow> Some x | None \<Rightarrow> find P ys)"
  by (induction xs) auto

lemma add_location_uris:
  "map lt_uri (foldl add_location acc cs)
     = map lt_uri acc @ filter (\<lambda>u. u \<notin> lt_uri ` set acc) (set_of_array (map lt_uri cs))"
proof (induction cs arbitrary: acc)
  case (Cons c cs)
  show ?case
  proof (cases "lt_uri c \<in> lt_uri ` set acc")
    case True
    then have "add_location acc c = acc" by (simp add: add_location_def)
    then show ?thesis using True by (simp add: Cons.IH) (rule filter_cong, auto)
  next
    case False
    then have "add_location acc c = acc @ [c]" by (simp add: add_location_def)
    then show ?thesis using False by (simp add: Cons.IH insert_commute conj_commute)
  qed
qed simp

lemma add_location_first:
  "t \<in> set (foldl add_location acc cs) \<Longrightarrow> (\<And>a. a \<in> set acc \<Longrightarrow> find (\<lambda>c. lt_uri c = lt_uri a) acc = Some a) \<Longrightarrow>
   find (\<lambda>c. lt_uri c = lt_uri t) (acc @ cs) = Some t"
proof (induction cs arbitrary: acc)
  case (Cons c cs)
  have skip: "find (\<lambda>x. lt_uri x = u) (acc @ c # cs) = find (\<lambda>x. lt_uri x = u) (acc @ cs)"
    if "lt_uri c \<in> lt_uri ` set acc" for u
  proof (cases "find (\<lambda>x. lt_uri x = u) acc")
    case None
    then have "lt_uri c \<noteq> u" using that by (auto simp: find_None_iff)
    with None show ?thesis by (simp add: find_app)
  qed (simp add: find_app)
  show ?case
  proof (cases "lt_uri c \<in> lt_uri ` set acc")
    case True
    then have "add_location acc c = acc" by (simp add: add_location_def)
    with Cons have "find (\<lambda>c. lt_uri c = lt_uri t) (acc @ cs) = Some t" by simp
    with skip[OF True] show ?thesis by simp
  next
    case False
    have "find (\<lambda>c. lt_uri c = lt_uri t) ((acc @ [c]) @ cs) = Some t"
    proof (rule Cons.IH)
      have "add_location acc c = acc @ [c]" using False by (simp add: add_location_def)
      then show "t \<in> set (foldl add_location (acc @ [c]) cs)" using Cons.prems(1) by simp
      fix a assume a: "a \<in> set (acc @ [c])"
      show "find (\<lambda>c. lt_uri c = lt_uri a) (acc @ [c]) = Some a"
      proof (cases "a \<in> set acc")
        case True
        then show ?thesis using Cons.prems(2)[OF True] by (simp add: find_app)
      next
        case new: False
        then have "a = c" using a by simp
        moreover have "find (\<lambda>x. lt_uri x = lt_uri c) acc = None"
          using False unfolding find_None_iff by (metis image_eqI)
        ultimately show ?thesis by (simp add: find_app)
      qed
    qed
    then show ?thesis by simp
  qed
qed simp

lemma best_location_spec:
  "(\<And>t b. best = Some (t, b) \<Longrightarrow> 0 < b \<and> b = paneLocationTargetScore t u) \<Longrightarrow>
   (case best_location u ts best of
      None \<Rightarrow> best = None \<and> (\<forall>x \<in> set ts. paneLocationTargetScore x u = 0)
    | Some (t, b) \<Rightarrow> 0 < b \<and> b = paneLocationTargetScore t u \<and> (t \<in> set ts \<or> best = Some (t, b))
        \<and> (\<forall>x \<in> set ts. paneLocationTargetScore x u \<le> b) \<and> (\<forall>x c. best = Some (x, c) \<longrightarrow> c \<le> b))"
proof (induction ts arbitrary: best)
  case (Cons x ts)
  let ?s = "paneLocationTargetScore x u"
  let ?b = "if 0 < ?s \<and> (case best of None \<Rightarrow> True | Some (_, b) \<Rightarrow> b < ?s) then Some (x, ?s) else best"
  have "case best_location u ts ?b of
      None \<Rightarrow> ?b = None \<and> (\<forall>x \<in> set ts. paneLocationTargetScore x u = 0)
    | Some (t, b) \<Rightarrow> 0 < b \<and> b = paneLocationTargetScore t u \<and> (t \<in> set ts \<or> ?b = Some (t, b))
        \<and> (\<forall>x \<in> set ts. paneLocationTargetScore x u \<le> b) \<and> (\<forall>x c. ?b = Some (x, c) \<longrightarrow> c \<le> b)"
    using Cons.prems by (intro Cons.IH) (auto split: if_splits)
  then show ?case by (auto simp: Let_def split: option.splits if_splits prod.splits)
qed (auto split: option.split)

lemma strip_slashes_shorter: "length (trimTrailingSlash v) \<le> length v"
  by (simp add: trimTrailingSlash_def length_strip_slashes)

lemma inexact_score: "lt_uri t \<noteq> u \<Longrightarrow> paneLocationTargetScore t u < 10000 + length u"
proof -
  assume n: "lt_uri t \<noteq> u"
  have "length base < length u" if "js_startsWith u (base @ ''/'')" for base
    using that by (auto simp: js_startsWith_iff)
  moreover have "length (''local:///'' :: string) \<le> 10000" by simp
  moreover have "length v \<le> length u" if "js_startsWith u v" for v
    using that by (auto simp: js_startsWith_iff)
  ultimately show ?thesis
    using n by (auto simp: paneLocationTargetScore_def Let_def split: TargetAction.split intro: trans_less_add2)
qed

section \<open>Properties\<close>

text \<open>The locations of a pane name every place once. The addresses listed are those of all
  candidates (volumes, cloud drives, connections, the network, standard folders, favorites,
  starred and recent places), each once and in the order in which they first occur, and each
  is listed as its first candidate describes it.\<close>

theorem locations_listed_once:
  fixes locations quick profiles statuses favorites starred recents
  defines "cands \<equiv> location_candidates locations quick profiles statuses favorites starred recents"
    and "targets \<equiv> buildPaneLocationTargets locations quick profiles statuses favorites starred recents"
  shows "map lt_uri targets = set_of_array (map lt_uri cands) \<and>
    (\<forall>t \<in> set targets. find (\<lambda>c. lt_uri c = lt_uri t) cands = Some t)"
  using add_location_uris[of "[]" cands] add_location_first[of _ "[]" cands]
  by (auto simp: cands_def targets_def buildPaneLocationTargets_def)

theorem locations_listed_once_witness:
  "map lt_uri (buildPaneLocationTargets
      [\<lparr>sl_id = ''v'', sl_name = ''v'', sl_uri = ''local:///v'', sl_section = ''Devices/Volumes''\<rparr>] [] [] []
      [\<lparr>fav_id = 1, fav_uri = ''local:///v'', fav_label = ''again''\<rparr>] [] []) =
     [''local:///v'', ''network:///add'', ''network:///'']"
  using locations_listed_once[of "[\<lparr>sl_id = ''v'', sl_name = ''v'', sl_uri = ''local:///v'', sl_section = ''Devices/Volumes''\<rparr>]"
      "[]" "[]" "[]" "[\<lparr>fav_id = 1, fav_uri = ''local:///v'', fav_label = ''again''\<rparr>]" "[]" "[]"]
  by (simp add: location_candidates_def is_volume_def plain_location_def buildDriveTargets_def)

text \<open>The location that is highlighted fits the active address best. If one is highlighted, it
  is among the targets and none scores more; none is highlighted only if no target scores at
  all; and when a target has exactly the active address, the highlighted one has it, whatever
  connections and parent folders also match.\<close>

theorem active_location_best:
  "case selectActivePaneLocationTarget targets activeUri of
     None \<Rightarrow> \<forall>t \<in> set targets. paneLocationTargetScore t activeUri = 0
   | Some t \<Rightarrow> t \<in> set targets \<and> 0 < paneLocationTargetScore t activeUri \<and>
       (\<forall>x \<in> set targets. paneLocationTargetScore x activeUri \<le> paneLocationTargetScore t activeUri) \<and>
       (activeUri \<in> lt_uri ` set targets \<longrightarrow> lt_uri t = activeUri)"
proof -
  have exact: "lt_uri t = activeUri" if "x \<in> set targets" "lt_uri x = activeUri"
    "\<forall>x \<in> set targets. paneLocationTargetScore x activeUri \<le> paneLocationTargetScore t activeUri" for x t
  proof -
    have "paneLocationTargetScore x activeUri = 10000 + length activeUri"
      using that(2) by (simp add: paneLocationTargetScore_def)
    then have "10000 + length activeUri \<le> paneLocationTargetScore t activeUri"
      using that(3)[rule_format, OF that(1)] by simp
    then show ?thesis using inexact_score[of t activeUri] by linarith
  qed
  note spec = best_location_spec[of None activeUri targets, simplified]
  show ?thesis
  proof (cases "best_location activeUri targets None")
    case None
    with spec show ?thesis by (simp add: selectActivePaneLocationTarget_def)
  next
    case (Some r)
    obtain t b where r: "r = (t, b)" by (cases r)
    have b: "t \<in> set targets" "0 < paneLocationTargetScore t activeUri"
        "\<forall>x \<in> set targets. paneLocationTargetScore x activeUri \<le> paneLocationTargetScore t activeUri"
      using spec Some r by auto
    with exact[of _ t] Some r show ?thesis by (auto simp: selectActivePaneLocationTarget_def)
  qed
qed

theorem active_location_best_witness:
  "map_option lt_id (selectActivePaneLocationTarget
      [plain_location ''root'' ''r'' ''local:///'' ''s'' KStandard, plain_location ''home'' ''h'' ''local:///h'' ''s'' KStandard]
      ''local:///h'') = Some ''home''"
proof -
  let ?ts = "[plain_location ''root'' ''r'' ''local:///'' ''s'' KStandard, plain_location ''home'' ''h'' ''local:///h'' ''s'' KStandard]"
  have uris: "set ?ts = {plain_location ''root'' ''r'' ''local:///'' ''s'' KStandard, plain_location ''home'' ''h'' ''local:///h'' ''s'' KStandard}"
    by simp
  have score: "paneLocationTargetScore (plain_location ''home'' ''h'' ''local:///h'' ''s'' KStandard) ''local:///h'' \<noteq> 0"
    by (simp add: paneLocationTargetScore_def plain_location_def)
  show ?thesis
    using active_location_best[of ?ts "''local:///h''"] score
    by (auto simp: plain_location_def split: option.splits)
qed

text \<open>The hotlist repeats no place beyond its first two entries, and never the active one.\<close>

lemma add_hot_distinct:
  "distinct (map ht_uri (add_hot seen cs)) \<and> set (map ht_uri (add_hot seen cs)) = set (map ht_uri cs) - set seen"
  by (induction cs arbitrary: seen) auto

lemma hotlist_split:
  assumes "buildHotlistTargets activeUri upUri locations home cands n = (visible, overflow)"
  shows "length visible \<le> n \<and> (\<forall>t \<in> set (visible @ overflow). ht_uri t \<noteq> activeUri) \<and>
    distinct (map ht_uri (drop (length (hotlist_structural activeUri upUri locations home)) (visible @ overflow)))"
proof -
  let ?s = "hotlist_structural activeUri upUri locations home"
  have all: "visible @ overflow = ?s @ add_hot [activeUri] cands" and "length visible \<le> n"
    using assms by (auto simp: buildHotlistTargets_def Let_def simp del: take_append drop_append)
  moreover have "\<forall>t \<in> set ?s. ht_uri t \<noteq> activeUri"
    by (auto simp: hotlist_structural_def add_structural_def Let_def split: option.split)
  moreover have "ht_uri t \<noteq> activeUri" if "t \<in> set (add_hot [activeUri] cands)" for t
    using add_hot_distinct[of "[activeUri]" cands] that by force
  ultimately show ?thesis using add_hot_distinct[of "[activeUri]" cands] by auto
qed

end
