(* ===== verification/StoredLists.thy ===== *)
theory StoredLists
  imports JsonPrint Env "HOL-Library.Multiset"
begin

text \<open>
  Lists the front end keeps as JSON text, in local storage or in a string-valued preference: file
  tags (\<open>utils/tagStore.ts\<close>, \<open>app/TagContext.tsx\<close>), hotlist entries (\<open>utils/hotlist.ts\<close>,
  \<open>dialogs/ManageHotlistDialog.tsx\<close>) and tab sessions (\<open>utils/tabSessions.ts\<close>). All are read
  the same way: the text is parsed, anything but an array counts as nothing, and elements of the
  wrong shape are dropped; the locale \<open>stored_list\<close> states what writing and reading back then
  guarantee. Fields of an element that the sources do not name are not modelled.
\<close>

section \<open>The contract of a stored list\<close>

definition json_list :: "(json \<Rightarrow> 'a option) \<Rightarrow> string \<Rightarrow> 'a list option" where
  "json_list decode text =
     (case json_parse text of Some (JArr items) \<Rightarrow> Some (List.map_filter decode items) | _ \<Rightarrow> None)"

definition list_text :: "(rat \<Rightarrow> string) \<Rightarrow> ('a \<Rightarrow> json) \<Rightarrow> 'a list \<Rightarrow> string" where
  "list_text num encode xs = json_text num (JArr (map encode xs))"

locale stored_list =
  fixes num :: "rat \<Rightarrow> string" and encode :: "'a \<Rightarrow> json" and decode :: "json \<Rightarrow> 'a option" and ok :: "'a \<Rightarrow> bool"
  assumes decode_encode: "ok x \<Longrightarrow> decode (encode x) = Some x"
    and encode_printable: "ok x \<Longrightarrow> printable num (encode x)"
begin

lemma decode_all: "list_all ok xs \<Longrightarrow> List.map_filter decode (map encode xs) = xs"
  by (induction xs) (simp_all add: map_filter_def decode_encode)

lemma read_back: "list_all ok xs \<Longrightarrow> json_list decode (list_text num encode xs) = Some xs"
  using json_text_read_back[of num "JArr (map encode xs)"] decode_all[of xs]
  by (simp add: json_list_def list_text_def list_all_iff encode_printable)

lemma list_text_nonempty: "list_text num encode xs \<noteq> []"
  by (simp add: list_text_def)

end

text \<open>A list under a key of local storage, read with every failure counting as nothing.\<close>

definition load_list :: "(json \<Rightarrow> 'a option) \<Rightarrow> string \<Rightarrow> World \<Rightarrow> 'a list" where
  "load_list decode key w =
     (case readStorage w key of
        Some raw \<Rightarrow> if raw = [] then [] else (case json_list decode raw of Some xs \<Rightarrow> xs | None \<Rightarrow> [])
      | None \<Rightarrow> [])"

text \<open>\<open>localStorage.setItem\<close> without a guard: \<open>None\<close> is its exception.\<close>

definition store_text :: "string \<Rightarrow> string \<Rightarrow> World \<Rightarrow> World option" where
  "store_text key text w =
     (if \<not> ls_defined w \<or> ls_setFails w then None else Some (w\<lparr>ls_items := obj_set key text (ls_items w)\<rparr>))"

definition parse_text_list :: "(json \<Rightarrow> 'a option) \<Rightarrow> string \<Rightarrow> 'a list" where
  "parse_text_list decode text =
     (if text = [] then [] else case json_list decode text of Some xs \<Rightarrow> xs | None \<Rightarrow> [])"

definition storage_works :: "World \<Rightarrow> bool" where
  "storage_works w \<longleftrightarrow> ls_defined w \<and> \<not> ls_getFails w \<and> \<not> ls_setFails w"

lemma store_text_works:
  "storage_works w \<Longrightarrow> \<exists>w'. store_text k t w = Some w' \<and> storage_works w' \<and> readStorage w' k = Some t"
  by (auto simp: store_text_def storage_works_def readStorage_def)

section \<open>Tags\<close>

record FileTag =
  tag_uri :: string
  tag_color :: string
  tag_label :: string

definition tagColorValues :: "string list" where
  "tagColorValues =
     [''red'', ''orange'', ''amber'', ''yellow'', ''green'', ''teal'', ''blue'', ''indigo'', ''violet'', ''pink'']"

definition isValidTagColor :: "string \<Rightarrow> bool" where
  "isValidTagColor color \<longleftrightarrow> color \<in> set tagColorValues"

definition addTagToEntry :: "FileTag list \<Rightarrow> FileTag \<Rightarrow> FileTag list" where
  "addTagToEntry tags tag =
     (if list_ex (\<lambda>t. tag_uri t = tag_uri tag \<and> tag_color t = tag_color tag) tags then tags else tags @ [tag])"

definition removeTagFromEntry :: "FileTag list \<Rightarrow> string \<Rightarrow> string \<Rightarrow> FileTag list" where
  "removeTagFromEntry tags uri color = filter (\<lambda>t. \<not> (tag_uri t = uri \<and> tag_color t = color)) tags"

definition getTagColorsForEntry :: "FileTag list \<Rightarrow> string \<Rightarrow> string list" where
  "getTagColorsForEntry tags uri = map tag_color (filter (\<lambda>t. tag_uri t = uri) tags)"

definition getEntriesWithTag :: "FileTag list \<Rightarrow> string \<Rightarrow> string list" where
  "getEntriesWithTag tags color = map tag_uri (filter (\<lambda>t. tag_color t = color) tags)"

definition tag_json :: "FileTag \<Rightarrow> json" where
  "tag_json t = JObj [(''uri'', JStr (tag_uri t)), (''color'', JStr (tag_color t)), (''label'', JStr (tag_label t))]"

definition json_tag :: "json \<Rightarrow> FileTag option" where
  "json_tag v =
     (case (json_prop (Some v) ''uri'', json_prop (Some v) ''color'', json_prop (Some v) ''label'') of
        (Some (JStr u), Some (JStr c), Some (JStr l)) \<Rightarrow>
          if isValidTagColor c then Some \<lparr>tag_uri = u, tag_color = c, tag_label = l\<rparr> else None
      | _ \<Rightarrow> None)"

definition tag_key :: string where "tag_key = ''fo-file-tags''"

definition loadTags :: "World \<Rightarrow> FileTag list" where
  "loadTags w = load_list json_tag tag_key w"

definition saveTags :: "FileTag list \<Rightarrow> World \<Rightarrow> World option" where
  "saveTags tags w = store_text tag_key (list_text int_text tag_json tags) w"

interpretation tags: stored_list int_text tag_json json_tag "\<lambda>t. isValidTagColor (tag_color t)"
  by unfold_locales (simp_all add: tag_json_def json_tag_def json_prop_def)

text \<open>\<open>TagProvider\<close>: the tags shown and what is stored; a refused write raises.\<close>

datatype TagOp = AssignTag string string string | RemoveTag string string

definition tag_step :: "TagOp \<Rightarrow> FileTag list \<times> World \<Rightarrow> (FileTag list \<times> World) option" where
  "tag_step op s =
     (let (prev, w) = s;
          next_tags = (case op of
             AssignTag uri color label \<Rightarrow> addTagToEntry prev \<lparr>tag_uri = uri, tag_color = color, tag_label = label\<rparr>
           | RemoveTag uri color \<Rightarrow> removeTagFromEntry prev uri color)
      in map_option (\<lambda>w'. (next_tags, w')) (saveTags next_tags w))"

fun tag_run :: "TagOp list \<Rightarrow> FileTag list \<times> World \<Rightarrow> (FileTag list \<times> World) option" where
  "tag_run [] s = Some s"
| "tag_run (op # ops) s = do { s' \<leftarrow> tag_step op s; tag_run ops s' }"

text \<open>What the tags stand for: which file carries which colour.\<close>

definition tag_keys :: "FileTag list \<Rightarrow> (string \<times> string) set" where
  "tag_keys tags = (\<lambda>t. (tag_uri t, tag_color t)) ` set tags"

fun key_step :: "TagOp \<Rightarrow> (string \<times> string) set \<Rightarrow> (string \<times> string) set" where
  "key_step (AssignTag uri color label) ks = insert (uri, color) ks"
| "key_step (RemoveTag uri color) ks = ks - {(uri, color)}"

fun assigns_palette :: "TagOp \<Rightarrow> bool" where
  "assigns_palette (AssignTag uri color label) = isValidTagColor color"
| "assigns_palette (RemoveTag uri color) = True"

lemma tag_keys_add: "tag_keys (addTagToEntry tags t) = insert (tag_uri t, tag_color t) (tag_keys tags)"
proof (cases "list_ex (\<lambda>u. tag_uri u = tag_uri t \<and> tag_color u = tag_color t) tags")
  case True
  then have "(tag_uri t, tag_color t) \<in> tag_keys tags" by (auto simp: tag_keys_def list_ex_iff intro: image_eqI[rotated])
  with True show ?thesis by (simp add: addTagToEntry_def insert_absorb)
qed (auto simp: tag_keys_def addTagToEntry_def)

lemma tag_keys_remove: "tag_keys (removeTagFromEntry tags u c) = tag_keys tags - {(u, c)}"
  by (auto simp: tag_keys_def removeTagFromEntry_def)

lemma tag_colors_keys: "set (getTagColorsForEntry tags u) = {c. (u, c) \<in> tag_keys tags}"
  by (force simp: tag_keys_def getTagColorsForEntry_def)

lemma json_tag_valid: "json_tag v = Some t \<Longrightarrow> isValidTagColor (tag_color t)"
  by (auto simp: json_tag_def split: option.splits json.splits if_splits)

lemma listed_tags_valid: "json_list json_tag raw = Some tags \<Longrightarrow> list_all (\<lambda>t. isValidTagColor (tag_color t)) tags"
  by (auto simp: json_list_def List.map_filter_def list_all_iff split: option.splits json.splits)
    (use json_tag_valid in blast)

lemma loaded_tags_valid: "list_all (\<lambda>t. isValidTagColor (tag_color t)) (loadTags w)"
  by (simp add: loadTags_def load_list_def listed_tags_valid split: option.split)

lemma saved_tags_load:
  assumes "storage_works w" and "list_all (\<lambda>t. isValidTagColor (tag_color t)) tags"
  shows "\<exists>w'. saveTags tags w = Some w' \<and> storage_works w' \<and> loadTags w' = tags"
proof -
  obtain w' where w': "saveTags tags w = Some w'" "storage_works w'"
      "readStorage w' tag_key = Some (list_text int_text tag_json tags)"
    using store_text_works[OF assms(1)] by (auto simp: saveTags_def)
  then have "loadTags w' = tags"
    using tags.read_back[OF assms(2)] tags.list_text_nonempty[of tags] by (simp add: loadTags_def load_list_def)
  with w' show ?thesis by blast
qed

lemma tag_step_saved:
  assumes "storage_works w" and "list_all (\<lambda>t. isValidTagColor (tag_color t)) tags" and "assigns_palette op"
  shows "\<exists>next w'. tag_step op (tags, w) = Some (next, w') \<and> storage_works w' \<and> loadTags w' = next
    \<and> list_all (\<lambda>t. isValidTagColor (tag_color t)) next \<and> tag_keys next = key_step op (tag_keys tags)"
proof (cases op)
  case (AssignTag u c l)
  let ?n = "addTagToEntry tags \<lparr>tag_uri = u, tag_color = c, tag_label = l\<rparr>"
  have "list_all (\<lambda>t. isValidTagColor (tag_color t)) ?n"
    using assms(2,3) AssignTag by (simp add: addTagToEntry_def)
  with saved_tags_load[OF assms(1), of ?n] AssignTag show ?thesis
    by (auto simp: tag_step_def Let_def tag_keys_add)
next
  case (RemoveTag u c)
  let ?n = "removeTagFromEntry tags u c"
  have "list_all (\<lambda>t. isValidTagColor (tag_color t)) ?n"
    using assms(2) by (auto simp: removeTagFromEntry_def list_all_iff)
  with saved_tags_load[OF assms(1), of ?n] RemoveTag show ?thesis
    by (auto simp: tag_step_def Let_def tag_keys_remove)
qed

lemma tag_run_saved:
  "storage_works w \<Longrightarrow> list_all assigns_palette ops \<Longrightarrow> loadTags w = tags \<Longrightarrow>
   \<exists>next w'. tag_run ops (tags, w) = Some (next, w') \<and> loadTags w' = next
     \<and> tag_keys next = fold key_step ops (tag_keys tags)"
proof (induction ops arbitrary: tags w)
  case (Cons op ops)
  have "list_all (\<lambda>t. isValidTagColor (tag_color t)) tags" using loaded_tags_valid Cons.prems(3) by blast
  then obtain n w' where step: "tag_step op (tags, w) = Some (n, w')" "storage_works w'" "loadTags w' = n"
      "tag_keys n = key_step op (tag_keys tags)"
    using tag_step_saved[of w tags op] Cons.prems by auto
  with Cons.IH[of w' n] Cons.prems(2) show ?case by auto
qed auto

text \<open>C27: the stored tags implement a set of coloured files. When local storage works and only
  colours of the palette are assigned, no sequence of tag operations fails; what the window
  shows afterwards is what a restart would load; and a file has exactly the colours it has after
  the same insertions and deletions on a plain set of (file, colour) pairs.\<close>

theorem tags_refine_set:
  assumes "storage_works w" and "list_all assigns_palette ops"
  shows "\<exists>tags w'. tag_run ops (loadTags w, w) = Some (tags, w') \<and> loadTags w' = tags
    \<and> (\<forall>uri. set (getTagColorsForEntry tags uri) = {c. (uri, c) \<in> fold key_step ops (tag_keys (loadTags w))})"
  using tag_run_saved[OF assms refl] by (auto simp: tag_colors_keys)

definition tags_demo_world :: World where
  "tags_demo_world = \<lparr>ls_defined = True, ls_getFails = False, ls_setFails = False, ls_items = [],
     clock = 0, tabCounter = 0\<rparr>"

definition tags_demo_ops :: "TagOp list" where
  "tags_demo_ops = [AssignTag ''local:///a'' ''red'' ''x'', AssignTag ''local:///a'' ''teal'' ''y'',
     RemoveTag ''local:///a'' ''red'']"

lemma tags_refine_set_witness:
  "\<exists>tags w'. tag_run tags_demo_ops (loadTags tags_demo_world, tags_demo_world) = Some (tags, w') \<and> loadTags w' = tags
    \<and> set (getTagColorsForEntry tags ''local:///a'') = {''teal''}"
proof -
  have "storage_works tags_demo_world" by (simp add: storage_works_def tags_demo_world_def)
  moreover have "list_all assigns_palette tags_demo_ops"
    by (simp add: tags_demo_ops_def isValidTagColor_def tagColorValues_def)
  ultimately obtain tags w' where r: "tag_run tags_demo_ops (loadTags tags_demo_world, tags_demo_world) = Some (tags, w')"
      "loadTags w' = tags"
      "set (getTagColorsForEntry tags ''local:///a'') =
         {c. (''local:///a'', c) \<in> fold key_step tags_demo_ops (tag_keys (loadTags tags_demo_world))}"
    using tags_refine_set[of tags_demo_world tags_demo_ops] by auto
  have "loadTags tags_demo_world = []"
    by (simp add: loadTags_def load_list_def readStorage_def tags_demo_world_def)
  then have "{c. (''local:///a'', c) \<in> fold key_step tags_demo_ops (tag_keys (loadTags tags_demo_world))} = {''teal''}"
    by (auto simp: tags_demo_ops_def tag_keys_def)
  with r show ?thesis by auto
qed

section \<open>Hotlist\<close>

record HotlistEntry =
  hl_id :: string
  hl_label :: string
  hl_uri :: string
  hl_shortcut :: "rat option"

definition hotlist_json :: "HotlistEntry \<Rightarrow> json" where
  "hotlist_json e = JObj ([(''id'', JStr (hl_id e)), (''label'', JStr (hl_label e)), (''uri'', JStr (hl_uri e))]
     @ (case hl_shortcut e of Some n \<Rightarrow> [(''shortcut'', JNum n)] | None \<Rightarrow> []))"

definition json_hotlist :: "json \<Rightarrow> HotlistEntry option" where
  "json_hotlist v =
     (case (json_prop (Some v) ''id'', json_prop (Some v) ''label'', json_prop (Some v) ''uri'') of
        (Some (JStr i), Some (JStr l), Some (JStr u)) \<Rightarrow>
          (case json_prop (Some v) ''shortcut'' of
             None \<Rightarrow> Some \<lparr>hl_id = i, hl_label = l, hl_uri = u, hl_shortcut = None\<rparr>
           | Some (JNum n) \<Rightarrow> Some \<lparr>hl_id = i, hl_label = l, hl_uri = u, hl_shortcut = Some n\<rparr>
           | _ \<Rightarrow> None)
      | _ \<Rightarrow> None)"

definition parseHotlistEntries :: "string \<Rightarrow> HotlistEntry list" where
  "parseHotlistEntries = parse_text_list json_hotlist"

definition serializeHotlistEntries :: "(rat \<Rightarrow> string) \<Rightarrow> HotlistEntry list \<Rightarrow> string" where
  "serializeHotlistEntries num = list_text num hotlist_json"

definition hotlist_ok :: "(rat \<Rightarrow> string) \<Rightarrow> HotlistEntry \<Rightarrow> bool" where
  "hotlist_ok num e \<longleftrightarrow> (case hl_shortcut e of Some n \<Rightarrow> num_ok num n | None \<Rightarrow> True)"

interpretation hotlist: stored_list num hotlist_json json_hotlist "hotlist_ok num" for num
  by unfold_locales
    (auto simp: hotlist_json_def json_hotlist_def json_prop_def hotlist_ok_def split: option.splits)

text \<open>The dialog; the id of a new entry comes from the clock and a random number. Every edit is
  written first, and a refused write raises (\<open>None\<close>). The indices are those of shown rows.\<close>

definition createHotlistEntry :: "string \<Rightarrow> string \<Rightarrow> string \<Rightarrow> rat option \<Rightarrow> HotlistEntry" where
  "createHotlistEntry newId label uri shortcut =
     \<lparr>hl_id = ''hotlist-'' @ newId, hl_label = label, hl_uri = uri, hl_shortcut = shortcut\<rparr>"

record HotlistDialog =
  hd_entries :: "HotlistEntry list"
  hd_editingId :: "string option"
  hd_editLabel :: string
  hd_editUri :: string

definition hotlist_key :: string where "hotlist_key = ''fileoctopus_hotlist''"

definition loadEntries :: "World \<Rightarrow> HotlistDialog \<Rightarrow> HotlistDialog option" where
  "loadEntries w d =
     (if \<not> ls_defined w \<or> ls_getFails w then None
      else Some (d\<lparr>hd_entries := parseHotlistEntries (case obj_get (ls_items w) hotlist_key of Some raw \<Rightarrow> raw | None \<Rightarrow> []),
                   hd_editingId := None\<rparr>))"

definition save_hotlist :: "(rat \<Rightarrow> string) \<Rightarrow> HotlistEntry list \<Rightarrow> HotlistDialog \<times> World \<Rightarrow> (HotlistDialog \<times> World) option" where
  "save_hotlist num entries s =
     map_option (\<lambda>w'. (fst s\<lparr>hd_entries := entries\<rparr>, w')) (store_text hotlist_key (serializeHotlistEntries num entries) (snd s))"

definition handleRemove :: "(rat \<Rightarrow> string) \<Rightarrow> string \<Rightarrow> HotlistDialog \<times> World \<Rightarrow> (HotlistDialog \<times> World) option" where
  "handleRemove num i s = save_hotlist num (filter (\<lambda>e. hl_id e \<noteq> i) (hd_entries (fst s))) s"

definition handleMoveUp :: "(rat \<Rightarrow> string) \<Rightarrow> nat \<Rightarrow> HotlistDialog \<times> World \<Rightarrow> (HotlistDialog \<times> World) option" where
  "handleMoveUp num index s =
     (let entries = hd_entries (fst s)
      in if index = 0 \<or> length entries \<le> index then Some s
         else save_hotlist num (entries[index - 1 := entries ! index, index := entries ! (index - 1)]) s)"

definition handleMoveDown :: "(rat \<Rightarrow> string) \<Rightarrow> nat \<Rightarrow> HotlistDialog \<times> World \<Rightarrow> (HotlistDialog \<times> World) option" where
  "handleMoveDown num index s =
     (let entries = hd_entries (fst s)
      in if length entries \<le> Suc index then Some s
         else save_hotlist num (entries[index := entries ! Suc index, Suc index := entries ! index]) s)"

definition startEdit :: "HotlistEntry \<Rightarrow> HotlistDialog \<Rightarrow> HotlistDialog" where
  "startEdit e d = d\<lparr>hd_editingId := Some (hl_id e), hd_editLabel := hl_label e, hd_editUri := hl_uri e\<rparr>"

definition commitEdit :: "(rat \<Rightarrow> string) \<Rightarrow> HotlistDialog \<times> World \<Rightarrow> (HotlistDialog \<times> World) option" where
  "commitEdit num s =
     (case hd_editingId (fst s) of
        Some i \<Rightarrow>
          (let label = js_trim (hd_editLabel (fst s)); uri = js_trim (hd_editUri (fst s))
           in if i = [] \<or> label = [] \<or> uri = [] then Some s
              else map_option (\<lambda>(d, w'). (d\<lparr>hd_editingId := None\<rparr>, w'))
                (save_hotlist num (map (\<lambda>e. if hl_id e = i then e\<lparr>hl_label := label, hl_uri := uri\<rparr> else e)
                  (hd_entries (fst s))) s))
      | None \<Rightarrow> Some s)"

lemma hotlist_moves_permute:
  "handleMoveUp num k s = Some s' \<Longrightarrow> mset (hd_entries (fst s')) = mset (hd_entries (fst s))"
  "handleMoveDown num k s = Some s' \<Longrightarrow> mset (hd_entries (fst s')) = mset (hd_entries (fst s))"
  by (auto simp: handleMoveUp_def handleMoveDown_def Let_def save_hotlist_def mset_swap split: if_splits)

section \<open>Tab sessions\<close>

text \<open>The check does not look into the panes, so they stay JSON.\<close>

record TabSession =
  tse_id :: string
  tse_name :: string
  tse_createdAt :: string
  tse_panes :: "json list"

definition session_json :: "TabSession \<Rightarrow> json" where
  "session_json s = JObj [(''id'', JStr (tse_id s)), (''name'', JStr (tse_name s)),
     (''createdAt'', JStr (tse_createdAt s)), (''panes'', JArr (tse_panes s))]"

definition json_session :: "json \<Rightarrow> TabSession option" where
  "json_session v =
     (case (json_prop (Some v) ''id'', json_prop (Some v) ''name'', json_prop (Some v) ''createdAt'',
            json_prop (Some v) ''panes'') of
        (Some (JStr i), Some (JStr n), Some (JStr c), Some (JArr ps)) \<Rightarrow>
          Some \<lparr>tse_id = i, tse_name = n, tse_createdAt = c, tse_panes = ps\<rparr>
      | _ \<Rightarrow> None)"

definition parseTabSessions :: "string \<Rightarrow> TabSession list" where
  "parseTabSessions = parse_text_list json_session"

definition serializeTabSessions :: "(rat \<Rightarrow> string) \<Rightarrow> TabSession list \<Rightarrow> string" where
  "serializeTabSessions num = list_text num session_json"

interpretation sessions: stored_list num session_json json_session "\<lambda>s. list_all (printable num) (tse_panes s)" for num
  by unfold_locales (auto simp: session_json_def json_session_def json_prop_def)

end
