(* ===== verification/StoredSettings.thy ===== *)
theory StoredSettings
  imports StoredLists
begin

text \<open>
  The other settings the front end keeps as text: smart folders (\<open>savedSearches.ts\<close>) and the
  places of the last session (\<open>pane/sessionPaths.ts\<close>). Smart folders are the one list that is read unchecked, so its
  operations work on whatever JSON is stored and \<open>None\<close> is their exception.
\<close>

section \<open>Smart folders\<close>

record SmartFolder =
  sf_id :: string
  sf_name :: string
  sf_baseUri :: string
  sf_query :: string

definition SMART_FOLDERS_KEY :: string where "SMART_FOLDERS_KEY = ''fo-smart-folders''"

text \<open>The object \<open>addSmartFolder\<close> builds: the fields given, then the id.\<close>

definition folder_json :: "SmartFolder \<Rightarrow> json" where
  "folder_json f = JObj [(''name'', JStr (sf_name f)), (''baseUri'', JStr (sf_baseUri f)),
     (''query'', JStr (sf_query f)), (''id'', JStr (sf_id f))]"

definition loadSmartFolders :: "World \<Rightarrow> json" where
  "loadSmartFolders w =
     (case readStorage w SMART_FOLDERS_KEY of
        Some raw \<Rightarrow> if raw = [] then JArr [] else (case json_parse raw of Some v \<Rightarrow> v | None \<Rightarrow> JArr [])
      | None \<Rightarrow> JArr [])"

definition saveSmartFolders :: "(rat \<Rightarrow> string) \<Rightarrow> json \<Rightarrow> World \<Rightarrow> World option" where
  "saveSmartFolders num folders w = store_text SMART_FOLDERS_KEY (json_text num folders) w"

text \<open>\<open>f.id === id\<close>; reading a property of \<open>null\<close> raises.\<close>

definition has_folder_id :: "string \<Rightarrow> json \<Rightarrow> bool option" where
  "has_folder_id i v = (if v = JNull then None else Some (json_prop (Some v) ''id'' = Some (JStr i)))"

definition addSmartFolder :: "(rat \<Rightarrow> string) \<Rightarrow> string \<Rightarrow> SmartFolder \<Rightarrow> World \<Rightarrow> (SmartFolder \<times> World) option" where
  "addSmartFolder num newId folder w =
     (let entry = folder\<lparr>sf_id := ''sf-'' @ newId\<rparr>
      in case loadSmartFolders w of
           JArr vs \<Rightarrow> map_option (\<lambda>w'. (entry, w')) (saveSmartFolders num (JArr (vs @ [folder_json entry])) w)
         | _ \<Rightarrow> None)"

fun without_folder :: "string \<Rightarrow> json list \<Rightarrow> json list option" where
  "without_folder i [] = Some []"
| "without_folder i (v # vs) = do { hit \<leftarrow> has_folder_id i v; rest \<leftarrow> without_folder i vs;
     Some (if hit then rest else v # rest) }"

definition removeSmartFolder :: "(rat \<Rightarrow> string) \<Rightarrow> string \<Rightarrow> World \<Rightarrow> World option" where
  "removeSmartFolder num i w =
     (case loadSmartFolders w of
        JArr vs \<Rightarrow> do {
          filtered \<leftarrow> without_folder i vs;
          if length filtered \<noteq> length vs then saveSmartFolders num (JArr filtered) w else Some w }
      | _ \<Rightarrow> None)"

text \<open>The first folder with the id gets the name; \<open>Some None\<close>: there is none.\<close>

fun renamed_folder :: "string \<Rightarrow> string \<Rightarrow> json list \<Rightarrow> json list option option" where
  "renamed_folder i name [] = Some None"
| "renamed_folder i name (v # vs) = do { hit \<leftarrow> has_folder_id i v;
     if hit then Some (Some ((case v of JObj ms \<Rightarrow> JObj (obj_set ''name'' (JStr name) ms) | _ \<Rightarrow> v) # vs))
     else do { rest \<leftarrow> renamed_folder i name vs; Some (map_option (\<lambda>r. v # r) rest) } }"

definition renameSmartFolder :: "(rat \<Rightarrow> string) \<Rightarrow> string \<Rightarrow> string \<Rightarrow> World \<Rightarrow> World option" where
  "renameSmartFolder num i name w =
     (case loadSmartFolders w of
        JArr vs \<Rightarrow> do { r \<leftarrow> renamed_folder i name vs;
          case r of Some vs' \<Rightarrow> saveSmartFolders num (JArr vs') w | None \<Rightarrow> Some w }
      | _ \<Rightarrow> None)"

text \<open>Adding, removing and renaming, one after the other, against the same edits of a plain list.\<close>

datatype FolderOp = AddFolder string SmartFolder | RemoveFolder string | RenameFolder string string

fun folder_step :: "(rat \<Rightarrow> string) \<Rightarrow> FolderOp \<Rightarrow> World \<Rightarrow> World option" where
  "folder_step num (AddFolder newId f) w = map_option snd (addSmartFolder num newId f w)"
| "folder_step num (RemoveFolder i) w = removeSmartFolder num i w"
| "folder_step num (RenameFolder i name) w = renameSmartFolder num i name w"

fun folder_run :: "(rat \<Rightarrow> string) \<Rightarrow> FolderOp list \<Rightarrow> World \<Rightarrow> World option" where
  "folder_run num [] w = Some w"
| "folder_run num (op # ops) w = do { w' \<leftarrow> folder_step num op w; folder_run num ops w' }"

fun rename_first :: "string \<Rightarrow> string \<Rightarrow> SmartFolder list \<Rightarrow> SmartFolder list" where
  "rename_first i name [] = []"
| "rename_first i name (f # fs) = (if sf_id f = i then f\<lparr>sf_name := name\<rparr> # fs else f # rename_first i name fs)"

fun list_step :: "FolderOp \<Rightarrow> SmartFolder list \<Rightarrow> SmartFolder list" where
  "list_step (AddFolder newId f) fs = fs @ [f\<lparr>sf_id := ''sf-'' @ newId\<rparr>]"
| "list_step (RemoveFolder i) fs = filter (\<lambda>f. sf_id f \<noteq> i) fs"
| "list_step (RenameFolder i name) fs = rename_first i name fs"

definition holds_folders :: "SmartFolder list \<Rightarrow> World \<Rightarrow> bool" where
  "holds_folders fs w \<longleftrightarrow> storage_works w \<and> loadSmartFolders w = JArr (map folder_json fs)"

lemma folder_id: "has_folder_id i (folder_json f) = Some (sf_id f = i)"
  by (auto simp: has_folder_id_def folder_json_def json_prop_def)

lemma without_folders: "without_folder i (map folder_json fs) = Some (map folder_json (filter (\<lambda>f. sf_id f \<noteq> i) fs))"
  by (induction fs) (simp_all add: folder_id)

lemma folder_renamed:
  "(case folder_json f of JObj ms \<Rightarrow> JObj (obj_set ''name'' (JStr name) ms) | _ \<Rightarrow> folder_json f) = folder_json (f\<lparr>sf_name := name\<rparr>)"
  by (simp add: folder_json_def)

lemma renamed_folders:
  "renamed_folder i name (map folder_json fs) =
     Some (if list_ex (\<lambda>f. sf_id f = i) fs then Some (map folder_json (rename_first i name fs)) else None)"
  by (induction fs) (auto simp: folder_id folder_renamed)

lemma rename_first_absent: "\<not> list_ex (\<lambda>f. sf_id f = i) fs \<Longrightarrow> rename_first i name fs = fs"
  by (induction fs) auto

lemma saved_folders_hold:
  assumes "storage_works w"
  shows "\<exists>w'. saveSmartFolders num (JArr (map folder_json fs)) w = Some w' \<and> holds_folders fs w'"
proof -
  let ?v = "JArr (map folder_json fs)"
  obtain w' where w': "saveSmartFolders num ?v w = Some w'" "storage_works w'"
      "readStorage w' SMART_FOLDERS_KEY = Some (json_text num ?v)"
    using store_text_works[OF assms] by (auto simp: saveSmartFolders_def)
  have "json_parse (json_text num ?v) = Some ?v"
    by (rule json_text_read_back) (simp add: list_all_iff folder_json_def)
  moreover have "json_text num ?v \<noteq> []" by simp
  ultimately have "loadSmartFolders w' = ?v" using w'(3) by (simp add: loadSmartFolders_def del: json_text.simps)
  with w' show ?thesis by (auto simp: holds_folders_def)
qed

lemma folder_step_refines:
  assumes "holds_folders fs w"
  shows "\<exists>w'. folder_step num op w = Some w' \<and> holds_folders (list_step op fs) w'"
proof -
  have sw: "storage_works w" and ld: "loadSmartFolders w = JArr (map folder_json fs)"
    using assms by (auto simp: holds_folders_def)
  show ?thesis
  proof (cases op)
    case (AddFolder newId f)
    with ld saved_folders_hold[OF sw, of num "fs @ [f\<lparr>sf_id := ''sf-'' @ newId\<rparr>]"] show ?thesis
      by (auto simp: addSmartFolder_def)
  next
    case (RemoveFolder i)
    show ?thesis
    proof (cases "length (filter (\<lambda>f. sf_id f \<noteq> i) fs) = length fs")
      case True
      then have "filter (\<lambda>f. sf_id f \<noteq> i) fs = fs" by (metis filter_True length_filter_less less_irrefl)
      with RemoveFolder ld assms show ?thesis by (simp add: removeSmartFolder_def without_folders)
    next
      case False
      with RemoveFolder ld saved_folders_hold[OF sw, of num "filter (\<lambda>f. sf_id f \<noteq> i) fs"] show ?thesis
        by (simp add: removeSmartFolder_def without_folders)
    qed
  next
    case (RenameFolder i name)
    with ld assms saved_folders_hold[OF sw, of num "rename_first i name fs"] show ?thesis
      by (cases "list_ex (\<lambda>f. sf_id f = i) fs") (simp_all add: renameSmartFolder_def renamed_folders rename_first_absent)
  qed
qed

lemma folder_run_refines:
  "holds_folders fs w \<Longrightarrow> \<exists>w'. folder_run num ops w = Some w' \<and> holds_folders (fold list_step ops fs) w'"
proof (induction ops arbitrary: fs w)
  case (Cons op ops)
  obtain w1 where "folder_step num op w = Some w1" "holds_folders (list_step op fs) w1"
    using folder_step_refines[OF Cons.prems] by blast
  with Cons.IH[of "list_step op fs" w1] show ?case by simp
qed simp

text \<open>The stored smart folders implement a list. Starting from stored folders, and with a
  local storage that works, no sequence of additions, removals and renames raises, and the text
  in storage afterwards reads as the list the same edits give: an addition goes to the end under
  its new id, a removal takes every folder with the id, a rename changes the first one only.\<close>

theorem smart_folders_refine_list:
  assumes "storage_works w" and "loadSmartFolders w = JArr (map folder_json fs)"
  shows "\<exists>w'. folder_run num ops w = Some w'
    \<and> loadSmartFolders w' = JArr (map folder_json (fold list_step ops fs))"
  using folder_run_refines[of fs w num ops] assms by (auto simp: holds_folders_def)

definition folder_demo_ops :: "FolderOp list" where
  "folder_demo_ops =
     [AddFolder ''1'' \<lparr>sf_id = '''', sf_name = ''logs'', sf_baseUri = ''local:///var'', sf_query = ''*.log''\<rparr>,
      AddFolder ''2'' \<lparr>sf_id = '''', sf_name = ''docs'', sf_baseUri = ''local:///home'', sf_query = ''md''\<rparr>,
      RenameFolder ''sf-2'' ''notes'', RemoveFolder ''sf-1'']"

lemma smart_folders_refine_list_witness:
  "\<exists>w'. folder_run int_text folder_demo_ops tags_demo_world = Some w' \<and> loadSmartFolders w' =
     JArr [folder_json \<lparr>sf_id = ''sf-2'', sf_name = ''notes'', sf_baseUri = ''local:///home'', sf_query = ''md''\<rparr>]"
proof -
  have "storage_works tags_demo_world" by (simp add: storage_works_def tags_demo_world_def)
  moreover have "loadSmartFolders tags_demo_world = JArr (map folder_json [])"
    by (simp add: loadSmartFolders_def readStorage_def tags_demo_world_def)
  ultimately obtain w' where "folder_run int_text folder_demo_ops tags_demo_world = Some w'"
      "loadSmartFolders w' = JArr (map folder_json (fold list_step folder_demo_ops []))"
    using smart_folders_refine_list[of tags_demo_world "[]" int_text folder_demo_ops] by blast
  then show ?thesis by (simp add: folder_demo_ops_def)
qed

section \<open>The places of the last session\<close>

definition SESSION_PATHS_KEY :: string where "SESSION_PATHS_KEY = ''fileoctopus.sessionPaths''"

definition REMEMBER_KEY :: string where "REMEMBER_KEY = ''fileoctopus.rememberSessionPaths''"

record SessionPaths =
  sp_left :: "string option"
  sp_right :: "string option"

definition persistSessionPaths :: "(rat \<Rightarrow> string) \<Rightarrow> string \<Rightarrow> string \<Rightarrow> World \<Rightarrow> World" where
  "persistSessionPaths num left right w =
     persistValue SESSION_PATHS_KEY (json_text num (JObj [(''left'', JStr left), (''right'', JStr right)])) w"

text \<open>A property of \<open>null\<close> raises inside the \<open>try\<close>, which counts as nothing too.\<close>

definition restoreSessionPaths :: "World \<Rightarrow> SessionPaths" where
  "restoreSessionPaths w =
     (case readStorage w SESSION_PATHS_KEY of
        Some raw \<Rightarrow>
          if raw = [] then \<lparr>sp_left = None, sp_right = None\<rparr>
          else \<lparr>sp_left = json_str (json_prop (json_parse raw) ''left''),
                sp_right = json_str (json_prop (json_parse raw) ''right'')\<rparr>
      | None \<Rightarrow> \<lparr>sp_left = None, sp_right = None\<rparr>)"

definition remove_item :: "string \<Rightarrow> World \<Rightarrow> World" where
  "remove_item key w = (if \<not> ls_defined w \<or> ls_setFails w then w else w\<lparr>ls_items := obj_del key (ls_items w)\<rparr>)"

definition clearSessionPaths :: "World \<Rightarrow> World" where
  "clearSessionPaths w = remove_item SESSION_PATHS_KEY w"

definition getRememberSessionPaths :: "World \<Rightarrow> bool" where
  "getRememberSessionPaths w =
     (case readStorage w REMEMBER_KEY of Some raw \<Rightarrow> raw = ''true'' | None \<Rightarrow> True)"

definition setRememberSessionPaths :: "bool \<Rightarrow> World \<Rightarrow> World" where
  "setRememberSessionPaths b w = persistValue REMEMBER_KEY (bool_str b) w"

lemma session_paths_restored:
  assumes "storage_works w"
  shows "restoreSessionPaths (persistSessionPaths num l r w) = \<lparr>sp_left = Some l, sp_right = Some r\<rparr>"
proof -
  let ?t = "json_text num (JObj [(''left'', JStr l), (''right'', JStr r)])"
  have "json_parse ?t = Some (JObj [(''left'', JStr l), (''right'', JStr r)])"
    by (rule json_text_read_back) simp
  moreover have "?t \<noteq> []" by simp
  ultimately show ?thesis
    using assms
    by (simp add: restoreSessionPaths_def persistSessionPaths_def storage_works_def json_prop_def json_str_def
        del: json_text.simps)
qed

lemma remember_restored:
  "storage_works w \<Longrightarrow> getRememberSessionPaths (setRememberSessionPaths b w) = b"
  by (cases b) (simp_all add: getRememberSessionPaths_def setRememberSessionPaths_def storage_works_def bool_str_def)

end
