(* ===== verification/GitTypes.thy ===== *)
theory GitTypes
  imports Dto Json "HOL-Library.Multiset"
begin

text \<open>
  What the git review works on: the transfer types of the git client (generated) and the pure
  functions of \<open>components/git/GitReviewTab.tsx\<close> that lay a diff out side by side, group
  files by folder and word labels.
\<close>

section \<open>Transfer types\<close>

datatype GitFileStatus =
  GitClean | GitModified | GitAdded | GitDeleted | GitRenamed | GitUntracked | GitIgnored
| GitConflicted | GitUnknown

record GitRepoInfoDto =
  gri_rootUri :: string
  gri_branch :: "string option"
  gri_headShort :: "string option"
  gri_isDirty :: bool

record GitChangedFileDto =
  gcf_uri :: string
  gcf_repoRelativePath :: string
  gcf_status :: GitFileStatus
  gcf_previousUri :: "string option"
  gcf_previousRepoRelativePath :: "string option"

record DiffLine =
  dl_kind :: string
  dl_content :: string
  dl_oldLine :: "nat option"
  dl_newLine :: "nat option"

record DiffHunk =
  dh_oldStart :: nat
  dh_oldCount :: nat
  dh_newStart :: nat
  dh_newCount :: nat
  dh_lines :: "DiffLine list"

record GitDiffFileResponse =
  gdf_repo :: "GitRepoInfoDto option"
  gdf_file :: GitChangedFileDto
  gdf_oldLabel :: string
  gdf_newLabel :: string
  gdf_hunks :: "DiffHunk list"
  gdf_oldLineCount :: nat
  gdf_newLineCount :: nat
  gdf_oldTruncated :: bool
  gdf_newTruncated :: bool
  gdf_binary :: bool
  gdf_unsupportedReason :: "string option"

record GitCommitDto =
  gc_hash :: string
  gc_shortHash :: string
  gc_parents :: "string list"
  gc_parentCount :: nat
  gc_authorName :: string
  gc_authorEmail :: string
  gc_authoredAt :: string
  gc_subject :: string
  gc_body :: string

record GitBranchDto =
  gb_fullName :: string
  gb_name :: string
  gb_kind :: string
  gb_isCurrent :: bool
  gb_head :: string
  gb_upstream :: "string option"
  gb_lastCommitAt :: "string option"
  gb_subject :: string

record GitWorktreeDto =
  gw_pathUri :: string
  gw_branch :: "string option"
  gw_head :: "string option"
  gw_detached :: bool
  gw_bare :: bool
  gw_prunable :: bool
  gw_prunableReason :: "string option"

record GitRevisionFileDto =
  grf_uri :: string
  grf_repoRelativePath :: string

record GitStatusForRepositoryResponse =
  gst_repo :: "GitRepoInfoDto option"
  gst_files :: "GitChangedFileDto list"

record GitHistoryResponse =
  ghi_repo :: "GitRepoInfoDto option"
  ghi_commits :: "GitCommitDto list"

record GitBranchesResponse =
  gbr_repo :: "GitRepoInfoDto option"
  gbr_branches :: "GitBranchDto list"

record GitWorktreesResponse =
  gwt_repo :: "GitRepoInfoDto option"
  gwt_worktrees :: "GitWorktreeDto list"

record GitRevisionDiffResponse =
  grd_repo :: "GitRepoInfoDto option"
  grd_base :: string
  grd_head :: string
  grd_files :: "GitDiffFileResponse list"

record GitRevisionFilesResponse =
  grv_repo :: "GitRepoInfoDto option"
  grv_revision :: string
  grv_files :: "GitRevisionFileDto list"

section \<open>Labels and names\<close>

definition commitTitle :: "GitCommitDto \<Rightarrow> string" where
  "commitTitle commit = (if gc_subject commit = [] then gc_shortHash commit else gc_subject commit)"

definition folderName :: "string \<Rightarrow> string" where
  "folderName path =
     (let parts = js_split (CHR ''/'') path
      in if length parts \<le> 1 then ''.'' else js_join ''/'' (butlast parts))"

definition fileName :: "string \<Rightarrow> string" where
  "fileName path = last (js_split (CHR ''/'') path)"

definition trimLine :: "string \<Rightarrow> string" where
  "trimLine content = (if content \<noteq> [] \<and> code (last content) = 10 then butlast content else content)"

definition parentCountLabel :: "nat \<Rightarrow> string" where
  "parentCountLabel n = (if n = 1 then ''1 parent'' else nat_str n @ '' parents'')"

definition shortHash :: "string \<Rightarrow> string" where
  "shortHash hash = (if 7 < length hash then take 7 hash else hash)"

definition worktreeStateLabel :: "GitWorktreeDto \<Rightarrow> string" where
  "worktreeStateLabel w = (if gw_detached w then ''detached'' else ''no branch'')"

fun gitStatusLabel :: "GitFileStatus \<Rightarrow> string" where
  "gitStatusLabel GitModified = ''M''"
| "gitStatusLabel GitAdded = ''A''"
| "gitStatusLabel GitDeleted = ''D''"
| "gitStatusLabel GitRenamed = ''R''"
| "gitStatusLabel GitUntracked = ''?''"
| "gitStatusLabel GitIgnored = ''I''"
| "gitStatusLabel GitConflicted = ''U''"
| "gitStatusLabel GitUnknown = ''!''"
| "gitStatusLabel GitClean = ''''"

definition line_marker :: "DiffLine \<Rightarrow> string" where
  "line_marker line = (if dl_kind line = ''delete'' then ''-'' else if dl_kind line = ''insert'' then ''+'' else '' '')"

section \<open>Side by side\<close>

text \<open>A row: the line on the left and the line on the right.\<close>

fun pairedLines :: "DiffLine list \<Rightarrow> (DiffLine option \<times> DiffLine option) list" where
  "pairedLines [] = []"
| "pairedLines (line # rest) =
     (if dl_kind line = ''delete'' \<and> (case rest of n # _ \<Rightarrow> dl_kind n = ''insert'' | [] \<Rightarrow> False)
      then (Some line, Some (hd rest)) # pairedLines (tl rest)
      else if dl_kind line = ''delete'' then (Some line, None) # pairedLines rest
      else if dl_kind line = ''insert'' then (None, Some line) # pairedLines rest
      else (Some line, Some line) # pairedLines rest)"

section \<open>Grouping by folder\<close>

text \<open>The map keeps folders in the order in which they first occur.\<close>

definition groupPathFiles :: "('a \<Rightarrow> string) \<Rightarrow> 'a list \<Rightarrow> (string \<times> 'a list) list" where
  "groupPathFiles path files =
     foldl (\<lambda>groups file.
       let folder = folderName (path file)
       in obj_set folder ((case obj_get groups folder of Some fs \<Rightarrow> fs | None \<Rightarrow> []) @ [file]) groups) [] files"

definition groupFiles :: "GitChangedFileDto list \<Rightarrow> (string \<times> GitChangedFileDto list) list" where
  "groupFiles files = groupPathFiles gcf_repoRelativePath files"

section \<open>Properties\<close>

definition left_lines :: "DiffLine list \<Rightarrow> DiffLine list" where
  "left_lines lines = filter (\<lambda>l. dl_kind l \<noteq> ''insert'') lines"

definition right_lines :: "DiffLine list \<Rightarrow> DiffLine list" where
  "right_lines lines = filter (\<lambda>l. dl_kind l \<noteq> ''delete'') lines"

lemma paired_left: "List.map_filter fst (pairedLines ls) = left_lines ls"
  by (induction ls rule: pairedLines.induct)
    (auto simp: left_lines_def List.map_filter_simps split: list.splits if_splits)

lemma paired_right: "List.map_filter snd (pairedLines ls) = right_lines ls"
  by (induction ls rule: pairedLines.induct)
    (auto simp: right_lines_def List.map_filter_simps split: list.splits if_splits)

lemma paired_both:
  "filter (\<lambda>l. dl_kind l \<noteq> ''delete'' \<and> dl_kind l \<noteq> ''insert'') ls
     = List.map_filter (\<lambda>(l, r). if l = r then l else None) (pairedLines ls)"
proof (induction ls rule: pairedLines.induct)
  case (2 line rest)
  show ?case
  proof (cases "dl_kind line = ''delete''")
    case True
    show ?thesis
    proof (cases rest)
      case (Cons n ns)
      with 2 True show ?thesis by (cases "dl_kind n = ''insert''") (auto simp: List.map_filter_simps)
    qed (use True in \<open>simp add: List.map_filter_simps\<close>)
  next
    case False
    with 2 show ?thesis by (simp add: List.map_filter_simps)
  qed
qed (simp add: List.map_filter_simps)

lemma paired_nonempty: "(None, None) \<notin> set (pairedLines ls)"
proof (induction ls rule: pairedLines.induct)
  case (2 line rest)
  show ?case
  proof (cases "dl_kind line = ''delete''")
    case True
    show ?thesis
    proof (cases rest)
      case (Cons n ns)
      with 2 True show ?thesis by (cases "dl_kind n = ''insert''") auto
    qed (use True in simp)
  next
    case False
    with 2 show ?thesis by simp
  qed
qed simp

text \<open>The side-by-side view shows the whole diff. Whatever the order of the lines of a hunk, the
  left column read downwards is the old text, every line but the inserted ones, and the right
  column the new text, every line but the deleted ones, each once and in order; no row is empty,
  and an unchanged line stands in both columns of one row.\<close>

theorem side_by_side_complete:
  "List.map_filter fst (pairedLines ls) = left_lines ls \<and>
   List.map_filter snd (pairedLines ls) = right_lines ls \<and>
   (None, None) \<notin> set (pairedLines ls) \<and>
   filter (\<lambda>l. dl_kind l \<noteq> ''delete'' \<and> dl_kind l \<noteq> ''insert'') ls
     = List.map_filter (\<lambda>(l, r). if l = r then l else None) (pairedLines ls)"
  by (simp add: paired_left paired_right paired_both paired_nonempty)

lemma set_of_array_snoc: "set_of_array (xs @ [x]) = (if x \<in> set xs then set_of_array xs else set_of_array xs @ [x])"
  by (induction xs) auto

lemma obj_set_tabulated:
  "distinct ds \<Longrightarrow> obj_set d v (map (\<lambda>x. (x, g x)) ds) =
     map (\<lambda>x. (x, (g(d := v)) x)) (if d \<in> set ds then ds else ds @ [d])"
  by (induction ds) (auto simp: map_eq_conv)

lemma obj_get_tabulated: "obj_get (map (\<lambda>x. (x, g x)) ds) d = (if d \<in> set ds then Some (g d) else None)"
  by (induction ds) auto

text \<open>Files are grouped as the reference says. The groups of changed files are the folders in
  the order in which they first occur, each once, and the group of a folder is all files of that
  folder, in their order.\<close>

theorem groups_are_folders:
  "groupPathFiles path files =
     map (\<lambda>d. (d, filter (\<lambda>f. folderName (path f) = d) files))
       (set_of_array (map (\<lambda>f. folderName (path f)) files))"
proof (induction files rule: rev_induct)
  case (snoc x xs)
  let ?d = "folderName (path x)" and ?ds = "set_of_array (map (\<lambda>f. folderName (path f)) xs)"
  let ?g = "\<lambda>d. filter (\<lambda>f. folderName (path f) = d) xs"
  have "groupPathFiles path (xs @ [x]) =
      obj_set ?d ((if ?d \<in> set ?ds then ?g ?d else []) @ [x]) (map (\<lambda>d. (d, ?g d)) ?ds)"
    using snoc.IH by (simp add: groupPathFiles_def Let_def obj_get_tabulated)
  also have "(if ?d \<in> set ?ds then ?g ?d else []) = ?g ?d"
  proof (cases "?d \<in> set ?ds")
    case False
    then have "\<forall>f \<in> set xs. folderName (path f) \<noteq> ?d" by (force simp: image_iff)
    then have "?g ?d = []" by (simp add: filter_empty_conv)
    with False show ?thesis by simp
  qed simp
  finally show ?case
    by (simp add: obj_set_tabulated set_of_array_snoc)
qed (simp add: groupPathFiles_def)

end
