(* ===== verification/GitReview.thy ===== *)
theory GitReview
  imports GitTypes Env
begin

text \<open>
  The git review tab (\<open>components/git/GitReviewTab.tsx\<close>) as a state machine: its React state,
  the ten kinds of calls it makes to the git client, and the six effects that make them. An
  effect runs again after a render in which one of its dependencies has changed, after the
  cleanup of its last run, which marks the call of that run as cancelled; it works with the
  values of the render and adds to the state. A response is kept with the number of its call,
  because the dependencies compare files and commits of a response by identity. The client is
  the environment: an event delivers the result of a call in flight. The markup is not modelled.
\<close>

section \<open>State\<close>

datatype GitSubTab = Changes | History | Branches | Worktrees | Files

datatype DiffMode = Unified | SideBySide

datatype GitLoad =
  LStatus | LHistory | LBranches | LWorktrees | LRepoFiles
| LDiff | LHistoryDiff | LBranchDetail | LWorktreeStatus | LWorktreeDiff

datatype GitRequest =
  AskStatus string
| AskDiffFile string
| AskHistory string nat
| AskBranches string
| AskWorktrees string
| AskRevisionDiff string string string nat
| AskRevisionFiles string string nat

record GitCall =
  gcl_id :: nat
  gcl_load :: GitLoad
  gcl_asked :: "GitRequest list"
  gcl_cancelled :: bool

datatype GitEffect = ELoad | EDiff | EHistory | EBranch | EWorktree | EWorktreeDiff

text \<open>Tab, repository, refresh token and the identity of what is selected, as far as the effect
  depends on them.\<close>

type_synonym EffectDeps = "GitSubTab \<times> string \<times> nat \<times> (nat \<times> string) option"

record GitReview =
  gv_repoRootUri :: string
  gv_refreshToken :: nat
  gv_activeTab :: GitSubTab
  gv_status :: "(nat \<times> GitStatusForRepositoryResponse) option"
  gv_history :: "(nat \<times> GitHistoryResponse) option"
  gv_branches :: "(nat \<times> GitBranchesResponse) option"
  gv_worktrees :: "(nat \<times> GitWorktreesResponse) option"
  gv_repoFiles :: "GitRevisionFilesResponse option"
  gv_selectedUri :: "string option"
  gv_selectedCommit :: "string option"
  gv_historyDiff :: "GitRevisionDiffResponse option"
  gv_selectedHistoryDiffUri :: "string option"
  gv_selectedBranchName :: "string option"
  gv_branchDiff :: "GitRevisionDiffResponse option"
  gv_branchFiles :: "GitRevisionFilesResponse option"
  gv_selectedBranchDiffUri :: "string option"
  gv_selectedBranchFileUri :: "string option"
  gv_selectedWorktreeUri :: "string option"
  gv_worktreeStatus :: "(nat \<times> GitStatusForRepositoryResponse) option"
  gv_worktreeDiff :: "GitDiffFileResponse option"
  gv_selectedWorktreeFileUri :: "string option"
  gv_selectedRepoFileUri :: "string option"
  gv_diff :: "GitDiffFileResponse option"
  gv_loading :: "GitLoad \<Rightarrow> bool"
  gv_error :: "string option"
  gv_diffMode :: DiffMode
  gv_calls :: "GitCall list"
  gv_nextCall :: nat
  gv_effects :: "GitEffect \<Rightarrow> (EffectDeps \<times> nat option) option"

definition MAX_DIFF_BYTES :: nat where "MAX_DIFF_BYTES = 512 * 1024"

definition MAX_TREE_FILES :: nat where "MAX_TREE_FILES = 1000"

definition DIFF_MODE_KEY :: string where "DIFF_MODE_KEY = ''fileoctopus.gitDiffMode''"

definition storedDiffMode :: "World \<Rightarrow> DiffMode option" where
  "storedDiffMode w =
     (if \<not> ls_defined w \<or> ls_getFails w then None
      else Some (if obj_get (ls_items w) DIFF_MODE_KEY = Some ''side-by-side'' then SideBySide else Unified))"

definition initial_review :: "string \<Rightarrow> nat \<Rightarrow> DiffMode \<Rightarrow> GitReview" where
  "initial_review repo token mode =
     \<lparr>gv_repoRootUri = repo, gv_refreshToken = token, gv_activeTab = Changes, gv_status = None, gv_history = None,
      gv_branches = None, gv_worktrees = None, gv_repoFiles = None, gv_selectedUri = None,
      gv_selectedCommit = None, gv_historyDiff = None, gv_selectedHistoryDiffUri = None,
      gv_selectedBranchName = None, gv_branchDiff = None, gv_branchFiles = None,
      gv_selectedBranchDiffUri = None, gv_selectedBranchFileUri = None, gv_selectedWorktreeUri = None,
      gv_worktreeStatus = None, gv_worktreeDiff = None, gv_selectedWorktreeFileUri = None,
      gv_selectedRepoFileUri = None, gv_diff = None, gv_loading = (\<lambda>_. False), gv_error = None,
      gv_diffMode = mode, gv_calls = [], gv_nextCall = 0, gv_effects = (\<lambda>_. None)\<rparr>"

section \<open>What is selected\<close>

definition pick :: "('r \<Rightarrow> 'a list) \<Rightarrow> ('a \<Rightarrow> string) \<Rightarrow> (nat \<times> 'r) option \<Rightarrow> string option \<Rightarrow> 'a option" where
  "pick items key response sel =
     (case response of Some (n, r) \<Rightarrow> find (\<lambda>x. Some (key x) = sel) (items r) | None \<Rightarrow> None)"

definition pick_id :: "('r \<Rightarrow> 'a list) \<Rightarrow> ('a \<Rightarrow> string) \<Rightarrow> (nat \<times> 'r) option \<Rightarrow> string option \<Rightarrow> (nat \<times> string) option" where
  "pick_id items key response sel =
     (case response of
        Some (n, r) \<Rightarrow> map_option (\<lambda>x. (n, key x)) (find (\<lambda>x. Some (key x) = sel) (items r))
      | None \<Rightarrow> None)"

definition selectedFile :: "GitReview \<Rightarrow> GitChangedFileDto option" where
  "selectedFile s = pick gst_files gcf_uri (gv_status s) (gv_selectedUri s)"

definition selectedHistoryCommit :: "GitReview \<Rightarrow> GitCommitDto option" where
  "selectedHistoryCommit s = pick ghi_commits gc_hash (gv_history s) (gv_selectedCommit s)"

definition selectedBranch :: "GitReview \<Rightarrow> GitBranchDto option" where
  "selectedBranch s = pick gbr_branches gb_fullName (gv_branches s) (gv_selectedBranchName s)"

definition selectedBranchFile :: "GitReview \<Rightarrow> GitRevisionFileDto option" where
  "selectedBranchFile s =
     (case gv_branchFiles s of Some r \<Rightarrow> find (\<lambda>f. Some (grf_uri f) = gv_selectedBranchFileUri s) (grv_files r) | None \<Rightarrow> None)"

definition selectedWorktree :: "GitReview \<Rightarrow> GitWorktreeDto option" where
  "selectedWorktree s = pick gwt_worktrees gw_pathUri (gv_worktrees s) (gv_selectedWorktreeUri s)"

definition selectedWorktreeFile :: "GitReview \<Rightarrow> GitChangedFileDto option" where
  "selectedWorktreeFile s = pick gst_files gcf_uri (gv_worktreeStatus s) (gv_selectedWorktreeFileUri s)"

definition selectedRepoFile :: "GitReview \<Rightarrow> GitRevisionFileDto option" where
  "selectedRepoFile s =
     (case gv_repoFiles s of Some r \<Rightarrow> find (\<lambda>f. Some (grf_uri f) = gv_selectedRepoFileUri s) (grv_files r) | None \<Rightarrow> None)"

definition selected_diff :: "GitRevisionDiffResponse option \<Rightarrow> string option \<Rightarrow> GitDiffFileResponse option" where
  "selected_diff diff sel =
     (case diff of Some d \<Rightarrow> find (\<lambda>f. Some (gcf_uri (gdf_file f)) = sel) (grd_files d) | None \<Rightarrow> None)"

definition selectedHistoryDiff :: "GitReview \<Rightarrow> GitDiffFileResponse option" where
  "selectedHistoryDiff s = selected_diff (gv_historyDiff s) (gv_selectedHistoryDiffUri s)"

definition selectedBranchDiff :: "GitReview \<Rightarrow> GitDiffFileResponse option" where
  "selectedBranchDiff s = selected_diff (gv_branchDiff s) (gv_selectedBranchDiffUri s)"

section \<open>Calls\<close>

definition begin_load :: "GitLoad \<Rightarrow> GitRequest list \<Rightarrow> GitReview \<Rightarrow> GitReview" where
  "begin_load l asked s =
     s\<lparr>gv_loading := (gv_loading s)(l := True), gv_error := None,
       gv_calls := gv_calls s @ [\<lparr>gcl_id = gv_nextCall s, gcl_load = l, gcl_asked = asked, gcl_cancelled = False\<rparr>],
       gv_nextCall := Suc (gv_nextCall s)\<rparr>"

definition loadStatus :: "string \<Rightarrow> GitReview \<Rightarrow> GitReview" where
  "loadStatus repo s = begin_load LStatus [AskStatus repo] s"

definition loadHistory :: "string \<Rightarrow> GitReview \<Rightarrow> GitReview" where
  "loadHistory repo s = begin_load LHistory [AskHistory repo 100] s"

definition loadBranches :: "string \<Rightarrow> GitReview \<Rightarrow> GitReview" where
  "loadBranches repo s = begin_load LBranches [AskBranches repo] s"

definition loadWorktrees :: "string \<Rightarrow> GitReview \<Rightarrow> GitReview" where
  "loadWorktrees repo s = begin_load LWorktrees [AskWorktrees repo] s"

definition loadRepoFiles :: "string \<Rightarrow> GitReview \<Rightarrow> GitReview" where
  "loadRepoFiles repo s = begin_load LRepoFiles [AskRevisionFiles repo ''HEAD'' MAX_TREE_FILES] s"

fun load_tab :: "GitSubTab \<Rightarrow> string \<Rightarrow> GitReview \<Rightarrow> GitReview" where
  "load_tab Changes repo s = loadStatus repo s"
| "load_tab History repo s = loadHistory repo s"
| "load_tab Branches repo s = loadBranches repo s"
| "load_tab Worktrees repo s = loadWorktrees repo s"
| "load_tab Files repo s = loadRepoFiles repo s"

definition cancel_call :: "nat option \<Rightarrow> GitReview \<Rightarrow> GitReview" where
  "cancel_call live s =
     (case live of
        Some i \<Rightarrow> s\<lparr>gv_calls := map (\<lambda>c. if gcl_id c = i then c\<lparr>gcl_cancelled := True\<rparr> else c) (gv_calls s)\<rparr>
      | None \<Rightarrow> s)"

section \<open>Effects\<close>

fun effect_deps :: "GitEffect \<Rightarrow> GitReview \<Rightarrow> EffectDeps" where
  "effect_deps ELoad s = (gv_activeTab s, gv_repoRootUri s, gv_refreshToken s, None)"
| "effect_deps EDiff s = (gv_activeTab s, [], 0, pick_id gst_files gcf_uri (gv_status s) (gv_selectedUri s))"
| "effect_deps EHistory s =
     (gv_activeTab s, gv_repoRootUri s, 0, pick_id ghi_commits gc_hash (gv_history s) (gv_selectedCommit s))"
| "effect_deps EBranch s =
     (gv_activeTab s, gv_repoRootUri s, 0, pick_id gbr_branches gb_fullName (gv_branches s) (gv_selectedBranchName s))"
| "effect_deps EWorktree s =
     (gv_activeTab s, [], 0, pick_id gwt_worktrees gw_pathUri (gv_worktrees s) (gv_selectedWorktreeUri s))"
| "effect_deps EWorktreeDiff s =
     (gv_activeTab s, [], 0, pick_id gst_files gcf_uri (gv_worktreeStatus s) (gv_selectedWorktreeFileUri s))"

text \<open>The body of an effect with the values \<open>r\<close> of the render, and the call its cleanup cancels.\<close>

fun effect_body :: "GitEffect \<Rightarrow> GitReview \<Rightarrow> GitReview \<Rightarrow> GitReview \<times> nat option" where
  "effect_body ELoad r s = (load_tab (gv_activeTab r) (gv_repoRootUri r) s, Some (gv_nextCall s))"
| "effect_body EDiff r s =
     (case selectedFile r of
        Some f \<Rightarrow>
          (if gv_activeTab r \<noteq> Changes then (s\<lparr>gv_diff := None\<rparr>, None)
           else ((begin_load LDiff [AskDiffFile (gcf_uri f)] s)\<lparr>gv_diff := None\<rparr>, Some (gv_nextCall s)))
      | None \<Rightarrow> (s\<lparr>gv_diff := None\<rparr>, None))"
| "effect_body EHistory r s =
     (let none = s\<lparr>gv_historyDiff := None, gv_selectedHistoryDiffUri := None\<rparr>
      in case selectedHistoryCommit r of
           Some c \<Rightarrow>
             (if gv_activeTab r \<noteq> History then (none, None)
              else let base = (case gc_parents c of p # _ \<Rightarrow> p | [] \<Rightarrow> gc_hash c @ ''^'')
                   in (begin_load LHistoryDiff [AskRevisionDiff (gv_repoRootUri r) base (gc_hash c) MAX_DIFF_BYTES] s,
                       Some (gv_nextCall s)))
         | None \<Rightarrow> (none, None))"
| "effect_body EBranch r s =
     (let none = s\<lparr>gv_branchDiff := None, gv_branchFiles := None, gv_selectedBranchDiffUri := None,
                   gv_selectedBranchFileUri := None\<rparr>
      in case selectedBranch r of
           Some b \<Rightarrow>
             (if gv_activeTab r \<noteq> Branches then (none, None)
              else (begin_load LBranchDetail
                      [AskRevisionDiff (gv_repoRootUri r) ''HEAD'' (gb_fullName b) MAX_DIFF_BYTES,
                       AskRevisionFiles (gv_repoRootUri r) (gb_fullName b) MAX_TREE_FILES] s,
                    Some (gv_nextCall s)))
         | None \<Rightarrow> (none, None))"
| "effect_body EWorktree r s =
     (let none = s\<lparr>gv_worktreeStatus := None, gv_selectedWorktreeFileUri := None\<rparr>
      in case selectedWorktree r of
           Some w \<Rightarrow>
             (if gv_activeTab r \<noteq> Worktrees then (none, None)
              else (begin_load LWorktreeStatus [AskStatus (gw_pathUri w)] s, Some (gv_nextCall s)))
         | None \<Rightarrow> (none, None))"
| "effect_body EWorktreeDiff r s =
     (case selectedWorktreeFile r of
        Some f \<Rightarrow>
          (if gv_activeTab r \<noteq> Worktrees then (s\<lparr>gv_worktreeDiff := None\<rparr>, None)
           else ((begin_load LWorktreeDiff [AskDiffFile (gcf_uri f)] s)\<lparr>gv_worktreeDiff := None\<rparr>, Some (gv_nextCall s)))
      | None \<Rightarrow> (s\<lparr>gv_worktreeDiff := None\<rparr>, None))"

definition start_effect :: "GitEffect \<Rightarrow> GitReview \<Rightarrow> GitReview \<Rightarrow> GitReview" where
  "start_effect e r s =
     (let (s', live) = effect_body e r s
      in s'\<lparr>gv_effects := (gv_effects s')(e := Some (effect_deps e r, live))\<rparr>)"

definition run_effect :: "GitReview \<Rightarrow> GitReview \<Rightarrow> GitEffect \<Rightarrow> GitReview" where
  "run_effect r s e =
     (case gv_effects s e of
        Some (deps, live) \<Rightarrow> if deps = effect_deps e r then s else start_effect e r (cancel_call live s)
      | None \<Rightarrow> start_effect e r s)"

definition all_effects :: "GitEffect list" where
  "all_effects = [ELoad, EDiff, EHistory, EBranch, EWorktree, EWorktreeDiff]"

definition commit_render :: "GitReview \<Rightarrow> GitReview" where
  "commit_render s = foldl (run_effect s) s all_effects"

text \<open>The effect of the worktree may deselect the file of its status and so change a dependency of
  the last effect; after a second render nothing changes any more (lemma \<open>settled_stays\<close>).\<close>

definition settle :: "GitReview \<Rightarrow> GitReview" where
  "settle s = commit_render (commit_render s)"

section \<open>Results of calls\<close>

datatype GitAnswer =
  AnswerStatus GitStatusForRepositoryResponse
| AnswerHistory GitHistoryResponse
| AnswerBranches GitBranchesResponse
| AnswerWorktrees GitWorktreesResponse
| AnswerFiles GitRevisionFilesResponse
| AnswerDiffFile GitDiffFileResponse
| AnswerRevisionDiff GitRevisionDiffResponse
| AnswerBranchDetail GitRevisionDiffResponse GitRevisionFilesResponse

text \<open>What was selected stays so if the response lists it.\<close>

definition keep_selection :: "string option \<Rightarrow> string list \<Rightarrow> string option \<Rightarrow> string option" where
  "keep_selection current keys fallback =
     (case current of Some c \<Rightarrow> if c \<noteq> [] \<and> c \<in> set keys then Some c else fallback | None \<Rightarrow> fallback)"

definition first_key :: "string list \<Rightarrow> string option" where
  "first_key keys = first_opt keys"

text \<open>The client answers every call with a response of its own type.\<close>

fun git_answered :: "GitLoad \<Rightarrow> nat \<Rightarrow> GitAnswer \<Rightarrow> GitReview \<Rightarrow> GitReview" where
  "git_answered LStatus n a s =
     (case a of AnswerStatus r \<Rightarrow> (let keys = map gcf_uri (gst_files r)
      in s\<lparr>gv_status := Some (n, r), gv_selectedUri := keep_selection (gv_selectedUri s) keys (first_key keys)\<rparr>) | _ \<Rightarrow> s)"
| "git_answered LHistory n a s =
     (case a of AnswerHistory r \<Rightarrow> (let keys = map gc_hash (ghi_commits r)
      in s\<lparr>gv_history := Some (n, r), gv_selectedCommit := keep_selection (gv_selectedCommit s) keys (first_key keys)\<rparr>) | _ \<Rightarrow> s)"
| "git_answered LBranches n a s =
     (case a of AnswerBranches r \<Rightarrow> (let keys = map gb_fullName (gbr_branches r)
      in s\<lparr>gv_branches := Some (n, r),
           gv_selectedBranchName := keep_selection (gv_selectedBranchName s) keys
             (case find gb_isCurrent (gbr_branches r) of Some b \<Rightarrow> Some (gb_fullName b) | None \<Rightarrow> first_key keys)\<rparr>) | _ \<Rightarrow> s)"
| "git_answered LWorktrees n a s =
     (case a of AnswerWorktrees r \<Rightarrow> (let keys = map gw_pathUri (gwt_worktrees r)
      in s\<lparr>gv_worktrees := Some (n, r), gv_selectedWorktreeUri := keep_selection (gv_selectedWorktreeUri s) keys (first_key keys)\<rparr>) | _ \<Rightarrow> s)"
| "git_answered LRepoFiles n a s =
     (case a of AnswerFiles r \<Rightarrow> (let keys = map grf_uri (grv_files r)
      in s\<lparr>gv_repoFiles := Some r, gv_selectedRepoFileUri := keep_selection (gv_selectedRepoFileUri s) keys (first_key keys)\<rparr>) | _ \<Rightarrow> s)"
| "git_answered LDiff n a s =
     (case a of AnswerDiffFile r \<Rightarrow> s\<lparr>gv_diff := Some r\<rparr> | _ \<Rightarrow> s)"
| "git_answered LHistoryDiff n a s =
     (case a of AnswerRevisionDiff r \<Rightarrow> (let keys = map (gcf_uri \<circ> gdf_file) (grd_files r)
      in s\<lparr>gv_historyDiff := Some r,
           gv_selectedHistoryDiffUri := keep_selection (gv_selectedHistoryDiffUri s) keys (first_key keys)\<rparr>) | _ \<Rightarrow> s)"
| "git_answered LBranchDetail n a s =
     (case a of AnswerBranchDetail d f \<Rightarrow> (let diffs = map (gcf_uri \<circ> gdf_file) (grd_files d); keys = map grf_uri (grv_files f)
      in s\<lparr>gv_branchDiff := Some d, gv_branchFiles := Some f,
           gv_selectedBranchDiffUri := keep_selection (gv_selectedBranchDiffUri s) diffs (first_key diffs),
           gv_selectedBranchFileUri := keep_selection (gv_selectedBranchFileUri s) keys (first_key keys)\<rparr>) | _ \<Rightarrow> s)"
| "git_answered LWorktreeStatus n a s =
     (case a of AnswerStatus r \<Rightarrow> (let keys = map gcf_uri (gst_files r)
      in s\<lparr>gv_worktreeStatus := Some (n, r),
           gv_selectedWorktreeFileUri := keep_selection (gv_selectedWorktreeFileUri s) keys (first_key keys)\<rparr>) | _ \<Rightarrow> s)"
| "git_answered LWorktreeDiff n a s =
     (case a of AnswerDiffFile r \<Rightarrow> s\<lparr>gv_worktreeDiff := Some r\<rparr> | _ \<Rightarrow> s)"

fun git_failed :: "GitLoad \<Rightarrow> string \<Rightarrow> GitReview \<Rightarrow> GitReview" where
  "git_failed LStatus msg s = s\<lparr>gv_error := Some msg, gv_status := None, gv_selectedUri := None\<rparr>"
| "git_failed LHistory msg s = s\<lparr>gv_error := Some msg, gv_history := None, gv_selectedCommit := None\<rparr>"
| "git_failed LBranches msg s = s\<lparr>gv_error := Some msg, gv_branches := None, gv_selectedBranchName := None\<rparr>"
| "git_failed LWorktrees msg s = s\<lparr>gv_error := Some msg, gv_worktrees := None, gv_selectedWorktreeUri := None\<rparr>"
| "git_failed LRepoFiles msg s = s\<lparr>gv_error := Some msg, gv_repoFiles := None, gv_selectedRepoFileUri := None\<rparr>"
| "git_failed LDiff msg s = s\<lparr>gv_error := Some msg\<rparr>"
| "git_failed LHistoryDiff msg s =
     s\<lparr>gv_error := Some msg, gv_historyDiff := None, gv_selectedHistoryDiffUri := None\<rparr>"
| "git_failed LBranchDetail msg s =
     s\<lparr>gv_error := Some msg, gv_branchDiff := None, gv_branchFiles := None, gv_selectedBranchDiffUri := None,
       gv_selectedBranchFileUri := None\<rparr>"
| "git_failed LWorktreeStatus msg s =
     s\<lparr>gv_error := Some msg, gv_worktreeStatus := None, gv_selectedWorktreeFileUri := None\<rparr>"
| "git_failed LWorktreeDiff msg s = s\<lparr>gv_error := Some msg\<rparr>"

definition call_settles :: "nat \<Rightarrow> thrown + GitAnswer \<Rightarrow> GitReview \<Rightarrow> GitReview" where
  "call_settles i result s =
     (case find (\<lambda>c. gcl_id c = i) (gv_calls s) of
        None \<Rightarrow> s
      | Some c \<Rightarrow>
          (let s1 = s\<lparr>gv_calls := filter (\<lambda>c. gcl_id c \<noteq> i) (gv_calls s)\<rparr>
           in if gcl_cancelled c then s1
              else let s2 = (case result of
                               Inr a \<Rightarrow> git_answered (gcl_load c) i a s1
                             | Inl e \<Rightarrow> git_failed (gcl_load c) (err_message (normalizeIpcError e)) s1)
                   in s2\<lparr>gv_loading := (gv_loading s2)(gcl_load c := False)\<rparr>))"

section \<open>Events\<close>

text \<open>\<open>Show\<close> is a render with other properties: the tab is not remounted when another review is shown
  in its place (\<open>pane/FilePanel.tsx\<close> gives it no key).\<close>

datatype GitEvent =
  Show string nat
| ChooseTab GitSubTab
| ChooseFile string
| ChooseCommit string
| ChooseHistoryDiff string
| ChooseBranch string
| ChooseBranchDiff string
| ChooseBranchFile string
| ChooseWorktree string
| ChooseWorktreeFile string
| ChooseRepoFile string
| PressRefresh
| CallSettles nat "thrown + GitAnswer"

definition refreshActiveTab :: "GitReview \<Rightarrow> GitReview" where
  "refreshActiveTab s = load_tab (gv_activeTab s) (gv_repoRootUri s) s"

fun git_event :: "GitEvent \<Rightarrow> GitReview \<Rightarrow> GitReview" where
  "git_event (Show repo token) s = s\<lparr>gv_repoRootUri := repo, gv_refreshToken := token\<rparr>"
| "git_event (ChooseTab t) s = s\<lparr>gv_activeTab := t\<rparr>"
| "git_event (ChooseFile u) s = s\<lparr>gv_selectedUri := Some u\<rparr>"
| "git_event (ChooseCommit h) s = s\<lparr>gv_selectedCommit := Some h\<rparr>"
| "git_event (ChooseHistoryDiff u) s = s\<lparr>gv_selectedHistoryDiffUri := Some u\<rparr>"
| "git_event (ChooseBranch b) s = s\<lparr>gv_selectedBranchName := Some b\<rparr>"
| "git_event (ChooseBranchDiff u) s = s\<lparr>gv_selectedBranchDiffUri := Some u\<rparr>"
| "git_event (ChooseBranchFile u) s = s\<lparr>gv_selectedBranchFileUri := Some u\<rparr>"
| "git_event (ChooseWorktree u) s = s\<lparr>gv_selectedWorktreeUri := Some u\<rparr>"
| "git_event (ChooseWorktreeFile u) s = s\<lparr>gv_selectedWorktreeFileUri := Some u\<rparr>"
| "git_event (ChooseRepoFile u) s = s\<lparr>gv_selectedRepoFileUri := Some u\<rparr>"
| "git_event PressRefresh s = refreshActiveTab s"
| "git_event (CallSettles i result) s = call_settles i result s"

definition git_step :: "GitEvent \<Rightarrow> GitReview \<Rightarrow> GitReview" where
  "git_step e s = settle (git_event e s)"

definition mount_review :: "string \<Rightarrow> nat \<Rightarrow> DiffMode \<Rightarrow> GitReview" where
  "mount_review repo token mode = settle (initial_review repo token mode)"

section \<open>Buttons\<close>

datatype GitButtonEffect = OpenDefaultApp string | RevealInManager string | CopyText string

definition openSelected :: "GitReview \<Rightarrow> GitButtonEffect list" where
  "openSelected s =
     (case selectedFile s of
        Some f \<Rightarrow> if gcf_status f = GitDeleted then [] else [OpenDefaultApp (gcf_uri f)]
      | None \<Rightarrow> [])"

definition revealSelected :: "GitReview \<Rightarrow> GitButtonEffect list" where
  "revealSelected s = (case selectedFile s of Some f \<Rightarrow> [RevealInManager (gcf_uri f)] | None \<Rightarrow> [])"

definition copySelectedPath :: "GitReview \<Rightarrow> GitButtonEffect list" where
  "copySelectedPath s = (case selectedFile s of Some f \<Rightarrow> [CopyText (gcf_repoRelativePath f)] | None \<Rightarrow> [])"

definition copyCommitHash :: "string \<Rightarrow> GitButtonEffect list" where
  "copyCommitHash hash = [CopyText hash]"

definition revealWorktree :: "string \<Rightarrow> GitButtonEffect list" where
  "revealWorktree uri = [RevealInManager uri]"

definition openRepoFile :: "GitReview \<Rightarrow> GitButtonEffect list" where
  "openRepoFile s = (case selectedRepoFile s of Some f \<Rightarrow> [OpenDefaultApp (grf_uri f)] | None \<Rightarrow> [])"

definition revealRepoFile :: "GitReview \<Rightarrow> GitButtonEffect list" where
  "revealRepoFile s = (case selectedRepoFile s of Some f \<Rightarrow> [RevealInManager (grf_uri f)] | None \<Rightarrow> [])"

text \<open>The mode is set before it is stored; a refused write raises afterwards.\<close>

definition updateDiffMode :: "DiffMode \<Rightarrow> GitReview \<Rightarrow> World \<Rightarrow> GitReview \<times> World" where
  "updateDiffMode mode s w =
     (s\<lparr>gv_diffMode := mode\<rparr>,
      persistValue DIFF_MODE_KEY (case mode of Unified \<Rightarrow> ''unified'' | SideBySide \<Rightarrow> ''side-by-side'') w)"

end
