(* ===== verification/GitReviewFacts.thy ===== *)
theory GitReviewFacts
  imports GitReview
begin

text \<open>
  What the git review tab shows, under every interleaving of clicks, renders and results: an
  invariant for each of the ten loads, relating what is shown, the loading flag and the calls in
  flight to the dependencies the owning effect ran with last, and the lemma that after a settled
  render these are the current ones.
\<close>

section \<open>Loads and their effects\<close>

fun owner :: "GitLoad \<Rightarrow> GitEffect" where
  "owner LDiff = EDiff"
| "owner LHistoryDiff = EHistory"
| "owner LBranchDetail = EBranch"
| "owner LWorktreeStatus = EWorktree"
| "owner LWorktreeDiff = EWorktreeDiff"
| "owner _ = ELoad"

fun tab_of :: "GitLoad \<Rightarrow> GitSubTab" where
  "tab_of LStatus = Changes"
| "tab_of LDiff = Changes"
| "tab_of LHistory = History"
| "tab_of LHistoryDiff = History"
| "tab_of LBranches = Branches"
| "tab_of LBranchDetail = Branches"
| "tab_of LRepoFiles = Files"
| "tab_of _ = Worktrees"

text \<open>The effect of load \<open>l\<close>, run with dependencies \<open>d\<close>, wants something loaded.\<close>

fun wants :: "GitLoad \<Rightarrow> EffectDeps \<Rightarrow> bool" where
  "wants l (t, repo, token, sel) \<longleftrightarrow> t = tab_of l \<and> (owner l \<noteq> ELoad \<longrightarrow> sel \<noteq> None)"

text \<open>The requests that belong to the dependencies.\<close>

fun asks :: "GitLoad \<Rightarrow> EffectDeps \<Rightarrow> GitRequest list \<Rightarrow> bool" where
  "asks LDiff (t, repo, k, sel) rs \<longleftrightarrow> (\<exists>n u. sel = Some (n, u) \<and> rs = [AskDiffFile u])"
| "asks LWorktreeDiff (t, repo, k, sel) rs \<longleftrightarrow> (\<exists>n u. sel = Some (n, u) \<and> rs = [AskDiffFile u])"
| "asks LHistoryDiff (t, repo, k, sel) rs \<longleftrightarrow>
     (\<exists>n h base. sel = Some (n, h) \<and> rs = [AskRevisionDiff repo base h MAX_DIFF_BYTES])"
| "asks LBranchDetail (t, repo, k, sel) rs \<longleftrightarrow>
     (\<exists>n b. sel = Some (n, b) \<and>
        rs = [AskRevisionDiff repo ''HEAD'' b MAX_DIFF_BYTES, AskRevisionFiles repo b MAX_TREE_FILES])"
| "asks LWorktreeStatus (t, repo, k, sel) rs \<longleftrightarrow> (\<exists>n w. sel = Some (n, w) \<and> rs = [AskStatus w])"
| "asks _ d rs \<longleftrightarrow> True"

text \<open>What is shown belongs to the dependencies. The details of a commit and of a branch are only
  replaced when the new ones arrive, so until then the loading flag hides them.\<close>

definition key_is :: "EffectDeps \<Rightarrow> string \<Rightarrow> bool" where
  "key_is d u \<longleftrightarrow> (case d of (t, repo, k, sel) \<Rightarrow> (\<exists>n. sel = Some (n, u)))"

fun fits :: "GitLoad \<Rightarrow> GitReview \<Rightarrow> EffectDeps \<Rightarrow> bool" where
  "fits LDiff s d \<longleftrightarrow> (\<forall>r. gv_diff s = Some r \<longrightarrow> fst d = Changes \<and> key_is d (gcf_uri (gdf_file r)))"
| "fits LWorktreeDiff s d \<longleftrightarrow>
     (\<forall>r. gv_worktreeDiff s = Some r \<longrightarrow> fst d = Worktrees \<and> key_is d (gcf_uri (gdf_file r)))"
| "fits LHistoryDiff s d \<longleftrightarrow>
     (\<forall>r. gv_historyDiff s = Some r \<longrightarrow> gv_loading s LHistoryDiff \<or> fst d = History \<and> key_is d (grd_head r))"
| "fits LBranchDetail s d \<longleftrightarrow>
     (\<forall>r. gv_branchDiff s = Some r \<longrightarrow> gv_loading s LBranchDetail \<or> fst d = Branches \<and> key_is d (grd_head r)) \<and>
     (\<forall>r. gv_branchFiles s = Some r \<longrightarrow> gv_loading s LBranchDetail \<or> fst d = Branches \<and> key_is d (grv_revision r))"
| "fits _ s d \<longleftrightarrow> True"

definition live_calls :: "GitLoad \<Rightarrow> GitReview \<Rightarrow> GitCall list" where
  "live_calls l s = filter (\<lambda>c. gcl_load c = l \<and> \<not> gcl_cancelled c) (gv_calls s)"

definition load_ok :: "GitLoad \<Rightarrow> GitReview \<Rightarrow> bool" where
  "load_ok l s \<longleftrightarrow>
     (case gv_effects s (owner l) of
        None \<Rightarrow> (\<forall>d. fits l s d) \<and> (owner l \<noteq> ELoad \<longrightarrow> live_calls l s = [])
      | Some (d, live) \<Rightarrow>
          fits l s d \<and> (gv_loading s l \<longrightarrow> wants l d \<longrightarrow> live_calls l s \<noteq> []) \<and>
          (owner l \<noteq> ELoad \<longrightarrow> (\<forall>c \<in> set (live_calls l s).
             live = Some (gcl_id c) \<and> fst d = tab_of l \<and> asks l d (gcl_asked c))))"

definition calls_ok :: "GitReview \<Rightarrow> bool" where
  "calls_ok s \<longleftrightarrow>
     distinct (map gcl_id (gv_calls s)) \<and> (\<forall>c \<in> set (gv_calls s). gcl_id c < gv_nextCall s) \<and>
     (\<forall>e d i. gv_effects s e = Some (d, Some i) \<longrightarrow>
        i < gv_nextCall s \<and> (\<forall>c \<in> set (gv_calls s). gcl_id c = i \<longrightarrow> owner (gcl_load c) = e))"

definition review_ok :: "GitReview \<Rightarrow> bool" where
  "review_ok s \<longleftrightarrow> calls_ok s \<and> (\<forall>l. load_ok l s)"

lemma load_ok_cong:
  assumes "gv_effects s' (owner l) = gv_effects s (owner l)" "live_calls l s' = live_calls l s"
    "gv_loading s' l = gv_loading s l" "\<And>d. fits l s' d = fits l s d"
  shows "load_ok l s' = load_ok l s"
  unfolding load_ok_def assms ..

section \<open>Starting and cancelling\<close>

lemma begin_load_simps [simp]:
  "gv_effects (begin_load l rs s) = gv_effects s" "gv_loading (begin_load l rs s) = (gv_loading s)(l := True)"
  "gv_nextCall (begin_load l rs s) = Suc (gv_nextCall s)"
  "gv_diff (begin_load l rs s) = gv_diff s" "gv_historyDiff (begin_load l rs s) = gv_historyDiff s"
  "gv_branchDiff (begin_load l rs s) = gv_branchDiff s" "gv_branchFiles (begin_load l rs s) = gv_branchFiles s"
  "gv_worktreeDiff (begin_load l rs s) = gv_worktreeDiff s"
  "gv_activeTab (begin_load l rs s) = gv_activeTab s" "gv_repoRootUri (begin_load l rs s) = gv_repoRootUri s"
  "gv_refreshToken (begin_load l rs s) = gv_refreshToken s"
  "gv_status (begin_load l rs s) = gv_status s" "gv_selectedUri (begin_load l rs s) = gv_selectedUri s"
  "gv_history (begin_load l rs s) = gv_history s" "gv_selectedCommit (begin_load l rs s) = gv_selectedCommit s"
  "gv_branches (begin_load l rs s) = gv_branches s" "gv_selectedBranchName (begin_load l rs s) = gv_selectedBranchName s"
  "gv_worktrees (begin_load l rs s) = gv_worktrees s"
  "gv_selectedWorktreeUri (begin_load l rs s) = gv_selectedWorktreeUri s"
  "gv_worktreeStatus (begin_load l rs s) = gv_worktreeStatus s"
  "gv_selectedWorktreeFileUri (begin_load l rs s) = gv_selectedWorktreeFileUri s"
  by (simp_all add: begin_load_def)

lemma live_begin_load:
  "live_calls l (begin_load k rs s) =
     live_calls l s @ (if l = k then [\<lparr>gcl_id = gv_nextCall s, gcl_load = k, gcl_asked = rs, gcl_cancelled = False\<rparr>] else [])"
  by (auto simp: live_calls_def begin_load_def)

lemma load_tab_begins: "\<exists>l rs. load_tab t repo s = begin_load l rs s \<and> owner l = ELoad \<and> tab_of l = t"
  by (cases t) (auto simp: loadStatus_def loadHistory_def loadBranches_def loadWorktrees_def loadRepoFiles_def)

lemma cancel_simps [simp]:
  "gv_effects (cancel_call i s) = gv_effects s" "gv_loading (cancel_call i s) = gv_loading s"
  "gv_nextCall (cancel_call i s) = gv_nextCall s"
  "gv_diff (cancel_call i s) = gv_diff s" "gv_historyDiff (cancel_call i s) = gv_historyDiff s"
  "gv_branchDiff (cancel_call i s) = gv_branchDiff s" "gv_branchFiles (cancel_call i s) = gv_branchFiles s"
  "gv_worktreeDiff (cancel_call i s) = gv_worktreeDiff s"
  "gv_activeTab (cancel_call i s) = gv_activeTab s" "gv_repoRootUri (cancel_call i s) = gv_repoRootUri s"
  "gv_refreshToken (cancel_call i s) = gv_refreshToken s"
  "gv_status (cancel_call i s) = gv_status s" "gv_selectedUri (cancel_call i s) = gv_selectedUri s"
  "gv_history (cancel_call i s) = gv_history s" "gv_selectedCommit (cancel_call i s) = gv_selectedCommit s"
  "gv_branches (cancel_call i s) = gv_branches s" "gv_selectedBranchName (cancel_call i s) = gv_selectedBranchName s"
  "gv_worktrees (cancel_call i s) = gv_worktrees s"
  "gv_selectedWorktreeUri (cancel_call i s) = gv_selectedWorktreeUri s"
  "gv_worktreeStatus (cancel_call i s) = gv_worktreeStatus s"
  "gv_selectedWorktreeFileUri (cancel_call i s) = gv_selectedWorktreeFileUri s"
  "map gcl_id (gv_calls (cancel_call i s)) = map gcl_id (gv_calls s)"
  by (auto simp: cancel_call_def split: option.split)

lemma live_cancel: "live_calls l (cancel_call (Some i) s) = filter (\<lambda>c. gcl_id c \<noteq> i) (live_calls l s)"
proof -
  have "filter (\<lambda>c. gcl_load c = l \<and> \<not> gcl_cancelled c)
      (map (\<lambda>c. if gcl_id c = i then c\<lparr>gcl_cancelled := True\<rparr> else c) cs) =
    filter (\<lambda>c. gcl_id c \<noteq> i) (filter (\<lambda>c. gcl_load c = l \<and> \<not> gcl_cancelled c) cs)" for cs
    by (induction cs) auto
  then show ?thesis by (simp add: live_calls_def cancel_call_def)
qed

lemma live_cancel_None [simp]: "cancel_call None s = s"
  by (simp add: cancel_call_def)

lemma cancelled_calls:
  "c \<in> set (gv_calls (cancel_call i s)) \<Longrightarrow> \<exists>c' \<in> set (gv_calls s). gcl_id c' = gcl_id c \<and> gcl_load c' = gcl_load c"
  by (auto simp: cancel_call_def split: option.splits if_splits)

lemma calls_ok_cancel: "calls_ok s \<Longrightarrow> calls_ok (cancel_call i s)"
  unfolding calls_ok_def by (auto dest!: cancelled_calls) metis+

section \<open>Effects keep the invariant\<close>

text \<open>An effect starts one load of its own, or none.\<close>

definition starts :: "GitLoad \<Rightarrow> GitReview \<Rightarrow> GitReview \<times> nat option \<Rightarrow> bool" where
  "starts l s res \<longleftrightarrow> snd res = Some (gv_nextCall s) \<and> (\<exists>rs. gv_calls (fst res) = gv_calls (begin_load l rs s)) \<and>
     gv_nextCall (fst res) = Suc (gv_nextCall s) \<and> gv_effects (fst res) = gv_effects s \<and>
     gv_loading (fst res) = (gv_loading s)(l := True)"

definition idles :: "GitReview \<Rightarrow> GitReview \<times> nat option \<Rightarrow> bool" where
  "idles s res \<longleftrightarrow> snd res = None \<and> gv_calls (fst res) = gv_calls s \<and> gv_nextCall (fst res) = gv_nextCall s \<and>
     gv_effects (fst res) = gv_effects s \<and> gv_loading (fst res) = gv_loading s"

lemma body_parts:
  "\<exists>l. owner l = ELoad \<and> starts l s (effect_body ELoad r s)"
  "starts LDiff s (effect_body EDiff r s) \<or> idles s (effect_body EDiff r s)"
  "starts LHistoryDiff s (effect_body EHistory r s) \<or> idles s (effect_body EHistory r s)"
  "starts LBranchDetail s (effect_body EBranch r s) \<or> idles s (effect_body EBranch r s)"
  "starts LWorktreeStatus s (effect_body EWorktree r s) \<or> idles s (effect_body EWorktree r s)"
  "starts LWorktreeDiff s (effect_body EWorktreeDiff r s) \<or> idles s (effect_body EWorktreeDiff r s)"
proof -
  show "\<exists>l. owner l = ELoad \<and> starts l s (effect_body ELoad r s)"
    using load_tab_begins[of "gv_activeTab r" "gv_repoRootUri r" s] by (fastforce simp: starts_def)
qed (auto simp: starts_def idles_def Let_def split: option.splits)

lemma body_starts: "(\<exists>l. owner l = e \<and> starts l s (effect_body e r s)) \<or> idles s (effect_body e r s)"
proof (cases e)
  case ELoad
  with body_parts(1) show ?thesis by blast
next
  case EDiff
  have "owner LDiff = EDiff" by simp
  with body_parts(2) EDiff show ?thesis by blast
next
  case EHistory
  have "owner LHistoryDiff = EHistory" by simp
  with body_parts(3) EHistory show ?thesis by blast
next
  case EBranch
  have "owner LBranchDetail = EBranch" by simp
  with body_parts(4) EBranch show ?thesis by blast
next
  case EWorktree
  have "owner LWorktreeStatus = EWorktree" by simp
  with body_parts(5) EWorktree show ?thesis by blast
next
  case EWorktreeDiff
  have "owner LWorktreeDiff = EWorktreeDiff" by simp
  with body_parts(6) EWorktreeDiff show ?thesis by blast
qed

lemma start_effect_fields:
  "gv_effects (start_effect e r s) = (gv_effects (fst (effect_body e r s)))(e := Some (effect_deps e r, snd (effect_body e r s)))"
  "gv_calls (start_effect e r s) = gv_calls (fst (effect_body e r s))"
  "gv_nextCall (start_effect e r s) = gv_nextCall (fst (effect_body e r s))"
  "gv_loading (start_effect e r s) = gv_loading (fst (effect_body e r s))"
  "gv_diff (start_effect e r s) = gv_diff (fst (effect_body e r s))"
  "gv_historyDiff (start_effect e r s) = gv_historyDiff (fst (effect_body e r s))"
  "gv_branchDiff (start_effect e r s) = gv_branchDiff (fst (effect_body e r s))"
  "gv_branchFiles (start_effect e r s) = gv_branchFiles (fst (effect_body e r s))"
  "gv_worktreeDiff (start_effect e r s) = gv_worktreeDiff (fst (effect_body e r s))"
  by (simp_all add: start_effect_def case_prod_beta)

lemma calls_ok_start:
  assumes ok: "calls_ok s"
  shows "calls_ok (start_effect e r s)"
  using body_starts[of e s r]
proof
  assume "\<exists>l. owner l = e \<and> starts l s (effect_body e r s)"
  then obtain l rs where o: "owner l = e" "snd (effect_body e r s) = Some (gv_nextCall s)"
      and f: "gv_calls (fst (effect_body e r s)) =
        gv_calls s @ [\<lparr>gcl_id = gv_nextCall s, gcl_load = l, gcl_asked = rs, gcl_cancelled = False\<rparr>]"
        "gv_nextCall (fst (effect_body e r s)) = Suc (gv_nextCall s)"
        "gv_effects (fst (effect_body e r s)) = gv_effects s"
    by (auto simp: starts_def begin_load_def)
  from ok show ?thesis
    unfolding calls_ok_def start_effect_fields f o(2)
    by (auto simp: o(1) less_Suc_eq split: if_splits) (blast | (metis less_irrefl))+
qed (use ok in \<open>auto simp: calls_ok_def start_effect_fields idles_def split: if_splits\<close>)

lemma body_frame:
  "e \<noteq> EDiff \<Longrightarrow> gv_diff (fst (effect_body e r s)) = gv_diff s"
  "e \<noteq> EHistory \<Longrightarrow> gv_historyDiff (fst (effect_body e r s)) = gv_historyDiff s"
  "e \<noteq> EBranch \<Longrightarrow> gv_branchDiff (fst (effect_body e r s)) = gv_branchDiff s"
  "e \<noteq> EBranch \<Longrightarrow> gv_branchFiles (fst (effect_body e r s)) = gv_branchFiles s"
  "e \<noteq> EWorktreeDiff \<Longrightarrow> gv_worktreeDiff (fst (effect_body e r s)) = gv_worktreeDiff s"
proof -
  obtain l rs where l: "load_tab (gv_activeTab r) (gv_repoRootUri r) s = begin_load l rs s"
    using load_tab_begins by blast
  show "e \<noteq> EDiff \<Longrightarrow> gv_diff (fst (effect_body e r s)) = gv_diff s"
    "e \<noteq> EHistory \<Longrightarrow> gv_historyDiff (fst (effect_body e r s)) = gv_historyDiff s"
    "e \<noteq> EBranch \<Longrightarrow> gv_branchDiff (fst (effect_body e r s)) = gv_branchDiff s"
    "e \<noteq> EBranch \<Longrightarrow> gv_branchFiles (fst (effect_body e r s)) = gv_branchFiles s"
    "e \<noteq> EWorktreeDiff \<Longrightarrow> gv_worktreeDiff (fst (effect_body e r s)) = gv_worktreeDiff s"
    by (cases e; simp add: l Let_def split: option.split)+
qed

lemma start_other:
  assumes "owner l \<noteq> e"
  shows "load_ok l (start_effect e r s) = load_ok l s"
proof (rule load_ok_cong)
  let ?b = "effect_body e r s"
  from body_starts[of e s r] assms
  have "gv_effects (fst ?b) = gv_effects s \<and> live_calls l (start_effect e r s) = live_calls l s \<and>
      gv_loading (fst ?b) l = gv_loading s l"
    by (auto simp: starts_def idles_def live_calls_def start_effect_fields begin_load_def split: if_splits)
  with assms show "gv_effects (start_effect e r s) (owner l) = gv_effects s (owner l)"
    "live_calls l (start_effect e r s) = live_calls l s" "gv_loading (start_effect e r s) l = gv_loading s l"
    by (simp_all add: start_effect_fields)
  then show "fits l (start_effect e r s) d = fits l s d" for d
    using assms by (cases l) (simp_all add: start_effect_fields body_frame)
qed

lemma list_load_unique: "owner l = ELoad \<Longrightarrow> owner k = ELoad \<Longrightarrow> tab_of l = tab_of k \<Longrightarrow> l = k"
  by (cases l; cases k) simp_all

lemma start_list:
  assumes "owner l = ELoad"
  shows "load_ok l (start_effect ELoad r s)"
proof -
  obtain k rs where k: "load_tab (gv_activeTab r) (gv_repoRootUri r) s = begin_load k rs s" "owner k = ELoad"
      "tab_of k = gv_activeTab r" using load_tab_begins by blast
  have "fits l x d" for x d using assms by (cases l; cases d) simp_all
  with assms k list_load_unique[OF assms k(2)] show ?thesis
    by (auto simp: load_ok_def start_effect_def live_calls_def begin_load_def)
qed

lemma pick_pick_id: "pick_id items key response sel = (case response of Some (n, _) \<Rightarrow> map_option (\<lambda>x. (n, key x)) (pick items key response sel) | None \<Rightarrow> None)"
  by (auto simp: pick_id_def pick_def split: option.split)

lemma pick_Some: "pick items key response sel = Some x \<Longrightarrow> \<exists>n. pick_id items key response sel = Some (n, key x)"
  by (auto simp: pick_id_def pick_def split: option.splits)

lemma pick_None: "pick items key response sel = None \<Longrightarrow> pick_id items key response sel = None"
  by (auto simp: pick_id_def pick_def split: option.splits)

lemmas selected_defs = selectedFile_def selectedHistoryCommit_def selectedBranch_def selectedWorktree_def
  selectedWorktreeFile_def

lemma start_own:
  assumes e: "owner l = e" "e \<noteq> ELoad" and none: "live_calls l s = []"
  shows "load_ok l (start_effect e r s)"
proof (cases l)
  case LDiff
  with e have "e = EDiff" by simp
  with LDiff none show ?thesis
    by (cases "selectedFile r")
      (auto simp: load_ok_def start_effect_def live_calls_def begin_load_def selected_defs dest: pick_Some pick_None)
next
  case LHistoryDiff
  with e have "e = EHistory" by simp
  with LHistoryDiff none show ?thesis
    by (cases "selectedHistoryCommit r")
      (auto simp: load_ok_def start_effect_def live_calls_def begin_load_def Let_def selected_defs dest: pick_Some pick_None)
next
  case LBranchDetail
  with e have "e = EBranch" by simp
  with LBranchDetail none show ?thesis
    by (cases "selectedBranch r")
      (auto simp: load_ok_def start_effect_def live_calls_def begin_load_def Let_def selected_defs dest: pick_Some pick_None)
next
  case LWorktreeStatus
  with e have "e = EWorktree" by simp
  with LWorktreeStatus none show ?thesis
    by (cases "selectedWorktree r")
      (auto simp: load_ok_def start_effect_def live_calls_def begin_load_def Let_def selected_defs dest: pick_Some pick_None)
next
  case LWorktreeDiff
  with e have "e = EWorktreeDiff" by simp
  with LWorktreeDiff none show ?thesis
    by (cases "selectedWorktreeFile r")
      (auto simp: load_ok_def start_effect_def live_calls_def begin_load_def selected_defs dest: pick_Some pick_None)
qed (use e in auto)

text \<open>The cleanup of an effect cancels the call of its last run and touches no other load.\<close>

lemma cancel_other:
  assumes "calls_ok s" "gv_effects s e = Some (d, live)" "owner l \<noteq> e"
  shows "load_ok l (cancel_call live s) = load_ok l s"
proof (rule load_ok_cong)
  show "live_calls l (cancel_call live s) = live_calls l s"
  proof (cases live)
    case (Some i)
    with assms(1,2) have "\<forall>c \<in> set (gv_calls s). gcl_id c = i \<longrightarrow> owner (gcl_load c) = e"
      unfolding calls_ok_def by blast
    with assms(3) have "\<forall>c \<in> set (live_calls l s). gcl_id c \<noteq> i" by (auto simp: live_calls_def)
    with Some show ?thesis by (simp add: live_cancel filter_id_conv)
  qed simp
  show "fits l (cancel_call live s) d = fits l s d" for d by (cases l; cases d) simp_all
qed simp_all

lemma cancel_own:
  assumes "load_ok l s" "gv_effects s (owner l) = Some (d, live)" "owner l \<noteq> ELoad"
  shows "live_calls l (cancel_call live s) = []"
proof (cases live)
  case None
  with assms show ?thesis by (cases "live_calls l s") (auto simp: load_ok_def)
next
  case (Some i)
  with assms show ?thesis by (auto simp: load_ok_def live_cancel filter_empty_conv)
qed

lemma run_effect_ok:
  assumes "review_ok s"
  shows "review_ok (run_effect r s e)"
proof (cases "gv_effects s e")
  case None
  have "load_ok l (start_effect e r s)" for l
  proof (cases "owner l = e")
    case True
    show ?thesis
    proof (cases "e = ELoad")
      case False
      have "load_ok l s" using assms by (simp add: review_ok_def)
      with None True False have "live_calls l s = []" by (auto simp: load_ok_def)
      with start_own[OF True False] show ?thesis .
    qed (use True start_list in simp)
  qed (use assms start_other in \<open>simp add: review_ok_def\<close>)
  with None assms calls_ok_start show ?thesis by (simp add: run_effect_def review_ok_def)
next
  case (Some a)
  obtain d live where a: "a = (d, live)" by (cases a)
  let ?c = "cancel_call live s"
  have "load_ok l (start_effect e r ?c)" for l
  proof (cases "owner l = e")
    case True
    show ?thesis
    proof (cases "e = ELoad")
      case False
      have "load_ok l s" using assms by (simp add: review_ok_def)
      with cancel_own[of l s d live] Some a True False have "live_calls l ?c = []" by simp
      with start_own[OF True False] show ?thesis .
    qed (use True start_list in simp)
  next
    case False
    with assms Some a show ?thesis by (simp add: review_ok_def start_other cancel_other)
  qed
  with Some a assms calls_ok_start[OF calls_ok_cancel] show ?thesis by (simp add: run_effect_def review_ok_def)
qed

lemma commit_render_ok: "review_ok s \<Longrightarrow> review_ok (commit_render s)"
proof -
  have "review_ok x \<Longrightarrow> review_ok (foldl (run_effect r) x es)" for r x es
    by (induction es arbitrary: x) (simp_all add: run_effect_ok)
  then show "review_ok s \<Longrightarrow> review_ok (commit_render s)" by (simp add: commit_render_def)
qed

lemma settle_ok: "review_ok s \<Longrightarrow> review_ok (settle s)"
  by (simp add: settle_def commit_render_ok)

section \<open>A settled render\<close>

lemma run_effect_memo:
  "e' \<noteq> e \<Longrightarrow> gv_effects (run_effect r s e) e' = gv_effects s e'"
  "\<exists>live. gv_effects (run_effect r s e) e = Some (effect_deps e r, live)"
proof -
  have b: "gv_effects (fst (effect_body e r x)) = gv_effects x" for x
    using body_starts[of e x r] by (auto simp: starts_def idles_def)
  show "e' \<noteq> e \<Longrightarrow> gv_effects (run_effect r s e) e' = gv_effects s e'"
    "\<exists>live. gv_effects (run_effect r s e) e = Some (effect_deps e r, live)"
    by (auto simp: run_effect_def start_effect_fields b split: option.split)
qed

lemma run_effect_idle: "gv_effects s e = Some (effect_deps e r, live) \<Longrightarrow> run_effect r s e = s"
  by (simp add: run_effect_def)

lemma body_deps:
  assumes "e' = EWorktreeDiff \<Longrightarrow> e \<noteq> EWorktree"
  shows "effect_deps e' (start_effect e r s) = effect_deps e' s"
proof -
  obtain l rs where l: "load_tab (gv_activeTab r) (gv_repoRootUri r) s = begin_load l rs s"
    using load_tab_begins by blast
  show ?thesis using assms
    by (cases e; cases e'; simp add: start_effect_def l Let_def split: option.split)
qed

lemma run_effect_deps:
  assumes "e' = EWorktreeDiff \<Longrightarrow> e \<noteq> EWorktree"
  shows "effect_deps e' (run_effect r s e) = effect_deps e' s"
proof -
  have "effect_deps e' (cancel_call i s) = effect_deps e' s" for i by (cases e') simp_all
  with body_deps[OF assms] show ?thesis by (auto simp: run_effect_def split: option.split)
qed

lemma all_effects_all: "set all_effects = UNIV" "distinct all_effects"
proof -
  have "e \<in> set all_effects" for e by (cases e) (simp_all add: all_effects_def)
  then show "set all_effects = UNIV" by blast
qed (simp add: all_effects_def)

lemma fold_memo:
  "distinct es \<Longrightarrow> e \<in> set es \<Longrightarrow> \<exists>live. gv_effects (foldl (run_effect r) s es) e = Some (effect_deps e r, live)"
  "e \<notin> set es \<Longrightarrow> gv_effects (foldl (run_effect r) s es) e = gv_effects s e"
proof -
  have keep: "e \<notin> set es \<Longrightarrow> gv_effects (foldl (run_effect r) s es) e = gv_effects s e" for s es
    by (induction es arbitrary: s) (simp_all add: run_effect_memo)
  then show "e \<notin> set es \<Longrightarrow> gv_effects (foldl (run_effect r) s es) e = gv_effects s e" .
  show "distinct es \<Longrightarrow> e \<in> set es \<Longrightarrow>
      \<exists>live. gv_effects (foldl (run_effect r) s es) e = Some (effect_deps e r, live)"
    by (induction es arbitrary: s) (auto simp: keep run_effect_memo)
qed

lemma render_memo: "\<exists>live. gv_effects (commit_render s) e = Some (effect_deps e s, live)"
  using fold_memo(1)[OF all_effects_all(2), of e s s] by (simp add: commit_render_def all_effects_all)

lemma render_deps: "e \<noteq> EWorktreeDiff \<Longrightarrow> effect_deps e (commit_render s) = effect_deps e s"
proof -
  have step: "e \<noteq> EWorktreeDiff \<Longrightarrow> effect_deps e (run_effect r x a) = effect_deps e x" for r x a
    using run_effect_deps by blast
  have "e \<noteq> EWorktreeDiff \<Longrightarrow> effect_deps e (foldl (run_effect r) x es) = effect_deps e x" for r x es
    by (induction es arbitrary: x) (simp_all add: step)
  then show "e \<noteq> EWorktreeDiff \<Longrightarrow> effect_deps e (commit_render s) = effect_deps e s"
    by (simp add: commit_render_def)
qed

lemma settle_last: "settle s = run_effect (commit_render s) (commit_render s) EWorktreeDiff"
proof -
  let ?s = "commit_render s"
  have idle: "e \<noteq> EWorktreeDiff \<Longrightarrow> run_effect ?s ?s e = ?s" for e
    using render_memo[of s e] render_deps[of e s] run_effect_idle[of ?s e ?s] by auto
  show ?thesis by (simp add: settle_def commit_render_def[of ?s] all_effects_def idle)
qed

text \<open>After a settled render every effect has last run with the current dependencies, and a further
  render runs none.\<close>

lemma settled_current: "\<exists>live. gv_effects (settle s) e = Some (effect_deps e (settle s), live)"
proof (cases "e = EWorktreeDiff")
  case True
  then show ?thesis
    using run_effect_memo(2)[of "commit_render s" "commit_render s" e]
    by (simp add: settle_last run_effect_deps del: effect_deps.simps)
next
  case False
  then show ?thesis
    using render_memo[of s e] render_deps[of e s] by (simp add: settle_last run_effect_deps run_effect_memo)
qed

lemma settled_stays: "commit_render (settle s) = settle s"
proof -
  have "foldl (run_effect (settle s)) (settle s) es = settle s" for es
    using settled_current[of s] by (induction es) (metis foldl_Nil, metis foldl_Cons run_effect_idle)
  then show ?thesis by (simp add: commit_render_def)
qed

section \<open>Events keep the invariant\<close>

lemma answered_frame:
  "gv_calls (git_answered l n a s) = gv_calls s" "gv_nextCall (git_answered l n a s) = gv_nextCall s"
  "gv_effects (git_answered l n a s) = gv_effects s" "gv_loading (git_answered l n a s) = gv_loading s"
  "l \<noteq> LDiff \<Longrightarrow> gv_diff (git_answered l n a s) = gv_diff s"
  "l \<noteq> LHistoryDiff \<Longrightarrow> gv_historyDiff (git_answered l n a s) = gv_historyDiff s"
  "l \<noteq> LBranchDetail \<Longrightarrow> gv_branchDiff (git_answered l n a s) = gv_branchDiff s"
  "l \<noteq> LBranchDetail \<Longrightarrow> gv_branchFiles (git_answered l n a s) = gv_branchFiles s"
  "l \<noteq> LWorktreeDiff \<Longrightarrow> gv_worktreeDiff (git_answered l n a s) = gv_worktreeDiff s"
  by (cases l; simp add: Let_def split: GitAnswer.split)+

lemma failed_frame:
  "gv_calls (git_failed l m s) = gv_calls s" "gv_nextCall (git_failed l m s) = gv_nextCall s"
  "gv_effects (git_failed l m s) = gv_effects s" "gv_loading (git_failed l m s) = gv_loading s"
  "gv_diff (git_failed l m s) = gv_diff s"
  "l \<noteq> LHistoryDiff \<Longrightarrow> gv_historyDiff (git_failed l m s) = gv_historyDiff s"
  "l \<noteq> LBranchDetail \<Longrightarrow> gv_branchDiff (git_failed l m s) = gv_branchDiff s"
  "l \<noteq> LBranchDetail \<Longrightarrow> gv_branchFiles (git_failed l m s) = gv_branchFiles s"
  "gv_worktreeDiff (git_failed l m s) = gv_worktreeDiff s"
  by (cases l; simp)+

text \<open>The client answers a call with a response of the type asked for, which names what was asked for.\<close>

fun answers :: "GitRequest list \<Rightarrow> GitAnswer \<Rightarrow> bool" where
  "answers [AskDiffFile u] a \<longleftrightarrow> (case a of AnswerDiffFile r \<Rightarrow> gcf_uri (gdf_file r) = u | _ \<Rightarrow> False)"
| "answers [AskRevisionDiff repo base head k] a \<longleftrightarrow>
     (case a of AnswerRevisionDiff r \<Rightarrow> grd_base r = base \<and> grd_head r = head | _ \<Rightarrow> False)"
| "answers [AskRevisionDiff repo base head k, AskRevisionFiles repo' revision k'] a \<longleftrightarrow>
     (case a of AnswerBranchDetail d f \<Rightarrow> grd_base d = base \<and> grd_head d = head \<and> grv_revision f = revision | _ \<Rightarrow> False)"
| "answers [AskStatus u] a \<longleftrightarrow> (case a of AnswerStatus r \<Rightarrow> True | _ \<Rightarrow> False)"
| "answers [AskHistory u k] a \<longleftrightarrow> (case a of AnswerHistory r \<Rightarrow> True | _ \<Rightarrow> False)"
| "answers [AskBranches u] a \<longleftrightarrow> (case a of AnswerBranches r \<Rightarrow> True | _ \<Rightarrow> False)"
| "answers [AskWorktrees u] a \<longleftrightarrow> (case a of AnswerWorktrees r \<Rightarrow> True | _ \<Rightarrow> False)"
| "answers [AskRevisionFiles u v k] a \<longleftrightarrow> (case a of AnswerFiles r \<Rightarrow> True | _ \<Rightarrow> False)"
| "answers _ a \<longleftrightarrow> False"

definition event_ok :: "GitReview \<Rightarrow> GitEvent \<Rightarrow> bool" where
  "event_ok s e \<longleftrightarrow>
     (case e of
        CallSettles i (Inr a) \<Rightarrow> (\<forall>c \<in> set (gv_calls s). gcl_id c = i \<longrightarrow> answers (gcl_asked c) a)
      | _ \<Rightarrow> True)"

lemma review_ok_frame:
  assumes "gv_effects s' = gv_effects s" "gv_calls s' = gv_calls s" "gv_nextCall s' = gv_nextCall s"
    "gv_loading s' = gv_loading s" "gv_diff s' = gv_diff s" "gv_historyDiff s' = gv_historyDiff s"
    "gv_branchDiff s' = gv_branchDiff s" "gv_branchFiles s' = gv_branchFiles s"
    "gv_worktreeDiff s' = gv_worktreeDiff s"
  shows "review_ok s' = review_ok s"
proof -
  have "load_ok l s' = load_ok l s" for l
  proof (rule load_ok_cong)
    show "fits l s' d = fits l s d" for d using assms by (cases l; cases d) simp_all
  qed (use assms in \<open>simp_all add: live_calls_def\<close>)
  with assms show ?thesis by (simp add: review_ok_def calls_ok_def)
qed

lemma begin_list_ok:
  assumes ok: "review_ok s" and l: "owner l = ELoad"
  shows "review_ok (begin_load l rs s)"
proof -
  have "calls_ok (begin_load l rs s)"
    using ok unfolding review_ok_def calls_ok_def
    by (auto simp: begin_load_def less_Suc_eq split: if_splits) (metis less_irrefl)+
  moreover have "load_ok k (begin_load l rs s)" for k
  proof (cases "k = l")
    case True
    have "fits l x d" for x d using l by (cases l; cases d) simp_all
    with True l ok show ?thesis by (auto simp: review_ok_def load_ok_def live_begin_load split: option.splits)
  next
    case False
    have "load_ok k (begin_load l rs s) = load_ok k s"
    proof (rule load_ok_cong)
      show "fits k (begin_load l rs s) d = fits k s d" for d using False by (cases k; cases d) simp_all
    qed (use False in \<open>simp_all add: live_begin_load\<close>)
    with ok show ?thesis by (simp add: review_ok_def)
  qed
  ultimately show ?thesis by (simp add: review_ok_def)
qed

definition drop_call :: "nat \<Rightarrow> GitReview \<Rightarrow> GitReview" where
  "drop_call i s = s\<lparr>gv_calls := filter (\<lambda>c. gcl_id c \<noteq> i) (gv_calls s)\<rparr>"

lemma call_unique:
  assumes "calls_ok s" "find (\<lambda>c. gcl_id c = i) (gv_calls s) = Some c"
  shows "c \<in> set (gv_calls s)" "gcl_id c = i" "\<And>c'. c' \<in> set (gv_calls s) \<Longrightarrow> gcl_id c' = i \<Longrightarrow> c' = c"
proof -
  show c: "c \<in> set (gv_calls s)" "gcl_id c = i" using assms(2) by (auto simp: find_Some_iff)
  have "inj_on gcl_id (set (gv_calls s))" using assms(1) by (simp add: calls_ok_def distinct_map)
  with c show "c' \<in> set (gv_calls s) \<Longrightarrow> gcl_id c' = i \<Longrightarrow> c' = c" for c' by (auto dest: inj_onD)
qed

lemma live_drop: "live_calls l (drop_call i s) = filter (\<lambda>c. gcl_id c \<noteq> i) (live_calls l s)"
  by (auto simp: live_calls_def drop_call_def intro!: filter_cong)

lemma drop_other:
  assumes "calls_ok s" "find (\<lambda>c. gcl_id c = i) (gv_calls s) = Some c" "gcl_load c \<noteq> l \<or> gcl_cancelled c"
  shows "live_calls l (drop_call i s) = live_calls l s"
proof -
  have "gcl_id c' \<noteq> i" if "c' \<in> set (live_calls l s)" for c'
    using that call_unique(3)[OF assms(1,2), of c'] assms(3) by (auto simp: live_calls_def)
  then show ?thesis by (simp add: live_drop filter_id_conv)
qed

lemma drop_calls_ok: "calls_ok s \<Longrightarrow> calls_ok (drop_call i s)"
  unfolding calls_ok_def drop_call_def by (simp add: distinct_map_filter del: split_paired_All)

lemma drop_load_ok:
  assumes "calls_ok s" "find (\<lambda>c. gcl_id c = i) (gv_calls s) = Some c" "gcl_load c \<noteq> l \<or> gcl_cancelled c"
  shows "load_ok l (drop_call i s) = load_ok l s"
proof (rule load_ok_cong)
  show "fits l (drop_call i s) d = fits l s d" for d by (cases l; cases d) (simp_all add: drop_call_def)
qed (use drop_other[OF assms] in \<open>simp_all add: drop_call_def\<close>)

text \<open>What an answered call shows belongs to the dependencies the call was made with.\<close>

lemma answer_fits:
  assumes "asks l d rs" "fst d = tab_of l" "answers rs a"
  shows "fits l ((git_answered l n a s)\<lparr>gv_loading := f\<rparr>) d"
  using assms
  by (cases l; cases d; cases a) (auto simp: key_is_def Let_def)

lemma failure_fits:
  assumes "fits l s d"
  shows "fits l ((git_failed l m s)\<lparr>gv_loading := f\<rparr>) d"
  using assms by (cases l; cases d) auto

lemma call_settles_ok:
  assumes ok: "review_ok s" and ev: "event_ok s (CallSettles i result)"
  shows "review_ok (call_settles i result s)"
proof (cases "find (\<lambda>c. gcl_id c = i) (gv_calls s)")
  case None
  with ok show ?thesis by (simp add: call_settles_def)
next
  case (Some c)
  have co: "calls_ok s" and lo: "load_ok l s" for l using ok by (simp_all add: review_ok_def)
  note c = call_unique[OF co Some]
  let ?s1 = "drop_call i s" and ?l = "gcl_load c"
  show ?thesis
  proof (cases "gcl_cancelled c")
    case True
    with Some have "call_settles i result s = ?s1" by (simp add: call_settles_def drop_call_def)
    with True Some co lo show ?thesis by (simp add: review_ok_def drop_calls_ok drop_load_ok)
  next
    case False
    define s2 where "s2 = (case result of
        Inr a \<Rightarrow> git_answered ?l i a ?s1
      | Inl e \<Rightarrow> git_failed ?l (err_message (normalizeIpcError e)) ?s1)"
    let ?s3 = "s2\<lparr>gv_loading := (gv_loading s2)(?l := False)\<rparr>"
    have res: "call_settles i result s = ?s3"
      using Some False unfolding call_settles_def s2_def drop_call_def Let_def by simp
    have f: "gv_calls s2 = gv_calls ?s1" "gv_nextCall s2 = gv_nextCall s" "gv_effects s2 = gv_effects s"
        "gv_loading s2 = gv_loading s" "live_calls l ?s3 = live_calls l ?s1" for l
      by (simp_all add: s2_def answered_frame failed_frame drop_call_def live_calls_def split: sum.split)
    have "calls_ok ?s3" using drop_calls_ok[OF co, of i] f by (simp add: calls_ok_def drop_call_def)
    moreover have "load_ok l ?s3" for l
    proof (cases "l = ?l")
      case other: False
      have "load_ok l ?s3 = load_ok l ?s1"
      proof (rule load_ok_cong)
        show "fits l ?s3 d = fits l ?s1 d" for d
          using other f(4) by (cases l; cases d) (simp_all add: s2_def answered_frame failed_frame drop_call_def split: sum.split)
      qed (use other f in \<open>simp_all add: drop_call_def\<close>)
      moreover have "load_ok l ?s1 = load_ok l s" by (rule drop_load_ok[OF co Some]) (use other in simp)
      ultimately show ?thesis using lo by simp
    next
      case own: True
      have live: "c \<in> set (live_calls l s)" using c(1) False own by (simp add: live_calls_def)
      have sub: "set (live_calls l ?s3) \<subseteq> set (live_calls l s)" by (auto simp: f(5) live_drop)
      show ?thesis
      proof (cases "gv_effects s (owner l)")
        case None
        with lo[of l] live have list: "owner l = ELoad" by (auto simp: load_ok_def)
        have "fits l x d" for x d using list by (cases l; cases d) simp_all
        with None list f(3) show ?thesis by (simp add: load_ok_def)
      next
        case (Some m)
        obtain d k where m: "m = (d, k)" by (cases m)
        have old: "fits l s d" "owner l \<noteq> ELoad \<Longrightarrow>
            \<forall>c \<in> set (live_calls l s). k = Some (gcl_id c) \<and> fst d = tab_of l \<and> asks l d (gcl_asked c)"
          using lo[of l] Some m by (auto simp: load_ok_def simp del: split_paired_All)
        have "fits l ?s3 d"
        proof (cases "owner l = ELoad")
          case True
          then show ?thesis by (cases l; cases d) simp_all
        next
          case False
          with old live have a: "asks l d (gcl_asked c)" "fst d = tab_of l" by auto
          show ?thesis
          proof (cases result)
            case (Inr x)
            with ev c(1,2) have "answers (gcl_asked c) x" by (auto simp: event_ok_def)
            from answer_fits[OF a this] Inr own show ?thesis by (simp add: s2_def)
          next
            case (Inl e)
            have "fits l ?s1 d" using old(1) by (cases l; cases d) (simp_all add: drop_call_def)
            then show ?thesis using Inl own False by (cases l; cases d) (auto simp: s2_def)
          qed
        qed
        with Some m f(3) old(2) sub own show ?thesis by (auto simp: load_ok_def simp del: split_paired_All)
      qed
    qed
    ultimately show ?thesis unfolding res review_ok_def by blast
  qed
qed

lemma git_event_ok:
  assumes "review_ok s" "event_ok s e"
  shows "review_ok (git_event e s)"
proof (cases e)
  case PressRefresh
  obtain l rs where "load_tab (gv_activeTab s) (gv_repoRootUri s) s = begin_load l rs s" "owner l = ELoad"
    using load_tab_begins by blast
  with PressRefresh begin_list_ok[OF assms(1)] show ?thesis by (simp add: refreshActiveTab_def)
next
  case (CallSettles i result)
  with assms call_settles_ok show ?thesis by simp
qed (auto intro!: iffD2[OF review_ok_frame assms(1)])

section \<open>Reachable states\<close>

inductive git_reach :: "GitReview \<Rightarrow> bool" where
  git_mount: "git_reach (mount_review repo token mode)"
| git_next: "git_reach s \<Longrightarrow> event_ok s e \<Longrightarrow> git_reach (git_step e s)"

lemma git_reach_ok: "git_reach s \<Longrightarrow> review_ok s \<and> (\<exists>x. s = settle x)"
proof (induction rule: git_reach.induct)
  case (git_mount repo token mode)
  have "fits l (initial_review repo token mode) d" for l d
    by (cases l; cases d) (simp_all add: initial_review_def)
  moreover have "live_calls l (initial_review repo token mode) = []"
      "calls_ok (initial_review repo token mode)" "gv_effects (initial_review repo token mode) e = None" for l e
    by (simp_all add: initial_review_def live_calls_def calls_ok_def)
  ultimately have "review_ok (initial_review repo token mode)" by (simp add: review_ok_def load_ok_def)
  with settle_ok show ?case by (auto simp: mount_review_def)
next
  case (git_next s e)
  with git_event_ok settle_ok show ?case by (auto simp: git_step_def)
qed

lemma reach_load:
  assumes "git_reach s"
  shows "fits l s (effect_deps (owner l) s)"
    and "gv_loading s l \<Longrightarrow> wants l (effect_deps (owner l) s) \<Longrightarrow> live_calls l s \<noteq> []"
proof -
  have "load_ok l s" and "\<exists>live. gv_effects s (owner l) = Some (effect_deps (owner l) s, live)"
    using git_reach_ok[OF assms] settled_current by (auto simp: review_ok_def)
  then show "fits l s (effect_deps (owner l) s)"
    "gv_loading s l \<Longrightarrow> wants l (effect_deps (owner l) s) \<Longrightarrow> live_calls l s \<noteq> []"
    by (auto simp: load_ok_def simp del: split_paired_All split_paired_Ex)
qed

lemma key_selected:
  "key_is (t, repo, k, pick_id items key response sel) u \<longleftrightarrow> map_option key (pick items key response sel) = Some u"
  by (auto simp: key_is_def pick_id_def pick_def split: option.splits)

section \<open>Properties\<close>

text \<open>C12: the details shown belong to what is selected. However clicks, renders, other repositories
  and results are interleaved, as long as the client answers each call with what it asked for, a diff
  in the changes or worktrees tab is the diff of the selected file, and once they are no longer
  loading the diff of a commit is that of the selected commit, and the diff and the files of a
  branch are those of the selected branch; no such detail outlives its tab. The lists themselves (of
  changes, commits, branches and worktrees) are not covered: a refresh can leave those of another
  repository, see \<open>refresh_shows_other_repository\<close>.\<close>

theorem git_shows_what_is_selected:
  assumes "git_reach s"
  shows "(\<forall>r. gv_diff s = Some r \<longrightarrow> gv_activeTab s = Changes \<and>
        map_option gcf_uri (selectedFile s) = Some (gcf_uri (gdf_file r))) \<and>
    (\<forall>r. gv_worktreeDiff s = Some r \<longrightarrow> gv_activeTab s = Worktrees \<and>
        map_option gcf_uri (selectedWorktreeFile s) = Some (gcf_uri (gdf_file r))) \<and>
    (\<forall>r. gv_historyDiff s = Some r \<and> \<not> gv_loading s LHistoryDiff \<longrightarrow> gv_activeTab s = History \<and>
        map_option gc_hash (selectedHistoryCommit s) = Some (grd_head r)) \<and>
    (\<forall>r. gv_branchDiff s = Some r \<and> \<not> gv_loading s LBranchDetail \<longrightarrow> gv_activeTab s = Branches \<and>
        map_option gb_fullName (selectedBranch s) = Some (grd_head r)) \<and>
    (\<forall>r. gv_branchFiles s = Some r \<and> \<not> gv_loading s LBranchDetail \<longrightarrow> gv_activeTab s = Branches \<and>
        map_option gb_fullName (selectedBranch s) = Some (grv_revision r))"
  using reach_load(1)[OF assms, of LDiff] reach_load(1)[OF assms, of LWorktreeDiff]
    reach_load(1)[OF assms, of LHistoryDiff] reach_load(1)[OF assms, of LBranchDetail]
  unfolding selected_defs by (simp add: key_selected) blast

text \<open>C25: No spinner waits for nothing. In every reachable state, as long as calls
  are answered with what they asked for, while the list of the active tab or
  the detail of something selected there is loading, a call for it that will not be discarded is
  in flight, and its result, good or bad, ends the loading.\<close>

theorem git_spinner_has_call:
  assumes "git_reach s" and "gv_loading s l" and "wants l (effect_deps (owner l) s)"
  shows "live_calls l s \<noteq> [] \<and>
    (\<forall>c \<in> set (live_calls l s). \<forall>result. \<not> gv_loading (git_event (CallSettles (gcl_id c) result) s) l)"
proof
  show "live_calls l s \<noteq> []" by (rule reach_load(2)[OF assms])
  have co: "calls_ok s" using git_reach_ok[OF assms(1)] by (simp add: review_ok_def)
  show "\<forall>c \<in> set (live_calls l s). \<forall>result. \<not> gv_loading (git_event (CallSettles (gcl_id c) result) s) l"
  proof (intro ballI allI)
    fix c result
    assume "c \<in> set (live_calls l s)"
    then have c: "c \<in> set (gv_calls s)" "gcl_load c = l" "\<not> gcl_cancelled c" by (simp_all add: live_calls_def)
    obtain c' where c': "find (\<lambda>x. gcl_id x = gcl_id c) (gv_calls s) = Some c'"
      using c(1) by (cases "find (\<lambda>x. gcl_id x = gcl_id c) (gv_calls s)") (auto simp: find_None_iff)
    with call_unique(3)[OF co c' c(1)] have "c' = c" by simp
    with c c' show "\<not> gv_loading (git_event (CallSettles (gcl_id c) result) s) l"
      by (simp add: call_settles_def Let_def)
  qed
qed

text \<open>A call that no effect remembers is cancelled by none.\<close>

definition unowned :: "nat \<Rightarrow> GitLoad \<Rightarrow> GitReview \<Rightarrow> bool" where
  "unowned i l s \<longleftrightarrow> i < gv_nextCall s \<and> (\<forall>e d. gv_effects s e \<noteq> Some (d, Some i)) \<and>
     map (\<lambda>c. (gcl_load c, gcl_cancelled c)) (filter (\<lambda>c. gcl_id c = i) (gv_calls s)) = [(l, False)]"

lemma unowned_cancel:
  assumes "unowned i l s" "gv_effects s e = Some (d, live)"
  shows "unowned i l (cancel_call live s)"
proof (cases live)
  case (Some j)
  with assms have "j \<noteq> i" unfolding unowned_def by blast
  then have "filter (\<lambda>c. gcl_id c = i) (map (\<lambda>c. if gcl_id c = j then c\<lparr>gcl_cancelled := True\<rparr> else c) cs) =
      filter (\<lambda>c. gcl_id c = i) cs" for cs :: "GitCall list" by (induction cs) auto
  with assms(1) Some show ?thesis by (simp add: unowned_def cancel_call_def)
qed (use assms in simp)

lemma unowned_start: "unowned i l s \<Longrightarrow> unowned i l (start_effect e r s)"
  using body_starts[of e s r]
  by (auto simp: unowned_def start_effect_fields starts_def idles_def begin_load_def simp del: split_paired_All)

lemma unowned_settle: "unowned i l s \<Longrightarrow> unowned i l (settle s)"
proof -
  have step: "unowned i l x \<Longrightarrow> unowned i l (run_effect r x e)" for r x e
    by (auto simp: run_effect_def unowned_start unowned_cancel split: option.split)
  have "unowned i l x \<Longrightarrow> unowned i l (foldl (run_effect r) x es)" for r x es
    by (induction es arbitrary: x) (simp_all add: step)
  then show "unowned i l s \<Longrightarrow> unowned i l (settle s)" by (simp add: settle_def commit_render_def)
qed

lemma unowned_begin: "unowned i l s \<Longrightarrow> unowned i l (begin_load k rs s)"
  by (auto simp: unowned_def begin_load_def)

lemma unowned_event:
  assumes "unowned i l s" "\<And>x. e \<noteq> CallSettles i x"
  shows "unowned i l (git_event e s)"
proof (cases e)
  case PressRefresh
  obtain k rs where "load_tab (gv_activeTab s) (gv_repoRootUri s) s = begin_load k rs s" using load_tab_begins by blast
  with PressRefresh assms(1) show ?thesis by (simp add: refreshActiveTab_def unowned_begin)
next
  case (CallSettles j result)
  with assms have "j \<noteq> i" by blast
  then have keep: "filter (\<lambda>c. gcl_id c = i) (filter (\<lambda>c. gcl_id c \<noteq> j) cs) = filter (\<lambda>c. gcl_id c = i) cs" for cs
    by (auto intro!: filter_cong)
  with CallSettles assms(1) show ?thesis
    by (auto simp: unowned_def call_settles_def Let_def answered_frame failed_frame simp del: split_paired_All filter_filter
        split: option.split sum.split) (simp_all add: keep del: filter_filter)
qed (use assms(1) in \<open>auto simp: unowned_def simp del: split_paired_All\<close>)

definition git_run :: "GitEvent list \<Rightarrow> GitReview \<Rightarrow> GitReview" where
  "git_run es s = foldl (\<lambda>x e. git_step e x) s es"

lemma unowned_run: "unowned i l s \<Longrightarrow> (\<And>e x. e \<in> set es \<Longrightarrow> e \<noteq> CallSettles i x) \<Longrightarrow> unowned i l (git_run es s)"
proof (induction es arbitrary: s)
  case (Cons e es)
  have "unowned i l (git_step e s)"
    unfolding git_step_def by (intro unowned_settle unowned_event Cons.prems) simp_all
  with Cons show ?case by (simp add: git_run_def)
qed (simp add: git_run_def)

lemma settle_shown:
  "gv_status (settle s) = gv_status s" "gv_repoRootUri (settle s) = gv_repoRootUri s"
proof -
  have b: "gv_status (fst (effect_body e r x)) = gv_status x \<and> gv_repoRootUri (fst (effect_body e r x)) = gv_repoRootUri x" for e r x
  proof -
    obtain l rs where "load_tab (gv_activeTab r) (gv_repoRootUri r) x = begin_load l rs x" using load_tab_begins by blast
    then show ?thesis by (cases e; simp add: Let_def split: option.split)
  qed
  have step: "gv_status (run_effect r x e) = gv_status x \<and> gv_repoRootUri (run_effect r x e) = gv_repoRootUri x" for e r x
    using b by (auto simp: run_effect_def start_effect_def case_prod_beta split: option.split)
  have "gv_status (foldl (run_effect r) x es) = gv_status x \<and> gv_repoRootUri (foldl (run_effect r) x es) = gv_repoRootUri x" for r x es
    by (induction es arbitrary: x) (simp_all add: step)
  then show "gv_status (settle s) = gv_status s" "gv_repoRootUri (settle s) = gv_repoRootUri s"
    by (simp_all add: settle_def commit_render_def)
qed

text \<open>A manual refresh can show one repository under the name of another. The call of the Refresh
  button is remembered by no effect, so nothing cancels it: whatever happens until its result
  arrives, even if the review of another repository is shown by then, the result becomes the list
  of changes shown.\<close>

theorem refresh_shows_other_repository:
  assumes "git_reach s" and "gv_activeTab s = Changes" and "\<forall>e \<in> set es. \<forall>x. e \<noteq> CallSettles (gv_nextCall s) x"
  shows "gv_status (git_run (PressRefresh # es @ [Show repo token, CallSettles (gv_nextCall s) (Inr (AnswerStatus r))]) s)
      = Some (gv_nextCall s, r) \<and>
    gv_repoRootUri (git_run (PressRefresh # es @ [Show repo token, CallSettles (gv_nextCall s) (Inr (AnswerStatus r))]) s) = repo"
proof -
  let ?n = "gv_nextCall s"
  let ?s1 = "git_run es (git_step PressRefresh s)"
  let ?s2 = "git_step (Show repo token) ?s1"
  have co: "calls_ok s" using git_reach_ok[OF assms(1)] by (simp add: review_ok_def)
  then have no: "\<forall>c \<in> set (gv_calls s). gcl_id c \<noteq> ?n" "\<forall>e d. gv_effects s e \<noteq> Some (d, Some ?n)"
    unfolding calls_ok_def by (metis less_irrefl)+
  have "filter (\<lambda>c. gcl_id c = ?n) (gv_calls s) = []" using no(1) by (simp add: filter_empty_conv)
  with assms(2) no(2) have "unowned ?n LStatus (git_event PressRefresh s)"
    by (simp add: unowned_def refreshActiveTab_def loadStatus_def begin_load_def del: split_paired_All)
  then have "unowned ?n LStatus (git_step PressRefresh s)" by (simp add: git_step_def unowned_settle)
  then have "unowned ?n LStatus ?s1" by (rule unowned_run) (use assms(3) in blast)
  then have "unowned ?n LStatus ?s2"
    unfolding git_step_def by (intro unowned_settle unowned_event) simp_all
  then obtain c where c: "filter (\<lambda>c. gcl_id c = ?n) (gv_calls ?s2) = [c]" "gcl_load c = LStatus" "\<not> gcl_cancelled c"
    by (auto simp: unowned_def)
  have "find P xs = (case filter P xs of x # _ \<Rightarrow> Some x | [] \<Rightarrow> None)" for P :: "GitCall \<Rightarrow> bool" and xs
    by (induction xs) auto
  with c(1) have "find (\<lambda>c. gcl_id c = ?n) (gv_calls ?s2) = Some c" by simp
  with c(2,3) have "gv_status (call_settles ?n (Inr (AnswerStatus r)) ?s2) = Some (?n, r)"
      "gv_repoRootUri (call_settles ?n (Inr (AnswerStatus r)) ?s2) = gv_repoRootUri ?s2"
    by (simp_all add: call_settles_def Let_def)
  moreover have "gv_repoRootUri ?s2 = repo" by (simp add: git_step_def settle_shown)
  ultimately show ?thesis by (simp add: git_run_def git_step_def[of "CallSettles _ _"] settle_shown)
qed

text \<open>A spinner that stays: when a refreshed list has no changes while a diff is loading, the call of
  the diff is discarded with its selection and nothing ends the loading.\<close>

lemma settle_loading: "gv_loading s l \<Longrightarrow> gv_loading (settle s) l"
proof -
  have step: "gv_loading x l \<Longrightarrow> gv_loading (run_effect r x e) l" for r x e
  proof -
    have "gv_loading y l \<Longrightarrow> gv_loading (start_effect e r y) l" for y
      using body_starts[of e y r] by (auto simp: start_effect_fields starts_def idles_def)
    then show "gv_loading x l \<Longrightarrow> gv_loading (run_effect r x e) l" by (simp add: run_effect_def split: option.split)
  qed
  have "gv_loading x l \<Longrightarrow> gv_loading (foldl (run_effect r) x es) l" for r x es
    by (induction es arbitrary: x) (simp_all add: step)
  then show "gv_loading s l \<Longrightarrow> gv_loading (settle s) l" by (simp add: settle_def commit_render_def)
qed

lemma diff_spinner_stays:
  assumes s: "git_reach s" "gv_loading s LDiff" and c: "c \<in> set (live_calls LStatus s)"
    and r: "gst_files r = []" and ok: "event_ok s (CallSettles (gcl_id c) (Inr (AnswerStatus r)))"
  shows "gv_loading (git_step (CallSettles (gcl_id c) (Inr (AnswerStatus r))) s) LDiff \<and>
    live_calls LDiff (git_step (CallSettles (gcl_id c) (Inr (AnswerStatus r))) s) = []"
proof -
  let ?e = "CallSettles (gcl_id c) (Inr (AnswerStatus r))"
  have co: "calls_ok s" using git_reach_ok[OF s(1)] by (simp add: review_ok_def)
  have c1: "c \<in> set (gv_calls s)" "gcl_load c = LStatus" "\<not> gcl_cancelled c" using c by (simp_all add: live_calls_def)
  obtain c' where c': "find (\<lambda>x. gcl_id x = gcl_id c) (gv_calls s) = Some c'"
    using c1(1) by (cases "find (\<lambda>x. gcl_id x = gcl_id c) (gv_calls s)") (auto simp: find_None_iff)
  with call_unique(3)[OF co c' c1(1)] have "c' = c" by simp
  with c1 c' s(2) have ev: "gv_loading (git_event ?e s) LDiff" "gv_status (git_event ?e s) = Some (gcl_id c, r)"
    by (simp_all add: call_settles_def Let_def)
  have reach: "git_reach (git_step ?e s)" using git_next[OF s(1) ok] .
  have "effect_deps EDiff (git_step ?e s) = (gv_activeTab (git_step ?e s), [], 0, None)"
    using ev(2) r by (simp add: git_step_def settle_shown pick_id_def)
  moreover have "load_ok LDiff (git_step ?e s)" "\<exists>live. gv_effects (git_step ?e s) EDiff = Some (effect_deps EDiff (git_step ?e s), live)"
    using git_reach_ok[OF reach] settled_current[of "git_event ?e s" EDiff] by (simp_all add: review_ok_def git_step_def)
  ultimately have "live_calls LDiff (git_step ?e s) = []"
    by (cases "live_calls LDiff (git_step ?e s)") (auto simp: load_ok_def)
  with ev(1) show ?thesis by (simp add: git_step_def settle_loading)
qed

section \<open>Examples\<close>

definition demo_file :: "string \<Rightarrow> GitChangedFileDto" where
  "demo_file u = \<lparr>gcf_uri = u, gcf_repoRelativePath = u, gcf_status = GitModified, gcf_previousUri = None,
     gcf_previousRepoRelativePath = None\<rparr>"

definition demo_status :: "string list \<Rightarrow> GitStatusForRepositoryResponse" where
  "demo_status us = \<lparr>gst_repo = None, gst_files = map demo_file us\<rparr>"

definition demo_diff :: "string \<Rightarrow> GitDiffFileResponse" where
  "demo_diff u = \<lparr>gdf_repo = None, gdf_file = demo_file u, gdf_oldLabel = [], gdf_newLabel = [], gdf_hunks = [],
     gdf_oldLineCount = 0, gdf_newLineCount = 0, gdf_oldTruncated = False, gdf_newTruncated = False,
     gdf_binary = False, gdf_unsupportedReason = None\<rparr>"

text \<open>A review is opened, its list arrives, and then the diff of its first file.\<close>

definition demo_opened :: GitReview where
  "demo_opened = mount_review ''local:///r'' 0 Unified"

definition demo_list :: GitEvent where
  "demo_list = CallSettles 0 (Inr (AnswerStatus (demo_status [''a'', ''b''])))"

definition demo_listed :: GitReview where
  "demo_listed = git_step demo_list demo_opened"

definition demo_detail :: GitEvent where
  "demo_detail = CallSettles 1 (Inr (AnswerDiffFile (demo_diff ''a'')))"

definition demo_shown :: GitReview where
  "demo_shown = git_step demo_detail demo_listed"

lemma demo_reach: "git_reach demo_opened" "git_reach demo_listed" "git_reach demo_shown"
proof -
  show o: "git_reach demo_opened" unfolding demo_opened_def by (rule git_mount)
  have "event_ok demo_opened demo_list" by code_simp
  with o show l: "git_reach demo_listed" unfolding demo_listed_def by (rule git_next)
  have "event_ok demo_listed demo_detail" by code_simp
  with l show "git_reach demo_shown" unfolding demo_shown_def by (rule git_next)
qed

theorem git_shows_what_is_selected_witness:
  "gv_diff demo_shown = Some (demo_diff ''a'') \<and> map_option gcf_uri (selectedFile demo_shown) = Some ''a''"
proof -
  have "gv_diff demo_shown = Some (demo_diff ''a'')" by code_simp
  with git_shows_what_is_selected[OF demo_reach(3)] show ?thesis by (simp add: demo_diff_def demo_file_def)
qed

theorem git_spinner_has_call_witness: "live_calls LDiff demo_listed \<noteq> []"
proof -
  have "gv_loading demo_listed LDiff" "wants LDiff (effect_deps (owner LDiff) demo_listed)" by code_simp+
  from git_spinner_has_call[OF demo_reach(2) this] show ?thesis by blast
qed

theorem refresh_shows_other_repository_witness:
  "gv_status (git_run [PressRefresh, Show ''local:///other'' 0, CallSettles (gv_nextCall demo_opened) (Inr (AnswerStatus (demo_status [''a''])))]
     demo_opened) = Some (gv_nextCall demo_opened, demo_status [''a''])"
proof -
  have "gv_activeTab demo_opened = Changes" by code_simp
  from refresh_shows_other_repository[OF demo_reach(1) this, of "[]" "''local:///other''" 0 "demo_status [''a'']"]
  show ?thesis by simp
qed

end
