(* ===== verification/Preferences.thy ===== *)
theory Preferences
  imports Terminal JsonPrint Env
begin

text \<open>
  Preferences: their declared types (the generated \<open>UserPreferencesDto.ts\<close>), how the client
  reads a stored text (\<open>ts-api/src/clients/preferences.ts\<close>) and the preview back end keeps it
  (\<open>transports/preview.ts\<close>), how the document shows them (\<open>applyPreferences.ts\<close>,
  \<open>themeRegistry.ts\<close>), how the front end follows the answers of the back end
  (\<open>hooks/useEventHandlers.ts\<close>), and layout profiles (\<open>utils/layoutProfiles.ts\<close>). A set of
  preferences is the dictionary the sources spread and update. \<open>Number\<close> and \<open>String\<close> on
  numbers are the arguments \<open>numOf\<close> and \<open>numText\<close>; finite numbers are rationals.
\<close>

section \<open>Values and types\<close>

datatype pref_value = PBool bool | PNum js_number | PStr string

datatype pref_type = TyString | TyNumber | TyBoolean

type_synonym Preferences = "(string, pref_value) obj"

fun has_type :: "pref_value \<Rightarrow> pref_type \<Rightarrow> bool" where
  "has_type (PStr _) t \<longleftrightarrow> t = TyString"
| "has_type (PNum _) t \<longleftrightarrow> t = TyNumber"
| "has_type (PBool _) t \<longleftrightarrow> t = TyBoolean"

definition UserPreferencesDto :: "(string \<times> pref_type) list" where
  "UserPreferencesDto =
    [(''theme'', TyString), (''density'', TyString), (''defaultViewMode'', TyString),
     (''showHiddenFiles'', TyBoolean), (''sidebarWidth'', TyNumber), (''splitRatio'', TyNumber),
     (''activityPanelVisible'', TyBoolean), (''activityPanelWidth'', TyNumber),
     (''confirmDelete'', TyBoolean), (''confirmPermanentDelete'', TyBoolean),
     (''useTrashByDefault'', TyBoolean), (''defaultConflictPolicy'', TyString),
     (''accentColor'', TyString), (''fontScale'', TyString), (''iconScale'', TyString),
     (''confirmOverwrite'', TyBoolean), (''sidebarVisible'', TyBoolean), (''statusBarVisible'', TyBoolean),
     (''toolbarVisible'', TyBoolean), (''toolbarEntries'', TyString), (''popupNotifications'', TyBoolean),
     (''paneMode'', TyString), (''paneDirection'', TyString), (''jobDrawerBehavior'', TyString),
     (''showAdvancedCopyOptions'', TyBoolean), (''paneTerminalHeightLeft'', TyNumber),
     (''paneTerminalHeightRight'', TyNumber), (''paneTerminalDefaultOpen'', TyBoolean),
     (''terminalCdOnNavigate'', TyBoolean), (''confirmClosePaneWithTerminal'', TyBoolean),
     (''terminalShell'', TyString), (''terminalArgs'', TyString), (''rememberLastUsedPanes'', TyBoolean),
     (''diagnosticsExportPath'', TyString), (''customShortcuts'', TyString),
     (''fileTypeColorRules'', TyString), (''layoutProfiles'', TyString), (''columnPresets'', TyString),
     (''tabSessions'', TyString), (''hotlistEntries'', TyString), (''logLevel'', TyString),
     (''experimentalFeatures'', TyBoolean), (''cacheSizeLimit'', TyNumber),
     (''fileOperationThreads'', TyNumber), (''operationIdleTimeoutSecs'', TyNumber),
     (''networkConnectionTimeout'', TyNumber), (''networkAutoReconnect'', TyBoolean),
     (''networkDefaultProtocol'', TyString), (''networkSshKeyPath'', TyString),
     (''networkUseSshAgent'', TyBoolean), (''editorFontFamily'', TyString), (''editorFontSize'', TyNumber),
     (''editorTabSize'', TyNumber), (''editorWordWrap'', TyBoolean), (''editorAutoSave'', TyBoolean),
     (''editorSyntaxHighlighting'', TyBoolean), (''editorLineNumbers'', TyBoolean),
     (''viewerDefaultViewMode'', TyString), (''viewerImageZoom'', TyString),
     (''viewerMediaAutoplay'', TyBoolean), (''viewerMaxPreviewSize'', TyNumber)]"

definition well_typed :: "Preferences \<Rightarrow> bool" where
  "well_typed p \<longleftrightarrow> list_all (\<lambda>(k, t). case obj_get p k of Some v \<Rightarrow> has_type v t | None \<Rightarrow> False) UserPreferencesDto"

section \<open>Reading and storing\<close>

definition BOOLEAN_KEYS :: "string list" where
  "BOOLEAN_KEYS =
     [''showHiddenFiles'', ''activityPanelVisible'', ''confirmDelete'', ''confirmPermanentDelete'',
      ''useTrashByDefault'', ''confirmOverwrite'', ''sidebarVisible'', ''statusBarVisible'', ''toolbarVisible'',
      ''showAdvancedCopyOptions'', ''paneTerminalDefaultOpen'', ''terminalCdOnNavigate'',
      ''confirmClosePaneWithTerminal'', ''rememberLastUsedPanes'', ''popupNotifications'']"

definition NUMBER_KEYS :: "string list" where
  "NUMBER_KEYS =
     [''sidebarWidth'', ''activityPanelWidth'', ''splitRatio'', ''paneTerminalHeightLeft'', ''paneTerminalHeightRight'']"

definition preferenceValue :: "(string \<Rightarrow> js_number) \<Rightarrow> string \<Rightarrow> string \<Rightarrow> pref_value" where
  "preferenceValue numOf key text =
     (if key \<in> set BOOLEAN_KEYS then PBool (text = ''true'')
      else if key \<in> set NUMBER_KEYS then PNum (numOf text)
      else PStr text)"

definition preview_preferences :: "string \<Rightarrow> Preferences" where
  "preview_preferences diagnosticsPath =
    [(''theme'', PStr ''system''), (''density'', PStr ''comfortable''),
     (''defaultViewMode'', PStr ''details''), (''showHiddenFiles'', PBool False),
     (''sidebarWidth'', PNum (Fin 240)), (''splitRatio'', PNum (Fin (1 / 2))),
     (''activityPanelVisible'', PBool False), (''activityPanelWidth'', PNum (Fin 288)),
     (''confirmDelete'', PBool True), (''confirmPermanentDelete'', PBool True),
     (''useTrashByDefault'', PBool False), (''defaultConflictPolicy'', PStr ''fail''),
     (''accentColor'', PStr ''blue''), (''fontScale'', PStr ''medium''), (''iconScale'', PStr ''medium''),
     (''confirmOverwrite'', PBool True), (''sidebarVisible'', PBool True),
     (''statusBarVisible'', PBool True), (''toolbarVisible'', PBool True), (''toolbarEntries'', PStr ''''),
     (''popupNotifications'', PBool False), (''paneMode'', PStr ''dual''),
     (''paneDirection'', PStr ''horizontal''), (''jobDrawerBehavior'', PStr ''manual''),
     (''showAdvancedCopyOptions'', PBool False), (''paneTerminalHeightLeft'', PNum (Fin (7 / 20))),
     (''paneTerminalHeightRight'', PNum (Fin (7 / 20))), (''paneTerminalDefaultOpen'', PBool False),
     (''terminalCdOnNavigate'', PBool False), (''confirmClosePaneWithTerminal'', PBool True),
     (''terminalShell'', PStr ''''), (''terminalArgs'', PStr ''''),
     (''rememberLastUsedPanes'', PBool True), (''diagnosticsExportPath'', PStr diagnosticsPath),
     (''customShortcuts'', PStr ''''), (''fileTypeColorRules'', PStr ''''),
     (''layoutProfiles'', PStr ''''), (''columnPresets'', PStr ''''), (''tabSessions'', PStr ''''),
     (''hotlistEntries'', PStr ''''), (''logLevel'', PStr ''warn''),
     (''experimentalFeatures'', PBool False), (''cacheSizeLimit'', PNum (Fin 256)),
     (''fileOperationThreads'', PNum (Fin 4)), (''operationIdleTimeoutSecs'', PNum (Fin 300)),
     (''networkConnectionTimeout'', PNum (Fin 30)), (''networkAutoReconnect'', PBool True),
     (''networkDefaultProtocol'', PStr ''sftp''), (''networkSshKeyPath'', PStr ''''),
     (''networkUseSshAgent'', PBool False), (''editorFontFamily'', PStr ''monospace''),
     (''editorFontSize'', PNum (Fin 14)), (''editorTabSize'', PNum (Fin 4)),
     (''editorWordWrap'', PBool True), (''editorAutoSave'', PBool False),
     (''editorSyntaxHighlighting'', PBool True), (''editorLineNumbers'', PBool True),
     (''viewerDefaultViewMode'', PStr ''text''), (''viewerImageZoom'', PStr ''fit''),
     (''viewerMediaAutoplay'', PBool False), (''viewerMaxPreviewSize'', PNum (Fin 10))]"

definition preview_set :: "(string \<Rightarrow> js_number) \<Rightarrow> string \<Rightarrow> string \<Rightarrow> Preferences \<Rightarrow> Preferences" where
  "preview_set numOf key text p = obj_set key (preferenceValue numOf key text) p"

section \<open>Showing preferences\<close>

fun truthy :: "pref_value option \<Rightarrow> bool" where
  "truthy (Some (PBool b)) = b"
| "truthy (Some (PNum n)) = (n \<noteq> NaN \<and> n \<noteq> Fin 0)"
| "truthy (Some (PStr s)) = (s \<noteq> [])"
| "truthy None = False"

definition pref_str :: "Preferences \<Rightarrow> string \<Rightarrow> string" where
  "pref_str p k = (case obj_get p k of Some (PStr s) \<Rightarrow> s | _ \<Rightarrow> [])"

record ThemeDefinition =
  th_id :: string
  th_label :: string
  th_isDark :: bool
  th_selectable :: bool

definition THEMES :: "ThemeDefinition list" where
  "THEMES =
     [\<lparr>th_id = ''system'', th_label = ''System'', th_isDark = False, th_selectable = True\<rparr>,
      \<lparr>th_id = ''light'', th_label = ''Light'', th_isDark = False, th_selectable = True\<rparr>,
      \<lparr>th_id = ''dark'', th_label = ''Dark'', th_isDark = True, th_selectable = True\<rparr>,
      \<lparr>th_id = ''commander-blue'', th_label = ''Commander Blue'', th_isDark = True, th_selectable = True\<rparr>,
      \<lparr>th_id = ''aubergine-technical'', th_label = ''Aubergine Muted Technical'', th_isDark = True, th_selectable = True\<rparr>]"

definition themeById :: "string \<Rightarrow> ThemeDefinition option" where
  "themeById i = find (\<lambda>t. th_id t = i) THEMES"

definition isKnownTheme :: "string \<Rightarrow> bool" where
  "isKnownTheme i \<longleftrightarrow> themeById i \<noteq> None"

definition selectableThemes :: "ThemeDefinition list" where
  "selectableThemes = filter th_selectable THEMES"

text \<open>The attributes and style properties of the document that preferences set; a deleted attribute
  is \<open>False\<close>.\<close>

record Document =
  doc_theme :: string
  doc_density :: string
  doc_accent :: string
  doc_fontScale :: string
  doc_iconScale :: string
  doc_sidebarWidth :: string
  doc_activityWidth :: string
  doc_leftWeight :: int
  doc_rightWeight :: int
  doc_activityPanel :: string
  doc_sidebarHidden :: bool
  doc_statusBar :: string
  doc_toolbarHidden :: bool

definition applyThemePreference :: "string \<Rightarrow> Document \<Rightarrow> Document" where
  "applyThemePreference theme d =
     d\<lparr>doc_theme := (if theme \<noteq> ''system'' \<and> isKnownTheme theme then theme else ''system'')\<rparr>"

definition density_of :: "string \<Rightarrow> string" where
  "density_of density = (if density = ''compact'' \<or> density = ''spacious'' then density else ''comfortable'')"

definition applyDensityPreference :: "string \<Rightarrow> Document \<Rightarrow> Document" where
  "applyDensityPreference density d = d\<lparr>doc_density := density_of density\<rparr>"

definition ACCENT_VALUES :: "string list" where
  "ACCENT_VALUES = [''blue'', ''indigo'', ''violet'', ''pink'', ''red'', ''orange'', ''amber'', ''green'']"

definition SCALE_VALUES :: "string list" where
  "SCALE_VALUES = [''small'', ''medium'', ''large'']"

definition applyAccentPreference :: "string \<Rightarrow> Document \<Rightarrow> Document" where
  "applyAccentPreference v d = d\<lparr>doc_accent := (if v \<in> set ACCENT_VALUES then v else ''blue'')\<rparr>"

definition applyFontScalePreference :: "string \<Rightarrow> Document \<Rightarrow> Document" where
  "applyFontScalePreference v d = d\<lparr>doc_fontScale := (if v \<in> set SCALE_VALUES then v else ''medium'')\<rparr>"

definition applyIconScalePreference :: "string \<Rightarrow> Document \<Rightarrow> Document" where
  "applyIconScalePreference v d = d\<lparr>doc_iconScale := (if v \<in> set SCALE_VALUES then v else ''medium'')\<rparr>"

text \<open>\<open>Number\<close> of a preference; \<open>undefined\<close> is not a number.\<close>

fun to_number :: "(string \<Rightarrow> js_number) \<Rightarrow> pref_value option \<Rightarrow> js_number" where
  "to_number numOf (Some (PNum n)) = n"
| "to_number numOf (Some (PStr s)) = numOf s"
| "to_number numOf (Some (PBool b)) = Fin (of_bool b)"
| "to_number numOf None = NaN"

definition split_resolved :: "js_number \<Rightarrow> js_number" where
  "split_resolved n = js_min (Fin (3 / 4)) (js_max (Fin (1 / 4)) (if n = NaN \<or> n = Fin 0 then Fin (1 / 2) else n))"

definition js_round :: "rat \<Rightarrow> int" where
  "js_round r = \<lfloor>r + 1 / 2\<rfloor>"

definition applySplitRatio :: "js_number \<Rightarrow> Document \<Rightarrow> Document" where
  "applySplitRatio n d =
     (case split_resolved n of
        Fin r \<Rightarrow> d\<lparr>doc_leftWeight := max 1 (js_round (r * 100)), doc_rightWeight := max 1 (js_round ((1 - r) * 100))\<rparr>
      | _ \<Rightarrow> d)"

definition applyChromeLayout :: "bool \<Rightarrow> bool \<Rightarrow> Document \<Rightarrow> Document" where
  "applyChromeLayout statusBar toolbar d =
     d\<lparr>doc_statusBar := (if statusBar then ''visible'' else ''hidden''), doc_toolbarHidden := \<not> toolbar\<rparr>"

text \<open>A value in a template string.\<close>

fun pref_text :: "(js_number \<Rightarrow> string) \<Rightarrow> pref_value option \<Rightarrow> string" where
  "pref_text numText (Some (PStr s)) = s"
| "pref_text numText (Some (PNum n)) = numText n"
| "pref_text numText (Some (PBool b)) = bool_str b"
| "pref_text numText None = ''undefined''"

definition applyLayoutPreferences ::
    "(string \<Rightarrow> js_number) \<Rightarrow> (js_number \<Rightarrow> string) \<Rightarrow> Preferences \<Rightarrow> Document \<Rightarrow> Document" where
  "applyLayoutPreferences numOf numText p d =
     (let d1 = d\<lparr>doc_sidebarWidth := pref_text numText (obj_get p ''sidebarWidth'') @ ''px'',
                 doc_activityWidth := (if truthy (obj_get p ''activityPanelVisible'')
                   then pref_text numText (obj_get p ''activityPanelWidth'') @ ''px'' else ''44px'')\<rparr>;
          d2 = applySplitRatio (to_number numOf (obj_get p ''splitRatio'')) d1;
          d3 = d2\<lparr>doc_activityPanel := (if truthy (obj_get p ''activityPanelVisible'') then ''visible'' else ''hidden''),
                  doc_sidebarHidden := \<not> truthy (obj_get p ''sidebarVisible'')\<rparr>
      in applyChromeLayout (obj_get p ''statusBarVisible'' \<noteq> Some (PBool False))
           (obj_get p ''toolbarVisible'' \<noteq> Some (PBool False)) d3)"

definition rowHeightForDensity :: "string \<Rightarrow> nat" where
  "rowHeightForDensity density = (if density = ''compact'' then 18 else if density = ''spacious'' then 24 else 20)"

definition viewModeFromPreference :: "string \<Rightarrow> ViewMode" where
  "viewModeFromPreference v =
     (if v = ''list'' then VList else if v = ''compact'' then VCompact else if v = ''icons'' then VIcons
      else if v = ''columns'' then VColumns else VDetails)"

definition applyAllPreferences ::
    "(string \<Rightarrow> js_number) \<Rightarrow> (js_number \<Rightarrow> string) \<Rightarrow> Preferences \<Rightarrow> Document \<Rightarrow> Document" where
  "applyAllPreferences numOf numText p d =
     applyLayoutPreferences numOf numText p
       (applyIconScalePreference (pref_str p ''iconScale'')
         (applyFontScalePreference (pref_str p ''fontScale'')
           (applyAccentPreference (pref_str p ''accentColor'')
             (applyDensityPreference (pref_str p ''density'')
               (applyThemePreference (pref_str p ''theme'') d)))))"

section \<open>Following the back end\<close>

text \<open>\<open>updatePreference\<close>: the answer carries all preferences, which are then shown. Answers to several
  calls are awaited one by one, in the order in which they come.\<close>

record PrefView =
  pvw_preferences :: "Preferences option"
  pvw_document :: Document
  pvw_activityCollapsed :: bool
  pvw_operationError :: "string option"

definition preference_answered ::
    "(string \<Rightarrow> js_number) \<Rightarrow> (js_number \<Rightarrow> string) \<Rightarrow> string \<Rightarrow> thrown + Preferences \<Rightarrow> PrefView \<Rightarrow> PrefView" where
  "preference_answered numOf numText key answer v =
     (case answer of
        Inr p \<Rightarrow>
          v\<lparr>pvw_preferences := Some p,
            pvw_document := applyDensityPreference (pref_str p ''density'')
              (applyLayoutPreferences numOf numText p (applyAllPreferences numOf numText p (pvw_document v))),
            pvw_activityCollapsed := (if key = ''activityPanelVisible'' then \<not> truthy (obj_get p ''activityPanelVisible'')
              else pvw_activityCollapsed v)\<rparr>
      | Inl e \<Rightarrow> v\<lparr>pvw_operationError := Some (err_message (normalizeIpcError e))\<rparr>)"

text \<open>Whether the panels are listed again.\<close>

definition refreshes_panels :: "string \<Rightarrow> bool" where
  "refreshes_panels key \<longleftrightarrow> key = ''showHiddenFiles''"

section \<open>Layout profiles\<close>

definition PROFILE_TYPES :: "(string \<times> pref_type) list" where
  "PROFILE_TYPES =
     [(''sidebarWidth'', TyNumber), (''sidebarVisible'', TyBoolean), (''splitRatio'', TyNumber), (''paneMode'', TyString),
      (''paneDirection'', TyString), (''statusBarVisible'', TyBoolean), (''toolbarVisible'', TyBoolean),
      (''toolbarEntries'', TyString), (''activityPanelVisible'', TyBoolean), (''activityPanelWidth'', TyNumber),
      (''fontScale'', TyString), (''iconScale'', TyString), (''density'', TyString), (''accentColor'', TyString),
      (''theme'', TyString)]"

text \<open>The id and the creation time are not checked when a profile is read.\<close>

record LayoutProfile =
  lp_id :: "json option"
  lp_name :: string
  lp_createdAt :: "json option"
  lp_values :: "(string \<times> pref_value option) list"

definition captureCurrentProfile :: "string \<Rightarrow> string \<Rightarrow> Preferences \<Rightarrow> string \<Rightarrow> LayoutProfile" where
  "captureCurrentProfile newId now p name =
     \<lparr>lp_id = Some (JStr (''profile-'' @ newId)), lp_name = name, lp_createdAt = Some (JStr now),
      lp_values = map (\<lambda>(k, t). (k, obj_get p k)) PROFILE_TYPES\<rparr>"

definition applyLayoutProfile :: "(js_number \<Rightarrow> string) \<Rightarrow> LayoutProfile \<Rightarrow> (string \<times> string) list" where
  "applyLayoutProfile numText profile = map (\<lambda>(k, v). (k, pref_text numText v)) (lp_values profile)"

fun json_value :: "pref_type \<Rightarrow> json option \<Rightarrow> pref_value option" where
  "json_value TyString (Some (JStr s)) = Some (PStr s)"
| "json_value TyNumber (Some (JNum r)) = Some (PNum (Fin r))"
| "json_value TyBoolean (Some (JBool b)) = Some (PBool b)"
| "json_value _ _ = None"

text \<open>\<open>isValidLayoutProfile\<close>, and the profile read.\<close>

definition profile_of_json :: "json \<Rightarrow> LayoutProfile option" where
  "profile_of_json v =
     (case json_prop (Some v) ''name'' of
        Some (JStr n) \<Rightarrow>
          (if list_all (\<lambda>(k, t). json_value t (json_prop (Some v) k) \<noteq> None) PROFILE_TYPES
           then Some \<lparr>lp_id = json_prop (Some v) ''id'', lp_name = n, lp_createdAt = json_prop (Some v) ''createdAt'',
                  lp_values = map (\<lambda>(k, t). (k, json_value t (json_prop (Some v) k))) PROFILE_TYPES\<rparr>
           else None)
      | _ \<Rightarrow> None)"

definition importProfile :: "string \<Rightarrow> string \<Rightarrow> string \<Rightarrow> LayoutProfile option" where
  "importProfile newId now text =
     Option.bind (json_parse text) (\<lambda>v. map_option (\<lambda>p. p\<lparr>lp_id := Some (JStr (''profile-'' @ newId)),
        lp_createdAt := Some (JStr now)\<rparr>) (profile_of_json v))"

definition parseLayoutProfiles :: "string \<Rightarrow> LayoutProfile list" where
  "parseLayoutProfiles text =
     (if text = [] then []
      else case json_parse text of Some (JArr vs) \<Rightarrow> List.map_filter profile_of_json vs | _ \<Rightarrow> [])"

text \<open>\<open>JSON.stringify\<close> leaves out what is \<open>undefined\<close> and writes \<open>null\<close> for a number that is not finite.\<close>

fun value_json :: "pref_value \<Rightarrow> json" where
  "value_json (PStr s) = JStr s"
| "value_json (PBool b) = JBool b"
| "value_json (PNum (Fin r)) = JNum r"
| "value_json (PNum _) = JNull"

definition profile_json :: "LayoutProfile \<Rightarrow> json" where
  "profile_json p =
     JObj ((case lp_id p of Some v \<Rightarrow> [(''id'', v)] | None \<Rightarrow> []) @ [(''name'', JStr (lp_name p))]
       @ (case lp_createdAt p of Some v \<Rightarrow> [(''createdAt'', v)] | None \<Rightarrow> [])
       @ List.map_filter (\<lambda>(k, v). map_option (\<lambda>x. (k, value_json x)) v) (lp_values p))"

definition serializeLayoutProfiles :: "(rat \<Rightarrow> string) \<Rightarrow> LayoutProfile list \<Rightarrow> string" where
  "serializeLayoutProfiles num ps = json_text num (JArr (map profile_json ps))"

end
