(* ===== verification/PreferenceFacts.thy ===== *)
theory PreferenceFacts
  imports Preferences
begin

text \<open>
  The types of preferences under changes, the bounds of what the document shows, and the round trip
  of a layout profile through its text, the back end and another set of preferences.
\<close>

section \<open>Types\<close>

definition read_type :: "string \<Rightarrow> pref_type" where
  "read_type k = (if k \<in> set BOOLEAN_KEYS then TyBoolean else if k \<in> set NUMBER_KEYS then TyNumber else TyString)"

lemma read_has_type: "has_type (preferenceValue numOf k s) t \<longleftrightarrow> t = read_type k"
  by (simp add: preferenceValue_def read_type_def)

text \<open>The preferences that are declared as numbers or booleans but kept as the text sent.\<close>

definition TEXT_KEYS :: "string list" where
  "TEXT_KEYS =
     [''experimentalFeatures'', ''cacheSizeLimit'', ''fileOperationThreads'', ''operationIdleTimeoutSecs'',
      ''networkConnectionTimeout'', ''networkAutoReconnect'', ''networkUseSshAgent'', ''editorFontSize'',
      ''editorTabSize'', ''editorWordWrap'', ''editorAutoSave'', ''editorSyntaxHighlighting'',
      ''editorLineNumbers'', ''viewerMediaAutoplay'', ''viewerMaxPreviewSize'']"

lemma declared_distinct: "distinct (map fst UserPreferencesDto)"
  by (simp add: UserPreferencesDto_def)

lemma declared_types: "list_all (\<lambda>(k, t). t = read_type k \<longleftrightarrow> k \<notin> set TEXT_KEYS) UserPreferencesDto"
  by (simp add: UserPreferencesDto_def read_type_def BOOLEAN_KEYS_def NUMBER_KEYS_def TEXT_KEYS_def)

lemma text_keys_declared: "set TEXT_KEYS \<subseteq> fst ` set UserPreferencesDto"
  by (simp add: UserPreferencesDto_def TEXT_KEYS_def)

lemma well_typedI:
  assumes "\<And>k t. (k, t) \<in> set UserPreferencesDto \<Longrightarrow> \<exists>v. obj_get p k = Some v \<and> has_type v t"
  shows "well_typed p"
  unfolding well_typed_def list_all_iff
proof (rule ballI, clarify)
  fix k t assume "(k, t) \<in> set UserPreferencesDto"
  from assms[OF this] show "case obj_get p k of None \<Rightarrow> False | Some v \<Rightarrow> has_type v t" by auto
qed

lemma well_typedD: "well_typed p \<Longrightarrow> (k, t) \<in> set UserPreferencesDto \<Longrightarrow> \<exists>v. obj_get p k = Some v \<and> has_type v t"
  by (force simp: well_typed_def list_all_iff split: option.splits)

lemma well_typed_set:
  assumes "well_typed p"
  shows "well_typed (obj_set k v p) \<longleftrightarrow> (\<forall>t. (k, t) \<in> set UserPreferencesDto \<longrightarrow> has_type v t)"
proof
  assume w: "well_typed (obj_set k v p)"
  show "\<forall>t. (k, t) \<in> set UserPreferencesDto \<longrightarrow> has_type v t"
  proof (intro allI impI)
    fix t assume "(k, t) \<in> set UserPreferencesDto"
    from well_typedD[OF w this] show "has_type v t" by simp
  qed
next
  assume v: "\<forall>t. (k, t) \<in> set UserPreferencesDto \<longrightarrow> has_type v t"
  show "well_typed (obj_set k v p)"
  proof (rule well_typedI)
    fix k' t assume m: "(k', t) \<in> set UserPreferencesDto"
    show "\<exists>x. obj_get (obj_set k v p) k' = Some x \<and> has_type x t"
    proof (cases "k' = k")
      case True
      with m have "(k, t) \<in> set UserPreferencesDto" by simp
      with v have "has_type v t" by blast
      with True show ?thesis by simp
    next
      case False
      from well_typedD[OF assms m] obtain x where "obj_get p k' = Some x" "has_type x t" by blast
      with False show ?thesis by simp
    qed
  qed
qed

lemma declared_in_order:
  assumes keys: "map fst p = map fst UserPreferencesDto"
    and types: "list_all2 has_type (map snd p) (map snd UserPreferencesDto)"
  shows "well_typed p"
proof (rule well_typedI)
  fix k t assume "(k, t) \<in> set UserPreferencesDto"
  then obtain i where i: "i < length UserPreferencesDto" "UserPreferencesDto ! i = (k, t)" by (auto simp: in_set_conv_nth)
  have l: "length p = length UserPreferencesDto" using arg_cong[OF keys, of length] by simp
  have "fst (p ! i) = k" using arg_cong[OF keys, of "\<lambda>xs. xs ! i"] i l by simp
  then have "(k, snd (p ! i)) \<in> set p" using i l by (metis nth_mem prod.collapse)
  moreover have "distinct (map fst p)" using declared_distinct keys by simp
  moreover have "has_type (snd (p ! i)) t" using list_all2_nthD2[OF types, of i] i l by simp
  ultimately show "\<exists>v. obj_get p k = Some v \<and> has_type v t" by (auto intro: map_of_is_SomeI)
qed

lemma defaults_typed: "well_typed (preview_preferences path)"
  by (rule declared_in_order) (simp_all add: UserPreferencesDto_def preview_preferences_def)

text \<open>C28: changing a preference keeps all preferences at their declared types, except for fifteen of
  them. The preview back end starts with well-typed preferences; setting a preference, to whatever
  text, keeps them well typed exactly when it is none of the numbers and booleans that
  \<open>preferenceValue\<close> does not know, which become text.\<close>

theorem preference_types:
  "well_typed (preview_preferences path) \<and>
   (\<forall>p k s. well_typed p \<longrightarrow> (well_typed (preview_set numOf k s p) \<longleftrightarrow> k \<notin> set TEXT_KEYS))"
proof (intro conjI allI impI)
  show "well_typed (preview_preferences path)" by (rule defaults_typed)
  fix p k s
  assume p: "well_typed p"
  have decl: "(k, t) \<in> set UserPreferencesDto \<Longrightarrow> t = read_type k \<longleftrightarrow> k \<notin> set TEXT_KEYS" for t
    using declared_types by (auto simp: list_all_iff)
  show "well_typed (preview_set numOf k s p) \<longleftrightarrow> k \<notin> set TEXT_KEYS"
    unfolding preview_set_def well_typed_set[OF p] read_has_type
    using decl text_keys_declared by (auto simp: image_iff)
qed

theorem preference_types_witness:
  "\<not> well_typed (preview_set (\<lambda>_. Fin 0) ''editorFontSize'' ''14'' (preview_preferences [])) \<and>
   well_typed (preview_set (\<lambda>_. Fin 0) ''sidebarWidth'' ''300'' (preview_preferences []))"
proof -
  have "''editorFontSize'' \<in> set TEXT_KEYS" "''sidebarWidth'' \<notin> set TEXT_KEYS" by (simp_all add: TEXT_KEYS_def)
  with preference_types[of "[]" "\<lambda>_. Fin 0"] show ?thesis by blast
qed

section \<open>What the document shows\<close>

lemma split_bounds: "\<exists>r. split_resolved n = Fin r \<and> 1 / 4 \<le> r \<and> r \<le> 3 / 4"
proof (cases n)
  case (Fin r)
  let ?s = "if r = 0 then 1 / 2 else min (3 / 4) (max (1 / 4) r)"
  have "split_resolved n = Fin ?s" by (auto simp: Fin split_resolved_def js_min_def js_max_def min_def max_def)
  moreover have "1 / 4 \<le> ?s" "?s \<le> 3 / 4" by auto
  ultimately show ?thesis by blast
next
  case NaN
  then show ?thesis by (intro exI[of _ "1 / 2"]) (simp add: split_resolved_def js_min_def js_max_def)
next
  case PosInf
  then show ?thesis by (intro exI[of _ "3 / 4"]) (simp add: split_resolved_def js_min_def js_max_def)
next
  case NegInf
  then show ?thesis by (intro exI[of _ "1 / 4"]) (simp add: split_resolved_def js_min_def js_max_def)
qed

lemma round_bounds:
  assumes "1 / 4 \<le> r" "r \<le> 3 / 4"
  shows "25 \<le> js_round (r * 100)" "js_round (r * 100) \<le> 75" "25 \<le> js_round ((1 - r) * 100)" "js_round ((1 - r) * 100) \<le> 75"
    "js_round (r * 100) + js_round ((1 - r) * 100) \<in> {100, 101}"
proof -
  show "25 \<le> js_round (r * 100)" "25 \<le> js_round ((1 - r) * 100)"
    using assms by (simp_all add: js_round_def le_floor_iff)
  show "js_round (r * 100) \<le> 75" "js_round ((1 - r) * 100) \<le> 75"
    using assms by (simp_all add: js_round_def floor_le_iff)
  let ?a = "r * 100 + 1 / 2" and ?b = "(1 - r) * 100 + 1 / 2"
  have "of_int (\<lfloor>?a\<rfloor> + \<lfloor>?b\<rfloor>) \<le> (101 :: rat)" "(101 :: rat) < of_int (\<lfloor>?a\<rfloor> + \<lfloor>?b\<rfloor>) + 2"
  proof -
    have "of_int \<lfloor>?a\<rfloor> \<le> ?a" "?a < of_int \<lfloor>?a\<rfloor> + 1" "of_int \<lfloor>?b\<rfloor> \<le> ?b" "?b < of_int \<lfloor>?b\<rfloor> + 1"
      using floor_correct[of ?a] floor_correct[of ?b] by (metis of_int_1 of_int_add)+
    moreover have "?a + ?b = 101" by (simp add: algebra_simps)
    ultimately show "of_int (\<lfloor>?a\<rfloor> + \<lfloor>?b\<rfloor>) \<le> (101 :: rat)" "(101 :: rat) < of_int (\<lfloor>?a\<rfloor> + \<lfloor>?b\<rfloor>) + 2"
      unfolding of_int_add by linarith+
  qed
  then have "\<lfloor>?a\<rfloor> + \<lfloor>?b\<rfloor> \<le> 101" "99 < \<lfloor>?a\<rfloor> + \<lfloor>?b\<rfloor>" by linarith+
  then show "js_round (r * 100) + js_round ((1 - r) * 100) \<in> {100, 101}" by (auto simp: js_round_def)
qed

lemma applied_chrome:
  "doc_theme (applySplitRatio n d) = doc_theme d" "doc_density (applySplitRatio n d) = doc_density d"
  "doc_accent (applySplitRatio n d) = doc_accent d" "doc_fontScale (applySplitRatio n d) = doc_fontScale d"
  "doc_iconScale (applySplitRatio n d) = doc_iconScale d"
  by (simp_all add: applySplitRatio_def split: js_number.split)

lemma applied_weights:
  "25 \<le> doc_leftWeight (applySplitRatio n d) \<and> doc_leftWeight (applySplitRatio n d) \<le> 75 \<and>
   25 \<le> doc_rightWeight (applySplitRatio n d) \<and> doc_rightWeight (applySplitRatio n d) \<le> 75 \<and>
   doc_leftWeight (applySplitRatio n d) + doc_rightWeight (applySplitRatio n d) \<in> {100, 101}"
proof -
  obtain r where r: "split_resolved n = Fin r" "1 / 4 \<le> r" "r \<le> 3 / 4" using split_bounds by blast
  then show ?thesis using round_bounds[OF r(2,3)] by (auto simp: applySplitRatio_def max_def)
qed

text \<open>Whatever is stored, the document shows a valid state. For any preferences, of any types and
  with any texts and numbers in them, the theme is one of the registry, density, accent and scales
  are among their values, and both panes get between 25 and 75 hundredths, together 100 or 101.\<close>

theorem applied_preferences_valid:
  fixes numOf numText p d
  defines "d' \<equiv> applyAllPreferences numOf numText p d"
  shows "isKnownTheme (doc_theme d') \<and> doc_density d' \<in> {''compact'', ''comfortable'', ''spacious''} \<and>
    doc_accent d' \<in> set ACCENT_VALUES \<and> doc_fontScale d' \<in> set SCALE_VALUES \<and> doc_iconScale d' \<in> set SCALE_VALUES \<and>
    25 \<le> doc_leftWeight d' \<and> doc_leftWeight d' \<le> 75 \<and> 25 \<le> doc_rightWeight d' \<and> doc_rightWeight d' \<le> 75 \<and>
    doc_leftWeight d' + doc_rightWeight d' \<in> {100, 101}"
proof -
  have s: "isKnownTheme ''system''" "''blue'' \<in> set ACCENT_VALUES" "''medium'' \<in> set SCALE_VALUES"
    by (simp_all add: isKnownTheme_def themeById_def THEMES_def ACCENT_VALUES_def SCALE_VALUES_def)
  show ?thesis
    using applied_weights s
    by (auto simp: d'_def applyAllPreferences_def applyLayoutPreferences_def Let_def applyChromeLayout_def
        applyThemePreference_def applyDensityPreference_def density_of_def applyAccentPreference_def
        applyFontScalePreference_def applyIconScalePreference_def applied_chrome)
qed

section \<open>Layout profiles\<close>

lemma profile_keys: "distinct (map fst PROFILE_TYPES)" "set PROFILE_TYPES \<subseteq> set UserPreferencesDto"
  "list_all (\<lambda>(k, t). t = read_type k) PROFILE_TYPES"
  "''id'' \<notin> fst ` set PROFILE_TYPES" "''name'' \<notin> fst ` set PROFILE_TYPES" "''createdAt'' \<notin> fst ` set PROFILE_TYPES"
  by (simp_all add: PROFILE_TYPES_def UserPreferencesDto_def read_type_def BOOLEAN_KEYS_def NUMBER_KEYS_def)

text \<open>What the calls of \<open>updatePreference\<close> that apply a profile make of the preferences.\<close>

definition apply_profile ::
    "(string \<Rightarrow> js_number) \<Rightarrow> (js_number \<Rightarrow> string) \<Rightarrow> LayoutProfile \<Rightarrow> Preferences \<Rightarrow> Preferences" where
  "apply_profile numOf numText profile q =
     fold (\<lambda>(k, s). preview_set numOf k s) (applyLayoutProfile numText profile) q"

text \<open>The numbers of a profile that are written and read back.\<close>

definition profile_numbers_read ::
    "(rat \<Rightarrow> string) \<Rightarrow> (string \<Rightarrow> js_number) \<Rightarrow> (js_number \<Rightarrow> string) \<Rightarrow> Preferences \<Rightarrow> bool" where
  "profile_numbers_read num numOf numText p \<longleftrightarrow>
     list_all (\<lambda>(k, t). case obj_get p k of
         Some (PNum (Fin r)) \<Rightarrow> num_ok num r \<and> numOf (numText (Fin r)) = Fin r
       | Some (PNum _) \<Rightarrow> False
       | _ \<Rightarrow> True) PROFILE_TYPES"

lemma value_read_back:
  assumes "has_type v (read_type k)" "\<And>n. v = PNum n \<Longrightarrow> numOf (numText n) = n"
  shows "preferenceValue numOf k (pref_text numText (Some v)) = v"
  using assms by (cases v) (auto simp: preferenceValue_def read_type_def bool_str_def split: if_splits)

lemma json_value_back: "has_type v t \<Longrightarrow> (\<And>n. v = PNum n \<Longrightarrow> \<exists>r. n = Fin r) \<Longrightarrow> json_value t (Some (value_json v)) = Some v"
  by (cases v) auto

lemma fold_obj_set:
  "distinct (map fst xs) \<Longrightarrow> obj_get (fold (\<lambda>(k, s). obj_set k (f k s)) xs q) k
     = (case obj_get xs k of Some s \<Rightarrow> Some (f k s) | None \<Rightarrow> obj_get q k)"
proof (induction xs arbitrary: q)
  case (Cons x xs)
  obtain j s where x: "x = (j, s)" by force
  have "j \<notin> fst ` set xs" using Cons.prems by (simp add: x)
  then have "obj_get xs j = None" by (simp add: map_of_eq_None_iff)
  with Cons.IH[of "obj_set j (f j s) q"] Cons.prems show ?case by (auto simp: x split: option.splits)
qed simp

lemma map_of_keyed: "map_of (map (\<lambda>(k, t). (k, g k)) ks) k = (if k \<in> fst ` set ks then Some (g k) else None)"
  by (induction ks) auto

text \<open>One preference of a profile.\<close>

lemma profile_entry:
  assumes "well_typed p" "profile_numbers_read num numOf numText p" "(k, t) \<in> set PROFILE_TYPES"
  obtains v where "obj_get p k = Some v" "has_type v t" "t = read_type k" "printable num (value_json v)"
    "\<And>n. v = PNum n \<Longrightarrow> numOf (numText n) = n" "\<And>n. v = PNum n \<Longrightarrow> \<exists>r. n = Fin r"
proof -
  have "(k, t) \<in> set UserPreferencesDto" using profile_keys(2) assms(3) by blast
  from well_typedD[OF assms(1) this] obtain v where v: "obj_get p k = Some v" "has_type v t" by blast
  have t: "t = read_type k" using profile_keys(3) assms(3) by (auto simp: list_all_iff)
  have "case Some v of Some (PNum (Fin r)) \<Rightarrow> num_ok num r \<and> numOf (numText (Fin r)) = Fin r
       | Some (PNum _) \<Rightarrow> False | _ \<Rightarrow> True"
    using assms(2,3) v(1) unfolding profile_numbers_read_def list_all_iff by fastforce
  then show thesis using that[OF v t] by (cases v) (auto split: js_number.splits)
qed

lemma profile_applied:
  assumes p: "well_typed p" "profile_numbers_read num numOf numText p"
  shows "obj_get (apply_profile numOf numText (captureCurrentProfile newId now p name) q) k
     = (if k \<in> fst ` set PROFILE_TYPES then obj_get p k else obj_get q k)"
proof -
  have l: "applyLayoutProfile numText (captureCurrentProfile newId now p name)
      = map (\<lambda>(k, t). (k, pref_text numText (obj_get p k))) PROFILE_TYPES"
    by (simp add: applyLayoutProfile_def captureCurrentProfile_def split_beta comp_def)
  have d: "distinct (map fst (map (\<lambda>(k, t). (k, pref_text numText (obj_get p k))) PROFILE_TYPES))"
    using profile_keys(1) by (simp add: split_beta comp_def)
  have "preferenceValue numOf k (pref_text numText (obj_get p k)) = the (obj_get p k) \<and> obj_get p k \<noteq> None"
    if k: "k \<in> fst ` set PROFILE_TYPES"
  proof -
    from k obtain t where "(k, t) \<in> set PROFILE_TYPES" by auto
    from profile_entry[OF p this] obtain v where v: "obj_get p k = Some v" "has_type v (read_type k)"
      "\<And>n. v = PNum n \<Longrightarrow> numOf (numText n) = n" by metis
    from value_read_back[OF v(2), of numOf numText] v(3) have
      "preferenceValue numOf k (pref_text numText (Some v)) = v" by blast
    then show ?thesis by (simp add: v(1))
  qed
  then show ?thesis
    unfolding apply_profile_def preview_set_def l fold_obj_set[OF d] by (auto simp: map_of_keyed)
qed

lemma profile_applied_typed:
  assumes p: "well_typed p" "profile_numbers_read num numOf numText p" and q: "well_typed q"
  shows "well_typed (apply_profile numOf numText (captureCurrentProfile newId now p name) q)"
proof (rule well_typedI)
  fix k t assume "(k, t) \<in> set UserPreferencesDto"
  from well_typedD[OF p(1) this] well_typedD[OF q this]
  show "\<exists>v. obj_get (apply_profile numOf numText (captureCurrentProfile newId now p name) q) k = Some v \<and> has_type v t"
    unfolding profile_applied[OF p] by auto
qed

lemma profile_text_back:
  assumes p: "well_typed p" "profile_numbers_read num numOf numText p"
  shows "parseLayoutProfiles (serializeLayoutProfiles num [captureCurrentProfile newId now p name])
     = [captureCurrentProfile newId now p name]"
proof -
  let ?c = "captureCurrentProfile newId now p name"
  let ?kv = "map (\<lambda>(k, t). (k, value_json (the (obj_get p k)))) PROFILE_TYPES"
  let ?ms = "(''id'', JStr (''profile-'' @ newId)) # (''name'', JStr name) # (''createdAt'', JStr now) # ?kv"
  have some: "obj_get p k = Some (the (obj_get p k))" if "(k, t) \<in> set PROFILE_TYPES" for k t
    using profile_entry[OF p that] by (metis option.sel)
  have "List.map_filter (\<lambda>(k, v). map_option (\<lambda>x. (k, value_json x)) v) (map (\<lambda>(k, t). (k, obj_get p k)) K)
      = map (\<lambda>(k, t). (k, value_json (the (obj_get p k)))) K" if "set K \<subseteq> set PROFILE_TYPES" for K :: "(string \<times> pref_type) list"
    using that
  proof (induction K)
    case (Cons x K)
    obtain k t where x: "x = (k, t)" by force
    with Cons.prems have "obj_get p k = Some (the (obj_get p k))" by (intro some[of k t]) simp
    with Cons x show ?case by (cases "obj_get p k") (simp_all add: List.map_filter_simps)
  qed (simp add: List.map_filter_simps)
  then have json: "profile_json ?c = JObj ?ms" by (simp add: profile_json_def captureCurrentProfile_def)
  have "printable num (value_json (the (obj_get p k)))" if "(k, t) \<in> set PROFILE_TYPES" for k t
    using profile_entry[OF p that] by (metis option.sel)
  then have "printable num (JArr [profile_json ?c])"
    using profile_keys(1,4,5,6) by (auto simp: json split_beta comp_def list_all_iff image_iff)
  then have parsed: "json_parse (serializeLayoutProfiles num [?c]) = Some (JArr [JObj ?ms])"
    by (simp only: serializeLayoutProfiles_def list.map json_text_read_back) (simp only: json)
  then have ne: "serializeLayoutProfiles num [?c] \<noteq> []" by (auto simp: serializeLayoutProfiles_def)
  have "json_value t (json_prop (Some (JObj ?ms)) k) = obj_get p k \<and> obj_get p k \<noteq> None"
    if k: "(k, t) \<in> set PROFILE_TYPES" for k t
  proof -
    from profile_entry[OF p k] obtain v where v: "obj_get p k = Some v" "has_type v t" "\<And>n. v = PNum n \<Longrightarrow> \<exists>r. n = Fin r"
      by metis
    have m: "k \<in> fst ` set PROFILE_TYPES" using k by force
    then have "k \<noteq> ''id''" "k \<noteq> ''name''" "k \<noteq> ''createdAt''" using profile_keys(4-6) by metis+
    then have "json_prop (Some (JObj ?ms)) k = Some (value_json v)"
      using v(1) m by (simp add: json_prop_def map_of_keyed)
    with json_value_back[OF v(2,3)] show ?thesis by (simp add: v(1))
  qed
  then have "profile_of_json (JObj ?ms) = Some ?c"
    by (auto simp: profile_of_json_def json_prop_def captureCurrentProfile_def list_all_iff)
  then show ?thesis using parsed ne by (simp add: parseLayoutProfiles_def List.map_filter_simps)
qed

text \<open>C29: a layout profile restores the layout. The profile captured from well-typed preferences is read
  back from its text as it was, and applying it to other well-typed preferences gives the layout of the first
  and everything else of the second, well typed, where the numbers of the layout are written and read back.\<close>

theorem layout_profile_restores:
  assumes "well_typed p" "profile_numbers_read num numOf numText p" "well_typed q"
  shows "\<exists>profile. parseLayoutProfiles (serializeLayoutProfiles num [captureCurrentProfile newId now p name]) = [profile] \<and>
    well_typed (apply_profile numOf numText profile q) \<and>
    (\<forall>k. obj_get (apply_profile numOf numText profile q) k
       = (if k \<in> fst ` set PROFILE_TYPES then obj_get p k else obj_get q k))"
  using profile_text_back[OF assms(1,2)] profile_applied_typed[OF assms] profile_applied[OF assms(1,2)] by simp

text \<open>Integers as the layout's numbers.\<close>

definition int_numText :: "js_number \<Rightarrow> string" where
  "int_numText n = (case n of Fin r \<Rightarrow> int_text r | _ \<Rightarrow> ''NaN'')"

definition json_numOf :: "string \<Rightarrow> js_number" where
  "json_numOf s = (case json_parse s of Some (JNum r) \<Rightarrow> Fin r | _ \<Rightarrow> NaN)"

lemma int_read: "json_numOf (int_numText (Fin (of_int i))) = Fin (of_int i)"
  using json_text_read_back[of int_text "JNum (of_int i)"] int_text_ok by (simp add: json_numOf_def int_numText_def)

lemma set_typed:
  assumes "well_typed p" "has_type v (read_type k)" "k \<notin> set TEXT_KEYS"
  shows "well_typed (obj_set k v p)"
  unfolding well_typed_set[OF assms(1)] using declared_types assms(2,3) by (auto simp: list_all_iff)

theorem layout_profile_restores_witness:
  "\<exists>q'. well_typed q' \<and> obj_get q' ''sidebarWidth'' = Some (PNum (Fin 240)) \<and> obj_get q' ''logLevel'' = Some (PStr ''info'')"
proof -
  let ?p = "obj_set ''splitRatio'' (PNum (Fin 1)) (preview_preferences [])"
  let ?q = "obj_set ''sidebarWidth'' (PNum (Fin 90)) (obj_set ''logLevel'' (PStr ''info'') (preview_preferences []))"
  have p: "well_typed ?p"
    by (rule set_typed[OF defaults_typed]) (simp_all add: read_type_def TEXT_KEYS_def BOOLEAN_KEYS_def NUMBER_KEYS_def)
  have q: "well_typed ?q"
    by (rule set_typed[OF set_typed[OF defaults_typed]])
      (simp_all add: read_type_def TEXT_KEYS_def BOOLEAN_KEYS_def NUMBER_KEYS_def)
  have n: "profile_numbers_read int_text json_numOf int_numText ?p"
    using int_text_ok[of 1] int_text_ok[of 240] int_text_ok[of 288] int_read[of 1] int_read[of 240] int_read[of 288]
    by (simp add: profile_numbers_read_def PROFILE_TYPES_def preview_preferences_def)
  have get: "obj_get ?p ''sidebarWidth'' = Some (PNum (Fin 240))" "obj_get ?q ''logLevel'' = Some (PStr ''info'')"
    by (simp_all add: preview_preferences_def)
  have keys: "''sidebarWidth'' \<in> fst ` set PROFILE_TYPES" "''logLevel'' \<notin> fst ` set PROFILE_TYPES"
    by (simp_all add: PROFILE_TYPES_def)
  from layout_profile_restores[OF p n q, of "''x''" "''now''" "''mine''"] obtain profile where
    t: "well_typed (apply_profile json_numOf int_numText profile ?q)" and
    v: "\<And>k. obj_get (apply_profile json_numOf int_numText profile ?q) k
       = (if k \<in> fst ` set PROFILE_TYPES then obj_get ?p k else obj_get ?q k)" by blast
  show ?thesis
    by (rule exI[of _ "apply_profile json_numOf int_numText profile ?q"], intro conjI t) (simp_all only: v keys get if_True if_False)
qed

end
