(* ===== verification/PaneGit.thy ===== *)
theory PaneGit
  imports GitTypes
begin

text \<open>
  The git status of a pane (\<open>pane/usePaneGitStatus.ts\<close>): a hook per pane over two maps of the
  module, the cache of answers and the pending requests. A promise is the number of its call; the
  continuations attached to it are kept with the hook and the sequence number they compare.
  The answer of the client is an event, in which the continuations run in the order they were attached.
\<close>

section \<open>State\<close>

record PaneGitStatus =
  pg_repo :: "GitRepoInfoDto option"
  pg_entries :: "(string, GitFileStatus) obj"
  pg_loading :: bool

definition emptyGitStatus :: PaneGitStatus where
  "emptyGitStatus = \<lparr>pg_repo = None, pg_entries = [], pg_loading = False\<rparr>"

record GitHook =
  gh_uri :: string
  gh_status :: PaneGitStatus
  gh_sequence :: nat
  gh_mounted :: bool

record GitStatusState =
  gs_available :: bool
  gs_cache :: "(string, PaneGitStatus) obj"
  gs_requests :: "(string, nat) obj"
  gs_calls :: "(nat, string) obj"
  gs_next :: nat
  gs_waiters :: "(nat \<times> nat \<times> nat) list"
  gs_hooks :: "(nat, GitHook) obj"
  gs_nextHook :: nat

definition initial_git_status :: "bool \<Rightarrow> GitStatusState" where
  "initial_git_status available =
     \<lparr>gs_available = available, gs_cache = [], gs_requests = [], gs_calls = [], gs_next = 0, gs_waiters = [], gs_hooks = [],
      gs_nextHook = 0\<rparr>"

definition is_local :: "string \<Rightarrow> bool" where
  "is_local uri = js_startsWith uri ''local://''"

section \<open>Loading\<close>

datatype Loaded = Ready PaneGitStatus | Pending nat

definition loadDirectoryGitStatus :: "string \<Rightarrow> bool \<Rightarrow> GitStatusState \<Rightarrow> Loaded \<times> GitStatusState" where
  "loadDirectoryGitStatus uri forceRefresh s =
     (case (if forceRefresh then None else obj_get (gs_cache s) uri) of
        Some cached \<Rightarrow> (Ready cached, s)
      | None \<Rightarrow>
          (case (if forceRefresh then None else obj_get (gs_requests s) uri) of
             Some pending \<Rightarrow> (Pending pending, s)
           | None \<Rightarrow>
               (Pending (gs_next s),
                s\<lparr>gs_calls := obj_set (gs_next s) uri (gs_calls s), gs_next := Suc (gs_next s),
                  gs_requests := obj_set uri (gs_next s) (gs_requests s)\<rparr>)))"

definition set_hook :: "nat \<Rightarrow> GitHook \<Rightarrow> GitStatusState \<Rightarrow> GitStatusState" where
  "set_hook h k s = s\<lparr>gs_hooks := obj_set h k (gs_hooks s)\<rparr>"

definition set_status :: "nat \<Rightarrow> nat \<Rightarrow> PaneGitStatus \<Rightarrow> GitStatusState \<Rightarrow> GitStatusState" where
  "set_status h sequence st s =
     (case obj_get (gs_hooks s) h of
        Some k \<Rightarrow> if gh_mounted k \<and> gh_sequence k = sequence then set_hook h (k\<lparr>gh_status := st\<rparr>) s else s
      | None \<Rightarrow> s)"

definition loadStatus :: "nat \<Rightarrow> bool \<Rightarrow> GitStatusState \<Rightarrow> GitStatusState" where
  "loadStatus h forceRefresh s =
     (case obj_get (gs_hooks s) h of
        None \<Rightarrow> s
      | Some k0 \<Rightarrow>
          (let k = k0\<lparr>gh_sequence := gh_sequence k0 + 1\<rparr>
           in if \<not> is_local (gh_uri k) \<or> \<not> gs_available s then set_hook h (k\<lparr>gh_status := emptyGitStatus\<rparr>) s
              else case (if forceRefresh then None else obj_get (gs_cache s) (gh_uri k)) of
                Some cached \<Rightarrow> set_hook h (k\<lparr>gh_status := cached\<rparr>) s
              | None \<Rightarrow>
                  (let s1 = set_hook h (k\<lparr>gh_status := (gh_status k)\<lparr>pg_loading := True\<rparr>\<rparr>) s;
                       (loaded, s2) = loadDirectoryGitStatus (gh_uri k) forceRefresh s1
                   in case loaded of
                        Ready st \<Rightarrow> set_status h (gh_sequence k) st s2
                      | Pending n \<Rightarrow> s2\<lparr>gs_waiters := gs_waiters s2 @ [(n, h, gh_sequence k)]\<rparr>)))"

section \<open>Events\<close>

datatype GitStatusEvent =
  MountHook string
| UnmountHook nat
| ShowDirectory nat string
| WatchHeard nat string
| StatusAnswer nat "thrown + (GitRepoInfoDto option \<times> (string, GitFileStatus) obj)"

definition mount_hook :: "string \<Rightarrow> GitStatusState \<Rightarrow> GitStatusState" where
  "mount_hook uri s =
     loadStatus (gs_nextHook s) False
       (set_hook (gs_nextHook s) \<lparr>gh_uri = uri, gh_status = emptyGitStatus, gh_sequence = 0, gh_mounted = True\<rparr>
          (s\<lparr>gs_nextHook := Suc (gs_nextHook s)\<rparr>))"

definition answered_status :: "GitRepoInfoDto option \<times> (string, GitFileStatus) obj \<Rightarrow> PaneGitStatus" where
  "answered_status r = \<lparr>pg_repo = fst r, pg_entries = snd r, pg_loading = False\<rparr>"

text \<open>The call settles: the cache and the pending request of its address first, then the hooks.\<close>

definition status_answered ::
    "nat \<Rightarrow> thrown + (GitRepoInfoDto option \<times> (string, GitFileStatus) obj) \<Rightarrow> GitStatusState \<Rightarrow> GitStatusState" where
  "status_answered n answer s =
     (case obj_get (gs_calls s) n of
        None \<Rightarrow> s
      | Some uri \<Rightarrow>
          (let (cache, st) = (case answer of
                 Inr r \<Rightarrow> (obj_set uri (answered_status r) (gs_cache s), answered_status r)
               | Inl _ \<Rightarrow> (obj_del uri (gs_cache s), emptyGitStatus));
               s1 = s\<lparr>gs_cache := cache, gs_requests := obj_del uri (gs_requests s), gs_calls := obj_del n (gs_calls s),
                      gs_waiters := filter (\<lambda>w. fst w \<noteq> n) (gs_waiters s)\<rparr>
           in fold (\<lambda>(_, h, sequence). set_status h sequence st) (filter (\<lambda>w. fst w = n) (gs_waiters s)) s1))"

fun git_status_step :: "GitStatusEvent \<Rightarrow> GitStatusState \<Rightarrow> GitStatusState" where
  "git_status_step (MountHook uri) s = mount_hook uri s"
| "git_status_step (UnmountHook h) s =
     (case obj_get (gs_hooks s) h of
        Some k \<Rightarrow> set_hook h (k\<lparr>gh_mounted := False, gh_sequence := gh_sequence k + 1\<rparr>) s
      | None \<Rightarrow> s)"
| "git_status_step (ShowDirectory h uri) s =
     (case obj_get (gs_hooks s) h of
        Some k \<Rightarrow> if \<not> gh_mounted k \<or> gh_uri k = uri then s else loadStatus h False (set_hook h (k\<lparr>gh_uri := uri\<rparr>) s)
      | None \<Rightarrow> s)"
| "git_status_step (WatchHeard h uri) s =
     (case obj_get (gs_hooks s) h of
        Some k \<Rightarrow> if gh_mounted k \<and> is_local (gh_uri k) \<and> uri = gh_uri k then loadStatus h True s else s
      | None \<Rightarrow> s)"
| "git_status_step (StatusAnswer n answer) s = status_answered n answer s"

section \<open>What a pane shows\<close>

text \<open>\<open>D u st\<close> says that \<open>st\<close> is a status of the directory \<open>u\<close>: the client is trusted to answer a call
  for a directory with one.\<close>

fun answer_of :: "(string \<Rightarrow> PaneGitStatus \<Rightarrow> bool) \<Rightarrow> GitStatusState \<Rightarrow> GitStatusEvent \<Rightarrow> bool" where
  "answer_of D s (StatusAnswer n (Inr r)) =
     (case obj_get (gs_calls s) n of Some u \<Rightarrow> D u (answered_status r) | None \<Rightarrow> True)"
| "answer_of D s _ = True"

inductive git_status_reach :: "(string \<Rightarrow> PaneGitStatus \<Rightarrow> bool) \<Rightarrow> GitStatusState \<Rightarrow> bool" for D where
  start: "git_status_reach D (initial_git_status available)"
| step: "git_status_reach D s \<Longrightarrow> answer_of D s e \<Longrightarrow> git_status_reach D (git_status_step e s)"

definition hook_shows :: "(string \<Rightarrow> PaneGitStatus \<Rightarrow> bool) \<Rightarrow> GitStatusState \<Rightarrow> nat \<Rightarrow> GitHook \<Rightarrow> bool" where
  "hook_shows D s h k \<longleftrightarrow>
     (if pg_loading (gh_status k)
      then \<exists>n. (n, h, gh_sequence k) \<in> set (gs_waiters s)
      else gh_status k = emptyGitStatus \<or> D (gh_uri k) (gh_status k))"

text \<open>The invariant, but for the hooks \<open>X\<close> that are about to load.\<close>

definition waiter_ok :: "nat set \<Rightarrow> GitStatusState \<Rightarrow> nat \<times> nat \<times> nat \<Rightarrow> bool" where
  "waiter_ok X s w \<longleftrightarrow>
     (case w of (n, h, q) \<Rightarrow>
        \<exists>u k. obj_get (gs_calls s) n = Some u \<and> obj_get (gs_hooks s) h = Some k \<and> q \<le> gh_sequence k \<and>
          (h \<notin> X \<and> q = gh_sequence k \<and> gh_mounted k \<longrightarrow> gh_uri k = u))"

definition git_status_ok :: "nat set \<Rightarrow> (string \<Rightarrow> PaneGitStatus \<Rightarrow> bool) \<Rightarrow> GitStatusState \<Rightarrow> bool" where
  "git_status_ok X D s \<longleftrightarrow>
     (\<forall>u st. obj_get (gs_cache s) u = Some st \<longrightarrow> D u st \<and> \<not> pg_loading st) \<and>
     (\<forall>u n. obj_get (gs_requests s) u = Some n \<longrightarrow> obj_get (gs_calls s) n = Some u) \<and>
     (\<forall>n u. obj_get (gs_calls s) n = Some u \<longrightarrow> n < gs_next s) \<and>
     (\<forall>w \<in> set (gs_waiters s). waiter_ok X s w) \<and>
     (\<forall>h k. obj_get (gs_hooks s) h = Some k \<longrightarrow> h < gs_nextHook s \<and> (gh_mounted k \<and> h \<notin> X \<longrightarrow> hook_shows D s h k))"

lemma git_status_okD:
  assumes "git_status_ok X D s"
  shows "obj_get (gs_cache s) u = Some st \<Longrightarrow> D u st \<and> \<not> pg_loading st"
    "obj_get (gs_requests s) u = Some n \<Longrightarrow> obj_get (gs_calls s) n = Some u"
    "obj_get (gs_calls s) n = Some u \<Longrightarrow> n < gs_next s"
    "(n, h, q) \<in> set (gs_waiters s) \<Longrightarrow> waiter_ok X s (n, h, q)"
    "obj_get (gs_hooks s) h = Some k \<Longrightarrow> h < gs_nextHook s"
    "obj_get (gs_hooks s) h = Some k \<Longrightarrow> gh_mounted k \<Longrightarrow> h \<notin> X \<Longrightarrow> hook_shows D s h k"
  using assms unfolding git_status_ok_def by blast+

lemma git_status_okI:
  assumes "\<And>u st. obj_get (gs_cache s) u = Some st \<Longrightarrow> D u st \<and> \<not> pg_loading st"
    "\<And>u n. obj_get (gs_requests s) u = Some n \<Longrightarrow> obj_get (gs_calls s) n = Some u"
    "\<And>n u. obj_get (gs_calls s) n = Some u \<Longrightarrow> n < gs_next s"
    "\<And>n h q. (n, h, q) \<in> set (gs_waiters s) \<Longrightarrow> waiter_ok X s (n, h, q)"
    "\<And>h k. obj_get (gs_hooks s) h = Some k \<Longrightarrow> h < gs_nextHook s"
    "\<And>h k. obj_get (gs_hooks s) h = Some k \<Longrightarrow> gh_mounted k \<Longrightarrow> h \<notin> X \<Longrightarrow> hook_shows D s h k"
  shows "git_status_ok X D s"
  unfolding git_status_ok_def using assms by (intro conjI allI impI ballI) auto

lemma waiterE:
  assumes "waiter_ok X s (n, h, q)"
  obtains u k where "obj_get (gs_calls s) n = Some u" "obj_get (gs_hooks s) h = Some k" "q \<le> gh_sequence k"
    "h \<notin> X \<Longrightarrow> q = gh_sequence k \<Longrightarrow> gh_mounted k \<Longrightarrow> gh_uri k = u"
  using assms unfolding waiter_ok_def by auto

text \<open>Replacing the record of a hook by one with a higher sequence number.\<close>

lemma hook_replaced:
  assumes ok: "git_status_ok {h} D s" and k: "obj_get (gs_hooks s) h = Some k0"
    and q: "gh_sequence k0 < gh_sequence k"
    and st: "\<not> pg_loading (gh_status k)" "gh_status k = emptyGitStatus \<or> D (gh_uri k) (gh_status k)"
  shows "git_status_ok {} D (set_hook h k s)"
proof -
  have "waiter_ok {} (set_hook h k s) (n, h', q')" if "(n, h', q') \<in> set (gs_waiters s)" for n h' q'
  proof -
    from waiterE[OF git_status_okD(4)[OF ok that]] obtain u k' where
      w: "obj_get (gs_calls s) n = Some u" "obj_get (gs_hooks s) h' = Some k'" "q' \<le> gh_sequence k'"
        "h' \<noteq> h \<Longrightarrow> q' = gh_sequence k' \<Longrightarrow> gh_mounted k' \<Longrightarrow> gh_uri k' = u" by blast
    show ?thesis using w k q by (cases "h' = h") (auto simp: waiter_ok_def set_hook_def)
  qed
  moreover have "hook_shows D (set_hook h k s) h' k'"
    if "obj_get (gs_hooks (set_hook h k s)) h' = Some k'" "gh_mounted k'" for h' k'
  proof (cases "h' = h")
    case True
    with that st show ?thesis by (auto simp: set_hook_def hook_shows_def)
  next
    case False
    with that git_status_okD(6)[OF ok, of h' k'] show ?thesis by (auto simp: set_hook_def hook_shows_def)
  qed
  moreover have "h' < gs_nextHook s" if "obj_get (gs_hooks (set_hook h k s)) h' = Some k'" for h' k'
    using that git_status_okD(5)[OF ok] k by (auto simp: set_hook_def split: if_splits)
  ultimately show ?thesis
    using git_status_okD(1-3)[OF ok] unfolding git_status_ok_def by (auto simp: set_hook_def)
qed

text \<open>A hook that waits for a call.\<close>

lemma hook_waits:
  assumes ok: "git_status_ok {h} D s" and k: "obj_get (gs_hooks s) h = Some k0"
    and q: "gh_sequence k0 < gh_sequence k" and l: "pg_loading (gh_status k)"
    and n: "obj_get (gs_calls s) n = Some (gh_uri k)"
  shows "git_status_ok {} D ((set_hook h k s)\<lparr>gs_waiters := gs_waiters s @ [(n, h, gh_sequence k)]\<rparr>)" (is "git_status_ok {} D ?s")
proof -
  have "waiter_ok {} ?s (m, h', q')" if "(m, h', q') \<in> set (gs_waiters s)" for m h' q'
  proof -
    from waiterE[OF git_status_okD(4)[OF ok that]] obtain u k' where
      w: "obj_get (gs_calls s) m = Some u" "obj_get (gs_hooks s) h' = Some k'" "q' \<le> gh_sequence k'"
        "h' \<noteq> h \<Longrightarrow> q' = gh_sequence k' \<Longrightarrow> gh_mounted k' \<Longrightarrow> gh_uri k' = u" by blast
    show ?thesis using w k q by (cases "h' = h") (auto simp: waiter_ok_def set_hook_def)
  qed
  moreover have "waiter_ok {} ?s (n, h, gh_sequence k)" using n by (simp add: waiter_ok_def set_hook_def)
  moreover have "hook_shows D ?s h' k'" if "obj_get (gs_hooks ?s) h' = Some k'" "gh_mounted k'" for h' k'
  proof (cases "h' = h")
    case True
    with that l show ?thesis by (auto simp: set_hook_def hook_shows_def)
  next
    case False
    with that git_status_okD(6)[OF ok, of h' k'] show ?thesis by (auto simp: set_hook_def hook_shows_def split: if_splits)
  qed
  moreover have "h' < gs_nextHook s" if "obj_get (gs_hooks ?s) h' = Some k'" for h' k'
    using that git_status_okD(5)[OF ok] k by (auto simp: set_hook_def split: if_splits)
  ultimately show ?thesis
    using git_status_okD(1-3)[OF ok] unfolding git_status_ok_def by (auto simp: set_hook_def)
qed

lemma call_added:
  assumes ok: "git_status_ok X D s"
  shows "git_status_ok X D (s\<lparr>gs_calls := obj_set (gs_next s) u (gs_calls s), gs_next := Suc (gs_next s),
    gs_requests := obj_set u (gs_next s) (gs_requests s)\<rparr>)" (is "git_status_ok X D ?s")
proof -
  have "obj_get (gs_calls s) (gs_next s) = None" using git_status_okD(3)[OF ok] by (metis less_irrefl not_None_eq)
  then have old: "obj_get (gs_calls ?s) n = Some u'" if "obj_get (gs_calls s) n = Some u'" for n u' using that by auto
  have "waiter_ok X ?s (n, h, q)" if "(n, h, q) \<in> set (gs_waiters s)" for n h q
  proof -
    from waiterE[OF git_status_okD(4)[OF ok that]] obtain u' k where
      w: "obj_get (gs_calls s) n = Some u'" "obj_get (gs_hooks s) h = Some k" "q \<le> gh_sequence k"
        "h \<notin> X \<Longrightarrow> q = gh_sequence k \<Longrightarrow> gh_mounted k \<Longrightarrow> gh_uri k = u'" by blast
    show ?thesis using old[OF w(1)] w(2-4) by (simp add: waiter_ok_def)
  qed
  note waiters = this
  show ?thesis
  proof (rule git_status_okI)
    fix u' n assume "obj_get (gs_requests ?s) u' = Some n"
    then show "obj_get (gs_calls ?s) n = Some u'"
      using git_status_okD(2)[OF ok, of u' n] old[of n u'] by (auto split: if_splits)
  next
    fix n u' assume "obj_get (gs_calls ?s) n = Some u'"
    then show "n < gs_next ?s" using git_status_okD(3)[OF ok, of n u'] by (auto split: if_splits)
  next
    fix h k assume "obj_get (gs_hooks ?s) h = Some k" "gh_mounted k" "h \<notin> X"
    then show "hook_shows D ?s h k" using git_status_okD(6)[OF ok, of h k] by (simp add: hook_shows_def)
  qed (use git_status_okD(1,5)[OF ok] waiters in simp_all)
qed

lemma load_keeps:
  assumes ok: "git_status_ok {h} D s" and k: "obj_get (gs_hooks s) h = Some k0"
  shows "git_status_ok {} D (loadStatus h force s)"
proof -
  let ?k = "k0\<lparr>gh_sequence := gh_sequence k0 + 1\<rparr>" and ?u = "gh_uri k0"
  let ?w = "?k\<lparr>gh_status := (gh_status k0)\<lparr>pg_loading := True\<rparr>\<rparr>"
  consider (no) "\<not> is_local ?u \<or> \<not> gs_available s"
    | (cached) st where "is_local ?u" "gs_available s" "\<not> force" "obj_get (gs_cache s) ?u = Some st"
    | (joins) n where "is_local ?u" "gs_available s" "\<not> force" "obj_get (gs_cache s) ?u = None" "obj_get (gs_requests s) ?u = Some n"
    | (asks) "is_local ?u" "gs_available s" "force \<or> obj_get (gs_cache s) ?u = None \<and> obj_get (gs_requests s) ?u = None"
    by (cases "obj_get (gs_cache s) ?u"; cases "obj_get (gs_requests s) ?u") auto
  then show ?thesis
  proof cases
    case no
    have "git_status_ok {} D (set_hook h (?k\<lparr>gh_status := emptyGitStatus\<rparr>) s)"
      by (rule hook_replaced[OF ok k]) (simp_all add: emptyGitStatus_def)
    with no k show ?thesis by (auto simp: loadStatus_def)
  next
    case (cached st)
    have "git_status_ok {} D (set_hook h (?k\<lparr>gh_status := st\<rparr>) s)"
      by (rule hook_replaced[OF ok k]) (use git_status_okD(1)[OF ok cached(4)] in simp_all)
    with cached k show ?thesis by (simp add: loadStatus_def)
  next
    case (joins n)
    have "git_status_ok {} D ((set_hook h ?w s)\<lparr>gs_waiters := gs_waiters s @ [(n, h, gh_sequence ?w)]\<rparr>)"
      by (rule hook_waits[OF ok k]) (use git_status_okD(2)[OF ok joins(5)] in simp_all)
    with joins k show ?thesis by (simp add: loadStatus_def loadDirectoryGitStatus_def set_hook_def)
  next
    case asks
    let ?s = "s\<lparr>gs_calls := obj_set (gs_next s) ?u (gs_calls s), gs_next := Suc (gs_next s),
      gs_requests := obj_set ?u (gs_next s) (gs_requests s)\<rparr>"
    have "git_status_ok {} D ((set_hook h ?w ?s)\<lparr>gs_waiters := gs_waiters ?s @ [(gs_next s, h, gh_sequence ?w)]\<rparr>)"
      by (rule hook_waits[OF call_added[OF ok], where ?k0.0 = k0]) (simp_all add: k)
    moreover have "loadStatus h force s = (set_hook h ?w ?s)\<lparr>gs_waiters := gs_waiters ?s @ [(gs_next s, h, gh_sequence ?w)]\<rparr>"
      using asks k by (cases force) (simp_all add: loadStatus_def loadDirectoryGitStatus_def set_hook_def)
    ultimately show ?thesis by simp
  qed
qed

lemma ok_weaker: "git_status_ok {} D s \<Longrightarrow> git_status_ok {h} D s"
proof (rule git_status_okI)
  fix n h' q assume ok: "git_status_ok {} D s" and "(n, h', q) \<in> set (gs_waiters s)"
  from git_status_okD(4)[OF this] show "waiter_ok {h} s (n, h', q)" by (auto simp: waiter_ok_def)
qed (simp_all add: git_status_okD)

lemma uri_changed:
  assumes ok: "git_status_ok {} D s" and k: "obj_get (gs_hooks s) h = Some k"
  shows "git_status_ok {h} D (set_hook h (k\<lparr>gh_uri := uri\<rparr>) s)" (is "git_status_ok _ _ ?s")
proof (rule git_status_okI)
  fix n h' q assume "(n, h', q) \<in> set (gs_waiters ?s)"
  then have "(n, h', q) \<in> set (gs_waiters s)" by (simp add: set_hook_def)
  from waiterE[OF git_status_okD(4)[OF ok this]] obtain u k' where
    w: "obj_get (gs_calls s) n = Some u" "obj_get (gs_hooks s) h' = Some k'" "q \<le> gh_sequence k'"
      "q = gh_sequence k' \<Longrightarrow> gh_mounted k' \<Longrightarrow> gh_uri k' = u" by blast
  then show "waiter_ok {h} ?s (n, h', q)" using k by (cases "h' = h") (auto simp: waiter_ok_def set_hook_def)
next
  fix h' k' assume "obj_get (gs_hooks ?s) h' = Some k'" "gh_mounted k'" "h' \<notin> {h}"
  then show "hook_shows D ?s h' k'" using git_status_okD(6)[OF ok, of h' k'] by (simp add: set_hook_def hook_shows_def)
next
  fix h' k' assume "obj_get (gs_hooks ?s) h' = Some k'"
  then show "h' < gs_nextHook ?s" using git_status_okD(5)[OF ok] k by (auto simp: set_hook_def split: if_splits)
qed (use git_status_okD(1-3)[OF ok] in \<open>simp_all add: set_hook_def\<close>)

lemma hook_created:
  assumes ok: "git_status_ok {} D s"
  shows "git_status_ok {gs_nextHook s} D (set_hook (gs_nextHook s) k (s\<lparr>gs_nextHook := Suc (gs_nextHook s)\<rparr>))"
    (is "git_status_ok {?h} D ?s")
proof (rule git_status_okI)
  have new: "obj_get (gs_hooks s) ?h = None" using git_status_okD(5)[OF ok] by (metis less_irrefl not_None_eq)
  fix n h' q assume "(n, h', q) \<in> set (gs_waiters ?s)"
  then have "(n, h', q) \<in> set (gs_waiters s)" by (simp add: set_hook_def)
  from waiterE[OF git_status_okD(4)[OF ok this]] obtain u k' where
    w: "obj_get (gs_calls s) n = Some u" "obj_get (gs_hooks s) h' = Some k'" "q \<le> gh_sequence k'"
      "q = gh_sequence k' \<Longrightarrow> gh_mounted k' \<Longrightarrow> gh_uri k' = u" by blast
  moreover from w(2) new have "h' \<noteq> ?h" by auto
  ultimately show "waiter_ok {?h} ?s (n, h', q)" by (auto simp: waiter_ok_def set_hook_def)
next
  fix h' k' assume "obj_get (gs_hooks ?s) h' = Some k'"
  then show "h' < gs_nextHook ?s" using git_status_okD(5)[OF ok, of h' k'] by (auto simp: set_hook_def split: if_splits)
next
  fix h' k' assume "obj_get (gs_hooks ?s) h' = Some k'" "gh_mounted k'" "h' \<notin> {?h}"
  then show "hook_shows D ?s h' k'" using git_status_okD(6)[OF ok, of h' k'] by (simp add: set_hook_def hook_shows_def)
qed (use git_status_okD(1-3)[OF ok] in \<open>simp_all add: set_hook_def\<close>)

lemma hook_unmounted:
  assumes ok: "git_status_ok {} D s" and k: "obj_get (gs_hooks s) h = Some k"
  shows "git_status_ok {} D (set_hook h (k\<lparr>gh_mounted := False, gh_sequence := gh_sequence k + 1\<rparr>) s)" (is "git_status_ok _ _ ?s")
proof (rule git_status_okI)
  fix n h' q assume "(n, h', q) \<in> set (gs_waiters ?s)"
  then have "(n, h', q) \<in> set (gs_waiters s)" by (simp add: set_hook_def)
  from waiterE[OF git_status_okD(4)[OF ok this]] obtain u k' where
    w: "obj_get (gs_calls s) n = Some u" "obj_get (gs_hooks s) h' = Some k'" "q \<le> gh_sequence k'"
      "q = gh_sequence k' \<Longrightarrow> gh_mounted k' \<Longrightarrow> gh_uri k' = u" by blast
  then show "waiter_ok {} ?s (n, h', q)" using k by (cases "h' = h") (auto simp: waiter_ok_def set_hook_def)
next
  fix h' k' assume "obj_get (gs_hooks ?s) h' = Some k'" "gh_mounted k'"
  then show "hook_shows D ?s h' k'" using git_status_okD(6)[OF ok, of h' k']
    by (auto simp: set_hook_def hook_shows_def split: if_splits)
next
  fix h' k' assume "obj_get (gs_hooks ?s) h' = Some k'"
  then show "h' < gs_nextHook ?s" using git_status_okD(5)[OF ok] k by (auto simp: set_hook_def split: if_splits)
qed (use git_status_okD(1-3)[OF ok] in \<open>simp_all add: set_hook_def\<close>)

text \<open>The continuations of a call.\<close>

definition hooks_told :: "PaneGitStatus \<Rightarrow> (nat \<times> nat \<times> nat) list \<Rightarrow> GitStatusState \<Rightarrow> GitStatusState" where
  "hooks_told st ws s = fold (\<lambda>(_, h, sequence). set_status h sequence st) ws s"

lemma hooks_told_frame:
  "gs_cache (hooks_told st ws s) = gs_cache s" "gs_requests (hooks_told st ws s) = gs_requests s"
  "gs_calls (hooks_told st ws s) = gs_calls s" "gs_next (hooks_told st ws s) = gs_next s"
  "gs_waiters (hooks_told st ws s) = gs_waiters s" "gs_nextHook (hooks_told st ws s) = gs_nextHook s"
  by (induction ws arbitrary: s) (auto simp: hooks_told_def set_status_def set_hook_def split: option.splits)

lemma hooks_told_get:
  "obj_get (gs_hooks (hooks_told st ws s)) h = map_option (\<lambda>k.
     if gh_mounted k \<and> (\<exists>n. (n, h, gh_sequence k) \<in> set ws) then k\<lparr>gh_status := st\<rparr> else k) (obj_get (gs_hooks s) h)"
proof (induction ws arbitrary: s)
  case (Cons w ws)
  obtain n h' q where w: "w = (n, h', q)" by (cases w) auto
  have "hooks_told st (w # ws) s = hooks_told st ws (set_status h' q st s)" by (simp add: hooks_told_def w)
  then have "obj_get (gs_hooks (hooks_told st (w # ws) s)) h = map_option (\<lambda>k.
     if gh_mounted k \<and> (\<exists>n. (n, h, gh_sequence k) \<in> set ws) then k\<lparr>gh_status := st\<rparr> else k)
     (obj_get (gs_hooks (set_status h' q st s)) h)" by (simp only: Cons.IH)
  then show ?case
    by (cases "obj_get (gs_hooks s) h'"; cases "obj_get (gs_hooks s) h"; cases "h' = h")
      (auto simp: w set_status_def set_hook_def)
qed (simp add: hooks_told_def option.map_ident)

lemma ok_answered:
  assumes ok: "git_status_ok {} D s" and n: "obj_get (gs_calls s) n = Some u"
    and cache: "\<And>u' st'. obj_get cache u' = Some st' \<Longrightarrow> D u' st' \<and> \<not> pg_loading st'"
    and st: "\<not> pg_loading st" "st = emptyGitStatus \<or> D u st"
  shows "git_status_ok {} D (hooks_told st (filter (\<lambda>w. fst w = n) (gs_waiters s))
    (s\<lparr>gs_cache := cache, gs_requests := obj_del u (gs_requests s), gs_calls := obj_del n (gs_calls s),
       gs_waiters := filter (\<lambda>w. fst w \<noteq> n) (gs_waiters s)\<rparr>))" (is "git_status_ok _ _ (hooks_told st ?ws ?s)")
proof (rule git_status_okI, unfold hooks_told_frame)
  fix u' m assume "obj_get (gs_requests ?s) u' = Some m"
  then have "u' \<noteq> u" "obj_get (gs_requests s) u' = Some m" by (simp_all split: if_splits)
  from git_status_okD(2)[OF ok this(2)] this(1) n show "obj_get (gs_calls ?s) m = Some u'" by auto
next
  fix m h q assume "(m, h, q) \<in> set (gs_waiters ?s)"
  then have m: "m \<noteq> n" "(m, h, q) \<in> set (gs_waiters s)" by auto
  from waiterE[OF git_status_okD(4)[OF ok m(2)]] obtain u' k where
    w: "obj_get (gs_calls s) m = Some u'" "obj_get (gs_hooks s) h = Some k" "q \<le> gh_sequence k"
      "q = gh_sequence k \<Longrightarrow> gh_mounted k \<Longrightarrow> gh_uri k = u'" by blast
  then show "waiter_ok {} (hooks_told st ?ws ?s) (m, h, q)"
    using m(1) by (auto simp: waiter_ok_def hooks_told_frame hooks_told_get)
next
  fix h k assume a: "obj_get (gs_hooks (hooks_told st ?ws ?s)) h = Some k" "gh_mounted k"
  then obtain k0 where k0: "obj_get (gs_hooks s) h = Some k0"
    "k = (if gh_mounted k0 \<and> (\<exists>m. (m, h, gh_sequence k0) \<in> set ?ws) then k0\<lparr>gh_status := st\<rparr> else k0)"
    by (auto simp: hooks_told_get)
  show "hook_shows D (hooks_told st ?ws ?s) h k"
  proof (cases "gh_mounted k0 \<and> (\<exists>m. (m, h, gh_sequence k0) \<in> set ?ws)")
    case True
    then have "(n, h, gh_sequence k0) \<in> set (gs_waiters s)" by auto
    from waiterE[OF git_status_okD(4)[OF ok this]] k0(1) n True have "gh_uri k0 = u" by force
    with True k0(2) st show ?thesis by (simp add: hook_shows_def)
  next
    case False
    then have k: "k = k0" using k0(2) by auto
    with a have m: "gh_mounted k0" by simp
    have "hook_shows D s h k0" using git_status_okD(6)[OF ok k0(1) m] by simp
    with False m show ?thesis by (auto simp: k hook_shows_def hooks_told_frame split: if_splits)
  qed
next
  fix h k assume "obj_get (gs_hooks (hooks_told st ?ws ?s)) h = Some k"
  then show "h < gs_nextHook ?s" using git_status_okD(5)[OF ok] by (auto simp: hooks_told_get)
next
  fix m u' assume "obj_get (gs_calls ?s) m = Some u'"
  then show "m < gs_next ?s" using git_status_okD(3)[OF ok] by (auto split: if_splits)
qed (use cache in simp_all)

lemma answer_keeps:
  assumes ok: "git_status_ok {} D s" and a: "answer_of D s (StatusAnswer n answer)"
  shows "git_status_ok {} D (status_answered n answer s)"
proof (cases "obj_get (gs_calls s) n")
  case (Some u)
  show ?thesis
  proof (cases answer)
    case (Inl e)
    have "git_status_ok {} D (hooks_told emptyGitStatus (filter (\<lambda>w. fst w = n) (gs_waiters s))
      (s\<lparr>gs_cache := obj_del u (gs_cache s), gs_requests := obj_del u (gs_requests s), gs_calls := obj_del n (gs_calls s),
         gs_waiters := filter (\<lambda>w. fst w \<noteq> n) (gs_waiters s)\<rparr>))"
      by (rule ok_answered[OF ok Some]) (use git_status_okD(1)[OF ok] in \<open>auto simp: emptyGitStatus_def split: if_splits\<close>)
    with Some Inl show ?thesis by (simp add: status_answered_def hooks_told_def)
  next
    case (Inr r)
    have "git_status_ok {} D (hooks_told (answered_status r) (filter (\<lambda>w. fst w = n) (gs_waiters s))
      (s\<lparr>gs_cache := obj_set u (answered_status r) (gs_cache s), gs_requests := obj_del u (gs_requests s),
         gs_calls := obj_del n (gs_calls s), gs_waiters := filter (\<lambda>w. fst w \<noteq> n) (gs_waiters s)\<rparr>))"
      by (rule ok_answered[OF ok Some])
        (use git_status_okD(1)[OF ok] a Some Inr in \<open>auto simp: answered_status_def split: if_splits\<close>)
    with Some Inr show ?thesis by (simp add: status_answered_def hooks_told_def)
  qed
qed (use ok in \<open>simp add: status_answered_def\<close>)

lemma git_status_step_keeps: "git_status_ok {} D s \<Longrightarrow> answer_of D s e \<Longrightarrow> git_status_ok {} D (git_status_step e s)"
proof (cases e)
  case (MountHook uri)
  assume ok: "git_status_ok {} D s"
  show ?thesis unfolding MountHook git_status_step.simps mount_hook_def
    by (rule load_keeps[OF hook_created[OF ok]]) (simp add: set_hook_def)
next
  case (UnmountHook h)
  assume ok: "git_status_ok {} D s"
  then show ?thesis using hook_unmounted[OF ok] by (auto simp: UnmountHook split: option.splits)
next
  case (ShowDirectory h uri)
  assume ok: "git_status_ok {} D s"
  have "git_status_ok {} D (loadStatus h False (set_hook h (k\<lparr>gh_uri := uri\<rparr>) s))" if "obj_get (gs_hooks s) h = Some k" for k
    by (rule load_keeps[OF uri_changed[OF ok that]]) (simp add: set_hook_def)
  with ok show ?thesis by (auto simp: ShowDirectory split: option.splits)
next
  case (WatchHeard h uri)
  assume ok: "git_status_ok {} D s"
  then show ?thesis using load_keeps[OF ok_weaker[OF ok]] by (auto simp: WatchHeard split: option.splits)
next
  case (StatusAnswer n answer)
  assume "git_status_ok {} D s" "answer_of D s e"
  then show ?thesis using answer_keeps by (simp add: StatusAnswer)
qed

lemma git_status_reach_ok: "git_status_reach D s \<Longrightarrow> git_status_ok {} D s"
proof (induction rule: git_status_reach.induct)
  case (start available)
  show ?case by (rule git_status_okI) (simp_all add: initial_git_status_def)
next
  case (step s e)
  then show ?case by (intro git_status_step_keeps)
qed

text \<open>C15: a pane shows the git status of its own directory. Whatever order mounting, navigation, change
  events and answers come in, a mounted pane that is not loading shows no status or one that was
  answered for the directory it shows, and a pane that is loading waits for a call in flight for that directory.\<close>

theorem pane_git_status_is_own:
  assumes "git_status_reach D s" and "obj_get (gs_hooks s) h = Some k" and "gh_mounted k"
  shows "if pg_loading (gh_status k)
    then \<exists>n. (n, h, gh_sequence k) \<in> set (gs_waiters s) \<and> obj_get (gs_calls s) n = Some (gh_uri k)
    else gh_status k = emptyGitStatus \<or> D (gh_uri k) (gh_status k)"
proof -
  note ok = git_status_reach_ok[OF assms(1)]
  have "hook_shows D s h k" using git_status_okD(6)[OF ok assms(2,3)] by simp
  moreover have "obj_get (gs_calls s) n = Some (gh_uri k)" if "(n, h, gh_sequence k) \<in> set (gs_waiters s)" for n
    using git_status_okD(4)[OF ok that] assms(2,3) by (auto simp: waiter_ok_def)
  ultimately show ?thesis unfolding hook_shows_def by (auto split: if_splits)
qed

lemma load_forced:
  assumes "obj_get (gs_hooks s) h = Some k" "is_local (gh_uri k)" "gs_available s"
  shows "loadStatus h True s = s\<lparr>gs_hooks := obj_set h (k\<lparr>gh_sequence := gh_sequence k + 1,
      gh_status := (gh_status k)\<lparr>pg_loading := True\<rparr>\<rparr>) (gs_hooks s),
    gs_calls := obj_set (gs_next s) (gh_uri k) (gs_calls s), gs_next := Suc (gs_next s),
    gs_requests := obj_set (gh_uri k) (gs_next s) (gs_requests s),
    gs_waiters := gs_waiters s @ [(gs_next s, h, gh_sequence k + 1)]\<rparr>"
  using assms by (simp add: loadStatus_def loadDirectoryGitStatus_def set_hook_def)

lemma answered_told:
  "obj_get (gs_calls s) n = Some u \<Longrightarrow> status_answered n (Inr r) s =
     hooks_told (answered_status r) (filter (\<lambda>w. fst w = n) (gs_waiters s))
       (s\<lparr>gs_cache := obj_set u (answered_status r) (gs_cache s), gs_requests := obj_del u (gs_requests s),
          gs_calls := obj_del n (gs_calls s), gs_waiters := filter (\<lambda>w. fst w \<noteq> n) (gs_waiters s)\<rparr>)"
  by (simp add: status_answered_def hooks_told_def)

lemma mount_cached:
  assumes "is_local u" "gs_available s" "obj_get (gs_cache s) u = Some st"
  shows "gh_status (the (obj_get (gs_hooks (mount_hook u s)) (gs_nextHook s))) = st"
    "obj_get (gs_hooks (mount_hook u s)) (gs_nextHook s) \<noteq> None" "gs_calls (mount_hook u s) = gs_calls s"
  using assms by (simp_all add: mount_hook_def loadStatus_def set_hook_def)

lemma hooks_told_available: "gs_available (hooks_told st ws s) = gs_available s"
proof (induction ws arbitrary: s)
  case (Cons w ws)
  have "gs_available (set_status h q st s) = gs_available s" for h q
    by (simp add: set_status_def set_hook_def split: option.splits)
  with Cons.IH show ?case by (simp add: hooks_told_def split_beta)
qed (simp add: hooks_told_def)

text \<open>An older answer replaces a newer one. While a call for the directory of a pane is in flight, a
  change event makes a second call; if the second answer comes first, the pane shows it, but the first answer
  then replaces it in the cache, and every pane that shows the directory afterwards gets the old status without a call.\<close>

theorem older_git_status_stays:
  assumes "git_status_reach D s" "gs_available s"
    and "obj_get (gs_hooks s) h = Some k" "gh_mounted k" "is_local (gh_uri k)"
    and "(n, h, gh_sequence k) \<in> set (gs_waiters s)"
    and "s' = fold git_status_step [WatchHeard h (gh_uri k), StatusAnswer (gs_next s) (Inr new), StatusAnswer n (Inr old)] s"
  shows "map_option gh_status (obj_get (gs_hooks s') h) = Some (answered_status new) \<and>
    map_option gh_status (obj_get (gs_hooks (git_status_step (MountHook (gh_uri k)) s')) (gs_nextHook s')) = Some (answered_status old) \<and>
    gs_calls (git_status_step (MountHook (gh_uri k)) s') = gs_calls s'"
proof -
  note ok = git_status_reach_ok[OF assms(1)]
  let ?u = "gh_uri k" and ?m = "gs_next s" and ?q = "gh_sequence k"
  have n: "obj_get (gs_calls s) n = Some ?u"
    using git_status_okD(4)[OF ok assms(6)] assms(3,4) by (auto simp: waiter_ok_def)
  then have nm: "n \<noteq> ?m" using git_status_okD(3)[OF ok] by blast
  have old_q: "q \<le> ?q" if "(i, h, q) \<in> set (gs_waiters s)" for i q
    using git_status_okD(4)[OF ok that] assms(3) by (auto simp: waiter_ok_def)
  define s1 where "s1 = git_status_step (WatchHeard h ?u) s"
  define s2 where "s2 = git_status_step (StatusAnswer ?m (Inr new)) s1"
  have s1: "s1 = loadStatus h True s" using assms(3-5) by (simp add: s1_def)
  note s1 = s1[unfolded load_forced[OF assms(3,5,2)]]
  have c1: "obj_get (gs_calls s1) ?m = Some ?u" "obj_get (gs_calls s1) n = Some ?u" using n nm by (simp_all add: s1)
  have s2: "s2 = hooks_told (answered_status new) (filter (\<lambda>w. fst w = ?m) (gs_waiters s1))
    (s1\<lparr>gs_cache := obj_set ?u (answered_status new) (gs_cache s1), gs_requests := obj_del ?u (gs_requests s1),
       gs_calls := obj_del ?m (gs_calls s1), gs_waiters := filter (\<lambda>w. fst w \<noteq> ?m) (gs_waiters s1)\<rparr>)"
    using answered_told[OF c1(1)] by (simp add: s2_def)
  have h1: "obj_get (gs_hooks s1) h = Some (k\<lparr>gh_sequence := ?q + 1, gh_status := (gh_status k)\<lparr>pg_loading := True\<rparr>\<rparr>)"
    "(?m, h, ?q + 1) \<in> set (gs_waiters s1)" by (simp_all add: s1)
  have h2: "obj_get (gs_hooks s2) h = Some (k\<lparr>gh_sequence := ?q + 1, gh_status := answered_status new\<rparr>)"
    using assms(4) h1 by (auto simp: s2 hooks_told_get)
  have c2: "obj_get (gs_calls s2) n = Some ?u" using c1(2) nm by (simp add: s2 hooks_told_frame)
  have w2: "(i, h, ?q + 1) \<notin> set (filter (\<lambda>w. fst w = n) (gs_waiters s2))" for i
    using old_q nm by (force simp: s2 hooks_told_frame s1)
  have "s' = status_answered n (Inr old) s2" by (simp add: assms(7) s2_def s1_def)
  note s' = this[unfolded answered_told[OF c2]]
  have "obj_get (gs_hooks s') h = Some (k\<lparr>gh_sequence := ?q + 1, gh_status := answered_status new\<rparr>)"
    using h2 w2[of n] by (simp add: s' hooks_told_get)
  moreover have "obj_get (gs_cache s') ?u = Some (answered_status old)" by (simp add: s' hooks_told_frame)
  moreover have "gs_available s'" using assms(2) by (simp add: s' s2 s1 hooks_told_available)
  ultimately show ?thesis using mount_cached[OF assms(5), of s'] by auto
qed

definition demo_git_answer :: "string \<Rightarrow> GitRepoInfoDto option \<times> (string, GitFileStatus) obj" where
  "demo_git_answer f = (None, [(f, GitModified)])"

definition demo_git_pane :: GitStatusState where
  "demo_git_pane = git_status_step (MountHook ''local:///a'') (initial_git_status True)"

lemma demo_git_pane_reach: "git_status_reach D demo_git_pane"
  unfolding demo_git_pane_def by (rule git_status_reach.step[OF git_status_reach.start]) simp

lemma demo_git_hook:
  obtains k where "obj_get (gs_hooks demo_git_pane) 0 = Some k" "gh_mounted k" "pg_loading (gh_status k)"
    "gh_uri k = ''local:///a''" "gh_sequence k = 1"
proof -
  have "obj_get (gs_hooks demo_git_pane) 0 = Some \<lparr>gh_uri = ''local:///a'',
      gh_status = \<lparr>pg_repo = None, pg_entries = [], pg_loading = True\<rparr>, gh_sequence = 1, gh_mounted = True\<rparr>"
    by (simp add: demo_git_pane_def initial_git_status_def mount_hook_def loadStatus_def set_hook_def is_local_def
        js_startsWith_def loadDirectoryGitStatus_def emptyGitStatus_def)
  with that show thesis by simp
qed

theorem pane_git_status_is_own_witness:
  "\<exists>k. obj_get (gs_hooks demo_git_pane) 0 = Some k \<and> (\<exists>n. obj_get (gs_calls demo_git_pane) n = Some (gh_uri k))"
proof -
  obtain k where k: "obj_get (gs_hooks demo_git_pane) 0 = Some k" "gh_mounted k" "pg_loading (gh_status k)"
    by (rule demo_git_hook)
  from pane_git_status_is_own[OF demo_git_pane_reach[of "\<lambda>_ _. True"] k(1,2)] k(1,3) show ?thesis by auto
qed

theorem older_git_status_stays_witness:
  "\<exists>s'. map_option gh_status (obj_get (gs_hooks s') 0) = Some (answered_status (demo_git_answer ''new'')) \<and>
     (\<exists>h. map_option gh_status (obj_get (gs_hooks (git_status_step (MountHook ''local:///a'') s')) h)
        = Some (answered_status (demo_git_answer ''old'')))"
proof -
  obtain k where k: "obj_get (gs_hooks demo_git_pane) 0 = Some k" "gh_mounted k" "gh_uri k = ''local:///a''" "gh_sequence k = 1"
    by (rule demo_git_hook)
  have w: "(0, 0, 1) \<in> set (gs_waiters demo_git_pane)" "gs_available demo_git_pane" "is_local ''local:///a''" by code_simp+
  from older_git_status_stays[OF demo_git_pane_reach[of "\<lambda>_ _. True"] w(2) k(1,2) w(3)[folded k(3)] w(1)[folded k(4)] refl,
      of "demo_git_answer ''new''" "demo_git_answer ''old''"]
  show ?thesis unfolding k(3) by blast
qed

end
