(* ===== verification/Startup.thy ===== *)
theory Startup
  imports Preferences StoredSettings DriveTargets PanelActions Samples PaneSort
begin

text \<open>
  Starting up (\<open>hooks/useStartupInitialization.ts\<close> and the functions it awaits): the application
  information, where the panes start (\<open>startupNavigation.ts\<close>), the preferences with the migrations
  of older settings (\<open>startupPreferences.ts\<close>, \<open>state/chromeStore.ts\<close>, \<open>viewModeMigration.ts\<close>), and
  the two navigations. The answers of the client are arguments; what is called or set is an effect, in order.
\<close>

section \<open>The client\<close>

record AppInfoResponse =
  ai_name :: string
  ai_version :: string
  ai_buildProfile :: string
  ai_commitSha :: "string option"
  ai_targetOs :: string
  ai_dataDir :: string
  ai_networkEnabled :: bool

text \<open>The answer to a \<open>preferences.set\<close> may depend on how many were made before.\<close>

type_synonym SetPreference = "nat \<Rightarrow> string \<Rightarrow> string \<Rightarrow> thrown + Preferences"

record StartupClient =
  sc_appInfo :: "thrown + AppInfoResponse"
  sc_locations :: "thrown + StandardLocationDto list"
  sc_stat :: "string \<Rightarrow> thrown + FileKind"
  sc_preferences :: "thrown + Preferences"
  sc_set :: SetPreference

definition resolveStartupAppInfo :: "StartupClient \<Rightarrow> (AppInfoResponse \<times> bool) option" where
  "resolveStartupAppInfo client =
     (case sc_appInfo client of Inr a \<Rightarrow> Some (a, ai_networkEnabled a) | Inl _ \<Rightarrow> None)"

section \<open>Where the panes start\<close>

definition resolveStartupUri :: "StartupClient \<Rightarrow> string \<Rightarrow> string \<Rightarrow> string" where
  "resolveStartupUri client uri fallbackUri =
     (if \<not> js_startsWith uri ''local://'' \<or> isNetworkUri uri then uri
      else case sc_stat client uri of
        Inr kind \<Rightarrow> if kind = KFile then fallbackUri else uri
      | Inl e \<Rightarrow>
          (let c = err_code (normalizeIpcError e)
           in if c = ''not_found'' \<or> c = ''folder_not_found'' \<or> c = ''invalid_uri'' then fallbackUri else uri))"

record StartupNavigation =
  sn_locations :: "StandardLocationDto list"
  sn_leftUri :: string
  sn_rightUri :: string

definition location_uri :: "string \<Rightarrow> StandardLocationDto list \<Rightarrow> string option" where
  "location_uri i locations = map_option sl_uri (find (\<lambda>l. sl_id l = i) locations)"

definition startup_place :: "StartupClient \<Rightarrow> string \<Rightarrow> string \<Rightarrow> string option \<Rightarrow> string" where
  "startup_place client uri dflt location =
     resolveStartupUri client
       (case location of Some l \<Rightarrow> if uri = dflt then l else uri | None \<Rightarrow> uri)
       (case location of Some l \<Rightarrow> l | None \<Rightarrow> dflt)"

definition resolveStartupNavigation ::
    "Platform \<Rightarrow> World \<Rightarrow> StartupClient \<Rightarrow> string \<Rightarrow> string \<Rightarrow> StartupNavigation option" where
  "resolveStartupNavigation pf w client leftUri rightUri =
     (case sc_locations client of
        Inl _ \<Rightarrow> None
      | Inr locations \<Rightarrow> do {
          home \<leftarrow> homeUri pf w;
          documents \<leftarrow> documentsUri pf w;
          Some \<lparr>sn_locations = locations,
            sn_leftUri = startup_place client leftUri home (location_uri ''home'' locations),
            sn_rightUri = startup_place client rightUri documents (location_uri ''documents'' locations)\<rparr> })"

section \<open>Settings of older versions\<close>

definition STATUS_BAR_KEY :: string where "STATUS_BAR_KEY = ''fileoctopus.statusBarVisible''"

definition TOOLBAR_KEY :: string where "TOOLBAR_KEY = ''fileoctopus.toolbarVisible''"

definition readLegacyChromePreference :: "string \<Rightarrow> World \<Rightarrow> bool option" where
  "readLegacyChromePreference key w = map_option (\<lambda>v. v = ''true'') (readStorage w key)"

definition clearLegacyChromePreferences :: "World \<Rightarrow> World" where
  "clearLegacyChromePreferences w = remove_item TOOLBAR_KEY (remove_item STATUS_BAR_KEY w)"

text \<open>The second argument counts the calls made before.\<close>

definition set_legacy :: "SetPreference \<Rightarrow> nat \<Rightarrow> string \<Rightarrow> bool option \<Rightarrow> Preferences \<Rightarrow> nat \<times> (thrown + Preferences)" where
  "set_legacy client n key legacy p =
     (case legacy of
        Some b \<Rightarrow> if b \<noteq> (obj_get p key \<noteq> Some (PBool False)) then (Suc n, client n key (bool_str b)) else (n, Inr p)
      | None \<Rightarrow> (n, Inr p))"

definition migrateLegacyChromePreferences ::
    "SetPreference \<Rightarrow> Preferences \<Rightarrow> World \<Rightarrow> nat \<times> (thrown + Preferences) \<times> World" where
  "migrateLegacyChromePreferences client p w =
     (let status = readLegacyChromePreference STATUS_BAR_KEY w;
          toolbar = readLegacyChromePreference TOOLBAR_KEY w
      in if status = None \<and> toolbar = None then (0, Inr p, w)
         else case set_legacy client 0 ''statusBarVisible'' status p of
           (n, Inl e) \<Rightarrow> (n, Inl e, w)
         | (n, Inr p1) \<Rightarrow>
             (case set_legacy client n ''toolbarVisible'' toolbar p1 of
                (m, Inl e) \<Rightarrow> (m, Inl e, w)
              | (m, Inr p2) \<Rightarrow> (m, Inr p2, clearLegacyChromePreferences w)))"

definition MIGRATION_KEY :: string where "MIGRATION_KEY = ''fileoctopus.defaultViewModeDetailsMigrated''"

definition isDefaultViewModeDetailsMigrationDone :: "World \<Rightarrow> bool" where
  "isDefaultViewModeDetailsMigrationDone w \<longleftrightarrow> readStorage w MIGRATION_KEY = Some ''true''"

definition markDefaultViewModeDetailsMigrationDone :: "World \<Rightarrow> World" where
  "markDefaultViewModeDetailsMigrationDone w = persistValue MIGRATION_KEY ''true'' w"

definition migrateStartupPreferences :: "SetPreference \<Rightarrow> Preferences \<Rightarrow> World \<Rightarrow> Preferences \<times> World" where
  "migrateStartupPreferences client p w =
     (let (n, r, w1) = migrateLegacyChromePreferences client p w;
          p1 = (case r of Inr q \<Rightarrow> q | Inl _ \<Rightarrow> p)
      in if obj_get p1 ''defaultViewMode'' \<noteq> Some (PStr ''details'') \<and> \<not> isDefaultViewModeDetailsMigrationDone w1
         then case client n ''defaultViewMode'' ''details'' of
           Inr q \<Rightarrow> (q, markDefaultViewModeDetailsMigrationDone w1)
         | Inl _ \<Rightarrow> (obj_set ''defaultViewMode'' (PStr ''details'') p1, w1)
         else (p1, w1))"

section \<open>The start\<close>

datatype StartupEffect =
  SetAppInfo AppInfoResponse
| RefreshNetworkProfiles
| RefreshNetworkQuickEntries
| SetLocations "StandardLocationDto list"
| RefreshLocations
| RefreshNavigation
| SetPreferences Preferences
| ApplyAllPreferences Preferences
| ApplyLayoutPreferences Preferences
| SetDensity string
| SetActivityCollapsed bool
| DispatchHydrate bool ViewMode
| NavigatePanel PanelId string bool
| RefreshHistory
| RefreshDiagnostics

definition startup_info :: "StartupClient \<Rightarrow> StartupEffect list" where
  "startup_info client =
     (case resolveStartupAppInfo client of
        Some (info, network) \<Rightarrow> SetAppInfo info # (if network then [RefreshNetworkProfiles, RefreshNetworkQuickEntries] else [])
      | None \<Rightarrow> [])"

text \<open>Where to navigate, and the effects up to then.\<close>

definition startup_places :: "Platform \<Rightarrow> World \<Rightarrow> StartupClient \<Rightarrow> string \<Rightarrow> string \<Rightarrow> string \<times> string \<times> StartupEffect list" where
  "startup_places pf w client l r =
     (case resolveStartupNavigation pf w client l r of
        Some sn \<Rightarrow> (sn_leftUri sn, sn_rightUri sn, [SetLocations (sn_locations sn), RefreshNavigation])
      | None \<Rightarrow> (l, r, [RefreshLocations, RefreshNavigation]))"

definition startup_preferences :: "StartupClient \<Rightarrow> World \<Rightarrow> bool \<times> StartupEffect list \<times> World" where
  "startup_preferences client w =
     (case sc_preferences client of
        Inl _ \<Rightarrow> (False, [], w)
      | Inr p0 \<Rightarrow>
          (let (p, w1) = migrateStartupPreferences (sc_set client) p0 w;
               showHidden = truthy (obj_get p ''showHiddenFiles'')
           in (showHidden,
               [SetPreferences p, ApplyAllPreferences p, ApplyLayoutPreferences p, SetDensity (density_of (pref_str p ''density'')),
                SetActivityCollapsed (\<not> truthy (obj_get p ''activityPanelVisible'')),
                DispatchHydrate showHidden (viewModeFromPreference (pref_str p ''defaultViewMode''))], w1)))"

text \<open>A rejected navigation is ignored; \<open>None\<close> is a panel without its active tab.\<close>

definition useStartupInitialization ::
    "Platform \<Rightarrow> StartupClient \<Rightarrow> PanelState \<Rightarrow> PanelState \<Rightarrow> World \<Rightarrow> (StartupEffect list \<times> World) option" where
  "useStartupInitialization pf client left right w = do {
     lt \<leftarrow> activeTab left;
     rt \<leftarrow> activeTab right;
     let (l, r, places) = startup_places pf w client (tab_uri lt) (tab_uri rt);
     let (showHidden, prefs, w1) = startup_preferences client w;
     Some (startup_info client @ places @ prefs
       @ [NavigatePanel Left l showHidden, NavigatePanel Right r showHidden, RefreshLocations, RefreshHistory, RefreshDiagnostics], w1) }"

section \<open>Facts\<close>

text \<open>What the back end knows not to be a directory.\<close>

definition known_missing :: "StartupClient \<Rightarrow> string \<Rightarrow> bool" where
  "known_missing client uri \<longleftrightarrow> js_startsWith uri ''local://'' \<and> \<not> isNetworkUri uri \<and>
     (case sc_stat client uri of
        Inr kind \<Rightarrow> kind = KFile
      | Inl e \<Rightarrow> err_code (normalizeIpcError e) \<in> {''not_found'', ''folder_not_found'', ''invalid_uri''})"

lemma resolved_uri: "resolveStartupUri client uri fallback = (if known_missing client uri then fallback else uri)"
  by (auto simp: resolveStartupUri_def known_missing_def Let_def split: sum.splits)

definition no_navigation :: "StartupEffect list \<Rightarrow> bool" where
  "no_navigation es \<longleftrightarrow> list_all (\<lambda>e. case e of NavigatePanel _ _ _ \<Rightarrow> False | _ \<Rightarrow> True) es"

lemma no_navigation_before:
  "no_navigation (startup_info client)" "startup_places pf w client l r = (l', r', es) \<Longrightarrow> no_navigation es"
  "startup_preferences client w = (h, es, w') \<Longrightarrow> no_navigation es"
  by (auto simp: no_navigation_def startup_info_def startup_places_def startup_preferences_def Let_def split_beta
      split: option.splits sum.splits)

lemma startup_place_kept:
  "known_missing client (startup_place client uri dflt location) \<Longrightarrow>
     startup_place client uri dflt location = (case location of Some l \<Rightarrow> l | None \<Rightarrow> dflt)"
  "startup_place client uri dflt location \<in> {uri, dflt} \<union> set_option location"
  by (auto simp: startup_place_def resolved_uri split: option.splits if_splits)

text \<open>C24: starting up always ends in both panes being navigated. Whatever the client answers or refuses,
  exactly one navigation of each pane is made, the left one first and with the same choice of hidden files, before
  the places, the history and the diagnostics are refreshed; if the standard locations are answered, no pane goes to a
  place that the back end knows not to be a directory, except to the home or documents folder; if they are refused, the
  panes stay at the places of their tabs, unchecked.\<close>

theorem startup_navigates_both:
  assumes "activeTab left = Some lt" "activeTab right = Some rt"
  shows "\<exists>es l r h w'. useStartupInitialization pf client left right w =
      Some (es @ [NavigatePanel Left l h, NavigatePanel Right r h, RefreshLocations, RefreshHistory, RefreshDiagnostics], w') \<and>
    no_navigation es \<and>
    (\<forall>locations home documents. sc_locations client = Inr locations \<and> homeUri pf w = Some home \<and> documentsUri pf w = Some documents \<longrightarrow>
      (known_missing client l \<longrightarrow> l = (case location_uri ''home'' locations of Some x \<Rightarrow> x | None \<Rightarrow> home)) \<and>
      (known_missing client r \<longrightarrow> r = (case location_uri ''documents'' locations of Some x \<Rightarrow> x | None \<Rightarrow> documents))) \<and>
    (\<forall>e. sc_locations client = Inl e \<longrightarrow> l = tab_uri lt \<and> r = tab_uri rt)"
proof -
  obtain l r places where p: "startup_places pf w client (tab_uri lt) (tab_uri rt) = (l, r, places)" by (metis prod_cases3)
  obtain h prefs w1 where h: "startup_preferences client w = (h, prefs, w1)" by (metis prod_cases3)
  let ?es = "startup_info client @ places @ prefs"
  have "useStartupInitialization pf client left right w =
      Some (?es @ [NavigatePanel Left l h, NavigatePanel Right r h, RefreshLocations, RefreshHistory, RefreshDiagnostics], w1)"
    using assms p h by (simp add: useStartupInitialization_def)
  moreover have "no_navigation ?es"
    using no_navigation_before(1)[of client] no_navigation_before(2)[OF p] no_navigation_before(3)[OF h] by (simp add: no_navigation_def)
  moreover have lr: "l = startup_place client (tab_uri lt) home (location_uri ''home'' locations)"
    "r = startup_place client (tab_uri rt) documents (location_uri ''documents'' locations)"
    if "sc_locations client = Inr locations" "homeUri pf w = Some home" "documentsUri pf w = Some documents" for locations home documents
    using p that by (simp_all add: startup_places_def resolveStartupNavigation_def)
  moreover have "l = tab_uri lt \<and> r = tab_uri rt" if "sc_locations client = Inl e" for e
    using p that by (simp add: startup_places_def resolveStartupNavigation_def)
  moreover have "(known_missing client l \<longrightarrow> l = (case location_uri ''home'' locations of Some x \<Rightarrow> x | None \<Rightarrow> home)) \<and>
      (known_missing client r \<longrightarrow> r = (case location_uri ''documents'' locations of Some x \<Rightarrow> x | None \<Rightarrow> documents))"
    if a: "sc_locations client = Inr locations" "homeUri pf w = Some home" "documentsUri pf w = Some documents"
    for locations home documents
    unfolding lr[OF a] using startup_place_kept(1) by blast
  ultimately show ?thesis by (intro exI[of _ ?es] exI[of _ l] exI[of _ r] exI[of _ h] exI[of _ w1]) simp
qed

section \<open>The migration of the view mode\<close>

lemma no_legacy:
  "readLegacyChromePreference STATUS_BAR_KEY w = None \<Longrightarrow> readLegacyChromePreference TOOLBAR_KEY w = None \<Longrightarrow>
     migrateLegacyChromePreferences client p w = (0, Inr p, w)"
  by (simp add: migrateLegacyChromePreferences_def)

lemma legacy_cleared:
  assumes "storage_works w" "migrateLegacyChromePreferences client p w = (n, Inr p', w')"
  shows "readLegacyChromePreference STATUS_BAR_KEY w' = None" "readLegacyChromePreference TOOLBAR_KEY w' = None"
proof -
  have "readLegacyChromePreference STATUS_BAR_KEY (clearLegacyChromePreferences w) = None"
    "readLegacyChromePreference TOOLBAR_KEY (clearLegacyChromePreferences w) = None"
    using assms(1) by (simp_all add: clearLegacyChromePreferences_def remove_item_def readLegacyChromePreference_def
        readStorage_def storage_works_def STATUS_BAR_KEY_def TOOLBAR_KEY_def)
  moreover have "w' = clearLegacyChromePreferences w \<or>
      readLegacyChromePreference STATUS_BAR_KEY w = None \<and> readLegacyChromePreference TOOLBAR_KEY w = None \<and> w' = w"
    using assms(2) by (auto simp: migrateLegacyChromePreferences_def Let_def split: if_splits prod.splits sum.splits)
  ultimately show "readLegacyChromePreference STATUS_BAR_KEY w' = None" "readLegacyChromePreference TOOLBAR_KEY w' = None"
    by auto
qed

text \<open>The back end that keeps preferences as the preview one does.\<close>

definition keeping :: "(string \<Rightarrow> js_number) \<Rightarrow> Preferences \<Rightarrow> SetPreference" where
  "keeping numOf p = (\<lambda>_ k s. Inr (preview_set numOf k s p))"

lemma view_mode_kept: "obj_get (preview_set numOf ''defaultViewMode'' m p) ''defaultViewMode'' = Some (PStr m)"
  by (simp add: preview_set_def preferenceValue_def BOOLEAN_KEYS_def NUMBER_KEYS_def)

lemma mark_persists:
  assumes "storage_works w"
  shows "isDefaultViewModeDetailsMigrationDone (markDefaultViewModeDetailsMigrationDone w)"
    "k \<noteq> MIGRATION_KEY \<Longrightarrow> readLegacyChromePreference k (markDefaultViewModeDetailsMigrationDone w) = readLegacyChromePreference k w"
  using assms by (simp_all add: isDefaultViewModeDetailsMigrationDone_def markDefaultViewModeDetailsMigrationDone_def
      readLegacyChromePreference_def storage_works_def)

lemma migrated_stays:
  assumes "readLegacyChromePreference STATUS_BAR_KEY w = None" "readLegacyChromePreference TOOLBAR_KEY w = None"
    and "isDefaultViewModeDetailsMigrationDone w \<or> obj_get p ''defaultViewMode'' = Some (PStr ''details'')"
  shows "migrateStartupPreferences client p w = (p, w)"
  using assms(3) by (auto simp: migrateStartupPreferences_def no_legacy[OF assms(1,2)])

text \<open>The first view mode the user chooses is lost. On an installation that starts with the view mode
  \<open>details\<close> the migration does not note that it is done; when the user then chooses another default view mode, the next
  start sets it back to \<open>details\<close>. Only what is chosen after that start survives.\<close>

theorem first_view_mode_choice_lost:
  assumes "storage_works w" "\<not> isDefaultViewModeDetailsMigrationDone w"
    and "readLegacyChromePreference STATUS_BAR_KEY w = None" "readLegacyChromePreference TOOLBAR_KEY w = None"
    and "obj_get p ''defaultViewMode'' = Some (PStr ''details'')" and "mode \<noteq> ''details''"
  shows "migrateStartupPreferences (keeping numOf p) p w = (p, w) \<and>
    (\<exists>q w'. migrateStartupPreferences (keeping numOf (preview_set numOf ''defaultViewMode'' mode p))
        (preview_set numOf ''defaultViewMode'' mode p) w = (q, w') \<and>
      obj_get q ''defaultViewMode'' = Some (PStr ''details'') \<and>
      (\<forall>p'. migrateStartupPreferences (keeping numOf p') p' w' = (p', w')))"
proof
  show "migrateStartupPreferences (keeping numOf p) p w = (p, w)" by (rule migrated_stays[OF assms(3,4)]) (simp add: assms(5))
  let ?p = "preview_set numOf ''defaultViewMode'' mode p" and ?w = "markDefaultViewModeDetailsMigrationDone w"
  have "migrateStartupPreferences (keeping numOf ?p) ?p w = (preview_set numOf ''defaultViewMode'' ''details'' ?p, ?w)"
    using assms(2,6) unfolding migrateStartupPreferences_def no_legacy[OF assms(3,4)] Let_def prod.case sum.case view_mode_kept
    by (simp add: keeping_def)
  moreover have "readLegacyChromePreference STATUS_BAR_KEY ?w = None" "readLegacyChromePreference TOOLBAR_KEY ?w = None"
    using mark_persists(2)[OF assms(1)] assms(3,4) by (simp_all add: STATUS_BAR_KEY_def TOOLBAR_KEY_def MIGRATION_KEY_def)
  then have "migrateStartupPreferences (keeping numOf p') p' ?w = (p', ?w)" for p'
    by (rule migrated_stays) (simp add: mark_persists(1)[OF assms(1)])
  ultimately show "\<exists>q w'. migrateStartupPreferences (keeping numOf ?p) ?p w = (q, w') \<and>
      obj_get q ''defaultViewMode'' = Some (PStr ''details'') \<and>
      (\<forall>p'. migrateStartupPreferences (keeping numOf p') p' w' = (p', w'))"
    using view_mode_kept by blast
qed

theorem first_view_mode_choice_lost_witness:
  "\<exists>q w'. migrateStartupPreferences (keeping (\<lambda>_. NaN) (preview_set (\<lambda>_. NaN) ''defaultViewMode'' ''list'' (preview_preferences [])))
     (preview_set (\<lambda>_. NaN) ''defaultViewMode'' ''list'' (preview_preferences [])) sample_world = (q, w') \<and>
     obj_get q ''defaultViewMode'' = Some (PStr ''details'')"
proof -
  have w: "storage_works sample_world" "\<not> isDefaultViewModeDetailsMigrationDone sample_world"
    "readLegacyChromePreference STATUS_BAR_KEY sample_world = None" "readLegacyChromePreference TOOLBAR_KEY sample_world = None"
    by (simp_all add: sample_world_def storage_works_def isDefaultViewModeDetailsMigrationDone_def readStorage_def
        readLegacyChromePreference_def)
  have p: "obj_get (preview_preferences []) ''defaultViewMode'' = Some (PStr ''details'')" by (simp add: preview_preferences_def)
  have "(''list'' :: string) \<noteq> ''details''" by simp
  from first_view_mode_choice_lost[OF w p this, of "\<lambda>_. NaN"] show ?thesis by blast
qed

definition refusing_client :: StartupClient where
  "refusing_client = \<lparr>sc_appInfo = Inl ThrownOther, sc_locations = Inl ThrownOther, sc_stat = (\<lambda>_. Inl ThrownOther),
     sc_preferences = Inl ThrownOther, sc_set = (\<lambda>_ _ _. Inl ThrownOther)\<rparr>"

theorem startup_navigates_both_witness:
  "\<exists>es h w'. useStartupInitialization ordinal_platform refusing_client (sample_panel Left sample_tab) (sample_panel Right sample_tab) sample_world =
     Some (es @ [NavigatePanel Left ''local:///d'' h, NavigatePanel Right ''local:///d'' h, RefreshLocations, RefreshHistory,
       RefreshDiagnostics], w')"
proof -
  have a: "activeTab (sample_panel Left sample_tab) = Some sample_tab" "activeTab (sample_panel Right sample_tab) = Some sample_tab"
    by (simp_all add: activeTab_def sample_panel_def)
  have u: "tab_uri sample_tab = ''local:///d''" by (simp add: sample_defs)
  have c: "sc_locations refusing_client = Inl ThrownOther" by (simp add: refusing_client_def)
  from startup_navigates_both[OF a, of ordinal_platform refusing_client sample_world] show ?thesis
    unfolding u c by (auto 0 0)
qed

end
