(* ===== verification/Watchers.thy ===== *)
theory Watchers
  imports Samples PanelActions
begin

text \<open>
  Following changes of the file system (\<open>hooks/useFileSystemWatchers.ts\<close>): the effect that asks the
  back end to watch the directory of the active tab, and the handlers of batches and change events. The
  effect runs after a render in which a dependency has changed, after the cleanup of its last run.
  Subscribing to the events is left out, as is the case that it fails.
\<close>

section \<open>Watching the active directory\<close>

datatype WatchCommand = StartWatching string | StopWatching

text \<open>The active panel, and of both panels the id, the kind and the address of the active tab.\<close>

type_synonym WatchDeps = "PanelId \<times> (string \<times> TabKind \<times> string) \<times> (string \<times> TabKind \<times> string)"

definition tab_deps :: "PanelState \<Rightarrow> (string \<times> TabKind \<times> string) option" where
  "tab_deps panel = map_option (\<lambda>t. (panel_activeTabId panel, tab_tabKind t, tab_uri t)) (activeTab panel)"

definition watch_deps :: "FileOctopusState \<Rightarrow> WatchDeps option" where
  "watch_deps s = do { l \<leftarrow> tab_deps (panels s Left); r \<leftarrow> tab_deps (panels s Right); Some (activePanelId s, l, r) }"

definition is_watchable :: "TabKind \<Rightarrow> string \<Rightarrow> bool" where
  "is_watchable kind uri \<longleftrightarrow> kind = TDirectory \<and> js_startsWith uri ''local://''"

text \<open>The body of the effect: what it asks for, and whether it returned a cleanup.\<close>

definition watch_effect :: "FileOctopusState \<Rightarrow> (WatchCommand list \<times> bool) option" where
  "watch_effect s =
     map_option (\<lambda>t. if is_watchable (tab_tabKind t) (tab_uri t) then ([StartWatching (tab_uri t)], True) else ([], False))
       (activeTab (panels s (activePanelId s)))"

record WatchHook =
  wh_last :: "(WatchDeps \<times> bool) option"
  wh_commands :: "WatchCommand list"

definition initial_watch :: WatchHook where
  "initial_watch = \<lparr>wh_last = None, wh_commands = []\<rparr>"

definition watch_render :: "FileOctopusState \<Rightarrow> WatchHook \<Rightarrow> WatchHook option" where
  "watch_render s h = do {
     deps \<leftarrow> watch_deps s;
     if map_option fst (wh_last h) = Some deps then Some h
     else do {
       (commands, live) \<leftarrow> watch_effect s;
       Some \<lparr>wh_last = Some (deps, live),
         wh_commands = wh_commands h @ (case wh_last h of Some (_, True) \<Rightarrow> [StopWatching] | _ \<Rightarrow> []) @ commands\<rparr> } }"

definition watch_unmount :: "WatchHook \<Rightarrow> WatchHook" where
  "watch_unmount h =
     \<lparr>wh_last = None, wh_commands = wh_commands h @ (case wh_last h of Some (_, True) \<Rightarrow> [StopWatching] | _ \<Rightarrow> [])\<rparr>"

primrec watch_renders :: "FileOctopusState list \<Rightarrow> WatchHook \<Rightarrow> WatchHook option" where
  "watch_renders [] h = Some h"
| "watch_renders (s # ss) h = do { h' \<leftarrow> watch_render s h; watch_renders ss h' }"

section \<open>Events\<close>

datatype WatchEffect =
  DispatchBatch DirectoryBatchEventDto
| RefreshPanel PanelId

definition on_directory_batch :: "DirectoryBatchEventDto \<Rightarrow> WatchEffect list" where
  "on_directory_batch event = [DispatchBatch event]"

text \<open>The handler of change events that the last render has left.\<close>

definition on_watch_changed :: "FileOctopusState \<Rightarrow> string \<Rightarrow> WatchEffect list option" where
  "on_watch_changed s uri =
     map_option (\<lambda>t. if tab_tabKind t = TDirectory \<and> uri = tab_uri t then [RefreshPanel (activePanelId s)] else [])
       (activeTab (panels s (activePanelId s)))"

section \<open>What is watched\<close>

text \<open>The back end watches one directory at a time and takes the commands in order.\<close>

fun watch_step :: "WatchCommand \<Rightarrow> string option \<Rightarrow> string option" where
  "watch_step (StartWatching u) _ = Some u"
| "watch_step StopWatching _ = None"

definition watched :: "WatchCommand list \<Rightarrow> string option" where
  "watched cs = fold watch_step cs None"

definition deps_target :: "WatchDeps \<Rightarrow> string option" where
  "deps_target d =
     (case d of (p, (_, lk, lu), (_, rk, ru)) \<Rightarrow>
        (case p of Left \<Rightarrow> if is_watchable lk lu then Some lu else None
                 | Right \<Rightarrow> if is_watchable rk ru then Some ru else None))"

definition watch_ok :: "WatchHook \<Rightarrow> bool" where
  "watch_ok h \<longleftrightarrow>
     (case wh_last h of
        None \<Rightarrow> watched (wh_commands h) = None
      | Some (d, live) \<Rightarrow> watched (wh_commands h) = deps_target d \<and> (live \<longleftrightarrow> deps_target d \<noteq> None))"

lemma watched_append: "watched (cs @ ds) = fold watch_step ds (watched cs)"
  by (simp add: watched_def)

lemma effect_target:
  assumes "watch_deps s = Some d" "watch_effect s = Some (cs, live)"
  shows "live \<longleftrightarrow> deps_target d \<noteq> None" "fold watch_step cs w = (case deps_target d of Some u \<Rightarrow> Some u | None \<Rightarrow> w)"
  using assms
  by (cases "activePanelId s"; auto simp: watch_deps_def tab_deps_def watch_effect_def deps_target_def bind_eq_Some_conv
      split: if_splits)+

lemma watch_render_ok:
  assumes "watch_ok h" "watch_render s h = Some h'"
  shows "watch_ok h' \<and> (\<exists>d live. wh_last h' = Some (d, live) \<and> watch_deps s = Some d)"
proof -
  from assms(2) obtain d where d: "watch_deps s = Some d" by (auto simp: watch_render_def bind_eq_Some_conv)
  show ?thesis
  proof (cases "map_option fst (wh_last h) = Some d")
    case True
    with assms d show ?thesis by (auto simp: watch_render_def)
  next
    case False
    have "watch_effect s \<bind> (\<lambda>(commands, live). Some \<lparr>wh_last = Some (d, live), wh_commands = wh_commands h @
         (case wh_last h of Some (_, True) \<Rightarrow> [StopWatching] | _ \<Rightarrow> []) @ commands\<rparr>) = Some h'"
      using assms(2) unfolding watch_render_def d bind.bind_lunit if_not_P[OF False] .
    then obtain cs live where e: "watch_effect s = Some (cs, live)"
      and h': "h' = \<lparr>wh_last = Some (d, live), wh_commands = wh_commands h @
         (case wh_last h of Some (_, True) \<Rightarrow> [StopWatching] | _ \<Rightarrow> []) @ cs\<rparr>"
      by (auto simp: bind_eq_Some_conv simp del: split_paired_All split_paired_Ex)
    have "fold watch_step (case wh_last h of Some (_, True) \<Rightarrow> [StopWatching] | _ \<Rightarrow> []) (watched (wh_commands h)) = None"
      using assms(1) by (auto simp: watch_ok_def split: option.splits bool.splits)
    then show ?thesis
      using effect_target[OF d e] d
      by (auto simp: watch_ok_def h' watched_append split: option.splits simp del: split_paired_All split_paired_Ex)
  qed
qed

lemma watch_renders_ok:
  "watch_ok h \<Longrightarrow> watch_renders ss h = Some h' \<Longrightarrow>
     watch_ok h' \<and> (ss \<noteq> [] \<longrightarrow> (\<exists>d live. wh_last h' = Some (d, live) \<and> watch_deps (last ss) = Some d))"
proof (induction ss arbitrary: h)
  case (Cons s ss)
  then obtain h1 where h1: "watch_render s h = Some h1" "watch_renders ss h1 = Some h'" by (auto simp: bind_eq_Some_conv)
  from watch_render_ok[OF Cons.prems(1) h1(1)] Cons.IH[OF _ h1(2)] h1(2) show ?case by (cases ss) auto
qed simp

lemma target_of_deps:
  "watch_deps s = Some d \<Longrightarrow> activeTab (panels s (activePanelId s)) = Some t \<Longrightarrow>
     deps_target d = (if is_watchable (tab_tabKind t) (tab_uri t) then Some (tab_uri t) else None)"
  by (cases "activePanelId s") (auto simp: watch_deps_def tab_deps_def deps_target_def bind_eq_Some_conv)

text \<open>C14: the back end watches the directory of the active tab. After any renders, if it takes the commands in
  order, the watched directory is that of the active tab of the active panel of the last render, and nothing is watched when
  that tab is no local directory or after the hook has gone.\<close>

theorem watcher_follows_active_tab:
  assumes "ss \<noteq> []" and "watch_renders ss initial_watch = Some h"
    and "activeTab (panels (last ss) (activePanelId (last ss))) = Some t"
  shows "watched (wh_commands h) = (if tab_tabKind t = TDirectory \<and> js_startsWith (tab_uri t) ''local://'' then Some (tab_uri t) else None) \<and>
    watched (wh_commands (watch_unmount h)) = None"
proof -
  have "watch_ok initial_watch" by (simp add: watch_ok_def initial_watch_def watched_def)
  from watch_renders_ok[OF this assms(2)] assms(1) obtain d live where
    d: "watch_ok h" "wh_last h = Some (d, live)" "watch_deps (last ss) = Some d" by blast
  then have w: "watched (wh_commands h) = deps_target d" "live \<longleftrightarrow> deps_target d \<noteq> None" by (simp_all add: watch_ok_def)
  have "watched (wh_commands (watch_unmount h)) = None"
    using w by (cases live) (simp_all add: watch_unmount_def d(2) watched_append)
  then show ?thesis using w(1) target_of_deps[OF d(3) assms(3)] by (simp add: is_watchable_def)
qed

theorem watcher_follows_active_tab_witness:
  "\<exists>h. watch_renders [sample_state, sample_state\<lparr>activePanelId := Right\<rparr>] initial_watch = Some h \<and>
     watched (wh_commands h) = Some ''local:///r''"
proof -
  let ?ss = "[sample_state, sample_state\<lparr>activePanelId := Right\<rparr>]"
  have "watch_renders ?ss initial_watch \<noteq> None" by code_simp
  then obtain h where h: "watch_renders ?ss initial_watch = Some h" by blast
  have "\<exists>t. activeTab (panels (last ?ss) (activePanelId (last ?ss))) = Some t \<and> tab_tabKind t = TDirectory \<and> tab_uri t = ''local:///r''"
    by (simp add: sample_defs activeTab_def)
  then obtain t where t: "activeTab (panels (last ?ss) (activePanelId (last ?ss))) = Some t" "tab_tabKind t = TDirectory" "tab_uri t = ''local:///r''"
    by blast
  from watcher_follows_active_tab[OF _ h t(1)] h t(2,3) show ?thesis by (simp add: js_startsWith_def)
qed

end
