(* ===== verification/ColumnConfig.thy ===== *)
theory ColumnConfig
  imports StoredLists
begin

text \<open>
  The columns of the file list: their widths and order (\<open>pane/columnWidths.ts\<close>), column presets
  (\<open>utils/columnPresets.ts\<close>), and the colours of file types (\<open>utils/fileTypeColors.ts\<close>). All are kept
  as JSON text and read back with whatever was stored. The printing of numbers is the argument \<open>num\<close>;
  the regular expressions of the user are the argument \<open>regex\<close>, \<open>None\<close> being a pattern that does not compile.
\<close>

section \<open>Columns\<close>

datatype ColumnId = CName | CExtension | CSize | CModified | CKind

fun column_str :: "ColumnId \<Rightarrow> string" where
  "column_str CName = ''name''"
| "column_str CExtension = ''extension''"
| "column_str CSize = ''size''"
| "column_str CModified = ''modified''"
| "column_str CKind = ''kind''"

definition COLUMN_ORDER :: "ColumnId list" where
  "COLUMN_ORDER = [CName, CExtension, CSize, CModified, CKind]"

definition column_of :: "string \<Rightarrow> ColumnId option" where
  "column_of s = find (\<lambda>c. column_str c = s) COLUMN_ORDER"

type_synonym ColumnWidths = "ColumnId \<Rightarrow> rat"

type_synonym VisibleColumns = "ColumnId list"

fun DEFAULT_COLUMN_WIDTHS :: ColumnWidths where
  "DEFAULT_COLUMN_WIDTHS CName = 220"
| "DEFAULT_COLUMN_WIDTHS CExtension = 52"
| "DEFAULT_COLUMN_WIDTHS CSize = 78"
| "DEFAULT_COLUMN_WIDTHS CModified = 126"
| "DEFAULT_COLUMN_WIDTHS CKind = 110"

definition DEFAULT_VISIBLE_COLUMNS :: VisibleColumns where
  "DEFAULT_VISIBLE_COLUMNS = [CName, CExtension, CSize, CModified, CKind]"

definition MIN_WIDTHS :: ColumnWidths where
  "MIN_WIDTHS c = (if c = CName then 80 else 30)"

definition width_text :: "(rat \<Rightarrow> string) \<Rightarrow> ColumnWidths \<Rightarrow> ColumnId \<Rightarrow> string" where
  "width_text num widths c =
     (if c = CName then ''minmax('' @ num (widths c) @ ''px, 1fr)'' else num (widths c) @ ''px'')"

definition buildGridTemplate :: "(rat \<Rightarrow> string) \<Rightarrow> ColumnWidths \<Rightarrow> string" where
  "buildGridTemplate num widths = js_join '' '' (map (width_text num widths) COLUMN_ORDER)"

text \<open>The header has a handle of five pixels between two columns.\<close>

fun with_handles :: "string list \<Rightarrow> string list" where
  "with_handles (x # y # ys) = x # ''5px'' # with_handles (y # ys)"
| "with_handles xs = xs"

definition buildHeaderGridTemplate :: "(rat \<Rightarrow> string) \<Rightarrow> ColumnWidths \<Rightarrow> string" where
  "buildHeaderGridTemplate num widths = js_join '' '' (with_handles (map (width_text num widths) COLUMN_ORDER))"

definition buildVisibleGridTemplate :: "(rat \<Rightarrow> string) \<Rightarrow> ColumnWidths \<Rightarrow> VisibleColumns \<Rightarrow> string" where
  "buildVisibleGridTemplate num widths visible = js_join '' '' (map (width_text num widths) visible)"

definition buildVisibleHeaderGridTemplate :: "(rat \<Rightarrow> string) \<Rightarrow> ColumnWidths \<Rightarrow> VisibleColumns \<Rightarrow> string" where
  "buildVisibleHeaderGridTemplate num widths visible = js_join '' '' (with_handles (map (width_text num widths) visible))"

section \<open>Reordering\<close>

definition normalizeVisibleColumns :: "VisibleColumns \<Rightarrow> VisibleColumns" where
  "normalizeVisibleColumns visible =
     (case visible of
        CName # _ \<Rightarrow> visible
      | _ \<Rightarrow> CName # filter (\<lambda>c. c \<noteq> CName) visible)"

text \<open>\<open>splice\<close> past the end of the shortened list inserts at its end.\<close>

definition reorderVisibleColumns :: "VisibleColumns \<Rightarrow> int \<Rightarrow> int \<Rightarrow> VisibleColumns" where
  "reorderVisibleColumns visible fromIndex toIndex =
     (if fromIndex < 0 \<or> toIndex < 0 \<or> fromIndex \<ge> int (length visible) \<or> toIndex \<ge> int (length visible)
         \<or> visible ! nat fromIndex = CName
      then normalizeVisibleColumns visible
      else (let clamped = max 1 (nat toIndex);
                moved = visible ! nat fromIndex;
                rest = take (nat fromIndex) visible @ drop (Suc (nat fromIndex)) visible
            in normalizeVisibleColumns (take clamped rest @ moved # drop clamped rest)))"

section \<open>Keeping columns\<close>

definition WIDTHS_KEY :: string where "WIDTHS_KEY = ''fileoctopus.columnWidths''"

definition VISIBLE_STORAGE_KEY :: string where "VISIBLE_STORAGE_KEY = ''fileoctopus.visibleColumns''"

definition panel_key :: "string \<Rightarrow> string option \<Rightarrow> string" where
  "panel_key key panelId = (case panelId of Some (c # cs) \<Rightarrow> key @ ''.'' @ c # cs | _ \<Rightarrow> key)"

definition json_width :: "json \<Rightarrow> ColumnId \<Rightarrow> rat option" where
  "json_width v c = (case json_prop (Some v) (column_str c) of Some (JNum r) \<Rightarrow> Some r | _ \<Rightarrow> None)"

definition isValidWidths :: "json \<Rightarrow> bool" where
  "isValidWidths v \<longleftrightarrow> list_all (\<lambda>c. json_width v c \<noteq> None) COLUMN_ORDER"

definition clampWidths :: "ColumnWidths \<Rightarrow> ColumnWidths" where
  "clampWidths widths = (\<lambda>c. max (MIN_WIDTHS c) (widths c))"

definition storedColumnWidths :: "string option \<Rightarrow> World \<Rightarrow> ColumnWidths" where
  "storedColumnWidths panelId w =
     (case readStorage w (panel_key WIDTHS_KEY panelId) of
        Some (c # cs) \<Rightarrow>
          (case json_parse (c # cs) of
             Some v \<Rightarrow> if isValidWidths v then clampWidths (\<lambda>i. the (json_width v i)) else DEFAULT_COLUMN_WIDTHS
           | None \<Rightarrow> DEFAULT_COLUMN_WIDTHS)
      | _ \<Rightarrow> DEFAULT_COLUMN_WIDTHS)"

definition widths_json :: "ColumnWidths \<Rightarrow> json" where
  "widths_json widths = JObj (map (\<lambda>c. (column_str c, JNum (widths c))) COLUMN_ORDER)"

definition persistColumnWidths :: "(rat \<Rightarrow> string) \<Rightarrow> ColumnWidths \<Rightarrow> string option \<Rightarrow> World \<Rightarrow> World" where
  "persistColumnWidths num widths panelId w =
     persistValue (panel_key WIDTHS_KEY panelId) (json_text num (widths_json widths)) w"

definition json_column :: "json \<Rightarrow> ColumnId option" where
  "json_column v = (case v of JStr s \<Rightarrow> column_of s | _ \<Rightarrow> None)"

definition isValidVisibleColumns :: "json \<Rightarrow> bool" where
  "isValidVisibleColumns v \<longleftrightarrow>
     (case v of
        JArr vs \<Rightarrow> vs \<noteq> [] \<and> JStr ''name'' \<in> set vs \<and> list_all (\<lambda>x. json_column x \<noteq> None) vs
      | _ \<Rightarrow> False)"

definition json_columns :: "json \<Rightarrow> VisibleColumns" where
  "json_columns v = (case v of JArr vs \<Rightarrow> List.map_filter json_column vs | _ \<Rightarrow> [])"

definition storedVisibleColumns :: "string option \<Rightarrow> World \<Rightarrow> VisibleColumns" where
  "storedVisibleColumns panelId w =
     (case readStorage w (panel_key VISIBLE_STORAGE_KEY panelId) of
        Some (c # cs) \<Rightarrow>
          (case json_parse (c # cs) of
             Some v \<Rightarrow> if isValidVisibleColumns v then normalizeVisibleColumns (json_columns v) else DEFAULT_VISIBLE_COLUMNS
           | None \<Rightarrow> DEFAULT_VISIBLE_COLUMNS)
      | _ \<Rightarrow> DEFAULT_VISIBLE_COLUMNS)"

definition visible_json :: "VisibleColumns \<Rightarrow> json" where
  "visible_json visible = JArr (map (JStr \<circ> column_str) visible)"

definition persistVisibleColumns :: "(rat \<Rightarrow> string) \<Rightarrow> VisibleColumns \<Rightarrow> string option \<Rightarrow> World \<Rightarrow> World" where
  "persistVisibleColumns num visible panelId w =
     persistValue (panel_key VISIBLE_STORAGE_KEY panelId) (json_text num (visible_json visible)) w"

section \<open>Presets\<close>

text \<open>A preset is read with whatever array of columns and object of widths it has.\<close>

record ColumnPreset =
  cpr_id :: string
  cpr_name :: string
  cpr_visibleColumns :: "json list"
  cpr_columnWidths :: json

definition default_preset :: "string \<Rightarrow> string \<Rightarrow> VisibleColumns \<Rightarrow> ColumnWidths \<Rightarrow> ColumnPreset" where
  "default_preset i name visible widths =
     \<lparr>cpr_id = i, cpr_name = name, cpr_visibleColumns = map (JStr \<circ> column_str) visible, cpr_columnWidths = widths_json widths\<rparr>"

definition DEFAULT_COLUMN_PRESETS :: "ColumnPreset list" where
  "DEFAULT_COLUMN_PRESETS =
     [default_preset ''default'' ''Default'' DEFAULT_VISIBLE_COLUMNS DEFAULT_COLUMN_WIDTHS,
      default_preset ''code'' ''Code'' [CName, CExtension, CSize, CModified]
        (DEFAULT_COLUMN_WIDTHS(CName := 280, CExtension := 60, CSize := 80, CModified := 140)),
      default_preset ''minimal'' ''Minimal'' [CName, CSize] (DEFAULT_COLUMN_WIDTHS(CName := 400, CSize := 100))]"

definition captureColumnPreset :: "string \<Rightarrow> string \<Rightarrow> VisibleColumns \<Rightarrow> ColumnWidths \<Rightarrow> ColumnPreset" where
  "captureColumnPreset newId name visible widths = default_preset (''preset-'' @ newId) name visible widths"

definition preset_json :: "ColumnPreset \<Rightarrow> json" where
  "preset_json p = JObj [(''id'', JStr (cpr_id p)), (''name'', JStr (cpr_name p)),
     (''visibleColumns'', JArr (cpr_visibleColumns p)), (''columnWidths'', cpr_columnWidths p)]"

fun is_object :: "json \<Rightarrow> bool" where
  "is_object (JObj _) = True"
| "is_object (JArr _) = True"
| "is_object _ = False"

definition json_preset :: "json \<Rightarrow> ColumnPreset option" where
  "json_preset v =
     (case (json_prop (Some v) ''id'', json_prop (Some v) ''name'', json_prop (Some v) ''visibleColumns'', json_prop (Some v) ''columnWidths'') of
        (Some (JStr i), Some (JStr n), Some (JArr c), Some ws) \<Rightarrow>
          if is_object ws then Some \<lparr>cpr_id = i, cpr_name = n, cpr_visibleColumns = c, cpr_columnWidths = ws\<rparr> else None
      | _ \<Rightarrow> None)"

definition parseColumnPresets :: "string \<Rightarrow> ColumnPreset list" where
  "parseColumnPresets text =
     (if text = [] then DEFAULT_COLUMN_PRESETS
      else case json_list json_preset text of Some ps \<Rightarrow> ps | None \<Rightarrow> DEFAULT_COLUMN_PRESETS)"

definition serializeColumnPresets :: "(rat \<Rightarrow> string) \<Rightarrow> ColumnPreset list \<Rightarrow> string" where
  "serializeColumnPresets num = list_text num preset_json"

definition preset_ok :: "(rat \<Rightarrow> string) \<Rightarrow> ColumnPreset \<Rightarrow> bool" where
  "preset_ok num p \<longleftrightarrow> is_object (cpr_columnWidths p) \<and> printable num (cpr_columnWidths p) \<and> list_all (printable num) (cpr_visibleColumns p)"

interpretation presets: stored_list num preset_json json_preset "preset_ok num" for num
  by unfold_locales (simp_all add: preset_json_def json_preset_def json_prop_def preset_ok_def)

section \<open>Colours of file types\<close>

record FileTypeColorRule =
  ftc_id :: string
  ftc_name :: string
  ftc_pattern :: string
  ftc_matchType :: string
  ftc_color :: string
  ftc_enabled :: bool

definition extension_rule :: "string \<Rightarrow> string \<Rightarrow> string \<Rightarrow> string \<Rightarrow> FileTypeColorRule" where
  "extension_rule i name pattern color =
     \<lparr>ftc_id = i, ftc_name = name, ftc_pattern = pattern, ftc_matchType = ''extension'', ftc_color = color, ftc_enabled = True\<rparr>"

definition DEFAULT_FILE_TYPE_COLORS :: "FileTypeColorRule list" where
  "DEFAULT_FILE_TYPE_COLORS =
     [extension_rule ''images'' ''Images'' ''jpg,jpeg,png,gif,bmp,webp,svg,ico,tiff,tif'' ''#4ec9b0'',
      extension_rule ''videos'' ''Videos'' ''mp4,avi,mkv,mov,wmv,flv,webm,m4v,mpg,mpeg'' ''#b180d7'',
      extension_rule ''audio'' ''Audio'' ''mp3,wav,flac,aac,ogg,m4a,wma,aiff'' ''#dcdcaa'',
      extension_rule ''archives'' ''Archives'' ''zip,tar,gz,bz2,7z,rar,xz,tgz,tbz2,zst'' ''#ce9178'',
      extension_rule ''executables'' ''Executables'' ''exe,bat,cmd,sh,bash,ps1,msi,app,dmg,deb,rpm'' ''#f14c4c'',
      extension_rule ''code'' ''Code'' ''js,ts,jsx,tsx,py,rs,go,java,c,cpp,h,hpp,cs,rb,php,swift,kt'' ''#3794ff'',
      extension_rule ''configs'' ''Config files'' ''json,yaml,yml,toml,ini,conf,cfg,env,xml,properties'' ''#8b95a8'',
      extension_rule ''documents'' ''Documents'' ''pdf,doc,docx,xls,xlsx,ppt,pptx,txt,md,rtf,odt,ods,odp'' ''#4ec9b0'']"

definition rule_words :: "string \<Rightarrow> string list" where
  "rule_words pattern = filter (\<lambda>w. w \<noteq> []) (map js_trim (js_split (CHR '','') (js_toLowerCase pattern)))"

definition name_matches :: "string \<Rightarrow> string \<Rightarrow> bool" where
  "name_matches lowerName pattern =
     (if js_startsWith pattern ''*'' then js_endsWith lowerName (drop 1 pattern)
      else if js_endsWith pattern ''*'' then js_startsWith lowerName (butlast pattern)
      else lowerName = pattern)"

definition lower_extension :: "string \<Rightarrow> string" where
  "lower_extension lowerName =
     (case js_lastIndexOf (CHR ''.'') lowerName of Some i \<Rightarrow> if 0 < i then drop (Suc i) lowerName else [] | None \<Rightarrow> [])"

definition rule_matches :: "(string \<Rightarrow> string \<Rightarrow> bool option) \<Rightarrow> string \<Rightarrow> FileTypeColorRule \<Rightarrow> bool" where
  "rule_matches regex fileName rule =
     (let lowerName = js_toLowerCase fileName
      in if ftc_matchType rule = ''extension'' then lower_extension lowerName \<in> set (rule_words (ftc_pattern rule))
         else if ftc_matchType rule = ''name'' then list_ex (name_matches lowerName) (rule_words (ftc_pattern rule))
         else if ftc_matchType rule = ''pattern'' then regex (ftc_pattern rule) fileName = Some True
         else False)"

fun matchFileTypeColor :: "(string \<Rightarrow> string \<Rightarrow> bool option) \<Rightarrow> string \<Rightarrow> FileTypeColorRule list \<Rightarrow> string option" where
  "matchFileTypeColor regex fileName [] = None"
| "matchFileTypeColor regex fileName (rule # rules) =
     (if ftc_enabled rule \<and> rule_matches regex fileName rule then Some (ftc_color rule)
      else matchFileTypeColor regex fileName rules)"

definition rule_json :: "FileTypeColorRule \<Rightarrow> json" where
  "rule_json r = JObj [(''id'', JStr (ftc_id r)), (''name'', JStr (ftc_name r)), (''pattern'', JStr (ftc_pattern r)),
     (''matchType'', JStr (ftc_matchType r)), (''color'', JStr (ftc_color r)), (''enabled'', JBool (ftc_enabled r))]"

definition json_rule :: "json \<Rightarrow> FileTypeColorRule option" where
  "json_rule v =
     (case (json_prop (Some v) ''id'', json_prop (Some v) ''name'', json_prop (Some v) ''pattern'',
            json_prop (Some v) ''matchType'', json_prop (Some v) ''color'', json_prop (Some v) ''enabled'') of
        (Some (JStr i), Some (JStr n), Some (JStr p), Some (JStr m), Some (JStr c), Some (JBool e)) \<Rightarrow>
          Some \<lparr>ftc_id = i, ftc_name = n, ftc_pattern = p, ftc_matchType = m, ftc_color = c, ftc_enabled = e\<rparr>
      | _ \<Rightarrow> None)"

definition parseFileTypeColorRules :: "string \<Rightarrow> FileTypeColorRule list" where
  "parseFileTypeColorRules text =
     (if text = [] then DEFAULT_FILE_TYPE_COLORS
      else case json_list json_rule text of Some rs \<Rightarrow> rs | None \<Rightarrow> DEFAULT_FILE_TYPE_COLORS)"

definition serializeFileTypeColorRules :: "(rat \<Rightarrow> string) \<Rightarrow> FileTypeColorRule list \<Rightarrow> string" where
  "serializeFileTypeColorRules num = list_text num rule_json"

interpretation color_rules: stored_list num rule_json json_rule "\<lambda>_. True" for num
  by unfold_locales (simp_all add: rule_json_def json_rule_def json_prop_def)

lemma color_rules_read_back: "parseFileTypeColorRules (serializeFileTypeColorRules num rules) = rules"
  using color_rules.read_back[of rules num] color_rules.list_text_nonempty[of num rules]
  by (simp add: parseFileTypeColorRules_def serializeFileTypeColorRules_def list_all_iff)

lemma presets_read_back:
  "list_all (preset_ok num) ps \<Longrightarrow> parseColumnPresets (serializeColumnPresets num ps) = ps"
  using presets.read_back[of num ps] presets.list_text_nonempty[of num ps]
  by (simp add: parseColumnPresets_def serializeColumnPresets_def)

text \<open>The colour is that of the first enabled rule that matches.\<close>

lemma color_is_first:
  "matchFileTypeColor regex fileName rules = map_option ftc_color (find (\<lambda>r. ftc_enabled r \<and> rule_matches regex fileName r) rules)"
  by (induction rules) simp_all

section \<open>Order and persistence of columns\<close>

lemma columns_finite: "c \<in> set COLUMN_ORDER"
  by (cases c) (simp_all add: COLUMN_ORDER_def)

lemma column_of_str: "column_of (column_str c) = Some c"
  by (cases c) (simp_all add: column_of_def COLUMN_ORDER_def)

lemma normal_columns: "visible \<noteq> [] \<Longrightarrow> hd visible = CName \<Longrightarrow> normalizeVisibleColumns visible = visible"
  by (cases visible) (simp_all add: normalizeVisibleColumns_def)

lemma normalized_first: "hd (normalizeVisibleColumns visible) = CName \<and> normalizeVisibleColumns visible \<noteq> []"
  by (auto simp: normalizeVisibleColumns_def split: list.split ColumnId.split)

text \<open>Dragging a column moves it and nothing else. In a column list with the name first and no column twice,
  moving any other column to any place puts it there, at the second place at the earliest, keeps the order of the
  others, and keeps the name first; any other pair of indices changes nothing.\<close>

theorem reorder_moves_one_column:
  assumes "visible \<noteq> []" "hd visible = CName" "distinct visible"
  shows "(if 0 < fromIndex \<and> fromIndex < int (length visible) \<and> 0 \<le> toIndex \<and> toIndex < int (length visible)
     then reorderVisibleColumns visible fromIndex toIndex ! max 1 (nat toIndex) = visible ! nat fromIndex \<and>
       remove1 (visible ! nat fromIndex) (reorderVisibleColumns visible fromIndex toIndex) = remove1 (visible ! nat fromIndex) visible
     else reorderVisibleColumns visible fromIndex toIndex = visible) \<and>
    mset (reorderVisibleColumns visible fromIndex toIndex) = mset visible \<and>
    hd (reorderVisibleColumns visible fromIndex toIndex) = CName"
proof (cases "0 < fromIndex \<and> fromIndex < int (length visible) \<and> 0 \<le> toIndex \<and> toIndex < int (length visible)")
  case False
  then have "reorderVisibleColumns visible fromIndex toIndex = visible"
  proof (cases "fromIndex = 0")
    case True
    then have "visible ! nat fromIndex = CName" using assms(1,2) by (simp add: hd_conv_nth)
    then show ?thesis using normal_columns[OF assms(1,2)] by (simp add: reorderVisibleColumns_def)
  next
    case False
    with \<open>\<not> (0 < fromIndex \<and> _)\<close> normal_columns[OF assms(1,2)] show ?thesis by (auto simp: reorderVisibleColumns_def)
  qed
  with False assms show ?thesis by auto
next
  case True
  define n where "n = nat fromIndex"
  define m where "m = max 1 (nat toIndex)"
  define rest where "rest = take n visible @ drop (Suc n) visible"
  let ?x = "visible ! n" and ?rest = rest
  have n: "0 < n" "n < length visible" using True by (auto simp: n_def)
  have x: "?x \<noteq> CName"
    using assms n nth_eq_iff_index_eq[OF assms(3), of n 0] by (simp add: hd_conv_nth)
  have rest: "?rest \<noteq> []" "hd ?rest = CName" using n assms(1,2) by (simp_all add: rest_def hd_append hd_take)
  have len: "length ?rest = length visible - 1" using n by (simp add: rest_def)
  then have m: "1 \<le> m" "m \<le> length ?rest" using True n len by (auto simp: m_def)
  let ?new = "take m ?rest @ ?x # drop m ?rest"
  have new: "reorderVisibleColumns visible fromIndex toIndex = normalizeVisibleColumns ?new"
    using True x by (simp add: reorderVisibleColumns_def n_def m_def rest_def Let_def)
  have hd_new: "hd ?new = CName" "?new \<noteq> []" using rest m by (simp_all add: hd_append hd_take)
  have split: "visible = take n visible @ ?x # drop (Suc n) visible" using n(2) by (simp add: id_take_nth_drop)
  have notin: "?x \<notin> set ?rest" unfolding rest_def using assms(3) split by (metis distinct_append distinct.simps(2) Un_iff set_append disjoint_iff list.set_intros(1))
  have "remove1 ?x visible = ?rest"
    using notin split unfolding rest_def by (metis Un_iff remove1.simps(2) remove1_append set_append)
  moreover have "remove1 ?x ?new = ?rest"
    using notin in_set_takeD[of ?x m ?rest] by (simp add: remove1_append) (metis append_take_drop_id append_assoc)
  moreover have "?new ! m = ?x" using m by (simp add: nth_append)
  moreover have "mset ?new = mset visible"
  proof -
    have "mset ?new = add_mset ?x (mset (take m ?rest) + mset (drop m ?rest))" by simp
    also have "\<dots> = add_mset ?x (mset ?rest)" by (metis append_take_drop_id mset_append)
    also have "\<dots> = mset visible" by (subst split) (simp add: rest_def)
    finally show ?thesis .
  qed
  ultimately show ?thesis
    using True unfolding new normal_columns[OF hd_new(2,1)] n_def[symmetric] m_def[symmetric] by (simp add: hd_new(1))
qed

theorem reorder_moves_one_column_witness:
  "reorderVisibleColumns [CName, CSize, CKind] 2 1 ! 1 = CKind \<and> hd (reorderVisibleColumns [CName, CSize, CKind] 2 1) = CName"
  using reorder_moves_one_column[of "[CName, CSize, CKind]" 2 1] by simp

lemma default_widths: "MIN_WIDTHS c \<le> DEFAULT_COLUMN_WIDTHS c"
  by (cases c) (simp_all add: MIN_WIDTHS_def)

lemma stored_widths_bounded: "MIN_WIDTHS c \<le> storedColumnWidths panelId w c"
  by (simp add: storedColumnWidths_def clampWidths_def default_widths split: option.splits list.splits)

lemma stored_columns_first: "hd (storedVisibleColumns panelId w) = CName \<and> storedVisibleColumns panelId w \<noteq> []"
  by (simp add: storedVisibleColumns_def normalized_first DEFAULT_VISIBLE_COLUMNS_def split: option.splits list.splits)

lemma text_not_empty: "json_text num (JObj ms) \<noteq> []" "json_text num (JArr vs) \<noteq> []"
  by simp_all

lemma widths_parsed:
  assumes "\<And>c. num_ok num (widths c)"
  shows "json_parse (json_text num (widths_json widths)) = Some (widths_json widths)"
  by (rule json_text_read_back) (use assms in \<open>simp add: widths_json_def COLUMN_ORDER_def\<close>)

lemma widths_read: "json_width (widths_json widths) c = Some (widths c)"
  by (cases c) (simp_all add: json_width_def widths_json_def json_prop_def COLUMN_ORDER_def)

lemma visible_parsed: "json_parse (json_text num (visible_json visible)) = Some (visible_json visible)"
  by (rule json_text_read_back) (simp add: visible_json_def list_all_iff)

lemma visible_read:
  assumes "CName \<in> set visible"
  shows "isValidVisibleColumns (visible_json visible)" "json_columns (visible_json visible) = visible"
proof -
  have "json_columns (visible_json visible) = visible" for visible
    by (induction visible) (simp_all add: json_columns_def visible_json_def List.map_filter_simps json_column_def column_of_str)
  then show "json_columns (visible_json visible) = visible" .
  have "JStr (column_str CName) \<in> set (map (JStr \<circ> column_str) visible)" using assms by (metis comp_apply image_eqI set_map)
  then show "isValidVisibleColumns (visible_json visible)"
    using assms by (auto simp: isValidVisibleColumns_def visible_json_def json_column_def column_of_str list_all_iff)
qed

text \<open>C31: the columns of a pane survive a restart. Widths not below the minimum and a column order with the name first
  are read back as they were stored; whatever is stored, every width read is at least its minimum and
  the columns read are not empty and start with the name.\<close>

theorem column_layout_survives:
  assumes "storage_works w" "\<And>c. num_ok num (widths c)" "\<And>c. MIN_WIDTHS c \<le> widths c" "visible \<noteq> []" "hd visible = CName"
  shows "storedColumnWidths panelId (persistColumnWidths num widths panelId w) = widths \<and>
    storedVisibleColumns panelId (persistVisibleColumns num visible panelId w) = visible \<and>
    (\<forall>w c. MIN_WIDTHS c \<le> storedColumnWidths panelId w c) \<and>
    (\<forall>w. hd (storedVisibleColumns panelId w) = CName \<and> storedVisibleColumns panelId w \<noteq> [])"
proof (intro conjI allI)
  let ?t = "json_text num (widths_json widths)" and ?v = "json_text num (visible_json visible)"
  have works: "ls_defined w \<and> \<not> ls_setFails w \<and> \<not> ls_getFails w" using assms(1) by (simp add: storage_works_def)
  obtain a as where t: "?t = a # as" using text_not_empty(1) unfolding widths_json_def by (metis neq_Nil_conv)
  have "storedColumnWidths panelId (persistColumnWidths num widths panelId w) = clampWidths widths"
    using works widths_parsed[of num widths, OF assms(2), unfolded t]
    by (simp add: storedColumnWidths_def persistColumnWidths_def t isValidWidths_def widths_read list_all_iff)
  moreover have "clampWidths widths = widths" using assms(3) by (auto simp: clampWidths_def max_def)
  ultimately show "storedColumnWidths panelId (persistColumnWidths num widths panelId w) = widths" by simp
  obtain b bs where v: "?v = b # bs" using text_not_empty(2) unfolding visible_json_def by (metis neq_Nil_conv)
  have name: "CName \<in> set visible" using assms(4,5) by (metis hd_in_set)
  show "storedVisibleColumns panelId (persistVisibleColumns num visible panelId w) = visible"
    using works visible_parsed[of num visible, unfolded v] visible_read[OF name] normal_columns[OF assms(4,5)]
    by (simp add: storedVisibleColumns_def persistVisibleColumns_def v)
qed (simp_all add: stored_widths_bounded stored_columns_first)

definition columns_world :: World where
  "columns_world = \<lparr>ls_defined = True, ls_getFails = False, ls_setFails = False, ls_items = [], clock = 0, tabCounter = 0\<rparr>"

theorem column_layout_survives_witness:
  "storedColumnWidths None (persistColumnWidths int_text DEFAULT_COLUMN_WIDTHS None columns_world) = DEFAULT_COLUMN_WIDTHS \<and>
   storedVisibleColumns None (persistVisibleColumns int_text [CName, CSize] None columns_world) = [CName, CSize]"
proof -
  have w: "storage_works columns_world" by (simp add: columns_world_def storage_works_def)
  have n: "num_ok int_text (DEFAULT_COLUMN_WIDTHS c)" for c
    using int_text_ok[of 220] int_text_ok[of 52] int_text_ok[of 78] int_text_ok[of 126] int_text_ok[of 110] by (cases c) simp_all
  from column_layout_survives[OF w n default_widths, of "[CName, CSize]" None] show ?thesis by simp
qed

end
