(* ===== verification/Editor.thy ===== *)
theory Editor
  imports Jobs Uri
begin

text \<open>
  The text editor (\<open>components/editor/EditorDialog.tsx\<close> with \<open>utils/pathPicker.ts\<close> and the pane
  \<open>components/codemirror/CodeMirrorPane.tsx\<close>) as a state machine. The same component serves the
  dialog and the editor tabs of a pane, where it is not remounted when another file is shown. The calls
  in flight are kept in a list; an event delivers an answer, a click or a key, and is followed by the render.
  What \<open>CodeMirror\<close> makes of a text is the argument \<open>lines_of\<close> (it splits lines at every kind of line end and joins
  them with a line feed); its view reports every change, including those made by the program.
\<close>

section \<open>Addresses of chosen paths\<close>

definition localPathToResourceUri :: "string \<Rightarrow> string" where
  "localPathToResourceUri path =
     (let trimmed = js_trim path
      in if js_includes trimmed ''://'' then trimmed
         else if js_startsWith trimmed ''/'' then ''local://'' @ trimmed
         else case trimmed of
           d # c # s # _ \<Rightarrow>
             (if is_ascii_letter d \<and> c = CHR '':'' \<and> (s = char_of (92::nat) \<or> s = CHR ''/'')
              then ''local://'' @ map (\<lambda>x. if x = char_of (92::nat) then CHR ''/'' else x) trimmed
              else ''local://'' @ trimmed)
         | _ \<Rightarrow> ''local://'' @ trimmed)"

section \<open>State\<close>

datatype EditorCall =
  ReadText string
| WriteSave string string
| PickSave string
| WriteAs string string
| StatAs string string
| PickOpen
| StatOpen string
| OpenExternal
| RevealFile

datatype EditorAnswer =
  TextRead string bool
| Written
| PathPicked "string option"
| EntryFound FileEntryDto
| Opened

datatype EditorEffect =
  ReadFile string
| WriteFile string string
| StatFile string
| PickPath string
| CloseEditor
| NotifySaved
| EntryChanged FileEntryDto
| OpenPath string
| RevealPath string
| CopyToClipboard string

text \<open>The view of the pane: its key, the document it was last given, and its text.\<close>

record EditorView =
  vw_key :: string
  vw_given :: string
  vw_text :: string

record Editor =
  ed_entry :: FileEntryDto
  ed_initialDoc :: "string option"
  ed_doc :: string
  ed_loading :: bool
  ed_saving :: bool
  ed_error :: "string option"
  ed_confirmClose :: bool
  ed_calls :: "(nat, EditorCall) obj"
  ed_nextCall :: nat
  ed_liveLoad :: "nat option"
  ed_view :: "EditorView option"
  ed_effects :: "EditorEffect list"

definition isRemote :: "Editor \<Rightarrow> bool" where
  "isRemote e \<longleftrightarrow> \<not> js_startsWith (fe_uri (ed_entry e)) ''local://''"

definition dirty :: "Editor \<Rightarrow> bool" where
  "dirty e \<longleftrightarrow> (case ed_initialDoc e of Some i \<Rightarrow> ed_doc e \<noteq> i | None \<Rightarrow> False)"

definition emit :: "EditorEffect \<Rightarrow> Editor \<Rightarrow> Editor" where
  "emit x e = e\<lparr>ed_effects := ed_effects e @ [x]\<rparr>"

definition call :: "EditorCall \<Rightarrow> EditorEffect \<Rightarrow> Editor \<Rightarrow> Editor" where
  "call c x e =
     (emit x e)\<lparr>ed_calls := obj_set (ed_nextCall e) c (ed_calls e), ed_nextCall := Suc (ed_nextCall e)\<rparr>"

section \<open>Loading\<close>

text \<open>The effect of the entry, which runs again whenever the entry is another object; the cleanup of its last run
  cancels the load that is replaced as \<open>ed_liveLoad\<close>.\<close>

definition load_entry :: "FileEntryDto \<Rightarrow> Editor \<Rightarrow> Editor" where
  "load_entry entry e =
     call (ReadText (fe_uri entry)) (ReadFile (fe_uri entry))
       (e\<lparr>ed_entry := entry, ed_loading := True, ed_error := None, ed_initialDoc := None, ed_doc := [],
          ed_confirmClose := False, ed_liveLoad := Some (ed_nextCall e)\<rparr>)"

definition TRUNCATED_MESSAGE :: string where
  "TRUNCATED_MESSAGE =
     ''File is larger than the 10 MB editor cap and was truncated. Editing would lose data '' @ map char_of [226, 128, 148 :: nat]
       @ '' close and use a system editor instead.''"

definition read_settles :: "nat \<Rightarrow> thrown + EditorAnswer \<Rightarrow> Editor \<Rightarrow> Editor" where
  "read_settles n result e =
     (if ed_liveLoad e \<noteq> Some n then e
      else (case result of
              Inr (TextRead content truncated) \<Rightarrow>
                e\<lparr>ed_error := (if truncated then Some TRUNCATED_MESSAGE else ed_error e),
                  ed_initialDoc := Some content, ed_doc := content\<rparr>
            | Inr _ \<Rightarrow> e
            | Inl err \<Rightarrow>
                (let normalized = normalizeIpcError err
                 in e\<lparr>ed_error := Some (operationErrorMessage (err_code normalized) (err_message normalized))\<rparr>))
           \<lparr>ed_loading := False\<rparr>)"

section \<open>Saving\<close>

definition requestClose :: "Editor \<Rightarrow> Editor" where
  "requestClose e = (if dirty e then e\<lparr>ed_confirmClose := True\<rparr> else emit CloseEditor e)"

definition save :: "Editor \<Rightarrow> Editor" where
  "save e =
     (if ed_saving e \<or> isRemote e then e
      else call (WriteSave (fe_uri (ed_entry e)) (ed_doc e)) (WriteFile (fe_uri (ed_entry e)) (ed_doc e))
             (e\<lparr>ed_saving := True, ed_error := None\<rparr>))"

definition save_settles :: "string \<Rightarrow> thrown + EditorAnswer \<Rightarrow> Editor \<Rightarrow> Editor" where
  "save_settles saved result e =
     (case result of
        Inr _ \<Rightarrow> e\<lparr>ed_initialDoc := Some saved\<rparr>
      | Inl err \<Rightarrow>
          (let normalized = normalizeIpcError err
           in e\<lparr>ed_error := Some (operationErrorMessage (err_code normalized) (err_message normalized))\<rparr>))
     \<lparr>ed_saving := False\<rparr>"

fun reported :: "thrown \<Rightarrow> string" where
  "reported (ThrownErrorObject c m) = m"
| "reported err = operationErrorMessage (err_code (normalizeIpcError err)) (err_message (normalizeIpcError err))"

definition reportError :: "thrown \<Rightarrow> Editor \<Rightarrow> Editor" where
  "reportError err e = e\<lparr>ed_error := Some (reported err)\<rparr>"

definition saveAs :: "Editor \<Rightarrow> Editor" where
  "saveAs e =
     (if ed_saving e \<or> isRemote e then e
      else call (PickSave (ed_doc e)) (PickPath (displayPathFromUri (fe_uri (ed_entry e))))
             (e\<lparr>ed_saving := True, ed_error := None\<rparr>))"

definition openPickedFile :: "Editor \<Rightarrow> Editor" where
  "openPickedFile e =
     (if dirty e then e\<lparr>ed_error := Some ''Save or discard changes before opening another file.''\<rparr>
      else call PickOpen (PickPath (displayPathFromUri (fe_uri (ed_entry e)))) (e\<lparr>ed_error := None\<rparr>))"

definition picked :: "string option \<Rightarrow> string option" where
  "picked p = (case p of Some (c # cs) \<Rightarrow> Some (localPathToResourceUri (c # cs)) | _ \<Rightarrow> None)"

text \<open>The continuations of the calls; a rejection ends the whole chain of calls.\<close>

fun continue_call :: "EditorCall \<Rightarrow> nat \<Rightarrow> thrown + EditorAnswer \<Rightarrow> Editor \<Rightarrow> Editor" where
  "continue_call (ReadText uri) n result e = read_settles n result e"
| "continue_call (WriteSave uri saved) n result e = save_settles saved result e"
| "continue_call (PickSave saved) n result e =
     (case result of
        Inl err \<Rightarrow> (reportError err e)\<lparr>ed_saving := False\<rparr>
      | Inr (PathPicked p) \<Rightarrow>
          (case picked p of
             Some uri \<Rightarrow> call (WriteAs uri saved) (WriteFile uri saved) e
           | None \<Rightarrow> e\<lparr>ed_saving := False\<rparr>)
      | Inr _ \<Rightarrow> e)"
| "continue_call (WriteAs uri saved) n result e =
     (case result of
        Inl err \<Rightarrow> (reportError err e)\<lparr>ed_saving := False\<rparr>
      | Inr _ \<Rightarrow> call (StatAs uri saved) (StatFile uri) e)"
| "continue_call (StatAs uri saved) n result e =
     (case result of
        Inl err \<Rightarrow> (reportError err e)\<lparr>ed_saving := False\<rparr>
      | Inr (EntryFound entry) \<Rightarrow>
          (emit (EntryChanged entry) (emit NotifySaved (e\<lparr>ed_initialDoc := Some saved\<rparr>)))\<lparr>ed_saving := False\<rparr>
      | Inr _ \<Rightarrow> e)"
| "continue_call PickOpen n result e =
     (case result of
        Inl err \<Rightarrow> reportError err e
      | Inr (PathPicked p) \<Rightarrow> (case picked p of Some uri \<Rightarrow> call (StatOpen uri) (StatFile uri) e | None \<Rightarrow> e)
      | Inr _ \<Rightarrow> e)"
| "continue_call (StatOpen uri) n result e =
     (case result of
        Inl err \<Rightarrow> reportError err e
      | Inr (EntryFound entry) \<Rightarrow>
          (if fe_kind entry = KDirectory then reportError (ThrownErrorObject None ''Choose a file, not a folder.'') e
           else emit (EntryChanged entry) e)
      | Inr _ \<Rightarrow> e)"
| "continue_call OpenExternal n result e = (case result of Inl err \<Rightarrow> reportError err e | Inr _ \<Rightarrow> e)"
| "continue_call RevealFile n result e = (case result of Inl err \<Rightarrow> reportError err e | Inr _ \<Rightarrow> e)"

definition settles :: "nat \<Rightarrow> thrown + EditorAnswer \<Rightarrow> Editor \<Rightarrow> Editor" where
  "settles n result e =
     (case obj_get (ed_calls e) n of
        Some c \<Rightarrow> continue_call c n result (e\<lparr>ed_calls := obj_del n (ed_calls e)\<rparr>)
      | None \<Rightarrow> e)"

section \<open>The view\<close>

text \<open>The pane is shown when the text is loaded. It keeps its view while its key, the address, stays; when it is given
  another document than the text of the view, it replaces the text.\<close>

definition sync_view :: "(string \<Rightarrow> string) \<Rightarrow> Editor \<Rightarrow> Editor" where
  "sync_view lines_of e =
     (case (if ed_loading e then None else ed_initialDoc e) of
        None \<Rightarrow> e\<lparr>ed_view := None\<rparr>
      | Some d \<Rightarrow>
          (let uri = fe_uri (ed_entry e);
               replaced = e\<lparr>ed_view := Some \<lparr>vw_key = uri, vw_given = d, vw_text = lines_of d\<rparr>, ed_doc := lines_of d\<rparr>
           in case ed_view e of
                Some v \<Rightarrow>
                  (if vw_key v \<noteq> uri then (if lines_of d = d then e\<lparr>ed_view := ed_view replaced\<rparr> else replaced)
                   else if vw_given v = d then e
                   else if vw_text v = d then e\<lparr>ed_view := Some (v\<lparr>vw_given := d\<rparr>)\<rparr>
                   else replaced)
              | None \<Rightarrow> (if lines_of d = d then e\<lparr>ed_view := ed_view replaced\<rparr> else replaced)))"

section \<open>Events\<close>

datatype EditorEvent =
  ShowEntry FileEntryDto
| TypeText string
| PressSave
| PressCtrlS
| PressSaveAs
| PressOpen
| PressClose
| KeepEditing
| DiscardChanges
| PressOpenExternally
| PressReveal
| PressCopyAll
| Settles nat "thrown + EditorAnswer"

fun editor_event :: "(string \<Rightarrow> string) \<Rightarrow> EditorEvent \<Rightarrow> Editor \<Rightarrow> Editor" where
  "editor_event lines_of (ShowEntry entry) e = load_entry entry e"
| "editor_event lines_of (TypeText t) e =
     (case ed_view e of
        Some v \<Rightarrow> e\<lparr>ed_view := Some (v\<lparr>vw_text := lines_of t\<rparr>), ed_doc := lines_of t\<rparr>
      | None \<Rightarrow> e)"
| "editor_event lines_of PressSave e = (if \<not> dirty e \<or> ed_saving e \<or> isRemote e then e else save e)"
| "editor_event lines_of PressCtrlS e = save e"
| "editor_event lines_of PressSaveAs e = (if ed_saving e \<or> isRemote e then e else saveAs e)"
| "editor_event lines_of PressOpen e = openPickedFile e"
| "editor_event lines_of PressClose e = requestClose e"
| "editor_event lines_of KeepEditing e = (if ed_confirmClose e then e\<lparr>ed_confirmClose := False\<rparr> else e)"
| "editor_event lines_of DiscardChanges e =
     (if ed_confirmClose e then emit CloseEditor (e\<lparr>ed_confirmClose := False\<rparr>) else e)"
| "editor_event lines_of PressOpenExternally e = call OpenExternal (OpenPath (fe_uri (ed_entry e))) e"
| "editor_event lines_of PressReveal e = call RevealFile (RevealPath (fe_uri (ed_entry e))) e"
| "editor_event lines_of PressCopyAll e = emit (CopyToClipboard (ed_doc e)) e"
| "editor_event lines_of (Settles n result) e = settles n result e"

definition editor_step :: "(string \<Rightarrow> string) \<Rightarrow> EditorEvent \<Rightarrow> Editor \<Rightarrow> Editor" where
  "editor_step lines_of ev e = sync_view lines_of (editor_event lines_of ev e)"

definition editor_run :: "(string \<Rightarrow> string) \<Rightarrow> EditorEvent list \<Rightarrow> Editor \<Rightarrow> Editor" where
  "editor_run lines_of evs e = fold (editor_step lines_of) evs e"

definition mount_editor :: "FileEntryDto \<Rightarrow> Editor" where
  "mount_editor entry =
     load_entry entry \<lparr>ed_entry = entry, ed_initialDoc = None, ed_doc = [], ed_loading = False, ed_saving = False, ed_error = None,
       ed_confirmClose = False, ed_calls = [], ed_nextCall = 0, ed_liveLoad = None, ed_view = None, ed_effects = []\<rparr>"

end
