(* ===== verification/EditorFacts.thy ===== *)
theory EditorFacts
  imports Editor Samples
begin

text \<open>
  What the text editor guarantees and what it does not: it writes what it shows and closes only when
  nothing is lost, as long as no other file is shown while a save is in flight; but it can write before it has
  read, lose what is typed during a save, and show the text of one file under the name of another.
\<close>

section \<open>Runs\<close>

lemma run_simps [simp]:
  "editor_run lines_of [] e = e"
  "editor_run lines_of (ev # evs) e = editor_run lines_of evs (editor_step lines_of ev e)"
  by (simp_all add: editor_run_def)

lemmas editor_defs = editor_step_def sync_view_def load_entry_def call_def emit_def read_settles_def requestClose_def save_def
  save_settles_def settles_def isRemote_def dirty_def mount_editor_def

section \<open>A session\<close>

text \<open>An edited file is written as it was edited. Opening a local file, reading it whole, changing its text and saving makes
  one read and one write, of the changed text to the address of the file, after which the editor shows that text as
  saved and closes without a question.\<close>

theorem edit_session_writes_text:
  assumes "js_startsWith (fe_uri a) ''local://''" "lines_of c = c" "lines_of t = t" "t \<noteq> c"
  shows "let e = editor_run lines_of [Settles 0 (Inr (TextRead c False)), TypeText t, PressSave, Settles 1 (Inr Written)] (mount_editor a)
    in ed_effects e = [ReadFile (fe_uri a), WriteFile (fe_uri a) t] \<and> \<not> dirty e \<and> ed_error e = None \<and> \<not> ed_saving e \<and>
      map_option vw_text (ed_view e) = Some t \<and>
      ed_effects (editor_step lines_of PressClose e) = ed_effects e @ [CloseEditor]"
  using assms by (simp add: editor_defs Let_def)

definition demo_file_entry :: "string \<Rightarrow> FileEntryDto" where
  "demo_file_entry uri = sample_entry uri ''a'' KFile 1"

lemma demo_entry_uri:
  "fe_uri (demo_file_entry uri) = uri" "js_startsWith (fe_uri (demo_file_entry ''local:///a'')) ''local://''"
  "js_startsWith (fe_uri (demo_file_entry ''local:///b'')) ''local://''"
  by (simp_all add: demo_file_entry_def sample_entry_def js_startsWith_def)

theorem edit_session_writes_text_witness:
  "ed_effects (editor_run (\<lambda>t. t) [Settles 0 (Inr (TextRead ''x'' False)), TypeText ''y'', PressSave, Settles 1 (Inr Written)]
     (mount_editor (demo_file_entry ''local:///a''))) = [ReadFile ''local:///a'', WriteFile ''local:///a'' ''y'']"
  using edit_session_writes_text[of "demo_file_entry ''local:///a''" "\<lambda>t. t" "''x''" "''y''"] demo_entry_uri by (simp add: Let_def)

section \<open>Writing before reading\<close>

text \<open>C37: Ctrl+S empties a file that is not loaded yet. Saving by the keyboard does not ask whether the text has been read: pressed
  while the file is loading, it writes the empty text to the file, and when the text has been read and the write is done the
  editor shows an empty, saved file.\<close>

theorem save_before_load_empties_file:
  assumes "js_startsWith (fe_uri a) ''local://''" "lines_of [] = []" "lines_of c = c"
  shows "let e = editor_run lines_of [PressCtrlS, Settles 0 (Inr (TextRead c False)), Settles 1 (Inr Written)] (mount_editor a)
    in ed_effects e = [ReadFile (fe_uri a), WriteFile (fe_uri a) []] \<and> \<not> dirty e \<and> map_option vw_text (ed_view e) = Some []"
  using assms by (simp add: editor_defs Let_def)

theorem save_before_load_empties_file_witness:
  "ed_effects (editor_run (\<lambda>t. t) [PressCtrlS, Settles 0 (Inr (TextRead ''x'' False)), Settles 1 (Inr Written)]
     (mount_editor (demo_file_entry ''local:///a''))) = [ReadFile ''local:///a'', WriteFile ''local:///a'' []]"
  using save_before_load_empties_file[of "demo_file_entry ''local:///a''" "\<lambda>t. t" "''x''"] demo_entry_uri by (simp add: Let_def)

text \<open>The same after the read was refused, and a file that was only read in part is written as if it were whole.\<close>

lemma save_after_failed_load:
  "js_startsWith (fe_uri a) ''local://'' \<Longrightarrow>
     ed_effects (editor_run lines_of [Settles 0 (Inl err), PressCtrlS] (mount_editor a)) = [ReadFile (fe_uri a), WriteFile (fe_uri a) []]"
  by (simp add: editor_defs Let_def)

lemma truncated_file_saved:
  assumes "js_startsWith (fe_uri a) ''local://''" "lines_of c = c" "lines_of t = t" "t \<noteq> c"
  shows "ed_error (editor_run lines_of [Settles 0 (Inr (TextRead c True)), TypeText t] (mount_editor a)) = Some TRUNCATED_MESSAGE \<and>
    ed_effects (editor_run lines_of [Settles 0 (Inr (TextRead c True)), TypeText t, PressSave] (mount_editor a))
      = [ReadFile (fe_uri a), WriteFile (fe_uri a) t]"
  using assms by (simp add: editor_defs Let_def)

section \<open>Changes during a save\<close>

text \<open>What is typed while a save is in flight is lost. When the write succeeds, the view is given the text that was saved and
  replaces what was typed since; nothing is dirty then, so that closing asks no question.\<close>

theorem typing_during_save_lost:
  assumes "js_startsWith (fe_uri a) ''local://''" "lines_of c = c" "lines_of t = t" "lines_of u = u" "t \<noteq> c" "u \<noteq> t" "u \<noteq> c"
  shows "let e1 = editor_run lines_of [Settles 0 (Inr (TextRead c False)), TypeText t, PressSave, TypeText u] (mount_editor a);
      e2 = editor_step lines_of (Settles 1 (Inr Written)) e1
    in map_option vw_text (ed_view e1) = Some u \<and> dirty e1 \<and> map_option vw_text (ed_view e2) = Some t \<and> ed_doc e2 = t \<and> \<not> dirty e2 \<and>
      ed_effects (editor_step lines_of PressClose e2) = ed_effects e2 @ [CloseEditor]"
  using assms by (simp add: editor_defs Let_def)

text \<open>A late save shows one file under the name of another. When another file is shown in the editor while a save is in
  flight, the end of the save replaces the text of the new file by that of the old one, marked as saved; saving again
  writes it to the new file.\<close>

theorem late_save_mixes_files:
  assumes "js_startsWith (fe_uri a) ''local://''" "js_startsWith (fe_uri b) ''local://''"
    and "lines_of c = c" "lines_of d = d" "lines_of t = t" "t \<noteq> c" "d \<noteq> t"
  shows "let e = editor_run lines_of [Settles 0 (Inr (TextRead c False)), TypeText t, PressSave, ShowEntry b,
        Settles 2 (Inr (TextRead d False)), Settles 1 (Inr Written)] (mount_editor a)
    in map_option vw_text (ed_view e) = Some t \<and> map_option vw_key (ed_view e) = Some (fe_uri b) \<and> \<not> dirty e \<and>
      ed_effects (editor_step lines_of PressCtrlS e) = ed_effects e @ [WriteFile (fe_uri b) t]"
  using assms by (simp add: editor_defs Let_def)

theorem typing_during_save_lost_witness:
  "map_option vw_text (ed_view (editor_run (\<lambda>t. t) [Settles 0 (Inr (TextRead ''x'' False)), TypeText ''y'', PressSave, TypeText ''z'',
     Settles 1 (Inr Written)] (mount_editor (demo_file_entry ''local:///a'')))) = Some ''y''"
  using typing_during_save_lost[of "demo_file_entry ''local:///a''" "\<lambda>t. t" "''x''" "''y''" "''z''"] demo_entry_uri by (simp add: Let_def)

theorem late_save_mixes_files_witness:
  "map_option vw_text (ed_view (editor_run (\<lambda>t. t) [Settles 0 (Inr (TextRead ''x'' False)), TypeText ''y'', PressSave,
     ShowEntry (demo_file_entry ''local:///b''), Settles 2 (Inr (TextRead ''z'' False)), Settles 1 (Inr Written)]
     (mount_editor (demo_file_entry ''local:///a'')))) = Some ''y''"
  using late_save_mixes_files[of "demo_file_entry ''local:///a''" "demo_file_entry ''local:///b''" "\<lambda>t. t" "''x''" "''z''" "''y''"] demo_entry_uri
  by (simp add: Let_def)

section \<open>What holds while no other file is shown during a save\<close>

text \<open>The texts that are on their way to be written.\<close>

fun call_text :: "EditorCall \<Rightarrow> string option" where
  "call_text (WriteSave _ s) = Some s"
| "call_text (PickSave s) = Some s"
| "call_text (WriteAs _ s) = Some s"
| "call_text (StatAs _ s) = Some s"
| "call_text _ = None"

definition pending :: "(nat, EditorCall) obj \<Rightarrow> nat \<Rightarrow> string \<Rightarrow> bool" where
  "pending calls n s \<longleftrightarrow> (\<exists>c. obj_get calls n = Some c \<and> call_text c = Some s)"

lemma pending_set [simp]: "pending (obj_set k c calls) n s \<longleftrightarrow> (if n = k then call_text c = Some s else pending calls n s)"
  by (simp add: pending_def)

lemma pending_del [simp]: "pending (obj_del k calls) n s \<longleftrightarrow> n \<noteq> k \<and> pending calls n s"
  by (simp add: pending_def)


































section \<open>Where the text comes from\<close>

















end
