(* ===== verification/Viewer.thy ===== *)
theory Viewer
  imports Jobs Uri Samples "HOL-Library.Word"
begin

text \<open>
  Showing files: which files can be previewed and how (\<open>components/PreviewPanel.tsx\<close>,
  \<open>viewer/detectViewerMode.ts\<close>), the preview panel, the pages of the text and hexadecimal viewers
  (\<open>viewer/ViewerTextMode.tsx\<close>, \<open>ViewerHexMode.tsx\<close>) and moving between files (\<open>viewer/ViewerDialog.tsx\<close>).
  Bytes are words of eight bits; decoding a page of text is the argument \<open>decode\<close>.
\<close>

section \<open>Kinds of files\<close>

definition TEXT_EXTENSIONS :: "string list" where
  "TEXT_EXTENSIONS =
     [''.txt'', ''.md'', ''.json'', ''.yaml'', ''.yml'', ''.toml'', ''.xml'', ''.csv'', ''.tsv'', ''.log'', ''.ini'', ''.cfg'',
      ''.conf'', ''.env'', ''.sh'', ''.bash'', ''.zsh'', ''.js'', ''.ts'', ''.tsx'', ''.jsx'', ''.mjs'', ''.cjs'', ''.py'', ''.rb'',
      ''.rs'', ''.go'', ''.java'', ''.kt'', ''.scala'', ''.c'', ''.cpp'', ''.h'', ''.hpp'', ''.cs'', ''.swift'', ''.sql'',
      ''.graphql'', ''.proto'', ''.html'', ''.htm'', ''.css'', ''.scss'', ''.less'', ''.svg'', ''.dockerfile'', ''.makefile'',
      ''.cmake'', ''.gitignore'', ''.gitattributes'', ''.editorconfig'', ''.lock'', ''.map'']"

definition IMAGE_EXTENSIONS :: "string list" where
  "IMAGE_EXTENSIONS = [''.png'', ''.jpg'', ''.jpeg'', ''.gif'', ''.bmp'', ''.webp'', ''.ico'']"

definition PDF_EXTENSIONS :: "string list" where
  "PDF_EXTENSIONS = [''.pdf'']"

definition AUDIO_EXTENSIONS :: "string list" where
  "AUDIO_EXTENSIONS = [''.mp3'', ''.ogg'', ''.wav'', ''.flac'', ''.aac'', ''.m4a'', ''.wma'', ''.opus'', ''.oga'']"

definition VIDEO_EXTENSIONS :: "string list" where
  "VIDEO_EXTENSIONS = [''.mp4'', ''.webm'', ''.mkv'', ''.avi'', ''.mov'', ''.m4v'', ''.wmv'', ''.mpg'', ''.mpeg'', ''.3gp'']"

definition MEDIA_EXTENSIONS :: "string list" where
  "MEDIA_EXTENSIONS =
     [''.mp3'', ''.ogg'', ''.wav'', ''.flac'', ''.aac'', ''.m4a'', ''.wma'', ''.opus'', ''.oga'', ''.mp4'', ''.webm'', ''.mkv'',
      ''.avi'', ''.mov'', ''.m4v'', ''.wmv'', ''.mpg'', ''.mpeg'', ''.3gp'']"

definition MAX_PREVIEW_BYTES :: nat where "MAX_PREVIEW_BYTES = 512 * 1024"

definition MAX_DATA_URI_PREVIEW_BYTES :: nat where "MAX_DATA_URI_PREVIEW_BYTES = 20 * 1024 * 1024"

definition CLOUD_AUTO_DOWNLOAD_LIMIT_BYTES :: int where "CLOUD_AUTO_DOWNLOAD_LIMIT_BYTES = 10 * 1024 * 1024"

definition getExtension :: "string \<Rightarrow> string" where
  "getExtension name = (case js_lastIndexOf (CHR ''.'') name of Some d \<Rightarrow> js_toLowerCase (drop d name) | None \<Rightarrow> [])"

definition isTextPreviewable :: "FileEntryDto option \<Rightarrow> bool" where
  "isTextPreviewable entry =
     (case entry of
        None \<Rightarrow> False
      | Some e \<Rightarrow> fe_kind e \<noteq> KDirectory \<and>
          (let ext = getExtension (fe_name e); lower = js_toLowerCase (fe_name e)
           in ext \<in> set TEXT_EXTENSIONS
              \<or> lower \<in> {''makefile'', ''dockerfile'', ''readme'', ''license'', ''changelog'', ''.gitignore''}
              \<or> js_startsWith lower ''.'' \<and> length lower < 20 \<and> ext = []))"

definition has_extension :: "string list \<Rightarrow> FileEntryDto option \<Rightarrow> bool" where
  "has_extension exts entry = (case entry of None \<Rightarrow> False | Some e \<Rightarrow> fe_kind e \<noteq> KDirectory \<and> getExtension (fe_name e) \<in> set exts)"

definition isImagePreviewable :: "FileEntryDto option \<Rightarrow> bool" where
  "isImagePreviewable = has_extension IMAGE_EXTENSIONS"

definition isPdfPreviewable :: "FileEntryDto option \<Rightarrow> bool" where
  "isPdfPreviewable = has_extension PDF_EXTENSIONS"

definition isMediaPreviewable :: "FileEntryDto option \<Rightarrow> bool" where
  "isMediaPreviewable = has_extension MEDIA_EXTENSIONS"

definition viewer_media :: "FileEntryDto option \<Rightarrow> bool" where
  "viewer_media = has_extension (AUDIO_EXTENSIONS @ VIDEO_EXTENSIONS)"

definition isAudioEntry :: "FileEntryDto \<Rightarrow> bool" where
  "isAudioEntry e \<longleftrightarrow> getExtension (fe_name e) \<in> set AUDIO_EXTENSIONS"

definition isPreviewable :: "FileEntryDto option \<Rightarrow> bool" where
  "isPreviewable entry \<longleftrightarrow> isTextPreviewable entry \<or> isPdfPreviewable entry \<or> isImagePreviewable entry \<or> isMediaPreviewable entry"

definition shouldDeferCloudDownload :: "FileEntryDto option \<Rightarrow> bool" where
  "shouldDeferCloudDownload entry =
     (case entry of
        Some e \<Rightarrow> fe_isPlaceholder e \<and> (case fe_size e of Some n \<Rightarrow> n | None \<Rightarrow> 0) > CLOUD_AUTO_DOWNLOAD_LIMIT_BYTES
      | None \<Rightarrow> False)"

datatype PreviewMode = PmImage | PmText | PmPdf | PmMedia | PmUnknown

definition getPreviewMode :: "FileEntryDto \<Rightarrow> PreviewMode" where
  "getPreviewMode e =
     (if isImagePreviewable (Some e) then PmImage else if isPdfPreviewable (Some e) then PmPdf
      else if isMediaPreviewable (Some e) then PmMedia else if isTextPreviewable (Some e) then PmText else PmUnknown)"

datatype ViewerMode = VmText | VmHex | VmImage | VmMedia | VmPdf

definition detectViewerMode :: "FileEntryDto option \<Rightarrow> ViewerMode" where
  "detectViewerMode entry =
     (case entry of
        None \<Rightarrow> VmText
      | Some _ \<Rightarrow>
          if isPdfPreviewable entry then VmPdf else if isImagePreviewable entry then VmImage
          else if viewer_media entry then VmMedia else if isTextPreviewable entry then VmText else VmHex)"

section \<open>The preview panel\<close>

record PreviewPanel =
  pp_entry :: "FileEntryDto option"
  pp_textContent :: "string option"
  pp_binaryDataUri :: "string option"
  pp_error :: "string option"
  pp_loading :: bool
  pp_truncated :: bool
  pp_byteSize :: nat
  pp_zoom :: rat
  pp_cloudDownloadApproved :: bool
  pp_calls :: "(nat, FileEntryDto) obj"
  pp_nextCall :: nat

definition initial_preview :: PreviewPanel where
  "initial_preview =
     \<lparr>pp_entry = None, pp_textContent = None, pp_binaryDataUri = None, pp_error = None, pp_loading = False, pp_truncated = False,
      pp_byteSize = 0, pp_zoom = 1, pp_cloudDownloadApproved = False, pp_calls = [], pp_nextCall = 0\<rparr>"

definition is_binary :: "FileEntryDto \<Rightarrow> bool" where
  "is_binary e \<longleftrightarrow> isImagePreviewable (Some e) \<or> isPdfPreviewable (Some e) \<or> isMediaPreviewable (Some e)"

definition loadContent :: "FileEntryDto \<Rightarrow> PreviewPanel \<Rightarrow> PreviewPanel" where
  "loadContent e p =
     p\<lparr>pp_loading := True, pp_error := None, pp_calls := obj_set (pp_nextCall p) e (pp_calls p), pp_nextCall := Suc (pp_nextCall p)\<rparr>"

datatype PreviewAnswer = DataUri string nat | PreviewText string bool nat

text \<open>The answer is used whatever is shown by then: there is no cleanup.\<close>

definition preview_settles :: "nat \<Rightarrow> thrown + PreviewAnswer \<Rightarrow> PreviewPanel \<Rightarrow> PreviewPanel" where
  "preview_settles k result p =
     (case obj_get (pp_calls p) k of
        None \<Rightarrow> p
      | Some e \<Rightarrow>
          (let p1 = p\<lparr>pp_calls := obj_del k (pp_calls p)\<rparr>
           in (case result of
                 Inr (DataUri u n) \<Rightarrow> p1\<lparr>pp_binaryDataUri := Some u, pp_byteSize := n\<rparr>
               | Inr (PreviewText t trunc n) \<Rightarrow>
                   p1\<lparr>pp_textContent := Some t, pp_truncated := trunc, pp_byteSize := n\<rparr>
               | Inl err \<Rightarrow>
                   (let normalized = normalizeIpcError err
                    in p1\<lparr>pp_error := Some (if err_code normalized = ''unsupported_provider'' \<and> isRemoteUri (fe_uri e)
                          then ''Cannot read this remote file: '' @ err_message normalized
                          else operationErrorMessage (err_code normalized) (err_message normalized))\<rparr>))
             \<lparr>pp_loading := False\<rparr>))"

definition preview_reset :: "PreviewPanel \<Rightarrow> PreviewPanel" where
  "preview_reset p =
     p\<lparr>pp_textContent := None, pp_binaryDataUri := None, pp_error := None, pp_truncated := False, pp_byteSize := 0, pp_zoom := 1,
       pp_cloudDownloadApproved := False\<rparr>"

text \<open>The effect that loads, with the approval of the render it belongs to.\<close>

definition load_effect :: "bool \<Rightarrow> PreviewPanel \<Rightarrow> PreviewPanel" where
  "load_effect approved p =
     (case pp_entry p of
        Some e \<Rightarrow>
          if isPreviewable (Some e) \<and> (\<not> shouldDeferCloudDownload (Some e) \<or> approved) then loadContent e p else p
      | None \<Rightarrow> p)"

text \<open>A new entry: both effects run with the values of the same render, and the second one again after the reset if
  that took back an approval.\<close>

definition show_preview :: "FileEntryDto option \<Rightarrow> PreviewPanel \<Rightarrow> PreviewPanel" where
  "show_preview entry p =
     (let approved = pp_cloudDownloadApproved p;
          p1 = load_effect approved (preview_reset (p\<lparr>pp_entry := entry\<rparr>))
      in if approved then load_effect False p1 else p1)"

definition approve_download :: "PreviewPanel \<Rightarrow> PreviewPanel" where
  "approve_download p =
     (if pp_cloudDownloadApproved p then p else load_effect True (p\<lparr>pp_cloudDownloadApproved := True\<rparr>))"

definition handleZoomIn :: "PreviewPanel \<Rightarrow> PreviewPanel" where
  "handleZoomIn p = p\<lparr>pp_zoom := min (pp_zoom p * (5 / 4)) 10\<rparr>"

definition handleZoomOut :: "PreviewPanel \<Rightarrow> PreviewPanel" where
  "handleZoomOut p = p\<lparr>pp_zoom := max (pp_zoom p * (3 / 4)) (1 / 10)\<rparr>"

definition handleFit :: "PreviewPanel \<Rightarrow> PreviewPanel" where
  "handleFit p = p\<lparr>pp_zoom := 1\<rparr>"

section \<open>Hexadecimal\<close>

definition hex_char :: "nat \<Rightarrow> char" where
  "hex_char n = (if n < 10 then char_of (48 + n) else char_of (87 + n))"

fun hex_str :: "nat \<Rightarrow> string" where
  "hex_str n = (if n < 16 then [hex_char n] else hex_str (n div 16) @ [hex_char (n mod 16)])"

definition padStart :: "nat \<Rightarrow> char \<Rightarrow> string \<Rightarrow> string" where
  "padStart width c s = replicate (width - length s) c @ s"

definition padEnd :: "nat \<Rightarrow> char \<Rightarrow> string \<Rightarrow> string" where
  "padEnd width c s = s @ replicate (width - length s) c"

definition BYTES_PER_ROW :: nat where "BYTES_PER_ROW = 16"

definition asciiFor :: "8 word \<Rightarrow> char" where
  "asciiFor b = (if 0x20 \<le> b \<and> b \<le> 0x7e then char_of (unat b) else CHR ''.'')"

definition hex_row :: "8 word list \<Rightarrow> nat \<Rightarrow> string" where
  "hex_row bytes offset =
     padStart 8 (CHR ''0'') (hex_str offset) @ ''  '' @
     padEnd (BYTES_PER_ROW * 3 - 1) (CHR '' '') (js_join '' '' (map (\<lambda>b. padStart 2 (CHR ''0'') (hex_str (unat b))) bytes)) @
     ''  '' @ map asciiFor bytes"

function hex_rows :: "8 word list \<Rightarrow> nat \<Rightarrow> string list" where
  "hex_rows bytes offset =
     (if bytes = [] then []
      else hex_row (take BYTES_PER_ROW bytes) offset # hex_rows (drop BYTES_PER_ROW bytes) (offset + BYTES_PER_ROW))"
  by pat_completeness auto
termination by (relation "measure (length \<circ> fst)") (simp_all add: BYTES_PER_ROW_def)

definition formatHexRows :: "8 word list \<Rightarrow> nat \<Rightarrow> string" where
  "formatHexRows bytes startOffset = js_join [char_of (10::nat)] (hex_rows bytes startOffset)"

section \<open>Reading in pages\<close>

record ReadFileRangeResponse =
  rr_bytes :: "8 word list"
  rr_bytesRead :: nat
  rr_byteSize :: nat
  rr_eof :: bool

record Paged =
  pv_uri :: string
  pv_shown :: string
  pv_offset :: nat
  pv_byteSize :: "nat option"
  pv_eof :: bool
  pv_error :: "string option"
  pv_loading :: bool
  pv_calls :: "(string \<times> nat) list"

definition initial_paged :: "string \<Rightarrow> Paged" where
  "initial_paged uri =
     \<lparr>pv_uri = uri, pv_shown = [], pv_offset = 0, pv_byteSize = None, pv_eof = False, pv_error = None, pv_loading = False, pv_calls = []\<rparr>"

text \<open>What the two viewers make of a page read at an offset.\<close>

definition text_add :: "(8 word list \<Rightarrow> string) \<Rightarrow> string \<Rightarrow> 8 word list \<Rightarrow> nat \<Rightarrow> string" where
  "text_add decode prev bytes offset = prev @ decode bytes"

definition hex_add :: "string \<Rightarrow> 8 word list \<Rightarrow> nat \<Rightarrow> string" where
  "hex_add prev bytes offset = (if prev = [] then [] else prev @ [char_of (10::nat)]) @ formatHexRows bytes offset"

text \<open>\<open>r\<close> are the values of the render. \<open>pv_calls\<close> are the calls of \<open>readFileRange\<close> in flight, in the order they were
  made, with the address and offset of each; only \<open>loading\<close> of the render keeps a second one from being made.\<close>

definition loadNextPage :: "Paged \<Rightarrow> Paged \<Rightarrow> Paged" where
  "loadNextPage r p =
     (if pv_loading r \<or> pv_eof r then p
      else p\<lparr>pv_loading := True, pv_error := None, pv_calls := pv_calls p @ [(pv_uri r, pv_offset r)]\<rparr>)"

definition first_page_effect :: "Paged \<Rightarrow> Paged \<Rightarrow> Paged" where
  "first_page_effect r p = (if pv_offset r = 0 \<and> \<not> pv_eof r \<and> pv_error r \<in> {None, Some []} then loadNextPage r p else p)"

definition reset_pages :: "Paged \<Rightarrow> Paged" where
  "reset_pages p = p\<lparr>pv_shown := [], pv_offset := 0, pv_byteSize := None, pv_eof := False, pv_error := None\<rparr>"

definition page_deps :: "Paged \<Rightarrow> string \<times> nat \<times> bool \<times> string option \<times> bool" where
  "page_deps p = (pv_uri p, pv_offset p, pv_eof p, pv_error p, pv_loading p)"

text \<open>The effects after a change from \<open>p\<close> to \<open>r\<close>, and again while they change their own dependencies (twice at most).\<close>

definition page_effects :: "Paged \<Rightarrow> Paged \<Rightarrow> Paged" where
  "page_effects p r =
     (let q = (if pv_uri p \<noteq> pv_uri r then reset_pages r else r);
          q1 = (if page_deps p \<noteq> page_deps r then first_page_effect r q else q);
          q2 = (if page_deps q1 \<noteq> page_deps r then first_page_effect q1 q1 else q1)
      in if page_deps q2 \<noteq> page_deps q1 then first_page_effect q2 q2 else q2)"

datatype PageEvent =
  ShowFile string
| ScrolledToEnd
| PageSettles nat "thrown + ReadFileRangeResponse"

definition remove_nth :: "nat \<Rightarrow> 'a list \<Rightarrow> 'a list" where
  "remove_nth i xs = take i xs @ drop (Suc i) xs"

text \<open>\<open>PageSettles i\<close> is the end of the \<open>i\<close>-th call in flight: the offset added to is the one of the call. Each event
  is rendered before the next.\<close>

fun page_event :: "(string \<Rightarrow> 8 word list \<Rightarrow> nat \<Rightarrow> string) \<Rightarrow> PageEvent \<Rightarrow> Paged \<Rightarrow> Paged" where
  "page_event add (ShowFile uri) p = p\<lparr>pv_uri := uri\<rparr>"
| "page_event add ScrolledToEnd p = (if \<not> pv_loading p \<and> \<not> pv_eof p then loadNextPage p p else p)"
| "page_event add (PageSettles i result) p =
     (if length (pv_calls p) \<le> i then p
      else let offset = snd (pv_calls p ! i); p1 = p\<lparr>pv_calls := remove_nth i (pv_calls p)\<rparr>
      in case result of
           Inr resp \<Rightarrow>
             p1\<lparr>pv_shown := add (pv_shown p1) (rr_bytes resp) offset, pv_offset := offset + rr_bytesRead resp,
                pv_byteSize := Some (rr_byteSize resp), pv_eof := rr_eof resp, pv_loading := False\<rparr>
         | Inl err \<Rightarrow>
             (let normalized = normalizeIpcError err
              in p1\<lparr>pv_error := Some (operationErrorMessage (err_code normalized) (err_message normalized)),
                    pv_loading := False\<rparr>))"

definition page_step :: "(string \<Rightarrow> 8 word list \<Rightarrow> nat \<Rightarrow> string) \<Rightarrow> PageEvent \<Rightarrow> Paged \<Rightarrow> Paged" where
  "page_step add ev p = page_effects p (page_event add ev p)"

text \<open>After mounting, both effects have run, and the second one again if it changed what it depends on.\<close>

definition mount_paged :: "string \<Rightarrow> Paged" where
  "mount_paged uri =
     (let q = first_page_effect (initial_paged uri) (reset_pages (initial_paged uri))
      in if page_deps q \<noteq> page_deps (initial_paged uri) then first_page_effect q q else q)"

definition TEXT_PAGE_BYTES :: nat where "TEXT_PAGE_BYTES = 256 * 1024"

definition HEX_PAGE_BYTES :: nat where "HEX_PAGE_BYTES = 64 * 1024"

section \<open>Moving between files\<close>

definition currentIndex :: "FileEntryDto option \<Rightarrow> FileEntryDto list option \<Rightarrow> int" where
  "currentIndex entry siblings =
     (case (entry, siblings) of
        (Some e, Some ss) \<Rightarrow>
          (if list_ex (\<lambda>s. fe_uri s = fe_uri e) ss then int (length (takeWhile (\<lambda>s. fe_uri s \<noteq> fe_uri e) ss)) else - 1)
      | _ \<Rightarrow> - 1)"

definition hasPrev :: "FileEntryDto option \<Rightarrow> FileEntryDto list option \<Rightarrow> bool" where
  "hasPrev entry siblings \<longleftrightarrow> 0 < currentIndex entry siblings"

definition hasNext :: "FileEntryDto option \<Rightarrow> FileEntryDto list option \<Rightarrow> bool" where
  "hasNext entry siblings =
     (case siblings of
        Some ss \<Rightarrow> 0 \<le> currentIndex entry siblings \<and> currentIndex entry siblings < int (length ss) - 1
      | None \<Rightarrow> False)"

end
