(* ===== verification/ViewerFacts.thy ===== *)
theory ViewerFacts
  imports Viewer
begin

text \<open>
  What the viewers show: the hexadecimal viewer shows the dump of the file, page by page and in the end all of it;
  what happens when the file changes while a page or a preview is being read; both ways of choosing how to show a
  file agree.
\<close>

section \<open>Reading one file\<close>

text \<open>What the back end answers to \<open>readFileRange\<close>: it reads once from the offset on, at most \<open>len\<close> bytes. Such a read
  may deliver fewer bytes than are there (\<open>n\<close> is what it would deliver), but at least one unless the file ends there.\<close>

definition read_range :: "8 word list \<Rightarrow> nat \<Rightarrow> nat \<Rightarrow> nat \<Rightarrow> ReadFileRangeResponse" where
  "read_range file len n offset =
     (let bs = take (min len (max 1 n)) (drop offset file)
      in \<lparr>rr_bytes = bs, rr_bytesRead = length bs, rr_byteSize = length file, rr_eof = (length file \<le> offset + length bs)\<rparr>)"

text \<open>What may happen while a file is shown: scrolling to the end, or the \<open>i\<close>-th call in flight is answered by a read of
  \<open>n\<close> bytes or fails.\<close>

datatype ViewerMove = Scrolls | Answered nat nat | Refused nat thrown

definition answer_bytes :: "8 word list \<Rightarrow> nat \<Rightarrow> nat \<Rightarrow> Paged \<Rightarrow> ReadFileRangeResponse" where
  "answer_bytes file i n p = read_range file HEX_PAGE_BYTES n (snd (pv_calls p ! i))"

fun move_event :: "8 word list \<Rightarrow> Paged \<Rightarrow> ViewerMove \<Rightarrow> PageEvent" where
  "move_event file p Scrolls = ScrolledToEnd"
| "move_event file p (Answered i n) = PageSettles i (Inr (answer_bytes file i n p))"
| "move_event file p (Refused i err) = PageSettles i (Inl err)"

fun hex_run :: "8 word list \<Rightarrow> ViewerMove list \<Rightarrow> Paged \<Rightarrow> Paged" where
  "hex_run file [] p = p"
| "hex_run file (m # ms) p = hex_run file ms (page_step hex_add (move_event file p m) p)"

text \<open>The pages the answers of a run carry, in the order they arrive.\<close>

fun move_page :: "8 word list \<Rightarrow> Paged \<Rightarrow> ViewerMove \<Rightarrow> 8 word list list" where
  "move_page file p (Answered i n) = (if i < length (pv_calls p) then [rr_bytes (answer_bytes file i n p)] else [])"
| "move_page file p _ = []"

fun pages_read :: "8 word list \<Rightarrow> ViewerMove list \<Rightarrow> Paged \<Rightarrow> 8 word list list" where
  "pages_read file [] p = []"
| "pages_read file (m # ms) p = move_page file p m @ pages_read file ms (page_step hex_add (move_event file p m) p)"

text \<open>The rows of pages one after the other.\<close>

fun dump_pages :: "nat \<Rightarrow> 8 word list list \<Rightarrow> string list" where
  "dump_pages n [] = []"
| "dump_pages n (b # bs) = hex_rows b n @ dump_pages (n + length b) bs"

section \<open>Rows of a dump\<close>

declare hex_rows.simps [simp del]

lemma hex_rows_Nil [simp]: "hex_rows [] n = []"
  by (simp add: hex_rows.simps)

lemma hex_rows_eq_Nil [simp]: "hex_rows bs n = [] \<longleftrightarrow> bs = []"
  by (simp add: hex_rows.simps [of bs n])

lemma hex_rows_append:
  "16 dvd length xs \<Longrightarrow> hex_rows (xs @ ys) n = hex_rows xs n @ hex_rows ys (n + length xs)"
proof (induction xs n rule: hex_rows.induct)
  case (1 xs n)
  show ?case
  proof (cases "xs = []")
    case False
    with 1 have l: "16 \<le> length xs" by (auto dest: dvd_imp_le)
    have d: "16 dvd length (drop BYTES_PER_ROW xs)" using 1(2) l by (simp add: BYTES_PER_ROW_def dvd_diff_nat)
    have "hex_rows (xs @ ys) n = hex_row (take 16 xs) n # hex_rows (drop 16 xs @ ys) (n + 16)"
      using l False by (simp add: hex_rows.simps [of "xs @ ys"] BYTES_PER_ROW_def)
    also have "hex_rows (drop 16 xs @ ys) (n + 16) = hex_rows (drop 16 xs) (n + 16) @ hex_rows ys (n + length xs)"
      using 1(1) [OF False d] l by (simp add: BYTES_PER_ROW_def)
    finally show ?thesis using False by (simp add: hex_rows.simps [of xs] BYTES_PER_ROW_def)
  qed simp
qed

lemma js_join_append [simp]:
  "xs \<noteq> [] \<Longrightarrow> ys \<noteq> [] \<Longrightarrow> js_join s (xs @ ys) = js_join s xs @ s @ js_join s ys"
proof (induction xs)
  case (Cons x xs)
  then show ?case by (cases xs; cases ys) simp_all
qed simp

lemma hex_row_not_Nil [simp]: "hex_row bs n \<noteq> []"
  by (simp add: hex_row_def)

lemma format_eq_Nil [simp]: "formatHexRows bs n = [] \<longleftrightarrow> bs = []"
proof (cases "bs = []")
  case False
  then obtain r rs where "hex_rows bs n = r # rs" "r \<noteq> []" by (simp add: hex_rows.simps [of bs n])
  with False show ?thesis by (cases rs) (simp_all add: formatHexRows_def)
qed (simp add: formatHexRows_def)

lemma dump_pages_snoc: "dump_pages n (ps @ [b]) = dump_pages n ps @ hex_rows b (n + length (concat ps))"
  by (induction ps arbitrary: n) (simp_all add: add.assoc)

lemma dump_pages_eq_Nil: "[] \<notin> set ps \<Longrightarrow> dump_pages n ps = [] \<longleftrightarrow> ps = []"
  by (cases ps) auto

lemma dump_whole_rows:
  "\<forall>b \<in> set (butlast ps). 16 dvd length b \<Longrightarrow> dump_pages n ps = hex_rows (concat ps) n"
proof (induction ps arbitrary: n)
  case (Cons b ps)
  then show ?case by (cases "ps = []") (simp_all add: hex_rows_append)
qed simp

lemma join_eq_Nil: "[] \<notin> set xs \<Longrightarrow> js_join s xs = [] \<longleftrightarrow> xs = []"
  by (cases xs; cases "tl xs") auto

lemma dump_pages_rows: "[] \<notin> set (dump_pages n ps)"
proof (induction ps arbitrary: n)
  case (Cons b ps)
  have "[] \<notin> set (hex_rows b n)" 
    by (induction b n rule: hex_rows.induct) (subst hex_rows.simps, simp add: hex_row_not_Nil [symmetric])
  with Cons show ?case by simp
qed simp

lemma hex_add_page:
  assumes "[] \<notin> set ps" "ps = [] \<or> b \<noteq> []" "n = length (concat ps)"
  shows "hex_add (js_join [char_of (10::nat)] (dump_pages 0 ps)) b n = js_join [char_of (10::nat)] (dump_pages 0 (ps @ [b]))"
  using assms dump_pages_eq_Nil [OF assms(1), of 0] join_eq_Nil [OF dump_pages_rows, of "[char_of (10::nat)]" 0 ps]
  by (auto simp: hex_add_def formatHexRows_def dump_pages_snoc)

section \<open>The invariant of the viewer\<close>

definition dump_ok :: "8 word list \<Rightarrow> 8 word list list \<Rightarrow> Paged \<Rightarrow> bool" where
  "dump_ok file ps p \<longleftrightarrow>
     pv_shown p = js_join [char_of (10::nat)] (dump_pages 0 ps) \<and> concat ps = take (pv_offset p) file \<and>
     pv_offset p \<le> length file \<and>
     pv_calls p = (if pv_loading p then [(pv_uri p, pv_offset p)] else []) \<and>
     (if pv_eof p then pv_offset p = length file \<and> \<not> pv_loading p
      else [] \<notin> set ps \<and> (ps = [] \<or> pv_offset p < length file))"

lemma dump_ok_load: "dump_ok file ps p \<Longrightarrow> dump_ok file ps (loadNextPage p p)"
  by (simp add: loadNextPage_def dump_ok_def)

lemma dump_ok_first: "dump_ok file ps p \<Longrightarrow> dump_ok file ps (first_page_effect p p)"
  by (simp add: first_page_effect_def dump_ok_load)

lemma dump_ok_effects: "dump_ok file ps r \<Longrightarrow> pv_uri p = pv_uri r \<Longrightarrow> dump_ok file ps (page_effects p r)"
  unfolding page_effects_def Let_def by (simp add: dump_ok_first)

lemma take_read: "take (n + length (take k (drop n xs))) xs = take n xs @ take k (drop n xs)"
  by (simp add: take_add min_def)

lemma dump_ok_answered:
  assumes ok: "dump_ok file ps p" and i: "i < length (pv_calls p)"
  shows "dump_ok file (ps @ [rr_bytes (answer_bytes file i n p)]) (page_event hex_add (move_event file p (Answered i n)) p)"
proof -
  have c: "i = 0" "pv_calls p = [(pv_uri p, pv_offset p)]" using ok i by (auto simp: dump_ok_def split: if_splits)
  have f: "[] \<notin> set ps" "ps = [] \<or> pv_offset p < length file" "concat ps = take (pv_offset p) file" "pv_offset p \<le> length file"
    "pv_shown p = js_join [char_of (10::nat)] (dump_pages 0 ps)" "pv_loading p"
    using ok c(2) by (auto simp: dump_ok_def split: if_splits)
  define bs where "bs = take (min HEX_PAGE_BYTES (max 1 n)) (drop (pv_offset p) file)"
  have some: "bs \<noteq> []" if "pv_offset p < length file" using that by (simp add: bs_def HEX_PAGE_BYTES_def)
  have len: "pv_offset p + length bs \<le> length file" using f(4) by (simp add: bs_def)
  have s: "hex_add (pv_shown p) bs (pv_offset p) = js_join [char_of (10::nat)] (dump_pages 0 (ps @ [bs]))"
    unfolding f(5) by (rule hex_add_page) (use f some in auto)
  have cc: "concat (ps @ [bs]) = take (pv_offset p + length bs) file" by (simp only: concat_append concat.simps append_Nil2 f(3) bs_def take_read)
  have a: "answer_bytes file i n p = \<lparr>rr_bytes = bs, rr_bytesRead = length bs, rr_byteSize = length file,
      rr_eof = (length file \<le> pv_offset p + length bs)\<rparr>"
    by (simp add: answer_bytes_def read_range_def bs_def c)
  show ?thesis
    unfolding dump_ok_def move_event.simps page_event.simps a using s cc len some f(1) c
    by (auto simp: Let_def remove_nth_def)
qed

lemma dump_ok_step: "dump_ok file ps p \<Longrightarrow> dump_ok file (ps @ move_page file p m) (page_step hex_add (move_event file p m) p)"
proof -
  assume ok: "dump_ok file ps p"
  have u: "pv_uri (page_event hex_add (move_event file p m) p) = pv_uri p"
    by (cases m) (simp_all add: loadNextPage_def Let_def)
  have "dump_ok file (ps @ move_page file p m) (page_event hex_add (move_event file p m) p)"
  proof (cases m)
    case Scrolls
    then show ?thesis using dump_ok_load [OF ok] ok by simp
  next
    case (Answered i n)
    then show ?thesis using dump_ok_answered [OF ok] ok by (cases "i < length (pv_calls p)") simp_all
  next
    case (Refused i err)
    then show ?thesis using ok by (auto simp: Let_def dump_ok_def remove_nth_def split: if_splits)
  qed
  then show ?thesis unfolding page_step_def by (intro dump_ok_effects) (simp_all add: u)
qed

lemma mount_paged_eq: "mount_paged u = (initial_paged u)\<lparr>pv_loading := True, pv_calls := [(u, 0)]\<rparr>"
  by (simp add: mount_paged_def Let_def page_deps_def first_page_effect_def loadNextPage_def reset_pages_def initial_paged_def)

lemma dump_ok_mount: "dump_ok file [] (mount_paged u)"
  by (simp add: mount_paged_eq initial_paged_def dump_ok_def)

lemma dump_ok_run: "dump_ok file ps p \<Longrightarrow> dump_ok file (ps @ pages_read file ms p) (hex_run file ms p)"
proof (induction ms arbitrary: ps p)
  case (Cons m ms)
  from Cons.IH [OF dump_ok_step [OF Cons.prems]] show ?case by simp
qed simp

section \<open>Reading to the end\<close>

lemma page_effects_id:
  "pv_uri p = pv_uri r \<Longrightarrow> pv_eof r \<or> pv_offset r \<noteq> 0 \<or> pv_loading r \<Longrightarrow> page_effects p r = r"
  by (auto simp: page_effects_def first_page_effect_def loadNextPage_def)

lemma ended_stays:
  assumes "pv_eof p" "pv_calls p = []"
  shows "page_step hex_add (move_event file p m) p = p"
proof -
  have "page_event hex_add (move_event file p m) p = p" using assms by (cases m) simp_all
  then show ?thesis using assms by (simp add: page_step_def page_effects_id)
qed

lemma ended_run: "pv_eof p \<Longrightarrow> pv_calls p = [] \<Longrightarrow> hex_run file ms p = p"
  by (induction ms) (simp_all add: ended_stays)

abbreviation turn :: "nat \<Rightarrow> ViewerMove list" where "turn n \<equiv> [Answered 0 n, Scrolls]"

lemma one_page:
  assumes "dump_ok file ps p" "pv_loading p" "r = hex_run file (turn n) p"
  shows "pv_eof r \<or> pv_loading r \<and> pv_offset r = pv_offset p + min HEX_PAGE_BYTES (max 1 n)"
proof -
  have c: "pv_calls p = [(pv_uri p, pv_offset p)]" using assms(1,2) by (simp add: dump_ok_def)
  define bs where "bs = take (min HEX_PAGE_BYTES (max 1 n)) (drop (pv_offset p) file)"
  define q where "q = page_event hex_add (move_event file p (Answered 0 n)) p"
  have q: "pv_uri q = pv_uri p" "\<not> pv_loading q" "pv_eof q \<longleftrightarrow> length file \<le> pv_offset p + length bs"
      "pv_offset q = pv_offset p + length bs"
    by (simp_all add: q_def c answer_bytes_def read_range_def Let_def bs_def)
  then have big: "\<not> pv_eof q \<Longrightarrow> pv_offset q = pv_offset p + min HEX_PAGE_BYTES (max 1 n)" by (auto simp: bs_def)
  moreover have "0 < min HEX_PAGE_BYTES (max 1 n)" by (simp add: HEX_PAGE_BYTES_def)
  ultimately have e: "page_effects p q = q" using q(1) by (intro page_effects_id) auto
  have r: "r = page_step hex_add ScrolledToEnd q" using assms(3) e by (simp add: q_def page_step_def)
  show ?thesis
  proof (cases "pv_eof q")
    case True
    then show ?thesis using r by (simp add: page_step_def page_effects_id)
  next
    case False
    then show ?thesis using r big q(2) by (simp add: page_step_def page_effects_id loadNextPage_def)
  qed
qed

lemma turns_read:
  assumes "dump_ok file ps p" "pv_loading p"
  shows "let r = hex_run file (concat (map turn ns)) p
         in pv_eof r \<or> pv_loading r \<and> pv_offset r = pv_offset p + (\<Sum>n\<leftarrow>ns. min HEX_PAGE_BYTES (max 1 n))"
  using assms
proof (induction ns arbitrary: ps p)
  case (Cons n ns)
  let ?r = "hex_run file (turn n) p"
  have split: "hex_run file (concat (map turn (n # ns))) p = hex_run file (concat (map turn ns)) ?r" by simp
  have ok: "dump_ok file (ps @ pages_read file (turn n) p) ?r" using Cons.prems(1) by (rule dump_ok_run)
  show ?case
  proof (cases "pv_eof ?r")
    case True
    moreover from this ok have "pv_calls ?r = []" by (simp add: dump_ok_def)
    ultimately show ?thesis unfolding split by (simp add: ended_run)
  next
    case False
    with one_page [OF Cons.prems refl] have "pv_loading ?r" "pv_offset ?r = pv_offset p + min HEX_PAGE_BYTES (max 1 n)"
      by blast+
    with Cons.IH [OF ok] show ?thesis unfolding split Let_def by (simp add: add.assoc)
  qed
qed simp

text \<open>C23: However scrolling, answers and failures follow each other while one file is shown, and however few bytes a
  read delivers, the hexadecimal viewer shows the rows of the pages it has read, each byte up to its offset in one page
  and in order; so it shows the dump of exactly the bytes read so far whenever every page but the last fills its rows.
  After an answer and a scroll for each page it has read the whole file.\<close>

theorem hex_view_is_dump:
  assumes "r = hex_run file moves (mount_paged uri)" and "pages = pages_read file moves (mount_paged uri)"
  shows "pv_shown r = js_join [char_of (10::nat)] (dump_pages 0 pages) \<and> concat pages = take (pv_offset r) file \<and>
    ((\<forall>b \<in> set (butlast pages). BYTES_PER_ROW dvd length b) \<longrightarrow> pv_shown r = formatHexRows (take (pv_offset r) file) 0) \<and>
    (moves = concat (map turn ns) \<and> ns \<noteq> [] \<and> length file \<le> (\<Sum>n\<leftarrow>ns. min HEX_PAGE_BYTES (max 1 n)) \<longrightarrow>
       pv_eof r \<and> pv_offset r = length file)"
proof (intro conjI impI)
  have ok: "dump_ok file pages r" using dump_ok_run [OF dump_ok_mount] assms by fastforce
  then show sh: "pv_shown r = js_join [char_of (10::nat)] (dump_pages 0 pages)" and cc: "concat pages = take (pv_offset r) file"
    by (simp_all add: dump_ok_def)
  show "pv_shown r = formatHexRows (take (pv_offset r) file) 0" if "\<forall>b \<in> set (butlast pages). BYTES_PER_ROW dvd length b"
    using that sh cc dump_whole_rows [of pages 0] by (simp add: BYTES_PER_ROW_def formatHexRows_def)
  assume t: "moves = concat (map turn ns) \<and> ns \<noteq> [] \<and> length file \<le> (\<Sum>n\<leftarrow>ns. min HEX_PAGE_BYTES (max 1 n))"
  have m: "pv_loading (mount_paged uri)" "pv_offset (mount_paged uri) = 0"
    by (simp_all add: mount_paged_eq initial_paged_def)
  have pos: "0 < (\<Sum>n\<leftarrow>ns. min HEX_PAGE_BYTES (max 1 n))" if "ns \<noteq> []" using that
    by (cases ns) (simp_all add: HEX_PAGE_BYTES_def less_max_iff_disj)
  have "pv_eof r \<or> pv_offset r = (\<Sum>n\<leftarrow>ns. min HEX_PAGE_BYTES (max 1 n))"
    using turns_read [OF dump_ok_mount [of "file" uri] m(1), of ns] t m(2) assms(1) by (auto simp: Let_def)
  moreover have "pages = [] \<Longrightarrow> pv_offset r = 0" using cc ok by (auto simp: dump_ok_def)
  moreover have "\<not> pv_eof r \<Longrightarrow> pages = [] \<or> pv_offset r < length file" using ok by (simp add: dump_ok_def)
  moreover have "0 < (\<Sum>n\<leftarrow>ns. min HEX_PAGE_BYTES (max 1 n))" using t pos by blast
  ultimately show "pv_eof r" using t by linarith
  then show "pv_offset r = length file" using ok by (simp add: dump_ok_def)
qed

theorem hex_view_is_dump_witness:
  "pv_shown (hex_run [0, 1, 2] [Answered 0 3, Scrolls] (mount_paged ''local:///d/f'')) = formatHexRows [0, 1, 2] 0 \<and>
   pv_shown (hex_run [0, 1, 2] [Answered 0 1, Scrolls, Answered 0 9, Scrolls] (mount_paged ''local:///d/f'')) =
     js_join [char_of (10::nat)] [hex_row [0] 0, hex_row [1, 2] 1]"
proof
  have full: "pages_read [0, 1, 2] [Answered 0 3, Scrolls] (mount_paged ''local:///d/f'') = [[0, 1, 2]]"
    and part: "pages_read [0, 1, 2] [Answered 0 1, Scrolls, Answered 0 9, Scrolls] (mount_paged ''local:///d/f'') = [[0], [1, 2]]"
    by (simp_all add: answer_bytes_def read_range_def remove_nth_def page_step_def page_effects_def page_deps_def
        first_page_effect_def loadNextPage_def mount_paged_eq initial_paged_def reset_pages_def HEX_PAGE_BYTES_def)
  show "pv_shown (hex_run [0, 1, 2] [Answered 0 3, Scrolls] (mount_paged ''local:///d/f'')) = formatHexRows [0, 1, 2] 0"
    using hex_view_is_dump [OF refl refl, of "[0, 1, 2]" "[Answered 0 3, Scrolls]" "''local:///d/f''" "[3]"] unfolding full
    by (simp add: formatHexRows_def)
  show "pv_shown (hex_run [0, 1, 2] [Answered 0 1, Scrolls, Answered 0 9, Scrolls] (mount_paged ''local:///d/f'')) =
     js_join [char_of (10::nat)] [hex_row [0] 0, hex_row [1, 2] 1]"
    using hex_view_is_dump [OF refl refl, of "[0, 1, 2]" "[Answered 0 1, Scrolls, Answered 0 9, Scrolls]" "''local:///d/f''"]
    unfolding part by (simp add: hex_rows.simps BYTES_PER_ROW_def)
qed

section \<open>Another file while one is being read\<close>

text \<open>The first page of the file left is shown for the next one. When another file is shown while the first page
  of a file is being read, that page is shown under the other file, no page of the other file is asked for, and scrolling
  continues in the other file behind the end of that page.\<close>

theorem viewer_page_of_other_file:
  assumes "a \<noteq> b" "0 < rr_bytesRead resp" "\<not> rr_eof resp"
  shows "let p = page_step add (PageSettles 0 (Inr resp)) (page_step add (ShowFile b) (mount_paged a))
    in pv_uri p = b \<and> pv_shown p = add [] (rr_bytes resp) 0 \<and> pv_calls p = [] \<and>
       pv_calls (page_step add ScrolledToEnd p) = [(b, rr_bytesRead resp)]"
  using assms
  by (simp add: Let_def page_step_def page_effects_def page_deps_def first_page_effect_def loadNextPage_def mount_paged_eq
      initial_paged_def reset_pages_def remove_nth_def)

definition page_of_zeros :: ReadFileRangeResponse where
  "page_of_zeros = \<lparr>rr_bytes = [0, 0], rr_bytesRead = 2, rr_byteSize = 9, rr_eof = False\<rparr>"

theorem viewer_page_of_other_file_witness:
  "pv_shown (page_step (text_add (map (\<lambda>w. CHR ''0''))) (PageSettles 0 (Inr page_of_zeros))
     (page_step (text_add (map (\<lambda>w. CHR ''0''))) (ShowFile ''local:///b'') (mount_paged ''local:///a''))) = ''00''"
  using viewer_page_of_other_file [of "''local:///a''" "''local:///b''" page_of_zeros "text_add (map (\<lambda>w. CHR ''0''))"]
  by (simp add: Let_def page_of_zeros_def text_add_def)

section \<open>The preview panel\<close>

text \<open>A late answer is shown for another file. When the preview moves from one text file to another before the
  first is read, the answers are shown in the order they arrive: the first file's text stays under the name of the second.\<close>

theorem late_preview_shows_other_file:
  assumes "isPreviewable (Some a)" "isPreviewable (Some b)" "\<not> shouldDeferCloudDownload (Some a)"
    "\<not> shouldDeferCloudDownload (Some b)"
  shows "let p = preview_settles 0 (Inr (PreviewText s trunc n)) (preview_settles 1 (Inr (PreviewText t False m))
           (show_preview (Some b) (show_preview (Some a) initial_preview)))
    in pp_entry p = Some b \<and> pp_textContent p = Some s \<and> \<not> pp_loading p \<and> pp_error p = None"
  using assms
  by (simp add: Let_def show_preview_def load_effect_def loadContent_def preview_settles_def preview_reset_def
      initial_preview_def)

theorem late_preview_shows_other_file_witness:
  "pp_textContent (preview_settles 0 (Inr (PreviewText ''x'' False 1)) (preview_settles 1 (Inr (PreviewText ''y'' False 1))
     (show_preview (Some (sample_entry ''local:///b.txt'' ''b.txt'' KFile 1))
       (show_preview (Some (sample_entry ''local:///a.txt'' ''a.txt'' KFile 1)) initial_preview)))) = Some ''x''"
proof -
  have "isPreviewable (Some (sample_entry ''local:///a.txt'' ''a.txt'' KFile 1))"
    "isPreviewable (Some (sample_entry ''local:///b.txt'' ''b.txt'' KFile 1))"
    "\<not> shouldDeferCloudDownload (Some (sample_entry ''local:///a.txt'' ''a.txt'' KFile 1))"
    "\<not> shouldDeferCloudDownload (Some (sample_entry ''local:///b.txt'' ''b.txt'' KFile 1))" by code_simp+
  from late_preview_shows_other_file [OF this, of "''x''" False 1 "''y''" 1] show ?thesis by (simp only: Let_def)
qed

text \<open>An approval is used for the next file. After the download of a large cloud file has been approved, showing
  another one reads it at once, without asking; shown first, it is not read.\<close>

theorem approval_used_for_next_file:
  assumes "isPreviewable (Some b)" "shouldDeferCloudDownload (Some b)" "pp_cloudDownloadApproved p"
  shows "obj_get (pp_calls (show_preview (Some b) p)) (pp_nextCall p) = Some b \<and>
    pp_calls (show_preview (Some b) (p\<lparr>pp_cloudDownloadApproved := False\<rparr>)) = pp_calls p"
  using assms by (simp add: Let_def show_preview_def load_effect_def loadContent_def preview_reset_def)

definition cloud_entry :: FileEntryDto where
  "cloud_entry = sample_entry ''local:///c.txt'' ''c.txt'' KFile 20000000\<lparr>fe_isPlaceholder := True\<rparr>"

theorem approval_used_for_next_file_witness:
  "obj_get (pp_calls (show_preview (Some cloud_entry) (initial_preview\<lparr>pp_cloudDownloadApproved := True\<rparr>))) 0 = Some cloud_entry"
proof -
  have "isPreviewable (Some cloud_entry)" "shouldDeferCloudDownload (Some cloud_entry)" by code_simp+
  from approval_used_for_next_file [OF this, of "initial_preview\<lparr>pp_cloudDownloadApproved := True\<rparr>"] show ?thesis
    by (simp add: initial_preview_def)
qed

section \<open>Choosing how to show a file\<close>

lemma viewer_media_eq: "viewer_media = isMediaPreviewable"
  by (rule ext) (simp add: viewer_media_def isMediaPreviewable_def has_extension_def AUDIO_EXTENSIONS_def
      VIDEO_EXTENSIONS_def MEDIA_EXTENSIONS_def split: option.split)

lemma pdf_not_image: "isPdfPreviewable e \<Longrightarrow> \<not> isImagePreviewable e"
  by (auto simp: isPdfPreviewable_def isImagePreviewable_def has_extension_def PDF_EXTENSIONS_def IMAGE_EXTENSIONS_def
      split: option.splits)

definition viewer_of_preview :: "PreviewMode \<Rightarrow> ViewerMode" where
  "viewer_of_preview m =
     (case m of PmImage \<Rightarrow> VmImage | PmText \<Rightarrow> VmText | PmPdf \<Rightarrow> VmPdf | PmMedia \<Rightarrow> VmMedia | PmUnknown \<Rightarrow> VmHex)"

theorem viewer_and_preview_agree: "detectViewerMode (Some e) = viewer_of_preview (getPreviewMode e)"
  using pdf_not_image [of "Some e"]
  by (simp add: detectViewerMode_def getPreviewMode_def viewer_media_eq viewer_of_preview_def)

theorem viewer_neighbours:
  assumes "entry = Some e" "siblings = Some ss" "list_ex (\<lambda>s. fe_uri s = fe_uri e) ss"
  shows "0 \<le> currentIndex entry siblings" "currentIndex entry siblings < int (length ss)"
    and "fe_uri (ss ! nat (currentIndex entry siblings)) = fe_uri e"
proof -
  obtain s where s: "s \<in> set ss" "fe_uri s = fe_uri e" using assms(3) by (auto simp: list_ex_iff)
  define k where "k = length (takeWhile (\<lambda>s. fe_uri s \<noteq> fe_uri e) ss)"
  have k: "k < length ss" unfolding k_def using s(1,2) by (induction ss) auto
  have c: "currentIndex entry siblings = int k" using assms by (simp add: currentIndex_def k_def)
  have at: "fe_uri (ss ! k) = fe_uri e" using k nth_length_takeWhile [of "\<lambda>s. fe_uri s \<noteq> fe_uri e" ss] by (simp add: k_def)
  show "0 \<le> currentIndex entry siblings" "currentIndex entry siblings < int (length ss)"
    "fe_uri (ss ! nat (currentIndex entry siblings)) = fe_uri e" using c k at by simp_all
qed

end
