(* ===== verification/Connections.thy ===== *)
theory Connections
  imports NetworkDto DriveTargets
begin

text \<open>
  The dialog that edits the saved servers (\<open>components/dialogs/ConnectServerDialog.tsx\<close>) and the
  handlers behind it (\<open>hooks/useNetworkHandlers.ts\<close>). The calls of the dialog that are in flight are kept in a list; an
  event delivers a key stroke, a click or an answer. \<open>num\<close> is \<open>Number\<close> on strings, \<open>None\<close> being a value that is not finite.
\<close>

section \<open>Protocols\<close>

datatype SchemeType = Sftp | Ssh | Smb | S3 | Webdav

fun scheme_str :: "SchemeType \<Rightarrow> string" where
  "scheme_str Sftp = ''sftp''"
| "scheme_str Ssh = ''ssh''"
| "scheme_str Smb = ''smb''"
| "scheme_str S3 = ''s3''"
| "scheme_str Webdav = ''webdav''"

datatype AuthKindType = APassword | APrivateKey | AAccessKey

fun auth_str :: "AuthKindType \<Rightarrow> string" where
  "auth_str APassword = ''password''"
| "auth_str APrivateKey = ''privateKey''"
| "auth_str AAccessKey = ''accessKey''"

datatype ConnectTab = TabGeneral | TabSsh | TabSmb | TabS3 | TabTest

definition SSH_KEY_NAMES :: "string list" where
  "SSH_KEY_NAMES = [''id_ed25519'', ''id_ecdsa'', ''id_rsa'', ''id_dsa'']"

definition scheme_of :: "string \<Rightarrow> SchemeType option" where
  "scheme_of s = find (\<lambda>x. scheme_str x = s) [Sftp, Ssh, Smb, S3, Webdav]"

definition auth_of :: "string \<Rightarrow> AuthKindType option" where
  "auth_of s = find (\<lambda>x. auth_str x = s) [APassword, APrivateKey, AAccessKey]"

record NetworkProvider =
  nv_scheme :: string
  nv_label :: string
  nv_category :: string
  nv_defaultPort :: "nat option"
  nv_authKinds :: "string list"
  nv_fileCapable :: bool
  nv_terminalCapable :: bool
  nv_status :: string
  nv_missingDependency :: "string option"
  nv_supportedOptions :: "string list"

definition server_provider ::
    "string \<Rightarrow> string \<Rightarrow> nat \<Rightarrow> string list \<Rightarrow> bool \<Rightarrow> bool \<Rightarrow> string list \<Rightarrow> NetworkProvider" where
  "server_provider scheme label port kinds files terminal options =
     \<lparr>nv_scheme = scheme, nv_label = label, nv_category = ''server'', nv_defaultPort = Some port, nv_authKinds = kinds,
      nv_fileCapable = files, nv_terminalCapable = terminal, nv_status = ''available'', nv_missingDependency = None,
      nv_supportedOptions = options\<rparr>"

definition SSH_OPTIONS :: "string list" where
  "SSH_OPTIONS = [''useAgent'', ''sshConfigHost'', ''proxyJump'', ''proxyCommand'', ''keepaliveSecs'', ''compression'', ''addressFamily'']"

definition DEFAULT_PROVIDER_CAPABILITIES :: "NetworkProvider list" where
  "DEFAULT_PROVIDER_CAPABILITIES =
     [server_provider ''sftp'' ''SFTP'' 22 [''password'', ''privateKey''] True True SSH_OPTIONS,
      server_provider ''ssh'' ''SSH'' 22 [''password'', ''privateKey''] False True
        (SSH_OPTIONS @ [''terminalInitialCommand'', ''terminalEnv'']),
      server_provider ''smb'' ''SMB / CIFS'' 445 [''password''] True False [''workgroup'', ''minProtocol'', ''signingMode'', ''sharePath''],
      server_provider ''s3'' ''S3'' 443 [''accessKey''] True False [''region'', ''useTls'', ''pathStyle'', ''rootPrefix''],
      (server_provider ''webdav'' ''WebDAV'' 443 [''password''] False False [])
        \<lparr>nv_status := ''unavailable'', nv_missingDependency := Some ''WebDAV provider is not registered yet.''\<rparr>]"

definition providerFor :: "NetworkProvider list \<Rightarrow> SchemeType \<Rightarrow> NetworkProvider option" where
  "providerFor providers scheme = find (\<lambda>p. nv_scheme p = scheme_str scheme) providers"

definition defaultPort :: "SchemeType \<Rightarrow> NetworkProvider list \<Rightarrow> nat" where
  "defaultPort scheme providers =
     (case Option.bind (providerFor providers scheme) nv_defaultPort of
        Some p \<Rightarrow> p | None \<Rightarrow> if scheme = Smb then 445 else 22)"

definition defaultAuthKinds :: "SchemeType \<Rightarrow> NetworkProvider list \<Rightarrow> AuthKindType list" where
  "defaultAuthKinds scheme providers =
     (case map_option (\<lambda>p. List.map_filter auth_of (nv_authKinds p)) (providerFor providers scheme) of
        Some (k # ks) \<Rightarrow> k # ks
      | _ \<Rightarrow> if scheme = S3 then [AAccessKey] else if scheme = Sftp \<or> scheme = Ssh then [APassword, APrivateKey] else [APassword])"

definition defaultAuthKind :: "SchemeType \<Rightarrow> NetworkProvider list \<Rightarrow> AuthKindType" where
  "defaultAuthKind scheme providers = (case defaultAuthKinds scheme providers of k # _ \<Rightarrow> k | [] \<Rightarrow> APassword)"

definition protocolLabel :: "string \<Rightarrow> string" where
  "protocolLabel scheme =
     (if scheme = ''sftp'' then ''SFTP'' else if scheme = ''ssh'' then ''SSH'' else if scheme = ''smb'' then ''SMB''
      else if scheme = ''s3'' then ''S3'' else if scheme = ''webdav'' then ''WebDAV'' else js_toUpperCase scheme)"

definition providerMode :: "NetworkProvider option \<Rightarrow> string" where
  "providerMode provider =
     (case provider of
        None \<Rightarrow> ''Saved profile''
      | Some p \<Rightarrow>
          if nv_fileCapable p \<and> nv_terminalCapable p then ''Files + terminal''
          else if nv_fileCapable p then ''Files'' else if nv_terminalCapable p then ''Terminal only'' else ''Unavailable'')"

section \<open>Profiles and the form\<close>

text \<open>What the dialog sends of the options, and what is stored: the variables of terminals are only stored.\<close>

record SshOptionsInput =
  so_useAgent :: "bool option"
  so_sshConfigHost :: "string option"
  so_proxyJump :: "string option"
  so_proxyCommand :: "string option"
  so_keepaliveSecs :: "rat option option"
  so_compression :: "bool option"
  so_addressFamily :: "string option"
  so_terminalInitialCommand :: "string option"

record SshOptions = SshOptionsInput +
  so_terminalEnv :: "(string \<times> string) list"

record SmbOptions =
  mo_workgroup :: "string option"
  mo_minProtocol :: "string option"
  mo_signingMode :: "string option"
  mo_sharePath :: "string option"

record S3Options =
  to_region :: "string option"
  to_useTls :: "bool option"
  to_pathStyle :: "bool option"
  to_rootPrefix :: "string option"

record ServerProfile = NetworkProfileDto +
  sp_authKind :: string
  sp_privateKeyPath :: "string option"
  sp_defaultPath :: string
  sp_ssh :: "SshOptions option"
  sp_smb :: "SmbOptions option"
  sp_s3 :: "S3Options option"

datatype ConnectText =
  XLabel | XHost | XPort | XUsername | XPassword | XPassphrase | XPrivateKeyPath | XDefaultPath
| XSshConfigHost | XProxyJump | XProxyCommand | XKeepaliveSecs | XAddressFamily | XTerminalInitialCommand
| XWorkgroup | XMinProtocol | XSigningMode | XSharePath | XRegion | XRootPrefix

datatype ConnectFlag = XUseAgent | XCompression | XUseTls | XPathStyle

record ConnectForm =
  cf_scheme :: SchemeType
  cf_authKind :: AuthKindType
  cf_text :: "ConnectText \<Rightarrow> string"
  cf_flag :: "ConnectFlag \<Rightarrow> bool"

record ConnectDraft =
  cd_scheme :: "string option"
  cd_label :: "string option"
  cd_host :: "string option"
  cd_defaultPath :: "string option"

text \<open>The two preferences the dialog reads.\<close>

record ConnectDefaults =
  pf_networkSshKeyPath :: string
  pf_networkUseSshAgent :: bool

definition or_empty :: "string option \<Rightarrow> string" where
  "or_empty x = (case x of Some s \<Rightarrow> s | None \<Rightarrow> [])"

definition set_text :: "ConnectText \<Rightarrow> string \<Rightarrow> ConnectForm \<Rightarrow> ConnectForm" where
  "set_text x s f = f\<lparr>cf_text := (cf_text f)(x := s)\<rparr>"

definition applySchemeDefaults :: "NetworkProvider list \<Rightarrow> SchemeType \<Rightarrow> ConnectForm \<Rightarrow> ConnectForm" where
  "applySchemeDefaults providers nextScheme f =
     f\<lparr>cf_scheme := nextScheme, cf_authKind := defaultAuthKind nextScheme providers,
       cf_text := (cf_text f)(XPort := nat_str (defaultPort nextScheme providers), XDefaultPath := ''/'')\<rparr>"

definition new_connection_form :: "NetworkProvider list \<Rightarrow> ConnectDefaults \<Rightarrow> ConnectDraft option \<Rightarrow> ConnectForm" where
  "new_connection_form providers prefs draft =
     (let scheme = (case scheme_of (case Option.bind draft cd_scheme of Some s \<Rightarrow> s | None \<Rightarrow> ''sftp'') of Some s \<Rightarrow> s | None \<Rightarrow> Sftp)
      in \<lparr>cf_scheme = scheme, cf_authKind = defaultAuthKind scheme providers,
          cf_text = (\<lambda>x. case x of
              XLabel \<Rightarrow> or_empty (Option.bind draft cd_label)
            | XHost \<Rightarrow> or_empty (Option.bind draft cd_host)
            | XPort \<Rightarrow> nat_str (defaultPort scheme providers)
            | XPrivateKeyPath \<Rightarrow> pf_networkSshKeyPath prefs
            | XDefaultPath \<Rightarrow> (case Option.bind draft cd_defaultPath of Some p \<Rightarrow> p | None \<Rightarrow> ''/'')
            | XAddressFamily \<Rightarrow> ''auto''
            | XSigningMode \<Rightarrow> ''default''
            | _ \<Rightarrow> []),
          cf_flag = (\<lambda>x. case x of XUseAgent \<Rightarrow> pf_networkUseSshAgent prefs | XUseTls \<Rightarrow> True | _ \<Rightarrow> False)\<rparr>)"

text \<open>A number that is absent or zero is shown as no text.\<close>

definition keepalive_text :: "(rat \<Rightarrow> string) \<Rightarrow> rat option option \<Rightarrow> string" where
  "keepalive_text print x = (case x of Some (Some r) \<Rightarrow> if r = 0 then [] else print r | _ \<Rightarrow> [])"

definition profile_form :: "(rat \<Rightarrow> string) \<Rightarrow> NetworkProvider list \<Rightarrow> ConnectDefaults \<Rightarrow> ServerProfile \<Rightarrow> ConnectForm" where
  "profile_form print providers prefs p =
     (let scheme = (case scheme_of (np_scheme p) of Some s \<Rightarrow> s | None \<Rightarrow> Sftp);
          ssh = sp_ssh p; smb = sp_smb p; s3 = sp_s3 p
      in \<lparr>cf_scheme = scheme,
          cf_authKind =
            (case auth_of (sp_authKind p) of
               Some k \<Rightarrow> if k \<in> set (defaultAuthKinds scheme providers) then k else defaultAuthKind scheme providers
             | None \<Rightarrow> defaultAuthKind scheme providers),
          cf_text = (\<lambda>x. case x of
              XLabel \<Rightarrow> np_label p
            | XHost \<Rightarrow> np_host p
            | XPort \<Rightarrow> nat_str (np_port p)
            | XUsername \<Rightarrow> np_username p
            | XPassword \<Rightarrow> []
            | XPassphrase \<Rightarrow> []
            | XPrivateKeyPath \<Rightarrow> (case sp_privateKeyPath p of Some k \<Rightarrow> k | None \<Rightarrow> pf_networkSshKeyPath prefs)
            | XDefaultPath \<Rightarrow> (if sp_defaultPath p = [] then ''/'' else sp_defaultPath p)
            | XSshConfigHost \<Rightarrow> or_empty (Option.bind ssh so_sshConfigHost)
            | XProxyJump \<Rightarrow> or_empty (Option.bind ssh so_proxyJump)
            | XProxyCommand \<Rightarrow> or_empty (Option.bind ssh so_proxyCommand)
            | XKeepaliveSecs \<Rightarrow> keepalive_text print (Option.bind ssh so_keepaliveSecs)
            | XAddressFamily \<Rightarrow> (case Option.bind ssh so_addressFamily of Some a \<Rightarrow> a | None \<Rightarrow> ''auto'')
            | XTerminalInitialCommand \<Rightarrow> or_empty (Option.bind ssh so_terminalInitialCommand)
            | XWorkgroup \<Rightarrow> or_empty (Option.bind smb mo_workgroup)
            | XMinProtocol \<Rightarrow> or_empty (Option.bind smb mo_minProtocol)
            | XSigningMode \<Rightarrow> (case Option.bind smb mo_signingMode of Some m \<Rightarrow> m | None \<Rightarrow> ''default'')
            | XSharePath \<Rightarrow> or_empty (Option.bind smb mo_sharePath)
            | XRegion \<Rightarrow> or_empty (Option.bind s3 to_region)
            | XRootPrefix \<Rightarrow> or_empty (Option.bind s3 to_rootPrefix)),
          cf_flag = (\<lambda>x. case x of
              XUseAgent \<Rightarrow> (case Option.bind ssh so_useAgent of Some b \<Rightarrow> b | None \<Rightarrow> pf_networkUseSshAgent prefs)
            | XCompression \<Rightarrow> Option.bind ssh so_compression = Some True
            | XUseTls \<Rightarrow> Option.bind s3 to_useTls \<noteq> Some False
            | XPathStyle \<Rightarrow> Option.bind s3 to_pathStyle = Some True)\<rparr>)"

section \<open>What is sent\<close>

record ConnectPayload =
  py_id :: "string option"
  py_scheme :: SchemeType
  py_label :: string
  py_host :: string
  py_port :: "rat option"
  py_username :: string
  py_authKind :: AuthKindType
  py_privateKeyPath :: "string option"
  py_defaultPath :: string
  py_ssh :: "SshOptionsInput option"
  py_smb :: "SmbOptions option"
  py_s3 :: "S3Options option"
  py_password :: string
  py_passphrase :: string

definition trimmed_or_null :: "string \<Rightarrow> string option" where
  "trimmed_or_null s = (if js_trim s = [] then None else Some (js_trim s))"

definition ssh_input :: "(string \<Rightarrow> rat option) \<Rightarrow> ConnectForm \<Rightarrow> SshOptionsInput" where
  "ssh_input num f =
     \<lparr>so_useAgent = Some (cf_flag f XUseAgent), so_sshConfigHost = trimmed_or_null (cf_text f XSshConfigHost),
      so_proxyJump = trimmed_or_null (cf_text f XProxyJump), so_proxyCommand = trimmed_or_null (cf_text f XProxyCommand),
      so_keepaliveSecs = (if js_trim (cf_text f XKeepaliveSecs) = [] then None else Some (num (cf_text f XKeepaliveSecs))),
      so_compression = Some (cf_flag f XCompression), so_addressFamily = Some (cf_text f XAddressFamily),
      so_terminalInitialCommand = trimmed_or_null (cf_text f XTerminalInitialCommand)\<rparr>"

definition smb_input :: "ConnectForm \<Rightarrow> SmbOptions" where
  "smb_input f =
     \<lparr>mo_workgroup = trimmed_or_null (cf_text f XWorkgroup), mo_minProtocol = trimmed_or_null (cf_text f XMinProtocol),
      mo_signingMode = Some (cf_text f XSigningMode), mo_sharePath = trimmed_or_null (cf_text f XSharePath)\<rparr>"

definition s3_input :: "ConnectForm \<Rightarrow> S3Options" where
  "s3_input f =
     \<lparr>to_region = trimmed_or_null (cf_text f XRegion), to_useTls = Some (cf_flag f XUseTls),
      to_pathStyle = Some (cf_flag f XPathStyle), to_rootPrefix = trimmed_or_null (cf_text f XRootPrefix)\<rparr>"

definition buildPayload :: "(string \<Rightarrow> rat option) \<Rightarrow> ServerProfile option \<Rightarrow> ConnectForm \<Rightarrow> ConnectPayload" where
  "buildPayload num current f =
     \<lparr>py_id = map_option np_id current, py_scheme = cf_scheme f, py_label = js_trim (cf_text f XLabel),
      py_host = js_trim (cf_text f XHost), py_port = num (cf_text f XPort), py_username = js_trim (cf_text f XUsername),
      py_authKind = cf_authKind f,
      py_privateKeyPath = (if cf_authKind f = APrivateKey then Some (js_trim (cf_text f XPrivateKeyPath)) else None),
      py_defaultPath = (if js_trim (cf_text f XDefaultPath) = [] then ''/'' else js_trim (cf_text f XDefaultPath)),
      py_ssh = (if cf_scheme f = Sftp \<or> cf_scheme f = Ssh then Some (ssh_input num f) else None),
      py_smb = (if cf_scheme f = Smb then Some (smb_input f) else None),
      py_s3 = (if cf_scheme f = S3 then Some (s3_input f) else None),
      py_password = cf_text f XPassword, py_passphrase = cf_text f XPassphrase\<rparr>"

section \<open>The dialog\<close>

record TestResult =
  tr_ok :: bool
  tr_message :: string
  tr_durationMs :: "nat option"
  tr_resolvedUri :: "string option"
  tr_fingerprint :: "string option"
  tr_trustState :: "string option"
  tr_warnings :: "string list"

datatype TestState = TestIdle | Testing | Tested TestResult

datatype ConnectCall =
  TestCall
| TrustCall string
| SaveCall
| PickKeyCall ConnectForm "string set"
| DetectCall "string list"

datatype ConnectEffect =
  TestProfile string
| TestDraft ConnectPayload
| TrustFingerprint string string
| SaveProfile ConnectPayload
| ConnectProfile ServerProfile
| PickKeyPath string
| StatKeys "string list"

record ConnectDialog =
  cn_open :: bool
  cn_editing :: "ServerProfile option"
  cn_draft :: "ConnectDraft option"
  cn_networkProfiles :: "ServerProfile list"
  cn_locations :: "StandardLocationDto list"
  cn_selected :: "string option"
  cn_tab :: ConnectTab
  cn_form :: ConnectForm
  cn_test :: TestState
  cn_detected :: "string list"
  cn_detecting :: bool
  cn_localProfiles :: "ServerProfile list"
  cn_saving :: bool
  cn_error :: "string option"
  cn_invalid :: "string set"
  cn_picker :: bool
  cn_calls :: "(nat, ConnectCall) obj"
  cn_nextCall :: nat
  cn_liveDetect :: "nat option"
  cn_effects :: "ConnectEffect list"

text \<open>What does not change while the dialog is mounted.\<close>

record ConnectSetup =
  cs_num :: "string \<Rightarrow> rat option"
  cs_print :: "rat \<Rightarrow> string"
  cs_providers :: "NetworkProvider list"
  cs_prefs :: ConnectDefaults

definition currentProfile :: "ConnectDialog \<Rightarrow> ServerProfile option" where
  "currentProfile c =
     (case cn_selected c of
        Some (k # ks) \<Rightarrow>
          (case find (\<lambda>p. np_id p = k # ks) (cn_localProfiles c) of
             Some p \<Rightarrow> Some p
           | None \<Rightarrow>
               (case find (\<lambda>p. np_id p = k # ks) (cn_networkProfiles c) of
                  Some p \<Rightarrow> Some p
                | None \<Rightarrow> (case cn_editing c of Some p \<Rightarrow> if np_id p = k # ks then Some p else None | None \<Rightarrow> None)))
      | _ \<Rightarrow> None)"

fun unique_profiles :: "string list \<Rightarrow> ServerProfile list \<Rightarrow> ServerProfile list" where
  "unique_profiles seen [] = []"
| "unique_profiles seen (p # ps) =
     (if np_id p \<in> set seen then unique_profiles seen ps else p # unique_profiles (np_id p # seen) ps)"

definition profileList :: "ConnectDialog \<Rightarrow> ServerProfile list" where
  "profileList c =
     (let us = unique_profiles [] (cn_localProfiles c @ cn_networkProfiles c)
      in case cn_editing c of
           Some e \<Rightarrow> if list_ex (\<lambda>p. np_id p = np_id e) us then us else e # us
         | None \<Rightarrow> us)"

definition unavailableMessage :: "ConnectSetup \<Rightarrow> ConnectDialog \<Rightarrow> string option" where
  "unavailableMessage s c =
     (case providerFor (cs_providers s) (cf_scheme (cn_form c)) of
        Some p \<Rightarrow>
          if nv_status p = ''unavailable''
          then Some (case nv_missingDependency p of Some m \<Rightarrow> m | None \<Rightarrow> nv_label p @ '' is unavailable.'') else None
      | None \<Rightarrow> None)"

definition connect_tabs :: "SchemeType \<Rightarrow> ConnectTab list" where
  "connect_tabs scheme =
     [TabGeneral] @ (if scheme = Sftp \<or> scheme = Ssh then [TabSsh] else []) @ (if scheme = Smb then [TabSmb] else []) @
     (if scheme = S3 then [TabS3] else []) @ [TabTest]"

definition showPasswordField :: "ConnectForm \<Rightarrow> bool" where
  "showPasswordField f \<longleftrightarrow> cf_authKind f = APassword \<or> cf_authKind f = AAccessKey"

definition resetVolatileState :: "ConnectDialog \<Rightarrow> ConnectDialog" where
  "resetVolatileState c =
     c\<lparr>cn_form := (cn_form c)\<lparr>cf_text := (cf_text (cn_form c))(XPassword := [], XPassphrase := [])\<rparr>,
       cn_test := TestIdle, cn_error := None, cn_invalid := {}, cn_picker := False\<rparr>"

definition loadNewConnection :: "ConnectSetup \<Rightarrow> ConnectDraft option \<Rightarrow> ConnectDialog \<Rightarrow> ConnectDialog" where
  "loadNewConnection s draft c =
     resetVolatileState (c\<lparr>cn_selected := None, cn_form := new_connection_form (cs_providers s) (cs_prefs s) draft,
       cn_tab := TabGeneral\<rparr>)"

definition loadProfile :: "ConnectSetup \<Rightarrow> ServerProfile \<Rightarrow> ConnectDialog \<Rightarrow> ConnectDialog" where
  "loadProfile s p c =
     resetVolatileState (c\<lparr>cn_selected := Some (np_id p), cn_form := profile_form (cs_print s) (cs_providers s) (cs_prefs s) p,
       cn_tab := TabGeneral\<rparr>)"

section \<open>Checking the form\<close>

definition hostLabel :: "ConnectForm \<Rightarrow> string" where
  "hostLabel f = (if cf_scheme f = S3 then ''Endpoint URL'' else ''Host'')"

definition usernameLabel :: "ConnectForm \<Rightarrow> string" where
  "usernameLabel f = (if cf_scheme f = S3 then ''Access Key ID'' else ''Username'')"

definition passwordLabel :: "ConnectForm \<Rightarrow> string" where
  "passwordLabel f = (if cf_authKind f = AAccessKey then ''Secret Access Key'' else ''Password'')"

definition invalidFieldsMessage :: "ConnectForm \<Rightarrow> string set \<Rightarrow> string option" where
  "invalidFieldsMessage f invalid =
     (if invalid = {} then None
      else Some (''Missing or invalid: '' @ js_join '', ''
        ((if ''label'' \<in> invalid then [''Profile name''] else []) @ (if ''host'' \<in> invalid then [hostLabel f] else []) @
         (if ''port'' \<in> invalid then [''Port (1-65535)''] else []) @ (if ''username'' \<in> invalid then [usernameLabel f] else []) @
         (if ''privateKey'' \<in> invalid then [''Private key path''] else []) @
         (if ''password'' \<in> invalid then [passwordLabel f] else [])) @ ''.''))"

definition clearInvalidField :: "string list \<Rightarrow> ConnectDialog \<Rightarrow> ConnectDialog" where
  "clearInvalidField names c =
     (if cn_invalid c \<inter> set names = {} then c
      else c\<lparr>cn_invalid := cn_invalid c - set names,
             cn_error := invalidFieldsMessage (cn_form c) (cn_invalid c - set names)\<rparr>)"

definition valid_port :: "rat option \<Rightarrow> bool" where
  "valid_port port \<longleftrightarrow> (case port of Some r \<Rightarrow> 0 < r \<and> r \<le> 65535 | None \<Rightarrow> False)"

definition invalid_fields :: "ConnectSetup \<Rightarrow> ConnectDialog \<Rightarrow> string set" where
  "invalid_fields s c =
     (let f = cn_form c; t = cf_text f
      in (if js_trim (t XLabel) = [] then {''label''} else {}) \<union> (if js_trim (t XHost) = [] then {''host''} else {}) \<union>
         (if valid_port (cs_num s (t XPort)) then {} else {''port''}) \<union>
         (if js_trim (t XUsername) = [] then {''username''} else {}) \<union>
         (if cf_authKind f = APrivateKey \<and> js_trim (t XPrivateKeyPath) = [] then {''privateKey''} else {}) \<union>
         (if showPasswordField f \<and> currentProfile c = None \<and> t XPassword = [] then {''password''} else {}))"

definition validate :: "ConnectSetup \<Rightarrow> ConnectDialog \<Rightarrow> bool \<times> ConnectDialog" where
  "validate s c =
     (case unavailableMessage s c of
        Some (k # ks) \<Rightarrow> (False, c\<lparr>cn_error := Some (k # ks)\<rparr>)
      | _ \<Rightarrow>
          (let invalid = invalid_fields s c
           in if invalid \<noteq> {} then (False, c\<lparr>cn_invalid := invalid, cn_error := invalidFieldsMessage (cn_form c) invalid\<rparr>)
              else (True, c\<lparr>cn_invalid := {}, cn_error := None\<rparr>)))"

section \<open>Testing, trusting and saving\<close>

record TestResponse =
  te_ok :: bool
  te_message :: string
  te_durationMs :: nat
  te_resolvedUri :: "string option"
  te_observedFingerprint :: "string option"
  te_trustState :: string
  te_warnings :: "string list"

definition test_result :: "TestResponse \<Rightarrow> TestResult" where
  "test_result r =
     \<lparr>tr_ok = te_ok r, tr_message = te_message r, tr_durationMs = Some (te_durationMs r), tr_resolvedUri = te_resolvedUri r,
      tr_fingerprint = te_observedFingerprint r, tr_trustState = Some (te_trustState r), tr_warnings = te_warnings r\<rparr>"

definition plain_result :: "bool \<Rightarrow> string \<Rightarrow> string option \<Rightarrow> string option \<Rightarrow> TestResult" where
  "plain_result ok message fingerprint trust =
     \<lparr>tr_ok = ok, tr_message = message, tr_durationMs = None, tr_resolvedUri = None, tr_fingerprint = fingerprint,
      tr_trustState = trust, tr_warnings = []\<rparr>"

text \<open>The message of an \<open>Error\<close>, or the text for anything else that was thrown.\<close>

fun error_message :: "string \<Rightarrow> thrown \<Rightarrow> string" where
  "error_message other (ThrownErrorObject c m) = m"
| "error_message other _ = other"

definition start_call :: "ConnectCall \<Rightarrow> ConnectEffect \<Rightarrow> ConnectDialog \<Rightarrow> ConnectDialog" where
  "start_call call effect c =
     c\<lparr>cn_calls := obj_set (cn_nextCall c) call (cn_calls c), cn_nextCall := Suc (cn_nextCall c), cn_effects := cn_effects c @ [effect]\<rparr>"

definition runTest :: "ConnectSetup \<Rightarrow> ConnectDialog \<Rightarrow> ConnectDialog" where
  "runTest s c =
     (let (ok, c1) = validate s c
      in if \<not> ok then c1\<lparr>cn_tab := TabGeneral\<rparr>
         else (case currentProfile c of
                 Some p \<Rightarrow> start_call TestCall (TestProfile (np_id p)) (c1\<lparr>cn_test := Testing, cn_tab := TabTest\<rparr>)
               | None \<Rightarrow>
                   start_call TestCall (TestDraft (buildPayload (cs_num s) None (cn_form c)))
                     (c1\<lparr>cn_test := Testing, cn_tab := TabTest\<rparr>)))"

definition trustObservedFingerprint :: "ConnectDialog \<Rightarrow> ConnectDialog" where
  "trustObservedFingerprint c =
     (case (currentProfile c, cn_test c) of
        (Some p, Tested r) \<Rightarrow>
          (case tr_fingerprint r of
             Some (k # ks) \<Rightarrow> start_call (TrustCall (k # ks)) (TrustFingerprint (np_id p) (k # ks)) (c\<lparr>cn_test := Testing\<rparr>)
           | _ \<Rightarrow> c)
      | _ \<Rightarrow> c)"

definition trust_offered :: "ConnectDialog \<Rightarrow> bool" where
  "trust_offered c \<longleftrightarrow> currentProfile c \<noteq> None \<and>
     (case cn_test c of
        Tested r \<Rightarrow> or_empty (tr_fingerprint r) \<noteq> [] \<and> tr_trustState r \<in> {Some ''untrusted'', Some ''mismatch''}
      | _ \<Rightarrow> False)"

definition handleSubmit :: "ConnectSetup \<Rightarrow> ConnectDialog \<Rightarrow> ConnectDialog" where
  "handleSubmit s c =
     (let (ok, c1) = validate s c
      in if \<not> ok then c1\<lparr>cn_tab := TabGeneral\<rparr>
         else start_call SaveCall (SaveProfile (buildPayload (cs_num s) (currentProfile c) (cn_form c))) (c1\<lparr>cn_saving := True\<rparr>))"

definition saved_profile :: "ConnectSetup \<Rightarrow> ServerProfile \<Rightarrow> ConnectDialog \<Rightarrow> ConnectDialog" where
  "saved_profile s p c =
     (loadProfile s p (c\<lparr>cn_localProfiles := p # filter (\<lambda>q. np_id q \<noteq> np_id p) (cn_localProfiles c)\<rparr>))\<lparr>cn_saving := False\<rparr>"

definition handleSchemeChange :: "ConnectSetup \<Rightarrow> SchemeType \<Rightarrow> ConnectDialog \<Rightarrow> ConnectDialog" where
  "handleSchemeChange s scheme c =
     (case providerFor (cs_providers s) scheme of
        Some p \<Rightarrow>
          if nv_status p = ''unavailable'' then c
          else c\<lparr>cn_form := applySchemeDefaults (cs_providers s) scheme (cn_form c), cn_test := TestIdle\<rparr>
      | None \<Rightarrow> c\<lparr>cn_form := applySchemeDefaults (cs_providers s) scheme (cn_form c), cn_test := TestIdle\<rparr>)"

section \<open>Keys of the user\<close>

definition home_location :: "StandardLocationDto list \<Rightarrow> StandardLocationDto option" where
  "home_location locations =
     (case find (\<lambda>l. sl_id l = ''home'') locations of
        Some l \<Rightarrow> Some l
      | None \<Rightarrow> find (\<lambda>l. sl_section l = ''Favorites'' \<and> js_toLowerCase (sl_name l) = ''home'') locations)"

definition detect_deps :: "ConnectDialog \<Rightarrow> StandardLocationDto list \<times> bool \<times> string \<times> SchemeType" where
  "detect_deps c = (cn_locations c, cn_open c, cf_text (cn_form c) XPrivateKeyPath, cf_scheme (cn_form c))"

text \<open>The effect that looks for keys: \<open>r\<close> are the values of its render. Its last run is cancelled first.\<close>

definition detect_effect :: "ConnectDialog \<Rightarrow> ConnectDialog \<Rightarrow> ConnectDialog" where
  "detect_effect r c =
     (let c1 = c\<lparr>cn_liveDetect := None\<rparr>
      in if \<not> cn_open r \<or> (cf_scheme (cn_form r) \<noteq> Sftp \<and> cf_scheme (cn_form r) \<noteq> Ssh) then c1
         else case home_location (cn_locations r) of
           Some l \<Rightarrow>
             if js_startsWith (sl_uri l) ''local://''
             then (let uris = map (\<lambda>n. strip_slashes (sl_uri l) @ ''/.ssh/'' @ n) SSH_KEY_NAMES
                   in (start_call (DetectCall uris) (StatKeys uris) (c1\<lparr>cn_detecting := True\<rparr>))
                      \<lparr>cn_liveDetect := Some (cn_nextCall c1)\<rparr>)
             else c1
         | None \<Rightarrow> c1)"

definition keys_found :: "nat \<Rightarrow> string list \<Rightarrow> string list \<Rightarrow> ConnectDialog \<Rightarrow> ConnectDialog" where
  "keys_found n uris files c =
     (if cn_liveDetect c \<noteq> Some n then c
      else (let detected = filter (\<lambda>k. k \<noteq> []) (map displayPathFromUri (filter (\<lambda>u. u \<in> set files) uris));
                c1 = c\<lparr>cn_detected := detected, cn_detecting := False\<rparr>
            in case detected of
                 k # _ \<Rightarrow> if cf_text (cn_form c) XPrivateKeyPath = [] then c1\<lparr>cn_form := set_text XPrivateKeyPath k (cn_form c)\<rparr> else c1
               | [] \<Rightarrow> c1))"

section \<open>Events\<close>

datatype ConnectAnswer =
  TestAnswered "thrown + TestResponse"
| TrustAnswered "thrown + unit"
| SaveAnswered "thrown + ServerProfile"
| KeyPicked "string option"
| KeyFiles "string list"

datatype ConnectEvent =
  OpenDialog "ServerProfile option" "ConnectDraft option"
| CloseDialog
| ProfilesRefreshed "ServerProfile list"
| EditText ConnectText string
| EditFlag ConnectFlag bool
| ChooseScheme SchemeType
| ChooseAuth AuthKindType
| PickSaved ServerProfile
| NewConnection
| ShowTab ConnectTab
| PressTest
| PressTrust
| PressSave
| PressConnect
| BrowseKey
| BrowsePath
| PathChosen string
| Answered nat ConnectAnswer

fun field_of :: "ConnectText \<Rightarrow> string list" where
  "field_of XLabel = [''label'']"
| "field_of XHost = [''host'']"
| "field_of XPort = [''port'']"
| "field_of XUsername = [''username'']"
| "field_of XPassword = [''password'']"
| "field_of XPrivateKeyPath = [''privateKey'']"
| "field_of _ = []"

fun call_answered :: "ConnectSetup \<Rightarrow> ConnectCall \<Rightarrow> nat \<Rightarrow> ConnectAnswer \<Rightarrow> ConnectDialog \<Rightarrow> ConnectDialog" where
  "call_answered s TestCall n (TestAnswered (Inr r)) c = c\<lparr>cn_test := Tested (test_result r)\<rparr>"
| "call_answered s TestCall n (TestAnswered (Inl e)) c =
     c\<lparr>cn_test := Tested (plain_result False (error_message ''Connection test failed.'' e) None None)\<rparr>"
| "call_answered s (TrustCall fp) n (TrustAnswered (Inr u)) c =
     c\<lparr>cn_test := Tested (plain_result True ''Host key trusted. Run Test again to authenticate.'' (Some fp) (Some ''trusted''))\<rparr>"
| "call_answered s (TrustCall fp) n (TrustAnswered (Inl e)) c =
     c\<lparr>cn_test := Tested (plain_result False (error_message ''Failed to trust the SSH host key.'' e) (Some fp) (Some ''untrusted''))\<rparr>"
| "call_answered s SaveCall n (SaveAnswered (Inr p)) c = saved_profile s p c"
| "call_answered s SaveCall n (SaveAnswered (Inl e)) c =
     c\<lparr>cn_error := Some (error_message ''Failed to save connection.'' e), cn_saving := False\<rparr>"
| "call_answered s (PickKeyCall f invalid) n (KeyPicked (Some (k # ks))) c =
     (let c1 = c\<lparr>cn_form := set_text XPrivateKeyPath (k # ks) (cn_form c)\<rparr>
      in if ''privateKey'' \<in> invalid
         then c1\<lparr>cn_invalid := invalid - {''privateKey''}, cn_error := invalidFieldsMessage f (invalid - {''privateKey''})\<rparr> else c1)"
| "call_answered s (DetectCall uris) n (KeyFiles files) c = keys_found n uris files c"
| "call_answered s _ n _ c = c"

fun connect_event :: "ConnectSetup \<Rightarrow> ConnectEvent \<Rightarrow> ConnectDialog \<Rightarrow> ConnectDialog" where
  "connect_event s (OpenDialog editing draft) c = c\<lparr>cn_open := True, cn_editing := editing, cn_draft := draft\<rparr>"
| "connect_event s CloseDialog c = c\<lparr>cn_open := False, cn_editing := None, cn_draft := None\<rparr>"
| "connect_event s (ProfilesRefreshed ps) c = c\<lparr>cn_networkProfiles := ps\<rparr>"
| "connect_event s (EditText x t) c =
     clearInvalidField (field_of x) (c\<lparr>cn_form := set_text x t (cn_form c)\<rparr>)"
| "connect_event s (EditFlag x b) c = c\<lparr>cn_form := (cn_form c)\<lparr>cf_flag := (cf_flag (cn_form c))(x := b)\<rparr>\<rparr>"
| "connect_event s (ChooseScheme scheme) c = (if currentProfile c = None then handleSchemeChange s scheme c else c)"
| "connect_event s (ChooseAuth kind) c =
     (if kind \<in> set (defaultAuthKinds (cf_scheme (cn_form c)) (cs_providers s))
      then clearInvalidField [''password'', ''privateKey''] (c\<lparr>cn_form := (cn_form c)\<lparr>cf_authKind := kind\<rparr>\<rparr>) else c)"
| "connect_event s (PickSaved p) c = (if p \<in> set (profileList c) then loadProfile s p c else c)"
| "connect_event s NewConnection c = loadNewConnection s (cn_draft c) c"
| "connect_event s (ShowTab tab) c = (if tab \<in> set (connect_tabs (cf_scheme (cn_form c))) then c\<lparr>cn_tab := tab\<rparr> else c)"
| "connect_event s PressTest c = (if cn_test c = Testing \<or> or_empty (unavailableMessage s c) \<noteq> [] then c else runTest s c)"
| "connect_event s PressTrust c = (if trust_offered c then trustObservedFingerprint c else c)"
| "connect_event s PressSave c = (if cn_saving c \<or> or_empty (unavailableMessage s c) \<noteq> [] then c else handleSubmit s c)"
| "connect_event s PressConnect c =
     (case currentProfile c of Some p \<Rightarrow> c\<lparr>cn_effects := cn_effects c @ [ConnectProfile p]\<rparr> | None \<Rightarrow> c)"
| "connect_event s BrowseKey c =
     start_call (PickKeyCall (cn_form c) (cn_invalid c)) (PickKeyPath (cf_text (cn_form c) XPrivateKeyPath)) c"
| "connect_event s BrowsePath c = c\<lparr>cn_picker := True\<rparr>"
| "connect_event s (PathChosen uri) c =
     (case remotePathFromUri uri of
        Some (k # ks) \<Rightarrow> c\<lparr>cn_form := set_text XDefaultPath (k # ks) (cn_form c), cn_picker := False\<rparr>
      | _ \<Rightarrow> c\<lparr>cn_picker := False\<rparr>)"
| "connect_event s (Answered n a) c =
     (case obj_get (cn_calls c) n of
        Some call \<Rightarrow> call_answered s call n a (c\<lparr>cn_calls := obj_del n (cn_calls c)\<rparr>)
      | None \<Rightarrow> c)"

text \<open>The effects after an event that made \<open>q\<close> of \<open>p\<close>, and again when they changed what they depend on.\<close>

definition open_effect :: "ConnectSetup \<Rightarrow> ConnectDialog \<Rightarrow> ConnectDialog \<Rightarrow> ConnectDialog" where
  "open_effect s p q =
     (if (cn_editing p, cn_draft p, cn_open p) = (cn_editing q, cn_draft q, cn_open q) then q
      else if \<not> cn_open q then q\<lparr>cn_localProfiles := []\<rparr>
      else (case cn_editing q of Some e \<Rightarrow> loadProfile s e q | None \<Rightarrow> loadNewConnection s (cn_draft q) q))"

definition tab_effect :: "ConnectDialog \<Rightarrow> ConnectDialog" where
  "tab_effect c = (if cn_tab c \<in> set (connect_tabs (cf_scheme (cn_form c))) then c else c\<lparr>cn_tab := TabGeneral\<rparr>)"

definition connect_effects :: "ConnectSetup \<Rightarrow> ConnectDialog \<Rightarrow> ConnectDialog \<Rightarrow> ConnectDialog" where
  "connect_effects s p q =
     (let c1 = open_effect s p q;
          c2 = tab_effect (if detect_deps p = detect_deps q then c1 else detect_effect q c1)
      in if detect_deps q = detect_deps c2 then c2 else detect_effect c2 c2)"

definition connect_step :: "ConnectSetup \<Rightarrow> ConnectEvent \<Rightarrow> ConnectDialog \<Rightarrow> ConnectDialog" where
  "connect_step s ev c = connect_effects s c (connect_event s ev c)"

definition connect_run :: "ConnectSetup \<Rightarrow> ConnectEvent list \<Rightarrow> ConnectDialog \<Rightarrow> ConnectDialog" where
  "connect_run s evs c = fold (connect_step s) evs c"

definition closed_dialog :: "ConnectSetup \<Rightarrow> ServerProfile list \<Rightarrow> StandardLocationDto list \<Rightarrow> ConnectDialog" where
  "closed_dialog s profiles locations =
     \<lparr>cn_open = False, cn_editing = None, cn_draft = None, cn_networkProfiles = profiles, cn_locations = locations,
      cn_selected = None, cn_tab = TabGeneral,
      cn_form = \<lparr>cf_scheme = Sftp, cf_authKind = APassword,
        cf_text = (\<lambda>x. case x of XPort \<Rightarrow> ''22'' | XDefaultPath \<Rightarrow> ''/'' | XAddressFamily \<Rightarrow> ''auto'' | XSigningMode \<Rightarrow> ''default'' | _ \<Rightarrow> []),
        cf_flag = (\<lambda>x. x = XUseTls)\<rparr>,
      cn_test = TestIdle, cn_detected = [], cn_detecting = False, cn_localProfiles = [], cn_saving = False, cn_error = None,
      cn_invalid = {}, cn_picker = False, cn_calls = [], cn_nextCall = 0, cn_liveDetect = None, cn_effects = []\<rparr>"

section \<open>The handlers behind the dialog\<close>

datatype NetworkCall =
  NConnect string
| NDisconnect string
| NTest string
| NDelete string
| NForget string
| NTrust string string
| NUpdate ConnectPayload
| NAdd ConnectPayload
| NSecret string string string
| NRefreshProfiles
| NOperationError "string option"

record NetworkClient =
  nk_store :: "NetworkCall \<Rightarrow> thrown + ServerProfile"
  nk_do :: "NetworkCall \<Rightarrow> thrown + unit"

text \<open>One call, then the list of profiles again; a rejection is shown and thrown on.\<close>

definition simple_call :: "NetworkClient \<Rightarrow> NetworkCall \<Rightarrow> NetworkCall list \<times> (thrown + unit)" where
  "simple_call client call =
     (case nk_do client call of
        Inl e \<Rightarrow> ([NOperationError None, call, NOperationError (Some (err_message (normalizeIpcError e)))], Inl e)
      | Inr _ \<Rightarrow>
          (case nk_do client NRefreshProfiles of
             Inl e \<Rightarrow> ([NOperationError None, call, NRefreshProfiles, NOperationError (Some (err_message (normalizeIpcError e)))], Inl e)
           | Inr _ \<Rightarrow> ([NOperationError None, call, NRefreshProfiles], Inr ())))"

definition profile_secrets :: "ConnectPayload \<Rightarrow> string \<Rightarrow> NetworkCall list" where
  "profile_secrets y i =
     (if py_authKind y = APassword \<and> py_password y \<noteq> [] then [NSecret i ''password'' (py_password y)] else []) @
     (if py_authKind y = APrivateKey \<and> py_passphrase y \<noteq> [] then [NSecret i ''passphrase'' (py_passphrase y)] else []) @
     (if py_authKind y = AAccessKey \<and> py_password y \<noteq> [] then [NSecret i ''password'' (py_password y)] else [])"

text \<open>Calls in order, up to the first that is refused.\<close>

fun calls_in_order :: "NetworkClient \<Rightarrow> NetworkCall list \<Rightarrow> NetworkCall list \<times> thrown option" where
  "calls_in_order client [] = ([], None)"
| "calls_in_order client (x # xs) =
     (case nk_do client x of
        Inl e \<Rightarrow> ([x], Some e)
      | Inr _ \<Rightarrow> (let (ys, e) = calls_in_order client xs in (x # ys, e)))"

definition saveProfile :: "NetworkClient \<Rightarrow> ConnectPayload \<Rightarrow> NetworkCall list \<times> (thrown + ServerProfile)" where
  "saveProfile client y =
     (let store = (if or_empty (py_id y) \<noteq> [] then NUpdate y else NAdd y)
      in case nk_store client store of
           Inl e \<Rightarrow>
             (let m = err_message (normalizeIpcError e)
              in ([NOperationError None, store, NOperationError (Some m)], Inl (ThrownErrorObject None m)))
         | Inr p \<Rightarrow>
             (case calls_in_order client (profile_secrets y (np_id p) @ [NRefreshProfiles]) of
                (calls, None) \<Rightarrow> ([NOperationError None, store] @ calls, Inr p)
              | (calls, Some e) \<Rightarrow>
                  (let m = err_message (normalizeIpcError e)
                   in ([NOperationError None, store] @ calls @ [NOperationError (Some m)], Inl (ThrownErrorObject None m)))))"

text \<open>The profiles marked as busy while an operation runs.\<close>

datatype BusyEvent = BusyBegins string | BusyEnds string

fun busy_step :: "BusyEvent \<Rightarrow> string set \<Rightarrow> string set" where
  "busy_step (BusyBegins i) busy = insert i busy"
| "busy_step (BusyEnds i) busy = busy - {i}"

end
