(* ===== verification/ConnectionsFacts.thy ===== *)
theory ConnectionsFacts
  imports Connections
begin

text \<open>
  What the connections dialog sends: only checked forms, and from a saved profile what was saved; and two ways in which
  an answer that arrives late or a refusal in the middle goes wrong.
\<close>

section \<open>Effects\<close>

definition valid_payload :: "ConnectPayload \<Rightarrow> bool" where
  "valid_payload y \<longleftrightarrow> py_label y \<noteq> [] \<and> py_host y \<noteq> [] \<and> py_username y \<noteq> [] \<and> valid_port (py_port y) \<and>
     py_privateKeyPath y \<noteq> Some [] \<and> (py_authKind y = APrivateKey \<longleftrightarrow> py_privateKeyPath y \<noteq> None) \<and>
     (py_id y \<noteq> None \<or> py_authKind y = APrivateKey \<or> py_password y \<noteq> [])"

definition effect_valid :: "ConnectEffect \<Rightarrow> bool" where
  "effect_valid e = (case e of SaveProfile y \<Rightarrow> valid_payload y | TestDraft y \<Rightarrow> valid_payload y | _ \<Rightarrow> True)"

lemma validate_payload:
  "fst (validate s c) \<Longrightarrow> valid_payload (buildPayload (cs_num s) (currentProfile c) (cn_form c))"
  by (auto simp: validate_def invalid_fields_def Let_def valid_payload_def buildPayload_def showPasswordField_def
      split: option.splits list.splits if_splits) (metis AuthKindType.exhaust)+

lemma validate_frame:
  "cn_effects (snd (validate s c)) = cn_effects c" "cn_form (snd (validate s c)) = cn_form c"
  "cn_calls (snd (validate s c)) = cn_calls c" "cn_nextCall (snd (validate s c)) = cn_nextCall c"
  "currentProfile (snd (validate s c)) = currentProfile c" "cn_locations (snd (validate s c)) = cn_locations c"
  "cn_open (snd (validate s c)) = cn_open c" "cn_editing (snd (validate s c)) = cn_editing c"
  "cn_draft (snd (validate s c)) = cn_draft c" "cn_selected (snd (validate s c)) = cn_selected c"
  "cn_localProfiles (snd (validate s c)) = cn_localProfiles c" "cn_networkProfiles (snd (validate s c)) = cn_networkProfiles c"
  by (auto simp: validate_def Let_def currentProfile_def split: option.splits list.splits)

definition grows :: "ConnectDialog \<Rightarrow> ConnectDialog \<Rightarrow> bool" where
  "grows p q \<longleftrightarrow> (\<exists>new. cn_effects q = cn_effects p @ new \<and> list_all effect_valid new)"

lemma grows_refl: "cn_effects q = cn_effects p \<Longrightarrow> grows p q"
  by (simp add: grows_def)

lemma grows_trans: "grows p q \<Longrightarrow> grows q r \<Longrightarrow> grows p r"
  by (auto simp: grows_def)

lemma grows_start: "cn_effects q = cn_effects p \<Longrightarrow> effect_valid e \<Longrightarrow> grows p (start_call k e q)"
  by (simp add: grows_def start_call_def)

lemma load_effects [simp]:
  "cn_effects (loadProfile s p c) = cn_effects c" "cn_effects (loadNewConnection s d c) = cn_effects c"
  by (simp_all add: loadProfile_def loadNewConnection_def resetVolatileState_def)

lemma clear_effects [simp]: "cn_effects (clearInvalidField fs c) = cn_effects c"
  by (simp add: clearInvalidField_def)

lemma runTest_grows: "grows c (runTest s c)"
proof (cases "fst (validate s c)")
  case True
  then have v: "valid_payload (buildPayload (cs_num s) (currentProfile c) (cn_form c))" by (rule validate_payload)
  show ?thesis
    using True v validate_frame [of s c]
    by (cases "validate s c"; cases "currentProfile c")
       (auto simp: runTest_def Let_def effect_valid_def intro!: grows_start)
next
  case False
  then show ?thesis using validate_frame(1) [of s c]
    by (cases "validate s c") (simp add: runTest_def Let_def grows_refl)
qed

lemma submit_grows: "grows c (handleSubmit s c)"
proof (cases "fst (validate s c)")
  case True
  with validate_payload [OF True] validate_frame [of s c] show ?thesis
    by (cases "validate s c") (auto simp: handleSubmit_def Let_def effect_valid_def intro!: grows_start)
next
  case False
  then show ?thesis using validate_frame(1) [of s c]
    by (cases "validate s c") (simp add: handleSubmit_def Let_def grows_refl)
qed

lemma detect_grows: "grows c (detect_effect r c)"
  by (auto simp: detect_effect_def Let_def grows_def start_call_def effect_valid_def split: option.splits)

lemma tab_effects [simp]: "cn_effects (tab_effect c) = cn_effects c"
  by (simp add: tab_effect_def)

lemma open_effects [simp]: "cn_effects (open_effect s p q) = cn_effects q"
  by (simp add: open_effect_def split: option.splits)

lemma effects_grow: "grows q (connect_effects s p q)"
proof -
  have a: "grows q (tab_effect (if b then open_effect s p q else detect_effect q (open_effect s p q)))" for b
    using detect_grows [of "open_effect s p q" q] by (auto simp: grows_def)
  show ?thesis unfolding connect_effects_def Let_def
    by (cases "detect_deps p = detect_deps q")
       (auto intro: a [of True, simplified] a [of False, simplified] grows_trans [OF _ detect_grows] simp: grows_refl)
qed

lemma answered_effects: "cn_effects (call_answered s k n a c) = cn_effects c"
  by (cases "(s, k, n, a, c)" rule: call_answered.cases)
     (simp_all add: saved_profile_def keys_found_def Let_def split: list.split)

lemma scheme_effects [simp]: "cn_effects (handleSchemeChange s k c) = cn_effects c"
  by (simp add: handleSchemeChange_def split: option.split)

lemma event_grows: "grows c (connect_event s ev c)"
proof (cases ev)
  case PressTest
  then show ?thesis using runTest_grows by (simp add: grows_refl)
next
  case PressSave
  then show ?thesis using submit_grows by (simp add: grows_refl)
next
  case PressTrust
  then show ?thesis
    by (auto simp: grows_refl trustObservedFingerprint_def effect_valid_def intro!: grows_start
        split: option.split TestState.split list.split)
next
  case PressConnect
  then show ?thesis by (auto simp: grows_def effect_valid_def split: option.split)
next
  case BrowseKey
  then show ?thesis by (simp add: grows_start effect_valid_def)
next
  case (Answered n a)
  then show ?thesis by (auto simp: grows_refl answered_effects split: option.split)
next
  case (PathChosen uri)
  then show ?thesis by (auto simp: grows_refl split: option.split list.split)
qed (auto simp: grows_refl)

text \<open>C10: only checked forms are sent. Whatever happens in the connections dialog, every profile that it saves and every draft that it
  tests has a name, a host, a user and a port between one and 65535, a key path exactly when it signs in by key, and, when it
  is new and does not sign in by key, a password.\<close>

theorem only_valid_connections_sent:
  "\<exists>new. cn_effects (connect_step s ev c) = cn_effects c @ new \<and>
     list_all (\<lambda>e. case e of SaveProfile y \<Rightarrow> valid_payload y | TestDraft y \<Rightarrow> valid_payload y | _ \<Rightarrow> True) new"
  using grows_trans [OF event_grows [of c s ev] effects_grow [of _ s c]] unfolding connect_step_def grows_def effect_valid_def by blast

section \<open>Opening a saved profile\<close>

text \<open>What the back end keeps of a payload.\<close>

definition profile_keeps :: "ServerProfile \<Rightarrow> ConnectPayload \<Rightarrow> bool" where
  "profile_keeps p y \<longleftrightarrow>
     np_label p = py_label y \<and> np_host p = py_host y \<and> py_port y = Some (of_nat (np_port p)) \<and> np_username p = py_username y \<and>
     np_scheme p = scheme_str (py_scheme y) \<and> sp_authKind p = auth_str (py_authKind y) \<and>
     sp_privateKeyPath p = py_privateKeyPath y \<and> sp_defaultPath p = py_defaultPath y \<and>
     map_option SshOptionsInput.truncate (sp_ssh p) = py_ssh y \<and> sp_smb p = py_smb y \<and> sp_s3 p = py_s3 y"

text \<open>The numbers of a profile are read as they are printed.\<close>

definition numbers_ok :: "ConnectSetup \<Rightarrow> ServerProfile \<Rightarrow> bool" where
  "numbers_ok s p \<longleftrightarrow> cs_num s (nat_str (np_port p)) = Some (of_nat (np_port p)) \<and>
     (case Option.bind (sp_ssh p) so_keepaliveSecs of
        Some (Some r) \<Rightarrow> cs_num s (cs_print s r) = Some r \<and> js_trim (cs_print s r) \<noteq> []
      | _ \<Rightarrow> True)"

text \<open>A keep-alive of no seconds, or one that was no number and is kept as null, is not shown again.\<close>

definition shown_seconds :: "SshOptionsInput \<Rightarrow> SshOptionsInput" where
  "shown_seconds x = x\<lparr>so_keepaliveSecs :=
     (case so_keepaliveSecs x of Some (Some r) \<Rightarrow> if r = 0 then None else Some (Some r) | _ \<Rightarrow> None)\<rparr>"

lemma scheme_of_str [simp]: "scheme_of (scheme_str x) = Some x"
  by (cases x) (simp_all add: scheme_of_def)

lemma auth_of_str [simp]: "auth_of (auth_str x) = Some x"
  by (cases x) (simp_all add: auth_of_def)

lemma js_trim_Nil [simp]: "js_trim [] = []"
  by (simp add: js_trim_def trim_end_def)

lemma trimmed_again [simp]: "trimmed_or_null (or_empty (trimmed_or_null t)) = trimmed_or_null t"
  by (simp add: trimmed_or_null_def or_empty_def js_trim_idem)

lemma ssh_again:
  assumes "numbers_ok s p" "sp_ssh p = Some o'" "SshOptionsInput.truncate o' = ssh_input (cs_num s) f"
  shows "ssh_input (cs_num s) (profile_form (cs_print s) providers prefs p) = shown_seconds (ssh_input (cs_num s) f)"
proof -
  have o': "so_useAgent o' = so_useAgent (ssh_input (cs_num s) f)" "so_sshConfigHost o' = so_sshConfigHost (ssh_input (cs_num s) f)"
    "so_proxyJump o' = so_proxyJump (ssh_input (cs_num s) f)" "so_proxyCommand o' = so_proxyCommand (ssh_input (cs_num s) f)"
    "so_keepaliveSecs o' = so_keepaliveSecs (ssh_input (cs_num s) f)" "so_compression o' = so_compression (ssh_input (cs_num s) f)"
    "so_addressFamily o' = so_addressFamily (ssh_input (cs_num s) f)"
    "so_terminalInitialCommand o' = so_terminalInitialCommand (ssh_input (cs_num s) f)"
    unfolding assms(3) [symmetric] by (simp_all add: SshOptionsInput.truncate_def)
  show ?thesis
    using assms(1)
    by (auto simp: ssh_input_def profile_form_def Let_def assms(2) o' keepalive_text_def numbers_ok_def shown_seconds_def
        split: if_splits option.splits)
qed

text \<open>C30: a saved connection is opened as it was saved. When the dialog opens a profile that keeps what it sent for a form whose
  way of signing in is one of those offered for its scheme, it would send the same again, under the id of the profile and
  without the secrets, except that a keep-alive of 0 seconds, or one that was no number, becomes none. Numbers are assumed to
  be read as they are printed.\<close>

theorem saved_connection_reopens:
  assumes "numbers_ok s p" "cf_authKind f \<in> set (defaultAuthKinds (cf_scheme f) (cs_providers s))"
    and "profile_keeps p (buildPayload (cs_num s) current f)"
  shows "buildPayload (cs_num s) (Some p) (profile_form (cs_print s) (cs_providers s) prefs p) =
    (buildPayload (cs_num s) current f)\<lparr>py_id := Some (np_id p), py_password := [], py_passphrase := [],
       py_ssh := map_option shown_seconds (py_ssh (buildPayload (cs_num s) current f))\<rparr>"
proof -
  let ?y = "buildPayload (cs_num s) current f"
  let ?g = "profile_form (cs_print s) (cs_providers s) prefs p"
  note k = assms(3) [unfolded profile_keeps_def buildPayload_def ConnectPayload.simps]
  have sch: "cf_scheme ?g = cf_scheme f" using k by (simp add: profile_form_def Let_def)
  have au: "cf_authKind ?g = cf_authKind f" using k assms(2) by (simp add: profile_form_def Let_def)
  have ssh: "cf_scheme f = Sftp \<or> cf_scheme f = Ssh \<Longrightarrow> ssh_input (cs_num s) ?g = shown_seconds (ssh_input (cs_num s) f)"
    using k by (auto intro: ssh_again [OF assms(1)])
  have smb: "cf_scheme f = Smb \<Longrightarrow> smb_input ?g = smb_input f"
    using k by (simp add: profile_form_def Let_def smb_input_def)
  have s3: "cf_scheme f = S3 \<Longrightarrow> s3_input ?g = s3_input f"
    using k by (simp add: profile_form_def Let_def s3_input_def)
  have port: "cs_num s (cf_text ?g XPort) = cs_num s (cf_text f XPort)"
    using k assms(1) by (simp add: profile_form_def Let_def numbers_ok_def)
  have key: "cf_authKind f = APrivateKey \<Longrightarrow> js_trim (cf_text ?g XPrivateKeyPath) = js_trim (cf_text f XPrivateKeyPath)"
    using k by (simp add: profile_form_def Let_def js_trim_idem)
  have texts: "js_trim (cf_text ?g XLabel) = js_trim (cf_text f XLabel)" "js_trim (cf_text ?g XHost) = js_trim (cf_text f XHost)"
    "js_trim (cf_text ?g XUsername) = js_trim (cf_text f XUsername)" "cf_text ?g XPassword = []" "cf_text ?g XPassphrase = []"
    using k by (simp_all add: profile_form_def Let_def js_trim_idem)
  have sl: "js_trim ''/'' = ''/''" by code_simp
  have path: "(if js_trim (cf_text ?g XDefaultPath) = [] then ''/'' else js_trim (cf_text ?g XDefaultPath)) = py_defaultPath ?y"
    using k sl by (auto simp: profile_form_def Let_def js_trim_idem buildPayload_def)
  show ?thesis
    unfolding buildPayload_def sch au port texts
    using path ssh smb s3 key by (simp add: buildPayload_def) 
qed

section \<open>An answer for another profile\<close>

lemma detect_call:
  "n < cn_nextCall c \<Longrightarrow> obj_get (cn_calls (detect_effect r c)) n = obj_get (cn_calls c) n"
  "cn_selected (detect_effect r c) = cn_selected c" "cn_test (detect_effect r c) = cn_test c"
  "cn_localProfiles (detect_effect r c) = cn_localProfiles c" "cn_networkProfiles (detect_effect r c) = cn_networkProfiles c"
  "cn_editing (detect_effect r c) = cn_editing c" "cn_nextCall c \<le> cn_nextCall (detect_effect r c)"
  by (auto simp: detect_effect_def Let_def start_call_def split: option.split)

lemma tab_frame [simp]:
  "cn_calls (tab_effect c) = cn_calls c" "cn_selected (tab_effect c) = cn_selected c" "cn_test (tab_effect c) = cn_test c"
  "cn_localProfiles (tab_effect c) = cn_localProfiles c" "cn_networkProfiles (tab_effect c) = cn_networkProfiles c"
  "cn_editing (tab_effect c) = cn_editing c" "cn_nextCall (tab_effect c) = cn_nextCall c" "detect_deps (tab_effect c) = detect_deps c"
  by (simp_all add: tab_effect_def detect_deps_def)

lemma current_same:
  "cn_selected p = cn_selected q \<Longrightarrow> cn_localProfiles p = cn_localProfiles q \<Longrightarrow> cn_networkProfiles p = cn_networkProfiles q \<Longrightarrow>
   cn_editing p = cn_editing q \<Longrightarrow> currentProfile p = currentProfile q"
  unfolding currentProfile_def by (simp cong: option.case_cong list.case_cong)

lemma current_effects [simp]:
  "currentProfile (detect_effect r c) = currentProfile c" "currentProfile (tab_effect c) = currentProfile c"
  by (rule current_same, simp_all add: detect_call)+

lemma current_start [simp]: "currentProfile (start_call k e c) = currentProfile c"
  by (rule current_same) (simp_all add: start_call_def)

definition same_open :: "ConnectDialog \<Rightarrow> ConnectDialog \<Rightarrow> bool" where
  "same_open p q \<longleftrightarrow> cn_editing p = cn_editing q \<and> cn_draft p = cn_draft q \<and> cn_open p = cn_open q"

lemma effects_frame:
  assumes "same_open p q"
  shows "n < cn_nextCall q \<Longrightarrow> obj_get (cn_calls (connect_effects s p q)) n = obj_get (cn_calls q) n"
    and "cn_test (connect_effects s p q) = cn_test q" and "currentProfile (connect_effects s p q) = currentProfile q"
    and "detect_deps p = detect_deps q \<Longrightarrow> connect_effects s p q = tab_effect q"
proof -
  have o': "open_effect s p q = q" using assms by (simp add: open_effect_def same_open_def)
  show "n < cn_nextCall q \<Longrightarrow> obj_get (cn_calls (connect_effects s p q)) n = obj_get (cn_calls q) n"
    unfolding connect_effects_def Let_def o'
    using detect_call(1) [of n q q] detect_call(7) [of q q]
    by (auto simp: detect_call(1) intro!: detect_call(1) [THEN trans])
  show "cn_test (connect_effects s p q) = cn_test q"
    by (simp add: connect_effects_def Let_def o' detect_call)
  show "currentProfile (connect_effects s p q) = currentProfile q"
    by (simp add: connect_effects_def Let_def o')
  show "detect_deps p = detect_deps q \<Longrightarrow> connect_effects s p q = tab_effect q"
    by (simp add: connect_effects_def Let_def o')
qed

lemma unique_subset: "set (unique_profiles seen ps) \<subseteq> set ps"
  by (induction seen ps rule: unique_profiles.induct) auto

lemma listed_is_current:
  assumes "b \<in> set (profileList c)" "np_id b \<noteq> []"
  shows "\<exists>p. currentProfile (loadProfile s b c) = Some p \<and> np_id p = np_id b"
proof -
  have m: "b \<in> set (cn_localProfiles c @ cn_networkProfiles c) \<or> cn_editing c = Some b"
    using assms(1) unique_subset [of "[]" "cn_localProfiles c @ cn_networkProfiles c"]
    by (auto simp: profileList_def Let_def split: option.splits if_splits)
  obtain k ks where i: "np_id b = k # ks" using assms(2) by (cases "np_id b") simp_all
  have f: "find (\<lambda>p. np_id p = k # ks) ps = Some q \<Longrightarrow> np_id q = k # ks" for ps q
    by (auto simp: find_Some_iff)
  have n: "b \<in> set ps \<Longrightarrow> find (\<lambda>p. np_id p = k # ks) ps \<noteq> None" for ps
    using i by (auto simp: find_None_iff)
  have c: "currentProfile (loadProfile s b c) =
      (case find (\<lambda>p. np_id p = k # ks) (cn_localProfiles c) of Some p \<Rightarrow> Some p
       | None \<Rightarrow> (case find (\<lambda>p. np_id p = k # ks) (cn_networkProfiles c) of Some p \<Rightarrow> Some p
          | None \<Rightarrow> (case cn_editing c of Some p \<Rightarrow> if np_id p = k # ks then Some p else None | None \<Rightarrow> None)))"
    using i by (simp add: currentProfile_def loadProfile_def resetVolatileState_def cong: option.case_cong)
  show ?thesis
  proof (cases "find (\<lambda>p. np_id p = k # ks) (cn_localProfiles c)")
    case (Some q)
    then show ?thesis using f [OF Some] i c by simp
  next
    case l: None
    show ?thesis
    proof (cases "find (\<lambda>p. np_id p = k # ks) (cn_networkProfiles c)")
      case (Some q)
      then show ?thesis using f [OF Some] i c l by simp
    next
      case w: None
      with l m n [of "cn_localProfiles c"] n [of "cn_networkProfiles c"] have "cn_editing c = Some b" by auto
      with w l i c show ?thesis by simp
    qed
  qed
qed

text \<open>The key of one server can be trusted for another. When another saved profile is chosen while a test is running, the
  result of the test is shown for that profile, and the button that trusts the key found pins it to the profile chosen.\<close>

theorem trust_of_other_server:
  assumes "currentProfile c = Some a" "cn_test c \<noteq> Testing" "fst (validate s c)" "unavailableMessage s c = None"
    and "b \<in> set (profileList c)" "np_id b \<noteq> []"
    and "te_observedFingerprint r = Some fp" "fp \<noteq> []" "te_trustState r = ''untrusted''"
  shows "let n = cn_nextCall c; c1 = connect_step s PressTest c; c2 = connect_step s (PickSaved b) c1;
      c3 = connect_step s (Answered n (TestAnswered (Inr r))) c2; c4 = connect_step s PressTrust c3
    in cn_effects c1 = cn_effects c @ [TestProfile (np_id a)] \<and>
      cn_effects c4 = cn_effects c3 @ [TrustFingerprint (np_id b) fp]"
proof -
  define n c1 c2 c3 where defs: "n = cn_nextCall c" "c1 = connect_step s PressTest c" "c2 = connect_step s (PickSaved b) c1"
    "c3 = connect_step s (Answered n (TestAnswered (Inr r))) c2"
  obtain v where v: "validate s c = (True, v)" using assms(3) by (cases "validate s c") simp
  note vf = validate_frame [of s c, unfolded v snd_conv]
  have e1: "connect_event s PressTest c = start_call TestCall (TestProfile (np_id a)) (v\<lparr>cn_test := Testing, cn_tab := TabTest\<rparr>)"
    using assms(1,2,4) v by (simp add: runTest_def Let_def or_empty_def)
  have s1: "same_open c (connect_event s PressTest c)" "detect_deps c = detect_deps (connect_event s PressTest c)"
    unfolding e1 same_open_def detect_deps_def start_call_def using vf by simp_all
  have c1: "c1 = tab_effect (connect_event s PressTest c)" unfolding defs connect_step_def using effects_frame(4) [OF s1] by simp
  have f1: "cn_effects c1 = cn_effects c @ [TestProfile (np_id a)]" "obj_get (cn_calls c1) n = Some TestCall"
    "cn_nextCall c1 = Suc n" "profileList c1 = profileList c"
    unfolding c1 e1 start_call_def profileList_def using vf by (simp_all add: defs(1))
  have e2: "connect_event s (PickSaved b) c1 = loadProfile s b c1" using assms(5) f1(4) by simp
  have s2: "same_open c1 (loadProfile s b c1)" by (simp add: same_open_def loadProfile_def resetVolatileState_def)
  obtain p where p: "currentProfile (loadProfile s b c1) = Some p" "np_id p = np_id b"
    using listed_is_current [of b c1 s] assms(5,6) f1(4) by auto
  have f2: "obj_get (cn_calls c2) n = Some TestCall" "currentProfile c2 = Some p"
    unfolding defs(3) connect_step_def e2
    using effects_frame(1) [OF s2, of n s] effects_frame(3) [OF s2, of s] f1 p
    by (simp_all add: loadProfile_def resetVolatileState_def)
  let ?e3 = "(c2\<lparr>cn_calls := obj_del n (cn_calls c2)\<rparr>)\<lparr>cn_test := Tested (test_result r)\<rparr>"
  have e3: "connect_event s (Answered n (TestAnswered (Inr r))) c2 = ?e3" using f2(1) by simp
  have s3: "same_open c2 ?e3" by (simp add: same_open_def)
  have cp: "currentProfile ?e3 = currentProfile c2" by (rule current_same) simp_all
  have f3: "cn_test c3 = Tested (test_result r)" "currentProfile c3 = Some p"
    unfolding defs(4) connect_step_def e3
    using effects_frame(2) [OF s3, of s] effects_frame(3) [OF s3, of s] f2 cp by simp_all
  obtain k ks where fp: "fp = k # ks" using assms(8) by (cases fp) simp_all
  let ?e4 = "start_call (TrustCall fp) (TrustFingerprint (np_id p) fp) (c3\<lparr>cn_test := Testing\<rparr>)"
  have e4: "connect_event s PressTrust c3 = ?e4"
    using f3 assms(7,9) fp by (simp add: trust_offered_def trustObservedFingerprint_def test_result_def or_empty_def)
  have s4: "same_open c3 ?e4" "detect_deps c3 = detect_deps ?e4"
    by (simp_all add: same_open_def detect_deps_def start_call_def)
  have "cn_effects (connect_step s PressTrust c3) = cn_effects c3 @ [TrustFingerprint (np_id b) fp]"
    unfolding connect_step_def e4 effects_frame(4) [OF s4] by (simp add: start_call_def p(2))
  with f1(1) show ?thesis unfolding Let_def defs [symmetric] by blast
qed

section \<open>A refused secret\<close>

lemma validate_same:
  assumes "cn_form p = cn_form q" "currentProfile p = currentProfile q"
  shows "fst (validate s p) = fst (validate s q)" "unavailableMessage s p = unavailableMessage s q"
  using assms by (simp_all add: validate_def invalid_fields_def unavailableMessage_def Let_def split: option.split list.split)

lemma submit_sends:
  assumes "fst (validate s c)" "unavailableMessage s c = None" "\<not> cn_saving c"
  shows "connect_step s PressSave c =
    tab_effect (start_call SaveCall (SaveProfile (buildPayload (cs_num s) (currentProfile c) (cn_form c)))
      ((snd (validate s c))\<lparr>cn_saving := True\<rparr>))" (is "_ = tab_effect ?e")
proof -
  obtain v where v: "validate s c = (True, v)" using assms(1) by (cases "validate s c") simp
  note vf = validate_frame [of s c, unfolded v snd_conv]
  have e: "connect_event s PressSave c = ?e" using assms v by (simp add: handleSubmit_def Let_def or_empty_def)
  have "same_open c ?e" "detect_deps c = detect_deps ?e"
    unfolding same_open_def detect_deps_def start_call_def v snd_conv using vf by simp_all
  then show ?thesis unfolding connect_step_def e by (rule effects_frame(4))
qed

text \<open>A refused secret makes a second profile. When the back end stores a new profile but refuses its password, saving counts as
  failed and the dialog still edits a new connection: saving again, it sends the same new profile again.\<close>

theorem refused_secret_adds_twice:
  assumes "currentProfile c = None" "\<not> cn_saving c" "fst (validate s c)" "unavailableMessage s c = None"
    and "y = buildPayload (cs_num s) None (cn_form c)" "cf_authKind (cn_form c) = APassword"
    and "nk_store client (NAdd y) = Inr p" "nk_do client (NSecret (np_id p) ''password'' (py_password y)) = Inl e"
  shows "let n = cn_nextCall c; c1 = connect_step s PressSave c; (calls, result) = saveProfile client y;
      c2 = connect_step s (Answered n (SaveAnswered result)) c1; c3 = connect_step s PressSave c2
    in NAdd y \<in> set calls \<and> cn_effects c1 = cn_effects c @ [SaveProfile y] \<and> cn_effects c3 = cn_effects c1 @ [SaveProfile y]"
proof -
  have y: "py_id y = None" "py_authKind y = APassword" "py_password y = cf_text (cn_form c) XPassword"
    using assms(5,6) by (simp_all add: buildPayload_def)
  have pw: "py_password y \<noteq> []"
    using validate_payload [OF assms(3)] y(1,2) assms(1,5) by (simp add: valid_payload_def)
  define m where "m = err_message (normalizeIpcError e)"
  have r: "saveProfile client y =
      ([NOperationError None, NAdd y, NSecret (np_id p) ''password'' (py_password y), NOperationError (Some m)], Inl (ThrownErrorObject None m))"
    using assms(7,8) y pw by (simp add: saveProfile_def profile_secrets_def or_empty_def m_def Let_def)
  define n c1 c2 where defs: "n = cn_nextCall c" "c1 = connect_step s PressSave c"
    "c2 = connect_step s (Answered n (SaveAnswered (Inl (ThrownErrorObject None m)))) c1"
  note vf = validate_frame [of s c]
  have c1: "c1 = tab_effect (start_call SaveCall (SaveProfile y) ((snd (validate s c))\<lparr>cn_saving := True\<rparr>))"
    using submit_sends [OF assms(3,4,2)] assms(1,5) by (simp add: defs(2))
  have cur: "currentProfile ((snd (validate s c))\<lparr>cn_saving := True\<rparr>) = currentProfile c"
    using vf by (intro current_same) simp_all
  have f1: "cn_effects c1 = cn_effects c @ [SaveProfile y]" "obj_get (cn_calls c1) n = Some SaveCall" "cn_form c1 = cn_form c"
    unfolding c1 using vf by (simp_all add: start_call_def defs(1) tab_effect_def)
  have n1: "currentProfile c1 = None" unfolding c1 using cur assms(1) by simp
  let ?e2 = "(c1\<lparr>cn_calls := obj_del n (cn_calls c1)\<rparr>)\<lparr>cn_error := Some m, cn_saving := False\<rparr>"
  have e2: "connect_event s (Answered n (SaveAnswered (Inl (ThrownErrorObject None m)))) c1 = ?e2" using f1(2) by simp
  have s2: "same_open c1 ?e2" "detect_deps c1 = detect_deps ?e2" by (simp_all add: same_open_def detect_deps_def)
  have c2: "c2 = tab_effect ?e2" unfolding defs(3) connect_step_def e2 by (rule effects_frame(4) [OF s2])
  have "currentProfile ?e2 = currentProfile c1" by (rule current_same) simp_all
  then have n2: "currentProfile c2 = None" unfolding c2 using n1 by simp
  have f2: "cn_form c2 = cn_form c" "\<not> cn_saving c2" "cn_effects c2 = cn_effects c1"
    unfolding c2 using f1 by (simp_all add: tab_effect_def)
  have "fst (validate s c2)" "unavailableMessage s c2 = None"
    using validate_same [of c2 c s] n2 f2 assms(1,3,4) by simp_all
  from submit_sends [OF this f2(2)] have "cn_effects (connect_step s PressSave c2) = cn_effects c2 @ [SaveProfile y]"
    using n2 f2 assms(5) validate_frame(1) [of s c2] by (simp add: start_call_def)
  with f1(1) f2(3) r show ?thesis unfolding Let_def defs [symmetric] by (simp add: defs)
qed

section \<open>Busy profiles\<close>

text \<open>Two operations on one profile: the end of the first takes the mark away.\<close>

lemma busy_ends_with_first: "fold busy_step [BusyBegins i, BusyBegins i, BusyEnds i] busy = busy - {i}"
  by simp

section \<open>Instances\<close>

definition demo_setup :: ConnectSetup where
  "demo_setup = \<lparr>cs_num = (\<lambda>t. Some (of_nat (length t))), cs_print = (\<lambda>r. ''1''), cs_providers = DEFAULT_PROVIDER_CAPABILITIES,
     cs_prefs = \<lparr>pf_networkSshKeyPath = [], pf_networkUseSshAgent = False\<rparr>\<rparr>"

definition demo_server :: "string \<Rightarrow> ServerProfile" where
  "demo_server i = \<lparr>np_id = i, np_label = i, np_scheme = ''sftp'', np_host = i, np_port = 22, np_username = ''u'', np_defaultUri = [],
     np_hasStoredSecret = True, sp_authKind = ''password'', sp_privateKeyPath = None, sp_defaultPath = ''/'', sp_ssh = None,
     sp_smb = None, sp_s3 = None\<rparr>"

definition demo_answer :: TestResponse where
  "demo_answer = \<lparr>te_ok = False, te_message = [], te_durationMs = 1, te_resolvedUri = None, te_observedFingerprint = Some ''fa'',
     te_trustState = ''untrusted'', te_warnings = []\<rparr>"

definition demo_dialog :: "ServerProfile option \<Rightarrow> ConnectDialog" where
  "demo_dialog editing =
     connect_step demo_setup (OpenDialog editing (Some \<lparr>cd_scheme = None, cd_label = Some ''n'', cd_host = Some ''h'', cd_defaultPath = None\<rparr>))
       (closed_dialog demo_setup [demo_server ''a'', demo_server ''b''] [])"

theorem trust_of_other_server_witness:
  "\<exists>c :: ConnectDialog. cn_effects c = [TestProfile ''a'', TrustFingerprint ''b'' ''fa'']"
proof -
  let ?c = "demo_dialog (Some (demo_server ''a''))"
  have a: "currentProfile ?c = Some (demo_server ''a'')" "cn_test ?c \<noteq> Testing" "fst (validate demo_setup ?c)"
    "unavailableMessage demo_setup ?c = None" "demo_server ''b'' \<in> set (profileList ?c)" "np_id (demo_server ''b'') \<noteq> []"
    "te_observedFingerprint demo_answer = Some ''fa''" "''fa'' \<noteq> []" "te_trustState demo_answer = ''untrusted''"
    "cn_effects ?c = []"
    by code_simp+
  let ?c2 = "connect_step demo_setup (PickSaved (demo_server ''b'')) (connect_step demo_setup PressTest ?c)"
  let ?c3 = "connect_step demo_setup (Answered (cn_nextCall ?c) (TestAnswered (Inr demo_answer))) ?c2"
  have e: "cn_effects ?c3 = [TestProfile ''a'']" by code_simp
  have i: "np_id (demo_server ''b'') = ''b''" by (simp add: demo_server_def)
  have "cn_effects (connect_step demo_setup PressTrust ?c3) = [TestProfile ''a'', TrustFingerprint ''b'' ''fa'']"
    using trust_of_other_server [OF a(1-9), unfolded Let_def, THEN conjunct2] unfolding e i by (simp only: append.simps)
  then obtain c :: ConnectDialog where "cn_effects c = [TestProfile ''a'', TrustFingerprint ''b'' ''fa'']" by blast
  then show ?thesis by blast
qed

definition refusing_secrets :: NetworkClient where
  "refusing_secrets = \<lparr>nk_store = (\<lambda>x. Inr (demo_server ''n'')),
     nk_do = (\<lambda>x. case x of NSecret i k v \<Rightarrow> Inl ThrownOther | _ \<Rightarrow> Inr ())\<rparr>"

definition new_dialog :: ConnectDialog where
  "new_dialog = connect_step demo_setup (EditText XPassword ''p'') (connect_step demo_setup (EditText XUsername ''u'') (demo_dialog None))"

theorem refused_secret_adds_twice_witness:
  "\<exists>y (c :: ConnectDialog). cn_effects c = [SaveProfile y, SaveProfile y] \<and> py_id (y :: ConnectPayload) = None"
proof -
  let ?y = "buildPayload (cs_num demo_setup) None (cn_form new_dialog)"
  have a: "currentProfile new_dialog = None" "\<not> cn_saving new_dialog" "fst (validate demo_setup new_dialog)"
    "unavailableMessage demo_setup new_dialog = None" "cf_authKind (cn_form new_dialog) = APassword" "cn_effects new_dialog = []"
    by code_simp+
  have s: "nk_store refusing_secrets (NAdd ?y) = Inr (demo_server ''n'')"
    "nk_do refusing_secrets (NSecret (np_id (demo_server ''n'')) ''password'' (py_password ?y)) = Inl ThrownOther"
    by (simp_all add: refusing_secrets_def)
  have y: "py_id ?y = None" by (simp add: buildPayload_def)
  obtain calls result where r: "saveProfile refusing_secrets ?y = (calls, result)" by fastforce
  from refused_secret_adds_twice [OF a(1-4) refl a(5) s] a(6) r
  have "cn_effects (connect_step demo_setup PressSave (connect_step demo_setup (Answered (cn_nextCall new_dialog) (SaveAnswered result))
      (connect_step demo_setup PressSave new_dialog))) = [SaveProfile ?y, SaveProfile ?y]"
    by (simp only: Let_def prod.case append.simps)
  then obtain c :: ConnectDialog where "cn_effects c = [SaveProfile ?y, SaveProfile ?y]" by blast
  with y show ?thesis by blast
qed

definition reading_setup :: ConnectSetup where
  "reading_setup = demo_setup\<lparr>cs_num := (\<lambda>t. if t = ''22'' then Some 22 else if t = ''5'' then Some 5 else None), cs_print := (\<lambda>r. ''5'')\<rparr>"

definition demo_form :: ConnectForm where
  "demo_form = \<lparr>cf_scheme = Sftp, cf_authKind = APassword,
     cf_text = (\<lambda>x. case x of XPort \<Rightarrow> ''22'' | XKeepaliveSecs \<Rightarrow> ''5'' | XLabel \<Rightarrow> '' a '' | _ \<Rightarrow> ''b''), cf_flag = (\<lambda>x. True)\<rparr>"

definition kept_server :: ServerProfile where
  "kept_server = \<lparr>np_id = ''a'', np_label = ''a'', np_scheme = ''sftp'', np_host = ''b'', np_port = 22, np_username = ''b'', np_defaultUri = [],
     np_hasStoredSecret = True, sp_authKind = ''password'', sp_privateKeyPath = None, sp_defaultPath = ''b'',
     sp_ssh = Some \<lparr>so_useAgent = Some True, so_sshConfigHost = Some ''b'', so_proxyJump = Some ''b'', so_proxyCommand = Some ''b'',
       so_keepaliveSecs = Some (Some 5), so_compression = Some True, so_addressFamily = Some ''b'',
       so_terminalInitialCommand = Some ''b'', so_terminalEnv = [(''c'', ''d'')]\<rparr>,
     sp_smb = None, sp_s3 = None\<rparr>"

theorem saved_connection_reopens_witness:
  "py_label (buildPayload (cs_num reading_setup) (Some kept_server)
     (profile_form (cs_print reading_setup) (cs_providers reading_setup) (cs_prefs reading_setup) kept_server)) = ''a''"
proof -
  have a: "numbers_ok reading_setup kept_server" by code_simp
  have c: "cf_authKind demo_form \<in> set (defaultAuthKinds (cf_scheme demo_form) (cs_providers reading_setup))" by code_simp
  have d: "profile_keeps kept_server (buildPayload (cs_num reading_setup) None demo_form)" by code_simp
  have l: "py_label (buildPayload (cs_num reading_setup) None demo_form) = ''a''" by code_simp
  from saved_connection_reopens [OF a c d] l show ?thesis by simp
qed

end
