(* ===== verification/Menus.thy ===== *)
theory Menus
  imports Dispatch NavController DriveTargets StoredLists
begin

text \<open>
  The menus. The menu bar: its items (\<open>shell/menus\<close>), what they do (\<open>hooks/useMenuBarProps.ts\<close>),
  which menu is open (\<open>shell/MenuBar.tsx\<close>) and how the keys move in an open menu
  (\<open>ui/src/DropdownMenu.tsx\<close>). The context menu: its items (\<open>menus/context\<close>), what they are given
  and what they do (\<open>components/ContextMenuOverlay.tsx\<close>), where it stands and how the keys move
  in it (\<open>components/ContextMenu.tsx\<close>). Icons are kept only where they hide the check mark.
\<close>

section \<open>What the items of the menu bar may call\<close>

datatype (plugins only: code size) MenuHandler =
    OnBack | OnForward | OnUp | OnHome | OnGoToLocation | OnVolumePicker
  | GoStandardLocation string
  | OnNewFolder | OnNewFile | OnOpenSelected | OnView | OnEdit | OnOpenWithDefaultApp
  | OnRevealInFileManager | OnRename | OnCopyTo | OnMoveTo | OnDelete | OnTrash | OnCompress
  | OnExtract | OnDeletePermanently | OnProperties | OnCut | OnCopy | OnPaste
  | OnClearClipboard | OnSelectAll | OnClearSelection | OnInvertSelection | OnCopyPath
  | OnCopyName | OnCopyParentPath | OnCopyResourceUri
  | OnViewMode ViewMode | OnSortBy SortField | OnSortDirection string | OnTheme string
  | OnDensity string
  | OnToggleSidebar | OnToggleToolbar | OnToggleStatusBar | OnToggleDualPane
  | OnTogglePaneDirection | OnToggleHidden | OnRefresh | OnAddFavorite | OnManageFavorites
  | OnNetworkLocations | OnAddServer | OnShowRecentLocations | OnClearRecentLocations
  | OnFilter | OnSearchRecursive | OnChecksum | OnOpenTerminal | OnOpenTerminalExternal
  | OnToggleTerminal | OnCalculateSize | OnJobActivity | OnOperationHistory | OnDiagnostics
  | OnExportDiagnostics | OnSwitchPane | OnSwapPanes | OnEqualizePanes | OnShortcuts
  | OnDocumentation | OnAbout | OnSettings | OnExit | OnCustomizeToolbar

record MenuBarProps =
  mp_activePanelId :: PanelId
  mp_recentLocations :: "PlaceEntryDto list"
  mp_starredLocations :: "PlaceEntryDto list"
  mp_canGoBack :: bool
  mp_canGoForward :: bool
  mp_hasSelection :: bool
  mp_hasClipboard :: bool
  mp_sidebarVisible :: bool
  mp_toolbarVisible :: bool
  mp_statusBarVisible :: bool
  mp_dualPane :: bool
  mp_paneDirection :: string
  mp_showHidden :: bool
  mp_viewMode :: ViewMode
  mp_sortField :: SortField
  mp_sortDirection :: SortDirection
  mp_theme :: string
  mp_density :: string

text \<open>An item; \<open>None\<close> is the function that does nothing.\<close>

datatype (plugins only: code size) DropdownMenuItem =
  MenuItem (mi_id: string) (mi_label: string) (mi_icon: bool) (mi_shortcut: "string option")
    (mi_disabled: bool) (mi_checked: "bool option") (mi_danger: bool) (mi_separatorBefore: bool)
    (mi_select: "MenuHandler option") (mi_children: "DropdownMenuItem list")

definition menuShortcut :: "bool \<Rightarrow> string \<Rightarrow> string option" where
  "menuShortcut mac i = map_option (\<lambda>s. hd (split_string '' or '' [] s)) (formatCommandShortcut i mac)"

definition platformShortcut :: "bool \<Rightarrow> string \<Rightarrow> string \<Rightarrow> string" where
  "platformShortcut mac onMac onOthers = (if mac then onMac else onOthers)"

definition plain_item :: "string \<Rightarrow> string \<Rightarrow> MenuHandler \<Rightarrow> DropdownMenuItem" where
  "plain_item i l h = MenuItem i l False None False None False False (Some h) []"

definition item_when :: "bool \<Rightarrow> string \<Rightarrow> string \<Rightarrow> MenuHandler \<Rightarrow> DropdownMenuItem" where
  "item_when enabled i l h = MenuItem i l False None (\<not> enabled) None False False (Some h) []"

definition item_keys ::
  "bool \<Rightarrow> string option \<Rightarrow> string \<Rightarrow> string \<Rightarrow> MenuHandler \<Rightarrow> DropdownMenuItem" where
  "item_keys enabled keys i l h = MenuItem i l False keys (\<not> enabled) None False False (Some h) []"

definition item_danger ::
  "bool \<Rightarrow> string option \<Rightarrow> string \<Rightarrow> string \<Rightarrow> MenuHandler \<Rightarrow> DropdownMenuItem" where
  "item_danger enabled keys i l h = MenuItem i l False keys (\<not> enabled) None True False (Some h) []"

definition item_icon ::
  "bool \<Rightarrow> string option \<Rightarrow> string \<Rightarrow> string \<Rightarrow> MenuHandler \<Rightarrow> DropdownMenuItem" where
  "item_icon enabled keys i l h = MenuItem i l True keys (\<not> enabled) None False False (Some h) []"

definition item_checked :: "bool \<Rightarrow> string \<Rightarrow> string \<Rightarrow> MenuHandler \<Rightarrow> DropdownMenuItem" where
  "item_checked checked i l h = MenuItem i l False None False (Some checked) False False (Some h) []"

definition item_parent :: "string \<Rightarrow> string \<Rightarrow> DropdownMenuItem list \<Rightarrow> DropdownMenuItem" where
  "item_parent i l children = MenuItem i l False None False None False False None children"

definition menu_sep :: "string \<Rightarrow> DropdownMenuItem" where
  "menu_sep i = MenuItem i [] False None False None False True None []"

section \<open>The menus of the bar\<close>

definition buildFileItems :: "bool \<Rightarrow> MenuBarProps \<Rightarrow> DropdownMenuItem list" where
  "buildFileItems mac props =
     (let keys = menuShortcut mac; sel = mp_hasSelection props
      in [item_keys True (keys ''create.folder'') ''new-folder'' (''New Folder'' @ ellipsis) OnNewFolder,
          plain_item ''new-file'' (''Empty File'' @ ellipsis) OnNewFile,
          menu_sep ''sep-open'',
          item_keys sel (keys ''op.open'') ''open-selected'' ''Open Selected'' OnOpenSelected,
          item_keys True (keys ''op.view'') ''view-selected'' ''View'' OnView,
          item_keys sel (keys ''op.edit'') ''edit-selected'' ''Edit'' OnEdit,
          item_keys sel (keys ''op.openDefault'') ''open-default'' ''Open With Default App'' OnOpenWithDefaultApp,
          item_when sel ''reveal-fm'' ''Reveal in System File Manager'' OnRevealInFileManager,
          menu_sep ''sep-actions'',
          item_keys sel (keys ''op.rename'') ''rename'' (''Rename'' @ ellipsis) OnRename,
          item_keys sel (keys ''op.copyTo'') ''copy-to'' (''Copy To'' @ ellipsis) OnCopyTo,
          item_keys sel (keys ''op.moveTo'') ''move-to'' (''Move To'' @ ellipsis) OnMoveTo,
          item_danger sel (keys ''op.delete'') ''delete-default'' (''Delete'' @ ellipsis) OnDelete,
          item_when sel ''compress'' (''Pack'' @ ellipsis) OnCompress,
          item_when sel ''extract'' (''Unpack'' @ ellipsis) OnExtract,
          item_danger sel (keys ''op.deletePermanent'') ''delete'' (''Delete Permanently'' @ ellipsis) OnDeletePermanently,
          item_icon sel (keys ''op.properties'') ''properties'' (''Properties'' @ ellipsis) OnProperties,
          menu_sep ''sep-settings'',
          item_icon True (keys ''app.settings'') ''settings'' (''Settings'' @ ellipsis) OnSettings,
          item_icon True (Some (platformShortcut mac (cmd_sign @ ''Q'') ''Ctrl+Q'')) ''exit'' ''Exit'' OnExit])"

definition buildEditItems :: "bool \<Rightarrow> MenuBarProps \<Rightarrow> DropdownMenuItem list" where
  "buildEditItems mac props =
     (let keys = menuShortcut mac; sel = mp_hasSelection props; clip = mp_hasClipboard props
      in [item_keys sel (keys ''op.cut'') ''cut'' ''Cut'' OnCut,
          item_keys sel (keys ''op.copy'') ''copy'' ''Copy'' OnCopy,
          item_keys clip (keys ''op.paste'') ''paste'' ''Paste'' OnPaste,
          item_when clip ''clear-clipboard'' ''Clear File Clipboard'' OnClearClipboard,
          menu_sep ''sep-selection'',
          item_keys True (keys ''selection.selectAll'') ''select-all'' ''Select All'' OnSelectAll,
          item_when sel ''clear-selection'' ''Clear Selection'' OnClearSelection,
          plain_item ''invert-selection'' ''Invert Selection'' OnInvertSelection,
          menu_sep ''sep-copy-text'',
          item_when sel ''copy-path'' ''Copy Full Path'' OnCopyPath,
          item_when sel ''copy-name'' ''Copy File Name'' OnCopyName,
          item_when sel ''copy-parent-path'' ''Copy Parent Folder Path'' OnCopyParentPath,
          item_when sel ''copy-uri'' ''Copy Resource URI'' OnCopyResourceUri])"

definition sort_item :: "MenuBarProps \<Rightarrow> string \<Rightarrow> string \<Rightarrow> SortField \<Rightarrow> DropdownMenuItem" where
  "sort_item props i l f = item_checked (mp_sortField props = f) i l (OnSortBy f)"

definition sort_items :: "MenuBarProps \<Rightarrow> DropdownMenuItem list" where
  "sort_items props =
     [sort_item props ''sort-name'' ''Name'' SName,
      sort_item props ''sort-type'' ''Type'' SType,
      sort_item props ''sort-size'' ''Size'' SSize,
      sort_item props ''sort-date-modified'' ''Date Modified'' SModified,
      sort_item props ''sort-date-created'' ''Date Created'' SCreated,
      sort_item props ''sort-extension'' ''Extension'' SExtension,
      sort_item props ''sort-permissions'' ''Permissions'' SPermissions,
      sort_item props ''sort-owner'' ''Owner'' SOwner,
      MenuItem ''sort-asc'' ''Ascending'' False None False (Some (mp_sortDirection props = Asc))
        False True (Some (OnSortDirection ''ascending'')) [],
      item_checked (mp_sortDirection props = Desc) ''sort-desc'' ''Descending'' (OnSortDirection ''descending'')]"

definition view_item :: "MenuBarProps \<Rightarrow> string \<Rightarrow> string \<Rightarrow> ViewMode \<Rightarrow> DropdownMenuItem" where
  "view_item props i l m = item_checked (mp_viewMode props = m) i l (OnViewMode m)"

definition theme_item :: "MenuBarProps \<Rightarrow> string \<Rightarrow> string \<Rightarrow> string \<Rightarrow> DropdownMenuItem" where
  "theme_item props i l t = item_checked (mp_theme props = t) i l (OnTheme t)"

definition density_item :: "MenuBarProps \<Rightarrow> string \<Rightarrow> string \<Rightarrow> string \<Rightarrow> DropdownMenuItem" where
  "density_item props i l d = item_checked (mp_density props = d) i l (OnDensity d)"

definition buildViewItems :: "bool \<Rightarrow> MenuBarProps \<Rightarrow> DropdownMenuItem list" where
  "buildViewItems mac props =
     [view_item props ''view-details'' ''Details View'' VDetails,
      view_item props ''view-list'' ''List View'' VList,
      view_item props ''view-compact'' ''Compact View'' VCompact,
      view_item props ''view-icons'' ''Icons View'' VIcons,
      view_item props ''view-columns'' ''Columns View'' VColumns,
      menu_sep ''sep-sort'',
      item_parent ''sort-by'' ''Sort By'' (sort_items props),
      menu_sep ''sep-appearance'',
      item_parent ''theme'' ''Theme''
        [theme_item props ''theme-system'' ''System'' ''system'',
         theme_item props ''theme-light'' ''Light'' ''light'',
         theme_item props ''theme-dark'' ''Dark'' ''dark''],
      item_parent ''density'' ''Density''
        [density_item props ''density-compact'' ''Compact'' ''compact'',
         density_item props ''density-comfortable'' ''Comfortable'' ''comfortable'',
         density_item props ''density-spacious'' ''Spacious'' ''spacious''],
      menu_sep ''sep-layout'',
      item_checked (mp_sidebarVisible props) ''toggle-sidebar'' ''Show Sidebar'' OnToggleSidebar,
      item_checked (mp_toolbarVisible props) ''toggle-toolbar'' ''Show Toolbar'' OnToggleToolbar,
      item_when (mp_toolbarVisible props) ''customize-toolbar'' (''Customize Button Bar'' @ ellipsis) OnCustomizeToolbar,
      item_checked (mp_statusBarVisible props) ''toggle-statusbar'' ''Show Status Bar'' OnToggleStatusBar,
      item_checked (mp_dualPane props) ''toggle-dualpane'' ''Dual Pane'' OnToggleDualPane,
      item_when (mp_dualPane props) ''toggle-pane-direction''
        (if mp_paneDirection props = ''vertical'' then ''Split: Vertical'' else ''Split: Horizontal'')
        OnTogglePaneDirection,
      menu_sep ''sep-hidden'',
      MenuItem ''toggle-hidden'' ''Show Hidden Files'' False (menuShortcut mac ''view.toggleHidden'')
        False (Some (mp_showHidden props)) False False (Some OnToggleHidden) [],
      MenuItem ''refresh'' ''Refresh'' False (menuShortcut mac ''nav.refresh'')
        False None False True (Some OnRefresh) []]"

definition place_item :: "string \<Rightarrow> bool \<Rightarrow> PlaceEntryDto \<Rightarrow> DropdownMenuItem" where
  "place_item prefix icon loc =
     MenuItem (prefix @ pe_uri loc) (pe_label loc) icon None False None False False
       (Some (GoStandardLocation (pe_uri loc))) []"

definition starred_items :: "MenuBarProps \<Rightarrow> DropdownMenuItem list" where
  "starred_items props = map (place_item ''starred-'' True) (take 10 (mp_starredLocations props))"

definition recent_items :: "MenuBarProps \<Rightarrow> DropdownMenuItem list" where
  "recent_items props = map (place_item ''recent-'' False) (take 10 (mp_recentLocations props))"

definition buildGoItems :: "bool \<Rightarrow> MenuBarProps \<Rightarrow> DropdownMenuItem list" where
  "buildGoItems mac props =
     (let keys = menuShortcut mac
      in [item_keys (mp_canGoBack props) (keys ''nav.back'') ''back'' ''Back'' OnBack,
          item_keys (mp_canGoForward props) (keys ''nav.forward'') ''forward'' ''Forward'' OnForward,
          item_keys True (keys ''nav.up'') ''up'' ''Up to Parent'' OnUp,
          plain_item ''home'' ''Home'' OnHome,
          menu_sep ''sep-location'',
          item_keys True (keys ''nav.goToLocation'') ''go-location'' (''Location'' @ ellipsis) OnGoToLocation,
          plain_item ''go-volumes'' (''Volumes'' @ ellipsis) OnVolumePicker,
          item_icon True None ''go-network'' ''Network Locations'' OnNetworkLocations,
          plain_item ''go-add-server'' (''Add Connection'' @ ellipsis) OnAddServer,
          menu_sep ''sep-stdloc'',
          plain_item ''loc-desktop'' ''Desktop'' (GoStandardLocation ''desktop''),
          plain_item ''loc-documents'' ''Documents'' (GoStandardLocation ''documents''),
          plain_item ''loc-downloads'' ''Downloads'' (GoStandardLocation ''downloads''),
          plain_item ''loc-pictures'' ''Pictures'' (GoStandardLocation ''pictures''),
          plain_item ''loc-music'' ''Music'' (GoStandardLocation ''music''),
          plain_item ''loc-videos'' ''Videos'' (GoStandardLocation ''videos''),
          menu_sep ''sep-favorites'',
          plain_item ''add-favorite'' ''Add Current Folder'' OnAddFavorite,
          plain_item ''manage-favorites'' (''Manage Favorites'' @ ellipsis) OnManageFavorites]
         @ (if mp_starredLocations props \<noteq> [] then menu_sep ''sep-starred'' # starred_items props else [])
         @ [menu_sep ''sep-recent'']
         @ recent_items props
         @ (if length (mp_recentLocations props) > 10
            then [plain_item ''show-all-recent'' (''Show All Recent Locations'' @ ellipsis) OnShowRecentLocations]
            else [])
         @ [item_when (mp_recentLocations props \<noteq> []) ''clear-recent''
              (''Clear Recent Locations'' @ ellipsis) OnClearRecentLocations])"

definition buildToolsItems :: "bool \<Rightarrow> MenuBarProps \<Rightarrow> DropdownMenuItem list" where
  "buildToolsItems mac props =
     [item_keys True (menuShortcut mac ''search.focusFilter'') ''filter'' ''Filter Current Folder'' OnFilter,
      item_keys True (menuShortcut mac ''search.recursive'') ''search-recursive''
        (''Search Recursively'' @ ellipsis) OnSearchRecursive,
      menu_sep ''sep-ops'',
      plain_item ''open-terminal'' ''Open Terminal'' OnOpenTerminal,
      plain_item ''open-terminal-external'' ''Open External Terminal'' OnOpenTerminalExternal,
      plain_item ''toggle-terminal'' ''Toggle Terminal Panel'' OnToggleTerminal,
      item_when (mp_hasSelection props) ''checksum'' (''Checksum'' @ ellipsis) OnChecksum,
      item_when (mp_hasSelection props) ''calculate-size'' ''Calculate Size'' OnCalculateSize,
      plain_item ''job-activity'' (''Job Activity'' @ ellipsis) OnJobActivity,
      plain_item ''operation-history'' (''Operation History'' @ ellipsis) OnOperationHistory]"

definition buildWindowItems :: "bool \<Rightarrow> MenuBarProps \<Rightarrow> DropdownMenuItem list" where
  "buildWindowItems mac props =
     [item_keys True (menuShortcut mac ''layout.switchPane'') ''switch-pane'' ''Switch Active Pane'' OnSwitchPane,
      menu_sep ''sep-dual'',
      item_checked (mp_dualPane props) ''toggle-dual'' ''Toggle Dual Pane'' OnToggleDualPane,
      item_keys True (menuShortcut mac ''layout.swapPanes'') ''swap-panes'' ''Swap Panes'' OnSwapPanes,
      item_when (mp_dualPane props) ''equalize-panes'' ''Equalize Pane Widths'' OnEqualizePanes,
      item_when (mp_dualPane props) ''toggle-direction'' ''Toggle Split Direction'' OnTogglePaneDirection]"

definition buildHelpItems :: "bool \<Rightarrow> MenuBarProps \<Rightarrow> DropdownMenuItem list" where
  "buildHelpItems mac props =
     [item_keys True (menuShortcut mac ''app.shortcuts'') ''shortcuts'' (''Keyboard Shortcuts'' @ ellipsis) OnShortcuts,
      plain_item ''documentation'' (''Documentation'' @ ellipsis) OnDocumentation,
      menu_sep ''sep-diag'',
      plain_item ''diagnostics'' (''Diagnostics'' @ ellipsis) OnDiagnostics,
      plain_item ''export-diagnostics'' (''Export Diagnostics Bundle'' @ ellipsis) OnExportDiagnostics,
      menu_sep ''sep-about'',
      plain_item ''about'' (''About FileOctopus'' @ ellipsis) OnAbout]"

datatype MenuId = MFile | MEdit | MView | MGo | MTools | MWindow | MHelp

definition MENU_ORDER :: "MenuId list" where
  "MENU_ORDER = [MFile, MEdit, MView, MGo, MTools, MWindow, MHelp]"

definition MENU_MNEMONICS :: "MenuId \<Rightarrow> string" where
  "MENU_MNEMONICS i =
     (case i of MFile \<Rightarrow> ''F'' | MEdit \<Rightarrow> ''E'' | MView \<Rightarrow> ''V'' | MGo \<Rightarrow> ''G'' | MTools \<Rightarrow> ''T''
      | MWindow \<Rightarrow> ''W'' | MHelp \<Rightarrow> ''H'')"

definition menu_items :: "bool \<Rightarrow> MenuBarProps \<Rightarrow> MenuId \<Rightarrow> DropdownMenuItem list" where
  "menu_items mac props i =
     (case i of MFile \<Rightarrow> buildFileItems mac props | MEdit \<Rightarrow> buildEditItems mac props
      | MView \<Rightarrow> buildViewItems mac props | MGo \<Rightarrow> buildGoItems mac props
      | MTools \<Rightarrow> buildToolsItems mac props | MWindow \<Rightarrow> buildWindowItems mac props
      | MHelp \<Rightarrow> buildHelpItems mac props)"

section \<open>What the items do\<close>

text \<open>The calls of an item, in order; running a command is given to \<open>useCommandDispatch\<close>.\<close>

datatype (plugins only: code size) MenuEffect =
    CloseMenus
  | RunMenuCommand string "PanelId option" CommandInvokeArg
  | NavigateMenu PanelId string
  | RenameDialog PanelId
  | MenuAct PanelAction
  | OpenDiagnosticsDialog
  | RequestExit
  | CloseWindow
  | CustomizeToolbar

definition VIEW_MODE_COMMAND_IDS :: "ViewMode \<Rightarrow> string option" where
  "VIEW_MODE_COMMAND_IDS mode =
     (case mode of VDetails \<Rightarrow> Some ''view.details'' | VList \<Rightarrow> Some ''view.list''
      | VCompact \<Rightarrow> Some ''view.compact'' | VIcons \<Rightarrow> Some ''view.icons''
      | VColumns \<Rightarrow> Some ''view.columns'' | VOther _ \<Rightarrow> None)"

definition viewModeCommandId :: "ViewMode \<Rightarrow> string option" where
  "viewModeCommandId mode = VIEW_MODE_COMMAND_IDS mode"

record MenuPreferences = CommandPreferences +
  cp_density :: "string option"

record MenuBarParams =
  mb_state :: FileOctopusState
  mb_locations :: "StandardLocationDto list"
  mb_hasClipboard :: bool
  mb_preferences :: "MenuPreferences option"
  mb_canRequestExit :: bool
  mb_statusBarVisible :: bool
  mb_toolbarVisible :: bool
  mb_recentLocations :: "PlaceEntryDto list"
  mb_starredLocations :: "PlaceEntryDto list"

definition run_plain :: "string \<Rightarrow> MenuEffect list" where
  "run_plain i = [RunMenuCommand i None NoArg]"

definition goStandardLocation :: "StandardLocationDto list \<Rightarrow> PanelId \<Rightarrow> string \<Rightarrow> MenuEffect list" where
  "goStandardLocation locations panelId loc =
     (case find (\<lambda>l. js_toLowerCase (sl_id l) = js_toLowerCase loc) locations of
        Some match \<Rightarrow> [NavigateMenu panelId (sl_uri match)]
      | None \<Rightarrow> [])"

definition onViewMode :: "PanelId \<Rightarrow> ViewMode \<Rightarrow> MenuEffect list" where
  "onViewMode panelId mode =
     (case viewModeCommandId mode of
        Some commandId \<Rightarrow> run_plain commandId
      | None \<Rightarrow> [MenuAct (SetViewMode panelId mode)])"

definition plain_command :: "MenuHandler \<Rightarrow> string option" where
  "plain_command h =
     (case h of
        OnBack \<Rightarrow> Some ''nav.back'' | OnForward \<Rightarrow> Some ''nav.forward'' | OnUp \<Rightarrow> Some ''nav.up''
      | OnHome \<Rightarrow> Some ''nav.home'' | OnGoToLocation \<Rightarrow> Some ''nav.goToLocation''
      | OnVolumePicker \<Rightarrow> Some ''nav.volumePicker'' | OnNewFolder \<Rightarrow> Some ''create.folder''
      | OnNewFile \<Rightarrow> Some ''create.file'' | OnOpenSelected \<Rightarrow> Some ''op.open''
      | OnView \<Rightarrow> Some ''op.view'' | OnEdit \<Rightarrow> Some ''op.edit''
      | OnOpenWithDefaultApp \<Rightarrow> Some ''op.openDefault'' | OnRevealInFileManager \<Rightarrow> Some ''op.reveal''
      | OnCopyTo \<Rightarrow> Some ''op.copyTo'' | OnMoveTo \<Rightarrow> Some ''op.moveTo''
      | OnDelete \<Rightarrow> Some ''op.delete'' | OnTrash \<Rightarrow> Some ''op.trash''
      | OnCompress \<Rightarrow> Some ''op.compress'' | OnExtract \<Rightarrow> Some ''op.extract''
      | OnDeletePermanently \<Rightarrow> Some ''op.deletePermanent'' | OnProperties \<Rightarrow> Some ''op.properties''
      | OnCut \<Rightarrow> Some ''op.cut'' | OnCopy \<Rightarrow> Some ''op.copy'' | OnPaste \<Rightarrow> Some ''op.paste''
      | OnClearClipboard \<Rightarrow> Some ''clipboard.clear'' | OnSelectAll \<Rightarrow> Some ''selection.selectAll''
      | OnClearSelection \<Rightarrow> Some ''selection.clear'' | OnInvertSelection \<Rightarrow> Some ''selection.invert''
      | OnCopyPath \<Rightarrow> Some ''clipboard.copyPath'' | OnCopyName \<Rightarrow> Some ''clipboard.copyName''
      | OnCopyParentPath \<Rightarrow> Some ''clipboard.copyParent'' | OnCopyResourceUri \<Rightarrow> Some ''clipboard.copyUri''
      | OnToggleSidebar \<Rightarrow> Some ''view.toggleSidebar'' | OnToggleToolbar \<Rightarrow> Some ''view.toggleToolbar''
      | OnToggleStatusBar \<Rightarrow> Some ''view.toggleStatusBar'' | OnToggleDualPane \<Rightarrow> Some ''view.toggleDualPane''
      | OnTogglePaneDirection \<Rightarrow> Some ''layout.togglePaneDirection''
      | OnToggleHidden \<Rightarrow> Some ''view.toggleHidden'' | OnRefresh \<Rightarrow> Some ''nav.refresh''
      | OnManageFavorites \<Rightarrow> Some ''nav.manageFavorites'' | OnNetworkLocations \<Rightarrow> Some ''nav.networkLocations''
      | OnAddServer \<Rightarrow> Some ''nav.addServer'' | OnShowRecentLocations \<Rightarrow> Some ''nav.recentLocations''
      | OnClearRecentLocations \<Rightarrow> Some ''nav.clearRecentLocations''
      | OnOperationHistory \<Rightarrow> Some ''app.operationHistory'' | OnFilter \<Rightarrow> Some ''filter''
      | OnSearchRecursive \<Rightarrow> Some ''recursive-search'' | OnChecksum \<Rightarrow> Some ''op.checksum''
      | OnOpenTerminal \<Rightarrow> Some ''op.openTerminal'' | OnOpenTerminalExternal \<Rightarrow> Some ''op.openTerminalExternal''
      | OnToggleTerminal \<Rightarrow> Some ''view.toggleTerminal'' | OnCalculateSize \<Rightarrow> Some ''op.calculateSize''
      | OnJobActivity \<Rightarrow> Some ''view.toggleActivity'' | OnDiagnostics \<Rightarrow> Some ''app.diagnostics''
      | OnSwapPanes \<Rightarrow> Some ''layout.swapPanes'' | OnEqualizePanes \<Rightarrow> Some ''layout.equalizePanes''
      | OnShortcuts \<Rightarrow> Some ''app.shortcuts'' | OnDocumentation \<Rightarrow> Some ''app.documentation''
      | OnAbout \<Rightarrow> Some ''app.about'' | OnSettings \<Rightarrow> Some ''app.settings''
      | _ \<Rightarrow> None)"

definition menu_handler :: "MenuBarParams \<Rightarrow> MenuHandler \<Rightarrow> MenuEffect list" where
  "menu_handler params h =
     (let panelId = activePanelId (mb_state params)
      in case h of
           GoStandardLocation loc \<Rightarrow> goStandardLocation (mb_locations params) panelId loc
         | OnRename \<Rightarrow> [RenameDialog panelId]
         | OnViewMode mode \<Rightarrow> onViewMode panelId mode
         | OnSortBy f \<Rightarrow> [RunMenuCommand ''view.sort'' (Some panelId) (ContextArg (empty_context\<lparr>cx_sortField := Some f\<rparr>))]
         | OnSortDirection dir \<Rightarrow>
             [RunMenuCommand (if dir = ''ascending'' then ''view.sortAscending'' else ''view.sortDescending'')
                (Some panelId) NoArg]
         | OnTheme theme \<Rightarrow>
             [RunMenuCommand ''preferences.theme'' None (ContextArg (empty_context\<lparr>cx_preferenceValue := Some theme\<rparr>))]
         | OnDensity density \<Rightarrow>
             [RunMenuCommand ''preferences.density'' None (ContextArg (empty_context\<lparr>cx_preferenceValue := Some density\<rparr>))]
         | OnAddFavorite \<Rightarrow> [RunMenuCommand ''nav.addFavorite'' (Some panelId) NoArg]
         | OnSwitchPane \<Rightarrow> [RunMenuCommand ''layout.switchPane'' (Some panelId) NoArg]
         | OnExportDiagnostics \<Rightarrow> [OpenDiagnosticsDialog]
         | OnExit \<Rightarrow> (if mb_canRequestExit params then [RequestExit] else [CloseWindow])
         | OnCustomizeToolbar \<Rightarrow> [CustomizeToolbar]
         | _ \<Rightarrow> (case plain_command h of Some i \<Rightarrow> run_plain i | None \<Rightarrow> []))"

text \<open>The values of \<open>useMenuBarProps\<close>. A label is always given.\<close>

definition useMenuBarProps :: "MenuBarParams \<Rightarrow> MenuBarProps option" where
  "useMenuBarProps params =
     (let state = mb_state params; prefs = mb_preferences params
      in do { tab \<leftarrow> activeTab (panels state (activePanelId state));
              Some \<lparr>mp_activePanelId = activePanelId state,
                    mp_recentLocations = mb_recentLocations params,
                    mp_starredLocations = mb_starredLocations params,
                    mp_canGoBack = tab_backStack tab \<noteq> [],
                    mp_canGoForward = tab_forwardStack tab \<noteq> [],
                    mp_hasSelection = countOperationalSelection tab > 0,
                    mp_hasClipboard = mb_hasClipboard params,
                    mp_sidebarVisible = (Option.bind prefs cp_sidebarVisible \<noteq> Some False),
                    mp_toolbarVisible = mb_toolbarVisible params,
                    mp_statusBarVisible = mb_statusBarVisible params,
                    mp_dualPane = (map_option cp_paneMode prefs \<noteq> Some ''single''),
                    mp_paneDirection = or_default (Option.bind prefs cp_paneDirection) ''horizontal'',
                    mp_showHidden = tab_showHidden tab,
                    mp_viewMode = tab_viewMode tab,
                    mp_sortField = sort_field (tab_sort tab),
                    mp_sortDirection = sort_direction (tab_sort tab),
                    mp_theme = or_default (Option.bind prefs cp_theme) ''system'',
                    mp_density = or_default (Option.bind prefs cp_density) ''comfortable''\<rparr> })"

text \<open>Choosing an item: \<open>wrap\<close> and \<open>wrapArg\<close> close the menus first, and the menu is told to
  close once more.\<close>

definition choose_item :: "MenuBarParams \<Rightarrow> DropdownMenuItem \<Rightarrow> MenuEffect list" where
  "choose_item params item =
     (case mi_select item of Some h \<Rightarrow> CloseMenus # menu_handler params h | None \<Rightarrow> []) @ [CloseMenus]"

section \<open>Which menu is open\<close>

definition index_of :: "'a \<Rightarrow> 'a list \<Rightarrow> nat" where
  "index_of x xs = length (takeWhile (\<lambda>y. y \<noteq> x) xs)"

definition mnemonic_menu :: "string \<Rightarrow> MenuId option" where
  "mnemonic_menu key = find (\<lambda>i. MENU_MNEMONICS i = js_toUpperCase key) MENU_ORDER"

text \<open>The two listeners of the window, the one for an open menu first.\<close>

definition bar_arrow :: "string \<Rightarrow> MenuId \<Rightarrow> MenuId" where
  "bar_arrow key opened =
     (let idx = index_of opened MENU_ORDER; n = length MENU_ORDER
      in if key = ''ArrowRight'' then MENU_ORDER ! ((idx + 1) mod n)
         else MENU_ORDER ! ((idx + n - 1) mod n))"

definition open_menu_key :: "string \<Rightarrow> MenuId option \<Rightarrow> MenuId option" where
  "open_menu_key key openMenu =
     (case openMenu of
        None \<Rightarrow> None
      | Some opened \<Rightarrow>
          (if key = ''Escape'' then None
           else if key = ''ArrowLeft'' \<or> key = ''ArrowRight'' then Some (bar_arrow key opened)
           else openMenu))"

definition mnemonic_key :: "bool \<Rightarrow> string \<Rightarrow> MenuId option \<Rightarrow> MenuId option" where
  "mnemonic_key alt key openMenu =
     (if \<not> alt then openMenu
      else case mnemonic_menu key of Some i \<Rightarrow> Some i | None \<Rightarrow> openMenu)"

definition handleHover :: "MenuId \<Rightarrow> MenuId option \<Rightarrow> MenuId option" where
  "handleHover i openMenu = (if openMenu \<noteq> None \<and> openMenu \<noteq> Some i then Some i else openMenu)"

datatype MenuBarEvent =
    BarKey bool string
  | BarHover MenuId
  | BarTrigger MenuId
  | BarOutside
  | BarChosen

text \<open>A trigger asks for the opposite of its menu's state, \<open>closeAll\<close> closes whichever is open.\<close>

definition menubar_step :: "MenuId option \<Rightarrow> MenuBarEvent \<Rightarrow> MenuId option" where
  "menubar_step openMenu e =
     (case e of
        BarKey alt key \<Rightarrow> mnemonic_key alt key (open_menu_key key openMenu)
      | BarHover i \<Rightarrow> handleHover i openMenu
      | BarTrigger i \<Rightarrow> (if openMenu = Some i then None else Some i)
      | BarOutside \<Rightarrow> None
      | BarChosen \<Rightarrow> None)"

section \<open>The keys in an open menu\<close>

definition is_separator :: "DropdownMenuItem \<Rightarrow> bool" where
  "is_separator item \<longleftrightarrow> mi_separatorBefore item \<and> js_trim (mi_label item) = []"

definition menuItemElements :: "DropdownMenuItem list \<Rightarrow> DropdownMenuItem list" where
  "menuItemElements items = filter (\<lambda>it. \<not> is_separator it \<and> \<not> mi_disabled it) items"

definition check_mark :: string where "check_mark = utf8 [226, 156, 147]"
definition submenu_caret :: string where "submenu_caret = utf8 [226, 128, 186]"

text \<open>The text that is shown of an item: its mark, its label, and its shortcut or the arrow of a
  submenu. An icon takes the place of the mark.\<close>

definition textContent :: "DropdownMenuItem \<Rightarrow> string" where
  "textContent item =
     (if mi_children item \<noteq> [] then mi_label item @ submenu_caret
      else (if \<not> mi_icon item \<and> mi_checked item = Some True then check_mark else [])
           @ mi_label item @ or_default (mi_shortcut item) [])"

datatype MenuKeyResult = MenuCloses | MenuFocus nat | MenuIgnores

definition type_ahead :: "string \<Rightarrow> nat \<Rightarrow> DropdownMenuItem list \<Rightarrow> nat option" where
  "type_ahead key start elements =
     (let ordered = [start ..< length elements] @ [0 ..< min start (length elements)]
      in find (\<lambda>i. js_startsWith (js_toLowerCase (js_trim (textContent (elements ! i)))) (js_toLowerCase key))
           ordered)"

definition handleMenuKeyDown :: "DropdownMenuItem list \<Rightarrow> nat option \<Rightarrow> string \<Rightarrow> MenuKeyResult" where
  "handleMenuKeyDown items current key =
     (let elements = menuItemElements items; n = length elements
      in if key = ''Tab'' \<or> key = ''Escape'' then MenuCloses
         else if n = 0 then MenuIgnores
         else if key = ''ArrowDown''
         then MenuFocus (case current of None \<Rightarrow> 0 | Some i \<Rightarrow> (i + 1) mod n)
         else if key = ''ArrowUp''
         then MenuFocus (case current of None \<Rightarrow> n - 1 | Some i \<Rightarrow> (i + n - 1) mod n)
         else if key = ''Home'' then MenuFocus 0
         else if key = ''End'' then MenuFocus (n - 1)
         else if length key = 1 \<and> \<not> is_js_space (hd key)
         then (case type_ahead key (case current of None \<Rightarrow> 0 | Some i \<Rightarrow> i + 1) elements of
                 Some i \<Rightarrow> MenuFocus i | None \<Rightarrow> MenuIgnores)
         else MenuIgnores)"

section \<open>The context menu\<close>

datatype (plugins only: code size) CtxCall =
    CbOpen FileEntryDto | CbOpenInNewTab string | CbNavigateOtherPane string | CbNavigateTo string
  | CbOpenWithDefaultApp | CbReveal FileEntryDto | CbAddFavorite string | CbCut | CbCopy | CbPaste
  | CbCopyPath | CbCopyName | CbRename | CbCopyTo | CbMoveTo | CbDelete | CbTrash
  | CbPermanentDelete | CbToggleStarred FileEntryDto | CbProperties "FileEntryDto option"
  | CbCopyParentPath | CbCopyResourceUri | CbCompress | CbExtract | CbOpenTerminal
  | CbOpenTerminalExternal | CbChecksum | CbAssignTag FileEntryDto string
  | CbRemoveTag FileEntryDto string | CbCopyBreadcrumbPath string | CbRevealBreadcrumb string
  | CbCreateFolder | CbCreateFile | CbRefresh | CbToggleHidden | CbViewMode ViewMode

datatype (plugins only: code size) CtxEntry =
    CtxItem (ci_label: string) (ci_disabled: bool) (ci_reason: "string option")
      (ci_shortcut: "string option") (ci_call: CtxCall)
  | CtxSeparator

datatype (plugins only: code size) CtxNode = CtxPlain CtxEntry | CtxSubmenu string "CtxEntry list"

record FileEntryMenuParams =
  fm_currentTabUri :: string
  fm_entry :: FileEntryDto
  fm_canPaste :: bool
  fm_isStarred :: bool
  fm_selectedCount :: nat
  fm_capabilities :: "FileMutationCapabilities option"
  fm_mac :: bool
  fm_useTrashByDefault :: bool
  fm_entryTagColors :: "string list option"
  fm_tags :: bool

definition ctx_item :: "string \<Rightarrow> CtxCall \<Rightarrow> CtxNode" where
  "ctx_item l c = CtxPlain (CtxItem l False None None c)"

definition ctx_keys :: "string \<Rightarrow> string option \<Rightarrow> CtxCall \<Rightarrow> CtxNode" where
  "ctx_keys l keys c = CtxPlain (CtxItem l False None keys c)"

definition ctx_when :: "bool \<Rightarrow> string \<Rightarrow> string \<Rightarrow> string option \<Rightarrow> CtxCall \<Rightarrow> CtxNode" where
  "ctx_when enabled reason l keys c = CtxPlain (CtxItem l (\<not> enabled) (Some reason) keys c)"

text \<open>\<open>entryTagColors?.indexOf(color) !== -1\<close>: without a list every color counts as there.\<close>

definition has_tag_color :: "string list option \<Rightarrow> string \<Rightarrow> bool" where
  "has_tag_color colors color = (case colors of None \<Rightarrow> True | Some cs \<Rightarrow> color \<in> set cs)"

definition capitalized :: "string \<Rightarrow> string" where
  "capitalized s = js_toUpperCase (take 1 s) @ drop 1 s"

definition tag_items :: "FileEntryMenuParams \<Rightarrow> CtxEntry list" where
  "tag_items p =
     map (\<lambda>color.
        let hasColor = has_tag_color (fm_entryTagColors p) color
        in CtxItem (capitalized color @ (if hasColor then '' '' @ check_mark else [])) False None None
             (if hasColor then CbRemoveTag (fm_entry p) color else CbAssignTag (fm_entry p) color))
       tagColorValues"

definition tools_items ::
  "FileEntryMenuParams \<Rightarrow> string \<Rightarrow> bool \<Rightarrow> CtxEntry list" where
  "tools_items p selectionLabel mayDelete =
     (let remotePane = isRemoteUri (fm_currentTabUri p); entry = fm_entry p;
          canUnpack = \<not> remotePane \<and> fe_kind entry = KFile \<and> isArchiveFile (fe_name entry)
      in [CtxItem (''Pack'' @ ellipsis) remotePane (Some ''Packing is available only for local selections'')
            None CbCompress]
         @ (if canUnpack then [CtxItem (''Unpack'' @ ellipsis) False None None CbExtract] else [])
         @ [CtxItem (''Checksum'' @ ellipsis) False None None CbChecksum,
            CtxSeparator,
            CtxItem (''Delete Permanently'' @ ellipsis) (\<not> mayDelete)
              (Some (selectionLabel @ '' cannot be permanently deleted''))
              (formatCommandShortcut ''op.deletePermanent'' (fm_mac p)) CbPermanentDelete])"

definition clipboard_items ::
  "FileEntryMenuParams \<Rightarrow> string \<Rightarrow> bool \<Rightarrow> bool \<Rightarrow> CtxNode list" where
  "clipboard_items p selectionLabel mayMove mayCopy =
     (let keys = (\<lambda>i. formatCommandShortcut i (fm_mac p)); entry = fm_entry p
      in [ctx_when mayMove (selectionLabel @ '' cannot be moved from this location'') ''Cut'' (keys ''op.cut'') CbCut,
          ctx_when mayCopy (selectionLabel @ '' cannot be copied from this location'') ''Copy'' (keys ''op.copy'') CbCopy]
         @ (if fm_canPaste p
            then [ctx_keys (if fe_kind entry = KDirectory then ''Paste Into Folder'' else ''Paste'')
                    (keys ''op.paste'') CbPaste]
            else []))"

definition open_items :: "FileEntryMenuParams \<Rightarrow> bool \<Rightarrow> bool \<Rightarrow> CtxNode list" where
  "open_items p singleSelection mayEdit =
     (let entry = fm_entry p
      in [ctx_keys ''Open'' (formatCommandShortcut ''op.open'' (fm_mac p)) (CbOpen entry)]
         @ (if fe_kind entry = KDirectory
            then [ctx_when singleSelection ''Open in New Tab is available for one folder at a time''
                    ''Open in New Tab'' None (CbOpenInNewTab (fe_uri entry)),
                  ctx_when singleSelection ''Open in Other Pane is available for one folder at a time''
                    ''Open in Other Pane'' None (CbNavigateOtherPane (fe_uri entry))]
            else [ctx_when (singleSelection \<and> mayEdit)
                    (if \<not> singleSelection then ''Open With Default App is available for one file at a time''
                     else ''Open With Default App is unavailable for this provider'')
                    ''Open With Default App'' None CbOpenWithDefaultApp])
         @ [ctx_when singleSelection ''Reveal is available for one item at a time''
              ''Reveal in System File Manager'' None (CbReveal entry)])"

definition change_items ::
  "FileEntryMenuParams \<Rightarrow> string \<Rightarrow> bool \<Rightarrow> bool \<Rightarrow> bool \<Rightarrow> bool \<Rightarrow> CtxNode list" where
  "change_items p selectionLabel singleSelection mayRename mayCopy mayMove =
     (let keys = (\<lambda>i. formatCommandShortcut i (fm_mac p)); entry = fm_entry p
      in [ctx_when (singleSelection \<and> mayRename)
            (if \<not> singleSelection then ''Rename is available for one item at a time''
             else fe_name entry @ '' cannot be renamed'')
            (''Rename'' @ ellipsis) (keys ''op.rename'') CbRename,
          ctx_when mayCopy (selectionLabel @ '' cannot be copied from this location'') (''Copy To'' @ ellipsis)
            (keys ''op.copyTo'') CbCopyTo,
          ctx_when mayMove (selectionLabel @ '' cannot be moved from this location'') (''Move To'' @ ellipsis)
            (keys ''op.moveTo'') CbMoveTo])"

definition mark_items :: "FileEntryMenuParams \<Rightarrow> bool \<Rightarrow> CtxNode list" where
  "mark_items p singleSelection =
     (let entry = fm_entry p
      in (if fe_kind entry = KDirectory \<and> singleSelection
          then [ctx_item ''Add to Favorites'' (CbAddFavorite (fe_uri entry))] else [])
         @ [ctx_when singleSelection ''Stars are available for one item at a time''
              (if fm_isStarred p then ''Remove Star'' else ''Add Star'') None (CbToggleStarred entry)]
         @ (if fm_tags p \<and> singleSelection then [CtxSubmenu ''Tags'' (tag_items p)] else []))"

definition delete_items :: "FileEntryMenuParams \<Rightarrow> string \<Rightarrow> bool \<Rightarrow> CtxNode list" where
  "delete_items p selectionLabel mayDelete =
     [ctx_when mayDelete (selectionLabel @ '' cannot be deleted'') (''Delete'' @ ellipsis)
        (formatCommandShortcut ''op.delete'' (fm_mac p)) CbDelete]
     @ (if fm_useTrashByDefault p \<and> \<not> isRemoteUri (fm_currentTabUri p)
        then [ctx_when mayDelete (selectionLabel @ '' cannot be moved to Trash'')
                (''Move to Trash'' @ ellipsis) None CbTrash]
        else [])"

definition buildFileEntryMenu :: "FileEntryMenuParams \<Rightarrow> CtxNode list" where
  "buildFileEntryMenu p =
     (let entry = fm_entry p; keys = (\<lambda>i. formatCommandShortcut i (fm_mac p))
      in if isParentDirectoryEntry entry (fm_currentTabUri p)
         then [ctx_keys ''Open'' (keys ''op.open'') (CbOpen entry)]
         else let isDirectory = (fe_kind entry = KDirectory);
                  singleSelection = (fm_selectedCount p \<le> 1);
                  caps = fm_capabilities p;
                  mayCopy = (case caps of Some c \<Rightarrow> canCopy c
                             | None \<Rightarrow> if isDirectory then fe_canList entry else fe_canRead entry);
                  mayMove = (case caps of Some c \<Rightarrow> canMove c
                             | None \<Rightarrow> fe_canWrite entry \<and> fe_canDelete entry);
                  mayRename = (case caps of Some c \<Rightarrow> canRename c | None \<Rightarrow> fe_canRename entry);
                  mayDelete = (case caps of Some c \<Rightarrow> canDelete c | None \<Rightarrow> fe_canDelete entry);
                  mayEdit = (case caps of Some c \<Rightarrow> canEdit c
                             | None \<Rightarrow> \<not> isRemoteUri (fm_currentTabUri p));
                  selectionLabel = (if fm_selectedCount p > 1
                                    then nat_str (fm_selectedCount p) @ '' selected items'' else fe_name entry)
              in open_items p singleSelection mayEdit
                 @ [CtxPlain CtxSeparator]
                 @ clipboard_items p selectionLabel mayMove mayCopy
                 @ [CtxPlain CtxSeparator]
                 @ change_items p selectionLabel singleSelection mayRename mayCopy mayMove
                 @ [CtxPlain CtxSeparator]
                 @ mark_items p singleSelection
                 @ [CtxPlain CtxSeparator,
                    CtxSubmenu ''Copy''
                      [CtxItem ''Copy Path'' False None None CbCopyPath,
                       CtxItem ''Copy Name'' False None None CbCopyName,
                       CtxItem ''Copy Parent Folder Path'' False None None CbCopyParentPath,
                       CtxItem ''Copy Resource URI'' False None None CbCopyResourceUri],
                    CtxSubmenu ''Open With''
                      [CtxItem ''Open Terminal'' False None None CbOpenTerminal,
                       CtxItem ''Open External Terminal'' False None None CbOpenTerminalExternal,
                       CtxItem ''Reveal in System File Manager'' False None None (CbReveal entry)],
                    CtxSubmenu ''Tools'' (tools_items p selectionLabel mayDelete),
                    CtxPlain CtxSeparator]
                 @ delete_items p selectionLabel mayDelete
                 @ [CtxPlain CtxSeparator,
                    ctx_keys (''Properties'' @ ellipsis) (keys ''op.properties'') (CbProperties (Some entry))])"

definition buildBreadcrumbMenu :: "string \<Rightarrow> CtxNode list" where
  "buildBreadcrumbMenu path =
     [ctx_item ''Open This Location'' (CbNavigateTo path),
      ctx_item ''Open in Other Pane'' (CbNavigateOtherPane path),
      CtxPlain CtxSeparator,
      ctx_item ''Copy Path'' (CbCopyBreadcrumbPath path),
      ctx_item ''Reveal in File Manager'' (CbRevealBreadcrumb path),
      CtxPlain CtxSeparator,
      ctx_item ''Add to Favorites'' (CbAddFavorite path)]"

definition buildPaneBackgroundMenu :: "bool \<Rightarrow> bool \<Rightarrow> CtxNode list" where
  "buildPaneBackgroundMenu canPaste showHidden =
     [CtxPlain (CtxItem ''Paste'' (\<not> canPaste) None None CbPaste),
      ctx_item ''New Folder'' CbCreateFolder,
      ctx_item ''New File'' CbCreateFile,
      CtxPlain CtxSeparator,
      ctx_item ''Refresh'' CbRefresh,
      ctx_item (if showHidden then ''Hide Hidden Files'' else ''Show Hidden Files'') CbToggleHidden,
      ctx_item ''Details View'' (CbViewMode VDetails),
      CtxPlain CtxSeparator,
      ctx_item ''Current Folder Properties'' (CbProperties None)]"

section \<open>What the context menu is given and does\<close>

record ContextMenuState =
  cm_panelId :: PanelId
  cm_x :: rat
  cm_y :: rat
  cm_entry :: "FileEntryDto option"
  cm_breadcrumbPath :: "string option"

text \<open>The entries the menu is for: those selected among the visible ones, or its own entry when
  that is not one of them; and the tab with these as its selection.\<close>

definition contextSelection ::
  "Platform \<Rightarrow> PanelTabState \<Rightarrow> FileEntryDto option \<Rightarrow> FileEntryDto list option" where
  "contextSelection pf tab entry =
     do { visible \<leftarrow> selectVisibleEntries pf tab;
          (let visibleSelected = filter (\<lambda>e. fe_uri e \<in> set (tab_selectedIds tab)) visible
           in Some (case entry of
                      Some e \<Rightarrow> if \<not> list_ex (\<lambda>x. fe_uri x = fe_uri e) visibleSelected then [e]
                                else visibleSelected
                    | None \<Rightarrow> visibleSelected)) }"

definition contextTab :: "PanelTabState \<Rightarrow> FileEntryDto list \<Rightarrow> PanelTabState" where
  "contextTab tab selection =
     tab\<lparr>tab_entriesById := fold (\<lambda>e m. obj_set (fe_uri e) e m) selection (tab_entriesById tab),
         tab_selectedIds := map fe_uri selection\<rparr>"

record OverlayParams =
  ov_state :: FileOctopusState
  ov_hasClipboard :: bool
  ov_useTrashByDefault :: "bool option"
  ov_starredUris :: "string list"
  ov_tags :: "FileTag list"
  ov_mac :: bool

definition overlay_tab :: "OverlayParams \<Rightarrow> ContextMenuState \<Rightarrow> PanelTabState option" where
  "overlay_tab params menu = activeTab (panels (ov_state params) (cm_panelId menu))"

definition entry_menu_params ::
  "Platform \<Rightarrow> OverlayParams \<Rightarrow> ContextMenuState \<Rightarrow> FileEntryDto \<Rightarrow> FileEntryMenuParams option" where
  "entry_menu_params pf params menu entry =
     do { tab \<leftarrow> overlay_tab params menu;
          selection \<leftarrow> contextSelection pf tab (Some entry);
          Some \<lparr>fm_currentTabUri = tab_uri tab, fm_entry = entry,
                fm_canPaste = ov_hasClipboard params,
                fm_isStarred = (fe_uri entry \<in> set (ov_starredUris params)),
                fm_selectedCount = countOperationalSelection (contextTab tab selection),
                fm_capabilities = Some (fileMutationState (contextTab tab selection) selection),
                fm_mac = ov_mac params,
                fm_useTrashByDefault = (ov_useTrashByDefault params = Some True),
                fm_entryTagColors = Some (getTagColorsForEntry (ov_tags params) (fe_uri entry)),
                fm_tags = True\<rparr> }"

text \<open>The items of the menu that is open.\<close>

definition contextMenuItems ::
  "Platform \<Rightarrow> OverlayParams \<Rightarrow> ContextMenuState \<Rightarrow> CtxNode list option" where
  "contextMenuItems pf params menu =
     (case given (cm_breadcrumbPath menu) of
        Some path \<Rightarrow> Some (buildBreadcrumbMenu path)
      | None \<Rightarrow>
          (case cm_entry menu of
             None \<Rightarrow> do { tab \<leftarrow> overlay_tab params menu;
                         Some (buildPaneBackgroundMenu (ov_hasClipboard params) (tab_showHidden tab)) }
           | Some entry \<Rightarrow> do { p \<leftarrow> entry_menu_params pf params menu entry; Some (buildFileEntryMenu p) }))"

datatype (plugins only: code size) CtxEffect =
    CxRun PanelId string CommandInvokeArg
  | CxActivate PanelId FileEntryDto
  | CxReveal PanelId FileEntryDto
  | CxOpenExternal FileEntryDto
  | CxAct PanelAction
  | CxNavigate PanelId string
  | CxNavigateOther string
  | CxWriteText string
  | CxAssignTag string string string
  | CxRemoveTag string string
  | CxClose

definition entry_arg :: "FileEntryDto option \<Rightarrow> CommandInvokeArg" where
  "entry_arg e = (case e of Some x \<Rightarrow> EntryArg x | None \<Rightarrow> NoArg)"

definition ctx_command :: "CtxCall \<Rightarrow> string option" where
  "ctx_command c =
     (case c of
        CbToggleHidden \<Rightarrow> Some ''view.toggleHidden'' | CbRename \<Rightarrow> Some ''op.rename''
      | CbCopy \<Rightarrow> Some ''op.copy'' | CbCut \<Rightarrow> Some ''op.cut'' | CbPaste \<Rightarrow> Some ''op.paste''
      | CbDelete \<Rightarrow> Some ''op.delete'' | CbTrash \<Rightarrow> Some ''op.trash''
      | CbToggleStarred _ \<Rightarrow> Some ''op.toggleStarred''
      | CbPermanentDelete \<Rightarrow> Some ''op.deletePermanent''
      | CbCopyPath \<Rightarrow> Some ''clipboard.copyPath'' | CbCopyName \<Rightarrow> Some ''clipboard.copyName''
      | CbCompress \<Rightarrow> Some ''op.compress'' | CbExtract \<Rightarrow> Some ''op.extract''
      | CbOpenTerminal \<Rightarrow> Some ''op.openTerminal''
      | CbOpenTerminalExternal \<Rightarrow> Some ''op.openTerminalExternal''
      | CbChecksum \<Rightarrow> Some ''op.checksum'' | CbCreateFolder \<Rightarrow> Some ''create.folder''
      | CbCreateFile \<Rightarrow> Some ''create.file'' | CbRefresh \<Rightarrow> Some ''nav.refresh''
      | CbCopyTo \<Rightarrow> Some ''op.copyTo'' | CbMoveTo \<Rightarrow> Some ''op.moveTo''
      | CbCopyParentPath \<Rightarrow> Some ''clipboard.copyParent''
      | CbCopyResourceUri \<Rightarrow> Some ''clipboard.copyUri''
      | _ \<Rightarrow> None)"

definition overlay_call :: "ContextMenuState \<Rightarrow> CtxCall \<Rightarrow> CtxEffect list" where
  "overlay_call menu c =
     (let pid = cm_panelId menu; arg = entry_arg (cm_entry menu)
      in case c of
           CbOpen e \<Rightarrow> [CxActivate pid e]
         | CbOpenInNewTab uri \<Rightarrow> [CxAct (OpenTab pid uri)]
         | CbProperties e \<Rightarrow>
             [CxRun pid ''op.properties''
                (case e of Some x \<Rightarrow> EntryArg x
                 | None \<Rightarrow> (case cm_entry menu of Some x \<Rightarrow> EntryArg x | None \<Rightarrow> NullArg))]
         | CbReveal e \<Rightarrow> [CxReveal pid e]
         | CbViewMode mode \<Rightarrow>
             (case viewModeCommandId mode of
                Some commandId \<Rightarrow> [CxRun pid commandId NoArg]
              | None \<Rightarrow> [CxAct (SetViewMode pid mode)])
         | CbOpenWithDefaultApp \<Rightarrow>
             (case cm_entry menu of
                Some e \<Rightarrow> if fe_kind e \<noteq> KDirectory then [CxOpenExternal e] else [CxRun pid ''op.openDefault'' arg]
              | None \<Rightarrow> [CxRun pid ''op.openDefault'' arg])
         | CbNavigateTo uri \<Rightarrow> [CxNavigate pid uri]
         | CbNavigateOtherPane uri \<Rightarrow> [CxNavigateOther uri]
         | CbCopyBreadcrumbPath path \<Rightarrow> [CxWriteText path]
         | CbRevealBreadcrumb _ \<Rightarrow> []
         | CbAddFavorite uri \<Rightarrow>
             [CxRun pid ''nav.addFavorite''
                (case cm_entry menu of Some e \<Rightarrow> EntryArg e
                 | None \<Rightarrow> ContextArg (empty_context\<lparr>cx_targetUri := Some uri\<rparr>))]
         | CbAssignTag e color \<Rightarrow> [CxAssignTag (fe_uri e) color color]
         | CbRemoveTag e color \<Rightarrow> [CxRemoveTag (fe_uri e) color]
         | _ \<Rightarrow> (case ctx_command c of Some i \<Rightarrow> [CxRun pid i arg] | None \<Rightarrow> []))"

definition run_ctx :: "ContextMenuState \<Rightarrow> CtxCall \<Rightarrow> CtxEffect list" where
  "run_ctx menu c = overlay_call menu c @ [CxClose]"

section \<open>Where a context menu stands\<close>

definition context_menu_pad :: rat where "context_menu_pad = 8"

text \<open>The left and upper edge, and the height when it has to scroll. The edges are those the
  pointer gives where the menu fits.\<close>

definition context_menu_position ::
  "rat \<Rightarrow> rat \<Rightarrow> rat \<Rightarrow> rat \<Rightarrow> rat \<Rightarrow> rat \<Rightarrow> rat \<times> rat \<times> rat option" where
  "context_menu_position x y width height vw vh =
     (let pad = context_menu_pad;
          left = (if x + width > vw - pad then max pad (vw - width - pad) else x);
          maxUsableHeight = max 0 (vh - pad * 2)
      in if height > maxUsableHeight then (left, pad, Some maxUsableHeight)
         else (left, min (max pad y) (max pad (vh - height - pad)), None))"

record Rect =
  rc_left :: rat
  rc_right :: rat
  rc_top :: rat

definition submenu_position ::
  "Rect \<Rightarrow> rat \<Rightarrow> rat \<Rightarrow> rat \<Rightarrow> rat \<Rightarrow> rat \<Rightarrow> rat \<times> rat \<times> rat option" where
  "submenu_position trigger width rectHeight scrollHeight vw vh =
     (let pad = context_menu_pad;
          submenuWidth = max width 160;
          submenuHeight = max scrollHeight rectHeight;
          maxUsableHeight = max 0 (vh - pad * 2);
          beside = rc_right trigger - 1;
          left0 = (if beside + submenuWidth > vw - pad then rc_left trigger - submenuWidth + 1 else beside);
          left = min (max pad left0) (max pad (vw - submenuWidth - pad));
          top = rc_top trigger - 4
      in if submenuHeight > maxUsableHeight then (left, pad, Some maxUsableHeight)
         else (left, min (max pad top) (max pad (vh - submenuHeight - pad)), None))"

section \<open>The keys in a context menu\<close>

text \<open>The buttons that are not disabled, in the order of the document. Those of a submenu are
  there all the time, but shown only while the focus is in the submenu.\<close>

record CtxElement =
  ce_call :: "CtxCall option"
  ce_group :: "nat option"
  ce_inside :: bool

definition entry_elements :: "nat option \<Rightarrow> bool \<Rightarrow> CtxEntry list \<Rightarrow> CtxElement list" where
  "entry_elements g inside es =
     List.map_filter (\<lambda>e. case e of
        CtxItem l dis r k c \<Rightarrow> if dis then None else Some \<lparr>ce_call = Some c, ce_group = g, ce_inside = inside\<rparr>
      | CtxSeparator \<Rightarrow> None) es"

fun ctx_elements :: "nat \<Rightarrow> CtxNode list \<Rightarrow> CtxElement list" where
  "ctx_elements g [] = []"
| "ctx_elements g (CtxPlain e # ns) = entry_elements None False [e] @ ctx_elements g ns"
| "ctx_elements g (CtxSubmenu l es # ns) =
     \<lparr>ce_call = None, ce_group = Some g, ce_inside = False\<rparr> # entry_elements (Some g) True es
     @ ctx_elements (Suc g) ns"

record CtxKeys =
  ck_focusedIndex :: "nat option"
  ck_domFocus :: "nat option"

text \<open>An element inside a submenu can only take the focus when the submenu is shown.\<close>

definition shown_element :: "CtxElement list \<Rightarrow> nat option \<Rightarrow> nat \<Rightarrow> bool" where
  "shown_element els domFocus i =
     (\<not> ce_inside (els ! i) \<or>
      (case domFocus of Some j \<Rightarrow> ce_group (els ! j) = ce_group (els ! i) | None \<Rightarrow> False))"

definition focus_element :: "CtxElement list \<Rightarrow> nat \<Rightarrow> CtxKeys \<Rightarrow> CtxKeys" where
  "focus_element els i s =
     s\<lparr>ck_focusedIndex := Some i,
       ck_domFocus := (if shown_element els (ck_domFocus s) i then Some i else ck_domFocus s)\<rparr>"

datatype CtxKeyResult = CtxKeysMove CtxKeys | CtxKeysClick CtxCall | CtxKeysClose

definition handleContextKey :: "CtxElement list \<Rightarrow> CtxKeys \<Rightarrow> string \<Rightarrow> CtxKeyResult" where
  "handleContextKey els s key =
     (let n = length els
      in if key = ''Escape'' then CtxKeysClose
         else if n = 0 then CtxKeysMove s
         else if key = ''ArrowDown''
         then CtxKeysMove (focus_element els
                (case ck_focusedIndex s of None \<Rightarrow> 0 | Some i \<Rightarrow> if i + 1 < n then i + 1 else 0) s)
         else if key = ''ArrowUp''
         then CtxKeysMove (focus_element els
                (case ck_focusedIndex s of None \<Rightarrow> n - 1 | Some i \<Rightarrow> if i > 0 then i - 1 else n - 1) s)
         else if key = ''Enter''
         then (case ck_focusedIndex s of
                 Some i \<Rightarrow> (if i < n then (case ce_call (els ! i) of Some c \<Rightarrow> CtxKeysClick c | None \<Rightarrow> CtxKeysMove s)
                           else CtxKeysMove s)
               | None \<Rightarrow> CtxKeysMove s)
         else CtxKeysMove s)"

fun ctx_keys_run :: "CtxElement list \<Rightarrow> CtxKeys \<Rightarrow> string list \<Rightarrow> CtxKeyResult" where
  "ctx_keys_run els s [] = CtxKeysMove s"
| "ctx_keys_run els s (k # ks) =
     (case handleContextKey els s k of CtxKeysMove s' \<Rightarrow> ctx_keys_run els s' ks | r \<Rightarrow> r)"

definition opened_keys :: CtxKeys where
  "opened_keys = \<lparr>ck_focusedIndex = None, ck_domFocus = None\<rparr>"

end
