(* ===== verification/MenuFacts.thy ===== *)
theory MenuFacts
  imports Menus Keyboard
begin

text \<open>
  What holds of the menus: which commands they run, where the places of the Go menu lead, how
  the keys move, where a context menu stands, and which entries it speaks of.
\<close>

section \<open>Commands\<close>

definition known_command :: "string \<Rightarrow> bool" where
  "known_command i \<longleftrightarrow> i \<in> set (map cd_id COMMAND_REGISTRY) \<or> i = ''filter'' \<or> i = ''recursive-search''"

lemma known_command_simps:
  "known_command i \<longleftrightarrow>
     i \<in> set (obj_keys (command_cases sample_deps empty_context Left sample_tab None)) \<or>
     i = ''filter'' \<or> i = ''recursive-search''"
  using known_ids[of sample_deps empty_context Left sample_tab None] by (simp only: known_command_def)

lemma plain_command_known: "plain_command h = Some i \<Longrightarrow> known_command i"
  by (cases h) (simp_all add: plain_command_def known_command_simps case_keys del: known_command_def)

lemma ctx_command_known: "ctx_command c = Some i \<Longrightarrow> known_command i"
  by (cases c) (simp_all add: ctx_command_def known_command_simps case_keys)

lemma view_mode_known: "viewModeCommandId m = Some i \<Longrightarrow> known_command i"
  by (cases m) (simp_all add: viewModeCommandId_def VIEW_MODE_COMMAND_IDS_def known_command_simps case_keys)

lemma further_known:
  "known_command ''view.sort''" "known_command ''view.sortAscending''" "known_command ''view.sortDescending''"
  "known_command ''preferences.theme''" "known_command ''preferences.density''"
  "known_command ''nav.addFavorite''" "known_command ''layout.switchPane''"
  "known_command ''op.properties''" "known_command ''op.openDefault''"
  by (simp_all add: known_command_simps case_keys)

text \<open>C6: every command that a menu runs is one the dispatcher knows. Whatever item of the menu bar
  or of a context menu is chosen, each command that it runs is in the registry or is one of the
  two names that focus a field.\<close>

theorem menu_commands_known:
  "list_all (\<lambda>e. case e of RunMenuCommand i p a \<Rightarrow> known_command i | _ \<Rightarrow> True) (choose_item params item) \<and>
   list_all (\<lambda>e. case e of CxRun p i a \<Rightarrow> known_command i | _ \<Rightarrow> True) (run_ctx menu c)"
proof
  have "list_all (\<lambda>e. case e of RunMenuCommand i p a \<Rightarrow> known_command i | _ \<Rightarrow> True) (menu_handler params h)" for h
    by (cases h)
      (auto simp: menu_handler_def Let_def run_plain_def goStandardLocation_def onViewMode_def further_known
        plain_command_known view_mode_known split: option.split)
  then show "list_all (\<lambda>e. case e of RunMenuCommand i p a \<Rightarrow> known_command i | _ \<Rightarrow> True) (choose_item params item)"
    by (simp add: choose_item_def split: option.split)
  show "list_all (\<lambda>e. case e of CxRun p i a \<Rightarrow> known_command i | _ \<Rightarrow> True) (run_ctx menu c)"
    by (cases c)
      (auto simp: run_ctx_def overlay_call_def Let_def further_known ctx_command_known view_mode_known
        split: option.split)
qed

section \<open>Places\<close>

lemma code_colon: "code (CHR '':'') = 58"
  by (simp add: code_def)

lemma lower_char_colon: "lower_char c = CHR '':'' \<longleftrightarrow> c = CHR '':''"
proof -
  have "code (lower_char c) = 58 \<longleftrightarrow> code c = 58"
    by (simp add: lower_char_def is_ascii_upper_def)
  then have "code (lower_char c) = code (CHR '':'') \<longleftrightarrow> code c = code (CHR '':'')"
    unfolding code_colon .
  then show ?thesis unfolding code_inject .
qed

lemma lower_colon: "CHR '':'' \<in> set (js_toLowerCase s) \<longleftrightarrow> CHR '':'' \<in> set s"
proof (induction s)
  case (Cons c cs)
  have "(CHR '':'' = lower_char c) = (CHR '':'' = c)"
    using lower_char_colon[of c] by (simp only: eq_commute[of "CHR '':''"])
  then show ?case using Cons by (simp add: js_toLowerCase_def)
qed (simp add: js_toLowerCase_def)

text \<open>The starred and recent places of the Go menu lead nowhere. An item hands the address of
  its place to \<open>goStandardLocation\<close>, which looks for a standard location with that id. No id has a
  colon, every address has: choosing the item closes the menus and does nothing else.\<close>

theorem recent_places_go_nowhere:
  assumes "list_all (\<lambda>l. CHR '':'' \<notin> set (sl_id l)) (mb_locations params)"
    and "place \<in> set (mp_starredLocations props @ mp_recentLocations props)"
    and "CHR '':'' \<in> set (pe_uri place)"
    and "item = place_item prefix icon place"
  shows "choose_item params item = [CloseMenus, CloseMenus]"
proof -
  have "js_toLowerCase (sl_id l) \<noteq> js_toLowerCase (pe_uri place)" if "l \<in> set (mb_locations params)" for l
  proof
    assume "js_toLowerCase (sl_id l) = js_toLowerCase (pe_uri place)"
    then have "CHR '':'' \<in> set (sl_id l)" using assms(3) lower_colon by metis
    then show False using assms(1) that by (auto simp: list_all_iff)
  qed
  then have "find (\<lambda>l. js_toLowerCase (sl_id l) = js_toLowerCase (pe_uri place)) (mb_locations params) = None"
    by (simp add: find_None_iff)
  then show ?thesis
    by (simp add: choose_item_def assms(4) place_item_def menu_handler_def goStandardLocation_def)
qed

section \<open>Where a context menu stands\<close>

text \<open>A context menu stays in the window. When the window is high enough to scroll and wide enough
  for the menu, the menu and its submenus lie within the margin of the window on every side that
  they are moved at, and a menu that fits where the pointer is stays there.\<close>

theorem context_menu_in_view:
  assumes "0 \<le> height" and "2 * context_menu_pad \<le> vh" and "0 \<le> width" and "width + 2 * context_menu_pad \<le> vw"
    and "context_menu_position x y width height vw vh = (leftEdge, upper, scroll)"
    and "submenu_position trigger subWidth height scrollHeight vw vh = (subLeft, subTop, subScroll)"
    and "max subWidth 160 + 2 * context_menu_pad \<le> vw"
  shows "leftEdge + width \<le> vw - context_menu_pad \<and> context_menu_pad \<le> upper \<and>
    upper + or_default scroll height \<le> vh - context_menu_pad \<and>
    (context_menu_pad \<le> y \<and> x + width \<le> vw - context_menu_pad \<and> y + height \<le> vh - context_menu_pad \<longrightarrow>
       (leftEdge, upper, scroll) = (x, y, None)) \<and>
    context_menu_pad \<le> subLeft \<and> subLeft + max subWidth 160 \<le> vw - context_menu_pad \<and>
    context_menu_pad \<le> subTop \<and>
    subTop + or_default subScroll (max scrollHeight height) \<le> vh - context_menu_pad"
  using assms
  by (auto simp: context_menu_position_def submenu_position_def context_menu_pad_def Let_def or_default_def
      max_def min_def split: if_splits)

section \<open>What a context menu offers\<close>

lemma entry_by_uri:
  assumes "tab_ok tab" and "obj_get (tab_entriesById tab) i = Some e"
  shows "e \<in> set (listed_entries tab) \<and> fe_uri e = i"
proof
  have "(i, e) \<in> set (tab_entriesById tab)" using assms(2) by (rule map_of_SomeD)
  then show "fe_uri e = i" using assms(1) by (auto simp: tab_ok_def listing_ok_def list_all_iff)
  from \<open>(i, e) \<in> set (tab_entriesById tab)\<close> have "e \<in> set (obj_values (tab_entriesById tab))" by force
  then show "e \<in> set (listed_entries tab)" using listed_set[OF assms(1)] by simp
qed

text \<open>The entries a command acts on are those of the context menu when all selected ones are visible.\<close>

lemma command_entries_in_menu:
  assumes "tab_ok tab" and "js_trim (tab_filter tab) = []"
    and "contextSelection pf tab (Some e) = Some sel"
    and "fe_uri e \<in> set (tab_selectedIds tab)" and "e \<in> set (listed_entries tab)"
  shows "set (List.map_filter (obj_get (tab_entriesById tab)) (tab_selectedIds tab)) \<subseteq> set sel"
proof
  have all: "passes_filter tab x" for x using assms(2) by (simp add: passes_filter_def js_toLowerCase_def)
  have vis: "selectVisibleEntries pf tab = Some (js_sort (compareEntries pf (tab_sort tab)) (listed_entries tab))"
    using selectVisibleEntries_ok[OF assms(1), of pf] by (simp add: all)
  have "set sel = {x \<in> set (listed_entries tab). fe_uri x \<in> set (tab_selectedIds tab)}"
    using assms(3) assms(4,5) unfolding contextSelection_def vis
    by (auto simp: list_ex_iff split: if_splits)
  moreover fix x
  assume "x \<in> set (List.map_filter (obj_get (tab_entriesById tab)) (tab_selectedIds tab))"
  then obtain i where "i \<in> set (tab_selectedIds tab)" "obj_get (tab_entriesById tab) i = Some x"
    by (auto simp: List.map_filter_def split: option.splits)
  ultimately show "x \<in> set sel" using entry_by_uri[OF assms(1)] by auto
qed

text \<open>The item that a menu shows for a call.\<close>

fun plain_items :: "CtxNode list \<Rightarrow> CtxEntry list" where
  "plain_items [] = []"
| "plain_items (CtxPlain e # ns) = e # plain_items ns"
| "plain_items (CtxSubmenu l es # ns) = es @ plain_items ns"

definition offered :: "CtxNode list \<Rightarrow> CtxCall \<Rightarrow> bool" where
  "offered nodes c \<longleftrightarrow>
     list_ex (\<lambda>e. case e of CtxItem l dis r k c' \<Rightarrow> \<not> dis \<and> c' = c | CtxSeparator \<Rightarrow> False) (plain_items nodes)"

lemma plain_items_append [simp]: "plain_items (xs @ ys) = plain_items xs @ plain_items ys"
  by (induction xs rule: plain_items.induct) simp_all

lemma offered_append [simp]: "offered (xs @ ys) c \<longleftrightarrow> offered xs c \<or> offered ys c"
  by (simp add: offered_def)

lemma offered_simps [simp]:
  "\<not> offered [] c"
  "offered (CtxPlain e # ns) c \<longleftrightarrow>
     (case e of CtxItem l dis r k c' \<Rightarrow> \<not> dis \<and> c' = c | CtxSeparator \<Rightarrow> False) \<or> offered ns c"
  "offered (CtxSubmenu l es # ns) c \<longleftrightarrow>
     list_ex (\<lambda>e. case e of CtxItem l dis r k c' \<Rightarrow> \<not> dis \<and> c' = c | CtxSeparator \<Rightarrow> False) es \<or> offered ns c"
  by (simp_all add: offered_def)

lemmas menu_parts = open_items_def clipboard_items_def change_items_def mark_items_def delete_items_def
  tools_items_def tag_items_def ctx_item_def ctx_keys_def ctx_when_def

lemma offered_changes:
  assumes "\<not> isParentDirectoryEntry (fm_entry p) (fm_currentTabUri p)" and "fm_capabilities p = Some caps"
  shows "offered (buildFileEntryMenu p) CbDelete \<longleftrightarrow> canDelete caps"
    and "offered (buildFileEntryMenu p) CbPermanentDelete \<longleftrightarrow> canDelete caps"
    and "offered (buildFileEntryMenu p) CbCut \<longleftrightarrow> canMove caps"
    and "offered (buildFileEntryMenu p) CbMoveTo \<longleftrightarrow> canMove caps"
    and "offered (buildFileEntryMenu p) CbCopy \<longleftrightarrow> canCopy caps"
    and "offered (buildFileEntryMenu p) CbRename \<longleftrightarrow> fm_selectedCount p \<le> 1 \<and> canRename caps"
    and "offered (buildFileEntryMenu p) CbTrash \<longrightarrow> canDelete caps"
  using assms by (simp_all add: buildFileEntryMenu_def menu_parts Let_def list_ex_iff)

lemma entry_menu_items:
  assumes "cm_breadcrumbPath menu = None" and "cm_entry menu = Some e"
    and "activeTab (panels (ov_state params) (cm_panelId menu)) = Some tab"
    and "contextSelection pf tab (Some e) = Some sel"
  shows "\<exists>p. contextMenuItems pf params menu = Some (buildFileEntryMenu p) \<and> fm_entry p = e \<and>
    fm_currentTabUri p = tab_uri tab \<and>
    fm_capabilities p = Some (fileMutationState (contextTab tab sel) sel) \<and>
    fm_selectedCount p = countOperationalSelection (contextTab tab sel)"
proof -
  have "\<exists>p. entry_menu_params pf params menu e = Some p \<and> fm_entry p = e \<and> fm_currentTabUri p = tab_uri tab \<and>
      fm_capabilities p = Some (fileMutationState (contextTab tab sel) sel) \<and>
      fm_selectedCount p = countOperationalSelection (contextTab tab sel)"
    using assms(3,4) by (simp add: entry_menu_params_def overlay_tab_def)
  then obtain p where p: "entry_menu_params pf params menu e = Some p" "fm_entry p = e"
    "fm_currentTabUri p = tab_uri tab" "fm_capabilities p = Some (fileMutationState (contextTab tab sel) sel)"
    "fm_selectedCount p = countOperationalSelection (contextTab tab sel)" by blast
  then have "contextMenuItems pf params menu = Some (buildFileEntryMenu p)"
    using assms(1,2) by (simp add: contextMenuItems_def given_def truthy_def)
  with p show ?thesis by blast
qed

text \<open>C7: a context menu offers what all the entries concerned allow. In a pane without a filter, the
  menu of a selected entry offers to delete, to move or to copy only if every entry that the
  command will act on may be deleted, moved or read.\<close>

theorem menu_offers_what_all_allow:
  assumes "cm_breadcrumbPath menu = None" and "cm_entry menu = Some e"
    and "activeTab (panels (ov_state params) (cm_panelId menu)) = Some tab"
    and "tab_ok tab" and "js_trim (tab_filter tab) = []"
    and "fe_uri e \<in> set (tab_selectedIds tab)" and "e \<in> set (listed_entries tab)"
    and "\<not> isParentDirectoryEntry e (tab_uri tab)"
    and "contextMenuItems pf params menu = Some nodes"
    and "ops_panels s = ov_state params"
    and "selectedEntries (cm_panelId menu) s = Some (entries, s')"
  shows "(offered nodes CbDelete \<or> offered nodes CbPermanentDelete \<or> offered nodes CbTrash \<longrightarrow>
       list_all fe_canDelete entries) \<and>
    (offered nodes CbCut \<or> offered nodes CbMoveTo \<longrightarrow>
       list_all (\<lambda>x. fe_canWrite x \<and> fe_canDelete x) entries) \<and>
    (offered nodes CbCopy \<longrightarrow>
       list_all (\<lambda>x. if fe_kind x = KDirectory then fe_canList x else fe_canRead x) entries)"
proof -
  obtain sel where sel: "contextSelection pf tab (Some e) = Some sel"
    using selectVisibleEntries_ok[OF assms(4), of pf] by (simp add: contextSelection_def Let_def)
  obtain p where p: "nodes = buildFileEntryMenu p" "fm_entry p = e" "fm_currentTabUri p = tab_uri tab"
    "fm_capabilities p = Some (fileMutationState (contextTab tab sel) sel)"
    using entry_menu_items[OF assms(1,2,3) sel] assms(9) by auto
  have "set entries \<subseteq> set sel"
    using command_entries_in_menu[OF assms(4,5) sel assms(6,7)] assms(3,10,11)
    by (auto simp: selectedEntries_def Let_def)
  moreover have "\<not> isParentDirectoryEntry (fm_entry p) (fm_currentTabUri p)" using p assms(8) by simp
  note this p(4)
  ultimately show ?thesis
    unfolding p(1) using offered_changes[OF \<open>\<not> isParentDirectoryEntry (fm_entry p) (fm_currentTabUri p)\<close> p(4)]
    by (auto simp: fileMutationState_def Let_def list_all_iff subset_iff)
qed





section \<open>Keys in a context menu\<close>

lemma entry_elements_append [simp]: "entry_elements g i (xs @ ys) = entry_elements g i xs @ entry_elements g i ys"
  by (simp add: entry_elements_def List.map_filter_def)

lemma entry_elements_simps [simp]:
  "entry_elements g i [] = []"
  "entry_elements g i (CtxSeparator # es) = entry_elements g i es"
  "entry_elements g i (CtxItem l dis r k c # es) =
     (if dis then [] else [\<lparr>ce_call = Some c, ce_group = g, ce_inside = i\<rparr>]) @ entry_elements g i es"
  by (simp_all add: entry_elements_def List.map_filter_def)

fun submenu_count :: "CtxNode list \<Rightarrow> nat" where
  "submenu_count [] = 0"
| "submenu_count (CtxPlain e # ns) = submenu_count ns"
| "submenu_count (CtxSubmenu l es # ns) = Suc (submenu_count ns)"

lemma ctx_elements_append:
  "ctx_elements g (xs @ ys) = ctx_elements g xs @ ctx_elements (g + submenu_count xs) ys"
  by (induction g xs rule: ctx_elements.induct) simp_all

text \<open>C36: Enter chooses an item that is not shown. Walking up from the end, the third arrow reaches the
  item for permanent deletion, which is in a closed submenu: the focus stays on Delete, and
  Enter runs the permanent deletion.\<close>

theorem enter_clicks_hidden_item:
  assumes "\<not> isParentDirectoryEntry (fm_entry p) (fm_currentTabUri p)"
    and "fm_capabilities p = Some caps" and "canDelete caps"
    and "\<not> fm_useTrashByDefault p"
    and "els = ctx_elements 0 (buildFileEntryMenu p)"
  shows "\<exists>keys i. ctx_keys_run els opened_keys [''ArrowUp'', ''ArrowUp'', ''ArrowUp''] = CtxKeysMove keys \<and>
      ck_domFocus keys = Some i \<and> ce_call (els ! i) = Some CbDelete \<and>
    ctx_keys_run els opened_keys [''ArrowUp'', ''ArrowUp'', ''ArrowUp'', ''Enter''] = CtxKeysClick CbPermanentDelete"
proof -
  obtain g xs where els: "els = xs @ [\<lparr>ce_call = Some CbPermanentDelete, ce_group = Some g, ce_inside = True\<rparr>,
      \<lparr>ce_call = Some CbDelete, ce_group = None, ce_inside = False\<rparr>,
      \<lparr>ce_call = Some (CbProperties (Some (fm_entry p))), ce_group = None, ce_inside = False\<rparr>]"
    using assms by (simp add: buildFileEntryMenu_def delete_items_def tools_items_def ctx_when_def ctx_keys_def Let_def
        ctx_elements_append)
  show ?thesis
    unfolding els by (simp add: handleContextKey_def focus_element_def shown_element_def opened_keys_def nth_append)
qed

section \<open>Keys in a menu of the bar\<close>

lemma up_after_down:
  assumes "i < length (menuItemElements items)"
    and "handleMenuKeyDown items (Some i) ''ArrowDown'' = MenuFocus j"
  shows "handleMenuKeyDown items (Some j) ''ArrowUp'' = MenuFocus i"
proof -
  let ?n = "length (menuItemElements items)"
  have n: "menuItemElements items \<noteq> []" using assms(1) by auto
  have j: "j = (i + 1) mod ?n" using assms(2) n by (simp add: handleMenuKeyDown_def Let_def)
  have "(j + ?n - 1) mod ?n = i"
  proof (cases "i + 1 = ?n")
    case True
    then have "j = 0" using j by simp
    with True show ?thesis by simp
  next
    case False
    with assms(1) have "j = i + 1" using j by simp
    with assms(1) show ?thesis by simp
  qed
  then show ?thesis using n by (auto simp: handleMenuKeyDown_def Let_def)
qed

text \<open>Arrows go round: after as many steps down as there are items, every item has had the focus.\<close>

fun arrows_down :: "DropdownMenuItem list \<Rightarrow> nat \<Rightarrow> nat option" where
  "arrows_down items 0 = None"
| "arrows_down items (Suc k) =
     (case handleMenuKeyDown items (arrows_down items k) ''ArrowDown'' of MenuFocus i \<Rightarrow> Some i | _ \<Rightarrow> None)"

theorem arrows_visit_all:
  assumes "menuItemElements items \<noteq> []"
  shows "arrows_down items (Suc k) = Some (k mod length (menuItemElements items))"
  using assms by (induction k) (simp_all add: handleMenuKeyDown_def Let_def mod_Suc_eq)

text \<open>Typing a letter never finds an item with a check mark, whose text begins with the mark.\<close>

lemma find_index_SomeD: "find P xs = Some i \<Longrightarrow> i \<in> set xs \<and> P i"
  by (induction xs) (auto split: if_splits)

theorem checked_item_not_found:
  assumes "handleMenuKeyDown items current [c] = MenuFocus i" and "code c < 128" and "\<not> is_js_space c"
    and "item = menuItemElements items ! i" and "mi_checked item = Some True" and "\<not> mi_icon item"
    and "mi_children item = []"
  shows False
proof -
  let ?els = "menuItemElements items"
  have "type_ahead [c] (case current of None \<Rightarrow> 0 | Some i \<Rightarrow> i + 1) ?els = Some i"
    using assms(1,3) by (auto simp: handleMenuKeyDown_def Let_def split: if_splits option.splits)
  from find_index_SomeD[OF this[unfolded type_ahead_def Let_def]]
  have "js_startsWith (js_toLowerCase (js_trim (textContent item))) (js_toLowerCase [c])"
    using assms(4) by simp
  moreover have "textContent item = char_of (226::nat) # char_of (156::nat) # char_of (147::nat) # mi_label item
      @ or_default (mi_shortcut item) []"
    using assms(5-7) by (simp add: textContent_def check_mark_def utf8_def)
  moreover have "js_trim (char_of (226::nat) # rest) = char_of (226::nat) # trim_end rest" for rest
    by (simp add: js_trim_def trim_end_Cons is_js_space_def)
  ultimately have "lower_char (char_of (226::nat)) = lower_char c"
    by (simp add: js_startsWith_def js_toLowerCase_def)
  then have "code (lower_char (char_of (226::nat))) = code (lower_char c)" by simp
  with assms(2) show False by (simp add: lower_char_def is_ascii_upper_def split: if_splits)
qed

section \<open>The menu bar\<close>

theorem bar_arrows_inverse:
  "bar_arrow ''ArrowLeft'' (bar_arrow ''ArrowRight'' m) = m \<and> bar_arrow ''ArrowRight'' (bar_arrow ''ArrowLeft'' m) = m"
  by (cases m) (simp_all add: bar_arrow_def index_of_def MENU_ORDER_def)

text \<open>The pointer alone never opens a menu, and a menu that is open is closed by choosing an item,
  by a press elsewhere and by Escape, unless Alt with a letter opens another.\<close>

theorem menubar_opens_on_request:
  "menubar_step None (BarHover i) = None \<and> menubar_step m BarChosen = None \<and> menubar_step m BarOutside = None \<and>
   menubar_step m (BarKey False ''Escape'') = None \<and>
   (menubar_step m (BarTrigger i) = Some i \<longleftrightarrow> m \<noteq> Some i)"
  by (cases m) (auto simp: menubar_step_def handleHover_def mnemonic_key_def open_menu_key_def)

text \<open>The shortcut beside an item is that of the command it runs; \<open>Exit\<close>, which has no command, and
  the two fields and the rename dialog are the exceptions.\<close>

definition shows_own_shortcut :: "bool \<Rightarrow> DropdownMenuItem \<Rightarrow> bool" where
  "shows_own_shortcut mac item \<longleftrightarrow>
     mi_shortcut item = None \<or>
     (case mi_select item of
        None \<Rightarrow> False
      | Some h \<Rightarrow>
          (case plain_command h of
             Some i \<Rightarrow> mi_shortcut item = menuShortcut mac
               (if i = ''filter'' then ''search.focusFilter''
                else if i = ''recursive-search'' then ''search.recursive'' else i)
           | None \<Rightarrow> h = OnExit \<or> h = OnRename \<and> mi_shortcut item = menuShortcut mac ''op.rename''
               \<or> h = OnSwitchPane \<and> mi_shortcut item = menuShortcut mac ''layout.switchPane''))"

lemmas item_makers = plain_item_def item_when_def item_keys_def item_danger_def item_icon_def item_checked_def
  item_parent_def menu_sep_def view_item_def sort_item_def theme_item_def density_item_def

lemma place_shortcut: "list_all (shows_own_shortcut mac) (map (place_item pre icon) ps)"
  by (simp add: list_all_iff place_item_def shows_own_shortcut_def)

theorem shortcuts_are_own: "list_all (shows_own_shortcut mac) (menu_items mac props i)"
  by (cases i)
    (simp_all add: menu_items_def buildFileItems_def buildEditItems_def buildViewItems_def buildGoItems_def
      buildToolsItems_def buildWindowItems_def buildHelpItems_def item_makers shows_own_shortcut_def
      plain_command_def starred_items_def recent_items_def place_shortcut Let_def)

section \<open>Applied\<close>




definition sample_overlay :: "FileOctopusState \<Rightarrow> OverlayParams" where
  "sample_overlay s = \<lparr>ov_state = s, ov_hasClipboard = False, ov_useTrashByDefault = None, ov_starredUris = [],
     ov_tags = [], ov_mac = False\<rparr>"

definition menu_at :: "FileEntryDto \<Rightarrow> ContextMenuState" where
  "menu_at e = \<lparr>cm_panelId = Left, cm_x = 100, cm_y = 40, cm_entry = Some e, cm_breadcrumbPath = None\<rparr>"

lemma menu_at_simps [simp]:
  "cm_panelId (menu_at e) = Left" "cm_entry (menu_at e) = Some e" "cm_breadcrumbPath (menu_at e) = None"
  by (simp_all add: menu_at_def)


theorem menu_offers_what_all_allow_witness:
  "\<exists>nodes entries s'.
    contextMenuItems ordinal_platform (sample_overlay sample_state) (menu_at entry_a) = Some nodes \<and>
    selectedEntries Left sample_ops = Some (entries, s') \<and> (offered nodes CbDelete \<longrightarrow> list_all fe_canDelete entries)"
proof -
  let ?ov = "sample_overlay sample_state"
  have ov: "ov_state ?ov = sample_state" by (simp add: sample_overlay_def)
  have tab: "activeTab (panels (ov_state ?ov) Left) = Some sample_tab"
    by (simp add: ov activeTab_def sample_panel_def)
  have par: "\<not> isParentDirectoryEntry entry_a (tab_uri sample_tab)" by code_simp
  have listed: "entry_a \<in> set (listed_entries sample_tab)" by (simp add: listed_entries_def)
  obtain sel where sel: "contextSelection ordinal_platform sample_tab (Some entry_a) = Some sel"
    using selectVisibleEntries_ok[OF sample_tab_ok, of ordinal_platform] by (simp add: contextSelection_def Let_def)
  obtain nodes where nodes: "contextMenuItems ordinal_platform ?ov (menu_at entry_a) = Some nodes"
    using entry_menu_items[of "menu_at entry_a" entry_a ?ov, simplified, OF tab sel] by blast
  have "ops_panels sample_ops = sample_state" by (simp add: sample_ops_def)
  then obtain entries s' where ent: "selectedEntries Left sample_ops = Some (entries, s')"
    using tab by (simp add: selectedEntries_def ov Let_def)
  from menu_offers_what_all_allow[of "menu_at entry_a" entry_a ?ov, simplified, OF tab _ _ _ _ par nodes _ ent]
  have "offered nodes CbDelete \<longrightarrow> list_all fe_canDelete entries"
    using listed ov \<open>ops_panels sample_ops = sample_state\<close> by (simp add: js_trim_def trim_end_def)
  with nodes ent show ?thesis by blast
qed

definition sample_capabilities :: FileMutationCapabilities where
  "sample_capabilities = \<lparr>canCopy = True, canMove = True, canRename = True, canDelete = True, canNewFolder = True,
     canCreateFile = True, canEdit = True\<rparr>"

definition sample_entry_menu :: FileEntryMenuParams where
  "sample_entry_menu = \<lparr>fm_currentTabUri = ''local:///d'', fm_entry = entry_a, fm_canPaste = False,
     fm_isStarred = False, fm_selectedCount = 1, fm_capabilities = Some sample_capabilities, fm_mac = False,
     fm_useTrashByDefault = False, fm_entryTagColors = Some [], fm_tags = True\<rparr>"

theorem enter_clicks_hidden_item_witness:
  "\<exists>keys i. ctx_keys_run (ctx_elements 0 (buildFileEntryMenu sample_entry_menu)) opened_keys
        [''ArrowUp'', ''ArrowUp'', ''ArrowUp''] = CtxKeysMove keys \<and>
      ck_domFocus keys = Some i \<and>
      ce_call (ctx_elements 0 (buildFileEntryMenu sample_entry_menu) ! i) = Some CbDelete \<and>
    ctx_keys_run (ctx_elements 0 (buildFileEntryMenu sample_entry_menu)) opened_keys
        [''ArrowUp'', ''ArrowUp'', ''ArrowUp'', ''Enter''] = CtxKeysClick CbPermanentDelete"
proof -
  have "\<not> isParentDirectoryEntry (fm_entry sample_entry_menu) (fm_currentTabUri sample_entry_menu)" by code_simp
  from enter_clicks_hidden_item[OF this _ _ _ refl, of sample_capabilities]
  show ?thesis by (simp add: sample_entry_menu_def sample_capabilities_def)
qed

definition standard_place :: StandardLocationDto where
  "standard_place = \<lparr>sl_id = ''desktop'', sl_name = ''Desktop'', sl_uri = ''local:///home/u/Desktop'',
     sl_section = ''standard''\<rparr>"

definition recent_place :: PlaceEntryDto where
  "recent_place = \<lparr>pe_uri = ''local:///home/u/Desktop'', pe_label = ''Desktop''\<rparr>"

definition sample_menu_params :: MenuBarParams where
  "sample_menu_params = \<lparr>mb_state = sample_state, mb_locations = [standard_place], mb_hasClipboard = False,
     mb_preferences = None, mb_canRequestExit = True, mb_statusBarVisible = True, mb_toolbarVisible = True,
     mb_recentLocations = [recent_place], mb_starredLocations = []\<rparr>"

theorem recent_places_go_nowhere_witness:
  "case useMenuBarProps sample_menu_params of
     None \<Rightarrow> False
   | Some props \<Rightarrow> recent_place \<in> set (mp_recentLocations props) \<and>
       choose_item sample_menu_params (place_item ''recent-'' False recent_place) = [CloseMenus, CloseMenus]"
proof -
  obtain props where props: "useMenuBarProps sample_menu_params = Some props"
    "mp_recentLocations props = [recent_place]"
    by (simp add: useMenuBarProps_def sample_menu_params_def activeTab_def Let_def)
  have "choose_item sample_menu_params (place_item ''recent-'' False recent_place) = [CloseMenus, CloseMenus]"
    by (rule recent_places_go_nowhere[where props = props and place = recent_place and icon = False and prefix = "''recent-''"])
      (simp_all add: props sample_menu_params_def standard_place_def recent_place_def)
  with props show ?thesis by simp
qed

theorem context_menu_in_view_witness:
  "case context_menu_position 900 500 200 300 1000 700 of
     (leftEdge, upper, scroll) \<Rightarrow> leftEdge + 200 \<le> 1000 - context_menu_pad \<and> upper + or_default scroll 300 \<le> 700 - context_menu_pad"
proof -
  obtain l u m where c: "context_menu_position 900 500 200 300 1000 700 = (l, u, m)" by (metis prod_cases3)
  obtain sl su sm where sub: "submenu_position \<lparr>rc_left = 800, rc_right = 1000, rc_top = 500\<rparr> 100 300 50 1000 700 = (sl, su, sm)"
    by (metis prod_cases3)
  have "l + 200 \<le> 1000 - context_menu_pad \<and> context_menu_pad \<le> u \<and> u + or_default m 300 \<le> 700 - context_menu_pad"
    using context_menu_in_view[OF _ _ _ _ c sub] by (simp add: context_menu_pad_def)
  with c show ?thesis by simp
qed

end
