(* ===== verification/SearchFlow.thy ===== *)
theory SearchFlow
  imports PanelReducer Dispatch
begin

text \<open>
  The calls behind searches, properties and checksums (\<open>hooks/fileOps/useMetadataHandlers.ts\<close>).
  A content search asks the back end for a job and binds the job to its tab when the answer
  comes; which request belongs to which tab is tracked outside the store, and an effect after
  each render forgets requests whose search is gone and cancels their jobs. The properties dialog
  is filled by two calls, one after the other. A call that is under way is kept in a list and an
  event delivers the answer of any of them.
\<close>

section \<open>Content searches and their jobs\<close>

text \<open>The key of a tab in the map of tracked requests, \<open>`${panelId}:${tabId}`\<close>.\<close>

definition search_key :: "PanelId \<Rightarrow> string \<Rightarrow> string" where
  "search_key panelId tabId = (case panelId of Left \<Rightarrow> ''left:'' | Right \<Rightarrow> ''right:'') @ tabId"

record TrackedSearch =
  ts_panelId :: PanelId
  ts_tabId :: string
  ts_requestId :: string
  ts_jobId :: "string option"

record SearchCancel =
  sk_panelId :: PanelId
  sk_tabId :: string
  sk_jobId :: string

text \<open>The store, the tracked requests, the calls that start a job and those that cancel one, the
  jobs for which a cancellation was sent, and what was heard of jobs: those the back end
  answered with, and those whose search had ended when it was forgotten. Request ids come
  from a counter through a function that stands for \<open>crypto.randomUUID\<close>.\<close>

record SearchFlow =
  sf_store :: FileOctopusState
  sf_world :: World
  sf_tracked :: "(string, TrackedSearch) obj"
  sf_calls :: "TrackedSearch list"
  sf_cancels :: "SearchCancel list"
  sf_next :: nat
  sf_cancelled :: "string list"
  sf_answered :: "string list"
  sf_settled :: "string list"
  sf_error :: "string option"

definition sf_dispatch :: "Platform \<Rightarrow> PanelAction \<Rightarrow> SearchFlow \<Rightarrow> SearchFlow option" where
  "sf_dispatch pf a f =
     do { (s, w) \<leftarrow> panelReducer pf (sf_world f) (sf_store f) a;
          Some (f\<lparr>sf_store := s, sf_world := w\<rparr>) }"

definition cancel_job :: "string \<Rightarrow> SearchFlow \<Rightarrow> SearchFlow" where
  "cancel_job jobId f = f\<lparr>sf_cancelled := sf_cancelled f @ [jobId]\<rparr>"

definition discard_job :: "Platform \<Rightarrow> string \<Rightarrow> SearchFlow \<Rightarrow> SearchFlow option" where
  "discard_job pf jobId f = map_option (cancel_job jobId) (sf_dispatch pf (DiscardContentSearchJobEvents jobId) f)"

text \<open>The effect on a tracked request, in the state of the render.\<close>

definition forget_tracked ::
  "Platform \<Rightarrow> FileOctopusState \<Rightarrow> string \<times> TrackedSearch \<Rightarrow> SearchFlow \<Rightarrow> SearchFlow option" where
  "forget_tracked pf state kt f =
     (let (key, tracked) = kt;
          search = search_at state (ts_panelId tracked) (ts_tabId tracked);
          forgotten = (\<lambda>g. g\<lparr>sf_tracked := obj_del key (sf_tracked g)\<rparr>)
      in if map_option cs_requestId search \<noteq> Some (ts_requestId tracked)
         then (case given (ts_jobId tracked) of
                 Some jobId \<Rightarrow> map_option forgotten (discard_job pf jobId f)
               | None \<Rightarrow> Some (forgotten f))
         else if \<not> isContentSearchActive search
         then Some (forgotten (f\<lparr>sf_settled := sf_settled f @
                (case ts_jobId tracked of Some j \<Rightarrow> [j] | None \<Rightarrow> [])\<rparr>))
         else Some f)"

definition fold_option :: "('a \<Rightarrow> 'b \<Rightarrow> 'b option) \<Rightarrow> 'a list \<Rightarrow> 'b \<Rightarrow> 'b option" where
  "fold_option g xs b = fold (\<lambda>x r. Option.bind r (g x)) xs (Some b)"

definition search_effect :: "Platform \<Rightarrow> SearchFlow \<Rightarrow> SearchFlow option" where
  "search_effect pf f = fold_option (forget_tracked pf (sf_store f)) (sf_tracked f) f"

text \<open>\<open>runContentSearch\<close> up to its call.\<close>

definition runContentSearch ::
  "Platform \<Rightarrow> (nat \<Rightarrow> string) \<Rightarrow> PanelId \<Rightarrow> ContentSearchOptions \<Rightarrow> SearchFlow \<Rightarrow> SearchFlow option" where
  "runContentSearch pf uuid panelId opts f =
     (let panel = panels (sf_store f) panelId; tabId = panel_activeTabId panel
      in do { tab \<leftarrow> obj_get (panel_tabs panel) tabId;
              (let query = js_trim (tab_contentSearchQuery tab); key = search_key panelId tabId
               in if query = [] then Some f
                  else let tracked = obj_get (sf_tracked f) key;
                           active = (if isContentSearchActive (tab_contentSearch tab)
                                     then Option.bind (tab_contentSearch tab) cs_jobId else None);
                           replacedJobId = (case Option.bind tracked ts_jobId of Some j \<Rightarrow> Some j | None \<Rightarrow> active);
                           requestId = uuid (sf_next f);
                           request = \<lparr>ts_panelId = panelId, ts_tabId = tabId, ts_requestId = requestId,
                                      ts_jobId = None\<rparr>
                       in do { g \<leftarrow> (case given replacedJobId of
                                       Some jobId \<Rightarrow> discard_job pf jobId f | None \<Rightarrow> Some f);
                               sf_dispatch pf (StartContentSearch panelId tabId requestId (tab_uri tab) query opts)
                                 (g\<lparr>sf_tracked := obj_set key request (sf_tracked g),
                                    sf_calls := sf_calls g @ [request], sf_next := sf_next g + 1\<rparr>) }) })"

text \<open>Its continuation with the job, and with a refusal. Only the newest request of a tab may bind.\<close>

definition is_current :: "SearchFlow \<Rightarrow> TrackedSearch \<Rightarrow> bool" where
  "is_current f call \<longleftrightarrow>
     map_option ts_requestId (obj_get (sf_tracked f) (search_key (ts_panelId call) (ts_tabId call)))
       = Some (ts_requestId call)"

definition search_job_started :: "Platform \<Rightarrow> TrackedSearch \<Rightarrow> string \<Rightarrow> SearchFlow \<Rightarrow> SearchFlow option" where
  "search_job_started pf call jobId f =
     (let f1 = f\<lparr>sf_answered := sf_answered f @ [jobId]\<rparr>
      in if \<not> is_current f call then discard_job pf jobId f1
         else sf_dispatch pf (BindContentSearchJob (ts_panelId call) (ts_tabId call) (ts_requestId call) jobId)
                (f1\<lparr>sf_tracked := obj_set (search_key (ts_panelId call) (ts_tabId call))
                       (call\<lparr>ts_jobId := Some jobId\<rparr>) (sf_tracked f1)\<rparr>))"

definition search_job_refused :: "Platform \<Rightarrow> TrackedSearch \<Rightarrow> thrown \<Rightarrow> SearchFlow \<Rightarrow> SearchFlow option" where
  "search_job_refused pf call e f =
     (if \<not> is_current f call then Some f
      else sf_dispatch pf
             (FailContentSearchStart (ts_panelId call) (ts_tabId call) (ts_requestId call)
                (err_message (normalizeIpcError e)))
             (f\<lparr>sf_tracked := obj_del (search_key (ts_panelId call) (ts_tabId call)) (sf_tracked f)\<rparr>))"

text \<open>\<open>cancelContentSearch\<close> up to its call, and its continuation.\<close>

definition cancelContentSearch :: "PanelId \<Rightarrow> string \<Rightarrow> SearchFlow \<Rightarrow> SearchFlow" where
  "cancelContentSearch panelId tabId f =
     (let search = search_at (sf_store f) panelId tabId;
          tracked = obj_get (sf_tracked f) (search_key panelId tabId);
          jobId = (case Option.bind tracked ts_jobId of Some j \<Rightarrow> Some j | None \<Rightarrow> Option.bind search cs_jobId)
      in case given jobId of
           None \<Rightarrow> f
         | Some j \<Rightarrow>
             (if \<not> isContentSearchActive search then f
              else (cancel_job j f)\<lparr>sf_cancels := sf_cancels f @
                     [\<lparr>sk_panelId = panelId, sk_tabId = tabId, sk_jobId = j\<rparr>]\<rparr>))"

definition search_cancelled :: "Platform \<Rightarrow> SearchCancel \<Rightarrow> SearchFlow \<Rightarrow> SearchFlow option" where
  "search_cancelled pf c f =
     sf_dispatch pf (TerminateContentSearchJob (sk_jobId c) CCancelled ''Operation cancelled.'')
       (f\<lparr>sf_tracked := obj_del (search_key (sk_panelId c) (sk_tabId c)) (sf_tracked f)\<rparr>)"

datatype SearchEvent =
    SeRun PanelId ContentSearchOptions
  | SeStarted nat string
  | SeRefused nat thrown
  | SeCancel PanelId string
  | SeCancelled nat
  | SeCancelFailed nat thrown
  | SeAction PanelAction

definition drop_nth :: "nat \<Rightarrow> 'a list \<Rightarrow> 'a list" where
  "drop_nth n xs = take n xs @ drop (Suc n) xs"

definition search_handle ::
  "Platform \<Rightarrow> (nat \<Rightarrow> string) \<Rightarrow> SearchEvent \<Rightarrow> SearchFlow \<Rightarrow> SearchFlow option" where
  "search_handle pf uuid e f =
     (case e of
        SeRun panelId opts \<Rightarrow> runContentSearch pf uuid panelId opts f
      | SeStarted n jobId \<Rightarrow>
          (if n < length (sf_calls f)
           then search_job_started pf (sf_calls f ! n) jobId (f\<lparr>sf_calls := drop_nth n (sf_calls f)\<rparr>)
           else Some f)
      | SeRefused n err \<Rightarrow>
          (if n < length (sf_calls f)
           then search_job_refused pf (sf_calls f ! n) err (f\<lparr>sf_calls := drop_nth n (sf_calls f)\<rparr>)
           else Some f)
      | SeCancel panelId tabId \<Rightarrow> Some (cancelContentSearch panelId tabId f)
      | SeCancelled n \<Rightarrow>
          (if n < length (sf_cancels f)
           then search_cancelled pf (sf_cancels f ! n) (f\<lparr>sf_cancels := drop_nth n (sf_cancels f)\<rparr>)
           else Some f)
      | SeCancelFailed n err \<Rightarrow>
          (if n < length (sf_cancels f)
           then Some (f\<lparr>sf_cancels := drop_nth n (sf_cancels f),
                        sf_error := Some (err_message (normalizeIpcError err))\<rparr>)
           else Some f)
      | SeAction a \<Rightarrow> sf_dispatch pf a f)"

text \<open>An event, the render and the effect. The effect is also run when the store has not changed;
  then it finds what it left.\<close>

definition search_step ::
  "Platform \<Rightarrow> (nat \<Rightarrow> string) \<Rightarrow> SearchEvent \<Rightarrow> SearchFlow \<Rightarrow> SearchFlow option" where
  "search_step pf uuid e f = Option.bind (search_handle pf uuid e f) (search_effect pf)"

definition search_run ::
  "Platform \<Rightarrow> (nat \<Rightarrow> string) \<Rightarrow> SearchEvent list \<Rightarrow> SearchFlow \<Rightarrow> SearchFlow option" where
  "search_run pf uuid es f = fold_option (search_step pf uuid) es f"

definition initial_flow :: "FileOctopusState \<Rightarrow> World \<Rightarrow> SearchFlow" where
  "initial_flow s w = \<lparr>sf_store = s, sf_world = w, sf_tracked = [], sf_calls = [], sf_cancels = [], sf_next = 0,
     sf_cancelled = [], sf_answered = [], sf_settled = [], sf_error = None\<rparr>"

section \<open>The properties dialog\<close>

text \<open>\<open>handleProperties\<close>: which entries it is about.\<close>

definition properties_entries :: "FileEntryDto list \<Rightarrow> FileEntryDto option \<Rightarrow> FileEntryDto list" where
  "properties_entries selected entry =
     (case entry of
        None \<Rightarrow> selected
      | Some e \<Rightarrow>
          (case selected of
             [] \<Rightarrow> [e]
           | [x] \<Rightarrow> (if fe_uri e \<noteq> fe_uri x then [e] else selected)
           | _ \<Rightarrow> selected))"

definition loading_properties :: "PanelId \<Rightarrow> FileEntryDto option \<Rightarrow> PropertiesDialog" where
  "loading_properties panelId entry =
     \<lparr>pd_panelId = panelId, pd_entry = entry, pd_properties = None, pd_loading = True,
      pd_folderSizeJobId = None, pd_error = None\<rparr>"

text \<open>The calls for a path and for the size of a folder. The flag tells the calls of
  \<open>handleProperties\<close> from those of \<open>calculateSize\<close>.\<close>

datatype MetaCall =
    PropertiesCall bool PanelId "FileEntryDto option" string
  | FolderSizeCall bool PanelId string

record MetaFlow =
  mf_dialog :: "OperationDialog option"
  mf_error :: "string option"
  mf_calls :: "MetaCall list"

definition set_properties :: "PropertiesDialog \<Rightarrow> MetaFlow \<Rightarrow> MetaFlow" where
  "set_properties d f = f\<lparr>mf_dialog := Some (JobDialogD (PropertiesD d))\<rparr>"

definition handleProperties ::
  "PanelId \<Rightarrow> FileEntryDto option \<Rightarrow> FileEntryDto list \<Rightarrow> string \<Rightarrow> MetaFlow \<Rightarrow> MetaFlow" where
  "handleProperties panelId entry selected tabUri f =
     (let entries = properties_entries selected entry
      in if length entries > 1
         then f\<lparr>mf_error := None,
                mf_dialog := Some (JobDialogD (SelectionPropertiesD (selectionDialog panelId entries)))\<rparr>
         else let target = (case first_opt entries of Some e \<Rightarrow> Some e | None \<Rightarrow> entry);
                  uri = (case target of Some e \<Rightarrow> fe_uri e | None \<Rightarrow> tabUri)
              in (set_properties (loading_properties panelId target) f)
                   \<lparr>mf_calls := mf_calls f @ [PropertiesCall True panelId target uri]\<rparr>)"

definition calculateSize :: "PanelId \<Rightarrow> FileEntryDto option \<Rightarrow> MetaFlow \<Rightarrow> MetaFlow" where
  "calculateSize panelId entry f =
     (case entry of
        None \<Rightarrow> f
      | Some e \<Rightarrow>
          (if fe_kind e \<noteq> KDirectory then f
           else (set_properties (loading_properties panelId entry) f)
                  \<lparr>mf_calls := mf_calls f @ [PropertiesCall False panelId entry (fe_uri e)]\<rparr>))"

text \<open>A change of the dialog that is made only while it still shows what the call was for.\<close>

definition update_shown ::
  "PanelId \<Rightarrow> string option \<Rightarrow> (PropertiesDialog \<Rightarrow> PropertiesDialog) \<Rightarrow> MetaFlow \<Rightarrow> MetaFlow" where
  "update_shown panelId uri g f =
     (case mf_dialog f of
        Some (JobDialogD (PropertiesD d)) \<Rightarrow>
          (if pd_panelId d = panelId \<and>
              (case uri of None \<Rightarrow> True | Some u \<Rightarrow> map_option pp_uri (pd_properties d) = Some u)
           then set_properties (g d) f else f)
      | _ \<Rightarrow> f)"

definition ipc_text :: "thrown \<Rightarrow> string" where
  "ipc_text e = (let n = normalizeIpcError e in operationErrorMessage (err_code n) (err_message n))"

definition size_failed :: "bool \<Rightarrow> PanelId \<Rightarrow> thrown \<Rightarrow> MetaFlow \<Rightarrow> MetaFlow" where
  "size_failed fromProperties panelId e f =
     (let shown = update_shown panelId None (\<lambda>d. d\<lparr>pd_loading := False, pd_error := Some (ipc_text e)\<rparr>) f
      in if fromProperties then shown else shown\<lparr>mf_error := Some (ipc_text e)\<rparr>)"

definition properties_answered ::
  "bool \<Rightarrow> PanelId \<Rightarrow> FileEntryDto option \<Rightarrow> string \<Rightarrow> thrown + PathPropertiesDto \<Rightarrow> MetaFlow \<Rightarrow> MetaFlow" where
  "properties_answered fromProperties panelId entry uri reply f =
     (case reply of
        Inl e \<Rightarrow>
          (if fromProperties
           then set_properties ((loading_properties panelId entry)
                  \<lparr>pd_loading := False, pd_error := Some (err_message (normalizeIpcError e))\<rparr>) f
           else size_failed False panelId e f)
      | Inr properties \<Rightarrow>
          (let isDirectory = (pp_kind properties = KDirectory); asksSize = (isDirectory \<or> \<not> fromProperties);
               shown = set_properties ((loading_properties panelId entry)
                  \<lparr>pd_properties := Some properties, pd_loading := asksSize\<rparr>) f
           in if asksSize then shown\<lparr>mf_calls := mf_calls f @ [FolderSizeCall fromProperties panelId uri]\<rparr>
              else shown))"

definition size_job_answered :: "bool \<Rightarrow> PanelId \<Rightarrow> string \<Rightarrow> thrown + string \<Rightarrow> MetaFlow \<Rightarrow> MetaFlow" where
  "size_job_answered fromProperties panelId uri reply f =
     (case reply of
        Inl e \<Rightarrow> size_failed fromProperties panelId e f
      | Inr jobId \<Rightarrow>
          update_shown panelId (Some uri) (\<lambda>d. d\<lparr>pd_loading := True, pd_folderSizeJobId := Some jobId\<rparr>) f)"

datatype MetaReply = MrProperties "thrown + PathPropertiesDto" | MrJob "thrown + string"

datatype MetaEvent =
    MeProperties PanelId "FileEntryDto option" "FileEntryDto list" string
  | MeSize PanelId "FileEntryDto option"
  | MeAnswer nat MetaReply
  | MeDialog "OperationDialog option"

definition meta_answer :: "MetaCall \<Rightarrow> MetaReply \<Rightarrow> MetaFlow \<Rightarrow> MetaFlow" where
  "meta_answer call reply f =
     (case (call, reply) of
        (PropertiesCall full p e u, MrProperties r) \<Rightarrow> properties_answered full p e u r f
      | (FolderSizeCall full p u, MrJob r) \<Rightarrow> size_job_answered full p u r f
      | _ \<Rightarrow> f)"

text \<open>\<open>MeDialog\<close> is whatever else shows another dialog or closes the one that is shown.\<close>

definition meta_step :: "MetaEvent \<Rightarrow> MetaFlow \<Rightarrow> MetaFlow" where
  "meta_step e f =
     (case e of
        MeProperties p entry selected tabUri \<Rightarrow> handleProperties p entry selected tabUri f
      | MeSize p entry \<Rightarrow> calculateSize p entry f
      | MeAnswer n reply \<Rightarrow>
          (if n < length (mf_calls f)
           then meta_answer (mf_calls f ! n) reply (f\<lparr>mf_calls := drop_nth n (mf_calls f)\<rparr>) else f)
      | MeDialog d \<Rightarrow> f\<lparr>mf_dialog := d\<rparr>)"

section \<open>Opening, showing and checking files\<close>

definition openExternal :: "(string \<Rightarrow> thrown + unit) \<Rightarrow> FileEntryDto \<Rightarrow> string option" where
  "openExternal openPath entry = (case openPath (fe_uri entry) of Inl e \<Rightarrow> Some (ipc_text e) | Inr _ \<Rightarrow> None)"

datatype RevealEffect = RvNavigate PanelId string | RvSelect PanelId string

definition revealEntry ::
  "(string \<Rightarrow> thrown + unit) \<Rightarrow> PanelId \<Rightarrow> FileEntryDto option \<Rightarrow> RevealEffect list" where
  "revealEntry revealPath panelId entry =
     (case entry of
        None \<Rightarrow> []
      | Some e \<Rightarrow>
          (case revealPath (fe_uri e) of
             Inr _ \<Rightarrow> []
           | Inl _ \<Rightarrow> (case given (parentUriFromUri (fe_uri e)) of
                        Some parent \<Rightarrow> [RvNavigate panelId parent, RvSelect panelId (fe_uri e)]
                      | None \<Rightarrow> [])))"

definition openTerminal :: "(string \<Rightarrow> thrown + unit) \<Rightarrow> string \<Rightarrow> ToastInput option" where
  "openTerminal openAt uri =
     (case openAt uri of
        Inr _ \<Rightarrow> None
      | Inl e \<Rightarrow> Some (error_toast (''Failed to open terminal: '' @ err_message (normalizeIpcError e))))"

definition handleChecksum ::
  "Platform \<Rightarrow> (string \<Rightarrow> thrown + string) \<Rightarrow> PanelTabState \<Rightarrow> ToastInput option" where
  "handleChecksum pf computeHash tab =
     do { selectedEntry \<leftarrow> selected_visible pf tab;
          Some (let refused = error_toast ''Select a file to compute checksum''
                in case selectedEntry of
                     None \<Rightarrow> refused
                   | Some e \<Rightarrow>
                       (if fe_kind e = KDirectory then refused
                        else case computeHash (fe_uri e) of
                               Inr hash \<Rightarrow> (error_toast (''SHA-256: '' @ hash))\<lparr>toast_tone := ToneSuccess\<rparr>
                             | Inl err \<Rightarrow> error_toast
                                 (''Checksum failed: '' @ err_message (normalizeIpcError err)))) }"

end
