(* ===== verification/LiveSearches.thy ===== *)
theory LiveSearches
  imports SearchFlow
begin

text \<open>
  What the actions of the store do to content searches that are under way: only the start and the
  binding of a search and the swap of the panes give a tab an active search it did not have.
  \<open>searches_from\<close> is that relation between two states; each slice of the reducer is in it.
\<close>

section \<open>Active searches of the store\<close>

text \<open>Of an active search its request, its job and whether it is bound.\<close>

definition live :: "PanelTabState \<Rightarrow> (string \<times> string option \<times> bool) option" where
  "live tab =
     (case tab_contentSearch tab of
        None \<Rightarrow> None
      | Some x \<Rightarrow> if isContentSearchActive (Some x) then Some (cs_requestId x, cs_jobId x, cs_status x = CRunning)
                  else None)"

definition live_at :: "FileOctopusState \<Rightarrow> PanelId \<Rightarrow> string \<Rightarrow> (string \<times> string option \<times> bool) option" where
  "live_at s p i = Option.bind (tab_at s p i) live"

text \<open>Every active search of the second state is one of the first.\<close>

definition searches_from :: "FileOctopusState \<Rightarrow> FileOctopusState \<Rightarrow> bool" where
  "searches_from s s' \<longleftrightarrow> (\<forall>p i. live_at s' p i = None \<or> live_at s' p i = live_at s p i)"

definition keeps_live :: "(PanelTabState \<Rightarrow> PanelTabState) \<Rightarrow> bool" where
  "keeps_live f \<longleftrightarrow> (\<forall>t. live (f t) = None \<or> live (f t) = live t)"

lemma searches_from_refl [simp]: "searches_from s s"
  by (simp add: searches_from_def)

lemma searches_from_panels [simp]: "panels s' = panels s \<Longrightarrow> searches_from s s'"
  by (simp add: searches_from_def live_at_def tab_at_def)

lemma searches_from_trans: "searches_from s t \<Longrightarrow> searches_from t u \<Longrightarrow> searches_from s u"
  unfolding searches_from_def by metis

lemma live_fields: "tab_contentSearch t' = tab_contentSearch t \<or> tab_contentSearch t' = None \<Longrightarrow> live t' = None \<or> live t' = live t"
  by (auto simp: live_def)

lemma keeps_liveI: "(\<And>t. tab_contentSearch (f t) = tab_contentSearch t \<or> tab_contentSearch (f t) = None) \<Longrightarrow> keeps_live f"
  unfolding keeps_live_def using live_fields by blast

lemma live_at_updatePanelTab:
  "live_at (updatePanelTab s p i f) q j =
     (if q = p \<and> j = i then Option.bind (tab_at s p i) (\<lambda>t. live (f t)) else live_at s q j)"
  by (cases "tab_at s p i") (auto simp: live_at_def tab_at_updatePanelTab)

lemma searches_from_updatePanelTab: "keeps_live f \<Longrightarrow> searches_from s (updatePanelTab s p i f)"
  unfolding searches_from_def live_at_updatePanelTab keeps_live_def
  by (cases "tab_at s p i") (auto simp: live_at_def)

lemma searches_from_updateRequestTab: "keeps_live f \<Longrightarrow> searches_from s (updateRequestTab s p r f)"
  by (auto simp: updateRequestTab_def searches_from_updatePanelTab split: option.split)

lemma searches_from_map_tabs: "keeps_live f \<Longrightarrow> searches_from s (map_tabs f s)"
  unfolding searches_from_def keeps_live_def live_at_def
proof (intro allI)
  fix p i assume "\<forall>t. live (f t) = None \<or> live (f t) = live t"
  then show "Option.bind (tab_at (map_tabs f s) p i) live = None \<or>
      Option.bind (tab_at (map_tabs f s) p i) live = Option.bind (tab_at s p i) live"
    by (cases "tab_at s p i") simp_all
qed

lemma searches_from_updatePanel:
  assumes "updatePanel s p upd = Some s'"
    and "\<And>t t'. upd t = Some t' \<Longrightarrow> tab_contentSearch t' = tab_contentSearch t \<or> tab_contentSearch t' = None"
  shows "searches_from s s'"
proof -
  from assms(1) obtain t t' where t: "activeTab (panels s p) = Some t" "upd t = Some t'"
    "s' = set_tab s p (panel_activeTabId (panels s p)) t'"
    by (auto simp: updatePanel_def bind_eq_Some_conv)
  then have "tab_at s p (panel_activeTabId (panels s p)) = Some t" by (simp add: activeTab_def tab_at_def)
  with t live_fields[OF assms(2)[OF t(2)]] show ?thesis by (auto simp: searches_from_def live_at_def)
qed

lemma updatePanel_live:
  "updatePanel s p (\<lambda>t. Some (f t)) = Some s' \<Longrightarrow>
   (\<And>t. tab_contentSearch (f t) = tab_contentSearch t \<or> tab_contentSearch (f t) = None) \<Longrightarrow> searches_from s s'"
  by (erule searches_from_updatePanel) (metis option.inject)

lemma listing_searches:
  "tab_contentSearch (batch_loaded b t) = tab_contentSearch t"
  "tab_contentSearch (batch_failed b e t) = tab_contentSearch t"
  "tab_contentSearch (start_request r bgr t) = tab_contentSearch t"
  "tab_contentSearch (start_session r z t) = tab_contentSearch t"
  "tab_contentSearch (pane_error x c l t) = tab_contentSearch t"
  "tab_contentSearch (archive_tab u es t) = tab_contentSearch t"
  "tab_contentSearch (remove_from_tab us t) = tab_contentSearch t"
  "tab_contentSearch (rename_in_tab old new n t) = tab_contentSearch t"
  by (auto simp: batch_loaded_def batch_failed_def start_request_def start_session_def pane_error_def
      archive_tab_def remove_from_tab_def rename_in_tab_def Let_def split: prod.splits option.split)

lemma reduceListing_live: assumes r: "reduceListing s a = Some s'" shows "searches_from s s'"
proof -
  have k: "keeps_live (batch_loaded b)" "keeps_live (batch_failed b e)" "keeps_live (start_session z y)"
    "keeps_live (archive_tab u es)" "keeps_live (remove_from_tab us)" "keeps_live (rename_in_tab x y n)"
    "keeps_live (\<lambda>t. (pane_error o1 o2 o3 t)\<lparr>tab_activeRequestId := None, tab_sessionId := None\<rparr>)"
    for b e z y u es us x n o1 o2 o3
    by (auto intro!: keeps_liveI simp: listing_searches)
  have batch: "searches_from s (applyBatch s b)" for b
    by (auto simp: applyBatch_def k searches_from_updatePanelTab split: option.split)
  show ?thesis
  proof (cases a)
    case (StartRequest p z bg)
    with r show ?thesis
      by (intro updatePanel_live[where f = "start_request z bg"]) (simp_all add: reduceListing_def listing_searches)
  next
    case (SetPaneError p z e c l)
    with r show ?thesis
      by (cases "truthy z")
        (auto simp: reduceListing_def listing_searches intro: updatePanel_live searches_from_updateRequestTab[OF k(7)])
  next
    case (SetArchiveEntries p z u es)
    with r show ?thesis
      by (cases "truthy z")
        (auto simp: reduceListing_def setArchiveEntriesReducer_def listing_searches
          intro: updatePanel_live searches_from_updateRequestTab[OF k(4)])
  qed (use r in \<open>auto simp: reduceListing_def removeEntriesFromState_def renameEntryInState_def
      batch searches_from_map_tabs[OF k(5)] searches_from_map_tabs[OF k(6)] searches_from_updateRequestTab[OF k(3)]\<close>)
qed

lemma navigation_search:
  "tab_contentSearch (applyNavigation t u rep sr b f) = tab_contentSearch t \<or> tab_contentSearch (applyNavigation t u rep sr b f) = None"
  by (simp add: applyNavigation_def Let_def)

lemma back_search:
  "tab_contentSearch (go_back t) = tab_contentSearch t \<or> tab_contentSearch (go_back t) = None"
  "tab_contentSearch (go_forward t) = tab_contentSearch t \<or> tab_contentSearch (go_forward t) = None"
  unfolding go_back_def go_forward_def
  using navigation_search by (auto split: option.split list.split)

lemma reduceNavigation_live:
  assumes "reduceNavigation s a = Some s'" shows "searches_from s s'"
proof (cases a)
  case (Navigate p u r sr bg)
  with assms show ?thesis
    by (intro updatePanel_live[OF _ navigation_search]) (simp add: reduceNavigation_def)
next
  case (GoBack p)
  with assms show ?thesis by (intro updatePanel_live[OF _ back_search(1)]) (simp add: reduceNavigation_def)
next
  case (GoForward p)
  with assms show ?thesis by (intro updatePanel_live[OF _ back_search(2)]) (simp add: reduceNavigation_def)
qed (use assms in \<open>auto simp: reduceNavigation_def\<close>)

lemma select_searches:
  "tab_contentSearch (select_single t e) = tab_contentSearch t"
  "tab_contentSearch (select_toggle t e) = tab_contentSearch t"
  "tab_contentSearch (select_list t es) = tab_contentSearch t"
  by (simp_all add: select_single_def select_toggle_def select_list_def Let_def)

lemma range_tab_search: "tab_contentSearch (range_tab t vis e) = tab_contentSearch t"
  by (auto simp: range_tab_def Let_def select_searches split: option.split)

lemma selectEntry_search: "selectEntry pf t e m = Some t' \<Longrightarrow> tab_contentSearch t' = tab_contentSearch t"
  by (cases m) (auto simp: selectEntry_def select_searches select_range_def bind_eq_Some_conv range_tab_search)

lemma moveSelection_search: "moveSelection pf t d = Some t' \<Longrightarrow> tab_contentSearch t' = tab_contentSearch t"
  unfolding moveSelection_def Let_def by (auto simp: bind_eq_Some_conv select_searches split: if_splits)

lemma reduceSelection_live:
  assumes "reduceSelection pf s a = Some s'" shows "searches_from s s'"
proof (cases a)
  case (SelectEntry p e m)
  with assms selectEntry_search show ?thesis
    by (intro searches_from_updatePanel) (auto simp: reduceSelection_def)
next
  case (MoveSelection p d)
  with assms moveSelection_search show ?thesis
    by (intro searches_from_updatePanel) (auto simp: reduceSelection_def)
next
  case (SelectAll p)
  with assms show ?thesis
    by (auto simp: reduceSelection_def bind_eq_Some_conv select_searches elim!: searches_from_updatePanel)
next
  case (InvertSelection p)
  with assms show ?thesis
    by (auto simp: reduceSelection_def bind_eq_Some_conv select_searches elim!: searches_from_updatePanel)
qed (use assms in \<open>auto simp: reduceSelection_def Let_def searches_from_panels elim!: searches_from_updatePanel\<close>)

lemma hydrate_live: "hydrate_panel w h v p s = Some s' \<Longrightarrow> searches_from s s'"
  unfolding hydrate_panel_def Let_def by (erule searches_from_updatePanel) auto

lemma reduceSortFilter_live:
  assumes "reduceSortFilter w s a = Some (s', w')" shows "searches_from s s'"
proof (cases a)
  case (HydratePreferences h v)
  with assms obtain s1 where "hydrate_panel w h v Left s = Some s1" "hydrate_panel w h v Right s1 = Some s'"
    by (auto simp: reduceSortFilter_def bind_eq_Some_conv)
  then show ?thesis by (blast intro: hydrate_live searches_from_trans)
qed (use assms in \<open>auto simp: reduceSortFilter_def Let_def toggle_hidden_tab_def bind_eq_Some_conv
      elim!: searches_from_updatePanel\<close>)

lemma searches_from_add_tab:
  assumes "tab_contentSearch t = None \<or> (\<exists>t0. tab_at s p i = Some t0 \<and> tab_contentSearch t = tab_contentSearch t0)"
  shows "searches_from s (add_tab s p i t)"
  using assms by (auto simp: searches_from_def live_at_def live_def)

lemma created_searches:
  "createFreshTab w u src = Some t \<Longrightarrow> tab_contentSearch t = None"
  "createContentTab w k e src = Some t \<Longrightarrow> tab_contentSearch t = None"
  "createGitReviewTab w a b c src = Some t \<Longrightarrow> tab_contentSearch t = None"
  by (auto simp: createFreshTab_def createContentTab_def createGitReviewTab_def blank_tab_def bind_eq_Some_conv
      split: option.splits if_splits)

lemma closed_tab_get: "obj_get (panel_tabs (close_tab p i)) j = None \<or> obj_get (panel_tabs (close_tab p i)) j = obj_get (panel_tabs p) j"
  by (auto simp: close_tab_def Let_def split: option.split)

lemma reduceTab_live:
  assumes "panels_ok s" and "reduceTab w s a = Some (s', w')" shows "searches_from s s'"
proof (cases a)
  case (OpenGitReviewTab p r src l)
  show ?thesis
  proof (cases "obj_find (review_of r) (panel_tabs (panels s p))")
    case None
    with assms(2) OpenGitReviewTab show ?thesis
      by (auto simp: reduceTab_def bind_eq_Some_conv generateTabId_def Let_def split: prod.splits
          intro!: searches_from_add_tab dest: created_searches)
  next
    case (Some it)
    obtain i t where it: "it = (i, t)" by (cases it)
    have "distinct (obj_keys (panel_tabs (panels s p)))" using assms(1) by (cases p) (simp_all add: panels_ok_def panel_ok_def)
    with Some it have "tab_at s p i = Some t"
      unfolding tab_at_def by (simp add: obj_find_get)
    with assms(2) OpenGitReviewTab Some it show ?thesis
      by (auto simp: reduceTab_def intro!: searches_from_add_tab) (simp add: refresh_review_def)
  qed
next
  case (ReplaceContentTabEntry p i e)
  with assms(2) show ?thesis
    by (auto simp: reduceTab_def searches_from_def live_at_def live_def replace_content_def tab_at_def[symmetric]
        split: option.splits if_splits)
next
  case (SwitchTab p i)
  with assms(2) show ?thesis
    by (auto simp: reduceTab_def searches_from_def live_at_def tab_at_upd_panel tab_at_def split: if_splits)
next
  case (CloseTab p i)
  have "obj_get (panel_tabs (close_tab (panels s p) i)) j = None \<or>
      obj_get (panel_tabs (close_tab (panels s p) i)) j = tab_at s p j" for j
    using closed_tab_get by (simp add: tab_at_def)
  with CloseTab assms(2) show ?thesis
    unfolding searches_from_def live_at_def
    by (auto simp: reduceTab_def tab_at_upd_panel) (metis bind.bind_lzero)
qed (use assms(2) in \<open>auto simp: reduceTab_def bind_eq_Some_conv generateTabId_def Let_def split: prod.splits
      intro!: searches_from_add_tab dest: created_searches\<close>)

text \<open>Of the actions only the start and the binding of a search, and the swap of the panes, make
  searches active.\<close>

definition makes_active :: "PanelAction \<Rightarrow> bool" where
  "makes_active a =
     (case a of StartContentSearch _ _ _ _ _ _ \<Rightarrow> True | BindContentSearchJob _ _ _ _ \<Rightarrow> True | SwapPanes \<Rightarrow> True
      | _ \<Rightarrow> False)"

lemma searches_from_tabs: "searches_from s s' \<Longrightarrow> panels s'' = panels s' \<Longrightarrow> searches_from s s''"
  by (simp add: searches_from_def live_at_def tab_at_def)

lemma set_search_live:
  assumes "search_at s p i = Some x"
    and "isContentSearchActive (Some y) \<longrightarrow>
      isContentSearchActive (Some x) \<and> cs_requestId y = cs_requestId x \<and> cs_jobId y = cs_jobId x \<and> cs_status y = cs_status x"
  shows "searches_from s (set_search s p i y)"
proof -
  obtain t where t: "tab_at s p i = Some t" "tab_contentSearch t = Some x"
    using assms(1) by (auto simp: search_at_def split: option.splits)
  show ?thesis using assms(2) unfolding searches_from_def set_search_def live_at_updatePanelTab t
    by (auto simp: live_def live_at_def t)
qed

lemma appendMatch_same: "cs_requestId (appendMatch x m) = cs_requestId x \<and> cs_jobId (appendMatch x m) = cs_jobId x \<and>
    cs_status (appendMatch x m) = cs_status x"
  by (simp add: appendMatch_def Let_def)

lemma isActive_status: "cs_status y = cs_status x \<Longrightarrow> isContentSearchActive (Some y) = isContentSearchActive (Some x)"
  by (simp add: isContentSearchActive_def)

definition ends :: "ContentSearchStatus \<Rightarrow> bool" where
  "ends st \<longleftrightarrow> st \<noteq> CStarting \<and> st \<noteq> CRunning"

text \<open>\<open>TerminateContentSearchJob\<close> is only dispatched with the status of a job that has ended.\<close>

definition proper :: "PanelAction \<Rightarrow> bool" where
  "proper a = (case a of TerminateContentSearchJob _ st _ \<Rightarrow> ends st | _ \<Rightarrow> True)"

lemma reduceContentSearch_live:
  assumes "\<not> makes_active a" and "proper a" shows "searches_from s (reduceContentSearch s a)"
proof (cases a)
  case (ApplyContentSearchMatch e)
  show ?thesis
  proof (cases "findSearchByJobId s (csm_jobId e)")
    case (Some pt)
    then obtain p i where pt: "findSearchByJobId s (csm_jobId e) = Some (p, i)" by (cases pt) auto
    show ?thesis
    proof (cases "search_at s p i")
      case (Some x)
      let ?y = "appendMatch x (csm_item e)"
      have "searches_from s (set_search s p i ?y)"
        by (rule set_search_live[OF Some])
          (use appendMatch_same[of x "csm_item e"] isActive_status[of ?y x] in simp)
      with Some show ?thesis
        by (simp add: reduceContentSearch_def ApplyContentSearchMatch apply_match_def pt Let_def)
    qed (simp add: reduceContentSearch_def ApplyContentSearchMatch apply_match_def pt)
  qed (simp add: reduceContentSearch_def ApplyContentSearchMatch apply_match_def)
next
  case (ApplyContentSearchCompleted e)
  show ?thesis
  proof (cases "findSearchByJobId s (csc_jobId e)")
    case (Some pt)
    then obtain p i where pt: "findSearchByJobId s (csc_jobId e) = Some (p, i)" by (cases pt) auto
    show ?thesis
    proof (cases "search_at s p i")
      case (Some x)
      let ?y = "x\<lparr>cs_status := CCompleted, cs_result := Some (csc_result e), cs_error := None\<rparr>"
      have "searches_from s (set_search s p i ?y)"
        by (rule set_search_live[OF Some]) (simp add: isContentSearchActive_def)
      then have "searches_from s (absorbJob (set_search s p i ?y) (csc_jobId e))"
        by (rule searches_from_tabs) simp
      with Some show ?thesis
        by (simp add: reduceContentSearch_def ApplyContentSearchCompleted apply_completed_def pt Let_def)
    qed (simp add: reduceContentSearch_def ApplyContentSearchCompleted apply_completed_def pt)
  qed (simp add: reduceContentSearch_def ApplyContentSearchCompleted apply_completed_def)
next
  case (TerminateContentSearchJob j st msg)
  show ?thesis
  proof (cases "findSearchByJobId s j")
    case (Some pt)
    then obtain p i where pt: "findSearchByJobId s j = Some (p, i)" by (cases pt) auto
    show ?thesis
    proof (cases "search_at s p i")
      case (Some x)
      let ?y = "x\<lparr>cs_status := st, cs_error := Some msg\<rparr>"
      have "searches_from s (set_search s p i ?y)"
        by (rule set_search_live[OF Some])
          (use assms(2) in \<open>simp add: TerminateContentSearchJob proper_def ends_def isContentSearchActive_def\<close>)
      then have "searches_from s (absorbJob (set_search s p i ?y) j)"
        by (rule searches_from_tabs) simp
      with Some show ?thesis
        by (simp add: reduceContentSearch_def TerminateContentSearchJob terminate_job_def pt Let_def)
    qed (simp add: reduceContentSearch_def TerminateContentSearchJob terminate_job_def pt)
  qed (simp add: reduceContentSearch_def TerminateContentSearchJob terminate_job_def)
next
  case (FailContentSearchStart p i r msg)
  have "keeps_live (fail_start r msg)"
    unfolding keeps_live_def by (auto simp: fail_start_def live_def isContentSearchActive_def split: option.splits)
  then show ?thesis by (simp add: reduceContentSearch_def FailContentSearchStart searches_from_updatePanelTab)
next
  case (SetContentSearchQuery p i q)
  have "keeps_live (\<lambda>tab. tab\<lparr>tab_contentSearchQuery := q\<rparr>)" by (rule keeps_liveI) simp
  then show ?thesis by (simp add: reduceContentSearch_def SetContentSearchQuery searches_from_updatePanelTab)
qed (use assms(1) in \<open>simp_all add: reduceContentSearch_def makes_active_def\<close>)

lemma panelReducer_live:
  assumes "panels_ok s" and "\<not> makes_active a" and "proper a" and "panelReducer pf w s a = Some (s', w')"
  shows "searches_from s s'"
proof -
  have "a \<noteq> SwapPanes" using assms(2) by (auto simp: makes_active_def)
  with assms(4) have r: "reducePanelAction pf w s a = Some (s', w')" by (simp add: panelReducer_def)
  note [simp] = reducePanelAction_def keep_world_def
  consider "isTabAction a" | "\<not> isTabAction a" "isContentSearchAction a"
    | "\<not> isTabAction a" "\<not> isContentSearchAction a" by blast
  then show ?thesis
  proof cases
    case 1
    with r have "reduceTab w s a = Some (s', w')" by simp
    then show ?thesis by (rule reduceTab_live[OF assms(1)])
  next
    case 2
    with r have "s' = reduceContentSearch s a" by simp
    then show ?thesis using reduceContentSearch_live[OF assms(2,3)] by simp
  next
    case 3
    consider "reduceNavigation s a = Some s'" | "reduceListing s a = Some s'" | "reduceSelection pf s a = Some s'"
      | "reduceSortFilter w s a = Some (s', w')" | "s' = s"
      using r 3 by (simp split: if_splits)
    then show ?thesis
      by cases (erule reduceNavigation_live reduceListing_live reduceSelection_live reduceSortFilter_live | simp)+
  qed
qed

end
