(* ===== verification/SearchFlowFacts.thy ===== *)
theory SearchFlowFacts
  imports LiveSearches
begin

text \<open>
  Facts of the calls behind searches and of the properties dialog. \<open>tracking_ok\<close> is what the hook
  keeps straight between the store and its own map of requests; every event keeps it, and the
  effect then leaves only active searches tracked (\<open>flow_ok\<close>).
\<close>

section \<open>The tracked requests\<close>

lemma search_key_inject [simp]: "search_key p i = search_key q j \<longleftrightarrow> p = q \<and> i = j"
  by (cases p; cases q) (auto simp: search_key_def)

definition tracked_view :: "TrackedSearch \<Rightarrow> string \<times> string option" where
  "tracked_view tr = (ts_requestId tr, ts_jobId tr)"

definition keeps_tracked :: "FileOctopusState \<Rightarrow> TrackedSearch \<Rightarrow> bool" where
  "keeps_tracked s tr \<longleftrightarrow>
     (case search_at s (ts_panelId tr) (ts_tabId tr) of
        None \<Rightarrow> False | Some x \<Rightarrow> cs_requestId x = ts_requestId tr \<and> isContentSearchActive (Some x))"

lemma live_at_search: "live_at s p i = Option.bind (search_at s p i)
    (\<lambda>x. if isContentSearchActive (Some x) then Some (cs_requestId x, cs_jobId x, cs_status x = CRunning) else None)"
  by (cases "tab_at s p i") (auto simp: live_at_def live_def search_at_def split: option.split)

text \<open>What the hook keeps straight: before the effect every active search is tracked, under its tab,
  with its job; a search without a job is starting and its call is in flight.\<close>

definition live_tracked :: "FileOctopusState \<Rightarrow> (string, TrackedSearch) obj \<Rightarrow> TrackedSearch list \<Rightarrow> bool" where
  "live_tracked s tracked calls \<longleftrightarrow>
     (\<forall>p i r j b. live_at s p i = Some (r, j, b) \<longrightarrow>
        (\<exists>tr. obj_get tracked (search_key p i) = Some tr \<and> tracked_view tr = (r, j)) \<and>
        (j = None \<longrightarrow> \<not> b \<and>
           \<lparr>ts_panelId = p, ts_tabId = i, ts_requestId = r, ts_jobId = None\<rparr> \<in> set calls))"

definition requests_ok :: "(nat \<Rightarrow> string) \<Rightarrow> (string, TrackedSearch) obj \<Rightarrow> TrackedSearch list \<Rightarrow> nat \<Rightarrow> bool" where
  "requests_ok uuid tracked calls n \<longleftrightarrow>
     distinct (obj_keys tracked) \<and>
     (\<forall>(k, tr) \<in> set tracked. k = search_key (ts_panelId tr) (ts_tabId tr) \<and>
        ts_requestId tr \<in> uuid ` {..<n} \<and> ts_jobId tr \<noteq> Some [] \<and>
        (ts_jobId tr \<noteq> None \<longrightarrow> ts_requestId tr \<notin> ts_requestId ` set calls)) \<and>
     distinct (map ts_requestId calls) \<and>
     (\<forall>c \<in> set calls. ts_jobId c = None \<and> ts_requestId c \<in> uuid ` {..<n})"

definition jobs_known :: "SearchFlow \<Rightarrow> bool" where
  "jobs_known f \<longleftrightarrow>
     (\<forall>c \<in> set (sf_cancels f). sk_jobId c \<in> set (sf_cancelled f)) \<and>
     (\<forall>j \<in> set (sf_answered f). j \<in> set (sf_cancelled f) \<or> j \<in> set (sf_settled f) \<or>
        (\<exists>(k, tr) \<in> set (sf_tracked f). ts_jobId tr = Some j))"

definition tracking_ok :: "(nat \<Rightarrow> string) \<Rightarrow> SearchFlow \<Rightarrow> bool" where
  "tracking_ok uuid f \<longleftrightarrow>
     store_ok (sf_store f, sf_world f) \<and> live_tracked (sf_store f) (sf_tracked f) (sf_calls f) \<and>
     requests_ok uuid (sf_tracked f) (sf_calls f) (sf_next f) \<and> jobs_known f"

lemmas tracking_defs = tracking_ok_def live_tracked_def requests_ok_def jobs_known_def

text \<open>After the effect, moreover, only active searches are tracked.\<close>

definition flow_ok :: "(nat \<Rightarrow> string) \<Rightarrow> SearchFlow \<Rightarrow> bool" where
  "flow_ok uuid f \<longleftrightarrow>
     tracking_ok uuid f \<and> (\<forall>(k, tr) \<in> set (sf_tracked f). keeps_tracked (sf_store f) tr)"

text \<open>Steps that change no tab, no call and forget at most cancelled or ended jobs.\<close>

definition only_forgets :: "SearchFlow \<Rightarrow> SearchFlow \<Rightarrow> bool" where
  "only_forgets f f' \<longleftrightarrow>
     panels (sf_store f') = panels (sf_store f) \<and> store_ok (sf_store f', sf_world f') \<and>
     sf_calls f' = sf_calls f \<and> sf_cancels f' = sf_cancels f \<and> sf_next f' = sf_next f \<and>
     sf_answered f' = sf_answered f \<and>
     set (sf_cancelled f) \<subseteq> set (sf_cancelled f') \<and> set (sf_settled f) \<subseteq> set (sf_settled f')"

lemma only_forgets_refl: "store_ok (sf_store f, sf_world f) \<Longrightarrow> only_forgets f f"
  by (simp add: only_forgets_def)

lemma only_forgets_trans: "only_forgets f g \<Longrightarrow> only_forgets g h \<Longrightarrow> only_forgets f h"
  unfolding only_forgets_def by auto

lemma discard_panels:
  assumes "store_ok (sf_store f, sf_world f)"
  shows "\<exists>f'. discard_job pf j f = Some f' \<and> only_forgets f f' \<and> sf_tracked f' = sf_tracked f \<and>
    j \<in> set (sf_cancelled f')"
proof -
  have r: "panelReducer pf (sf_world f) (sf_store f) (DiscardContentSearchJobEvents j) =
      Some (absorbJob (sf_store f) j, sf_world f)"
    by (simp add: panelReducer_def reducePanelAction_def isTabAction_def isContentSearchAction_def reduceContentSearch_def)
  with panelReducer_store[OF assms, of pf "DiscardContentSearchJobEvents j"]
  have "store_ok (absorbJob (sf_store f) j, sf_world f)" by simp
  with r show ?thesis by (auto simp: discard_job_def sf_dispatch_def cancel_job_def only_forgets_def)
qed

text \<open>One tracked request: what the effect leaves.\<close>

lemma forget_one:
  assumes "store_ok (sf_store f, sf_world f)"
  shows "\<exists>f'. forget_tracked pf S (k, tr) f = Some f' \<and> only_forgets f f' \<and>
    sf_tracked f' = (if keeps_tracked S tr then sf_tracked f else obj_del k (sf_tracked f)) \<and>
    (\<forall>j. \<not> keeps_tracked S tr \<and> ts_jobId tr = Some j \<and> j \<noteq> [] \<longrightarrow> j \<in> set (sf_cancelled f') \<union> set (sf_settled f'))"
proof -
  let ?x = "search_at S (ts_panelId tr) (ts_tabId tr)"
  consider (gone) "map_option cs_requestId ?x \<noteq> Some (ts_requestId tr)"
    | (ended) "map_option cs_requestId ?x = Some (ts_requestId tr)" "\<not> isContentSearchActive ?x"
    | (kept) "map_option cs_requestId ?x = Some (ts_requestId tr)" "isContentSearchActive ?x" by blast
  then show ?thesis
  proof cases
    case gone
    then have k: "\<not> keeps_tracked S tr" by (auto simp: keeps_tracked_def split: option.splits)
    show ?thesis
    proof (cases "given (ts_jobId tr)")
      case None
      have "\<forall>j. ts_jobId tr = Some j \<longrightarrow> j = []" using None by (auto simp: given_def truthy_def split: if_splits)
      with None k gone assms show ?thesis by (auto simp: forget_tracked_def Let_def only_forgets_def)
    next
      case (Some j)
      obtain g where d: "discard_job pf j f = Some g" "only_forgets f g" "sf_tracked g = sf_tracked f"
        "j \<in> set (sf_cancelled g)" using discard_panels[OF assms] by blast
      have "ts_jobId tr = Some j" using Some by (simp add: given_def split: if_splits)
      with gone Some d k show ?thesis by (simp add: forget_tracked_def Let_def only_forgets_def)
    qed
  next
    case ended
    then have k: "\<not> keeps_tracked S tr" by (auto simp: keeps_tracked_def split: option.splits)
    from ended k assms show ?thesis by (auto simp: forget_tracked_def Let_def only_forgets_def split: option.splits)
  next
    case kept
    then have k: "keeps_tracked S tr" by (auto simp: keeps_tracked_def split: option.splits)
    from kept k assms show ?thesis by (auto simp: forget_tracked_def Let_def only_forgets_def)
  qed
qed

lemma obj_del_filter: "obj_del k ob = filter (\<lambda>(j, v). j \<noteq> k) ob"
  by (induction ob) auto

lemma forget_all:
  assumes "store_ok (sf_store f, sf_world f)"
  shows "\<exists>f'. fold_option (forget_tracked pf S) xs f = Some f' \<and> only_forgets f f' \<and>
    sf_tracked f' = filter (\<lambda>(k, tr). k \<notin> {j. \<exists>v. (j, v) \<in> set xs \<and> \<not> keeps_tracked S v}) (sf_tracked f) \<and>
    (\<forall>(k, tr) \<in> set xs. \<forall>j. \<not> keeps_tracked S tr \<and> ts_jobId tr = Some j \<and> j \<noteq> [] \<longrightarrow>
       j \<in> set (sf_cancelled f') \<union> set (sf_settled f'))"
  using assms
proof (induction xs arbitrary: f)
  case Nil
  then show ?case by (simp add: fold_option_def only_forgets_refl)
next
  case (Cons x xs)
  obtain k tr where x: "x = (k, tr)" by (cases x)
  obtain g where g: "forget_tracked pf S (k, tr) f = Some g" "only_forgets f g"
    "sf_tracked g = (if keeps_tracked S tr then sf_tracked f else obj_del k (sf_tracked f))"
    "\<forall>j. \<not> keeps_tracked S tr \<and> ts_jobId tr = Some j \<and> j \<noteq> [] \<longrightarrow> j \<in> set (sf_cancelled g) \<union> set (sf_settled g)"
    using forget_one[OF Cons.prems] by blast
  then have "store_ok (sf_store g, sf_world g)" by (simp add: only_forgets_def)
  from Cons.IH[OF this] obtain h where h: "fold_option (forget_tracked pf S) xs g = Some h" "only_forgets g h"
    "sf_tracked h = filter (\<lambda>(k, tr). k \<notin> {j. \<exists>v. (j, v) \<in> set xs \<and> \<not> keeps_tracked S v}) (sf_tracked g)"
    "\<forall>(k, tr) \<in> set xs. \<forall>j. \<not> keeps_tracked S tr \<and> ts_jobId tr = Some j \<and> j \<noteq> [] \<longrightarrow>
       j \<in> set (sf_cancelled h) \<union> set (sf_settled h)" by blast
  have "fold_option (forget_tracked pf S) (x # xs) f = Some h" using h(1) g(1) by (simp add: fold_option_def x)
  moreover have "sf_tracked h = filter (\<lambda>(k, tr). k \<notin> {j. \<exists>v. (j, v) \<in> set (x # xs) \<and> \<not> keeps_tracked S v}) (sf_tracked f)"
    unfolding h(3) g(3) x obj_del_filter by (auto intro!: filter_cong simp: split_beta)
  moreover have "\<forall>(k, tr) \<in> set (x # xs). \<forall>j. \<not> keeps_tracked S tr \<and> ts_jobId tr = Some j \<and> j \<noteq> [] \<longrightarrow>
       j \<in> set (sf_cancelled h) \<union> set (sf_settled h)"
    using h(2,4) g(4) unfolding x only_forgets_def by auto
  ultimately show ?case using only_forgets_trans[OF g(2) h(2)] by blast
qed

lemma keeps_tracked_panels: "panels s' = panels s \<Longrightarrow> keeps_tracked s' tr = keeps_tracked s tr"
  by (simp add: keeps_tracked_def search_at_def tab_at_def)

lemma live_at_panels: "panels s' = panels s \<Longrightarrow> live_at s' p i = live_at s p i"
  by (simp add: live_at_def tab_at_def)

lemma tracking_liveD:
  assumes "tracking_ok uuid f" and "live_at (sf_store f) p i = Some (r, j, b)"
  shows "(\<exists>tr. obj_get (sf_tracked f) (search_key p i) = Some tr \<and> tracked_view tr = (r, j)) \<and>
    (j = None \<longrightarrow> \<not> b \<and>
       \<lparr>ts_panelId = p, ts_tabId = i, ts_requestId = r, ts_jobId = None\<rparr> \<in> set (sf_calls f))"
  using assms unfolding tracking_defs by blast

lemma tracking_effect:
  assumes "tracking_ok uuid f"
  shows "\<exists>f'. search_effect pf f = Some f' \<and> flow_ok uuid f'"
proof -
  have st: "store_ok (sf_store f, sf_world f)" using assms by (simp add: tracking_defs)
  obtain g where g: "search_effect pf f = Some g" "only_forgets f g"
    "sf_tracked g = filter (\<lambda>(k, tr). k \<notin> {j. \<exists>v. (j, v) \<in> set (sf_tracked f) \<and> \<not> keeps_tracked (sf_store f) v}) (sf_tracked f)"
    "\<forall>(k, tr) \<in> set (sf_tracked f). \<forall>j. \<not> keeps_tracked (sf_store f) tr \<and> ts_jobId tr = Some j \<and> j \<noteq> [] \<longrightarrow>
       j \<in> set (sf_cancelled g) \<union> set (sf_settled g)"
    using forget_all[OF st, of pf "sf_store f" "sf_tracked f"] unfolding search_effect_def by blast
  have d: "distinct (obj_keys (sf_tracked f))" using assms by (simp add: tracking_defs)
  then have t: "sf_tracked g = filter (\<lambda>(k, tr). keeps_tracked (sf_store f) tr) (sf_tracked f)"
    unfolding g(3) by (auto intro!: filter_cong dest: eq_key_imp_eq_value)
  have get: "obj_get (sf_tracked g) k = Some tr" if "obj_get (sf_tracked f) k = Some tr" "keeps_tracked (sf_store f) tr" for k tr
    unfolding t using that d by (auto intro!: map_of_is_SomeI simp: distinct_map_filter dest: map_of_SomeD)
  have keeps: "keeps_tracked (sf_store f) tr"
    if "live_at (sf_store f) p i = Some (r, j, b)" "obj_get (sf_tracked f) (search_key p i) = Some tr"
      "tracked_view tr = (r, j)" for p i r j b tr
  proof -
    have "search_key p i = search_key (ts_panelId tr) (ts_tabId tr)"
      using map_of_SomeD[OF that(2)] assms by (auto simp: tracking_defs)
    then have "ts_panelId tr = p" "ts_tabId tr = i" by simp_all
    with that(1,3) show ?thesis
      by (auto simp: live_at_search keeps_tracked_def tracked_view_def bind_eq_Some_conv split: if_splits)
  qed
  have pan: "panels (sf_store g) = panels (sf_store f)" using g(2) by (simp add: only_forgets_def)
  have "\<forall>(k, tr) \<in> set (sf_tracked g). keeps_tracked (sf_store g) tr"
    unfolding t keeps_tracked_panels[OF pan] by auto
  moreover have "tracking_ok uuid g"
    unfolding tracking_defs live_at_panels[OF pan]
  proof (intro conjI)
    show "store_ok (sf_store g, sf_world g)" using g(2) by (simp add: only_forgets_def)
    show "\<forall>p i r j b. live_at (sf_store f) p i = Some (r, j, b) \<longrightarrow>
        (\<exists>tr. obj_get (sf_tracked g) (search_key p i) = Some tr \<and> tracked_view tr = (r, j)) \<and>
        (j = None \<longrightarrow> \<not> b \<and>
           \<lparr>ts_panelId = p, ts_tabId = i, ts_requestId = r, ts_jobId = None\<rparr> \<in> set (sf_calls g))"
    proof (intro allI impI)
      fix p i r j b assume l: "live_at (sf_store f) p i = Some (r, j, b)"
      from tracking_liveD[OF assms l] obtain tr where tr: "obj_get (sf_tracked f) (search_key p i) = Some tr"
        "tracked_view tr = (r, j)" by blast
      have "sf_calls g = sf_calls f" using g(2) by (simp add: only_forgets_def)
      with get[OF tr(1) keeps[OF l tr]] tr(2) tracking_liveD[OF assms l]
      show "(\<exists>tr. obj_get (sf_tracked g) (search_key p i) = Some tr \<and> tracked_view tr = (r, j)) \<and>
        (j = None \<longrightarrow> \<not> b \<and>
           \<lparr>ts_panelId = p, ts_tabId = i, ts_requestId = r, ts_jobId = None\<rparr> \<in> set (sf_calls g))"
        by simp
    qed
    show "distinct (obj_keys (sf_tracked g))" unfolding t using d by (simp add: distinct_map_filter)
    show "\<forall>(k, tr) \<in> set (sf_tracked g). k = search_key (ts_panelId tr) (ts_tabId tr) \<and>
        ts_requestId tr \<in> uuid ` {..<sf_next g} \<and> ts_jobId tr \<noteq> Some [] \<and>
        (ts_jobId tr \<noteq> None \<longrightarrow> ts_requestId tr \<notin> ts_requestId ` set (sf_calls g))"
      using assms g(2) unfolding t by (auto simp: tracking_defs only_forgets_def)
    show "distinct (map ts_requestId (sf_calls g))"
      "\<forall>c \<in> set (sf_calls g). ts_jobId c = None \<and> ts_requestId c \<in> uuid ` {..<sf_next g}"
      "\<forall>c \<in> set (sf_cancels g). sk_jobId c \<in> set (sf_cancelled g)"
      using assms g(2) by (auto simp: tracking_defs only_forgets_def)
    show "\<forall>j \<in> set (sf_answered g). j \<in> set (sf_cancelled g) \<or> j \<in> set (sf_settled g) \<or>
        (\<exists>(k, tr) \<in> set (sf_tracked g). ts_jobId tr = Some j)"
    proof
      fix j assume "j \<in> set (sf_answered g)"
      then have "j \<in> set (sf_answered f)" using g(2) by (simp add: only_forgets_def)
      then consider "j \<in> set (sf_cancelled f) \<or> j \<in> set (sf_settled f)"
        | k tr where "(k, tr) \<in> set (sf_tracked f)" "ts_jobId tr = Some j"
        using assms unfolding tracking_defs by blast
      then show "j \<in> set (sf_cancelled g) \<or> j \<in> set (sf_settled g) \<or>
          (\<exists>(k, tr) \<in> set (sf_tracked g). ts_jobId tr = Some j)"
      proof cases
        case 1
        then show ?thesis using g(2) by (auto simp: only_forgets_def)
      next
        case 2
        then have "j \<noteq> []" using assms by (auto simp: tracking_defs)
        with 2 g(4) show ?thesis unfolding t by (cases "keeps_tracked (sf_store f) tr") auto
      qed
    qed
  qed
  ultimately show ?thesis using g(1) by (simp add: flow_ok_def)
qed

section \<open>Steps\<close>

lemma content_action:
  assumes "isContentSearchAction a" and "store_ok (sf_store f, sf_world f)"
  shows "sf_dispatch pf a f = Some (f\<lparr>sf_store := reduceContentSearch (sf_store f) a\<rparr>) \<and>
    store_ok (reduceContentSearch (sf_store f) a, sf_world f)"
proof -
  have "a \<noteq> SwapPanes" "\<not> isTabAction a"
    using assms(1) by (auto simp: isContentSearchAction_def isTabAction_def split: PanelAction.splits)
  then have r: "panelReducer pf (sf_world f) (sf_store f) a = Some (reduceContentSearch (sf_store f) a, sf_world f)"
    using assms(1) by (simp add: panelReducer_def reducePanelAction_def)
  with panelReducer_store[OF assms(2), of pf a] show ?thesis by (simp add: sf_dispatch_def)
qed

lemma discard_eq:
  "store_ok (sf_store f, sf_world f) \<Longrightarrow>
   discard_job pf j f = Some (cancel_job j (f\<lparr>sf_store := absorbJob (sf_store f) j\<rparr>))"
  using content_action[of "DiscardContentSearchJobEvents j" f pf]
  by (simp add: discard_job_def isContentSearchAction_def reduceContentSearch_def)

text \<open>A change of the store under which every active search was active before.\<close>

lemma tracking_store:
  assumes "tracking_ok uuid f" and "searches_from (sf_store f) s" and "store_ok (s, w)"
  shows "tracking_ok uuid (f\<lparr>sf_store := s, sf_world := w\<rparr>)"
proof -
  have "live_tracked s (sf_tracked f) (sf_calls f)"
    unfolding live_tracked_def
  proof (intro allI impI)
    fix p i r j b assume "live_at s p i = Some (r, j, b)"
    then have "live_at (sf_store f) p i = Some (r, j, b)"
      using assms(2) unfolding searches_from_def by (metis option.distinct(1))
    from tracking_liveD[OF assms(1) this]
    show "(\<exists>tr. obj_get (sf_tracked f) (search_key p i) = Some tr \<and> tracked_view tr = (r, j)) \<and>
        (j = None \<longrightarrow> \<not> b \<and>
           \<lparr>ts_panelId = p, ts_tabId = i, ts_requestId = r, ts_jobId = None\<rparr> \<in> set (sf_calls f))" .
  qed
  with assms(1,3) show ?thesis by (simp add: tracking_ok_def jobs_known_def)
qed

lemma tracked_entry:
  assumes "tracking_ok uuid f" and "obj_get (sf_tracked f) k = Some tr"
  shows "k = search_key (ts_panelId tr) (ts_tabId tr)" "ts_requestId tr \<in> uuid ` {..<sf_next f}"
    "ts_jobId tr \<noteq> Some []" "ts_jobId tr \<noteq> None \<Longrightarrow> ts_requestId tr \<notin> ts_requestId ` set (sf_calls f)"
  using assms map_of_SomeD[OF assms(2)] unfolding tracking_defs by auto

text \<open>The tracked requests and the active searches are the same, after the effect.\<close>

lemma tracked_live:
  assumes "flow_ok uuid f" and "obj_get (sf_tracked f) (search_key p i) = Some tr"
  shows "\<exists>b. live_at (sf_store f) p i = Some (ts_requestId tr, ts_jobId tr, b)"
proof -
  have t: "tracking_ok uuid f" using assms(1) by (simp add: flow_ok_def)
  have "ts_panelId tr = p" "ts_tabId tr = i" using tracked_entry(1)[OF t assms(2)] by simp_all
  moreover have "keeps_tracked (sf_store f) tr"
    using assms map_of_SomeD[OF assms(2)] by (auto simp: flow_ok_def)
  ultimately obtain j b where l: "live_at (sf_store f) p i = Some (ts_requestId tr, j, b)"
    by (auto simp: keeps_tracked_def live_at_search split: option.splits)
  from tracking_liveD[OF t l] assms(2) have "ts_jobId tr = j" by (auto simp: tracked_view_def)
  with l show ?thesis by blast
qed

lemma action_ok:
  assumes "tracking_ok uuid f" and "\<not> makes_active a" and "proper a"
  shows "\<exists>f'. sf_dispatch pf a f = Some f' \<and> tracking_ok uuid f'"
proof -
  have st: "store_ok (sf_store f, sf_world f)" using assms(1) by (simp add: tracking_defs)
  obtain s w where r: "panelReducer pf (sf_world f) (sf_store f) a = Some (s, w)" "store_ok (s, w)"
    using panelReducer_store[OF st] by blast
  have "panels_ok (sf_store f)" using st by (simp add: store_ok_def)
  from tracking_store[OF assms(1) panelReducer_live[OF this assms(2,3) r(1)] r(2)] r(1)
  show ?thesis by (simp add: sf_dispatch_def)
qed

lemma log_ok:
  assumes "tracking_ok uuid f"
  shows "tracking_ok uuid (cancel_job j f)" and "tracking_ok uuid (f\<lparr>sf_error := e\<rparr>)"
    and "tracking_ok uuid (f\<lparr>sf_cancels := drop_nth n (sf_cancels f)\<rparr>)"
proof -
  have sub: "set (drop_nth n xs) \<subseteq> set xs" for xs :: "'a list"
    unfolding drop_nth_def using set_take_subset[of n xs] set_drop_subset[of "Suc n" xs] by auto
  show "tracking_ok uuid (cancel_job j f)"
    using assms by (auto simp: tracking_ok_def jobs_known_def cancel_job_def)
  show "tracking_ok uuid (f\<lparr>sf_error := e\<rparr>)"
    using assms by (simp add: tracking_ok_def jobs_known_def)
  show "tracking_ok uuid (f\<lparr>sf_cancels := drop_nth n (sf_cancels f)\<rparr>)"
    using assms sub[of "sf_cancels f"] by (auto simp: tracking_ok_def jobs_known_def)
qed

lemma cancel_ok:
  assumes "tracking_ok uuid f" shows "tracking_ok uuid (cancelContentSearch p i f)"
proof -
  have "tracking_ok uuid ((cancel_job j f)\<lparr>sf_cancels := sf_cancels f @ [\<lparr>sk_panelId = p, sk_tabId = i, sk_jobId = j\<rparr>]\<rparr>)" for j
    using log_ok(1)[OF assms, of j] by (auto simp: tracking_ok_def jobs_known_def cancel_job_def)
  then show ?thesis using assms by (simp add: cancelContentSearch_def Let_def split: option.split)
qed

lemma replay_fields:
  "cs_requestId (replay_matches es x) = cs_requestId x \<and> cs_jobId (replay_matches es x) = cs_jobId x"
  unfolding replay_matches_def
  by (induction es arbitrary: x) (auto simp: appendMatch_same)

lemma replay_end_fields:
  "cs_requestId (replay_end b x) = cs_requestId x \<and> cs_jobId (replay_end b x) = cs_jobId x"
  by (auto simp: replay_end_def split: option.split prod.split)

lemma set_search_live_at:
  "search_at s p i \<noteq> None \<Longrightarrow> live_at (set_search s p i y) q k =
     (if q = p \<and> k = i
      then if isContentSearchActive (Some y) then Some (cs_requestId y, cs_jobId y, cs_status y = CRunning) else None
      else live_at s q k)"
  by (auto simp: set_search_def live_at_updatePanelTab search_at_def live_def split: option.splits)

lemma bind_live_at:
  assumes "live_at s p i = Some (r, None, False)"
  shows "(q, k) \<noteq> (p, i) \<Longrightarrow> live_at (bindContentSearchJob s p i r j) q k = live_at s q k"
    and "live_at (bindContentSearchJob s p i r j) p i = None \<or>
      (\<exists>b. live_at (bindContentSearchJob s p i r j) p i = Some (r, Some j, b))"
proof -
  obtain x where x: "search_at s p i = Some x" "cs_requestId x = r" "cs_status x = CStarting"
    using assms by (auto simp: live_at_search bind_eq_Some_conv isContentSearchActive_def split: if_splits)
  let ?started = "x\<lparr>cs_status := CRunning, cs_jobId := Some j\<rparr>"
  obtain y where y: "cs_requestId y = r" "cs_jobId y = Some j"
    "panels (bindContentSearchJob s p i r j) = panels (set_search s p i y)"
  proof (cases "obj_get (pendingContentSearchEvents s) j")
    case None
    with x that[of ?started] show ?thesis by (simp add: bindContentSearchJob_def Let_def)
  next
    case (Some b)
    with x that[of "replay_end b (replay_matches (pend_matches b) ?started)"] show ?thesis
      by (simp add: bindContentSearchJob_def Let_def replay_fields replay_end_fields)
  qed
  have l: "live_at (bindContentSearchJob s p i r j) q k = live_at (set_search s p i y) q k" for q k
    by (rule live_at_panels[OF y(3)])
  show "(q, k) \<noteq> (p, i) \<Longrightarrow> live_at (bindContentSearchJob s p i r j) q k = live_at s q k"
    unfolding l using x(1) by (auto simp: set_search_live_at)
  show "live_at (bindContentSearchJob s p i r j) p i = None \<or>
      (\<exists>b. live_at (bindContentSearchJob s p i r j) p i = Some (r, Some j, b))"
    unfolding l using x(1) y by (simp add: set_search_live_at)
qed

lemma drop_nth_mem: "x \<in> set xs \<Longrightarrow> x \<noteq> xs ! n \<Longrightarrow> x \<in> set (drop_nth n xs)"
proof -
  assume x: "x \<in> set xs" "x \<noteq> xs ! n"
  then obtain m where m: "m < length xs" "xs ! m = x" by (auto simp: in_set_conv_nth)
  then consider "m < n" | "n < m" using x(2) by (metis nat_neq_iff)
  then show ?thesis
  proof cases
    case 1
    with m have "x \<in> set (take n xs)" by (metis in_set_conv_nth length_take min_less_iff_conj nth_take)
    then show ?thesis by (simp add: drop_nth_def)
  next
    case 2
    with m have "drop (Suc n) xs ! (m - Suc n) = x" "m - Suc n < length (drop (Suc n) xs)" by simp_all
    then have "x \<in> set (drop (Suc n) xs)" by (metis nth_mem)
    then show ?thesis by (simp add: drop_nth_def)
  qed
qed

lemma drop_nth_sub: "set (drop_nth n xs) \<subseteq> set xs"
  unfolding drop_nth_def using set_take_subset[of n xs] set_drop_subset[of "Suc n" xs] by auto

lemma drop_nth_map: "map f (drop_nth n xs) = drop_nth n (map f xs)"
  by (simp add: drop_nth_def take_map drop_map)

lemma drop_nth_distinct: assumes "distinct xs" shows "distinct (drop_nth n xs)" "n < length xs \<Longrightarrow> xs ! n \<notin> set (drop_nth n xs)"
proof -
  have "set (take n xs) \<inter> set (drop (Suc n) xs) = {}"
    using assms set_take_disj_set_drop_if_distinct[of xs n "Suc n"] by simp
  then show "distinct (drop_nth n xs)" using assms by (simp add: drop_nth_def)
  assume "n < length xs"
  then have "xs = take n xs @ xs ! n # drop (Suc n) xs" by (rule id_take_nth_drop)
  with assms have "distinct (take n xs @ xs ! n # drop (Suc n) xs)" by simp
  then show "xs ! n \<notin> set (drop_nth n xs)" by (simp add: drop_nth_def)
qed

lemma requests_drop: "requests_ok uuid tracked calls k \<Longrightarrow> requests_ok uuid tracked (drop_nth n calls) k"
proof -
  assume r: "requests_ok uuid tracked calls k"
  have "ts_requestId ` set (drop_nth n calls) \<subseteq> ts_requestId ` set calls"
    by (rule image_mono[OF drop_nth_sub])
  moreover have "distinct (map ts_requestId (drop_nth n calls))"
    using r drop_nth_distinct(1)[of "map ts_requestId calls" n] by (simp add: requests_ok_def drop_nth_map)
  moreover have "\<forall>c \<in> set (drop_nth n calls). ts_jobId c = None \<and> ts_requestId c \<in> uuid ` {..<k}"
    using r drop_nth_sub[of n calls] by (auto simp: requests_ok_def)
  moreover have "\<forall>(j, tr) \<in> set tracked. j = search_key (ts_panelId tr) (ts_tabId tr) \<and>
        ts_requestId tr \<in> uuid ` {..<k} \<and> ts_jobId tr \<noteq> Some [] \<and>
        (ts_jobId tr \<noteq> None \<longrightarrow> ts_requestId tr \<notin> ts_requestId ` set (drop_nth n calls))"
  proof (intro ballI, clarify)
    fix j tr assume "(j, tr) \<in> set tracked"
    with r have t: "j = search_key (ts_panelId tr) (ts_tabId tr) \<and> ts_requestId tr \<in> uuid ` {..<k} \<and>
        ts_jobId tr \<noteq> Some [] \<and> (ts_jobId tr \<noteq> None \<longrightarrow> ts_requestId tr \<notin> ts_requestId ` set calls)"
      unfolding requests_ok_def by blast
    have "ts_requestId ` set (drop_nth n calls) \<subseteq> ts_requestId ` set calls" by (rule image_mono[OF drop_nth_sub])
    with t show "j = search_key (ts_panelId tr) (ts_tabId tr) \<and> ts_requestId tr \<in> uuid ` {..<k} \<and>
        ts_jobId tr \<noteq> Some [] \<and> (ts_jobId tr \<noteq> None \<longrightarrow> ts_requestId tr \<notin> ts_requestId ` set (drop_nth n calls))"
      by (metis subsetD)
  qed
  ultimately show ?thesis using r by (simp only: requests_ok_def)
qed

definition request_ok :: "(nat \<Rightarrow> string) \<Rightarrow> TrackedSearch list \<Rightarrow> nat \<Rightarrow> string \<times> TrackedSearch \<Rightarrow> bool" where
  "request_ok uuid calls n kt \<longleftrightarrow>
     (case kt of (k, tr) \<Rightarrow> k = search_key (ts_panelId tr) (ts_tabId tr) \<and>
        ts_requestId tr \<in> uuid ` {..<n} \<and> ts_jobId tr \<noteq> Some [] \<and>
        (ts_jobId tr \<noteq> None \<longrightarrow> ts_requestId tr \<notin> ts_requestId ` set calls))"

lemma requests_list:
  "requests_ok uuid tracked calls n \<longleftrightarrow>
     distinct (obj_keys tracked) \<and> list_all (request_ok uuid calls n) tracked \<and>
     distinct (map ts_requestId calls) \<and>
     (\<forall>c \<in> set calls. ts_jobId c = None \<and> ts_requestId c \<in> uuid ` {..<n})"
  by (simp only: requests_ok_def list_all_iff request_ok_def[abs_def])

lemma requests_set:
  "requests_ok uuid tracked calls n \<Longrightarrow> request_ok uuid calls n (k, tr) \<Longrightarrow>
   requests_ok uuid (obj_set k tr tracked) calls n"
  unfolding requests_list by (simp add: list_all_obj_set distinct_obj_set)

lemma requests_del: "requests_ok uuid tracked calls n \<Longrightarrow> requests_ok uuid (obj_del k tracked) calls n"
  unfolding requests_list by (simp add: list_all_obj_del distinct_obj_del)

text \<open>The answer to a call that is no longer the newest of its tab changes nothing that is tracked.\<close>

lemma live_call_dropped:
  assumes "live_tracked s tracked calls"
    and "map_option ts_requestId (obj_get tracked (search_key (ts_panelId (calls ! n)) (ts_tabId (calls ! n))))
      \<noteq> Some (ts_requestId (calls ! n))"
  shows "live_tracked s tracked (drop_nth n calls)"
  unfolding live_tracked_def
proof (intro allI impI)
  fix p i r j b assume l: "live_at s p i = Some (r, j, b)"
  let ?c = "\<lparr>ts_panelId = p, ts_tabId = i, ts_requestId = r, ts_jobId = None\<rparr>"
  from assms(1) l have t: "\<exists>tr. obj_get tracked (search_key p i) = Some tr \<and> tracked_view tr = (r, j)"
    "j = None \<longrightarrow> \<not> b \<and> ?c \<in> set calls" unfolding live_tracked_def by blast+
  have "?c \<noteq> calls ! n"
  proof
    assume e: "?c = calls ! n"
    have "ts_panelId (calls ! n) = p" "ts_tabId (calls ! n) = i" "ts_requestId (calls ! n) = r"
      by (simp_all flip: e)
    with assms(2) t(1) show False by (auto simp: tracked_view_def)
  qed
  with t drop_nth_mem[of ?c calls n]
  show "(\<exists>tr. obj_get tracked (search_key p i) = Some tr \<and> tracked_view tr = (r, j)) \<and>
      (j = None \<longrightarrow> \<not> b \<and> ?c \<in> set (drop_nth n calls))" by blast
qed

lemma current_call:
  assumes "flow_ok uuid f" and "n < length (sf_calls f)" and "c = sf_calls f ! n" and "is_current f c"
  shows "live_at (sf_store f) (ts_panelId c) (ts_tabId c) = Some (ts_requestId c, None, False)"
    and "\<exists>tr. obj_get (sf_tracked f) (search_key (ts_panelId c) (ts_tabId c)) = Some tr \<and> ts_jobId tr = None \<and>
      ts_requestId tr = ts_requestId c"
proof -
  have t: "tracking_ok uuid f" using assms(1) by (simp add: flow_ok_def)
  obtain tr where tr: "obj_get (sf_tracked f) (search_key (ts_panelId c) (ts_tabId c)) = Some tr"
    "ts_requestId tr = ts_requestId c" using assms(4) by (auto simp: is_current_def)
  have "c \<in> set (sf_calls f)" using assms(2,3) by simp
  then have none: "ts_jobId tr = None" using tracked_entry(4)[OF t tr(1)] tr(2) by (metis imageI)
  obtain b where "live_at (sf_store f) (ts_panelId c) (ts_tabId c) = Some (ts_requestId tr, ts_jobId tr, b)"
    using tracked_live[OF assms(1) tr(1)] by blast
  with none tracking_liveD[OF t this] tr(2)
  show "live_at (sf_store f) (ts_panelId c) (ts_tabId c) = Some (ts_requestId c, None, False)" by auto
  show "\<exists>tr. obj_get (sf_tracked f) (search_key (ts_panelId c) (ts_tabId c)) = Some tr \<and> ts_jobId tr = None \<and>
      ts_requestId tr = ts_requestId c" using tr none by blast
qed

lemma live_tracked_cong: "live_at s' = live_at s \<Longrightarrow> live_tracked s' tracked calls = live_tracked s tracked calls"
  by (simp only: live_tracked_def)

lemma discard_tracking:
  assumes "tracking_ok uuid f"
  shows "\<exists>f'. discard_job pf j f = Some f' \<and> tracking_ok uuid f' \<and> sf_tracked f' = sf_tracked f \<and>
    sf_calls f' = sf_calls f \<and> sf_next f' = sf_next f \<and> panels (sf_store f') = panels (sf_store f) \<and>
    j \<in> set (sf_cancelled f')"
proof -
  have "store_ok (sf_store f, sf_world f)" using assms by (simp add: tracking_ok_def)
  from discard_panels[OF this, of pf j] obtain f' where f': "discard_job pf j f = Some f'" "only_forgets f f'"
    "sf_tracked f' = sf_tracked f" "j \<in> set (sf_cancelled f')" by blast
  moreover have "live_tracked (sf_store f') (sf_tracked f') (sf_calls f')"
  proof -
    have "live_at (sf_store f') = live_at (sf_store f)"
      using f'(2) by (intro ext live_at_panels) (simp add: only_forgets_def)
    from live_tracked_cong[OF this] show ?thesis using assms f'(2,3) by (simp add: tracking_ok_def only_forgets_def)
  qed
  moreover have "jobs_known f'" using assms f'(2,3) by (auto simp: tracking_ok_def jobs_known_def only_forgets_def)
  moreover have "sf_calls f' = sf_calls f" "sf_next f' = sf_next f" "panels (sf_store f') = panels (sf_store f)"
    "store_ok (sf_store f', sf_world f')" using f'(2) by (simp_all add: only_forgets_def)
  ultimately show ?thesis using assms by (simp add: tracking_ok_def)
qed

lemma tracking_dropped:
  assumes "flow_ok uuid f" and "n < length (sf_calls f)" and "\<not> is_current f (sf_calls f ! n)"
  shows "tracking_ok uuid (f\<lparr>sf_calls := drop_nth n (sf_calls f)\<rparr>)"
proof -
  have "live_tracked (sf_store f) (sf_tracked f) (drop_nth n (sf_calls f))"
    using assms(1,3) by (intro live_call_dropped) (simp_all add: flow_ok_def tracking_ok_def is_current_def)
  then show ?thesis using assms(1) requests_drop
    by (simp add: flow_ok_def tracking_ok_def jobs_known_def)
qed

lemma is_current_dropped [simp]: "is_current (f\<lparr>sf_calls := cs\<rparr>) c = is_current f c"
  "is_current (f\<lparr>sf_answered := as\<rparr>) c = is_current f c"
  by (simp_all add: is_current_def)

text \<open>When the newest call of a tab is answered, the tab's search takes what was tracked with it.\<close>

lemma live_answered:
  assumes "live_tracked s tracked calls" and "\<And>q k. (q, k) \<noteq> (p, i) \<Longrightarrow> live_at s' q k = live_at s q k"
    and "\<And>q k. (q, k) \<noteq> (p, i) \<Longrightarrow> obj_get tracked' (search_key q k) = obj_get tracked (search_key q k)"
    and "ts_panelId (calls ! n) = p" and "ts_tabId (calls ! n) = i"
    and "live_at s' p i = None \<or>
      (\<exists>tr j b. live_at s' p i = Some (ts_requestId tr, Some j, b) \<and> obj_get tracked' (search_key p i) = Some tr \<and> ts_jobId tr = Some j)"
  shows "live_tracked s' tracked' (drop_nth n calls)"
  unfolding live_tracked_def
proof (intro allI impI)
  fix q k r j b assume l: "live_at s' q k = Some (r, j, b)"
  let ?c = "\<lparr>ts_panelId = q, ts_tabId = k, ts_requestId = r, ts_jobId = None\<rparr>"
  show "(\<exists>tr. obj_get tracked' (search_key q k) = Some tr \<and> tracked_view tr = (r, j)) \<and>
      (j = None \<longrightarrow> \<not> b \<and> ?c \<in> set (drop_nth n calls))"
  proof (cases "(q, k) = (p, i)")
    case True
    with l assms(6) show ?thesis by (auto simp: tracked_view_def)
  next
    case False
    then have "live_at s q k = Some (r, j, b)" using l assms(2) by simp
    with assms(1) have t: "\<exists>tr. obj_get tracked (search_key q k) = Some tr \<and> tracked_view tr = (r, j)"
      "j = None \<longrightarrow> \<not> b \<and> ?c \<in> set calls" unfolding live_tracked_def by blast+
    have "?c \<noteq> calls ! n"
    proof
      assume e: "?c = calls ! n"
      have "ts_panelId (calls ! n) = q" "ts_tabId (calls ! n) = k" by (simp_all flip: e)
      with False assms(4,5) show False by simp
    qed
    with t assms(3)[OF False] drop_nth_mem[of ?c calls n] show ?thesis by simp
  qed
qed

lemma started_ok:
  assumes "flow_ok uuid f" and "n < length (sf_calls f)" and "j \<noteq> []"
  shows "\<exists>f'. search_job_started pf (sf_calls f ! n) j (f\<lparr>sf_calls := drop_nth n (sf_calls f)\<rparr>) = Some f' \<and>
    tracking_ok uuid f'"
proof -
  let ?c = "sf_calls f ! n" and ?f = "f\<lparr>sf_calls := drop_nth n (sf_calls f)\<rparr>"
  let ?p = "ts_panelId ?c" and ?i = "ts_tabId ?c" and ?r = "ts_requestId ?c"
  have t: "tracking_ok uuid f" using assms(1) by (simp add: flow_ok_def)
  show ?thesis
  proof (cases "is_current f ?c")
    case False
    from discard_tracking[OF tracking_dropped[OF assms(1,2) False], of pf j] obtain g where
      g: "discard_job pf j ?f = Some g" "tracking_ok uuid g" "j \<in> set (sf_cancelled g)" by blast
    have st: "store_ok (sf_store f, sf_world f)" using t by (simp add: tracking_ok_def)
    have "discard_job pf j (?f\<lparr>sf_answered := sf_answered f @ [j]\<rparr>) = Some (g\<lparr>sf_answered := sf_answered f @ [j]\<rparr>)"
      using discard_eq[of ?f pf j] discard_eq[of "?f\<lparr>sf_answered := sf_answered f @ [j]\<rparr>" pf j] g(1) st
      by (auto simp: cancel_job_def)
    moreover have "sf_answered g = sf_answered f" using discard_eq[of ?f pf j] g(1) st by (auto simp: cancel_job_def)
    then have "tracking_ok uuid (g\<lparr>sf_answered := sf_answered f @ [j]\<rparr>)"
      using g(2,3) by (auto simp: tracking_ok_def jobs_known_def)
    ultimately show ?thesis using False by (simp add: search_job_started_def Let_def)
  next
    case True
    note cur = current_call[OF assms(1,2) refl True]
    let ?tr = "?c\<lparr>ts_jobId := Some j\<rparr>"
    let ?g = "?f\<lparr>sf_answered := sf_answered f @ [j],
        sf_tracked := obj_set (search_key ?p ?i) ?tr (sf_tracked f)\<rparr>"
    let ?a = "BindContentSearchJob ?p ?i ?r j"
    let ?s = "bindContentSearchJob (sf_store f) ?p ?i ?r j"
    have st: "store_ok (sf_store ?g, sf_world ?g)" using t by (simp add: tracking_ok_def)
    have r: "sf_dispatch pf ?a ?g = Some (?g\<lparr>sf_store := ?s\<rparr>)" "store_ok (?s, sf_world f)"
      using content_action[OF _ st, of ?a pf]
      by (simp_all add: isContentSearchAction_def reduceContentSearch_def)
    have live: "live_tracked ?s (obj_set (search_key ?p ?i) ?tr (sf_tracked f)) (drop_nth n (sf_calls f))"
      by (rule live_answered[where s = "sf_store f" and p = ?p and i = ?i])
        (use t bind_live_at[OF cur(1), where j = j] in \<open>auto simp: tracking_ok_def\<close>)
    have mem: "?c \<in> set (sf_calls f)" using assms(2) by simp
    have "distinct (map ts_requestId (sf_calls f))" using t by (simp add: tracking_ok_def requests_ok_def)
    from drop_nth_distinct(2)[OF this, of n] have "?r \<notin> ts_requestId ` set (drop_nth n (sf_calls f))"
      using assms(2) by (simp flip: drop_nth_map)
    moreover have "ts_requestId ?c \<in> uuid ` {..<sf_next f}" using t mem by (auto simp: tracking_ok_def requests_ok_def)
    ultimately have req: "requests_ok uuid (obj_set (search_key ?p ?i) ?tr (sf_tracked f)) (drop_nth n (sf_calls f)) (sf_next f)"
      using t requests_drop[of uuid "sf_tracked f" "sf_calls f" "sf_next f" n] assms(3)
      by (intro requests_set) (auto simp: tracking_ok_def request_ok_def)
    have "jobs_known (?g\<lparr>sf_store := ?s\<rparr>)"
    proof -
      have keep: "\<exists>(k, tr) \<in> set (sf_tracked (?g\<lparr>sf_store := ?s\<rparr>)). ts_jobId tr = Some j'"
        if "(k, tr) \<in> set (sf_tracked f)" "ts_jobId tr = Some j'" for k tr j'
      proof -
        have "distinct (obj_keys (sf_tracked f))" using t by (simp add: tracking_ok_def requests_ok_def)
        then have g: "obj_get (sf_tracked f) k = Some tr" using that(1) by (rule map_of_is_SomeI)
        then have "k \<noteq> search_key ?p ?i" using cur(2) that(2) by auto
        then have "obj_get (sf_tracked (?g\<lparr>sf_store := ?s\<rparr>)) k = Some tr" using g by simp
        from map_of_SomeD[OF this] that(2) show ?thesis by blast
      qed
      have "obj_get (sf_tracked (?g\<lparr>sf_store := ?s\<rparr>)) (search_key ?p ?i) = Some ?tr" by simp
      from map_of_SomeD[OF this] have "\<exists>(k, tr) \<in> set (sf_tracked (?g\<lparr>sf_store := ?s\<rparr>)). ts_jobId tr = Some j" by force
      moreover have "\<forall>j' \<in> set (sf_answered f). j' \<in> set (sf_cancelled f) \<or> j' \<in> set (sf_settled f) \<or>
          (\<exists>(k, tr) \<in> set (sf_tracked (?g\<lparr>sf_store := ?s\<rparr>)). ts_jobId tr = Some j')"
      proof
        fix j' assume "j' \<in> set (sf_answered f)"
        then consider "j' \<in> set (sf_cancelled f)" | "j' \<in> set (sf_settled f)"
          | k tr where "(k, tr) \<in> set (sf_tracked f)" "ts_jobId tr = Some j'"
          using t unfolding tracking_ok_def jobs_known_def by blast
        then show "j' \<in> set (sf_cancelled f) \<or> j' \<in> set (sf_settled f) \<or>
            (\<exists>(k, tr) \<in> set (sf_tracked (?g\<lparr>sf_store := ?s\<rparr>)). ts_jobId tr = Some j')"
          by cases (use keep in blast)+
      qed
      moreover have "\<forall>c \<in> set (sf_cancels f). sk_jobId c \<in> set (sf_cancelled f)"
        using t by (simp add: tracking_ok_def jobs_known_def)
      ultimately show ?thesis by (simp add: jobs_known_def)
    qed
    with live req r show ?thesis using True
      by (simp add: search_job_started_def Let_def tracking_ok_def)
  qed
qed

lemma jobs_replaced:
  assumes "jobs_known f" and "distinct (obj_keys (sf_tracked f))"
    and "\<And>k' tr. k' \<noteq> k \<Longrightarrow> obj_get (sf_tracked f) k' = Some tr \<Longrightarrow> obj_get tracked' k' = Some tr"
    and "\<And>tr j. obj_get (sf_tracked f) k = Some tr \<Longrightarrow> ts_jobId tr = Some j \<Longrightarrow> j \<in> set (sf_cancelled f)"
  shows "jobs_known (f\<lparr>sf_tracked := tracked'\<rparr>)"
proof -
  have "j \<in> set (sf_cancelled f) \<or> j \<in> set (sf_settled f) \<or> (\<exists>(k, tr) \<in> set tracked'. ts_jobId tr = Some j)"
    if "j \<in> set (sf_answered f)" for j
  proof -
    from that assms(1) consider "j \<in> set (sf_cancelled f) \<or> j \<in> set (sf_settled f)"
      | k' tr where "(k', tr) \<in> set (sf_tracked f)" "ts_jobId tr = Some j"
      unfolding jobs_known_def by blast
    then show ?thesis
    proof cases
      case 2
      have g: "obj_get (sf_tracked f) k' = Some tr" using assms(2) 2(1) by (rule map_of_is_SomeI)
      show ?thesis
      proof (cases "k' = k")
        case True
        with g 2(2) assms(4) show ?thesis by blast
      next
        case False
        from map_of_SomeD[OF assms(3)[OF False g]] 2(2) show ?thesis by blast
      qed
    qed blast
  qed
  with assms(1) show ?thesis by (simp add: jobs_known_def)
qed

lemma live_dropped_search:
  assumes "live_tracked s tracked calls" and "searches_from s s'" and "live_at s' p i = None"
    and "\<And>q k. (q, k) \<noteq> (p, i) \<Longrightarrow> obj_get tracked' (search_key q k) = obj_get tracked (search_key q k)"
  shows "live_tracked s' tracked' calls"
  unfolding live_tracked_def
proof (intro allI impI)
  fix q k r j b assume l: "live_at s' q k = Some (r, j, b)"
  then have ne: "(q, k) \<noteq> (p, i)" using assms(3) by auto
  have "live_at s q k = Some (r, j, b)" using l assms(2) unfolding searches_from_def by (metis option.distinct(1))
  with assms(1) assms(4)[OF ne] show "(\<exists>tr. obj_get tracked' (search_key q k) = Some tr \<and> tracked_view tr = (r, j)) \<and>
      (j = None \<longrightarrow> \<not> b \<and> \<lparr>ts_panelId = q, ts_tabId = k, ts_requestId = r, ts_jobId = None\<rparr> \<in> set calls)"
    unfolding live_tracked_def by (simp only:) blast
qed

lemma refused_ok:
  assumes "flow_ok uuid f" and "n < length (sf_calls f)"
  shows "\<exists>f'. search_job_refused pf (sf_calls f ! n) e (f\<lparr>sf_calls := drop_nth n (sf_calls f)\<rparr>) = Some f' \<and>
    tracking_ok uuid f'"
proof -
  let ?c = "sf_calls f ! n" and ?f = "f\<lparr>sf_calls := drop_nth n (sf_calls f)\<rparr>"
  let ?p = "ts_panelId ?c" and ?i = "ts_tabId ?c" and ?r = "ts_requestId ?c"
  have t: "tracking_ok uuid f" using assms(1) by (simp add: flow_ok_def)
  show ?thesis
  proof (cases "is_current f ?c")
    case False
    with tracking_dropped[OF assms False] show ?thesis by (simp add: search_job_refused_def)
  next
    case True
    note cur = current_call[OF assms refl True]
    let ?g = "?f\<lparr>sf_tracked := obj_del (search_key ?p ?i) (sf_tracked f)\<rparr>"
    let ?m = "err_message (normalizeIpcError e)"
    let ?a = "FailContentSearchStart ?p ?i ?r ?m"
    let ?s = "updatePanelTab (sf_store f) ?p ?i (fail_start ?r ?m)"
    have st: "store_ok (sf_store ?g, sf_world ?g)" using t by (simp add: tracking_ok_def)
    have r: "sf_dispatch pf ?a ?g = Some (?g\<lparr>sf_store := ?s\<rparr>)" "store_ok (?s, sf_world f)"
      using content_action[OF _ st, of ?a pf]
      by (simp_all add: isContentSearchAction_def reduceContentSearch_def)
    obtain tab x where x: "tab_at (sf_store f) ?p ?i = Some tab" "tab_contentSearch tab = Some x" "cs_requestId x = ?r"
      "cs_status x = CStarting"
      using cur(1) by (auto simp: live_at_def live_def bind_eq_Some_conv isContentSearchActive_def split: option.splits if_splits)
    then have none: "live_at ?s ?p ?i = None"
      by (simp add: live_at_updatePanelTab fail_start_def live_def isContentSearchActive_def)
    have live: "live_tracked ?s (obj_del (search_key ?p ?i) (sf_tracked f)) (drop_nth n (sf_calls f))"
      by (rule live_answered[where s = "sf_store f" and p = ?p and i = ?i])
        (use t none in \<open>auto simp: tracking_ok_def live_at_updatePanelTab\<close>)
    have "jobs_known (f\<lparr>sf_tracked := obj_del (search_key ?p ?i) (sf_tracked f)\<rparr>)"
      by (rule jobs_replaced[where k = "search_key ?p ?i"])
        (use t cur(2) in \<open>auto simp: tracking_ok_def requests_ok_def\<close>)
    then have "jobs_known (?g\<lparr>sf_store := ?s\<rparr>)" by (simp add: jobs_known_def)
    with live r True show ?thesis
      using requests_del[OF requests_drop[of uuid "sf_tracked f" "sf_calls f" "sf_next f" n], of "search_key ?p ?i"] t
      by (simp add: search_job_refused_def tracking_ok_def)
  qed
qed

lemma found_search:
  assumes "panels_ok s" and "findSearchByJobId s j = Some (p, i)"
  shows "\<exists>x. search_at s p i = Some x \<and> cs_jobId x = Some j"
proof -
  obtain t where "tab_at s p i = Some t" "has_job j t"
    using find_tab_Some[OF assms(2)[unfolded findSearchByJobId_def] assms(1)] by blast
  then show ?thesis by (auto simp: search_at_def has_job_def split: option.splits)
qed

lemma cancelled_ok:
  assumes "flow_ok uuid f" and "n < length (sf_cancels f)" and "c = sf_cancels f ! n"
    and "findSearchByJobId (sf_store f) (sk_jobId c) = Some (sk_panelId c, sk_tabId c)"
  shows "\<exists>f'. search_cancelled pf c (f\<lparr>sf_cancels := drop_nth n (sf_cancels f)\<rparr>) = Some f' \<and> tracking_ok uuid f'"
proof -
  let ?f = "f\<lparr>sf_cancels := drop_nth n (sf_cancels f)\<rparr>" and ?p = "sk_panelId c" and ?i = "sk_tabId c"
  let ?g = "?f\<lparr>sf_tracked := obj_del (search_key ?p ?i) (sf_tracked f)\<rparr>"
  let ?a = "TerminateContentSearchJob (sk_jobId c) CCancelled ''Operation cancelled.''"
  let ?s = "reduceContentSearch (sf_store f) ?a"
  have t: "tracking_ok uuid f" using assms(1) by (simp add: flow_ok_def)
  have st: "store_ok (sf_store ?g, sf_world ?g)" using t by (simp add: tracking_ok_def)
  have r: "sf_dispatch pf ?a ?g = Some (?g\<lparr>sf_store := ?s\<rparr>)" "store_ok (?s, sf_world f)"
    using content_action[OF _ st, of ?a pf] by (simp_all add: isContentSearchAction_def)
  have pan: "panels_ok (sf_store f)" using t by (simp add: tracking_ok_def store_ok_def)
  obtain x where x: "search_at (sf_store f) ?p ?i = Some x" "cs_jobId x = Some (sk_jobId c)"
    using found_search[OF pan assms(4)] by blast
  have from_s: "searches_from (sf_store f) ?s"
    by (rule reduceContentSearch_live) (simp_all add: makes_active_def proper_def ends_def)
  have none: "live_at ?s ?p ?i = None"
  proof (cases "isContentSearchActive (Some x)")
    case True
    let ?y = "x\<lparr>cs_status := CCancelled, cs_error := Some ''Operation cancelled.''\<rparr>"
    have "?s = absorbJob (set_search (sf_store f) ?p ?i ?y) (sk_jobId c)"
      using True x(1) assms(4) by (simp add: reduceContentSearch_def terminate_job_def)
    then have "panels ?s = panels (set_search (sf_store f) ?p ?i ?y)" by (simp only: panels_buffers)
    then have "live_at ?s ?p ?i = live_at (set_search (sf_store f) ?p ?i ?y) ?p ?i" by (rule live_at_panels)
    then show ?thesis using x(1) by (simp add: set_search_live_at isContentSearchActive_def)
  next
    case False
    then have "?s = sf_store f" using x(1) assms(4) by (simp add: reduceContentSearch_def terminate_job_def)
    with False x(1) show ?thesis by (simp add: live_at_search)
  qed
  have live: "live_tracked ?s (obj_del (search_key ?p ?i) (sf_tracked f)) (sf_calls f)"
    by (rule live_dropped_search[OF _ from_s none]) (use t in \<open>auto simp: tracking_ok_def\<close>)
  have "c \<in> set (sf_cancels f)" using assms(2,3) by simp
  then have canc: "sk_jobId c \<in> set (sf_cancelled f)" using t by (simp add: tracking_ok_def jobs_known_def)
  have same: "ts_jobId tr = Some (sk_jobId c)" if g: "obj_get (sf_tracked f) (search_key ?p ?i) = Some tr" for tr
  proof -
    obtain b where "live_at (sf_store f) ?p ?i = Some (ts_requestId tr, ts_jobId tr, b)"
      using tracked_live[OF assms(1) g] by blast
    with x show ?thesis by (auto simp: live_at_search split: if_splits)
  qed
  have "jobs_known (f\<lparr>sf_tracked := obj_del (search_key ?p ?i) (sf_tracked f)\<rparr>)"
    by (rule jobs_replaced[where k = "search_key ?p ?i"])
      (use t same canc in \<open>auto simp: tracking_ok_def requests_ok_def\<close>)
  moreover have "set (drop_nth n (sf_cancels f)) \<subseteq> set (sf_cancels f)" by (rule drop_nth_sub)
  ultimately have "jobs_known (?g\<lparr>sf_store := ?s\<rparr>)" by (auto simp: jobs_known_def)
  with live r t requests_del show ?thesis
    by (simp add: search_cancelled_def tracking_ok_def)
qed

lemma requests_start:
  assumes "requests_ok uuid tracked calls n" and "inj uuid"
    and "c = \<lparr>ts_panelId = p, ts_tabId = i, ts_requestId = uuid n, ts_jobId = None\<rparr>"
  shows "requests_ok uuid (obj_set (search_key p i) c tracked) (calls @ [c]) (n + 1)"
proof (rule requests_set)
  have old: "uuid n \<notin> uuid ` {..<n}" using assms(2) by (auto dest: injD)
  have sub: "uuid ` {..<n} \<subseteq> uuid ` {..<n + 1}" by auto
  have calls: "\<forall>c \<in> set calls. ts_jobId c = None \<and> ts_requestId c \<in> uuid ` {..<n}"
    using assms(1) by (simp add: requests_ok_def)
  show "request_ok uuid (calls @ [c]) (n + 1) (search_key p i, c)" by (simp add: request_ok_def assms(3))
  have "request_ok uuid (calls @ [c]) (n + 1) kt" if "request_ok uuid calls n kt" for kt
  proof -
    obtain k tr where kt: "kt = (k, tr)" by (cases kt)
    from that have r: "ts_requestId tr \<in> uuid ` {..<n}" by (simp add: request_ok_def kt)
    with old have "ts_requestId tr \<noteq> uuid n" by metis
    moreover have "ts_requestId tr \<in> uuid ` {..<n + 1}" using r sub by blast
    ultimately show ?thesis using that by (simp add: request_ok_def kt assms(3))
  qed
  then have "list_all (request_ok uuid (calls @ [c]) (n + 1)) tracked"
    using assms(1) unfolding requests_list by (auto simp: list_all_iff)
  moreover have "distinct (map ts_requestId (calls @ [c]))"
    using assms(1) calls old by (auto simp: requests_ok_def assms(3))
  moreover have "\<forall>c' \<in> set (calls @ [c]). ts_jobId c' = None \<and> ts_requestId c' \<in> uuid ` {..<n + 1}"
    using calls sub by (auto simp: assms(3))
  ultimately show "requests_ok uuid tracked (calls @ [c]) (n + 1)"
    using assms(1) unfolding requests_list by blast
qed

lemma run_ok:
  assumes "flow_ok uuid f" and "inj uuid"
  shows "\<exists>f'. runContentSearch pf uuid p opts f = Some f' \<and> tracking_ok uuid f'"
proof -
  have t: "tracking_ok uuid f" using assms(1) by (simp add: flow_ok_def)
  let ?i = "panel_activeTabId (panels (sf_store f) p)" and ?s = "sf_store f"
  have pan: "panels_ok ?s" using t by (simp add: tracking_ok_def store_ok_def)
  obtain tab where tab: "obj_get (panel_tabs (panels ?s p)) ?i = Some tab"
    using pan panel_ok_active[of "panels ?s p"] by (cases p) (auto simp: panels_ok_def activeTab_def)
  let ?q = "js_trim (tab_contentSearchQuery tab)" and ?key = "search_key p ?i"
  let ?job = "case Option.bind (obj_get (sf_tracked f) ?key) ts_jobId of Some j \<Rightarrow> Some j
    | None \<Rightarrow> if isContentSearchActive (tab_contentSearch tab) then Option.bind (tab_contentSearch tab) cs_jobId else None"
  show ?thesis
  proof (cases "?q = []")
    case True
    with tab t show ?thesis by (simp add: runContentSearch_def Let_def)
  next
    case False
    obtain g where g: "(case given ?job of Some j \<Rightarrow> discard_job pf j f | None \<Rightarrow> Some f) = Some g"
      "tracking_ok uuid g" "sf_tracked g = sf_tracked f" "sf_calls g = sf_calls f" "sf_next g = sf_next f"
      "panels (sf_store g) = panels ?s" "given ?job = None \<or> the (given ?job) \<in> set (sf_cancelled g)"
    proof (cases "given ?job")
      case None
      with t that[of f] show ?thesis by simp
    next
      case (Some j)
      with discard_tracking[OF t, of pf j] that show ?thesis by auto
    qed
    let ?c = "\<lparr>ts_panelId = p, ts_tabId = ?i, ts_requestId = uuid (sf_next f), ts_jobId = None\<rparr>"
    let ?h = "g\<lparr>sf_tracked := obj_set ?key ?c (sf_tracked g), sf_calls := sf_calls g @ [?c], sf_next := sf_next g + 1\<rparr>"
    let ?a = "StartContentSearch p ?i (uuid (sf_next f)) (tab_uri tab) ?q opts"
    let ?s' = "updatePanelTab (sf_store g) p ?i (start_search (uuid (sf_next f)) (tab_uri tab) ?q opts)"
    have st: "store_ok (sf_store ?h, sf_world ?h)" using g(2) by (simp add: tracking_ok_def)
    have r: "sf_dispatch pf ?a ?h = Some (?h\<lparr>sf_store := ?s'\<rparr>)" "store_ok (?s', sf_world g)"
      using content_action[OF _ st, of ?a pf]
      by (simp_all add: isContentSearchAction_def reduceContentSearch_def)
    have tab_g: "tab_at (sf_store g) p ?i = Some tab" using tab g(6) by (simp add: tab_at_def)
    have l: "live_at ?s' q k = (if q = p \<and> k = ?i then Some (uuid (sf_next f), None, False) else live_at (sf_store g) q k)" for q k
      using tab_g by (simp add: live_at_updatePanelTab start_search_def live_def isContentSearchActive_def)
    have lt: "live_tracked (sf_store g) (sf_tracked g) (sf_calls g)" using g(2) by (simp add: tracking_ok_def)
    have live: "live_tracked ?s' (obj_set ?key ?c (sf_tracked g)) (sf_calls g @ [?c])"
      unfolding live_tracked_def l
    proof (intro allI impI)
      fix q k r j b
      assume a: "(if q = p \<and> k = ?i then Some (uuid (sf_next f), None, False) else live_at (sf_store g) q k) = Some (r, j, b)"
      show "(\<exists>tr. obj_get (obj_set ?key ?c (sf_tracked g)) (search_key q k) = Some tr \<and> tracked_view tr = (r, j)) \<and>
        (j = None \<longrightarrow> \<not> b \<and> \<lparr>ts_panelId = q, ts_tabId = k, ts_requestId = r, ts_jobId = None\<rparr> \<in> set (sf_calls g @ [?c]))"
      proof (cases "q = p \<and> k = ?i")
        case True
        with a show ?thesis by (simp add: tracked_view_def)
      next
        case False
        with a have "live_at (sf_store g) q k = Some (r, j, b)" by simp
        from tracking_liveD[OF g(2) this] False show ?thesis by simp blast
      qed
    qed
    have "requests_ok uuid (sf_tracked g) (sf_calls g) (sf_next g)" using g(2) by (simp add: tracking_ok_def)
    from requests_start[OF this assms(2), of ?c p ?i]
    have req: "requests_ok uuid (obj_set ?key ?c (sf_tracked g)) (sf_calls g @ [?c]) (sf_next g + 1)"
      using g(5) by simp
    have canc: "j \<in> set (sf_cancelled g)" if "obj_get (sf_tracked g) ?key = Some tr" "ts_jobId tr = Some j" for tr j
    proof -
      have "j \<noteq> []" using tracked_entry(3)[OF g(2) that(1)] that(2) by simp
      then have "given ?job = Some j" using that g(3) by (simp add: given_def truthy_def)
      with g(7) show ?thesis by simp
    qed
    have "jobs_known (g\<lparr>sf_tracked := obj_set ?key ?c (sf_tracked g)\<rparr>)"
      by (rule jobs_replaced[where k = ?key]) (use g(2) canc in \<open>auto simp: tracking_ok_def requests_ok_def\<close>)
    then have "jobs_known (?h\<lparr>sf_store := ?s'\<rparr>)" by (simp add: jobs_known_def)
    with live req r have "tracking_ok uuid (?h\<lparr>sf_store := ?s'\<rparr>)" by (simp add: tracking_ok_def)
    moreover have "runContentSearch pf uuid p opts f = Some (?h\<lparr>sf_store := ?s'\<rparr>)"
      using tab False g(1,5) r(1) by (simp add: runContentSearch_def Let_def)
    ultimately show ?thesis by blast
  qed
qed

section \<open>Runs\<close>

text \<open>An event comes in order when a cancellation is answered while its job's search is still where it
  was, the panes are not swapped, and a search starts or binds only through the hook.\<close>

definition in_order :: "SearchFlow \<Rightarrow> SearchEvent \<Rightarrow> bool" where
  "in_order f e =
     (case e of
        SeAction a \<Rightarrow> \<not> makes_active a \<and> proper a
      | SeStarted n j \<Rightarrow> j \<noteq> []
      | SeCancelled n \<Rightarrow> n < length (sf_cancels f) \<longrightarrow>
          findSearchByJobId (sf_store f) (sk_jobId (sf_cancels f ! n)) =
            Some (sk_panelId (sf_cancels f ! n), sk_tabId (sf_cancels f ! n))
      | _ \<Rightarrow> True)"

primrec run_in_order :: "Platform \<Rightarrow> (nat \<Rightarrow> string) \<Rightarrow> SearchEvent list \<Rightarrow> SearchFlow \<Rightarrow> bool" where
  "run_in_order pf uuid [] f \<longleftrightarrow> True"
| "run_in_order pf uuid (e # es) f \<longleftrightarrow>
     in_order f e \<and> (case search_step pf uuid e f of None \<Rightarrow> True | Some g \<Rightarrow> run_in_order pf uuid es g)"

lemma handle_ok:
  assumes "flow_ok uuid f" and "inj uuid" and "in_order f e"
  shows "\<exists>g. search_handle pf uuid e f = Some g \<and> tracking_ok uuid g"
proof -
  have t: "tracking_ok uuid f" using assms(1) by (simp add: flow_ok_def)
  show ?thesis
  proof (cases e)
    case (SeRun p opts)
    with run_ok[OF assms(1,2)] show ?thesis by (simp add: search_handle_def)
  next
    case (SeStarted n j)
    with started_ok[OF assms(1), of n j pf] assms(3) t show ?thesis by (simp add: search_handle_def in_order_def)
  next
    case (SeRefused n err)
    with refused_ok[OF assms(1), of n pf err] t show ?thesis by (simp add: search_handle_def)
  next
    case (SeCancel p i)
    with cancel_ok[OF t] show ?thesis by (simp add: search_handle_def)
  next
    case (SeCancelled n)
    with cancelled_ok[OF assms(1) _ refl, of n pf] assms(3) t show ?thesis by (simp add: search_handle_def in_order_def)
  next
    case (SeCancelFailed n err)
    with log_ok(2)[OF log_ok(3)[OF t]] t show ?thesis by (simp add: search_handle_def)
  next
    case (SeAction a)
    with action_ok[OF t, of a pf] assms(3) show ?thesis by (simp add: search_handle_def in_order_def)
  qed
qed

lemma step_ok:
  assumes "flow_ok uuid f" and "inj uuid" and "in_order f e"
  shows "\<exists>g. search_step pf uuid e f = Some g \<and> flow_ok uuid g"
proof -
  obtain g where "search_handle pf uuid e f = Some g" "tracking_ok uuid g" using handle_ok[OF assms] by blast
  with tracking_effect[of uuid g pf] show ?thesis by (simp add: search_step_def)
qed

lemma fold_option_None: "fold (\<lambda>x r. Option.bind r (g x)) xs None = None"
  by (induction xs) simp_all

lemma search_run_simps [simp]:
  "search_run pf uuid [] f = Some f"
  "search_run pf uuid (e # es) f = Option.bind (search_step pf uuid e f) (search_run pf uuid es)"
  by (cases "search_step pf uuid e f"; simp add: search_run_def fold_option_def fold_option_None)+

lemma run_flow_ok:
  assumes "flow_ok uuid f" and "inj uuid" and "run_in_order pf uuid es f"
  shows "\<exists>g. search_run pf uuid es f = Some g \<and> flow_ok uuid g"
  using assms(1,3)
proof (induction es arbitrary: f)
  case (Cons e es)
  then have "in_order f e" by simp
  then obtain g where g: "search_step pf uuid e f = Some g" "flow_ok uuid g"
    using step_ok[OF Cons.prems(1) assms(2), of e pf] by blast
  with Cons.IH[OF g(2)] Cons.prems(2) show ?case by simp
qed simp

lemma initial_flow_ok:
  assumes "store_ok (s, w)" and "\<And>p i. live_at s p i = None"
  shows "flow_ok uuid (initial_flow s w)"
  using assms by (simp add: flow_ok_def tracking_defs initial_flow_def)

lemma forget_gone:
  assumes "fold_option (forget_tracked pf S) xs f = Some h" and "store_ok (sf_store f, sf_world f)"
    and "(k, tr) \<in> set xs" and "ts_jobId tr = Some j" and "j \<noteq> []"
    and "map_option cs_requestId (search_at S (ts_panelId tr) (ts_tabId tr)) \<noteq> Some (ts_requestId tr)"
  shows "j \<in> set (sf_cancelled h)"
  using assms(1-3)
proof (induction xs arbitrary: f)
  case (Cons x xs)
  obtain l sr where x: "x = (l, sr)" by (cases x)
  obtain g where g: "forget_tracked pf S x f = Some g" "only_forgets f g"
    using forget_one[OF Cons.prems(2), of pf S l sr] x by blast
  then have st: "store_ok (sf_store g, sf_world g)" by (simp add: only_forgets_def)
  have h: "fold_option (forget_tracked pf S) xs g = Some h"
    using Cons.prems(1) g(1) by (simp add: fold_option_def)
  show ?case
  proof (cases "x = (k, tr)")
    case True
    obtain g' where g': "discard_job pf j f = Some g'" "j \<in> set (sf_cancelled g')"
      using discard_panels[OF Cons.prems(2)] by blast
    have "given (ts_jobId tr) = Some j" using assms(4,5) by (simp add: given_def truthy_def)
    with True g' g(1) assms(6) have "j \<in> set (sf_cancelled g)" by (auto simp: forget_tracked_def Let_def)
    moreover obtain h' where "fold_option (forget_tracked pf S) xs g = Some h'" "only_forgets g h'"
      using forget_all[OF st] by blast
    ultimately show ?thesis using h by (auto simp: only_forgets_def)
  next
    case False
    with Cons.prems(3) have "(k, tr) \<in> set xs" by simp
    from Cons.IH[OF h st this] show ?thesis .
  qed
qed simp

text \<open>The effect leaves nothing to do when every tracked request belongs to an active search.\<close>

lemma effect_idle:
  assumes "\<forall>(k, tr) \<in> set (sf_tracked f). keeps_tracked (sf_store f) tr"
  shows "search_effect pf f = Some f"
proof -
  have "forget_tracked pf (sf_store f) kt g = Some g" if "kt \<in> set (sf_tracked f)" for kt g
    using assms that by (auto simp: forget_tracked_def keeps_tracked_def Let_def split: option.splits)
  then have "fold_option (forget_tracked pf (sf_store f)) xs f = Some f" if "set xs \<subseteq> set (sf_tracked f)" for xs
    using that by (induction xs) (simp_all add: fold_option_def)
  then show ?thesis by (simp add: search_effect_def)
qed

section \<open>Properties\<close>

text \<open>C16: Whatever the order in which searches are started, answered, refused and cancelled and the
  store changes in between (as long as a cancellation is answered while its search is still
  shown and the panes are not swapped), the hook never loses a search: every active search of the
  store is tracked under its tab with its request and job, or its call is still in flight, and
  every job the back end answered with was cancelled, has ended, or belongs to an active search.\<close>

theorem searches_tracked:
  assumes "inj uuid" and "store_ok (s, w)" and "\<And>p i. live_at s p i = None"
    and "run_in_order pf uuid es (initial_flow s w)"
  shows "\<exists>f. search_run pf uuid es (initial_flow s w) = Some f \<and>
    (\<forall>p i x. search_at (sf_store f) p i = Some x \<and> isContentSearchActive (Some x) \<longrightarrow>
       (\<exists>tr. obj_get (sf_tracked f) (search_key p i) = Some tr \<and>
             ts_requestId tr = cs_requestId x \<and> ts_jobId tr = cs_jobId x) \<and>
       (cs_jobId x = None \<longrightarrow>
         \<lparr>ts_panelId = p, ts_tabId = i, ts_requestId = cs_requestId x, ts_jobId = None\<rparr> \<in> set (sf_calls f))) \<and>
    (\<forall>j \<in> set (sf_answered f). j \<in> set (sf_cancelled f) \<or> j \<in> set (sf_settled f) \<or>
       (\<exists>p i x. search_at (sf_store f) p i = Some x \<and> isContentSearchActive (Some x) \<and> cs_jobId x = Some j))"
proof -
  obtain f where f: "search_run pf uuid es (initial_flow s w) = Some f" "flow_ok uuid f"
    using run_flow_ok[OF initial_flow_ok[OF assms(2,3)] assms(1,4)] by blast
  then have t: "tracking_ok uuid f" by (simp add: flow_ok_def)
  have live: "(\<exists>tr. obj_get (sf_tracked f) (search_key p i) = Some tr \<and>
        ts_requestId tr = cs_requestId x \<and> ts_jobId tr = cs_jobId x) \<and>
      (cs_jobId x = None \<longrightarrow>
        \<lparr>ts_panelId = p, ts_tabId = i, ts_requestId = cs_requestId x, ts_jobId = None\<rparr> \<in> set (sf_calls f))"
    if "search_at (sf_store f) p i = Some x" "isContentSearchActive (Some x)" for p i x
  proof -
    have "live_at (sf_store f) p i = Some (cs_requestId x, cs_jobId x, cs_status x = CRunning)"
      using that by (simp add: live_at_search)
    from tracking_liveD[OF t this] show ?thesis by (auto simp: tracked_view_def)
  qed
  have shown: "\<exists>p i x. search_at (sf_store f) p i = Some x \<and> isContentSearchActive (Some x) \<and> cs_jobId x = Some j"
    if m: "(k, tr) \<in> set (sf_tracked f)" "ts_jobId tr = Some j" for k tr j
  proof -
    have "distinct (obj_keys (sf_tracked f))" using t by (simp add: tracking_ok_def requests_ok_def)
    then have g: "obj_get (sf_tracked f) k = Some tr" using m(1) by (rule map_of_is_SomeI)
    have k: "k = search_key (ts_panelId tr) (ts_tabId tr)" using tracked_entry(1)[OF t g] .
    obtain b where "live_at (sf_store f) (ts_panelId tr) (ts_tabId tr) = Some (ts_requestId tr, ts_jobId tr, b)"
      using tracked_live[OF f(2) g[unfolded k]] by blast
    with m(2) have "\<exists>x. search_at (sf_store f) (ts_panelId tr) (ts_tabId tr) = Some x \<and> isContentSearchActive (Some x) \<and>
        cs_jobId x = Some j" by (auto simp: live_at_search bind_eq_Some_conv split: if_splits)
    then show ?thesis by blast
  qed
  have "j \<in> set (sf_cancelled f) \<or> j \<in> set (sf_settled f) \<or>
      (\<exists>p i x. search_at (sf_store f) p i = Some x \<and> isContentSearchActive (Some x) \<and> cs_jobId x = Some j)"
    if a: "j \<in> set (sf_answered f)" for j
  proof -
    from a t consider "j \<in> set (sf_cancelled f) \<or> j \<in> set (sf_settled f)"
      | k tr where "(k, tr) \<in> set (sf_tracked f)" "ts_jobId tr = Some j"
      unfolding tracking_ok_def jobs_known_def by blast
    then show ?thesis by cases (use shown in blast)+
  qed
  with f(1) live show ?thesis by blast
qed

text \<open>C35: A search that replaces one whose cancellation is not yet answered is lost. The answer
  deletes what is tracked for the tab, which is the new request; when the back end then answers
  that request, its job is cancelled at once, while the tab goes on showing a search that is
  starting, with no call in flight and nothing tracked that could end it.\<close>

theorem cancel_forgets_new_search:
  assumes "flow_ok uuid f" and "live_at (sf_store f) p i = Some (r, None, False)"
    and "n < length (sf_cancels f)" and "sk_panelId (sf_cancels f ! n) = p" and "sk_tabId (sf_cancels f ! n) = i"
    and "findSearchByJobId (sf_store f) (sk_jobId (sf_cancels f ! n)) = None"
    and "m < length (sf_calls f)" and "ts_requestId (sf_calls f ! m) = r"
  shows "\<exists>g. search_run pf uuid [SeCancelled n, SeStarted m j] f = Some g \<and>
    live_at (sf_store g) p i = Some (r, None, False) \<and> j \<in> set (sf_cancelled g) \<and>
    obj_get (sf_tracked g) (search_key p i) = None \<and> r \<notin> ts_requestId ` set (sf_calls g)"
proof -
  let ?c = "sf_cancels f ! n" and ?call = "sf_calls f ! m" and ?k = "search_key p i"
  have t: "tracking_ok uuid f" using assms(1) by (simp add: flow_ok_def)
  have dist: "distinct (map ts_requestId (sf_calls f))" using t by (simp add: tracking_ok_def requests_ok_def)
  have "\<lparr>ts_panelId = p, ts_tabId = i, ts_requestId = r, ts_jobId = None\<rparr> \<in> set (sf_calls f)"
    using tracking_liveD[OF t assms(2)] by blast
  moreover have "?call \<in> set (sf_calls f)" using assms(7) by simp
  moreover have "inj_on ts_requestId (set (sf_calls f))" using dist by (simp add: distinct_map)
  ultimately have call: "?call = \<lparr>ts_panelId = p, ts_tabId = i, ts_requestId = r, ts_jobId = None\<rparr>"
    using assms(8) inj_onD[of ts_requestId "set (sf_calls f)" ?call
        "\<lparr>ts_panelId = p, ts_tabId = i, ts_requestId = r, ts_jobId = None\<rparr>"] by simp
  let ?s1 = "reduceContentSearch (sf_store f) (TerminateContentSearchJob (sk_jobId ?c) CCancelled ''Operation cancelled.'')"
  have pan: "panels ?s1 = panels (sf_store f)"
    using assms(6) by (simp add: reduceContentSearch_def terminate_job_def)
  let ?f1 = "f\<lparr>sf_cancels := drop_nth n (sf_cancels f), sf_tracked := obj_del ?k (sf_tracked f), sf_store := ?s1\<rparr>"
  have keep: "\<forall>(k, tr) \<in> set (obj_del ?k (sf_tracked f)). keeps_tracked (sf_store f) tr"
    using assms(1) by (auto simp: flow_ok_def obj_del_filter)
  have st: "store_ok (sf_store f, sf_world f)" using t by (simp add: tracking_ok_def)
  have d1: "search_handle pf uuid (SeCancelled n) f = Some ?f1" "store_ok (?s1, sf_world f)"
    using content_action[of "TerminateContentSearchJob (sk_jobId ?c) CCancelled ''Operation cancelled.''"
        "f\<lparr>sf_cancels := drop_nth n (sf_cancels f), sf_tracked := obj_del ?k (sf_tracked f)\<rparr>" pf] st assms(3-5)
    by (simp_all add: search_handle_def search_cancelled_def isContentSearchAction_def)
  have e1: "search_effect pf ?f1 = Some ?f1"
    by (rule effect_idle) (use keep keeps_tracked_panels[OF pan] in simp)
  let ?f2 = "?f1\<lparr>sf_calls := drop_nth m (sf_calls f), sf_answered := sf_answered f @ [j]\<rparr>"
  let ?f3 = "cancel_job j (?f2\<lparr>sf_store := absorbJob ?s1 j\<rparr>)"
  have "\<not> is_current ?f2 ?call" by (simp add: is_current_def call)
  moreover have "discard_job pf j ?f2 = Some ?f3" using discard_eq[of ?f2 pf j] d1(2) by simp
  ultimately have d2: "search_handle pf uuid (SeStarted m j) ?f1 = Some ?f3"
    using assms(7) by (simp add: search_handle_def search_job_started_def is_current_def call)
  have pan3: "panels (sf_store ?f3) = panels (sf_store f)" using pan by (simp add: cancel_job_def)
  have e2: "search_effect pf ?f3 = Some ?f3"
    by (rule effect_idle) (use keep keeps_tracked_panels[OF pan3] in \<open>simp add: cancel_job_def\<close>)
  have "live_at (sf_store ?f3) p i = Some (r, None, False)" using live_at_panels[OF pan3] assms(2) by simp
  moreover have "r \<notin> ts_requestId ` set (drop_nth m (sf_calls f))"
    using drop_nth_distinct(2)[OF dist, of m] assms(7,8) by (simp flip: drop_nth_map)
  ultimately show ?thesis using d1(1) e1 d2 e2 by (simp add: search_step_def cancel_job_def)
qed

text \<open>Swapping the panes moves a running search to the other panel, but not what is tracked of it:
  the effect finds another tab under the key and cancels the job of a search that is still shown
  as running.\<close>

theorem swap_cancels_search:
  assumes "flow_ok uuid f" and "live_at (sf_store f) p i = Some (r, Some j, True)"
    and "q = (case p of Left \<Rightarrow> Right | Right \<Rightarrow> Left)"
    and "map_option cs_requestId (search_at (sf_store f) q i) \<noteq> Some r"
  shows "\<exists>g. search_step pf uuid (SeAction SwapPanes) f = Some g \<and>
    live_at (sf_store g) q i = Some (r, Some j, True) \<and> j \<in> set (sf_cancelled g)"
proof -
  have t: "tracking_ok uuid f" using assms(1) by (simp add: flow_ok_def)
  let ?s = "swap_panes (sf_store f)"
  let ?f = "f\<lparr>sf_store := ?s\<rparr>"
  have st: "store_ok (?s, sf_world f)" using t swap_panes_ok by (simp add: tracking_ok_def)
  have h: "search_handle pf uuid (SeAction SwapPanes) f = Some ?f"
    by (simp add: search_handle_def sf_dispatch_def panelReducer_def)
  obtain tr where tr: "obj_get (sf_tracked f) (search_key p i) = Some tr" "ts_requestId tr = r" "ts_jobId tr = Some j"
    using tracking_liveD[OF t assms(2)] by (auto simp: tracked_view_def)
  have at: "ts_panelId tr = p" "ts_tabId tr = i" using tracked_entry(1)[OF t tr(1)] by simp_all
  have sw: "search_at ?s p i = search_at (sf_store f) q i" "live_at ?s q i = live_at (sf_store f) p i"
    using assms(3) by (cases p; simp add: search_at_def live_at_def swap_panes_tab)+
  obtain g where g: "search_effect pf ?f = Some g" "only_forgets ?f g"
    using forget_all[of ?f pf ?s "sf_tracked f"] st by (auto simp: search_effect_def)
  have mem: "(search_key p i, tr) \<in> set (sf_tracked f)" using tr(1) by (rule map_of_SomeD)
  have "j \<in> set (sf_cancelled g)"
    by (rule forget_gone[where f = ?f, OF g(1)[unfolded search_effect_def] _ _ tr(3)])
      (use st mem tr tracked_entry(3)[OF t tr(1)] at sw(1) assms(4) in simp_all)
  moreover have "live_at (sf_store g) q i = live_at ?s q i"
    using g(2) by (intro live_at_panels) (simp add: only_forgets_def)
  ultimately show ?thesis using h g(1) sw(2) assms(2) by (simp add: search_step_def)
qed

text \<open>The answers of a properties call and of a folder size call are treated differently. When the
  dialog was closed or replaced meanwhile, a size answer changes nothing, but a properties answer
  puts the properties dialog of its entry back, over whatever is shown.\<close>

theorem late_properties_reopen:
  assumes "length (properties_entries selected entry) \<le> 1"
    and "target = (case first_opt (properties_entries selected entry) of Some e \<Rightarrow> Some e | None \<Rightarrow> entry)"
    and "\<And>x. d \<noteq> Some (JobDialogD (PropertiesD x))"
  shows "(\<exists>x. mf_dialog (fold meta_step [MeProperties p entry selected u, MeDialog d,
            MeAnswer (length (mf_calls f)) (MrProperties reply)] f) = Some (JobDialogD (PropertiesD x)) \<and>
          pd_panelId x = p \<and> pd_entry x = target)
    \<and> mf_dialog (meta_step (MeAnswer n (MrJob answer)) (f\<lparr>mf_dialog := d\<rparr>)) = d"
proof -
  let ?uri = "case target of Some e \<Rightarrow> fe_uri e | None \<Rightarrow> u"
  let ?f = "(set_properties (loading_properties p target) f)
      \<lparr>mf_calls := mf_calls f @ [PropertiesCall True p target ?uri], mf_dialog := d\<rparr>"
  have "meta_step (MeDialog d) (meta_step (MeProperties p entry selected u) f) = ?f"
    using assms(1) by (simp add: meta_step_def handleProperties_def Let_def set_properties_def assms(2))
  moreover have "\<exists>x. mf_dialog (meta_step (MeAnswer (length (mf_calls f)) (MrProperties reply)) ?f) =
      Some (JobDialogD (PropertiesD x)) \<and> pd_panelId x = p \<and> pd_entry x = target"
    by (cases reply) (auto simp: meta_step_def meta_answer_def properties_answered_def set_properties_def
        loading_properties_def Let_def)
  moreover have shown: "update_shown q v g h = h" if "mf_dialog h = d" for q v g h
    using assms(3) that by (auto simp: update_shown_def split: option.splits OperationDialog.splits JobDialog.splits)
  have "mf_dialog (meta_answer c (MrJob answer) h) = d" if "mf_dialog h = d" for c h
    using that shown[OF that]
    by (cases answer) (auto simp: meta_answer_def size_job_answered_def size_failed_def Let_def split: MetaCall.split)
  then have "mf_dialog (meta_step (MeAnswer n (MrJob answer)) (f\<lparr>mf_dialog := d\<rparr>)) = d"
    by (simp add: meta_step_def)
  ultimately show ?thesis by simp
qed

theorem late_properties_reopen_witness:
  "\<exists>x. mf_dialog (fold meta_step [MeProperties Left (Some entry_a) [] ''local:///d'', MeDialog None,
       MeAnswer 0 (MrProperties (Inl ThrownOther))]
       \<lparr>mf_dialog = None, mf_error = None, mf_calls = []\<rparr>) = Some (JobDialogD (PropertiesD x))"
proof -
  show ?thesis
    using late_properties_reopen[of "[]" "Some entry_a" "Some entry_a" None Left "''local:///d''"
        "\<lparr>mf_dialog = None, mf_error = None, mf_calls = []\<rparr>" "Inl ThrownOther" 0 "Inl ThrownOther"]
    by (auto simp: properties_entries_def first_opt_def)
qed

section \<open>Concrete runs\<close>

definition demo_options :: ContentSearchOptions where
  "demo_options = \<lparr>cso_caseSensitive = False, cso_useRegex = False, cso_filePattern = []\<rparr>"

definition demo_uuid :: "nat \<Rightarrow> string" where
  "demo_uuid n = replicate n (CHR ''r'')"

lemma demo_uuid_inj: "inj demo_uuid"
  by (rule injI) (simp add: demo_uuid_def replicate_eq_replicate)

definition demo_found :: "SearchEvent list" where
  "demo_found = [SeAction (SetContentSearchQuery Left ''main'' ''q''), SeRun Left demo_options, SeStarted 0 ''j'']"

definition demo_flow :: "SearchEvent list \<Rightarrow> SearchFlow" where
  "demo_flow es = the (search_run ordinal_platform demo_uuid es (initial_flow sample_state sample_world))"

lemma sample_store_ok: "store_ok (sample_state, sample_world)"
  by (simp add: store_ok_def ids_known_def all_PanelId buffers_ok_def one_review_def)

lemma sample_idle: "live_at sample_state p i = None"
  by (cases p) (simp_all add: live_at_def live_def sample_tab_def blank_tab_def)

lemma demo_start_ok: "flow_ok demo_uuid (initial_flow sample_state sample_world)"
  by (rule initial_flow_ok) (simp_all add: sample_store_ok sample_idle)

lemma demo_run:
  assumes "run_in_order ordinal_platform demo_uuid es (initial_flow sample_state sample_world)"
  shows "flow_ok demo_uuid (demo_flow es)"
  using run_flow_ok[OF demo_start_ok demo_uuid_inj assms] by (auto simp: demo_flow_def)

lemma demo_found_order: "run_in_order ordinal_platform demo_uuid demo_found (initial_flow sample_state sample_world)"
  by code_simp

theorem searches_tracked_witness:
  "\<exists>f. search_run ordinal_platform demo_uuid demo_found (initial_flow sample_state sample_world) = Some f"
  using searches_tracked[OF demo_uuid_inj sample_store_ok sample_idle demo_found_order] by blast

definition demo_replaced :: "SearchEvent list" where
  "demo_replaced = demo_found @ [SeCancel Left ''main'', SeRun Left demo_options]"

theorem cancel_forgets_new_search_witness:
  "\<exists>g. search_run ordinal_platform demo_uuid [SeCancelled 0, SeStarted 0 ''k''] (demo_flow demo_replaced) = Some g \<and>
     live_at (sf_store g) Left ''main'' = Some (''r'', None, False) \<and> ''k'' \<in> set (sf_cancelled g)"
proof -
  let ?f = "demo_flow demo_replaced"
  have "run_in_order ordinal_platform demo_uuid demo_replaced (initial_flow sample_state sample_world)" by code_simp
  then have f: "flow_ok demo_uuid ?f" by (rule demo_run)
  have l: "live_at (sf_store ?f) Left ''main'' = Some (''r'', None, False)" by code_simp
  have c: "0 < length (sf_cancels ?f)" "sk_panelId (sf_cancels ?f ! 0) = Left" "sk_tabId (sf_cancels ?f ! 0) = ''main''"
    "findSearchByJobId (sf_store ?f) (sk_jobId (sf_cancels ?f ! 0)) = None"
    "0 < length (sf_calls ?f)" "ts_requestId (sf_calls ?f ! 0) = ''r''" by code_simp+
  from cancel_forgets_new_search[OF f l c, of ordinal_platform "''k''"] show ?thesis by blast
qed

theorem swap_cancels_search_witness:
  "\<exists>g. search_step ordinal_platform demo_uuid (SeAction SwapPanes) (demo_flow demo_found) = Some g \<and>
     live_at (sf_store g) Right ''main'' = Some ([], Some ''j'', True) \<and> ''j'' \<in> set (sf_cancelled g)"
proof -
  let ?f = "demo_flow demo_found"
  have f: "flow_ok demo_uuid ?f" using demo_found_order by (rule demo_run)
  have l: "live_at (sf_store ?f) Left ''main'' = Some ([], Some ''j'', True)" by code_simp
  have n: "map_option cs_requestId (search_at (sf_store ?f) Right ''main'') \<noteq> Some []" by code_simp
  from swap_cancels_search[OF f l, of Right ordinal_platform] n show ?thesis by simp
qed

end
