(* ===== verification/FileTable.thy ===== *)
theory FileTable
  imports ColumnConfig FileOps GitTypes
begin

text \<open>
  The list of files in a pane (\<open>pane/FileTable.tsx\<close>, \<open>pane/FileTableParts.tsx\<close>, \<open>pane/FileRow.tsx\<close>,
  \<open>pane/rubberBandSelection.ts\<close>): which rows are rendered, keys and scrolling, selecting with a
  rubber band, the column headers, and what happens when rows are dragged into a pane
  (\<open>hooks/useFileOctopusDragTarget.ts\<close>, \<open>pane/FilePanel.tsx\<close>, \<open>app/filePanelProps.ts\<close>). Places and sizes
  are rational numbers of pixels; the height of a row is positive.
\<close>

section \<open>Rendered rows\<close>

record TableView =
  tv_viewMode :: ViewMode
  tv_rowHeight :: rat
  tv_containerWidth :: int
  tv_viewportHeight :: rat
  tv_scrollTop :: rat

definition overscan :: int where "overscan = 8"
definition ICON_ITEM_MIN_WIDTH :: int where "ICON_ITEM_MIN_WIDTH = 96"
definition ICON_GAP :: int where "ICON_GAP = 5"
definition ICON_ROW_HEIGHT :: rat where "ICON_ROW_HEIGHT = 110"

definition isGrid :: "TableView \<Rightarrow> bool" where
  "isGrid v \<longleftrightarrow> tv_viewMode v = VIcons"

definition itemsPerRow :: "TableView \<Rightarrow> nat" where
  "itemsPerRow v =
     (if isGrid v
      then nat (max 1 \<lfloor>(of_int (tv_containerWidth v + ICON_GAP) / of_int (ICON_ITEM_MIN_WIDTH + ICON_GAP) :: rat)\<rfloor>)
      else 1)"

definition effectiveRowHeight :: "TableView \<Rightarrow> rat" where
  "effectiveRowHeight v = (if isGrid v then ICON_ROW_HEIGHT else tv_rowHeight v)"

definition totalRows :: "TableView \<Rightarrow> nat \<Rightarrow> int" where
  "totalRows v n = \<lceil>(of_nat n / of_nat (itemsPerRow v) :: rat)\<rceil>"

definition startRow :: "TableView \<Rightarrow> int" where
  "startRow v = max 0 (\<lfloor>tv_scrollTop v / effectiveRowHeight v\<rfloor> - overscan)"

definition visibleRows :: "TableView \<Rightarrow> int" where
  "visibleRows v = \<lceil>tv_viewportHeight v / effectiveRowHeight v\<rceil> + overscan * 2"

definition endRow :: "TableView \<Rightarrow> nat \<Rightarrow> int" where
  "endRow v n = min (totalRows v n) (startRow v + visibleRows v)"

text \<open>The rows from the first to the last; the slice is empty when the last is before the first.\<close>

definition startIndex :: "TableView \<Rightarrow> nat" where
  "startIndex v = nat (startRow v) * itemsPerRow v"

definition rendered :: "TableView \<Rightarrow> 'a list \<Rightarrow> 'a list" where
  "rendered v entries =
     (let visibleCount = (endRow v (length entries) - startRow v) * int (itemsPerRow v)
      in drop (startIndex v) (take (nat (int (startIndex v) + visibleCount)) entries))"

definition totalHeight :: "TableView \<Rightarrow> nat \<Rightarrow> rat" where
  "totalHeight v n = of_int (totalRows v n) * effectiveRowHeight v"

definition topPadding :: "TableView \<Rightarrow> rat" where
  "topPadding v = of_int (startRow v) * effectiveRowHeight v"

definition bottomPadding :: "TableView \<Rightarrow> nat \<Rightarrow> rat" where
  "bottomPadding v n = of_int (totalRows v n - endRow v n) * effectiveRowHeight v"

text \<open>The upper edge of the rendered row at a position, in a list.\<close>

definition row_top :: "TableView \<Rightarrow> nat \<Rightarrow> rat" where
  "row_top v position = of_nat (startIndex v + position) * tv_rowHeight v"

text \<open>The effect that brings the focused entry into view.\<close>

definition scroll_to_focus :: "TableView \<Rightarrow> string list \<Rightarrow> string option \<Rightarrow> TableView" where
  "scroll_to_focus v uris focusedId =
     (case focusedId of
        None \<Rightarrow> v
      | Some focused \<Rightarrow>
          (if focused = [] then v
           else case find_index (\<lambda>u. u = focused) uris of
                  None \<Rightarrow> v
                | Some i \<Rightarrow>
                    (let topEdge = of_nat (i div itemsPerRow v) * effectiveRowHeight v;
                         bottom = topEdge + effectiveRowHeight v;
                         viewTop = tv_scrollTop v;
                         viewBottom = viewTop + tv_viewportHeight v
                     in if topEdge < viewTop then v\<lparr>tv_scrollTop := topEdge\<rparr>
                        else if bottom > viewBottom then v\<lparr>tv_scrollTop := bottom - tv_viewportHeight v\<rparr>
                        else v)))"

section \<open>Keys\<close>

datatype TableKey = MoveBy int | ActivateSelected

definition table_key :: "TableView \<Rightarrow> nat \<Rightarrow> string \<Rightarrow> TableKey option" where
  "table_key v n key =
     (let page = max 1 (\<lfloor>tv_viewportHeight v / effectiveRowHeight v\<rfloor> * int (itemsPerRow v))
      in if key = ''ArrowUp'' then Some (MoveBy (- 1))
         else if key = ''ArrowDown'' then Some (MoveBy 1)
         else if key = ''PageUp'' then Some (MoveBy (- page))
         else if key = ''PageDown'' then Some (MoveBy page)
         else if key = ''Home'' then Some (MoveBy (- int n))
         else if key = ''End'' then Some (MoveBy (int n))
         else if key = ''Enter'' then Some ActivateSelected
         else None)"

section \<open>The rubber band\<close>

record Rectangle =
  rc_left :: rat
  rc_top :: rat
  rc_right :: rat
  rc_bottom :: rat

definition normalizeRubberBandRectangle :: "rat \<Rightarrow> rat \<Rightarrow> rat \<Rightarrow> rat \<Rightarrow> Rectangle" where
  "normalizeRubberBandRectangle startX startY currentX currentY =
     \<lparr>rc_left = min startX currentX, rc_top = min startY currentY,
      rc_right = max startX currentX, rc_bottom = max startY currentY\<rparr>"

record BandOptions =
  bo_rowHeight :: rat
  bo_itemsPerRow :: nat
  bo_scrollTop :: rat
  bo_viewportTop :: rat
  bo_viewportLeft :: rat
  bo_itemWidth :: rat

definition item_rectangle :: "BandOptions \<Rightarrow> nat \<Rightarrow> Rectangle" where
  "item_rectangle bo index =
     (let columns = max 1 (bo_itemsPerRow bo);
          row = index div columns;
          column = index mod columns;
          inlineInset = (if columns > 1 then bo_itemWidth bo / 10 else 0)
      in \<lparr>rc_left = bo_viewportLeft bo + of_nat column * bo_itemWidth bo + inlineInset,
          rc_top = bo_viewportTop bo + of_nat row * bo_rowHeight bo - bo_scrollTop bo,
          rc_right = bo_viewportLeft bo + of_nat (column + 1) * bo_itemWidth bo - inlineInset,
          rc_bottom = bo_viewportTop bo + of_nat (row + 1) * bo_rowHeight bo - bo_scrollTop bo\<rparr>)"

definition rectangles_meet :: "Rectangle \<Rightarrow> Rectangle \<Rightarrow> bool" where
  "rectangles_meet r item \<longleftrightarrow>
     rc_left r < rc_right item \<and> rc_right r > rc_left item \<and>
     rc_top r < rc_bottom item \<and> rc_bottom r > rc_top item"

text \<open>An entry is its address and whether it is the one of the parent directory.\<close>

definition entryIdsInRubberBand :: "BandOptions \<Rightarrow> (string \<times> bool) list \<Rightarrow> Rectangle \<Rightarrow> string list" where
  "entryIdsInRubberBand bo entries r =
     map (\<lambda>(i, u, p). u)
       (filter (\<lambda>(i, u, p). \<not> p \<and> rectangles_meet r (item_rectangle bo i) \<and> u \<noteq> [])
         (enumerate 0 entries))"

record RubberBand =
  rb_pointerId :: int
  rb_startX :: rat
  rb_startY :: rat
  rb_currentX :: rat
  rb_currentY :: rat

definition handleRubberBandStart :: "bool \<Rightarrow> int \<Rightarrow> int \<Rightarrow> rat \<Rightarrow> rat \<Rightarrow> RubberBand option \<Rightarrow> RubberBand option" where
  "handleRubberBandStart onInteractive button pointerId x y band =
     (if button \<noteq> 0 \<or> onInteractive then band
      else Some \<lparr>rb_pointerId = pointerId, rb_startX = x, rb_startY = y, rb_currentX = x, rb_currentY = y\<rparr>)"

definition handleRubberBandMove :: "int \<Rightarrow> rat \<Rightarrow> rat \<Rightarrow> RubberBand option \<Rightarrow> RubberBand option" where
  "handleRubberBandMove pointerId x y band =
     map_option (\<lambda>b. if rb_pointerId b = pointerId then b\<lparr>rb_currentX := x, rb_currentY := y\<rparr> else b) band"

text \<open>The band after the pointer is released, and what is selected. \<open>vp\<close> is the place and width of
  the viewport.\<close>

definition band_options :: "TableView \<Rightarrow> rat \<Rightarrow> rat \<Rightarrow> rat \<Rightarrow> BandOptions" where
  "band_options v vpLeft vpTop vpWidth =
     \<lparr>bo_rowHeight = effectiveRowHeight v, bo_itemsPerRow = itemsPerRow v, bo_scrollTop = tv_scrollTop v,
      bo_viewportTop = vpTop, bo_viewportLeft = vpLeft,
      bo_itemWidth = (if isGrid v then of_int (tv_containerWidth v) / of_nat (itemsPerRow v) else vpWidth)\<rparr>"

definition handleRubberBandEnd ::
  "TableView \<Rightarrow> rat \<Rightarrow> rat \<Rightarrow> rat \<Rightarrow> FileEntryDto list \<Rightarrow> string \<Rightarrow> int \<Rightarrow> rat \<Rightarrow> rat \<Rightarrow>
   RubberBand option \<Rightarrow> RubberBand option \<times> string list option" where
  "handleRubberBandEnd v vpLeft vpTop vpWidth entries currentUri pointerId x y band =
     (case band of
        None \<Rightarrow> (None, None)
      | Some current \<Rightarrow>
          (if rb_pointerId current \<noteq> pointerId then (band, None)
           else let dragRect = normalizeRubberBandRectangle (rb_startX current) (rb_startY current) x y
                in if \<bar>rc_right dragRect - rc_left dragRect\<bar> < 3 \<or> \<bar>rc_bottom dragRect - rc_top dragRect\<bar> < 3
                   then (None, None)
                   else (None, Some (entryIdsInRubberBand (band_options v vpLeft vpTop vpWidth)
                          (map (\<lambda>e. (fe_uri e, isParentDirectoryEntry e currentUri)) entries) dragRect))))"

section \<open>Column headers\<close>

definition columnHeaderDef :: "ColumnId \<Rightarrow> string \<times> SortField" where
  "columnHeaderDef c =
     (case c of CName \<Rightarrow> (''Name'', SName) | CExtension \<Rightarrow> (''ext'', SType) | CSize \<Rightarrow> (''size'', SSize)
      | CModified \<Rightarrow> (''modified'', SModified) | CKind \<Rightarrow> (''kind'', SType))"

definition resize_column :: "rat \<Rightarrow> rat \<Rightarrow> rat \<Rightarrow> rat" where
  "resize_column startX startWidth clientX = max 30 (startWidth + (clientX - startX))"

definition handleColumnResize ::
  "(rat \<Rightarrow> string) \<Rightarrow> string \<Rightarrow> ColumnId \<Rightarrow> rat \<Rightarrow> ColumnWidths \<times> World \<Rightarrow> ColumnWidths \<times> World" where
  "handleColumnResize num panelId c newWidth st =
     (let widths = (fst st)(c := max 30 newWidth) in (widths, persistColumnWidths num widths (Some panelId) (snd st)))"

text \<open>Dropping one header on another: the positions handed to the panel.\<close>

definition header_drop :: "VisibleColumns \<Rightarrow> ColumnId option \<Rightarrow> ColumnId \<Rightarrow> (nat \<times> nat) option" where
  "header_drop visible dragged target =
     (case dragged of
        None \<Rightarrow> None
      | Some d \<Rightarrow>
          (if d = target \<or> d = CName then None
           else do { from \<leftarrow> find_index (\<lambda>c. c = d) visible;
                     to \<leftarrow> find_index (\<lambda>c. c = target) visible;
                     (let targetIndex = max 1 to in if from \<noteq> targetIndex then Some (from, targetIndex) else None) }))"

definition handleColumnReorder ::
  "(rat \<Rightarrow> string) \<Rightarrow> string \<Rightarrow> nat \<times> nat \<Rightarrow> VisibleColumns \<times> World \<Rightarrow> VisibleColumns \<times> World" where
  "handleColumnReorder num panelId move st =
     (let cols = reorderVisibleColumns (fst st) (int (fst move)) (int (snd move))
      in (cols, persistVisibleColumns num cols (Some panelId) (snd st)))"

definition handleToggleColumn ::
  "(rat \<Rightarrow> string) \<Rightarrow> string \<Rightarrow> ColumnId \<Rightarrow> VisibleColumns \<times> World \<Rightarrow> VisibleColumns \<times> World" where
  "handleToggleColumn num panelId c st =
     (if c = CName then st
      else let cols = (if c \<in> set (fst st) then filter (\<lambda>x. x \<noteq> c) (fst st) else fst st @ [c])
           in (cols, persistVisibleColumns num cols (Some panelId) (snd st)))"

section \<open>Rows\<close>

definition typeLabel :: "FileEntryDto \<Rightarrow> string" where
  "typeLabel e =
     (if fe_isSymlink e then ''Symlink''
      else if fe_virtualKind e = Some ''cloudDrive'' then ''Cloud''
      else if fe_virtualKind e = Some ''savedConnection'' then ''Saved''
      else if fe_virtualKind e = Some ''discoveredService''
        then js_toUpperCase (case fe_protocol e of Some p \<Rightarrow> p | None \<Rightarrow> ''Network'')
      else if fe_virtualKind e = Some ''addConnection'' then ''Action''
      else if fe_kind e = KDirectory then ''Folder''
      else case fe_extension e of Some (c # cs) \<Rightarrow> js_toUpperCase (c # cs) | _ \<Rightarrow> ''File'')"

definition extensionLabel :: "FileEntryDto \<Rightarrow> string" where
  "extensionLabel e =
     (if fe_kind e = KDirectory then [] else case fe_extension e of Some x \<Rightarrow> js_toLowerCase x | None \<Rightarrow> [])"

text \<open>The texts of a row in the details view; sizes and dates are formatted by \<open>fmtSize\<close> and \<open>fmtDate\<close>.\<close>

definition row_cell ::
  "(int option \<Rightarrow> string) \<Rightarrow> (string option \<Rightarrow> string) \<Rightarrow> bool \<Rightarrow> FileEntryDto \<Rightarrow> ColumnId \<Rightarrow> string option" where
  "row_cell fmtSize fmtDate isParent e c =
     (case c of
        CName \<Rightarrow> None
      | CExtension \<Rightarrow> Some (extensionLabel e)
      | CSize \<Rightarrow> Some (if fe_kind e = KDirectory
                     then (if isParent then [char_of (226 :: nat), char_of (128 :: nat), char_of (148 :: nat)] else ''DIR'') else fmtSize (fe_size e))
      | CModified \<Rightarrow> Some (fmtDate (fe_modifiedAt e))
      | CKind \<Rightarrow> Some (if isParent then ''parent'' else if fe_isSymlink e then ''symlink''
                     else if fe_kind e = KDirectory then ''folder'' else typeLabel e))"

definition networkStatusLabel :: "string \<Rightarrow> string" where
  "networkStatusLabel status =
     (if status = ''available'' then ''OK'' else if status = ''saved'' then ''SAVED''
      else if status = ''credentialsRequired'' then ''AUTH'' else if status = ''unavailable'' then ''OFF''
      else js_toUpperCase status)"

definition gitStatusLabel :: "GitFileStatus \<Rightarrow> string" where
  "gitStatusLabel st =
     (case st of GitModified \<Rightarrow> ''M'' | GitAdded \<Rightarrow> ''A'' | GitDeleted \<Rightarrow> ''D'' | GitRenamed \<Rightarrow> ''R''
      | GitUntracked \<Rightarrow> ''?'' | GitIgnored \<Rightarrow> ''I'' | GitConflicted \<Rightarrow> ''U'' | GitUnknown \<Rightarrow> ''!'' | GitClean \<Rightarrow> [])"

definition row_click :: "PanelId \<Rightarrow> string \<Rightarrow> bool \<Rightarrow> bool \<Rightarrow> bool \<Rightarrow> PanelAction" where
  "row_click panelId uri shiftKey metaKey ctrlKey =
     (let mode = (if shiftKey then MRange else if metaKey \<or> ctrlKey then MToggle else MSingle)
      in if mode = MSingle then SetSelection panelId (Some uri) else SelectEntry panelId uri mode)"

section \<open>Dragging\<close>

definition URI_MIME :: string where "URI_MIME = ''application/x-fileoctopus-uri''"
definition NAME_MIME :: string where "NAME_MIME = ''application/x-fileoctopus-name''"
definition PANEL_ID_MIME :: string where "PANEL_ID_MIME = ''application/x-fileoctopus-panel-id''"
definition SELECTED_URIS_MIME :: string where "SELECTED_URIS_MIME = ''application/x-fileoctopus-selected-uris''"

text \<open>What a drag carries: texts under types, as in \<open>DataTransfer\<close>.\<close>

definition drag_row :: "(rat \<Rightarrow> string) \<Rightarrow> PanelId \<Rightarrow> PanelTabState \<Rightarrow> FileEntryDto \<Rightarrow> (string, string) obj option" where
  "drag_row num panelId tab e =
     (if isParentDirectoryEntry e (tab_uri tab) then None
      else Some ([(URI_MIME, fe_uri e), (NAME_MIME, fe_name e), (PANEL_ID_MIME, panelId_str panelId)]
        @ (if length (tab_selectedIds tab) > 1
           then [(SELECTED_URIS_MIME, json_text num (JArr (map JStr (tab_selectedIds tab))))] else [])))"

definition getData :: "(string, string) obj \<Rightarrow> string \<Rightarrow> string" where
  "getData transfer kind = (case obj_get transfer kind of Some s \<Rightarrow> s | None \<Rightarrow> [])"

record DropData =
  dr_uris :: "string list"
  dr_sourcePanelId :: "string option"
  dr_copies :: bool

text \<open>Elements of the carried list that are no strings name no entry.\<close>

definition readDropData :: "(string, string) obj \<Rightarrow> string \<Rightarrow> DropData option" where
  "readDropData transfer dropEffect =
     (let uri = getData transfer URI_MIME; raw = getData transfer SELECTED_URIS_MIME;
          uris = (if raw = [] then [uri]
                  else case json_parse raw of
                         Some (JArr (v # vs)) \<Rightarrow> List.map_filter (\<lambda>x. json_str (Some x)) (v # vs)
                       | _ \<Rightarrow> [uri]);
          source = getData transfer PANEL_ID_MIME
      in if uri = [] then None
         else Some \<lparr>dr_uris = uris, dr_sourcePanelId = (if source = [] then None else Some source),
                    dr_copies = (dropEffect = ''copy'')\<rparr>)"

text \<open>How deep the pointer is inside the pane while something is dragged, and whether the pane shows it.\<close>

datatype DragMove = DragEnter | DragLeave | DragReset

definition drag_over :: "bool \<Rightarrow> DragMove \<Rightarrow> nat \<times> bool \<Rightarrow> nat \<times> bool" where
  "drag_over accepts m st =
     (case m of
        DragReset \<Rightarrow> (0, False)
      | DragEnter \<Rightarrow> (if accepts then (fst st + 1, True) else st)
      | DragLeave \<Rightarrow> (if accepts then (fst st - 1, if fst st \<le> 1 then False else snd st) else st))"

text \<open>Dropping on a pane: \<open>onDropFiles\<close> shows the dialog for the entries of the source pane, in whose
  active tab the addresses are looked up.\<close>

definition onDropFiles ::
  "FileOctopusState \<Rightarrow> bool \<Rightarrow> string list \<Rightarrow> PanelId option \<Rightarrow> string \<Rightarrow> CopyMoveKind \<Rightarrow>
   CopyMoveDialog option option" where
  "onDropFiles state advanced sourceUris sourcePanelId destinationUri kind =
     (case sourcePanelId of
        None \<Rightarrow> Some None
      | Some source \<Rightarrow>
          do { sourceTab \<leftarrow> activeTab (panels state source);
               (let entries = List.map_filter (obj_get (tab_entriesById sourceTab)) sourceUris
                in Some (if entries = [] then None
                   else Some \<lparr>cm_panelId = source, cm_kind = kind, cm_entries = entries,
                     cm_destination = destinationUri, cm_conflictPolicy = CpFail, cm_advancedOptions = advanced,
                     cm_planningEnabled = False, cm_plan = None, cm_planning = False, cm_step = StepReview,
                     cm_pendingConflictPolicy = None, cm_error = None\<rparr>)) })"

definition panel_of :: "string \<Rightarrow> PanelId option" where
  "panel_of s = (if s = ''left'' then Some Left else if s = ''right'' then Some Right else None)"

definition drop_on_pane ::
  "FileOctopusState \<Rightarrow> bool \<Rightarrow> PanelId \<Rightarrow> (string, string) obj \<Rightarrow> string \<Rightarrow> CopyMoveDialog option option" where
  "drop_on_pane state advanced panelId transfer dropEffect =
     (case readDropData transfer dropEffect of
        None \<Rightarrow> Some None
      | Some d \<Rightarrow>
          do { tab \<leftarrow> activeTab (panels state panelId);
               onDropFiles state advanced (dr_uris d) (Option.bind (dr_sourcePanelId d) panel_of) (tab_uri tab)
                 (if dr_copies d then CmCopy else CmMove) })"

section \<open>Renaming in place and context menus\<close>

text \<open>The effect that starts renaming when the token of the command has changed.\<close>

definition rename_effect :: "bool \<Rightarrow> PanelTabState \<Rightarrow> nat \<Rightarrow> nat \<times> string option \<Rightarrow> nat \<times> string option" where
  "rename_effect active tab token st =
     (if token = fst st then st
      else (token,
            if token > 0 \<and> active then
              (case tab_selectedIds tab of
                 [uri] \<Rightarrow> if uri \<noteq> [] \<and> obj_get (tab_entriesById tab) uri \<noteq> None then Some uri else snd st
               | _ \<Rightarrow> snd st)
            else snd st))"

text \<open>What opening the context menu of an entry dispatches before.\<close>

definition context_menu_actions :: "PanelId \<Rightarrow> PanelTabState \<Rightarrow> FileEntryDto option \<Rightarrow> PanelAction list" where
  "context_menu_actions panelId tab entry =
     SetActivePanel panelId #
     (case entry of
        Some e \<Rightarrow> if fe_uri e \<notin> set (tab_selectedIds tab) then [SetSelection panelId (Some (fe_uri e))] else []
      | None \<Rightarrow> [])"

end
