(* ===== verification/FileTableFacts.thy ===== *)
theory FileTableFacts
  imports FileTable
begin

text \<open>
  Facts of the list of files: what is in view is rendered, moving the focus brings it into view, a
  rubber band selects a range of rows, and what dragging a row moves.
\<close>

section \<open>The window of rendered rows\<close>

lemma itemsPerRow_pos [simp]: "0 < itemsPerRow v"
  by (simp add: itemsPerRow_def less_max_iff_disj)

lemma below_totalRows:
  assumes "i < n" shows "int (i div itemsPerRow v) < totalRows v n"
proof -
  let ?k = "itemsPerRow v"
  have "(of_nat (i div ?k * ?k) :: rat) \<le> of_nat i" by (simp only: of_nat_le_iff div_times_less_eq_dividend)
  also have "\<dots> < of_nat n" using assms by simp
  finally have "of_nat (i div ?k) * (of_nat ?k :: rat) < of_nat n" by simp
  then have "(of_nat (i div ?k) :: rat) < of_nat n / of_nat ?k" by (simp add: pos_less_divide_eq)
  then show ?thesis unfolding totalRows_def by (simp add: less_ceiling_iff)
qed

lemma row_in_window:
  assumes h: "0 < effectiveRowHeight v" and "i < n"
    and "tv_scrollTop v < of_nat (i div itemsPerRow v + 1) * effectiveRowHeight v"
    and "of_nat (i div itemsPerRow v) * effectiveRowHeight v < tv_scrollTop v + tv_viewportHeight v"
  shows "startRow v \<le> int (i div itemsPerRow v) \<and> int (i div itemsPerRow v) < endRow v n"
proof -
  let ?h = "effectiveRowHeight v" and ?s = "tv_scrollTop v" and ?w = "tv_viewportHeight v" and ?r = "i div itemsPerRow v"
  have "?s / ?h < of_nat (?r + 1)" using assms(3) h by (simp add: pos_divide_less_eq)
  then have lo: "\<lfloor>?s / ?h\<rfloor> \<le> int ?r" by (simp add: floor_le_iff)
  have "(of_nat ?r :: rat) < ?s / ?h + ?w / ?h"
    using assms(4) h by (simp add: pos_less_divide_eq flip: add_divide_distrib)
  also have "\<dots> < of_int (\<lfloor>?s / ?h\<rfloor> + 1) + of_int \<lceil>?w / ?h\<rceil>"
    using floor_correct[of "?s / ?h"] by (intro add_less_le_mono) (simp_all only: le_of_int_ceiling)
  finally have "(of_nat ?r :: rat) < of_int (\<lfloor>?s / ?h\<rfloor> + 1 + \<lceil>?w / ?h\<rceil>)" by simp
  then have "int ?r < \<lfloor>?s / ?h\<rfloor> + 1 + \<lceil>?w / ?h\<rceil>" by (metis of_int_less_iff of_int_of_nat_eq)
  then have hi: "int ?r < startRow v + visibleRows v" by (simp add: startRow_def visibleRows_def overscan_def)
  show ?thesis using lo hi below_totalRows[OF assms(2)] by (simp add: startRow_def endRow_def overscan_def)
qed

lemma rendered_window:
  "rendered v entries = drop (startIndex v) (take (nat (endRow v (length entries)) * itemsPerRow v) entries)"
proof -
  have "0 \<le> startRow v" by (simp add: startRow_def)
  then have "int (startIndex v) + (endRow v (length entries) - startRow v) * int (itemsPerRow v) =
      endRow v (length entries) * int (itemsPerRow v)"
    by (simp add: startIndex_def algebra_simps)
  moreover have "nat (a * int k) = nat a * k" for a k
    by (cases "0 \<le> a") (simp_all add: nat_mult_distrib mult_nonpos_nonneg)
  ultimately show ?thesis by (simp add: rendered_def Let_def)
qed

lemma rendered_nth:
  assumes "i < length entries" and "startRow v \<le> int (i div itemsPerRow v)"
    and "int (i div itemsPerRow v) < endRow v (length entries)"
  shows "\<exists>k < length (rendered v entries). startIndex v + k = i \<and> rendered v entries ! k = entries ! i"
proof -
  let ?k = "itemsPerRow v"
  have "startIndex v \<le> i div ?k * ?k" using assms(2) by (simp add: startIndex_def)
  then have lo: "startIndex v \<le> i" using div_times_less_eq_dividend order_trans by blast
  have "i = i div ?k * ?k + i mod ?k" by simp
  also have "\<dots> < i div ?k * ?k + ?k" by (intro add_strict_left_mono mod_less_divisor itemsPerRow_pos)
  also have "\<dots> = (i div ?k + 1) * ?k" by simp
  finally have "i < (i div ?k + 1) * ?k" .
  also have "(i div ?k + 1) * ?k \<le> nat (endRow v (length entries)) * ?k" using assms(3) by (intro mult_right_mono) simp_all
  finally have "i < nat (endRow v (length entries)) * ?k" .
  with lo assms(1) show ?thesis unfolding rendered_window by (intro exI[of _ "i - startIndex v"]) simp
qed

text \<open>Scrolling as little as is needed to show a row.\<close>

definition shown_from :: "rat \<Rightarrow> rat \<Rightarrow> rat \<Rightarrow> rat \<Rightarrow> rat" where
  "shown_from s w r h = (if r < s then r else if r + h > s + w then r + h - w else s)"

lemma shown_from_ok:
  assumes "h \<le> w" shows "shown_from s w r h \<le> r" and "r + h \<le> shown_from s w r h + w"
proof -
  consider "r < s" | "\<not> r < s" "r + h > s + w" | "\<not> r < s" "\<not> r + h > s + w" by blast
  then have "shown_from s w r h \<le> r \<and> r + h \<le> shown_from s w r h + w"
    using assms by cases (simp_all only: shown_from_def if_True if_False, linarith+)
  then show "shown_from s w r h \<le> r" and "r + h \<le> shown_from s w r h + w" by simp_all
qed

lemma scroll_to_focus_eq:
  assumes "find_index (\<lambda>u. u = x) uris = Some j" and "x \<noteq> []"
  shows "scroll_to_focus v uris (Some x) = v\<lparr>tv_scrollTop :=
    shown_from (tv_scrollTop v) (tv_viewportHeight v) (of_nat (j div itemsPerRow v) * effectiveRowHeight v) (effectiveRowHeight v)\<rparr>"
  using assms by (simp add: scroll_to_focus_def shown_from_def Let_def)

lemma metrics_scrolled [simp]:
  "itemsPerRow (v\<lparr>tv_scrollTop := s\<rparr>) = itemsPerRow v"
  "effectiveRowHeight (v\<lparr>tv_scrollTop := s\<rparr>) = effectiveRowHeight v"
  by (simp_all add: itemsPerRow_def effectiveRowHeight_def isGrid_def)

lemma scrolled_row_rendered:
  assumes "0 < effectiveRowHeight v" and "effectiveRowHeight v \<le> tv_viewportHeight v" and "j < length entries"
    and "v' = v\<lparr>tv_scrollTop := shown_from (tv_scrollTop v) (tv_viewportHeight v)
      (of_nat (j div itemsPerRow v) * effectiveRowHeight v) (effectiveRowHeight v)\<rparr>"
  shows "tv_scrollTop v' \<le> of_nat (j div itemsPerRow v) * effectiveRowHeight v"
    and "(of_nat (j div itemsPerRow v) + 1) * effectiveRowHeight v \<le> tv_scrollTop v' + tv_viewportHeight v"
    and "entries ! j \<in> set (rendered v' entries)"
proof -
  let ?h = "effectiveRowHeight v"
  define r where "r = of_nat (j div itemsPerRow v) * ?h"
  have s: "tv_scrollTop v' = shown_from (tv_scrollTop v) (tv_viewportHeight v) r ?h" by (simp add: assms(4) r_def)
  have m: "itemsPerRow v' = itemsPerRow v" "effectiveRowHeight v' = ?h" "tv_viewportHeight v' = tv_viewportHeight v"
    by (simp_all add: assms(4))
  have lo: "tv_scrollTop v' \<le> r" and hi: "r + ?h \<le> tv_scrollTop v' + tv_viewportHeight v"
    unfolding s by (rule shown_from_ok[OF assms(2)])+
  have r1: "(of_nat (j div itemsPerRow v) + 1) * ?h = r + ?h" by (simp only: r_def distrib_right mult_1)
  have row: "tv_scrollTop v' < of_nat (j div itemsPerRow v' + 1) * effectiveRowHeight v'"
    "of_nat (j div itemsPerRow v') * effectiveRowHeight v' < tv_scrollTop v' + tv_viewportHeight v'"
    unfolding m of_nat_add of_nat_1 r1 r_def[symmetric] using lo hi assms(1) by linarith+
  show "tv_scrollTop v' \<le> of_nat (j div itemsPerRow v) * ?h" using lo by (simp only: r_def)
  show "(of_nat (j div itemsPerRow v) + 1) * ?h \<le> tv_scrollTop v' + tv_viewportHeight v" using hi by (simp only: r1)
  have "0 < effectiveRowHeight v'" using assms(1) m by simp
  from rendered_nth[OF assms(3)] row_in_window[OF this assms(3) row]
  show "entries ! j \<in> set (rendered v' entries)" by (metis nth_mem)
qed

section \<open>Lists of positions\<close>

lemma filter_range:
  "map snd (filter (\<lambda>(i, x). a \<le> i \<and> i < b \<and> P x) (enumerate 0 xs)) = filter P (drop a (take b xs))"
proof (induction xs rule: rev_induct)
  case (snoc x xs)
  have "drop a (take b (xs @ [x])) = drop a (take b xs) @ (if a \<le> length xs \<and> length xs < b then [x] else [])"
    by (cases "length xs < b"; cases "a \<le> length xs") simp_all
  with snoc show ?case by (simp add: enumerate_append_eq)
qed simp

section \<open>What carries a drag\<close>

lemma dragged_uris:
  assumes "drag_row num p tab e = Some transfer" and "fe_uri e \<noteq> []"
  shows "readDropData transfer effect = Some
    \<lparr>dr_uris = (if length (tab_selectedIds tab) > 1 then tab_selectedIds tab else [fe_uri e]),
     dr_sourcePanelId = Some (panelId_str p), dr_copies = (effect = ''copy'')\<rparr>"
proof -
  let ?ids = "tab_selectedIds tab"
  let ?sel = "if length ?ids > 1 then [(SELECTED_URIS_MIME, json_text num (JArr (map JStr ?ids)))] else []"
  have t: "transfer = [(URI_MIME, fe_uri e), (NAME_MIME, fe_name e), (PANEL_ID_MIME, panelId_str p)] @ ?sel"
    using assms(1) by (auto simp: drag_row_def split: if_splits)
  have mimes: "URI_MIME \<noteq> SELECTED_URIS_MIME" "URI_MIME \<noteq> PANEL_ID_MIME" "NAME_MIME \<noteq> PANEL_ID_MIME"
    "NAME_MIME \<noteq> SELECTED_URIS_MIME" "PANEL_ID_MIME \<noteq> SELECTED_URIS_MIME"
    by (simp_all add: URI_MIME_def NAME_MIME_def PANEL_ID_MIME_def SELECTED_URIS_MIME_def)
  have u: "getData transfer URI_MIME = fe_uri e" by (simp add: getData_def t)
  have g: "getData transfer PANEL_ID_MIME = panelId_str p" by (simp add: getData_def t mimes mimes[symmetric])
  have s: "getData transfer SELECTED_URIS_MIME =
      (if length ?ids > 1 then json_text num (JArr (map JStr ?ids)) else [])"
    by (simp add: getData_def t mimes mimes[symmetric])
  have readback: "json_parse (json_text num (JArr (map JStr ?ids))) = Some (JArr (map JStr ?ids))"
    by (rule json_text_read_back) (simp add: list_all_iff)
  have ne: "json_text num (JArr (map JStr ?ids)) \<noteq> []"
    using text_nonempty[of num "JArr (map JStr ?ids)"] by (auto simp: list_all_iff)
  have strs: "List.map_filter (\<lambda>x. json_str (Some x)) (map JStr xs) = xs" for xs
    by (induction xs) (simp_all add: map_filter_def json_str_def)
  have p: "panelId_str p \<noteq> []" by (cases p) (simp_all add: panelId_str_def)
  show ?thesis
  proof (cases "length ?ids > 1")
    case True
    then obtain a as where ids: "?ids = a # as" by (cases ?ids) auto
    have "List.map_filter (\<lambda>x. json_str (Some x)) (JStr a # map JStr as) = a # as"
      using strs[of "a # as"] by simp
    with True ids show ?thesis using readback ne assms(2) p
      by (simp add: readDropData_def u g s Let_def)
  next
    case False
    then show ?thesis using assms(2) p by (simp add: readDropData_def u g s Let_def)
  qed
qed

section \<open>Properties\<close>

text \<open>C22: Every entry of which any part lies in the visible part of the list is rendered, at its place,
  in lists and in the grid of icons, whatever the scroll position and the sizes.\<close>

theorem rows_in_view_rendered:
  assumes "0 < effectiveRowHeight v" and "i < length entries"
    and "tv_scrollTop v < of_nat (i div itemsPerRow v + 1) * effectiveRowHeight v"
    and "of_nat (i div itemsPerRow v) * effectiveRowHeight v < tv_scrollTop v + tv_viewportHeight v"
  shows "\<exists>k < length (rendered v entries). startIndex v + k = i \<and> rendered v entries ! k = entries ! i"
  using row_in_window[OF assms] by (intro rendered_nth assms(2)) simp_all

definition scrolled_view :: TableView where
  "scrolled_view = \<lparr>tv_viewMode = VIcons, tv_rowHeight = 24, tv_containerWidth = 400, tv_viewportHeight = 420,
     tv_scrollTop = 1200\<rparr>"

theorem rows_in_view_rendered_witness:
  "\<exists>k < length (rendered scrolled_view [0 ..< 100]). startIndex scrolled_view + k = 40 \<and>
     rendered scrolled_view [0 ..< 100] ! k = 40"
proof -
  have h: "0 < effectiveRowHeight scrolled_view" by code_simp
  have i: "40 < length [0 ..< 100 :: nat]" by simp
  have a: "tv_scrollTop scrolled_view < of_nat (40 div itemsPerRow scrolled_view + 1) * effectiveRowHeight scrolled_view"
    by code_simp
  have b: "of_nat (40 div itemsPerRow scrolled_view) * effectiveRowHeight scrolled_view <
      tv_scrollTop scrolled_view + tv_viewportHeight scrolled_view" by code_simp
  from rows_in_view_rendered[OF h i a b] show ?thesis by simp
qed

text \<open>C21: After any key that moves the focus the focused entry is completely visible and rendered: the
  selection moves within the displayed entries, Home and End to the first and the last one, and
  the effect scrolls the list so that the row is in view.\<close>

theorem moved_focus_visible:
  assumes "selectDisplayedEntries pf t = Some vis" and "vis \<noteq> []" and "\<forall>e \<in> set vis. fe_uri e \<noteq> []"
    and "distinct (map fe_uri vis)" and "0 < effectiveRowHeight v" and "effectiveRowHeight v \<le> tv_viewportHeight v"
    and "table_key v (length vis) key = Some (MoveBy d)"
  shows "\<exists>t' j. moveSelection pf t d = Some t' \<and> j < length vis \<and> tab_selectedIds t' = [fe_uri (vis ! j)] \<and>
    (key = ''Home'' \<longrightarrow> j = 0) \<and> (key = ''End'' \<longrightarrow> j = length vis - 1) \<and>
    (let v' = scroll_to_focus v (map fe_uri vis) (tab_focusedId t'); row = of_nat (j div itemsPerRow v)
     in tv_scrollTop v' \<le> row * effectiveRowHeight v \<and>
        (row + 1) * effectiveRowHeight v \<le> tv_scrollTop v' + tv_viewportHeight v \<and>
        vis ! j \<in> set (rendered v' vis))"
proof -
  obtain j t' where j: "j < length vis" "moveSelection pf t d = Some t'" "tab_selectedIds t' = [fe_uri (vis ! j)]"
    "tab_focusedId t' = Some (fe_uri (vis ! j))" "d \<le> - int (length vis) \<longrightarrow> j = 0"
    "int (length vis) \<le> d \<longrightarrow> j = length vis - 1"
    using move_selection_clamped[OF assms(1,2), of d] by blast
  have ends: "key = ''Home'' \<Longrightarrow> d = - int (length vis)" "key = ''End'' \<Longrightarrow> d = int (length vis)"
    using assms(7) by (auto simp: table_key_def Let_def)
  let ?u = "fe_uri (vis ! j)" and ?h = "effectiveRowHeight v" and ?w = "tv_viewportHeight v"
  let ?v' = "scroll_to_focus v (map fe_uri vis) (Some ?u)" and ?row = "of_nat (j div itemsPerRow v) :: rat"
  have "find_index (\<lambda>u. u = ?u) (map fe_uri vis) = Some j"
  proof (cases "find_index (\<lambda>u. u = ?u) (map fe_uri vis)")
    case None
    with j(1) show ?thesis by (auto simp: find_index_None)
  next
    case (Some i)
    from find_index_Some[OF this] assms(4) j(1) show ?thesis
      using Some nth_eq_iff_index_eq[of "map fe_uri vis" i j] by simp
  qed
  moreover have "?u \<noteq> []" using assms(3) j(1) by simp
  ultimately have v': "?v' = v\<lparr>tv_scrollTop := shown_from (tv_scrollTop v) ?w (?row * ?h) ?h\<rparr>"
    by (rule scroll_to_focus_eq)
  from scrolled_row_rendered[OF assms(5,6) j(1) v'] j ends show ?thesis
    by (intro exI[of _ t'] exI[of _ j]) (simp add: Let_def)
qed

text \<open>C19: In a list the rubber band selects a range: the entries from the row under its upper edge to the
  row above its lower edge, the entry of the parent directory left out. A band smaller than three
  pixels either way selects nothing.\<close>

theorem rubber_band_selects_range:
  assumes "\<not> isGrid v" and "0 < tv_rowHeight v" and "rb_pointerId b = pid"
    and "3 \<le> \<bar>x - rb_startX b\<bar>" and "3 \<le> \<bar>y - rb_startY b\<bar>"
    and "min (rb_startX b) x < vpLeft + vpWidth" and "vpLeft < max (rb_startX b) x"
    and "\<forall>e \<in> set entries. fe_uri e \<noteq> []"
    and "lo = nat \<lfloor>(min (rb_startY b) y - vpTop + tv_scrollTop v) / tv_rowHeight v\<rfloor>"
    and "hi = nat \<lceil>(max (rb_startY b) y - vpTop + tv_scrollTop v) / tv_rowHeight v\<rceil>"
  shows "handleRubberBandEnd v vpLeft vpTop vpWidth entries uri pid x y (Some b) =
    (None, Some (map fe_uri (filter (\<lambda>e. \<not> isParentDirectoryEntry e uri) (drop lo (take hi entries)))))"
proof -
  let ?h = "tv_rowHeight v" and ?s = "tv_scrollTop v"
  let ?r = "normalizeRubberBandRectangle (rb_startX b) (rb_startY b) x y"
  let ?bo = "band_options v vpLeft vpTop vpWidth"
  let ?es = "map (\<lambda>e. (fe_uri e, isParentDirectoryEntry e uri)) entries"
  have bo: "bo_itemsPerRow ?bo = 1" "bo_rowHeight ?bo = ?h" "bo_itemWidth ?bo = vpWidth" "bo_scrollTop ?bo = ?s"
    "bo_viewportTop ?bo = vpTop" "bo_viewportLeft ?bo = vpLeft"
    using assms(1) by (simp_all add: band_options_def itemsPerRow_def effectiveRowHeight_def)
  have meet: "rectangles_meet ?r (item_rectangle ?bo i) \<longleftrightarrow> lo \<le> i \<and> i < hi" for i
  proof -
    let ?a = "min (rb_startY b) y - vpTop + ?s" and ?z = "max (rb_startY b) y - vpTop + ?s"
    have "rectangles_meet ?r (item_rectangle ?bo i) \<longleftrightarrow> ?a < of_nat (i + 1) * ?h \<and> of_nat i * ?h < ?z"
      unfolding rectangles_meet_def normalizeRubberBandRectangle_def item_rectangle_def bo Let_def
      using assms(6,7) by (auto simp: algebra_simps)
    also have "?a < of_nat (i + 1) * ?h \<longleftrightarrow> ?a / ?h < of_nat (i + 1)" using assms(2) by (simp add: pos_divide_less_eq)
    also have "\<dots> \<longleftrightarrow> \<lfloor>?a / ?h\<rfloor> < int (i + 1)" by (simp add: floor_less_iff)
    also have "\<dots> \<longleftrightarrow> lo \<le> i" by (auto simp: assms(9))
    also have "of_nat i * ?h < ?z \<longleftrightarrow> of_nat i < ?z / ?h" using assms(2) by (simp add: pos_less_divide_eq)
    also have "\<dots> \<longleftrightarrow> int i < \<lceil>?z / ?h\<rceil>" by (simp add: less_ceiling_iff)
    also have "\<dots> \<longleftrightarrow> i < hi" by (auto simp: assms(10))
    finally show ?thesis .
  qed
  have "entryIdsInRubberBand ?bo ?es ?r =
      map (fst \<circ> snd) (filter (\<lambda>(i, x). lo \<le> i \<and> i < hi \<and> (\<not> snd x \<and> fst x \<noteq> [])) (enumerate 0 ?es))"
    unfolding entryIdsInRubberBand_def meet by (intro map_cong filter_cong) auto
  also have "\<dots> = map fst (filter (\<lambda>x. \<not> snd x \<and> fst x \<noteq> []) (drop lo (take hi ?es)))"
    unfolding filter_range[symmetric] by simp
  also have "\<dots> = map fe_uri (filter (\<lambda>e. \<not> isParentDirectoryEntry e uri \<and> fe_uri e \<noteq> []) (drop lo (take hi entries)))"
    by (simp add: take_map drop_map filter_map comp_def)
  also have "filter (\<lambda>e. \<not> isParentDirectoryEntry e uri \<and> fe_uri e \<noteq> []) (drop lo (take hi entries)) =
      filter (\<lambda>e. \<not> isParentDirectoryEntry e uri) (drop lo (take hi entries))"
    using assms(8) by (intro filter_cong refl) (auto dest: in_set_dropD in_set_takeD)
  finally have ids: "entryIdsInRubberBand ?bo ?es ?r = map fe_uri (filter (\<lambda>e. \<not> isParentDirectoryEntry e uri) (drop lo (take hi entries)))" .
  have wide: "\<not> \<bar>rc_right ?r - rc_left ?r\<bar> < 3" "\<not> \<bar>rc_bottom ?r - rc_top ?r\<bar> < 3"
    using assms(4,5) by (auto simp: normalizeRubberBandRectangle_def)
  with assms(3) ids show ?thesis by (simp add: handleRubberBandEnd_def Let_def)
qed

text \<open>C34: Dragging a row that is not selected moves other files. The drag carries the selection of the
  pane whenever two or more entries are selected, so that the dialog that opens on dropping is
  about the selected files, and the dragged one is not among them.\<close>

theorem drag_moves_other_files:
  assumes "drag_row num p tab e = Some transfer" and "fe_uri e \<noteq> []" and "activeTab (panels s p) = Some tab"
    and "activeTab (panels s q) = Some dest" and "tab_ok tab"
    and "1 < length (tab_selectedIds tab)" and "set (tab_selectedIds tab) \<subseteq> set (tab_orderedEntryIds tab)"
    and "fe_uri e \<notin> set (tab_selectedIds tab)"
  shows "\<exists>dialog. drop_on_pane s advanced q transfer ''move'' = Some (Some dialog) \<and>
    cm_kind dialog = CmMove \<and> cm_destination dialog = tab_uri dest \<and>
    map fe_uri (cm_entries dialog) = tab_selectedIds tab \<and> e \<notin> set (cm_entries dialog)"
proof -
  let ?ids = "tab_selectedIds tab" and ?get = "obj_get (tab_entriesById tab)"
  have found: "\<exists>x. ?get i = Some x \<and> fe_uri x = i" if "i \<in> set ?ids" for i
  proof -
    have "i \<in> fst ` set (tab_entriesById tab)"
      using that assms(5,7) by (auto simp: tab_ok_def listing_ok_def)
    then obtain x where x: "?get i = Some x" using obj_get_key by metis
    with map_of_SomeD[OF x] assms(5) show ?thesis by (auto simp: tab_ok_def listing_ok_def list_all_iff)
  qed
  have uris: "map fe_uri (List.map_filter ?get xs) = xs" if "set xs \<subseteq> set ?ids" for xs
    using that
  proof (induction xs)
    case (Cons a xs)
    then obtain x where "?get a = Some x" "fe_uri x = a" using found[of a] by auto
    with Cons show ?case by (simp add: map_filter_def)
  qed (simp add: map_filter_def)
  then have ids: "map fe_uri (List.map_filter ?get ?ids) = ?ids" by simp
  then have ne: "List.map_filter ?get ?ids \<noteq> []" using assms(6) by auto
  have "e \<notin> set (List.map_filter ?get ?ids)" using ids assms(8) by (metis image_eqI list.set_map)
  moreover have "panel_of (panelId_str p) = Some p" by (cases p) (simp_all add: panel_of_def panelId_str_def)
  ultimately show ?thesis using dragged_uris[OF assms(1,2), of "''move''"] assms(3,4,6) ids ne
    by (simp add: drop_on_pane_def onDropFiles_def Let_def)
qed

section \<open>Concrete lists\<close>

definition short_view :: TableView where
  "short_view = \<lparr>tv_viewMode = VDetails, tv_rowHeight = 24, tv_containerWidth = 400, tv_viewportHeight = 48,
     tv_scrollTop = 0\<rparr>"

theorem moved_focus_visible_witness:
  "\<exists>t'. moveSelection ordinal_platform sample_tab 3 = Some t' \<and> tab_selectedIds t' = [''local:///d/b'']"
proof -
  let ?vis = "prependParentDirectoryEntry ''local:///d'' [entry_a, entry_b]"
  have vis: "?vis \<noteq> []" "\<forall>e \<in> set ?vis. fe_uri e \<noteq> []" "distinct (map fe_uri ?vis)" by code_simp+
  have v: "0 < effectiveRowHeight short_view" "effectiveRowHeight short_view \<le> tv_viewportHeight short_view"
    "table_key short_view (length ?vis) ''End'' = Some (MoveBy 3)" by code_simp+
  have l: "length ?vis - 1 = 2" "fe_uri (?vis ! 2) = ''local:///d/b''" by code_simp+
  from moved_focus_visible[OF sample_displayed vis v] l show ?thesis by auto
qed

definition demo_band :: RubberBand where
  "demo_band = \<lparr>rb_pointerId = 1, rb_startX = 10, rb_startY = 30, rb_currentX = 10, rb_currentY = 30\<rparr>"

theorem rubber_band_selects_range_witness:
  "handleRubberBandEnd short_view 0 0 300 [entry_a, entry_b] ''local:///d'' 1 50 40 (Some demo_band) =
    (None, Some [''local:///d/b''])"
proof -
  have v: "\<not> isGrid short_view" "0 < tv_rowHeight short_view" "rb_pointerId demo_band = 1"
    "3 \<le> \<bar>50 - rb_startX demo_band\<bar>" "3 \<le> \<bar>40 - rb_startY demo_band\<bar>"
    "min (rb_startX demo_band) 50 < 0 + 300" "0 < max (rb_startX demo_band) 50"
    "\<forall>e \<in> set [entry_a, entry_b]. fe_uri e \<noteq> []" by code_simp+
  have r: "1 = nat \<lfloor>(min (rb_startY demo_band) 40 - 0 + tv_scrollTop short_view) / tv_rowHeight short_view\<rfloor>"
    "2 = nat \<lceil>(max (rb_startY demo_band) 40 - 0 + tv_scrollTop short_view) / tv_rowHeight short_view\<rceil>"
    "filter (\<lambda>e. \<not> isParentDirectoryEntry e ''local:///d'') (drop 1 (take 2 [entry_a, entry_b])) = [entry_b]"
    by code_simp+
  from rubber_band_selects_range[OF v r(1,2), of "''local:///d''"] show ?thesis by (simp only: r(3)) simp
qed

definition entry_c :: FileEntryDto where
  "entry_c = sample_entry ''local:///d/c'' ''c'' KFile 3"

definition marked_tab :: PanelTabState where
  "marked_tab = sample_tab
     \<lparr>tab_entriesById := [(''local:///d/a'', entry_a), (''local:///d/b'', entry_b), (''local:///d/c'', entry_c)],
      tab_orderedEntryIds := [''local:///d/a'', ''local:///d/b'', ''local:///d/c''],
      tab_selectedIds := [''local:///d/a'', ''local:///d/b'']\<rparr>"

definition marked_state :: FileOctopusState where
  "marked_state = sample_state\<lparr>panels := (\<lambda>p. case p of Left \<Rightarrow> sample_panel Left marked_tab
     | Right \<Rightarrow> panels sample_state Right)\<rparr>"

theorem drag_moves_other_files_witness:
  "\<exists>transfer dialog. drag_row (\<lambda>_. []) Left marked_tab entry_c = Some transfer \<and>
     drop_on_pane marked_state False Right transfer ''move'' = Some (Some dialog) \<and>
     map fe_uri (cm_entries dialog) = [''local:///d/a'', ''local:///d/b'']"
proof -
  have par: "\<not> isParentDirectoryEntry entry_c (tab_uri marked_tab)" by code_simp
  then obtain transfer where t: "drag_row (\<lambda>_. []) Left marked_tab entry_c = Some transfer" by (simp add: drag_row_def)
  have u: "fe_uri entry_c \<noteq> []" by code_simp
  have l: "activeTab (panels marked_state Left) = Some marked_tab"
    by (simp add: marked_state_def activeTab_def)
  obtain dest where r: "activeTab (panels marked_state Right) = Some dest"
    by (simp add: marked_state_def activeTab_def)
  have ok: "tab_ok marked_tab"
    by (auto simp: marked_tab_def tab_ok_def listing_ok_def entry_c_def sample_entry_def)
  have sel: "1 < length (tab_selectedIds marked_tab)"
    "set (tab_selectedIds marked_tab) \<subseteq> set (tab_orderedEntryIds marked_tab)"
    "fe_uri entry_c \<notin> set (tab_selectedIds marked_tab)" by code_simp+
  have ids: "tab_selectedIds marked_tab = [''local:///d/a'', ''local:///d/b'']" by (simp add: marked_tab_def)
  from drag_moves_other_files[OF t u l r ok sel, of False] obtain dialog where
    "drop_on_pane marked_state False Right transfer ''move'' = Some (Some dialog)"
    "map fe_uri (cm_entries dialog) = [''local:///d/a'', ''local:///d/b'']"
    unfolding ids by (elim exE conjE) simp
  with t show ?thesis by (intro exI[of _ transfer] exI[of _ dialog] conjI)
qed

end
