(* ===== verification/Spec2Isabelle.thy ===== *)
theory Spec2Isabelle
  imports PanelReducer Terminal Shell Jobs UriCrumbs Columns NavController JobEvents FileOps MultiRename Keyboard TerminalFlow ToolbarFacts DriveTargets StoredSettings GitReviewFacts PreferenceFacts PaneGit Startup Watchers ColumnConfig EditorFacts
  ViewerFacts ConnectionsFacts MenuFacts SearchFlowFacts
  FileTableFacts
begin

text \<open>
  The front end of FileOctopus, a two-pane file manager: TypeScript under
  \<open>src/packages/frontend/src\<close> (F below) and \<open>src/packages/ts-api/src\<close> (A below). It runs in a
  web view and reaches the file system only through an asynchronous client, behind which is a
  Rust process (or, in a browser, the preview transport). The development models the logic of
  the front end: its stores, the handlers that change them, and the pure functions they use.

  The parts and how they interact.

  \<^item> The panel store (F/panelStore.ts, F/state) holds both panels, their tabs, listings and
    searches. It changes only through actions of a reducer. The navigation controller starts
    listings; the answers come back as batches, matches and completions that are actions again.
  \<^item> File operations (F/hooks/fileOps) ask the client for a plan, resolve conflicts in a dialog
    and start a job. Job events (F/hooks/useJobEventListeners.ts) update the job snapshots
    (F/dialogs/operationJobState.ts), toasts and waiting dialogs, and say which panes to list again.
  \<^item> Commands have a registry, key bindings, a palette and a toolbar; a key press is matched to a
    command (F/hooks/useKeyboardShortcuts.ts) and run by one switch (F/commands/dispatch.ts).
  \<^item> Terminals live in a store of their own (F/terminal) that the terminal provider fills.
  \<^item> Preferences come from the back end and are shown on the document; smaller settings are kept
    as JSON text in local storage or in text preferences.
  \<^item> The git review tab, the columns view, the git status of a pane, the viewer, the editor and the
    connections dialog make calls of their own and guard against late answers.
  \<^item> Starting up reads preferences and session, fills the store and navigates both panes; a
    watcher in the back end follows the directory of the active tab.
  \<^item> The menu bar, the context menus and the toolbar offer commands and run them by the same switch.

  Theories and sources. Every definition has its source's name where Isabelle allows it.

  \<^item> Host and language: \<open>Prelude\<close> (dictionaries, option and list lemmas, the collection \<open>js_obj\<close>),
    \<open>JsString\<close>, \<open>JsSort\<close>, \<open>Json\<close>, \<open>JsonPrint\<close> (what the sources use of the standard library),
    \<open>Env\<close> (local storage, clock, platform, rejections), \<open>Reducer\<close> (the locales of reducers),
    \<open>Samples\<close> (states for witnesses).
  \<^item> Addresses: \<open>Uri\<close>, \<open>UriFacts\<close>, \<open>UriCrumbs\<close> for A/uri.ts. Transfer types: \<open>Dto\<close>, \<open>NetworkDto\<close>,
    \<open>GitTypes\<close> for the generated types the logic reads.
  \<^item> Panels: \<open>PaneTypes\<close>, \<open>PanelState\<close>, \<open>PaneSort\<close>, \<open>PanelActions\<close>, one theory per slice of F/state/slices
    (\<open>Listing\<close>, \<open>Navigation\<close>, \<open>Selection\<close>, \<open>SortFilter\<close>, \<open>Tabs\<close>, \<open>ContentSearch\<close>), \<open>PanelReducer\<close> for
    their composition, \<open>Columns\<close> for F/pane/ColumnsView.tsx, \<open>NavController\<close> for
    F/navigation/navigationController.ts, \<open>DriveTargets\<close> for the places one can jump to,
    \<open>ColumnConfig\<close> for the columns of the details view (F/pane/columnWidths.ts,
    F/utils/columnPresets.ts, F/utils/fileTypeColors.ts), \<open>PaneGit\<close> for F/pane/usePaneGitStatus.ts.
  \<^item> The list of files: \<open>FileTable\<close>, \<open>FileTableFacts\<close> for F/pane/FileTable.tsx, FileRow.tsx,
    rubberBandSelection.ts and the dragging handlers of FilePanel.tsx and F/app/filePanelProps.ts.
  \<^item> Life cycle: \<open>Startup\<close> for F/hooks/useStartupInitialization.ts and the chrome store
    (F/state/chromeStore.ts), \<open>Watchers\<close> for F/hooks/useFileSystemWatchers.ts.
  \<^item> Operations: \<open>FileOps\<close> (F/hooks/fileOps), \<open>MultiRename\<close>, \<open>Jobs\<close>, \<open>JobEvents\<close>;
    \<open>SearchFlow\<close>, \<open>LiveSearches\<close>, \<open>SearchFlowFacts\<close> for F/hooks/fileOps/useMetadataHandlers.ts.
  \<^item> Commands: \<open>KeyCombo\<close>, \<open>RegistryIds\<close>, \<open>CommandRegistry\<close>, \<open>DefaultBindings\<close>, \<open>Shortcuts\<close>, \<open>Dispatch\<close>,
    \<open>Keyboard\<close>, \<open>Toolbar\<close>, \<open>ToolbarFacts\<close>; \<open>Menus\<close>, \<open>MenuFacts\<close> for the menu bar (F/shell/MenuBar.tsx and
    F/shell/menus), its dropdowns (packages/ui/src/DropdownMenu.tsx) and the context menus
    (F/components/ContextMenu.tsx, ContextMenuOverlay.tsx and F/menus/context).
  \<^item> Terminals: \<open>Terminal\<close> (the store), \<open>Shell\<close> (what is typed into a shell), \<open>TerminalProvider\<close>,
    \<open>TerminalFlow\<close>.
  \<^item> Settings: \<open>StoredLists\<close>, \<open>StoredSettings\<close>, \<open>Preferences\<close>, \<open>PreferenceFacts\<close>.
  \<^item> Git: \<open>GitReview\<close>, \<open>GitReviewFacts\<close> for F/components/git/GitReviewTab.tsx.
  \<^item> Files: \<open>Editor\<close>, \<open>EditorFacts\<close> for the text editor; \<open>Viewer\<close>, \<open>ViewerFacts\<close> for the text and
    hexadecimal viewer and the preview panel. Servers: \<open>Connections\<close>, \<open>ConnectionsFacts\<close> for
    F/components/dialogs/ConnectServerDialog.tsx and F/hooks/useNetworkHandlers.ts.

  Conventions.

  \<^item> A string is a list of characters standing for code units below 256; further signs of the
    sources (arrows, the ellipsis) are written as the bytes of their UTF-8 encoding.
  \<^item> An uncaught exception, such as reading a property of a missing tab, is \<open>None\<close>; a rejected
    promise is \<open>Inl\<close>. Optional and nullable fields are options. Objects used as dictionaries are
    association lists in insertion order; keys inherited from the prototype are ignored.
  \<^item> A handler that calls the client is split at its awaits: either it returns the list of its
    effects (calls, dispatched actions, setters) and a further function continues with the answer,
    or the client is an argument from requests to answers. Components with several calls in
    flight keep them in a list, and an event delivers the answer of any of them.
  \<^item> React effects are run after a render when one of their dependencies has changed, the cleanup
    of the last run first. \<open>GitReview\<close> renders twice after each event, after which nothing changes. An
    event is rendered before the next one is delivered.
  \<^item> Numbers are \<open>nat\<close>, \<open>int\<close> or \<open>rat\<close>, whichever the values are; \<open>JsSort\<close> has the special values.
    Reading and printing of doubles, and the regular expressions of users, are arguments.
  \<^item> The JSON parser has fuel, twice the length of the text, which is enough for every text that
    is printed (\<open>json_text_read_back\<close>).

  What the lemmas show. Each slice of the panel store keeps the invariant \<open>state_ok\<close>; the locale
  \<open>reducer\<close>, interpreted on each slice, on the panel store, on the terminal store and on the job
  snapshots, carries it to all sequences of actions. The locale \<open>stored_list\<close>, interpreted on tags,
  hotlist entries and tab sessions, gives the round trip of a list through its text, and two
  refinements relate the stored texts to abstract relations and lists. The remaining lemmas of a
  theory lead to its properties. Where a component has calls in flight (navigation, git, columns,
  terminals, searches, editor, viewer, connections, watchers) its lemmas say what every event
  keeps between what is shown, what is tracked and what is in flight, and the property follows
  for every order of the events. The properties cover
  functional behaviour of listings, searches, columns and output
  under every interleaving, safety of operations, termination of the loops that search a free
  name or an ancestor, round trips of addresses, profiles and shell words, and the errors that the
  code makes, each as a theorem.

  What is assumed of the surroundings is written where it is used: a call of the git client is
  answered with what it asked for (\<open>GitReviewFacts\<close>), a range read delivers at least one byte before
  the end of the file and perhaps fewer than asked for (\<open>ViewerFacts\<close>), joining lines again changes
  nothing (\<open>EditorFacts\<close>), terminal actions name sessions of the store (\<open>TerminalFlow\<close>), and numbers
  are read as they are printed (\<open>ConnectionsFacts\<close>, \<open>PreferenceFacts\<close>).

  Bounds. A search buffers at most 500 early matches for a job, 128 panels' jobs are remembered,
  toasts show at most 3 or 4 at a time, a terminal without a view buffers at most 100 chunks; the
  numbers are those of the sources.

  Not modelled. Markup and styling of the React components; the Rust back end and the generated
  types the logic only passes on; speed and time-left figures and byte sizes, which are formatted
  doubles; the fixtures of the preview transport; the settings dialogs; PDF, image and media
  views and the commands of the text editing component, which are a library.
\<close>

end
